(* ===== verification/Gateway_Prelude.thy ===== *)
theory Gateway_Prelude
  imports Complex_Main "HOL-Library.Sublist" "HOL-Library.Signed_Division"
begin

text \<open>
  Shared vocabulary of the development: the Go types the gateway's components use (instants,
  durations, strings as byte lists), the decimal arithmetic of the monetary columns, and the
  model of a database call that may fail, together with the generic lemmas about them.

  Conventions.
  \<^item> An instant is the number of nanoseconds since Go's zero \<open>time.Time\<close>, so the zero value is
    \<open>0\<close>; a duration is a number of nanoseconds. \<open>time.Time.Sub\<close> saturates at the bounds of
    an \<open>int64\<close>, as in Go. Wall-clock reads are arguments of the definitions.
  \<^item> A Go \<open>string\<close> is a list of bytes (\<open>char list\<close>).
  \<^item> A pointer is an \<open>option\<close>; an error return is a value of a sum type.
  \<^item> Amounts of money are rationals: the decimal value that the driver sends for a \<open>float64\<close>.
    What a \<open>NUMERIC(p,s)\<close> column stores is that value rounded half away from zero.
\<close>

named_theorems go_defs \<open>definitions of the Go primitives\<close>
named_theorems db_simps \<open>how a database call acts on the world\<close>

section \<open>Instants and durations\<close>

type_synonym go_time = int
type_synonym duration = int

definition max_duration :: duration where
  "max_duration = 2 ^ 63 - 1"

definition min_duration :: duration where
  "min_duration = - (2 ^ 63)"

definition IsZero :: "go_time \<Rightarrow> bool" where
  [go_defs]: "IsZero t \<longleftrightarrow> t = 0"

definition Before :: "go_time \<Rightarrow> go_time \<Rightarrow> bool" where
  [go_defs]: "Before t u \<longleftrightarrow> t < u"

definition After :: "go_time \<Rightarrow> go_time \<Rightarrow> bool" where
  [go_defs]: "After t u \<longleftrightarrow> u < t"

definition time_Sub :: "go_time \<Rightarrow> go_time \<Rightarrow> duration" where
  "time_Sub t u = max min_duration (min max_duration (t - u))"

abbreviation (input) Microsecond :: duration where "Microsecond \<equiv> 1000"
abbreviation (input) Millisecond :: duration where "Millisecond \<equiv> 1000000"
abbreviation (input) Second :: duration where "Second \<equiv> 1000000000"
abbreviation (input) Minute :: duration where "Minute \<equiv> 60000000000"
abbreviation (input) Hour :: duration where "Hour \<equiv> 3600000000000"

text \<open>1970-01-01 as an instant, and an instant in the milliseconds of Unix time.\<close>

definition unix_epoch :: go_time where
  "unix_epoch = 62135596800 * Second"

definition UnixMilli :: "go_time \<Rightarrow> int" where
  "UnixMilli t = (t - unix_epoch) div Millisecond"

lemma time_Sub_in_range:
  assumes "min_duration \<le> t - u" and "t - u \<le> max_duration"
  shows "time_Sub t u = t - u"
  using assms by (simp add: time_Sub_def)

lemma time_Sub_bounds: "min_duration \<le> time_Sub t u \<and> time_Sub t u \<le> max_duration"
  by (simp add: time_Sub_def min_duration_def max_duration_def)

text \<open>Saturation never changes how a difference compares with a bound that fits in a duration.\<close>

lemma time_Sub_less_iff:
  assumes "min_duration < d" and "d \<le> max_duration"
  shows "time_Sub t u < d \<longleftrightarrow> t - u < d"
  using assms by (auto simp: time_Sub_def)

lemma time_Sub_le_iff:
  assumes "min_duration \<le> d" and "d < max_duration"
  shows "time_Sub t u \<le> d \<longleftrightarrow> t - u \<le> d"
  using assms by (auto simp: time_Sub_def)

lemma time_Sub_nonneg_iff: "0 \<le> time_Sub t u \<longleftrightarrow> u \<le> t"
  by (auto simp: time_Sub_def min_duration_def max_duration_def)

lemma time_Sub_pos_iff: "0 < time_Sub t u \<longleftrightarrow> u < t"
  by (auto simp: time_Sub_def min_duration_def max_duration_def)

text \<open>Go's integer division truncates towards zero; on non-negative operands it is \<open>div\<close>.\<close>

definition go_quot :: "int \<Rightarrow> int \<Rightarrow> int" where
  "go_quot a b = a sdiv b"

definition go_rem :: "int \<Rightarrow> int \<Rightarrow> int" where
  "go_rem a b = a smod b"

definition duration_Milliseconds :: "duration \<Rightarrow> int" where
  "duration_Milliseconds d = go_quot d Millisecond"

lemma go_quot_nonneg: "0 \<le> a \<Longrightarrow> 0 \<le> b \<Longrightarrow> go_quot a b = a div b"
  by (cases "b = 0") (auto simp: go_quot_def signed_divide_int_def sgn_if)

lemma go_rem_nonneg: "0 \<le> a \<Longrightarrow> 0 \<le> b \<Longrightarrow> go_rem a b = a mod b"
  by (cases "a = 0")
    (auto simp: go_rem_def signed_modulo_int_def signed_divide_int_def sgn_if minus_div_mult_eq_mod)

text \<open>The conversion \<open>int64(v)\<close> of a float truncates; out of range it is the least \<open>int64\<close>.\<close>

definition float_to_int64 :: "rat \<Rightarrow> int" where
  "float_to_int64 v =
     (let n = (if v < 0 then \<lceil>v\<rceil> else \<lfloor>v\<rfloor>)
      in if - (2 ^ 63) \<le> n \<and> n < 2 ^ 63 then n else - (2 ^ 63))"

section \<open>Strings\<close>

text \<open>
  \<open>strings.TrimSpace\<close> strips the runes for which \<open>unicode.IsSpace\<close> holds. Their UTF-8
  encodings are listed below; an encoding at the front (or back) of a byte string is decoded
  to exactly that rune, so trimming is stripping encodings until none matches.
\<close>

definition space_encodings :: "string list" where
  "space_encodings =
     map (\<lambda>b. [char_of (b :: nat)]) [9, 10, 11, 12, 13, 32]
     @ map (map (char_of :: nat \<Rightarrow> char))
       ([[194, 133], [194, 160], [225, 154, 128]]
        @ map (\<lambda>b. [226, 128, b]) ([128..<139] @ [168, 169, 175])
        @ [[226, 129, 159], [227, 128, 128]])"

function trim_with :: "string list \<Rightarrow> string \<Rightarrow> string" where
  "trim_with encs s =
     (case find (\<lambda>e. e \<noteq> [] \<and> prefix e s) encs of
        None \<Rightarrow> s
      | Some e \<Rightarrow> trim_with encs (drop (length e) s))"
  by pat_completeness auto
termination
proof (relation "measure (\<lambda>(encs, s). length s)", goal_cases)
  case 1
  show ?case by simp
next
  case (2 encs s e)
  then have "e \<noteq> [] \<and> prefix e s"
    by (auto simp: find_Some_iff)
  then have "0 < length e" and "length e \<le> length s"
    by (auto simp: prefix_def)
  then have "length (drop (length e) s) < length s"
    unfolding length_drop by arith
  then show ?case by simp
qed

declare trim_with.simps [simp del]

definition TrimSpace :: "string \<Rightarrow> string" where
  "TrimSpace s = rev (trim_with (map rev space_encodings) (rev (trim_with space_encodings s)))"

text \<open>\<open>HasPrefix\<close> is the library's prefix order.\<close>

definition HasPrefix :: "string \<Rightarrow> string \<Rightarrow> bool" where
  [go_defs]: "HasPrefix s p \<longleftrightarrow> prefix p s"

text \<open>A string is settled when no encoding matches at its front.\<close>

definition unmatched :: "string list \<Rightarrow> string \<Rightarrow> bool" where
  "unmatched encs s \<longleftrightarrow> (\<forall>e \<in> set encs. e = [] \<or> \<not> prefix e s)"

lemma find_None_unmatched:
  "find (\<lambda>e. e \<noteq> [] \<and> prefix e s) encs = None \<longleftrightarrow> unmatched encs s"
  by (auto simp: find_None_iff unmatched_def)

lemma trim_with_unmatched_id: "unmatched encs s \<Longrightarrow> trim_with encs s = s"
  by (subst trim_with.simps) (simp add: find_None_unmatched [symmetric])

lemma unmatched_trim_with: "unmatched encs (trim_with encs s)"
proof (induction encs s rule: trim_with.induct)
  case (1 encs s)
  show ?case
  proof (cases "find (\<lambda>e. e \<noteq> [] \<and> prefix e s) encs")
    case None
    then show ?thesis
      by (subst trim_with.simps) (simp add: find_None_unmatched [symmetric])
  next
    case (Some e)
    with 1 show ?thesis by (subst trim_with.simps) simp
  qed
qed

lemma suffix_trim_with: "suffix (trim_with encs s) s"
proof (induction encs s rule: trim_with.induct)
  case (1 encs s)
  show ?case
  proof (cases "find (\<lambda>e. e \<noteq> [] \<and> prefix e s) encs")
    case None
    then show ?thesis by (subst trim_with.simps) simp
  next
    case (Some e)
    with 1 have "suffix (trim_with encs (drop (length e) s)) (drop (length e) s)"
      by simp
    moreover have "suffix (drop (length e) s) s" by (rule suffix_drop)
    ultimately show ?thesis
      using Some by (subst trim_with.simps) (simp add: suffix_order.trans)
  qed
qed

lemma unmatched_prefix: "unmatched encs s \<Longrightarrow> prefix t s \<Longrightarrow> unmatched encs t"
  unfolding unmatched_def by (meson prefix_order.trans)

lemma TrimSpace_front: "unmatched space_encodings (TrimSpace s)"
proof -
  let ?l = "trim_with space_encodings s"
  have "suffix (trim_with (map rev space_encodings) (rev ?l)) (rev ?l)"
    by (rule suffix_trim_with)
  then have "prefix (TrimSpace s) ?l"
    by (simp add: TrimSpace_def suffix_to_prefix)
  with unmatched_trim_with show ?thesis by (rule unmatched_prefix)
qed

lemma TrimSpace_back: "unmatched (map rev space_encodings) (rev (TrimSpace s))"
  by (simp add: TrimSpace_def unmatched_trim_with)

lemma TrimSpace_idem [simp]: "TrimSpace (TrimSpace s) = TrimSpace s"
proof -
  have "TrimSpace (TrimSpace s) =
      rev (trim_with (map rev space_encodings) (rev (trim_with space_encodings (TrimSpace s))))"
    by (rule TrimSpace_def)
  also have "trim_with space_encodings (TrimSpace s) = TrimSpace s"
    by (rule trim_with_unmatched_id [OF TrimSpace_front])
  also have "trim_with (map rev space_encodings) (rev (TrimSpace s)) = rev (TrimSpace s)"
    by (rule trim_with_unmatched_id [OF TrimSpace_back])
  finally show ?thesis by simp
qed

lemma TrimSpace_Nil [simp]: "TrimSpace [] = []"
proof -
  have "suffix (trim_with encs []) []" for encs by (rule suffix_trim_with)
  then show ?thesis by (simp add: TrimSpace_def)
qed

text \<open>
  A string whose first and last bytes are visible ASCII characters is its own trimming: none of
  the encodings starts or ends with such a byte. Constant strings are evaluated this way.
\<close>

definition visible :: "char \<Rightarrow> bool" where
  "visible c \<longleftrightarrow> 33 \<le> (of_char c :: nat) \<and> (of_char c :: nat) < 127"

lemma space_encodings_invisible:
  "\<forall>e \<in> set space_encodings. e \<noteq> [] \<and> \<not> visible (hd e) \<and> \<not> visible (last e)"
  by (simp add: space_encodings_def visible_def upt_conv_Cons)

lemma prefix_hd: "prefix e s \<Longrightarrow> e \<noteq> [] \<Longrightarrow> hd e = hd s"
  by (auto simp: prefix_def)

lemma TrimSpace_visible:
  assumes "visible (hd s)" and "visible (last s)"
  shows "TrimSpace s = s"
proof (cases "s = []")
  case False
  have "unmatched space_encodings s"
    using space_encodings_invisible assms(1) prefix_hd unfolding unmatched_def by metis
  moreover have "unmatched (map rev space_encodings) (rev s)"
    unfolding unmatched_def
  proof
    fix e
    assume "e \<in> set (map rev space_encodings)"
    then obtain x where "e = rev x" and x: "x \<in> set space_encodings" by auto
    then have "hd e = last x" by (simp add: hd_rev)
    moreover have "hd (rev s) = last s" by (simp add: hd_rev)
    ultimately show "e = [] \<or> \<not> prefix e (rev s)"
      using space_encodings_invisible x assms(2) prefix_hd by metis
  qed
  ultimately show ?thesis by (simp add: TrimSpace_def trim_with_unmatched_id)
qed simp

text \<open>A visible literal in front of a trimmed string: the keys of the ledger and the queue.\<close>

lemma space_encodings_all_invisible: "\<forall>e \<in> set space_encodings. \<forall>c \<in> set e. \<not> visible c"
  by (simp add: space_encodings_def visible_def upt_conv_Cons)

lemma TrimSpace_append:
  assumes "p \<noteq> []" and "visible (hd p)" and "visible (last p)"
  shows "TrimSpace (p @ TrimSpace t) = p @ TrimSpace t"
proof -
  let ?t = "TrimSpace t" and ?s = "p @ TrimSpace t"
  have "unmatched space_encodings ?s"
    using space_encodings_invisible assms prefix_hd [of _ ?s] unfolding unmatched_def
    by (metis hd_append)
  moreover have "unmatched (map rev space_encodings) (rev ?s)"
    unfolding unmatched_def
  proof
    fix e
    assume "e \<in> set (map rev space_encodings)"
    then obtain x where x: "x \<in> set space_encodings" "e = rev x" by auto
    show "e = [] \<or> \<not> prefix e (rev ?s)"
    proof (rule ccontr)
      assume "\<not> (e = [] \<or> \<not> prefix e (rev ?s))"
      then have e: "e \<noteq> []" "prefix e (rev ?t @ rev p)" by simp_all
      have "\<not> prefix e (rev ?t)"
        using TrimSpace_back [of t] x e(1) by (auto simp: unmatched_def)
      with e(2) obtain us where us: "e = rev ?t @ us" "prefix us (rev p)"
        by (auto simp: prefix_append)
      then have "us \<noteq> []" using \<open>\<not> prefix e (rev ?t)\<close> by auto
      with us(2) have "hd us = last p" "hd us \<in> set us" by (auto simp: hd_rev dest: prefix_hd)
      then have "last p \<in> set x" using us(1) x(2) by (metis Un_iff set_append set_rev)
      with space_encodings_all_invisible x(1) assms(3) show False by blast
    qed
  qed
  ultimately show ?thesis by (simp add: TrimSpace_def trim_with_unmatched_id)
qed

lemma length_TrimSpace: "length (TrimSpace s) \<le> length s"
proof -
  have le: "length (trim_with encs t) \<le> length t" for encs t
    using suffix_trim_with [of encs t] by (rule suffix_length_le)
  have "length (TrimSpace s) \<le> length (trim_with space_encodings s)"
    using le [of "map rev space_encodings" "rev (trim_with space_encodings s)"]
    by (simp add: TrimSpace_def)
  also have "\<dots> \<le> length s" by (rule le)
  finally show ?thesis .
qed

text \<open>\<open>strings.ToUpper\<close> on a byte of an ASCII string.\<close>

definition upper_byte :: "char \<Rightarrow> char" where
  "upper_byte c = (let n = of_char c :: nat in if 97 \<le> n \<and> n \<le> 122 then char_of (n - 32) else c)"

text \<open>
  \<open>strings.ToUpper\<close>, exact up to letters that stay outside ASCII: the only ones outside of it with an
  ASCII capital are the dotless i and the long s. Where it is used, text outside ASCII is refused.
\<close>

fun ascii_ToUpper :: "string \<Rightarrow> string" where
  "ascii_ToUpper [] = []"
| "ascii_ToUpper [c] = [upper_byte c]"
| "ascii_ToUpper (a # b # cs) =
     (if a = char_of (196 :: nat) \<and> b = char_of (177 :: nat) then CHR ''I'' # ascii_ToUpper cs
      else if a = char_of (197 :: nat) \<and> b = char_of (191 :: nat) then CHR ''S'' # ascii_ToUpper cs
      else upper_byte a # ascii_ToUpper (b # cs))"

section \<open>Decimal columns\<close>

text \<open>
  PostgreSQL rounds a value stored in a \<open>NUMERIC(p,s)\<close> column half away from zero to \<open>s\<close>
  digits. Overflow of the column (a thousand billion at scale 8) is not modelled.
\<close>

type_synonym usd = rat

definition round_scale :: "nat \<Rightarrow> rat \<Rightarrow> rat" where
  "round_scale s x = sgn x * of_int \<lfloor>\<bar>x\<bar> * 10 ^ s + 1 / 2\<rfloor> / 10 ^ s"

definition on_scale :: "nat \<Rightarrow> rat \<Rightarrow> bool" where
  "on_scale s x \<longleftrightarrow> of_int \<lfloor>x * 10 ^ s\<rfloor> = x * 10 ^ s"

lemma on_scale_iff: "on_scale s x \<longleftrightarrow> (\<exists>k :: int. x = of_int k / 10 ^ s)"
  by (auto simp: on_scale_def field_simps)

lemma on_scale_0 [simp]: "on_scale s 0"
  by (simp add: on_scale_def)

lemma on_scale_round: "on_scale s (round_scale s x)"
proof -
  let ?m = "\<lfloor>\<bar>x\<bar> * 10 ^ s + 1 / 2\<rfloor>"
  have "round_scale s x = of_int (if 0 < x then ?m else if x = 0 then 0 else - ?m) / 10 ^ s"
    by (simp add: round_scale_def sgn_if)
  then show ?thesis unfolding on_scale_iff by (rule exI)
qed

lemma on_scale_minus: "on_scale s x \<Longrightarrow> on_scale s y \<Longrightarrow> on_scale s (x - y)"
  by (auto simp: on_scale_iff) (metis diff_divide_distrib of_int_diff)

lemma on_scale_plus: "on_scale s x \<Longrightarrow> on_scale s y \<Longrightarrow> on_scale s (x + y)"
  by (auto simp: on_scale_iff) (metis add_divide_distrib of_int_add)

lemma round_on_scale:
  assumes "on_scale s x"
  shows "round_scale s x = x"
proof -
  from assms obtain k :: int where k: "x = of_int k / 10 ^ s"
    by (auto simp: on_scale_iff)
  have "\<bar>x\<bar> * 10 ^ s = of_int \<bar>k\<bar>" by (simp add: k)
  then have "\<lfloor>\<bar>x\<bar> * 10 ^ s + 1 / 2\<rfloor> = \<bar>k\<bar>"
    by (intro floor_unique) (simp_all del: of_int_abs)
  then have "round_scale s x = sgn x * of_int \<bar>k\<bar> / 10 ^ s"
    by (simp add: round_scale_def)
  also have "\<dots> = x" by (simp add: k sgn_if zero_less_divide_iff)
  finally show ?thesis .
qed

lemma round_scale_0 [simp]: "round_scale s 0 = 0"
  by (simp add: round_on_scale)

text \<open>Adding to a stored amount rounds only what is added.\<close>

lemma round_scale_add:
  assumes "on_scale s q" and "0 \<le> q" and "0 \<le> x"
  shows "round_scale s (q + x) = q + round_scale s x"
proof (cases "q + x = 0")
  case False
  have half: "\<lfloor>1 / 2 :: rat\<rfloor> = 0" by (rule floor_unique) simp_all
  obtain k :: int where k: "q = of_int k / 10 ^ s" using assms(1) by (auto simp: on_scale_iff)
  have "(q + x) * 10 ^ s + 1 / 2 = of_int k + (x * 10 ^ s + 1 / 2)" by (simp add: k field_simps)
  then have "\<lfloor>(q + x) * 10 ^ s + 1 / 2\<rfloor> = k + \<lfloor>x * 10 ^ s + 1 / 2\<rfloor>" by (simp only: int_add_floor)
  then have "round_scale s (q + x) = (of_int k + of_int \<lfloor>x * 10 ^ s + 1 / 2\<rfloor>) / 10 ^ s"
    using assms False by (simp add: round_scale_def sgn_if)
  also have "\<dots> = q + round_scale s x"
    using assms(3) half by (cases "x = 0") (simp_all add: k round_scale_def sgn_if add_divide_distrib)
  finally show ?thesis .
next
  case True
  then have "q = 0" "x = 0" using assms by simp_all
  then show ?thesis by simp
qed

lemma round_scale_nonneg: "0 \<le> x \<Longrightarrow> 0 \<le> round_scale s x"
  by (simp add: round_scale_def sgn_if)

text \<open>Rounding moves a value by at most half a unit of the last stored digit.\<close>

lemma round_scale_error: "\<bar>round_scale s x - x\<bar> \<le> 1 / (2 * 10 ^ s)"
proof -
  let ?p = "10 ^ s :: rat"
  let ?m = "\<lfloor>\<bar>x\<bar> * ?p + 1 / 2\<rfloor>"
  have p: "0 < ?p" by simp
  have "of_int ?m \<le> \<bar>x\<bar> * ?p + 1 / 2" and "\<bar>x\<bar> * ?p + 1 / 2 < of_int ?m + 1"
    by linarith+
  then have "\<bar>of_int ?m - \<bar>x\<bar> * ?p\<bar> \<le> 1 / 2" by linarith
  moreover have "\<bar>of_int ?m / ?p - \<bar>x\<bar>\<bar> * ?p = \<bar>(of_int ?m / ?p - \<bar>x\<bar>) * ?p\<bar>"
    using p by (simp add: abs_mult)
  moreover have "(of_int ?m / ?p - \<bar>x\<bar>) * ?p = of_int ?m - \<bar>x\<bar> * ?p"
    using p by (simp add: field_simps)
  ultimately have "\<bar>of_int ?m / ?p - \<bar>x\<bar>\<bar> * ?p \<le> 1 / 2" by simp
  then have d: "\<bar>of_int ?m / ?p - \<bar>x\<bar>\<bar> \<le> 1 / (2 * ?p)"
    using p by (simp add: field_simps)
  have "\<bar>round_scale s x - x\<bar> = \<bar>sgn x * (of_int ?m / ?p - \<bar>x\<bar>)\<bar>"
    by (simp add: round_scale_def algebra_simps sgn_if)
  also have "\<dots> \<le> \<bar>of_int ?m / ?p - \<bar>x\<bar>\<bar>"
    by (simp add: abs_mult sgn_if)
  finally show ?thesis using d by linarith
qed

section \<open>Database calls that may fail\<close>

text \<open>
  A statement or a transaction either runs (\<open>Fine\<close>), is lost before it takes effect
  (\<open>LostBefore\<close>), or takes effect while its caller only sees an error, because the
  connection broke after the commit (\<open>LostAfter\<close>). The world carries the database and the
  fate of the calls to come; when the list is used up the remaining calls are fine.
\<close>

datatype fault = Fine | LostBefore | LostAfter

record 'd world =
  db :: 'd
  faults :: "fault list"

text \<open>A statement reads the database and yields a result and the database after it.\<close>

type_synonym ('d, 'a) statement = "'d \<Rightarrow> 'a \<times> 'd"

definition db_call :: "('d, 'a) statement \<Rightarrow> 'd world \<Rightarrow> 'a option \<times> 'd world" where
  "db_call st w =
     (let (r, d') = st (db w); fs = tl (faults w) in
      case faults w of
        [] \<Rightarrow> (Some r, w\<lparr>db := d'\<rparr>)
      | Fine # _ \<Rightarrow> (Some r, w\<lparr>db := d', faults := fs\<rparr>)
      | LostBefore # _ \<Rightarrow> (None, w\<lparr>faults := fs\<rparr>)
      | LostAfter # _ \<Rightarrow> (None, w\<lparr>db := d', faults := fs\<rparr>))"

text \<open>After a call the database is the old one or the one after the statement.\<close>

lemma db_call_db:
  "db (snd (db_call st w)) = db w \<or> db (snd (db_call st w)) = snd (st (db w))"
  by (auto simp: db_call_def Let_def split: prod.splits list.splits fault.splits)

lemma db_call_Some:
  assumes "db_call st w = (Some r, w')"
  shows "st (db w) = (r, db w')"
  using assms by (auto simp: db_call_def Let_def split: prod.splits list.splits fault.splits)

lemma db_call_reliable [db_simps]:
  "faults w = [] \<Longrightarrow> db_call st w = (Some (fst (st (db w))), w\<lparr>db := snd (st (db w))\<rparr>)"
  by (simp add: db_call_def Let_def split: prod.splits)

text \<open>
  An invariant of the database that the statement keeps is kept by the call, whatever its fate.
\<close>

lemma db_call_invariant:
  assumes "P (db w)" and "\<And>d. P d \<Longrightarrow> P (snd (st d))"
  shows "P (db (snd (db_call st w)))"
  using db_call_db [of st w] assms by auto

text \<open>The statement a transaction amounts to: its effect is kept only when it succeeds.\<close>

definition atomically :: "('d, 'e + 'a) statement \<Rightarrow> ('d, 'e + 'a) statement" where
  "atomically st d = (case st d of (Inl e, _) \<Rightarrow> (Inl e, d) | (Inr a, d') \<Rightarrow> (Inr a, d'))"

lemma atomically_Inl: "fst (atomically st d) = Inl e \<Longrightarrow> snd (atomically st d) = d"
  by (auto simp: atomically_def split: prod.splits sum.splits)

lemma atomically_Inr:
  "atomically st d = (Inr a, d') \<longleftrightarrow> st d = (Inr a, d')"
  by (auto simp: atomically_def split: prod.splits sum.splits)

lemma atomically_invariant:
  assumes "P d" and "\<And>d. P d \<Longrightarrow> P (snd (st d))"
  shows "P (snd (atomically st d))"
  using assms(2) [OF assms(1)] assms(1) by (auto simp: atomically_def split: prod.splits sum.splits)

text \<open>Finding a row by its key.\<close>

lemma find_distinct: "distinct (map k xs) \<Longrightarrow> x \<in> set xs \<Longrightarrow> find (\<lambda>y. k y = k x) xs = Some x"
  by (induction xs) (auto simp: rev_image_eqI)

lemma find_map_same: "(\<And>x. P (g x) = P x) \<Longrightarrow> find P (map g xs) = map_option g (find P xs)"
  by (induction xs) auto

lemma find_snoc: "find P (xs @ [x]) = (case find P xs of None \<Rightarrow> if P x then Some x else None | Some y \<Rightarrow> Some y)"
  by (induction xs) auto

end
