(* ===== verification/App_Errors.thy ===== *)
theory App_Errors
  imports Gateway_Prelude
begin

text \<open>
  The application errors of \<open>internal/pkg/errors\<close>: an HTTP code, a machine-readable reason, a
  message, optional metadata and an optional cause, plus the two kinds of foreign errors the
  modelled code sees: errors made with \<open>errors.New\<close> (identified by their text) and failures of
  the database driver. \<open>errors.Is\<close> and \<open>errors.As\<close> walk the chain of causes.

  A metadata map is an association list whose keys are distinct; every map the code builds has
  one entry.
\<close>

section \<open>Data\<close>

datatype go_error =
    ApplicationError (Code: int) (Reason: string) (Message: string)
      (Metadata: "(string \<times> string) list option") (cause: "go_error option")
  | PlainError string
  | DriverError

text \<open>The chain an error unwraps to; only application errors have a cause.\<close>

fun error_chain :: "go_error \<Rightarrow> go_error list" where
  "error_chain (ApplicationError c r m md (Some e)) =
     ApplicationError c r m md (Some e) # error_chain e"
| "error_chain e = [e]"

fun is_application_error :: "go_error \<Rightarrow> bool" where
  "is_application_error (ApplicationError _ _ _ _ _) = True"
| "is_application_error _ = False"

text \<open>\<open>errors.As\<close> with an application-error target: the first one in the chain.\<close>

definition errors_As :: "go_error \<Rightarrow> go_error option" where
  "errors_As e = find is_application_error (error_chain e)"

section \<open>Operations\<close>

definition ApplicationError_Is :: "go_error \<Rightarrow> go_error \<Rightarrow> bool" where
  "ApplicationError_Is e target =
     (case errors_As target of
        Some se \<Rightarrow> Code se = Code e \<and> Reason se = Reason e
      | None \<Rightarrow> False)"

text \<open>
  \<open>errors.Is\<close>: some error of the chain is the target or says so through its \<open>Is\<close> method.
  Two application errors that are the same pointer also agree on code and reason.
\<close>

definition errors_Is :: "go_error \<Rightarrow> go_error \<Rightarrow> bool" where
  "errors_Is e target \<longleftrightarrow>
     (\<exists>x \<in> set (error_chain e).
        if is_application_error x then ApplicationError_Is x target else x = target)"

definition New :: "int \<Rightarrow> string \<Rightarrow> string \<Rightarrow> go_error" where
  "New code reason message = ApplicationError code reason message None None"

definition WithCause :: "go_error \<Rightarrow> go_error \<Rightarrow> go_error" where
  "WithCause e c = ApplicationError (Code e) (Reason e) (Message e) (Metadata e) (Some c)"

definition WithMetadata :: "go_error \<Rightarrow> (string \<times> string) list option \<Rightarrow> go_error" where
  "WithMetadata e md = ApplicationError (Code e) (Reason e) (Message e) md (cause e)"

definition UnknownCode :: int where "UnknownCode = 500"
definition UnknownReason :: string where "UnknownReason = ''''"
definition UnknownMessage :: string where "UnknownMessage = ''internal error''"

definition FromError :: "go_error \<Rightarrow> go_error" where
  "FromError e =
     (case errors_As e of
        Some se \<Rightarrow> se
      | None \<Rightarrow> WithCause (New UnknownCode UnknownReason UnknownMessage) e)"

text \<open>The accessors take Go's nil error as \<open>None\<close>.\<close>

definition error_Code :: "go_error option \<Rightarrow> int" where
  "error_Code e = (case e of None \<Rightarrow> 200 | Some e \<Rightarrow> Code (FromError e))"

definition error_Reason :: "go_error option \<Rightarrow> string" where
  "error_Reason e = (case e of None \<Rightarrow> UnknownReason | Some e \<Rightarrow> Reason (FromError e))"

definition error_Message :: "go_error option \<Rightarrow> string" where
  "error_Message e = (case e of None \<Rightarrow> '''' | Some e \<Rightarrow> Message (FromError e))"

record http_status =
  st_code :: int
  st_reason :: string
  st_message :: string
  st_metadata :: "(string \<times> string) list option"

definition ToHTTP :: "go_error option \<Rightarrow> int \<times> http_status" where
  "ToHTTP e =
     (case e of
        None \<Rightarrow> (200, \<lparr>st_code = 200, st_reason = '''', st_message = '''', st_metadata = None\<rparr>)
      | Some e \<Rightarrow>
          (let a = FromError e in
           (Code a, \<lparr>st_code = Code a, st_reason = Reason a, st_message = Message a,
                     st_metadata = Metadata a\<rparr>)))"

definition BadRequest :: "string \<Rightarrow> string \<Rightarrow> go_error" where
  "BadRequest reason message = New 400 reason message"

definition Conflict :: "string \<Rightarrow> string \<Rightarrow> go_error" where
  "Conflict reason message = New 409 reason message"

definition InternalServer :: "string \<Rightarrow> string \<Rightarrow> go_error" where
  "InternalServer reason message = New 500 reason message"

definition ServiceUnavailable :: "string \<Rightarrow> string \<Rightarrow> go_error" where
  "ServiceUnavailable reason message = New 503 reason message"

definition NotFound :: "string \<Rightarrow> string \<Rightarrow> go_error" where
  "NotFound reason message = New 404 reason message"

definition Forbidden :: "string \<Rightarrow> string \<Rightarrow> go_error" where
  "Forbidden reason message = New 403 reason message"

definition TooManyRequests :: "string \<Rightarrow> string \<Rightarrow> go_error" where
  "TooManyRequests reason message = New 429 reason message"

text \<open>Errors of the driver that \<open>translatePersistenceError\<close> recognises.\<close>

definition ErrNoRows :: go_error where
  "ErrNoRows = PlainError ''sql: no rows in result set''"

definition ErrUniqueViolation :: go_error where
  "ErrUniqueViolation = PlainError ''pq: duplicate key value violates unique constraint''"

definition translatePersistenceError ::
    "go_error \<Rightarrow> go_error option \<Rightarrow> go_error option \<Rightarrow> go_error" where
  "translatePersistenceError err notFound conflict =
     (case notFound of
        Some nf \<Rightarrow> if errors_Is err ErrNoRows then WithCause nf err
                   else (case conflict of
                           Some c \<Rightarrow> if errors_Is err ErrUniqueViolation then WithCause c err else err
                         | None \<Rightarrow> err)
      | None \<Rightarrow> (case conflict of
                   Some c \<Rightarrow> if errors_Is err ErrUniqueViolation then WithCause c err else err
                 | None \<Rightarrow> err))"

section \<open>Lemmas\<close>

lemmas app_error_defs =
  New_def WithCause_def WithMetadata_def BadRequest_def Conflict_def InternalServer_def
  ServiceUnavailable_def NotFound_def Forbidden_def TooManyRequests_def

lemma New_sels [simp]:
  "Code (New c r m) = c" "Reason (New c r m) = r" "Message (New c r m) = m"
  "Metadata (New c r m) = None" "cause (New c r m) = None" "is_application_error (New c r m)"
  by (simp_all add: New_def)

lemma WithCause_sels [simp]:
  "Code (WithCause e x) = Code e" "Reason (WithCause e x) = Reason e"
  "Message (WithCause e x) = Message e" "Metadata (WithCause e x) = Metadata e"
  "is_application_error (WithCause e x)"
  by (simp_all add: WithCause_def)

lemma WithMetadata_sels [simp]:
  "Code (WithMetadata e md) = Code e" "Reason (WithMetadata e md) = Reason e"
  "Message (WithMetadata e md) = Message e" "Metadata (WithMetadata e md) = md"
  "is_application_error (WithMetadata e md)"
  by (simp_all add: WithMetadata_def)

lemma error_chain_Cons: "\<exists>es. error_chain e = e # es"
  by (cases e rule: error_chain.cases) auto

lemma errors_As_application [simp]: "is_application_error e \<Longrightarrow> errors_As e = Some e"
  using error_chain_Cons [of e] by (auto simp: errors_As_def)

lemma errors_Is_refl_application:
  assumes "is_application_error e"
    and "is_application_error t" and "Code e = Code t" and "Reason e = Reason t"
  shows "errors_Is e t"
proof -
  obtain es where "error_chain e = e # es" using error_chain_Cons by blast
  with assms show ?thesis
    by (simp add: errors_Is_def ApplicationError_Is_def)
qed

lemma errors_Is_WithCause [simp]: "is_application_error t \<Longrightarrow> errors_Is (WithCause t x) t"
  by (rule errors_Is_refl_application) simp_all

lemma errors_Is_WithMetadata [simp]: "is_application_error t \<Longrightarrow> errors_Is (WithMetadata t md) t"
  by (rule errors_Is_refl_application) simp_all

lemma errors_Is_New:
  "errors_Is (New c r m) t \<longleftrightarrow>
     (case errors_As t of Some se \<Rightarrow> Code se = c \<and> Reason se = r | None \<Rightarrow> False)"
  by (auto simp: errors_Is_def ApplicationError_Is_def New_def split: option.splits)

text \<open>Wrapping keeps a match: what an error is, the error with a cause on top is too.\<close>

lemma errors_Is_through_cause: "errors_Is c t \<Longrightarrow> errors_Is (WithCause e c) t"
  by (auto simp: errors_Is_def WithCause_def)

section \<open>Database calls\<close>

text \<open>
  A statement with its own errors, run as a call: the caller sees the statement's result, or an
  error of the driver when the call or its answer was lost.
\<close>

definition db_exec ::
    "('d, go_error + 'a) statement \<Rightarrow> 'd world \<Rightarrow> (go_error + 'a) \<times> 'd world" where
  "db_exec st w =
     (case db_call st w of (None, w') \<Rightarrow> (Inl DriverError, w') | (Some r, w') \<Rightarrow> (r, w'))"

lemma db_exec_reliable [db_simps]:
  "faults w = [] \<Longrightarrow> db_exec st w = (fst (st (db w)), w\<lparr>db := snd (st (db w))\<rparr>)"
  by (simp add: db_exec_def db_call_reliable)

lemma db_exec_db:
  "db (snd (db_exec st w)) = db w \<or> db (snd (db_exec st w)) = snd (st (db w))"
  using db_call_db [of st w] by (auto simp: db_exec_def split: prod.splits option.splits)

lemma db_exec_Inr:
  assumes "db_exec st w = (Inr r, w')"
  shows "st (db w) = (Inr r, db w')"
  using assms db_call_Some by (fastforce simp: db_exec_def split: prod.splits option.splits)

lemma db_exec_invariant:
  assumes "P (db w)" and "\<And>d. P d \<Longrightarrow> P (snd (st d))"
  shows "P (db (snd (db_exec st w)))"
  using db_exec_db [of st w] assms by auto

lemma db_exec_keeps:
  assumes "db_exec st w = (r, w')" and "\<And>d. f (snd (st d)) = f d"
  shows "f (db w') = f (db w)"
  using db_exec_db [of st w] assms by auto

lemma db_exec_keeps_snd:
  "(\<And>d. f (snd (st d)) = f d) \<Longrightarrow> f (db (snd (db_exec st w))) = f (db w)"
  by (rule db_exec_keeps [OF prod.collapse [symmetric]])

lemma db_exec_outcomes:
  assumes "db_exec st w = (x, w')"
  shows "(\<exists>e. x = Inl e \<and> (db w' = db w \<or> db w' = snd (st (db w)))) \<or> (x = fst (st (db w)) \<and> db w' = snd (st (db w)))"
proof (cases x)
  case (Inl e)
  then show ?thesis using assms db_exec_db [of st w] by auto
next
  case (Inr y)
  with db_exec_Inr assms show ?thesis by fastforce
qed

text \<open>
  Sequencing that stops at the first error: for statements within a transaction, whose state is
  the database, and for calls one after the other, whose state is the world.
\<close>

definition and_then ::
    "('d, go_error + 'a) statement \<Rightarrow> ('a \<Rightarrow> ('d, go_error + 'b) statement) \<Rightarrow> ('d, go_error + 'b) statement" where
  "and_then s f d = (case s d of (Inl e, d') \<Rightarrow> (Inl e, d') | (Inr a, d') \<Rightarrow> f a d')"

definition give :: "'a \<Rightarrow> ('d, go_error + 'a) statement" where
  "give a d = (Inr a, d)"

definition refuse :: "go_error \<Rightarrow> ('d, go_error + 'a) statement" where
  "refuse e d = (Inl e, d)"

text \<open>A statement on a part of the database.\<close>

definition on_part :: "('d \<Rightarrow> 'p) \<Rightarrow> ('p \<Rightarrow> 'd \<Rightarrow> 'd) \<Rightarrow> ('p, 'a) statement \<Rightarrow> ('d, 'a) statement" where
  "on_part get put st d = (case st (get d) of (r, p) \<Rightarrow> (r, put p d))"

lemma give_simp [simp]: "give a d = (Inr a, d)"
  by (simp add: give_def)

lemma refuse_simp [simp]: "refuse e d = (Inl e, d)"
  by (simp add: refuse_def)

lemma and_then_Inr:
  "and_then s f d = (Inr b, d'') \<longleftrightarrow> (\<exists>a d'. s d = (Inr a, d') \<and> f a d' = (Inr b, d''))"
  by (auto simp: and_then_def split: prod.split sum.split)

lemma and_then_invariant:
  assumes "P d" and "\<And>d. P d \<Longrightarrow> P (snd (s d))" and "\<And>a d. P d \<Longrightarrow> P (snd (f a d))"
  shows "P (snd (and_then s f d))"
  using assms(2) [OF assms(1)] assms(3) by (auto simp: and_then_def split: prod.split sum.split)

end
