(* ===== verification/Sha256.thy ===== *)
theory Sha256
  imports Gateway_Prelude "HOL-Library.Word"
begin

text \<open>
  The parts of Go's standard library that the fingerprints of the gateway are built with:
  SHA-256 with its hexadecimal rendering (\<open>crypto/sha256\<close>, \<open>encoding/hex\<close>), decimal
  rendering and reading of integers (\<open>%d\<close>, \<open>strconv\<close>) and of amounts with ten digits after the point
  (\<open>%0.10f\<close>), and case folding against a lower-case ASCII literal
  (\<open>strings.EqualFold\<close>). The hash is defined over 32-bit words and executable; no theorem of
  the development rests on collision resistance.
\<close>

unbundle bit_operations_syntax

section \<open>SHA-256\<close>

type_synonym w32 = "32 word"

definition sha_K :: "w32 list" where
  "sha_K =
    [1116352408, 1899447441, 3049323471, 3921009573, 961987163, 1508970993, 2453635748, 2870763221,
     3624381080, 310598401, 607225278, 1426881987, 1925078388, 2162078206, 2614888103, 3248222580,
     3835390401, 4022224774, 264347078, 604807628, 770255983, 1249150122, 1555081692, 1996064986,
     2554220882, 2821834349, 2952996808, 3210313671, 3336571891, 3584528711, 113926993, 338241895,
     666307205, 773529912, 1294757372, 1396182291, 1695183700, 1986661051, 2177026350, 2456956037,
     2730485921, 2820302411, 3259730800, 3345764771, 3516065817, 3600352804, 4094571909, 275423344,
     430227734, 506948616, 659060556, 883997877, 958139571, 1322822218, 1537002063, 1747873779,
     1955562222, 2024104815, 2227730452, 2361852424, 2428436474, 2756734187, 3204031479, 3329325298]"

definition sha_H0 :: "w32 list" where
  "sha_H0 =
    [1779033703, 3144134277, 1013904242, 2773480762, 1359893119, 2600822924, 528734635, 1541459225]"

definition rotr32 :: "nat \<Rightarrow> w32 \<Rightarrow> w32" where
  "rotr32 n x = drop_bit n x OR push_bit (32 - n) x"

definition big_endian :: "nat \<Rightarrow> int \<Rightarrow> int list" where
  "big_endian n x = map (\<lambda>i. x div 256 ^ (n - 1 - i) mod 256) [0..<n]"

definition sha_pad :: "int list \<Rightarrow> int list" where
  "sha_pad bs =
     (let n = length bs in
      bs @ [128] @ replicate ((119 - n mod 64) mod 64) 0 @ big_endian 8 (8 * int n))"

fun sha_words :: "int list \<Rightarrow> w32 list" where
  "sha_words (a # b # c # d # bs) =
     of_int (((a * 256 + b) * 256 + c) * 256 + d) # sha_words bs"
| "sha_words _ = []"

text \<open>The message schedule, newest word first.\<close>

primrec sha_extend :: "nat \<Rightarrow> w32 list \<Rightarrow> w32 list" where
  "sha_extend 0 ws = ws"
| "sha_extend (Suc k) ws =
     (let x = ws ! 14; y = ws ! 1;
          s0 = rotr32 7 x XOR rotr32 18 x XOR drop_bit 3 x;
          s1 = rotr32 17 y XOR rotr32 19 y XOR drop_bit 10 y
      in sha_extend k ((s1 + ws ! 6 + s0 + ws ! 15) # ws))"

fun sha_round :: "w32 \<times> w32 \<Rightarrow> w32 list \<Rightarrow> w32 list" where
  "sha_round (k, w) [a, b, c, d, e, f, g, h] =
     (let S1 = rotr32 6 e XOR rotr32 11 e XOR rotr32 25 e;
          ch = (e AND f) XOR (NOT e AND g);
          t1 = h + S1 + ch + k + w;
          S0 = rotr32 2 a XOR rotr32 13 a XOR rotr32 22 a;
          maj = (a AND b) XOR (a AND c) XOR (b AND c)
      in [t1 + (S0 + maj), a, b, c, d + t1, e, f, g])"
| "sha_round _ hs = hs"

definition sha_block :: "w32 list \<Rightarrow> w32 list \<Rightarrow> w32 list" where
  "sha_block hs ws =
     map2 (+) hs (fold sha_round (zip sha_K (rev (sha_extend 48 (rev ws)))) hs)"

fun sha_blocks :: "w32 list \<Rightarrow> w32 list \<Rightarrow> w32 list" where
  "sha_blocks hs [] = hs"
| "sha_blocks hs (w # ws) = sha_blocks (sha_block hs (take 16 (w # ws))) (drop 15 ws)"

definition sha256_sum :: "string \<Rightarrow> int list" where
  "sha256_sum s =
     concat (map (big_endian 4 \<circ> uint)
       (sha_blocks sha_H0 (sha_words (sha_pad (map of_char s)))))"

definition hex_digit :: "int \<Rightarrow> char" where
  "hex_digit n = ''0123456789abcdef'' ! nat n"

definition hex_EncodeToString :: "int list \<Rightarrow> string" where
  "hex_EncodeToString bs = concat (map (\<lambda>b. [hex_digit (b div 16), hex_digit (b mod 16)]) bs)"

definition sha256_hex :: "string \<Rightarrow> string" where
  "sha256_hex s = hex_EncodeToString (sha256_sum s)"

lemma length_hex: "length (hex_EncodeToString bs) = 2 * length bs"
  by (induction bs) (simp_all add: hex_EncodeToString_def)

lemma hex_not_Nil: "bs \<noteq> [] \<Longrightarrow> hex_EncodeToString bs \<noteq> []"
  using length_hex [of bs] by (metis length_0_conv mult_is_0 zero_neq_numeral)

lemma length_sha_round: "length hs = 8 \<Longrightarrow> length (sha_round kw hs) = 8"
  by (cases "(kw, hs)" rule: sha_round.cases) (simp_all add: Let_def)

lemma length_fold_sha_round: "length hs = 8 \<Longrightarrow> length (fold sha_round kws hs) = 8"
  by (induction kws arbitrary: hs) (simp_all add: length_sha_round)

lemma length_sha_blocks: "length hs = 8 \<Longrightarrow> length (sha_blocks hs ws) = 8"
  by (induction hs ws rule: sha_blocks.induct)
    (simp_all add: sha_block_def length_fold_sha_round)

lemma length_concat_big_endian: "length (concat (map (big_endian n \<circ> f) xs)) = n * length xs"
  by (induction xs) (simp_all add: big_endian_def)

text \<open>A digest renders as 64 hexadecimal digits.\<close>

lemma length_sha256_hex: "length (sha256_hex s) = 64"
proof -
  have "length (sha_blocks sha_H0 ws) = 8" for ws
    by (rule length_sha_blocks) (simp add: sha_H0_def)
  then show ?thesis
    by (simp add: sha256_hex_def sha256_sum_def length_hex length_concat_big_endian)
qed

section \<open>Rendering numbers\<close>

function digits10 :: "int \<Rightarrow> string" where
  "digits10 n =
     (if n < 10 then [char_of (48 + n)] else digits10 (n div 10) @ [char_of (48 + n mod 10)])"
  by pat_completeness auto
termination
  by (relation "measure nat") auto

declare digits10.simps [simp del]

definition itoa :: "int \<Rightarrow> string" where
  "itoa i = (if i < 0 then ''-'' @ digits10 (- i) else digits10 i)"

text \<open>\<open>%0.10f\<close>: sign, integer part, point, ten digits.\<close>

definition fmt_10f :: "usd \<Rightarrow> string" where
  "fmt_10f x =
     (let n = \<lfloor>\<bar>round_scale 10 x\<bar> * 10 ^ 10\<rfloor>; f = digits10 (n mod 10 ^ 10) in
      (if x < 0 then ''-'' else '''') @ digits10 (n div 10 ^ 10) @ ''.''
        @ replicate (10 - length f) (CHR ''0'') @ f)"

definition digit_value :: "char \<Rightarrow> int option" where
  "digit_value c = (let n = of_char c :: int in if 48 \<le> n \<and> n \<le> 57 then Some (n - 48) else None)"

fun digits_value :: "string \<Rightarrow> int \<Rightarrow> int option" where
  "digits_value [] acc = Some acc"
| "digits_value (c # s) acc =
     (case digit_value c of None \<Rightarrow> None | Some d \<Rightarrow> digits_value s (10 * acc + d))"

text \<open>\<open>strconv.ParseInt s 10 64\<close> and \<open>strconv.Atoi\<close>: a sign, digits, the range of \<open>int64\<close>.\<close>

definition ParseInt :: "string \<Rightarrow> int option" where
  "ParseInt s =
     (let (neg, ds) = (case s of
            c # r \<Rightarrow> if c = CHR ''-'' then (True, r) else if c = CHR ''+'' then (False, r) else (False, s)
          | [] \<Rightarrow> (False, []))
      in if ds = [] then None
         else case digits_value ds 0 of
                None \<Rightarrow> None
              | Some v \<Rightarrow>
                  (let i = (if neg then - v else v)
                   in if - (2 ^ 63) \<le> i \<and> i < 2 ^ 63 then Some i else None))"

lemma digits_value_append:
  "digits_value (s @ t) a = (case digits_value s a of None \<Rightarrow> None | Some b \<Rightarrow> digits_value t b)"
  by (induction s arbitrary: a) (auto split: option.split)

lemma digit_char:
  assumes "0 \<le> n" and "n < 10"
  shows "digit_value (char_of (48 + n)) = Some n" and "visible (char_of (48 + n))"
    and "char_of (48 + n) \<noteq> CHR ''-''" and "char_of (48 + n) \<noteq> CHR ''+''"
proof -
  have i: "(of_char (char_of (48 + n)) :: int) = 48 + n" using assms by simp
  then show d: "digit_value (char_of (48 + n)) = Some n" using assms by (simp add: digit_value_def Let_def)
  have "char_of (48 + n) = char_of (48 + nat n)" using char_of_nat [where 'a = int, of "48 + nat n"] assms(1) by simp
  then show "visible (char_of (48 + n))" using assms by (simp add: visible_def)
  show "char_of (48 + n) \<noteq> CHR ''-''" "char_of (48 + n) \<noteq> CHR ''+''"
    using i assms(1) by - (rule notI, simp)+
qed

lemma digits_read_back:
  assumes "0 \<le> n"
  shows "digits_value (digits10 n) a = Some (a * 10 ^ length (digits10 n) + n)"
    and "\<forall>c \<in> set (digits10 n). visible c \<and> c \<noteq> CHR ''-'' \<and> c \<noteq> CHR ''+''" and "digits10 n \<noteq> []"
  using assms
proof (induction n arbitrary: a rule: digits10.induct)
  case (1 n)
  { case 1
    with "1.IH"(1) [of a] digit_char [of n] digit_char [of "n mod 10"] show ?case
      by (cases "n < 10") (simp_all add: digits10.simps [of n] digits_value_append algebra_simps)
  next
    case 2
    with "1.IH"(2) digit_char [of n] digit_char [of "n mod 10"] show ?case
      by (cases "n < 10") (auto simp: digits10.simps [of n])
  next
    case 3
    show ?case by (simp add: digits10.simps [of n])
  }
qed

text \<open>A number printed in decimal is read back, and what is read fits 64 bits.\<close>

lemma ParseInt_itoa:
  assumes "0 \<le> n" and "n < 2 ^ 63"
  shows "ParseInt (itoa n) = Some n"
proof -
  note d = digits_read_back [OF assms(1)]
  obtain c r where ds: "digits10 n = c # r" using d(3) by (cases "digits10 n") auto
  have "ParseInt (digits10 n) = Some n" using d(1) [of 0] d(2) assms unfolding ParseInt_def ds by simp
  then show ?thesis using assms(1) by (simp add: itoa_def)
qed

lemma ParseInt_range: "ParseInt t = Some v \<Longrightarrow> - (2 ^ 63) \<le> v \<and> v < 2 ^ 63"
  by (auto simp: ParseInt_def Let_def split: option.split_asm if_split_asm prod.split_asm)

lemma itoa_trimmed: "0 \<le> n \<Longrightarrow> TrimSpace (itoa n) = itoa n"
  using digits_read_back(2,3) by (simp add: itoa_def TrimSpace_visible hd_in_set last_in_set)

section \<open>Case folding against an ASCII literal\<close>

text \<open>
  The only runes outside ASCII whose simple case folding reaches an ASCII letter are the
  Kelvin sign (folds with \<open>k\<close>) and the long s (folds with \<open>s\<close>); their encodings start with a
  byte that is never a continuation byte, so they are found by scanning bytes.
\<close>

definition lower_byte :: "char \<Rightarrow> char" where
  "lower_byte c =
     (let n = of_char c :: nat in if 65 \<le> n \<and> n \<le> 90 then char_of (n + 32) else c)"

fun fold_ascii :: "string \<Rightarrow> string" where
  "fold_ascii (a # b # c # s) =
     (if [a, b, c] = map char_of [226 :: nat, 132, 170] then CHR ''k'' # fold_ascii s
      else if [a, b] = map char_of [197 :: nat, 191] then CHR ''s'' # fold_ascii (c # s)
      else lower_byte a # fold_ascii (b # c # s))"
| "fold_ascii [a, b] =
     (if [a, b] = map char_of [197 :: nat, 191] then ''s'' else [lower_byte a, lower_byte b])"
| "fold_ascii [a] = [lower_byte a]"
| "fold_ascii [] = []"

text \<open>\<open>strings.EqualFold s t\<close> for a lower-case ASCII literal \<open>t\<close>.\<close>

definition EqualFold :: "string \<Rightarrow> string \<Rightarrow> bool" where
  "EqualFold s t \<longleftrightarrow> fold_ascii s = t"

text \<open>
  \<open>strings.ToLower\<close> as far as a search for ASCII literals can tell: besides the ASCII capitals,
  only the Kelvin sign and the dotted capital I become ASCII letters.
\<close>

fun ToLower :: "string \<Rightarrow> string" where
  "ToLower (a # b # c # s) =
     (if [a, b, c] = map char_of [226 :: nat, 132, 170] then CHR ''k'' # ToLower s
      else if [a, b] = map char_of [196 :: nat, 176] then CHR ''i'' # ToLower (c # s)
      else lower_byte a # ToLower (b # c # s))"
| "ToLower [a, b] =
     (if [a, b] = map char_of [196 :: nat, 176] then ''i'' else [lower_byte a, lower_byte b])"
| "ToLower [a] = [lower_byte a]"
| "ToLower [] = []"

text \<open>\<open>strings.Contains\<close>.\<close>

definition Contains :: "string \<Rightarrow> string \<Rightarrow> bool" where
  "Contains s t \<longleftrightarrow> sublist t s"

end
