(* ===== verification/Usage_Billing.thy ===== *)
theory Usage_Billing
  imports App_Errors Sha256
begin

text \<open>
  The billing ledger: \<open>service/usage_billing.go\<close> (commands, their normalisation and
  fingerprints) and \<open>repository/usage_billing_repo.go\<close> (the transactions that apply them).
  The database is a record of the tables those transactions touch. Each exported operation is
  one transaction; the unique key \<open>(request_id, api_key_id)\<close> of \<open>usage_billing_dedup\<close>
  serialises the transactions of one request, so a transaction is modelled as one step.

  Not modelled: the audit columns \<open>updated_at\<close>; \<open>NaN\<close> and infinite amounts; the group
  join of the subscription update is the flag \<open>s_group_deleted\<close> of the subscription row.
  PostgreSQL's \<open>date_trunc\<close> and \<open>AT TIME ZONE\<close> computations are the arguments collected
  in \<open>pg_calendar\<close>.
\<close>

section \<open>Commands\<close>

record UsageBillingCommand =
  RequestID :: string
  APIKeyID :: int
  RequestFingerprint :: string
  RequestPayloadHash :: string
  UserID :: int
  AccountID :: int
  SubscriptionID :: "int option"
  AccountType :: string
  Model :: string
  ServiceTier :: string
  ReasoningEffort :: string
  BillingType :: int
  InputTokens :: int
  OutputTokens :: int
  CacheCreationTokens :: int
  CacheReadTokens :: int
  ImageCount :: int
  MediaType :: string
  BalanceCost :: usd
  SubscriptionCost :: usd
  APIKeyQuotaCost :: usd
  APIKeyRateLimitCost :: usd
  AccountQuotaCost :: usd

definition UsageBillingMonetaryScale :: nat where
  "UsageBillingMonetaryScale = 8"

definition QuantizeUsageBillingAmount :: "usd \<Rightarrow> usd" where
  "QuantizeUsageBillingAmount v = (if v = 0 then v else round_scale UsageBillingMonetaryScale v)"

definition valueOrZero :: "int option \<Rightarrow> int" where
  "valueOrZero v = (case v of None \<Rightarrow> 0 | Some x \<Rightarrow> x)"

fun join_bars :: "string list \<Rightarrow> string" where
  "join_bars [] = ''''"
| "join_bars [s] = s"
| "join_bars (s # t # ss) = s @ ''|'' @ join_bars (t # ss)"

definition buildUsageBillingFingerprint :: "UsageBillingCommand \<Rightarrow> string" where
  "buildUsageBillingFingerprint c =
     (let raw = join_bars
            [itoa (UserID c), itoa (AccountID c), itoa (APIKeyID c), TrimSpace (AccountType c),
             TrimSpace (Model c), TrimSpace (ServiceTier c), TrimSpace (ReasoningEffort c),
             itoa (BillingType c), itoa (InputTokens c), itoa (OutputTokens c),
             itoa (CacheCreationTokens c), itoa (CacheReadTokens c), itoa (ImageCount c),
             TrimSpace (MediaType c), itoa (valueOrZero (SubscriptionID c)),
             fmt_10f (BalanceCost c), fmt_10f (SubscriptionCost c), fmt_10f (APIKeyQuotaCost c),
             fmt_10f (APIKeyRateLimitCost c), fmt_10f (AccountQuotaCost c)];
          payloadHash = TrimSpace (RequestPayloadHash c)
      in sha256_hex (if payloadHash \<noteq> '''' then raw @ ''|'' @ payloadHash else raw))"

definition HashUsageRequestPayload :: "string \<Rightarrow> string" where
  "HashUsageRequestPayload payload = (if payload = '''' then '''' else sha256_hex payload)"

definition quantizeMonetaryFields :: "UsageBillingCommand \<Rightarrow> UsageBillingCommand" where
  "quantizeMonetaryFields c =
     c\<lparr>BalanceCost := QuantizeUsageBillingAmount (BalanceCost c),
       SubscriptionCost := QuantizeUsageBillingAmount (SubscriptionCost c),
       APIKeyQuotaCost := QuantizeUsageBillingAmount (APIKeyQuotaCost c),
       APIKeyRateLimitCost := QuantizeUsageBillingAmount (APIKeyRateLimitCost c),
       AccountQuotaCost := QuantizeUsageBillingAmount (AccountQuotaCost c)\<rparr>"

text \<open>The fingerprint is computed from the amounts before they are quantized.\<close>

definition UsageBillingCommand_Normalize :: "UsageBillingCommand \<Rightarrow> UsageBillingCommand" where
  "UsageBillingCommand_Normalize c =
     (let c1 = c\<lparr>RequestID := TrimSpace (RequestID c)\<rparr>;
          c2 = (if TrimSpace (RequestFingerprint c1) = ''''
                then c1\<lparr>RequestFingerprint := buildUsageBillingFingerprint c1\<rparr> else c1)
      in quantizeMonetaryFields c2)"

record BatchImageBalanceHoldCommand =
  h_RequestID :: string
  h_APIKeyID :: int
  h_RequestFingerprint :: string
  h_RequestPayloadHash :: string
  h_UserID :: int
  h_BatchID :: string
  h_HoldAmount :: usd
  h_ActualAmount :: usd

definition buildBatchImageBalanceHoldFingerprint :: "BatchImageBalanceHoldCommand \<Rightarrow> string" where
  "buildBatchImageBalanceHoldFingerprint c =
     (let raw = join_bars [itoa (h_UserID c), itoa (h_APIKeyID c), TrimSpace (h_BatchID c),
                           fmt_10f (h_HoldAmount c), fmt_10f (h_ActualAmount c)];
          payloadHash = TrimSpace (h_RequestPayloadHash c)
      in sha256_hex (if payloadHash \<noteq> '''' then raw @ ''|'' @ payloadHash else raw))"

definition BatchImageBalanceHoldCommand_Normalize ::
    "BatchImageBalanceHoldCommand \<Rightarrow> BatchImageBalanceHoldCommand" where
  "BatchImageBalanceHoldCommand_Normalize c =
     (let c1 = c\<lparr>h_RequestID := TrimSpace (h_RequestID c), h_BatchID := TrimSpace (h_BatchID c)\<rparr>
      in if TrimSpace (h_RequestFingerprint c1) = ''''
         then c1\<lparr>h_RequestFingerprint := buildBatchImageBalanceHoldFingerprint c1\<rparr> else c1)"

section \<open>Results and errors\<close>

record AccountQuotaState =
  TotalUsed :: usd
  TotalLimit :: usd
  DailyUsed :: usd
  DailyLimit :: usd
  WeeklyUsed :: usd
  WeeklyLimit :: usd

record UsageBillingApplyResult =
  Applied :: bool
  APIKeyQuotaExhausted :: bool
  NewBalance :: "usd option"
  BalanceOverdrafted :: bool
  QuotaState :: "AccountQuotaState option"

definition empty_apply_result :: "bool \<Rightarrow> UsageBillingApplyResult" where
  "empty_apply_result a =
     \<lparr>Applied = a, APIKeyQuotaExhausted = False, NewBalance = None,
      BalanceOverdrafted = False, QuotaState = None\<rparr>"

record BatchImageBalanceHoldResult =
  h_Applied :: bool
  h_NewBalance :: "usd option"
  h_FrozenBalance :: "usd option"

definition empty_hold_result :: BatchImageBalanceHoldResult where
  "empty_hold_result = \<lparr>h_Applied = False, h_NewBalance = None, h_FrozenBalance = None\<rparr>"

definition ErrUsageBillingRequestIDRequired :: go_error where
  "ErrUsageBillingRequestIDRequired = PlainError ''usage billing request_id is required''"

definition ErrUsageBillingRequestConflict :: go_error where
  "ErrUsageBillingRequestConflict = PlainError ''usage billing request fingerprint conflict''"

definition ErrUserNotFound :: go_error where
  "ErrUserNotFound = New 404 ''USER_NOT_FOUND'' ''user not found''"

definition ErrAPIKeyNotFound :: go_error where
  "ErrAPIKeyNotFound = New 404 ''API_KEY_NOT_FOUND'' ''api key not found''"

definition ErrSubscriptionNotFound :: go_error where
  "ErrSubscriptionNotFound = New 404 ''SUBSCRIPTION_NOT_FOUND'' ''subscription not found''"

definition ErrAccountNotFound :: go_error where
  "ErrAccountNotFound = New 404 ''ACCOUNT_NOT_FOUND'' ''account not found''"

definition ErrBatchImageInsufficientBalance :: go_error where
  "ErrBatchImageInsufficientBalance =
     New 402 ''BATCH_IMAGE_INSUFFICIENT_BALANCE'' ''insufficient balance for batch image hold''"

definition ErrBatchImageSettlementCostExceedsHold :: go_error where
  "ErrBatchImageSettlementCostExceedsHold =
     New 409 ''BATCH_IMAGE_SETTLEMENT_COST_EXCEEDS_HOLD''
       ''batch image settlement cost exceeds held balance''"

definition ErrFrozenInsufficient :: go_error where
  "ErrFrozenInsufficient = PlainError ''batch image frozen balance is insufficient''"

section \<open>Tables\<close>

text \<open>\<open>users\<close>: both balances are \<open>NUMERIC(20,8)\<close>; a deleted row has \<open>deleted_at\<close> set.\<close>

record user_row =
  balance :: usd
  frozen_balance :: "usd option"
  u_deleted :: bool

record api_key_row =
  quota :: usd
  quota_used :: usd
  k_status :: string
  usage_5h :: usd
  usage_1d :: usd
  usage_7d :: usd
  window_5h_start :: "go_time option"
  window_1d_start :: "go_time option"
  window_7d_start :: "go_time option"
  k_deleted :: bool

record subscription_row =
  daily_usage_usd :: usd
  weekly_usage_usd :: usd
  monthly_usage_usd :: usd
  s_deleted :: bool
  s_group_deleted :: bool

text \<open>
  The quota keys of \<open>accounts.extra\<close>. An amount whose key is missing reads as 0, the
  \<open>COALESCE\<close> of every use; the instants of a window may be missing.
\<close>

record quota_window =
  w_limit :: usd
  w_used :: usd
  w_start :: "go_time option"
  w_fixed :: bool
  w_reset_at :: "go_time option"

record account_row =
  a_quota_used :: usd
  a_quota_limit :: usd
  a_daily :: quota_window
  a_weekly :: quota_window
  a_deleted :: bool

record billing_db =
  users :: "int \<rightharpoonup> user_row"
  api_keys :: "int \<rightharpoonup> api_key_row"
  subscriptions :: "int \<rightharpoonup> subscription_row"
  accounts :: "int \<rightharpoonup> account_row"
  dedup :: "string \<times> int \<rightharpoonup> string"
  dedup_archive :: "string \<times> int \<rightharpoonup> string"
  outbox :: "int list"

text \<open>
  The calendar of the database server: the start of an instant's day, and the next reset instant
  of a fixed daily or weekly account window.
\<close>

record pg_calendar =
  trunc_day :: "go_time \<Rightarrow> go_time"
  next_daily_reset :: "account_row \<Rightarrow> go_time \<Rightarrow> go_time option"
  next_weekly_reset :: "account_row \<Rightarrow> go_time \<Rightarrow> go_time option"

definition coalesce0 :: "usd option \<Rightarrow> usd" where
  "coalesce0 x = (case x of None \<Rightarrow> 0 | Some v \<Rightarrow> v)"

definition live_user :: "billing_db \<Rightarrow> int \<Rightarrow> user_row option" where
  "live_user d uid = (case users d uid of Some u \<Rightarrow> if u_deleted u then None else Some u | None \<Rightarrow> None)"

definition live_key :: "billing_db \<Rightarrow> int \<Rightarrow> api_key_row option" where
  "live_key d kid =
     (case api_keys d kid of Some k \<Rightarrow> if k_deleted k then None else Some k | None \<Rightarrow> None)"

abbreviation set_user :: "int \<Rightarrow> user_row \<Rightarrow> billing_db \<Rightarrow> billing_db" where
  "set_user uid u d \<equiv> d\<lparr>users := (users d)(uid \<mapsto> u)\<rparr>"

abbreviation set_key :: "int \<Rightarrow> api_key_row \<Rightarrow> billing_db \<Rightarrow> billing_db" where
  "set_key kid k d \<equiv> d\<lparr>api_keys := (api_keys d)(kid \<mapsto> k)\<rparr>"

section \<open>Claiming a request\<close>

definition claimUsageBillingRequest ::
    "string \<Rightarrow> int \<Rightarrow> string \<Rightarrow> (billing_db, go_error + bool) statement" where
  "claimUsageBillingRequest requestID apiKeyID fingerprint d =
     (case dedup d (requestID, apiKeyID) of
        Some existing \<Rightarrow>
          if TrimSpace existing \<noteq> TrimSpace fingerprint
          then (Inl ErrUsageBillingRequestConflict, d) else (Inr False, d)
      | None \<Rightarrow>
          (let d1 = d\<lparr>dedup := (dedup d)((requestID, apiKeyID) \<mapsto> fingerprint)\<rparr> in
           case dedup_archive d (requestID, apiKeyID) of
             Some archived \<Rightarrow>
               if TrimSpace archived \<noteq> TrimSpace fingerprint
               then (Inl ErrUsageBillingRequestConflict, d1) else (Inr False, d1)
           | None \<Rightarrow> (Inr True, d1)))"

definition claimed :: "billing_db \<Rightarrow> string \<Rightarrow> int \<Rightarrow> bool" where
  "claimed d requestID apiKeyID \<longleftrightarrow>
     dedup d (requestID, apiKeyID) \<noteq> None \<or> dedup_archive d (requestID, apiKeyID) \<noteq> None"

definition batchImageHoldClaimExists :: "billing_db \<Rightarrow> string \<Rightarrow> int \<Rightarrow> bool" where
  "batchImageHoldClaimExists d holdRequestID apiKeyID =
     (if dedup d (holdRequestID, apiKeyID) \<noteq> None then True
      else dedup_archive d (holdRequestID, apiKeyID) \<noteq> None)"

definition userExistsForBilling :: "billing_db \<Rightarrow> int \<Rightarrow> bool" where
  "userExistsForBilling d userID \<longleftrightarrow> live_user d userID \<noteq> None"

section \<open>Balance holds\<close>

definition batchImageHoldRequestPrefix :: string where
  "batchImageHoldRequestPrefix = ''batch_image_hold:''"

definition BatchImageHoldRequestID :: "string \<Rightarrow> string" where
  "BatchImageHoldRequestID batchID = batchImageHoldRequestPrefix @ TrimSpace batchID"

definition reserveUsageBillingBatchImageBalance ::
    "BatchImageBalanceHoldCommand
       \<Rightarrow> (billing_db, go_error + BatchImageBalanceHoldResult) statement" where
  "reserveUsageBillingBatchImageBalance cmd d =
     (if h_HoldAmount cmd \<le> 0 then (Inr empty_hold_result, d)
      else case live_user d (h_UserID cmd) of
        Some u \<Rightarrow>
          if h_HoldAmount cmd \<le> balance u then
            (let b = round_scale 8 (balance u - h_HoldAmount cmd);
                 f = round_scale 8 (coalesce0 (frozen_balance u) + h_HoldAmount cmd)
             in (Inr \<lparr>h_Applied = False, h_NewBalance = Some b, h_FrozenBalance = Some f\<rparr>,
                 set_user (h_UserID cmd) (u\<lparr>balance := b, frozen_balance := Some f\<rparr>) d))
          else (Inl ErrBatchImageInsufficientBalance, d)
      | None \<Rightarrow> (Inl ErrUserNotFound, d))"

definition captureUsageBillingBatchImageBalance ::
    "BatchImageBalanceHoldCommand
       \<Rightarrow> (billing_db, go_error + BatchImageBalanceHoldResult) statement" where
  "captureUsageBillingBatchImageBalance cmd d =
     (let hold = h_HoldAmount cmd; actual = h_ActualAmount cmd in
      if hold \<le> 0 \<and> actual \<le> 0 then (Inr empty_hold_result, d)
      else if actual - hold > 1 / 10 ^ 8 then (Inl ErrBatchImageSettlementCostExceedsHold, d)
      else case live_user d (h_UserID cmd) of
        Some u \<Rightarrow>
          if hold \<le> coalesce0 (frozen_balance u) then
            (let b = round_scale 8 (balance u
                       + (if hold > actual then hold - actual else 0)
                       - (if actual > hold then actual - hold else 0));
                 f = round_scale 8 (coalesce0 (frozen_balance u) - hold)
             in (Inr \<lparr>h_Applied = False, h_NewBalance = Some b, h_FrozenBalance = Some f\<rparr>,
                 set_user (h_UserID cmd) (u\<lparr>balance := b, frozen_balance := Some f\<rparr>) d))
          else (Inl ErrFrozenInsufficient, d)
      | None \<Rightarrow> (Inl ErrUserNotFound, d))"

definition releaseUsageBillingBatchImageBalance ::
    "BatchImageBalanceHoldCommand
       \<Rightarrow> (billing_db, go_error + BatchImageBalanceHoldResult) statement" where
  "releaseUsageBillingBatchImageBalance cmd d =
     (if h_HoldAmount cmd \<le> 0 then (Inr empty_hold_result, d)
      else if \<not> batchImageHoldClaimExists d (BatchImageHoldRequestID (h_BatchID cmd)) (h_APIKeyID cmd)
      then (Inr empty_hold_result, d)
      else case live_user d (h_UserID cmd) of
        Some u \<Rightarrow>
          if h_HoldAmount cmd \<le> coalesce0 (frozen_balance u) then
            (let b = round_scale 8 (balance u + h_HoldAmount cmd);
                 f = round_scale 8 (coalesce0 (frozen_balance u) - h_HoldAmount cmd)
             in (Inr \<lparr>h_Applied = False, h_NewBalance = Some b, h_FrozenBalance = Some f\<rparr>,
                 set_user (h_UserID cmd) (u\<lparr>balance := b, frozen_balance := Some f\<rparr>) d))
          else (Inl ErrFrozenInsufficient, d)
      | None \<Rightarrow> (Inl ErrUserNotFound, d))"

text \<open>
  The shared transaction: normalise, claim, apply, commit. When the request was claimed before,
  the transaction is rolled back and reports that nothing was applied.
\<close>

definition applyBatchImageBalanceHold ::
    "(BatchImageBalanceHoldCommand
        \<Rightarrow> (billing_db, go_error + BatchImageBalanceHoldResult) statement)
     \<Rightarrow> BatchImageBalanceHoldCommand
     \<Rightarrow> (billing_db, go_error + BatchImageBalanceHoldResult) statement" where
  "applyBatchImageBalanceHold apply_fn cmd0 d =
     (let cmd = BatchImageBalanceHoldCommand_Normalize cmd0 in
      if h_RequestID cmd = '''' then (Inl ErrUsageBillingRequestIDRequired, d)
      else case claimUsageBillingRequest (h_RequestID cmd) (h_APIKeyID cmd)
                  (h_RequestFingerprint cmd) d of
        (Inl e, _) \<Rightarrow> (Inl e, d)
      | (Inr False, _) \<Rightarrow> (Inr empty_hold_result, d)
      | (Inr True, d1) \<Rightarrow>
          (case apply_fn cmd d1 of
             (Inl e, _) \<Rightarrow> (Inl e, d)
           | (Inr result, d2) \<Rightarrow> (Inr (result\<lparr>h_Applied := True\<rparr>), d2)))"

definition ReserveBatchImageBalance ::
    "BatchImageBalanceHoldCommand
       \<Rightarrow> (billing_db, go_error + BatchImageBalanceHoldResult) statement" where
  "ReserveBatchImageBalance = applyBatchImageBalanceHold reserveUsageBillingBatchImageBalance"

definition CaptureBatchImageBalance ::
    "BatchImageBalanceHoldCommand
       \<Rightarrow> (billing_db, go_error + BatchImageBalanceHoldResult) statement" where
  "CaptureBatchImageBalance = applyBatchImageBalanceHold captureUsageBillingBatchImageBalance"

definition ReleaseBatchImageBalance ::
    "BatchImageBalanceHoldCommand
       \<Rightarrow> (billing_db, go_error + BatchImageBalanceHoldResult) statement" where
  "ReleaseBatchImageBalance = applyBatchImageBalanceHold releaseUsageBillingBatchImageBalance"

section \<open>Usage billing\<close>

definition incrementUsageBillingSubscription ::
    "int \<Rightarrow> usd \<Rightarrow> (billing_db, go_error + unit) statement" where
  "incrementUsageBillingSubscription subscriptionID costUSD d =
     (case subscriptions d subscriptionID of
        Some s \<Rightarrow>
          if s_deleted s \<or> s_group_deleted s then (Inl ErrSubscriptionNotFound, d)
          else (Inr (), d\<lparr>subscriptions := (subscriptions d)(subscriptionID \<mapsto>
                 s\<lparr>daily_usage_usd := round_scale 10 (daily_usage_usd s + costUSD),
                   weekly_usage_usd := round_scale 10 (weekly_usage_usd s + costUSD),
                   monthly_usage_usd := round_scale 10 (monthly_usage_usd s + costUSD)\<rparr>)\<rparr>)
      | None \<Rightarrow> (Inl ErrSubscriptionNotFound, d))"

definition deductUsageBillingBalance ::
    "int \<Rightarrow> usd \<Rightarrow> (billing_db, go_error + usd \<times> bool) statement" where
  "deductUsageBillingBalance userID amount d =
     (case live_user d userID of
        Some u \<Rightarrow>
          (let b = round_scale 8 (balance u - amount)
           in (Inr (b, amount \<le> balance u), set_user userID (u\<lparr>balance := b\<rparr>) d))
      | None \<Rightarrow> (Inl ErrUserNotFound, d))"

definition StatusAPIKeyActive :: string where
  "StatusAPIKeyActive = ''active''"

definition StatusAPIKeyQuotaExhausted :: string where
  "StatusAPIKeyQuotaExhausted = ''quota_exhausted''"

definition incrementUsageBillingAPIKeyQuota ::
    "int \<Rightarrow> usd \<Rightarrow> (billing_db, go_error + bool) statement" where
  "incrementUsageBillingAPIKeyQuota apiKeyID amount d =
     (case live_key d apiKeyID of
        Some k \<Rightarrow>
          (let used = round_scale 8 (quota_used k + amount);
               k' = k\<lparr>quota_used := used,
                      k_status := (if quota k > 0 \<and> k_status k = StatusAPIKeyActive
                                     \<and> quota_used k < quota k \<and> quota_used k + amount \<ge> quota k
                                   then StatusAPIKeyQuotaExhausted else k_status k)\<rparr>
           in (Inr (quota k > 0 \<and> used \<ge> quota k \<and> used - amount < quota k),
               set_key apiKeyID k' d))
      | None \<Rightarrow> (Inl ErrAPIKeyNotFound, d))"

definition window_over :: "go_time option \<Rightarrow> duration \<Rightarrow> go_time \<Rightarrow> bool" where
  "window_over start len now = (case start of None \<Rightarrow> False | Some s \<Rightarrow> s + len \<le> now)"

definition incrementUsageBillingAPIKeyRateLimit ::
    "pg_calendar \<Rightarrow> go_time \<Rightarrow> int \<Rightarrow> usd \<Rightarrow> (billing_db, go_error + unit) statement" where
  "incrementUsageBillingAPIKeyRateLimit cal now apiKeyID cost d =
     (case live_key d apiKeyID of
        Some k \<Rightarrow>
          (let o5 = window_over (window_5h_start k) (5 * Hour) now;
               o1 = window_over (window_1d_start k) (24 * Hour) now;
               o7 = window_over (window_7d_start k) (7 * 24 * Hour) now;
               k' = k\<lparr>usage_5h := round_scale 8 (if o5 then cost else usage_5h k + cost),
                      usage_1d := round_scale 8 (if o1 then cost else usage_1d k + cost),
                      usage_7d := round_scale 8 (if o7 then cost else usage_7d k + cost),
                      window_5h_start := (if window_5h_start k = None \<or> o5
                                          then Some now else window_5h_start k),
                      window_1d_start := (if window_1d_start k = None \<or> o1
                                          then Some (trunc_day cal now) else window_1d_start k),
                      window_7d_start := (if window_7d_start k = None \<or> o7
                                          then Some (trunc_day cal now) else window_7d_start k)\<rparr>
           in (Inr (), set_key apiKeyID k' d))
      | None \<Rightarrow> (Inl ErrAPIKeyNotFound, d))"

definition windowExpiredExpr :: "quota_window \<Rightarrow> duration \<Rightarrow> go_time \<Rightarrow> bool" where
  "windowExpiredExpr w len now =
     (if w_fixed w
      then now \<ge> (case w_reset_at w of None \<Rightarrow> unix_epoch | Some t \<Rightarrow> t)
      else (case w_start w of None \<Rightarrow> unix_epoch | Some t \<Rightarrow> t) + len \<le> now)"

definition increment_window ::
    "duration \<Rightarrow> go_time option \<Rightarrow> go_time \<Rightarrow> usd \<Rightarrow> quota_window \<Rightarrow> quota_window" where
  "increment_window len next_reset now amount w =
     (if w_limit w > 0 then
        (let e = windowExpiredExpr w len now in
         w\<lparr>w_used := (if e then amount else w_used w + amount),
           w_start := (if e then Some now else case w_start w of None \<Rightarrow> Some now | Some t \<Rightarrow> Some t),
           w_reset_at := (if e \<and> next_reset \<noteq> None then next_reset else w_reset_at w)\<rparr>)
      else w)"

text \<open>The outbox keeps at most one pending \<open>account_changed\<close> event per account.\<close>

definition enqueueSchedulerOutbox :: "int \<Rightarrow> billing_db \<Rightarrow> billing_db" where
  "enqueueSchedulerOutbox accountID d =
     (if accountID \<in> set (outbox d) then d else d\<lparr>outbox := outbox d @ [accountID]\<rparr>)"

definition crossed :: "usd \<Rightarrow> usd \<Rightarrow> usd \<Rightarrow> bool" where
  "crossed limit used amount \<longleftrightarrow> limit > 0 \<and> used \<ge> limit \<and> used - amount < limit"

definition incrementUsageBillingAccountQuota ::
    "pg_calendar \<Rightarrow> go_time \<Rightarrow> int \<Rightarrow> usd
       \<Rightarrow> (billing_db, go_error + AccountQuotaState) statement" where
  "incrementUsageBillingAccountQuota cal now accountID amount d =
     (case accounts d accountID of
        Some a \<Rightarrow>
          if a_deleted a then (Inl ErrAccountNotFound, d) else
          (let nd = (if w_fixed (a_daily a) then next_daily_reset cal a now else None);
               nw = (if w_fixed (a_weekly a) then next_weekly_reset cal a now else None);
               a' = a\<lparr>a_quota_used := a_quota_used a + amount,
                      a_daily := increment_window (24 * Hour) nd now amount (a_daily a),
                      a_weekly := increment_window (168 * Hour) nw now amount (a_weekly a)\<rparr>;
               st = \<lparr>TotalUsed = a_quota_used a', TotalLimit = a_quota_limit a',
                     DailyUsed = w_used (a_daily a'), DailyLimit = w_limit (a_daily a'),
                     WeeklyUsed = w_used (a_weekly a'), WeeklyLimit = w_limit (a_weekly a')\<rparr>;
               d1 = d\<lparr>accounts := (accounts d)(accountID \<mapsto> a')\<rparr>;
               hit = crossed (TotalLimit st) (TotalUsed st) amount
                     \<or> crossed (DailyLimit st) (DailyUsed st) amount
                     \<or> crossed (WeeklyLimit st) (WeeklyUsed st) amount
           in (Inr st, if hit then enqueueSchedulerOutbox accountID d1 else d1))
      | None \<Rightarrow> (Inl ErrAccountNotFound, d))"

text \<open>
  The effects run in the source's order; the first error ends them (and the transaction).
\<close>

definition billing_bind ::
    "(billing_db, go_error + 'a) statement \<Rightarrow> ('a \<Rightarrow> (billing_db, go_error + 'b) statement)
       \<Rightarrow> (billing_db, go_error + 'b) statement" where
  "billing_bind m k d = (case m d of (Inl e, d') \<Rightarrow> (Inl e, d') | (Inr a, d') \<Rightarrow> k a d')"

definition billing_return :: "'a \<Rightarrow> (billing_db, go_error + 'a) statement" where
  "billing_return a d = (Inr a, d)"

definition AccountTypeAPIKey :: string where "AccountTypeAPIKey = ''apikey''"
definition AccountTypeBedrock :: string where "AccountTypeBedrock = ''bedrock''"

definition applyUsageBillingEffects ::
    "pg_calendar \<Rightarrow> go_time \<Rightarrow> UsageBillingCommand
       \<Rightarrow> (billing_db, go_error + UsageBillingApplyResult) statement" where
  "applyUsageBillingEffects cal now cmd =
     billing_bind
       (case SubscriptionID cmd of
          Some sid \<Rightarrow> if SubscriptionCost cmd > 0
                      then incrementUsageBillingSubscription sid (SubscriptionCost cmd)
                      else billing_return ()
        | None \<Rightarrow> billing_return ())
       (\<lambda>_. billing_bind
         (if BalanceCost cmd > 0
          then billing_bind (deductUsageBillingBalance (UserID cmd) (BalanceCost cmd))
                 (\<lambda>(b, sufficient). billing_return
                    ((empty_apply_result True)\<lparr>NewBalance := Some b,
                                               BalanceOverdrafted := \<not> sufficient\<rparr>))
          else billing_return (empty_apply_result True))
         (\<lambda>r1. billing_bind
           (if APIKeyQuotaCost cmd > 0
            then billing_bind (incrementUsageBillingAPIKeyQuota (APIKeyID cmd) (APIKeyQuotaCost cmd))
                   (\<lambda>exhausted. billing_return (r1\<lparr>APIKeyQuotaExhausted := exhausted\<rparr>))
            else billing_return r1)
           (\<lambda>r2. billing_bind
             (if APIKeyRateLimitCost cmd > 0
              then incrementUsageBillingAPIKeyRateLimit cal now (APIKeyID cmd) (APIKeyRateLimitCost cmd)
              else billing_return ())
             (\<lambda>_. if AccountQuotaCost cmd > 0
                     \<and> (EqualFold (AccountType cmd) AccountTypeAPIKey
                        \<or> EqualFold (AccountType cmd) AccountTypeBedrock)
                  then billing_bind
                         (incrementUsageBillingAccountQuota cal now (AccountID cmd) (AccountQuotaCost cmd))
                         (\<lambda>q. billing_return (r2\<lparr>QuotaState := Some q\<rparr>))
                  else billing_return r2))))"

definition Apply ::
    "pg_calendar \<Rightarrow> go_time \<Rightarrow> UsageBillingCommand
       \<Rightarrow> (billing_db, go_error + UsageBillingApplyResult) statement" where
  "Apply cal now cmd0 d =
     (let cmd = UsageBillingCommand_Normalize cmd0 in
      if RequestID cmd = '''' then (Inl ErrUsageBillingRequestIDRequired, d)
      else case claimUsageBillingRequest (RequestID cmd) (APIKeyID cmd) (RequestFingerprint cmd) d of
        (Inl e, _) \<Rightarrow> (Inl e, d)
      | (Inr False, _) \<Rightarrow> (Inr (empty_apply_result False), d)
      | (Inr True, d1) \<Rightarrow>
          (case applyUsageBillingEffects cal now cmd d1 of
             (Inl e, _) \<Rightarrow> (Inl e, d)
           | (Inr result, d2) \<Rightarrow> (Inr result, d2)))"

section \<open>Archiving old claims\<close>

text \<open>
  One round of \<open>CleanupUsageBillingDedup\<close> moves the claims it selected (by age, at most a
  batch of them: the argument \<open>victims\<close>) to the archive table, in one statement.
\<close>

definition CleanupUsageBillingDedup :: "(string \<times> int) list \<Rightarrow> billing_db \<Rightarrow> billing_db" where
  "CleanupUsageBillingDedup victims d =
     d\<lparr>dedup := (\<lambda>k. if k \<in> set victims then None else dedup d k),
       dedup_archive := (\<lambda>k. case dedup_archive d k of
                                Some f \<Rightarrow> Some f
                              | None \<Rightarrow> if k \<in> set victims then dedup d k else None)\<rparr>"

section \<open>Runs of the ledger\<close>

text \<open>
  The transactions of any number of clients, in the order the database commits them. A call
  lost before it takes effect leaves no trace, and one whose answer is lost takes effect like
  any other, so every history of the ledger is such a sequence.
\<close>

datatype billing_op =
    Op_Reserve BatchImageBalanceHoldCommand
  | Op_Capture BatchImageBalanceHoldCommand
  | Op_Release BatchImageBalanceHoldCommand
  | Op_Apply go_time UsageBillingCommand
  | Op_Cleanup "(string \<times> int) list"

fun op_key :: "billing_op \<Rightarrow> (string \<times> int) option" where
  "op_key (Op_Reserve c) = Some (TrimSpace (h_RequestID c), h_APIKeyID c)"
| "op_key (Op_Capture c) = Some (TrimSpace (h_RequestID c), h_APIKeyID c)"
| "op_key (Op_Release c) = Some (TrimSpace (h_RequestID c), h_APIKeyID c)"
| "op_key (Op_Apply now c) = Some (TrimSpace (RequestID c), APIKeyID c)"
| "op_key (Op_Cleanup vs) = None"

definition hold_applied :: "go_error + BatchImageBalanceHoldResult \<Rightarrow> bool" where
  "hold_applied r = (case r of Inl _ \<Rightarrow> False | Inr x \<Rightarrow> h_Applied x)"

definition usage_applied :: "go_error + UsageBillingApplyResult \<Rightarrow> bool" where
  "usage_applied r = (case r of Inl _ \<Rightarrow> False | Inr x \<Rightarrow> Applied x)"

fun exec_op :: "pg_calendar \<Rightarrow> billing_op \<Rightarrow> billing_db \<Rightarrow> bool \<times> billing_db" where
  "exec_op cal (Op_Reserve c) d = map_prod hold_applied id (ReserveBatchImageBalance c d)"
| "exec_op cal (Op_Capture c) d = map_prod hold_applied id (CaptureBatchImageBalance c d)"
| "exec_op cal (Op_Release c) d = map_prod hold_applied id (ReleaseBatchImageBalance c d)"
| "exec_op cal (Op_Apply now c) d = map_prod usage_applied id (Apply cal now c d)"
| "exec_op cal (Op_Cleanup vs) d = (False, CleanupUsageBillingDedup vs d)"

text \<open>The log of a run: the key of each transaction and whether it was applied.\<close>

fun run_log :: "pg_calendar \<Rightarrow> billing_op list \<Rightarrow> billing_db \<Rightarrow> ((string \<times> int) option \<times> bool) list" where
  "run_log cal [] d = []"
| "run_log cal (op # ops) d =
     (let (a, d') = exec_op cal op d in (op_key op, a) # run_log cal ops d')"

fun run_ops :: "pg_calendar \<Rightarrow> billing_op list \<Rightarrow> billing_db \<Rightarrow> billing_db" where
  "run_ops cal [] d = d"
| "run_ops cal (op # ops) d = run_ops cal ops (snd (exec_op cal op d))"

end
