(* ===== verification/Balance_Holds.thy ===== *)
theory Balance_Holds
  imports Gateway_Prelude "HOL-Library.Multiset"
begin

text \<open>
  The contract between the billing ledger and its client, the batch-image service: what
  reserving, capturing and releasing a hold do to the free and the frozen balance of a user.
  The client's argument that a hold it opened can always be settled is made once, here.
\<close>

section \<open>Open holds\<close>

type_synonym hold = "int \<times> usd"

text \<open>The total amount of the open holds of a user.\<close>

definition open_amount :: "hold multiset \<Rightarrow> int \<Rightarrow> usd" where
  "open_amount H uid = (\<Sum>x \<in># H. if fst x = uid then snd x else 0)"

lemma open_amount_empty [simp]: "open_amount {#} uid = 0"
  by (simp add: open_amount_def)

lemma open_amount_add [simp]:
  "open_amount (add_mset x H) uid = (if fst x = uid then snd x else 0) + open_amount H uid"
  by (simp add: open_amount_def)

lemma open_amount_remove:
  assumes "(u, h) \<in># H"
  shows "open_amount (H - {#(u, h)#}) uid = open_amount H uid - (if u = uid then h else 0)"
proof -
  have "H = add_mset (u, h) (H - {#(u, h)#})" using assms by simp
  then have "open_amount H uid =
      (if u = uid then h else 0) + open_amount (H - {#(u, h)#}) uid"
    by (metis fst_conv open_amount_add snd_conv)
  then show ?thesis by simp
qed

lemma open_amount_nonneg: "\<forall>x \<in># H. 0 \<le> snd x \<Longrightarrow> 0 \<le> open_amount H u"
  by (induction H) simp_all

lemma open_amount_member:
  assumes "(u, h) \<in># H" and "\<forall>x \<in># H. 0 \<le> snd x"
  shows "h \<le> open_amount H u"
proof -
  have "0 \<le> open_amount (H - {#(u, h)#}) u"
    using assms(2) by (intro open_amount_nonneg) (auto dest: in_diffD)
  then show ?thesis using open_amount_remove [OF assms(1), of u] by simp
qed

text \<open>The ledger backs the open holds: the frozen balances are exactly their totals.\<close>

definition backs :: "('d \<Rightarrow> int \<Rightarrow> usd) \<Rightarrow> 'd \<Rightarrow> hold multiset \<Rightarrow> bool" where
  "backs frozen d H \<longleftrightarrow> (\<forall>uid. frozen d uid = open_amount H uid) \<and> (\<forall>x \<in># H. 0 < snd x)"

section \<open>The contract\<close>

locale balance_holds =
  fixes reserve :: "'c \<Rightarrow> 'd \<Rightarrow> bool \<times> 'd"
    and capture :: "'c \<Rightarrow> 'd \<Rightarrow> bool \<times> 'd"
    and release :: "'c \<Rightarrow> 'd \<Rightarrow> bool \<times> 'd"
    and user_of :: "'c \<Rightarrow> int"
    and hold_of :: "'c \<Rightarrow> usd"
    and actual_of :: "'c \<Rightarrow> usd"
    and free :: "'d \<Rightarrow> int \<Rightarrow> usd"
    and frozen :: "'d \<Rightarrow> int \<Rightarrow> usd"
    and ok :: "'d \<Rightarrow> bool"
    and valid :: "'c \<Rightarrow> bool"
    and held :: "'d \<Rightarrow> 'c \<Rightarrow> bool"
    and ready :: "'d \<Rightarrow> 'c \<Rightarrow> bool"
  assumes valid_pos: "valid c \<Longrightarrow> 0 < hold_of c"
    and not_applied:
      "reserve c d = (False, d') \<Longrightarrow> d' = d"
      "capture c d = (False, d') \<Longrightarrow> d' = d"
      "release c d = (False, d') \<Longrightarrow> d' = d"
    and reserve_applied:
      "reserve c d = (True, d') \<Longrightarrow> ok d \<Longrightarrow> valid c \<Longrightarrow> ok d'
         \<and> free d' = (free d)(user_of c := free d (user_of c) - hold_of c)
         \<and> frozen d' = (frozen d)(user_of c := frozen d (user_of c) + hold_of c)
         \<and> hold_of c \<le> free d (user_of c)"
    and capture_applied:
      "capture c d = (True, d') \<Longrightarrow> ok d \<Longrightarrow> valid c \<Longrightarrow> ok d'
         \<and> free d' = (free d)(user_of c := free d (user_of c) + (hold_of c - actual_of c))
         \<and> frozen d' = (frozen d)(user_of c := frozen d (user_of c) - hold_of c)"
    and release_applied:
      "release c d = (True, d') \<Longrightarrow> ok d \<Longrightarrow> valid c \<Longrightarrow> held d c \<Longrightarrow> ok d'
         \<and> free d' = (free d)(user_of c := free d (user_of c) + hold_of c)
         \<and> frozen d' = (frozen d)(user_of c := frozen d (user_of c) - hold_of c)"
    and capture_possible:
      "ok d \<Longrightarrow> valid c \<Longrightarrow> ready d c \<Longrightarrow> hold_of c \<le> frozen d (user_of c)
         \<Longrightarrow> actual_of c \<le> hold_of c \<Longrightarrow> fst (capture c d)"
    and release_possible:
      "ok d \<Longrightarrow> valid c \<Longrightarrow> ready d c \<Longrightarrow> hold_of c \<le> frozen d (user_of c)
         \<Longrightarrow> fst (release c d)"
begin

lemma backs_member: "backs frozen d H \<Longrightarrow> (u, h) \<in># H \<Longrightarrow> h \<le> frozen d u"
  unfolding backs_def using open_amount_member [of u h H] by (simp add: less_imp_le)

lemma backs_reserve:
  assumes "backs frozen d H" and "ok d" and "valid c" and "reserve c d = (a, d')"
  shows "backs frozen d' (if a then add_mset (user_of c, hold_of c) H else H) \<and> ok d'"
proof (cases a)
  case True
  with assms reserve_applied [of c d d'] valid_pos show ?thesis by (auto simp: backs_def)
next
  case False
  with assms not_applied(1) [of c d d'] show ?thesis by simp
qed

lemma backs_removed:
  assumes "backs frozen d H" and "(u, h) \<in># H" and "frozen d' = (frozen d)(u := frozen d u - h)"
  shows "backs frozen d' (H - {#(u, h)#})"
  using assms by (auto simp: backs_def open_amount_remove dest: in_diffD)

lemma backs_capture:
  assumes "backs frozen d H" and "ok d" and "valid c" and "capture c d = (a, d')"
    and "(user_of c, hold_of c) \<in># H"
  shows "backs frozen d' (if a then H - {#(user_of c, hold_of c)#} else H) \<and> ok d'"
proof (cases a)
  case True
  with assms capture_applied [of c d d'] backs_removed [OF assms(1,5)] show ?thesis by simp
next
  case False
  with assms not_applied(2) [of c d d'] show ?thesis by simp
qed

lemma backs_release:
  assumes "backs frozen d H" and "ok d" and "valid c" and "release c d = (a, d')"
    and "(user_of c, hold_of c) \<in># H" and "held d c"
  shows "backs frozen d' (if a then H - {#(user_of c, hold_of c)#} else H) \<and> ok d'"
proof (cases a)
  case True
  with assms release_applied [of c d d'] backs_removed [OF assms(1,5)] show ?thesis by simp
next
  case False
  with assms not_applied(3) [of c d d'] show ?thesis by simp
qed

text \<open>An open hold of a backing ledger can be settled either way.\<close>

lemma open_hold_settles:
  assumes "backs frozen d H" and "ok d" and "valid c" and "ready d c"
    and "(user_of c, hold_of c) \<in># H"
  shows "actual_of c \<le> hold_of c \<Longrightarrow> fst (capture c d)" and "fst (release c d)"
  using assms backs_member [OF assms(1,5)] by (auto intro: capture_possible release_possible)

end

end
