(* ===== verification/Usage_Billing_Facts.thy ===== *)
theory Usage_Billing_Facts
  imports Usage_Billing Balance_Holds
begin

text \<open>
  What the billing transactions guarantee: a failed transaction changes nothing, a request is
  applied at most once in any history, holds move money between the free and the frozen balance
  of one user without creating any, and a release needs a hold. The interface the batch-image
  service relies on is the locale \<open>balance_holds\<close>, interpreted on the model.
\<close>

section \<open>Claims\<close>

lemma claim_True:
  assumes "claimUsageBillingRequest r k f d = (Inr True, d1)"
  shows "\<not> claimed d r k" and "d1 = d\<lparr>dedup := (dedup d)((r, k) \<mapsto> f)\<rparr>"
  using assms
  by (auto simp: claimUsageBillingRequest_def claimed_def Let_def split: option.splits if_splits)

lemma claim_claimed:
  assumes "claimed d r k"
  shows "fst (claimUsageBillingRequest r k f d) \<noteq> Inr True"
  using assms
  by (auto simp: claimUsageBillingRequest_def claimed_def Let_def split: option.splits)

lemma claim_users [simp]: "users (snd (claimUsageBillingRequest r k f d)) = users d"
  by (simp add: claimUsageBillingRequest_def Let_def split: option.splits)

lemma Normalize_hold_sels [simp]:
  "h_RequestID (BatchImageBalanceHoldCommand_Normalize c) = TrimSpace (h_RequestID c)"
  "h_APIKeyID (BatchImageBalanceHoldCommand_Normalize c) = h_APIKeyID c"
  "h_UserID (BatchImageBalanceHoldCommand_Normalize c) = h_UserID c"
  "h_BatchID (BatchImageBalanceHoldCommand_Normalize c) = TrimSpace (h_BatchID c)"
  "h_HoldAmount (BatchImageBalanceHoldCommand_Normalize c) = h_HoldAmount c"
  "h_ActualAmount (BatchImageBalanceHoldCommand_Normalize c) = h_ActualAmount c"
  by (simp_all add: BatchImageBalanceHoldCommand_Normalize_def Let_def)

lemma Normalize_usage_sels [simp]:
  "RequestID (UsageBillingCommand_Normalize c) = TrimSpace (RequestID c)"
  "APIKeyID (UsageBillingCommand_Normalize c) = APIKeyID c"
  "UserID (UsageBillingCommand_Normalize c) = UserID c"
  "BalanceCost (UsageBillingCommand_Normalize c) = QuantizeUsageBillingAmount (BalanceCost c)"
  "APIKeyQuotaCost (UsageBillingCommand_Normalize c) = QuantizeUsageBillingAmount (APIKeyQuotaCost c)"
  by (simp_all add: UsageBillingCommand_Normalize_def quantizeMonetaryFields_def Let_def)

section \<open>The effect functions leave the claims alone\<close>

definition keeps_claims :: "(billing_db, 'r) statement \<Rightarrow> bool" where
  "keeps_claims st \<longleftrightarrow>
     (\<forall>d. dedup (snd (st d)) = dedup d \<and> dedup_archive (snd (st d)) = dedup_archive d)"

lemma keeps_claimsI:
  "(\<And>d. dedup (snd (st d)) = dedup d \<and> dedup_archive (snd (st d)) = dedup_archive d)
     \<Longrightarrow> keeps_claims st"
  by (simp add: keeps_claims_def)

lemma keeps_claims_reserve: "keeps_claims (reserveUsageBillingBatchImageBalance c)"
  by (rule keeps_claimsI)
    (simp add: reserveUsageBillingBatchImageBalance_def Let_def split: option.splits)

lemma keeps_claims_capture: "keeps_claims (captureUsageBillingBatchImageBalance c)"
  by (rule keeps_claimsI)
    (simp add: captureUsageBillingBatchImageBalance_def Let_def split: option.splits)

lemma keeps_claims_release: "keeps_claims (releaseUsageBillingBatchImageBalance c)"
  by (rule keeps_claimsI)
    (simp add: releaseUsageBillingBatchImageBalance_def Let_def split: option.splits)

lemma keeps_claims_subscription: "keeps_claims (incrementUsageBillingSubscription i x)"
  by (rule keeps_claimsI) (simp add: incrementUsageBillingSubscription_def split: option.splits)

lemma keeps_claims_deduct: "keeps_claims (deductUsageBillingBalance i x)"
  by (rule keeps_claimsI) (simp add: deductUsageBillingBalance_def Let_def split: option.splits)

lemma keeps_claims_quota: "keeps_claims (incrementUsageBillingAPIKeyQuota i x)"
  by (rule keeps_claimsI)
    (simp add: incrementUsageBillingAPIKeyQuota_def Let_def split: option.splits)

lemma keeps_claims_rate: "keeps_claims (incrementUsageBillingAPIKeyRateLimit cal now i x)"
  by (rule keeps_claimsI)
    (simp add: incrementUsageBillingAPIKeyRateLimit_def Let_def split: option.splits)

lemma keeps_claims_account: "keeps_claims (incrementUsageBillingAccountQuota cal now i x)"
  by (rule keeps_claimsI)
    (simp add: incrementUsageBillingAccountQuota_def enqueueSchedulerOutbox_def Let_def
      split: option.splits)

lemma keeps_claims_return: "keeps_claims (billing_return a)"
  by (simp add: keeps_claims_def billing_return_def)

lemma keeps_claims_bind:
  assumes "keeps_claims m" and "\<And>a. keeps_claims (k a)"
  shows "keeps_claims (billing_bind m k)"
proof (rule keeps_claimsI)
  fix d
  have m: "dedup (snd (m d)) = dedup d" "dedup_archive (snd (m d)) = dedup_archive d"
    using assms(1) by (simp_all add: keeps_claims_def)
  have k: "dedup (snd (k a d')) = dedup d'" "dedup_archive (snd (k a d')) = dedup_archive d'"
    for a d'
    using assms(2) [of a] by (simp_all add: keeps_claims_def)
  show "dedup (snd (billing_bind m k d)) = dedup d
      \<and> dedup_archive (snd (billing_bind m k d)) = dedup_archive d"
    using m by (cases "m d") (auto simp: billing_bind_def k split: sum.splits)
qed

lemmas keeps_claims_intros =
  keeps_claims_subscription keeps_claims_deduct keeps_claims_quota keeps_claims_rate
  keeps_claims_account keeps_claims_return keeps_claims_bind

lemma keeps_claims_effects: "keeps_claims (applyUsageBillingEffects cal now cmd)"
  unfolding applyUsageBillingEffects_def
  by (intro keeps_claims_bind)
    (auto intro!: keeps_claims_intros split: option.splits prod.splits)

section \<open>One transaction\<close>

lemma hold_error_unchanged:
  assumes "applyBatchImageBalanceHold f c d = (Inl e, d')"
  shows "d' = d"
  using assms
  by (auto simp: applyBatchImageBalanceHold_def Let_def
      split: prod.splits sum.splits bool.splits if_splits)

lemma hold_not_applied_unchanged:
  assumes "applyBatchImageBalanceHold f c d = (Inr r, d')" and "\<not> h_Applied r"
  shows "d' = d"
  using assms
  by (auto simp: applyBatchImageBalanceHold_def Let_def
      split: prod.splits sum.splits bool.splits if_splits)

lemma hold_cases:
  assumes "applyBatchImageBalanceHold f c d = (res, d')"
  obtains (unchanged) "d' = d" "\<not> hold_applied res"
  | (applied) r d1 where "\<not> claimed d (TrimSpace (h_RequestID c)) (h_APIKeyID c)"
      "d1 = d\<lparr>dedup := (dedup d)((TrimSpace (h_RequestID c), h_APIKeyID c) \<mapsto>
               h_RequestFingerprint (BatchImageBalanceHoldCommand_Normalize c))\<rparr>"
      "f (BatchImageBalanceHoldCommand_Normalize c) d1 = (Inr r, d')"
      "res = Inr (r\<lparr>h_Applied := True\<rparr>)"
proof -
  let ?c = "BatchImageBalanceHoldCommand_Normalize c"
  obtain cr d1 where cl: "claimUsageBillingRequest (TrimSpace (h_RequestID c)) (h_APIKeyID c)
      (h_RequestFingerprint ?c) d = (cr, d1)" by fastforce
  show ?thesis
  proof (cases "cr = Inr True \<and> TrimSpace (h_RequestID c) \<noteq> [] \<and> (\<exists>r. fst (f ?c d1) = Inr r)")
    case True
    then obtain r where r: "f ?c d1 = (Inr r, snd (f ?c d1))" by (metis prod.collapse)
    from True cl have "claimUsageBillingRequest (TrimSpace (h_RequestID c)) (h_APIKeyID c)
        (h_RequestFingerprint ?c) d = (Inr True, d1)" by simp
    from claim_True [OF this] True cl r assms show ?thesis
      by (intro applied [of d1 r])
        (auto simp: applyBatchImageBalanceHold_def Let_def split: prod.splits)
  next
    case False
    with cl assms show ?thesis
      by (intro unchanged)
        (auto simp: applyBatchImageBalanceHold_def Let_def hold_applied_def empty_hold_result_def
          split: prod.splits sum.splits bool.splits if_splits)
  qed
qed

lemma Apply_cases:
  assumes "Apply cal now c d = (res, d')"
  obtains (unchanged) "d' = d" "\<not> usage_applied res"
  | (applied) r d1 where "\<not> claimed d (TrimSpace (RequestID c)) (APIKeyID c)"
      "d1 = d\<lparr>dedup := (dedup d)((TrimSpace (RequestID c), APIKeyID c) \<mapsto>
               RequestFingerprint (UsageBillingCommand_Normalize c))\<rparr>"
      "applyUsageBillingEffects cal now (UsageBillingCommand_Normalize c) d1 = (Inr r, d')"
      "res = Inr r"
proof -
  let ?c = "UsageBillingCommand_Normalize c"
  let ?f = "applyUsageBillingEffects cal now ?c"
  obtain cr d1 where cl: "claimUsageBillingRequest (TrimSpace (RequestID c)) (APIKeyID c)
      (RequestFingerprint ?c) d = (cr, d1)" by fastforce
  show ?thesis
  proof (cases "cr = Inr True \<and> TrimSpace (RequestID c) \<noteq> [] \<and> (\<exists>r. fst (?f d1) = Inr r)")
    case True
    then obtain r where r: "?f d1 = (Inr r, snd (?f d1))" by (metis prod.collapse)
    from True cl have "claimUsageBillingRequest (TrimSpace (RequestID c)) (APIKeyID c)
        (RequestFingerprint ?c) d = (Inr True, d1)" by simp
    from claim_True [OF this] True cl r assms show ?thesis
      by (intro applied [of d1 r]) (auto simp: Apply_def Let_def split: prod.splits)
  next
    case False
    with cl assms show ?thesis
      by (intro unchanged)
        (auto simp: Apply_def Let_def usage_applied_def empty_apply_result_def
          split: prod.splits sum.splits bool.splits if_splits)
  qed
qed

section \<open>Histories\<close>

text \<open>Once claimed, a request stays claimed.\<close>

lemma claimed_dedup_update:
  "claimed d r k \<Longrightarrow> claimed (d\<lparr>dedup := (dedup d)(x \<mapsto> f)\<rparr>) r k"
  by (auto simp: claimed_def)

lemma claimed_cong:
  "dedup d' = dedup d \<Longrightarrow> dedup_archive d' = dedup_archive d \<Longrightarrow> claimed d' r k = claimed d r k"
  by (simp add: claimed_def)

lemma hold_claims:
  assumes "applyBatchImageBalanceHold f c d = (res, d')" and "\<And>c. keeps_claims (f c)"
  shows "claimed d r k \<Longrightarrow> claimed d' r k"
    and "hold_applied res \<Longrightarrow> \<not> claimed d (TrimSpace (h_RequestID c)) (h_APIKeyID c)
           \<and> claimed d' (TrimSpace (h_RequestID c)) (h_APIKeyID c)"
proof -
  have keep: "dedup d2 = dedup d1 \<and> dedup_archive d2 = dedup_archive d1"
    if "f x d1 = (y, d2)" for x y d1 d2
    using assms(2) [of x] that by (metis keeps_claims_def snd_conv)
  show "claimed d' r k" if "claimed d r k"
    using assms(1) by (cases rule: hold_cases) (use that keep in \<open>auto simp: claimed_def\<close>)
  show "\<not> claimed d (TrimSpace (h_RequestID c)) (h_APIKeyID c)
      \<and> claimed d' (TrimSpace (h_RequestID c)) (h_APIKeyID c)" if "hold_applied res"
    using assms(1) by (cases rule: hold_cases) (use that keep in \<open>auto simp: claimed_def\<close>)
qed

lemma Apply_claims:
  assumes "Apply cal now c d = (res, d')"
  shows "claimed d r k \<Longrightarrow> claimed d' r k"
    and "usage_applied res \<Longrightarrow> \<not> claimed d (TrimSpace (RequestID c)) (APIKeyID c)
           \<and> claimed d' (TrimSpace (RequestID c)) (APIKeyID c)"
proof -
  have keep: "dedup d2 = dedup d1 \<and> dedup_archive d2 = dedup_archive d1"
    if "applyUsageBillingEffects cal now x d1 = (y, d2)" for x y d1 d2
    using keeps_claims_effects [of cal now x] that by (metis keeps_claims_def snd_conv)
  show "claimed d' r k" if "claimed d r k"
    using assms by (cases rule: Apply_cases) (use that keep in \<open>auto simp: claimed_def\<close>)
  show "\<not> claimed d (TrimSpace (RequestID c)) (APIKeyID c)
      \<and> claimed d' (TrimSpace (RequestID c)) (APIKeyID c)" if "usage_applied res"
    using assms by (cases rule: Apply_cases) (use that keep in \<open>auto simp: claimed_def\<close>)
qed

lemma claimed_cleanup: "claimed (CleanupUsageBillingDedup vs d) r k = claimed d r k"
  by (auto simp: claimed_def CleanupUsageBillingDedup_def split: option.splits)

lemma map_prod_id_eq: "map_prod f id x = (a, b) \<longleftrightarrow> (\<exists>y. x = (y, b) \<and> a = f y)"
  by (cases x) auto

lemmas hold_op_defs =
  ReserveBatchImageBalance_def CaptureBatchImageBalance_def ReleaseBatchImageBalance_def

lemmas hold_op_claims =
  hold_claims [OF _ keeps_claims_reserve] hold_claims [OF _ keeps_claims_capture]
  hold_claims [OF _ keeps_claims_release]

lemma exec_op_claims:
  assumes "exec_op cal op d = (a, d')"
  shows "claimed d r k \<Longrightarrow> claimed d' r k"
    and "a \<Longrightarrow> op_key op = Some (r, k) \<Longrightarrow> \<not> claimed d r k \<and> claimed d' r k"
proof -
  show "claimed d' r k" if "claimed d r k"
    using assms that
    by (cases op)
      (auto simp: hold_op_defs claimed_cleanup map_prod_id_eq
        dest: hold_op_claims(1,3,5) Apply_claims(1))
  show "\<not> claimed d r k \<and> claimed d' r k" if "a" "op_key op = Some (r, k)"
    using assms that
    by (cases op) (auto simp: hold_op_defs map_prod_id_eq dest: hold_op_claims(2,4,6) Apply_claims(2))
qed

text \<open>The number of transactions of a log that were applied for a key.\<close>

definition times_applied :: "string \<times> int \<Rightarrow> ((string \<times> int) option \<times> bool) list \<Rightarrow> nat" where
  "times_applied key lg = length (filter (\<lambda>(k, a). a \<and> k = Some key) lg)"

lemma times_applied_Cons [simp]:
  "times_applied key ((k, a) # lg) = (if a \<and> k = Some key then 1 else 0) + times_applied key lg"
  by (simp add: times_applied_def)

lemma times_applied_Nil [simp]: "times_applied key [] = 0"
  by (simp add: times_applied_def)

lemma times_applied_claimed:
  assumes "claimed d r k"
  shows "times_applied (r, k) (run_log cal ops d) = 0"
  using assms
proof (induction ops arbitrary: d)
  case Nil
  then show ?case by simp
next
  case (Cons op ops)
  obtain a d' where ex: "exec_op cal op d = (a, d')" by fastforce
  from exec_op_claims(1) [OF ex Cons.prems] have "claimed d' r k" .
  moreover have "\<not> (a \<and> op_key op = Some (r, k))"
    using exec_op_claims(2) [OF ex, of r k] Cons.prems by blast
  ultimately show ?case using ex Cons.IH by simp
qed

text \<open>
  C1. In any sequence of billing transactions of any clients (reservations, captures, releases,
  usage charges, in any order and with any retries, and with claims being archived in between),
  at most one transaction with a given request id and API key takes effect.
\<close>

theorem billing_applied_at_most_once:
  "times_applied (r, k) (run_log cal ops d) \<le> 1"
proof (induction ops arbitrary: d)
  case Nil
  then show ?case by simp
next
  case (Cons op ops)
  obtain a d' where ex: "exec_op cal op d = (a, d')" by fastforce
  show ?case
  proof (cases "a \<and> op_key op = Some (r, k)")
    case True
    with exec_op_claims(2) [OF ex, of r k] have "claimed d' r k" by blast
    then have "times_applied (r, k) (run_log cal ops d') = 0" by (rule times_applied_claimed)
    with ex True show ?thesis by simp
  next
    case False
    with ex Cons.IH [of d'] show ?thesis by auto
  qed
qed

section \<open>Balances\<close>

definition free_of :: "billing_db \<Rightarrow> int \<Rightarrow> usd" where
  "free_of d uid = (case users d uid of None \<Rightarrow> 0 | Some u \<Rightarrow> balance u)"

definition frozen_of :: "billing_db \<Rightarrow> int \<Rightarrow> usd" where
  "frozen_of d uid = (case users d uid of None \<Rightarrow> 0 | Some u \<Rightarrow> coalesce0 (frozen_balance u))"

text \<open>What the columns can hold: both balances have at most eight decimals.\<close>

definition ledger_ok :: "billing_db \<Rightarrow> bool" where
  "ledger_ok d \<longleftrightarrow>
     (\<forall>uid u. users d uid = Some u \<longrightarrow>
        on_scale 8 (balance u) \<and> on_scale 8 (coalesce0 (frozen_balance u)))"

lemma ledger_okD:
  assumes "ledger_ok d" and "users d uid = Some u"
  shows "on_scale 8 (balance u)" and "on_scale 8 (coalesce0 (frozen_balance u))"
  using assms by (auto simp: ledger_ok_def)

lemma balances_cong:
  assumes "users d' = users d"
  shows "free_of d' = free_of d" "frozen_of d' = frozen_of d" "ledger_ok d' = ledger_ok d"
  using assms by (auto simp: free_of_def frozen_of_def ledger_ok_def fun_eq_iff)

lemma live_user_Some: "live_user d uid = Some u \<longleftrightarrow> users d uid = Some u \<and> \<not> u_deleted u"
  by (auto simp: live_user_def split: option.splits if_splits)

lemma coalesce0_Some [simp]: "coalesce0 (Some x) = x"
  by (simp add: coalesce0_def)

lemma set_user_balances:
  assumes "users d uid = Some u" and "d' = set_user uid u' d"
  shows "free_of d' = (free_of d)(uid := balance u')"
    and "frozen_of d' = (frozen_of d)(uid := coalesce0 (frozen_balance u'))"
    and "ledger_ok d \<Longrightarrow> on_scale 8 (balance u') \<Longrightarrow> on_scale 8 (coalesce0 (frozen_balance u'))
           \<Longrightarrow> ledger_ok d'"
  using assms by (auto simp: free_of_def frozen_of_def ledger_ok_def fun_eq_iff)

lemma of_row:
  assumes "users d uid = Some u"
  shows "free_of d uid = balance u" "frozen_of d uid = coalesce0 (frozen_balance u)"
  using assms by (simp_all add: free_of_def frozen_of_def)

text \<open>How an effect moves money: the free and the frozen balance of one user change.\<close>

definition moves :: "int \<Rightarrow> usd \<Rightarrow> usd \<Rightarrow> billing_db \<Rightarrow> billing_db \<Rightarrow> bool" where
  "moves uid df dz d d' \<longleftrightarrow>
     free_of d' = (free_of d)(uid := free_of d uid + df)
     \<and> frozen_of d' = (frozen_of d)(uid := frozen_of d uid + dz) \<and> ledger_ok d'"

lemma moves_set_user:
  assumes "users d uid = Some u" and "ledger_ok d"
    and "on_scale 8 df" and "on_scale 8 dz"
    and "balance u' = balance u + df" and "coalesce0 (frozen_balance u') = coalesce0 (frozen_balance u) + dz"
  shows "moves uid df dz d (set_user uid u' d)"
  using assms set_user_balances [OF assms(1) refl, of u']
    ledger_okD [OF assms(2,1)] of_row [OF assms(1)]
  by (simp add: moves_def on_scale_plus)

lemma moves_none:
  assumes "users d' = users d" and "ledger_ok d" and "df = 0" and "dz = 0"
  shows "moves uid df dz d d'"
  using assms balances_cong [OF assms(1)] by (simp add: moves_def)

lemma moves_users_cong:
  assumes "users d1 = users d" and "moves uid df dz d1 d'"
  shows "moves uid df dz d d'"
  using assms balances_cong [OF assms(1)] by (simp add: moves_def)

lemma round_plus_scale:
  assumes "on_scale 8 x" and "on_scale 8 y"
  shows "round_scale 8 (x + y) = x + y" and "round_scale 8 (x - y) = x - y"
  using assms by (simp_all add: round_on_scale on_scale_plus on_scale_minus)

lemma reserve_moves:
  assumes "reserveUsageBillingBatchImageBalance c d = (Inr r, d')"
    and "ledger_ok d" and "on_scale 8 (h_HoldAmount c)"
  shows "moves (h_UserID c) (- max 0 (h_HoldAmount c)) (max 0 (h_HoldAmount c)) d d'"
proof (cases "h_HoldAmount c \<le> 0")
  case True
  with assms show ?thesis by (auto simp: reserveUsageBillingBatchImageBalance_def intro!: moves_none)
next
  case False
  with assms(1) obtain u where u: "users d (h_UserID c) = Some u" and
    d': "d' = set_user (h_UserID c) (u\<lparr>balance := round_scale 8 (balance u - h_HoldAmount c),
      frozen_balance := Some (round_scale 8 (coalesce0 (frozen_balance u) + h_HoldAmount c))\<rparr>) d"
    by (auto simp: reserveUsageBillingBatchImageBalance_def Let_def live_user_Some
        split: option.splits if_splits)
  from False assms(3) ledger_okD [OF assms(2) u] show ?thesis
    unfolding d'
    by (intro moves_set_user [OF u assms(2)])
      (simp_all add: round_plus_scale max_def on_scale_minus [of 8 0, simplified])
qed

lemma on_scale_uminus: "on_scale s x \<Longrightarrow> on_scale s (- x)"
  using on_scale_minus [of s 0 x] by simp

definition capture_moves_money :: "BatchImageBalanceHoldCommand \<Rightarrow> bool" where
  "capture_moves_money c \<longleftrightarrow> \<not> (h_HoldAmount c \<le> 0 \<and> h_ActualAmount c \<le> 0)"

lemma capture_shape:
  assumes "captureUsageBillingBatchImageBalance c d = (Inr r, d')"
  obtains "\<not> capture_moves_money c" and "d' = d"
  | u where "capture_moves_money c" and "users d (h_UserID c) = Some u"
      and "d' = set_user (h_UserID c) (u\<lparr>balance := round_scale 8 (balance u + (h_HoldAmount c - h_ActualAmount c)),
        frozen_balance := Some (round_scale 8 (coalesce0 (frozen_balance u) + - h_HoldAmount c))\<rparr>) d"
proof (cases "capture_moves_money c")
  case False
  with assms show thesis
    by (intro that(1)) (auto simp: captureUsageBillingBatchImageBalance_def capture_moves_money_def)
next
  case True
  let ?b = "\<lambda>u. balance u
      + (if h_HoldAmount c > h_ActualAmount c then h_HoldAmount c - h_ActualAmount c else 0)
      - (if h_ActualAmount c > h_HoldAmount c then h_ActualAmount c - h_HoldAmount c else 0)"
  have nz: "\<not> (h_HoldAmount c \<le> 0 \<and> h_ActualAmount c \<le> 0)"
    using True unfolding capture_moves_money_def by blast
  have le: "\<not> h_ActualAmount c - h_HoldAmount c > 1 / 10 ^ 8"
  proof
    assume "h_ActualAmount c - h_HoldAmount c > 1 / 10 ^ 8"
    with assms nz show False
      by (simp only: captureUsageBillingBatchImageBalance_def Let_def if_True if_False) simp
  qed
  obtain u where lu: "live_user d (h_UserID c) = Some u"
    using assms le nz
    by (cases "live_user d (h_UserID c)")
      (simp_all only: captureUsageBillingBatchImageBalance_def Let_def if_False option.case
        prod.inject sum.distinct simp_thms)
  have fr: "h_HoldAmount c \<le> coalesce0 (frozen_balance u)"
    using assms le nz lu
    by (cases "h_HoldAmount c \<le> coalesce0 (frozen_balance u)")
      (simp_all only: captureUsageBillingBatchImageBalance_def Let_def if_False option.case
        prod.inject sum.distinct simp_thms)
  have d': "d' = set_user (h_UserID c) (u\<lparr>balance := round_scale 8 (?b u),
      frozen_balance := Some (round_scale 8 (coalesce0 (frozen_balance u) - h_HoldAmount c))\<rparr>) d"
    using assms le nz lu fr
    by (simp only: captureUsageBillingBatchImageBalance_def Let_def if_False if_True option.case
        prod.inject simp_thms)
  have b: "?b u = balance u + (h_HoldAmount c - h_ActualAmount c)" by simp
  have u: "users d (h_UserID c) = Some u" using lu by (simp add: live_user_Some)
  show thesis using that(2) [OF True u] d' unfolding b by simp
qed

lemma capture_moves:
  assumes "captureUsageBillingBatchImageBalance c d = (Inr r, d')"
    and "ledger_ok d" and "on_scale 8 (h_HoldAmount c)" and "on_scale 8 (h_ActualAmount c)"
  shows "moves (h_UserID c)
           (if capture_moves_money c then h_HoldAmount c - h_ActualAmount c else 0)
           (if capture_moves_money c then - h_HoldAmount c else 0) d d'"
  using assms(1)
proof (cases rule: capture_shape)
  case 1
  then show ?thesis using assms(2) by (simp add: moves_none)
next
  case (2 u)
  from 2(1) assms(3,4) ledger_okD [OF assms(2) 2(2)] show ?thesis
    unfolding 2(3)
    by (intro moves_set_user [OF 2(2) assms(2)])
      (simp_all add: round_plus_scale on_scale_minus on_scale_uminus)
qed

definition hold_recorded :: "BatchImageBalanceHoldCommand \<Rightarrow> billing_db \<Rightarrow> bool" where
  "hold_recorded c d = claimed d (BatchImageHoldRequestID (h_BatchID c)) (h_APIKeyID c)"

lemma hold_recorded_exists:
  "batchImageHoldClaimExists d (BatchImageHoldRequestID (h_BatchID c)) (h_APIKeyID c) = hold_recorded c d"
  by (simp add: batchImageHoldClaimExists_def hold_recorded_def claimed_def)

lemma release_moves:
  assumes "releaseUsageBillingBatchImageBalance c d = (Inr r, d')"
    and "ledger_ok d" and "on_scale 8 (h_HoldAmount c)"
    and "a = (if hold_recorded c d then max 0 (h_HoldAmount c) else 0)"
  shows "moves (h_UserID c) a (- a) d d'"
proof (cases "h_HoldAmount c \<le> 0 \<or> \<not> hold_recorded c d")
  case True
  with assms show ?thesis
    by (auto simp: releaseUsageBillingBatchImageBalance_def hold_recorded_exists intro!: moves_none
        split: if_splits)
next
  case False
  with assms(1) obtain u where u: "users d (h_UserID c) = Some u" and
    d': "d' = set_user (h_UserID c) (u\<lparr>balance := round_scale 8 (balance u + h_HoldAmount c),
      frozen_balance := Some (round_scale 8 (coalesce0 (frozen_balance u) - h_HoldAmount c))\<rparr>) d"
    by (auto simp: releaseUsageBillingBatchImageBalance_def hold_recorded_exists Let_def live_user_Some
        split: option.splits if_splits)
  from assms(3) ledger_okD [OF assms(2) u]
  have "moves (h_UserID c) (h_HoldAmount c) (- h_HoldAmount c) d d'"
    unfolding d'
    by (intro moves_set_user [OF u assms(2)]) (simp_all add: round_plus_scale on_scale_uminus)
  with False assms(4) show ?thesis by simp
qed

text \<open>Effects on other tables and the deduction of usage.\<close>

lemma deduct_moves:
  assumes "deductUsageBillingBalance uid amount d = (Inr (b, ok), d')"
    and "ledger_ok d" and "on_scale 8 amount"
  shows "moves uid (- amount) 0 d d'" and "b = free_of d' uid"
    and "ok \<longleftrightarrow> 0 \<le> free_of d' uid"
proof -
  obtain u where lu: "live_user d uid = Some u"
    using assms(1) by (cases "live_user d uid") (simp_all add: deductUsageBillingBalance_def)
  then have u: "users d uid = Some u" by (simp add: live_user_Some)
  have d': "d' = set_user uid (u\<lparr>balance := b\<rparr>) d" and b: "b = round_scale 8 (balance u - amount)"
    and ok: "ok = (amount \<le> balance u)"
    using assms(1) lu by (auto simp only: deductUsageBillingBalance_def Let_def option.case prod.inject sum.inject)
  have b': "b = balance u - amount"
    using b round_plus_scale ledger_okD [OF assms(2) u] assms(3) by simp
  show "moves uid (- amount) 0 d d'"
    unfolding d' using b' assms(3) by (intro moves_set_user [OF u assms(2)]) (auto simp: on_scale_uminus)
  show "b = free_of d' uid" and "ok \<longleftrightarrow> 0 \<le> free_of d' uid"
    using d' b' ok by (auto simp: free_of_def)
qed

lemma users_of_other_effects:
  "users (snd (incrementUsageBillingSubscription i x d)) = users d"
  "users (snd (incrementUsageBillingAPIKeyQuota i x d)) = users d"
  "users (snd (incrementUsageBillingAPIKeyRateLimit cal now i x d)) = users d"
  "users (snd (incrementUsageBillingAccountQuota cal now i x d)) = users d"
  "users (snd (billing_return y d)) = users d"
  by (simp_all add: incrementUsageBillingSubscription_def incrementUsageBillingAPIKeyQuota_def
      incrementUsageBillingAPIKeyRateLimit_def incrementUsageBillingAccountQuota_def
      enqueueSchedulerOutbox_def billing_return_def Let_def split: option.splits)

definition keeps_users :: "(billing_db, 'r) statement \<Rightarrow> bool" where
  "keeps_users st \<longleftrightarrow> (\<forall>d. users (snd (st d)) = users d)"

lemma keeps_users_bind:
  assumes "keeps_users m" and "\<And>a. keeps_users (k a)"
  shows "keeps_users (billing_bind m k)"
  unfolding keeps_users_def
proof (intro allI)
  fix d
  have m: "users (snd (m d)) = users d" and k: "users (snd (k a d')) = users d'" for a d'
    using assms by (simp_all add: keeps_users_def)
  show "users (snd (billing_bind m k d)) = users d"
    using m by (cases "m d") (auto simp: billing_bind_def k split: sum.splits)
qed

lemma keeps_users_effects:
  "keeps_users (incrementUsageBillingSubscription i x)"
  "keeps_users (incrementUsageBillingAPIKeyQuota i x)"
  "keeps_users (incrementUsageBillingAPIKeyRateLimit cal now i x)"
  "keeps_users (incrementUsageBillingAccountQuota cal now i x)"
  "keeps_users (billing_return y)"
  by (simp_all add: keeps_users_def users_of_other_effects)

lemma billing_bind_Inr:
  "billing_bind m k d = (Inr r, d') \<longleftrightarrow> (\<exists>a d1. m d = (Inr a, d1) \<and> k a d1 = (Inr r, d'))"
  by (cases "m d") (auto simp: billing_bind_def split: sum.splits)

text \<open>A bind whose continuation leaves the users alone moves what its first part moves.\<close>

lemma moves_bind:
  assumes "billing_bind m k d = (Inr r, d')"
    and "\<And>a d1. m d = (Inr a, d1) \<Longrightarrow> moves uid df dz d d1"
    and "\<And>a. keeps_users (k a)"
  shows "moves uid df dz d d'"
proof -
  obtain a d1 where "m d = (Inr a, d1)" and k: "k a d1 = (Inr r, d')"
    using assms(1) by (auto simp: billing_bind_Inr)
  then have mv: "moves uid df dz d d1" using assms(2) by blast
  have "users d' = users d1" using assms(3) k by (metis keeps_users_def snd_conv)
  with mv show ?thesis using balances_cong [of d' d1] by (simp add: moves_def)
qed

lemma moves_bind_later:
  assumes "billing_bind m k d = (Inr r, d')"
    and "keeps_users m"
    and "\<And>a d1. k a d1 = (Inr r, d') \<Longrightarrow> users d1 = users d \<Longrightarrow> moves uid df dz d1 d'"
  shows "moves uid df dz d d'"
proof -
  obtain a d1 where "m d = (Inr a, d1)" and k: "k a d1 = (Inr r, d')"
    using assms(1) by (auto simp: billing_bind_Inr)
  then have u: "users d1 = users d" using assms(2) by (metis keeps_users_def snd_conv)
  with assms(3) [OF k] show ?thesis by (blast intro: moves_users_cong)
qed

lemma deduct_step_moves:
  assumes "billing_bind (deductUsageBillingBalance uid amount) (\<lambda>(b, s). billing_return (f b s)) d
      = (Inr r, d')"
    and "ledger_ok d" and "on_scale 8 amount"
  shows "moves uid (- amount) 0 d d'"
proof (rule moves_bind [OF assms(1)])
  fix a d1
  assume "deductUsageBillingBalance uid amount d = (Inr a, d1)"
  then show "moves uid (- amount) 0 d d1"
    using deduct_moves(1) assms(2,3) by (cases a) blast
next
  show "keeps_users ((\<lambda>(b, s). billing_return (f b s)) a)" for a
    by (cases a) (simp add: keeps_users_effects)
qed

lemma effects_move:
  assumes "applyUsageBillingEffects cal now cmd d = (Inr r, d')"
    and "ledger_ok d" and "on_scale 8 (BalanceCost cmd)"
  shows "moves (UserID cmd) (- max 0 (BalanceCost cmd)) 0 d d'"
  using assms(1) unfolding applyUsageBillingEffects_def
proof (rule moves_bind_later, goal_cases)
  case 1
  show ?case by (auto intro: keeps_users_effects split: option.split)
next
  case (2 a d1)
  have ok: "ledger_ok d1" using balances_cong(3) [OF 2(2)] assms(2) by blast
  show ?case
    using 2(1)
  proof (rule moves_bind, goal_cases)
    case (1 b d2)
    show ?case
    proof (cases "BalanceCost cmd > 0")
      case True
      from 1 True have "moves (UserID cmd) (- BalanceCost cmd) 0 d1 d2"
        by (simp only: if_True) (rule deduct_step_moves [OF _ ok assms(3)])
      with True show ?thesis by (simp add: max_def)
    next
      case False
      from 1 False have "d2 = d1" by (simp add: billing_return_def)
      with False ok show ?thesis by (intro moves_none) (simp_all add: max_def)
    qed
  next
    case (2 b)
    show ?case by (auto intro!: keeps_users_bind keeps_users_effects)
  qed
qed

section \<open>Whole transactions\<close>

text \<open>
  The shape shared by the hold transactions: an applied one claimed a fresh request and ran its
  effect on the ledger with the claim in it.
\<close>

lemma hold_applied_effect:
  assumes "applyBatchImageBalanceHold f c d = (res, d')" and "hold_applied res"
  obtains r d1 where "f (BatchImageBalanceHoldCommand_Normalize c) d1 = (Inr r, d')"
    and "users d1 = users d" and "\<And>r k. claimed d1 r k \<longleftrightarrow> claimed d r k
           \<or> (r, k) = (TrimSpace (h_RequestID c), h_APIKeyID c)"
  using assms(1)
proof (cases rule: hold_cases)
  case unchanged
  with assms(2) show ?thesis by simp
next
  case (applied r d1)
  from applied(3) show ?thesis
    by (rule that) (auto simp: applied(2) claimed_def)
qed

lemma Reserve_moves:
  assumes "ReserveBatchImageBalance c d = (res, d')" and "hold_applied res"
    and "ledger_ok d" and "on_scale 8 (h_HoldAmount c)"
  shows "moves (h_UserID c) (- max 0 (h_HoldAmount c)) (max 0 (h_HoldAmount c)) d d'"
proof -
  from assms(1,2) obtain r d1 where
    r: "reserveUsageBillingBatchImageBalance (BatchImageBalanceHoldCommand_Normalize c) d1 = (Inr r, d')"
    and u: "users d1 = users d"
    unfolding ReserveBatchImageBalance_def by (rule hold_applied_effect)
  have ok: "ledger_ok d1" using balances_cong(3) [OF u] assms(3) by blast
  from reserve_moves [OF r ok] assms(4) moves_users_cong [OF u] show ?thesis by simp
qed

lemma capture_moves_money_Normalize [simp]:
  "capture_moves_money (BatchImageBalanceHoldCommand_Normalize c) = capture_moves_money c"
  by (simp add: capture_moves_money_def)

lemma Capture_moves:
  assumes "CaptureBatchImageBalance c d = (res, d')" and "hold_applied res"
    and "ledger_ok d" and "on_scale 8 (h_HoldAmount c)" and "on_scale 8 (h_ActualAmount c)"
  shows "moves (h_UserID c)
           (if capture_moves_money c then h_HoldAmount c - h_ActualAmount c else 0)
           (if capture_moves_money c then - h_HoldAmount c else 0) d d'"
proof -
  from assms(1,2) obtain r d1 where
    r: "captureUsageBillingBatchImageBalance (BatchImageBalanceHoldCommand_Normalize c) d1 = (Inr r, d')"
    and u: "users d1 = users d"
    unfolding CaptureBatchImageBalance_def by (rule hold_applied_effect)
  have ok: "ledger_ok d1" using balances_cong(3) [OF u] assms(3) by blast
  from capture_moves [OF r ok] assms(4,5) show ?thesis
    by (cases "capture_moves_money c") (simp_all add: moves_users_cong [OF u])
qed

lemma hold_recorded_Normalize [simp]:
  "hold_recorded (BatchImageBalanceHoldCommand_Normalize c) d = hold_recorded c d"
  by (simp add: hold_recorded_def BatchImageHoldRequestID_def)

lemma Release_moves:
  assumes "ReleaseBatchImageBalance c d = (res, d')" and "hold_applied res"
    and "ledger_ok d" and "on_scale 8 (h_HoldAmount c)"
  shows "\<exists>a. (a = 0 \<or> a = max 0 (h_HoldAmount c)) \<and> moves (h_UserID c) a (- a) d d'"
    and "hold_recorded c d \<Longrightarrow> moves (h_UserID c) (max 0 (h_HoldAmount c)) (- max 0 (h_HoldAmount c)) d d'"
proof -
  from assms(1,2) obtain r d1 where
    r: "releaseUsageBillingBatchImageBalance (BatchImageBalanceHoldCommand_Normalize c) d1 = (Inr r, d')"
    and u: "users d1 = users d" and cl: "\<And>r k. claimed d1 r k \<longleftrightarrow> claimed d r k
           \<or> (r, k) = (TrimSpace (h_RequestID c), h_APIKeyID c)"
    unfolding ReleaseBatchImageBalance_def by (rule hold_applied_effect) blast
  have ok: "ledger_ok d1" using balances_cong(3) [OF u] assms(3) by blast
  let ?a = "if hold_recorded c d1 then max 0 (h_HoldAmount c) else 0"
  have mv: "moves (h_UserID c) ?a (- ?a) d d'"
    using release_moves [OF r ok, of ?a] assms(4) moves_users_cong [OF u]
    by (cases "hold_recorded c d1") simp_all
  then show "\<exists>a. (a = 0 \<or> a = max 0 (h_HoldAmount c)) \<and> moves (h_UserID c) a (- a) d d'"
    by (intro exI [of _ ?a]) simp
  assume "hold_recorded c d"
  then have "hold_recorded c d1" by (simp add: hold_recorded_def cl)
  with mv show "moves (h_UserID c) (max 0 (h_HoldAmount c)) (- max 0 (h_HoldAmount c)) d d'"
    by simp
qed

lemma on_scale_Quantize: "on_scale 8 (QuantizeUsageBillingAmount v)"
  by (simp add: QuantizeUsageBillingAmount_def UsageBillingMonetaryScale_def on_scale_round)

lemma Apply_moves:
  assumes "Apply cal now c d = (res, d')" and "usage_applied res" and "ledger_ok d"
  shows "moves (UserID c) (- max 0 (QuantizeUsageBillingAmount (BalanceCost c))) 0 d d'"
  using assms(1)
proof (cases rule: Apply_cases)
  case unchanged
  with assms(2) show ?thesis by simp
next
  case (applied r d1)
  have u: "users d1 = users d" by (simp add: applied(2))
  have ok: "ledger_ok d1" using balances_cong(3) [OF u] assms(3) by blast
  from effects_move [OF applied(3) ok] on_scale_Quantize moves_users_cong [OF u]
  show ?thesis by simp
qed

section \<open>Accounting\<close>

definition total_of :: "billing_db \<Rightarrow> int \<Rightarrow> usd" where
  "total_of d uid = free_of d uid + frozen_of d uid"

lemma moves_total:
  assumes "moves u df dz d d'"
  shows "total_of d' uid = total_of d uid + (if uid = u then df + dz else 0)"
  using assms by (simp add: moves_def total_of_def)

text \<open>The commands whose amounts the balance columns can hold; usage amounts are quantized.\<close>

fun op_on_scale :: "billing_op \<Rightarrow> bool" where
  "op_on_scale (Op_Reserve c) = on_scale 8 (h_HoldAmount c)"
| "op_on_scale (Op_Capture c) = (on_scale 8 (h_HoldAmount c) \<and> on_scale 8 (h_ActualAmount c))"
| "op_on_scale (Op_Release c) = on_scale 8 (h_HoldAmount c)"
| "op_on_scale (Op_Apply now c) = True"
| "op_on_scale (Op_Cleanup vs) = True"

text \<open>What a transaction charges a user when it is applied, and what a run charges.\<close>

fun op_charge :: "int \<Rightarrow> billing_op \<Rightarrow> usd" where
  "op_charge uid (Op_Capture c) =
     (if uid = h_UserID c \<and> capture_moves_money c then h_ActualAmount c else 0)"
| "op_charge uid (Op_Apply now c) =
     (if uid = UserID c then max 0 (QuantizeUsageBillingAmount (BalanceCost c)) else 0)"
| "op_charge uid op = 0"

fun run_charge :: "pg_calendar \<Rightarrow> int \<Rightarrow> billing_op list \<Rightarrow> billing_db \<Rightarrow> usd" where
  "run_charge cal uid [] d = 0"
| "run_charge cal uid (op # ops) d =
     (let (a, d') = exec_op cal op d
      in (if a then op_charge uid op else 0) + run_charge cal uid ops d')"

lemma hold_unchanged:
  assumes "applyBatchImageBalanceHold f c d = (res, d')" and "\<not> hold_applied res"
  shows "d' = d"
  using assms(1) by (cases rule: hold_cases) (use assms(2) in \<open>auto simp: hold_applied_def\<close>)

lemma effects_Applied:
  assumes "applyUsageBillingEffects cal now cmd d = (Inr r, d')"
  shows "Applied r"
  using assms unfolding applyUsageBillingEffects_def
  by (auto simp: billing_bind_Inr billing_return_def empty_apply_result_def
      split: if_splits prod.splits)

lemma Apply_unchanged:
  assumes "Apply cal now c d = (res, d')" and "\<not> usage_applied res"
  shows "d' = d"
  using assms(1)
  by (cases rule: Apply_cases) (use assms(2) effects_Applied in \<open>auto simp: usage_applied_def\<close>)

lemma exec_op_unchanged:
  assumes "exec_op cal op d = (a, d')" and "\<not> a"
  shows "users d' = users d" and "op_key op \<noteq> None \<Longrightarrow> d' = d"
proof -
  show "d' = d" if "op_key op \<noteq> None"
    using assms that
    by (cases op)
      (auto simp: hold_op_defs map_prod_id_eq dest: hold_unchanged Apply_unchanged)
  then show "users d' = users d"
    using assms by (cases op) (auto simp: CleanupUsageBillingDedup_def)
qed

lemma exec_op_total:
  assumes "exec_op cal op d = (a, d')" and "ledger_ok d" and "op_on_scale op"
  shows "ledger_ok d'"
    and "total_of d' uid = total_of d uid - (if a then op_charge uid op else 0)"
proof -
  have "ledger_ok d' \<and> total_of d' uid = total_of d uid - (if a then op_charge uid op else 0)"
  proof (cases a)
    case False
    from exec_op_unchanged(1) [OF assms(1) False] have "users d' = users d" .
    from balances_cong [OF this] False assms(2) show ?thesis by (simp add: total_of_def)
  next
    case True
    then have a: "exec_op cal op d = (True, d')" using assms(1) by simp
    show ?thesis
    proof (cases op)
      case (Op_Reserve c)
      with a obtain res where "ReserveBatchImageBalance c d = (res, d')" "hold_applied res"
        by (auto simp: map_prod_id_eq)
      from Reserve_moves [OF this assms(2)] Op_Reserve assms(3) have
        mv: "moves (h_UserID c) (- max 0 (h_HoldAmount c)) (max 0 (h_HoldAmount c)) d d'" by simp
      from moves_total [OF mv, of uid] mv Op_Reserve show ?thesis by (auto simp: moves_def)
    next
      case (Op_Capture c)
      with a obtain res where "CaptureBatchImageBalance c d = (res, d')" "hold_applied res"
        by (auto simp: map_prod_id_eq)
      from Capture_moves [OF this assms(2)] Op_Capture assms(3) have mv: "moves (h_UserID c)
           (if capture_moves_money c then h_HoldAmount c - h_ActualAmount c else 0)
           (if capture_moves_money c then - h_HoldAmount c else 0) d d'" by simp
      from moves_total [OF mv, of uid] mv True Op_Capture show ?thesis
        by (auto simp: moves_def)
    next
      case (Op_Release c)
      with a obtain res where "ReleaseBatchImageBalance c d = (res, d')" "hold_applied res"
        by (auto simp: map_prod_id_eq)
      from Release_moves(1) [OF this assms(2)] Op_Release assms(3) obtain x where
        mv: "moves (h_UserID c) x (- x) d d'" by auto
      from moves_total [OF mv, of uid] mv Op_Release show ?thesis by (auto simp: moves_def)
    next
      case (Op_Apply now c)
      with a obtain res where "Apply cal now c d = (res, d')" "usage_applied res"
        by (auto simp: map_prod_id_eq)
      from Apply_moves [OF this assms(2)] have
        mv: "moves (UserID c) (- max 0 (QuantizeUsageBillingAmount (BalanceCost c))) 0 d d'" .
      from moves_total [OF mv, of uid] mv True Op_Apply show ?thesis by (auto simp: moves_def)
    next
      case (Op_Cleanup vs)
      with a show ?thesis by simp
    qed
  qed
  then show "ledger_ok d'" and "total_of d' uid = total_of d uid - (if a then op_charge uid op else 0)"
    by blast+
qed

text \<open>
  Amounts with more decimals than the columns: every transaction is off by its two roundings at most.
\<close>

definition drifts :: "usd \<Rightarrow> int \<Rightarrow> billing_db \<Rightarrow> billing_db \<Rightarrow> bool" where
  "drifts x uid d d' \<longleftrightarrow> \<bar>total_of d' uid - (total_of d uid - x)\<bar> \<le> 1 / 10 ^ 8 \<and> ledger_ok d'"

lemma round_scale_near: "\<bar>round_scale s x - x\<bar> \<le> 1 / (2 * 10 ^ s)"
proof -
  let ?y = "\<bar>x\<bar> * 10 ^ s"
  have "\<bar>of_int \<lfloor>?y + 1 / 2\<rfloor> - ?y\<bar> \<le> 1 / 2" by linarith
  then have "\<bar>of_int \<lfloor>?y + 1 / 2\<rfloor> / 10 ^ s - \<bar>x\<bar>\<bar> \<le> 1 / (2 * 10 ^ s)"
    by (simp add: abs_le_iff field_simps)
  then show ?thesis by (cases "x = 0") (auto simp: round_scale_def sgn_if abs_if split: if_splits)
qed

lemma drift_add: "\<bar>x - a\<bar> \<le> e \<Longrightarrow> \<bar>y - b\<bar> \<le> e' \<Longrightarrow> \<bar>x + y - (a + b)\<bar> \<le> e + e'" for x :: rat
  by linarith

lemma drift_chain: "\<bar>x - (y - r)\<bar> \<le> e \<Longrightarrow> \<bar>y - (z - c)\<bar> \<le> e' \<Longrightarrow> \<bar>x - (z - (c + r))\<bar> \<le> e' + e" for x :: rat
  by linarith

lemma rounded_row_drifts:
  assumes "users d u = Some r" and "ledger_ok d" and "x + y = - c"
    and "d' = set_user u (r\<lparr>balance := round_scale 8 (balance r + x),
        frozen_balance := Some (round_scale 8 (coalesce0 (frozen_balance r) + y))\<rparr>) d"
  shows "drifts (if uid = u then c else 0) uid d d'"
proof -
  note b = set_user_balances [OF assms(1,4)] and r = of_row [OF assms(1)]
  have "ledger_ok d'" using b(3) assms(2) by (simp add: on_scale_round)
  moreover have "\<bar>total_of d' u - (total_of d u - c)\<bar> \<le> 1 / 10 ^ 8"
  proof -
    have "balance r + x + (coalesce0 (frozen_balance r) + y) = balance r + coalesce0 (frozen_balance r) - c"
      using assms(3) by (simp add: algebra_simps)
    note near = drift_add [OF round_scale_near round_scale_near, of 8 "balance r + x" 8 "coalesce0 (frozen_balance r) + y",
        unfolded this]
    then show ?thesis by (simp add: total_of_def b(1,2) r)
  qed
  ultimately show ?thesis by (cases "uid = u") (simp_all add: drifts_def total_of_def b(1,2))
qed

lemma drifts_none: "users d' = users d \<Longrightarrow> ledger_ok d \<Longrightarrow> drifts 0 uid d d'"
  using balances_cong [of d' d] by (simp add: drifts_def total_of_def)

lemma drifts_users_cong: "users d1 = users d \<Longrightarrow> drifts x uid d1 d' \<Longrightarrow> drifts x uid d d'"
  using balances_cong [of d1 d] by (simp add: drifts_def total_of_def)

lemma effects_drift:
  assumes "ledger_ok d"
  shows "reserveUsageBillingBatchImageBalance c d = (Inr r, d') \<Longrightarrow> drifts 0 uid d d'"
    and "releaseUsageBillingBatchImageBalance c d = (Inr r, d') \<Longrightarrow> drifts 0 uid d d'"
    and "captureUsageBillingBatchImageBalance c d = (Inr r, d')
      \<Longrightarrow> drifts (if uid = h_UserID c \<and> capture_moves_money c then h_ActualAmount c else 0) uid d d'"
proof -
  assume e: "reserveUsageBillingBatchImageBalance c d = (Inr r, d')"
  show "drifts 0 uid d d'"
  proof (cases "d' = d")
    case False
    then obtain u where "users d (h_UserID c) = Some u" and
      "d' = set_user (h_UserID c) (u\<lparr>balance := round_scale 8 (balance u - h_HoldAmount c),
        frozen_balance := Some (round_scale 8 (coalesce0 (frozen_balance u) + h_HoldAmount c))\<rparr>) d"
      using e by (auto simp: reserveUsageBillingBatchImageBalance_def Let_def live_user_Some split: option.splits if_splits)
    then show ?thesis using rounded_row_drifts [OF _ assms, of _ u "- h_HoldAmount c" "h_HoldAmount c" 0 d' uid] by simp
  qed (simp add: drifts_none assms)
next
  assume e: "releaseUsageBillingBatchImageBalance c d = (Inr r, d')"
  show "drifts 0 uid d d'"
  proof (cases "d' = d")
    case False
    then obtain u where "users d (h_UserID c) = Some u" and
      "d' = set_user (h_UserID c) (u\<lparr>balance := round_scale 8 (balance u + h_HoldAmount c),
        frozen_balance := Some (round_scale 8 (coalesce0 (frozen_balance u) - h_HoldAmount c))\<rparr>) d"
      using e by (auto simp: releaseUsageBillingBatchImageBalance_def Let_def live_user_Some split: option.splits if_splits)
    then show ?thesis using rounded_row_drifts [OF _ assms, of _ u "h_HoldAmount c" "- h_HoldAmount c" 0 d' uid] by simp
  qed (simp add: drifts_none assms)
next
  assume "captureUsageBillingBatchImageBalance c d = (Inr r, d')"
  then show "drifts (if uid = h_UserID c \<and> capture_moves_money c then h_ActualAmount c else 0) uid d d'"
  proof (cases rule: capture_shape)
    case (2 u)
    then show ?thesis using rounded_row_drifts [OF 2(2) assms _ 2(3), of "h_ActualAmount c" uid] by simp
  qed (simp add: drifts_none assms)
qed

lemma exec_op_drifts:
  assumes "exec_op cal op d = (a, d')" and "ledger_ok d"
  shows "drifts (if a then op_charge uid op else 0) uid d d'"
proof (cases a)
  case False
  from exec_op_unchanged(1) [OF assms(1) False] False assms(2) show ?thesis by (simp add: drifts_none)
next
  case True
  then have a: "exec_op cal op d = (True, d')" using assms(1) by simp
  have held: "drifts (op_charge uid op) uid d d'"
    if "applyBatchImageBalanceHold f c d = (res, d')" "hold_applied res"
      "\<And>d1 r. ledger_ok d1 \<Longrightarrow> f (BatchImageBalanceHoldCommand_Normalize c) d1 = (Inr r, d') \<Longrightarrow> drifts (op_charge uid op) uid d1 d'"
    for f c res
    using that(1,2)
  proof (rule hold_applied_effect)
    fix r d1
    assume "f (BatchImageBalanceHoldCommand_Normalize c) d1 = (Inr r, d')" and u: "users d1 = users d"
    then show ?thesis using that(3) drifts_users_cong [OF u] balances_cong(3) [OF u] assms(2) by blast
  qed
  have "drifts (op_charge uid op) uid d d'"
  proof (cases op)
    case (Op_Reserve c)
    with a obtain res where "ReserveBatchImageBalance c d = (res, d')" "hold_applied res"
      by (auto simp: map_prod_id_eq)
    then show ?thesis using held [of reserveUsageBillingBatchImageBalance c res] effects_drift(1) Op_Reserve
      by (simp add: ReserveBatchImageBalance_def)
  next
    case (Op_Capture c)
    with a obtain res where "CaptureBatchImageBalance c d = (res, d')" "hold_applied res"
      by (auto simp: map_prod_id_eq)
    moreover have "drifts (op_charge uid op) uid d1 d'"
      if "ledger_ok d1" "captureUsageBillingBatchImageBalance (BatchImageBalanceHoldCommand_Normalize c) d1 = (Inr r, d')"
      for d1 r
      using effects_drift(3) [OF that, of uid] Op_Capture by (cases "uid = h_UserID c \<and> capture_moves_money c") auto
    ultimately show ?thesis using held [of captureUsageBillingBatchImageBalance c res]
      by (simp add: CaptureBatchImageBalance_def)
  next
    case (Op_Release c)
    with a obtain res where "ReleaseBatchImageBalance c d = (res, d')" "hold_applied res"
      by (auto simp: map_prod_id_eq)
    then show ?thesis using held [of releaseUsageBillingBatchImageBalance c res] effects_drift(2) Op_Release
      by (simp add: ReleaseBatchImageBalance_def)
  next
    case (Op_Apply now c)
    from exec_op_total [OF a assms(2)] Op_Apply show ?thesis by (simp add: drifts_def)
  next
    case (Op_Cleanup vs)
    with a show ?thesis by simp
  qed
  then show ?thesis using True by simp
qed

text \<open>A frozen balance is never driven below zero: every effect checks it first.\<close>

definition frozen_nonneg :: "billing_db \<Rightarrow> bool" where
  "frozen_nonneg d \<longleftrightarrow> (\<forall>uid. 0 \<le> frozen_of d uid)"

lemma frozen_nonneg_users_cong: "users d1 = users d \<Longrightarrow> frozen_nonneg d1 = frozen_nonneg d"
  using balances_cong(2) [of d1 d] by (simp add: frozen_nonneg_def)

lemma frozen_nonneg_set_user:
  assumes "users d uid = Some u" and "frozen_nonneg d" and "0 \<le> coalesce0 (frozen_balance u')"
  shows "frozen_nonneg (set_user uid u' d)"
  using assms set_user_balances(2) [OF assms(1) refl, of u'] by (simp add: frozen_nonneg_def)

lemma frozen_nonneg_row:
  assumes "users d uid = Some u" and "frozen_nonneg d"
  shows "0 \<le> coalesce0 (frozen_balance u)"
  using assms(2) of_row(2) [OF assms(1)] unfolding frozen_nonneg_def by metis

lemma live_userD: "live_user d uid = Some u \<Longrightarrow> users d uid = Some u"
  by (simp add: live_user_Some)

lemma effect_frozen_nonneg:
  assumes "frozen_nonneg d"
  shows "frozen_nonneg (snd (reserveUsageBillingBatchImageBalance c d))"
    and "frozen_nonneg (snd (captureUsageBillingBatchImageBalance c d))"
    and "frozen_nonneg (snd (releaseUsageBillingBatchImageBalance c d))"
    and "frozen_nonneg (snd (deductUsageBillingBalance uid x d))"
  using assms frozen_nonneg_row [OF live_userD assms]
  by (auto simp: reserveUsageBillingBatchImageBalance_def captureUsageBillingBatchImageBalance_def
      releaseUsageBillingBatchImageBalance_def deductUsageBillingBalance_def Let_def
      split: option.split intro!: frozen_nonneg_set_user [OF live_userD] round_scale_nonneg)

lemma hold_frozen_nonneg:
  assumes "applyBatchImageBalanceHold f c d = (res, d')" and "frozen_nonneg d"
    and "\<And>c d. frozen_nonneg d \<Longrightarrow> frozen_nonneg (snd (f c d))"
  shows "frozen_nonneg d'"
proof (cases "hold_applied res")
  case False
  with assms(1,2) hold_unchanged show ?thesis by blast
next
  case True
  with assms(1) obtain r d1 where
    r: "f (BatchImageBalanceHoldCommand_Normalize c) d1 = (Inr r, d')" and u: "users d1 = users d"
    by (rule hold_applied_effect)
  from assms(2) have "frozen_nonneg d1" using frozen_nonneg_users_cong [OF u] by blast
  from assms(3) [OF this, of "BatchImageBalanceHoldCommand_Normalize c"] r show ?thesis by simp
qed

definition preserves :: "(billing_db \<Rightarrow> bool) \<Rightarrow> (billing_db, 'r) statement \<Rightarrow> bool" where
  "preserves P st \<longleftrightarrow> (\<forall>d. P d \<longrightarrow> P (snd (st d)))"

lemma preserves_bind:
  assumes "preserves P m" and "\<And>a. preserves P (k a)"
  shows "preserves P (billing_bind m k)"
  unfolding preserves_def
proof (intro allI impI)
  fix d
  assume "P d"
  then have "P (snd (m d))" using assms(1) by (simp add: preserves_def)
  moreover have "P (snd (k a d'))" if "P d'" for a d'
    using assms(2) [of a] that by (simp add: preserves_def)
  ultimately show "P (snd (billing_bind m k d))"
    by (cases "m d"; cases "fst (m d)") (simp_all add: billing_bind_def)
qed

lemma preserves_frozen:
  "keeps_users st \<Longrightarrow> preserves frozen_nonneg st"
  "preserves frozen_nonneg (deductUsageBillingBalance uid x)"
  unfolding preserves_def keeps_users_def
  using frozen_nonneg_users_cong effect_frozen_nonneg(4) by blast+

lemmas preserves_intros =
  preserves_bind preserves_frozen(2) keeps_users_effects [THEN preserves_frozen(1)]

lemma effects_frozen_nonneg: "preserves frozen_nonneg (applyUsageBillingEffects cal now cmd)"
  unfolding applyUsageBillingEffects_def
  by (intro preserves_bind) (auto intro!: preserves_intros split: option.splits prod.splits)

lemma exec_op_frozen_nonneg:
  assumes "exec_op cal op d = (a, d')" and "frozen_nonneg d"
  shows "frozen_nonneg d'"
proof (cases op)
  case (Op_Apply now c)
  with assms obtain res where ap: "Apply cal now c d = (res, d')" by (auto simp: map_prod_id_eq)
  then show ?thesis
  proof (cases rule: Apply_cases)
    case unchanged
    with assms(2) show ?thesis by simp
  next
    case (applied r d1)
    then have "users d1 = users d" by simp
    with assms(2) have "frozen_nonneg d1" using frozen_nonneg_users_cong by blast
    with effects_frozen_nonneg applied(3) show ?thesis by (metis preserves_def snd_conv)
  qed
next
  case (Op_Cleanup vs)
  with assms have "users d' = users d" by (auto simp: CleanupUsageBillingDedup_def)
  with assms(2) show ?thesis using frozen_nonneg_users_cong by blast
next
  case (Op_Reserve c)
  with assms hold_frozen_nonneg [OF _ _ effect_frozen_nonneg(1)] show ?thesis
    by (auto simp: hold_op_defs map_prod_id_eq)
next
  case (Op_Capture c)
  with assms hold_frozen_nonneg [OF _ _ effect_frozen_nonneg(2)] show ?thesis
    by (auto simp: hold_op_defs map_prod_id_eq)
next
  case (Op_Release c)
  with assms hold_frozen_nonneg [OF _ _ effect_frozen_nonneg(3)] show ?thesis
    by (auto simp: hold_op_defs map_prod_id_eq)
qed

section \<open>The ledger provides holds\<close>

definition hold_ready :: "billing_db \<Rightarrow> BatchImageBalanceHoldCommand \<Rightarrow> bool" where
  "hold_ready d c \<longleftrightarrow> live_user d (h_UserID c) \<noteq> None \<and> TrimSpace (h_RequestID c) \<noteq> []
     \<and> \<not> claimed d (TrimSpace (h_RequestID c)) (h_APIKeyID c)"

definition hold_valid :: "BatchImageBalanceHoldCommand \<Rightarrow> bool" where
  "hold_valid c \<longleftrightarrow> 0 < h_HoldAmount c \<and> on_scale 8 (h_HoldAmount c) \<and> on_scale 8 (h_ActualAmount c)"

abbreviation ledger_op where
  "ledger_op f \<equiv> (\<lambda>c d. map_prod hold_applied id (f c d))"

text \<open>A fresh, named request runs its effect on the ledger with the claim added.\<close>

lemma ready_unfold:
  assumes "hold_ready d c"
  obtains d1 where "users d1 = users d"
    and "\<And>r k. claimed d1 r k \<longleftrightarrow> claimed d r k \<or> (r, k) = (TrimSpace (h_RequestID c), h_APIKeyID c)"
    and "applyBatchImageBalanceHold f c d =
      (case f (BatchImageBalanceHoldCommand_Normalize c) d1 of
         (Inl e, _) \<Rightarrow> (Inl e, d) | (Inr r, d2) \<Rightarrow> (Inr (r\<lparr>h_Applied := True\<rparr>), d2))"
proof -
  let ?c = "BatchImageBalanceHoldCommand_Normalize c"
  let ?d1 = "d\<lparr>dedup := (dedup d)((TrimSpace (h_RequestID c), h_APIKeyID c)
       \<mapsto> h_RequestFingerprint ?c)\<rparr>"
  have cl: "claimUsageBillingRequest (TrimSpace (h_RequestID c)) (h_APIKeyID c)
      (h_RequestFingerprint ?c) d = (Inr True, ?d1)"
    using assms by (simp add: claimUsageBillingRequest_def hold_ready_def claimed_def Let_def)
  have "applyBatchImageBalanceHold f c d =
      (case f ?c ?d1 of
         (Inl e, _) \<Rightarrow> (Inl e, d) | (Inr r, d2) \<Rightarrow> (Inr (r\<lparr>h_Applied := True\<rparr>), d2))"
    using assms cl by (simp add: applyBatchImageBalanceHold_def hold_ready_def Let_def)
  moreover have "claimed ?d1 r k \<longleftrightarrow> claimed d r k \<or> (r, k) = (TrimSpace (h_RequestID c), h_APIKeyID c)"
    for r k by (auto simp: claimed_def)
  ultimately show ?thesis by (intro that [of ?d1]) simp_all
qed

lemma ready_applied:
  assumes "hold_ready d c"
    and "\<And>d1. users d1 = users d \<Longrightarrow> \<exists>r. fst (f (BatchImageBalanceHoldCommand_Normalize c) d1) = Inr r"
  shows "hold_applied (fst (applyBatchImageBalanceHold f c d))"
  using assms(1)
proof (rule ready_unfold [where f = f])
  fix d1
  assume u: "users d1 = users d" and ap: "applyBatchImageBalanceHold f c d =
      (case f (BatchImageBalanceHoldCommand_Normalize c) d1 of
         (Inl e, _) \<Rightarrow> (Inl e, d) | (Inr r, d2) \<Rightarrow> (Inr (r\<lparr>h_Applied := True\<rparr>), d2))"
  obtain r d2 where "f (BatchImageBalanceHoldCommand_Normalize c) d1 = (Inr r, d2)"
    using assms(2) [OF u] by (metis prod.collapse)
  with ap show ?thesis by (simp add: hold_applied_def)
qed

lemma ready_failed:
  assumes "hold_ready d c"
    and "\<And>d1. users d1 = users d \<Longrightarrow> (\<And>r k. claimed d r k \<Longrightarrow> claimed d1 r k)
      \<Longrightarrow> fst (f (BatchImageBalanceHoldCommand_Normalize c) d1) = Inl e"
  shows "fst (applyBatchImageBalanceHold f c d) = Inl e"
  using assms(1)
proof (rule ready_unfold [where f = f])
  fix d1
  assume u: "users d1 = users d" and ap: "applyBatchImageBalanceHold f c d =
      (case f (BatchImageBalanceHoldCommand_Normalize c) d1 of
         (Inl e, _) \<Rightarrow> (Inl e, d) | (Inr r, d2) \<Rightarrow> (Inr (r\<lparr>h_Applied := True\<rparr>), d2))"
    and cl: "\<And>r k. claimed d1 r k \<longleftrightarrow> claimed d r k \<or> (r, k) = (TrimSpace (h_RequestID c), h_APIKeyID c)"
  have "fst (f (BatchImageBalanceHoldCommand_Normalize c) d1) = Inl e"
    using cl by (intro assms(2) [OF u]) simp
  then obtain d2 where "f (BatchImageBalanceHoldCommand_Normalize c) d1 = (Inl e, d2)"
    by (metis prod.collapse)
  with ap show ?thesis by simp
qed

lemma live_user_cong: "users d1 = users d \<Longrightarrow> live_user d1 uid = live_user d uid"
  by (simp add: live_user_def)

lemma capture_succeeds:
  assumes "live_user d (h_UserID c) \<noteq> None" and "h_HoldAmount c \<le> frozen_of d (h_UserID c)"
    and "h_ActualAmount c \<le> h_HoldAmount c"
  shows "\<exists>r. fst (captureUsageBillingBatchImageBalance c d) = Inr r"
proof -
  obtain u where lu: "live_user d (h_UserID c) = Some u" using assms(1) by blast
  have "h_HoldAmount c \<le> coalesce0 (frozen_balance u)"
    using assms(2) of_row(2) [OF live_userD [OF lu]] by metis
  moreover have "\<not> 1 / 10 ^ 8 < h_ActualAmount c - h_HoldAmount c"
  proof
    assume "1 / 10 ^ 8 < h_ActualAmount c - h_HoldAmount c"
    moreover have "0 \<le> (1 / 10 ^ 8 :: rat)" by simp
    ultimately show False using assms(3) by linarith
  qed
  ultimately show ?thesis
    using lu unfolding captureUsageBillingBatchImageBalance_def Let_def
    by (simp only: if_True if_False option.case fst_conv split: if_split) blast
qed

lemma release_succeeds:
  assumes "live_user d (h_UserID c) \<noteq> None" and "h_HoldAmount c \<le> frozen_of d (h_UserID c)"
  shows "\<exists>r. fst (releaseUsageBillingBatchImageBalance c d) = Inr r"
proof -
  obtain u where lu: "live_user d (h_UserID c) = Some u" using assms(1) by blast
  have "h_HoldAmount c \<le> coalesce0 (frozen_balance u)"
    using assms(2) of_row(2) [OF live_userD [OF lu]] by metis
  then show ?thesis
    using lu by (simp add: releaseUsageBillingBatchImageBalance_def Let_def)
qed

lemma reserve_covered:
  assumes "reserveUsageBillingBatchImageBalance c d = (Inr r, d')" and "0 < h_HoldAmount c"
  shows "h_HoldAmount c \<le> free_of d (h_UserID c)"
  using assms
  by (auto simp: reserveUsageBillingBatchImageBalance_def live_user_Some free_of_def Let_def
      split: option.splits if_splits)

lemma Reserve_covered:
  assumes "ReserveBatchImageBalance c d = (res, d')" and "hold_applied res" and "0 < h_HoldAmount c"
  shows "h_HoldAmount c \<le> free_of d (h_UserID c)"
proof -
  from assms(1,2) obtain r d1 where
    r: "reserveUsageBillingBatchImageBalance (BatchImageBalanceHoldCommand_Normalize c) d1 = (Inr r, d')"
    and u: "users d1 = users d"
    unfolding ReserveBatchImageBalance_def by (rule hold_applied_effect)
  from reserve_covered [OF r] assms(3) balances_cong(1) [OF u] show ?thesis by simp
qed

lemma Reserve_law:
  assumes "ReserveBatchImageBalance c d = (res, d')" and "hold_applied res"
    and "ledger_ok d" and "hold_valid c"
  shows "ledger_ok d'
    \<and> free_of d' = (free_of d)(h_UserID c := free_of d (h_UserID c) - h_HoldAmount c)
    \<and> frozen_of d' = (frozen_of d)(h_UserID c := frozen_of d (h_UserID c) + h_HoldAmount c)
    \<and> h_HoldAmount c \<le> free_of d (h_UserID c)"
  using Reserve_moves [OF assms(1-3)] Reserve_covered [OF assms(1,2)] assms(4)
  by (simp add: moves_def hold_valid_def)

lemma Capture_law:
  assumes "CaptureBatchImageBalance c d = (res, d')" and "hold_applied res"
    and "ledger_ok d" and "hold_valid c"
  shows "ledger_ok d'
    \<and> free_of d' = (free_of d)(h_UserID c := free_of d (h_UserID c) + (h_HoldAmount c - h_ActualAmount c))
    \<and> frozen_of d' = (frozen_of d)(h_UserID c := frozen_of d (h_UserID c) - h_HoldAmount c)"
  using Capture_moves [OF assms(1-3)] assms(4)
  by (simp add: moves_def hold_valid_def capture_moves_money_def)

lemma Release_law:
  assumes "ReleaseBatchImageBalance c d = (res, d')" and "hold_applied res"
    and "ledger_ok d" and "hold_valid c" and "hold_recorded c d"
  shows "ledger_ok d'
    \<and> free_of d' = (free_of d)(h_UserID c := free_of d (h_UserID c) + h_HoldAmount c)
    \<and> frozen_of d' = (frozen_of d)(h_UserID c := frozen_of d (h_UserID c) - h_HoldAmount c)"
  using Release_moves(2) [OF assms(1-3)] assms(4,5) by (simp add: moves_def hold_valid_def)

lemma Capture_possible:
  assumes "hold_ready d c" and "h_HoldAmount c \<le> frozen_of d (h_UserID c)"
    and "h_ActualAmount c \<le> h_HoldAmount c"
  shows "hold_applied (fst (CaptureBatchImageBalance c d))"
  unfolding CaptureBatchImageBalance_def
proof (rule ready_applied [OF assms(1)])
  fix d1 :: billing_db
  assume u: "users d1 = users d"
  show "\<exists>r. fst (captureUsageBillingBatchImageBalance (BatchImageBalanceHoldCommand_Normalize c) d1)
      = Inr r"
    using assms live_user_cong [OF u] balances_cong(2) [OF u]
    by (intro capture_succeeds) (simp_all add: hold_ready_def)
qed

lemma Release_possible:
  assumes "hold_ready d c" and "h_HoldAmount c \<le> frozen_of d (h_UserID c)"
  shows "hold_applied (fst (ReleaseBatchImageBalance c d))"
  unfolding ReleaseBatchImageBalance_def
proof (rule ready_applied [OF assms(1)])
  fix d1 :: billing_db
  assume u: "users d1 = users d"
  show "\<exists>r. fst (releaseUsageBillingBatchImageBalance (BatchImageBalanceHoldCommand_Normalize c) d1)
      = Inr r"
    using assms live_user_cong [OF u] balances_cong(2) [OF u]
    by (intro release_succeeds) (simp_all add: hold_ready_def)
qed

interpretation ledger: balance_holds
  "ledger_op ReserveBatchImageBalance" "ledger_op CaptureBatchImageBalance"
  "ledger_op ReleaseBatchImageBalance" h_UserID h_HoldAmount h_ActualAmount
  free_of frozen_of ledger_ok hold_valid "\<lambda>d c. hold_recorded c d" hold_ready
proof (unfold_locales, goal_cases)
  case (1 c)
  then show ?case by (simp add: hold_valid_def)
next
  case (2 c d d')
  then show ?case by (auto simp: map_prod_id_eq hold_op_defs dest: hold_unchanged)
next
  case (3 c d d')
  then show ?case by (auto simp: map_prod_id_eq hold_op_defs dest: hold_unchanged)
next
  case (4 c d d')
  then show ?case by (auto simp: map_prod_id_eq hold_op_defs dest: hold_unchanged)
next
  case (5 c d d')
  then show ?case using Reserve_law by (auto simp: map_prod_id_eq)
next
  case (6 c d d')
  then show ?case using Capture_law by (auto simp: map_prod_id_eq)
next
  case (7 c d d')
  then show ?case using Release_law by (auto simp: map_prod_id_eq)
next
  case (8 d c)
  then show ?case using Capture_possible by simp
next
  case (9 d c)
  then show ?case using Release_possible by simp
qed

text \<open>
  The histories of the batch-image service: only open holds are captured or released, a hold
  is released only after its reservation was recorded, and usage charges and archiving come in
  between. The multiset holds the open holds.
\<close>

inductive hold_history :: "pg_calendar \<Rightarrow> billing_db \<Rightarrow> hold multiset \<Rightarrow> bool" for cal where
  start: "ledger_ok d \<Longrightarrow> (\<And>uid. frozen_of d uid = 0) \<Longrightarrow> hold_history cal d {#}"
| reserve: "hold_history cal d H \<Longrightarrow> hold_valid c \<Longrightarrow> exec_op cal (Op_Reserve c) d = (a, d')
    \<Longrightarrow> hold_history cal d' (if a then add_mset (h_UserID c, h_HoldAmount c) H else H)"
| capture: "hold_history cal d H \<Longrightarrow> hold_valid c \<Longrightarrow> (h_UserID c, h_HoldAmount c) \<in># H
    \<Longrightarrow> exec_op cal (Op_Capture c) d = (a, d')
    \<Longrightarrow> hold_history cal d' (if a then H - {#(h_UserID c, h_HoldAmount c)#} else H)"
| release: "hold_history cal d H \<Longrightarrow> hold_valid c \<Longrightarrow> (h_UserID c, h_HoldAmount c) \<in># H
    \<Longrightarrow> hold_recorded c d \<Longrightarrow> exec_op cal (Op_Release c) d = (a, d')
    \<Longrightarrow> hold_history cal d' (if a then H - {#(h_UserID c, h_HoldAmount c)#} else H)"
| charge: "hold_history cal d H \<Longrightarrow> exec_op cal (Op_Apply now u) d = (a, d')
    \<Longrightarrow> hold_history cal d' H"
| archive: "hold_history cal d H \<Longrightarrow> exec_op cal (Op_Cleanup vs) d = (a, d')
    \<Longrightarrow> hold_history cal d' H"

lemma other_op_frozen:
  assumes "exec_op cal op d = (a, d')" and "ledger_ok d"
    and "op = Op_Apply now u \<or> op = Op_Cleanup vs"
  shows "frozen_of d' = frozen_of d \<and> ledger_ok d'"
proof (cases a)
  case False
  from exec_op_unchanged(1) [OF assms(1) False] assms(2) balances_cong [of d' d]
  show ?thesis by blast
next
  case True
  with assms(1,3) obtain res where "Apply cal now u d = (res, d')" "usage_applied res"
    by (auto simp: map_prod_id_eq)
  from Apply_moves [OF this assms(2)] show ?thesis by (simp add: moves_def)
qed

lemma hold_history_backed:
  assumes "hold_history cal d H"
  shows "backs frozen_of d H \<and> ledger_ok d"
  using assms
proof induction
  case (start d)
  then show ?case by (simp add: backs_def)
next
  case (reserve d H c a d')
  with ledger.backs_reserve [of d H c a d'] show ?case by simp
next
  case (capture d H c a d')
  with ledger.backs_capture [of d H c a d'] show ?case by simp
next
  case (release d H c a d')
  with ledger.backs_release [of d H c a d'] show ?case by simp
next
  case (charge d H now u a d')
  with other_op_frozen [OF charge.hyps(2)] show ?case by (auto simp: backs_def)
next
  case (archive d H vs a d')
  with other_op_frozen [OF archive.hyps(2)] show ?case by (auto simp: backs_def)
qed

section \<open>Holds below the scale of the balance columns\<close>

lemma capture_insufficient:
  assumes "live_user d (h_UserID c) = Some u" and "coalesce0 (frozen_balance u) < h_HoldAmount c"
    and "0 < h_HoldAmount c" and "h_ActualAmount c \<le> h_HoldAmount c"
  shows "fst (captureUsageBillingBatchImageBalance c d) = Inl ErrFrozenInsufficient"
proof -
  have "\<not> 1 / 10 ^ 8 < h_ActualAmount c - h_HoldAmount c"
  proof
    assume "1 / 10 ^ 8 < h_ActualAmount c - h_HoldAmount c"
    moreover have "0 \<le> (1 / 10 ^ 8 :: rat)" by simp
    ultimately show False using assms(4) by linarith
  qed
  moreover have "\<not> (h_HoldAmount c \<le> 0 \<and> h_ActualAmount c \<le> 0)" using assms(3) by simp
  moreover have "\<not> h_HoldAmount c \<le> coalesce0 (frozen_balance u)" using assms(2) by simp
  ultimately show ?thesis
    using assms(1) unfolding captureUsageBillingBatchImageBalance_def Let_def
    by (simp only: if_False option.case fst_conv)
qed

lemma release_insufficient:
  assumes "live_user d (h_UserID c) = Some u" and "coalesce0 (frozen_balance u) < h_HoldAmount c"
    and "0 < h_HoldAmount c" and "hold_recorded c d"
  shows "fst (releaseUsageBillingBatchImageBalance c d) = Inl ErrFrozenInsufficient"
  using assms by (simp add: releaseUsageBillingBatchImageBalance_def hold_recorded_exists Let_def)

lemma Reserve_row:
  assumes "live_user d (h_UserID c) = Some u" and "0 < h_HoldAmount c" and "h_HoldAmount c \<le> balance u"
    and "hold_ready d c" and "ReserveBatchImageBalance c d = (res, d1)"
  shows "hold_applied res \<and> (\<exists>u1. live_user d1 (h_UserID c) = Some u1
    \<and> coalesce0 (frozen_balance u1) = round_scale 8 (coalesce0 (frozen_balance u) + h_HoldAmount c))"
  using assms(4)
proof (rule ready_unfold [where f = reserveUsageBillingBatchImageBalance])
  fix d0
  assume u: "users d0 = users d" and ap: "applyBatchImageBalanceHold reserveUsageBillingBatchImageBalance c d =
      (case reserveUsageBillingBatchImageBalance (BatchImageBalanceHoldCommand_Normalize c) d0 of
         (Inl e, _) \<Rightarrow> (Inl e, d) | (Inr r, d2) \<Rightarrow> (Inr (r\<lparr>h_Applied := True\<rparr>), d2))"
  have lu: "live_user d0 (h_UserID c) = Some u" using assms(1) live_user_cong [OF u] by simp
  have "\<not> u_deleted u" using assms(1) by (simp add: live_user_Some)
  with ap lu assms(2,3,5) show ?thesis
    by (auto simp: reserveUsageBillingBatchImageBalance_def ReserveBatchImageBalance_def
        hold_applied_def Let_def live_user_Some)
qed

section \<open>A small ledger\<close>

text \<open>One user with ten dollars and one batch: the inputs of the witnesses.\<close>

definition sample_cal :: pg_calendar where
  "sample_cal = \<lparr>trunc_day = (\<lambda>t. t), next_daily_reset = (\<lambda>_ _. None),
                 next_weekly_reset = (\<lambda>_ _. None)\<rparr>"

definition sample_db :: billing_db where
  "sample_db = \<lparr>users = [1 \<mapsto> \<lparr>balance = 10, frozen_balance = None, u_deleted = False\<rparr>],
     api_keys = Map.empty, subscriptions = Map.empty, accounts = Map.empty, dedup = Map.empty,
     dedup_archive = Map.empty, outbox = []\<rparr>"

definition sample_cmd :: "string \<Rightarrow> usd \<Rightarrow> usd \<Rightarrow> BatchImageBalanceHoldCommand" where
  "sample_cmd rid h a = \<lparr>h_RequestID = rid, h_APIKeyID = 7, h_RequestFingerprint = ''f'',
     h_RequestPayloadHash = '''', h_UserID = 1, h_BatchID = ''b'', h_HoldAmount = h,
     h_ActualAmount = a\<rparr>"

abbreviation sample_reserve :: "usd \<Rightarrow> BatchImageBalanceHoldCommand" where
  "sample_reserve h \<equiv> sample_cmd ''batch_image_hold:b'' h 0"

lemmas sample_simps =
  sample_db_def sample_cmd_def live_user_def claimUsageBillingRequest_def
  applyBatchImageBalanceHold_def BatchImageBalanceHoldCommand_Normalize_def hold_op_defs
  reserveUsageBillingBatchImageBalance_def captureUsageBillingBatchImageBalance_def
  releaseUsageBillingBatchImageBalance_def coalesce0_def TrimSpace_visible visible_def Let_def
  hold_applied_def hold_ready_def hold_recorded_def claimed_def BatchImageHoldRequestID_def
  batchImageHoldRequestPrefix_def

text \<open>The ledger after the reservation of one dollar.\<close>

definition sample_db1 :: billing_db where
  "sample_db1 = sample_db\<lparr>
     users := [1 \<mapsto> \<lparr>balance = 9, frozen_balance = Some 1, u_deleted = False\<rparr>],
     dedup := [(''batch_image_hold:b'', 7) \<mapsto> ''f'']\<rparr>"

lemma sample_reserved:
  "ReserveBatchImageBalance (sample_reserve 1) sample_db
     = (Inr \<lparr>h_Applied = True, h_NewBalance = Some 9, h_FrozenBalance = Some 1\<rparr>, sample_db1)"
  by (simp add: sample_simps sample_db1_def round_on_scale on_scale_def)

lemma sample_exec: "exec_op sample_cal (Op_Reserve (sample_reserve 1)) sample_db = (True, sample_db1)"
  by (simp add: sample_reserved hold_applied_def)

lemma sample_cmd_sels [simp]:
  "h_UserID (sample_cmd rid h a) = 1" "h_HoldAmount (sample_cmd rid h a) = h"
  "h_ActualAmount (sample_cmd rid h a) = a"
  by (simp_all add: sample_cmd_def)

lemma sample_ledger_ok: "ledger_ok sample_db"
  by (simp add: ledger_ok_def sample_db_def on_scale_def coalesce0_def)

lemma sample_frozen: "frozen_of sample_db uid = 0"
  by (simp add: frozen_of_def sample_db_def coalesce0_def)

lemma sample_reserve_valid: "hold_valid (sample_reserve 1)"
  by (simp add: hold_valid_def sample_cmd_def on_scale_def)

section \<open>Properties of the ledger\<close>

lemma accounting_exact:
  assumes "ledger_ok d" and "list_all op_on_scale ops"
  shows "total_of (run_ops cal ops d) uid = total_of d uid - run_charge cal uid ops d"
  using assms
proof (induction ops arbitrary: d)
  case Nil
  then show ?case by simp
next
  case (Cons op ops)
  obtain a d' where ex: "exec_op cal op d = (a, d')" by fastforce
  from Cons.prems have op: "op_on_scale op" by simp
  note step = exec_op_total [OF ex Cons.prems(1) op]
  from Cons.IH [OF step(1)] Cons.prems(2) step(2) [of uid] ex show ?case by simp
qed

lemma accounting_rounded:
  assumes "ledger_ok d"
  shows "\<bar>total_of (run_ops cal ops d) uid - (total_of d uid - run_charge cal uid ops d)\<bar>
    \<le> of_nat (length ops) / 10 ^ 8"
  using assms
proof (induction ops arbitrary: d)
  case Nil
  then show ?case by simp
next
  case (Cons op ops)
  obtain a d' where ex: "exec_op cal op d = (a, d')" by fastforce
  note step = exec_op_drifts [OF ex Cons.prems, of uid, unfolded drifts_def]
  have "\<bar>total_of (run_ops cal ops d') uid - (total_of d' uid - run_charge cal uid ops d')\<bar> \<le> of_nat (length ops) / 10 ^ 8"
    using Cons.IH step by blast
  from drift_chain [OF this conjunct1 [OF step]] ex show ?case by (simp add: add_divide_distrib)
qed

text \<open>
  C2. Accounting of any history. Starting from balances the columns can hold, what a user owns (the free
  plus the frozen balance) is at every moment what it was at the start less the captured amounts and the
  (quantized) usage charges of the transactions that were applied, up to a hundred-millionth for every
  transaction; and exactly that when the amounts held and captured have at most the eight decimals of the
  columns. Reservations, releases, failed, lost and repeated transactions neither create nor destroy money.
\<close>

theorem ledger_accounting:
  assumes "ledger_ok d"
  shows "\<bar>total_of (run_ops cal ops d) uid - (total_of d uid - run_charge cal uid ops d)\<bar>
      \<le> of_nat (length ops) / 10 ^ 8
    \<and> (list_all op_on_scale ops \<longrightarrow> total_of (run_ops cal ops d) uid = total_of d uid - run_charge cal uid ops d)"
  using accounting_rounded [OF assms] accounting_exact [OF assms] by blast

lemma ledger_accounting_witness:
  "total_of (run_ops sample_cal [Op_Reserve (sample_reserve 1), Op_Capture (sample_cmd ''c'' 1 (1/2))]
     sample_db) 1
   = 19 / 2"
proof -
  have "fst (CaptureBatchImageBalance (sample_cmd ''c'' 1 (1/2)) sample_db1)
      = Inr \<lparr>h_Applied = True, h_NewBalance = Some (19/2), h_FrozenBalance = Some 0\<rparr>"
    by (simp add: sample_simps sample_db1_def round_on_scale on_scale_def)
  then have "run_charge sample_cal 1
      [Op_Reserve (sample_reserve 1), Op_Capture (sample_cmd ''c'' 1 (1/2))] sample_db = 1 / 2"
    by (cases "CaptureBatchImageBalance (sample_cmd ''c'' 1 (1/2)) sample_db1")
      (simp add: sample_reserved hold_applied_def capture_moves_money_def)
  moreover have "total_of sample_db 1 = 10"
    by (simp add: total_of_def free_of_def frozen_of_def sample_db_def coalesce0_def)
  ultimately show ?thesis
    using ledger_accounting [of sample_db
        sample_cal "[Op_Reserve (sample_reserve 1), Op_Capture (sample_cmd ''c'' 1 (1/2))]" 1]
      sample_ledger_ok
    by (simp add: on_scale_def)
qed

text \<open>
  A transaction that reports an error, or that the request had been applied before, changes
  nothing at all: not the balances, not the quotas, and not the claims.
\<close>

theorem billing_failure_leaves_no_trace:
  assumes "exec_op cal op d = (False, d')" and "op_key op \<noteq> None"
  shows "d' = d"
  using exec_op_unchanged(2) [OF assms(1)] assms(2) by blast

lemma billing_failure_leaves_no_trace_witness:
  "snd (ReserveBatchImageBalance (sample_reserve 11) sample_db) = sample_db"
proof -
  have "\<not> hold_applied (fst (ReserveBatchImageBalance (sample_reserve 11) sample_db))"
    by (simp add: sample_simps)
  then have "exec_op sample_cal (Op_Reserve (sample_reserve 11)) sample_db
      = (False, snd (ReserveBatchImageBalance (sample_reserve 11) sample_db))"
    by (cases "ReserveBatchImageBalance (sample_reserve 11) sample_db") simp
  from billing_failure_leaves_no_trace [OF this] show ?thesis by simp
qed

text \<open>
  C3. No history drives a frozen balance below zero, whatever amounts the holds have and in
  whatever order they are reserved, captured and released.
\<close>

theorem frozen_balance_never_negative:
  assumes "\<forall>uid. 0 \<le> frozen_of d uid"
  shows "0 \<le> frozen_of (run_ops cal ops d) uid"
proof -
  have "frozen_nonneg d \<Longrightarrow> frozen_nonneg (run_ops cal ops d)"
  proof (induction ops arbitrary: d)
    case (Cons op ops)
    obtain a d' where ex: "exec_op cal op d = (a, d')" by fastforce
    from Cons.IH [OF exec_op_frozen_nonneg [OF ex Cons.prems]] ex show ?case by simp
  qed simp
  with assms show ?thesis by (simp add: frozen_nonneg_def)
qed

lemma frozen_balance_never_negative_witness:
  "0 \<le> frozen_of (run_ops sample_cal [Op_Reserve (sample_reserve 1),
       Op_Release (sample_cmd ''r'' 1 0), Op_Release (sample_cmd ''r2'' 1 0)] sample_db) 1"
  by (rule frozen_balance_never_negative) (simp add: sample_frozen)

text \<open>
  C4. The frozen balance of every user is exactly the total of the open holds, in every history
  in which the service settles only holds it has open, with any usage charges, failures, lost
  answers and archiving in between. The balances at the start and all amounts have at most the eight
  decimals of the columns, and nothing is frozen at the start.
\<close>

theorem frozen_balance_is_open_holds:
  assumes "hold_history cal d H"
  shows "frozen_of d uid = open_amount H uid"
  using hold_history_backed [OF assms] by (simp add: backs_def)

lemma sample_history: "hold_history sample_cal sample_db1 {#(1, 1)#}"
proof -
  have "hold_history sample_cal sample_db {#}"
    by (rule hold_history.start) (rule sample_ledger_ok sample_frozen)+
  from hold_history.reserve [OF this sample_reserve_valid sample_exec] show ?thesis
    by (simp add: sample_cmd_def)
qed

lemma frozen_balance_is_open_holds_witness: "frozen_of sample_db1 1 = 1"
  using frozen_balance_is_open_holds [OF sample_history, of 1] by simp

text \<open>
  C5. In such a history an open hold can always be settled: capturing it for at most its amount,
  or releasing it, is applied as soon as the request is a fresh one of a user that exists; it
  never fails for want of frozen balance. As in C4 all amounts have at most eight decimals; the lemma
  unquantized_hold_never_settles shows what happens to others.
\<close>

theorem open_hold_can_be_settled:
  assumes "hold_history cal d H" and "(h_UserID c, h_HoldAmount c) \<in># H"
    and "hold_valid c" and "hold_ready d c" and "h_ActualAmount c \<le> h_HoldAmount c"
  shows "fst (exec_op cal (Op_Capture c) d) \<and> fst (exec_op cal (Op_Release c) d)"
  using ledger.open_hold_settles [OF _ _ assms(3,4,2)] hold_history_backed [OF assms(1)] assms(5)
  by simp

lemma open_hold_can_be_settled_witness:
  "fst (exec_op sample_cal (Op_Capture (sample_cmd ''c'' 1 (1/2))) sample_db1)"
proof -
  have "hold_ready sample_db1 (sample_cmd ''c'' 1 (1/2))"
    by (simp add: sample_simps sample_db1_def)
  moreover have "hold_valid (sample_cmd ''c'' 1 (1/2))"
    by (simp add: hold_valid_def sample_cmd_def on_scale_def)
  ultimately show ?thesis
    using open_hold_can_be_settled [OF sample_history, of "sample_cmd ''c'' 1 (1/2)"]
    by (simp add: sample_cmd_def)
qed

text \<open>
  A hold whose amount has more decimals than the balance columns keep, and that rounds down,
  is reserved but can be neither captured nor released while the user has no other hold: both
  transactions fail with the frozen balance being insufficient, at every attempt.
\<close>

theorem unquantized_hold_never_settles:
  assumes "live_user d (h_UserID c) = Some u" and "coalesce0 (frozen_balance u) = 0"
    and "0 < h_HoldAmount c" and "h_HoldAmount c \<le> balance u"
    and "round_scale 8 (h_HoldAmount c) < h_HoldAmount c" and "hold_ready d c"
    and "ReserveBatchImageBalance c d = (res, d1)"
    and "h_UserID c' = h_UserID c" and "h_HoldAmount c' = h_HoldAmount c"
    and "h_ActualAmount c' \<le> h_HoldAmount c'" and "hold_ready d1 c'" and "hold_recorded c' d1"
  shows "hold_applied res \<and> fst (CaptureBatchImageBalance c' d1) = Inl ErrFrozenInsufficient
    \<and> fst (ReleaseBatchImageBalance c' d1) = Inl ErrFrozenInsufficient"
proof -
  from Reserve_row [OF assms(1,3,4,6,7)] obtain u1 where ap: "hold_applied res"
    and u1: "live_user d1 (h_UserID c') = Some u1"
    and lt: "coalesce0 (frozen_balance u1) < h_HoldAmount c'"
    using assms(2,5,8,9) by auto
  have lu: "live_user d2 (h_UserID c') = Some u1" if "users d2 = users d1" for d2 :: billing_db
    using u1 live_user_cong [OF that] by simp
  have "fst (CaptureBatchImageBalance c' d1) = Inl ErrFrozenInsufficient"
    unfolding CaptureBatchImageBalance_def using assms(3,9,10) lu lt
    by (intro ready_failed [OF assms(11)] capture_insufficient [where u = u1]) simp_all
  moreover have "fst (ReleaseBatchImageBalance c' d1) = Inl ErrFrozenInsufficient"
    unfolding ReleaseBatchImageBalance_def using assms(3,9,12) lu lt
    by (intro ready_failed [OF assms(11)] release_insufficient [where u = u1])
      (simp_all add: hold_recorded_def BatchImageHoldRequestID_def)
  ultimately show ?thesis using ap by blast
qed

text \<open>The smallest unit the columns keep is \<open>10^-8\<close>; the hold below has four units of \<open>10^-9\<close> more.\<close>

abbreviation sub_scale :: usd where "sub_scale \<equiv> 1000000004 / 10 ^ 9"

lemma sub_scale_rounds: "round_scale 8 sub_scale = 1" "round_scale 8 (10 - sub_scale) = 9"
  by (simp_all add: round_scale_def) (simp_all add: floor_eq_iff)

lemma sample_reserved_sub_scale:
  "ReserveBatchImageBalance (sample_reserve sub_scale) sample_db
     = (Inr \<lparr>h_Applied = True, h_NewBalance = Some 9, h_FrozenBalance = Some 1\<rparr>, sample_db1)"
  using sub_scale_rounds by (simp add: sample_simps sample_db1_def)

lemma unquantized_hold_never_settles_witness:
  "fst (ReleaseBatchImageBalance (sample_cmd ''r'' sub_scale 1) sample_db1) = Inl ErrFrozenInsufficient"
proof -
  let ?c = "sample_reserve sub_scale" and ?c' = "sample_cmd ''r'' sub_scale 1"
  have lu: "live_user sample_db (h_UserID ?c) = Some \<lparr>balance = 10, frozen_balance = None, u_deleted = False\<rparr>"
    by (simp add: live_user_def sample_db_def sample_cmd_def)
  have 1: "hold_ready sample_db ?c" by (simp add: sample_simps)
  have 2: "hold_ready sample_db1 ?c'" and 3: "hold_recorded ?c' sample_db1"
    by (simp_all add: sample_simps sample_db1_def)
  have 4: "h_UserID ?c' = h_UserID ?c" "h_HoldAmount ?c' = h_HoldAmount ?c"
    by (simp_all add: sample_cmd_def)
  show ?thesis
    using unquantized_hold_never_settles [OF lu _ _ _ _ 1 sample_reserved_sub_scale 4 _ 2 3]
      sub_scale_rounds
    by (simp add: sample_cmd_def coalesce0_def)
qed

end
