(* ===== verification/Redis_Commands.thy ===== *)
theory Redis_Commands
  imports App_Errors Sha256 "HOL-Library.List_Lexorder" "HOL-Library.Char_ord"
begin

text \<open>
  The Redis commands that the repositories of the gateway use. A sorted set is an association list
  with distinct members. The second part is a store of keys with their expiries: the keys are strings
  as the code builds them, an expiry is a Unix time in milliseconds, a key is there until its expiry
  has passed, and a sorted set without members is no key. The clock of the server is part of the
  store: \<open>TIME\<close> reads it in seconds, expiries are compared with it.
\<close>

section \<open>Sorted sets\<close>

type_synonym zset = "(string \<times> int) list"

definition ZREM :: "string \<Rightarrow> (string \<times> int) list \<Rightarrow> (string \<times> int) list" where
  "ZREM m z = filter (\<lambda>e. fst e \<noteq> m) z"

definition ZADD :: "string \<Rightarrow> int \<Rightarrow> (string \<times> int) list \<Rightarrow> (string \<times> int) list" where
  "ZADD m score z = (m, score) # ZREM m z"

definition members :: "(string \<times> int) list \<Rightarrow> string set" where
  "members z = set (map fst z)"

definition ZADD_XX :: "string \<Rightarrow> int \<Rightarrow> (string \<times> int) list \<Rightarrow> (string \<times> int) list" where
  "ZADD_XX m score z = (if m \<in> members z then ZADD m score z else z)"

text \<open>\<open>ZRANGEBYSCORE key -inf max LIMIT 0 n\<close>: by score, ties by member; all of it when \<open>n < 0\<close>.\<close>

definition ZRANGE_upto :: "int \<Rightarrow> int \<Rightarrow> (string \<times> int) list \<Rightarrow> string list" where
  "ZRANGE_upto score n z =
     (let xs = map fst (filter (\<lambda>e. snd e \<le> score) (sort_key snd (sort_key fst z)))
      in if n < 0 then xs else take (nat n) xs)"

text \<open>\<open>ZRANGE key 0 -1\<close>, \<open>ZREMRANGEBYSCORE key -inf max\<close>, \<open>ZCARD\<close> and \<open>ZSCORE\<close>.\<close>

definition ZRANGE_all :: "zset \<Rightarrow> string list" where
  "ZRANGE_all z = map fst (sort_key snd (sort_key fst z))"

definition ZREMRANGE_upto :: "int \<Rightarrow> zset \<Rightarrow> zset" where
  "ZREMRANGE_upto score z = filter (\<lambda>e. score < snd e) z"

definition ZCARD :: "zset \<Rightarrow> int" where
  "ZCARD z = int (length z)"

definition ZSCORE :: "string \<Rightarrow> zset \<Rightarrow> int option" where
  "ZSCORE m z = map_of z m"

section \<open>A store of keys\<close>

record redis_store =
  redis_ms :: int
  zsets :: "string \<rightharpoonup> zset \<times> int option"
  numbers :: "string \<rightharpoonup> int \<times> int option"

definition unexpired :: "int \<Rightarrow> int option \<Rightarrow> bool" where
  "unexpired ms e \<longleftrightarrow> (case e of None \<Rightarrow> True | Some t \<Rightarrow> ms < t)"

definition redis_TIME :: "redis_store \<Rightarrow> int" where
  "redis_TIME r = redis_ms r div 1000"

definition live_value :: "redis_store \<Rightarrow> ('v \<times> int option) option \<Rightarrow> ('v \<times> int option) option" where
  "live_value r v = (case v of None \<Rightarrow> None | Some (x, e) \<Rightarrow> if unexpired (redis_ms r) e then Some (x, e) else None)"

text \<open>The sorted set under a key, and a sorted set stored under a key with the expiry the key has.\<close>

definition zset_at :: "int \<Rightarrow> (zset \<times> int option) option \<Rightarrow> zset" where
  "zset_at ms v = (case v of None \<Rightarrow> [] | Some (z, e) \<Rightarrow> if unexpired ms e then z else [])"

definition expiry_at :: "int \<Rightarrow> (zset \<times> int option) option \<Rightarrow> int option" where
  "expiry_at ms v = (case v of None \<Rightarrow> None | Some (z, e) \<Rightarrow> if unexpired ms e then e else None)"

definition zset :: "redis_store \<Rightarrow> string \<Rightarrow> zset" where
  "zset r k = zset_at (redis_ms r) (zsets r k)"

definition zset_expiry :: "redis_store \<Rightarrow> string \<Rightarrow> int option" where
  "zset_expiry r k = expiry_at (redis_ms r) (zsets r k)"

definition put_zset :: "string \<Rightarrow> zset \<Rightarrow> redis_store \<Rightarrow> redis_store" where
  "put_zset k z r = r\<lparr>zsets := (zsets r)(k := if z = [] then None else Some (z, zset_expiry r k))\<rparr>"

definition zadd :: "string \<Rightarrow> int \<Rightarrow> string \<Rightarrow> redis_store \<Rightarrow> redis_store" where
  "zadd k score m r = put_zset k (ZADD m score (zset r k)) r"

definition zrem :: "string \<Rightarrow> string \<Rightarrow> redis_store \<Rightarrow> redis_store" where
  "zrem k m r = put_zset k (ZREM m (zset r k)) r"

definition zremrange :: "string \<Rightarrow> int \<Rightarrow> redis_store \<Rightarrow> redis_store" where
  "zremrange k score r = put_zset k (ZREMRANGE_upto score (zset r k)) r"

text \<open>
  \<open>EXPIRE\<close> of a sorted set and of a number. An expiry that is not in the future deletes the key.
\<close>

definition expire_zset :: "string \<Rightarrow> int \<Rightarrow> redis_store \<Rightarrow> redis_store" where
  "expire_zset k secs r =
     (case live_value r (zsets r k) of
        None \<Rightarrow> r
      | Some (z, _) \<Rightarrow>
          r\<lparr>zsets := (zsets r)(k := if secs \<le> 0 then None else Some (z, Some (redis_ms r + secs * 1000)))\<rparr>)"

definition redis_GET :: "redis_store \<Rightarrow> string \<Rightarrow> int option" where
  "redis_GET r k = map_option fst (live_value r (numbers r k))"

definition redis_SET :: "string \<Rightarrow> int \<Rightarrow> redis_store \<Rightarrow> redis_store" where
  "redis_SET k v r = r\<lparr>numbers := (numbers r)(k \<mapsto> (v, None))\<rparr>"

text \<open>\<open>INCR\<close> and \<open>DECR\<close>: a missing key counts as 0, an expiry stays.\<close>

definition redis_INCRBY :: "string \<Rightarrow> int \<Rightarrow> redis_store \<Rightarrow> redis_store" where
  "redis_INCRBY k n r =
     (case live_value r (numbers r k) of
        None \<Rightarrow> r\<lparr>numbers := (numbers r)(k \<mapsto> (n, None))\<rparr>
      | Some (v, e) \<Rightarrow> r\<lparr>numbers := (numbers r)(k \<mapsto> (v + n, e))\<rparr>)"

definition expire_number :: "string \<Rightarrow> int \<Rightarrow> redis_store \<Rightarrow> redis_store" where
  "expire_number k secs r =
     (case live_value r (numbers r k) of
        None \<Rightarrow> r
      | Some (v, _) \<Rightarrow>
          r\<lparr>numbers := (numbers r)(k := if secs \<le> 0 then None else Some (v, Some (redis_ms r + secs * 1000)))\<rparr>)"

definition redis_DEL :: "string \<Rightarrow> redis_store \<Rightarrow> redis_store" where
  "redis_DEL k r = r\<lparr>zsets := (zsets r)(k := None), numbers := (numbers r)(k := None)\<rparr>"

text \<open>\<open>SCAN\<close> with the pattern of a prefix to its end, and \<open>DEL\<close> of what it found.\<close>

definition delete_prefix :: "string \<Rightarrow> redis_store \<Rightarrow> redis_store" where
  "delete_prefix p r =
     r\<lparr>zsets := (\<lambda>k. if HasPrefix k p then None else zsets r k),
       numbers := (\<lambda>k. if HasPrefix k p then None else numbers r k)\<rparr>"

section \<open>What the commands do\<close>

lemma ZREM_members [simp]: "members (ZREM m z) = members z - {m}"
  by (auto simp: members_def ZREM_def)

lemma ZADD_members [simp]: "members (ZADD m s z) = insert m (members z)"
  by (auto simp: ZADD_def members_def ZREM_def)

lemma ZADD_XX_members [simp]: "members (ZADD_XX m s z) = members z"
  by (auto simp: ZADD_XX_def)

lemma distinct_ZREM: "distinct (map fst z) \<Longrightarrow> distinct (map fst (ZREM m z))"
  by (simp add: ZREM_def distinct_map_filter)

lemma distinct_ZADD: "distinct (map fst z) \<Longrightarrow> distinct (map fst (ZADD m s z))"
  by (auto simp: ZADD_def ZREM_def distinct_map_filter)

lemma distinct_ZADD_XX: "distinct (map fst z) \<Longrightarrow> distinct (map fst (ZADD_XX m s z))"
  by (simp add: ZADD_XX_def distinct_ZADD)

lemma distinct_ZREMRANGE: "distinct (map fst z) \<Longrightarrow> distinct (map fst (ZREMRANGE_upto s z))"
  by (simp add: ZREMRANGE_upto_def distinct_map_filter)

lemma set_ZREM [simp]: "set (ZREM m z) = {e \<in> set z. fst e \<noteq> m}"
  by (auto simp: ZREM_def)

lemma set_ZADD [simp]: "set (ZADD m s z) = insert (m, s) {e \<in> set z. fst e \<noteq> m}"
  by (simp add: ZADD_def)

lemma set_ZREMRANGE [simp]: "set (ZREMRANGE_upto s z) = {e \<in> set z. s < snd e}"
  by (auto simp: ZREMRANGE_upto_def)

lemma redis_ms_commands [simp]:
  "redis_ms (put_zset k z r) = redis_ms r" "redis_ms (zadd k s m r) = redis_ms r"
  "redis_ms (zrem k m r) = redis_ms r" "redis_ms (zremrange k s r) = redis_ms r"
  "redis_ms (expire_zset k n r) = redis_ms r" "redis_ms (redis_SET k n r) = redis_ms r"
  "redis_ms (redis_INCRBY k n r) = redis_ms r" "redis_ms (expire_number k n r) = redis_ms r"
  "redis_ms (redis_DEL k r) = redis_ms r" "redis_ms (delete_prefix k r) = redis_ms r"
  by (simp_all add: put_zset_def zadd_def zrem_def zremrange_def expire_zset_def redis_SET_def redis_INCRBY_def
      expire_number_def redis_DEL_def delete_prefix_def split: option.split prod.split)

lemma zsets_of_number_commands [simp]:
  "zsets (redis_SET k n r) = zsets r" "zsets (redis_INCRBY k n r) = zsets r"
  "zsets (expire_number k n r) = zsets r"
  by (simp_all add: redis_SET_def redis_INCRBY_def expire_number_def split: option.split prod.split)

lemma numbers_of_zset_commands [simp]:
  "numbers (put_zset k z r) = numbers r" "numbers (zadd k s m r) = numbers r" "numbers (zrem k m r) = numbers r"
  "numbers (zremrange k s r) = numbers r" "numbers (expire_zset k n r) = numbers r"
  by (simp_all add: put_zset_def zadd_def zrem_def zremrange_def expire_zset_def split: option.split prod.split)

lemma zset_at_simps [simp]:
  "zset_at ms None = []" "zset_at ms (Some (z, e)) = (if unexpired ms e then z else [])"
  "expiry_at ms None = None" "expiry_at ms (Some (z, e)) = (if unexpired ms e then e else None)"
  by (simp_all add: zset_at_def expiry_at_def)

lemmas zset_unfold = zset_def zset_expiry_def

lemma zset_expiry_unexpired [simp]: "unexpired (redis_ms r) (zset_expiry r k)"
  by (cases "zsets r k") (auto simp: zset_unfold unexpired_def)

text \<open>A command on a sorted set touches its own key only.\<close>

lemma zset_put [simp]: "zset (put_zset k z r) j = (if j = k then z else zset r j)"
  by (simp add: put_zset_def zset_def)

lemma zset_expiry_put [simp]:
  "zset_expiry (put_zset k z r) j = (if j = k \<and> z = [] then None else zset_expiry r j)"
  using zset_expiry_unexpired [of r k] by (auto simp: put_zset_def zset_expiry_def)

lemma zset_commands [simp]:
  "zset (zadd k s m r) j = (if j = k then ZADD m s (zset r k) else zset r j)"
  "zset (zrem k m r) j = (if j = k then ZREM m (zset r k) else zset r j)"
  "zset (zremrange k s r) j = (if j = k then ZREMRANGE_upto s (zset r k) else zset r j)"
  by (simp_all add: zadd_def zrem_def zremrange_def)

lemma zset_expire [simp]: "0 < n \<Longrightarrow> zset (expire_zset k n r) j = zset r j"
  by (cases "zsets r k") (auto simp: expire_zset_def zset_unfold live_value_def unexpired_def)

lemma zset_expiry_expire:
  assumes "0 < n"
  shows "zset r k \<noteq> [] \<Longrightarrow> zset_expiry (expire_zset k n r) k = Some (redis_ms r + n * 1000)"
    and "j \<noteq> k \<Longrightarrow> zset_expiry (expire_zset k n r) j = zset_expiry r j"
  using assms
  by (cases "zsets r k"; auto simp: expire_zset_def zset_unfold live_value_def unexpired_def split: if_splits)+

lemma zset_expiry_commands [simp]:
  "zset_expiry (zadd k s m r) j = zset_expiry r j"
  "zset_expiry (zrem k m r) j = (if j = k \<and> ZREM m (zset r k) = [] then None else zset_expiry r j)"
  "zset_expiry (zremrange k s r) j = (if j = k \<and> ZREMRANGE_upto s (zset r k) = [] then None else zset_expiry r j)"
  by (simp_all add: zadd_def zrem_def zremrange_def ZADD_def)

lemma zset_of_zsets:
  "zsets r' = zsets r \<Longrightarrow> redis_ms r' = redis_ms r \<Longrightarrow> zset r' k = zset r k"
  "zsets r' = zsets r \<Longrightarrow> redis_ms r' = redis_ms r \<Longrightarrow> zset_expiry r' k = zset_expiry r k"
  by (simp_all add: zset_unfold)

lemma zset_of_number_commands [simp]:
  "zset (redis_SET k n r) j = zset r j" "zset (redis_INCRBY k n r) j = zset r j" "zset (expire_number k n r) j = zset r j"
  "zset_expiry (redis_SET k n r) j = zset_expiry r j" "zset_expiry (redis_INCRBY k n r) j = zset_expiry r j"
  "zset_expiry (expire_number k n r) j = zset_expiry r j"
  by (simp_all add: zset_unfold)

lemma zset_DEL [simp]:
  "zset (redis_DEL k r) j = (if j = k then [] else zset r j)"
  "zset_expiry (redis_DEL k r) j = (if j = k then None else zset_expiry r j)"
  by (simp_all add: redis_DEL_def zset_unfold)

lemma zset_delete_prefix [simp]:
  "zset (delete_prefix p r) j = (if HasPrefix j p then [] else zset r j)"
  "zset_expiry (delete_prefix p r) j = (if HasPrefix j p then None else zset_expiry r j)"
  by (simp_all add: delete_prefix_def zset_unfold)

end
