(* ===== verification/Batch_Image_Queue.thy ===== *)
theory Batch_Image_Queue
  imports Redis_Commands
begin

text \<open>
  The Redis queue of batch-image jobs (\<open>repository/batch_image_queue.go\<close>): a ready list, a
  delayed and an active sorted set, and two families of expiring keys, the marks of jobs in
  flight and the locks. Each script or pipeline is one atomic step. A sorted set is an
  association list with distinct members; the keys are indexed by the batch id that the code
  appends to their prefixes. Scores and expiries are Unix milliseconds.

  \<open>Reserve\<close> polls \<open>reserveOnce\<close> until its deadline; the poll is what is modelled.
\<close>

section \<open>State\<close>

record batch_queue =
  ready :: "string list"
  delayed :: "(string \<times> int) list"
  active :: "(string \<times> int) list"
  inflight :: "string \<rightharpoonup> int"
  locks :: "string \<rightharpoonup> string \<times> int"

record queue_config =
  inflightTTL :: duration
  lockTTL :: duration

definition defaultBatchImageInflightTTL :: duration where
  "defaultBatchImageInflightTTL = 7 * 24 * Hour"

definition defaultBatchImageJobLockTTL :: duration where
  "defaultBatchImageJobLockTTL = 5 * Minute"

definition normalizeBatchImageQueueOptions :: "queue_config \<Rightarrow> queue_config" where
  "normalizeBatchImageQueueOptions opts =
     \<lparr>inflightTTL = (if inflightTTL opts \<le> 0 then defaultBatchImageInflightTTL else inflightTTL opts),
      lockTTL = (if lockTTL opts \<le> 0 then defaultBatchImageJobLockTTL else lockTTL opts)\<rparr>"

definition ErrBatchImageQueueEmpty :: go_error where
  "ErrBatchImageQueueEmpty = New 404 ''BATCH_IMAGE_QUEUE_EMPTY'' ''batch image queue is empty''"

definition ErrBatchImageAlreadyQueued :: go_error where
  "ErrBatchImageAlreadyQueued =
     New 409 ''BATCH_IMAGE_ALREADY_QUEUED'' ''batch image job is already queued''"

definition ErrInvalidBatchImageQueuePayload :: go_error where
  "ErrInvalidBatchImageQueuePayload =
     New 400 ''BATCH_IMAGE_QUEUE_INVALID_PAYLOAD'' ''invalid batch image queue payload''"

definition IsValidBatchImageID :: "string \<Rightarrow> bool" where
  "IsValidBatchImageID batchID \<longleftrightarrow>
     HasPrefix batchID ''imgbatch_'' \<and> length batchID > length ''imgbatch_''"

section \<open>Expiring keys\<close>

text \<open>A key with an expiry is there until the expiry has passed.\<close>

definition live_mark :: "int \<Rightarrow> (string \<rightharpoonup> int) \<Rightarrow> string \<Rightarrow> bool" where
  "live_mark now keys k \<longleftrightarrow> (case keys k of None \<Rightarrow> False | Some e \<Rightarrow> now < e)"

definition live_lock :: "int \<Rightarrow> (string \<rightharpoonup> string \<times> int) \<Rightarrow> string \<Rightarrow> string option" where
  "live_lock now keys k = (case keys k of None \<Rightarrow> None | Some (t, e) \<Rightarrow> if now < e then Some t else None)"

text \<open>The scripts that move members of a sorted set to the ready list, one by one.\<close>

fun move_to_ready ::
    "string list \<Rightarrow> (string \<times> int) list \<times> string list \<Rightarrow> (string \<times> int) list \<times> string list" where
  "move_to_ready [] s = s"
| "move_to_ready (job # js) (z, l) = move_to_ready js (ZREM job z, job # l)"

section \<open>Operations\<close>

type_synonym 'a queue_op = "(batch_queue, go_error + 'a) statement"

definition Enqueue :: "queue_config \<Rightarrow> go_time \<Rightarrow> string \<Rightarrow> unit queue_op" where
  "Enqueue cfg now batchID q =
     (if \<not> IsValidBatchImageID batchID then (Inl ErrInvalidBatchImageQueuePayload, q)
      else if live_mark (UnixMilli now) (inflight q) batchID then (Inl ErrBatchImageAlreadyQueued, q)
      else (Inr (), q\<lparr>inflight := (inflight q)(batchID \<mapsto>
                        UnixMilli now + duration_Milliseconds (inflightTTL cfg)),
                      ready := batchID # ready q\<rparr>))"

definition reserveOnce :: "go_time \<Rightarrow> string queue_op" where
  "reserveOnce now q =
     (if ready q = [] then (Inl ErrBatchImageQueueEmpty, q)
      else
        (let job = last (ready q);
             q1 = q\<lparr>ready := butlast (ready q), active := ZADD job (UnixMilli now) (active q)\<rparr>
         in if \<not> IsValidBatchImageID job
            then (Inl ErrInvalidBatchImageQueuePayload,
                  if job \<noteq> '''' then q1\<lparr>active := ZREM job (active q1)\<rparr> else q1)
            else (Inr job, q1)))"

definition RequeueAfter :: "go_time \<Rightarrow> string \<Rightarrow> duration \<Rightarrow> unit queue_op" where
  "RequeueAfter now batchID delay q =
     (if \<not> IsValidBatchImageID batchID then (Inl ErrInvalidBatchImageQueuePayload, q)
      else
        (let q1 = q\<lparr>active := ZREM batchID (active q), delayed := ZREM batchID (delayed q)\<rparr>
         in (Inr (), if delay \<le> 0 then q1\<lparr>ready := batchID # ready q1\<rparr>
                     else q1\<lparr>delayed := ZADD batchID (UnixMilli (now + delay)) (delayed q1)\<rparr>)))"

definition Ack :: "string \<Rightarrow> unit queue_op" where
  "Ack batchID q =
     (if \<not> IsValidBatchImageID batchID then (Inl ErrInvalidBatchImageQueuePayload, q)
      else (Inr (), q\<lparr>active := ZREM batchID (active q), delayed := ZREM batchID (delayed q),
                      inflight := (inflight q)(batchID := None)\<rparr>))"

definition Heartbeat :: "go_time \<Rightarrow> string \<Rightarrow> unit queue_op" where
  "Heartbeat now batchID q =
     (if \<not> IsValidBatchImageID batchID then (Inl ErrInvalidBatchImageQueuePayload, q)
      else (Inr (), q\<lparr>active := ZADD_XX batchID (UnixMilli now) (active q)\<rparr>))"

definition MoveDueDelayedToReady :: "go_time \<Rightarrow> int \<Rightarrow> int queue_op" where
  "MoveDueDelayedToReady now limit q =
     (let n = (if limit \<le> 0 then 100 else limit);
          js = ZRANGE_upto (UnixMilli now) n (delayed q);
          (z, l) = move_to_ready js (delayed q, ready q)
      in (Inr (int (length js)), q\<lparr>delayed := z, ready := l\<rparr>))"

definition RecoverStaleActive :: "go_time \<Rightarrow> duration \<Rightarrow> int \<Rightarrow> int queue_op" where
  "RecoverStaleActive now staleAfter limit q =
     (if staleAfter \<le> 0 then (Inl ErrInvalidBatchImageQueuePayload, q)
      else
        (let n = (if limit \<le> 0 then 100 else limit);
             js = ZRANGE_upto (UnixMilli (now - staleAfter)) n (active q);
             (z, l) = move_to_ready js (active q, ready q)
         in (Inr (int (length js)), q\<lparr>active := z, ready := l\<rparr>)))"

text \<open>The lock's token is the hexadecimal form of the random bytes drawn for it.\<close>

definition newBatchImageLockToken :: "int list \<Rightarrow> string" where
  "newBatchImageLockToken b = hex_EncodeToString b"

definition TryAcquireJobLock ::
    "queue_config \<Rightarrow> go_time \<Rightarrow> int list \<Rightarrow> string \<Rightarrow> duration \<Rightarrow> string option queue_op" where
  "TryAcquireJobLock cfg now random batchID ttl q =
     (if \<not> IsValidBatchImageID batchID then (Inl ErrInvalidBatchImageQueuePayload, q)
      else
        (let t = (if ttl \<le> 0 then lockTTL cfg else ttl); token = newBatchImageLockToken random
         in if live_lock (UnixMilli now) (locks q) batchID \<noteq> None then (Inr None, q)
            else (Inr (Some token),
                  q\<lparr>locks := (locks q)(batchID \<mapsto>
                       (token, UnixMilli now + duration_Milliseconds t))\<rparr>)))"

definition lock_Release :: "go_time \<Rightarrow> string \<Rightarrow> string \<Rightarrow> unit queue_op" where
  "lock_Release now batchID token q =
     (if token = '''' then (Inr (), q)
      else if live_lock (UnixMilli now) (locks q) batchID = Some token
      then (Inr (), q\<lparr>locks := (locks q)(batchID := None)\<rparr>)
      else (Inr (), q))"

definition lock_Refresh :: "go_time \<Rightarrow> string \<Rightarrow> string \<Rightarrow> duration \<Rightarrow> unit queue_op" where
  "lock_Refresh now batchID token ttl q =
     (if token = '''' then (Inr (), q)
      else
        (let t = (if ttl \<le> 0 then defaultBatchImageJobLockTTL else ttl)
         in if live_lock (UnixMilli now) (locks q) batchID = Some token
            then (Inr (), q\<lparr>locks := (locks q)(batchID \<mapsto>
                              (token, UnixMilli now + duration_Milliseconds t))\<rparr>)
            else (Inr (), q)))"

end
