(* ===== verification/Batch_Image_Queue_Facts.thy ===== *)
theory Batch_Image_Queue_Facts
  imports Batch_Image_Queue
begin

text \<open>
  What the queue guarantees for any interleaving of the operations of submitters, workers, the
  delayed mover and the stale recovery: a job in flight is always somewhere in the queue, the
  sorted sets are sets, and a lock that has not expired excludes everyone else.
\<close>

section \<open>Sorted sets\<close>

lemma move_to_ready_members:
  assumes "move_to_ready js (z, l) = (z', l')"
  shows "members z' = members z - set js" and "set l' = set js \<union> set l"
  using assms by (induction js "(z, l)" arbitrary: z l rule: move_to_ready.induct) auto

lemma move_to_ready_distinct:
  assumes "move_to_ready js (z, l) = (z', l')" and "distinct (map fst z)"
  shows "distinct (map fst z')"
  using assms
  by (induction js "(z, l)" arbitrary: z l rule: move_to_ready.induct) (auto simp: distinct_ZREM)

section \<open>Where a job is\<close>

definition queued :: "batch_queue \<Rightarrow> string set" where
  "queued q = set (ready q) \<union> members (delayed q) \<union> members (active q)"

text \<open>Whether a job's mark is set.\<close>

definition marked :: "batch_queue \<Rightarrow> string \<Rightarrow> bool" where
  "marked q b \<longleftrightarrow> inflight q b \<noteq> None"

lemma marked_simps [simp]:
  "marked (q\<lparr>ready := l\<rparr>) = marked q" "marked (q\<lparr>delayed := z\<rparr>) = marked q"
  "marked (q\<lparr>active := z\<rparr>) = marked q" "marked (q\<lparr>locks := k\<rparr>) = marked q"
  "marked (q\<lparr>inflight := (inflight q)(b \<mapsto> e)\<rparr>) x \<longleftrightarrow> x = b \<or> marked q x"
  "marked (q\<lparr>inflight := (inflight q)(b := None)\<rparr>) x \<longleftrightarrow> x \<noteq> b \<and> marked q x"
  "marked (q\<lparr>ready := l, inflight := (inflight q)(b \<mapsto> e)\<rparr>) x \<longleftrightarrow> x = b \<or> marked q x"
  "marked (q\<lparr>delayed := y, active := z, inflight := (inflight q)(b := None)\<rparr>) x
     \<longleftrightarrow> x \<noteq> b \<and> marked q x"
  "marked (q\<lparr>active := z, delayed := y, inflight := (inflight q)(b := None)\<rparr>) x
     \<longleftrightarrow> x \<noteq> b \<and> marked q x"
  by (auto simp: marked_def fun_eq_iff)

definition queue_ok :: "batch_queue \<Rightarrow> bool" where
  "queue_ok q \<longleftrightarrow> (\<forall>b. marked q b \<longrightarrow> b \<in> queued q \<and> IsValidBatchImageID b)
     \<and> distinct (map fst (delayed q)) \<and> distinct (map fst (active q))"

lemma queue_okI:
  assumes "queue_ok q"
    and "\<And>b. marked q' b \<Longrightarrow> b \<in> queued q' \<and> IsValidBatchImageID b"
    and "distinct (map fst (delayed q'))" and "distinct (map fst (active q'))"
  shows "queue_ok q'"
  using assms by (simp add: queue_ok_def)

lemma queue_okD:
  assumes "queue_ok q"
  shows "marked q b \<Longrightarrow> b \<in> queued q" and "marked q b \<Longrightarrow> IsValidBatchImageID b"
    and "distinct (map fst (delayed q))" and "distinct (map fst (active q))"
  using assms by (simp_all add: queue_ok_def)

section \<open>The steps\<close>

text \<open>Every operation, by any client, at any time; a mark may also expire and be dropped.\<close>

inductive queue_step :: "queue_config \<Rightarrow> batch_queue \<Rightarrow> batch_queue \<Rightarrow> bool" for cfg where
  enqueue: "Enqueue cfg now b q = (r, q') \<Longrightarrow> queue_step cfg q q'"
| reserve: "reserveOnce now q = (r1, q') \<Longrightarrow> queue_step cfg q q'"
| requeue: "RequeueAfter now b delay q = (r, q') \<Longrightarrow> queue_step cfg q q'"
| ack: "Ack b q = (r, q') \<Longrightarrow> queue_step cfg q q'"
| heartbeat: "Heartbeat now b q = (r, q') \<Longrightarrow> queue_step cfg q q'"
| move_due: "MoveDueDelayedToReady now limit q = (r2, q') \<Longrightarrow> queue_step cfg q q'"
| recover: "RecoverStaleActive now stale limit q = (r2, q') \<Longrightarrow> queue_step cfg q q'"
| lock: "TryAcquireJobLock cfg now random b ttl q = (r3, q') \<Longrightarrow> queue_step cfg q q'"
| unlock: "lock_Release now b token q = (r, q') \<Longrightarrow> queue_step cfg q q'"
| relock: "lock_Refresh now b token ttl q = (r, q') \<Longrightarrow> queue_step cfg q q'"

lemma enqueue_ok: "Enqueue cfg now b q = (r, q') \<Longrightarrow> queue_ok q \<Longrightarrow> queue_ok q'"
  by (auto simp: Enqueue_def queue_ok_def queued_def split: if_splits)

lemma reserve_ok: "reserveOnce now q = (r, q') \<Longrightarrow> queue_ok q \<Longrightarrow> queue_ok q'"
proof -
  assume ex: "reserveOnce now q = (r, q')" and ok: "queue_ok q"
  show "queue_ok q'"
  proof (cases "ready q = []")
    case True
    with ex ok show ?thesis by (simp add: reserveOnce_def)
  next
    case False
    have split: "set (ready q) = insert (last (ready q)) (set (butlast (ready q)))"
      using append_butlast_last_id [OF False] by (metis Un_commute insert_is_Un list.set(1) list.simps(15) set_append)
    show ?thesis
    proof (rule queue_okI [OF ok])
      fix b
      assume b: "marked q' b"
      then have "marked q b"
        using ex False by (auto simp: reserveOnce_def Let_def split: if_splits)
      from queue_okD(1,2) [OF ok this] show "b \<in> queued q' \<and> IsValidBatchImageID b"
        using ex False split by (auto simp: reserveOnce_def queued_def Let_def split: if_splits)
    qed (use ex False queue_okD(3,4) [OF ok] in
        \<open>auto simp: reserveOnce_def Let_def distinct_ZADD distinct_ZREM split: if_splits\<close>)
  qed
qed

lemma requeue_ok: "RequeueAfter now b delay q = (r, q') \<Longrightarrow> queue_ok q \<Longrightarrow> queue_ok q'"
  by (auto simp: RequeueAfter_def Let_def queue_ok_def queued_def distinct_ZREM distinct_ZADD
      split: if_splits)

lemma ack_ok: "Ack b q = (r, q') \<Longrightarrow> queue_ok q \<Longrightarrow> queue_ok q'"
  by (auto simp: Ack_def queue_ok_def queued_def distinct_ZREM split: if_splits)

lemma heartbeat_ok: "Heartbeat now b q = (r, q') \<Longrightarrow> queue_ok q \<Longrightarrow> queue_ok q'"
  by (auto simp: Heartbeat_def queue_ok_def queued_def distinct_ZADD_XX split: if_splits)

lemma move_due_ok:
  assumes "MoveDueDelayedToReady now limit q = (r, q')" and "queue_ok q"
  shows "queue_ok q'"
proof -
  obtain js z l where mv: "move_to_ready js (delayed q, ready q) = (z, l)"
    and q': "q' = q\<lparr>delayed := z, ready := l\<rparr>"
    using assms(1) by (auto simp: MoveDueDelayedToReady_def Let_def split: prod.splits)
  from move_to_ready_members [OF mv] move_to_ready_distinct [OF mv] assms(2) show ?thesis
    by (auto simp: q' queue_ok_def queued_def)
qed

lemma recover_ok:
  assumes "RecoverStaleActive now stale limit q = (r, q')" and "queue_ok q"
  shows "queue_ok q'"
proof (cases "stale \<le> 0")
  case True
  with assms show ?thesis by (simp add: RecoverStaleActive_def)
next
  case False
  then obtain js z l where mv: "move_to_ready js (active q, ready q) = (z, l)"
    and q': "q' = q\<lparr>active := z, ready := l\<rparr>"
    using assms(1) by (auto simp: RecoverStaleActive_def Let_def split: prod.splits)
  from move_to_ready_members [OF mv] move_to_ready_distinct [OF mv] assms(2) show ?thesis
    by (auto simp: q' queue_ok_def queued_def)
qed

lemma lock_ops_ok:
  "TryAcquireJobLock cfg now random b ttl q = (r, q') \<Longrightarrow> queue_ok q \<Longrightarrow> queue_ok q'"
  "lock_Release now b token q = (r', q') \<Longrightarrow> queue_ok q \<Longrightarrow> queue_ok q'"
  "lock_Refresh now b token ttl q = (r', q') \<Longrightarrow> queue_ok q \<Longrightarrow> queue_ok q'"
  by (auto simp: TryAcquireJobLock_def lock_Release_def lock_Refresh_def Let_def queue_ok_def
      queued_def split: if_splits)

lemma queue_step_ok: "queue_step cfg q q' \<Longrightarrow> queue_ok q \<Longrightarrow> queue_ok q'"
  by (induction rule: queue_step.induct)
    (blast intro: enqueue_ok reserve_ok requeue_ok ack_ok heartbeat_ok move_due_ok recover_ok
      lock_ops_ok)+

section \<open>Locks\<close>

text \<open>The steps of everyone who does not know a token.\<close>

inductive other_step :: "queue_config \<Rightarrow> string \<Rightarrow> go_time \<Rightarrow> batch_queue \<Rightarrow> batch_queue \<Rightarrow> bool"
  for cfg token now where
  enqueue: "Enqueue cfg now b q = (r, q') \<Longrightarrow> other_step cfg token now q q'"
| reserve: "reserveOnce now q = (r1, q') \<Longrightarrow> other_step cfg token now q q'"
| requeue: "RequeueAfter now b delay q = (r, q') \<Longrightarrow> other_step cfg token now q q'"
| ack: "Ack b q = (r, q') \<Longrightarrow> other_step cfg token now q q'"
| heartbeat: "Heartbeat now b q = (r, q') \<Longrightarrow> other_step cfg token now q q'"
| move_due: "MoveDueDelayedToReady now limit q = (r2, q') \<Longrightarrow> other_step cfg token now q q'"
| recover: "RecoverStaleActive now stale limit q = (r2, q') \<Longrightarrow> other_step cfg token now q q'"
| lock: "TryAcquireJobLock cfg now random b ttl q = (r3, q') \<Longrightarrow> other_step cfg token now q q'"
| unlock: "lock_Release now b t q = (r, q') \<Longrightarrow> t \<noteq> token \<Longrightarrow> other_step cfg token now q q'"
| relock: "lock_Refresh now b t ttl q = (r, q') \<Longrightarrow> t \<noteq> token \<Longrightarrow> other_step cfg token now q q'"

text \<open>A run of the others, at instants that stay before a deadline.\<close>

inductive other_run :: "queue_config \<Rightarrow> string \<Rightarrow> int \<Rightarrow> batch_queue \<Rightarrow> batch_queue \<Rightarrow> bool"
  for cfg token deadline where
  start: "other_run cfg token deadline q q"
| more: "other_run cfg token deadline q q1 \<Longrightarrow> UnixMilli now < deadline
    \<Longrightarrow> other_step cfg token now q1 q2 \<Longrightarrow> other_run cfg token deadline q q2"

lemma other_step_keeps_lock:
  assumes "other_step cfg token now q q'" and "locks q b = Some (token, e)" and "UnixMilli now < e"
  shows "locks q' b = Some (token, e)"
  using assms
proof cases
  case move_due
  with assms show ?thesis by (auto simp: MoveDueDelayedToReady_def Let_def split: prod.splits)
next
  case recover
  with assms show ?thesis
    by (auto simp: RecoverStaleActive_def Let_def split: prod.splits if_splits)
qed (auto simp: Enqueue_def reserveOnce_def RequeueAfter_def Ack_def Heartbeat_def
    TryAcquireJobLock_def lock_Release_def lock_Refresh_def live_lock_def Let_def split: if_splits)

lemma other_run_keeps_lock:
  assumes "other_run cfg token e q q'" and "locks q b = Some (token, e)"
  shows "locks q' b = Some (token, e)"
  using assms by (induction rule: other_run.induct) (auto dest: other_step_keeps_lock)

section \<open>Properties of the queue\<close>

text \<open>
  C9. No job in flight is ever lost: in every interleaving of submissions, reservations,
  requeues, acknowledgements, heartbeats, moves of due jobs, stale recoveries and lock
  operations, a job whose mark blocks another submission is in the ready list, the delayed set
  or the active set.
\<close>

theorem inflight_job_is_queued:
  assumes "(queue_step cfg)\<^sup>*\<^sup>* q q'" and "queue_ok q" and "inflight q' b \<noteq> None"
  shows "b \<in> set (ready q') \<union> fst ` set (delayed q') \<union> fst ` set (active q')"
proof -
  from assms(1) have "queue_ok q'"
    by (induction rule: rtranclp_induct) (use assms(2) queue_step_ok in blast)+
  from queue_okD(1) [OF this, of b] assms(3) show ?thesis by (simp add: queued_def members_def marked_def)
qed

definition empty_queue :: batch_queue where
  "empty_queue = \<lparr>ready = [], delayed = [], active = [], inflight = Map.empty, locks = Map.empty\<rparr>"

lemma empty_queue_ok: "queue_ok empty_queue"
  by (simp add: queue_ok_def empty_queue_def marked_def)

definition sample_config :: queue_config where
  "sample_config = \<lparr>inflightTTL = 7 * 24 * Hour, lockTTL = 5 * Minute\<rparr>"

lemma inflight_job_is_queued_witness:
  "''imgbatch_1'' \<in> set (ready (snd (Enqueue sample_config 0 ''imgbatch_1'' empty_queue)))
     \<union> fst ` set (delayed (snd (Enqueue sample_config 0 ''imgbatch_1'' empty_queue)))
     \<union> fst ` set (active (snd (Enqueue sample_config 0 ''imgbatch_1'' empty_queue)))"
proof (rule inflight_job_is_queued [of sample_config empty_queue])
  show "(queue_step sample_config)\<^sup>*\<^sup>* empty_queue (snd (Enqueue sample_config 0 ''imgbatch_1'' empty_queue))"
    by (rule r_into_rtranclp, rule queue_step.enqueue) (rule prod.collapse [symmetric])
  show "inflight (snd (Enqueue sample_config 0 ''imgbatch_1'' empty_queue)) ''imgbatch_1'' \<noteq> None"
    by (simp add: Enqueue_def IsValidBatchImageID_def HasPrefix_def live_mark_def empty_queue_def)
qed (rule empty_queue_ok)

text \<open>
  C10. Mutual exclusion: from the moment a worker has acquired the lock of a job until the lock
  expires, no sequence of operations of clients that do not hold its token, at instants before
  the expiry, takes the lock away; in particular no one else can acquire it.
\<close>

theorem acquired_lock_excludes:
  assumes "TryAcquireJobLock cfg now random b ttl q = (Inr (Some token), q1)"
    and "locks q1 b = Some (token, e)"
    and "other_run cfg token e q1 q2" and "UnixMilli later < e"
    and "TryAcquireJobLock cfg later random' b ttl' q2 = (r, q3)"
  shows "locks q2 b = Some (token, e) \<and> r = Inr None \<and> q3 = q2"
proof -
  have held: "locks q2 b = Some (token, e)"
    by (rule other_run_keeps_lock [OF assms(3,2)])
  moreover have "IsValidBatchImageID b"
    using assms(1) by (auto simp: TryAcquireJobLock_def split: if_splits)
  ultimately show ?thesis
    using assms(4,5) by (auto simp: TryAcquireJobLock_def live_lock_def Let_def)
qed

lemma acquired_lock_excludes_witness:
  "fst (TryAcquireJobLock sample_config (10 * Millisecond) [2] ''imgbatch_1'' 0
     (snd (TryAcquireJobLock sample_config 0 [1] ''imgbatch_1'' 0 empty_queue))) = Inr None"
proof -
  let ?q1 = "snd (TryAcquireJobLock sample_config 0 [1] ''imgbatch_1'' 0 empty_queue)"
  let ?e = "UnixMilli 0 + 300000"
  have acq: "TryAcquireJobLock sample_config 0 [1] ''imgbatch_1'' 0 empty_queue
      = (Inr (Some (newBatchImageLockToken [1])), ?q1)"
    and l: "locks ?q1 ''imgbatch_1'' = Some (newBatchImageLockToken [1], ?e)"
    by (simp_all add: TryAcquireJobLock_def IsValidBatchImageID_def HasPrefix_def live_lock_def
        empty_queue_def Let_def sample_config_def duration_Milliseconds_def go_quot_nonneg)
  have later: "UnixMilli (10 * Millisecond) < ?e"
    by (simp add: UnixMilli_def unix_epoch_def)
  from acquired_lock_excludes [OF acq l other_run.start later prod.collapse [symmetric]]
  show ?thesis by blast
qed

end
