(* ===== verification/Batch_Image_Job.thy ===== *)
theory Batch_Image_Job
  imports Usage_Billing Batch_Image_Queue
begin

text \<open>
  Batch-image jobs: the data and the state machine of \<open>service/batch_image.go\<close> and the
  operations of \<open>repository/batch_image_repo.go\<close>. The database is the record \<open>batch_db\<close>: the
  tables of jobs, items and events (lists in the order of their serial ids) beside the billing
  ledger. Every SQL statement, or transaction, is one call that may fail or whose answer may be
  lost; an operation that runs several statements outside a transaction is several calls.

  A row is the struct that scanning it gives (a \<open>NULL\<close> is \<open>None\<close>). The monetary columns keep
  ten decimals, the multipliers four. The payload of an event is the map the code marshals to
  JSON. Not modelled: the length limits of text columns.
\<close>

section \<open>Statuses and errors\<close>

definition BatchImageProviderGeminiAPI :: string where "BatchImageProviderGeminiAPI = ''gemini_api''"
definition BatchImageProviderVertex :: string where "BatchImageProviderVertex = ''vertex''"
definition BatchImageJobStatusCreated :: string where "BatchImageJobStatusCreated = ''created''"
definition BatchImageJobStatusUploading :: string where "BatchImageJobStatusUploading = ''uploading''"
definition BatchImageJobStatusSubmitted :: string where "BatchImageJobStatusSubmitted = ''submitted''"
definition BatchImageJobStatusRunning :: string where "BatchImageJobStatusRunning = ''running''"
definition BatchImageJobStatusIndexing :: string where "BatchImageJobStatusIndexing = ''indexing''"
definition BatchImageJobStatusSettling :: string where "BatchImageJobStatusSettling = ''settling''"
definition BatchImageJobStatusCompleted :: string where "BatchImageJobStatusCompleted = ''completed''"
definition BatchImageJobStatusFailed :: string where "BatchImageJobStatusFailed = ''failed''"
definition BatchImageJobStatusCancelled :: string where "BatchImageJobStatusCancelled = ''cancelled''"
definition BatchImageJobStatusOutputDeleted :: string where "BatchImageJobStatusOutputDeleted = ''output_deleted''"
definition BatchImageItemStatusPending :: string where "BatchImageItemStatusPending = ''pending''"
definition BatchImageItemStatusSuccess :: string where "BatchImageItemStatusSuccess = ''success''"
definition BatchImageItemStatusFailed :: string where "BatchImageItemStatusFailed = ''failed''"
definition BatchImageItemStatusCancelled :: string where "BatchImageItemStatusCancelled = ''cancelled''"

definition ErrBatchImageJobNotFound :: go_error where
  "ErrBatchImageJobNotFound =
     New 404 ''BATCH_IMAGE_JOB_NOT_FOUND'' ''batch image job not found''"

definition ErrBatchImageJobExists :: go_error where
  "ErrBatchImageJobExists =
     New 409 ''BATCH_IMAGE_JOB_EXISTS'' ''batch image job already exists''"

definition ErrBatchImageItemExists :: go_error where
  "ErrBatchImageItemExists =
     New 409 ''BATCH_IMAGE_ITEM_EXISTS'' ''batch image item already exists''"

definition ErrBatchImageInvalidTransition :: go_error where
  "ErrBatchImageInvalidTransition =
     New 400 ''BATCH_IMAGE_INVALID_TRANSITION'' ''invalid batch image job status transition''"

definition ErrBatchImageInvalidProvider :: go_error where
  "ErrBatchImageInvalidProvider =
     New 400 ''BATCH_IMAGE_INVALID_PROVIDER'' ''invalid batch image provider''"

definition ErrBatchImageMissingProviderJobName :: go_error where
  "ErrBatchImageMissingProviderJobName =
     New 400 ''BATCH_IMAGE_MISSING_PROVIDER_JOB_NAME'' ''batch image provider job name is missing''"

definition ErrBatchImageMissingAccountID :: go_error where
  "ErrBatchImageMissingAccountID =
     New 400 ''BATCH_IMAGE_MISSING_ACCOUNT_ID'' ''batch image account id is missing''"

definition ErrBatchImageUnsupportedProvider :: go_error where
  "ErrBatchImageUnsupportedProvider =
     New 400 ''BATCH_IMAGE_UNSUPPORTED_PROVIDER'' ''unsupported batch image provider''"

definition ErrBatchImageIndexOutputMissing :: go_error where
  "ErrBatchImageIndexOutputMissing =
     New 502 ''BATCH_IMAGE_INDEX_OUTPUT_MISSING'' ''batch image provider output is missing''"

definition ErrBatchImageIndexParseFailed :: go_error where
  "ErrBatchImageIndexParseFailed =
     New 502 ''BATCH_IMAGE_INDEX_PARSE_FAILED'' ''batch image provider output parse failed''"

definition ErrBatchImageIndexNoResultLines :: go_error where
  "ErrBatchImageIndexNoResultLines =
     New 502 ''BATCH_IMAGE_INDEX_NO_RESULT_LINES'' ''batch image provider output has no result lines''"

definition ErrBatchImageDuplicateCustomID :: go_error where
  "ErrBatchImageDuplicateCustomID =
     New 502 ''DUPLICATE_CUSTOM_ID_IN_OUTPUT'' ''batch image provider output contains duplicate custom id''"

definition ErrBatchImageIndexStateConflict :: go_error where
  "ErrBatchImageIndexStateConflict =
     New 409 ''BATCH_IMAGE_INDEX_STATE_CONFLICT'' ''batch image job is no longer in indexing state''"

definition ErrBatchImageSettlementInvalidStatus :: go_error where
  "ErrBatchImageSettlementInvalidStatus =
     New 400 ''BATCH_IMAGE_SETTLEMENT_INVALID_STATUS'' ''batch image job is not ready for settlement''"

definition ErrBatchImageSettlementManifestConflict :: go_error where
  "ErrBatchImageSettlementManifestConflict =
     New 409 ''BATCH_IMAGE_SETTLEMENT_MANIFEST_CONFLICT'' ''batch image settlement manifest hash conflict''"

definition ErrBatchImageSettlementPricingMissing :: go_error where
  "ErrBatchImageSettlementPricingMissing =
     New 400 ''BATCH_IMAGE_SETTLEMENT_PRICING_MISSING'' ''batch image settlement pricing is missing''"

definition ErrBatchImageSettlementBillingFailed :: go_error where
  "ErrBatchImageSettlementBillingFailed =
     New 502 ''BATCH_IMAGE_SETTLEMENT_BILLING_FAILED'' ''batch image settlement billing failed''"

definition ErrBatchImageAlreadySettled :: go_error where
  "ErrBatchImageAlreadySettled =
     New 409 ''BATCH_IMAGE_ALREADY_SETTLED'' ''batch image job is already settled''"

definition ErrBatchImageSettlementMissingAPIKeyID :: go_error where
  "ErrBatchImageSettlementMissingAPIKeyID =
     New 400 ''BATCH_IMAGE_SETTLEMENT_MISSING_API_KEY_ID'' ''batch image settlement api key id is missing''"

definition ErrBatchImageSettlementMissingAccountID :: go_error where
  "ErrBatchImageSettlementMissingAccountID =
     New 400 ''BATCH_IMAGE_SETTLEMENT_MISSING_ACCOUNT_ID'' ''batch image settlement account id is missing''"

definition ErrBatchImageSettlementInvalidCounts :: go_error where
  "ErrBatchImageSettlementInvalidCounts =
     New 400 ''BATCH_IMAGE_SETTLEMENT_INVALID_COUNTS'' ''batch image settlement counts are invalid''"

definition ErrBatchImageBillingHoldFailed :: go_error where
  "ErrBatchImageBillingHoldFailed =
     New 502 ''BATCH_IMAGE_BILLING_HOLD_FAILED'' ''batch image balance hold failed''"

definition ErrBatchImageDisabled :: go_error where
  "ErrBatchImageDisabled =
     New 404 ''BATCH_IMAGE_DISABLED'' ''batch image API is disabled''"

definition ErrBatchImageGroupDisabled :: go_error where
  "ErrBatchImageGroupDisabled =
     New 403 ''BATCH_IMAGE_GROUP_DISABLED'' ''batch image API is disabled for this group''"

definition ErrBatchImageInvalidModel :: go_error where
  "ErrBatchImageInvalidModel =
     New 400 ''BATCH_IMAGE_INVALID_MODEL'' ''batch image model is required''"

definition ErrBatchImageNoAccountAvailable :: go_error where
  "ErrBatchImageNoAccountAvailable =
     New 502 ''BATCH_IMAGE_NO_ACCOUNT_AVAILABLE'' ''no compatible batch image account is available''"

definition ErrBatchImageInvalidItems :: go_error where
  "ErrBatchImageInvalidItems =
     New 400 ''BATCH_IMAGE_INVALID_ITEMS'' ''batch image items are invalid''"

definition ErrBatchImageDuplicateCustomIDInRequest :: go_error where
  "ErrBatchImageDuplicateCustomIDInRequest =
     New 400 ''BATCH_IMAGE_DUPLICATE_CUSTOM_ID'' ''batch image custom ids must be unique''"

definition ErrBatchImagePromptTooLong :: go_error where
  "ErrBatchImagePromptTooLong =
     New 400 ''BATCH_IMAGE_PROMPT_TOO_LONG'' ''batch image prompt is too long''"

definition ErrBatchImageInvalidReferenceImage :: go_error where
  "ErrBatchImageInvalidReferenceImage =
     New 400 ''BATCH_IMAGE_INVALID_REFERENCE_IMAGE'' ''batch image reference image is invalid''"

definition ErrBatchImageTooManyReferenceImages :: go_error where
  "ErrBatchImageTooManyReferenceImages =
     New 400 ''BATCH_IMAGE_TOO_MANY_REFERENCE_IMAGES'' ''too many batch image reference images for this model''"

definition ErrBatchImageReferenceImagesTooLarge :: go_error where
  "ErrBatchImageReferenceImagesTooLarge =
     New 400 ''BATCH_IMAGE_REFERENCE_IMAGES_TOO_LARGE'' ''batch image reference images are too large''"

definition ErrBatchImageTooManyOutputImages :: go_error where
  "ErrBatchImageTooManyOutputImages =
     New 400 ''BATCH_IMAGE_TOO_MANY_OUTPUT_IMAGES'' ''too many batch image output images''"

definition ErrBatchImageProviderSubmitFailed :: go_error where
  "ErrBatchImageProviderSubmitFailed =
     New 502 ''BATCH_IMAGE_PROVIDER_SUBMIT_FAILED'' ''batch image provider submit failed''"

definition ErrBatchImageQueueFailed :: go_error where
  "ErrBatchImageQueueFailed =
     New 502 ''BATCH_IMAGE_QUEUE_FAILED'' ''batch image queue failed''"

definition ErrBatchImageIdempotencyConflict :: go_error where
  "ErrBatchImageIdempotencyConflict =
     New 409 ''BATCH_IMAGE_IDEMPOTENCY_CONFLICT'' ''idempotency key reused with different batch image request''"

definition ErrBatchImageCancelFailed :: go_error where
  "ErrBatchImageCancelFailed =
     New 502 ''BATCH_IMAGE_CANCEL_FAILED'' ''batch image cancel failed''"

definition ErrBatchImageVertexGCSBucketMissing :: go_error where
  "ErrBatchImageVertexGCSBucketMissing =
     New 502 ''BATCH_IMAGE_VERTEX_GCS_BUCKET_MISSING'' ''Vertex managed GCS bucket is not configured''"

definition ErrBatchImageNotReady :: go_error where
  "ErrBatchImageNotReady =
     New 409 ''BATCH_IMAGE_NOT_READY'' ''batch image job is not completed''"

definition ErrBatchImageOutputDeleted :: go_error where
  "ErrBatchImageOutputDeleted =
     New 410 ''BATCH_IMAGE_OUTPUT_DELETED'' ''batch image output has been deleted''"

definition ErrBatchImageItemNotFound :: go_error where
  "ErrBatchImageItemNotFound =
     New 404 ''BATCH_IMAGE_ITEM_NOT_FOUND'' ''batch image item not found''"

definition ErrBatchImageItemFailed :: go_error where
  "ErrBatchImageItemFailed =
     New 409 ''BATCH_IMAGE_ITEM_FAILED'' ''batch image item did not succeed''"

definition ErrBatchImageResultMissing :: go_error where
  "ErrBatchImageResultMissing =
     New 500 ''BATCH_IMAGE_RESULT_MISSING'' ''batch image result is missing''"

definition ErrBatchImageDownloadLimited :: go_error where
  "ErrBatchImageDownloadLimited =
     New 429 ''BATCH_IMAGE_DOWNLOAD_LIMITED'' ''too many batch image downloads''"

definition ErrBatchImageDownloadFailed :: go_error where
  "ErrBatchImageDownloadFailed =
     New 500 ''BATCH_IMAGE_DOWNLOAD_FAILED'' ''batch image download failed''"

definition ErrBatchImageDownloadTooLarge :: go_error where
  "ErrBatchImageDownloadTooLarge =
     New 400 ''BATCH_IMAGE_DOWNLOAD_TOO_LARGE'' ''batch image download is too large''"

definition ErrBatchImageItemImageIndexOutOfRange :: go_error where
  "ErrBatchImageItemImageIndexOutOfRange =
     New 400 ''BATCH_IMAGE_ITEM_IMAGE_INDEX_OUT_OF_RANGE'' ''batch image item image index is out of range''"

definition ErrBatchImageZipTooManyItems :: go_error where
  "ErrBatchImageZipTooManyItems =
     New 400 ''BATCH_IMAGE_ZIP_TOO_MANY_ITEMS'' ''batch image ZIP contains too many items; use single item downloads''"

definition ErrBatchImageOutputDeleteNotReady :: go_error where
  "ErrBatchImageOutputDeleteNotReady =
     New 409 ''BATCH_IMAGE_OUTPUT_DELETE_NOT_READY'' ''batch image output can only be deleted after completion''"

definition ErrBatchImageRecordDeleteNotReady :: go_error where
  "ErrBatchImageRecordDeleteNotReady =
     New 409 ''BATCH_IMAGE_RECORD_DELETE_NOT_READY'' ''batch image record can only be deleted after the job finishes''"

definition ErrBatchImageCleanupFailed :: go_error where
  "ErrBatchImageCleanupFailed =
     New 502 ''BATCH_IMAGE_CLEANUP_FAILED'' ''batch image cleanup failed''"

definition ErrBatchImageCleanupUnsafePath :: go_error where
  "ErrBatchImageCleanupUnsafePath =
     New 400 ''BATCH_IMAGE_CLEANUP_UNSAFE_PATH'' ''batch image cleanup path is unsafe''"

definition ErrBatchImageProviderCleanupFailed :: go_error where
  "ErrBatchImageProviderCleanupFailed =
     New 502 ''BATCH_IMAGE_PROVIDER_CLEANUP_FAILED'' ''batch image provider cleanup failed''"

section \<open>Data\<close>

datatype payload_value = PString string | PInt int | PUsd usd | PTime go_time

type_synonym event_payload = "(string \<times> payload_value) list"

record BatchImageJob =
  j_ID :: int
  j_BatchID :: string
  j_UserID :: int
  j_APIKeyID :: "int option"
  j_AccountID :: "int option"
  j_Provider :: string
  j_Model :: string
  j_TaskName :: string
  j_ParentBatchID :: "string option"
  j_Status :: string
  j_ProviderJobName :: "string option"
  j_ProviderInputRef :: "string option"
  j_ProviderOutputRef :: "string option"
  j_GCSInputURI :: "string option"
  j_GCSOutputURI :: "string option"
  j_ItemCount :: int
  j_SuccessCount :: int
  j_FailCount :: int
  j_CancelledCount :: int
  j_EstimatedCost :: usd
  j_HoldAmount :: "usd option"
  j_ActualCost :: "usd option"
  j_BaseUnitPrice :: usd
  j_GroupRateMultiplier :: usd
  j_AccountRateMultiplier :: usd
  j_BatchDiscountMultiplier :: usd
  j_HoldMultiplier :: usd
  j_BillableUnitPrice :: usd
  j_HoldUnitPrice :: usd
  j_PricingSnapshotVersion :: int
  j_Currency :: string
  j_HoldID :: "string option"
  j_IdempotencyKey :: "string option"
  j_RequestHash :: "string option"
  j_ManifestHash :: "string option"
  j_SessionID :: "string option"
  j_RetryCount :: int
  j_Version :: int
  j_OutputExpiresAt :: "go_time option"
  j_InputDeletedAt :: "go_time option"
  j_OutputDeletedAt :: "go_time option"
  j_DownloadedAt :: "go_time option"
  j_UserDeletedAt :: "go_time option"
  j_LastErrorCode :: "string option"
  j_LastErrorMessage :: "string option"
  j_CreatedAt :: go_time
  j_UpdatedAt :: go_time
  j_SubmittedAt :: "go_time option"
  j_StartedAt :: "go_time option"
  j_FinishedAt :: "go_time option"
  j_SettledAt :: "go_time option"

record CreateBatchImageJobParams =
  p_BatchID :: string
  p_UserID :: int
  p_APIKeyID :: "int option"
  p_AccountID :: "int option"
  p_Provider :: string
  p_Model :: string
  p_TaskName :: string
  p_ParentBatchID :: "string option"
  p_Status :: string
  p_ProviderJobName :: "string option"
  p_ProviderInputRef :: "string option"
  p_ProviderOutputRef :: "string option"
  p_GCSInputURI :: "string option"
  p_GCSOutputURI :: "string option"
  p_ItemCount :: int
  p_SuccessCount :: int
  p_FailCount :: int
  p_CancelledCount :: int
  p_EstimatedCost :: usd
  p_HoldAmount :: "usd option"
  p_ActualCost :: "usd option"
  p_BaseUnitPrice :: usd
  p_GroupRateMultiplier :: usd
  p_AccountRateMultiplier :: usd
  p_BatchDiscountMultiplier :: usd
  p_HoldMultiplier :: usd
  p_BillableUnitPrice :: usd
  p_HoldUnitPrice :: usd
  p_PricingSnapshotVersion :: int
  p_Currency :: string
  p_HoldID :: "string option"
  p_IdempotencyKey :: "string option"
  p_RequestHash :: "string option"
  p_ManifestHash :: "string option"
  p_SessionID :: "string option"
  p_RetryCount :: int
  p_OutputExpiresAt :: "go_time option"

record BatchImageItem =
  i_ID :: int
  i_JobID :: string
  i_CustomID :: string
  i_Status :: string
  i_RequestHash :: "string option"
  i_PromptPreview :: "string option"
  i_ProviderSourceObject :: "string option"
  i_SourceLineNumber :: "int option"
  i_SourceByteOffset :: "int option"
  i_SourceByteLength :: "int option"
  i_MimeType :: "string option"
  i_FileExtension :: "string option"
  i_ImageCount :: int
  i_ErrorCode :: "string option"
  i_ErrorMessage :: "string option"
  i_BilledAmount :: "usd option"
  i_CreatedAt :: go_time
  i_IndexedAt :: "go_time option"

record CreateBatchImageItemParams =
  ip_JobID :: string
  ip_CustomID :: string
  ip_Status :: string
  ip_RequestHash :: "string option"
  ip_PromptPreview :: "string option"
  ip_ProviderSourceObject :: "string option"
  ip_SourceLineNumber :: "int option"
  ip_SourceByteOffset :: "int option"
  ip_SourceByteLength :: "int option"
  ip_MimeType :: "string option"
  ip_FileExtension :: "string option"
  ip_ImageCount :: int
  ip_ErrorCode :: "string option"
  ip_ErrorMessage :: "string option"
  ip_BilledAmount :: "usd option"
  ip_IndexedAt :: "go_time option"

record BatchImageItemFilter =
  f_Status :: string
  f_Limit :: int
  f_Offset :: int

record BatchImageJobFilter =
  jf_Status :: string
  jf_TaskNameLike :: string
  jf_Downloaded :: "bool option"
  jf_CreatedAfter :: "go_time option"
  jf_CreatedBefore :: "go_time option"
  jf_ExcludeDeleted :: bool
  jf_Limit :: int
  jf_Offset :: int

record BatchImageCounts =
  c_SuccessCount :: int
  c_FailCount :: int

record UpdateBatchImageJobProviderSubmitParams =
  us_BatchID :: string
  us_ProviderJobName :: string
  us_ProviderInputRef :: string
  us_ProviderOutputRef :: string
  us_GCSInputURI :: string
  us_GCSOutputURI :: string
  us_EventPayload :: "event_payload option"

record BatchImageTransitionOptions =
  to_EventType :: string
  to_EventPayload :: "event_payload option"
  to_ErrorCode :: "string option"
  to_ErrorMessage :: "string option"
  to_Now :: "go_time option"

record MarkBatchImageJobSettledParams =
  ms_BatchID :: string
  ms_ActualCost :: usd
  ms_ManifestHash :: string
  ms_EventPayload :: "event_payload option"
  ms_Now :: "go_time option"
  ms_OutputExpiresAt :: "go_time option"

record BatchImageEvent =
  e_ID :: int
  e_JobID :: string
  e_EventType :: string
  e_Payload :: "event_payload option"
  e_EventHash :: "string option"
  e_CreatedAt :: go_time

text \<open>The fields that a settlement writes to the usage log; their other fields stay empty.\<close>

record UsageLog =
  ul_UserID :: int
  ul_APIKeyID :: int
  ul_AccountID :: int
  ul_RequestID :: string
  ul_Model :: string
  ul_RequestedModel :: string
  ul_InboundEndpoint :: "string option"
  ul_UpstreamEndpoint :: "string option"
  ul_ImageCount :: int
  ul_ImageOutputCost :: usd
  ul_TotalCost :: usd
  ul_ActualCost :: usd
  ul_RateMultiplier :: usd
  ul_AccountRateMultiplier :: "usd option"
  ul_BillingType :: int
  ul_RequestType :: int
  ul_BillingMode :: "string option"
  ul_ImageSize :: "string option"
  ul_SessionID :: "string option"
  ul_CreatedAt :: go_time

text \<open>
  The stores of the batch-image service: the PostgreSQL tables, the Redis queue, and the users
  whose cached credentials were invalidated.
\<close>

record batch_db =
  job_rows :: "BatchImageJob list"
  job_serial :: int
  item_rows :: "BatchImageItem list"
  item_serial :: int
  event_rows :: "BatchImageEvent list"
  event_serial :: int
  ledger :: billing_db
  usage_logs :: "string \<times> int \<rightharpoonup> UsageLog"
  queue :: batch_queue
  auth_invalidations :: "int list"

section \<open>The state machine\<close>

definition IsSupportedBatchImageProvider :: "string \<Rightarrow> bool" where
  "IsSupportedBatchImageProvider provider \<longleftrightarrow>
     provider = BatchImageProviderGeminiAPI \<or> provider = BatchImageProviderVertex"

definition IsTerminalBatchImageJobStatus :: "string \<Rightarrow> bool" where
  "IsTerminalBatchImageJobStatus status \<longleftrightarrow>
     status \<in> {BatchImageJobStatusCompleted, BatchImageJobStatusFailed,
                BatchImageJobStatusCancelled, BatchImageJobStatusOutputDeleted}"

definition allowed_transitions :: "(string \<times> string list) list" where
  "allowed_transitions =
     [(BatchImageJobStatusCreated,
         [BatchImageJobStatusUploading, BatchImageJobStatusSubmitted, BatchImageJobStatusCancelled]),
      (BatchImageJobStatusUploading,
         [BatchImageJobStatusSubmitted, BatchImageJobStatusCancelled]),
      (BatchImageJobStatusSubmitted,
         [BatchImageJobStatusRunning, BatchImageJobStatusIndexing, BatchImageJobStatusFailed,
          BatchImageJobStatusCancelled]),
      (BatchImageJobStatusRunning,
         [BatchImageJobStatusRunning, BatchImageJobStatusIndexing, BatchImageJobStatusFailed,
          BatchImageJobStatusCancelled]),
      (BatchImageJobStatusIndexing,
         [BatchImageJobStatusSettling, BatchImageJobStatusFailed]),
      (BatchImageJobStatusSettling,
         [BatchImageJobStatusCompleted])]"

definition CanTransitionBatchImageJob :: "string \<Rightarrow> string \<Rightarrow> bool" where
  "CanTransitionBatchImageJob from_status to_status =
     (if from_status = '''' \<or> to_status = '''' then False
      else if IsTerminalBatchImageJobStatus from_status
      then to_status = BatchImageJobStatusOutputDeleted
           \<and> from_status \<noteq> BatchImageJobStatusOutputDeleted
           \<and> (from_status = BatchImageJobStatusCompleted
              \<or> from_status = BatchImageJobStatusFailed
              \<or> from_status = BatchImageJobStatusCancelled)
      else if to_status = BatchImageJobStatusFailed then True
      else case map_of allowed_transitions from_status of
             None \<Rightarrow> False
           | Some tos \<Rightarrow> to_status \<in> set tos)"

text \<open>\<open>NewBatchImageID\<close> on the sixteen random bytes it reads.\<close>

definition NewBatchImageID :: "int list \<Rightarrow> string" where
  "NewBatchImageID b = ''imgbatch_'' @ hex_EncodeToString b"

section \<open>Rows\<close>

definition update_jobs ::
    "(BatchImageJob \<Rightarrow> bool) \<Rightarrow> (BatchImageJob \<Rightarrow> BatchImageJob) \<Rightarrow> (batch_db, nat) statement" where
  "update_jobs p f d =
     (length (filter p (job_rows d)),
      d\<lparr>job_rows := map (\<lambda>j. if p j then f j else j) (job_rows d)\<rparr>)"

abbreviation has_batch_id :: "string \<Rightarrow> BatchImageJob \<Rightarrow> bool" where
  "has_batch_id batchID \<equiv> (\<lambda>j. j_BatchID j = batchID)"

definition find_job :: "string \<Rightarrow> batch_db \<Rightarrow> BatchImageJob option" where
  "find_job batchID d = find (has_batch_id batchID) (job_rows d)"

definition keep_first :: "go_time option \<Rightarrow> go_time option \<Rightarrow> go_time option" where
  "keep_first old new = (case old of None \<Rightarrow> new | Some t \<Rightarrow> Some t)"

text \<open>A statement that yields one row, scanned.\<close>

definition scan_row :: "'a option \<Rightarrow> go_error \<Rightarrow> go_error + 'a" where
  "scan_row row notFound =
     (case row of Some x \<Rightarrow> Inr x | None \<Rightarrow> Inl (translatePersistenceError ErrNoRows (Some notFound) None))"

definition select_job ::
    "(batch_db \<Rightarrow> BatchImageJob option) \<Rightarrow> batch_db world \<Rightarrow> (go_error + BatchImageJob) \<times> batch_db world" where
  "select_job q = db_exec (\<lambda>d. (scan_row (q d) ErrBatchImageJobNotFound, d))"

text \<open>The foreign key of the events requires the job.\<close>

definition append_event ::
    "go_time \<Rightarrow> string \<Rightarrow> string \<Rightarrow> event_payload option \<Rightarrow> (batch_db, go_error + unit) statement" where
  "append_event now batchID eventType payload d =
     (if find_job batchID d = None then (Inl DriverError, d)
      else (Inr (), d\<lparr>event_rows := event_rows d @
                 [\<lparr>e_ID = event_serial d, e_JobID = batchID, e_EventType = eventType,
                   e_Payload = payload, e_EventHash = None, e_CreatedAt = now\<rparr>],
               event_serial := event_serial d + 1\<rparr>))"

definition AppendBatchImageEvent ::
    "go_time \<Rightarrow> string \<Rightarrow> string \<Rightarrow> event_payload option
       \<Rightarrow> batch_db world \<Rightarrow> (go_error + unit) \<times> batch_db world" where
  "AppendBatchImageEvent now batchID eventType payload =
     db_exec (append_event now batchID eventType payload)"

section \<open>Creating and reading jobs\<close>

definition insert_job ::
    "go_time \<Rightarrow> CreateBatchImageJobParams \<Rightarrow> (batch_db, go_error + BatchImageJob) statement" where
  "insert_job now p d =
     (let job = \<lparr>
      j_ID = job_serial d,
      j_BatchID = p_BatchID p,
      j_UserID = p_UserID p,
      j_APIKeyID = p_APIKeyID p,
      j_AccountID = p_AccountID p,
      j_Provider = p_Provider p,
      j_Model = p_Model p,
      j_TaskName = p_TaskName p,
      j_ParentBatchID = p_ParentBatchID p,
      j_Status = p_Status p,
      j_ProviderJobName = p_ProviderJobName p,
      j_ProviderInputRef = p_ProviderInputRef p,
      j_ProviderOutputRef = p_ProviderOutputRef p,
      j_GCSInputURI = p_GCSInputURI p,
      j_GCSOutputURI = p_GCSOutputURI p,
      j_ItemCount = p_ItemCount p,
      j_SuccessCount = p_SuccessCount p,
      j_FailCount = p_FailCount p,
      j_CancelledCount = p_CancelledCount p,
      j_EstimatedCost = round_scale 10 (p_EstimatedCost p),
      j_HoldAmount = map_option (round_scale 10) (p_HoldAmount p),
      j_ActualCost = map_option (round_scale 10) (p_ActualCost p),
      j_BaseUnitPrice = round_scale 10 (p_BaseUnitPrice p),
      j_GroupRateMultiplier = round_scale 4 (p_GroupRateMultiplier p),
      j_AccountRateMultiplier = round_scale 4 (p_AccountRateMultiplier p),
      j_BatchDiscountMultiplier = round_scale 4 (p_BatchDiscountMultiplier p),
      j_HoldMultiplier = round_scale 4 (p_HoldMultiplier p),
      j_BillableUnitPrice = round_scale 10 (p_BillableUnitPrice p),
      j_HoldUnitPrice = round_scale 10 (p_HoldUnitPrice p),
      j_PricingSnapshotVersion = p_PricingSnapshotVersion p,
      j_Currency = p_Currency p,
      j_HoldID = p_HoldID p,
      j_IdempotencyKey = p_IdempotencyKey p,
      j_RequestHash = p_RequestHash p,
      j_ManifestHash = p_ManifestHash p,
      j_SessionID = p_SessionID p,
      j_RetryCount = p_RetryCount p,
      j_Version = 0,
      j_OutputExpiresAt = p_OutputExpiresAt p,
      j_InputDeletedAt = None,
      j_OutputDeletedAt = None,
      j_DownloadedAt = None,
      j_UserDeletedAt = None,
      j_LastErrorCode = None,
      j_LastErrorMessage = None,
      j_CreatedAt = now,
      j_UpdatedAt = now,
      j_SubmittedAt = None,
      j_StartedAt = None,
      j_FinishedAt = None,
      j_SettledAt = None\<rparr>
      in if find_job (p_BatchID p) d \<noteq> None
            \<or> (case p_ManifestHash p of
                 None \<Rightarrow> False
               | Some h \<Rightarrow> h \<noteq> '''' \<and> (\<exists>j \<in> set (job_rows d). j_ManifestHash j = Some h))
         then (Inl ErrUniqueViolation, d)
         else (Inr job, d\<lparr>job_rows := job_rows d @ [job], job_serial := job_serial d + 1\<rparr>))"

text \<open>\<open>fresh\<close> is what \<open>NewBatchImageID\<close> returns; its only error is that of the random source.\<close>

definition CreateBatchImageJob ::
    "go_time \<Rightarrow> string \<Rightarrow> CreateBatchImageJobParams
       \<Rightarrow> batch_db world \<Rightarrow> (go_error + BatchImageJob) \<times> batch_db world" where
  "CreateBatchImageJob now fresh params w =
     (if \<not> IsSupportedBatchImageProvider (p_Provider params)
      then (Inl ErrBatchImageInvalidProvider, w)
      else
        (let p1 = (if p_BatchID params = '''' then params\<lparr>p_BatchID := fresh\<rparr> else params);
             p2 = (if p_Status p1 = '''' then p1\<lparr>p_Status := BatchImageJobStatusCreated\<rparr> else p1);
             p3 = (if p_Currency p2 = '''' then p2\<lparr>p_Currency := ''USD''\<rparr> else p2)
         in case db_exec (insert_job now p3) w of
              (Inl e, w') \<Rightarrow> (Inl (translatePersistenceError e None (Some ErrBatchImageJobExists)), w')
            | (Inr job, w') \<Rightarrow> (Inr job, w')))"

definition GetBatchImageJobByBatchID ::
    "string \<Rightarrow> batch_db world \<Rightarrow> (go_error + BatchImageJob) \<times> batch_db world" where
  "GetBatchImageJobByBatchID batchID = select_job (find_job batchID)"

definition GetBatchImageJobByIdempotencyKey ::
    "int \<Rightarrow> int \<Rightarrow> string \<Rightarrow> batch_db world \<Rightarrow> (go_error + BatchImageJob) \<times> batch_db world" where
  "GetBatchImageJobByIdempotencyKey userID apiKeyID key =
     select_job (\<lambda>d. find (\<lambda>j. j_UserID j = userID \<and> j_APIKeyID j = Some apiKeyID
                              \<and> j_IdempotencyKey j = Some key)
                   (sort_key (\<lambda>j. - j_ID j) (job_rows d)))"

definition GetBatchImageJobByBatchIDForOwner ::
    "int \<Rightarrow> int \<Rightarrow> string \<Rightarrow> batch_db world \<Rightarrow> (go_error + BatchImageJob) \<times> batch_db world" where
  "GetBatchImageJobByBatchIDForOwner userID apiKeyID batchID =
     select_job (\<lambda>d. find (\<lambda>j. j_BatchID j = batchID \<and> j_UserID j = userID
                              \<and> j_APIKeyID j = Some apiKeyID \<and> j_UserDeletedAt j = None)
                   (job_rows d))"

definition GetBatchImageJobByID ::
    "int \<Rightarrow> batch_db world \<Rightarrow> (go_error + BatchImageJob) \<times> batch_db world" where
  "GetBatchImageJobByID i = select_job (\<lambda>d. find (\<lambda>j. j_ID j = i) (job_rows d))"

definition page :: "int \<Rightarrow> int \<Rightarrow> 'a list \<Rightarrow> 'a list" where
  "page limit offset xs = take (nat limit) (drop (nat offset) xs)"

text \<open>\<open>ilike\<close> is the database's case-insensitive pattern match.\<close>

definition ListBatchImageJobsForOwner ::
    "(string \<Rightarrow> string \<Rightarrow> bool) \<Rightarrow> int \<Rightarrow> int \<Rightarrow> BatchImageJobFilter
       \<Rightarrow> batch_db world \<Rightarrow> (go_error + BatchImageJob list) \<times> batch_db world" where
  "ListBatchImageJobsForOwner ilike userID apiKeyID flt =
     (let limit = (if jf_Limit flt \<le> 0 \<or> jf_Limit flt > 100 then 20 else jf_Limit flt);
          offset = (if jf_Offset flt < 0 then 0 else jf_Offset flt)
      in db_exec (\<lambda>d. (Inr (page limit offset
           (sort_key (\<lambda>j. - j_CreatedAt j) (sort_key (\<lambda>j. - j_ID j)
             (filter (\<lambda>j. j_UserID j = userID \<and> j_APIKeyID j = Some apiKeyID
                \<and> (jf_ExcludeDeleted flt \<longrightarrow> j_UserDeletedAt j = None)
                \<and> (jf_Status flt \<noteq> '''' \<longrightarrow> j_Status j = jf_Status flt)
                \<and> (jf_TaskNameLike flt \<noteq> ''''
                   \<longrightarrow> ilike (j_TaskName j) (''%'' @ jf_TaskNameLike flt @ ''%''))
                \<and> (case jf_Downloaded flt of
                     None \<Rightarrow> True
                   | Some b \<Rightarrow> if b then j_DownloadedAt j \<noteq> None else j_DownloadedAt j = None)
                \<and> (case jf_CreatedAfter flt of None \<Rightarrow> True | Some t \<Rightarrow> t \<le> j_CreatedAt j)
                \<and> (case jf_CreatedBefore flt of None \<Rightarrow> True | Some t \<Rightarrow> j_CreatedAt j < t))
              (job_rows d))))), d)))"

section \<open>Changing the status\<close>

text \<open>What the update writes to the row.\<close>

definition transition_row ::
    "go_time \<Rightarrow> string \<Rightarrow> BatchImageTransitionOptions \<Rightarrow> BatchImageJob \<Rightarrow> BatchImageJob" where
  "transition_row clock toStatus opts j =
     (let now = (case to_Now opts of None \<Rightarrow> clock | Some t \<Rightarrow> t);
          stamp = (\<lambda>b old. if b then keep_first old (Some now) else old)
      in j\<lparr>
         j_Status := toStatus,
         j_Version := j_Version j + 1,
         j_UpdatedAt := now,
         j_LastErrorCode := (if toStatus = ''failed'' then to_ErrorCode opts else j_LastErrorCode j),
         j_LastErrorMessage := (if toStatus = ''failed'' then to_ErrorMessage opts
                                else j_LastErrorMessage j),
         j_SubmittedAt := stamp (toStatus = ''submitted'') (j_SubmittedAt j),
         j_StartedAt := stamp (toStatus = ''running'') (j_StartedAt j),
         j_FinishedAt := stamp (toStatus \<in> {''completed'', ''failed'', ''cancelled''}) (j_FinishedAt j),
         j_SettledAt := stamp (toStatus = ''completed'') (j_SettledAt j),
         j_OutputDeletedAt := stamp (toStatus = ''output_deleted'') (j_OutputDeletedAt j)\<rparr>)"

definition transitionBatchImageJobStatusWithSQL ::
    "go_time \<Rightarrow> string \<Rightarrow> string \<Rightarrow> BatchImageTransitionOptions
       \<Rightarrow> (batch_db, go_error + unit) statement" where
  "transitionBatchImageJobStatusWithSQL clock batchID toStatus opts d =
     (case find_job batchID d of
        None \<Rightarrow> (Inl (translatePersistenceError ErrNoRows (Some ErrBatchImageJobNotFound) None), d)
      | Some current \<Rightarrow>
          if \<not> CanTransitionBatchImageJob (j_Status current) toStatus
          then (Inl ErrBatchImageInvalidTransition, d)
          else
            (let d1 = snd (update_jobs (has_batch_id batchID) (transition_row clock toStatus opts) d)
             in if to_EventType opts \<noteq> ''''
                then append_event clock batchID (to_EventType opts) (to_EventPayload opts) d1
                else (Inr (), d1)))"

definition TransitionBatchImageJobStatus ::
    "go_time \<Rightarrow> string \<Rightarrow> string \<Rightarrow> BatchImageTransitionOptions
       \<Rightarrow> batch_db world \<Rightarrow> (go_error + unit) \<times> batch_db world" where
  "TransitionBatchImageJobStatus clock batchID toStatus opts =
     db_exec (atomically (transitionBatchImageJobStatusWithSQL clock batchID toStatus opts))"

definition unsubmitted :: "BatchImageJob \<Rightarrow> bool" where
  "unsubmitted j \<longleftrightarrow> j_Status j = ''created'' \<or> j_Status j = ''uploading''"

definition TouchBatchImageJobSubmitting ::
    "go_time \<Rightarrow> string \<Rightarrow> batch_db world \<Rightarrow> (go_error + unit) \<times> batch_db world" where
  "TouchBatchImageJobSubmitting now batchID =
     db_exec (\<lambda>d. (Inr (), snd (update_jobs (\<lambda>j. j_BatchID j = batchID \<and> unsubmitted j)
                              (\<lambda>j. j\<lparr>j_UpdatedAt := now\<rparr>) d)))"

text \<open>
  The update and the event are two statements. The flag says whether the update applied, which
  stays true when only the event fails.
\<close>

definition FailStaleUnsubmittedBatchImageJob ::
    "go_time \<Rightarrow> string \<Rightarrow> go_time \<Rightarrow> string \<Rightarrow> string
       \<Rightarrow> batch_db world \<Rightarrow> (bool \<times> go_error option) \<times> batch_db world" where
  "FailStaleUnsubmittedBatchImageJob now batchID cutoff code message w =
     (case db_exec (\<lambda>d. let (n, d') = update_jobs
                (\<lambda>j. j_BatchID j = batchID \<and> unsubmitted j \<and> j_ProviderJobName j = None
                     \<and> j_UpdatedAt j \<le> cutoff)
                (\<lambda>j. j\<lparr>j_Status := ''failed'',
                       j_LastErrorCode := Some code,
                       j_LastErrorMessage := Some message,
                       j_FinishedAt := keep_first (j_FinishedAt j) (Some now),
                       j_UpdatedAt := now,
                       j_Version := j_Version j + 1\<rparr>) d
              in (Inr n, d')) w of
        (Inl e, w1) \<Rightarrow> ((False, Some e), w1)
      | (Inr affected, w1) \<Rightarrow>
          if affected = 0 then ((False, None), w1)
          else case AppendBatchImageEvent now batchID ''billing_hold_recovery_failed_unsubmitted''
                      (Some [(''batch_id'', PString batchID), (''error_code'', PString code)]) w1 of
                 (Inl e, w2) \<Rightarrow> ((True, Some e), w2)
               | (Inr _, w2) \<Rightarrow> ((True, None), w2))"

text \<open>An update of one job that reports a missing row.\<close>

definition update_found ::
    "go_error \<Rightarrow> (BatchImageJob \<Rightarrow> bool) \<Rightarrow> (BatchImageJob \<Rightarrow> BatchImageJob)
       \<Rightarrow> batch_db world \<Rightarrow> (go_error + unit) \<times> batch_db world" where
  "update_found missing p f w =
     (case db_exec (\<lambda>d. let (n, d') = update_jobs p f d in (Inr n, d')) w of
        (Inl e, w1) \<Rightarrow> (Inl e, w1)
      | (Inr affected, w1) \<Rightarrow> if affected = 0 then (Inl missing, w1) else (Inr (), w1))"

definition UpdateBatchImageJobProviderOutputRef ::
    "go_time \<Rightarrow> string \<Rightarrow> string \<Rightarrow> batch_db world \<Rightarrow> (go_error + unit) \<times> batch_db world" where
  "UpdateBatchImageJobProviderOutputRef now batchID ref =
     update_found ErrBatchImageJobNotFound (has_batch_id batchID)
       (\<lambda>j. j\<lparr>j_ProviderOutputRef := Some ref, j_UpdatedAt := now\<rparr>)"

definition NULLIF :: "string \<Rightarrow> string option" where
  "NULLIF s = (if s = '''' then None else Some s)"

definition updateBatchImageJobProviderSubmitWithSQL ::
    "go_time \<Rightarrow> UpdateBatchImageJobProviderSubmitParams \<Rightarrow> (batch_db, go_error + unit) statement" where
  "updateBatchImageJobProviderSubmitWithSQL now params d =
     (case find_job (us_BatchID params) d of
        None \<Rightarrow> (Inl (translatePersistenceError ErrNoRows (Some ErrBatchImageJobNotFound) None), d)
      | Some current \<Rightarrow>
          if \<not> CanTransitionBatchImageJob (j_Status current) BatchImageJobStatusSubmitted
          then (Inl ErrBatchImageInvalidTransition, d)
          else
            (let d1 = snd (update_jobs (has_batch_id (us_BatchID params)) (\<lambda>j. j\<lparr>
                   j_Status := ''submitted'',
                   j_ProviderJobName := Some (us_ProviderJobName params),
                   j_ProviderInputRef := NULLIF (us_ProviderInputRef params),
                   j_ProviderOutputRef := NULLIF (us_ProviderOutputRef params),
                   j_GCSInputURI := NULLIF (us_GCSInputURI params),
                   j_GCSOutputURI := NULLIF (us_GCSOutputURI params),
                   j_SubmittedAt := keep_first (j_SubmittedAt j) (Some now),
                   j_UpdatedAt := now,
                   j_Version := j_Version j + 1\<rparr>) d)
             in append_event now (us_BatchID params) ''provider_submitted'' (us_EventPayload params) d1))"

definition UpdateBatchImageJobProviderSubmit ::
    "go_time \<Rightarrow> UpdateBatchImageJobProviderSubmitParams
       \<Rightarrow> batch_db world \<Rightarrow> (go_error + unit) \<times> batch_db world" where
  "UpdateBatchImageJobProviderSubmit now params =
     db_exec (atomically (updateBatchImageJobProviderSubmitWithSQL now params))"

definition RecordBatchImageJobSubmitFailure ::
    "go_time \<Rightarrow> string \<Rightarrow> string \<Rightarrow> string \<Rightarrow> bool
       \<Rightarrow> batch_db world \<Rightarrow> (go_error + unit) \<times> batch_db world" where
  "RecordBatchImageJobSubmitFailure now batchID code message markFailed w =
     (case db_exec (\<lambda>d. (Inr (), snd (update_jobs (has_batch_id batchID) (\<lambda>j.
              let status = (if markFailed then ''failed'' else j_Status j)
              in j\<lparr>j_Status := status,
                   j_LastErrorCode := Some code,
                   j_LastErrorMessage := Some message,
                   j_FinishedAt := (if status = ''failed'' then keep_first (j_FinishedAt j) (Some now)
                                    else j_FinishedAt j),
                   j_UpdatedAt := now,
                   j_Version := j_Version j + 1\<rparr>) d))) w of
        (Inl e, w1) \<Rightarrow> (Inl e, w1)
      | (Inr _, w1) \<Rightarrow>
          AppendBatchImageEvent now batchID (if markFailed then ''submit_failed'' else ''queue_failed'')
            (Some [(''error_code'', PString code)]) w1)"

definition markBatchImageJobSettledWithSQL ::
    "go_time \<Rightarrow> MarkBatchImageJobSettledParams \<Rightarrow> (batch_db, go_error + unit) statement" where
  "markBatchImageJobSettledWithSQL clock params d =
     (let now = (case ms_Now params of None \<Rightarrow> clock | Some t \<Rightarrow> t);
          (affected, d1) = update_jobs
            (\<lambda>j. j_BatchID j = ms_BatchID params \<and> j_Status j = ''settling''
                 \<and> (j_ManifestHash j = None \<or> j_ManifestHash j = Some ''''
                    \<or> j_ManifestHash j = Some (ms_ManifestHash params)))
            (\<lambda>j. j\<lparr>j_Status := ''completed'',
                   j_ActualCost := Some (round_scale 10 (ms_ActualCost params)),
                   j_ManifestHash := Some (ms_ManifestHash params),
                   j_SettledAt := keep_first (j_SettledAt j) (Some now),
                   j_FinishedAt := keep_first (j_FinishedAt j) (Some now),
                   j_OutputExpiresAt := keep_first (j_OutputExpiresAt j) (ms_OutputExpiresAt params),
                   j_UpdatedAt := now,
                   j_Version := j_Version j + 1\<rparr>) d
      in if affected = 0
         then (case find_job (ms_BatchID params) d1 of
                 None \<Rightarrow> (Inl (translatePersistenceError ErrNoRows (Some ErrBatchImageJobNotFound) None), d1)
               | Some job \<Rightarrow>
                   if j_Status job \<noteq> BatchImageJobStatusSettling
                   then (if j_Status job = BatchImageJobStatusCompleted
                         then (Inl ErrBatchImageAlreadySettled, d1)
                         else (Inl ErrBatchImageSettlementInvalidStatus, d1))
                   else (Inl ErrBatchImageSettlementManifestConflict, d1))
         else append_event clock (ms_BatchID params) ''settlement_completed'' (ms_EventPayload params) d1)"

definition MarkBatchImageJobSettled ::
    "go_time \<Rightarrow> MarkBatchImageJobSettledParams
       \<Rightarrow> batch_db world \<Rightarrow> (go_error + unit) \<times> batch_db world" where
  "MarkBatchImageJobSettled clock params =
     db_exec (atomically (markBatchImageJobSettledWithSQL clock params))"

text \<open>
  The new retry count is returned also when the event fails; the error then comes with it. The
  count is 0 with any other error.
\<close>

definition SetBatchImageJobSettlementFailed ::
    "go_time \<Rightarrow> string \<Rightarrow> string \<Rightarrow> string
       \<Rightarrow> batch_db world \<Rightarrow> (int \<times> go_error option) \<times> batch_db world" where
  "SetBatchImageJobSettlementFailed now batchID code message w =
     (case db_exec (\<lambda>d. let d' = snd (update_jobs (has_batch_id batchID) (\<lambda>j.
              j\<lparr>j_LastErrorCode := Some code,
                j_LastErrorMessage := Some message,
                j_RetryCount := j_RetryCount j + 1,
                j_UpdatedAt := now\<rparr>) d)
            in (scan_row (map_option j_RetryCount (find_job batchID d')) ErrBatchImageJobNotFound, d')) w of
        (Inl e, w1) \<Rightarrow> ((0, Some e), w1)
      | (Inr retryCount, w1) \<Rightarrow>
          (case AppendBatchImageEvent now batchID ''settlement_failed''
                  (Some [(''error_code'', PString code)]) w1 of
             (Inl e, w2) \<Rightarrow> ((retryCount, Some e), w2)
           | (Inr _, w2) \<Rightarrow> ((retryCount, None), w2)))"

section \<open>Items\<close>

definition insert_item ::
    "go_time \<Rightarrow> CreateBatchImageItemParams \<Rightarrow> (batch_db, go_error + BatchImageItem) statement" where
  "insert_item now p d =
     (let item = \<lparr>
      i_ID = item_serial d,
      i_JobID = ip_JobID p,
      i_CustomID = ip_CustomID p,
      i_Status = ip_Status p,
      i_RequestHash = ip_RequestHash p,
      i_PromptPreview = ip_PromptPreview p,
      i_ProviderSourceObject = ip_ProviderSourceObject p,
      i_SourceLineNumber = ip_SourceLineNumber p,
      i_SourceByteOffset = ip_SourceByteOffset p,
      i_SourceByteLength = ip_SourceByteLength p,
      i_MimeType = ip_MimeType p,
      i_FileExtension = ip_FileExtension p,
      i_ImageCount = ip_ImageCount p,
      i_ErrorCode = ip_ErrorCode p,
      i_ErrorMessage = ip_ErrorMessage p,
      i_BilledAmount = map_option (round_scale 10) (ip_BilledAmount p),
      i_CreatedAt = now,
      i_IndexedAt = ip_IndexedAt p\<rparr>
      in if find_job (ip_JobID p) d = None then (Inl DriverError, d)
         else if \<exists>i \<in> set (item_rows d). i_JobID i = ip_JobID p \<and> i_CustomID i = ip_CustomID p
         then (Inl ErrUniqueViolation, d)
         else (Inr item, d\<lparr>item_rows := item_rows d @ [item], item_serial := item_serial d + 1\<rparr>))"

abbreviation item_exists :: "go_error \<Rightarrow> go_error" where
  "item_exists e \<equiv> translatePersistenceError e None (Some ErrBatchImageItemExists)"

definition CreateBatchImageItem ::
    "go_time \<Rightarrow> CreateBatchImageItemParams
       \<Rightarrow> batch_db world \<Rightarrow> (go_error + BatchImageItem) \<times> batch_db world" where
  "CreateBatchImageItem now params w =
     (case db_exec (insert_item now params) w of
        (Inl e, w') \<Rightarrow> (Inl (item_exists e), w')
      | (Inr i, w') \<Rightarrow> (Inr i, w'))"

fun insert_items ::
    "go_time \<Rightarrow> CreateBatchImageItemParams list \<Rightarrow> (batch_db, go_error + unit) statement" where
  "insert_items now [] d = (Inr (), d)"
| "insert_items now (p # ps) d =
     (case insert_item now p d of
        (Inl e, d') \<Rightarrow> (Inl (item_exists e), d')
      | (Inr _, d') \<Rightarrow> insert_items now ps d')"

definition BulkCreateBatchImageItems ::
    "go_time \<Rightarrow> CreateBatchImageItemParams list
       \<Rightarrow> batch_db world \<Rightarrow> (go_error + unit) \<times> batch_db world" where
  "BulkCreateBatchImageItems now params w =
     (if params = [] then (Inr (), w)
      else db_exec (atomically (insert_items now params)) w)"

definition batchImageItemPromptPreviews :: "string \<Rightarrow> batch_db \<Rightarrow> (string \<times> string) list" where
  "batchImageItemPromptPreviews batchID d =
     concat (map (\<lambda>i. case i_PromptPreview i of
                        Some s \<Rightarrow> if s \<noteq> '''' then [(i_CustomID i, s)] else []
                      | None \<Rightarrow> [])
               (filter (\<lambda>i. i_JobID i = batchID) (item_rows d)))"

definition replaceBatchImageItemsForJobWithSQL ::
    "go_time \<Rightarrow> string \<Rightarrow> CreateBatchImageItemParams list \<Rightarrow> BatchImageCounts
       \<Rightarrow> (batch_db, go_error + unit) statement" where
  "replaceBatchImageItemsForJobWithSQL now batchID new_items counts d =
     (case find_job batchID d of
        None \<Rightarrow> (Inl (translatePersistenceError ErrNoRows (Some ErrBatchImageJobNotFound) None), d)
      | Some job \<Rightarrow>
          if j_Status job \<noteq> BatchImageJobStatusIndexing
          then (Inl ErrBatchImageIndexStateConflict, d)
          else
            (let previews = batchImageItemPromptPreviews batchID d;
                 d1 = d\<lparr>item_rows := filter (\<lambda>i. i_JobID i \<noteq> batchID) (item_rows d)\<rparr>;
                 ps = map (\<lambda>p. let p1 = p\<lparr>ip_JobID := batchID\<rparr>
                               in if ip_PromptPreview p1 = None
                                  then p1\<lparr>ip_PromptPreview := map_of previews (ip_CustomID p1)\<rparr>
                                  else p1) new_items
             in case insert_items now ps d1 of
                  (Inl e, d2) \<Rightarrow> (Inl e, d2)
                | (Inr _, d2) \<Rightarrow>
                    (Inr (), snd (update_jobs (has_batch_id batchID) (\<lambda>j.
                       j\<lparr>j_SuccessCount := c_SuccessCount counts,
                         j_FailCount := c_FailCount counts,
                         j_UpdatedAt := now\<rparr>) d2))))"

definition ReplaceBatchImageItemsForJob ::
    "go_time \<Rightarrow> string \<Rightarrow> CreateBatchImageItemParams list \<Rightarrow> BatchImageCounts
       \<Rightarrow> batch_db world \<Rightarrow> (go_error + unit) \<times> batch_db world" where
  "ReplaceBatchImageItemsForJob now batchID new_items counts =
     db_exec (atomically (replaceBatchImageItemsForJobWithSQL now batchID new_items counts))"

definition ListBatchImageItems ::
    "string \<Rightarrow> BatchImageItemFilter \<Rightarrow> batch_db world \<Rightarrow> (go_error + BatchImageItem list) \<times> batch_db world" where
  "ListBatchImageItems batchID flt =
     (let limit = (if f_Limit flt \<le> 0 \<or> f_Limit flt > 500 then 100 else f_Limit flt);
          offset = (if f_Offset flt < 0 then 0 else f_Offset flt)
      in db_exec (\<lambda>d. (Inr (page limit offset (sort_key i_ID
           (filter (\<lambda>i. i_JobID i = batchID \<and> (f_Status flt \<noteq> '''' \<longrightarrow> i_Status i = f_Status flt))
             (item_rows d)))), d)))"

definition ListBatchImageItemsForOwner ::
    "int \<Rightarrow> int \<Rightarrow> string \<Rightarrow> BatchImageItemFilter
       \<Rightarrow> batch_db world \<Rightarrow> (go_error + BatchImageItem list) \<times> batch_db world" where
  "ListBatchImageItemsForOwner userID apiKeyID batchID flt w =
     (case GetBatchImageJobByBatchIDForOwner userID apiKeyID batchID w of
        (Inl e, w1) \<Rightarrow> (Inl e, w1)
      | (Inr _, w1) \<Rightarrow> ListBatchImageItems batchID flt w1)"

definition GetBatchImageJobForDownload ::
    "int \<Rightarrow> int \<Rightarrow> string \<Rightarrow> batch_db world \<Rightarrow> (go_error + BatchImageJob) \<times> batch_db world" where
  "GetBatchImageJobForDownload = GetBatchImageJobByBatchIDForOwner"

definition GetBatchImageItemForDownload ::
    "string \<Rightarrow> string \<Rightarrow> batch_db world \<Rightarrow> (go_error + BatchImageItem) \<times> batch_db world" where
  "GetBatchImageItemForDownload batchID customID =
     db_exec (\<lambda>d. (scan_row (find (\<lambda>i. i_JobID i = batchID \<and> i_CustomID i = customID) (item_rows d))
                     ErrBatchImageItemNotFound, d))"

definition ListBatchImageItemsForDownload ::
    "string \<Rightarrow> string \<Rightarrow> int \<Rightarrow> batch_db world \<Rightarrow> (go_error + BatchImageItem list) \<times> batch_db world" where
  "ListBatchImageItemsForDownload batchID status limit =
     ListBatchImageItems batchID \<lparr>f_Status = status, f_Limit = limit, f_Offset = 0\<rparr>"

section \<open>Cleaning up\<close>

definition list_limit :: "int \<Rightarrow> int" where
  "list_limit limit = (if limit \<le> 0 \<or> limit > 1000 then 100 else limit)"

definition ListBatchImageJobsDueForInputCleanup ::
    "go_time \<Rightarrow> int \<Rightarrow> batch_db world \<Rightarrow> (go_error + BatchImageJob list) \<times> batch_db world" where
  "ListBatchImageJobsDueForInputCleanup cutoff limit =
     db_exec (\<lambda>d. (Inr (page (list_limit limit) 0 (sort_key j_ID
       (filter (\<lambda>j. j_InputDeletedAt j = None \<and> j_ProviderInputRef j \<noteq> None
          \<and> IsTerminalBatchImageJobStatus (j_Status j)
          \<and> (case keep_first (j_FinishedAt j) (j_SettledAt j) of
               Some t \<Rightarrow> t | None \<Rightarrow> j_UpdatedAt j) \<le> cutoff)
        (job_rows d)))), d))"

definition ListBatchImageJobsDueForOutputCleanup ::
    "go_time \<Rightarrow> int \<Rightarrow> batch_db world \<Rightarrow> (go_error + BatchImageJob list) \<times> batch_db world" where
  "ListBatchImageJobsDueForOutputCleanup now limit =
     db_exec (\<lambda>d. (Inr (page (list_limit limit) 0
       (sort_key (\<lambda>j. case j_OutputExpiresAt j of Some t \<Rightarrow> t | None \<Rightarrow> 0) (sort_key j_ID
         (filter (\<lambda>j. j_OutputDeletedAt j = None \<and> j_ProviderOutputRef j \<noteq> None
            \<and> j_Status j = ''completed''
            \<and> (case j_OutputExpiresAt j of None \<Rightarrow> False | Some t \<Rightarrow> t \<le> now))
          (job_rows d))))), d))"

definition stale_unsubmitted :: "go_time \<Rightarrow> BatchImageJob \<Rightarrow> bool" where
  "stale_unsubmitted cutoff j \<longleftrightarrow>
     unsubmitted j \<and> j_ProviderJobName j = None
     \<and> (case j_HoldAmount j of Some h \<Rightarrow> h | None \<Rightarrow> j_EstimatedCost j) > 0
     \<and> j_UpdatedAt j \<le> cutoff"

definition ListStaleUnsubmittedBatchImageJobs ::
    "go_time \<Rightarrow> int \<Rightarrow> batch_db world \<Rightarrow> (go_error + BatchImageJob list) \<times> batch_db world" where
  "ListStaleUnsubmittedBatchImageJobs cutoff limit =
     db_exec (\<lambda>d. (Inr (page (list_limit limit) 0 (sort_key j_UpdatedAt (sort_key j_ID
       (filter (stale_unsubmitted cutoff) (job_rows d))))), d))"

text \<open>The marks: an update of one job, and an event when a row was there.\<close>

definition mark_job ::
    "go_time \<Rightarrow> go_error \<Rightarrow> string \<Rightarrow> (BatchImageJob \<Rightarrow> bool) \<Rightarrow> (BatchImageJob \<Rightarrow> BatchImageJob)
       \<Rightarrow> string \<Rightarrow> event_payload \<Rightarrow> batch_db world \<Rightarrow> (go_error + unit) \<times> batch_db world" where
  "mark_job clock missing batchID p f eventType payload w =
     (case update_found missing p f w of
        (Inl e, w1) \<Rightarrow> (Inl e, w1)
      | (Inr _, w1) \<Rightarrow> AppendBatchImageEvent clock batchID eventType (Some payload) w1)"

definition MarkBatchImageInputDeleted ::
    "go_time \<Rightarrow> string \<Rightarrow> go_time \<Rightarrow> batch_db world \<Rightarrow> (go_error + unit) \<times> batch_db world" where
  "MarkBatchImageInputDeleted clock batchID deletedAt =
     mark_job clock ErrBatchImageJobNotFound batchID (has_batch_id batchID)
       (\<lambda>j. j\<lparr>j_InputDeletedAt := keep_first (j_InputDeletedAt j) (Some deletedAt),
              j_UpdatedAt := deletedAt, j_Version := j_Version j + 1\<rparr>)
       ''input_cleanup_completed''
       [(''batch_id'', PString batchID), (''cleanup_target'', PString ''input''),
        (''deleted_at'', PTime deletedAt)]"

definition MarkBatchImageOutputDeleted ::
    "go_time \<Rightarrow> string \<Rightarrow> go_time \<Rightarrow> batch_db world \<Rightarrow> (go_error + unit) \<times> batch_db world" where
  "MarkBatchImageOutputDeleted clock batchID deletedAt =
     mark_job clock ErrBatchImageJobNotFound batchID (has_batch_id batchID)
       (\<lambda>j. j\<lparr>j_Status := (if j_Status j = ''completed'' then ''output_deleted'' else j_Status j),
              j_OutputDeletedAt := keep_first (j_OutputDeletedAt j) (Some deletedAt),
              j_FinishedAt := (if j_Status j = ''completed''
                               then keep_first (j_FinishedAt j) (Some deletedAt) else j_FinishedAt j),
              j_UpdatedAt := deletedAt, j_Version := j_Version j + 1\<rparr>)
       ''output_cleanup_completed''
       [(''batch_id'', PString batchID), (''cleanup_target'', PString ''output''),
        (''deleted_at'', PTime deletedAt)]"

definition MarkBatchImageDownloaded ::
    "go_time \<Rightarrow> string \<Rightarrow> go_time \<Rightarrow> batch_db world \<Rightarrow> (go_error + unit) \<times> batch_db world" where
  "MarkBatchImageDownloaded clock batchID downloadedAt =
     mark_job clock ErrBatchImageJobNotFound batchID (has_batch_id batchID)
       (\<lambda>j. j\<lparr>j_DownloadedAt := keep_first (j_DownloadedAt j) (Some downloadedAt),
              j_UpdatedAt := downloadedAt\<rparr>)
       ''download_completed''
       [(''batch_id'', PString batchID), (''downloaded_at'', PTime downloadedAt)]"

definition MarkBatchImageJobUserDeleted ::
    "go_time \<Rightarrow> int \<Rightarrow> int \<Rightarrow> string \<Rightarrow> go_time
       \<Rightarrow> batch_db world \<Rightarrow> (go_error + unit) \<times> batch_db world" where
  "MarkBatchImageJobUserDeleted clock userID apiKeyID batchID deletedAt =
     mark_job clock ErrBatchImageRecordDeleteNotReady batchID
       (\<lambda>j. j_BatchID j = batchID \<and> j_UserID j = userID \<and> j_APIKeyID j = Some apiKeyID
            \<and> j_UserDeletedAt j = None \<and> IsTerminalBatchImageJobStatus (j_Status j))
       (\<lambda>j. j\<lparr>j_UserDeletedAt := keep_first (j_UserDeletedAt j) (Some deletedAt),
              j_UpdatedAt := deletedAt\<rparr>)
       ''user_record_deleted''
       [(''batch_id'', PString batchID), (''deleted_at'', PTime deletedAt),
        (''user_id'', PInt userID), (''api_key_id'', PInt apiKeyID)]"

definition SetBatchImageOutputExpiresAt ::
    "go_time \<Rightarrow> string \<Rightarrow> go_time \<Rightarrow> batch_db world \<Rightarrow> (go_error + unit) \<times> batch_db world" where
  "SetBatchImageOutputExpiresAt now batchID expiresAt =
     update_found ErrBatchImageJobNotFound (has_batch_id batchID)
       (\<lambda>j. j\<lparr>j_OutputExpiresAt := keep_first (j_OutputExpiresAt j) (Some expiresAt),
              j_UpdatedAt := now\<rparr>)"

definition RecordBatchImageCleanupFailure ::
    "go_time \<Rightarrow> string \<Rightarrow> string \<Rightarrow> string \<Rightarrow> batch_db world \<Rightarrow> (go_error + unit) \<times> batch_db world" where
  "RecordBatchImageCleanupFailure now batchID code message w =
     (case db_exec (\<lambda>d. (Inr (), snd (update_jobs (has_batch_id batchID) (\<lambda>j.
              j\<lparr>j_LastErrorCode := Some code, j_LastErrorMessage := Some message,
                j_RetryCount := j_RetryCount j + 1, j_UpdatedAt := now\<rparr>) d))) w of
        (Inl e, w1) \<Rightarrow> (Inl e, w1)
      | (Inr _, w1) \<Rightarrow> AppendBatchImageEvent now batchID ''output_cleanup_failed''
                         (Some [(''error_code'', PString code)]) w1)"

end
