(* ===== verification/Batch_Image_Job_Facts.thy ===== *)
theory Batch_Image_Job_Facts
  imports Batch_Image_Job
begin

text \<open>
  What the repository guarantees about the jobs whatever calls are made, in whatever order and
  with whatever faults: ids stay unique, the pricing snapshot of a job never changes, the status
  moves along the state machine, and what a finished job was billed is final.
\<close>

section \<open>The state machine\<close>

lemmas status_defs =
  BatchImageJobStatusCreated_def BatchImageJobStatusUploading_def BatchImageJobStatusSubmitted_def
  BatchImageJobStatusRunning_def BatchImageJobStatusIndexing_def BatchImageJobStatusSettling_def
  BatchImageJobStatusCompleted_def BatchImageJobStatusFailed_def BatchImageJobStatusCancelled_def
  BatchImageJobStatusOutputDeleted_def

text \<open>How far a job has come.\<close>

definition status_rank :: "string \<Rightarrow> nat" where
  "status_rank s =
     (if s = ''uploading'' then 1 else if s = ''submitted'' then 2 else if s = ''running'' then 3
      else if s = ''indexing'' then 4 else if s = ''settling'' then 5
      else if s = ''completed'' \<or> s = ''failed'' \<or> s = ''cancelled'' then 6
      else if s = ''output_deleted'' then 7 else 0)"

lemma CanTransition_rank:
  assumes "CanTransitionBatchImageJob a b" and "a \<noteq> b"
  shows "status_rank a < status_rank b"
  using assms
  by (auto simp: CanTransitionBatchImageJob_def IsTerminalBatchImageJobStatus_def status_defs
      allowed_transitions_def status_rank_def split: if_splits)

lemma CanTransition_terminal:
  assumes "CanTransitionBatchImageJob a b" and "IsTerminalBatchImageJobStatus a"
  shows "b = ''output_deleted''"
  using assms by (auto simp: CanTransitionBatchImageJob_def status_defs split: if_splits)

abbreviation moves_to :: "string \<Rightarrow> string \<Rightarrow> bool" where
  "moves_to \<equiv> CanTransitionBatchImageJob\<^sup>*\<^sup>*"

lemma moves_to_terminal:
  assumes "moves_to a b" and "IsTerminalBatchImageJobStatus a"
  shows "b = a \<or> b = ''output_deleted''" and "IsTerminalBatchImageJobStatus b"
proof -
  have "(b = a \<or> b = ''output_deleted'') \<and> IsTerminalBatchImageJobStatus b"
    using assms
  proof (induction rule: rtranclp_induct)
    case base
    then show ?case by simp
  next
    case (step b c)
    with CanTransition_terminal [of b c] show ?case
      by (auto simp: IsTerminalBatchImageJobStatus_def status_defs)
  qed
  then show "b = a \<or> b = ''output_deleted''" and "IsTerminalBatchImageJobStatus b" by blast+
qed

lemma moves_to_rank:
  assumes "moves_to a b"
  shows "a = b \<or> status_rank a < status_rank b"
  using assms
proof (induction rule: rtranclp_induct)
  case (step b c)
  with CanTransition_rank [of b c] show ?case by (cases "b = c") auto
qed simp

section \<open>How a job evolves\<close>

text \<open>
  What never changes in a job: who it belongs to, what it is, and the amounts it was priced at.
\<close>

definition snapshot where
  "snapshot j = ((j_ID j, j_BatchID j, j_UserID j, j_APIKeyID j, j_AccountID j, j_Provider j),
     (j_Model j, j_ItemCount j, j_EstimatedCost j, j_HoldAmount j, j_BillableUnitPrice j),
     (j_PricingSnapshotVersion j, j_RequestHash j, j_IdempotencyKey j, j_CreatedAt j))"

text \<open>What a job was billed.\<close>

definition bill where
  "bill j = (j_ActualCost j, j_SuccessCount j, j_FailCount j, j_ManifestHash j)"

text \<open>
  One change of a job under a relation on statuses. A finished job stays finished and keeps its
  bill.
\<close>

definition job_ok :: "(string \<Rightarrow> string \<Rightarrow> bool) \<Rightarrow> BatchImageJob \<Rightarrow> BatchImageJob \<Rightarrow> bool" where
  "job_ok R j j' \<longleftrightarrow> snapshot j' = snapshot j \<and> R (j_Status j) (j_Status j')
     \<and> (IsTerminalBatchImageJobStatus (j_Status j)
        \<longrightarrow> IsTerminalBatchImageJobStatus (j_Status j') \<and> bill j' = bill j)"

definition unique_jobs :: "batch_db \<Rightarrow> bool" where
  "unique_jobs d \<longleftrightarrow> distinct (map j_BatchID (job_rows d))"

definition evolves :: "(string \<Rightarrow> string \<Rightarrow> bool) \<Rightarrow> batch_db \<Rightarrow> batch_db \<Rightarrow> bool" where
  "evolves R d d' \<longleftrightarrow> (unique_jobs d \<longrightarrow> unique_jobs d'
     \<and> (\<exists>js new. job_rows d' = js @ new \<and> list_all2 (job_ok R) (job_rows d) js))"

lemma job_ok_refl: "reflp R \<Longrightarrow> job_ok R j j"
  by (simp add: job_ok_def reflpD)

lemma job_ok_trans: "transp R \<Longrightarrow> job_ok R i j \<Longrightarrow> job_ok R j k \<Longrightarrow> job_ok R i k"
  unfolding job_ok_def by (metis transpD)

lemma evolves_refl: "reflp R \<Longrightarrow> evolves R d d"
  unfolding evolves_def
  by (intro impI conjI exI [of _ "job_rows d"] exI [of _ "[]"]) (simp_all add: list_all2_refl job_ok_refl)

lemma evolves_cong: "job_rows d' = job_rows d \<Longrightarrow> reflp R \<Longrightarrow> evolves R d d'"
  using evolves_refl [of R d] by (simp add: evolves_def unique_jobs_def)

lemma evolves_trans:
  assumes "transp R" and "evolves R a b" and "evolves R b c"
  shows "evolves R a c"
  unfolding evolves_def
proof
  assume "unique_jobs a"
  with assms(2) obtain js new where b: "unique_jobs b" "job_rows b = js @ new"
    "list_all2 (job_ok R) (job_rows a) js" by (auto simp: evolves_def)
  with assms(3) obtain ks new' where c: "unique_jobs c" "job_rows c = ks @ new'"
    "list_all2 (job_ok R) (js @ new) ks" by (auto simp: evolves_def)
  then obtain k1 k2 where k: "ks = k1 @ k2" "list_all2 (job_ok R) js k1"
    by (auto simp: list_all2_append1)
  have "list_all2 (job_ok R) (job_rows a) k1"
    using b(3) k(2) job_ok_trans [OF assms(1)] by (rule list_all2_trans [rotated 1]) blast
  with c k show "unique_jobs c \<and> (\<exists>js new. job_rows c = js @ new \<and> list_all2 (job_ok R) (job_rows a) js)"
    by (intro conjI exI [of _ k1] exI [of _ "k2 @ new'"]) auto
qed

lemma evolves_update:
  assumes "reflp R"
    and "\<And>j. unique_jobs d \<Longrightarrow> j \<in> set (job_rows d) \<Longrightarrow> p j \<Longrightarrow> job_ok R j (f j)"
  shows "evolves R d (snd (update_jobs p f d))"
  unfolding evolves_def
proof
  assume u: "unique_jobs d"
  let ?g = "\<lambda>j. if p j then f j else j"
  have ok: "job_ok R j (?g j)" if "j \<in> set (job_rows d)" for j
    using assms u that by (simp add: job_ok_refl)
  have "j_BatchID (?g j) = j_BatchID j" if "j \<in> set (job_rows d)" for j
    using ok [OF that] by (simp add: job_ok_def snapshot_def)
  then have "map j_BatchID (map ?g (job_rows d)) = map j_BatchID (job_rows d)" by simp
  moreover have rows: "job_rows (snd (update_jobs p f d)) = map ?g (job_rows d)"
    by (simp add: update_jobs_def)
  ultimately have "unique_jobs (snd (update_jobs p f d))"
    using u unfolding unique_jobs_def by (simp only:)
  moreover have "list_all2 (job_ok R) (job_rows d) (map ?g (job_rows d))"
    using ok by (simp add: list_all2_conv_all_nth)
  ultimately show "unique_jobs (snd (update_jobs p f d)) \<and>
      (\<exists>js new. job_rows (snd (update_jobs p f d)) = js @ new \<and> list_all2 (job_ok R) (job_rows d) js)"
    by (auto simp: update_jobs_def)
qed

text \<open>With unique ids, the row found is the only one with its id.\<close>

lemma find_job_unique:
  assumes "unique_jobs d" and "find_job b d = Some j" and "i \<in> set (job_rows d)" and "j_BatchID i = b"
  shows "i = j"
proof -
  have "j \<in> set (job_rows d)" and "j_BatchID j = b"
    using assms(2) by (auto simp: find_job_def find_Some_iff in_set_conv_nth)
  with assms(1,3,4) show ?thesis unfolding unique_jobs_def by (metis distinct_map inj_on_def)
qed

section \<open>Every operation\<close>

text \<open>A call whose statement evolves the jobs evolves them, whatever its fate.\<close>

definition w_evolves :: "(string \<Rightarrow> string \<Rightarrow> bool) \<Rightarrow> batch_db world \<Rightarrow> batch_db world \<Rightarrow> bool" where
  "w_evolves R w w' \<longleftrightarrow> evolves R (db w) (db w')"

lemma w_evolves_refl: "reflp R \<Longrightarrow> w_evolves R w w"
  by (simp add: w_evolves_def evolves_refl)

lemma w_evolves_trans: "transp R \<Longrightarrow> w_evolves R a b \<Longrightarrow> w_evolves R b c \<Longrightarrow> w_evolves R a c"
  unfolding w_evolves_def by (rule evolves_trans)

lemma db_exec_evolves:
  assumes "reflp R" and "db_exec st w = (r, w')" and "\<And>d. evolves R d (snd (st d))"
  shows "w_evolves R w w'"
  using db_exec_db [of st w] assms evolves_refl [OF assms(1)] by (auto simp: w_evolves_def)

lemma evolves_atomically:
  assumes "reflp R" and "\<And>d r d'. st d = (Inr r, d') \<Longrightarrow> evolves R d d'"
  shows "evolves R d (snd (atomically st d))"
  using assms(2) [of d] evolves_refl [OF assms(1), of d]
  by (auto simp: atomically_def split: prod.splits sum.splits)

lemma append_event_rows: "append_event now b t p d = (r, d') \<Longrightarrow> job_rows d' = job_rows d"
  by (auto simp: append_event_def split: if_splits)

lemma AppendEvent_evolves:
  assumes "reflp R" and "AppendBatchImageEvent now b t p w = (r, w')"
  shows "w_evolves R w w'"
  using assms(2) unfolding AppendBatchImageEvent_def
  by (rule db_exec_evolves [OF assms(1)])
    (metis append_event_rows evolves_cong assms(1) prod.collapse)

lemma select_job_evolves:
  assumes "reflp R" and "select_job q w = (r, w')"
  shows "w_evolves R w w'"
  using assms(2) unfolding select_job_def
  by (rule db_exec_evolves [OF assms(1)]) (simp add: evolves_refl assms(1))

lemma insert_job_evolves:
  assumes "reflp R"
  shows "evolves R d (snd (insert_job now p d))"
proof (cases "fst (insert_job now p d)")
  case (Inl e)
  then have "snd (insert_job now p d) = d" by (auto simp: insert_job_def Let_def split: if_splits)
  then show ?thesis by (simp add: evolves_refl assms)
next
  case (Inr job)
  then have rows: "job_rows (snd (insert_job now p d)) = job_rows d @ [job]"
    and new: "find_job (p_BatchID p) d = None" and bid: "j_BatchID job = p_BatchID p"
    by (auto simp: insert_job_def Let_def split: if_splits)
  have "j_BatchID job \<notin> j_BatchID ` set (job_rows d)"
    using new bid by (auto simp: find_job_def find_None_iff)
  then show ?thesis
    unfolding evolves_def unique_jobs_def rows
    using assms
    by (intro impI conjI exI [of _ "job_rows d"] exI [of _ "[job]"])
      (simp_all add: job_ok_refl list_all2_refl)
qed

lemma CreateJob_evolves:
  assumes "reflp R" and "CreateBatchImageJob now fresh params w = (r, w')"
  shows "w_evolves R w w'"
proof (cases "IsSupportedBatchImageProvider (p_Provider params)")
  case False
  with assms show ?thesis by (simp add: CreateBatchImageJob_def w_evolves_refl)
next
  case True
  with assms(2) obtain p x where "db_exec (insert_job now p) w = (x, w')"
    by (auto simp: CreateBatchImageJob_def Let_def split: prod.splits sum.splits)
  then show ?thesis by (rule db_exec_evolves [OF assms(1)]) (rule insert_job_evolves [OF assms(1)])
qed

lemma insert_item_rows: "insert_item now p d = (r, d') \<Longrightarrow> job_rows d' = job_rows d"
  by (auto simp: insert_item_def Let_def split: if_splits)

lemma insert_items_rows: "insert_items now ps d = (r, d') \<Longrightarrow> job_rows d' = job_rows d"
proof (induction ps arbitrary: d)
  case (Cons p ps)
  then show ?case by (auto split: prod.splits sum.splits dest: insert_item_rows)
qed simp

lemma items_evolve:
  assumes "reflp R"
  shows "CreateBatchImageItem now p w = (r, w') \<Longrightarrow> w_evolves R w w'"
    and "BulkCreateBatchImageItems now ps w = (r', w') \<Longrightarrow> w_evolves R w w'"
proof -
  have "evolves R d (snd (insert_item now p d))" for d
    by (metis insert_item_rows evolves_cong assms prod.collapse)
  then show "CreateBatchImageItem now p w = (r, w') \<Longrightarrow> w_evolves R w w'"
    unfolding CreateBatchImageItem_def
    by (auto split: prod.splits sum.splits dest!: db_exec_evolves [OF assms])
  have "evolves R d (snd (atomically (insert_items now ps) d))" for d
    by (rule evolves_atomically [OF assms]) (metis insert_items_rows evolves_cong assms)
  then show "BulkCreateBatchImageItems now ps w = (r', w') \<Longrightarrow> w_evolves R w w'"
    unfolding BulkCreateBatchImageItems_def
    by (auto simp: w_evolves_refl assms split: if_splits dest!: db_exec_evolves [OF assms])
qed

text \<open>An update that leaves the status, the snapshot and the bill of a job alone.\<close>

definition touches_nothing :: "(BatchImageJob \<Rightarrow> BatchImageJob) \<Rightarrow> bool" where
  "touches_nothing f \<longleftrightarrow>
     (\<forall>j. j_Status (f j) = j_Status j \<and> snapshot (f j) = snapshot j \<and> bill (f j) = bill j)"

lemma touches_nothing_evolves:
  "reflp R \<Longrightarrow> touches_nothing f \<Longrightarrow> evolves R d (snd (update_jobs p f d))"
  by (rule evolves_update) (simp_all add: job_ok_def touches_nothing_def reflpD)

lemma update_found_evolves:
  assumes "reflp R" and "update_found e p f w = (r, w')"
    and "\<And>d. evolves R d (snd (update_jobs p f d))"
  shows "w_evolves R w w'"
proof -
  have "evolves R d (snd (let (n, d') = update_jobs p f d in (Inr n :: go_error + nat, d')))" for d
    using assms(3) [of d] by (cases "update_jobs p f d") simp
  with assms(2) show ?thesis
    unfolding update_found_def
    by (auto split: prod.splits sum.splits if_splits dest!: db_exec_evolves [OF assms(1)])
qed

lemma mark_job_evolves:
  assumes "reflp R" and "transp R" and "mark_job clock e b p f t pl w = (r, w')"
    and "\<And>d. evolves R d (snd (update_jobs p f d))"
  shows "w_evolves R w w'"
  using assms(3) unfolding mark_job_def
  by (auto split: prod.splits sum.splits
      dest!: update_found_evolves [OF assms(1) _ assms(4)] AppendEvent_evolves [OF assms(1)]
      intro: w_evolves_trans [OF assms(2)])

text \<open>The relations used: reflexive, transitive, and containing the state machine.\<close>

definition machine :: "(string \<Rightarrow> string \<Rightarrow> bool) \<Rightarrow> bool" where
  "machine R \<longleftrightarrow> reflp R \<and> transp R \<and> CanTransitionBatchImageJob \<le> R"

lemma machineD:
  assumes "machine R"
  shows "reflp R" and "transp R" and "CanTransitionBatchImageJob a b \<Longrightarrow> R a b"
  using assms by (auto simp: machine_def)

lemma machine_moves_to: "machine moves_to"
  by (auto simp: machine_def reflp_on_def transp_on_def)

text \<open>Guarded updates: the row that passed the check is the row that is updated.\<close>

lemma guarded_update_evolves:
  assumes "machine R" and "find_job b d = Some current"
    and "CanTransitionBatchImageJob (j_Status current) s"
    and "\<And>j. j_Status (f j) = s \<and> snapshot (f j) = snapshot j \<and> bill (f j) = bill j"
  shows "evolves R d (snd (update_jobs (has_batch_id b) f d))"
proof (rule evolves_update [OF machineD(1) [OF assms(1)]])
  fix j
  assume "unique_jobs d" "j \<in> set (job_rows d)" "has_batch_id b j"
  then have "j = current" using find_job_unique assms(2) by blast
  with assms(3,4) machineD(3) [OF assms(1)] show "job_ok R j (f j)"
    using moves_to_terminal(2) [of "j_Status current" s] by (auto simp: job_ok_def)
qed

lemma transition_stmt_evolves:
  assumes "machine R"
    and "transitionBatchImageJobStatusWithSQL clock b s opts d = (Inr r, d')"
  shows "evolves R d d'"
proof -
  from assms(2) obtain current where
    c: "find_job b d = Some current" "CanTransitionBatchImageJob (j_Status current) s"
    by (auto simp: transitionBatchImageJobStatusWithSQL_def split: option.splits if_splits)
  from assms(2) c obtain f where "job_rows d' = job_rows (snd (update_jobs (has_batch_id b) f d))"
    and "\<And>j. j_Status (f j) = s \<and> snapshot (f j) = snapshot j \<and> bill (f j) = bill j"
    by (auto simp: transitionBatchImageJobStatusWithSQL_def transition_row_def Let_def snapshot_def bill_def
        split: if_splits dest!: append_event_rows intro!: that)
  with guarded_update_evolves [OF assms(1) c] show ?thesis
    by (simp add: evolves_def unique_jobs_def)
qed

lemma Transition_evolves:
  assumes "machine R" and "TransitionBatchImageJobStatus clock b s opts w = (r, w')"
  shows "w_evolves R w w'"
  using assms(2) unfolding TransitionBatchImageJobStatus_def
  by (rule db_exec_evolves [OF machineD(1) [OF assms(1)]])
    (rule evolves_atomically [OF machineD(1) [OF assms(1)]], rule transition_stmt_evolves [OF assms(1)])

lemma submit_stmt_evolves:
  assumes "machine R" and "updateBatchImageJobProviderSubmitWithSQL now params d = (Inr r, d')"
  shows "evolves R d d'"
proof -
  from assms(2) obtain current where
    c: "find_job (us_BatchID params) d = Some current"
      "CanTransitionBatchImageJob (j_Status current) ''submitted''"
    by (auto simp: updateBatchImageJobProviderSubmitWithSQL_def status_defs split: option.splits if_splits)
  from assms(2) c obtain f where
    "job_rows d' = job_rows (snd (update_jobs (has_batch_id (us_BatchID params)) f d))"
    and "\<And>j. j_Status (f j) = ''submitted'' \<and> snapshot (f j) = snapshot j \<and> bill (f j) = bill j"
    by (auto simp: updateBatchImageJobProviderSubmitWithSQL_def Let_def snapshot_def bill_def
        split: if_splits dest!: append_event_rows intro!: that)
  with guarded_update_evolves [OF assms(1) c] show ?thesis
    by (simp add: evolves_def unique_jobs_def)
qed

lemma ProviderSubmit_evolves:
  assumes "machine R" and "UpdateBatchImageJobProviderSubmit now params w = (r, w')"
  shows "w_evolves R w w'"
  using assms(2) unfolding UpdateBatchImageJobProviderSubmit_def
  by (rule db_exec_evolves [OF machineD(1) [OF assms(1)]])
    (rule evolves_atomically [OF machineD(1) [OF assms(1)]], rule submit_stmt_evolves [OF assms(1)])

text \<open>Conditional updates: the \<open>WHERE\<close> clause is the guard.\<close>

lemma where_update_evolves:
  assumes "machine R"
    and "\<And>j. p j \<Longrightarrow> CanTransitionBatchImageJob (j_Status j) s \<and> \<not> IsTerminalBatchImageJobStatus (j_Status j)"
    and "\<And>j. j_Status (f j) = s \<and> snapshot (f j) = snapshot j"
  shows "evolves R d (snd (update_jobs p f d))"
  using assms(2,3) machineD(3) [OF assms(1)]
  by (intro evolves_update machineD(1) [OF assms(1)]) (auto simp: job_ok_def)

lemma settled_stmt_evolves:
  assumes "machine R" and "markBatchImageJobSettledWithSQL clock params d = (Inr r, d')"
  shows "evolves R d d'"
proof -
  define now where "now = (case ms_Now params of None \<Rightarrow> clock | Some t \<Rightarrow> t)"
  define p where "p = (\<lambda>j :: BatchImageJob. j_BatchID j = ms_BatchID params \<and> j_Status j = ''settling''
    \<and> (j_ManifestHash j = None \<or> j_ManifestHash j = Some ''''
       \<or> j_ManifestHash j = Some (ms_ManifestHash params)))"
  define f where "f = (\<lambda>j :: BatchImageJob. j\<lparr>j_Status := ''completed'',
    j_ActualCost := Some (round_scale 10 (ms_ActualCost params)),
    j_ManifestHash := Some (ms_ManifestHash params),
    j_SettledAt := keep_first (j_SettledAt j) (Some now),
    j_FinishedAt := keep_first (j_FinishedAt j) (Some now),
    j_OutputExpiresAt := keep_first (j_OutputExpiresAt j) (ms_OutputExpiresAt params),
    j_UpdatedAt := now, j_Version := j_Version j + 1\<rparr>)"
  obtain n d1 where u: "update_jobs p f d = (n, d1)" by fastforce
  have f: "j_Status (f j) = ''completed'' \<and> snapshot (f j) = snapshot j" for j
    by (simp add: f_def snapshot_def)
  have p: "j_Status j = ''settling''" if "p j" for j
    using that by (simp add: p_def)
  have "job_rows d' = job_rows d1"
    using assms(2) u
    unfolding markBatchImageJobSettledWithSQL_def now_def [symmetric] Let_def p_def [symmetric]
      f_def [symmetric]
    by (auto split: if_splits option.splits dest: append_event_rows)
  then have rows: "job_rows d' = job_rows (snd (update_jobs p f d))" using u by simp
  have "evolves R d (snd (update_jobs p f d))"
    using p f by (intro where_update_evolves [OF assms(1), where s = "''completed''"])
      (auto simp: CanTransitionBatchImageJob_def IsTerminalBatchImageJobStatus_def
        allowed_transitions_def status_defs)
  then show ?thesis by (simp add: evolves_def unique_jobs_def rows)
qed

lemma Settled_evolves:
  assumes "machine R" and "MarkBatchImageJobSettled clock params w = (r, w')"
  shows "w_evolves R w w'"
  using assms(2) unfolding MarkBatchImageJobSettled_def
  by (rule db_exec_evolves [OF machineD(1) [OF assms(1)]])
    (rule evolves_atomically [OF machineD(1) [OF assms(1)]], rule settled_stmt_evolves [OF assms(1)])

lemma FailStale_evolves:
  assumes "machine R" and "FailStaleUnsubmittedBatchImageJob now b cutoff code msg w = (r, w')"
  shows "w_evolves R w w'"
proof -
  note R = machineD(1) [OF assms(1)]
  define p where "p = (\<lambda>j :: BatchImageJob. j_BatchID j = b \<and> unsubmitted j \<and> j_ProviderJobName j = None
    \<and> j_UpdatedAt j \<le> cutoff)"
  define f where "f = (\<lambda>j :: BatchImageJob. j\<lparr>j_Status := ''failed'', j_LastErrorCode := Some code,
    j_LastErrorMessage := Some msg, j_FinishedAt := keep_first (j_FinishedAt j) (Some now),
    j_UpdatedAt := now, j_Version := j_Version j + 1\<rparr>)"
  have "evolves R d (snd (update_jobs p f d))" for d
    by (rule where_update_evolves [OF assms(1), where s = "''failed''"])
      (auto simp: p_def f_def snapshot_def unsubmitted_def CanTransitionBatchImageJob_def
        IsTerminalBatchImageJobStatus_def status_defs)
  then have st: "evolves R d (snd (let (n, d') = update_jobs p f d in (Inr n :: go_error + nat, d')))" for d
    by (cases "update_jobs p f d") (metis case_prod_conv snd_conv)
  obtain x w1 where x: "db_exec (\<lambda>d. let (n, d') = update_jobs p f d in (Inr n, d')) w = (x, w1)"
    by fastforce
  have w1: "w_evolves R w w1" by (rule db_exec_evolves [OF R x st])
  have "w' = w1 \<or> (\<exists>t pl q. AppendBatchImageEvent now b t pl w1 = (q, w'))"
    using assms(2) x
    unfolding FailStaleUnsubmittedBatchImageJob_def p_def [symmetric] f_def [symmetric]
    by (auto split: sum.splits if_splits prod.splits)
  with w1 show ?thesis
    using AppendEvent_evolves [OF R] w_evolves_trans [OF machineD(2) [OF assms(1)]] by blast
qed

text \<open>Operations of the form: update the jobs, then record an event.\<close>

lemma update_then_event:
  assumes "machine R" and "db_exec st w = (x, w1)" and "\<And>d. evolves R d (snd (st d))"
    and "w' = w1 \<or> (\<exists>t pl q. AppendBatchImageEvent now b t pl w1 = (q, w'))"
  shows "w_evolves R w w'"
  using db_exec_evolves [OF machineD(1) [OF assms(1)] assms(2,3)] assms(4)
    AppendEvent_evolves [OF machineD(1) [OF assms(1)]]
    w_evolves_trans [OF machineD(2) [OF assms(1)]] by blast

lemma RecordSubmitFailure_evolves:
  assumes "machine R" and "markFailed \<Longrightarrow> \<forall>a. R a ''failed''"
    and "RecordBatchImageJobSubmitFailure now b code msg markFailed w = (r, w')"
  shows "w_evolves R w w'"
proof -
  define f where "f = (\<lambda>j :: BatchImageJob. let status = (if markFailed then ''failed'' else j_Status j)
    in j\<lparr>j_Status := status, j_LastErrorCode := Some code, j_LastErrorMessage := Some msg,
      j_FinishedAt := (if status = ''failed'' then keep_first (j_FinishedAt j) (Some now)
                       else j_FinishedAt j),
      j_UpdatedAt := now, j_Version := j_Version j + 1\<rparr>)"
  have f: "j_Status (f j) = (if markFailed then ''failed'' else j_Status j)
      \<and> snapshot (f j) = snapshot j \<and> bill (f j) = bill j" for j
    by (simp add: f_def Let_def snapshot_def bill_def)
  have "job_ok R j (f j)" for j
    using f [of j] assms(2) machineD(1) [OF assms(1)]
    by (cases markFailed)
      (auto simp: job_ok_def reflpD IsTerminalBatchImageJobStatus_def status_defs)
  then have st: "evolves R d (snd (Inr () :: go_error + unit, snd (update_jobs (has_batch_id b) f d)))" for d
    using evolves_update [OF machineD(1) [OF assms(1)]] by simp
  obtain x w1 where x: "db_exec (\<lambda>d. (Inr (), snd (update_jobs (has_batch_id b) f d))) w = (x, w1)"
    by fastforce
  show ?thesis
  proof (rule update_then_event [OF assms(1) x st])
    show "w' = w1 \<or> (\<exists>t pl q. AppendBatchImageEvent now b t pl w1 = (q, w'))"
      using assms(3) x unfolding RecordBatchImageJobSubmitFailure_def f_def [symmetric]
      by (auto split: sum.splits)
  qed
qed

lemma SettlementFailed_evolves:
  assumes "machine R" and "SetBatchImageJobSettlementFailed now b code msg w = (r, w')"
  shows "w_evolves R w w'"
proof -
  define f where "f = (\<lambda>j :: BatchImageJob. j\<lparr>j_LastErrorCode := Some code, j_LastErrorMessage := Some msg,
    j_RetryCount := j_RetryCount j + 1, j_UpdatedAt := now\<rparr>)"
  define st :: "(batch_db, go_error + int) statement" where
    "st = (\<lambda>d. let d' = snd (update_jobs (has_batch_id b) f d)
       in (scan_row (map_option j_RetryCount (find_job b d')) ErrBatchImageJobNotFound, d'))"
  have "touches_nothing f" by (simp add: touches_nothing_def f_def snapshot_def bill_def)
  from touches_nothing_evolves [OF machineD(1) [OF assms(1)] this]
  have ev: "evolves R d (snd (st d))" for d by (simp add: st_def Let_def)
  obtain x w1 where x: "db_exec st w = (x, w1)" by fastforce
  show ?thesis
  proof (rule update_then_event [OF assms(1) x ev])
    show "w' = w1 \<or> (\<exists>t pl q. AppendBatchImageEvent now b t pl w1 = (q, w'))"
      using assms(2) x
      unfolding SetBatchImageJobSettlementFailed_def f_def [symmetric] st_def [symmetric]
      by (auto split: sum.splits prod.splits)
  qed
qed

lemma CleanupFailure_evolves:
  assumes "machine R" and "RecordBatchImageCleanupFailure now b code msg w = (r, w')"
  shows "w_evolves R w w'"
proof -
  define f where "f = (\<lambda>j :: BatchImageJob. j\<lparr>j_LastErrorCode := Some code, j_LastErrorMessage := Some msg,
    j_RetryCount := j_RetryCount j + 1, j_UpdatedAt := now\<rparr>)"
  have "touches_nothing f" by (simp add: touches_nothing_def f_def snapshot_def bill_def)
  from touches_nothing_evolves [OF machineD(1) [OF assms(1)] this]
  have st: "evolves R d (snd (Inr () :: go_error + unit, snd (update_jobs (has_batch_id b) f d)))" for d
    by simp
  obtain x w1 where x: "db_exec (\<lambda>d. (Inr (), snd (update_jobs (has_batch_id b) f d))) w = (x, w1)"
    by fastforce
  show ?thesis
  proof (rule update_then_event [OF assms(1) x st])
    show "w' = w1 \<or> (\<exists>t pl q. AppendBatchImageEvent now b t pl w1 = (q, w'))"
      using assms(2) x unfolding RecordBatchImageCleanupFailure_def f_def [symmetric]
      by (auto split: sum.splits)
  qed
qed

lemma Touch_evolves:
  assumes "machine R" and "TouchBatchImageJobSubmitting now b w = (r, w')"
  shows "w_evolves R w w'"
proof -
  have "touches_nothing (\<lambda>j. j\<lparr>j_UpdatedAt := now\<rparr>)"
    by (simp add: touches_nothing_def snapshot_def bill_def)
  from touches_nothing_evolves [OF machineD(1) [OF assms(1)] this] assms(2)
  show ?thesis unfolding TouchBatchImageJobSubmitting_def
    by (auto elim!: db_exec_evolves [OF machineD(1) [OF assms(1)]])
qed

lemma OutputRef_evolves:
  assumes "machine R" and "UpdateBatchImageJobProviderOutputRef now b ref w = (r, w')"
  shows "w_evolves R w w'"
  using assms(2) unfolding UpdateBatchImageJobProviderOutputRef_def
  by (rule update_found_evolves [OF machineD(1) [OF assms(1)]])
    (rule touches_nothing_evolves [OF machineD(1) [OF assms(1)]],
      simp add: touches_nothing_def snapshot_def bill_def)

lemma OutputExpires_evolves:
  assumes "machine R" and "SetBatchImageOutputExpiresAt now b t w = (r, w')"
  shows "w_evolves R w w'"
  using assms(2) unfolding SetBatchImageOutputExpiresAt_def
  by (rule update_found_evolves [OF machineD(1) [OF assms(1)]])
    (rule touches_nothing_evolves [OF machineD(1) [OF assms(1)]],
      simp add: touches_nothing_def snapshot_def bill_def)

lemma marks_evolve:
  assumes "machine R"
  shows "MarkBatchImageInputDeleted clock b t w = (r, w') \<Longrightarrow> w_evolves R w w'"
    and "MarkBatchImageDownloaded clock b t w = (r, w') \<Longrightarrow> w_evolves R w w'"
    and "MarkBatchImageJobUserDeleted clock u k b t w = (r, w') \<Longrightarrow> w_evolves R w w'"
    and "MarkBatchImageOutputDeleted clock b t w = (r, w') \<Longrightarrow> w_evolves R w w'"
proof -
  note R = machineD(1,2) [OF assms]
  show "MarkBatchImageInputDeleted clock b t w = (r, w') \<Longrightarrow> w_evolves R w w'"
    unfolding MarkBatchImageInputDeleted_def
    by (erule mark_job_evolves [OF R], rule touches_nothing_evolves [OF R(1)])
      (simp add: touches_nothing_def snapshot_def bill_def)
  show "MarkBatchImageDownloaded clock b t w = (r, w') \<Longrightarrow> w_evolves R w w'"
    unfolding MarkBatchImageDownloaded_def
    by (erule mark_job_evolves [OF R], rule touches_nothing_evolves [OF R(1)])
      (simp add: touches_nothing_def snapshot_def bill_def)
  show "MarkBatchImageJobUserDeleted clock u k b t w = (r, w') \<Longrightarrow> w_evolves R w w'"
    unfolding MarkBatchImageJobUserDeleted_def
    by (erule mark_job_evolves [OF R], rule touches_nothing_evolves [OF R(1)])
      (simp add: touches_nothing_def snapshot_def bill_def)
  have "R ''completed'' ''output_deleted''"
    by (rule machineD(3) [OF assms])
      (simp add: CanTransitionBatchImageJob_def IsTerminalBatchImageJobStatus_def status_defs)
  then have "job_ok R j (j\<lparr>j_Status := (if j_Status j = ''completed'' then ''output_deleted'' else j_Status j),
      j_OutputDeletedAt := keep_first (j_OutputDeletedAt j) (Some t),
      j_FinishedAt := (if j_Status j = ''completed''
                       then keep_first (j_FinishedAt j) (Some t) else j_FinishedAt j),
      j_UpdatedAt := t, j_Version := j_Version j + 1\<rparr>)" for j :: BatchImageJob
    using R(1)
    by (cases "j_Status j = ''completed''")
      (simp_all add: job_ok_def snapshot_def bill_def reflpD IsTerminalBatchImageJobStatus_def status_defs)
  then show "MarkBatchImageOutputDeleted clock b t w = (r, w') \<Longrightarrow> w_evolves R w w'"
    unfolding MarkBatchImageOutputDeleted_def
    by (elim mark_job_evolves [OF R]) (rule evolves_update [OF R(1)], blast)
qed

lemma replace_stmt_evolves:
  assumes "machine R" and "replaceBatchImageItemsForJobWithSQL now b its counts d = (Inr r, d')"
  shows "evolves R d d'"
proof -
  define f where "f = (\<lambda>j :: BatchImageJob. j\<lparr>j_SuccessCount := c_SuccessCount counts,
    j_FailCount := c_FailCount counts, j_UpdatedAt := now\<rparr>)"
  from assms(2) obtain job where job: "find_job b d = Some job" "j_Status job = ''indexing''"
    by (auto simp: replaceBatchImageItemsForJobWithSQL_def status_defs split: option.splits if_splits)
  from assms(2) job obtain ps d1 d2 q where
    ins: "insert_items now ps d1 = (q, d2)" and d1: "job_rows d1 = job_rows d"
    and d': "d' = snd (update_jobs (has_batch_id b) f d2)"
    unfolding replaceBatchImageItemsForJobWithSQL_def f_def [symmetric]
    by (auto simp: Let_def status_defs split: prod.splits sum.splits)
  from ins d1 have rows: "job_rows d2 = job_rows d" by (simp add: insert_items_rows)
  have "evolves R d (snd (update_jobs (has_batch_id b) f d))"
  proof (rule evolves_update [OF machineD(1) [OF assms(1)]])
    fix j
    assume "unique_jobs d" "j \<in> set (job_rows d)" "has_batch_id b j"
    then have "j = job" using find_job_unique job(1) by blast
    with job(2) show "job_ok R j (f j)"
      using machineD(1) [OF assms(1)]
      by (simp add: job_ok_def f_def snapshot_def reflpD IsTerminalBatchImageJobStatus_def status_defs)
  qed
  then show ?thesis by (simp add: evolves_def unique_jobs_def d' update_jobs_def rows)
qed

lemma Replace_evolves:
  assumes "machine R" and "ReplaceBatchImageItemsForJob now b its counts w = (r, w')"
  shows "w_evolves R w w'"
  using assms(2) unfolding ReplaceBatchImageItemsForJob_def
  by (rule db_exec_evolves [OF machineD(1) [OF assms(1)]])
    (rule evolves_atomically [OF machineD(1) [OF assms(1)]], rule replace_stmt_evolves [OF assms(1)])

section \<open>Runs of the repository\<close>

text \<open>
  One call of the repository that writes, by anyone; the flag admits the record of a failed
  submission that marks the job as failed.
\<close>

inductive repo_step :: "bool \<Rightarrow> batch_db world \<Rightarrow> batch_db world \<Rightarrow> bool" for mf where
  create: "CreateBatchImageJob now fresh params w = (r0, w') \<Longrightarrow> repo_step mf w w'"
| transition: "TransitionBatchImageJobStatus clock b s opts w = (r, w') \<Longrightarrow> repo_step mf w w'"
| touch: "TouchBatchImageJobSubmitting now b w = (r, w') \<Longrightarrow> repo_step mf w w'"
| fail_stale: "FailStaleUnsubmittedBatchImageJob now b cutoff code msg w = (r1, w') \<Longrightarrow> repo_step mf w w'"
| output_ref: "UpdateBatchImageJobProviderOutputRef now b ref w = (r, w') \<Longrightarrow> repo_step mf w w'"
| provider_submit: "UpdateBatchImageJobProviderSubmit now us w = (r, w') \<Longrightarrow> repo_step mf w w'"
| submit_failure: "RecordBatchImageJobSubmitFailure now b code msg m w = (r, w') \<Longrightarrow> m \<longrightarrow> mf
    \<Longrightarrow> repo_step mf w w'"
| settled: "MarkBatchImageJobSettled clock ms w = (r, w') \<Longrightarrow> repo_step mf w w'"
| settlement_failed: "SetBatchImageJobSettlementFailed now b code msg w = (r2, w') \<Longrightarrow> repo_step mf w w'"
| create_item: "CreateBatchImageItem now ip w = (r3, w') \<Longrightarrow> repo_step mf w w'"
| create_items: "BulkCreateBatchImageItems now ips w = (r, w') \<Longrightarrow> repo_step mf w w'"
| replace_items: "ReplaceBatchImageItemsForJob now b ips counts w = (r, w') \<Longrightarrow> repo_step mf w w'"
| input_deleted: "MarkBatchImageInputDeleted clock b t w = (r, w') \<Longrightarrow> repo_step mf w w'"
| output_deleted: "MarkBatchImageOutputDeleted clock b t w = (r, w') \<Longrightarrow> repo_step mf w w'"
| downloaded: "MarkBatchImageDownloaded clock b t w = (r, w') \<Longrightarrow> repo_step mf w w'"
| user_deleted: "MarkBatchImageJobUserDeleted clock u k b t w = (r, w') \<Longrightarrow> repo_step mf w w'"
| output_expires: "SetBatchImageOutputExpiresAt now b t w = (r, w') \<Longrightarrow> repo_step mf w w'"
| cleanup_failure: "RecordBatchImageCleanupFailure now b code msg w = (r, w') \<Longrightarrow> repo_step mf w w'"
| event: "AppendBatchImageEvent now b et pl w = (r, w') \<Longrightarrow> repo_step mf w w'"

lemma repo_step_evolves:
  assumes "repo_step mf w w'" and "machine R" and "mf \<Longrightarrow> \<forall>a. R a ''failed''"
  shows "w_evolves R w w'"
  using assms(1)
proof cases
  case create
  then show ?thesis by (rule CreateJob_evolves [OF machineD(1) [OF assms(2)]])
next
  case transition
  then show ?thesis by (rule Transition_evolves [OF assms(2)])
next
  case touch
  then show ?thesis by (rule Touch_evolves [OF assms(2)])
next
  case fail_stale
  then show ?thesis by (rule FailStale_evolves [OF assms(2)])
next
  case output_ref
  then show ?thesis by (rule OutputRef_evolves [OF assms(2)])
next
  case provider_submit
  then show ?thesis by (rule ProviderSubmit_evolves [OF assms(2)])
next
  case (submit_failure now b code msg m r)
  from submit_failure(2) assms(3) show ?thesis
    by (intro RecordSubmitFailure_evolves [OF assms(2) _ submit_failure(1)]) blast
next
  case settled
  then show ?thesis by (rule Settled_evolves [OF assms(2)])
next
  case settlement_failed
  then show ?thesis by (rule SettlementFailed_evolves [OF assms(2)])
next
  case create_item
  then show ?thesis by (rule items_evolve(1) [OF machineD(1) [OF assms(2)]])
next
  case create_items
  then show ?thesis by (rule items_evolve(2) [OF machineD(1) [OF assms(2)]])
next
  case replace_items
  then show ?thesis by (rule Replace_evolves [OF assms(2)])
next
  case input_deleted
  then show ?thesis by (rule marks_evolve(1) [OF assms(2)])
next
  case output_deleted
  then show ?thesis by (rule marks_evolve(4) [OF assms(2)])
next
  case downloaded
  then show ?thesis by (rule marks_evolve(2) [OF assms(2)])
next
  case user_deleted
  then show ?thesis by (rule marks_evolve(3) [OF assms(2)])
next
  case output_expires
  then show ?thesis by (rule OutputExpires_evolves [OF assms(2)])
next
  case cleanup_failure
  then show ?thesis by (rule CleanupFailure_evolves [OF assms(2)])
next
  case event
  then show ?thesis by (rule AppendEvent_evolves [OF machineD(1) [OF assms(2)]])
qed

lemma repo_run_evolves:
  assumes "(repo_step mf)\<^sup>*\<^sup>* w w'" and "machine R" and "mf \<Longrightarrow> \<forall>a. R a ''failed''"
  shows "w_evolves R w w'"
  using assms(1)
proof (induction rule: rtranclp_induct)
  case base
  then show ?case by (rule w_evolves_refl [OF machineD(1) [OF assms(2)]])
next
  case (step w1 w2)
  with repo_step_evolves [OF step.hyps(2) assms(2,3)] show ?case
    by (blast intro: w_evolves_trans [OF machineD(2) [OF assms(2)]])
qed

text \<open>A job after a run.\<close>

lemma run_job:
  assumes "w_evolves R w w'" and "unique_jobs (db w)" and "find_job b (db w) = Some j"
  shows "\<exists>j'. find_job b (db w') = Some j' \<and> job_ok R j j'"
proof -
  from assms(1,2) obtain js new where u: "unique_jobs (db w')" and rows: "job_rows (db w') = js @ new"
    and all: "list_all2 (job_ok R) (job_rows (db w)) js"
    by (auto simp: w_evolves_def evolves_def)
  from assms(3) obtain i where i: "i < length (job_rows (db w))" "job_rows (db w) ! i = j" "j_BatchID j = b"
    by (auto simp: find_job_def find_Some_iff)
  let ?j = "js ! i"
  have ok: "job_ok R j ?j" using list_all2_nthD [OF all i(1)] i(2) by simp
  have mem: "?j \<in> set (job_rows (db w'))" using all i(1) rows by (auto dest: list_all2_lengthD)
  have bid: "j_BatchID ?j = b" using ok i(3) by (simp add: job_ok_def snapshot_def)
  have "find_job b (db w') \<noteq> None" using mem bid by (auto simp: find_job_def find_None_iff)
  then obtain k where k: "find_job b (db w') = Some k" by blast
  with find_job_unique [OF u k mem bid] ok show ?thesis by auto
qed

lemma machine_any: "machine (\<lambda>_ _. True)"
  by (auto simp: machine_def reflp_on_def transp_on_def)

section \<open>Counting status changes\<close>

lemma status_rank_le: "status_rank s \<le> 7"
  by (simp add: status_rank_def)

text \<open>
  A step moves the status up, or the record of a failed submission forces it to one of the last two ranks.
\<close>

definition forced_or_up :: "string \<Rightarrow> string \<Rightarrow> bool" where
  "forced_or_up s t \<longleftrightarrow> s = t \<or> status_rank s < status_rank t \<or> 6 \<le> status_rank t"

lemma machine_forced_or_up: "machine forced_or_up"
  using CanTransition_rank by (fastforce simp: machine_def reflp_on_def transp_on_def forced_or_up_def)

text \<open>The steps of a run that need the record of a failed submission to force a status.\<close>

fun forced_steps :: "batch_db world list \<Rightarrow> nat" where
  "forced_steps (w # v # ws) = (if repo_step False w v then 0 else 1) + forced_steps (v # ws)"
| "forced_steps ws = 0"

lemma step_status:
  assumes "repo_step True w v" and "unique_jobs (db w)" and "find_job b (db w) = Some j"
  shows "unique_jobs (db v) \<and> (\<exists>j'. find_job b (db v) = Some j' \<and> forced_or_up (j_Status j) (j_Status j')
    \<and> (repo_step False w v \<longrightarrow> j_Status j = j_Status j' \<or> status_rank (j_Status j) < status_rank (j_Status j')))"
proof -
  have ev: "w_evolves forced_or_up w v"
    using repo_step_evolves [OF assms(1) machine_forced_or_up] by (simp add: forced_or_up_def status_rank_def)
  then have u: "unique_jobs (db v)" using assms(2) by (auto simp: w_evolves_def evolves_def)
  from run_job [OF ev assms(2,3)] obtain j' where j': "find_job b (db v) = Some j'" "forced_or_up (j_Status j) (j_Status j')"
    by (auto simp: job_ok_def)
  have "j_Status j = j_Status j' \<or> status_rank (j_Status j) < status_rank (j_Status j')" if "repo_step False w v"
  proof -
    have "w_evolves moves_to w v" using repo_step_evolves [OF that machine_moves_to] by simp
    from run_job [OF this assms(2,3)] j'(1) have "moves_to (j_Status j) (j_Status j')" by (auto simp: job_ok_def)
    then show ?thesis by (rule moves_to_rank)
  qed
  with u j' show ?thesis by blast
qed

lemma status_changes_counted:
  assumes "successively (repo_step True) ws" and "ws \<noteq> []"
    and "unique_jobs (db (hd ws))" and "find_job b (db (hd ws)) = Some j"
  shows "length (remdups_adj (map (\<lambda>w. j_Status (the (find_job b (db w)))) ws)) + status_rank (j_Status j)
    \<le> 8 + 2 * forced_steps ws"
  using assms
proof (induction ws arbitrary: j rule: induct_list012)
  case (2 w)
  then show ?case using status_rank_le [of "j_Status j"] by simp
next
  case (3 w v ws)
  from 3 have s: "repo_step True w v" "successively (repo_step True) (v # ws)" by (auto simp: successively_Cons)
  from step_status [OF s(1), of b j] 3 obtain j' where u: "unique_jobs (db v)" and j': "find_job b (db v) = Some j'"
    and f: "forced_or_up (j_Status j) (j_Status j')"
      "repo_step False w v \<Longrightarrow> j_Status j = j_Status j' \<or> status_rank (j_Status j) < status_rank (j_Status j')"
    by auto
  let ?L = "length (remdups_adj (map (\<lambda>w. j_Status (the (find_job b (db w)))) (v # ws)))"
  have IH: "?L + status_rank (j_Status j') \<le> 8 + 2 * forced_steps (v # ws)"
    using 3 s(2) u j' by (intro "3.IH"(2)) auto
  have "length (remdups_adj (map (\<lambda>w. j_Status (the (find_job b (db w)))) (w # v # ws)))
      = ?L + (if j_Status j = j_Status j' then 0 else 1)"
    using 3 j' by simp
  moreover have "(if j_Status j = j_Status j' then 0 else 1) + status_rank (j_Status j)
      \<le> status_rank (j_Status j') + 2 * (if repo_step False w v then 0 else 1)"
    using f status_rank_le [of "j_Status j"] by (auto simp: forced_or_up_def)
  ultimately show ?case using IH by simp
qed simp

section \<open>A small repository\<close>

definition sample_job :: BatchImageJob where
  "sample_job = \<lparr>j_ID = 1, j_BatchID = ''b'', j_UserID = 1, j_APIKeyID = Some 7, j_AccountID = Some 3,
     j_Provider = ''vertex'', j_Model = ''m'', j_TaskName = ''t'', j_ParentBatchID = None,
     j_Status = ''settling'', j_ProviderJobName = Some ''p'', j_ProviderInputRef = None,
     j_ProviderOutputRef = None, j_GCSInputURI = None, j_GCSOutputURI = None, j_ItemCount = 2,
     j_SuccessCount = 1, j_FailCount = 1, j_CancelledCount = 0, j_EstimatedCost = 1,
     j_HoldAmount = Some 1, j_ActualCost = None, j_BaseUnitPrice = 1, j_GroupRateMultiplier = 1,
     j_AccountRateMultiplier = 1, j_BatchDiscountMultiplier = 1 / 2, j_HoldMultiplier = 1 / 2,
     j_BillableUnitPrice = 1 / 2, j_HoldUnitPrice = 1 / 2, j_PricingSnapshotVersion = 1,
     j_Currency = ''USD'', j_HoldID = None, j_IdempotencyKey = None, j_RequestHash = Some ''h'',
     j_ManifestHash = None, j_SessionID = None, j_RetryCount = 0, j_Version = 0,
     j_OutputExpiresAt = None, j_InputDeletedAt = None, j_OutputDeletedAt = None,
     j_DownloadedAt = None, j_UserDeletedAt = None, j_LastErrorCode = None,
     j_LastErrorMessage = None, j_CreatedAt = 1, j_UpdatedAt = 1, j_SubmittedAt = None,
     j_StartedAt = None, j_FinishedAt = None, j_SettledAt = None\<rparr>"

definition sample_ledger :: billing_db where
  "sample_ledger = \<lparr>users = Map.empty, api_keys = Map.empty, subscriptions = Map.empty,
     accounts = Map.empty, dedup = Map.empty, dedup_archive = Map.empty, outbox = []\<rparr>"

definition sample_jobs :: batch_db where
  "sample_jobs = \<lparr>job_rows = [sample_job], job_serial = 2, item_rows = [], item_serial = 1,
     event_rows = [], event_serial = 1, ledger = sample_ledger, usage_logs = Map.empty,
     queue = \<lparr>ready = [], delayed = [], active = [], inflight = Map.empty, locks = Map.empty\<rparr>,
     auth_invalidations = []\<rparr>"

definition sample_settled :: MarkBatchImageJobSettledParams where
  "sample_settled = \<lparr>ms_BatchID = ''b'', ms_ActualCost = 1 / 2, ms_ManifestHash = ''x'',
     ms_EventPayload = None, ms_Now = None, ms_OutputExpiresAt = None\<rparr>"

definition sample_world :: "batch_db world" where
  "sample_world = \<lparr>db = sample_jobs, faults = []\<rparr>"

definition sample_world' :: "batch_db world" where
  "sample_world' = snd (MarkBatchImageJobSettled 5 sample_settled sample_world)"

lemma sample_unique: "unique_jobs (db sample_world)"
  by (simp add: unique_jobs_def sample_jobs_def sample_world_def)

lemma sample_find: "find_job ''b'' (db sample_world) = Some sample_job"
  by (simp add: find_job_def sample_jobs_def sample_job_def sample_world_def)

lemma sample_step: "repo_step mf sample_world sample_world'"
  unfolding sample_world'_def by (rule repo_step.settled) (rule prod.collapse [symmetric])

lemma sample_status: "map_option j_Status (find_job ''b'' (db sample_world')) = Some ''completed''"
  by (simp add: sample_world'_def MarkBatchImageJobSettled_def db_exec_reliable sample_world_def
      atomically_def markBatchImageJobSettledWithSQL_def sample_jobs_def sample_settled_def
      sample_job_def update_jobs_def append_event_def find_job_def Let_def)

section \<open>Properties of the repository\<close>

text \<open>
  C6. Whatever calls the service, the workers and the clean-up make on the repository, in any
  order and with any calls or answers lost, a job stays in its table and its status only moves
  along the state machine of \<open>CanTransitionBatchImageJob\<close>, or to failed when the record of a failed
  submission forces it there (\<open>forced\<close>); without such records it moves along the state machine only.
\<close>

theorem status_follows_state_machine:
  assumes "(repo_step forced)\<^sup>*\<^sup>* w w'" and "unique_jobs (db w)" and "find_job b (db w) = Some j"
  shows "\<exists>j'. find_job b (db w') = Some j'
    \<and> (\<lambda>s t. CanTransitionBatchImageJob s t \<or> forced \<and> t = BatchImageJobStatusFailed)\<^sup>*\<^sup>* (j_Status j) (j_Status j')"
proof -
  let ?R = "(\<lambda>s t. CanTransitionBatchImageJob s t \<or> forced \<and> t = BatchImageJobStatusFailed)\<^sup>*\<^sup>*"
  have "machine ?R" by (auto simp: machine_def reflp_on_def transp_on_def)
  moreover have "\<forall>a. ?R a ''failed''" if forced
    using that by (auto simp: status_defs)
  ultimately show ?thesis
    using run_job [OF repo_run_evolves [OF assms(1)] assms(2,3), of ?R] by (auto simp: job_ok_def)
qed

lemma status_follows_state_machine_witness:
  "CanTransitionBatchImageJob\<^sup>*\<^sup>* ''settling'' ''completed''"
proof -
  obtain j' where "find_job ''b'' (db sample_world') = Some j'"
    and "CanTransitionBatchImageJob\<^sup>*\<^sup>* (j_Status sample_job) (j_Status j')"
    using status_follows_state_machine
      [OF r_into_rtranclp [of "repo_step False", OF sample_step] sample_unique sample_find] by auto
  moreover from this have "j_Status j' = ''completed''" using sample_status by simp
  ultimately show ?thesis by (simp add: sample_job_def)
qed

text \<open>
  C7. In any run of the repository, with any calls and answers lost and including forced
  failures, the owner, the model, the item count and the prices of a job never change; and once
  a job has finished it stays finished, with the cost, the counts and the manifest it was
  settled with.
\<close>

theorem finished_job_is_final:
  assumes "(repo_step True)\<^sup>*\<^sup>* w w'" and "unique_jobs (db w)" and "find_job b (db w) = Some j"
  shows "\<exists>j'. find_job b (db w') = Some j' \<and> snapshot j' = snapshot j
    \<and> (IsTerminalBatchImageJobStatus (j_Status j)
       \<longrightarrow> IsTerminalBatchImageJobStatus (j_Status j') \<and> bill j' = bill j)"
  using run_job [OF repo_run_evolves [OF assms(1) machine_any] assms(2,3)]
  by (auto simp: job_ok_def)

lemma finished_job_is_final_witness:
  "map_option snapshot (find_job ''b'' (db sample_world')) = Some (snapshot sample_job)"
  using finished_job_is_final
    [OF r_into_rtranclp [of "repo_step True", OF sample_step] sample_unique sample_find] by auto

text \<open>
  C8. The status of a job changes at most seven times in any run, whatever calls are made and lost, and
  twice more for every record of a failed submission that forces it to failed: along every transition but
  running to running the job advances, and from failed only the deletion of its output follows.
\<close>

theorem status_changes_bounded:
  assumes "successively (repo_step True) ws" and "ws \<noteq> []"
    and "unique_jobs (db (hd ws))" and "find_job b (db (hd ws)) \<noteq> None"
  shows "length (remdups_adj (map (\<lambda>w. j_Status (the (find_job b (db w)))) ws)) \<le> 8 + 2 * forced_steps ws"
proof -
  obtain j where "find_job b (db (hd ws)) = Some j" using assms(4) by blast
  from status_changes_counted [OF assms(1-3) this] show ?thesis by simp
qed

lemma status_changes_bounded_witness:
  "length (remdups_adj (map (\<lambda>w. j_Status (the (find_job ''b'' (db w)))) [sample_world, sample_world'])) \<le> 8"
  using status_changes_bounded [of "[sample_world, sample_world']" "''b''"]
  by (simp add: sample_step sample_unique sample_find)

end
