(* ===== verification/Batch_Image_Billing.thy ===== *)
theory Batch_Image_Billing
  imports Batch_Image_Job
begin

text \<open>
  The money of a batch-image job: the hold commands (\<open>service/batch_image_billing_hold.go\<close>), the
  settlement with its bounded retries (\<open>service/batch_image_settlement.go\<close>) and the recovery of
  jobs whose submission never reached the provider (\<open>service/batch_image_billing_recovery.go\<close>).

  The services are configured: the nil checks on their receivers and repositories are left out.
  The wall clock reads of one call are the argument \<open>now\<close>. The texts of errors
  (\<open>error.Error()\<close>) are the argument \<open>err_text\<close>, and the price resolver for jobs without a
  pricing snapshot is the argument \<open>unit_price\<close>. Cancellation of the context is not modelled.
\<close>

section \<open>Helpers of the service\<close>

definition batchImageDerefString :: "string option \<Rightarrow> string" where
  "batchImageDerefString v = (case v of None \<Rightarrow> '''' | Some s \<Rightarrow> TrimSpace s)"

definition batchImageOptionalStringPtr :: "string \<Rightarrow> string option" where
  "batchImageOptionalStringPtr v = (let t = TrimSpace v in if t = '''' then None else Some t)"

definition truncateBatchImageMessage :: "string \<Rightarrow> int \<Rightarrow> string" where
  "truncateBatchImageMessage message limit =
     (let m = TrimSpace message
      in if limit \<le> 0 \<or> int (length m) \<le> limit then m else take (nat limit) m)"

definition batchImageMaxErrorMessageLength :: int where
  "batchImageMaxErrorMessageLength = 1000"

text \<open>The ledger's transactions as calls of the service's stores.\<close>

definition on_ledger ::
    "(billing_db, go_error + 'a) statement \<Rightarrow> (batch_db, go_error + 'a) statement" where
  "on_ledger st d = (let (r, l) = st (ledger d) in (r, d\<lparr>ledger := l\<rparr>))"

definition on_queue :: "'a queue_op \<Rightarrow> (batch_db, go_error + 'a) statement" where
  "on_queue st d = (let (r, q) = st (queue d) in (r, d\<lparr>queue := q\<rparr>))"

definition invalidateAuthCache :: "int \<Rightarrow> batch_db world \<Rightarrow> batch_db world" where
  "invalidateAuthCache userID w =
     (if userID > 0
      then w\<lparr>db := (db w)\<lparr>auth_invalidations := auth_invalidations (db w) @ [userID]\<rparr>\<rparr> else w)"

section \<open>Holds\<close>

definition batchImageCaptureRequestPrefix :: string where
  "batchImageCaptureRequestPrefix = ''batch_image_capture:''"

definition batchImageReleaseRequestPrefix :: string where
  "batchImageReleaseRequestPrefix = ''batch_image_release:''"

definition BatchImageCaptureRequestID :: "string \<Rightarrow> string" where
  "BatchImageCaptureRequestID batchID = batchImageCaptureRequestPrefix @ TrimSpace batchID"

definition BatchImageReleaseRequestID :: "string \<Rightarrow> string" where
  "BatchImageReleaseRequestID batchID = batchImageReleaseRequestPrefix @ TrimSpace batchID"

definition job_hold :: "BatchImageJob \<Rightarrow> usd" where
  "job_hold job = (case j_HoldAmount job of Some h \<Rightarrow> h | None \<Rightarrow> j_EstimatedCost job)"

definition buildBatchImageHoldCommand ::
    "BatchImageJob \<Rightarrow> string \<Rightarrow> usd \<Rightarrow> string \<Rightarrow> go_error + BatchImageBalanceHoldCommand" where
  "buildBatchImageHoldCommand job requestID actualAmount payloadHash =
     (case j_APIKeyID job of
        None \<Rightarrow> Inl ErrBatchImageSettlementMissingAPIKeyID
      | Some apiKeyID \<Rightarrow>
          if apiKeyID \<le> 0 then Inl ErrBatchImageSettlementMissingAPIKeyID
          else
            (let holdAmount = job_hold job in
             Inr \<lparr>h_RequestID = requestID,
                  h_APIKeyID = apiKeyID,
                  h_RequestFingerprint = '''',
                  h_RequestPayloadHash = TrimSpace payloadHash,
                  h_UserID = j_UserID job,
                  h_BatchID = j_BatchID job,
                  h_HoldAmount = (if holdAmount < 0 then 0 else holdAmount),
                  h_ActualAmount = (if actualAmount < 0 then 0 else actualAmount)\<rparr>))"

definition reserveBatchImageBalanceHold ::
    "BatchImageJob \<Rightarrow> string \<Rightarrow> batch_db world \<Rightarrow> go_error option \<times> batch_db world" where
  "reserveBatchImageBalanceHold job payloadHash w =
     (case buildBatchImageHoldCommand job (BatchImageHoldRequestID (j_BatchID job)) 0 payloadHash of
        Inl e \<Rightarrow> (Some e, w)
      | Inr cmd \<Rightarrow>
          if h_HoldAmount cmd \<le> 0 then (None, w)
          else case db_exec (on_ledger (ReserveBatchImageBalance cmd)) w of
                 (Inl e, w1) \<Rightarrow>
                   (if errors_Is e ErrBatchImageInsufficientBalance
                    then (Some ErrBatchImageInsufficientBalance, w1)
                    else (Some (WithCause ErrBatchImageBillingHoldFailed e), w1))
               | (Inr _, w1) \<Rightarrow> (None, w1))"

definition captureBatchImageBalanceHold ::
    "BatchImageJob \<Rightarrow> usd \<Rightarrow> string \<Rightarrow> batch_db world \<Rightarrow> go_error option \<times> batch_db world" where
  "captureBatchImageBalanceHold job actualAmount payloadHash w =
     (case buildBatchImageHoldCommand job (BatchImageCaptureRequestID (j_BatchID job))
             actualAmount payloadHash of
        Inl e \<Rightarrow> (Some e, w)
      | Inr cmd \<Rightarrow>
          (case db_exec (on_ledger (CaptureBatchImageBalance cmd)) w of
             (Inl e, w1) \<Rightarrow> (Some (WithCause ErrBatchImageSettlementBillingFailed e), w1)
           | (Inr _, w1) \<Rightarrow> (None, w1)))"

text \<open>A fingerprint conflict means that an earlier release went through.\<close>

definition releaseBatchImageBalanceHold ::
    "BatchImageJob \<Rightarrow> string \<Rightarrow> batch_db world \<Rightarrow> go_error option \<times> batch_db world" where
  "releaseBatchImageBalanceHold job payloadHash w =
     (case buildBatchImageHoldCommand job (BatchImageReleaseRequestID (j_BatchID job)) 0 payloadHash of
        Inl e \<Rightarrow> (Some e, w)
      | Inr cmd \<Rightarrow>
          if h_HoldAmount cmd \<le> 0 then (None, w)
          else case db_exec (on_ledger (ReleaseBatchImageBalance cmd)) w of
                 (Inl e, w1) \<Rightarrow>
                   (if errors_Is e ErrUsageBillingRequestConflict then (None, w1)
                    else (Some (WithCause ErrBatchImageBillingHoldFailed e), w1))
               | (Inr _, w1) \<Rightarrow> (None, w1))"

section \<open>Settlement\<close>

definition batchImageSettlementRetryDelay :: duration where
  "batchImageSettlementRetryDelay = Minute"

definition batchImageSettlementMaxRetries :: int where
  "batchImageSettlementMaxRetries = 5"

definition batchImageCostEpsilon :: usd where
  "batchImageCostEpsilon = 1 / 10 ^ 8"

record settlement_env =
  err_text :: "go_error \<Rightarrow> string"
  unit_price :: "BatchImageJob \<Rightarrow> go_error + usd"
  OutputRetentionAfterTerminalHours :: int

record BatchImageSettlementResult =
  sr_BatchID :: string
  sr_SuccessCount :: int
  sr_FailCount :: int
  sr_ActualCost :: usd
  sr_ManifestHash :: string
  sr_RequestID :: string
  sr_AlreadySettled :: bool

fun join_with :: "string \<Rightarrow> string list \<Rightarrow> string" where
  "join_with sep [] = ''''"
| "join_with sep [s] = s"
| "join_with sep (s # t # ss) = s @ sep @ join_with sep (t # ss)"

definition BuildBatchImageSettlementManifestHash :: "BatchImageJob \<Rightarrow> string" where
  "BuildBatchImageSettlementManifestHash job =
     sha256_hex (join_with [char_of (0 :: nat)]
       [TrimSpace (j_BatchID job), TrimSpace (j_Provider job), TrimSpace (j_Model job),
        batchImageDerefString (j_ProviderJobName job), batchImageDerefString (j_ProviderOutputRef job),
        itoa (j_SuccessCount job), itoa (j_FailCount job), itoa (j_ItemCount job)])"

definition settlementUnitPrice :: "settlement_env \<Rightarrow> BatchImageJob \<Rightarrow> go_error + usd" where
  "settlementUnitPrice env job =
     (if j_PricingSnapshotVersion job \<ge> 1
      then (if j_BillableUnitPrice job < 0 then Inl ErrBatchImageSettlementPricingMissing
            else Inr (j_BillableUnitPrice job))
      else unit_price env job)"

definition isBatchImageSettlementRetryExhausted :: "BatchImageJob \<Rightarrow> bool" where
  "isBatchImageSettlementRetryExhausted job \<longleftrightarrow>
     j_Status job = BatchImageJobStatusSettling
     \<and> j_RetryCount job \<ge> batchImageSettlementMaxRetries
     \<and> HasPrefix (batchImageDerefString (j_LastErrorCode job)) ''SETTLEMENT_''"

definition failExhaustedSettlement ::
    "settlement_env \<Rightarrow> go_time \<Rightarrow> BatchImageJob \<Rightarrow> string
       \<Rightarrow> batch_db world \<Rightarrow> go_error \<times> batch_db world" where
  "failExhaustedSettlement env now job message w =
     (case releaseBatchImageBalanceHold job (batchImageDerefString (j_RequestHash job)) w of
        (Some e, w1) \<Rightarrow>
          (let msg = truncateBatchImageMessage (err_text env e) batchImageMaxErrorMessageLength;
               (_, w2) = SetBatchImageJobSettlementFailed now (j_BatchID job)
                           ''SETTLEMENT_RELEASE_FAILED'' msg w1
           in (WithCause ErrBatchImageSettlementBillingFailed e, w2))
      | (None, w1) \<Rightarrow>
          (let w2 = invalidateAuthCache (j_UserID job) w1;
               m = TrimSpace message;
               msg = (if m = '''' then ''settlement billing retry limit reached'' else m)
           in case TransitionBatchImageJobStatus now (j_BatchID job) BatchImageJobStatusFailed
                     \<lparr>to_EventType = ''settlement_retry_exhausted'',
                      to_EventPayload = Some [(''batch_id'', PString (j_BatchID job)),
                                              (''retry_count'', PInt (j_RetryCount job))],
                      to_ErrorCode = Some ''SETTLEMENT_BILLING_RETRY_EXHAUSTED'',
                      to_ErrorMessage = Some msg,
                      to_Now = None\<rparr> w2 of
                (Inl e, w3) \<Rightarrow> (e, w3)
              | (Inr _, w3) \<Rightarrow> (ErrBatchImageSettlementBillingFailed, w3)))"

definition recordSettlementFailure ::
    "settlement_env \<Rightarrow> go_time \<Rightarrow> BatchImageJob \<Rightarrow> string \<Rightarrow> string
       \<Rightarrow> batch_db world \<Rightarrow> go_error option \<times> batch_db world" where
  "recordSettlementFailure env now job code message w =
     (case SetBatchImageJobSettlementFailed now (j_BatchID job) code
             (truncateBatchImageMessage message batchImageMaxErrorMessageLength) w of
        ((_, Some _), w1) \<Rightarrow> (None, w1)
      | ((retryCount, None), w1) \<Rightarrow>
          if retryCount \<ge> batchImageSettlementMaxRetries
          then (let (e, w2) = failExhaustedSettlement env now
                      (job\<lparr>j_RetryCount := retryCount, j_LastErrorCode := Some code\<rparr>) message w1
                in (Some e, w2))
          else (None, w1))"

text \<open>A settlement that fails with an error, after the failure has been recorded.\<close>

definition settle_fail ::
    "settlement_env \<Rightarrow> go_time \<Rightarrow> BatchImageJob \<Rightarrow> string \<Rightarrow> string \<Rightarrow> go_error
       \<Rightarrow> batch_db world \<Rightarrow> (go_error + BatchImageSettlementResult) \<times> batch_db world" where
  "settle_fail env now job code message err w =
     (case recordSettlementFailure env now job code message w of
        (Some failErr, w1) \<Rightarrow> (Inl failErr, w1)
      | (None, w1) \<Rightarrow> (Inl err, w1))"

definition outputRetentionAfterTerminal :: "settlement_env \<Rightarrow> duration" where
  "outputRetentionAfterTerminal env =
     (if OutputRetentionAfterTerminalHours env > 0 then OutputRetentionAfterTerminalHours env * Hour
      else 72 * Hour)"

definition BillingTypeBalance :: int where "BillingTypeBalance = 0"
definition RequestTypeSync :: int where "RequestTypeSync = 1"

text \<open>
  The log row is written once per request id and key. A failed write is tried once more; a
  second failure is only logged.
\<close>

definition create_usage_log :: "UsageLog \<Rightarrow> batch_db world \<Rightarrow> (go_error + unit) \<times> batch_db world" where
  "create_usage_log usageLog = db_exec (\<lambda>d. (Inr (),
     let key = (ul_RequestID usageLog, ul_APIKeyID usageLog)
     in if usage_logs d key = None
        then d\<lparr>usage_logs := (usage_logs d)(key \<mapsto> usageLog)\<rparr> else d))"

definition writeUsageLogBestEffort :: "UsageLog \<Rightarrow> batch_db world \<Rightarrow> batch_db world" where
  "writeUsageLogBestEffort usageLog w =
     (case create_usage_log usageLog w of
        (Inl _, w1) \<Rightarrow> snd (create_usage_log usageLog w1)
      | (Inr _, w1) \<Rightarrow> w1)"

definition recordUsageLog ::
    "BatchImageJob \<Rightarrow> usd \<Rightarrow> string \<Rightarrow> go_time \<Rightarrow> batch_db world \<Rightarrow> batch_db world" where
  "recordUsageLog job actualCost requestID createdAt w =
     (case (j_APIKeyID job, j_AccountID job) of
        (Some apiKeyID, Some accountID) \<Rightarrow>
          writeUsageLogBestEffort
            \<lparr>ul_UserID = j_UserID job, ul_APIKeyID = apiKeyID, ul_AccountID = accountID,
             ul_RequestID = TrimSpace requestID, ul_Model = j_Model job,
             ul_RequestedModel = j_Model job,
             ul_InboundEndpoint = Some ''/v1/images/batches'',
             ul_UpstreamEndpoint = Some ''vertex:batchPredictionJobs'',
             ul_ImageCount = j_SuccessCount job, ul_ImageOutputCost = actualCost,
             ul_TotalCost = actualCost, ul_ActualCost = actualCost,
             ul_RateMultiplier = j_GroupRateMultiplier job * j_BatchDiscountMultiplier job,
             ul_AccountRateMultiplier = Some (j_AccountRateMultiplier job),
             ul_BillingType = BillingTypeBalance, ul_RequestType = RequestTypeSync,
             ul_BillingMode = Some ''image'', ul_ImageSize = Some ''1K'',
             ul_SessionID = j_SessionID job, ul_CreatedAt = createdAt\<rparr> w
      | _ \<Rightarrow> w)"

text \<open>The result of a settlement and the parameters of its last statement.\<close>

definition settlement_result :: "BatchImageJob \<Rightarrow> BatchImageSettlementResult" where
  "settlement_result job =
     \<lparr>sr_BatchID = j_BatchID job, sr_SuccessCount = j_SuccessCount job,
      sr_FailCount = j_FailCount job,
      sr_ActualCost = (case j_ActualCost job of None \<Rightarrow> 0 | Some c \<Rightarrow> c),
      sr_ManifestHash = BuildBatchImageSettlementManifestHash job,
      sr_RequestID = BatchImageCaptureRequestID (j_BatchID job),
      sr_AlreadySettled = False\<rparr>"

definition settled_params ::
    "settlement_env \<Rightarrow> go_time \<Rightarrow> BatchImageJob \<Rightarrow> usd \<Rightarrow> MarkBatchImageJobSettledParams" where
  "settled_params env now job actualCost =
     (let manifestHash = BuildBatchImageSettlementManifestHash job in
      \<lparr>ms_BatchID = j_BatchID job, ms_ActualCost = actualCost,
       ms_ManifestHash = manifestHash,
       ms_EventPayload = Some
         [(''batch_id'', PString (j_BatchID job)),
          (''request_id'', PString (BatchImageCaptureRequestID (j_BatchID job))),
          (''success_count'', PInt (j_SuccessCount job)),
          (''fail_count'', PInt (j_FailCount job)),
          (''actual_cost'', PUsd actualCost),
          (''manifest_hash'', PString manifestHash)],
       ms_Now = Some now,
       ms_OutputExpiresAt = Some (now + outputRetentionAfterTerminal env)\<rparr>)"

definition Settle ::
    "settlement_env \<Rightarrow> go_time \<Rightarrow> string
       \<Rightarrow> batch_db world \<Rightarrow> (go_error + BatchImageSettlementResult) \<times> batch_db world" where
  "Settle env now batchID w =
     (case GetBatchImageJobByBatchID batchID w of
        (Inl e, w1) \<Rightarrow> (Inl e, w1)
      | (Inr job, w1) \<Rightarrow>
          (let manifestHash = BuildBatchImageSettlementManifestHash job;
               result = settlement_result job
           in
           if j_Status job = BatchImageJobStatusCompleted
           then (Inr (result\<lparr>sr_AlreadySettled := True\<rparr>), w1)
           else if j_Status job \<noteq> BatchImageJobStatusSettling
           then (Inl ErrBatchImageSettlementInvalidStatus, w1)
           else if (case j_APIKeyID job of None \<Rightarrow> True | Some k \<Rightarrow> k \<le> 0)
           then (Inl ErrBatchImageSettlementMissingAPIKeyID, w1)
           else if (case j_AccountID job of None \<Rightarrow> True | Some a \<Rightarrow> a \<le> 0)
           then (Inl ErrBatchImageSettlementMissingAccountID, w1)
           else if isBatchImageSettlementRetryExhausted job
           then (let (e, w2) = failExhaustedSettlement env now job
                       (''settlement retry limit reached: '' @ batchImageDerefString (j_LastErrorCode job)) w1
                 in (Inl e, w2))
           else if j_SuccessCount job < 0 \<or> j_FailCount job < 0 \<or> j_ItemCount job < 0
                   \<or> j_SuccessCount job + j_FailCount job > j_ItemCount job
           then settle_fail env now job ''SETTLEMENT_INVALID_COUNTS''
                  (''success='' @ itoa (j_SuccessCount job) @ '' fail='' @ itoa (j_FailCount job)
                   @ '' item_count='' @ itoa (j_ItemCount job))
                  ErrBatchImageSettlementInvalidCounts w1
           else if TrimSpace (batchImageDerefString (j_ManifestHash job)) \<noteq> ''''
                   \<and> batchImageDerefString (j_ManifestHash job) \<noteq> manifestHash
           then settle_fail env now job ''SETTLEMENT_MANIFEST_CONFLICT'' ''manifest hash conflict''
                  ErrBatchImageSettlementManifestConflict w1
           else case (case settlementUnitPrice env job of
                        Inl e \<Rightarrow> Inl e
                      | Inr p \<Rightarrow> if p < 0 then Inl ErrBatchImageSettlementPricingMissing else Inr p) of
             Inl err \<Rightarrow> settle_fail env now job ''SETTLEMENT_PRICING_MISSING'' (err_text env err) err w1
           | Inr unitPrice \<Rightarrow>
               (let actualCost = of_int (j_SuccessCount job) * unitPrice;
                    holdAmount = job_hold job
                in if actualCost - holdAmount > batchImageCostEpsilon
                   then settle_fail env now job ''SETTLEMENT_COST_EXCEEDS_HOLD''
                          (''actual cost '' @ fmt_10f actualCost @ '' exceeds held amount ''
                           @ fmt_10f holdAmount)
                          ErrBatchImageSettlementCostExceedsHold w1
                   else case captureBatchImageBalanceHold job actualCost manifestHash w1 of
                     (Some err, w2) \<Rightarrow>
                       settle_fail env now job ''SETTLEMENT_BILLING_FAILED''
                         (truncateBatchImageMessage (err_text env err) batchImageMaxErrorMessageLength)
                         err w2
                   | (None, w2) \<Rightarrow>
                       (let w3 = invalidateAuthCache (j_UserID job) w2 in
                        case MarkBatchImageJobSettled now (settled_params env now job actualCost) w3 of
                          (Inl e, w4) \<Rightarrow> (Inl e, w4)
                        | (Inr _, w4) \<Rightarrow>
                            (Inr (result\<lparr>sr_ActualCost := actualCost\<rparr>),
                             recordUsageLog job actualCost (sr_RequestID result) now w4)))))"

section \<open>The pipeline's settlement step\<close>

record BatchImageProcessResult =
  pr_RequeueAfter :: duration
  pr_Terminal :: bool

definition terminal_result :: BatchImageProcessResult where
  "terminal_result = \<lparr>pr_RequeueAfter = 0, pr_Terminal = True\<rparr>"

definition requeue_result :: "duration \<Rightarrow> BatchImageProcessResult" where
  "requeue_result d = \<lparr>pr_RequeueAfter = d, pr_Terminal = False\<rparr>"

text \<open>\<open>provider_process\<close> is the provider processor's \<open>Process\<close>.\<close>

definition Pipeline_Process ::
    "settlement_env \<Rightarrow> duration
       \<Rightarrow> (string \<Rightarrow> batch_db world \<Rightarrow> (go_error + BatchImageProcessResult) \<times> batch_db world)
       \<Rightarrow> go_time \<Rightarrow> string \<Rightarrow> batch_db world \<Rightarrow> (go_error + BatchImageProcessResult) \<times> batch_db world" where
  "Pipeline_Process env RetryDelay provider_process now batchID w =
     (case GetBatchImageJobByBatchID batchID w of
        (Inl e, w1) \<Rightarrow> (Inl e, w1)
      | (Inr job, w1) \<Rightarrow>
          if j_Status job = BatchImageJobStatusSettling
          then (case Settle env now batchID w1 of
                  (Inl err, w2) \<Rightarrow>
                    if errors_Is err ErrBatchImageSettlementBillingFailed
                    then (case GetBatchImageJobByBatchID batchID w2 of
                            (Inr updated, w3) \<Rightarrow>
                              if IsTerminalBatchImageJobStatus (j_Status updated)
                              then (Inr terminal_result, w3)
                              else (Inr (requeue_result (if RetryDelay \<le> 0
                                      then batchImageSettlementRetryDelay else RetryDelay)), w3)
                          | (Inl _, w3) \<Rightarrow>
                              (Inr (requeue_result (if RetryDelay \<le> 0
                                      then batchImageSettlementRetryDelay else RetryDelay)), w3))
                    else (Inl err, w2)
                | (Inr _, w2) \<Rightarrow> (Inr terminal_result, w2))
          else provider_process batchID w1)"

section \<open>Recovery of stale submissions\<close>

definition defaultBatchImageBillingRecoveryStaleAfter :: duration where
  "defaultBatchImageBillingRecoveryStaleAfter = 10 * Minute"

definition defaultBatchImageBillingRecoveryLimit :: int where
  "defaultBatchImageBillingRecoveryLimit = 100"

definition enqueueReleaseRetry ::
    "queue_config \<Rightarrow> go_time \<Rightarrow> string \<Rightarrow> batch_db world \<Rightarrow> batch_db world" where
  "enqueueReleaseRetry cfg now batchID w = snd (db_exec (on_queue (Enqueue cfg now batchID)) w)"

definition stale_message :: string where
  "stale_message = ''batch image submission did not reach provider before recovery cutoff''"

fun release_stale ::
    "queue_config \<Rightarrow> go_time \<Rightarrow> go_time \<Rightarrow> BatchImageJob list \<Rightarrow> int \<Rightarrow> go_error option
       \<Rightarrow> batch_db world \<Rightarrow> (int \<times> go_error option) \<times> batch_db world" where
  "release_stale cfg now cutoff [] released lastErr w = ((released, lastErr), w)"
| "release_stale cfg now cutoff (job # js) released lastErr w =
     (case FailStaleUnsubmittedBatchImageJob now (j_BatchID job) cutoff
             ''SUBMIT_STALE_BEFORE_PROVIDER'' stale_message w of
        ((applied, err), w1) \<Rightarrow>
          if \<not> applied
          then release_stale cfg now cutoff js released (if err \<noteq> None then err else lastErr) w1
          else (case releaseBatchImageBalanceHold (job\<lparr>j_Status := BatchImageJobStatusFailed\<rparr>)
                       (batchImageDerefString (j_RequestHash job)) w1 of
                  (Some e, w2) \<Rightarrow>
                    release_stale cfg now cutoff js released (Some e)
                      (enqueueReleaseRetry cfg now (j_BatchID job) w2)
                | (None, w2) \<Rightarrow>
                    release_stale cfg now cutoff js (released + 1) lastErr
                      (invalidateAuthCache (j_UserID job) w2)))"

definition ReleaseStaleUnsubmittedOnce ::
    "queue_config \<Rightarrow> duration \<Rightarrow> int \<Rightarrow> go_time
       \<Rightarrow> batch_db world \<Rightarrow> (int \<times> go_error option) \<times> batch_db world" where
  "ReleaseStaleUnsubmittedOnce cfg StaleAfter Limit now w =
     (let staleAfter = (if StaleAfter \<le> 0 then defaultBatchImageBillingRecoveryStaleAfter else StaleAfter);
          limit = (if Limit \<le> 0 then defaultBatchImageBillingRecoveryLimit else Limit);
          cutoff = now - staleAfter
      in case ListStaleUnsubmittedBatchImageJobs cutoff limit w of
           (Inl e, w1) \<Rightarrow> ((0, Some e), w1)
         | (Inr js, w1) \<Rightarrow> release_stale cfg now cutoff js 0 None w1)"

end
