(* ===== verification/Batch_Image_Billing_Facts.thy ===== *)
theory Batch_Image_Billing_Facts
  imports Batch_Image_Billing Batch_Image_Job_Facts Usage_Billing_Facts
begin

text \<open>
  Settlement: what a successful settlement has done, that the retries are bounded, and what the
  recovery of stale submissions may release.
\<close>

section \<open>What the calls leave alone\<close>

lemma db_invalidate [simp]:
  "job_rows (db (invalidateAuthCache u w)) = job_rows (db w)"
  "ledger (db (invalidateAuthCache u w)) = ledger (db w)"
  "faults (invalidateAuthCache u w) = faults w"
  by (simp_all add: invalidateAuthCache_def)

lemma find_job_cong: "job_rows d' = job_rows d \<Longrightarrow> find_job b d' = find_job b d"
  by (simp add: find_job_def)

lemma unique_jobs_cong: "job_rows d' = job_rows d \<Longrightarrow> unique_jobs d' = unique_jobs d"
  by (simp add: unique_jobs_def)

lemma find_invalidate [simp]: "find_job b (db (invalidateAuthCache u w)) = find_job b (db w)"
  by (simp add: find_job_def)

lemma on_ledger_rows [simp]: "job_rows (snd (on_ledger st d)) = job_rows d"
  by (simp add: on_ledger_def split: prod.splits)

lemma on_ledger_Inr: "on_ledger st d = (Inr r, d') \<longleftrightarrow>
    (\<exists>l. st (ledger d) = (Inr r, l) \<and> d' = d\<lparr>ledger := l\<rparr>)"
  by (auto simp: on_ledger_def split: prod.splits)

lemma get_job_keeps:
  assumes "GetBatchImageJobByBatchID b w = (r, w')"
  shows "db w' = db w"
  using db_exec_keeps [OF assms [unfolded GetBatchImageJobByBatchID_def select_job_def], of "\<lambda>d. d"]
  by simp

lemma get_job_Inr:
  assumes "GetBatchImageJobByBatchID b w = (Inr job, w')"
  shows "find_job b (db w) = Some job" and "db w' = db w"
proof -
  show "db w' = db w" by (rule get_job_keeps [OF assms])
  have "scan_row (find_job b (db w)) ErrBatchImageJobNotFound = Inr job"
    using db_exec_Inr [OF assms [unfolded GetBatchImageJobByBatchID_def select_job_def]]
    unfolding prod.inject by (rule conjunct1)
  then show "find_job b (db w) = Some job" by (simp add: scan_row_def split: option.splits)
qed

lemma find_job_id: "find_job b d = Some job \<Longrightarrow> j_BatchID job = b"
  by (auto simp: find_job_def find_Some_iff)

lemma capture_keeps_rows:
  assumes "captureBatchImageBalanceHold job a h w = (r, w')"
  shows "job_rows (db w') = job_rows (db w)"
  using assms
  by (auto simp: captureBatchImageBalanceHold_def split: sum.splits prod.splits
      dest: db_exec_keeps [where f = job_rows])

lemma release_keeps_rows:
  assumes "releaseBatchImageBalanceHold job h w = (r, w')"
  shows "job_rows (db w') = job_rows (db w)"
  using assms
  by (auto simp: releaseBatchImageBalanceHold_def split: sum.splits prod.splits if_splits
      dest: db_exec_keeps [where f = job_rows])

lemma create_usage_log_keeps:
  assumes "create_usage_log l w = (r, w')"
  shows "job_rows (db w') = job_rows (db w)" and "ledger (db w') = ledger (db w)"
  using assms unfolding create_usage_log_def Let_def
  by (rule db_exec_keeps, simp)+

lemma write_usage_log_keeps:
  "job_rows (db (writeUsageLogBestEffort l w)) = job_rows (db w)
    \<and> ledger (db (writeUsageLogBestEffort l w)) = ledger (db w)"
proof -
  obtain r w1 where 1: "create_usage_log l w = (r, w1)" by fastforce
  obtain r2 w2 where 2: "create_usage_log l w1 = (r2, w2)" by fastforce
  show ?thesis
    using 1 2 create_usage_log_keeps [OF 1] create_usage_log_keeps [OF 2]
    by (cases r) (simp_all add: writeUsageLogBestEffort_def)
qed

lemma usage_log_keeps:
  "job_rows (db (recordUsageLog job a rid t w)) = job_rows (db w)"
  "ledger (db (recordUsageLog job a rid t w)) = ledger (db w)"
  by (simp_all add: recordUsageLog_def write_usage_log_keeps split: option.split)

section \<open>A capture that succeeds\<close>

lemma capture_done:
  assumes "captureBatchImageBalanceHold job a h w = (None, w')" and "j_APIKeyID job = Some k"
  shows "claimed (ledger (db w')) (TrimSpace (BatchImageCaptureRequestID (j_BatchID job))) k"
proof -
  from assms obtain cmd where
    cmd: "buildBatchImageHoldCommand job (BatchImageCaptureRequestID (j_BatchID job)) a h = Inr cmd"
    and ex: "\<exists>r. db_exec (on_ledger (CaptureBatchImageBalance cmd)) w = (Inr r, w')"
    by (auto simp: captureBatchImageBalanceHold_def split: sum.splits prod.splits)
  from cmd assms(2) have ids: "h_RequestID cmd = BatchImageCaptureRequestID (j_BatchID job)"
    "h_APIKeyID cmd = k"
    by (auto simp: buildBatchImageHoldCommand_def Let_def split: if_splits)
  from ex obtain r where "db_exec (on_ledger (CaptureBatchImageBalance cmd)) w = (Inr r, w')" by blast
  from db_exec_Inr [OF this] obtain l where
    l: "CaptureBatchImageBalance cmd (ledger (db w)) = (Inr r, l)" and w': "ledger (db w') = l"
    by (auto simp: on_ledger_Inr)
  show ?thesis
  proof (cases "hold_applied (Inr r :: go_error + BatchImageBalanceHoldResult)")
    case True
    from hold_op_claims(4) [OF l [unfolded CaptureBatchImageBalance_def] True] show ?thesis
      by (simp add: w' ids)
  next
    case False
    with l have "l = ledger (db w)" by (simp add: CaptureBatchImageBalance_def hold_unchanged)
    moreover have "claimed (ledger (db w)) (TrimSpace (h_RequestID cmd)) (h_APIKeyID cmd)"
      using l False
      by (auto simp: CaptureBatchImageBalance_def applyBatchImageBalanceHold_def Let_def hold_applied_def
          claimUsageBillingRequest_def claimed_def
          split: if_splits prod.splits sum.splits bool.splits option.splits)
    ultimately show ?thesis by (simp add: w' ids)
  qed
qed

section \<open>Rows after an update\<close>

lemma find_map: "find P (map g xs) = map_option g (find (\<lambda>x. P (g x)) xs)"
  by (induction xs) simp_all

lemma find_job_update:
  assumes "\<And>j. j_BatchID (f j) = j_BatchID j"
  shows "find_job b (snd (update_jobs p f d)) = map_option (\<lambda>j. if p j then f j else j) (find_job b d)"
proof -
  have "(\<lambda>j. j_BatchID (if p j then f j else j) = b) = has_batch_id b" using assms by auto
  then show ?thesis by (simp add: find_job_def update_jobs_def find_map)
qed

lemma update_affected:
  assumes "update_jobs p f d = (n, d')" and "n \<noteq> 0" and "unique_jobs d" and "find_job b d = Some job"
    and "\<And>j. p j \<Longrightarrow> j_BatchID j = b"
  shows "p job"
proof -
  from assms(1,2) have "filter p (job_rows d) \<noteq> []" by (auto simp: update_jobs_def)
  then obtain j where "j \<in> set (job_rows d)" "p j" by (auto simp: filter_empty_conv)
  with find_job_unique [OF assms(3,4)] assms(5) show ?thesis by metis
qed

lemma mark_settled_done:
  assumes "markBatchImageJobSettledWithSQL clock params d = (Inr r, d')" and "unique_jobs d"
    and "find_job (ms_BatchID params) d = Some job"
  shows "j_Status job = ''settling''"
    and "\<exists>job'. find_job (ms_BatchID params) d' = Some job' \<and> j_Status job' = ''completed''
      \<and> j_ActualCost job' = Some (round_scale 10 (ms_ActualCost params))
      \<and> j_ManifestHash job' = Some (ms_ManifestHash params)"
    and "ledger d' = ledger d"
proof -
  define now where "now = (case ms_Now params of None \<Rightarrow> clock | Some t \<Rightarrow> t)"
  define p where "p = (\<lambda>j :: BatchImageJob. j_BatchID j = ms_BatchID params \<and> j_Status j = ''settling''
    \<and> (j_ManifestHash j = None \<or> j_ManifestHash j = Some ''''
       \<or> j_ManifestHash j = Some (ms_ManifestHash params)))"
  define f where "f = (\<lambda>j :: BatchImageJob. j\<lparr>j_Status := ''completed'',
    j_ActualCost := Some (round_scale 10 (ms_ActualCost params)),
    j_ManifestHash := Some (ms_ManifestHash params),
    j_SettledAt := keep_first (j_SettledAt j) (Some now),
    j_FinishedAt := keep_first (j_FinishedAt j) (Some now),
    j_OutputExpiresAt := keep_first (j_OutputExpiresAt j) (ms_OutputExpiresAt params),
    j_UpdatedAt := now, j_Version := j_Version j + 1\<rparr>)"
  obtain n d1 where u: "update_jobs p f d = (n, d1)" by fastforce
  have n: "n \<noteq> 0" and ev: "\<exists>pl. append_event clock (ms_BatchID params) ''settlement_completed'' pl d1 = (Inr r, d')"
    using assms(1) u
    unfolding markBatchImageJobSettledWithSQL_def now_def [symmetric] Let_def p_def [symmetric]
      f_def [symmetric]
    by (auto split: if_splits option.splits)
  have pj: "p job" using update_affected [OF u n assms(2,3)] by (simp add: p_def)
  then show "j_Status job = ''settling''" by (simp add: p_def)
  from ev have rows: "job_rows d' = job_rows d1" and l: "ledger d' = ledger d1"
    by (auto simp: append_event_def split: if_splits)
  have bid: "j_BatchID (f j) = j_BatchID j" for j by (simp add: f_def)
  have "find_job (ms_BatchID params) d1 = Some (f job)"
    using find_job_update [of f, OF bid, of "ms_BatchID params" p d] u assms(3) pj by simp
  then show "\<exists>job'. find_job (ms_BatchID params) d' = Some job' \<and> j_Status job' = ''completed''
      \<and> j_ActualCost job' = Some (round_scale 10 (ms_ActualCost params))
      \<and> j_ManifestHash job' = Some (ms_ManifestHash params)"
    by (simp add: find_job_cong [OF rows] f_def)
  show "ledger d' = ledger d" using l u by (auto simp: update_jobs_def)
qed

lemma MarkSettled_done:
  assumes "MarkBatchImageJobSettled clock params w = (Inr r, w')" and "unique_jobs (db w)"
    and "find_job (ms_BatchID params) (db w) = Some job"
  shows "\<exists>job'. find_job (ms_BatchID params) (db w') = Some job' \<and> j_Status job' = ''completed''
      \<and> j_ActualCost job' = Some (round_scale 10 (ms_ActualCost params))
      \<and> j_ManifestHash job' = Some (ms_ManifestHash params)"
    and "ledger (db w') = ledger (db w)"
  using mark_settled_done [OF _ assms(2,3)]
    db_exec_Inr [OF assms(1) [unfolded MarkBatchImageJobSettled_def]]
  unfolding atomically_Inr by blast+

section \<open>A settlement that succeeds\<close>

lemma settle_fail_Inl: "\<exists>e. fst (settle_fail env now job c m err w) = Inl e"
  by (auto simp: settle_fail_def split: prod.split option.split)

lemma settle_fail_not_Inr: "settle_fail env now job c m err w \<noteq> (Inr r, w')"
  using settle_fail_Inl by (metis fst_conv sum.distinct(1))

text \<open>The path of \<open>Settle\<close> to a fresh success.\<close>

lemma Settle_fresh:
  assumes "Settle env now b w = (Inr r, w')" and "\<not> sr_AlreadySettled r"
  obtains job w1 k price w2 w4 where
    "find_job b (db w) = Some job" "db w1 = db w"
    "j_Status job = ''settling''" "j_APIKeyID job = Some k" "0 < k"
    "settlementUnitPrice env job = Inr price" "0 \<le> price"
    "of_int (j_SuccessCount job) * price - job_hold job \<le> batchImageCostEpsilon"
    "captureBatchImageBalanceHold job (of_int (j_SuccessCount job) * price)
       (BuildBatchImageSettlementManifestHash job) w1 = (None, w2)"
    "\<exists>params q. MarkBatchImageJobSettled now params (invalidateAuthCache (j_UserID job) w2) = (Inr q, w4)
       \<and> ms_BatchID params = b \<and> ms_ActualCost params = of_int (j_SuccessCount job) * price"
    "\<exists>rid. w' = recordUsageLog job (of_int (j_SuccessCount job) * price) rid now w4"
    "sr_ActualCost r = of_int (j_SuccessCount job) * price"
    "0 \<le> j_SuccessCount job" "j_SuccessCount job \<le> j_ItemCount job"
proof -
  from assms(1) obtain job w1 where g: "GetBatchImageJobByBatchID b w = (Inr job, w1)"
    by (auto simp: Settle_def split: prod.splits sum.splits)
  note fj = get_job_Inr [OF g] and bid = find_job_id [OF get_job_Inr(1) [OF g]]
  have c1: "j_Status job \<noteq> BatchImageJobStatusCompleted"
    using assms g by (auto simp: Settle_def Let_def)
  have c2: "j_Status job = BatchImageJobStatusSettling"
    using assms(1) g c1 by (simp add: Settle_def Let_def split: if_split_asm)
  have c3: "\<not> (case j_APIKeyID job of None \<Rightarrow> True | Some k \<Rightarrow> k \<le> 0)"
  proof
    assume "case j_APIKeyID job of None \<Rightarrow> True | Some k \<Rightarrow> k \<le> 0"
    with assms(1) g c1 c2 show False by (simp only: Settle_def Let_def prod.case sum.case if_True if_False simp_thms) simp
  qed
  have c4: "\<not> (case j_AccountID job of None \<Rightarrow> True | Some k \<Rightarrow> k \<le> 0)"
  proof
    assume "case j_AccountID job of None \<Rightarrow> True | Some k \<Rightarrow> k \<le> 0"
    with assms(1) g c1 c2 c3 show False by (simp only: Settle_def Let_def prod.case sum.case if_True if_False simp_thms) simp
  qed
  have c5: "\<not> isBatchImageSettlementRetryExhausted job"
  proof
    assume "isBatchImageSettlementRetryExhausted job"
    with assms(1) g c1 c2 c3 c4 show False
      by (simp only: Settle_def Let_def prod.case sum.case if_True if_False simp_thms) (simp split: prod.splits)
  qed
  have c6: "\<not> (j_SuccessCount job < 0 \<or> j_FailCount job < 0 \<or> j_ItemCount job < 0
      \<or> j_SuccessCount job + j_FailCount job > j_ItemCount job)"
  proof
    assume "j_SuccessCount job < 0 \<or> j_FailCount job < 0 \<or> j_ItemCount job < 0
      \<or> j_SuccessCount job + j_FailCount job > j_ItemCount job"
    with assms(1) g c1 c2 c3 c4 c5 show False
      by (simp only: Settle_def Let_def prod.case sum.case if_True if_False simp_thms settle_fail_not_Inr)
  qed
  have c7: "\<not> (TrimSpace (batchImageDerefString (j_ManifestHash job)) \<noteq> ''''
      \<and> batchImageDerefString (j_ManifestHash job) \<noteq> BuildBatchImageSettlementManifestHash job)"
  proof
    assume "TrimSpace (batchImageDerefString (j_ManifestHash job)) \<noteq> ''''
      \<and> batchImageDerefString (j_ManifestHash job) \<noteq> BuildBatchImageSettlementManifestHash job"
    with assms(1) g c1 c2 c3 c4 c5 c6 show False
      by (simp only: Settle_def Let_def prod.case sum.case if_True if_False simp_thms settle_fail_not_Inr)
  qed
  have ne: "BatchImageJobStatusSettling \<noteq> BatchImageJobStatusCompleted" by (simp add: status_defs)
  note path = Settle_def Let_def prod.case sum.case if_True if_False simp_thms settle_fail_not_Inr
    g ne c2 c3 c4 c5 c6 c7
  show ?thesis
  proof (cases "case settlementUnitPrice env job of Inl e \<Rightarrow> Inl e
      | Inr p \<Rightarrow> if p < 0 then Inl ErrBatchImageSettlementPricingMissing else Inr p")
    case (Inl e)
    with assms(1) show ?thesis by (simp only: path)
  next
    case (Inr price)
    then have pr: "settlementUnitPrice env job = Inr price" "0 \<le> price"
      by (auto split: sum.splits if_splits)
    let ?cost = "of_int (j_SuccessCount job) * price"
    have c8: "\<not> ?cost - job_hold job > batchImageCostEpsilon"
    proof
      assume "?cost - job_hold job > batchImageCostEpsilon"
      with assms(1) Inr show False by (simp only: path)
    qed
    obtain cr w2 where cap: "captureBatchImageBalanceHold job ?cost
        (BuildBatchImageSettlementManifestHash job) w1 = (cr, w2)" by fastforce
    have cr: "cr = None"
    proof (rule ccontr)
      assume "cr \<noteq> None"
      then obtain err where "cr = Some err" by blast
      with assms(1) Inr c8 cap show False by (simp only: path option.case)
    qed
    from c3 obtain k where k: "j_APIKeyID job = Some k" "0 < k" by (auto split: option.splits)
    obtain m w4 where mark: "MarkBatchImageJobSettled now (settled_params env now job ?cost)
        (invalidateAuthCache (j_UserID job) w2) = (m, w4)" by fastforce
    have out: "Settle env now b w = (case m of Inl e \<Rightarrow> (Inl e, w4)
        | Inr _ \<Rightarrow> (Inr ((settlement_result job)\<lparr>sr_ActualCost := ?cost\<rparr>),
            recordUsageLog job ?cost (sr_RequestID (settlement_result job)) now w4))"
      using Inr c8 cap cr mark by (simp only: path option.case)
    from out assms(1) obtain q where "m = Inr q"
      and w': "w' = recordUsageLog job ?cost (sr_RequestID (settlement_result job)) now w4"
      and r: "sr_ActualCost r = ?cost" by (cases m) auto
    with mark have mk: "MarkBatchImageJobSettled now (settled_params env now job ?cost)
        (invalidateAuthCache (j_UserID job) w2) = (Inr q, w4)" by simp
    have ps: "ms_BatchID (settled_params env now job ?cost) = b"
      "ms_ActualCost (settled_params env now job ?cost) = ?cost"
      by (simp_all add: settled_params_def Let_def bid)
    have st: "j_Status job = ''settling''" using c2 by (simp add: status_defs)
    show ?thesis
      by (rule that [OF fj st k pr _ cap [unfolded cr]])
        (use c8 mk ps w' r c6 in \<open>auto simp: not_less\<close>)
  qed
qed


section \<open>The calls when nothing is lost\<close>

lemma get_job_reliable:
  assumes "faults w = []" and "find_job b (db w) = Some job"
  shows "GetBatchImageJobByBatchID b w = (Inr job, w)"
  using assms by (simp add: GetBatchImageJobByBatchID_def select_job_def db_exec_reliable scan_row_def)

lemma event_reliable:
  assumes "faults w = []" and "find_job b (db w) \<noteq> None"
  shows "\<exists>w'. AppendBatchImageEvent now b t p w = (Inr (), w') \<and> faults w' = []
    \<and> job_rows (db w') = job_rows (db w) \<and> ledger (db w') = ledger (db w)"
  using assms by (simp add: AppendBatchImageEvent_def db_exec_reliable append_event_def)

lemma find_update_same:
  assumes "\<And>j. j_BatchID (f j) = j_BatchID j" and "find_job b d = Some job"
  shows "find_job b (snd (update_jobs (has_batch_id b) f d)) = Some (f job)"
  using find_job_update [of f, OF assms(1)] assms(2) find_job_id [OF assms(2)] by simp

lemma settlement_failed_reliable:
  assumes "faults w = []" and "find_job b (db w) = Some job"
  shows "\<exists>w'. SetBatchImageJobSettlementFailed now b code msg w = ((j_RetryCount job + 1, None), w')
    \<and> faults w' = [] \<and> ledger (db w') = ledger (db w)
    \<and> find_job b (db w') = Some (job\<lparr>j_LastErrorCode := Some code, j_LastErrorMessage := Some msg,
        j_RetryCount := j_RetryCount job + 1, j_UpdatedAt := now\<rparr>)"
proof -
  define f where "f = (\<lambda>j :: BatchImageJob. j\<lparr>j_LastErrorCode := Some code, j_LastErrorMessage := Some msg,
      j_RetryCount := j_RetryCount j + 1, j_UpdatedAt := now\<rparr>)"
  define d' where "d' = snd (update_jobs (has_batch_id b) f (db w))"
  have f': "find_job b d' = Some (f job)"
    unfolding d'_def by (rule find_update_same [OF _ assms(2)]) (simp add: f_def)
  have "\<exists>w'. AppendBatchImageEvent now b ''settlement_failed''
      (Some [(''error_code'', PString code)]) (w\<lparr>db := d'\<rparr>) = (Inr (), w') \<and> faults w' = []
      \<and> job_rows (db w') = job_rows d' \<and> ledger (db w') = ledger d'"
    using event_reliable [of "w\<lparr>db := d'\<rparr>" b] f' assms(1) by simp
  then obtain w' where "AppendBatchImageEvent now b ''settlement_failed''
      (Some [(''error_code'', PString code)]) (w\<lparr>db := d'\<rparr>) = (Inr (), w')"
    "faults w' = []" "job_rows (db w') = job_rows d'" "ledger (db w') = ledger d'" by blast
  moreover have "ledger d' = ledger (db w)" by (simp add: d'_def update_jobs_def)
  ultimately show ?thesis
    using assms(1) f' find_job_cong [of "db w'" d' b]
    by (simp add: SetBatchImageJobSettlementFailed_def db_exec_reliable Let_def scan_row_def
        f_def [symmetric] d'_def [symmetric]) (simp add: f_def)
qed

lemma transition_failed_reliable:
  assumes "faults w = []" and "find_job b (db w) = Some job" and "j_Status job = ''settling''"
  shows "\<exists>w'. TransitionBatchImageJobStatus now b BatchImageJobStatusFailed opts w = (Inr (), w')
    \<and> faults w' = [] \<and> ledger (db w') = ledger (db w)
    \<and> (\<exists>j. find_job b (db w') = Some j \<and> j_Status j = ''failed'' \<and> j_ActualCost j = j_ActualCost job)"
proof -
  have can: "CanTransitionBatchImageJob (j_Status job) BatchImageJobStatusFailed"
    using assms(3) by (simp add: CanTransitionBatchImageJob_def IsTerminalBatchImageJobStatus_def status_defs)
  define f where "f = transition_row now BatchImageJobStatusFailed opts"
  have f: "j_BatchID (f j) = j_BatchID j" "j_Status (f job) = ''failed''"
      "j_ActualCost (f job) = j_ActualCost job" for j
    by (simp_all add: f_def transition_row_def Let_def BatchImageJobStatusFailed_def)
  define d1 where "d1 = snd (update_jobs (has_batch_id b) f (db w))"
  have d1: "find_job b d1 = Some (f job)" "ledger d1 = ledger (db w)"
    unfolding d1_def using find_update_same [of f, OF f(1) assms(2)] by (simp_all add: update_jobs_def)
  obtain d2 where d2: "transitionBatchImageJobStatusWithSQL now b BatchImageJobStatusFailed opts (db w) = (Inr (), d2)"
    "job_rows d2 = job_rows d1" "ledger d2 = ledger d1"
  proof (cases "to_EventType opts = ''''")
    case True
    then show ?thesis using can assms(2) that [of d1]
      by (simp add: transitionBatchImageJobStatusWithSQL_def f_def [symmetric] d1_def [symmetric] Let_def)
  next
    case False
    then show ?thesis using can assms(2) d1 that
      by (simp add: transitionBatchImageJobStatusWithSQL_def f_def [symmetric] d1_def [symmetric]
          Let_def append_event_def)
  qed
  then show ?thesis
    using assms(1) d1 f(2,3) find_job_cong [OF d2(2), of b]
    by (simp add: TransitionBatchImageJobStatus_def db_exec_reliable atomically_def)
qed

section \<open>An attempt to settle when nothing is lost\<close>

definition attempt_outcome :: "BatchImageJob \<Rightarrow> BatchImageJob \<Rightarrow> bool" where
  "attempt_outcome job job' \<longleftrightarrow> IsTerminalBatchImageJobStatus (j_Status job')
     \<or> j_Status job' = ''settling'' \<and> j_RetryCount job < j_RetryCount job'
       \<and> j_ManifestHash job' = j_ManifestHash job \<and> j_APIKeyID job' = j_APIKeyID job
       \<and> j_AccountID job' = j_AccountID job
       \<and> HasPrefix (batchImageDerefString (j_LastErrorCode job')) ''SETTLEMENT_''
       \<and> (5 \<le> j_RetryCount job' \<longrightarrow> j_LastErrorCode job' = Some ''SETTLEMENT_RELEASE_FAILED'')"

definition attempted :: "string \<Rightarrow> BatchImageJob \<Rightarrow> batch_db world \<Rightarrow> bool" where
  "attempted b job w \<longleftrightarrow> faults w = []
     \<and> (\<exists>job'. find_job b (db w) = Some job' \<and> attempt_outcome job job')"

definition settlement_code :: "string \<Rightarrow> bool" where
  "settlement_code code \<longleftrightarrow> HasPrefix (batchImageDerefString (Some code)) ''SETTLEMENT_''"

lemma settlement_codes [simp]:
  "settlement_code ''SETTLEMENT_INVALID_COUNTS''" "settlement_code ''SETTLEMENT_MANIFEST_CONFLICT''"
  "settlement_code ''SETTLEMENT_PRICING_MISSING''" "settlement_code ''SETTLEMENT_COST_EXCEEDS_HOLD''"
  "settlement_code ''SETTLEMENT_BILLING_FAILED''" "settlement_code ''SETTLEMENT_RELEASE_FAILED''"
  by (simp_all add: settlement_code_def batchImageDerefString_def TrimSpace_visible visible_def
      HasPrefix_def)

lemma terminal_failed [simp]:
  "IsTerminalBatchImageJobStatus ''failed''" "IsTerminalBatchImageJobStatus ''completed''"
  by (simp_all add: IsTerminalBatchImageJobStatus_def status_defs)

lemma db_exec_no_faults: "faults w = [] \<Longrightarrow> faults (snd (db_exec st w)) = []"
  by (simp add: db_exec_reliable)

lemma release_no_faults:
  assumes "releaseBatchImageBalanceHold job h w = (r, w')" and "faults w = []"
  shows "faults w' = []"
  using assms
  by (auto simp: releaseBatchImageBalanceHold_def db_exec_reliable split: sum.splits if_splits)

lemma capture_no_faults:
  assumes "captureBatchImageBalanceHold job a h w = (r, w')" and "faults w = []"
  shows "faults w' = []"
  using assms
  by (auto simp: captureBatchImageBalanceHold_def db_exec_reliable split: sum.splits)

lemma failExhausted_attempted:
  assumes "failExhaustedSettlement env now cmd_job msg w = (e, w')" and "faults w = []"
    and "find_job b (db w) = Some job" and "j_Status job = ''settling''" and "j_BatchID cmd_job = b"
  shows "attempted b job w'"
proof -
  obtain r w1 where r: "releaseBatchImageBalanceHold cmd_job
      (batchImageDerefString (j_RequestHash cmd_job)) w = (r, w1)" by fastforce
  have w1: "faults w1 = []" "find_job b (db w1) = Some job"
    using release_no_faults [OF r assms(2)] find_job_cong [OF release_keeps_rows [OF r], of b] assms(3)
    by simp_all
  show ?thesis
  proof (cases r)
    case None
    let ?w2 = "invalidateAuthCache (j_UserID cmd_job) w1"
    have w2: "faults ?w2 = []" "find_job b (db ?w2) = Some job" using w1 by simp_all
    from assms(1,5) None r obtain opts x where
      "TransitionBatchImageJobStatus now b BatchImageJobStatusFailed opts ?w2 = (x, w')"
      by (auto simp: failExhaustedSettlement_def Let_def split: prod.splits sum.splits)
    with transition_failed_reliable [OF w2 assms(4), of now opts] show ?thesis
      by (auto simp: attempted_def attempt_outcome_def)
  next
    case (Some err)
    let ?m = "truncateBatchImageMessage (err_text env err) batchImageMaxErrorMessageLength"
    obtain w2 where w2: "SetBatchImageJobSettlementFailed now b ''SETTLEMENT_RELEASE_FAILED'' ?m w1
        = ((j_RetryCount job + 1, None), w2)" "faults w2 = []"
      "find_job b (db w2) = Some (job\<lparr>j_LastErrorCode := Some ''SETTLEMENT_RELEASE_FAILED'',
        j_LastErrorMessage := Some ?m, j_RetryCount := j_RetryCount job + 1, j_UpdatedAt := now\<rparr>)"
      using settlement_failed_reliable [OF w1] by blast
    with assms(1,4,5) Some r settlement_codes(6) show ?thesis
      by (simp add: failExhaustedSettlement_def Let_def attempted_def attempt_outcome_def
          settlement_code_def)
  qed
qed

lemma attempted_later:
  assumes "attempted b job' w"
    and "j_RetryCount job < j_RetryCount job'" and "j_ManifestHash job' = j_ManifestHash job"
    and "j_APIKeyID job' = j_APIKeyID job" and "j_AccountID job' = j_AccountID job"
  shows "attempted b job w"
  using assms by (auto simp: attempted_def attempt_outcome_def)

lemma settle_fail_attempted:
  assumes "settle_fail env now job code msg err w = (r, w')" and "faults w = []"
    and "find_job b (db w) = Some job" and "j_Status job = ''settling''" and "settlement_code code"
  shows "attempted b job w'"
proof -
  let ?m = "truncateBatchImageMessage msg batchImageMaxErrorMessageLength"
  let ?job' = "job\<lparr>j_LastErrorCode := Some code, j_LastErrorMessage := Some ?m,
    j_RetryCount := j_RetryCount job + 1, j_UpdatedAt := now\<rparr>"
  let ?cmd = "job\<lparr>j_RetryCount := j_RetryCount job + 1, j_LastErrorCode := Some code\<rparr>"
  note bid = find_job_id [OF assms(3)]
  obtain w1 where w1: "SetBatchImageJobSettlementFailed now b code ?m w
      = ((j_RetryCount job + 1, None), w1)" "faults w1 = []" "find_job b (db w1) = Some ?job'"
    using settlement_failed_reliable [OF assms(2,3)] by blast
  show ?thesis
  proof (cases "j_RetryCount job + 1 \<ge> batchImageSettlementMaxRetries")
    case True
    obtain e w2 where fe: "failExhaustedSettlement env now ?cmd msg w1 = (e, w2)" by fastforce
    have "attempted b ?job' w2"
      by (rule failExhausted_attempted [OF fe w1(2,3)]) (simp_all add: assms(4) bid)
    moreover have "w' = w2"
      using assms(1) w1(1) fe True by (simp add: settle_fail_def recordSettlementFailure_def bid)
    ultimately show ?thesis by (auto elim: attempted_later)
  next
    case False
    then have "w' = w1"
      using assms(1) w1(1) by (simp add: settle_fail_def recordSettlementFailure_def bid)
    with False w1(2,3) assms(4,5) show ?thesis
      by (simp add: attempted_def attempt_outcome_def settlement_code_def
          batchImageSettlementMaxRetries_def)
  qed
qed

lemma mark_reliable:
  assumes "faults w = []" and "find_job (ms_BatchID params) (db w) = Some job"
    and "j_Status job = ''settling''" and "j_ManifestHash job = None"
  shows "\<exists>w'. MarkBatchImageJobSettled clock params w = (Inr (), w') \<and> faults w' = []
    \<and> (\<exists>job'. find_job (ms_BatchID params) (db w') = Some job' \<and> j_Status job' = ''completed'')"
proof -
  define now where "now = (case ms_Now params of None \<Rightarrow> clock | Some t \<Rightarrow> t)"
  define p where "p = (\<lambda>j :: BatchImageJob. j_BatchID j = ms_BatchID params \<and> j_Status j = ''settling''
    \<and> (j_ManifestHash j = None \<or> j_ManifestHash j = Some ''''
       \<or> j_ManifestHash j = Some (ms_ManifestHash params)))"
  define f where "f = (\<lambda>j :: BatchImageJob. j\<lparr>j_Status := ''completed'',
    j_ActualCost := Some (round_scale 10 (ms_ActualCost params)),
    j_ManifestHash := Some (ms_ManifestHash params),
    j_SettledAt := keep_first (j_SettledAt j) (Some now),
    j_FinishedAt := keep_first (j_FinishedAt j) (Some now),
    j_OutputExpiresAt := keep_first (j_OutputExpiresAt j) (ms_OutputExpiresAt params),
    j_UpdatedAt := now, j_Version := j_Version j + 1\<rparr>)"
  define d1 where "d1 = snd (update_jobs p f (db w))"
  have pj: "p job" using assms(2-4) find_job_id [OF assms(2)] by (simp add: p_def)
  have "job \<in> set (job_rows (db w))"
    using assms(2) by (auto simp: find_job_def find_Some_iff in_set_conv_nth)
  with pj have n: "fst (update_jobs p f (db w)) \<noteq> 0" by (auto simp: update_jobs_def filter_empty_conv)
  have fj: "find_job (ms_BatchID params) d1 = Some (f job)"
    unfolding d1_def using pj assms(2) by (subst find_job_update) (simp_all add: f_def)
  have "markBatchImageJobSettledWithSQL clock params (db w)
      = append_event clock (ms_BatchID params) ''settlement_completed'' (ms_EventPayload params) d1"
    using n unfolding markBatchImageJobSettledWithSQL_def now_def [symmetric] Let_def p_def [symmetric]
      f_def [symmetric] d1_def by (cases "update_jobs p f (db w)") simp
  then obtain d2 where d2: "markBatchImageJobSettledWithSQL clock params (db w) = (Inr (), d2)"
    "job_rows d2 = job_rows d1" using fj by (simp add: append_event_def)
  with fj assms(1) find_job_cong [OF d2(2)] show ?thesis
    by (simp add: MarkBatchImageJobSettled_def db_exec_reliable atomically_def f_def)
qed

lemma usage_log_no_faults: "faults w = [] \<Longrightarrow> faults (recordUsageLog job a rid t w) = []"
  by (simp add: recordUsageLog_def writeUsageLogBestEffort_def create_usage_log_def db_exec_reliable
      split: option.split)

lemma Settle_attempted:
  assumes "Settle env now b w = (r, w')" and "faults w = []" and "find_job b (db w) = Some job"
    and "j_Status job = ''settling''" and "j_APIKeyID job = Some k" "0 < k"
    and "j_AccountID job = Some a" "0 < a" and "j_ManifestHash job = None"
  shows "attempted b job w'"
proof -
  note get = get_job_reliable [OF assms(2,3)] and bid = find_job_id [OF assms(3)]
  note failed = settle_fail_attempted [OF _ assms(2,3,4)]
  have ids: "\<not> (case j_APIKeyID job of None \<Rightarrow> True | Some k \<Rightarrow> k \<le> 0)"
    "\<not> (case j_AccountID job of None \<Rightarrow> True | Some k \<Rightarrow> k \<le> 0)" using assms(5-8) by simp_all
  have st: "j_Status job = BatchImageJobStatusSettling"
    "BatchImageJobStatusSettling \<noteq> BatchImageJobStatusCompleted"
    using assms(4) by (simp_all add: status_defs)
  have mh: "\<not> (TrimSpace (batchImageDerefString (j_ManifestHash job)) \<noteq> ''''
      \<and> batchImageDerefString (j_ManifestHash job) \<noteq> BuildBatchImageSettlementManifestHash job)"
    using assms(9) by (simp add: batchImageDerefString_def TrimSpace_visible visible_def)
  note path = Settle_def Let_def prod.case sum.case if_True if_False simp_thms get st ids mh
  let ?counts = "j_SuccessCount job < 0 \<or> j_FailCount job < 0 \<or> j_ItemCount job < 0
      \<or> j_SuccessCount job + j_FailCount job > j_ItemCount job"
  show ?thesis
  proof (cases "isBatchImageSettlementRetryExhausted job")
    case True
    then obtain e m where "failExhaustedSettlement env now job m w = (e, w')"
      using assms(1) by (simp only: path) (auto split: prod.splits)
    then show ?thesis using assms(2,3,4) bid by (rule failExhausted_attempted)
  next
    case False
    note path = path False
    show ?thesis
    proof (cases ?counts)
      case True
      with assms(1) show ?thesis by (simp only: path) (erule failed, simp)
    next
      case False
      note path = path this
      show ?thesis
      proof (cases "case settlementUnitPrice env job of Inl e \<Rightarrow> Inl e
          | Inr p \<Rightarrow> if p < 0 then Inl ErrBatchImageSettlementPricingMissing else Inr p")
        case (Inl e)
        with assms(1) show ?thesis by (simp only: path) (erule failed, simp)
      next
        case (Inr price)
        let ?cost = "of_int (j_SuccessCount job) * price"
        note path = path Inr
        show ?thesis
        proof (cases "?cost - job_hold job > batchImageCostEpsilon")
          case True
          with assms(1) show ?thesis by (simp only: path) (erule failed, simp)
        next
          case False
          note path = path False
          obtain cr w2 where cap: "captureBatchImageBalanceHold job ?cost
              (BuildBatchImageSettlementManifestHash job) w = (cr, w2)" by fastforce
          have w2: "faults w2 = []" "find_job b (db w2) = Some job"
            using capture_no_faults [OF cap assms(2)] find_job_cong [OF capture_keeps_rows [OF cap], of b] assms(3)
            by simp_all
          show ?thesis
          proof (cases cr)
            case (Some err)
            with assms(1) cap show ?thesis
              by (simp only: path option.case)
                (erule settle_fail_attempted [OF _ w2 assms(4)], simp)
          next
            case None
            let ?w3 = "invalidateAuthCache (j_UserID job) w2"
            have "ms_BatchID (settled_params env now job ?cost) = b"
              by (simp add: settled_params_def Let_def bid)
            then obtain w4 job' where mk: "MarkBatchImageJobSettled now (settled_params env now job ?cost) ?w3 = (Inr (), w4)"
              "faults w4 = []" "find_job b (db w4) = Some job'" "j_Status job' = ''completed''"
              using mark_reliable [of ?w3 "settled_params env now job ?cost" job now] w2 assms(4,9) by auto
            have "w' = recordUsageLog job ?cost (sr_RequestID (settlement_result job)) now w4"
              using assms(1) cap None mk(1) by (simp only: path option.case) simp
            then show ?thesis using mk usage_log_no_faults [OF mk(2)] find_job_cong [OF usage_log_keeps(1)]
              by (simp add: attempted_def attempt_outcome_def)
          qed
        qed
      qed
    qed
  qed
qed

section \<open>The money of a capture and of a release\<close>

lemma hold_command:
  assumes "buildBatchImageHoldCommand job rid a h = Inr cmd"
  shows "h_RequestID cmd = rid" "j_APIKeyID job = Some (h_APIKeyID cmd)" "h_UserID cmd = j_UserID job"
    "h_BatchID cmd = j_BatchID job" "h_HoldAmount cmd = max 0 (job_hold job)"
    "h_ActualAmount cmd = max 0 a"
  using assms
  by (auto simp: buildBatchImageHoldCommand_def Let_def max_def split: option.splits if_splits)

lemma fresh_capture_applied:
  assumes "CaptureBatchImageBalance cmd d = (Inr r, d')"
    and "\<not> claimed d (TrimSpace (h_RequestID cmd)) (h_APIKeyID cmd)"
  shows "hold_applied (Inr r)"
  using assms
  by (auto simp: CaptureBatchImageBalance_def applyBatchImageBalanceHold_def Let_def hold_applied_def
      claimUsageBillingRequest_def claimed_def split: if_splits prod.splits sum.splits bool.splits)

lemma capture_moves_hold:
  assumes "captureBatchImageBalanceHold job a h w = (None, w')" and "j_APIKeyID job = Some k"
    and "\<not> claimed (ledger (db w)) (TrimSpace (BatchImageCaptureRequestID (j_BatchID job))) k"
    and "ledger_ok (ledger (db w))" and "0 < job_hold job" and "on_scale 8 (job_hold job)"
    and "0 \<le> a" and "on_scale 8 a"
  shows "moves (j_UserID job) (job_hold job - a) (- job_hold job) (ledger (db w)) (ledger (db w'))"
proof -
  from assms(1) obtain cmd where
    cmd: "buildBatchImageHoldCommand job (BatchImageCaptureRequestID (j_BatchID job)) a h = Inr cmd"
    and ex: "\<exists>r. db_exec (on_ledger (CaptureBatchImageBalance cmd)) w = (Inr r, w')"
    by (auto simp: captureBatchImageBalanceHold_def split: sum.splits prod.splits)
  note sels = hold_command [OF cmd]
  from ex obtain r where "db_exec (on_ledger (CaptureBatchImageBalance cmd)) w = (Inr r, w')" by blast
  from db_exec_Inr [OF this] obtain l where
    l: "CaptureBatchImageBalance cmd (ledger (db w)) = (Inr r, l)" and w': "ledger (db w') = l"
    by (auto simp: on_ledger_Inr)
  have "hold_applied (Inr r)" using fresh_capture_applied [OF l] assms(2,3) sels by simp
  from Capture_moves [OF l this assms(4)] show ?thesis
    using assms(5-8) sels by (simp add: w' capture_moves_money_def)
qed

lemma release_result:
  assumes "releaseBatchImageBalanceHold job h w = (r, w')"
  shows "ledger (db w') = ledger (db w) \<or> (\<exists>cmd res k. j_APIKeyID job = Some k
    \<and> buildBatchImageHoldCommand job (BatchImageReleaseRequestID (j_BatchID job)) 0 h = Inr cmd
    \<and> ReleaseBatchImageBalance cmd (ledger (db w)) = (res, ledger (db w')))"
proof (cases "buildBatchImageHoldCommand job (BatchImageReleaseRequestID (j_BatchID job)) 0 h")
  case (Inl e)
  with assms show ?thesis by (simp add: releaseBatchImageBalanceHold_def)
next
  case (Inr cmd)
  show ?thesis
  proof (cases "h_HoldAmount cmd \<le> 0")
    case True
    with assms Inr show ?thesis by (simp add: releaseBatchImageBalanceHold_def)
  next
    case False
    with assms Inr obtain x where "db_exec (on_ledger (ReleaseBatchImageBalance cmd)) w = (x, w')"
      by (auto simp: releaseBatchImageBalanceHold_def split: prod.splits sum.splits if_splits)
    then have "db w' = db w \<or> db w' = snd (on_ledger (ReleaseBatchImageBalance cmd) (db w))"
      using db_exec_db by (metis snd_conv)
    then show ?thesis
      using Inr hold_command(2) [OF Inr]
      by (auto simp: on_ledger_def split: prod.splits)
  qed
qed

lemma release_unrecorded:
  assumes "ReleaseBatchImageBalance c d = (res, d')" and "\<not> hold_recorded c d"
    and "TrimSpace (h_RequestID c) \<noteq> BatchImageHoldRequestID (h_BatchID c)"
  shows "users d' = users d"
proof (cases "hold_applied res")
  case False
  with assms(1) show ?thesis
    by (auto simp: ReleaseBatchImageBalance_def dest: hold_unchanged)
next
  case True
  from assms(1) True obtain r d1 where
    r: "releaseUsageBillingBatchImageBalance (BatchImageBalanceHoldCommand_Normalize c) d1 = (Inr r, d')"
    and u: "users d1 = users d" and cl: "\<And>r k. claimed d1 r k \<longleftrightarrow> claimed d r k
           \<or> (r, k) = (TrimSpace (h_RequestID c), h_APIKeyID c)"
    unfolding ReleaseBatchImageBalance_def by (rule hold_applied_effect) blast
  have "\<not> hold_recorded (BatchImageBalanceHoldCommand_Normalize c) d1"
    using assms(2,3) cl by (auto simp: hold_recorded_def BatchImageHoldRequestID_def)
  then have "d' = d1"
    using r by (auto simp: releaseUsageBillingBatchImageBalance_def batchImageHoldClaimExists_def
        claimed_def hold_recorded_def split: if_splits option.splits)
  then show ?thesis by (simp add: u)
qed

lemma request_ids_trimmed:
  "TrimSpace (BatchImageReleaseRequestID b) = BatchImageReleaseRequestID b"
  "TrimSpace (BatchImageCaptureRequestID b) = BatchImageCaptureRequestID b"
  by (simp_all add: BatchImageReleaseRequestID_def BatchImageCaptureRequestID_def TrimSpace_append
      batchImageReleaseRequestPrefix_def batchImageCaptureRequestPrefix_def visible_def
      del: append_Cons append_Nil)

lemma release_is_no_hold: "BatchImageReleaseRequestID b \<noteq> BatchImageHoldRequestID c"
  by (simp add: BatchImageReleaseRequestID_def BatchImageHoldRequestID_def
      batchImageReleaseRequestPrefix_def batchImageHoldRequestPrefix_def)

section \<open>Repeated attempts\<close>

fun settle_attempts ::
    "settlement_env \<Rightarrow> string \<Rightarrow> go_time list \<Rightarrow> batch_db world \<Rightarrow> batch_db world" where
  "settle_attempts env b [] w = w"
| "settle_attempts env b (now # nows) w = settle_attempts env b nows (snd (Settle env now b w))"

lemma Settle_terminal:
  assumes "find_job b (db w) = Some job" and "IsTerminalBatchImageJobStatus (j_Status job)"
    and "faults w = []"
  shows "snd (Settle env now b w) = w"
proof -
  have "j_Status job \<noteq> BatchImageJobStatusSettling"
    using assms(2) by (auto simp: IsTerminalBatchImageJobStatus_def status_defs)
  then show ?thesis by (simp add: Settle_def get_job_reliable [OF assms(3,1)] Let_def)
qed

lemma attempts_terminal:
  assumes "find_job b (db w) = Some job" and "IsTerminalBatchImageJobStatus (j_Status job)"
    and "faults w = []"
  shows "settle_attempts env b nows w = w"
  using assms by (induction nows) (simp_all add: Settle_terminal)

lemma attempts_outcome:
  assumes "faults w = []" and "find_job b (db w) = Some job" and "j_Status job = ''settling''"
    and "j_APIKeyID job = Some k" "0 < k" and "j_AccountID job = Some a" "0 < a"
    and "j_ManifestHash job = None" and "nows \<noteq> []"
  shows "\<exists>job'. find_job b (db (settle_attempts env b nows w)) = Some job'
    \<and> (IsTerminalBatchImageJobStatus (j_Status job')
       \<or> j_RetryCount job + int (length nows) \<le> j_RetryCount job'
         \<and> (5 \<le> j_RetryCount job' \<longrightarrow> j_LastErrorCode job' = Some ''SETTLEMENT_RELEASE_FAILED''))"
  using assms
proof (induction nows arbitrary: w job)
  case (Cons now nows)
  let ?w1 = "snd (Settle env now b w)"
  have "attempted b job ?w1" by (rule Settle_attempted [OF prod.collapse [symmetric] Cons.prems(1-8)])
  then obtain job1 where w1: "faults ?w1 = []" "find_job b (db ?w1) = Some job1" "attempt_outcome job job1"
    by (auto simp: attempted_def)
  show ?case
  proof (cases "IsTerminalBatchImageJobStatus (j_Status job1)")
    case True
    with attempts_terminal [OF w1(2) _ w1(1)] w1(2) show ?thesis by auto
  next
    case False
    with w1(3) Cons.prems have job1: "j_Status job1 = ''settling''" "j_APIKeyID job1 = Some k"
      "j_AccountID job1 = Some a" "j_ManifestHash job1 = None" "j_RetryCount job < j_RetryCount job1"
      "5 \<le> j_RetryCount job1 \<longrightarrow> j_LastErrorCode job1 = Some ''SETTLEMENT_RELEASE_FAILED''"
      by (simp_all add: attempt_outcome_def)
    show ?thesis
    proof (cases "nows = []")
      case True
      with w1(2) job1 show ?thesis by simp
    next
      case False
      with Cons.IH [OF w1(1,2) job1(1,2) Cons.prems(5) job1(3) Cons.prems(7) job1(4)] job1(5)
      show ?thesis by fastforce
    qed
  qed
qed simp

section \<open>Recovery\<close>

lemma unique_update:
  assumes "\<And>j. j_BatchID (f j) = j_BatchID j"
  shows "unique_jobs (snd (update_jobs p f d)) = unique_jobs d"
proof -
  have "map j_BatchID (map (\<lambda>j. if p j then f j else j) xs) = map j_BatchID xs" for xs
    using assms by (induction xs) simp_all
  then show ?thesis unfolding unique_jobs_def update_jobs_def by (simp del: map_map)
qed

lemma fail_stale_row:
  assumes "FailStaleUnsubmittedBatchImageJob now b cutoff code msg w = ((applied, err), w1)"
    and "unique_jobs (db w)" and "find_job c (db w) = Some j" and "\<not> stale_unsubmitted cutoff j"
    and "0 < job_hold j"
  shows "find_job c (db w1) = Some j" and "unique_jobs (db w1)" and "ledger (db w1) = ledger (db w)"
    and "applied \<Longrightarrow> b \<noteq> c"
proof -
  define p where "p = (\<lambda>j :: BatchImageJob. j_BatchID j = b \<and> unsubmitted j \<and> j_ProviderJobName j = None
      \<and> j_UpdatedAt j \<le> cutoff)"
  define f where "f = (\<lambda>j :: BatchImageJob. j\<lparr>j_Status := ''failed'', j_LastErrorCode := Some code,
      j_LastErrorMessage := Some msg, j_FinishedAt := keep_first (j_FinishedAt j) (Some now),
      j_UpdatedAt := now, j_Version := j_Version j + 1\<rparr>)"
  let ?st = "\<lambda>d. let (n, d') = update_jobs p f d in (Inr n, d')"
  obtain x w0 where x: "db_exec ?st w = (x, w0)" by fastforce
  have pj: "\<not> p j" using assms(4,5)
    by (auto simp: p_def stale_unsubmitted_def job_hold_def split: option.splits)
  have bid: "j_BatchID (f j) = j_BatchID j" for j by (simp add: f_def)
  have w0: "find_job c (db w0) = Some j \<and> unique_jobs (db w0) \<and> ledger (db w0) = ledger (db w)"
    using db_exec_db [of ?st w] x assms(2,3) pj find_job_update [of f, OF bid, of c p "db w"]
      unique_update [of f, OF bid, of p "db w"]
    by (auto simp: update_jobs_def)
  have step: "(applied, err, w1) = (case x of Inl e \<Rightarrow> (False, Some e, w0)
      | Inr n \<Rightarrow> if n = 0 then (False, None, w0)
        else (case AppendBatchImageEvent now b ''billing_hold_recovery_failed_unsubmitted''
               (Some [(''batch_id'', PString b), (''error_code'', PString code)]) w0 of
             (Inl e, w2) \<Rightarrow> (True, Some e, w2) | (Inr _, w2) \<Rightarrow> (True, None, w2)))"
    using assms(1) x
    unfolding FailStaleUnsubmittedBatchImageJob_def p_def [symmetric] f_def [symmetric]
    by (auto split: sum.splits prod.splits)
  have ev: "job_rows (db v) = job_rows (db w0) \<and> ledger (db v) = ledger (db w0)"
    if "AppendBatchImageEvent now b t pl w0 = (r, v)" for t pl r v
    using db_exec_db [of "append_event now b t pl" w0] that [unfolded AppendBatchImageEvent_def]
    by (auto simp: append_event_def split: if_splits)
  have w1: "w1 = w0 \<or> job_rows (db w1) = job_rows (db w0) \<and> ledger (db w1) = ledger (db w0)"
    using step ev by (auto split: sum.splits if_splits prod.splits)
  then show "find_job c (db w1) = Some j" and "unique_jobs (db w1)" and "ledger (db w1) = ledger (db w)"
    using w0 find_job_cong unique_jobs_cong by (metis, metis, metis)
  show "b \<noteq> c" if applied
  proof
    assume "b = c"
    from step that obtain n where n: "x = Inr n" "n \<noteq> 0" by (auto split: sum.splits if_splits prod.splits)
    from db_exec_Inr [OF x [unfolded n(1)]] obtain d' where "update_jobs p f (db w) = (n, d')"
      by (auto split: prod.splits)
    from update_affected [OF this n(2) assms(2), of c j] assms(3) \<open>b = c\<close> pj show False
      by (auto simp: p_def)
  qed
qed

lemma claims_only:
  assumes "applyBatchImageBalanceHold f c d = (res, d')" and "\<And>c. keeps_claims (f c)"
    and "claimed d' r k"
  shows "claimed d r k \<or> (r = TrimSpace (h_RequestID c) \<and> k = h_APIKeyID c)"
  using assms(1)
proof (cases rule: hold_cases)
  case (applied x d1)
  from assms(2) applied(3) have "dedup d' = dedup d1" "dedup_archive d' = dedup_archive d1"
    by (metis keeps_claims_def snd_conv)+
  with assms(3) applied(2) show ?thesis by (auto simp: claimed_def split: if_splits)
qed (use assms(3) in simp)

lemma release_claims_only:
  assumes "releaseBatchImageBalanceHold job h w = (r, w')" and "claimed (ledger (db w')) rid k"
  shows "claimed (ledger (db w)) rid k \<or> rid = BatchImageReleaseRequestID (j_BatchID job)"
  using release_result [OF assms(1)]
proof (elim disjE exE conjE)
  fix cmd res k'
  assume c: "buildBatchImageHoldCommand job (BatchImageReleaseRequestID (j_BatchID job)) 0 h = Inr cmd"
    and r: "ReleaseBatchImageBalance cmd (ledger (db w)) = (res, ledger (db w'))"
  from claims_only [OF r [unfolded ReleaseBatchImageBalance_def] keeps_claims_release assms(2)]
  show ?thesis by (auto simp: hold_command(1) [OF c] request_ids_trimmed)
qed (use assms(2) in simp)

lemma enqueueReleaseRetry_keeps:
  "job_rows (db (enqueueReleaseRetry cfg now b w)) = job_rows (db w)"
  "ledger (db (enqueueReleaseRetry cfg now b w)) = ledger (db w)"
  unfolding enqueueReleaseRetry_def
  by (rule db_exec_keeps_snd, simp add: on_queue_def split: prod.split)+

lemma release_stale_spares:
  assumes "release_stale cfg now cutoff js n err w = (res, w')" and "unique_jobs (db w)"
    and "find_job c (db w) = Some j" and "\<not> stale_unsubmitted cutoff j" and "0 < job_hold j"
    and "\<forall>job \<in> set js. j_BatchID job \<noteq> c \<longrightarrow> TrimSpace (j_BatchID job) \<noteq> TrimSpace c"
  shows "find_job c (db w') = Some j
    \<and> (claimed (ledger (db w')) (BatchImageReleaseRequestID c) k
       \<longrightarrow> claimed (ledger (db w)) (BatchImageReleaseRequestID c) k)"
  using assms
proof (induction js arbitrary: n err w)
  case (Cons job js)
  obtain applied e w1 where f: "FailStaleUnsubmittedBatchImageJob now (j_BatchID job) cutoff
      ''SUBMIT_STALE_BEFORE_PROVIDER'' stale_message w = ((applied, e), w1)" by (metis prod.collapse)
  note w1 = fail_stale_row [OF f Cons.prems(2-5)]
  have rest: ?case
    if "release_stale cfg now cutoff js n' err' v = (res, w')"
      and "job_rows (db v) = job_rows (db w1)"
      and "claimed (ledger (db v)) (BatchImageReleaseRequestID c) k
        \<Longrightarrow> claimed (ledger (db w)) (BatchImageReleaseRequestID c) k" for n' err' v
    using Cons.IH [OF that(1)] Cons.prems(4-6) w1(1,2) that(3)
      find_job_cong [OF that(2), of c] unique_jobs_cong [OF that(2)] by auto
  show ?case
  proof (cases applied)
    case False
    with Cons.prems(1) f obtain err' where "release_stale cfg now cutoff js n err' w1 = (res, w')"
      by auto
    then show ?thesis by (rule rest) (simp_all add: w1(3))
  next
    case True
    with w1(4) Cons.prems(6) have ne: "TrimSpace (j_BatchID job) \<noteq> TrimSpace c" by auto
    obtain r w2 where r: "releaseBatchImageBalanceHold (job\<lparr>j_Status := BatchImageJobStatusFailed\<rparr>)
        (batchImageDerefString (j_RequestHash job)) w1 = (r, w2)" by fastforce
    have cl: "claimed (ledger (db w)) (BatchImageReleaseRequestID c) k"
      if "claimed (ledger (db w2)) (BatchImageReleaseRequestID c) k"
      using release_claims_only [OF r that] ne w1(3) by (simp add: BatchImageReleaseRequestID_def)
    from Cons.prems(1) f True r obtain n' err' v where
      "release_stale cfg now cutoff js n' err' v = (res, w')"
      and "v = enqueueReleaseRetry cfg now (j_BatchID job) w2 \<or> v = invalidateAuthCache (j_UserID job) w2"
      by (cases r) auto
    then show ?thesis
      using rest [of n' err' v] cl release_keeps_rows [OF r] enqueueReleaseRetry_keeps by auto
  qed
qed simp

section \<open>A capture whose answer is lost\<close>

lemma hold_command_ok:
  assumes "j_APIKeyID job = Some k" and "0 < k"
  obtains cmd where "buildBatchImageHoldCommand job rid a h = Inr cmd" "h_APIKeyID cmd = k"
  using assms by (simp add: buildBatchImageHoldCommand_def Let_def)

lemma capture_keeps_live:
  assumes "CaptureBatchImageBalance c d = (res, d')" and "live_user d u \<noteq> None"
  shows "live_user d' u \<noteq> None"
  using assms(1) unfolding CaptureBatchImageBalance_def
proof (cases rule: hold_cases)
  case (applied r d1)
  have "live_user d1 u \<noteq> None" using assms(2) by (simp add: applied(2) live_user_def)
  then show ?thesis using applied(3)
    unfolding captureUsageBillingBatchImageBalance_def Let_def
    by (simp only: split: if_splits option.splits)
      (auto simp: live_user_def split: option.splits if_splits)
qed (use assms(2) in simp)

lemma capture_lost_moves:
  assumes "captureBatchImageBalanceHold job a h w = (r, w')" and "faults w = [LostAfter]"
    and "j_APIKeyID job = Some k" "0 < k" and "ledger_ok (ledger (db w))"
    and "live_user (ledger (db w)) (j_UserID job) \<noteq> None"
    and "0 < job_hold job" and "on_scale 8 (job_hold job)" and "0 \<le> a" and "on_scale 8 a"
    and "a \<le> job_hold job" and "job_hold job \<le> frozen_of (ledger (db w)) (j_UserID job)"
    and "\<not> claimed (ledger (db w)) (BatchImageCaptureRequestID (j_BatchID job)) k"
  shows "\<exists>e. r = Some (WithCause ErrBatchImageSettlementBillingFailed e)" and "faults w' = []"
    and "moves (j_UserID job) (job_hold job - a) (- job_hold job) (ledger (db w)) (ledger (db w'))"
    and "ledger_ok (ledger (db w'))" and "live_user (ledger (db w')) (j_UserID job) \<noteq> None"
    and "claimed (ledger (db w)) rid k \<Longrightarrow> claimed (ledger (db w')) rid k"
    and "claimed (ledger (db w')) rid k \<Longrightarrow> claimed (ledger (db w)) rid k
           \<or> rid = BatchImageCaptureRequestID (j_BatchID job)"
proof -
  obtain cmd where cmd: "buildBatchImageHoldCommand job (BatchImageCaptureRequestID (j_BatchID job)) a h = Inr cmd"
    and k: "h_APIKeyID cmd = k" by (rule hold_command_ok [OF assms(3,4)])
  note sels = hold_command [OF cmd] k request_ids_trimmed
  obtain res l where l: "CaptureBatchImageBalance cmd (ledger (db w)) = (res, l)" by fastforce
  have "db_exec (on_ledger (CaptureBatchImageBalance cmd)) w
      = (Inl DriverError, w\<lparr>db := (db w)\<lparr>ledger := l\<rparr>, faults := []\<rparr>)"
    using assms(2) l by (simp add: db_exec_def db_call_def on_ledger_def Let_def)
  with assms(1) cmd have w': "r = Some (WithCause ErrBatchImageSettlementBillingFailed DriverError)"
    "w' = w\<lparr>db := (db w)\<lparr>ledger := l\<rparr>, faults := []\<rparr>"
    by (simp_all add: captureBatchImageBalanceHold_def)
  have ne: "BatchImageCaptureRequestID b \<noteq> []" for b
    by (simp add: BatchImageCaptureRequestID_def batchImageCaptureRequestPrefix_def)
  have rd: "hold_ready (ledger (db w)) cmd" using assms(6,13) sels ne by (simp add: hold_ready_def)
  have ap: "hold_applied res"
    using Capture_possible [OF rd] l assms(7,9,11,12) sels by simp
  show "\<exists>e. r = Some (WithCause ErrBatchImageSettlementBillingFailed e)" using w'(1) by blast
  show "faults w' = []" by (simp add: w'(2))
  show "live_user (ledger (db w')) (j_UserID job) \<noteq> None"
    using capture_keeps_live [OF l assms(6)] by (simp add: w'(2))
  have valid: "hold_valid cmd" using sels assms(7-10) by (simp add: hold_valid_def)
  have "ledger_ok l" and "moves (j_UserID job) (job_hold job - a) (- job_hold job) (ledger (db w)) l"
    using Capture_law [OF l ap assms(5) valid] sels assms(7,9) by (simp_all add: moves_def)
  then show "moves (j_UserID job) (job_hold job - a) (- job_hold job) (ledger (db w)) (ledger (db w'))"
    and "ledger_ok (ledger (db w'))" by (simp_all add: w')
  show "claimed (ledger (db w')) rid k" if "claimed (ledger (db w)) rid k"
    using hold_op_claims(3) [OF l [unfolded CaptureBatchImageBalance_def] that] by (simp add: w')
  show "claimed (ledger (db w)) rid k \<or> rid = BatchImageCaptureRequestID (j_BatchID job)"
    if "claimed (ledger (db w')) rid k"
    using claims_only [OF l [unfolded CaptureBatchImageBalance_def] keeps_claims_capture] that sels
    by (auto simp: w')
qed

lemma release_applied_moves:
  assumes "releaseBatchImageBalanceHold job h w = (r, w')" and "faults w = []"
    and "j_APIKeyID job = Some k" "0 < k" and "ledger_ok (ledger (db w))"
    and "live_user (ledger (db w)) (j_UserID job) \<noteq> None"
    and "0 < job_hold job" and "on_scale 8 (job_hold job)"
    and "job_hold job \<le> frozen_of (ledger (db w)) (j_UserID job)"
    and "\<not> claimed (ledger (db w)) (BatchImageReleaseRequestID (j_BatchID job)) k"
    and "claimed (ledger (db w)) (BatchImageHoldRequestID (j_BatchID job)) k"
  shows "r = None"
    and "moves (j_UserID job) (job_hold job) (- job_hold job) (ledger (db w)) (ledger (db w'))"
proof -
  obtain cmd where cmd: "buildBatchImageHoldCommand job (BatchImageReleaseRequestID (j_BatchID job)) 0 h = Inr cmd"
    and k: "h_APIKeyID cmd = k" by (rule hold_command_ok [OF assms(3,4)])
  note sels = hold_command [OF cmd] k request_ids_trimmed
  obtain res l where l: "ReleaseBatchImageBalance cmd (ledger (db w)) = (res, l)" by fastforce
  have ne: "BatchImageReleaseRequestID b \<noteq> []" for b
    by (simp add: BatchImageReleaseRequestID_def batchImageReleaseRequestPrefix_def)
  have rd: "hold_ready (ledger (db w)) cmd" using assms(6,10) sels ne by (simp add: hold_ready_def)
  have ap: "hold_applied res" using Release_possible [OF rd] l assms(7,9) sels by simp
  have valid: "hold_valid cmd" using sels assms(7,8) by (simp add: hold_valid_def)
  have rec: "hold_recorded cmd (ledger (db w))" using assms(11) sels by (simp add: hold_recorded_def)
  obtain x where x: "res = Inr x" using ap by (cases res) (auto simp: hold_applied_def)
  have ex: "db_exec (on_ledger (ReleaseBatchImageBalance cmd)) w = (Inr x, w\<lparr>db := (db w)\<lparr>ledger := l\<rparr>\<rparr>)"
    using assms(2) l x by (simp add: db_exec_reliable on_ledger_def)
  have "r = None \<and> w' = w\<lparr>db := (db w)\<lparr>ledger := l\<rparr>\<rparr>"
    using assms(1,7) cmd ex sels(5) by (simp add: releaseBatchImageBalanceHold_def)
  then show "r = None" and "moves (j_UserID job) (job_hold job) (- job_hold job) (ledger (db w)) (ledger (db w'))"
    using Release_law [OF l ap assms(5) valid rec] sels assms(7) by (simp_all add: moves_def)
qed

text \<open>The last attempt: the capture commits, its answer is lost, and the hold is released too.\<close>

lemma exhausted_release:
  assumes "failExhaustedSettlement env now cmd msg w = (e, w')" and "faults w = []"
    and "find_job (j_BatchID cmd) (db w) = Some job" and "j_Status job = ''settling''"
    and "j_APIKeyID cmd = Some k" "0 < k" and "ledger_ok (ledger (db w))"
    and "live_user (ledger (db w)) (j_UserID cmd) \<noteq> None"
    and "0 < job_hold cmd" and "on_scale 8 (job_hold cmd)"
    and "job_hold cmd \<le> frozen_of (ledger (db w)) (j_UserID cmd)"
    and "\<not> claimed (ledger (db w)) (BatchImageReleaseRequestID (j_BatchID cmd)) k"
    and "claimed (ledger (db w)) (BatchImageHoldRequestID (j_BatchID cmd)) k"
  shows "moves (j_UserID cmd) (job_hold cmd) (- job_hold cmd) (ledger (db w)) (ledger (db w'))"
    and "\<exists>j. find_job (j_BatchID cmd) (db w') = Some j \<and> j_Status j = ''failed''
      \<and> j_ActualCost j = j_ActualCost job"
proof -
  obtain r w1 where r: "releaseBatchImageBalanceHold cmd
      (batchImageDerefString (j_RequestHash cmd)) w = (r, w1)" by fastforce
  note rel = release_applied_moves [OF r assms(2,5-13)]
  let ?w2 = "invalidateAuthCache (j_UserID cmd) w1"
  have w2: "faults ?w2 = []" "find_job (j_BatchID cmd) (db ?w2) = Some job"
    using release_no_faults [OF r assms(2)] assms(3) find_job_cong [OF release_keeps_rows [OF r]]
    by simp_all
  from assms(1) r rel(1) obtain opts x where
    "TransitionBatchImageJobStatus now (j_BatchID cmd) BatchImageJobStatusFailed opts ?w2 = (x, w')"
    by (auto simp: failExhaustedSettlement_def Let_def split: prod.splits sum.splits)
  with transition_failed_reliable [OF w2 assms(4), of now opts] rel(2)
  show "moves (j_UserID cmd) (job_hold cmd) (- job_hold cmd) (ledger (db w)) (ledger (db w'))"
    and "\<exists>j. find_job (j_BatchID cmd) (db w') = Some j \<and> j_Status j = ''failed''
      \<and> j_ActualCost j = j_ActualCost job" by auto
qed

lemma Settle_lost_capture:
  assumes "find_job b (db w) = Some job" and "faults w = [Fine, LostAfter]"
    and "j_Status job = ''settling''" and "j_RetryCount job = 4"
    and "j_APIKeyID job = Some k" "0 < k" and "j_AccountID job = Some a" "0 < a"
    and "j_ManifestHash job = None"
    and "0 \<le> j_SuccessCount job" "0 \<le> j_FailCount job"
    and "j_SuccessCount job + j_FailCount job \<le> j_ItemCount job"
    and "settlementUnitPrice env job = Inr price" "0 \<le> price"
    and "of_int (j_SuccessCount job) * price \<le> job_hold job"
    and "Settle env now b w = (r, w')"
  obtains w2 w3 cr e cmd msg where
    "captureBatchImageBalanceHold job (of_int (j_SuccessCount job) * price)
       (BuildBatchImageSettlementManifestHash job) (w\<lparr>faults := [LostAfter]\<rparr>) = (cr, w2)"
    "(\<exists>err. cr = Some err) \<and> faults w2 = [] \<longrightarrow>
       failExhaustedSettlement env now cmd msg w3 = (e, w') \<and> r = Inl e
       \<and> ledger (db w3) = ledger (db w2) \<and> faults w3 = []
       \<and> (\<exists>j. find_job b (db w3) = Some j \<and> j_Status j = ''settling'' \<and> j_ActualCost j = j_ActualCost job)
       \<and> j_BatchID cmd = b \<and> j_UserID cmd = j_UserID job \<and> j_APIKeyID cmd = Some k
       \<and> job_hold cmd = job_hold job"
proof -
  let ?w1 = "w\<lparr>faults := [LostAfter]\<rparr>" and ?cost = "of_int (j_SuccessCount job) * price"
  note bid = find_job_id [OF assms(1)]
  have get: "GetBatchImageJobByBatchID b w = (Inr job, ?w1)"
    using assms(1,2) by (simp add: GetBatchImageJobByBatchID_def select_job_def db_exec_def
        db_call_def scan_row_def)
  have st: "j_Status job = BatchImageJobStatusSettling" "BatchImageJobStatusSettling \<noteq> BatchImageJobStatusCompleted"
    using assms(3) by (simp_all add: status_defs)
  have ids: "\<not> (case j_APIKeyID job of None \<Rightarrow> True | Some k \<Rightarrow> k \<le> 0)"
    "\<not> (case j_AccountID job of None \<Rightarrow> True | Some k \<Rightarrow> k \<le> 0)" using assms(5-8) by simp_all
  have ex: "\<not> isBatchImageSettlementRetryExhausted job"
    using assms(4) by (simp add: isBatchImageSettlementRetryExhausted_def batchImageSettlementMaxRetries_def)
  have cnt: "\<not> (j_SuccessCount job < 0 \<or> j_FailCount job < 0 \<or> j_ItemCount job < 0
      \<or> j_SuccessCount job + j_FailCount job > j_ItemCount job)" using assms(10-12) by linarith
  have mh: "\<not> (TrimSpace (batchImageDerefString (j_ManifestHash job)) \<noteq> ''''
      \<and> batchImageDerefString (j_ManifestHash job) \<noteq> BuildBatchImageSettlementManifestHash job)"
    using assms(9) by (simp add: batchImageDerefString_def TrimSpace_visible visible_def)
  have pr: "(case settlementUnitPrice env job of Inl e \<Rightarrow> Inl e
      | Inr p \<Rightarrow> if p < 0 then Inl ErrBatchImageSettlementPricingMissing else Inr p) = Inr price"
    using assms(13,14) by simp
  have "(0 :: rat) \<le> batchImageCostEpsilon" by (simp add: batchImageCostEpsilon_def)
  then have co: "\<not> ?cost - job_hold job > batchImageCostEpsilon" using assms(15) by linarith
  obtain cr w2 where cap: "captureBatchImageBalanceHold job ?cost
      (BuildBatchImageSettlementManifestHash job) ?w1 = (cr, w2)" by fastforce
  have rows: "find_job b (db w2) = Some job"
    using find_job_cong [OF capture_keeps_rows [OF cap], of b] assms(1) by simp
  show ?thesis
  proof (cases "(\<exists>err. cr = Some err) \<and> faults w2 = []")
    case False
    with cap show ?thesis by (intro that) auto
  next
    case True
    then obtain err where err: "cr = Some err" by blast
    let ?msg = "truncateBatchImageMessage (err_text env err) batchImageMaxErrorMessageLength"
      and ?code = "''SETTLEMENT_BILLING_FAILED''"
    let ?cmd = "job\<lparr>j_RetryCount := 5, j_LastErrorCode := Some ?code\<rparr>"
    have run: "settle_fail env now job ?code ?msg err w2 = (r, w')"
      using assms(16) cap err by (simp only: Settle_def Let_def prod.case sum.case if_True if_False
          simp_thms get st ids ex cnt mh pr co option.case)
    let ?m = "truncateBatchImageMessage ?msg batchImageMaxErrorMessageLength"
    have "\<exists>w3. SetBatchImageJobSettlementFailed now b ?code ?m w2 = ((5, None), w3)
      \<and> faults w3 = [] \<and> ledger (db w3) = ledger (db w2)
      \<and> (\<exists>j. find_job b (db w3) = Some j \<and> j_Status j = ''settling'' \<and> j_ActualCost j = j_ActualCost job)"
      using settlement_failed_reliable [OF _ rows, of now ?code ?m] True assms(3,4) by auto
    then obtain w3 where w3: "SetBatchImageJobSettlementFailed now b ?code ?m w2 = ((5, None), w3)"
      "faults w3 = []" "ledger (db w3) = ledger (db w2)"
      "\<exists>j. find_job b (db w3) = Some j \<and> j_Status j = ''settling'' \<and> j_ActualCost j = j_ActualCost job"
      by blast
    obtain e w4 where fe: "failExhaustedSettlement env now ?cmd ?msg w3 = (e, w4)" by fastforce
    have "r = Inl e \<and> w' = w4"
      using run w3(1) fe bid
      by (simp add: settle_fail_def recordSettlementFailure_def batchImageSettlementMaxRetries_def)
    with cap fe w3 bid assms(5) show ?thesis
      by (intro that [of cr w2 ?cmd ?msg w3 e]) (simp_all add: job_hold_def split: option.split)
  qed
qed

section \<open>A small settlement\<close>

definition sample_env :: settlement_env where
  "sample_env = \<lparr>err_text = (\<lambda>_. ''''), unit_price = (\<lambda>_. Inr 0),
     OutputRetentionAfterTerminalHours = 0\<rparr>"

text \<open>Two holds of one dollar are open; the settling job's is recorded.\<close>

definition sample_two_holds :: billing_db where
  "sample_two_holds = sample_db\<lparr>
     users := [1 \<mapsto> \<lparr>balance = 8, frozen_balance = Some 2, u_deleted = False\<rparr>],
     dedup := [(''batch_image_hold:b'', 7) \<mapsto> ''f'']\<rparr>"

definition settle_world :: "BatchImageJob \<Rightarrow> fault list \<Rightarrow> batch_db world" where
  "settle_world job fs =
     \<lparr>db = sample_jobs\<lparr>job_rows := [job], ledger := sample_two_holds\<rparr>, faults = fs\<rparr>"

lemma settle_world_sels:
  "find_job (j_BatchID job) (db (settle_world job fs)) = Some job"
  "unique_jobs (db (settle_world job fs))" "faults (settle_world job fs) = fs"
  "ledger (db (settle_world job fs)) = sample_two_holds"
  by (simp_all add: settle_world_def find_job_def unique_jobs_def)

lemma two_holds:
  "ledger_ok sample_two_holds" "live_user sample_two_holds 1 \<noteq> None"
  "frozen_of sample_two_holds 1 = 2" "free_of sample_two_holds 1 = 8"
  "claimed sample_two_holds (BatchImageHoldRequestID ''b'') 7"
  "\<not> claimed sample_two_holds (BatchImageCaptureRequestID ''b'') 7"
  "\<not> claimed sample_two_holds (BatchImageReleaseRequestID ''b'') 7"
  by (simp_all add: sample_two_holds_def sample_db_def ledger_ok_def live_user_def frozen_of_def
      free_of_def claimed_def BatchImageHoldRequestID_def batchImageHoldRequestPrefix_def
      BatchImageCaptureRequestID_def batchImageCaptureRequestPrefix_def
      BatchImageReleaseRequestID_def batchImageReleaseRequestPrefix_def
      TrimSpace_visible visible_def on_scale_def coalesce0_def)

lemma sample_captures:
  "\<exists>w'. captureBatchImageBalanceHold sample_job (1 / 2) h (settle_world sample_job []) = (None, w')"
  by (simp add: captureBatchImageBalanceHold_def buildBatchImageHoldCommand_def sample_job_def
      job_hold_def settle_world_def db_exec_reliable on_ledger_def sample_simps
      BatchImageCaptureRequestID_def batchImageCaptureRequestPrefix_def sample_two_holds_def
      split: prod.split)

lemma sample_settles:
  "\<exists>r w'. Settle sample_env 5 ''b'' (settle_world sample_job []) = (Inr r, w') \<and> \<not> sr_AlreadySettled r"
proof -
  let ?w = "settle_world sample_job []"
  have bid: "j_BatchID sample_job = ''b''" by (simp add: sample_job_def)
  have get: "GetBatchImageJobByBatchID ''b'' ?w = (Inr sample_job, ?w)"
    using get_job_reliable [of ?w "''b''"] settle_world_sels(1,3) [of sample_job] bid by simp
  obtain w2 where cap: "captureBatchImageBalanceHold sample_job (1 / 2)
      (BuildBatchImageSettlementManifestHash sample_job) ?w = (None, w2)"
    using sample_captures by blast
  let ?w3 = "invalidateAuthCache (j_UserID sample_job) w2"
  have "faults w2 = []" by (rule capture_no_faults [OF cap]) (simp add: settle_world_sels)
  moreover have "find_job ''b'' (db w2) = Some sample_job"
    using find_job_cong [OF capture_keeps_rows [OF cap], of "''b''"] settle_world_sels(1) [of sample_job] bid
    by simp
  moreover have "ms_BatchID (settled_params sample_env 5 sample_job (1 / 2)) = ''b''"
    by (simp add: settled_params_def Let_def bid)
  ultimately obtain w4 where mk: "MarkBatchImageJobSettled 5 (settled_params sample_env 5 sample_job (1 / 2)) ?w3
      = (Inr (), w4)"
    using mark_reliable [of ?w3 "settled_params sample_env 5 sample_job (1 / 2)" sample_job 5]
    by (auto simp: sample_job_def)
  have "TrimSpace (batchImageDerefString (j_ManifestHash sample_job)) = ''''"
    by (simp add: sample_job_def batchImageDerefString_def)
  with get cap mk show ?thesis
    by (simp add: Settle_def Let_def sample_job_def status_defs settlementUnitPrice_def
        isBatchImageSettlementRetryExhausted_def batchImageSettlementMaxRetries_def job_hold_def
        batchImageCostEpsilon_def settlement_result_def)
qed

section \<open>Properties of settlement\<close>

text \<open>
  C11. A settlement that succeeds for the first time (the capture of the job had not been applied before),
  of a job whose hold and cost have at most the eight decimals of the balance columns, leaves the
  job completed with the cost of its successful items at the snapshot price, at most the held
  amount up to the tolerance; and the user has paid exactly that cost: the hold is gone from the
  frozen balance and the rest of it is back in the free balance.
\<close>

theorem settlement_charges_the_cost:
  assumes "Settle env now b w = (Inr r, w')" and "\<not> sr_AlreadySettled r"
    and "unique_jobs (db w)" and "find_job b (db w) = Some job" and "j_APIKeyID job = Some k"
    and "settlementUnitPrice env job = Inr price" and "cost = of_int (j_SuccessCount job) * price"
    and "ledger_ok (ledger (db w))" and "0 < job_hold job" and "on_scale 8 (job_hold job)"
    and "on_scale 8 cost" and "\<not> claimed (ledger (db w)) (BatchImageCaptureRequestID b) k"
  shows "(\<exists>job'. find_job b (db w') = Some job' \<and> j_Status job' = BatchImageJobStatusCompleted
           \<and> j_ActualCost job' = Some (round_scale 10 cost))
    \<and> cost \<le> job_hold job + batchImageCostEpsilon
    \<and> free_of (ledger (db w')) = (free_of (ledger (db w)))
        (j_UserID job := free_of (ledger (db w)) (j_UserID job) + (job_hold job - cost))
    \<and> frozen_of (ledger (db w')) = (frozen_of (ledger (db w)))
        (j_UserID job := frozen_of (ledger (db w)) (j_UserID job) - job_hold job)"
  using assms(1,2)
proof (rule Settle_fresh)
  fix job1 w1 k1 price1 w2 w4
  assume *: "find_job b (db w) = Some job1" "db w1 = db w" "j_APIKeyID job1 = Some k1"
    "settlementUnitPrice env job1 = Inr price1" "0 \<le> price1"
    "of_int (j_SuccessCount job1) * price1 - job_hold job1 \<le> batchImageCostEpsilon"
    "captureBatchImageBalanceHold job1 (of_int (j_SuccessCount job1) * price1)
       (BuildBatchImageSettlementManifestHash job1) w1 = (None, w2)"
    "0 \<le> j_SuccessCount job1"
    and mk: "\<exists>params q. MarkBatchImageJobSettled now params (invalidateAuthCache (j_UserID job1) w2) = (Inr q, w4)
       \<and> ms_BatchID params = b \<and> ms_ActualCost params = of_int (j_SuccessCount job1) * price1"
    and w': "\<exists>rid. w' = recordUsageLog job1 (of_int (j_SuccessCount job1) * price1) rid now w4"
  have same: "job1 = job" "k1 = k" "price1 = price" using * assms(4-6) by auto
  note cap = *(7) [unfolded same, folded assms(7)]
  have "0 \<le> cost" using *(5,8) same assms(7) by simp
  then have mv: "moves (j_UserID job) (job_hold job - cost) (- job_hold job) (ledger (db w)) (ledger (db w2))"
    using capture_moves_hold [OF cap assms(5)] assms(8-12) *(2) find_job_id [OF assms(4)]
    by (simp add: request_ids_trimmed)
  have rows: "job_rows (db w2) = job_rows (db w)" using capture_keeps_rows [OF cap] *(2) by simp
  from mk obtain params q where q: "MarkBatchImageJobSettled now params (invalidateAuthCache (j_UserID job) w2) = (Inr q, w4)"
    "ms_BatchID params = b" "ms_ActualCost params = cost" by (auto simp: same assms(7))
  have "unique_jobs (db (invalidateAuthCache (j_UserID job) w2))"
    "find_job (ms_BatchID params) (db (invalidateAuthCache (j_UserID job) w2)) = Some job"
    using assms(3,4) q(2) find_job_cong [OF rows] unique_jobs_cong [OF rows]
      unique_jobs_cong [of "db (invalidateAuthCache (j_UserID job) w2)" "db w2"] by auto
  note done_ = MarkSettled_done [OF q(1) this]
  from w' obtain rid where "w' = recordUsageLog job cost rid now w4" by (auto simp: same assms(7))
  then have out: "job_rows (db w') = job_rows (db w4)" "ledger (db w') = ledger (db w2)"
    using done_(2) by (simp_all add: usage_log_keeps)
  from done_(1) q(2,3) show ?thesis
    using mv *(6) find_job_cong [OF out(1), of b]
    by (simp add: out(2) moves_def same assms(7) BatchImageJobStatusCompleted_def)
      (linarith | blast)+
qed

lemma settlement_charges_the_cost_witness:
  "\<exists>r w'. Settle sample_env 5 ''b'' (settle_world sample_job []) = (Inr r, w')
    \<and> free_of (ledger (db w')) 1 = 8 + 1 / 2 \<and> frozen_of (ledger (db w')) 1 = 1"
proof -
  obtain r w' where run: "Settle sample_env 5 ''b'' (settle_world sample_job []) = (Inr r, w')"
    "\<not> sr_AlreadySettled r" using sample_settles by blast
  have f: "find_job ''b'' (db (settle_world sample_job [])) = Some sample_job"
    using settle_world_sels(1) [of sample_job] by (simp add: sample_job_def)
  have p: "settlementUnitPrice sample_env sample_job = Inr (1 / 2)"
    by (simp add: settlementUnitPrice_def sample_job_def)
  have c: "1 / 2 = of_int (j_SuccessCount sample_job) * (1 / 2 :: rat)" by (simp add: sample_job_def)
  have "free_of (ledger (db w')) 1 = 8 + 1 / 2 \<and> frozen_of (ledger (db w')) 1 = 1"
    using settlement_charges_the_cost [OF run settle_world_sels(2) f _ p c, of 7] two_holds
    by (simp add: settle_world_sels sample_job_def job_hold_def on_scale_def)
  then show ?thesis using run(1) by blast
qed

text \<open>
  C12. While no call is lost, five attempts to settle a job bring it to a final status, or else
  the release of its hold is what failed: the job then carries that error and an attempt more
  tries the release again. The job is settling, has its key and its account and no manifest yet.
  No settlement is retried without end for any other reason.
\<close>

theorem settlement_retries_bounded:
  assumes "faults w = []" and "find_job b (db w) = Some job"
    and "j_Status job = BatchImageJobStatusSettling" and "0 \<le> j_RetryCount job"
    and "j_APIKeyID job = Some k" "0 < k" and "j_AccountID job = Some a" "0 < a"
    and "j_ManifestHash job = None" and "5 \<le> length nows"
  shows "\<exists>job'. find_job b (db (settle_attempts env b nows w)) = Some job'
    \<and> (IsTerminalBatchImageJobStatus (j_Status job')
       \<or> j_LastErrorCode job' = Some ''SETTLEMENT_RELEASE_FAILED'')"
  using attempts_outcome [OF assms(1,2) _ assms(5-9), of nows] assms(3,4,10)
  by (fastforce simp: BatchImageJobStatusSettling_def)

lemma settlement_retries_bounded_witness:
  "\<exists>job'. find_job ''b'' (db (settle_attempts sample_env ''b'' [1, 2, 3, 4, 5] (settle_world sample_job [])))
     = Some job'
    \<and> (IsTerminalBatchImageJobStatus (j_Status job') \<or> j_LastErrorCode job' = Some ''SETTLEMENT_RELEASE_FAILED'')"
proof -
  have f: "find_job ''b'' (db (settle_world sample_job [])) = Some sample_job"
    using settle_world_sels(1) [of sample_job] by (simp add: sample_job_def)
  show ?thesis
    using settlement_retries_bounded [OF settle_world_sels(3) f, of 7 3 "[1, 2, 3, 4, 5]" sample_env]
    by (auto simp: sample_job_def BatchImageJobStatusSettling_def)
qed

text \<open>
  C13. When the last attempt's capture commits but its answer is lost, the hold is released as
  well: the job ends failed and without a cost, although the user was charged; the user gets the
  hold back on top of the rest of the capture, and the frozen money of as much as one more hold
  is gone that belonged to other jobs.
\<close>

theorem lost_capture_answer_releases_too:
  assumes "find_job b (db w) = Some job" and "faults w = [Fine, LostAfter]"
    and "j_Status job = BatchImageJobStatusSettling" and "j_RetryCount job = 4"
    and "j_APIKeyID job = Some k" "0 < k" and "j_AccountID job = Some a" "0 < a"
    and "j_ManifestHash job = None"
    and "0 \<le> j_SuccessCount job" "0 \<le> j_FailCount job"
    and "j_SuccessCount job + j_FailCount job \<le> j_ItemCount job"
    and "settlementUnitPrice env job = Inr price" "0 \<le> price"
    and "cost = of_int (j_SuccessCount job) * price" and "cost \<le> job_hold job"
    and "0 < job_hold job" and "on_scale 8 (job_hold job)" and "on_scale 8 cost"
    and "ledger_ok (ledger (db w))" and "live_user (ledger (db w)) (j_UserID job) \<noteq> None"
    and "2 * job_hold job \<le> frozen_of (ledger (db w)) (j_UserID job)"
    and "claimed (ledger (db w)) (BatchImageHoldRequestID b) k"
    and "\<not> claimed (ledger (db w)) (BatchImageCaptureRequestID b) k"
    and "\<not> claimed (ledger (db w)) (BatchImageReleaseRequestID b) k"
    and "Settle env now b w = (r, w')"
  shows "(\<exists>job'. find_job b (db w') = Some job' \<and> j_Status job' = BatchImageJobStatusFailed
           \<and> j_ActualCost job' = j_ActualCost job)
    \<and> free_of (ledger (db w')) (j_UserID job)
        = free_of (ledger (db w)) (j_UserID job) + (job_hold job - cost) + job_hold job
    \<and> frozen_of (ledger (db w')) (j_UserID job)
        = frozen_of (ledger (db w)) (j_UserID job) - 2 * job_hold job"
proof -
  let ?w1 = "w\<lparr>faults := [LostAfter]\<rparr>"
  note bid = find_job_id [OF assms(1)]
  have st: "j_Status job = ''settling''" using assms(3) by (simp add: BatchImageJobStatusSettling_def)
  obtain w2 w3 cr e cmd msg where cap: "captureBatchImageBalanceHold job cost
       (BuildBatchImageSettlementManifestHash job) ?w1 = (cr, w2)"
    and rest: "(\<exists>err. cr = Some err) \<and> faults w2 = [] \<longrightarrow>
       failExhaustedSettlement env now cmd msg w3 = (e, w') \<and> r = Inl e
       \<and> ledger (db w3) = ledger (db w2) \<and> faults w3 = []
       \<and> (\<exists>j. find_job b (db w3) = Some j \<and> j_Status j = ''settling'' \<and> j_ActualCost j = j_ActualCost job)
       \<and> j_BatchID cmd = b \<and> j_UserID cmd = j_UserID job \<and> j_APIKeyID cmd = Some k
       \<and> job_hold cmd = job_hold job"
    unfolding assms(15)
    by (rule Settle_lost_capture [OF assms(1,2) st assms(4-14) _ assms(26)]) (use assms(15,16) in simp)
  have "0 \<le> cost" using assms(10,14,15) by simp
  note lost = capture_lost_moves [OF cap _ assms(5,6) _ _ assms(17,18) \<open>0 \<le> cost\<close> assms(19,16)]
  have pre: "ledger_ok (ledger (db ?w1))" "live_user (ledger (db ?w1)) (j_UserID job) \<noteq> None"
    "job_hold job \<le> frozen_of (ledger (db ?w1)) (j_UserID job)"
    "\<not> claimed (ledger (db ?w1)) (BatchImageCaptureRequestID (j_BatchID job)) k"
    using assms(17,20-22,24) bid by simp_all
  note lost = lost [OF _ pre, simplified]
  from rest lost(1,2) obtain j where fe: "failExhaustedSettlement env now cmd msg w3 = (e, w')"
    "ledger (db w3) = ledger (db w2)" "faults w3 = []" "find_job b (db w3) = Some j"
    "j_Status j = ''settling''" "j_ActualCost j = j_ActualCost job" "j_BatchID cmd = b"
    "j_UserID cmd = j_UserID job" "j_APIKeyID cmd = Some k" "job_hold cmd = job_hold job" by blast
  have fr: "frozen_of (ledger (db w2)) (j_UserID job) = frozen_of (ledger (db w)) (j_UserID job) - job_hold job"
    "free_of (ledger (db w2)) (j_UserID job) = free_of (ledger (db w)) (j_UserID job) + (job_hold job - cost)"
    using lost(3) by (simp_all add: moves_def)
  have rel: "\<not> claimed (ledger (db w3)) (BatchImageReleaseRequestID b) k"
    "claimed (ledger (db w3)) (BatchImageHoldRequestID b) k"
    using lost(6) [of "BatchImageReleaseRequestID b"] lost(7) [of "BatchImageReleaseRequestID b"]
      lost(6) [of "BatchImageHoldRequestID b"] assms(23,25) fe(2)
    by (auto simp: BatchImageReleaseRequestID_def BatchImageCaptureRequestID_def
        batchImageReleaseRequestPrefix_def batchImageCaptureRequestPrefix_def)
  have "job_hold cmd \<le> frozen_of (ledger (db w3)) (j_UserID cmd)" using fe(2,8,10) fr(1) assms(22) by simp
  from exhausted_release [OF fe(1,3) _ fe(5,9) assms(6) _ _ _ _ this] fe(2,4,6-8,10) lost(4,5) rel
    assms(17,18) fr
  show ?thesis by (simp add: moves_def BatchImageJobStatusFailed_def)
qed

definition last_attempt_job :: BatchImageJob where
  "last_attempt_job = sample_job\<lparr>j_RetryCount := 4\<rparr>"

lemma last_attempt_job_sels:
  "j_BatchID last_attempt_job = ''b''" "j_Status last_attempt_job = BatchImageJobStatusSettling"
  "j_RetryCount last_attempt_job = 4" "j_APIKeyID last_attempt_job = Some 7"
  "j_AccountID last_attempt_job = Some 3" "j_ManifestHash last_attempt_job = None"
  "j_SuccessCount last_attempt_job = 1" "j_FailCount last_attempt_job = 1"
  "j_ItemCount last_attempt_job = 2" "j_UserID last_attempt_job = 1"
  "job_hold last_attempt_job = 1" "settlementUnitPrice env last_attempt_job = Inr (1 / 2)"
  "j_ActualCost last_attempt_job = None"
  by (simp_all add: last_attempt_job_def sample_job_def BatchImageJobStatusSettling_def job_hold_def
      settlementUnitPrice_def)

lemma lost_capture_answer_releases_too_witness:
  "\<exists>w' :: batch_db world. free_of (ledger (db w')) 1 = 8 + (1 - 1 / 2) + 1
     \<and> frozen_of (ledger (db w')) 1 = 0"
proof -
  let ?w = "settle_world last_attempt_job [Fine, LostAfter]"
  have f: "find_job ''b'' (db ?w) = Some last_attempt_job"
    using settle_world_sels(1) [of last_attempt_job] by (simp add: last_attempt_job_sels)
  obtain r w' where run: "Settle sample_env 5 ''b'' ?w = (r, w')" by fastforce
  have "free_of (ledger (db w')) 1 = 8 + (1 - 1 / 2) + 1 \<and> frozen_of (ledger (db w')) 1 = 0"
    using lost_capture_answer_releases_too [OF f settle_world_sels(3) last_attempt_job_sels(2-4) _
        last_attempt_job_sels(5) _ last_attempt_job_sels(6) _ _ _ last_attempt_job_sels(12) _ refl _ _
        _ _ _ _ _ _ _ _ run] two_holds
    by (simp add: last_attempt_job_sels settle_world_sels on_scale_def)
  then show ?thesis by blast
qed

text \<open>
  Releasing the hold of a job for which no hold was ever taken changes no user's balances,
  whatever becomes of the call: a failed or cancelled submission cannot credit money that was
  not reserved.
\<close>

theorem unreserved_release_moves_no_money:
  assumes "releaseBatchImageBalanceHold job h w = (r, w')" and "j_APIKeyID job = Some k"
    and "\<not> claimed (ledger (db w)) (BatchImageHoldRequestID (j_BatchID job)) k"
  shows "users (ledger (db w')) = users (ledger (db w))"
  using release_result [OF assms(1)]
proof (elim disjE exE conjE)
  fix cmd res k'
  assume c: "buildBatchImageHoldCommand job (BatchImageReleaseRequestID (j_BatchID job)) 0 h = Inr cmd"
    and r: "ReleaseBatchImageBalance cmd (ledger (db w)) = (res, ledger (db w'))"
  note sels = hold_command [OF c]
  show ?thesis
    by (rule release_unrecorded [OF r])
      (use assms(2,3) sels release_is_no_hold in \<open>simp_all add: hold_recorded_def request_ids_trimmed\<close>)
qed simp

lemma unreserved_release_moves_no_money_witness:
  "\<exists>w' :: batch_db world. users (ledger (db w')) = users sample_db"
proof -
  let ?w = "sample_world\<lparr>db := sample_jobs\<lparr>ledger := sample_db\<rparr>\<rparr>"
  obtain r w' where "releaseBatchImageBalanceHold sample_job ''h'' ?w = (r, w')" by fastforce
  from unreserved_release_moves_no_money [OF this, of 7] show ?thesis
    by (auto simp: sample_job_def claimed_def sample_db_def)
qed

text \<open>
  C14. The recovery of stale submissions works on a list read earlier. A job with a hold that by
  now has reached the provider, or was touched since, keeps its row unchanged and its hold: no
  release of it is recorded, whatever calls fail and whichever jobs the list names.
\<close>

theorem recovery_spares_live_submissions:
  assumes "release_stale cfg now cutoff js n err w = (res, w')" and "unique_jobs (db w)"
    and "find_job b (db w) = Some j" and "\<not> stale_unsubmitted cutoff j" and "0 < job_hold j"
    and "\<forall>job \<in> set js. j_BatchID job \<noteq> b \<longrightarrow> TrimSpace (j_BatchID job) \<noteq> TrimSpace b"
  shows "find_job b (db w') = Some j
    \<and> (\<forall>k. claimed (ledger (db w')) (BatchImageReleaseRequestID b) k
         \<longrightarrow> claimed (ledger (db w)) (BatchImageReleaseRequestID b) k)"
  using release_stale_spares [OF assms] by blast

lemma recovery_spares_live_submissions_witness:
  "\<exists>w' :: batch_db world. find_job ''b'' (db w') = Some sample_job"
proof -
  let ?js = "[sample_job\<lparr>j_Status := ''created''\<rparr>]"
  obtain res w' where run: "release_stale \<lparr>inflightTTL = 1, lockTTL = 1\<rparr> 5 3 ?js 0 None
      (settle_world sample_job [LostAfter]) = (res, w')" by fastforce
  have "find_job ''b'' (db w') = Some sample_job"
    using recovery_spares_live_submissions [OF run settle_world_sels(2), of "''b''" sample_job]
      settle_world_sels(1) [of sample_job]
    by (simp add: sample_job_def stale_unsubmitted_def unsubmitted_def job_hold_def)
  then show ?thesis by blast
qed

end
