(* ===== verification/Batch_Image_Processor.thy ===== *)
theory Batch_Image_Processor
  imports Batch_Image_Billing
begin

text \<open>
  The provider processor of \<open>service/batch_image_processor.go\<close>: polling the provider of a
  submitted job, parsing its output lines, reconciling them with the items of the submission,
  and releasing the hold of a job that ended without a result.

  The provider and the account resolver are interfaces whose answers are arguments: a provider
  is the record \<open>batch_provider\<close> of what its methods return. \<open>encoding/json\<close> is the argument
  \<open>Unmarshal\<close>: it maps a line to the text of an error or to the fields of the object it decodes
  (\<open>null\<close> gives no fields). A decoded number is its exact rational value. Log output and the
  nil checks on the configuration are left out.
\<close>

section \<open>Decoded JSON\<close>

datatype json =
    JNull
  | JBool bool
  | JNumber rat
  | JString string
  | JArray "json list"
  | JObject "(string \<times> json) list"

type_synonym json_fields = "(string \<times> json) list"

text \<open>Reading a key of a map that lacks it gives nil.\<close>

definition json_get :: "json_fields \<Rightarrow> string \<Rightarrow> json" where
  "json_get m key = (case map_of m key of None \<Rightarrow> JNull | Some v \<Rightarrow> v)"

definition batchImageMapString :: "json_fields \<Rightarrow> string \<Rightarrow> string" where
  "batchImageMapString m key =
     (case json_get m key of
        JString s \<Rightarrow> TrimSpace s
      | JNumber v \<Rightarrow> itoa (float_to_int64 v)
      | _ \<Rightarrow> '''')"

fun nested_any :: "json \<Rightarrow> string list \<Rightarrow> json" where
  "nested_any current [] = current"
| "nested_any (JObject m) (k # ks) = nested_any (json_get m k) ks"
| "nested_any _ (k # ks) = JNull"

definition batchImageNestedAny :: "json_fields \<Rightarrow> string list \<Rightarrow> json" where
  "batchImageNestedAny m keys = nested_any (JObject m) keys"

definition batchImageNestedString :: "json_fields \<Rightarrow> string list \<Rightarrow> string" where
  "batchImageNestedString m keys =
     (case batchImageNestedAny m keys of JString s \<Rightarrow> TrimSpace s | _ \<Rightarrow> '''')"

fun firstMap :: "json list \<Rightarrow> json_fields option" where
  "firstMap [] = None"
| "firstMap (v # vs) = (case v of JObject m \<Rightarrow> Some m | _ \<Rightarrow> firstMap vs)"

fun batchImageFirstNonEmptyString :: "string list \<Rightarrow> string" where
  "batchImageFirstNonEmptyString [] = ''''"
| "batchImageFirstNonEmptyString (v # vs) =
     (if TrimSpace v \<noteq> '''' then TrimSpace v else batchImageFirstNonEmptyString vs)"

section \<open>A result line\<close>

definition BatchImageParsedStatusSucceeded :: string where
  "BatchImageParsedStatusSucceeded = ''succeeded''"

definition BatchImageParsedStatusFailed :: string where
  "BatchImageParsedStatusFailed = ''failed''"

record ParsedBatchImageResult =
  pp_CustomID :: string
  pp_Status :: string
  pp_MimeType :: string
  pp_FileExtension :: string
  pp_ImageCount :: int
  pp_ErrorCode :: string
  pp_ErrorMessage :: string
  pp_SourceLineNumber :: int

text \<open>The media type of a part that counts as an image.\<close>

definition part_image :: "json \<Rightarrow> string option" where
  "part_image partRaw =
     (case partRaw of
        JObject part \<Rightarrow>
          (case firstMap [json_get part ''inlineData'', json_get part ''inline_data''] of
             None \<Rightarrow> None
           | Some inline \<Rightarrow>
               (let data = TrimSpace (batchImageMapString inline ''data'');
                    mime = batchImageFirstNonEmptyString
                             [batchImageMapString inline ''mimeType'', batchImageMapString inline ''mime_type'']
                in if data = '''' \<or> \<not> HasPrefix (ToLower (TrimSpace mime)) ''image/'' then None
                   else Some (TrimSpace mime)))
      | _ \<Rightarrow> None)"

fun count_parts :: "json list \<Rightarrow> int \<times> string \<Rightarrow> int \<times> string" where
  "count_parts [] s = s"
| "count_parts (part # parts) (count, firstMime) =
     count_parts parts
       (case part_image part of
          None \<Rightarrow> (count, firstMime)
        | Some mime \<Rightarrow> (count + 1, if firstMime = '''' then mime else firstMime))"

fun count_candidates :: "json list \<Rightarrow> int \<times> string \<Rightarrow> int \<times> string" where
  "count_candidates [] s = s"
| "count_candidates (c # cs) s =
     count_candidates cs
       (case c of
          JObject candidate \<Rightarrow>
            (case batchImageNestedAny candidate [''content'', ''parts''] of
               JArray parts \<Rightarrow> count_parts parts s
             | _ \<Rightarrow> s)
        | _ \<Rightarrow> s)"

definition batchImageFindImagePartsInCandidates :: "json \<Rightarrow> int \<times> string" where
  "batchImageFindImagePartsInCandidates raw =
     (case raw of JArray candidates \<Rightarrow> count_candidates candidates (0, '''') | _ \<Rightarrow> (0, ''''))"

definition batchImageFindImageParts :: "json_fields \<Rightarrow> int \<times> string" where
  "batchImageFindImageParts obj =
     (let (count, mimeType) =
            batchImageFindImagePartsInCandidates (batchImageNestedAny obj [''response'', ''candidates''])
      in if count > 0 then (count, mimeType)
         else batchImageFindImagePartsInCandidates (json_get obj ''candidates''))"

definition batchImageMapFailureCode :: "string \<Rightarrow> string \<Rightarrow> string" where
  "batchImageMapFailureCode code message =
     (let txt = ToLower (TrimSpace (code @ '' '' @ message)) in
      if list_ex (Contains txt) [''safety'', ''policy'', ''blocked'', ''prohibited'']
      then ''SAFETY_BLOCKED''
      else if list_ex (Contains txt) [''invalid_argument'', ''invalid argument'', ''bad request'']
      then ''INVALID_ARGUMENT''
      else if list_ex (Contains txt) [''quota'', ''rate'', ''resource_exhausted'', ''too many requests'']
      then ''PROVIDER_RATE_LIMITED''
      else ''PROVIDER_ITEM_FAILED'')"

definition failure_of :: "json_fields \<Rightarrow> string \<times> string" where
  "failure_of m =
     (let message = batchImageFirstNonEmptyString [batchImageMapString m ''message'', batchImageMapString m ''details''];
          code = batchImageFirstNonEmptyString [batchImageMapString m ''code'', batchImageMapString m ''status'']
      in (batchImageMapFailureCode code message, message))"

definition batchImageFailureFromProviderFields :: "json_fields \<Rightarrow> (string \<times> string) option" where
  "batchImageFailureFromProviderFields obj =
     (case json_get obj ''status'' of
        JObject status \<Rightarrow> Some (failure_of status)
      | _ \<Rightarrow> (case json_get obj ''error'' of
                JObject errObj \<Rightarrow> Some (failure_of errObj)
              | _ \<Rightarrow> None))"

definition batchImageFileExtension :: "string \<Rightarrow> string" where
  "batchImageFileExtension mimeType =
     (let t = ToLower (TrimSpace mimeType) in
      if t = ''image/png'' then ''png''
      else if t = ''image/jpeg'' \<or> t = ''image/jpg'' then ''jpg''
      else if t = ''image/webp'' then ''webp''
      else '''')"

definition batchImageHasCandidates :: "json_fields \<Rightarrow> bool" where
  "batchImageHasCandidates obj =
     (if map_of obj ''candidates'' \<noteq> None then True
      else (case batchImageNestedAny obj [''response'', ''candidates''] of JArray _ \<Rightarrow> True | _ \<Rightarrow> False))"

definition ParseBatchImageResultLine ::
    "(string \<Rightarrow> string + json_fields) \<Rightarrow> string \<Rightarrow> int \<Rightarrow> go_error + ParsedBatchImageResult" where
  "ParseBatchImageResultLine Unmarshal line lineNumber =
     (case Unmarshal line of
        Inl txt \<Rightarrow> Inl (WithCause ErrBatchImageIndexParseFailed
                     (PlainError (''line '' @ itoa lineNumber @ '': '' @ txt)))
      | Inr obj \<Rightarrow>
          (let customID = batchImageFirstNonEmptyString
                 [batchImageMapString obj ''key'', batchImageMapString obj ''custom_id'',
                  batchImageMapString obj ''customId'', batchImageNestedString obj [''request'', ''key'']]
           in if customID = ''''
              then Inl (WithCause ErrBatchImageIndexParseFailed
                     (PlainError (''line '' @ itoa lineNumber @ '': missing custom id'')))
              else
                (let parsed = \<lparr>pp_CustomID = customID, pp_Status = BatchImageParsedStatusFailed,
                       pp_MimeType = '''', pp_FileExtension = '''', pp_ImageCount = 0,
                       pp_ErrorCode = '''', pp_ErrorMessage = '''', pp_SourceLineNumber = lineNumber\<rparr>;
                     (imageCount, mimeType) = batchImageFindImageParts obj
                 in if imageCount > 0
                    then Inr (parsed\<lparr>pp_Status := BatchImageParsedStatusSucceeded,
                           pp_ImageCount := imageCount, pp_MimeType := mimeType,
                           pp_FileExtension := batchImageFileExtension mimeType\<rparr>)
                    else case batchImageFailureFromProviderFields obj of
                      Some (code, message) \<Rightarrow>
                        Inr (parsed\<lparr>pp_ErrorCode := code,
                          pp_ErrorMessage := truncateBatchImageMessage message batchImageMaxErrorMessageLength\<rparr>)
                    | None \<Rightarrow>
                        if map_of obj ''response'' \<noteq> None \<or> batchImageHasCandidates obj
                        then Inr (parsed\<lparr>pp_ErrorCode := ''EMPTY_IMAGE_OUTPUT'',
                               pp_ErrorMessage := ''provider response contained no image output''\<rparr>)
                        else Inr (parsed\<lparr>pp_ErrorCode := ''PROVIDER_ITEM_FAILED'',
                               pp_ErrorMessage := ''provider result line contained no image output''\<rparr>))))"

section \<open>The lines of an output\<close>

text \<open>
  What \<open>bufio.Scanner\<close> yields with the indexer's buffer: the lines without their line ends,
  up to a line that fills the buffer, and the error at the end (\<open>None\<close> at the end of the
  file). The argument is what the reader delivers and the error it ends with.
\<close>

definition scanner_limit :: nat where
  "scanner_limit = 16 * 1024 * 1024"

definition ErrTooLong :: go_error where
  "ErrTooLong = PlainError ''bufio.Scanner: token too long''"

definition ErrUnexpectedEOF :: go_error where
  "ErrUnexpectedEOF = PlainError ''unexpected EOF''"

definition drop_cr :: "string \<Rightarrow> string" where
  "drop_cr s = (if s \<noteq> '''' \<and> last s = char_of (13 :: nat) then butlast s else s)"

fun split_lines :: "string \<Rightarrow> string \<Rightarrow> string list" where
  "split_lines cur [] = (if cur = '''' then [] else [rev cur])"
| "split_lines cur (c # s) =
     (if c = char_of (10 :: nat) then rev cur # split_lines '''' s else split_lines (c # cur) s)"

definition scan_lines :: "string \<times> go_error option \<Rightarrow> string list \<times> go_error option" where
  "scan_lines r =
     (let ls = split_lines '''' (fst r);
          good = takeWhile (\<lambda>l. length l < scanner_limit) ls
      in (map drop_cr good, if good = ls then snd r else Some ErrTooLong))"

section \<open>Indexing\<close>

record BatchImageIndexResult =
  ir_SuccessCount :: int
  ir_FailCount :: int
  ir_TotalCount :: int

record BatchProviderStatus =
  ps_RawState :: string
  ps_InternalState :: string
  ps_ProviderOutputRef :: string
  ps_ErrorCode :: string
  ps_ErrorMessage :: string
  ps_SuggestedRequeueAfter :: duration

definition BatchProviderStateQueued :: string where "BatchProviderStateQueued = ''queued''"
definition BatchProviderStateRunning :: string where "BatchProviderStateRunning = ''running''"
definition BatchProviderStateSucceeded :: string where "BatchProviderStateSucceeded = ''succeeded''"
definition BatchProviderStateFailed :: string where "BatchProviderStateFailed = ''failed''"
definition BatchProviderStateCancelled :: string where "BatchProviderStateCancelled = ''cancelled''"
definition BatchProviderStateExpired :: string where "BatchProviderStateExpired = ''expired''"

definition ErrBatchImageProviderUnsupportedAccount :: go_error where
  "ErrBatchImageProviderUnsupportedAccount =
     New 400 ''BATCH_IMAGE_PROVIDER_UNSUPPORTED_ACCOUNT'' ''batch image provider does not support this account''"

text \<open>The answers of a provider to the calls made for one job.\<close>

record 'acc batch_provider =
  SupportsAccount :: "'acc \<Rightarrow> bool"
  provider_Get :: "BatchImageJob \<Rightarrow> 'acc \<Rightarrow> go_error + BatchProviderStatus option"
  OpenResult :: "BatchImageJob \<Rightarrow> 'acc \<Rightarrow> go_error + (string \<times> go_error option)"

text \<open>\<open>quote\<close> renders a string as \<open>%q\<close> does.\<close>

record 'acc processor_env =
  error_text :: "go_error \<Rightarrow> string"
  quote :: "string \<Rightarrow> string"
  Unmarshal :: "string \<Rightarrow> string + json_fields"
  ProviderRegistry :: "string \<Rightarrow> 'acc batch_provider option"
  ResolveBatchImageAccount :: "int \<Rightarrow> go_error + 'acc"
  DefaultRequeue :: duration

text \<open>
  The custom ids of the items of a job, page by page. A page that is full asks for the next
  one, so the loop ends when the items are used up.
\<close>

abbreviation page_size :: nat where "page_size \<equiv> 500"

lemma ListBatchImageItems_db:
  assumes "ListBatchImageItems b flt w = (r, w')"
  shows "db w' = db w"
  using assms unfolding ListBatchImageItems_def Let_def
  by (rule db_exec_keeps [where f = "\<lambda>d. d"]) simp

lemma ListBatchImageItems_page:
  assumes "ListBatchImageItems b \<lparr>f_Status = '''', f_Limit = 500, f_Offset = int offset\<rparr> w = (Inr rows, w')"
  shows "rows = take 500 (drop offset (sort_key i_ID (filter (\<lambda>i. i_JobID i = b) (item_rows (db w)))))"
  using assms unfolding ListBatchImageItems_def Let_def
  by (auto dest!: db_exec_Inr simp: page_def)

function listExpectedCustomIDs ::
    "string \<Rightarrow> nat \<Rightarrow> string list \<Rightarrow> batch_db world \<Rightarrow> (go_error + string list) \<times> batch_db world" where
  "listExpectedCustomIDs batchID offset expected w =
     (case ListBatchImageItems batchID \<lparr>f_Status = '''', f_Limit = 500, f_Offset = int offset\<rparr> w of
        (Inl e, w1) \<Rightarrow> (Inl e, w1)
      | (Inr rows, w1) \<Rightarrow>
          (let expected1 = expected @ map i_CustomID rows
           in if length rows < page_size then (Inr (remdups expected1), w1)
              else listExpectedCustomIDs batchID (offset + length rows) expected1 w1))"
  by pat_completeness auto
termination
proof (relation "measure (\<lambda>(b, offset, ex, w). Suc (length (item_rows (db w))) - offset)", goal_cases)
  case (2 b offset ex w x w1 rows ex1)
  then have rows: "rows = take 500 (drop offset (sort_key i_ID (filter (\<lambda>i. i_JobID i = b) (item_rows (db w)))))"
    and w1: "db w1 = db w"
    using ListBatchImageItems_page [of b offset w rows w1] ListBatchImageItems_db [of b _ w "Inr rows" w1]
    by metis+
  have le: "length (filter (\<lambda>i. i_JobID i = b) (item_rows (db w))) \<le> length (item_rows (db w))"
    by (rule length_filter_le)
  from rows 2(4) have "500 \<le> length (filter (\<lambda>i. i_JobID i = b) (item_rows (db w))) - offset"
    and "length rows = 500" by auto
  with le have "500 \<le> length (item_rows (db w)) - offset" and "length rows = 500" by linarith+
  then show ?case by (simp add: w1)
qed simp

declare listExpectedCustomIDs.simps [simp del]

text \<open>The loop over the lines. \<open>seen\<close> maps a custom id to the line it was first seen at.\<close>

record index_state =
  seen :: "(string \<times> int) list"
  unknownCount :: int
  index_items :: "CreateBatchImageItemParams list"
  index_result :: BatchImageIndexResult

definition result_item ::
    "go_time \<Rightarrow> BatchImageJob \<Rightarrow> string \<Rightarrow> ParsedBatchImageResult \<Rightarrow> CreateBatchImageItemParams" where
  "result_item now job sourceObject parsed =
     (let ok = (pp_Status parsed = BatchImageParsedStatusSucceeded) in
      \<lparr>ip_JobID = j_BatchID job, ip_CustomID = pp_CustomID parsed,
       ip_Status = (if ok then BatchImageItemStatusSuccess else BatchImageItemStatusFailed),
       ip_RequestHash = None, ip_PromptPreview = None,
       ip_ProviderSourceObject = batchImageOptionalStringPtr sourceObject,
       ip_SourceLineNumber = Some (pp_SourceLineNumber parsed),
       ip_SourceByteOffset = None, ip_SourceByteLength = None,
       ip_MimeType = (if ok then batchImageOptionalStringPtr (pp_MimeType parsed) else None),
       ip_FileExtension = (if ok then batchImageOptionalStringPtr (pp_FileExtension parsed) else None),
       ip_ImageCount = pp_ImageCount parsed,
       ip_ErrorCode = (if ok then None else batchImageOptionalStringPtr (pp_ErrorCode parsed)),
       ip_ErrorMessage = (if ok then None else batchImageOptionalStringPtr (pp_ErrorMessage parsed)),
       ip_BilledAmount = None, ip_IndexedAt = Some now\<rparr>)"

definition count_result :: "bool \<Rightarrow> BatchImageIndexResult \<Rightarrow> BatchImageIndexResult" where
  "count_result ok r =
     (if ok then r\<lparr>ir_SuccessCount := ir_SuccessCount r + 1, ir_TotalCount := ir_TotalCount r + 1\<rparr>
      else r\<lparr>ir_FailCount := ir_FailCount r + 1, ir_TotalCount := ir_TotalCount r + 1\<rparr>)"

fun index_lines ::
    "'acc processor_env \<Rightarrow> go_time \<Rightarrow> BatchImageJob \<Rightarrow> string \<Rightarrow> string list \<Rightarrow> int \<Rightarrow> string list
       \<Rightarrow> index_state \<Rightarrow> go_error + index_state" where
  "index_lines env now job sourceObject expected lineNumber [] s = Inr s"
| "index_lines env now job sourceObject expected lineNumber (raw # ls) s =
     (let n = lineNumber + 1; line = TrimSpace raw in
      if line = '''' then index_lines env now job sourceObject expected n ls s
      else case ParseBatchImageResultLine (Unmarshal env) line n of
        Inl e \<Rightarrow> Inl e
      | Inr parsed \<Rightarrow>
          if expected \<noteq> [] \<and> pp_CustomID parsed \<notin> set expected
          then index_lines env now job sourceObject expected n ls (s\<lparr>unknownCount := unknownCount s + 1\<rparr>)
          else (case map_of (seen s) (pp_CustomID parsed) of
                  Some firstLine \<Rightarrow>
                    Inl (WithCause ErrBatchImageDuplicateCustomID (PlainError
                      (''custom id '' @ quote env (pp_CustomID parsed) @ '' duplicated at lines ''
                       @ itoa firstLine @ '' and '' @ itoa n)))
                | None \<Rightarrow>
                    index_lines env now job sourceObject expected n ls
                      (s\<lparr>seen := (pp_CustomID parsed, n) # seen s,
                         index_items := index_items s @ [result_item now job sourceObject parsed],
                         index_result := count_result
                           (pp_Status parsed = BatchImageParsedStatusSucceeded) (index_result s)\<rparr>)))"

definition missing_item ::
    "go_time \<Rightarrow> BatchImageJob \<Rightarrow> string \<Rightarrow> string \<Rightarrow> CreateBatchImageItemParams" where
  "missing_item now job sourceObject customID =
     \<lparr>ip_JobID = j_BatchID job, ip_CustomID = customID, ip_Status = BatchImageItemStatusFailed,
      ip_RequestHash = None, ip_PromptPreview = None,
      ip_ProviderSourceObject = batchImageOptionalStringPtr sourceObject,
      ip_SourceLineNumber = None, ip_SourceByteOffset = None, ip_SourceByteLength = None,
      ip_MimeType = None, ip_FileExtension = None, ip_ImageCount = 0,
      ip_ErrorCode = Some ''PROVIDER_RESULT_MISSING'',
      ip_ErrorMessage = Some ''provider output did not include a result for this item'',
      ip_BilledAmount = None, ip_IndexedAt = Some now\<rparr>"

definition add_missing ::
    "go_time \<Rightarrow> BatchImageJob \<Rightarrow> string \<Rightarrow> string list \<Rightarrow> index_state \<Rightarrow> index_state \<times> int" where
  "add_missing now job sourceObject expected s =
     (let missingIDs = sort (filter (\<lambda>c. map_of (seen s) c = None) expected)
      in (s\<lparr>index_items := index_items s @ map (missing_item now job sourceObject) missingIDs,
            index_result := fold (\<lambda>_. count_result False) missingIDs (index_result s)\<rparr>,
          int (length missingIDs)))"

definition empty_index :: index_state where
  "empty_index = \<lparr>seen = [], unknownCount = 0, index_items = [],
     index_result = \<lparr>ir_SuccessCount = 0, ir_FailCount = 0, ir_TotalCount = 0\<rparr>\<rparr>"

definition Index ::
    "'acc processor_env \<Rightarrow> go_time \<Rightarrow> BatchImageJob \<Rightarrow> 'acc batch_provider \<Rightarrow> 'acc
       \<Rightarrow> batch_db world \<Rightarrow> (go_error + BatchImageIndexResult) \<times> batch_db world" where
  "Index env now job provider account w =
     (case listExpectedCustomIDs (j_BatchID job) 0 [] w of
        (Inl e, w1) \<Rightarrow> (Inl e, w1)
      | (Inr expected, w1) \<Rightarrow>
          (case OpenResult provider job account of
             Inl e \<Rightarrow> (Inl (WithCause ErrBatchImageIndexOutputMissing e), w1)
           | Inr r \<Rightarrow>
               (let (ls, scan_err) = scan_lines r;
                    ref = batchImageDerefString (j_ProviderOutputRef job);
                    sourceObject = (if ref = '''' then batchImageDerefString (j_ProviderJobName job) else ref)
                in case index_lines env now job sourceObject expected 0 ls empty_index of
                     Inl e \<Rightarrow> (Inl e, w1)
                   | Inr s \<Rightarrow>
                       (case scan_err of
                          Some e \<Rightarrow>
                            (if errors_Is e ErrUnexpectedEOF
                             then (Inl (WithCause ErrBatchImageIndexParseFailed e), w1) else (Inl e, w1))
                        | None \<Rightarrow>
                            (let (s', missingCount) =
                                   (if expected \<noteq> [] then add_missing now job sourceObject expected s
                                    else (s, 0))
                             in if ir_TotalCount (index_result s') = 0
                                then (Inl ErrBatchImageIndexNoResultLines, w1)
                                else
                                  (let w2 = (if unknownCount s' > 0 \<or> missingCount > 0
                                             then snd (AppendBatchImageEvent now (j_BatchID job) ''index_reconciled''
                                               (Some [(''batch_id'', PString (j_BatchID job)),
                                                      (''unknown_custom_ids'', PInt (unknownCount s')),
                                                      (''missing_custom_ids'', PInt missingCount)]) w1)
                                             else w1)
                                   in case ReplaceBatchImageItemsForJob now (j_BatchID job) (index_items s')
                                          \<lparr>c_SuccessCount = ir_SuccessCount (index_result s'),
                                           c_FailCount = ir_FailCount (index_result s')\<rparr> w2 of
                                        (Inl e, w3) \<Rightarrow> (Inl e, w3)
                                      | (Inr _, w3) \<Rightarrow> (Inr (index_result s'), w3)))))))"

section \<open>Processing\<close>

definition defaultBatchImageProcessorRequeue :: duration where
  "defaultBatchImageProcessorRequeue = 30 * Second"

definition batchImageProviderErrorRequeue :: duration where
  "batchImageProviderErrorRequeue = Minute"

definition requeueDelay :: "'acc processor_env \<Rightarrow> duration \<Rightarrow> duration" where
  "requeueDelay env suggested =
     (if suggested > 0 then suggested
      else if DefaultRequeue env > 0 then DefaultRequeue env
      else defaultBatchImageProcessorRequeue)"

definition isBatchImageProcessorDoneStatus :: "string \<Rightarrow> bool" where
  "isBatchImageProcessorDoneStatus status =
     (if status = BatchImageJobStatusSettling then True else IsTerminalBatchImageJobStatus status)"

definition releaseTerminalHold ::
    "BatchImageJob \<Rightarrow> batch_db world \<Rightarrow> go_error option \<times> batch_db world" where
  "releaseTerminalHold job w =
     (if j_Status job \<noteq> BatchImageJobStatusFailed \<and> j_Status job \<noteq> BatchImageJobStatusCancelled
      then (None, w)
      else case releaseBatchImageBalanceHold job (batchImageDerefString (j_RequestHash job)) w of
             (Some e, w1) \<Rightarrow> (Some e, w1)
           | (None, w1) \<Rightarrow> (None, invalidateAuthCache (j_UserID job) w1))"

definition persistProviderOutputRef ::
    "go_time \<Rightarrow> BatchImageJob \<Rightarrow> string \<Rightarrow> batch_db world \<Rightarrow> (go_error + BatchImageJob) \<times> batch_db world" where
  "persistProviderOutputRef now job ref w =
     (let r = TrimSpace ref in
      if r = '''' \<or> batchImageDerefString (j_ProviderOutputRef job) = r then (Inr job, w)
      else case UpdateBatchImageJobProviderOutputRef now (j_BatchID job) r w of
             (Inl e, w1) \<Rightarrow> (Inl e, w1)
           | (Inr _, w1) \<Rightarrow> (Inr (job\<lparr>j_ProviderOutputRef := Some r\<rparr>), w1))"

text \<open>The end of a job without a result: the transition, the release of its hold, the answer.\<close>

definition finish_job ::
    "go_time \<Rightarrow> BatchImageJob \<Rightarrow> string \<Rightarrow> BatchImageTransitionOptions
       \<Rightarrow> batch_db world \<Rightarrow> (go_error + BatchImageProcessResult) \<times> batch_db world" where
  "finish_job now job status opts w =
     (case TransitionBatchImageJobStatus now (j_BatchID job) status opts w of
        (Inl e, w1) \<Rightarrow> (Inl e, w1)
      | (Inr _, w1) \<Rightarrow>
          (case releaseTerminalHold (job\<lparr>j_Status := status\<rparr>) w1 of
             (Some e, w2) \<Rightarrow> (Inl e, w2)
           | (None, w2) \<Rightarrow> (Inr terminal_result, w2)))"

definition event_opts :: "string \<Rightarrow> event_payload \<Rightarrow> BatchImageTransitionOptions" where
  "event_opts eventType payload =
     \<lparr>to_EventType = eventType, to_EventPayload = Some payload, to_ErrorCode = None,
      to_ErrorMessage = None, to_Now = None\<rparr>"

definition indexAndSettle ::
    "'acc processor_env \<Rightarrow> go_time \<Rightarrow> BatchImageJob \<Rightarrow> 'acc batch_provider \<Rightarrow> 'acc
       \<Rightarrow> batch_db world \<Rightarrow> (go_error + BatchImageProcessResult) \<times> batch_db world" where
  "indexAndSettle env now job provider account w =
     (case Index env now job provider account w of
        (Inl err, w1) \<Rightarrow>
          if errors_Is err ErrBatchImageIndexOutputMissing then (Inl err, w1)
          else if errors_Is err ErrBatchImageIndexStateConflict
          then (Inr (requeue_result Millisecond), w1)
          else
            (let code = (if errors_Is err ErrBatchImageDuplicateCustomID
                         then ''DUPLICATE_CUSTOM_ID_IN_OUTPUT'' else ''INDEX_PARSE_FAILED'');
                 msg = truncateBatchImageMessage (error_text env err) batchImageMaxErrorMessageLength
             in finish_job now job BatchImageJobStatusFailed
                  ((event_opts ''indexing_failed'' [(''error_code'', PString code)])
                     \<lparr>to_ErrorCode := Some code, to_ErrorMessage := batchImageOptionalStringPtr msg\<rparr>) w1)
      | (Inr result, w1) \<Rightarrow>
          (case TransitionBatchImageJobStatus now (j_BatchID job) BatchImageJobStatusSettling
                  (event_opts ''indexing_completed''
                     [(''success_count'', PInt (ir_SuccessCount result)),
                      (''fail_count'', PInt (ir_FailCount result)),
                      (''total_count'', PInt (ir_TotalCount result))]) w1 of
             (Inl e, w2) \<Rightarrow> (Inl e, w2)
           | (Inr _, w2) \<Rightarrow> (Inr (requeue_result Millisecond), w2)))"

text \<open>The answer to a provider's status.\<close>

definition handle_status ::
    "'acc processor_env \<Rightarrow> go_time \<Rightarrow> BatchImageJob \<Rightarrow> 'acc batch_provider \<Rightarrow> 'acc \<Rightarrow> BatchProviderStatus
       \<Rightarrow> batch_db world \<Rightarrow> (go_error + BatchImageProcessResult) \<times> batch_db world" where
  "handle_status env now job provider account status w =
     (let st = ps_InternalState status;
          requeue = Inr (requeue_result (requeueDelay env (ps_SuggestedRequeueAfter status)));
          provider_state = (''provider_state'', PString (ps_RawState status))
      in
      if st = BatchProviderStateQueued then (requeue, w)
      else if st = BatchProviderStateRunning then
        (if j_Status job \<noteq> BatchImageJobStatusRunning
         then (case TransitionBatchImageJobStatus now (j_BatchID job) BatchImageJobStatusRunning
                      (event_opts ''provider_status_checked'' [provider_state]) w of
                 (Inl e, w1) \<Rightarrow> (Inl e, w1) | (Inr _, w1) \<Rightarrow> (requeue, w1))
         else (requeue, w))
      else if st = BatchProviderStateSucceeded then
        (if j_Status job \<noteq> BatchImageJobStatusIndexing
         then (case TransitionBatchImageJobStatus now (j_BatchID job) BatchImageJobStatusIndexing
                      (event_opts ''indexing_started'' [provider_state]) w of
                 (Inl e, w1) \<Rightarrow> (Inl e, w1)
               | (Inr _, w1) \<Rightarrow>
                   indexAndSettle env now (job\<lparr>j_Status := BatchImageJobStatusIndexing\<rparr>) provider account w1)
         else indexAndSettle env now job provider account w)
      else if st = BatchProviderStateFailed \<or> st = BatchProviderStateExpired then
        (let c = TrimSpace (ps_ErrorCode status);
             c1 = (if c = '''' \<and> st = BatchProviderStateExpired then ''PROVIDER_BATCH_EXPIRED'' else c);
             code = (if c1 = '''' then ''PROVIDER_BATCH_FAILED'' else c1);
             msg = truncateBatchImageMessage (ps_ErrorMessage status) batchImageMaxErrorMessageLength
         in finish_job now job BatchImageJobStatusFailed
              ((event_opts ''job_failed'' [provider_state, (''error_code'', PString code)])
                 \<lparr>to_ErrorCode := Some code, to_ErrorMessage := batchImageOptionalStringPtr msg\<rparr>) w)
      else if st = BatchProviderStateCancelled then
        finish_job now job BatchImageJobStatusCancelled
          (event_opts ''job_failed'' [provider_state, (''error_code'', PString ''PROVIDER_BATCH_CANCELLED'')]) w
      else (requeue, w))"

definition Process ::
    "'acc processor_env \<Rightarrow> go_time \<Rightarrow> string
       \<Rightarrow> batch_db world \<Rightarrow> (go_error + BatchImageProcessResult) \<times> batch_db world" where
  "Process env now batchID w =
     (case GetBatchImageJobByBatchID batchID w of
        (Inl e, w1) \<Rightarrow> (Inl e, w1)
      | (Inr job, w1) \<Rightarrow>
          if isBatchImageProcessorDoneStatus (j_Status job)
          then (case releaseTerminalHold job w1 of
                  (Some e, w2) \<Rightarrow> (Inl e, w2) | (None, w2) \<Rightarrow> (Inr terminal_result, w2))
          else case ProviderRegistry env (j_Provider job) of
            None \<Rightarrow> (Inl ErrBatchImageUnsupportedProvider, w1)
          | Some provider \<Rightarrow>
              (case j_AccountID job of
                 None \<Rightarrow> (Inl ErrBatchImageMissingAccountID, w1)
               | Some accountID \<Rightarrow>
                   if accountID \<le> 0 then (Inl ErrBatchImageMissingAccountID, w1)
                   else case ResolveBatchImageAccount env accountID of
                     Inl e \<Rightarrow> (Inl e, w1)
                   | Inr account \<Rightarrow>
                       if \<not> SupportsAccount provider account
                       then (Inl ErrBatchImageProviderUnsupportedAccount, w1)
                       else if TrimSpace (batchImageDerefString (j_ProviderJobName job)) = ''''
                       then (Inl ErrBatchImageMissingProviderJobName, w1)
                       else if j_Status job = BatchImageJobStatusIndexing
                       then indexAndSettle env now job provider account w1
                       else case provider_Get provider job account of
                         Inl _ \<Rightarrow> (Inr (requeue_result batchImageProviderErrorRequeue), w1)
                       | Inr None \<Rightarrow> (Inr (requeue_result (requeueDelay env 0)), w1)
                       | Inr (Some status) \<Rightarrow>
                           (case persistProviderOutputRef now job (ps_ProviderOutputRef status) w1 of
                              (Inl e, w2) \<Rightarrow> (Inl e, w2)
                            | (Inr job', w2) \<Rightarrow> handle_status env now job' provider account status w2)))"

end
