(* ===== verification/Batch_Image_Worker.thy ===== *)
theory Batch_Image_Worker
  imports Batch_Image_Processor
begin

text \<open>
  The worker of \<open>service/batch_image_worker.go\<close>: one round reserves a job, takes its lock, has
  the processor work on it and puts it back, or acknowledges it when the processor says that the
  job has ended. The instants of the clock reads are arguments. The heartbeat runs beside the
  processor; its ticks touch only the queue, which the processor does not, so they are placed
  after the processor's calls. The endless loops around the rounds are not modelled.
\<close>

section \<open>Options\<close>

record BatchImageWorkerOptions =
  ReserveBlockTimeout :: duration
  JobLockTTL :: duration
  LockConflictDelay :: duration
  DefaultRequeueDelay :: duration
  ErrorRetryDelay :: duration
  ErrorBackoff :: duration
  DelayedPollInterval :: duration
  RecoveryInterval :: duration
  StaleActiveAfter :: duration
  DelayedMoveLimit :: int
  RecoverLimit :: int

definition or_default :: "int \<Rightarrow> int \<Rightarrow> int" where
  "or_default d v = (if v \<le> 0 then d else v)"

definition normalizeBatchImageWorkerOptions :: "BatchImageWorkerOptions \<Rightarrow> BatchImageWorkerOptions" where
  "normalizeBatchImageWorkerOptions opts = opts\<lparr>
     ReserveBlockTimeout := or_default (5 * Second) (ReserveBlockTimeout opts),
     JobLockTTL := or_default (5 * Minute) (JobLockTTL opts),
     LockConflictDelay := or_default (5 * Second) (LockConflictDelay opts),
     DefaultRequeueDelay := or_default (30 * Second) (DefaultRequeueDelay opts),
     ErrorRetryDelay := or_default Minute (ErrorRetryDelay opts),
     ErrorBackoff := or_default Second (ErrorBackoff opts),
     DelayedPollInterval := or_default (5 * Second) (DelayedPollInterval opts),
     RecoveryInterval := or_default (5 * Minute) (RecoveryInterval opts),
     StaleActiveAfter := or_default (10 * Minute) (StaleActiveAfter opts),
     DelayedMoveLimit := or_default 100 (DelayedMoveLimit opts),
     RecoverLimit := or_default 100 (RecoverLimit opts)\<rparr>"

section \<open>The calls on the queue\<close>

definition ErrContextCanceled :: go_error where
  "ErrContextCanceled = PlainError ''context canceled''"

text \<open>
  The polls of \<open>Reserve\<close>, at the given instants; an empty list of further instants stands for
  the context being done.
\<close>

fun Reserve :: "go_time \<Rightarrow> go_time list \<Rightarrow> batch_db world \<Rightarrow> (go_error + string) \<times> batch_db world" where
  "Reserve deadline [] w = (Inl ErrContextCanceled, w)"
| "Reserve deadline (t # ts) w =
     (case db_exec (on_queue (reserveOnce t)) w of
        (Inr batchID, w1) \<Rightarrow> (Inr batchID, w1)
      | (Inl e, w1) \<Rightarrow>
          if \<not> errors_Is e ErrBatchImageQueueEmpty then (Inl e, w1)
          else if time_Sub deadline t \<le> 0 then (Inl ErrBatchImageQueueEmpty, w1)
          else Reserve deadline ts w1)"

definition requeue_call ::
    "go_time \<Rightarrow> string \<Rightarrow> duration \<Rightarrow> batch_db world \<Rightarrow> go_error option \<times> batch_db world" where
  "requeue_call now batchID delay w =
     (case db_exec (on_queue (RequeueAfter now batchID delay)) w of
        (Inl e, w1) \<Rightarrow> (Some e, w1) | (Inr _, w1) \<Rightarrow> (None, w1))"

definition ack_call :: "string \<Rightarrow> batch_db world \<Rightarrow> go_error option \<times> batch_db world" where
  "ack_call batchID w =
     (case db_exec (on_queue (Ack batchID)) w of
        (Inl e, w1) \<Rightarrow> (Some e, w1) | (Inr _, w1) \<Rightarrow> (None, w1))"

definition heartbeatInterval :: "BatchImageWorkerOptions \<Rightarrow> duration" where
  "heartbeatInterval opts =
     (let interval = go_quot (min (JobLockTTL opts) (StaleActiveAfter opts)) 3
      in if interval < Second then Second else interval)"

text \<open>The ticks of the heartbeat; their errors are only logged.\<close>

fun runJobHeartbeat ::
    "BatchImageWorkerOptions \<Rightarrow> string \<Rightarrow> string \<Rightarrow> go_time list \<Rightarrow> batch_db world \<Rightarrow> batch_db world" where
  "runJobHeartbeat opts batchID token [] w = w"
| "runJobHeartbeat opts batchID token (t # ts) w =
     (let w1 = snd (db_exec (on_queue (Heartbeat t batchID)) w);
          w2 = snd (db_exec (on_queue (lock_Refresh t batchID token (JobLockTTL opts))) w1)
      in runJobHeartbeat opts batchID token ts w2)"

section \<open>One round\<close>

text \<open>The clock reads of a round, the ticks of its heartbeat and the bytes of its lock token.\<close>

record round_env =
  polls :: "go_time list"
  lock_time :: go_time
  ticks :: "go_time list"
  requeue_time :: go_time
  token_bytes :: "int list"

definition RunOnce ::
    "queue_config \<Rightarrow> BatchImageWorkerOptions
       \<Rightarrow> (string \<Rightarrow> batch_db world \<Rightarrow> (go_error + BatchImageProcessResult) \<times> batch_db world)
       \<Rightarrow> go_time \<Rightarrow> round_env \<Rightarrow> batch_db world \<Rightarrow> go_error option \<times> batch_db world" where
  "RunOnce cfg opts processor start r w =
     (case Reserve (start + ReserveBlockTimeout opts) (polls r) w of
        (Inl err, w1) \<Rightarrow> (if errors_Is err ErrBatchImageQueueEmpty then None else Some err, w1)
      | (Inr batchID, w1) \<Rightarrow>
          (case db_exec (on_queue (TryAcquireJobLock cfg (lock_time r) (token_bytes r) batchID
                                     (JobLockTTL opts))) w1 of
             (Inl err, w2) \<Rightarrow>
               (case requeue_call (requeue_time r) batchID (LockConflictDelay opts) w2 of
                  (Some e, w3) \<Rightarrow> (Some e, w3) | (None, w3) \<Rightarrow> (Some err, w3))
           | (Inr None, w2) \<Rightarrow> requeue_call (requeue_time r) batchID (LockConflictDelay opts) w2
           | (Inr (Some token), w2) \<Rightarrow>
               (let (result, w3) = processor batchID w2;
                    w4 = runJobHeartbeat opts batchID token (ticks r) w3;
                    (err, w5) = (case result of
                        Inl _ \<Rightarrow> requeue_call (requeue_time r) batchID (ErrorRetryDelay opts) w4
                      | Inr res \<Rightarrow>
                          if pr_Terminal res then ack_call batchID w4
                          else requeue_call (requeue_time r) batchID
                                 (if pr_RequeueAfter res \<le> 0 then DefaultRequeueDelay opts
                                  else pr_RequeueAfter res) w4)
                in (err, snd (db_exec (on_queue (lock_Release (requeue_time r) batchID token)) w5)))))"

definition MoveDueDelayedOnce ::
    "BatchImageWorkerOptions \<Rightarrow> go_time \<Rightarrow> batch_db world \<Rightarrow> (go_error + int) \<times> batch_db world" where
  "MoveDueDelayedOnce opts now w = db_exec (on_queue (MoveDueDelayedToReady now (DelayedMoveLimit opts))) w"

definition RecoverStaleActiveOnce ::
    "BatchImageWorkerOptions \<Rightarrow> go_time \<Rightarrow> batch_db world \<Rightarrow> (go_error + int) \<times> batch_db world" where
  "RecoverStaleActiveOnce opts now w =
     db_exec (on_queue (RecoverStaleActive now (StaleActiveAfter opts) (RecoverLimit opts))) w"

definition EnqueueBatchImageJob ::
    "queue_config \<Rightarrow> go_time \<Rightarrow> string \<Rightarrow> batch_db world \<Rightarrow> (go_error + unit) \<times> batch_db world" where
  "EnqueueBatchImageJob cfg now batchID w =
     (if \<not> IsValidBatchImageID batchID then (Inl ErrInvalidBatchImageQueuePayload, w)
      else case GetBatchImageJobByBatchID batchID w of
             (Inl e, w1) \<Rightarrow> (Inl e, w1)
           | (Inr _, w1) \<Rightarrow> db_exec (on_queue (Enqueue cfg now batchID)) w1)"

end
