(* ===== verification/Store_Invariants.thy ===== *)
theory Store_Invariants
  imports App_Errors
begin

text \<open>
  The contract of a store that its clients reach by calls that may be lost: some part of the
  database changes only by the store's own steps, and every step keeps an invariant. What the
  clients need of it is proved once: any call keeps the invariant, whatever its fate.
\<close>

locale store_invariant =
  fixes part :: "'d \<Rightarrow> 'q"
    and step :: "'q \<Rightarrow> 'q \<Rightarrow> bool"
    and ok :: "'q \<Rightarrow> bool"
  assumes step_ok: "step q q' \<Longrightarrow> ok q \<Longrightarrow> ok q'"
begin

lemma call_ok:
  assumes "db_exec st w = (r, w')" and "ok (part (db w))"
    and "part (snd (st (db w))) = part (db w) \<or> step (part (db w)) (part (snd (st (db w))))"
  shows "ok (part (db w'))"
  using db_exec_db [of st w] assms step_ok by auto

lemma run_ok: "step\<^sup>*\<^sup>* q q' \<Longrightarrow> ok q \<Longrightarrow> ok q'"
  by (induction rule: rtranclp_induct) (auto intro: step_ok)

end

end
