(* ===== verification/Batch_Image_Worker_Facts.thy ===== *)
theory Batch_Image_Worker_Facts
  imports Batch_Image_Worker Batch_Image_Billing_Facts Batch_Image_Queue_Facts Store_Invariants
begin

text \<open>
  The worker, the pipeline and the queue together: a round loses no job whatever calls fail, and
  it takes a job out of the queue only when the job has reached a final status.
\<close>

section \<open>The queue as a store\<close>

interpretation queue_store: store_invariant queue "queue_step cfg" queue_ok for cfg
  by unfold_locales (rule queue_step_ok)

lemma on_queue_queue [simp]: "queue (snd (on_queue st d)) = snd (st (queue d))"
  by (simp add: on_queue_def split: prod.splits)

lemma on_queue_other [simp]:
  "job_rows (snd (on_queue st d)) = job_rows d" "ledger (snd (on_queue st d)) = ledger d"
  by (simp_all add: on_queue_def split: prod.splits)

lemma queue_call_ok:
  assumes "db_exec (on_queue st) w = (r, w')" and "queue_ok (queue (db w))"
    and "\<And>q. queue_step cfg q (snd (st q))"
  shows "queue_ok (queue (db w'))"
  by (rule queue_store.call_ok [OF assms(1,2), of cfg]) (simp add: assms(3))

lemma queue_steps:
  "queue_step cfg q (snd (Enqueue cfg now b q))" "queue_step cfg q (snd (reserveOnce now q))"
  "queue_step cfg q (snd (RequeueAfter now b delay q))" "queue_step cfg q (snd (Ack b q))"
  "queue_step cfg q (snd (Heartbeat now b q))"
  "queue_step cfg q (snd (TryAcquireJobLock cfg now random b ttl q))"
  "queue_step cfg q (snd (lock_Release now b token q))"
  "queue_step cfg q (snd (lock_Refresh now b token ttl q))"
  by (metis prod.collapse queue_step.intros)+

lemmas queue_call_oks = queue_call_ok [OF _ _ queue_steps(2)] queue_call_ok [OF _ _ queue_steps(3)]
  queue_call_ok [OF _ _ queue_steps(4)] queue_call_ok [OF _ _ queue_steps(5)]
  queue_call_ok [OF _ _ queue_steps(6)] queue_call_ok [OF _ _ queue_steps(7)]
  queue_call_ok [OF _ _ queue_steps(8)]

lemma Reserve_ok: "Reserve deadline ts w = (r, w') \<Longrightarrow> queue_ok (queue (db w)) \<Longrightarrow> queue_ok (queue (db w'))"
  by (induction deadline ts w rule: Reserve.induct)
    (auto split: prod.splits sum.splits if_splits dest: queue_call_oks(1))

lemma requeue_call_ok:
  "requeue_call now b delay w = (r, w') \<Longrightarrow> queue_ok (queue (db w)) \<Longrightarrow> queue_ok (queue (db w'))"
  by (auto simp: requeue_call_def split: prod.splits sum.splits dest: queue_call_oks(2))

lemma ack_call_ok: "ack_call b w = (r, w') \<Longrightarrow> queue_ok (queue (db w)) \<Longrightarrow> queue_ok (queue (db w'))"
  by (auto simp: ack_call_def split: prod.splits sum.splits dest: queue_call_oks(3))

lemma runJobHeartbeat_ok:
  "queue_ok (queue (db w)) \<Longrightarrow> queue_ok (queue (db (runJobHeartbeat opts b token ts w)))"
proof (induction opts b token ts w rule: runJobHeartbeat.induct)
  case (2 opts b token t ts w)
  obtain r1 w1 r2 w2 where 1: "db_exec (on_queue (Heartbeat t b)) w = (r1, w1)"
    and 2: "db_exec (on_queue (lock_Refresh t b token (JobLockTTL opts))) w1 = (r2, w2)"
    by (metis prod.collapse)
  from queue_call_oks(4) [OF 1 "2.prems"] have "queue_ok (queue (db w1))" .
  from queue_call_oks(7) [OF 2 this] have "queue_ok (queue (db w2))" .
  then show ?case using "2.IH" [OF refl refl] 1 2 by simp
qed simp

lemma RunOnce_ok:
  assumes "RunOnce cfg opts processor start r w = (res, w')" and "queue_ok (queue (db w))"
    and proc: "\<And>b v. queue_ok (queue (db v)) \<Longrightarrow> queue_ok (queue (db (snd (processor b v))))"
  shows "queue_ok (queue (db w'))"
proof -
  obtain x w1 where x: "Reserve (start + ReserveBlockTimeout opts) (polls r) w = (x, w1)" by fastforce
  note w1 = Reserve_ok [OF x assms(2)]
  show ?thesis
  proof (cases x)
    case (Inl e)
    with assms(1) x w1 show ?thesis by (simp add: RunOnce_def)
  next
    case (Inr b)
    obtain l w2 where l: "db_exec (on_queue (TryAcquireJobLock cfg (lock_time r) (token_bytes r) b
        (JobLockTTL opts))) w1 = (l, w2)" by fastforce
    note w2 = queue_call_oks(5) [OF l w1]
    show ?thesis
    proof (cases "\<exists>token. l = Inr (Some token)")
      case False
      with assms(1) x Inr l w2 show ?thesis
        by (auto simp: RunOnce_def split: sum.splits option.splits prod.splits dest: requeue_call_ok)
    next
      case True
      then obtain token where token: "l = Inr (Some token)" by blast
      obtain y w3 where y: "processor b w2 = (y, w3)" by fastforce
      let ?w4 = "runJobHeartbeat opts b token (ticks r) w3"
      have "queue_ok (queue (db w3))" using proc [OF w2, of b] y by simp
      note w4 = runJobHeartbeat_ok [OF this, of opts b token "ticks r"]
      obtain err w5 where e: "(case y of
          Inl _ \<Rightarrow> requeue_call (requeue_time r) b (ErrorRetryDelay opts) ?w4
        | Inr res \<Rightarrow> if pr_Terminal res then ack_call b ?w4
            else requeue_call (requeue_time r) b
              (if pr_RequeueAfter res \<le> 0 then DefaultRequeueDelay opts else pr_RequeueAfter res) ?w4)
        = (err, w5)" by fastforce
      have w5: "queue_ok (queue (db w5))"
        using e w4 by (auto split: sum.splits if_splits dest: requeue_call_ok ack_call_ok)
      from assms(1) x Inr l token y e have
        "w' = snd (db_exec (on_queue (lock_Release (requeue_time r) b token)) w5)"
        by (simp add: RunOnce_def Let_def)
      then show ?thesis using queue_call_oks(6) [OF prod.collapse [symmetric] w5] by simp
    qed
  qed
qed

section \<open>The pipeline does not touch the queue\<close>

lemma queue_simps [simp]:
  "queue (snd (update_jobs p f d)) = queue d"
  "queue (snd (append_event now b t pl d)) = queue d"
  "queue (snd (on_ledger st' d)) = queue d"
  "queue (db (invalidateAuthCache u w)) = queue (db w)"
  by (simp_all add: update_jobs_def append_event_def on_ledger_def invalidateAuthCache_def
      split: prod.splits)

abbreviation same_queue :: "batch_db world \<Rightarrow> batch_db world \<Rightarrow> bool" where
  "same_queue w w' \<equiv> queue (db w') = queue (db w)"

lemma queue_exec:
  "db_exec st w = (r, w') \<Longrightarrow> (\<And>d. queue (snd (st d)) = queue d) \<Longrightarrow> same_queue w w'"
  by (rule db_exec_keeps [where f = queue])

lemma queue_event: "AppendBatchImageEvent now b t pl w = (r, w') \<Longrightarrow> same_queue w w'"
  unfolding AppendBatchImageEvent_def by (erule queue_exec) simp

lemma queue_event_snd [simp]: "same_queue w (snd (AppendBatchImageEvent now b t pl w))"
  by (rule queue_event [OF prod.collapse [symmetric]])

lemma queue_get: "GetBatchImageJobByBatchID b w = (r, w') \<Longrightarrow> same_queue w w'"
  using get_job_keeps by metis

lemma append_event_queue: "append_event now b t pl d = (r, d') \<Longrightarrow> queue d' = queue d"
  using queue_simps(2) by (metis snd_conv)

lemma queue_transition: "TransitionBatchImageJobStatus now b s opts w = (r, w') \<Longrightarrow> same_queue w w'"
  unfolding TransitionBatchImageJobStatus_def
  by (erule queue_exec)
    (auto simp: atomically_def transitionBatchImageJobStatusWithSQL_def Let_def
      split: prod.splits sum.splits option.splits if_splits dest: append_event_queue)

lemma queue_failed: "SetBatchImageJobSettlementFailed now b c m w = (r, w') \<Longrightarrow> same_queue w w'"
  unfolding SetBatchImageJobSettlementFailed_def Let_def
  by (auto split: prod.splits sum.splits dest!: queue_event queue_exec)

lemma queue_mark: "MarkBatchImageJobSettled now params w = (r, w') \<Longrightarrow> same_queue w w'"
  unfolding MarkBatchImageJobSettled_def
proof (erule queue_exec)
  fix d
  have "queue d1 = queue d" if "update_jobs p f d = (n, d1)" for p f n d1
    using queue_simps(1) [of p f d] that by simp
  then show "queue (snd (atomically (markBatchImageJobSettledWithSQL now params) d)) = queue d"
    by (auto simp: atomically_def markBatchImageJobSettledWithSQL_def Let_def
        split: prod.splits sum.splits option.splits if_splits dest: append_event_queue)
qed

lemma queue_output_ref: "UpdateBatchImageJobProviderOutputRef now b ref w = (r, w') \<Longrightarrow> same_queue w w'"
  unfolding UpdateBatchImageJobProviderOutputRef_def update_found_def
  by (auto split: prod.splits sum.splits if_splits dest!: queue_exec simp: update_jobs_def)

lemma queue_capture: "captureBatchImageBalanceHold job a h w = (r, w') \<Longrightarrow> same_queue w w'"
  unfolding captureBatchImageBalanceHold_def
  by (auto split: prod.splits sum.splits dest!: queue_exec)

lemma queue_release: "releaseBatchImageBalanceHold job h w = (r, w') \<Longrightarrow> same_queue w w'"
  unfolding releaseBatchImageBalanceHold_def
  by (auto split: prod.splits sum.splits if_splits dest!: queue_exec)

lemma queue_usage_log: "same_queue w (recordUsageLog job a rid t w)"
proof -
  have c: "same_queue v v'" if "create_usage_log l v = (r, v')" for l v r v'
    using that unfolding create_usage_log_def Let_def by (rule queue_exec) simp
  have "same_queue w (writeUsageLogBestEffort l w)" for l
  proof -
    obtain r w1 r2 w2 where "create_usage_log l w = (r, w1)" "create_usage_log l w1 = (r2, w2)"
      by (metis prod.collapse)
    with c show ?thesis by (cases r) (simp_all add: writeUsageLogBestEffort_def)
  qed
  then show ?thesis by (simp add: recordUsageLog_def split: option.split)
qed

lemma queue_failExhausted: "failExhaustedSettlement env now job m w = (e, w') \<Longrightarrow> same_queue w w'"
  unfolding failExhaustedSettlement_def Let_def
  by (auto split: prod.splits sum.splits option.splits
      dest!: queue_release queue_failed queue_transition)

lemma queue_settle_fail: "settle_fail env now job c m err w = (r, w') \<Longrightarrow> same_queue w w'"
  unfolding settle_fail_def recordSettlementFailure_def
  by (auto split: prod.splits option.splits if_splits dest!: queue_failed queue_failExhausted)

lemma queue_settle: "Settle env now b w = (r, w') \<Longrightarrow> same_queue w w'"
  unfolding Settle_def Let_def
  by (auto split: prod.split_asm sum.split_asm option.split_asm if_split_asm
      dest!: queue_get queue_capture queue_mark queue_settle_fail queue_failExhausted
      simp: queue_usage_log)

lemma insert_items_queue: "insert_items now ps d = (r, d') \<Longrightarrow> queue d' = queue d"
proof (induction ps arbitrary: d)
  case (Cons p ps)
  then show ?case
    by (auto simp: insert_item_def Let_def split: prod.splits sum.splits if_splits)
qed simp

lemma queue_replace: "ReplaceBatchImageItemsForJob now b its counts w = (r, w') \<Longrightarrow> same_queue w w'"
  unfolding ReplaceBatchImageItemsForJob_def
  by (erule queue_exec)
    (auto simp: atomically_def replaceBatchImageItemsForJobWithSQL_def Let_def
      split: prod.splits sum.splits option.splits if_splits dest!: insert_items_queue)

lemma listExpected_db:
  "listExpectedCustomIDs b n ex w = (r, w') \<Longrightarrow> db w' = db w"
proof (induction b n ex w arbitrary: r rule: listExpectedCustomIDs.induct)
  case (1 b n ex w)
  obtain x w1 where x: "ListBatchImageItems b \<lparr>f_Status = '''', f_Limit = 500, f_Offset = int n\<rparr> w = (x, w1)"
    by fastforce
  note w1 = ListBatchImageItems_db [OF x]
  show ?case
  proof (cases x)
    case (Inl e)
    with 1(2) x w1 show ?thesis by (simp add: listExpectedCustomIDs.simps)
  next
    case (Inr rows)
    with 1(2) x w1 1(1) [OF x [symmetric] Inr refl] show ?thesis
      by (auto simp: listExpectedCustomIDs.simps [of b n] Let_def split: if_splits)
  qed
qed

lemma queue_index: "Index env now job provider account w = (r, w') \<Longrightarrow> same_queue w w'"
  unfolding Index_def Let_def
  by (auto split: prod.split_asm sum.split_asm option.split_asm if_split_asm
      dest!: listExpected_db queue_replace queue_event)

lemma queue_finish: "finish_job now job s opts w = (r, w') \<Longrightarrow> same_queue w w'"
  unfolding finish_job_def releaseTerminalHold_def
  by (auto split: prod.splits sum.splits option.splits if_splits dest!: queue_transition queue_release)

lemma queue_index_settle: "indexAndSettle env now job provider account w = (r, w') \<Longrightarrow> same_queue w w'"
  unfolding indexAndSettle_def Let_def
  by (auto split: prod.splits sum.splits if_splits dest!: queue_index queue_transition queue_finish)

lemma queue_status: "handle_status env now job provider account status w = (r, w') \<Longrightarrow> same_queue w w'"
  unfolding handle_status_def Let_def
  by (auto split: prod.splits sum.splits if_splits
      dest!: queue_index_settle queue_transition queue_finish)

lemma queue_process: "Process env now b w = (r, w') \<Longrightarrow> same_queue w w'"
  unfolding Process_def persistProviderOutputRef_def releaseTerminalHold_def Let_def
  by (auto split: prod.split_asm sum.split_asm option.split_asm if_split_asm
      dest!: queue_get queue_release queue_index_settle queue_output_ref queue_status)

lemma queue_pipeline:
  assumes "Pipeline_Process env d (\<lambda>b. Process penv now b) now b w = (r, w')"
  shows "same_queue w w'"
  using assms unfolding Pipeline_Process_def
  by (auto split: prod.split_asm sum.split_asm if_split_asm
      dest!: queue_get queue_settle queue_process)

end
