(* ===== verification/Batch_Image_Round_Facts.thy ===== *)
theory Batch_Image_Round_Facts
  imports Batch_Image_Worker_Facts
begin

text \<open>
  What a round of the worker guarantees about the jobs: no job whose mark is set is lost from the
  queue, and the mark of a job goes only when the job has reached a final status. The first
  section shows that every terminal answer of the processor and the pipeline leaves the job in a
  final status, the second that nothing else in a round touches the mark.
\<close>

section \<open>A terminal answer\<close>

definition finished :: "string \<Rightarrow> batch_db world \<Rightarrow> bool" where
  "finished b w \<longleftrightarrow>
     (case find_job b (db w) of None \<Rightarrow> False | Some j \<Rightarrow> IsTerminalBatchImageJobStatus (j_Status j))"

lemma finished_cong: "job_rows (db w') = job_rows (db w) \<Longrightarrow> finished b w' = finished b w"
  unfolding finished_def by (drule find_job_cong [where b = b]) simp

lemma finishedI:
  "find_job b (db w) = Some j \<Longrightarrow> j_Status j = s \<Longrightarrow> IsTerminalBatchImageJobStatus s \<Longrightarrow> finished b w"
  by (simp add: finished_def)

lemma transition_done:
  assumes "TransitionBatchImageJobStatus now b s opts w = (Inr r, w')"
  shows "\<exists>j. find_job b (db w') = Some j \<and> j_Status j = s"
proof -
  have st: "transitionBatchImageJobStatusWithSQL now b s opts (db w) = (Inr r, db w')"
    using db_exec_Inr [OF assms [unfolded TransitionBatchImageJobStatus_def]] by (simp add: atomically_Inr)
  then obtain current where c: "find_job b (db w) = Some current"
    by (auto simp: transitionBatchImageJobStatusWithSQL_def split: option.splits)
  let ?d1 = "snd (update_jobs (has_batch_id b) (transition_row now s opts) (db w))"
  have "find_job b ?d1 = Some (transition_row now s opts current)"
    by (rule find_update_same [OF _ c]) (simp add: transition_row_def Let_def)
  moreover have "job_rows (db w') = job_rows ?d1"
    using st c by (auto simp: transitionBatchImageJobStatusWithSQL_def Let_def split: if_splits
        dest: append_event_rows)
  ultimately show ?thesis by (simp only: find_job_cong [of "db w'" ?d1]) (simp add: transition_row_def Let_def)
qed

lemma release_terminal_keeps_rows:
  "releaseTerminalHold job w = (e, w') \<Longrightarrow> job_rows (db w') = job_rows (db w)"
  by (auto simp: releaseTerminalHold_def invalidateAuthCache_def
      split: if_split_asm prod.split_asm option.split_asm dest: release_keeps_rows)

lemma finish_done:
  assumes "finish_job now job s opts w = (Inr r, w')" and "IsTerminalBatchImageJobStatus s"
  shows "finished (j_BatchID job) w'"
proof -
  obtain x w1 where t: "TransitionBatchImageJobStatus now (j_BatchID job) s opts w = (x, w1)"
    by fastforce
  with assms(1) obtain y where x: "x = Inr y" by (cases x) (auto simp: finish_job_def)
  obtain e w2 where rel: "releaseTerminalHold (job\<lparr>j_Status := s\<rparr>) w1 = (e, w2)" by fastforce
  with assms(1) t x have "w' = w2" by (auto simp: finish_job_def split: option.split_asm)
  with transition_done [OF t [unfolded x]] release_terminal_keeps_rows [OF rel] assms(2)
  show ?thesis by (metis finishedI finished_cong)
qed

lemma Settle_already:
  assumes "Settle env now b w = (Inr r, w')" and "find_job b (db w) = Some job"
    and "j_Status job \<noteq> BatchImageJobStatusCompleted"
  shows "\<not> sr_AlreadySettled r"
proof -
  obtain job' w1 where g: "GetBatchImageJobByBatchID b w = (Inr job', w1)"
    using assms(1) by (auto simp: Settle_def split: prod.splits sum.splits)
  with get_job_Inr [OF g] assms(2) have j: "job' = job" by simp
  have fresh: "\<not> sr_AlreadySettled (settlement_result job)" by (simp add: settlement_result_def)
  from assms(1) g assms(3) fresh show ?thesis unfolding j Settle_def Let_def
    by (simp add: settle_fail_not_Inr split: if_split_asm)
      (auto simp: settle_fail_not_Inr split: prod.split_asm sum.split_asm option.split_asm if_split_asm)
qed

lemma Settle_done:
  assumes S: "Settle env now b w = (Inr r, w')" and uniq: "unique_jobs (db w)"
  shows "finished b w'"
proof -
  obtain job w1 where g: "GetBatchImageJobByBatchID b w = (Inr job, w1)"
    using S by (auto simp: Settle_def split: prod.splits sum.splits)
  note fj = get_job_Inr [OF g]
  show ?thesis
  proof (cases "j_Status job = BatchImageJobStatusCompleted")
    case True
    with S g have "w' = w1" by (simp add: Settle_def Let_def)
    with fj True show ?thesis
      by (auto intro!: finishedI simp: BatchImageJobStatusCompleted_def IsTerminalBatchImageJobStatus_def)
  next
    case False
    from Settle_already [OF S fj(1) False] have "\<not> sr_AlreadySettled r" .
    with S show ?thesis
    proof (rule Settle_fresh)
      fix job' w1' price w2 w4 and k :: int
      assume f: "find_job b (db w) = Some job'" and w1: "db w1' = db w"
        and cap: "captureBatchImageBalanceHold job' (of_int (j_SuccessCount job') * price)
             (BuildBatchImageSettlementManifestHash job') w1' = (None, w2)"
        and mk: "\<exists>params q. MarkBatchImageJobSettled now params (invalidateAuthCache (j_UserID job') w2) = (Inr q, w4)
             \<and> ms_BatchID params = b \<and> ms_ActualCost params = of_int (j_SuccessCount job') * price"
        and w': "\<exists>rid. w' = recordUsageLog job' (of_int (j_SuccessCount job') * price) rid now w4"
      let ?w3 = "invalidateAuthCache (j_UserID job') w2"
      have rows: "job_rows (db ?w3) = job_rows (db w)" using capture_keeps_rows [OF cap] w1 by simp
      from mk obtain params q where q: "MarkBatchImageJobSettled now params ?w3 = (Inr q, w4)"
        and b: "ms_BatchID params = b" by blast
      have u3: "unique_jobs (db ?w3)" using uniq unique_jobs_cong [OF rows] by simp
      have f3: "find_job (ms_BatchID params) (db ?w3) = Some job'" using f b find_job_cong [OF rows] by simp
      from MarkSettled_done(1) [OF q u3 f3] b obtain job2 where
        "find_job b (db w4) = Some job2" "j_Status job2 = ''completed''" by blast
      then have "finished b w4" by (rule finishedI) (simp add: IsTerminalBatchImageJobStatus_def BatchImageJobStatusCompleted_def)
      moreover from w' obtain rid where
        "w' = recordUsageLog job' (of_int (j_SuccessCount job') * price) rid now w4" by blast
      ultimately show ?thesis using finished_cong [OF usage_log_keeps(1)] by simp
    qed
  qed
qed

lemma index_settle_done:
  assumes "indexAndSettle env now job provider account w = (Inr r, w')" and "pr_Terminal r"
  shows "finished (j_BatchID job) w'"
proof -
  obtain x w1 where i: "Index env now job provider account w = (x, w1)" by fastforce
  show ?thesis
  proof (cases x)
    case (Inl e)
    with assms i have "\<exists>opts. finish_job now job BatchImageJobStatusFailed opts w1 = (Inr r, w')"
      by (auto simp: indexAndSettle_def Let_def requeue_result_def split: if_split_asm)
    then show ?thesis
      using finish_done by (fastforce simp: BatchImageJobStatusFailed_def IsTerminalBatchImageJobStatus_def)
  next
    case (Inr res)
    with assms i show ?thesis
      by (auto simp: indexAndSettle_def requeue_result_def split: prod.split_asm sum.split_asm)
  qed
qed

lemma status_done:
  assumes "handle_status env now job provider account status w = (Inr r, w')" and "pr_Terminal r"
  shows "finished (j_BatchID job) w'"
proof -
  have req: "\<not> pr_Terminal (requeue_result d)" for d by (simp add: requeue_result_def)
  have final: "IsTerminalBatchImageJobStatus BatchImageJobStatusFailed"
      "IsTerminalBatchImageJobStatus BatchImageJobStatusCancelled"
    by (simp_all add: BatchImageJobStatusFailed_def BatchImageJobStatusCancelled_def IsTerminalBatchImageJobStatus_def)
  consider
      (fin) s opts where "finish_job now job s opts w = (Inr r, w')" "IsTerminalBatchImageJobStatus s"
    | (idx) st w1 where "indexAndSettle env now (job\<lparr>j_Status := st\<rparr>) provider account w1 = (Inr r, w')"
    | (idx0) "indexAndSettle env now job provider account w = (Inr r, w')"
  proof -
    assume cases: "\<And>s opts. finish_job now job s opts w = (Inr r, w') \<Longrightarrow> IsTerminalBatchImageJobStatus s \<Longrightarrow> thesis"
      "\<And>st w1. indexAndSettle env now (job\<lparr>j_Status := st\<rparr>) provider account w1 = (Inr r, w') \<Longrightarrow> thesis"
      "indexAndSettle env now job provider account w = (Inr r, w') \<Longrightarrow> thesis"
    from assms req show thesis unfolding handle_status_def Let_def
      by (auto split: if_split_asm prod.split_asm sum.split_asm intro: cases final)
  qed
  then show ?thesis using assms(2)
    by cases (auto dest: finish_done index_settle_done)
qed

lemma process_done:
  assumes P: "Process env now b w = (Inr r, w')" and t: "pr_Terminal r"
    and j: "find_job b (db w) = Some job" and ns: "j_Status job \<noteq> BatchImageJobStatusSettling"
  shows "finished b w'"
proof -
  have req: "\<not> pr_Terminal (requeue_result d)" for d by (simp add: requeue_result_def)
  obtain w1 where g: "GetBatchImageJobByBatchID b w = (Inr job, w1)" and w1: "db w1 = db w"
    using P j get_job_Inr by (auto simp: Process_def split: prod.split_asm sum.split_asm)
  have bid: "j_BatchID job = b" using find_job_id [OF j] .
  consider
      (rel) "isBatchImageProcessorDoneStatus (j_Status job)" "releaseTerminalHold job w1 = (None, w')"
    | (idx) provider account where "indexAndSettle env now job provider account w1 = (Inr r, w')"
    | (status) ref job' w2 provider account st where
        "persistProviderOutputRef now job ref w1 = (Inr job', w2)"
        "handle_status env now job' provider account st w2 = (Inr r, w')"
  proof -
    assume cases:
      "isBatchImageProcessorDoneStatus (j_Status job) \<Longrightarrow> releaseTerminalHold job w1 = (None, w') \<Longrightarrow> thesis"
      "\<And>provider account. indexAndSettle env now job provider account w1 = (Inr r, w') \<Longrightarrow> thesis"
      "\<And>ref job' w2 provider account st. persistProviderOutputRef now job ref w1 = (Inr job', w2) \<Longrightarrow>
         handle_status env now job' provider account st w2 = (Inr r, w') \<Longrightarrow> thesis"
    from P g t req show thesis unfolding Process_def
      by (auto split: if_split_asm prod.split_asm sum.split_asm option.split_asm intro: cases)
  qed
  then show ?thesis
  proof cases
    case rel
    with ns have "IsTerminalBatchImageJobStatus (j_Status job)"
      by (simp add: isBatchImageProcessorDoneStatus_def)
    then have "finished b w1" using j w1 by (intro finishedI) auto
    then show ?thesis using finished_cong [OF release_terminal_keeps_rows [OF rel(2)]] by simp
  next
    case idx
    show ?thesis using index_settle_done [OF idx t] bid by simp
  next
    case status
    have "j_BatchID job' = b" using status(1) bid
      by (auto simp: persistProviderOutputRef_def Let_def split: if_split_asm prod.split_asm sum.split_asm)
    then show ?thesis using status_done [OF status(2) t] by simp
  qed
qed

lemma pipeline_done:
  assumes P: "Pipeline_Process env d (\<lambda>b. Process penv now b) now b w = (Inr r, w')"
    and t: "pr_Terminal r" and uniq: "unique_jobs (db w)"
  shows "finished b w'"
proof -
  obtain job w1 where g: "GetBatchImageJobByBatchID b w = (Inr job, w1)"
    using P by (auto simp: Pipeline_Process_def split: prod.split_asm sum.split_asm)
  from get_job_Inr [OF g] have j: "find_job b (db w1) = Some job" and u: "unique_jobs (db w1)"
    using uniq by auto
  show ?thesis
  proof (cases "j_Status job = BatchImageJobStatusSettling")
    case False
    with P g have "Process penv now b w1 = (Inr r, w')" by (simp add: Pipeline_Process_def)
    from process_done [OF this t j False] show ?thesis .
  next
    case True
    obtain x w2 where s: "Settle env now b w1 = (x, w2)" by fastforce
    show ?thesis
    proof (cases x)
      case (Inr res)
      with P g True s have "w' = w2" by (simp add: Pipeline_Process_def)
      with Settle_done [OF s [unfolded Inr] u] show ?thesis by simp
    next
      case (Inl e)
      obtain y w3 where y: "GetBatchImageJobByBatchID b w2 = (y, w3)" by fastforce
      with P g True s Inl t obtain updated where "y = Inr updated" "w' = w3"
          "IsTerminalBatchImageJobStatus (j_Status updated)"
        by (auto simp: Pipeline_Process_def requeue_result_def split: if_split_asm sum.split_asm)
      with get_job_Inr [OF y [unfolded \<open>y = Inr updated\<close>]] show ?thesis by (auto intro: finishedI)
    qed
  qed
qed

section \<open>A round takes the mark only of a finished job\<close>

lemma on_queue_rows: "db_exec (on_queue st) w = (r, w') \<Longrightarrow> job_rows (db w') = job_rows (db w)"
  by (erule db_exec_keeps [where f = job_rows]) (rule on_queue_other)

lemma on_queue_inflight:
  assumes "db_exec (on_queue st) w = (r, w')" and "\<And>q. inflight (snd (st q)) m = inflight q m"
  shows "inflight (queue (db w')) m = inflight (queue (db w)) m"
  using assms(1) by (rule db_exec_keeps [where f = "\<lambda>d. inflight (queue d) m"]) (simp add: assms(2))

lemma inflight_kept:
  "inflight (snd (reserveOnce now q)) = inflight q"
  "inflight (snd (RequeueAfter now b delay q)) = inflight q"
  "m \<noteq> b \<Longrightarrow> inflight (snd (Ack b q)) m = inflight q m"
  "inflight (snd (Heartbeat now b q)) = inflight q"
  "inflight (snd (TryAcquireJobLock cfg now random b ttl q)) = inflight q"
  "inflight (snd (lock_Release now b token q)) = inflight q"
  "inflight (snd (lock_Refresh now b token ttl q)) = inflight q"
  by (simp_all add: reserveOnce_def RequeueAfter_def Ack_def Heartbeat_def TryAcquireJobLock_def
      lock_Release_def lock_Refresh_def Let_def)

definition same_marks :: "string \<Rightarrow> batch_db world \<Rightarrow> batch_db world \<Rightarrow> bool" where
  "same_marks m w w' \<longleftrightarrow> job_rows (db w') = job_rows (db w)
     \<and> inflight (queue (db w')) m = inflight (queue (db w)) m"

lemma same_marksI:
  "db_exec (on_queue st) w = (r, w') \<Longrightarrow> (\<And>q. inflight (snd (st q)) m = inflight q m) \<Longrightarrow> same_marks m w w'"
  unfolding same_marks_def using on_queue_rows on_queue_inflight by blast

lemma same_marks_refl: "same_marks m w w"
  by (simp add: same_marks_def)

lemma same_marks_trans: "same_marks m w w' \<Longrightarrow> same_marks m w' w'' \<Longrightarrow> same_marks m w w''"
  by (simp add: same_marks_def)

lemma Reserve_marks: "Reserve deadline ts w = (r, w') \<Longrightarrow> same_marks m w w'"
proof (induction deadline ts w rule: Reserve.induct)
  case (2 deadline t ts w)
  obtain x w1 where x: "db_exec (on_queue (reserveOnce t)) w = (x, w1)" by fastforce
  have m: "same_marks m w w1" by (rule same_marksI [OF x]) (simp add: inflight_kept)
  with 2 x show ?case
    by (cases x) (auto split: if_split_asm intro: same_marks_trans)
qed (simp add: same_marks_refl)

lemma requeue_marks: "requeue_call now b delay w = (r, w') \<Longrightarrow> same_marks m w w'"
  by (auto simp: requeue_call_def split: prod.split_asm sum.split_asm
      intro!: same_marksI simp: inflight_kept)

lemma ack_marks: "ack_call b w = (r, w') \<Longrightarrow> m \<noteq> b \<Longrightarrow> same_marks m w w'"
  by (auto simp: ack_call_def split: prod.split_asm sum.split_asm
      intro!: same_marksI simp: inflight_kept)

lemma ack_rows: "ack_call b w = (r, w') \<Longrightarrow> job_rows (db w') = job_rows (db w)"
  by (auto simp: ack_call_def split: prod.split_asm sum.split_asm dest: on_queue_rows)

lemma heartbeat_marks: "same_marks m w (runJobHeartbeat opts b token ts w)"
proof (induction opts b token ts w rule: runJobHeartbeat.induct)
  case (2 opts b token t ts w)
  obtain r1 w1 r2 w2 where 1: "db_exec (on_queue (Heartbeat t b)) w = (r1, w1)"
    and 2: "db_exec (on_queue (lock_Refresh t b token (JobLockTTL opts))) w1 = (r2, w2)"
    by (metis prod.collapse)
  have "same_marks m w w1" by (rule same_marksI [OF 1]) (simp add: inflight_kept)
  moreover have "same_marks m w1 w2" by (rule same_marksI [OF 2]) (simp add: inflight_kept)
  ultimately have "same_marks m w w2" by (rule same_marks_trans)
  then show ?case using "2.IH" [OF refl refl] 1 2 by (auto intro: same_marks_trans)
qed (simp add: same_marks_refl)

lemma RunOnce_marks:
  assumes run: "RunOnce cfg opts processor start r w = (res, w')"
    and lost: "inflight (queue (db w')) m \<noteq> inflight (queue (db w)) m"
    and proc: "\<And>b v. queue (db (snd (processor b v))) = queue (db v)"
  obtains v y v' where "job_rows (db v) = job_rows (db w)" "processor m v = (Inr y, v')"
    "pr_Terminal y" "job_rows (db w') = job_rows (db v')"
proof -
  have differ: "\<not> same_marks m w w'" using lost by (simp add: same_marks_def)
  obtain x w1 where x: "Reserve (start + ReserveBlockTimeout opts) (polls r) w = (x, w1)" by fastforce
  note m1 = Reserve_marks [OF x, of m]
  from run x m1 differ obtain b where b: "x = Inr b" by (cases x) (auto simp: RunOnce_def)
  obtain l w2 where l: "db_exec (on_queue (TryAcquireJobLock cfg (lock_time r) (token_bytes r) b
      (JobLockTTL opts))) w1 = (l, w2)" by fastforce
  have "same_marks m w1 w2" by (rule same_marksI [OF l]) (simp add: inflight_kept)
  with m1 have m2: "same_marks m w w2" by (rule same_marks_trans)
  have "\<exists>token. l = Inr (Some token)"
  proof (rule ccontr)
    assume "\<nexists>token. l = Inr (Some token)"
    with run x b l obtain e where "requeue_call (requeue_time r) b (LockConflictDelay opts) w2 = (e, w')"
      by (auto simp: RunOnce_def split: sum.split_asm option.split_asm prod.split_asm)
    from same_marks_trans [OF m2 requeue_marks [OF this]] differ show False by simp
  qed
  then obtain token where token: "l = Inr (Some token)" by blast
  obtain y w3 where y: "processor b w2 = (y, w3)" by fastforce
  have q3: "queue (db w3) = queue (db w2)" using proc [of b w2] y by simp
  let ?w4 = "runJobHeartbeat opts b token (ticks r) w3"
  obtain err w5 where e: "(case y of
        Inl _ \<Rightarrow> requeue_call (requeue_time r) b (ErrorRetryDelay opts) ?w4
      | Inr res \<Rightarrow> if pr_Terminal res then ack_call b ?w4
          else requeue_call (requeue_time r) b
            (if pr_RequeueAfter res \<le> 0 then DefaultRequeueDelay opts else pr_RequeueAfter res) ?w4)
      = (err, w5)" by fastforce
  from run x b l token y e have w': "w' = snd (db_exec (on_queue (lock_Release (requeue_time r) b token)) w5)"
    by (simp add: RunOnce_def Let_def)
  have m6: "same_marks m w5 w'" unfolding w'
    by (rule same_marksI [OF prod.collapse [symmetric]]) (simp add: inflight_kept)
  note m4 = heartbeat_marks [of m w3 opts b token "ticks r"]
  have moved: "inflight (queue (db w5)) m \<noteq> inflight (queue (db ?w4)) m"
    using lost m2 m4 m6 q3 by (simp add: same_marks_def)
  obtain out where out: "y = Inr out" "pr_Terminal out" and a: "ack_call b ?w4 = (err, w5)"
    using e moved by (auto simp: same_marks_def split: sum.split_asm if_split_asm
        dest: requeue_marks [where m = m])
  have bm: "b = m" using ack_marks [OF a, of m] moved by (auto simp: same_marks_def)
  show thesis
  proof (rule that)
    show "processor m w2 = (Inr out, w3)" using y out bm by simp
    show "job_rows (db w2) = job_rows (db w)" using m2 by (simp add: same_marks_def)
    show "job_rows (db w') = job_rows (db w3)" using m6 m4 ack_rows [OF a] by (simp add: same_marks_def)
  qed (rule out(2))
qed


text \<open>
  The steps of the workers and submitters on the shared database and queue: rounds, the two
  background moves, new jobs, and the faults that the calls to come meet.
\<close>

inductive worker_step ::
    "queue_config \<Rightarrow> BatchImageWorkerOptions \<Rightarrow> settlement_env \<Rightarrow> 'acc processor_env
       \<Rightarrow> batch_db world \<Rightarrow> batch_db world \<Rightarrow> bool"
  for cfg opts env penv where
  round: "RunOnce cfg opts (\<lambda>b. Pipeline_Process env d (\<lambda>b. Process penv now b) now b) start r w = (e, w')
            \<Longrightarrow> worker_step cfg opts env penv w w'"
| move: "MoveDueDelayedOnce opts now w = (n, w') \<Longrightarrow> worker_step cfg opts env penv w w'"
| recover: "RecoverStaleActiveOnce opts now w = (n, w') \<Longrightarrow> worker_step cfg opts env penv w w'"
| enqueue: "EnqueueBatchImageJob cfg now b w = (u, w') \<Longrightarrow> worker_step cfg opts env penv w w'"
| environment: "worker_step cfg opts env penv w (w\<lparr>faults := fs\<rparr>)"

lemma queue_pipeline_snd:
  "queue (db (snd (Pipeline_Process env d (\<lambda>b. Process penv now b) now b w))) = queue (db w)"
  by (rule queue_pipeline [OF prod.collapse [symmetric]])

lemma worker_step_ok:
  assumes "worker_step cfg opts env penv w w'" and "queue_ok (queue (db w))"
  shows "queue_ok (queue (db w'))"
  using assms(1)
proof cases
  case (round d now start r e)
  show ?thesis by (rule RunOnce_ok [OF round assms(2)]) (simp add: queue_pipeline_snd)
next
  case (move now n)
  have "queue_step cfg q (snd (MoveDueDelayedToReady now (DelayedMoveLimit opts) q))" for q
    by (metis prod.collapse queue_step.intros)
  from queue_call_ok [OF move [unfolded MoveDueDelayedOnce_def] assms(2) this] show ?thesis .
next
  case (recover now n)
  have "queue_step cfg q (snd (RecoverStaleActive now (StaleActiveAfter opts) (RecoverLimit opts) q))" for q
    by (metis prod.collapse queue_step.intros)
  from queue_call_ok [OF recover [unfolded RecoverStaleActiveOnce_def] assms(2) this] show ?thesis .
next
  case (enqueue now b u)
  obtain x w1 where x: "GetBatchImageJobByBatchID b w = (x, w1)" by fastforce
  note q1 = queue_get [OF x]
  from enqueue x consider "w' = w" | "w' = w1" | "db_exec (on_queue (Enqueue cfg now b)) w1 = (u, w')"
    by (auto simp: EnqueueBatchImageJob_def split: if_split_asm sum.split_asm)
  then show ?thesis
    by cases (use q1 assms(2) queue_call_ok [OF _ _ queue_steps(1)] in auto)
next
  case (environment fs)
  then show ?thesis using assms(2) by simp
qed

text \<open>
  No job is lost between the queue, the workers and the database: whatever rounds of
  workers, background moves and submissions run in any order, and whatever calls of theirs to
  the database and to the queue fail before or after they took effect, a job whose mark keeps
  others from queueing it is still in the ready list, the delayed set or the active set.
\<close>

theorem workers_keep_jobs_queued:
  assumes "(worker_step cfg opts env penv)\<^sup>*\<^sup>* w w'" and "queue (db w) = empty_queue"
    and "inflight (queue (db w')) b \<noteq> None"
  shows "b \<in> set (ready (queue (db w'))) \<union> fst ` set (delayed (queue (db w')))
           \<union> fst ` set (active (queue (db w')))"
proof -
  from assms(1) have "queue_ok (queue (db w'))"
    by (induction rule: rtranclp_induct) (use assms(2) empty_queue_ok worker_step_ok in auto)
  from queue_okD(1) [OF this, of b] assms(3) show ?thesis
    by (simp add: queued_def members_def marked_def)
qed

definition sample_penv :: "unit processor_env" where
  "sample_penv = \<lparr>error_text = (\<lambda>_. ''''), quote = (\<lambda>s. s), Unmarshal = (\<lambda>_. Inl ''''),
     ProviderRegistry = (\<lambda>_. None), ResolveBatchImageAccount = (\<lambda>_. Inr ()), DefaultRequeue = 0\<rparr>"

definition sample_worker_options :: BatchImageWorkerOptions where
  "sample_worker_options = normalizeBatchImageWorkerOptions
     \<lparr>ReserveBlockTimeout = 0, JobLockTTL = 0, LockConflictDelay = 0, DefaultRequeueDelay = 0,
      ErrorRetryDelay = 0, ErrorBackoff = 0, DelayedPollInterval = 0, RecoveryInterval = 0,
      StaleActiveAfter = 0, DelayedMoveLimit = 0, RecoverLimit = 0\<rparr>"

text \<open>A completed job, and a world that holds it with a given queue.\<close>

definition sample_done_job :: BatchImageJob where
  "sample_done_job = sample_job\<lparr>j_BatchID := ''imgbatch_1'', j_Status := ''completed''\<rparr>"

definition sample_queue_world :: "batch_queue \<Rightarrow> batch_db world" where
  "sample_queue_world q = \<lparr>db = sample_jobs\<lparr>job_rows := [sample_done_job], queue := q\<rparr>, faults = []\<rparr>"

lemma sample_queue_world_sels:
  "find_job ''imgbatch_1'' (db (sample_queue_world q)) = Some sample_done_job"
  "unique_jobs (db (sample_queue_world q))" "faults (sample_queue_world q) = []"
  "queue (db (sample_queue_world q)) = q"
  by (simp_all add: sample_queue_world_def find_job_def unique_jobs_def sample_done_job_def)

lemma sample_queue_exec:
  "db_exec (on_queue st) (sample_queue_world q) = (fst (st q), sample_queue_world (snd (st q)))"
  by (simp add: db_exec_reliable sample_queue_world_def on_queue_def split: prod.splits)

lemma sample_id: "IsValidBatchImageID ''imgbatch_1''"
  by (simp add: IsValidBatchImageID_def HasPrefix_def)

lemma workers_keep_jobs_queued_witness:
  "let w = snd (EnqueueBatchImageJob sample_config 0 ''imgbatch_1'' (sample_queue_world empty_queue))
   in ''imgbatch_1'' \<in> set (ready (queue (db w))) \<union> fst ` set (delayed (queue (db w)))
        \<union> fst ` set (active (queue (db w)))"
  unfolding Let_def
proof (rule workers_keep_jobs_queued
    [of sample_config sample_worker_options sample_env sample_penv "sample_queue_world empty_queue"])
  let ?w = "sample_queue_world empty_queue"
  let ?e = "snd (EnqueueBatchImageJob sample_config 0 ''imgbatch_1'' ?w)"
  show "(worker_step sample_config sample_worker_options sample_env sample_penv)\<^sup>*\<^sup>* ?w ?e"
    by (rule r_into_rtranclp, rule worker_step.enqueue) (rule prod.collapse [symmetric])
  show "queue (db ?w) = empty_queue" by (rule sample_queue_world_sels)
  have "GetBatchImageJobByBatchID ''imgbatch_1'' ?w = (Inr sample_done_job, ?w)"
    by (rule get_job_reliable) (simp_all add: sample_queue_world_sels)
  then show "inflight (queue (db ?e)) ''imgbatch_1'' \<noteq> None"
    by (simp add: EnqueueBatchImageJob_def sample_id db_exec_reliable sample_queue_world_sels
        Enqueue_def empty_queue_def live_mark_def)
qed

text \<open>
  C16. A round of a worker lets go of a job only when the job is finished: if the mark of a job
  that was in flight is gone after a round, whatever calls failed in it, the job is completed,
  failed, cancelled or its output is deleted.
\<close>

theorem released_job_is_finished:
  assumes "RunOnce cfg opts (\<lambda>b. Pipeline_Process env d (\<lambda>b. Process penv now b) now b) start r w = (e, w')"
    and "unique_jobs (db w)"
    and "inflight (queue (db w)) b \<noteq> None" and "inflight (queue (db w')) b = None"
  shows "\<exists>j. find_job b (db w') = Some j \<and> IsTerminalBatchImageJobStatus (j_Status j)"
proof -
  have "finished b w'"
  proof (rule RunOnce_marks [OF assms(1), of b])
    show "inflight (queue (db w')) b \<noteq> inflight (queue (db w)) b" using assms(3,4) by metis
    fix v y v'
    assume rows: "job_rows (db v) = job_rows (db w)" "job_rows (db w') = job_rows (db v')"
      and run: "Pipeline_Process env d (\<lambda>b. Process penv now b) now b v = (Inr y, v')" "pr_Terminal y"
    from unique_jobs_cong [OF rows(1)] assms(2) have "unique_jobs (db v)" by simp
    from pipeline_done [OF run this] show ?thesis using finished_cong [OF rows(2)] by simp
  qed (rule queue_pipeline_snd)
  then show ?thesis by (auto simp: finished_def split: option.split_asm)
qed

definition sample_round :: round_env where
  "sample_round = \<lparr>polls = [0], lock_time = 0, ticks = [0], requeue_time = 0, token_bytes = [1]\<rparr>"

definition sample_full_queue :: batch_queue where
  "sample_full_queue = empty_queue\<lparr>ready := [''imgbatch_1''], inflight := [''imgbatch_1'' \<mapsto> 9]\<rparr>"

lemma released_job_is_finished_witness:
  "\<exists>j. find_job ''imgbatch_1'' (db (snd (RunOnce sample_config sample_worker_options
         (\<lambda>b. Pipeline_Process sample_env 0 (\<lambda>b. Process sample_penv 0 b) 0 b) 0 sample_round
         (sample_queue_world sample_full_queue)))) = Some j \<and> IsTerminalBatchImageJobStatus (j_Status j)"
proof (rule released_job_is_finished [OF prod.collapse [symmetric]])
  let ?w = "sample_queue_world sample_full_queue"
  let ?proc = "\<lambda>b. Pipeline_Process sample_env 0 (\<lambda>b. Process sample_penv 0 b) 0 b"
  show "unique_jobs (db ?w)" and "inflight (queue (db ?w)) ''imgbatch_1'' \<noteq> None"
    by (simp_all add: sample_queue_world_sels sample_full_queue_def)
  have get: "GetBatchImageJobByBatchID ''imgbatch_1'' (sample_queue_world q)
      = (Inr sample_done_job, sample_queue_world q)" for q
    by (rule get_job_reliable) (simp_all add: sample_queue_world_sels)
  have proc: "?proc ''imgbatch_1'' (sample_queue_world q) = (Inr terminal_result, sample_queue_world q)" for q
    by (simp add: Pipeline_Process_def Process_def get
        sample_done_job_def isBatchImageProcessorDoneStatus_def IsTerminalBatchImageJobStatus_def
        releaseTerminalHold_def BatchImageJobStatusSettling_def BatchImageJobStatusCompleted_def
        BatchImageJobStatusFailed_def BatchImageJobStatusCancelled_def)
  let ?q1 = "sample_full_queue\<lparr>ready := [], active := [(''imgbatch_1'', UnixMilli 0)]\<rparr>"
  have res: "Reserve t [0] ?w = (Inr ''imgbatch_1'', sample_queue_world ?q1)" for t
    by (simp add: sample_queue_exec reserveOnce_def sample_full_queue_def empty_queue_def sample_id
        ZADD_def ZREM_def Let_def)
  have "TryAcquireJobLock sample_config 0 [1] ''imgbatch_1'' ttl ?q1
      = (Inr (Some (newBatchImageLockToken [1])), snd (TryAcquireJobLock sample_config 0 [1] ''imgbatch_1'' ttl ?q1))" for ttl
    by (simp add: TryAcquireJobLock_def sample_id sample_full_queue_def empty_queue_def live_lock_def Let_def)
  then obtain q2 where lock: "TryAcquireJobLock sample_config 0 [1] ''imgbatch_1''
      (JobLockTTL sample_worker_options) ?q1 = (Inr (Some (newBatchImageLockToken [1])), q2)" by blast
  show "inflight (queue (db (snd (RunOnce sample_config sample_worker_options ?proc 0 sample_round ?w))))
      ''imgbatch_1'' = None"
    by (simp add: RunOnce_def sample_round_def res sample_queue_exec lock proc Let_def
        terminal_result_def ack_call_def Ack_def sample_id inflight_kept sample_queue_world_sels
        del: Reserve.simps)
qed

end
