(* ===== verification/Batch_Image_Index_Facts.thy ===== *)
theory Batch_Image_Index_Facts
  imports Batch_Image_Processor Batch_Image_Billing_Facts
begin

text \<open>
  The result indexer: the paged listing of the submitted items equals the whole listing, every
  item of a submission has exactly one row after indexing, whatever lines the provider wrote, and
  the counts of the job are those of the rows.
\<close>

section \<open>The submitted items\<close>

definition rows_of :: "string \<Rightarrow> batch_db \<Rightarrow> BatchImageItem list" where
  "rows_of b d = filter (\<lambda>i. i_JobID i = b) (item_rows d)"

definition listing :: "string \<Rightarrow> batch_db \<Rightarrow> BatchImageItem list" where
  "listing b d = sort_key i_ID (rows_of b d)"

lemma rows_of_cong: "item_rows d' = item_rows d \<Longrightarrow> rows_of b d' = rows_of b d"
  by (simp add: rows_of_def)

lemma set_listing: "set (listing b d) = set (rows_of b d)"
  by (simp add: listing_def)

lemma remdups_prefix: "remdups (map f (take n xs) @ map f (drop n xs)) = remdups (map f xs)"
  by (metis append_take_drop_id map_append)

lemma items_page:
  assumes "ListBatchImageItems b \<lparr>f_Status = '''', f_Limit = 500, f_Offset = int n\<rparr> w = (Inr rows, w')"
  shows "rows = take 500 (drop n (listing b (db w)))" "db w' = db w"
  using ListBatchImageItems_page [OF assms] ListBatchImageItems_db [OF assms]
  by (simp_all add: listing_def rows_of_def)

lemma listExpected_lists:
  assumes "listExpectedCustomIDs b n ex w = (Inr ids, w')"
    and "ex = map i_CustomID (take n (listing b (db w)))"
  shows "ids = remdups (map i_CustomID (listing b (db w)))" "db w' = db w"
proof -
  have "ids = remdups (map i_CustomID (listing b (db w))) \<and> db w' = db w"
    using assms
  proof (induction b n ex w rule: listExpectedCustomIDs.induct)
    case (1 b n ex w)
    obtain x w1 where x: "ListBatchImageItems b \<lparr>f_Status = '''', f_Limit = 500, f_Offset = int n\<rparr> w = (x, w1)"
      by fastforce
    with 1(2) obtain rows where xr: "x = Inr rows"
      by (cases x) (simp_all add: listExpectedCustomIDs.simps [of b n])
    note page = items_page [OF x [unfolded xr]]
    have ex1: "ex @ map i_CustomID rows = map i_CustomID (take (n + 500) (listing b (db w)))"
      unfolding 1(3) page(1) by (simp add: take_add flip: map_append)
    show ?case
    proof (cases "length rows < 500")
      case True
      with page(1) have all: "take (n + 500) (listing b (db w)) = listing b (db w)" by simp
      from 1(2) x xr True have "ids = remdups (ex @ map i_CustomID rows)" "w' = w1"
        by (simp_all add: listExpectedCustomIDs.simps [of b n] Let_def)
      then show ?thesis using ex1 all page(2) by simp
    next
      case False
      with page(1) have len: "length rows = 500" by simp
      from 1(2) x xr False have rec: "listExpectedCustomIDs b (n + length rows) (ex @ map i_CustomID rows) w1 = (Inr ids, w')"
        by (simp add: listExpectedCustomIDs.simps [of b n] Let_def)
      have "ex @ map i_CustomID rows = map i_CustomID (take (n + length rows) (listing b (db w1)))"
        using ex1 len page(2) by simp
      from 1(1) [OF x [symmetric] xr refl False rec this] page(2) show ?thesis by simp
    qed
  qed
  then show "ids = remdups (map i_CustomID (listing b (db w)))" "db w' = db w" by blast+
qed

lemma items_reliable:
  assumes "faults w = []"
  shows "ListBatchImageItems b \<lparr>f_Status = '''', f_Limit = 500, f_Offset = int n\<rparr> w
    = (Inr (take 500 (drop n (listing b (db w)))), w)"
  using assms by (simp add: ListBatchImageItems_def Let_def db_exec_reliable page_def listing_def rows_of_def)

lemma listExpected_reliable:
  "faults w = [] \<Longrightarrow> \<exists>ids. listExpectedCustomIDs b n ex w = (Inr ids, w)"
proof (induction b n ex w rule: listExpectedCustomIDs.induct)
  case (1 b n ex w)
  let ?rows = "take 500 (drop n (listing b (db w)))"
  note page = items_reliable [OF 1(2), of b n]
  show ?case
  proof (cases "length ?rows < 500")
    case True
    with page show ?thesis by (simp add: listExpectedCustomIDs.simps [of b n] Let_def)
  next
    case False
    from 1(1) [OF page [symmetric] refl refl False 1(2)] page False show ?thesis
      by (simp add: listExpectedCustomIDs.simps [of b n] Let_def)
  qed
qed

text \<open>
  C17. The paged listing of the submitted custom ids is the whole listing: whatever the number of
  items and wherever they fall on the pages of five hundred, the loop ends with the custom ids
  that one query over all items of the job, in the order of their ids, would give.
\<close>

theorem paged_listing_is_complete:
  assumes "faults w = []"
  shows "listExpectedCustomIDs b 0 [] w
    = (Inr (remdups (map i_CustomID (sort_key i_ID (filter (\<lambda>i. i_JobID i = b) (item_rows (db w)))))), w)"
proof -
  from listExpected_reliable [OF assms, of b 0 "[]"]
  obtain ids where ids: "listExpectedCustomIDs b 0 [] w = (Inr ids, w)" by blast
  from listExpected_lists(1) [OF ids] show ?thesis
    by (simp add: ids listing_def rows_of_def)
qed

section \<open>The rows written\<close>

lemma insert_items_writes:
  assumes "insert_items now ps d = (Inr u, d')" and "\<forall>p \<in> set ps. ip_JobID p = b"
  shows "\<exists>new. item_rows d' = item_rows d @ new
    \<and> map i_CustomID new = map ip_CustomID ps \<and> map i_Status new = map ip_Status ps
    \<and> (\<forall>i \<in> set new. i_JobID i = b)"
  using assms
proof (induction now ps d rule: insert_items.induct)
  case (2 now p ps d)
  obtain x d1 where x: "insert_item now p d = (x, d1)" by fastforce
  with 2(2) obtain i where xi: "x = Inr i" by (cases x) simp_all
  have "item_rows d1 = item_rows d @ [i]" "i_CustomID i = ip_CustomID p" "i_Status i = ip_Status p"
      "i_JobID i = ip_JobID p"
    using x xi by (auto simp: insert_item_def Let_def split: if_split_asm)
  moreover from 2(2) x xi have "insert_items now ps d1 = (Inr u, d')" by simp
  from 2(1) [OF x [symmetric] xi this] 2(3) obtain new where
    "item_rows d' = item_rows d1 @ new" "map i_CustomID new = map ip_CustomID ps"
    "map i_Status new = map ip_Status ps" "\<forall>i \<in> set new. i_JobID i = b" by auto
  ultimately show ?case using 2(3) by (intro exI [of _ "i # new"]) simp
qed simp

lemma replace_items_writes:
  assumes "ReplaceBatchImageItemsForJob now b new counts w = (Inr u, w')"
  shows "map i_CustomID (rows_of b (db w')) = map ip_CustomID new"
    and "map i_Status (rows_of b (db w')) = map ip_Status new"
    and "rows_of c (db w') = (if c = b then rows_of b (db w') else rows_of c (db w))"
    and "\<exists>job. find_job b (db w') = Some job
           \<and> j_SuccessCount job = c_SuccessCount counts \<and> j_FailCount job = c_FailCount counts"
proof -
  have st: "replaceBatchImageItemsForJobWithSQL now b new counts (db w) = (Inr u, db w')"
    using db_exec_Inr [OF assms [unfolded ReplaceBatchImageItemsForJob_def]] by (simp add: atomically_Inr)
  then obtain job where job: "find_job b (db w) = Some job"
    by (auto simp: replaceBatchImageItemsForJobWithSQL_def split: option.split_asm)
  let ?d1 = "(db w)\<lparr>item_rows := filter (\<lambda>i. i_JobID i \<noteq> b) (item_rows (db w))\<rparr>"
  let ?ps = "map (\<lambda>p. let p1 = p\<lparr>ip_JobID := b\<rparr>
       in if ip_PromptPreview p1 = None
          then p1\<lparr>ip_PromptPreview := map_of (batchImageItemPromptPreviews b (db w)) (ip_CustomID p1)\<rparr>
          else p1) new"
  let ?upd = "\<lambda>j :: BatchImageJob. j\<lparr>j_SuccessCount := c_SuccessCount counts,
       j_FailCount := c_FailCount counts, j_UpdatedAt := now\<rparr>"
  obtain x d2 where ins: "insert_items now ?ps ?d1 = (x, d2)" by fastforce
  with st job obtain v where xv: "x = Inr v" and w': "db w' = snd (update_jobs (has_batch_id b) ?upd d2)"
    by (cases x) (simp_all add: replaceBatchImageItemsForJobWithSQL_def Let_def split: if_split_asm)
  have jobs: "\<forall>p \<in> set ?ps. ip_JobID p = b" by (auto simp: Let_def)
  have proj: "map ip_CustomID ?ps = map ip_CustomID new" "map ip_Status ?ps = map ip_Status new"
    by (simp_all add: Let_def)
  from insert_items_writes [OF ins [unfolded xv] jobs] obtain rows where
    rows: "item_rows d2 = item_rows ?d1 @ rows" "map i_CustomID rows = map ip_CustomID new"
      "map i_Status rows = map ip_Status new" "\<forall>i \<in> set rows. i_JobID i = b"
    unfolding proj by blast
  have items: "item_rows (db w') = filter (\<lambda>i. i_JobID i \<noteq> b) (item_rows (db w)) @ rows"
    unfolding w' using rows(1) by (simp add: update_jobs_def)
  have b: "rows_of b (db w') = rows"
    using rows(4) by (simp add: rows_of_def items filter_id_conv filter_empty_conv)
  then show "map i_CustomID (rows_of b (db w')) = map ip_CustomID new"
    and "map i_Status (rows_of b (db w')) = map ip_Status new" using rows(2,3) by simp_all
  show "rows_of c (db w') = (if c = b then rows_of b (db w') else rows_of c (db w))"
  proof (cases "c = b")
    case False
    have "filter (\<lambda>i. i_JobID i = c) rows = []" using rows(4) False by (auto simp: filter_empty_conv)
    with False show ?thesis
      by (simp add: rows_of_def items) (metis (mono_tags, lifting) filter_cong)
  qed simp
  have "find_job b d2 = Some job"
    using job insert_items_rows [OF ins] find_job_cong [of d2 ?d1 b] find_job_cong [of ?d1 "db w" b] by simp
  from find_update_same [OF _ this, of ?upd] show "\<exists>job. find_job b (db w') = Some job
      \<and> j_SuccessCount job = c_SuccessCount counts \<and> j_FailCount job = c_FailCount counts"
    unfolding w' by simp
qed

section \<open>The lines read\<close>

text \<open>What the loop over the lines keeps of its state.\<close>

definition index_ok :: "string list \<Rightarrow> index_state \<Rightarrow> bool" where
  "index_ok expected s \<longleftrightarrow>
     map ip_CustomID (index_items s) = rev (map fst (seen s)) \<and> distinct (map fst (seen s))
     \<and> set (map fst (seen s)) \<subseteq> set expected
     \<and> ir_TotalCount (index_result s) = int (length (index_items s))
     \<and> ir_SuccessCount (index_result s)
         = int (length (filter (\<lambda>p. ip_Status p = BatchImageItemStatusSuccess) (index_items s)))
     \<and> ir_FailCount (index_result s) = ir_TotalCount (index_result s) - ir_SuccessCount (index_result s)"

lemma status_differ: "BatchImageItemStatusFailed \<noteq> BatchImageItemStatusSuccess"
  by (simp add: BatchImageItemStatusFailed_def BatchImageItemStatusSuccess_def)

lemma result_item_sels [simp]:
  "ip_CustomID (result_item now job src parsed) = pp_CustomID parsed"
  "ip_Status (result_item now job src parsed) = (if pp_Status parsed = BatchImageParsedStatusSucceeded
     then BatchImageItemStatusSuccess else BatchImageItemStatusFailed)"
  by (simp_all add: result_item_def Let_def)

lemma missing_item_sels [simp]:
  "ip_CustomID (missing_item now job src c) = c"
  "ip_Status (missing_item now job src c) = BatchImageItemStatusFailed"
  by (simp_all add: missing_item_def)

lemma count_result_sels [simp]:
  "ir_TotalCount (count_result ok r) = ir_TotalCount r + 1"
  "ir_SuccessCount (count_result ok r) = ir_SuccessCount r + (if ok then 1 else 0)"
  "ir_FailCount (count_result ok r) = ir_FailCount r + (if ok then 0 else 1)"
  by (simp_all add: count_result_def)

lemma index_ok_empty: "index_ok expected empty_index"
  by (simp add: index_ok_def empty_index_def)

lemma index_lines_ok:
  assumes "index_lines env now job src expected n ls s = Inr s'" and "expected \<noteq> []" and "index_ok expected s"
  shows "index_ok expected s'"
  using assms
proof (induction env now job src expected n ls s rule: index_lines.induct)
  case (2 env now job src expected n raw ls s)
  let ?line = "TrimSpace raw"
  show ?case
  proof (cases "?line = ''''")
    case True
    with 2(4) have "index_lines env now job src expected (n + 1) ls s = Inr s'" by (simp add: Let_def)
    from 2(1) [OF refl refl True this 2(5,6)] show ?thesis .
  next
    case ne: False
    then obtain parsed where p: "ParseBatchImageResultLine (Unmarshal env) ?line (n + 1) = Inr parsed"
      using 2(4) by (cases "ParseBatchImageResultLine (Unmarshal env) ?line (n + 1)") (simp_all add: Let_def)
    show ?thesis
    proof (cases "pp_CustomID parsed \<in> set expected")
      case False
      have ok: "index_ok expected (s\<lparr>unknownCount := unknownCount s + 1\<rparr>)"
        using 2(6) by (simp add: index_ok_def)
      have "index_lines env now job src expected (n + 1) ls (s\<lparr>unknownCount := unknownCount s + 1\<rparr>) = Inr s'"
        using 2(4) ne p False 2(5) by (simp add: Let_def)
      from 2(2) [OF refl refl ne p _ this 2(5) ok] False 2(5) show ?thesis by blast
    next
      case True
      then have fresh: "map_of (seen s) (pp_CustomID parsed) = None"
        using 2(4) ne p by (cases "map_of (seen s) (pp_CustomID parsed)") (simp_all add: Let_def)
      let ?s = "s\<lparr>seen := (pp_CustomID parsed, n + 1) # seen s,
         index_items := index_items s @ [result_item now job src parsed],
         index_result := count_result (pp_Status parsed = BatchImageParsedStatusSucceeded) (index_result s)\<rparr>"
      have run: "index_lines env now job src expected (n + 1) ls ?s = Inr s'"
        using 2(4) ne p True fresh by (simp add: Let_def)
      have ok: "index_ok expected ?s"
        using 2(6) fresh True status_differ by (auto simp: index_ok_def map_of_eq_None_iff)
      from 2(3) [OF refl refl ne p _ fresh run 2(5) ok] True show ?thesis by blast
    qed
  qed
qed simp

lemma fold_count_failed:
  "ir_TotalCount (fold (\<lambda>_. count_result False) xs r) = ir_TotalCount r + int (length xs)"
  "ir_SuccessCount (fold (\<lambda>_. count_result False) xs r) = ir_SuccessCount r"
  "ir_FailCount (fold (\<lambda>_. count_result False) xs r) = ir_FailCount r + int (length xs)"
  by (induction xs arbitrary: r) simp_all

lemma add_missing_ok:
  assumes "index_ok expected s" and "distinct expected"
    and "add_missing now job src expected s = (s', n)"
  shows "set (map ip_CustomID (index_items s')) = set expected"
    and "distinct (map ip_CustomID (index_items s'))"
    and "ir_TotalCount (index_result s') = int (length (index_items s'))"
    and "ir_SuccessCount (index_result s')
      = int (length (filter (\<lambda>p. ip_Status p = BatchImageItemStatusSuccess) (index_items s')))"
    and "ir_FailCount (index_result s') = ir_TotalCount (index_result s') - ir_SuccessCount (index_result s')"
proof -
  let ?m = "sort (filter (\<lambda>c. map_of (seen s) c = None) expected)"
  from assms(3) have s': "index_items s' = index_items s @ map (missing_item now job src) ?m"
    "index_result s' = fold (\<lambda>_. count_result False) ?m (index_result s)"
    by (auto simp: add_missing_def Let_def)
  have ids: "map ip_CustomID (index_items s') = rev (map fst (seen s)) @ ?m"
    using assms(1) by (simp add: s' index_ok_def comp_def)
  have miss: "set ?m = set expected - set (map fst (seen s))"
    by (auto simp: map_of_eq_None_iff)
  have sub: "set (map fst (seen s)) \<subseteq> set expected" using assms(1) by (simp add: index_ok_def)
  show "set (map ip_CustomID (index_items s')) = set expected"
    unfolding ids set_append miss using sub by auto
  show "distinct (map ip_CustomID (index_items s'))"
    unfolding ids distinct_append miss using assms(1,2) by (auto simp: index_ok_def)
  have none: "filter (\<lambda>p. ip_Status p = BatchImageItemStatusSuccess) (map (missing_item now job src) ?m) = []"
    using status_differ by (auto simp: filter_empty_conv)
  show "ir_TotalCount (index_result s') = int (length (index_items s'))"
    "ir_SuccessCount (index_result s')
      = int (length (filter (\<lambda>p. ip_Status p = BatchImageItemStatusSuccess) (index_items s')))"
    "ir_FailCount (index_result s') = ir_TotalCount (index_result s') - ir_SuccessCount (index_result s')"
    using assms(1) by (simp_all add: s' fold_count_failed index_ok_def none)
qed

section \<open>Indexing as a whole\<close>

lemma Index_path:
  assumes "Index env now job provider account w = (Inr r, w')"
  obtains expected src s s' n w2 where
    "expected = remdups (map i_CustomID (listing (j_BatchID job) (db w)))"
    "\<exists>ls. index_lines env now job src expected 0 ls empty_index = Inr s"
    "(s', n) = (if expected \<noteq> [] then add_missing now job src expected s else (s, 0))"
    "item_rows (db w2) = item_rows (db w)"
    "ReplaceBatchImageItemsForJob now (j_BatchID job) (index_items s')
       \<lparr>c_SuccessCount = ir_SuccessCount (index_result s'), c_FailCount = ir_FailCount (index_result s')\<rparr> w2
     = (Inr (), w')"
    "r = index_result s'"
proof -
  obtain x w1 where x: "listExpectedCustomIDs (j_BatchID job) 0 [] w = (x, w1)" by fastforce
  with assms obtain expected where xr: "x = Inr expected" by (cases x) (simp_all add: Index_def)
  note ex = listExpected_lists [OF x [unfolded xr], simplified]
  obtain o' where o: "OpenResult provider job account = Inr o'"
    using assms x xr by (cases "OpenResult provider job account") (simp_all add: Index_def)
  obtain ls err where ls: "scan_lines o' = (ls, err)" by fastforce
  let ?ref = "batchImageDerefString (j_ProviderOutputRef job)"
  let ?src = "if ?ref = '''' then batchImageDerefString (j_ProviderJobName job) else ?ref"
  obtain s where s: "index_lines env now job ?src expected 0 ls empty_index = Inr s"
    using assms x xr o ls
    by (cases "index_lines env now job ?src expected 0 ls empty_index") (simp_all add: Index_def Let_def)
  have err: "err = None"
    using assms x xr o ls s by (cases err) (simp_all add: Index_def Let_def split: if_split_asm)
  obtain s' n where s': "(s', n) = (if expected \<noteq> [] then add_missing now job ?src expected s else (s, 0))"
    by (metis surj_pair)
  let ?ev = "snd (AppendBatchImageEvent now (j_BatchID job) ''index_reconciled''
     (Some [(''batch_id'', PString (j_BatchID job)), (''unknown_custom_ids'', PInt (unknownCount s')),
            (''missing_custom_ids'', PInt n)]) w1)"
  let ?w2 = "if unknownCount s' > 0 \<or> n > 0 then ?ev else w1"
  let ?rep = "ReplaceBatchImageItemsForJob now (j_BatchID job) (index_items s')
       \<lparr>c_SuccessCount = ir_SuccessCount (index_result s'), c_FailCount = ir_FailCount (index_result s')\<rparr> ?w2"
  have run: "(if ir_TotalCount (index_result s') = 0 then (Inl ErrBatchImageIndexNoResultLines, w1)
      else case ?rep of (Inl e, w3) \<Rightarrow> (Inl e, w3) | (Inr _, w3) \<Rightarrow> (Inr (index_result s'), w3)) = (Inr r, w')"
    using assms unfolding Index_def Let_def x xr o ls s err prod.case sum.case option.case
    by (simp flip: s')
  then have rep: "?rep = (Inr (), w')" and r: "r = index_result s'"
    by (auto split: if_split_asm prod.split_asm sum.split_asm)
  have "item_rows (db ?ev) = item_rows (db w1)"
    unfolding AppendBatchImageEvent_def by (rule db_exec_keeps_snd) (simp add: append_event_def split: prod.splits)
  then have "item_rows (db ?w2) = item_rows (db w)" using ex(2) by simp
  moreover from s have "\<exists>ls. index_lines env now job ?src expected 0 ls empty_index = Inr s" by blast
  ultimately show thesis using that ex(1) s' rep r by blast
qed

text \<open>
  C18. Indexing reconciles the provider's output with the submission: after a successful indexing
  of a job with submitted items, whatever the provider wrote (lines out of order, unknown lines,
  missing lines) and whatever calls failed on the way, the job has exactly one row for every
  submitted custom id and no other row; the counts of the job are those of its rows by their
  status; and the rows of every other job are untouched.
\<close>

theorem index_reconciles_submission:
  assumes "Index env now job provider account w = (Inr r, w')"
    and "b = j_BatchID job" and "submitted = {i \<in> set (item_rows (db w)). i_JobID i = b}" and "submitted \<noteq> {}"
  shows "let rows = filter (\<lambda>i. i_JobID i = b) (item_rows (db w')) in
      i_CustomID ` set rows = i_CustomID ` submitted \<and> distinct (map i_CustomID rows)
      \<and> ir_TotalCount r = int (length rows)
      \<and> ir_SuccessCount r = int (length (filter (\<lambda>i. i_Status i = BatchImageItemStatusSuccess) rows))
      \<and> ir_FailCount r = ir_TotalCount r - ir_SuccessCount r
      \<and> (\<exists>j. find_job b (db w') = Some j \<and> j_SuccessCount j = ir_SuccessCount r \<and> j_FailCount j = ir_FailCount r)
      \<and> (\<forall>c. c \<noteq> b \<longrightarrow> filter (\<lambda>i. i_JobID i = c) (item_rows (db w'))
              = filter (\<lambda>i. i_JobID i = c) (item_rows (db w)))"
  using assms(1)
proof (rule Index_path)
  fix expected src s s' w2 and n :: int
  assume ex: "expected = remdups (map i_CustomID (listing (j_BatchID job) (db w)))"
    and run: "\<exists>ls. index_lines env now job src expected 0 ls empty_index = Inr s"
    and s': "(s', n) = (if expected \<noteq> [] then add_missing now job src expected s else (s, 0))"
    and w2: "item_rows (db w2) = item_rows (db w)"
    and rep: "ReplaceBatchImageItemsForJob now (j_BatchID job) (index_items s')
       \<lparr>c_SuccessCount = ir_SuccessCount (index_result s'), c_FailCount = ir_FailCount (index_result s')\<rparr> w2
       = (Inr (), w')" and r: "r = index_result s'"
  have sub: "set expected = i_CustomID ` submitted"
    unfolding ex assms(2,3) by (auto simp: set_listing rows_of_def)
  then have ne: "expected \<noteq> []" using assms(4) by auto
  from run obtain ls where "index_lines env now job src expected 0 ls empty_index = Inr s" by blast
  note ok = index_lines_ok [OF this ne index_ok_empty]
  have "distinct expected" unfolding ex by simp
  note add = add_missing_ok [OF ok this, of now job src s' n] and wr = replace_items_writes [OF rep]
  have am: "add_missing now job src expected s = (s', n)" using s' ne by simp
  have len: "length (rows_of b (db w')) = length (index_items s')"
    using arg_cong [OF wr(1), of length] assms(2) by simp
  have succ: "length (filter (\<lambda>i. i_Status i = x) (rows_of b (db w')))
      = length (filter (\<lambda>p. ip_Status p = x) (index_items s'))" for x
    using arg_cong [OF wr(2), of "\<lambda>l. length (filter (\<lambda>y. y = x) l)"] assms(2)
    by (simp add: filter_map comp_def)
  show ?thesis unfolding Let_def r rows_of_def [symmetric]
  proof (intro conjI allI impI)
    show "i_CustomID ` set (rows_of b (db w')) = i_CustomID ` submitted"
      using add(1) [OF am] wr(1) sub assms(2) by (metis set_map)
    show "distinct (map i_CustomID (rows_of b (db w')))" using add(2) [OF am] wr(1) assms(2) by simp
    show "ir_TotalCount (index_result s') = int (length (rows_of b (db w')))" using add(3) [OF am] len by simp
    show "ir_SuccessCount (index_result s')
        = int (length (filter (\<lambda>i. i_Status i = BatchImageItemStatusSuccess) (rows_of b (db w'))))"
      using add(4) [OF am] succ by simp
    show "ir_FailCount (index_result s') = ir_TotalCount (index_result s') - ir_SuccessCount (index_result s')"
      by (rule add(5) [OF am])
    show "\<exists>j. find_job b (db w') = Some j \<and> j_SuccessCount j = ir_SuccessCount (index_result s')
        \<and> j_FailCount j = ir_FailCount (index_result s')"
      using wr(4) assms(2) by simp
    fix c assume "c \<noteq> b"
    then show "rows_of c (db w') = rows_of c (db w)"
      using wr(3) [of c] rows_of_cong [OF w2] assms(2) by simp
  qed
qed

section \<open>A submission without output\<close>

definition sample_provider :: "unit batch_provider" where
  "sample_provider = \<lparr>SupportsAccount = (\<lambda>_. True), provider_Get = (\<lambda>_ _. Inr None),
     OpenResult = (\<lambda>_ _. Inr ('''', None))\<rparr>"

definition sample_index_env :: "unit processor_env" where
  "sample_index_env = \<lparr>error_text = (\<lambda>_. ''''), quote = (\<lambda>s. s), Unmarshal = (\<lambda>_. Inl ''''),
     ProviderRegistry = (\<lambda>_. Some sample_provider), ResolveBatchImageAccount = (\<lambda>_. Inr ()),
     DefaultRequeue = 0\<rparr>"

definition sample_indexing_job :: BatchImageJob where
  "sample_indexing_job = sample_job\<lparr>j_Status := ''indexing''\<rparr>"

definition sample_item :: BatchImageItem where
  "sample_item = \<lparr>i_ID = 1, i_JobID = ''b'', i_CustomID = ''c'', i_Status = ''pending'',
     i_RequestHash = None, i_PromptPreview = None, i_ProviderSourceObject = None,
     i_SourceLineNumber = None, i_SourceByteOffset = None, i_SourceByteLength = None,
     i_MimeType = None, i_FileExtension = None, i_ImageCount = 0, i_ErrorCode = None,
     i_ErrorMessage = None, i_BilledAmount = None, i_CreatedAt = 1, i_IndexedAt = None\<rparr>"

definition indexing_world :: "fault list \<Rightarrow> batch_db world" where
  "indexing_world fs = \<lparr>db = sample_jobs\<lparr>job_rows := [sample_indexing_job], item_rows := [sample_item],
     item_serial := 2\<rparr>, faults = fs\<rparr>"

lemma paged_listing_is_complete_witness:
  "listExpectedCustomIDs ''b'' 0 [] (indexing_world []) = (Inr [''c''], indexing_world [])"
  using paged_listing_is_complete [of "indexing_world []" "''b''"]
  by (simp add: indexing_world_def sample_item_def)

lemma sample_index:
  "\<exists>r w'. Index sample_index_env 5 sample_indexing_job sample_provider () (indexing_world []) = (Inr r, w')"
proof -
  have id: "j_BatchID sample_indexing_job = ''b''" by (simp add: sample_indexing_job_def sample_job_def)
  have ex: "listExpectedCustomIDs ''b'' 0 [] (indexing_world []) = (Inr [''c''], indexing_world [])"
    using listExpected_reliable [of "indexing_world []" "''b''" 0 "[]"]
      listExpected_lists(1) [of "''b''" 0 "[]" "indexing_world []"]
    by (auto simp: indexing_world_def listing_def rows_of_def sample_item_def)
  have run: "fst (Index sample_index_env 5 sample_indexing_job sample_provider () (indexing_world []))
      = Inr \<lparr>ir_SuccessCount = 0, ir_FailCount = 1, ir_TotalCount = 1\<rparr>"
    unfolding Index_def id ex prod.case sum.case
    by (simp add: sample_provider_def scan_lines_def add_missing_def empty_index_def
        count_result_def AppendBatchImageEvent_def ReplaceBatchImageItemsForJob_def db_exec_reliable
        indexing_world_def append_event_def find_job_def sample_indexing_job_def sample_job_def
        atomically_def replaceBatchImageItemsForJobWithSQL_def BatchImageJobStatusIndexing_def
        batchImageItemPromptPreviews_def insert_item_def missing_item_def sample_item_def Let_def
        split: prod.split)
  then show ?thesis by (metis prod.collapse)
qed

lemma index_reconciles_submission_witness:
  "\<exists>w' :: batch_db world. i_CustomID ` set (filter (\<lambda>i. i_JobID i = ''b'') (item_rows (db w'))) = {''c''}"
proof -
  from sample_index obtain r w' where
    run: "Index sample_index_env 5 sample_indexing_job sample_provider () (indexing_world []) = (Inr r, w')" by blast
  have b: "''b'' = j_BatchID sample_indexing_job" by (simp add: sample_indexing_job_def sample_job_def)
  have sub: "{sample_item} = {i \<in> set (item_rows (db (indexing_world []))). i_JobID i = ''b''}"
    by (auto simp: indexing_world_def sample_item_def)
  have "{sample_item} \<noteq> {}" by simp
  from index_reconciles_submission [OF run b sub this]
  have "i_CustomID ` set (filter (\<lambda>i. i_JobID i = ''b'') (item_rows (db w'))) = i_CustomID ` {sample_item}"
    unfolding Let_def by (rule conjunct1)
  moreover have "i_CustomID ` {sample_item} = {''c''}" by (simp add: sample_item_def)
  ultimately show ?thesis by (rule exI [of _ w', OF trans])
qed

section \<open>A lost query while indexing\<close>

lemma on_ledger_items [simp]: "item_rows (snd (on_ledger st d)) = item_rows d"
  by (simp add: on_ledger_def split: prod.splits)

lemma release_keeps_items:
  "releaseBatchImageBalanceHold job h w = (r, w') \<Longrightarrow> item_rows (db w') = item_rows (db w)"
  by (auto simp: releaseBatchImageBalanceHold_def split: sum.splits prod.splits if_splits
      dest: db_exec_keeps [where f = item_rows])

lemma release_terminal_keeps:
  "releaseTerminalHold job w = (e, w') \<Longrightarrow>
     job_rows (db w') = job_rows (db w) \<and> item_rows (db w') = item_rows (db w)"
  by (auto simp: releaseTerminalHold_def invalidateAuthCache_def
      split: if_split_asm prod.split_asm option.split_asm dest: release_keeps_rows release_keeps_items)

lemma transition_reliable:
  assumes "faults w = []" and "find_job b (db w) = Some job" and "CanTransitionBatchImageJob (j_Status job) s"
  shows "\<exists>w'. TransitionBatchImageJobStatus now b s opts w = (Inr (), w') \<and> faults w' = []
    \<and> find_job b (db w') = Some (transition_row now s opts job) \<and> item_rows (db w') = item_rows (db w)
    \<and> ledger (db w') = ledger (db w)"
proof -
  let ?f = "transition_row now s opts"
  let ?d1 = "snd (update_jobs (has_batch_id b) ?f (db w))"
  have id: "j_BatchID (?f j) = j_BatchID j" for j by (simp add: transition_row_def Let_def)
  have d1: "find_job b ?d1 = Some (?f job)" by (rule find_update_same [OF id assms(2)])
  obtain d2 where d2: "transitionBatchImageJobStatusWithSQL now b s opts (db w) = (Inr (), d2)"
    "job_rows d2 = job_rows ?d1" "ledger d2 = ledger ?d1" "item_rows d2 = item_rows ?d1"
    using assms(2,3) d1
    by (cases "to_EventType opts = ''''")
      (simp_all add: transitionBatchImageJobStatusWithSQL_def Let_def append_event_def)
  then show ?thesis
    using assms(1) d1 find_job_cong [OF d2(2), of b]
    by (simp add: TransitionBatchImageJobStatus_def db_exec_reliable atomically_def update_jobs_def)
qed

text \<open>
  One lost query is enough to fail a job whose images are ready: when the first query of the
  indexing of a job is lost before it reaches the database and every later call works, the job
  ends failed with the code for an unreadable output, although nothing of the output has been
  read and a second attempt would have succeeded.
\<close>

theorem lost_query_fails_indexing:
  assumes "faults w = [LostBefore]"
    and "find_job (j_BatchID job) (db w) = Some job" and "j_Status job = BatchImageJobStatusIndexing"
    and "indexAndSettle env now job provider account w = (r, w')"
  shows "item_rows (db w') = item_rows (db w)
    \<and> (\<exists>j. find_job (j_BatchID job) (db w') = Some j \<and> j_Status j = BatchImageJobStatusFailed
          \<and> j_LastErrorCode j = Some ''INDEX_PARSE_FAILED'')"
proof -
  let ?b = "j_BatchID job" and ?w1 = "w\<lparr>faults := []\<rparr>"
  have "ListBatchImageItems ?b \<lparr>f_Status = '''', f_Limit = 500, f_Offset = 0\<rparr> w = (Inl DriverError, ?w1)"
    using assms(1) by (simp add: ListBatchImageItems_def db_exec_def db_call_def Let_def split: prod.split)
  then have idx: "Index env now job provider account w = (Inl DriverError, ?w1)"
    by (simp add: Index_def listExpectedCustomIDs.simps [of ?b 0])
  have other: "\<not> errors_Is DriverError ErrBatchImageIndexOutputMissing"
    "\<not> errors_Is DriverError ErrBatchImageIndexStateConflict" "\<not> errors_Is DriverError ErrBatchImageDuplicateCustomID"
    by (simp_all add: errors_Is_def ErrBatchImageIndexOutputMissing_def ErrBatchImageIndexStateConflict_def
        ErrBatchImageDuplicateCustomID_def New_def)
  let ?opts = "(event_opts ''indexing_failed'' [(''error_code'', PString ''INDEX_PARSE_FAILED'')])
     \<lparr>to_ErrorCode := Some ''INDEX_PARSE_FAILED'', to_ErrorMessage := batchImageOptionalStringPtr
        (truncateBatchImageMessage (error_text env DriverError) batchImageMaxErrorMessageLength)\<rparr>"
  have "CanTransitionBatchImageJob (j_Status job) BatchImageJobStatusFailed"
    using assms(3) by (simp add: CanTransitionBatchImageJob_def IsTerminalBatchImageJobStatus_def status_defs)
  from transition_reliable [of ?w1, OF _ _ this, of ?b now ?opts] assms(2) obtain w2 where
    t: "TransitionBatchImageJobStatus now ?b BatchImageJobStatusFailed ?opts ?w1 = (Inr (), w2)"
    "find_job ?b (db w2) = Some (transition_row now BatchImageJobStatusFailed ?opts job)"
    "item_rows (db w2) = item_rows (db w)" by auto
  obtain e w3 where rel: "releaseTerminalHold (job\<lparr>j_Status := BatchImageJobStatusFailed\<rparr>) w2 = (e, w3)"
    by fastforce
  from assms(4) idx other t(1) rel have w': "w' = w3"
    by (simp add: indexAndSettle_def Let_def finish_job_def split: option.split_asm)
  note keeps = release_terminal_keeps [OF rel]
  have "\<exists>j. find_job ?b (db w') = Some j \<and> j_Status j = BatchImageJobStatusFailed
      \<and> j_LastErrorCode j = Some ''INDEX_PARSE_FAILED''"
    using t(2) find_job_cong [of "db w3" "db w2" ?b] keeps w'
    by (simp add: transition_row_def Let_def BatchImageJobStatusFailed_def)
  then show ?thesis using t(3) keeps w' by simp
qed

lemma lost_query_fails_indexing_witness:
  "\<exists>j. find_job ''b'' (db (snd (indexAndSettle sample_index_env 5 sample_indexing_job sample_provider ()
         (indexing_world [LostBefore])))) = Some j \<and> j_Status j = BatchImageJobStatusFailed
      \<and> j_LastErrorCode j = Some ''INDEX_PARSE_FAILED''"
proof -
  let ?w = "indexing_world [LostBefore]"
  have b: "j_BatchID sample_indexing_job = ''b''" by (simp add: sample_indexing_job_def sample_job_def)
  have "faults ?w = [LostBefore]" "find_job (j_BatchID sample_indexing_job) (db ?w) = Some sample_indexing_job"
    "j_Status sample_indexing_job = BatchImageJobStatusIndexing"
    by (simp_all add: indexing_world_def find_job_def sample_indexing_job_def sample_job_def
        BatchImageJobStatusIndexing_def)
  from lost_query_fails_indexing [OF this prod.collapse [symmetric]] show ?thesis unfolding b by (rule conjunct2)
qed

end
