(* ===== verification/Batch_Image_Request.thy ===== *)
theory Batch_Image_Request
  imports Batch_Image_Processor "HOL-Library.AList"
begin

text \<open>
  A submission before it touches the database, after \<open>service/batch_image_public.go\<close>: the request,
  its validation and normalization (\<open>validateSubmitRequest\<close> and the functions it calls), the price
  snapshot and the choice of the provider and the account. The repositories of accounts, groups
  and rates are parameters, as are the account methods of \<open>service/account.go\<close>; the layout of
  \<open>time.Time.Format\<close> is the parameter \<open>format_time\<close>. The settings are the fields of the
  configuration that this part reads.
\<close>

section \<open>The request\<close>

record BatchImageReferenceInput =
  ref_ID :: string
  ref_Type :: string
  ref_MimeType :: string
  ref_Data :: string
  ref_FileURI :: string

record BatchImageSubmitItem =
  si_CustomID :: string
  si_Prompt :: string
  si_OutputCount :: int
  si_ReferenceImages :: "BatchImageReferenceInput list"

record BatchImageSubmitRequest =
  rq_Model :: string
  rq_TaskName :: string
  rq_ParentBatchID :: string
  rq_Provider :: string
  rq_Items :: "BatchImageSubmitItem list"
  rq_ResponseMimeType :: string
  rq_AspectRatio :: string
  rq_ImageSize :: string
  rq_Metadata :: "(string \<times> string) list option"
  rq_SessionID :: "string option"

record BatchImageOwner =
  o_UserID :: int
  o_APIKeyID :: int
  o_GroupID :: "int option"

record BatchImageConfig =
  cfg_Enabled :: bool
  cfg_MaxItemsPerJobDefault :: int
  cfg_MaxOutputImagesPerJob :: int
  cfg_MaxOutputImagesPerItem :: int
  cfg_MaxPromptCharsPerItem :: int
  cfg_MaxReferenceImagesPerJob :: int
  cfg_MaxReferenceInlineBytesPerJob :: int
  cfg_DefaultResponseMimeType :: string
  cfg_DefaultImageSize :: string
  cfg_StaleActiveAfterSeconds :: int

section \<open>Settings\<close>

definition defaultBatchImageMaxItems :: int where "defaultBatchImageMaxItems = 200"
definition defaultBatchImageMaxOutputImages :: int where "defaultBatchImageMaxOutputImages = 200"
definition defaultBatchImageMaxOutputCount :: int where "defaultBatchImageMaxOutputCount = 4"
definition defaultBatchImageMaxPromptChars :: int where "defaultBatchImageMaxPromptChars = 8000"
definition defaultBatchImageResponseMime :: string where "defaultBatchImageResponseMime = ''image/png''"
definition defaultBatchImageImageSize :: string where "defaultBatchImageImageSize = ''1K''"
definition defaultBatchImageDiscountMultiplier :: usd where "defaultBatchImageDiscountMultiplier = 5 / 10"
definition defaultBatchImageHoldMultiplier :: usd where "defaultBatchImageHoldMultiplier = 6 / 10"
definition maxBatchImagePublicErrorChars :: nat where "maxBatchImagePublicErrorChars = 500"
definition maxBatchImageReferenceImageBytes :: int where
  "maxBatchImageReferenceImageBytes = 10 * 1024 * 1024"
definition defaultBatchImageMaxReferenceImages :: int where "defaultBatchImageMaxReferenceImages = 1000"
definition defaultBatchImageMaxReferenceBytes :: int where
  "defaultBatchImageMaxReferenceBytes = 128 * 1024 * 1024"

definition maxItems :: "BatchImageConfig \<Rightarrow> int" where
  "maxItems cfg = (if cfg_MaxItemsPerJobDefault cfg > 0 then cfg_MaxItemsPerJobDefault cfg
     else defaultBatchImageMaxItems)"

definition maxOutputImagesPerJob :: "BatchImageConfig \<Rightarrow> int" where
  "maxOutputImagesPerJob cfg = (if cfg_MaxOutputImagesPerJob cfg > 0 then cfg_MaxOutputImagesPerJob cfg
     else defaultBatchImageMaxOutputImages)"

definition maxOutputImagesPerItem :: "BatchImageConfig \<Rightarrow> int" where
  "maxOutputImagesPerItem cfg = (if cfg_MaxOutputImagesPerItem cfg > 0 then cfg_MaxOutputImagesPerItem cfg
     else defaultBatchImageMaxOutputCount)"

definition maxPromptChars :: "BatchImageConfig \<Rightarrow> int" where
  "maxPromptChars cfg = (if cfg_MaxPromptCharsPerItem cfg > 0 then cfg_MaxPromptCharsPerItem cfg
     else defaultBatchImageMaxPromptChars)"

definition maxReferenceImagesPerJob :: "BatchImageConfig \<Rightarrow> int" where
  "maxReferenceImagesPerJob cfg = (if cfg_MaxReferenceImagesPerJob cfg > 0
     then cfg_MaxReferenceImagesPerJob cfg else defaultBatchImageMaxReferenceImages)"

definition maxReferenceInlineBytesPerJob :: "BatchImageConfig \<Rightarrow> int" where
  "maxReferenceInlineBytesPerJob cfg = (if cfg_MaxReferenceInlineBytesPerJob cfg > 0
     then cfg_MaxReferenceInlineBytesPerJob cfg else defaultBatchImageMaxReferenceBytes)"

definition defaultResponseMimeType :: "BatchImageConfig \<Rightarrow> string" where
  "defaultResponseMimeType cfg = (if TrimSpace (cfg_DefaultResponseMimeType cfg) \<noteq> ''''
     then TrimSpace (cfg_DefaultResponseMimeType cfg) else defaultBatchImageResponseMime)"

definition defaultImageSize :: "BatchImageConfig \<Rightarrow> string" where
  "defaultImageSize cfg = (if TrimSpace (cfg_DefaultImageSize cfg) \<noteq> ''''
     then TrimSpace (cfg_DefaultImageSize cfg) else defaultBatchImageImageSize)"

text \<open>A task without a name gets the time; the zero time stands for the clock.\<close>

definition defaultBatchImageTaskName :: "(go_time \<Rightarrow> string) \<Rightarrow> go_time \<Rightarrow> go_time \<Rightarrow> string" where
  "defaultBatchImageTaskName format_time clock now = format_time (if IsZero now then clock else now)"

section \<open>Metadata\<close>

text \<open>The loop over the sorted keys, with the map built so far.\<close>

fun sanitize_entries ::
    "(string \<times> string) list \<Rightarrow> (string \<times> string) list \<Rightarrow> (string \<times> string) list" where
  "sanitize_entries [] out = out"
| "sanitize_entries ((k, v) # kvs) out =
     (let key = TrimSpace k in
      if key = '''' \<or> length key > 64 then sanitize_entries kvs out
      else
        (let value = TrimSpace v;
             out' = AList.update key (if length value > 256 then take 256 value else value) out
         in if length out' \<ge> 20 then out' else sanitize_entries kvs out'))"

definition sanitizeBatchImageMetadata ::
    "(string \<times> string) list option \<Rightarrow> (string \<times> string) list option" where
  "sanitizeBatchImageMetadata m =
     (case m of
        None \<Rightarrow> None
      | Some kvs \<Rightarrow> if kvs = [] then None else Some (sanitize_entries (sort_key fst kvs) []))"

section \<open>Reference images\<close>

definition normalizeBatchImageReferenceMimeType :: "string \<Rightarrow> string" where
  "normalizeBatchImageReferenceMimeType v =
     (let t = ToLower (TrimSpace v) in
      if t = ''image/jpeg'' \<or> t = ''image/jpg'' then ''image/jpeg''
      else if t = ''image/png'' then ''image/png''
      else if t = ''image/webp'' then ''image/webp''
      else '''')"

definition maxBatchImageReferenceImagesForModel :: "string \<Rightarrow> int" where
  "maxBatchImageReferenceImagesForModel model =
     (let m = ToLower (TrimSpace model) in
      if Contains m ''pro-image'' then 14 else if Contains m ''flash-image'' then 3 else 0)"

definition normalize_reference :: "BatchImageReferenceInput \<Rightarrow> go_error + BatchImageReferenceInput" where
  "normalize_reference ref0 =
     (let ref = ref0\<lparr>ref_ID := truncateBatchImageMessage (TrimSpace (ref_ID ref0)) 80,
                     ref_Type := truncateBatchImageMessage (TrimSpace (ref_Type ref0)) 40,
                     ref_MimeType := normalizeBatchImageReferenceMimeType (ref_MimeType ref0),
                     ref_FileURI := TrimSpace (ref_FileURI ref0)\<rparr>
      in if ref_MimeType ref = '''' then Inl ErrBatchImageInvalidReferenceImage
         else if ref_Data ref = '''' \<and> ref_FileURI ref = '''' then Inl ErrBatchImageInvalidReferenceImage
         else if ref_Data ref \<noteq> '''' \<and> ref_FileURI ref \<noteq> '''' then Inl ErrBatchImageInvalidReferenceImage
         else if int (length (ref_Data ref)) > maxBatchImageReferenceImageBytes
         then Inl ErrBatchImageInvalidReferenceImage
         else if ref_FileURI ref \<noteq> '''' \<and> \<not> HasPrefix (ref_FileURI ref) ''gs://''
         then Inl ErrBatchImageInvalidReferenceImage
         else Inr ref)"

fun normalize_references ::
    "BatchImageReferenceInput list \<Rightarrow> BatchImageReferenceInput list \<Rightarrow> int
       \<Rightarrow> go_error + BatchImageReferenceInput list \<times> int" where
  "normalize_references [] out inlineBytes = Inr (out, inlineBytes)"
| "normalize_references (r # rs) out inlineBytes =
     (case normalize_reference r of
        Inl e \<Rightarrow> Inl e
      | Inr ref \<Rightarrow> normalize_references rs (out @ [ref]) (inlineBytes + int (length (ref_Data ref))))"

text \<open>The item with its normalized references, their number and the bytes sent inline.\<close>

definition normalizeBatchImageReferenceInputs ::
    "string \<Rightarrow> BatchImageSubmitItem \<Rightarrow> go_error + BatchImageSubmitItem \<times> int \<times> int" where
  "normalizeBatchImageReferenceInputs model item =
     (if si_ReferenceImages item = [] then Inr (item, 0, 0)
      else
        (let maxRefs = maxBatchImageReferenceImagesForModel model in
         if maxRefs \<le> 0 \<or> int (length (si_ReferenceImages item)) > maxRefs
         then Inl ErrBatchImageTooManyReferenceImages
         else case normalize_references (si_ReferenceImages item) [] 0 of
                Inl e \<Rightarrow> Inl e
              | Inr (out, inlineBytes) \<Rightarrow>
                  Inr (item\<lparr>si_ReferenceImages := out\<rparr>, int (length out), inlineBytes)))"

section \<open>Validation\<close>

definition pad_zeros :: "int \<Rightarrow> string \<Rightarrow> string" where
  "pad_zeros width s = replicate (nat width - length s) (CHR ''0'') @ s"

definition batchImageRepeatSuffixWidth :: "int \<Rightarrow> int" where
  "batchImageRepeatSuffixWidth count = (if count < 10 then 2 else int (length (itoa count)))"

text \<open>What the loop over the items carries.\<close>

record item_totals =
  expandedItems :: "BatchImageSubmitItem list"
  totalReferenceImages :: int
  totalInlineReferenceBytes :: int
  totalOutputImages :: int

text \<open>The copies of an item, one for each output; the ids seen are those of the items so far.\<close>

fun expand_item ::
    "BatchImageSubmitItem \<Rightarrow> int \<Rightarrow> int list \<Rightarrow> BatchImageSubmitItem list
       \<Rightarrow> go_error + BatchImageSubmitItem list" where
  "expand_item item outputCount [] expanded = Inr expanded"
| "expand_item item outputCount (repeatIndex # rs) expanded =
     (let e0 = item\<lparr>si_OutputCount := 0\<rparr>;
          e1 = (if outputCount > 1
                then e0\<lparr>si_CustomID := si_CustomID item @ ''_''
                       @ pad_zeros (batchImageRepeatSuffixWidth outputCount) (itoa repeatIndex)\<rparr>
                else e0)
      in if si_CustomID e1 \<in> set (map si_CustomID expanded)
         then Inl ErrBatchImageDuplicateCustomIDInRequest
         else expand_item item outputCount rs (expanded @ [e1]))"

definition validate_item ::
    "BatchImageConfig \<Rightarrow> string \<Rightarrow> int \<Rightarrow> BatchImageSubmitItem \<Rightarrow> item_totals \<Rightarrow> go_error + item_totals" where
  "validate_item cfg model i item0 t =
     (let cid = TrimSpace (si_CustomID item0);
          item1 = item0\<lparr>si_CustomID := (if cid = '''' then ''item_'' @ pad_zeros 6 (itoa (i + 1)) else cid)\<rparr>;
          outputCount = (if si_OutputCount item0 = 0 then 1 else si_OutputCount item0)
      in if outputCount < 1 \<or> outputCount > maxOutputImagesPerItem cfg then Inl ErrBatchImageInvalidItems
         else if totalOutputImages t + outputCount > maxOutputImagesPerJob cfg
         then Inl ErrBatchImageTooManyOutputImages
         else
           (let item2 = item1\<lparr>si_Prompt := TrimSpace (si_Prompt item1)\<rparr> in
            if si_Prompt item2 = '''' then Inl ErrBatchImageInvalidItems
            else if int (length (si_Prompt item2)) > maxPromptChars cfg then Inl ErrBatchImagePromptTooLong
            else case normalizeBatchImageReferenceInputs model item2 of
              Inl e \<Rightarrow> Inl e
            | Inr (item3, referenceCount, inlineBytes) \<Rightarrow>
                (let refs = totalReferenceImages t + referenceCount * outputCount;
                     bytes = totalInlineReferenceBytes t + inlineBytes * outputCount
                 in if refs > maxReferenceImagesPerJob cfg then Inl ErrBatchImageTooManyReferenceImages
                    else if bytes > maxReferenceInlineBytesPerJob cfg
                    then Inl ErrBatchImageReferenceImagesTooLarge
                    else case expand_item item3 outputCount [1..outputCount] (expandedItems t) of
                      Inl e \<Rightarrow> Inl e
                    | Inr expanded \<Rightarrow>
                        Inr \<lparr>expandedItems = expanded, totalReferenceImages = refs,
                             totalInlineReferenceBytes = bytes,
                             totalOutputImages = totalOutputImages t + outputCount\<rparr>)))"

fun validate_items ::
    "BatchImageConfig \<Rightarrow> string \<Rightarrow> int \<Rightarrow> BatchImageSubmitItem list \<Rightarrow> item_totals \<Rightarrow> go_error + item_totals" where
  "validate_items cfg model i [] t = Inr t"
| "validate_items cfg model i (item # rest) t =
     (case validate_item cfg model i item t of
        Inl e \<Rightarrow> Inl e
      | Inr t' \<Rightarrow> validate_items cfg model (i + 1) rest t')"

definition no_items :: item_totals where
  "no_items = \<lparr>expandedItems = [], totalReferenceImages = 0, totalInlineReferenceBytes = 0,
     totalOutputImages = 0\<rparr>"

definition trim_request :: "BatchImageSubmitRequest \<Rightarrow> BatchImageSubmitRequest" where
  "trim_request req = req\<lparr>
     rq_Model := TrimSpace (rq_Model req), rq_TaskName := TrimSpace (rq_TaskName req),
     rq_ParentBatchID := TrimSpace (rq_ParentBatchID req), rq_Provider := TrimSpace (rq_Provider req),
     rq_ResponseMimeType := TrimSpace (rq_ResponseMimeType req),
     rq_AspectRatio := TrimSpace (rq_AspectRatio req), rq_ImageSize := TrimSpace (rq_ImageSize req)\<rparr>"

definition validateSubmitRequest ::
    "BatchImageConfig \<Rightarrow> (go_time \<Rightarrow> string) \<Rightarrow> go_time \<Rightarrow> BatchImageSubmitRequest
       \<Rightarrow> go_error + BatchImageSubmitRequest" where
  "validateSubmitRequest cfg format_time now req0 =
     (let req = trim_request req0 in
      if rq_Model req = '''' then Inl ErrBatchImageInvalidModel
      else
        (let name = (if rq_TaskName req = '''' then defaultBatchImageTaskName format_time now now
                     else rq_TaskName req);
             name1 = (if length name > 255 then truncateBatchImageMessage name 255 else name)
         in if rq_Provider req \<noteq> '''' \<and> \<not> IsSupportedBatchImageProvider (rq_Provider req)
            then Inl ErrBatchImageUnsupportedProvider
            else if rq_Items req = [] then Inl ErrBatchImageInvalidItems
            else if int (length (rq_Items req)) > maxItems cfg then Inl ErrBatchImageInvalidItems
            else
              (let size = (if rq_ImageSize req = '''' then defaultImageSize cfg else rq_ImageSize req) in
               if \<not> EqualFold size ''1k'' then Inl ErrBatchImageInvalidItems
               else case validate_items cfg (rq_Model req) 0 (rq_Items req) no_items of
                 Inl e \<Rightarrow> Inl e
               | Inr t \<Rightarrow>
                   Inr (req\<lparr>rq_TaskName := name1,
                     rq_ResponseMimeType := (if rq_ResponseMimeType req = '''' then defaultResponseMimeType cfg
                                             else rq_ResponseMimeType req),
                     rq_ImageSize := defaultBatchImageImageSize,
                     rq_Metadata := sanitizeBatchImageMetadata (rq_Metadata req),
                     rq_Items := expandedItems t\<rparr>))))"

text \<open>The hash of a request; \<open>Marshal\<close> is its JSON form, which leaves out the session id.\<close>

definition HashBatchImageSubmitRequest ::
    "(BatchImageSubmitRequest \<Rightarrow> string) \<Rightarrow> BatchImageSubmitRequest \<Rightarrow> string" where
  "HashBatchImageSubmitRequest Marshal req =
     hex_EncodeToString (sha256_sum (Marshal (req\<lparr>rq_Metadata := sanitizeBatchImageMetadata (rq_Metadata req)\<rparr>)))"

section \<open>Prices\<close>

record Group =
  g_ID :: int
  g_Platform :: string
  g_AllowBatchImageGeneration :: bool
  g_RateMultiplier :: usd
  g_ImageRateIndependent :: bool
  g_ImageRateMultiplier :: usd
  g_BatchImageDiscountMultiplier :: usd
  g_BatchImageHoldMultiplier :: usd
  g_ImagePrice1K :: "usd option"
  g_ImagePrice2K :: "usd option"
  g_ImagePrice4K :: "usd option"

definition PlatformGemini :: string where "PlatformGemini = ''gemini''"

definition GetImagePrice :: "Group \<Rightarrow> string \<Rightarrow> usd option" where
  "GetImagePrice g imageSize =
     (if imageSize = ''1K'' then g_ImagePrice1K g
      else if imageSize = ''2K'' then g_ImagePrice2K g
      else if imageSize = ''4K'' then g_ImagePrice4K g
      else g_ImagePrice2K g)"

record BatchImagePricingSnapshot =
  sn_BaseUnitPrice :: usd
  sn_GroupRateMultiplier :: usd
  sn_AccountRateMultiplier :: usd
  sn_BatchDiscountMultiplier :: usd
  sn_HoldMultiplier :: usd
  sn_BillableUnitPrice :: usd
  sn_HoldUnitPrice :: usd
  sn_EstimatedCost :: usd
  sn_HoldAmount :: usd

text \<open>The methods of an account that a submission uses, at the time it uses them.\<close>

record 'acc account_methods =
  acc_ID :: "'acc \<Rightarrow> int"
  acc_Priority :: "'acc \<Rightarrow> int"
  IsSchedulable :: "'acc \<Rightarrow> bool"
  IsModelSupported :: "'acc \<Rightarrow> string \<Rightarrow> bool"
  BillingRateMultiplier :: "'acc \<Rightarrow> usd"

text \<open>
  The stores a submission reads: \<open>GetByIDLite\<close> is \<open>None\<close> for an error as well as for no group.
\<close>

record 'acc submit_stores =
  ListSchedulableByPlatform :: "string \<Rightarrow> go_error + 'acc list"
  ListSchedulableByGroupIDAndPlatform :: "int \<Rightarrow> string \<Rightarrow> go_error + 'acc list"
  GetByID :: "int \<Rightarrow> go_error + 'acc"
  GetByIDLite :: "int \<Rightarrow> Group option"
  GetByUserAndGroup :: "int \<Rightarrow> int \<Rightarrow> go_error + usd option"
  BatchImageUnitPrice :: "string \<Rightarrow> string \<Rightarrow> go_error + usd"

definition group_of :: "BatchImageOwner \<Rightarrow> int option" where
  "group_of owner = (case o_GroupID owner of None \<Rightarrow> None | Some g \<Rightarrow> if g > 0 then Some g else None)"

definition ensureGroupAllowsBatchImage :: "'acc submit_stores \<Rightarrow> BatchImageOwner \<Rightarrow> go_error option" where
  "ensureGroupAllowsBatchImage st owner =
     (case group_of owner of
        None \<Rightarrow> None
      | Some gid \<Rightarrow>
          (case GetByIDLite st gid of
             None \<Rightarrow> Some ErrBatchImageSettlementPricingMissing
           | Some g \<Rightarrow>
               if \<not> g_AllowBatchImageGeneration g then Some ErrBatchImageGroupDisabled
               else if g_Platform g \<noteq> PlatformGemini then Some ErrBatchImageGroupDisabled
               else None))"

definition not_negative :: "usd \<Rightarrow> usd" where
  "not_negative x = (if x < 0 then 0 else x)"

text \<open>What the group decides: the unit price if it sets one, and the three multipliers.\<close>

definition group_prices ::
    "'acc submit_stores \<Rightarrow> BatchImageOwner \<Rightarrow> string \<Rightarrow> go_error + usd \<times> usd \<times> usd \<times> usd" where
  "group_prices st owner imageSize =
     (case group_of owner of
        None \<Rightarrow> Inr (- 1, 1, defaultBatchImageDiscountMultiplier, defaultBatchImageHoldMultiplier)
      | Some gid \<Rightarrow>
          (case GetByIDLite st gid of
             None \<Rightarrow> Inl ErrBatchImageSettlementPricingMissing
           | Some g \<Rightarrow>
               if \<not> g_AllowBatchImageGeneration g then Inl ErrBatchImageGroupDisabled
               else case GetByUserAndGroup st (o_UserID owner) (g_ID g) of
                 Inl _ \<Rightarrow> Inl ErrBatchImageSettlementPricingMissing
               | Inr userRate \<Rightarrow>
                   (let effective = (case userRate of Some u \<Rightarrow> u | None \<Rightarrow> not_negative (g_RateMultiplier g));
                        groupMultiplier = not_negative (if g_ImageRateIndependent g
                          then g_ImageRateMultiplier g else effective);
                        discount = not_negative (g_BatchImageDiscountMultiplier g);
                        hold = (if g_BatchImageHoldMultiplier g \<ge> 0 then g_BatchImageHoldMultiplier g
                                else defaultBatchImageHoldMultiplier);
                        unit = (case GetImagePrice g imageSize of
                                  Some u \<Rightarrow> if u \<ge> 0 then u else - 1 | None \<Rightarrow> - 1)
                    in Inr (unit, groupMultiplier, discount, hold))))"

definition snapshot_of ::
    "usd \<Rightarrow> usd \<Rightarrow> usd \<Rightarrow> usd \<Rightarrow> usd \<Rightarrow> nat \<Rightarrow> BatchImagePricingSnapshot" where
  "snapshot_of unit groupMultiplier accountMultiplier discount hold0 n =
     (let hold = (if hold0 < discount then discount else hold0);
          standardUnitPrice = unit * groupMultiplier * accountMultiplier;
          billableUnitPrice = standardUnitPrice * discount;
          holdUnitPrice = standardUnitPrice * hold
      in \<lparr>sn_BaseUnitPrice = unit, sn_GroupRateMultiplier = groupMultiplier,
          sn_AccountRateMultiplier = accountMultiplier, sn_BatchDiscountMultiplier = discount,
          sn_HoldMultiplier = hold, sn_BillableUnitPrice = billableUnitPrice,
          sn_HoldUnitPrice = holdUnitPrice, sn_EstimatedCost = billableUnitPrice * of_nat n,
          sn_HoldAmount = holdUnitPrice * of_nat n\<rparr>)"

definition resolvePricingSnapshot ::
    "'acc submit_stores \<Rightarrow> 'acc account_methods \<Rightarrow> BatchImageOwner \<Rightarrow> BatchImageSubmitRequest \<Rightarrow> string
       \<Rightarrow> 'acc \<Rightarrow> go_error + BatchImagePricingSnapshot" where
  "resolvePricingSnapshot st am owner req provider account =
     (case group_prices st owner (rq_ImageSize req) of
        Inl e \<Rightarrow> Inl e
      | Inr (unit0, groupMultiplier, discount, hold) \<Rightarrow>
          (case (if unit0 < 0
                 then (case BatchImageUnitPrice st provider (rq_Model req) of
                         Inl _ \<Rightarrow> Inl ErrBatchImageSettlementPricingMissing
                       | Inr u \<Rightarrow> if u < 0 then Inl ErrBatchImageSettlementPricingMissing else Inr u)
                 else Inr unit0) of
             Inl e \<Rightarrow> Inl e
           | Inr unit \<Rightarrow>
               Inr (snapshot_of unit groupMultiplier (not_negative (BillingRateMultiplier am account))
                      discount hold (length (rq_Items req)))))"

section \<open>The provider and the account\<close>

definition batchImageProviderSelectionOrder :: "string \<Rightarrow> string list" where
  "batchImageProviderSelectionOrder requestedProvider =
     (if TrimSpace requestedProvider \<noteq> '''' then [TrimSpace requestedProvider]
      else [BatchImageProviderGeminiAPI, BatchImageProviderVertex])"

definition batchImageProviderPlatform :: "string \<Rightarrow> string" where
  "batchImageProviderPlatform provider = PlatformGemini"

definition listCandidateAccounts ::
    "'acc submit_stores \<Rightarrow> BatchImageOwner \<Rightarrow> string \<Rightarrow> go_error + 'acc list" where
  "listCandidateAccounts st owner platform =
     (case group_of owner of
        Some g \<Rightarrow> ListSchedulableByGroupIDAndPlatform st g platform
      | None \<Rightarrow> ListSchedulableByPlatform st platform)"

text \<open>The candidates in the order of selection: higher priority first, then lower id.\<close>

definition selection_order :: "'acc account_methods \<Rightarrow> 'acc list \<Rightarrow> 'acc list" where
  "selection_order am candidates = sort_key (\<lambda>a. - acc_Priority am a) (sort_key (acc_ID am) candidates)"

fun select_from ::
    "'acc submit_stores \<Rightarrow> 'acc account_methods \<Rightarrow> (string \<Rightarrow> 'acc batch_provider option)
       \<Rightarrow> BatchImageOwner \<Rightarrow> string \<Rightarrow> string list \<Rightarrow> go_error + string \<times> 'acc" where
  "select_from st am registry owner model [] = Inl ErrBatchImageNoAccountAvailable"
| "select_from st am registry owner model (p # ps) =
     (case registry p of
        None \<Rightarrow> select_from st am registry owner model ps
      | Some provider \<Rightarrow>
          (case listCandidateAccounts st owner (batchImageProviderPlatform p) of
             Inl e \<Rightarrow> Inl e
           | Inr candidates \<Rightarrow>
               (case find (\<lambda>a. IsSchedulable am a \<and> IsModelSupported am a model \<and> SupportsAccount provider a)
                       (selection_order am candidates) of
                  Some account \<Rightarrow> Inr (p, account)
                | None \<Rightarrow> select_from st am registry owner model ps)))"

definition selectProviderAndAccount ::
    "'acc submit_stores \<Rightarrow> 'acc account_methods \<Rightarrow> (string \<Rightarrow> 'acc batch_provider option)
       \<Rightarrow> BatchImageOwner \<Rightarrow> string \<Rightarrow> string \<Rightarrow> go_error + string \<times> 'acc" where
  "selectProviderAndAccount st am registry owner requestedProvider model =
     select_from st am registry owner model (batchImageProviderSelectionOrder requestedProvider)"

end
