(* ===== verification/Batch_Image_Public.thy ===== *)
theory Batch_Image_Public
  imports Batch_Image_Request
begin

text \<open>
  The public operations on batch-image jobs, after \<open>service/batch_image_public.go\<close>: submission,
  cancellation, the lists and the deletion of records. One reading of the clock stands for all
  readings within an operation. The calls of a provider are parameters that give their answers;
  \<open>meanwhile\<close> is what others do to the stores while the provider creates its job, \<open>beats\<close> are the
  ticks of the submission's heartbeat in that time.
\<close>

section \<open>What the users see\<close>

record BatchImagePublicBatch =
  pb_ID :: string
  pb_Object :: string
  pb_TaskName :: string
  pb_ParentBatchID :: "string option"
  pb_Status :: string
  pb_Model :: string
  pb_Provider :: string
  pb_ItemCount :: int
  pb_SuccessCount :: int
  pb_FailCount :: int
  pb_EstimatedCost :: usd
  pb_HoldAmount :: usd
  pb_ActualCost :: "usd option"
  pb_CreatedAt :: int
  pb_SubmittedAt :: "int option"
  pb_SettledAt :: "int option"
  pb_DownloadedAt :: "int option"
  pb_OutputDeletedAt :: "int option"

record BatchImagePublicError =
  pe_Code :: string
  pe_Message :: string
  pe_Source :: string

record BatchImagePublicItem =
  pi_CustomID :: string
  pi_Status :: string
  pi_PromptPreview :: "string option"
  pi_MimeType :: "string option"
  pi_FileExtension :: "string option"
  pi_ImageCount :: int
  pi_Error :: "BatchImagePublicError option"

text \<open>A list answer: its data and whether there may be more.\<close>

record 'a list_response =
  lr_Object :: string
  lr_Data :: "'a list"
  lr_HasMore :: bool

definition Unix :: "go_time \<Rightarrow> int" where
  "Unix t = (t - unix_epoch) div 1000000000"

definition batchImageUnixPtr :: "go_time option \<Rightarrow> int option" where
  "batchImageUnixPtr t = map_option Unix t"

definition PublicBatchImageStatus :: "string \<Rightarrow> string" where
  "PublicBatchImageStatus status =
     (if status = BatchImageJobStatusCreated \<or> status = BatchImageJobStatusUploading
         \<or> status = BatchImageJobStatusSubmitted then ''queued''
      else if status = BatchImageJobStatusRunning then ''running''
      else if status = BatchImageJobStatusIndexing then ''processing_results''
      else if status = BatchImageJobStatusSettling then ''settling''
      else if status = BatchImageJobStatusCompleted then ''completed''
      else if status = BatchImageJobStatusFailed then ''failed''
      else if status = BatchImageJobStatusCancelled then ''cancelled''
      else if status = BatchImageJobStatusOutputDeleted then ''output_deleted''
      else status)"

definition batchImagePublicTaskName :: "(go_time \<Rightarrow> string) \<Rightarrow> go_time \<Rightarrow> BatchImageJob \<Rightarrow> string" where
  "batchImagePublicTaskName format_time clock job =
     (if TrimSpace (j_TaskName job) \<noteq> '''' then TrimSpace (j_TaskName job)
      else defaultBatchImageTaskName format_time clock (j_CreatedAt job))"

definition BatchImageJobToPublic ::
    "(go_time \<Rightarrow> string) \<Rightarrow> go_time \<Rightarrow> BatchImageJob \<Rightarrow> BatchImagePublicBatch" where
  "BatchImageJobToPublic format_time clock job =
     \<lparr>pb_ID = j_BatchID job, pb_Object = ''image.batch'',
      pb_TaskName = batchImagePublicTaskName format_time clock job,
      pb_ParentBatchID = j_ParentBatchID job, pb_Status = PublicBatchImageStatus (j_Status job),
      pb_Model = j_Model job, pb_Provider = j_Provider job, pb_ItemCount = j_ItemCount job,
      pb_SuccessCount = j_SuccessCount job, pb_FailCount = j_FailCount job,
      pb_EstimatedCost = j_EstimatedCost job,
      pb_HoldAmount = (case j_HoldAmount job of Some h \<Rightarrow> h | None \<Rightarrow> j_EstimatedCost job),
      pb_ActualCost = j_ActualCost job, pb_CreatedAt = Unix (j_CreatedAt job),
      pb_SubmittedAt = batchImageUnixPtr (j_SubmittedAt job),
      pb_SettledAt = batchImageUnixPtr (j_SettledAt job),
      pb_DownloadedAt = batchImageUnixPtr (j_DownloadedAt job),
      pb_OutputDeletedAt = batchImageUnixPtr (j_OutputDeletedAt job)\<rparr>"

definition sanitizeBatchImagePublicMessage :: "string \<Rightarrow> string" where
  "sanitizeBatchImagePublicMessage message =
     (let m = TrimSpace message;
          m1 = (if list_ex (Contains m) [''gs://'', ''files/'', ''projects/'']
                then ''upstream provider operation failed'' else m)
      in if length m1 > maxBatchImagePublicErrorChars then take maxBatchImagePublicErrorChars m1 else m1)"

definition batchImageItemErrorSource :: "BatchImageItem \<Rightarrow> string" where
  "batchImageItemErrorSource item =
     (case i_ErrorCode item of
        None \<Rightarrow> ''''
      | Some c \<Rightarrow>
          (let code = TrimSpace c in
           if batchImageDerefString (i_ProviderSourceObject item) \<noteq> '''' then ''provider''
           else if code = ''EMPTY_IMAGE_OUTPUT'' \<or> code = ''PROVIDER_ITEM_FAILED'' then ''provider''
           else if code = ''INDEX_OUTPUT_MISSING'' \<or> code = ''INDEX_PARSE_FAILED''
                   \<or> code = ''DUPLICATE_CUSTOM_ID_IN_OUTPUT'' then ''system''
           else ''''))"

definition BatchImageItemToPublic :: "BatchImageItem \<Rightarrow> BatchImagePublicItem" where
  "BatchImageItemToPublic item =
     (let out = \<lparr>pi_CustomID = i_CustomID item, pi_Status = ''failed'',
                 pi_PromptPreview = i_PromptPreview item, pi_MimeType = i_MimeType item,
                 pi_FileExtension = i_FileExtension item, pi_ImageCount = i_ImageCount item,
                 pi_Error = None\<rparr>
      in if i_Status item = BatchImageItemStatusPending then out\<lparr>pi_Status := ''pending''\<rparr>
         else if i_Status item = BatchImageItemStatusSuccess then out\<lparr>pi_Status := ''succeeded''\<rparr>
         else out\<lparr>pi_Error := Some \<lparr>pe_Code = batchImageDerefString (i_ErrorCode item),
                pe_Message = sanitizeBatchImagePublicMessage (batchImageDerefString (i_ErrorMessage item)),
                pe_Source = batchImageItemErrorSource item\<rparr>\<rparr>)"

section \<open>Submitting\<close>

record BatchImageInputItem =
  ii_CustomID :: string
  ii_Prompt :: string
  ii_ReferenceImages :: "BatchImageReferenceInput list"

record BatchImageInput =
  in_BatchID :: string
  in_Model :: string
  in_DisplayName :: string
  in_Items :: "BatchImageInputItem list"
  in_ResponseMimeType :: string
  in_AspectRatio :: string
  in_ImageSize :: string
  in_Metadata :: "(string \<times> string) list option"

record BatchProviderJob =
  bp_ProviderJobName :: string
  bp_ProviderInputRef :: string
  bp_ProviderOutputRef :: string
  bp_RawState :: string

record 'acc submit_env =
  Config :: BatchImageConfig
  QueueConfig :: queue_config
  format_time :: "go_time \<Rightarrow> string"
  Marshal :: "BatchImageSubmitRequest \<Rightarrow> string"
  error_string :: "go_error \<Rightarrow> string"
  Stores :: "'acc submit_stores"
  Methods :: "'acc account_methods"
  Registry :: "string \<Rightarrow> 'acc batch_provider option"
  provider_Submit :: "string \<Rightarrow> BatchImageJob \<Rightarrow> 'acc \<Rightarrow> BatchImageInput \<Rightarrow> go_error + BatchProviderJob option"
  provider_Cancel :: "string \<Rightarrow> BatchImageJob \<Rightarrow> 'acc \<Rightarrow> go_error option"
  new_batch_id :: "go_error + string"
  beats :: "go_time list"
  meanwhile :: "batch_db world \<Rightarrow> batch_db world"

definition public_message :: "'acc submit_env \<Rightarrow> go_error \<Rightarrow> string" where
  "public_message env e = sanitizeBatchImagePublicMessage (error_string env e)"

definition to_public :: "'acc submit_env \<Rightarrow> go_time \<Rightarrow> BatchImageJob \<Rightarrow> BatchImagePublicBatch" where
  "to_public env now job = BatchImageJobToPublic (format_time env) now job"

text \<open>An entry in the queue; that the job is there already is no error.\<close>

definition enqueue_job ::
    "'acc submit_env \<Rightarrow> go_time \<Rightarrow> string \<Rightarrow> batch_db world \<Rightarrow> go_error option \<times> batch_db world" where
  "enqueue_job env now batchID w =
     (case db_exec (on_queue (Enqueue (QueueConfig env) now batchID)) w of
        (Inr _, w1) \<Rightarrow> (None, w1)
      | (Inl e, w1) \<Rightarrow> (if errors_Is e ErrBatchImageAlreadyQueued then None else Some e, w1))"

definition enqueueBillingRetry ::
    "'acc submit_env \<Rightarrow> go_time \<Rightarrow> string \<Rightarrow> batch_db world \<Rightarrow> batch_db world" where
  "enqueueBillingRetry env now batchID w =
     (case enqueue_job env now batchID w of
        (None, w1) \<Rightarrow> w1
      | (Some e, w1) \<Rightarrow>
          snd (AppendBatchImageEvent now batchID ''billing_retry_enqueue_failed''
            (Some [(''batch_id'', PString batchID), (''error'', PString (public_message env e))]) w1))"

definition hidePreUpstreamSubmitFailure ::
    "go_time \<Rightarrow> BatchImageOwner \<Rightarrow> BatchImageJob \<Rightarrow> batch_db world \<Rightarrow> batch_db world" where
  "hidePreUpstreamSubmitFailure now owner job w =
     (if j_ProviderJobName job \<noteq> None then w
      else snd (MarkBatchImageJobUserDeleted now (o_UserID owner) (o_APIKeyID owner) (j_BatchID job) now w))"

definition record_failure ::
    "go_time \<Rightarrow> BatchImageJob \<Rightarrow> string \<Rightarrow> string \<Rightarrow> bool \<Rightarrow> batch_db world \<Rightarrow> batch_db world" where
  "record_failure now job code message markFailed w =
     snd (RecordBatchImageJobSubmitFailure now (j_BatchID job) code message markFailed w)"

definition releaseFailedSubmitHold ::
    "'acc submit_env \<Rightarrow> go_time \<Rightarrow> BatchImageJob \<Rightarrow> string
       \<Rightarrow> batch_db world \<Rightarrow> go_error option \<times> batch_db world" where
  "releaseFailedSubmitHold env now job requestHash w =
     (case releaseBatchImageBalanceHold job requestHash w of
        (Some err, w1) \<Rightarrow>
          (Some ErrBatchImageBillingHoldFailed,
           enqueueBillingRetry env now (j_BatchID job)
             (record_failure now job ''BILLING_RELEASE_FAILED'' (public_message env err) True w1))
      | (None, w1) \<Rightarrow> (None, invalidateAuthCache (j_UserID job) w1))"

text \<open>A submission that is given up: the hold goes back, the failure is recorded, the job hidden.\<close>

definition give_up ::
    "'acc submit_env \<Rightarrow> go_time \<Rightarrow> BatchImageOwner \<Rightarrow> BatchImageJob \<Rightarrow> string \<Rightarrow> string \<Rightarrow> string \<Rightarrow> go_error
       \<Rightarrow> batch_db world \<Rightarrow> (go_error + 'a) \<times> batch_db world" where
  "give_up env now owner job requestHash code message err w =
     (case releaseFailedSubmitHold env now job requestHash w of
        (Some e, w1) \<Rightarrow> (Inl e, w1)
      | (None, w1) \<Rightarrow>
          (Inl err, hidePreUpstreamSubmitFailure now owner job (record_failure now job code message True w1)))"

definition createPendingItems ::
    "'acc submit_env \<Rightarrow> go_time \<Rightarrow> string \<Rightarrow> string \<Rightarrow> BatchImageSubmitItem list
       \<Rightarrow> batch_db world \<Rightarrow> (go_error + unit) \<times> batch_db world" where
  "createPendingItems env now batchID requestHash new_items w =
     (if new_items = [] then (Inr (), w)
      else BulkCreateBatchImageItems now
        (map (\<lambda>item. \<lparr>ip_JobID = batchID, ip_CustomID = si_CustomID item,
           ip_Status = BatchImageItemStatusPending, ip_RequestHash = Some requestHash,
           ip_PromptPreview = Some (truncateBatchImageMessage (si_Prompt item) (maxPromptChars (Config env))),
           ip_ProviderSourceObject = None, ip_SourceLineNumber = None, ip_SourceByteOffset = None,
           ip_SourceByteLength = None, ip_MimeType = None, ip_FileExtension = None, ip_ImageCount = 0,
           ip_ErrorCode = None, ip_ErrorMessage = None, ip_BilledAmount = None, ip_IndexedAt = None\<rparr>)
           new_items) w)"

definition batchImageGCSRef :: "string \<Rightarrow> string \<Rightarrow> string" where
  "batchImageGCSRef provider ref =
     (if provider = BatchImageProviderVertex \<and> HasPrefix (TrimSpace ref) ''gs://'' then TrimSpace ref else '''')"

definition ErrBatchImageProviderMissingAPIKey :: go_error where
  "ErrBatchImageProviderMissingAPIKey =
     New 400 ''BATCH_IMAGE_PROVIDER_MISSING_API_KEY'' ''batch image provider account is missing api key''"

definition ErrBatchImageProviderMissingServiceAccount :: go_error where
  "ErrBatchImageProviderMissingServiceAccount =
     New 400 ''BATCH_IMAGE_PROVIDER_MISSING_SERVICE_ACCOUNT''
       ''batch image provider account is missing service account credentials''"

definition batchImageProviderSubmitPublicError :: "go_error \<Rightarrow> go_error" where
  "batchImageProviderSubmitPublicError err =
     (let reason = TrimSpace (error_Reason (Some err)) in
      if reason = ''VERTEX_MANAGED_GCS_BUCKET_MISSING'' then ErrBatchImageVertexGCSBucketMissing
      else if reason = ''BATCH_IMAGE_PROVIDER_MISSING_API_KEY'' then ErrBatchImageProviderMissingAPIKey
      else if reason = ''BATCH_IMAGE_PROVIDER_MISSING_SERVICE_ACCOUNT''
      then ErrBatchImageProviderMissingServiceAccount
      else if reason = ''BATCH_IMAGE_PROVIDER_UNSUPPORTED_ACCOUNT''
      then ErrBatchImageProviderUnsupportedAccount
      else ErrBatchImageProviderSubmitFailed)"

definition batchImageProviderSubmitRecordCode :: "go_error \<Rightarrow> string" where
  "batchImageProviderSubmitRecordCode err =
     (let reason = TrimSpace (error_Reason (Some err)) in
      if reason = '''' \<or> reason = ''BATCH_IMAGE_PROVIDER_SUBMIT_FAILED'' then ''PROVIDER_SUBMIT_FAILED''
      else reason)"

definition submitHeartbeatInterval :: "BatchImageConfig \<Rightarrow> duration" where
  "submitHeartbeatInterval cfg =
     (let staleAfter = (if cfg_StaleActiveAfterSeconds cfg > 0 then cfg_StaleActiveAfterSeconds cfg * Second
                        else 10 * Minute);
          interval = go_quot staleAfter 3
      in if interval < 15 * Second then 15 * Second else interval)"

fun runSubmitHeartbeat :: "string \<Rightarrow> go_time list \<Rightarrow> batch_db world \<Rightarrow> batch_db world" where
  "runSubmitHeartbeat batchID [] w = w"
| "runSubmitHeartbeat batchID (t # ts) w =
     runSubmitHeartbeat batchID ts (snd (TouchBatchImageJobSubmitting t batchID w))"

text \<open>The provider's job is cancelled and cleaned up, which touches no store, and that is noted.\<close>

definition abortOrphanProviderJob ::
    "go_time \<Rightarrow> string \<Rightarrow> BatchImageJob \<Rightarrow> batch_db world \<Rightarrow> batch_db world" where
  "abortOrphanProviderJob now provider job w =
     snd (AppendBatchImageEvent now (j_BatchID job) ''provider_job_aborted_after_submit''
       (Some [(''batch_id'', PString (j_BatchID job)), (''provider'', PString provider)]) w)"

text \<open>The job that the idempotency key of a request already has; \<open>None\<close> lets the submission go on.\<close>

definition submit_existing ::
    "'acc submit_env \<Rightarrow> go_time \<Rightarrow> BatchImageOwner \<Rightarrow> string \<Rightarrow> string
       \<Rightarrow> batch_db world \<Rightarrow> (go_error + BatchImagePublicBatch) option \<times> batch_db world" where
  "submit_existing env now owner requestHash key w =
     (if key = '''' then (None, w)
      else case GetBatchImageJobByIdempotencyKey (o_UserID owner) (o_APIKeyID owner) key w of
        (Inl e, w1) \<Rightarrow> (if errors_Is e ErrBatchImageJobNotFound then None else Some (Inl e), w1)
      | (Inr existing, w1) \<Rightarrow>
          if batchImageDerefString (j_RequestHash existing) \<noteq> requestHash
          then (Some (Inl ErrBatchImageIdempotencyConflict), w1)
          else if j_Status existing = BatchImageJobStatusSubmitted
          then (case enqueue_job env now (j_BatchID existing) w1 of
                  (Some e, w2) \<Rightarrow>
                    (Some (Inl ErrBatchImageQueueFailed),
                     record_failure now existing ''QUEUE_FAILED'' (public_message env e) False w2)
                | (None, w2) \<Rightarrow> (Some (Inr (to_public env now existing)), w2))
          else (Some (Inr (to_public env now existing)), w1))"

text \<open>The parent recorded for a job: the parent of the one named, if that has one.\<close>

definition submit_parent ::
    "BatchImageOwner \<Rightarrow> string \<Rightarrow> batch_db world \<Rightarrow> (go_error + string option) \<times> batch_db world" where
  "submit_parent owner parentID w =
     (case batchImageOptionalStringPtr parentID of
        None \<Rightarrow> (Inr None, w)
      | Some p \<Rightarrow>
          (case GetBatchImageJobByBatchIDForOwner (o_UserID owner) (o_APIKeyID owner) p w of
             (Inl e, w1) \<Rightarrow> (Inl e, w1)
           | (Inr parent, w1) \<Rightarrow>
               (case j_ParentBatchID parent of
                  None \<Rightarrow> (Inr (Some p), w1)
                | Some pp \<Rightarrow> (Inr (if TrimSpace pp \<noteq> '''' then batchImageOptionalStringPtr pp else Some p), w1))))"

definition job_params ::
    "BatchImageOwner \<Rightarrow> BatchImageSubmitRequest \<Rightarrow> string \<Rightarrow> int \<Rightarrow> BatchImagePricingSnapshot
       \<Rightarrow> string option \<Rightarrow> string \<Rightarrow> string \<Rightarrow> string \<Rightarrow> CreateBatchImageJobParams" where
  "job_params owner req provider accountID sn parent batchID key requestHash =
     \<lparr>p_BatchID = batchID, p_UserID = o_UserID owner, p_APIKeyID = Some (o_APIKeyID owner),
      p_AccountID = Some accountID, p_Provider = provider, p_Model = rq_Model req,
      p_TaskName = rq_TaskName req, p_ParentBatchID = parent, p_Status = BatchImageJobStatusCreated,
      p_ProviderJobName = None, p_ProviderInputRef = None, p_ProviderOutputRef = None,
      p_GCSInputURI = None, p_GCSOutputURI = None, p_ItemCount = int (length (rq_Items req)),
      p_SuccessCount = 0, p_FailCount = 0, p_CancelledCount = 0,
      p_EstimatedCost = sn_EstimatedCost sn, p_HoldAmount = Some (sn_HoldAmount sn), p_ActualCost = None,
      p_BaseUnitPrice = sn_BaseUnitPrice sn, p_GroupRateMultiplier = sn_GroupRateMultiplier sn,
      p_AccountRateMultiplier = sn_AccountRateMultiplier sn,
      p_BatchDiscountMultiplier = sn_BatchDiscountMultiplier sn, p_HoldMultiplier = sn_HoldMultiplier sn,
      p_BillableUnitPrice = sn_BillableUnitPrice sn, p_HoldUnitPrice = sn_HoldUnitPrice sn,
      p_PricingSnapshotVersion = 1, p_Currency = ''USD'', p_HoldID = Some (BatchImageHoldRequestID batchID),
      p_IdempotencyKey = batchImageOptionalStringPtr key, p_RequestHash = Some requestHash,
      p_ManifestHash = None, p_SessionID = rq_SessionID req, p_RetryCount = 0, p_OutputExpiresAt = None\<rparr>"

definition input_of :: "BatchImageJob \<Rightarrow> BatchImageSubmitRequest \<Rightarrow> BatchImageInput" where
  "input_of job req =
     \<lparr>in_BatchID = j_BatchID job, in_Model = rq_Model req, in_DisplayName = j_BatchID job,
      in_Items = map (\<lambda>i. \<lparr>ii_CustomID = si_CustomID i, ii_Prompt = si_Prompt i,
                           ii_ReferenceImages = si_ReferenceImages i\<rparr>) (rq_Items req),
      in_ResponseMimeType = rq_ResponseMimeType req, in_AspectRatio = rq_AspectRatio req,
      in_ImageSize = rq_ImageSize req, in_Metadata = rq_Metadata req\<rparr>"

text \<open>The end of a submission: the provider has its job, the job is recorded, queued and read back.\<close>

definition submit_finish ::
    "'acc submit_env \<Rightarrow> go_time \<Rightarrow> string \<Rightarrow> BatchImageJob \<Rightarrow> BatchProviderJob
       \<Rightarrow> batch_db world \<Rightarrow> (go_error + BatchImagePublicBatch) \<times> batch_db world" where
  "submit_finish env now provider job pj w =
     (case UpdateBatchImageJobProviderSubmit now
             \<lparr>us_BatchID = j_BatchID job, us_ProviderJobName = bp_ProviderJobName pj,
              us_ProviderInputRef = bp_ProviderInputRef pj, us_ProviderOutputRef = bp_ProviderOutputRef pj,
              us_GCSInputURI = batchImageGCSRef provider (bp_ProviderInputRef pj),
              us_GCSOutputURI = batchImageGCSRef provider (bp_ProviderOutputRef pj),
              us_EventPayload = Some [(''provider'', PString provider)]\<rparr> w of
        (Inl e, w1) \<Rightarrow> (Inl e, abortOrphanProviderJob now provider job w1)
      | (Inr _, w1) \<Rightarrow>
          (case enqueue_job env now (j_BatchID job) w1 of
             (Some e, w2) \<Rightarrow>
               (Inl ErrBatchImageQueueFailed,
                record_failure now job ''QUEUE_FAILED'' (public_message env e) False w2)
           | (None, w2) \<Rightarrow>
               (case GetBatchImageJobByBatchID (j_BatchID job) w2 of
                  (Inl e, w3) \<Rightarrow> (Inl e, w3)
                | (Inr created, w3) \<Rightarrow> (Inr (to_public env now created), w3))))"

text \<open>The submission to the provider, with the heartbeat beside it.\<close>

definition submit_provider ::
    "'acc submit_env \<Rightarrow> go_time \<Rightarrow> BatchImageOwner \<Rightarrow> BatchImageSubmitRequest \<Rightarrow> string \<Rightarrow> 'acc \<Rightarrow> BatchImageJob
       \<Rightarrow> string \<Rightarrow> batch_db world \<Rightarrow> (go_error + BatchImagePublicBatch) \<times> batch_db world" where
  "submit_provider env now owner req provider account job requestHash w =
     (let w1 = meanwhile env (runSubmitHeartbeat (j_BatchID job) (beats env) w) in
      case provider_Submit env provider job account (input_of job req) of
        Inl err \<Rightarrow>
          give_up env now owner job requestHash
            (batchImageProviderSubmitRecordCode (batchImageProviderSubmitPublicError err))
            (public_message env err) (batchImageProviderSubmitPublicError err) w1
      | Inr None \<Rightarrow>
          give_up env now owner job requestHash ''PROVIDER_SUBMIT_FAILED'' ''provider job name missing''
            ErrBatchImageProviderSubmitFailed w1
      | Inr (Some pj) \<Rightarrow>
          if TrimSpace (bp_ProviderJobName pj) = ''''
          then give_up env now owner job requestHash ''PROVIDER_SUBMIT_FAILED'' ''provider job name missing''
                 ErrBatchImageProviderSubmitFailed w1
          else submit_finish env now provider job pj w1)"

text \<open>A job whose hold is taken: its items, then the transition that starts the upload.\<close>

definition submit_held ::
    "'acc submit_env \<Rightarrow> go_time \<Rightarrow> BatchImageOwner \<Rightarrow> BatchImageSubmitRequest \<Rightarrow> string \<Rightarrow> 'acc \<Rightarrow> BatchImageJob
       \<Rightarrow> string \<Rightarrow> batch_db world \<Rightarrow> (go_error + BatchImagePublicBatch) \<times> batch_db world" where
  "submit_held env now owner req provider account job requestHash w =
     (case createPendingItems env now (j_BatchID job) requestHash (rq_Items req) w of
        (Inl err, w1) \<Rightarrow>
          give_up env now owner job requestHash ''ITEM_CREATE_FAILED'' (public_message env err)
            ErrBatchImageQueueFailed w1
      | (Inr _, w1) \<Rightarrow>
          (case TransitionBatchImageJobStatus now (j_BatchID job) BatchImageJobStatusUploading
                  (event_opts ''upload_started'' [(''batch_id'', PString (j_BatchID job))]) w1 of
             (Inl err, w2) \<Rightarrow>
               (case releaseFailedSubmitHold env now job requestHash w2 of
                  (Some e, w3) \<Rightarrow> (Inl e, w3)
                | (None, w3) \<Rightarrow>
                    (Inl err,
                     if errors_Is err ErrBatchImageInvalidTransition then w3
                     else hidePreUpstreamSubmitFailure now owner job
                            (record_failure now job ''UPLOAD_TRANSITION_FAILED'' (public_message env err) True w3)))
           | (Inr _, w2) \<Rightarrow>
               submit_provider env now owner req provider account
                 (job\<lparr>j_Status := BatchImageJobStatusUploading\<rparr>) requestHash w2))"

text \<open>A created job: the hold is taken first.\<close>

definition submit_created ::
    "'acc submit_env \<Rightarrow> go_time \<Rightarrow> BatchImageOwner \<Rightarrow> BatchImageSubmitRequest \<Rightarrow> string \<Rightarrow> 'acc \<Rightarrow> BatchImageJob
       \<Rightarrow> string \<Rightarrow> batch_db world \<Rightarrow> (go_error + BatchImagePublicBatch) \<times> batch_db world" where
  "submit_created env now owner req provider account job requestHash w =
     (case reserveBatchImageBalanceHold job requestHash w of
        (Some err, w1) \<Rightarrow>
          (Inl err,
           hidePreUpstreamSubmitFailure now owner job
             (record_failure now job
                (if errors_Is err ErrBatchImageInsufficientBalance then ''INSUFFICIENT_BALANCE''
                 else ''BILLING_HOLD_FAILED'') (public_message env err) True w1))
      | (None, w1) \<Rightarrow>
          submit_held env now owner req provider account job requestHash
            (invalidateAuthCache (o_UserID owner) w1))"

definition submit_new ::
    "'acc submit_env \<Rightarrow> go_time \<Rightarrow> BatchImageOwner \<Rightarrow> BatchImageSubmitRequest \<Rightarrow> string \<Rightarrow> string
       \<Rightarrow> batch_db world \<Rightarrow> (go_error + BatchImagePublicBatch) \<times> batch_db world" where
  "submit_new env now owner req key requestHash w =
     (case selectProviderAndAccount (Stores env) (Methods env) (Registry env) owner (rq_Provider req) (rq_Model req) of
        Inl e \<Rightarrow> (Inl e, w)
      | Inr (provider, account) \<Rightarrow>
          (case resolvePricingSnapshot (Stores env) (Methods env) owner req provider account of
             Inl e \<Rightarrow> (Inl e, w)
           | Inr sn \<Rightarrow>
               (case submit_parent owner (rq_ParentBatchID req) w of
                  (Inl e, w1) \<Rightarrow> (Inl e, w1)
                | (Inr parent, w1) \<Rightarrow>
                    (case new_batch_id env of
                       Inl e \<Rightarrow> (Inl e, w1)
                     | Inr batchID \<Rightarrow>
                         (case CreateBatchImageJob now batchID
                                 (job_params owner req provider (acc_ID (Methods env) account) sn parent
                                    batchID key requestHash) w1 of
                            (Inl e, w2) \<Rightarrow> (Inl e, w2)
                          | (Inr job, w2) \<Rightarrow>
                              submit_created env now owner req provider account job requestHash w2)))))"

definition Submit ::
    "'acc submit_env \<Rightarrow> go_time \<Rightarrow> BatchImageOwner \<Rightarrow> BatchImageSubmitRequest \<Rightarrow> string
       \<Rightarrow> batch_db world \<Rightarrow> (go_error + BatchImagePublicBatch) \<times> batch_db world" where
  "Submit env now owner req0 idempotencyKey w =
     (if \<not> cfg_Enabled (Config env) then (Inl ErrBatchImageDisabled, w)
      else case validateSubmitRequest (Config env) (format_time env) now req0 of
        Inl e \<Rightarrow> (Inl e, w)
      | Inr req \<Rightarrow>
          (case ensureGroupAllowsBatchImage (Stores env) owner of
             Some e \<Rightarrow> (Inl e, w)
           | None \<Rightarrow>
               (let requestHash = HashBatchImageSubmitRequest (Marshal env) req;
                    key = TrimSpace idempotencyKey
                in case submit_existing env now owner requestHash key w of
                     (Some r, w1) \<Rightarrow> (r, w1)
                   | (None, w1) \<Rightarrow> submit_new env now owner req key requestHash w1)))"

end
