(* ===== verification/Batch_Image_Access.thy ===== *)
theory Batch_Image_Access
  imports Batch_Image_Public
begin

text \<open>
  The operations on jobs that exist, after \<open>service/batch_image_public.go\<close>: reading, the lists with
  their filters and cursors, marking and hiding, the models on offer, and cancellation.
  \<open>time_Parse\<close> is \<open>time.Parse\<close>: a layout and a text give a time, if the text fits.
\<close>

section \<open>Cursors and times\<close>

definition parseBatchImageCursor :: "string \<Rightarrow> int" where
  "parseBatchImageCursor cursor =
     (case ParseInt (TrimSpace cursor) of
        None \<Rightarrow> 0
      | Some offset \<Rightarrow> if offset < 0 then 0 else offset)"

definition parseBatchImageListTime :: "(string \<Rightarrow> string \<Rightarrow> go_time option) \<Rightarrow> string \<Rightarrow> go_time option" where
  "parseBatchImageListTime time_Parse raw0 =
     (let raw = TrimSpace raw0 in
      if raw = '''' then None
      else case ParseInt raw of
        Some unix \<Rightarrow>
          if unix > 0 then Some (unix_epoch + unix * Second)
          else (case time_Parse ''2006-01-02T15:04:05Z07:00'' raw of
                  Some t \<Rightarrow> Some t | None \<Rightarrow> time_Parse ''2006-01-02'' raw)
      | None \<Rightarrow>
          (case time_Parse ''2006-01-02T15:04:05Z07:00'' raw of
             Some t \<Rightarrow> Some t | None \<Rightarrow> time_Parse ''2006-01-02'' raw))"

section \<open>Reading\<close>

record BatchImageJobsQuery =
  jq_Status :: string
  jq_TaskName :: string
  jq_Downloaded :: string
  jq_From :: string
  jq_To :: string
  jq_Limit :: int
  jq_Cursor :: string

record BatchImageItemsQuery =
  iq_Status :: string
  iq_Limit :: int
  iq_Cursor :: string

definition Get ::
    "'acc submit_env \<Rightarrow> go_time \<Rightarrow> BatchImageOwner \<Rightarrow> string
       \<Rightarrow> batch_db world \<Rightarrow> (go_error + BatchImagePublicBatch) \<times> batch_db world" where
  "Get env now owner batchID w =
     (case GetBatchImageJobByBatchIDForOwner (o_UserID owner) (o_APIKeyID owner) batchID w of
        (Inl e, w1) \<Rightarrow> (Inl e, w1)
      | (Inr job, w1) \<Rightarrow> (Inr (to_public env now job), w1))"

definition job_status_filter :: "string \<Rightarrow> string" where
  "job_status_filter status =
     (let s = TrimSpace status in
      if s = '''' \<or> s = ''all'' then ''''
      else if s = ''queued'' then BatchImageJobStatusSubmitted
      else if s = ''processing_results'' then BatchImageJobStatusIndexing
      else if s = ''completed'' then BatchImageJobStatusCompleted
      else if s = ''failed'' then BatchImageJobStatusFailed
      else if s = ''cancelled'' then BatchImageJobStatusCancelled
      else if s = ''output_deleted'' then BatchImageJobStatusOutputDeleted
      else s)"

text \<open>The filter by downloads: none, one of the two, or an error.\<close>

definition downloaded_filter :: "string \<Rightarrow> bool option option" where
  "downloaded_filter downloaded =
     (let s = TrimSpace (ToLower downloaded) in
      if s = '''' \<or> s = ''all'' then Some None
      else if s = ''true'' \<or> s = ''1'' \<or> s = ''yes'' \<or> s = ''downloaded'' then Some (Some True)
      else if s = ''false'' \<or> s = ''0'' \<or> s = ''no'' \<or> s = ''not_downloaded'' then Some (Some False)
      else None)"

definition list_jobs ::
    "(string \<Rightarrow> string \<Rightarrow> bool) \<Rightarrow> (string \<Rightarrow> string \<Rightarrow> go_time option) \<Rightarrow> 'acc submit_env \<Rightarrow> go_time
       \<Rightarrow> BatchImageOwner \<Rightarrow> BatchImageJobsQuery \<Rightarrow> batch_db world
       \<Rightarrow> (go_error + BatchImagePublicBatch list_response) \<times> batch_db world" where
  "list_jobs ilike time_Parse env now owner q w =
     (case downloaded_filter (jq_Downloaded q) of
        None \<Rightarrow> (Inl ErrBatchImageInvalidItems, w)
      | Some dl \<Rightarrow>
          (let limit = (if jq_Limit q \<le> 0 \<or> jq_Limit q > 100 then 20 else jq_Limit q);
               flt = \<lparr>jf_Status = job_status_filter (jq_Status q),
                      jf_TaskNameLike = TrimSpace (jq_TaskName q), jf_Downloaded = dl,
                      jf_CreatedAfter = parseBatchImageListTime time_Parse (jq_From q),
                      jf_CreatedBefore = parseBatchImageListTime time_Parse (jq_To q),
                      jf_ExcludeDeleted = True, jf_Limit = limit,
                      jf_Offset = parseBatchImageCursor (jq_Cursor q)\<rparr>
           in case ListBatchImageJobsForOwner ilike (o_UserID owner) (o_APIKeyID owner) flt w of
                (Inl e, w1) \<Rightarrow> (Inl e, w1)
              | (Inr jobs, w1) \<Rightarrow>
                  (let batches = map (to_public env now) jobs
                   in (Inr \<lparr>lr_Object = ''list'', lr_Data = batches,
                           lr_HasMore = (int (length batches) = limit)\<rparr>, w1))))"

definition item_status_filter :: "string \<Rightarrow> string option" where
  "item_status_filter status =
     (let s = TrimSpace status in
      if s = '''' \<or> s = ''all'' then Some ''''
      else if s = ''succeeded'' \<or> s = ''success'' then Some BatchImageItemStatusSuccess
      else if s = ''pending'' then Some BatchImageItemStatusPending
      else if s = ''failed'' then Some BatchImageItemStatusFailed
      else None)"

definition ListItems ::
    "BatchImageOwner \<Rightarrow> string \<Rightarrow> BatchImageItemsQuery
       \<Rightarrow> batch_db world \<Rightarrow> (go_error + BatchImagePublicItem list_response) \<times> batch_db world" where
  "ListItems owner batchID q w =
     (case item_status_filter (iq_Status q) of
        None \<Rightarrow> (Inl ErrBatchImageInvalidItems, w)
      | Some st \<Rightarrow>
          (let limit = (if iq_Limit q \<le> 0 \<or> iq_Limit q > 500 then 100 else iq_Limit q)
           in case ListBatchImageItemsForOwner (o_UserID owner) (o_APIKeyID owner) batchID
                     \<lparr>f_Status = st, f_Limit = limit, f_Offset = parseBatchImageCursor (iq_Cursor q)\<rparr> w of
                (Inl e, w1) \<Rightarrow> (Inl e, w1)
              | (Inr rows, w1) \<Rightarrow>
                  (let public_items = map BatchImageItemToPublic rows
                   in (Inr \<lparr>lr_Object = ''list'', lr_Data = public_items,
                           lr_HasMore = (int (length public_items) = limit)\<rparr>, w1))))"

section \<open>The models on offer\<close>

record BatchImagePublicModel =
  pm_ID :: string
  pm_Object :: string
  pm_Provider :: string

definition matchAntigravityWildcard :: "string \<Rightarrow> string \<Rightarrow> bool" where
  "matchAntigravityWildcard pattern str =
     (if pattern \<noteq> '''' \<and> last pattern = CHR ''*'' then HasPrefix str (butlast pattern) else pattern = str)"

definition matchWildcard :: "string \<Rightarrow> string \<Rightarrow> bool" where
  "matchWildcard pattern str = matchAntigravityWildcard pattern str"

definition defaultBatchImageModelCandidates :: "string list" where
  "defaultBatchImageModelCandidates =
     [''gemini-2.0-flash-exp-image-generation'', ''gemini-2.5-flash-image'', ''gemini-3-pro-image'',
      ''gemini-3-pro-image-preview'', ''gemini-3.1-flash-image'', ''gemini-3.1-flash-image-preview'',
      ''gemini-3.1-flash-lite-image'']"

text \<open>The models of an account, given the keys of its model mapping.\<close>

definition batchImageModelsFromAccountMapping :: "string list \<Rightarrow> string list" where
  "batchImageModelsFromAccountMapping keys =
     sort (remdups (concat (map (\<lambda>k.
       let model = TrimSpace k in
       if model = '''' then []
       else if CHR ''*'' \<in> set model \<or> CHR ''?'' \<in> set model
       then filter (matchWildcard model) defaultBatchImageModelCandidates
       else [model]) keys)))"

text \<open>The models of one provider: of its usable accounts, those with a price that the account supports.\<close>

definition provider_models ::
    "'acc submit_env \<Rightarrow> ('acc \<Rightarrow> string list) \<Rightarrow> string \<Rightarrow> 'acc batch_provider \<Rightarrow> 'acc list \<Rightarrow> string list" where
  "provider_models env mapping_keys name provider candidates =
     sort (remdups (concat (map (\<lambda>a.
       if \<not> IsSchedulable (Methods env) a \<or> \<not> SupportsAccount provider a then []
       else filter (\<lambda>m. (case BatchImageUnitPrice (Stores env) name m of Inl _ \<Rightarrow> False | Inr _ \<Rightarrow> True)
                        \<and> IsModelSupported (Methods env) a m)
              (batchImageModelsFromAccountMapping (mapping_keys a))) candidates)))"

fun list_models ::
    "'acc submit_env \<Rightarrow> ('acc \<Rightarrow> string list) \<Rightarrow> BatchImageOwner \<Rightarrow> string list
       \<Rightarrow> go_error + BatchImagePublicModel list" where
  "list_models env mapping_keys owner [] = Inr []"
| "list_models env mapping_keys owner (name # names) =
     (case Registry env name of
        None \<Rightarrow> list_models env mapping_keys owner names
      | Some provider \<Rightarrow>
          (case listCandidateAccounts (Stores env) owner (batchImageProviderPlatform name) of
             Inl e \<Rightarrow> Inl e
           | Inr candidates \<Rightarrow>
               (case list_models env mapping_keys owner names of
                  Inl e \<Rightarrow> Inl e
                | Inr rest \<Rightarrow>
                    Inr (map (\<lambda>m. \<lparr>pm_ID = m, pm_Object = ''image.batch.model'', pm_Provider = name\<rparr>)
                           (provider_models env mapping_keys name provider candidates) @ rest))))"

definition ListModels ::
    "'acc submit_env \<Rightarrow> ('acc \<Rightarrow> string list) \<Rightarrow> BatchImageOwner \<Rightarrow> go_error + BatchImagePublicModel list" where
  "ListModels env mapping_keys owner =
     (if \<not> cfg_Enabled (Config env) then Inl ErrBatchImageDisabled
      else case ensureGroupAllowsBatchImage (Stores env) owner of
             Some e \<Rightarrow> Inl e
           | None \<Rightarrow> list_models env mapping_keys owner (batchImageProviderSelectionOrder ''''))"

section \<open>Marking, hiding and cancelling\<close>

definition MarkDownloaded ::
    "go_time \<Rightarrow> BatchImageOwner \<Rightarrow> string \<Rightarrow> batch_db world \<Rightarrow> go_error option \<times> batch_db world" where
  "MarkDownloaded now owner batchID w =
     (case GetBatchImageJobByBatchIDForOwner (o_UserID owner) (o_APIKeyID owner) batchID w of
        (Inl e, w1) \<Rightarrow> (Some e, w1)
      | (Inr job, w1) \<Rightarrow>
          (case MarkBatchImageDownloaded now (j_BatchID job) now w1 of
             (Inl e, w2) \<Rightarrow> (Some e, w2) | (Inr _, w2) \<Rightarrow> (None, w2)))"

definition DeleteRecord ::
    "go_time \<Rightarrow> BatchImageOwner \<Rightarrow> string \<Rightarrow> batch_db world \<Rightarrow> go_error option \<times> batch_db world" where
  "DeleteRecord now owner batchID w =
     (case GetBatchImageJobByBatchIDForOwner (o_UserID owner) (o_APIKeyID owner) batchID w of
        (Inl e, w1) \<Rightarrow> (Some e, w1)
      | (Inr job, w1) \<Rightarrow>
          if \<not> isBatchImageProcessorDoneStatus (j_Status job) then (Some ErrBatchImageRecordDeleteNotReady, w1)
          else (case MarkBatchImageJobUserDeleted now (o_UserID owner) (o_APIKeyID owner) (j_BatchID job) now w1 of
                  (Inl e, w2) \<Rightarrow> (Some e, w2) | (Inr _, w2) \<Rightarrow> (None, w2)))"

text \<open>The release of a cancelled job's hold; \<open>None\<close> when it went through.\<close>

definition cancel_release ::
    "'acc submit_env \<Rightarrow> go_time \<Rightarrow> BatchImageOwner \<Rightarrow> BatchImageJob
       \<Rightarrow> batch_db world \<Rightarrow> go_error option \<times> batch_db world" where
  "cancel_release env now owner job w =
     (case releaseBatchImageBalanceHold job (batchImageDerefString (j_RequestHash job)) w of
        (Some _, w1) \<Rightarrow> (Some ErrBatchImageCancelFailed, enqueueBillingRetry env now (j_BatchID job) w1)
      | (None, w1) \<Rightarrow> (None, invalidateAuthCache (o_UserID owner) w1))"

text \<open>A job that the provider has: the provider cancels, the workers find that out.\<close>

definition cancel_at_provider ::
    "'acc submit_env \<Rightarrow> go_time \<Rightarrow> BatchImageOwner \<Rightarrow> string \<Rightarrow> BatchImageJob
       \<Rightarrow> batch_db world \<Rightarrow> (go_error + BatchImagePublicBatch) \<times> batch_db world" where
  "cancel_at_provider env now owner batchID job w =
     (case Registry env (j_Provider job) of
        None \<Rightarrow> (Inl ErrBatchImageUnsupportedProvider, w)
      | Some _ \<Rightarrow>
          (case j_AccountID job of
             None \<Rightarrow> (Inl ErrBatchImageCancelFailed, w)
           | Some accountID \<Rightarrow>
               (case GetByID (Stores env) accountID of
                  Inl _ \<Rightarrow> (Inl ErrBatchImageCancelFailed, w)
                | Inr account \<Rightarrow>
                    (case provider_Cancel env (j_Provider job) job account of
                       Some _ \<Rightarrow> (Inl ErrBatchImageCancelFailed, w)
                     | None \<Rightarrow>
                         (let w1 = snd (AppendBatchImageEvent now (j_BatchID job) ''job_cancel_requested''
                                     (Some [(''batch_id'', PString (j_BatchID job))]) w)
                          in case enqueue_job env now (j_BatchID job) w1 of
                               (Some _, w2) \<Rightarrow> (Inl ErrBatchImageCancelFailed, w2)
                             | (None, w2) \<Rightarrow> Get env now owner batchID w2)))))"

definition Cancel ::
    "'acc submit_env \<Rightarrow> go_time \<Rightarrow> BatchImageOwner \<Rightarrow> string
       \<Rightarrow> batch_db world \<Rightarrow> (go_error + BatchImagePublicBatch) \<times> batch_db world" where
  "Cancel env now owner batchID w =
     (case GetBatchImageJobByBatchIDForOwner (o_UserID owner) (o_APIKeyID owner) batchID w of
        (Inl e, w1) \<Rightarrow> (Inl e, w1)
      | (Inr job, w1) \<Rightarrow>
          if isBatchImageProcessorDoneStatus (j_Status job)
          then (if j_Status job = BatchImageJobStatusFailed \<or> j_Status job = BatchImageJobStatusCancelled
                then (case cancel_release env now owner job w1 of
                        (Some e, w2) \<Rightarrow> (Inl e, w2)
                      | (None, w2) \<Rightarrow> (Inr (to_public env now job), w2))
                else (Inr (to_public env now job), w1))
          else if (case j_ProviderJobName job of None \<Rightarrow> False | Some p \<Rightarrow> TrimSpace p \<noteq> '''')
          then cancel_at_provider env now owner batchID job w1
          else (case TransitionBatchImageJobStatus now (j_BatchID job) BatchImageJobStatusCancelled
                       (event_opts ''job_cancelled'' [(''batch_id'', PString (j_BatchID job))]) w1 of
                  (Inl e, w2) \<Rightarrow> (Inl e, w2)
                | (Inr _, w2) \<Rightarrow>
                    (case cancel_release env now owner job w2 of
                       (Some e, w3) \<Rightarrow> (Inl e, w3)
                     | (None, w3) \<Rightarrow> Get env now owner batchID w3)))"

end
