(* ===== verification/Batch_Image_Request_Facts.thy ===== *)
theory Batch_Image_Request_Facts
  imports Batch_Image_Request Batch_Image_Index_Facts
begin

text \<open>
  What the validation of a submission promises to the rest of the system: the shape of the
  normalized request, its limits, and that the price snapshot always leaves a hold that covers
  the cost of every image.
\<close>

section \<open>References\<close>

definition reference_ok :: "BatchImageReferenceInput \<Rightarrow> bool" where
  "reference_ok r \<longleftrightarrow> ref_MimeType r \<in> {''image/jpeg'', ''image/png'', ''image/webp''}
     \<and> (ref_Data r = '''') \<noteq> (ref_FileURI r = '''')
     \<and> int (length (ref_Data r)) \<le> maxBatchImageReferenceImageBytes
     \<and> (ref_FileURI r \<noteq> '''' \<longrightarrow> HasPrefix (ref_FileURI r) ''gs://'')"

definition inline_bytes :: "BatchImageSubmitItem \<Rightarrow> int" where
  "inline_bytes i = sum_list (map (\<lambda>r. int (length (ref_Data r))) (si_ReferenceImages i))"

definition reference_count :: "BatchImageSubmitItem \<Rightarrow> int" where
  "reference_count i = int (length (si_ReferenceImages i))"

lemma normalize_reference_ok: "normalize_reference r = Inr r' \<Longrightarrow> reference_ok r'"
  by (auto simp: normalize_reference_def reference_ok_def Let_def normalizeBatchImageReferenceMimeType_def
      split: if_split_asm)

lemma normalize_references_ok:
  assumes "normalize_references rs out b = Inr (out', b')"
    and "\<forall>r \<in> set out. reference_ok r" and "b = sum_list (map (\<lambda>r. int (length (ref_Data r))) out)"
  shows "(\<forall>r \<in> set out'. reference_ok r) \<and> b' = sum_list (map (\<lambda>r. int (length (ref_Data r))) out')"
  using assms
proof (induction rs out b rule: normalize_references.induct)
  case (2 r rs out b)
  then obtain r' where r: "normalize_reference r = Inr r'" by (auto split: sum.split_asm)
  from 2(2) r have "normalize_references rs (out @ [r']) (b + int (length (ref_Data r'))) = Inr (out', b')" by simp
  from 2(1) [OF r this] normalize_reference_ok [OF r] 2(3,4) show ?case by auto
qed simp

lemma normalize_inputs_ok:
  assumes "normalizeBatchImageReferenceInputs model item = Inr (item', n, b)"
  shows "item' = item\<lparr>si_ReferenceImages := si_ReferenceImages item'\<rparr>"
    and "\<forall>r \<in> set (si_ReferenceImages item'). reference_ok r"
    and "n = reference_count item'" and "b = inline_bytes item'" and "0 \<le> n" and "0 \<le> b"
proof -
  have sums: "0 \<le> sum_list (map (\<lambda>r. int (length (ref_Data r))) rs)" for rs
    by (rule sum_list_nonneg) auto
  from assms normalize_references_ok [of "si_ReferenceImages item" "[]" 0] sums
  show "item' = item\<lparr>si_ReferenceImages := si_ReferenceImages item'\<rparr>"
    and "\<forall>r \<in> set (si_ReferenceImages item'). reference_ok r"
    and "n = reference_count item'" and "b = inline_bytes item'" and "0 \<le> n" and "0 \<le> b"
    by (auto simp: normalizeBatchImageReferenceInputs_def Let_def reference_count_def inline_bytes_def
        split: if_split_asm sum.split_asm)
qed

section \<open>Items\<close>

definition item_ok :: "BatchImageConfig \<Rightarrow> BatchImageSubmitItem \<Rightarrow> bool" where
  "item_ok cfg i \<longleftrightarrow> si_CustomID i \<noteq> '''' \<and> si_Prompt i \<noteq> '''' \<and> si_OutputCount i = 0
     \<and> int (length (si_Prompt i)) \<le> maxPromptChars cfg
     \<and> (\<forall>r \<in> set (si_ReferenceImages i). reference_ok r)"

text \<open>What the loop over the items keeps.\<close>

definition totals_ok :: "BatchImageConfig \<Rightarrow> item_totals \<Rightarrow> bool" where
  "totals_ok cfg t \<longleftrightarrow> distinct (map si_CustomID (expandedItems t))
     \<and> (\<forall>i \<in> set (expandedItems t). item_ok cfg i)
     \<and> totalOutputImages t = int (length (expandedItems t))
     \<and> totalReferenceImages t = sum_list (map reference_count (expandedItems t))
     \<and> totalInlineReferenceBytes t = sum_list (map inline_bytes (expandedItems t))
     \<and> totalOutputImages t \<le> maxOutputImagesPerJob cfg
     \<and> totalReferenceImages t \<le> maxReferenceImagesPerJob cfg
     \<and> totalInlineReferenceBytes t \<le> maxReferenceInlineBytesPerJob cfg"

lemma limits_positive:
  "0 < maxItems cfg" "0 < maxOutputImagesPerJob cfg" "0 < maxOutputImagesPerItem cfg"
  "0 < maxPromptChars cfg" "0 < maxReferenceImagesPerJob cfg" "0 < maxReferenceInlineBytesPerJob cfg"
  by (simp_all add: maxItems_def maxOutputImagesPerJob_def maxOutputImagesPerItem_def maxPromptChars_def
      maxReferenceImagesPerJob_def maxReferenceInlineBytesPerJob_def defaultBatchImageMaxItems_def
      defaultBatchImageMaxOutputImages_def defaultBatchImageMaxOutputCount_def
      defaultBatchImageMaxPromptChars_def defaultBatchImageMaxReferenceImages_def
      defaultBatchImageMaxReferenceBytes_def)

lemma no_items_ok: "totals_ok cfg no_items"
  using limits_positive [of cfg] by (simp add: totals_ok_def no_items_def)

lemma expand_item_adds:
  assumes "expand_item item n rs expanded = Inr expanded'"
    and "distinct (map si_CustomID expanded)" and "si_CustomID item \<noteq> ''''"
  shows "\<exists>copies. expanded' = expanded @ copies \<and> length copies = length rs
    \<and> distinct (map si_CustomID expanded')
    \<and> (\<forall>c \<in> set copies. si_CustomID c \<noteq> '''' \<and> si_OutputCount c = 0 \<and> si_Prompt c = si_Prompt item
          \<and> si_ReferenceImages c = si_ReferenceImages item)"
  using assms
proof (induction item n rs expanded rule: expand_item.induct)
  case (2 item n i rs expanded)
  define e1 where "e1 = (let e0 = item\<lparr>si_OutputCount := 0\<rparr> in
     if n > 1 then e0\<lparr>si_CustomID := si_CustomID item @ ''_'' @ pad_zeros (batchImageRepeatSuffixWidth n) (itoa i)\<rparr>
     else e0)"
  have e1: "si_CustomID e1 \<noteq> ''''" "si_OutputCount e1 = 0" "si_Prompt e1 = si_Prompt item"
    "si_ReferenceImages e1 = si_ReferenceImages item" using 2(4) by (simp_all add: e1_def Let_def)
  from 2(2) have new: "si_CustomID e1 \<notin> set (map si_CustomID expanded)"
    and rec: "expand_item item n rs (expanded @ [e1]) = Inr expanded'"
    by (simp_all add: e1_def Let_def split: if_split_asm)
  have "distinct (map si_CustomID (expanded @ [e1]))" using new 2(3) by simp
  from 2(1) [OF refl _ _ _ this 2(4)] new rec obtain copies where
    "expanded' = (expanded @ [e1]) @ copies" "length copies = length rs" "distinct (map si_CustomID expanded')"
    "\<forall>c \<in> set copies. si_CustomID c \<noteq> '''' \<and> si_OutputCount c = 0 \<and> si_Prompt c = si_Prompt item
          \<and> si_ReferenceImages c = si_ReferenceImages item"
    unfolding e1_def Let_def by (auto split: if_split_asm)
  with e1 show ?case by (intro exI [of _ "e1 # copies"]) simp
qed simp

lemma validate_item_ok:
  assumes v: "validate_item cfg model i item t = Inr t'" and ok: "totals_ok cfg t"
  shows "totals_ok cfg t' \<and> length (expandedItems t) < length (expandedItems t')"
proof -
  let ?n = "if si_OutputCount item = 0 then 1 else si_OutputCount item"
  define item2 where "item2 = (let cid = TrimSpace (si_CustomID item) in
     item\<lparr>si_CustomID := (if cid = '''' then ''item_'' @ pad_zeros 6 (itoa (i + 1)) else cid),
          si_Prompt := TrimSpace (si_Prompt item)\<rparr>)"
  have n: "\<not> (?n < 1 \<or> ?n > maxOutputImagesPerItem cfg)" "\<not> totalOutputImages t + ?n > maxOutputImagesPerJob cfg"
    and p: "si_Prompt item2 \<noteq> ''''" "\<not> int (length (si_Prompt item2)) > maxPromptChars cfg"
    using v by (auto simp: validate_item_def Let_def item2_def split: if_split_asm)
  obtain item3 rc ib where norm: "normalizeBatchImageReferenceInputs model item2 = Inr (item3, rc, ib)"
    using v n p by (auto simp: validate_item_def Let_def item2_def split: if_split_asm sum.split_asm)
  let ?refs = "totalReferenceImages t + rc * ?n" and ?bytes = "totalInlineReferenceBytes t + ib * ?n"
  have lim: "\<not> ?refs > maxReferenceImagesPerJob cfg" "\<not> ?bytes > maxReferenceInlineBytesPerJob cfg"
    and ex: "case expand_item item3 ?n [1..?n] (expandedItems t) of Inl e \<Rightarrow> False
      | Inr expanded \<Rightarrow> t' = \<lparr>expandedItems = expanded, totalReferenceImages = ?refs,
          totalInlineReferenceBytes = ?bytes, totalOutputImages = totalOutputImages t + ?n\<rparr>"
    using v n p norm by (auto simp: validate_item_def Let_def item2_def split: if_split_asm sum.split_asm)
  note i3 = normalize_inputs_ok [OF norm]
  from ex obtain expanded where e: "expand_item item3 ?n [1..?n] (expandedItems t) = Inr expanded"
    and t': "t' = \<lparr>expandedItems = expanded, totalReferenceImages = ?refs,
        totalInlineReferenceBytes = ?bytes, totalOutputImages = totalOutputImages t + ?n\<rparr>"
    by (auto split: sum.split_asm)
  have cid: "si_CustomID item3 \<noteq> ''''" "si_Prompt item3 = si_Prompt item2"
    by (subst i3(1), simp add: item2_def Let_def)+
  from expand_item_adds [OF e _ cid(1)] ok obtain copies where
    c: "expanded = expandedItems t @ copies" "length copies = nat ?n" "distinct (map si_CustomID expanded)"
      "\<forall>c \<in> set copies. si_CustomID c \<noteq> '''' \<and> si_OutputCount c = 0 \<and> si_Prompt c = si_Prompt item3
          \<and> si_ReferenceImages c = si_ReferenceImages item3"
    by (auto simp: totals_ok_def)
  have same: "map reference_count copies = replicate (nat ?n) rc" "map inline_bytes copies = replicate (nat ?n) ib"
    using c(2,4) i3(3,4) by (auto simp: reference_count_def inline_bytes_def intro!: nth_equalityI)
  have items: "\<forall>c \<in> set copies. item_ok cfg c"
    using c(4) cid p i3(2) by (auto simp: item_ok_def)
  from n(1) have pos: "0 < ?n" by simp
  show ?thesis
    using ok c(1,2,3) same items pos n(2) lim
    by (auto simp: totals_ok_def t' sum_list_replicate mult.commute split del: if_split)
qed

lemma validate_items_ok:
  "validate_items cfg model i rs t = Inr t' \<Longrightarrow> totals_ok cfg t \<Longrightarrow>
     totals_ok cfg t' \<and> length (expandedItems t) + length rs \<le> length (expandedItems t')"
proof (induction cfg model i rs t rule: validate_items.induct)
  case (2 cfg model i item rest t)
  then obtain t1 where t1: "validate_item cfg model i item t = Inr t1" by (auto split: sum.split_asm)
  with 2(2) have rec: "validate_items cfg model (i + 1) rest t1 = Inr t'" by simp
  from validate_item_ok [OF t1 2(3)] 2(1) [OF t1 rec] show ?case by auto
qed simp

lemma truncate_bound: "0 < n \<Longrightarrow> int (length (truncateBatchImageMessage s n)) \<le> n"
  by (auto simp: truncateBatchImageMessage_def Let_def)

text \<open>
  C19. A request that passes validation is well formed: it has a model, a task name of at most
  255 bytes, a supported provider if it names one, and between one and the limit of items; each
  item asks for exactly one image, has its own custom id, a prompt within the limit and references
  that carry either data of bounded size or a storage path; and the references of all items
  together stay within the limits of the job.
\<close>

theorem validated_request_well_formed:
  assumes "validateSubmitRequest cfg format_time now req = Inr r"
  shows "rq_Model r \<noteq> '''' \<and> length (rq_TaskName r) \<le> 255
    \<and> (rq_Provider r = '''' \<or> IsSupportedBatchImageProvider (rq_Provider r)) \<and> rq_ImageSize r = ''1K''
    \<and> rq_Items r \<noteq> [] \<and> int (length (rq_Items r)) \<le> maxOutputImagesPerJob cfg
    \<and> distinct (map si_CustomID (rq_Items r)) \<and> (\<forall>i \<in> set (rq_Items r). item_ok cfg i)
    \<and> sum_list (map reference_count (rq_Items r)) \<le> maxReferenceImagesPerJob cfg
    \<and> sum_list (map inline_bytes (rq_Items r)) \<le> maxReferenceInlineBytesPerJob cfg"
proof -
  let ?req = "trim_request req"
  have model: "rq_Model ?req \<noteq> ''''" and prov: "rq_Provider ?req = '''' \<or> IsSupportedBatchImageProvider (rq_Provider ?req)"
    and ne: "rq_Items ?req \<noteq> []"
    using assms by (auto simp: validateSubmitRequest_def Let_def split: if_split_asm)
  obtain t where t: "validate_items cfg (rq_Model ?req) 0 (rq_Items ?req) no_items = Inr t"
    using assms by (auto simp: validateSubmitRequest_def Let_def split: if_split_asm sum.split_asm)
  define name where "name = (if rq_TaskName ?req = '''' then defaultBatchImageTaskName format_time now now
                     else rq_TaskName ?req)"
  have r: "rq_Model r = rq_Model ?req" "rq_Provider r = rq_Provider ?req" "rq_Items r = expandedItems t"
    "rq_ImageSize r = defaultBatchImageImageSize"
    "rq_TaskName r = (if length name > 255 then truncateBatchImageMessage name 255 else name)"
    using assms t unfolding name_def
    by (auto simp: validateSubmitRequest_def Let_def split: if_split_asm split del: if_split)
  have "length (rq_TaskName r) \<le> 255" using truncate_bound [of 255 name] by (simp add: r)
  moreover from validate_items_ok [OF t no_items_ok]
  have "totals_ok cfg t" "rq_Items r \<noteq> []" using ne by (auto simp: r no_items_def)
  ultimately show ?thesis
    using model prov by (simp add: r totals_ok_def defaultBatchImageImageSize_def)
qed

definition sample_image_config :: BatchImageConfig where
  "sample_image_config = \<lparr>cfg_Enabled = True, cfg_MaxItemsPerJobDefault = 0, cfg_MaxOutputImagesPerJob = 0,
     cfg_MaxOutputImagesPerItem = 0, cfg_MaxPromptCharsPerItem = 0, cfg_MaxReferenceImagesPerJob = 0,
     cfg_MaxReferenceInlineBytesPerJob = 0, cfg_DefaultResponseMimeType = '''', cfg_DefaultImageSize = '''',
     cfg_StaleActiveAfterSeconds = 0\<rparr>"

text \<open>A request for one item that validation leaves as it is.\<close>

definition sample_request :: "string \<Rightarrow> BatchImageSubmitRequest" where
  "sample_request name = \<lparr>rq_Model = ''m'', rq_TaskName = name, rq_ParentBatchID = '''',
     rq_Provider = ''vertex'', rq_Items = [\<lparr>si_CustomID = ''c'', si_Prompt = ''p'', si_OutputCount = 0,
       si_ReferenceImages = []\<rparr>], rq_ResponseMimeType = ''image/png'', rq_AspectRatio = '''',
     rq_ImageSize = ''1K'', rq_Metadata = None, rq_SessionID = None\<rparr>"

lemma sample_request_valid:
  assumes "name \<noteq> ''''" and "TrimSpace name = name" and "length name \<le> 255"
  shows "validateSubmitRequest sample_image_config f now (sample_request name) = Inr (sample_request name)"
  using assms
  by (simp add: validateSubmitRequest_def trim_request_def sample_request_def sample_image_config_def
      validate_item_def no_items_def normalizeBatchImageReferenceInputs_def maxItems_def
      defaultBatchImageMaxItems_def IsSupportedBatchImageProvider_def BatchImageProviderVertex_def
      EqualFold_def lower_byte_def char_of_def bit_0 maxOutputImagesPerItem_def defaultBatchImageMaxOutputCount_def
      maxOutputImagesPerJob_def defaultBatchImageMaxOutputImages_def maxPromptChars_def
      defaultBatchImageMaxPromptChars_def maxReferenceImagesPerJob_def defaultBatchImageMaxReferenceImages_def
      maxReferenceInlineBytesPerJob_def defaultBatchImageMaxReferenceBytes_def
      defaultBatchImageImageSize_def sanitizeBatchImageMetadata_def TrimSpace_visible visible_def Let_def)

lemma validated_request_well_formed_witness: "item_ok sample_image_config (hd (rq_Items (sample_request ''t'')))"
proof -
  have "validateSubmitRequest sample_image_config (\<lambda>_. '''') 0 (sample_request ''t'')
      = Inr (sample_request ''t'')"
    by (rule sample_request_valid) (simp_all add: TrimSpace_visible visible_def)
  from validated_request_well_formed [OF this] show ?thesis by (simp add: sample_request_def)
qed

section \<open>The hold covers the cost\<close>

text \<open>The columns keep ten decimals; in their unit both amounts are whole.\<close>

lemma round_scale_floor: "0 \<le> x \<Longrightarrow> round_scale k x = of_int \<lfloor>x * 10 ^ k + 1 / 2\<rfloor> / 10 ^ k"
  by (auto simp: round_scale_def sgn_if floor_eq_iff)

lemma whole_bound:
  fixes x y :: rat
  assumes "0 \<le> x" and "of_nat n * x \<le> y" and "s \<le> n" and "s \<le> 201"
  shows "int s * \<lfloor>x + 1 / 2\<rfloor> - \<lfloor>y + 1 / 2\<rfloor> \<le> 100"
proof -
  have "of_int (int s * \<lfloor>x + 1 / 2\<rfloor>) \<le> (of_nat s :: rat) * (x + 1 / 2)"
    by (simp add: mult_left_mono)
  moreover have "y - 1 / 2 < of_int \<lfloor>y + 1 / 2\<rfloor>" using floor_correct [of "y + 1 / 2"] by linarith
  moreover have "of_nat s * x \<le> of_nat n * x" using assms(1,3) by (intro mult_right_mono) auto
  ultimately have "(of_int (int s * \<lfloor>x + 1 / 2\<rfloor> - \<lfloor>y + 1 / 2\<rfloor>) :: rat) < of_nat s / 2 + 1 / 2"
    using assms(2) by (simp add: algebra_simps)
  also have "\<dots> \<le> 101" using assms(4) by simp
  finally have "of_int (int s * \<lfloor>x + 1 / 2\<rfloor> - \<lfloor>y + 1 / 2\<rfloor>) < (of_int 101 :: rat)" by simp
  then show ?thesis unfolding of_int_less_iff by linarith
qed

lemma not_negative_ge [simp]: "0 \<le> not_negative x"
  by (simp add: not_negative_def)

lemma group_prices_signs:
  assumes "group_prices st owner imageSize = Inr (unit, g, d, h)"
  shows "0 \<le> g" "0 \<le> d"
  using assms by (auto simp: group_prices_def Let_def defaultBatchImageDiscountMultiplier_def
      split: option.split_asm if_split_asm sum.split_asm)

lemma snapshot_signs:
  assumes "resolvePricingSnapshot st am owner req provider account = Inr sn"
  shows "0 \<le> sn_BillableUnitPrice sn"
    and "of_nat (length (rq_Items req)) * sn_BillableUnitPrice sn \<le> sn_HoldAmount sn"
proof -
  obtain unit0 g d h where gp: "group_prices st owner (rq_ImageSize req) = Inr (unit0, g, d, h)"
    using assms by (auto simp: resolvePricingSnapshot_def split: sum.split_asm)
  obtain unit where u: "0 \<le> unit"
    and sn: "sn = snapshot_of unit g (not_negative (BillingRateMultiplier am account)) d h (length (rq_Items req))"
    using assms gp that by (auto simp: resolvePricingSnapshot_def not_less split: if_split_asm sum.split_asm)
  let ?std = "unit * g * not_negative (BillingRateMultiplier am account)"
  note signs = group_prices_signs [OF gp]
  have std: "0 \<le> ?std" using u signs(1) by simp
  show "0 \<le> sn_BillableUnitPrice sn" using std signs(2) by (simp add: sn snapshot_of_def Let_def)
  have "?std * d \<le> ?std * (if h < d then d else h)" using std by (intro mult_left_mono) auto
  then have "?std * d * of_nat (length (rq_Items req)) \<le> ?std * (if h < d then d else h) * of_nat (length (rq_Items req))"
    by (intro mult_right_mono) auto
  then show "of_nat (length (rq_Items req)) * sn_BillableUnitPrice sn \<le> sn_HoldAmount sn"
    by (simp add: sn snapshot_of_def Let_def mult.commute)
qed

lemma settlement_fits:
  fixes sn :: BatchImagePricingSnapshot
  assumes "0 \<le> sn_BillableUnitPrice sn" and "of_nat n * sn_BillableUnitPrice sn \<le> sn_HoldAmount sn"
    and "s \<le> n" and "n \<le> 201"
  shows "of_nat s * round_scale 10 (sn_BillableUnitPrice sn) - round_scale 10 (sn_HoldAmount sn)
    \<le> batchImageCostEpsilon"
proof -
  let ?x = "sn_BillableUnitPrice sn * 10 ^ 10" and ?y = "sn_HoldAmount sn * 10 ^ 10"
  have hold: "0 \<le> sn_HoldAmount sn" using assms(1,2) by (meson mult_nonneg_nonneg of_nat_0_le_iff order_trans)
  have "of_nat n * ?x \<le> ?y" using assms(2) by simp
  from whole_bound [OF _ this assms(3)] assms(1,3,4)
  have "int s * \<lfloor>?x + 1 / 2\<rfloor> - \<lfloor>?y + 1 / 2\<rfloor> \<le> 100" by simp
  then have "(of_int (int s * \<lfloor>?x + 1 / 2\<rfloor> - \<lfloor>?y + 1 / 2\<rfloor>) :: rat) \<le> of_int 100" unfolding of_int_le_iff .
  then have "(of_nat s * of_int \<lfloor>?x + 1 / 2\<rfloor> - of_int \<lfloor>?y + 1 / 2\<rfloor>) / 10 ^ 10 \<le> (100 / 10 ^ 10 :: rat)"
    by (simp add: divide_right_mono)
  then show ?thesis
    by (simp add: round_scale_floor assms(1) hold batchImageCostEpsilon_def diff_divide_distrib)
qed

end
