(* ===== verification/Batch_Image_Public_Facts.thy ===== *)
theory Batch_Image_Public_Facts
  imports Batch_Image_Access Batch_Image_Request_Facts Batch_Image_Worker_Facts
begin

text \<open>
  What a submission does to the money of its user: the hold of a submission that fails goes back
  to the cent, the hold of one that succeeds is exactly the stored one, and the cases in which
  the code falls short of that.
\<close>

section \<open>Calls that do not touch the ledger\<close>

lemma ledger_simps [simp]:
  "ledger (snd (update_jobs p f d)) = ledger d"
  "ledger (snd (append_event now b t pl d)) = ledger d"
  by (simp_all add: update_jobs_def append_event_def)

lemma record_failure_ledger [simp]: "ledger (db (record_failure now job c m f w)) = ledger (db w)"
proof -
  obtain x w1 where x: "db_exec (\<lambda>d. (Inr () :: go_error + unit, snd (update_jobs (has_batch_id (j_BatchID job)) (\<lambda>j.
              let status = (if f then ''failed'' else j_Status j)
              in j\<lparr>j_Status := status,
                   j_LastErrorCode := Some c,
                   j_LastErrorMessage := Some m,
                   j_FinishedAt := (if status = ''failed'' then keep_first (j_FinishedAt j) (Some now)
                                    else j_FinishedAt j),
                   j_UpdatedAt := now,
                   j_Version := j_Version j + 1\<rparr>) d))) w = (x, w1)" by fastforce
  have 1: "ledger (db w1) = ledger (db w)" by (rule db_exec_keeps [OF x]) simp
  have 2: "ledger (db (snd (AppendBatchImageEvent now b t p w1))) = ledger (db w1)" for b t p
    unfolding AppendBatchImageEvent_def by (rule db_exec_keeps_snd) simp
  show ?thesis
    unfolding record_failure_def RecordBatchImageJobSubmitFailure_def x
    by (cases x) (simp_all add: 1 2)
qed

lemma append_event_ledger [simp]: "ledger (db (snd (AppendBatchImageEvent now b t p w))) = ledger (db w)"
  unfolding AppendBatchImageEvent_def by (rule db_exec_keeps_snd) simp

lemma mark_job_ledger [simp]: "ledger (db (snd (mark_job now e b p f t pl w))) = ledger (db w)"
proof -
  obtain x w1 where x: "update_found e p f w = (x, w1)" by fastforce
  have "ledger (db (snd (update_found e p f w))) = ledger (db w)"
  proof -
    obtain y w2 where y: "db_exec (\<lambda>d. let (n, d') = update_jobs p f d in (Inr n :: go_error + nat, d')) w = (y, w2)"
      by fastforce
    have "ledger (db w2) = ledger (db w)"
      by (rule db_exec_keeps [OF y]) (simp add: update_jobs_def)
    then show ?thesis unfolding update_found_def y by (cases y) simp_all
  qed
  then show ?thesis unfolding mark_job_def x by (cases x) (simp_all add: x)
qed

lemma hide_ledger [simp]: "ledger (db (hidePreUpstreamSubmitFailure now owner job w)) = ledger (db w)"
  by (simp add: hidePreUpstreamSubmitFailure_def MarkBatchImageJobUserDeleted_def)

lemma enqueue_keeps:
  assumes "enqueue_job env now b w = (e, w')"
  shows "ledger (db w') = ledger (db w)" "job_rows (db w') = job_rows (db w)"
proof -
  obtain x w1 where x: "db_exec (on_queue (Enqueue (QueueConfig env) now b)) w = (x, w1)" by fastforce
  have "ledger (db w1) = ledger (db w)" "job_rows (db w1) = job_rows (db w)"
    by (rule db_exec_keeps [OF x], simp add: on_queue_def split: prod.split)+
  with assms x show "ledger (db w') = ledger (db w)" "job_rows (db w') = job_rows (db w)"
    by (auto simp: enqueue_job_def split: sum.split_asm)
qed

lemma create_items_keeps:
  assumes "createPendingItems env now b h its w = (r, w')"
  shows "ledger (db w') = ledger (db w)" "job_rows (db w') = job_rows (db w)"
proof -
  have ins: "ledger d' = ledger d" if "insert_items now ps d = (r, d')" for r ps d d'
    using that
    by (induction now ps d rule: insert_items.induct)
      (auto simp: insert_item_def Let_def split: prod.split_asm sum.split_asm if_split_asm)
  have at: "ledger (snd (atomically (insert_items now ps) d)) = ledger d" for ps d
    using ins by (auto simp: atomically_def split: prod.split sum.split)
  have rows: "job_rows (snd (atomically (insert_items now ps) d)) = job_rows d" for ps d
    using insert_items_rows by (auto simp: atomically_def split: prod.split sum.split)
  have bulk: "ledger (db w2) = ledger (db w) \<and> job_rows (db w2) = job_rows (db w)"
    if "BulkCreateBatchImageItems now ps w = (x, w2)" for ps x w2
    using that at rows unfolding BulkCreateBatchImageItems_def
    by (auto split: if_split_asm dest: db_exec_keeps [where f = ledger] db_exec_keeps [where f = job_rows])
  show "ledger (db w') = ledger (db w)" "job_rows (db w') = job_rows (db w)"
    using assms bulk by (auto simp: createPendingItems_def split: if_split_asm)
qed

lemma create_items_no_faults:
  "faults w = [] \<Longrightarrow> createPendingItems env now b h its w = (r, w') \<Longrightarrow> faults w' = []"
  by (auto simp: createPendingItems_def BulkCreateBatchImageItems_def db_exec_reliable split: if_split_asm)

section \<open>Reservation\<close>

lemma hold_id_trimmed: "TrimSpace (BatchImageHoldRequestID b) = BatchImageHoldRequestID b"
  by (simp add: BatchImageHoldRequestID_def TrimSpace_append batchImageHoldRequestPrefix_def visible_def
      del: append_Cons append_Nil)

lemma fresh_reserve_applied:
  assumes "ReserveBatchImageBalance cmd d = (Inr r, d')"
    and "\<not> claimed d (TrimSpace (h_RequestID cmd)) (h_APIKeyID cmd)"
  shows "hold_applied (Inr r)"
  using assms
  by (auto simp: ReserveBatchImageBalance_def applyBatchImageBalanceHold_def Let_def hold_applied_def
      claimUsageBillingRequest_def claimed_def split: if_splits prod.splits sum.splits bool.splits)

lemma reserve_keeps_live:
  assumes "ReserveBatchImageBalance c d = (res, d')" and "live_user d u \<noteq> None"
  shows "live_user d' u \<noteq> None"
  using assms(1) unfolding ReserveBatchImageBalance_def
proof (cases rule: hold_cases)
  case (applied r d1)
  have "live_user d1 u \<noteq> None" using assms(2) by (simp add: applied(2) live_user_def)
  then show ?thesis using applied(3)
    by (auto simp: reserveUsageBillingBatchImageBalance_def Let_def live_user_def
        split: option.splits if_splits)
qed (use assms(2) in simp)

text \<open>A job whose hold can be taken: the conditions on the job and on the ledger.\<close>

definition submittable :: "BatchImageJob \<Rightarrow> int \<Rightarrow> billing_db \<Rightarrow> bool" where
  "submittable job k l \<longleftrightarrow> j_APIKeyID job = Some k \<and> 0 < k \<and> 0 < job_hold job \<and> on_scale 8 (job_hold job)
     \<and> ledger_ok l \<and> frozen_nonneg l \<and> live_user l (j_UserID job) \<noteq> None
     \<and> \<not> claimed l (BatchImageHoldRequestID (j_BatchID job)) k
     \<and> \<not> claimed l (BatchImageReleaseRequestID (j_BatchID job)) k"

text \<open>A job whose hold is taken.\<close>

definition held :: "BatchImageJob \<Rightarrow> int \<Rightarrow> billing_db \<Rightarrow> bool" where
  "held job k l \<longleftrightarrow> j_APIKeyID job = Some k \<and> 0 < k \<and> 0 < job_hold job \<and> on_scale 8 (job_hold job)
     \<and> ledger_ok l \<and> live_user l (j_UserID job) \<noteq> None \<and> job_hold job \<le> frozen_of l (j_UserID job)
     \<and> claimed l (BatchImageHoldRequestID (j_BatchID job)) k
     \<and> \<not> claimed l (BatchImageReleaseRequestID (j_BatchID job)) k"

lemma reserve_effect:
  assumes "ReserveBatchImageBalance cmd l = (Inr x, l')"
    and "buildBatchImageHoldCommand job (BatchImageHoldRequestID (j_BatchID job)) 0 h = Inr cmd"
    and "submittable job k l"
  shows "moves (j_UserID job) (- job_hold job) (job_hold job) l l'" and "held job k l'"
proof -
  note s = assms(3) [unfolded submittable_def]
  note sels = hold_command [OF assms(2)] hold_id_trimmed
  have k: "h_APIKeyID cmd = k" using sels(2) s by simp
  have "\<not> claimed l (TrimSpace (h_RequestID cmd)) (h_APIKeyID cmd)" using s sels k by simp
  from fresh_reserve_applied [OF assms(1) this] have ap: "hold_applied (Inr x)" .
  have valid: "hold_valid cmd" using s sels by (simp add: hold_valid_def)
  from Reserve_law [OF assms(1) ap _ valid] s sels
  show mv: "moves (j_UserID job) (- job_hold job) (job_hold job) l l'" by (simp add: moves_def)
  have "claimed l' (BatchImageHoldRequestID (j_BatchID job)) k"
    using hold_op_claims(2) [OF assms(1) [unfolded ReserveBatchImageBalance_def] ap] sels k by simp
  moreover have "\<not> claimed l' (BatchImageReleaseRequestID (j_BatchID job)) k"
    using claims_only [OF assms(1) [unfolded ReserveBatchImageBalance_def] keeps_claims_reserve]
      s sels release_is_no_hold by fastforce
  moreover have "live_user l' (j_UserID job) \<noteq> None" using reserve_keeps_live [OF assms(1)] s by simp
  moreover have "job_hold job \<le> frozen_of l' (j_UserID job)"
    using mv s by (simp add: moves_def frozen_nonneg_def)
  moreover have "ledger_ok l'" using mv by (simp add: moves_def)
  ultimately show "held job k l'" using s by (simp add: held_def)
qed

lemma reserve_outcome:
  assumes "reserveBatchImageBalanceHold job h w = (r, w')" and "faults w = []"
    and "submittable job k (ledger (db w))"
  shows "faults w' = []" and "job_rows (db w') = job_rows (db w)"
    and "r = None \<Longrightarrow> moves (j_UserID job) (- job_hold job) (job_hold job) (ledger (db w)) (ledger (db w'))
           \<and> held job k (ledger (db w'))"
    and "r = Some e \<Longrightarrow> ledger (db w') = ledger (db w)"
proof -
  note s = assms(3) [unfolded submittable_def]
  obtain cmd where cmd: "buildBatchImageHoldCommand job (BatchImageHoldRequestID (j_BatchID job)) 0 h = Inr cmd"
    and k: "h_APIKeyID cmd = k" using s hold_command_ok by metis
  note sels = hold_command [OF cmd]
  have pos: "\<not> h_HoldAmount cmd \<le> 0" using s sels by simp
  obtain res l where l: "ReserveBatchImageBalance cmd (ledger (db w)) = (res, l)" by fastforce
  let ?w' = "w\<lparr>db := (db w)\<lparr>ledger := l\<rparr>\<rparr>"
  have ex: "db_exec (on_ledger (ReserveBatchImageBalance cmd)) w = (res, ?w')"
    using assms(2) l by (simp add: db_exec_reliable on_ledger_def)
  have w': "w' = ?w'" and r: "r = None \<longleftrightarrow> (\<exists>x. res = Inr x)"
    using assms(1) cmd pos ex by (auto simp: reserveBatchImageBalanceHold_def split: sum.split_asm if_split_asm)
  show "faults w' = []" "job_rows (db w') = job_rows (db w)" using assms(2) by (simp_all add: w')
  show "moves (j_UserID job) (- job_hold job) (job_hold job) (ledger (db w)) (ledger (db w'))
      \<and> held job k (ledger (db w'))" if "r = None"
  proof -
    from that r obtain x where "res = Inr x" by blast
    from reserve_effect [OF l [unfolded this] cmd assms(3)] show ?thesis by (simp add: w')
  qed
  show "ledger (db w') = ledger (db w)" if "r = Some e"
  proof -
    from that r obtain e' where "res = Inl e'" by (cases res) auto
    with hold_error_unchanged l show ?thesis by (auto simp: w' ReserveBatchImageBalance_def)
  qed
qed

lemma give_up_returns:
  assumes "give_up env now owner job h c m err w = (r, w')" and "faults w = []" and "held job k (ledger (db w))"
  shows "r = Inl err" and "moves (j_UserID job) (job_hold job) (- job_hold job) (ledger (db w)) (ledger (db w'))"
proof -
  obtain x w1 where x: "releaseBatchImageBalanceHold job h w = (x, w1)" by fastforce
  from release_applied_moves [OF x assms(2)] assms(3)
  have "x = None" and mv: "moves (j_UserID job) (job_hold job) (- job_hold job) (ledger (db w)) (ledger (db w1))"
    by (auto simp: held_def)
  with assms(1) x show "r = Inl err"
    and "moves (j_UserID job) (job_hold job) (- job_hold job) (ledger (db w)) (ledger (db w'))"
    by (auto simp: give_up_def releaseFailedSubmitHold_def)
qed

lemma moves_back:
  assumes "moves u (- h) h l l1" and "moves u h (- h) l1 l2"
  shows "free_of l2 = free_of l" "frozen_of l2 = frozen_of l"
  using assms by (auto simp: moves_def fun_eq_iff)

section \<open>A submission without faults\<close>

lemma heartbeat_outcome:
  "faults w = [] \<Longrightarrow> find_job b (db w) = Some job \<Longrightarrow>
     faults (runSubmitHeartbeat b ts w) = [] \<and> ledger (db (runSubmitHeartbeat b ts w)) = ledger (db w)
     \<and> (\<exists>t. find_job b (db (runSubmitHeartbeat b ts w)) = Some (job\<lparr>j_UpdatedAt := t\<rparr>))"
proof (induction ts arbitrary: w job)
  case Nil
  have "job\<lparr>j_UpdatedAt := j_UpdatedAt job\<rparr> = job" by simp
  with Nil show ?case by (metis runSubmitHeartbeat.simps(1))
next
  case (Cons t ts)
  let ?p = "\<lambda>j. j_BatchID j = b \<and> unsubmitted j" and ?f = "\<lambda>j :: BatchImageJob. j\<lparr>j_UpdatedAt := t\<rparr>"
  let ?w1 = "w\<lparr>db := snd (update_jobs ?p ?f (db w))\<rparr>"
  have step: "snd (TouchBatchImageJobSubmitting t b w) = ?w1"
    using Cons.prems(1) by (simp add: TouchBatchImageJobSubmitting_def db_exec_reliable)
  have "find_job b (db ?w1) = Some (if ?p job then ?f job else job)"
    using find_job_update [of ?f b ?p "db w"] Cons.prems(2) by simp
  moreover have "(if ?p job then ?f job else job) = job\<lparr>j_UpdatedAt := if ?p job then t else j_UpdatedAt job\<rparr>"
    by simp
  ultimately have f1: "find_job b (db ?w1) = Some (job\<lparr>j_UpdatedAt := if ?p job then t else j_UpdatedAt job\<rparr>)"
    by (rule trans [OF _ arg_cong])
  from Cons.IH [of ?w1, OF _ f1] Cons.prems(1) show ?case by (simp add: step)
qed

lemma finish_outcome:
  assumes "submit_finish env now provider job pj w = (r, w')" and "faults w = []"
    and "find_job (j_BatchID job) (db w) = Some row" and "j_Status row = BatchImageJobStatusUploading"
    and "IsValidBatchImageID (j_BatchID job)"
  shows "\<exists>p. r = Inr p" and "ledger (db w') = ledger (db w)"
    and "\<exists>j. find_job (j_BatchID job) (db w') = Some j \<and> j_Status j = BatchImageJobStatusSubmitted"
    and "inflight (queue (db w')) (j_BatchID job) \<noteq> None"
proof -
  let ?b = "j_BatchID job"
  define ps where "ps = \<lparr>us_BatchID = ?b, us_ProviderJobName = bp_ProviderJobName pj,
      us_ProviderInputRef = bp_ProviderInputRef pj, us_ProviderOutputRef = bp_ProviderOutputRef pj,
      us_GCSInputURI = batchImageGCSRef provider (bp_ProviderInputRef pj),
      us_GCSOutputURI = batchImageGCSRef provider (bp_ProviderOutputRef pj),
      us_EventPayload = Some [(''provider'', PString provider)]\<rparr>"
  define f where "f = (\<lambda>j :: BatchImageJob. j\<lparr>j_Status := ''submitted'',
                   j_ProviderJobName := Some (us_ProviderJobName ps),
                   j_ProviderInputRef := NULLIF (us_ProviderInputRef ps),
                   j_ProviderOutputRef := NULLIF (us_ProviderOutputRef ps),
                   j_GCSInputURI := NULLIF (us_GCSInputURI ps),
                   j_GCSOutputURI := NULLIF (us_GCSOutputURI ps),
                   j_SubmittedAt := keep_first (j_SubmittedAt j) (Some now),
                   j_UpdatedAt := now,
                   j_Version := j_Version j + 1\<rparr>)"
  have can: "CanTransitionBatchImageJob (j_Status row) BatchImageJobStatusSubmitted"
    using assms(4) by (simp add: CanTransitionBatchImageJob_def IsTerminalBatchImageJobStatus_def
        allowed_transitions_def status_defs)
  let ?d1 = "snd (update_jobs (has_batch_id ?b) f (db w))"
  have id: "j_BatchID (f j) = j_BatchID j" for j by (simp add: f_def)
  have d1: "find_job ?b ?d1 = Some (f row)" by (rule find_update_same [OF id assms(3)])
  obtain d2 where d2: "updateBatchImageJobProviderSubmitWithSQL now ps (db w) = (Inr (), d2)"
    "job_rows d2 = job_rows ?d1" "ledger d2 = ledger (db w)"
    using can assms(3) d1 by (simp add: updateBatchImageJobProviderSubmitWithSQL_def ps_def Let_def append_event_def
        f_def [unfolded ps_def, simplified, symmetric])
  let ?w1 = "w\<lparr>db := d2\<rparr>"
  have u: "UpdateBatchImageJobProviderSubmit now ps w = (Inr (), ?w1)"
    using assms(2) d2(1) by (simp add: UpdateBatchImageJobProviderSubmit_def db_exec_reliable atomically_def)
  have row1: "find_job ?b (db ?w1) = Some (f row)" using d1 find_job_cong [OF d2(2), of ?b] by simp
  obtain e w2 where e: "enqueue_job env now ?b ?w1 = (e, w2)" by fastforce
  have q: "e = None \<and> faults w2 = [] \<and> inflight (queue (db w2)) ?b \<noteq> None"
    using e assms(2,5)
    by (auto simp: enqueue_job_def db_exec_reliable on_queue_def Enqueue_def live_mark_def
        errors_Is_refl_application ErrBatchImageAlreadyQueued_def split: if_split_asm option.split_asm)
  have row2: "find_job ?b (db w2) = Some (f row)" using row1 find_job_cong [OF enqueue_keeps(2) [OF e], of ?b] by simp
  have g: "GetBatchImageJobByBatchID ?b w2 = (Inr (f row), w2)" using q row2 by (simp add: get_job_reliable)
  have out: "r = Inr (to_public env now (f row))" "w' = w2"
    using assms(1) u e q g unfolding submit_finish_def ps_def [symmetric] by simp_all
  show "\<exists>p. r = Inr p" using out by blast
  show "ledger (db w') = ledger (db w)" using out enqueue_keeps(1) [OF e] d2(3) by simp
  show "\<exists>j. find_job ?b (db w') = Some j \<and> j_Status j = BatchImageJobStatusSubmitted"
    using out row2 by (simp add: f_def BatchImageJobStatusSubmitted_def)
  show "inflight (queue (db w')) ?b \<noteq> None" using out q by simp
qed

lemma provider_outcome:
  assumes "submit_provider env now owner req provider account job h w = (r, w')"
    and "faults w = []" and "meanwhile env = (\<lambda>v. v)" and "held job k (ledger (db w))"
    and "find_job (j_BatchID job) (db w) = Some row" and "j_Status row = BatchImageJobStatusUploading"
    and "IsValidBatchImageID (j_BatchID job)"
  shows "case r of
      Inl e \<Rightarrow> moves (j_UserID job) (job_hold job) (- job_hold job) (ledger (db w)) (ledger (db w'))
    | Inr p \<Rightarrow> ledger (db w') = ledger (db w) \<and> inflight (queue (db w')) (j_BatchID job) \<noteq> None
        \<and> (\<exists>j. find_job (j_BatchID job) (db w') = Some j \<and> j_Status j = BatchImageJobStatusSubmitted)"
proof -
  let ?w1 = "runSubmitHeartbeat (j_BatchID job) (beats env) w"
  from heartbeat_outcome [OF assms(2,5), of "beats env"] obtain t where
    w1: "faults ?w1 = []" "ledger (db ?w1) = ledger (db w)"
      "find_job (j_BatchID job) (db ?w1) = Some (row\<lparr>j_UpdatedAt := t\<rparr>)" by blast
  have held: "held job k (ledger (db ?w1))" using assms(4) w1(2) by simp
  consider (up) c m err where "give_up env now owner job h c m err ?w1 = (r, w')"
    | (ok) pj where "submit_finish env now provider job pj ?w1 = (r, w')"
    using assms(1,3) by (auto simp: submit_provider_def Let_def split: sum.split_asm option.split_asm if_split_asm)
  then show ?thesis
  proof cases
    case up
    from give_up_returns [OF up w1(1) held] w1(2) show ?thesis by simp
  next
    case ok
    have "j_Status (row\<lparr>j_UpdatedAt := t\<rparr>) = BatchImageJobStatusUploading" using assms(6) by simp
    note f = finish_outcome [OF ok w1(1,3) this assms(7)]
    from f(1) obtain p where "r = Inr p" by blast
    with f(2-4) w1(2) show ?thesis by simp
  qed
qed

text \<open>
  C21. A submission keeps the books: with the hold to be taken first and calls that work, whatever
  the provider answers, a submission that ends in an error leaves every free and every frozen
  balance as it was, and one that succeeds has moved exactly the stored hold of the job from the
  free to the frozen balance of its user, with the job submitted and waiting in the queue. No call is
  lost, nothing else happens between the calls and the hold has at most eight decimals; C22 is what a
  lost answer does.
\<close>

theorem submission_keeps_books:
  assumes "submit_created env now owner req provider account job h w = (r, w')"
    and "faults w = []" and "meanwhile env = (\<lambda>v. v)" and "submittable job k (ledger (db w))"
    and "find_job (j_BatchID job) (db w) = Some job" and "j_Status job = BatchImageJobStatusCreated"
    and "IsValidBatchImageID (j_BatchID job)"
  shows "case r of
      Inl e \<Rightarrow> free_of (ledger (db w')) = free_of (ledger (db w))
        \<and> frozen_of (ledger (db w')) = frozen_of (ledger (db w))
    | Inr p \<Rightarrow> free_of (ledger (db w')) = (free_of (ledger (db w)))
          (j_UserID job := free_of (ledger (db w)) (j_UserID job) - job_hold job)
        \<and> frozen_of (ledger (db w')) = (frozen_of (ledger (db w)))
          (j_UserID job := frozen_of (ledger (db w)) (j_UserID job) + job_hold job)
        \<and> inflight (queue (db w')) (j_BatchID job) \<noteq> None
        \<and> (\<exists>j. find_job (j_BatchID job) (db w') = Some j \<and> j_Status j = BatchImageJobStatusSubmitted)"
proof -
  let ?b = "j_BatchID job"
  obtain x w1 where x: "reserveBatchImageBalanceHold job h w = (x, w1)" by fastforce
  note res = reserve_outcome [OF x assms(2,4)]
  show ?thesis
  proof (cases x)
    case (Some e)
    with assms(1) x obtain c m where "r = Inl e"
      "w' = hidePreUpstreamSubmitFailure now owner job (record_failure now job c m True w1)"
      by (auto simp: submit_created_def)
    with res(4) [OF Some] show ?thesis by simp
  next
    case None
    from res(3) [OF None] have mv: "moves (j_UserID job) (- job_hold job) (job_hold job) (ledger (db w)) (ledger (db w1))"
      and held: "held job k (ledger (db w1))" by blast+
    let ?w2 = "invalidateAuthCache (o_UserID owner) w1"
    have w2: "faults ?w2 = []" "ledger (db ?w2) = ledger (db w1)" "find_job ?b (db ?w2) = Some job"
      using res(1,2) assms(5) find_job_cong [OF res(2), of ?b] by simp_all
    from assms(1) x None have run: "submit_held env now owner req provider account job h ?w2 = (r, w')"
      by (simp add: submit_created_def)
    obtain y w3 where y: "createPendingItems env now ?b h (rq_Items req) ?w2 = (y, w3)" by fastforce
    note items = create_items_keeps [OF y] create_items_no_faults [OF w2(1) y]
    have w3: "ledger (db w3) = ledger (db w1)" "faults w3 = []" "find_job ?b (db w3) = Some job"
      using items w2 find_job_cong [OF items(2), of ?b] by simp_all
    have held3: "held job k (ledger (db w3))" using held w3 by simp
    show ?thesis
    proof (cases y)
      case (Inl err)
      with run y have up: "give_up env now owner job h ''ITEM_CREATE_FAILED'' (public_message env err)
          ErrBatchImageQueueFailed w3 = (r, w')" by (simp add: submit_held_def)
      from give_up_returns [OF up w3(2) held3] mv w3(1) moves_back show ?thesis by simp
    next
      case (Inr u)
      let ?opts = "event_opts ''upload_started'' [(''batch_id'', PString ?b)]"
      have can: "CanTransitionBatchImageJob (j_Status job) BatchImageJobStatusUploading"
        using assms(6) by (simp add: CanTransitionBatchImageJob_def IsTerminalBatchImageJobStatus_def
            allowed_transitions_def status_defs)
      from transition_reliable [OF w3(2,3) can, of now ?opts] obtain w4 where
        t: "TransitionBatchImageJobStatus now ?b BatchImageJobStatusUploading ?opts w3 = (Inr (), w4)"
          "faults w4 = []" "find_job ?b (db w4) = Some (transition_row now BatchImageJobStatusUploading ?opts job)"
          "ledger (db w4) = ledger (db w3)" by blast
      let ?job = "job\<lparr>j_Status := BatchImageJobStatusUploading\<rparr>"
      from run y Inr t(1) have sub: "submit_provider env now owner req provider account ?job h w4 = (r, w')"
        by (simp add: submit_held_def)
      have jh: "job_hold ?job = job_hold job" by (simp add: job_hold_def split: option.split)
      have hd: "held ?job k (ledger (db w4))" using held3 t(4) by (simp add: held_def jh)
      have st: "j_Status (transition_row now BatchImageJobStatusUploading ?opts job) = BatchImageJobStatusUploading"
        by (simp add: transition_row_def Let_def)
      note out = provider_outcome [OF sub t(2) assms(3) hd _ st]
      show ?thesis
      proof (cases r)
        case (Inl e)
        with out t(3) assms(7) jh have "moves (j_UserID job) (job_hold job) (- job_hold job) (ledger (db w1)) (ledger (db w'))"
          by (simp add: t(4) w3(1))
        from moves_back [OF mv this] Inl show ?thesis by simp
      next
        case (Inr p)
        with out t(3) assms(7) have "ledger (db w') = ledger (db w1)" "inflight (queue (db w')) ?b \<noteq> None"
          "\<exists>j. find_job ?b (db w') = Some j \<and> j_Status j = BatchImageJobStatusSubmitted"
          by (simp_all add: t(4) w3(1))
        with Inr mv show ?thesis by (simp add: moves_def)
      qed
    qed
  qed
qed

section \<open>A reservation whose answer is lost\<close>

lemma Reserve_possible:
  assumes "hold_ready d c" and "h_HoldAmount c \<le> free_of d (h_UserID c)"
  shows "hold_applied (fst (ReserveBatchImageBalance c d))"
  unfolding ReserveBatchImageBalance_def
proof (rule ready_applied [OF assms(1)])
  fix d1 :: billing_db
  assume u: "users d1 = users d"
  obtain x where lu: "live_user d1 (h_UserID c) = Some x"
    using assms(1) live_user_cong [OF u] by (auto simp: hold_ready_def)
  have "h_HoldAmount c \<le> balance x"
    using assms(2) balances_cong(1) [OF u] of_row(1) [OF live_userD [OF lu]] by metis
  then show "\<exists>r. fst (reserveUsageBillingBatchImageBalance (BatchImageBalanceHoldCommand_Normalize c) d1) = Inr r"
    using lu by (simp add: reserveUsageBillingBatchImageBalance_def Let_def)
qed

lemma reserve_lost:
  assumes "reserveBatchImageBalanceHold job h w = (r, w')" and "faults w = [LostAfter]"
    and "submittable job k (ledger (db w))" and "job_hold job \<le> free_of (ledger (db w)) (j_UserID job)"
  shows "r = Some (WithCause ErrBatchImageBillingHoldFailed DriverError)" and "faults w' = []"
    and "job_rows (db w') = job_rows (db w)" and "queue (db w') = queue (db w)"
    and "moves (j_UserID job) (- job_hold job) (job_hold job) (ledger (db w)) (ledger (db w'))"
    and "\<not> claimed (ledger (db w')) (BatchImageReleaseRequestID (j_BatchID job)) k"
proof -
  note s = assms(3) [unfolded submittable_def]
  obtain cmd where cmd: "buildBatchImageHoldCommand job (BatchImageHoldRequestID (j_BatchID job)) 0 h = Inr cmd"
    and k: "h_APIKeyID cmd = k" using s hold_command_ok by metis
  note sels = hold_command [OF cmd] hold_id_trimmed
  have pos: "\<not> h_HoldAmount cmd \<le> 0" using s sels by simp
  obtain res l where l: "ReserveBatchImageBalance cmd (ledger (db w)) = (res, l)" by fastforce
  have ne: "BatchImageHoldRequestID b \<noteq> []" for b
    by (simp add: BatchImageHoldRequestID_def batchImageHoldRequestPrefix_def)
  have rd: "hold_ready (ledger (db w)) cmd" using s sels k ne by (simp add: hold_ready_def)
  have "hold_applied res" using Reserve_possible [OF rd] l assms(4) s sels by simp
  then obtain x where x: "res = Inr x" by (cases res) (auto simp: hold_applied_def)
  let ?w' = "w\<lparr>db := (db w)\<lparr>ledger := l\<rparr>, faults := []\<rparr>"
  have "db_exec (on_ledger (ReserveBatchImageBalance cmd)) w = (Inl DriverError, ?w')"
    using assms(2) l by (simp add: db_exec_def db_call_def on_ledger_def Let_def)
  moreover have "\<not> errors_Is DriverError ErrBatchImageInsufficientBalance"
    by (simp add: errors_Is_def ErrBatchImageInsufficientBalance_def New_def)
  ultimately have out: "r = Some (WithCause ErrBatchImageBillingHoldFailed DriverError)" "w' = ?w'"
    using assms(1) cmd pos by (simp_all add: reserveBatchImageBalanceHold_def)
  note ef = reserve_effect [OF l [unfolded x] cmd assms(3)]
  show "r = Some (WithCause ErrBatchImageBillingHoldFailed DriverError)" "faults w' = []"
    "job_rows (db w') = job_rows (db w)" "queue (db w') = queue (db w)" using out by simp_all
  show "moves (j_UserID job) (- job_hold job) (job_hold job) (ledger (db w)) (ledger (db w'))"
    "\<not> claimed (ledger (db w')) (BatchImageReleaseRequestID (j_BatchID job)) k"
    using ef out by (simp_all add: held_def)
qed

lemma record_failure_outcome:
  assumes "faults w = []" and "find_job (j_BatchID job) (db w) = Some row"
  shows "faults (record_failure now job c m True w) = []"
    and "queue (db (record_failure now job c m True w)) = queue (db w)"
    and "\<exists>j. find_job (j_BatchID job) (db (record_failure now job c m True w)) = Some j
      \<and> j_Status j = ''failed'' \<and> j_UserID j = j_UserID row \<and> j_APIKeyID j = j_APIKeyID row
      \<and> j_UserDeletedAt j = j_UserDeletedAt row"
proof -
  let ?b = "j_BatchID job"
  define f where "f = (\<lambda>j :: BatchImageJob. j\<lparr>j_Status := ''failed'', j_LastErrorCode := Some c,
     j_LastErrorMessage := Some m, j_FinishedAt := keep_first (j_FinishedAt j) (Some now),
     j_UpdatedAt := now, j_Version := j_Version j + 1\<rparr>)"
  let ?w1 = "w\<lparr>db := snd (update_jobs (has_batch_id ?b) f (db w))\<rparr>"
  have id: "j_BatchID (f j) = j_BatchID j" for j by (simp add: f_def)
  have row: "find_job ?b (db ?w1) = Some (f row)" using find_update_same [OF id assms(2)] by simp
  have rec: "record_failure now job c m True w
      = snd (AppendBatchImageEvent now ?b ''submit_failed'' (Some [(''error_code'', PString c)]) ?w1)"
    using assms(1) by (simp add: record_failure_def RecordBatchImageJobSubmitFailure_def db_exec_reliable f_def)
  from event_reliable [where w = ?w1 and b = ?b and now = now and t = "''submit_failed''" and p = "Some [(''error_code'', PString c)]"] assms(1) row
  obtain w2 where w2: "AppendBatchImageEvent now ?b ''submit_failed'' (Some [(''error_code'', PString c)]) ?w1 = (Inr (), w2)"
    "faults w2 = []" "job_rows (db w2) = job_rows (db ?w1)" by auto
  have q: "queue (db w2) = queue (db w)"
    using queue_event_snd [where w = ?w1 and now = now and b = ?b and t = "''submit_failed''"
        and pl = "Some [(''error_code'', PString c)]"] w2(1) by simp
  show "faults (record_failure now job c m True w) = []" "queue (db (record_failure now job c m True w)) = queue (db w)"
    using rec w2 q by simp_all
  show "\<exists>j. find_job ?b (db (record_failure now job c m True w)) = Some j
      \<and> j_Status j = ''failed'' \<and> j_UserID j = j_UserID row \<and> j_APIKeyID j = j_APIKeyID row
      \<and> j_UserDeletedAt j = j_UserDeletedAt row"
    using rec w2 row find_job_cong [OF w2(3), of ?b] by (simp add: f_def)
qed

lemma hide_outcome:
  assumes "faults w = []" and "find_job (j_BatchID job) (db w) = Some row" and "j_ProviderJobName job = None"
    and "j_Status row = ''failed''" and "j_UserID row = o_UserID owner"
    and "j_APIKeyID row = Some (o_APIKeyID owner)" and "j_UserDeletedAt row = None"
  shows "queue (db (hidePreUpstreamSubmitFailure now owner job w)) = queue (db w)"
    and "\<exists>j. find_job (j_BatchID job) (db (hidePreUpstreamSubmitFailure now owner job w)) = Some j
      \<and> j_Status j = ''failed'' \<and> j_UserDeletedAt j = Some now"
proof -
  let ?b = "j_BatchID job"
  define p where "p = (\<lambda>j :: BatchImageJob. j_BatchID j = ?b \<and> j_UserID j = o_UserID owner
     \<and> j_APIKeyID j = Some (o_APIKeyID owner) \<and> j_UserDeletedAt j = None \<and> IsTerminalBatchImageJobStatus (j_Status j))"
  define f where "f = (\<lambda>j :: BatchImageJob. j\<lparr>j_UserDeletedAt := keep_first (j_UserDeletedAt j) (Some now), j_UpdatedAt := now\<rparr>)"
  have pr: "p row" using assms(4-7) find_job_id [OF assms(2)]
    by (simp add: p_def IsTerminalBatchImageJobStatus_def BatchImageJobStatusFailed_def)
  have "row \<in> set (job_rows (db w))" using assms(2) by (auto simp: find_job_def find_Some_iff)
  with pr have some: "filter p (job_rows (db w)) \<noteq> []" by (auto simp: filter_empty_conv)
  let ?w1 = "w\<lparr>db := snd (update_jobs p f (db w))\<rparr>"
  have u: "update_found ErrBatchImageRecordDeleteNotReady p f w = (Inr (), ?w1)"
    using assms(1) some by (simp add: update_found_def db_exec_reliable update_jobs_def Let_def)
  have "find_job ?b (db ?w1) = map_option (\<lambda>j. if p j then f j else j) (find_job ?b (db w))"
    using find_job_update [of f ?b p "db w"] by (simp add: f_def)
  then have row1: "find_job ?b (db ?w1) = Some (f row)" using assms(2) pr by simp
  let ?ev = "AppendBatchImageEvent now ?b ''user_record_deleted'' (Some [(''batch_id'', PString ?b),
     (''deleted_at'', PTime now), (''user_id'', PInt (o_UserID owner)), (''api_key_id'', PInt (o_APIKeyID owner))]) ?w1"
  have hide: "hidePreUpstreamSubmitFailure now owner job w = snd ?ev"
    using assms(3) u unfolding p_def f_def
    by (simp add: hidePreUpstreamSubmitFailure_def MarkBatchImageJobUserDeleted_def mark_job_def)
  from event_reliable [where w = ?w1 and b = ?b] assms(1) row1 obtain w2 where
    w2: "?ev = (Inr (), w2)" "job_rows (db w2) = job_rows (db ?w1)" by fastforce
  have "queue (db (snd ?ev)) = queue (db w)" using queue_event_snd [where w = ?w1 and now = now and b = ?b] by simp
  then show "queue (db (hidePreUpstreamSubmitFailure now owner job w)) = queue (db w)" using hide by simp
  show "\<exists>j. find_job ?b (db (hidePreUpstreamSubmitFailure now owner job w)) = Some j
      \<and> j_Status j = ''failed'' \<and> j_UserDeletedAt j = Some now"
    using hide w2 row1 find_job_cong [OF w2(2), of ?b] assms(4,7) by (simp add: f_def keep_first_def)
qed

text \<open>
  C22. A reservation whose answer is lost leaks the hold: when the transaction that takes the hold
  commits but its answer does not arrive, the submission ends with an error, the money stays
  frozen, and nothing is left that would ever return it: the job is failed and hidden from its
  user, it is not in the queue, and no release has been requested.
\<close>

theorem lost_reserve_answer_leaks_hold:
  assumes "submit_created env now owner req provider account job h w = (r, w')"
    and "faults w = [LostAfter]" and "submittable job k (ledger (db w))"
    and "job_hold job \<le> free_of (ledger (db w)) (j_UserID job)"
    and "find_job (j_BatchID job) (db w) = Some job" and "j_ProviderJobName job = None"
    and "j_UserDeletedAt job = None" and "o_UserID owner = j_UserID job" and "o_APIKeyID owner = k"
  shows "r = Inl (WithCause ErrBatchImageBillingHoldFailed DriverError)
    \<and> free_of (ledger (db w')) (j_UserID job) = free_of (ledger (db w)) (j_UserID job) - job_hold job
    \<and> frozen_of (ledger (db w')) (j_UserID job) = frozen_of (ledger (db w)) (j_UserID job) + job_hold job
    \<and> (\<exists>j. find_job (j_BatchID job) (db w') = Some j \<and> j_Status j = BatchImageJobStatusFailed
          \<and> j_UserDeletedAt j \<noteq> None)
    \<and> queue (db w') = queue (db w)
    \<and> \<not> claimed (ledger (db w')) (BatchImageReleaseRequestID (j_BatchID job)) k"
proof -
  let ?b = "j_BatchID job"
  obtain x w1 where x: "reserveBatchImageBalanceHold job h w = (x, w1)" by fastforce
  note res = reserve_lost [OF x assms(2-4)]
  obtain c m where r: "r = Inl (WithCause ErrBatchImageBillingHoldFailed DriverError)"
    and w': "w' = hidePreUpstreamSubmitFailure now owner job (record_failure now job c m True w1)"
    using assms(1) x res(1) by (auto simp: submit_created_def)
  have row1: "find_job ?b (db w1) = Some job" using assms(5) find_job_cong [OF res(3), of ?b] by simp
  let ?w2 = "record_failure now job c m True w1"
  note rec = record_failure_outcome [OF res(2) row1, of now c m]
  from rec(3) obtain row where row: "find_job ?b (db ?w2) = Some row" "j_Status row = ''failed''"
    "j_UserID row = j_UserID job" "j_APIKeyID row = j_APIKeyID job" "j_UserDeletedAt row = j_UserDeletedAt job" by blast
  have key: "j_APIKeyID job = Some k" using assms(3) by (simp add: submittable_def)
  have h: "j_UserID row = o_UserID owner" "j_APIKeyID row = Some (o_APIKeyID owner)" "j_UserDeletedAt row = None"
    using row assms(7-9) key by simp_all
  note hide = hide_outcome [OF rec(1) row(1) assms(6) row(2) h, of now]
  have l: "ledger (db w') = ledger (db w1)" by (simp add: w')
  show ?thesis
    using r res(4,5,6) hide rec(2) by (auto simp: l w' moves_def BatchImageJobStatusFailed_def)
qed

section \<open>The hold of a new job covers what it can cost\<close>

lemma created_job_fields:
  assumes "CreateBatchImageJob now fresh (job_params owner req provider a sn parent b key rh) w = (Inr job, w')"
  shows "j_BillableUnitPrice job = round_scale 10 (sn_BillableUnitPrice sn)"
    and "job_hold job = round_scale 10 (sn_HoldAmount sn)"
    and "j_PricingSnapshotVersion job = 1" and "j_ItemCount job = int (length (rq_Items req))"
proof -
  obtain p where p: "db_exec (insert_job now p) w = (Inr job, w')"
    "p_BillableUnitPrice p = sn_BillableUnitPrice sn" "p_HoldAmount p = Some (sn_HoldAmount sn)"
    "p_PricingSnapshotVersion p = 1" "p_ItemCount p = int (length (rq_Items req))"
    using assms
    by (auto simp: CreateBatchImageJob_def job_params_def Let_def split: if_split_asm prod.split_asm sum.split_asm)
  from db_exec_Inr [OF p(1)] p(2-)
  show "j_BillableUnitPrice job = round_scale 10 (sn_BillableUnitPrice sn)"
    "job_hold job = round_scale 10 (sn_HoldAmount sn)"
    "j_PricingSnapshotVersion job = 1" "j_ItemCount job = int (length (rq_Items req))"
    by (auto simp: insert_job_def job_hold_def Let_def split: if_split_asm)
qed

text \<open>
  C20. The hold covers the cost: when a job of at most 201 images is created with the price
  snapshot that the submission computed, its settlement finds a price, and for every number of
  images that succeed the cost at the stored price exceeds the stored hold by no more than the
  tolerance of the settlement, although both columns are rounded to ten decimals.
\<close>

theorem hold_covers_the_cost:
  assumes "resolvePricingSnapshot st am owner req provider account = Inr sn"
    and "CreateBatchImageJob now fresh (job_params owner req provider a sn parent b key rh) w = (Inr job, w')"
    and "length (rq_Items req) \<le> 201" and "0 \<le> s" and "s \<le> j_ItemCount job"
  shows "settlementUnitPrice env job = Inr (j_BillableUnitPrice job) \<and> 0 \<le> j_BillableUnitPrice job
    \<and> of_int s * j_BillableUnitPrice job - job_hold job \<le> batchImageCostEpsilon"
proof -
  note f = created_job_fields [OF assms(2)] and g = snapshot_signs [OF assms(1)]
  have nn: "0 \<le> j_BillableUnitPrice job" using g(1) by (simp add: f round_scale_floor)
  have "nat s \<le> length (rq_Items req)" using assms(4,5) f(4) by simp
  from settlement_fits [OF g this assms(3)] assms(4)
  have "of_int s * j_BillableUnitPrice job - job_hold job \<le> batchImageCostEpsilon" by (simp add: f)
  with nn show ?thesis by (simp add: settlementUnitPrice_def f(3))
qed

text \<open>A user without a group, the model's price one dollar, one item.\<close>

definition sample_owner :: BatchImageOwner where
  "sample_owner = \<lparr>o_UserID = 1, o_APIKeyID = 7, o_GroupID = None\<rparr>"

definition sample_methods :: "unit account_methods" where
  "sample_methods = \<lparr>acc_ID = (\<lambda>_. 3), acc_Priority = (\<lambda>_. 0), IsSchedulable = (\<lambda>_. True),
     IsModelSupported = (\<lambda>_ _. True), BillingRateMultiplier = (\<lambda>_. 1)\<rparr>"

definition sample_stores :: "unit submit_stores" where
  "sample_stores = \<lparr>ListSchedulableByPlatform = (\<lambda>_. Inr [()]),
     ListSchedulableByGroupIDAndPlatform = (\<lambda>_ _. Inr [()]), GetByID = (\<lambda>_. Inr ()),
     GetByIDLite = (\<lambda>_. None), GetByUserAndGroup = (\<lambda>_ _. Inr None),
     BatchImageUnitPrice = (\<lambda>_ _. Inr 1)\<rparr>"

lemma sample_snapshot:
  "resolvePricingSnapshot sample_stores sample_methods sample_owner (sample_request nm) ''vertex'' ()
     = Inr (snapshot_of 1 1 1 (5 / 10) (6 / 10) 1)"
  by (simp add: resolvePricingSnapshot_def group_prices_def group_of_def sample_owner_def sample_stores_def
      sample_methods_def sample_request_def not_negative_def defaultBatchImageDiscountMultiplier_def
      defaultBatchImageHoldMultiplier_def)

lemma hold_covers_the_cost_witness:
  "\<exists>job. fst (CreateBatchImageJob 0 '''' (job_params sample_owner (sample_request ''t'') ''vertex'' 3
        (snapshot_of 1 1 1 (5 / 10) (6 / 10) 1) None ''imgbatch_1'' '''' ''h'') sample_world) = Inr job
     \<and> j_BillableUnitPrice job - job_hold job \<le> batchImageCostEpsilon"
proof -
  let ?p = "job_params sample_owner (sample_request ''t'') ''vertex'' 3
        (snapshot_of 1 1 1 (5 / 10) (6 / 10) 1) None ''imgbatch_1'' '''' ''h''"
  have "\<exists>job w'. CreateBatchImageJob 0 '''' ?p sample_world = (Inr job, w')"
    by (simp add: CreateBatchImageJob_def db_exec_reliable sample_world_def insert_job_def sample_jobs_def
        find_job_def sample_job_def job_params_def IsSupportedBatchImageProvider_def
        BatchImageProviderVertex_def BatchImageJobStatusCreated_def Let_def)
  then obtain job w' where c: "CreateBatchImageJob 0 '''' ?p sample_world = (Inr job, w')" by blast
  have "length (rq_Items (sample_request ''t'')) \<le> 201" "(1::int) \<le> j_ItemCount job"
    using created_job_fields(4) [OF c] by (simp_all add: sample_request_def)
  from hold_covers_the_cost [OF sample_snapshot c this(1) _ this(2)] c show ?thesis by simp
qed

section \<open>Retried submissions\<close>

lemma key_lookup_outcome:
  assumes "GetBatchImageJobByIdempotencyKey u k key w = (r, w')"
    and "find (\<lambda>j. j_UserID j = u \<and> j_APIKeyID j = Some k \<and> j_IdempotencyKey j = Some key)
           (sort_key (\<lambda>j. - j_ID j) (job_rows (db w))) = Some job"
  shows "db w' = db w" and "r = Inr job \<or> (\<exists>e. r = Inl e \<and> \<not> errors_Is e ErrBatchImageJobNotFound)"
    and "faults w = [] \<Longrightarrow> r = Inr job \<and> w' = w"
proof -
  note run = assms(1) [unfolded GetBatchImageJobByIdempotencyKey_def select_job_def]
  show "db w' = db w" by (rule db_exec_keeps [OF run, of "\<lambda>d. d"]) simp
  have "\<not> errors_Is DriverError ErrBatchImageJobNotFound"
    by (simp add: errors_Is_def ErrBatchImageJobNotFound_def New_def)
  with run assms(2) show "r = Inr job \<or> (\<exists>e. r = Inl e \<and> \<not> errors_Is e ErrBatchImageJobNotFound)"
    by (auto simp: db_exec_def scan_row_def db_call_def Let_def split: prod.split_asm option.split_asm list.split_asm
        fault.split_asm)
  show "r = Inr job \<and> w' = w" if "faults w = []"
    using that run assms(2) by (auto simp: db_exec_reliable scan_row_def)
qed

lemma record_failure_ids [simp]:
  "map j_BatchID (job_rows (db (record_failure now job c m f w))) = map j_BatchID (job_rows (db w))"
proof -
  let ?u = "\<lambda>d. snd (update_jobs (has_batch_id (j_BatchID job)) (\<lambda>j.
              let status = (if f then ''failed'' else j_Status j)
              in j\<lparr>j_Status := status,
                   j_LastErrorCode := Some c,
                   j_LastErrorMessage := Some m,
                   j_FinishedAt := (if status = ''failed'' then keep_first (j_FinishedAt j) (Some now)
                                    else j_FinishedAt j),
                   j_UpdatedAt := now,
                   j_Version := j_Version j + 1\<rparr>) d)"
  obtain x w1 where x: "db_exec (\<lambda>d. (Inr () :: go_error + unit, ?u d)) w = (x, w1)" by fastforce
  have "map j_BatchID (job_rows (?u d)) = map j_BatchID (job_rows d)" for d
    by (induction "job_rows d" arbitrary: d) (auto simp: update_jobs_def Let_def)
  then have 1: "map j_BatchID (job_rows (db w1)) = map j_BatchID (job_rows (db w))"
    by (intro db_exec_keeps [OF x, where f = "\<lambda>d. map j_BatchID (job_rows d)"]) simp
  have 2: "job_rows (db (snd (AppendBatchImageEvent now b t p w1))) = job_rows (db w1)" for b t p
    unfolding AppendBatchImageEvent_def by (rule db_exec_keeps_snd) (simp add: append_event_def)
  show ?thesis
    unfolding record_failure_def RecordBatchImageJobSubmitFailure_def x
    by (cases x) (simp_all add: 1 2)
qed

section \<open>A submission to try the theorems on\<close>

definition sample_created_job :: BatchImageJob where
  "sample_created_job = sample_job\<lparr>j_BatchID := ''imgbatch_1'', j_Status := ''created'', j_ProviderJobName := None\<rparr>"

definition submit_world :: "billing_db \<Rightarrow> fault list \<Rightarrow> batch_db world" where
  "submit_world l fs = \<lparr>db = sample_jobs\<lparr>job_rows := [sample_created_job], ledger := l\<rparr>, faults = fs\<rparr>"

definition sample_submit_env :: "unit submit_env" where
  "sample_submit_env = \<lparr>Config = sample_image_config, QueueConfig = sample_config, format_time = (\<lambda>t. itoa t),
     Marshal = rq_TaskName, error_string = (\<lambda>_. ''''), Stores = sample_stores, Methods = sample_methods,
     Registry = (\<lambda>_. None), provider_Submit = (\<lambda>_ _ _ _. Inr None), provider_Cancel = (\<lambda>_ _ _. None),
     new_batch_id = Inr ''imgbatch_1'', beats = [], meanwhile = (\<lambda>w. w)\<rparr>"

lemma submit_world_sels:
  "find_job ''imgbatch_1'' (db (submit_world l fs)) = Some sample_created_job"
  "faults (submit_world l fs) = fs" "ledger (db (submit_world l fs)) = l"
  "queue (db (submit_world l fs)) = empty_queue"
  by (simp_all add: submit_world_def find_job_def sample_created_job_def sample_jobs_def empty_queue_def)

lemma sample_created_sels:
  "j_BatchID sample_created_job = ''imgbatch_1''" "j_Status sample_created_job = BatchImageJobStatusCreated"
  "j_ProviderJobName sample_created_job = None" "j_UserDeletedAt sample_created_job = None"
  "j_UserID sample_created_job = 1" "job_hold sample_created_job = 1" "j_APIKeyID sample_created_job = Some 7"
  by (simp_all add: sample_created_job_def sample_job_def job_hold_def BatchImageJobStatusCreated_def)

lemma sample_submittable: "submittable sample_created_job 7 sample_db"
  using sample_ledger_ok sample_created_sels
  by (simp add: submittable_def frozen_nonneg_def frozen_of_def sample_db_def on_scale_def claimed_def
      live_user_def coalesce0_def)

lemma sample_owner_sels:
  "o_UserID sample_owner = 1" "o_APIKeyID sample_owner = 7" "o_GroupID sample_owner = None"
  by (simp_all add: sample_owner_def)

lemma sample_batch_id: "IsValidBatchImageID ''imgbatch_1''"
  by (simp add: IsValidBatchImageID_def HasPrefix_def)

lemma sample_free: "free_of sample_db 1 = 10" "frozen_of sample_db 1 = 0"
  by (simp_all add: free_of_def frozen_of_def sample_db_def coalesce0_def)

lemma submission_keeps_books_witness:
  "case submit_created sample_submit_env 0 sample_owner (sample_request ''t'') ''vertex'' () sample_created_job ''h''
          (submit_world sample_db []) of
     (Inl e, w') \<Rightarrow> free_of (ledger (db w')) 1 = 10
   | (Inr p, w') \<Rightarrow> free_of (ledger (db w')) 1 = 9 \<and> inflight (queue (db w')) ''imgbatch_1'' \<noteq> None"
proof -
  let ?w = "submit_world sample_db []"
  obtain r w' where run: "submit_created sample_submit_env 0 sample_owner (sample_request ''t'') ''vertex'' ()
      sample_created_job ''h'' ?w = (r, w')" by fastforce
  have "meanwhile sample_submit_env = (\<lambda>v. v)" by (simp add: sample_submit_env_def)
  from submission_keeps_books [OF run submit_world_sels(2) this, of 7]
  show ?thesis
    unfolding run submit_world_sels sample_created_sels prod.case
    using sample_submittable sample_batch_id by (cases r) (simp_all add: submit_world_sels sample_created_sels sample_free)
qed

lemma lost_reserve_answer_leaks_hold_witness:
  "frozen_of (ledger (db (snd (submit_created sample_submit_env 0 sample_owner (sample_request ''t'') ''vertex'' ()
     sample_created_job ''h'' (submit_world sample_db [LostAfter]))))) 1 = 1"
proof -
  let ?w = "submit_world sample_db [LostAfter]"
  obtain r w' where run: "submit_created sample_submit_env 0 sample_owner (sample_request ''t'') ''vertex'' ()
      sample_created_job ''h'' ?w = (r, w')" by fastforce
  from lost_reserve_answer_leaks_hold [OF run submit_world_sels(2), of 7] show ?thesis
    using sample_submittable
    by (simp add: run submit_world_sels sample_created_sels sample_free sample_owner_sels)
qed

end
