(* ===== verification/Batch_Image_Access_Facts.thy ===== *)
theory Batch_Image_Access_Facts
  imports Batch_Image_Public_Facts
begin

text \<open>
  Submissions that are repeated with the same idempotency key, cancellation, and the cursors of
  the lists.
\<close>

section \<open>Repeated submissions\<close>

text \<open>The job that the lookup by key finds.\<close>

definition keyed_job :: "BatchImageOwner \<Rightarrow> string \<Rightarrow> batch_db \<Rightarrow> BatchImageJob option" where
  "keyed_job owner key d = find (\<lambda>j. j_UserID j = o_UserID owner \<and> j_APIKeyID j = Some (o_APIKeyID owner)
     \<and> j_IdempotencyKey j = Some key) (sort_key (\<lambda>j. - j_ID j) (job_rows d))"

lemma existing_outcome:
  assumes "submit_existing env now owner h key w = (r, w')" and "key \<noteq> ''''"
    and "keyed_job owner key (db w) = Some job"
  shows "r \<noteq> None" and "ledger (db w') = ledger (db w)"
    and "map j_BatchID (job_rows (db w')) = map j_BatchID (job_rows (db w))"
    and "r = Some (Inr p) \<Longrightarrow> pb_ID p = j_BatchID job \<and> batchImageDerefString (j_RequestHash job) = h"
proof -
  obtain x w1 where x: "GetBatchImageJobByIdempotencyKey (o_UserID owner) (o_APIKeyID owner) key w = (x, w1)"
    by fastforce
  note look = key_lookup_outcome [OF x assms(3) [unfolded keyed_job_def]]
  have "r \<noteq> None \<and> ledger (db w') = ledger (db w)
      \<and> map j_BatchID (job_rows (db w')) = map j_BatchID (job_rows (db w))
      \<and> (\<forall>p. r = Some (Inr p) \<longrightarrow> pb_ID p = j_BatchID job \<and> batchImageDerefString (j_RequestHash job) = h)"
  proof (cases x)
    case (Inl e)
    with look(2) have "\<not> errors_Is e ErrBatchImageJobNotFound" by blast
    with assms(1,2) x Inl look(1) show ?thesis by (auto simp: submit_existing_def)
  next
    case (Inr j)
    with look(2) have j: "j = job" by blast
    obtain e w2 where q: "enqueue_job env now (j_BatchID job) w1 = (e, w2)" by fastforce
    note keep = enqueue_keeps [OF q]
    show ?thesis
    proof (cases e)
      case None
      with assms(1,2) x Inr j q look(1) keep show ?thesis
        by (auto simp: submit_existing_def to_public_def BatchImageJobToPublic_def split: if_split_asm)
    next
      case (Some err)
      with assms(1,2) x Inr j q look(1) keep show ?thesis
        by (auto simp: submit_existing_def to_public_def BatchImageJobToPublic_def split: if_split_asm)
    qed
  qed
  then show "r \<noteq> None" "ledger (db w') = ledger (db w)"
    "map j_BatchID (job_rows (db w')) = map j_BatchID (job_rows (db w))"
    "r = Some (Inr p) \<Longrightarrow> pb_ID p = j_BatchID job \<and> batchImageDerefString (j_RequestHash job) = h"
    by blast+
qed

text \<open>When calls work, the answer depends on the hash of the request alone.\<close>

lemma existing_answer:
  assumes "faults w = []" and "key \<noteq> ''''" and "keyed_job owner key (db w) = Some job" and "IsValidBatchImageID (j_BatchID job)"
  shows "fst (submit_existing env now owner h key w) =
    Some (if batchImageDerefString (j_RequestHash job) = h then Inr (to_public env now job)
          else Inl ErrBatchImageIdempotencyConflict)"
proof -
  obtain x w1 where x: "GetBatchImageJobByIdempotencyKey (o_UserID owner) (o_APIKeyID owner) key w = (x, w1)"
    by fastforce
  with key_lookup_outcome(3) [OF x assms(3) [unfolded keyed_job_def] assms(1)] have x': "x = Inr job" "w1 = w" by blast+
  have "fst (enqueue_job env now (j_BatchID job) w) = None"
    using assms(1,4)
    by (auto simp: enqueue_job_def db_exec_reliable on_queue_def Enqueue_def errors_Is_refl_application ErrBatchImageAlreadyQueued_def
        split: prod.splits)
  then show ?thesis
    using assms(2) x x' by (cases "enqueue_job env now (j_BatchID job) w") (simp add: submit_existing_def)
qed

text \<open>
  C23. A repeated submission is idempotent: once a job with the caller's idempotency key exists,
  a further submission with that key creates no job and moves no money, whatever the request is,
  whatever the state of the job and whichever calls fail; and an answer with a job is that one. When
  the calls work and the request passes the checks before the lookup, the answer is that job if the
  validated request hashes to what the job was submitted with, and the conflict error otherwise.
\<close>

theorem repeated_submission_is_idempotent:
  assumes "Submit env now owner req idempotencyKey w = (r, w')"
    and "TrimSpace idempotencyKey \<noteq> ''''"
    and "keyed_job owner (TrimSpace idempotencyKey) (db w) = Some job"
  shows "ledger (db w') = ledger (db w)
    \<and> map j_BatchID (job_rows (db w')) = map j_BatchID (job_rows (db w))
    \<and> (\<forall>p. r = Inr p \<longrightarrow> pb_ID p = j_BatchID job)
    \<and> (faults w = [] \<and> cfg_Enabled (Config env) \<and> ensureGroupAllowsBatchImage (Stores env) owner = None
         \<and> validateSubmitRequest (Config env) (format_time env) now req = Inr rq \<and> IsValidBatchImageID (j_BatchID job)
       \<longrightarrow> r = (if batchImageDerefString (j_RequestHash job) = HashBatchImageSubmitRequest (Marshal env) rq
              then Inr (to_public env now job) else Inl ErrBatchImageIdempotencyConflict))"
proof -
  have unchanged: ?thesis if "w' = w" and "r = Inl e" and "\<not> cfg_Enabled (Config env)
      \<or> (\<exists>e. validateSubmitRequest (Config env) (format_time env) now req = Inl e)
      \<or> ensureGroupAllowsBatchImage (Stores env) owner \<noteq> None" for e using that by auto
  show ?thesis
  proof (cases "cfg_Enabled (Config env)")
    case False
    with assms(1) show ?thesis by (intro unchanged) (auto simp: Submit_def)
  next
    case on: True
    show ?thesis
    proof (cases "validateSubmitRequest (Config env) (format_time env) now req")
      case (Inl e)
      with assms(1) on show ?thesis by (intro unchanged) (auto simp: Submit_def)
    next
      case ok: (Inr v)
      show ?thesis
      proof (cases "ensureGroupAllowsBatchImage (Stores env) owner")
        case (Some e)
        with assms(1) on ok show ?thesis by (intro unchanged) (auto simp: Submit_def)
      next
        case None
        let ?h = "HashBatchImageSubmitRequest (Marshal env) v" and ?key = "TrimSpace idempotencyKey"
        obtain x w1 where x: "submit_existing env now owner ?h ?key w = (x, w1)" by fastforce
        note out = existing_outcome [OF x assms(2,3)]
        from out(1) obtain y where y: "x = Some y" by blast
        with assms(1) on ok None x have r: "r = y" "w' = w1" by (simp_all add: Submit_def Let_def)
        moreover have "pb_ID p = j_BatchID job" if "r = Inr p" for p using out(4) [of p] y r that by simp
        moreover have "r = (if batchImageDerefString (j_RequestHash job) = ?h
              then Inr (to_public env now job) else Inl ErrBatchImageIdempotencyConflict)"
          if "faults w = []" "IsValidBatchImageID (j_BatchID job)"
          using existing_answer [OF that(1) assms(2,3) that(2), of env now ?h] x y r by (simp split: if_split_asm)
        ultimately show ?thesis using out(2,3) ok by auto
      qed
    qed
  qed
qed

lemma hex_digit_visible:
  assumes "0 \<le> n" and "n < 16"
  shows "visible (hex_digit n)"
proof -
  have "\<forall>c \<in> set ''0123456789abcdef''. visible c" by (simp add: visible_def)
  moreover have "''0123456789abcdef'' ! nat n \<in> set ''0123456789abcdef''"
    using assms by (intro nth_mem) simp
  ultimately show ?thesis by (simp only: hex_digit_def)
qed

lemma hash_trimmed [simp]: "TrimSpace (HashBatchImageSubmitRequest m r) = HashBatchImageSubmitRequest m r"
proof -
  have "\<forall>b \<in> set (sha256_sum x). 0 \<le> b \<and> b < 256" for x
    by (auto simp: sha256_sum_def big_endian_def)
  then have "\<forall>c \<in> set (hex_EncodeToString (sha256_sum x)). visible c" for x
    by (force simp: hex_EncodeToString_def intro!: hex_digit_visible)
  then have "TrimSpace (hex_EncodeToString (sha256_sum x)) = hex_EncodeToString (sha256_sum x)" for x
    by (metis TrimSpace_Nil TrimSpace_visible hd_in_set last_in_set)
  then show ?thesis by (simp add: HashBatchImageSubmitRequest_def)
qed

lemma unnamed_task_name:
  assumes "validateSubmitRequest cfg f now req = Inr r" and "TrimSpace (rq_TaskName req) = ''''"
    and "\<not> IsZero now" and "length (f now) \<le> 255"
  shows "rq_TaskName r = f now"
  using assms
  by (auto simp: validateSubmitRequest_def trim_request_def defaultBatchImageTaskName_def Let_def
      split: if_split_asm sum.split_asm)

text \<open>
  A repeated request without a task name is not the same request: validation fills an empty name with the
  time of the submission before the request is hashed.
\<close>

lemma unnamed_repetition_differs:
  assumes "validateSubmitRequest cfg f t1 req = Inr r1" and "validateSubmitRequest cfg f t2 req = Inr r2"
    and "TrimSpace (rq_TaskName req) = ''''" and "\<not> IsZero t1" and "\<not> IsZero t2" and "f t1 \<noteq> f t2"
    and "length (f t1) \<le> 255" and "length (f t2) \<le> 255"
  shows "rq_TaskName r1 \<noteq> rq_TaskName r2"
  using unnamed_task_name [OF assms(1,3,4,7)] unnamed_task_name [OF assms(2,3,5,8)] assms(6) by simp

section \<open>Cancelling before the hold is taken\<close>

lemma find_stronger: "find P xs = Some x \<Longrightarrow> Q x \<Longrightarrow> (\<And>y. Q y \<Longrightarrow> P y) \<Longrightarrow> find Q xs = Some x"
  by (induction xs) (auto split: if_split_asm)

lemma owner_get_reliable:
  assumes "faults w = []" and "find_job b (db w) = Some job" and "j_UserID job = u" and "j_APIKeyID job = Some k"
    and "j_UserDeletedAt job = None"
  shows "GetBatchImageJobByBatchIDForOwner u k b w = (Inr job, w)"
proof -
  have "find (\<lambda>j. j_BatchID j = b \<and> j_UserID j = u \<and> j_APIKeyID j = Some k \<and> j_UserDeletedAt j = None)
      (job_rows (db w)) = Some job"
    using assms(3-5) find_job_id [OF assms(2)]
    by (intro find_stronger [OF assms(2) [unfolded find_job_def]]) auto
  then show ?thesis
    using assms(1) by (simp add: GetBatchImageJobByBatchIDForOwner_def select_job_def db_exec_reliable scan_row_def)
qed

text \<open>A release with no hold to give back succeeds, and takes the release's request id.\<close>

lemma unreserved_release_claims:
  assumes "releaseBatchImageBalanceHold job h w = (r, w')" and "faults w = []" and "submittable job k (ledger (db w))"
  shows "r = None" and "users (ledger (db w')) = users (ledger (db w))" and "job_rows (db w') = job_rows (db w)"
    and "faults w' = []" and "claimed (ledger (db w')) (BatchImageReleaseRequestID (j_BatchID job)) k"
    and "\<not> claimed (ledger (db w')) (BatchImageHoldRequestID (j_BatchID job)) k"
proof -
  note s = assms(3) [unfolded submittable_def]
  let ?rid = "BatchImageReleaseRequestID (j_BatchID job)"
  obtain cmd where cmd: "buildBatchImageHoldCommand job ?rid 0 h = Inr cmd" and k: "h_APIKeyID cmd = k"
    using s hold_command_ok by metis
  note sels = hold_command [OF cmd] request_ids_trimmed
  obtain res l where l: "ReleaseBatchImageBalance cmd (ledger (db w)) = (res, l)" by fastforce
  have ne: "?rid \<noteq> []" by (simp add: BatchImageReleaseRequestID_def batchImageReleaseRequestPrefix_def)
  let ?c = "BatchImageBalanceHoldCommand_Normalize cmd" and ?l = "ledger (db w)"
  let ?l1 = "?l\<lparr>dedup := (dedup ?l)((?rid, k) \<mapsto> h_RequestFingerprint ?c)\<rparr>"
  have cl: "claimUsageBillingRequest ?rid k (h_RequestFingerprint ?c) ?l = (Inr True, ?l1)"
    using s by (simp add: claimUsageBillingRequest_def claimed_def)
  have "\<not> claimed ?l1 (BatchImageHoldRequestID (j_BatchID job)) k"
    using s release_is_no_hold [of "j_BatchID job" "j_BatchID job"] by (auto simp: claimed_def)
  then have "releaseUsageBillingBatchImageBalance ?c ?l1 = (Inr empty_hold_result, ?l1)"
    using sels k by (simp add: releaseUsageBillingBatchImageBalance_def batchImageHoldClaimExists_def claimed_def
        BatchImageHoldRequestID_def)
  with cl l sels k ne have res: "res = Inr (empty_hold_result\<lparr>h_Applied := True\<rparr>)" "l = ?l1"
    by (simp_all add: ReleaseBatchImageBalance_def applyBatchImageBalanceHold_def)
  have "db_exec (on_ledger (ReleaseBatchImageBalance cmd)) w = (res, w\<lparr>db := (db w)\<lparr>ledger := l\<rparr>\<rparr>)"
    using assms(2) l by (simp add: db_exec_reliable on_ledger_def)
  moreover have "\<not> h_HoldAmount cmd \<le> 0" using s sels by simp
  ultimately have out: "r = None" "w' = w\<lparr>db := (db w)\<lparr>ledger := l\<rparr>\<rparr>"
    using assms(1) cmd res(1) by (simp_all add: releaseBatchImageBalanceHold_def)
  show "r = None" "users (ledger (db w')) = users (ledger (db w))" "job_rows (db w') = job_rows (db w)"
    "faults w' = []" "claimed (ledger (db w')) ?rid k"
    using out res(2) assms(2) by (simp_all add: claimed_def)
  show "\<not> claimed (ledger (db w')) (BatchImageHoldRequestID (j_BatchID job)) k"
    using out res(2) s release_is_no_hold [of "j_BatchID job" "j_BatchID job"] by (auto simp: claimed_def)
qed

text \<open>Once the release's request id is taken, a further release gives nothing back.\<close>

lemma claimed_release_idle:
  assumes "releaseBatchImageBalanceHold job h w = (r, w')" and "j_APIKeyID job = Some k"
    and "claimed (ledger (db w)) (BatchImageReleaseRequestID (j_BatchID job)) k"
  shows "ledger (db w') = ledger (db w)" and "faults w = [] \<Longrightarrow> 0 < k \<Longrightarrow> r = None"
proof -
  have idle: "\<not> hold_applied res" if "buildBatchImageHoldCommand job (BatchImageReleaseRequestID (j_BatchID job)) 0 h = Inr cmd"
    and "ReleaseBatchImageBalance cmd (ledger (db w)) = (res, l)" for cmd res l
    using hold_claims(2) [OF that(2) [unfolded ReleaseBatchImageBalance_def] keeps_claims_release]
      hold_command [OF that(1)] assms(2,3) by (auto simp: request_ids_trimmed)
  from release_result [OF assms(1)] show "ledger (db w') = ledger (db w)"
    using idle by (auto simp: ReleaseBatchImageBalance_def dest: hold_unchanged)
  show "r = None" if f: "faults w = []" and "0 < k"
  proof -
    obtain cmd where cmd: "buildBatchImageHoldCommand job (BatchImageReleaseRequestID (j_BatchID job)) 0 h = Inr cmd"
      "h_APIKeyID cmd = k" using hold_command_ok [OF assms(2) \<open>0 < k\<close>] by metis
    note sels = hold_command [OF cmd(1)] request_ids_trimmed
    let ?c = "BatchImageBalanceHoldCommand_Normalize cmd"
    obtain y d1 where y: "claimUsageBillingRequest (BatchImageReleaseRequestID (j_BatchID job)) k
        (h_RequestFingerprint ?c) (ledger (db w)) = (y, d1)" by fastforce
    have ys: "y = Inl ErrUsageBillingRequestConflict \<or> y = Inr False"
      using y assms(3) by (auto simp: claimUsageBillingRequest_def claimed_def Let_def split: option.split_asm if_split_asm)
    have "BatchImageReleaseRequestID (j_BatchID job) \<noteq> []"
      by (simp add: BatchImageReleaseRequestID_def batchImageReleaseRequestPrefix_def)
    with y ys sels cmd(2) have "fst (ReleaseBatchImageBalance cmd (ledger (db w)))
        \<in> {Inl ErrUsageBillingRequestConflict, Inr empty_hold_result}"
      by (elim disjE) (simp_all add: ReleaseBatchImageBalance_def applyBatchImageBalanceHold_def)
    moreover have "errors_Is ErrUsageBillingRequestConflict ErrUsageBillingRequestConflict"
      by (simp add: ErrUsageBillingRequestConflict_def errors_Is_def)
    ultimately show ?thesis
      using assms(1) cmd(1) f
      by (auto simp: releaseBatchImageBalanceHold_def db_exec_reliable on_ledger_def split: if_split_asm prod.splits)
  qed
qed

lemma invalidate_simps [simp]:
  "job_rows (db (invalidateAuthCache u w)) = job_rows (db w)" "faults (invalidateAuthCache u w) = faults w"
  by (simp_all add: invalidateAuthCache_def)

text \<open>Cancelling a job that has not reached the provider, up to the outcome of the release.\<close>

lemma cancel_steps:
  assumes "Cancel env now owner b w = (r, w')" and "faults w = []" and "find_job b (db w) = Some job"
    and "j_UserID job = o_UserID owner" and "j_APIKeyID job = Some (o_APIKeyID owner)"
    and "j_UserDeletedAt job = None" and "unsubmitted job" and "j_ProviderJobName job = None"
  obtains h w1 x w2 j where "releaseBatchImageBalanceHold job h w1 = (x, w2)"
    and "faults w1 = []" and "ledger (db w1) = ledger (db w)" and "find_job b (db w1) = Some j"
    and "j_Status j = BatchImageJobStatusCancelled"
    and "x = None \<longrightarrow> r = Inr (to_public env now j) \<and> w' = invalidateAuthCache (o_UserID owner) w2"
proof -
  note id = find_job_id [OF assms(3)]
  have get: "GetBatchImageJobByBatchIDForOwner (o_UserID owner) (o_APIKeyID owner) b w = (Inr job, w)"
    by (rule owner_get_reliable [OF assms(2-6)])
  have st: "\<not> isBatchImageProcessorDoneStatus (j_Status job)"
      "CanTransitionBatchImageJob (j_Status job) BatchImageJobStatusCancelled"
    using assms(7) by (auto simp: unsubmitted_def isBatchImageProcessorDoneStatus_def
        CanTransitionBatchImageJob_def IsTerminalBatchImageJobStatus_def allowed_transitions_def status_defs)
  let ?opts = "event_opts ''job_cancelled'' [(''batch_id'', PString (j_BatchID job))]"
  let ?j = "transition_row now BatchImageJobStatusCancelled ?opts job"
  from transition_reliable [OF assms(2,3) st(2), of now ?opts] id obtain w1 where
    t: "TransitionBatchImageJobStatus now (j_BatchID job) BatchImageJobStatusCancelled ?opts w = (Inr (), w1)"
      "faults w1 = []" "ledger (db w1) = ledger (db w)" "find_job b (db w1) = Some ?j" by blast
  let ?h = "batchImageDerefString (j_RequestHash job)"
  obtain x w2 where x: "releaseBatchImageBalanceHold job ?h w1 = (x, w2)" by fastforce
  let ?w3 = "invalidateAuthCache (o_UserID owner) w2"
  have row: "find_job b (db ?w3) = Some ?j"
    using release_keeps_rows [OF x] t(4) find_job_cong [of "db ?w3" "db w1" b] by simp
  have "faults ?w3 = []" using release_no_faults [OF x t(2)] by simp
  then have again: "GetBatchImageJobByBatchIDForOwner (o_UserID owner) (o_APIKeyID owner) b ?w3 = (Inr ?j, ?w3)"
    by (rule owner_get_reliable [OF _ row]) (simp_all add: transition_row_def Let_def assms(4-6))
  have "r = Inr (to_public env now ?j) \<and> w' = ?w3" if "x = None"
    using assms(1) get st(1) assms(8) t(1) x that again by (simp add: Cancel_def cancel_release_def Get_def)
  moreover have "j_Status ?j = BatchImageJobStatusCancelled" by (simp add: transition_row_def Let_def)
  ultimately show thesis using that x t(2-4) by blast
qed

text \<open>Cancelling a job that has no hold yet.\<close>

lemma cancel_unheld:
  assumes "Cancel env now owner b w = (r, w')" and "faults w = []" and "find_job b (db w) = Some job"
    and "j_UserID job = o_UserID owner" and "k = o_APIKeyID owner" and "j_UserDeletedAt job = None"
    and "unsubmitted job" and "j_ProviderJobName job = None" and "submittable job k (ledger (db w))"
  shows "faults w' = []" and "users (ledger (db w')) = users (ledger (db w))"
    and "claimed (ledger (db w')) (BatchImageReleaseRequestID b) k"
    and "\<not> claimed (ledger (db w')) (BatchImageHoldRequestID b) k"
    and "\<exists>j. find_job b (db w') = Some j \<and> j_Status j = BatchImageJobStatusCancelled"
proof -
  have key: "j_APIKeyID job = Some (o_APIKeyID owner)" using assms(5,9) by (simp add: submittable_def)
  obtain h w1 x w2 j where c: "releaseBatchImageBalanceHold job h w1 = (x, w2)"
    "faults w1 = []" "ledger (db w1) = ledger (db w)" "find_job b (db w1) = Some j"
    "j_Status j = BatchImageJobStatusCancelled"
    "x = None \<longrightarrow> r = Inr (to_public env now j) \<and> w' = invalidateAuthCache (o_UserID owner) w2"
    by (rule cancel_steps [OF assms(1-4) key assms(6-8)])
  have sub: "submittable job k (ledger (db w1))" using assms(9) c(3) by simp
  note rel = unreserved_release_claims [OF c(1,2) sub]
  have w': "w' = invalidateAuthCache (o_UserID owner) w2" using c(6) rel(1) by blast
  show "faults w' = []" "users (ledger (db w')) = users (ledger (db w))"
    "claimed (ledger (db w')) (BatchImageReleaseRequestID b) k"
    "\<not> claimed (ledger (db w')) (BatchImageHoldRequestID b) k"
    using rel c(3) find_job_id [OF assms(3)] by (simp_all add: w')
  have "find_job b (db w') = Some j"
    using rel(3) c(4) find_job_cong [of "db w'" "db w1" b] by (simp add: w')
  with c(5) show "\<exists>j. find_job b (db w') = Some j \<and> j_Status j = BatchImageJobStatusCancelled" by blast
qed

text \<open>
  C25. Cancelling returns the money: when a job whose hold is taken is cancelled before the
  provider has it and the calls work, the answer is the cancelled job, its row is cancelled, and
  exactly its hold is back from the frozen to the free balance of its user; no other balance
  moves. The hold has at most eight decimals and was not released before; a cancellation that overtakes
  the reservation is C26.
\<close>

theorem cancellation_returns_the_hold:
  assumes "Cancel env now owner b w = (r, w')" and "faults w = []" and "find_job b (db w) = Some job"
    and "j_UserID job = o_UserID owner" and "k = o_APIKeyID owner" and "j_UserDeletedAt job = None"
    and "unsubmitted job" and "j_ProviderJobName job = None" and "held job k (ledger (db w))"
  shows "(\<exists>p. r = Inr p \<and> pb_Status p = ''cancelled'')
    \<and> (\<exists>j. find_job b (db w') = Some j \<and> j_Status j = BatchImageJobStatusCancelled)
    \<and> free_of (ledger (db w')) = (free_of (ledger (db w)))
        (j_UserID job := free_of (ledger (db w)) (j_UserID job) + job_hold job)
    \<and> frozen_of (ledger (db w')) = (frozen_of (ledger (db w)))
        (j_UserID job := frozen_of (ledger (db w)) (j_UserID job) - job_hold job)"
proof -
  note s = assms(9) [unfolded held_def]
  have key: "j_APIKeyID job = Some (o_APIKeyID owner)" using assms(5) s by simp
  obtain h w1 x w2 j where c: "releaseBatchImageBalanceHold job h w1 = (x, w2)"
    "faults w1 = []" "ledger (db w1) = ledger (db w)" "find_job b (db w1) = Some j"
    "j_Status j = BatchImageJobStatusCancelled"
    "x = None \<longrightarrow> r = Inr (to_public env now j) \<and> w' = invalidateAuthCache (o_UserID owner) w2"
    by (rule cancel_steps [OF assms(1-4) key assms(6-8)])
  from release_applied_moves [OF c(1,2)] s c(3) have x: "x = None"
    and mv: "moves (j_UserID job) (job_hold job) (- job_hold job) (ledger (db w)) (ledger (db w2))" by auto
  have w': "w' = invalidateAuthCache (o_UserID owner) w2" using c(6) x by blast
  have "find_job b (db w') = Some j"
    using release_keeps_rows [OF c(1)] c(4) find_job_cong [of "db w'" "db w1" b] by (simp add: w')
  moreover have "pb_Status (to_public env now j) = ''cancelled''"
    using c(5) by (simp add: to_public_def BatchImageJobToPublic_def PublicBatchImageStatus_def status_defs)
  ultimately show ?thesis using c(5,6) x mv by (simp add: moves_def w')
qed

text \<open>Taking a hold whose release was already requested.\<close>

lemma reserve_released:
  assumes "reserveBatchImageBalanceHold job h w = (r, w')" and "faults w = []"
    and "j_APIKeyID job = Some k" and "0 < k" and "0 < job_hold job" and "on_scale 8 (job_hold job)"
    and "ledger_ok (ledger (db w))" and "live_user (ledger (db w)) (j_UserID job) \<noteq> None"
    and "\<not> claimed (ledger (db w)) (BatchImageHoldRequestID (j_BatchID job)) k"
    and "job_hold job \<le> free_of (ledger (db w)) (j_UserID job)"
  shows "r = None" and "faults w' = []" and "job_rows (db w') = job_rows (db w)"
    and "moves (j_UserID job) (- job_hold job) (job_hold job) (ledger (db w)) (ledger (db w'))"
    and "claimed (ledger (db w)) i k \<Longrightarrow> claimed (ledger (db w')) i k"
proof -
  obtain cmd where cmd: "buildBatchImageHoldCommand job (BatchImageHoldRequestID (j_BatchID job)) 0 h = Inr cmd"
    and k: "h_APIKeyID cmd = k" using hold_command_ok [OF assms(3,4)] by metis
  note sels = hold_command [OF cmd] hold_id_trimmed
  obtain res l where l: "ReserveBatchImageBalance cmd (ledger (db w)) = (res, l)" by fastforce
  have "BatchImageHoldRequestID (j_BatchID job) \<noteq> []"
    by (simp add: BatchImageHoldRequestID_def batchImageHoldRequestPrefix_def)
  then have "hold_ready (ledger (db w)) cmd" using assms sels k by (simp add: hold_ready_def)
  from Reserve_possible [OF this] l assms(5,10) sels have ap: "hold_applied res" by simp
  then obtain x where res: "res = Inr x" by (cases res) (auto simp: hold_applied_def)
  have "db_exec (on_ledger (ReserveBatchImageBalance cmd)) w = (res, w\<lparr>db := (db w)\<lparr>ledger := l\<rparr>\<rparr>)"
    using assms(2) l by (simp add: db_exec_reliable on_ledger_def)
  with assms(1) cmd res sels(5) assms(5) have out: "r = None" "w' = w\<lparr>db := (db w)\<lparr>ledger := l\<rparr>\<rparr>"
    by (simp_all add: reserveBatchImageBalanceHold_def)
  show "r = None" "faults w' = []" "job_rows (db w') = job_rows (db w)" using out assms(2) by simp_all
  have "hold_valid cmd" using assms(5,6) sels by (simp add: hold_valid_def)
  from Reserve_law [OF l ap assms(7) this] assms(5) sels out
  show "moves (j_UserID job) (- job_hold job) (job_hold job) (ledger (db w)) (ledger (db w'))"
    by (simp add: moves_def)
  show "claimed (ledger (db w')) i k" if "claimed (ledger (db w)) i k"
    using hold_claims(1) [OF l [unfolded ReserveBatchImageBalance_def] keeps_claims_reserve that] out by simp
qed

lemma transition_refused:
  assumes "faults w = []" and "find_job b (db w) = Some j" and "\<not> CanTransitionBatchImageJob (j_Status j) s"
  shows "TransitionBatchImageJobStatus now b s opts w = (Inl ErrBatchImageInvalidTransition, w)"
  using assms by (simp add: TransitionBatchImageJobStatus_def db_exec_reliable atomically_def
      transitionBatchImageJobStatusWithSQL_def)

text \<open>
  C26. A cancellation that overtakes the reservation leaks the hold. The job is created, the user
  cancels it before the submission has taken the hold: there is nothing to release, but the
  release's request id is taken. The submission then freezes the hold, fails, and its own release
  counts as done already. All calls work; the money stays frozen, and every further
  release of the job, whatever calls fail, leaves the ledger as it is.
\<close>

theorem overtaking_cancellation_leaks_hold:
  assumes "Cancel env now owner (j_BatchID job) w = (rc, w1)"
    and "submit_created env now owner req provider account job h w1 = (r, w')"
    and "faults w = []" and "find_job (j_BatchID job) (db w) = Some job"
    and "j_UserID job = o_UserID owner" and "k = o_APIKeyID owner" and "j_UserDeletedAt job = None"
    and "j_Status job = BatchImageJobStatusCreated" and "j_ProviderJobName job = None"
    and "submittable job k (ledger (db w))" and "job_hold job \<le> free_of (ledger (db w)) (j_UserID job)"
  shows "(\<exists>e. r = Inl e)
    \<and> free_of (ledger (db w')) (j_UserID job) = free_of (ledger (db w)) (j_UserID job) - job_hold job
    \<and> frozen_of (ledger (db w')) (j_UserID job) = frozen_of (ledger (db w)) (j_UserID job) + job_hold job
    \<and> (\<forall>h' fs. ledger (db (snd (releaseBatchImageBalanceHold job h' (w'\<lparr>faults := fs\<rparr>)))) = ledger (db w'))"
proof -
  let ?b = "j_BatchID job"
  note s = assms(10) [unfolded submittable_def]
  have un: "unsubmitted job" using assms(8) by (simp add: unsubmitted_def status_defs)
  note can = cancel_unheld [OF assms(1,3-7) un assms(9,10)]
  from can(5) obtain j where j: "find_job ?b (db w1) = Some j" "j_Status j = BatchImageJobStatusCancelled" by blast
  obtain x w2 where x: "reserveBatchImageBalanceHold job h w1 = (x, w2)" by fastforce
  have pre: "j_APIKeyID job = Some k" "0 < k" "0 < job_hold job" "on_scale 8 (job_hold job)"
    "ledger_ok (ledger (db w1))" "live_user (ledger (db w1)) (j_UserID job) \<noteq> None"
    "job_hold job \<le> free_of (ledger (db w1)) (j_UserID job)"
    using s assms(11) balances_cong [OF can(2)] live_user_cong [OF can(2)] by simp_all
  note res = reserve_released [OF x can(1) pre(1-6) can(4) pre(7)]
  let ?w3 = "invalidateAuthCache (o_UserID owner) w2"
  have w3: "faults ?w3 = []" "find_job ?b (db ?w3) = Some j"
    using res(2) j(1) find_job_cong [OF res(3), of ?b] by simp_all
  have cl: "claimed (ledger (db w2)) (BatchImageReleaseRequestID ?b) k" by (rule res(5) [OF can(3)])
  from assms(2) x res(1) have run: "submit_held env now owner req provider account job h ?w3 = (r, w')"
    by (simp add: submit_created_def)
  have idle: "x' = None \<and> ledger (db w'') = ledger (db v)"
    if "releaseBatchImageBalanceHold job h v = (x', w'')" "faults v = []" "ledger (db v) = ledger (db w2)" for x' v w''
    using claimed_release_idle [OF that(1) pre(1)] cl that(2,3) pre(2) by simp
  have out: "(\<exists>e. r = Inl e) \<and> ledger (db w') = ledger (db w2)"
  proof -
    obtain y w4 where y: "createPendingItems env now ?b h (rq_Items req) ?w3 = (y, w4)" by fastforce
    note items = create_items_keeps [OF y] create_items_no_faults [OF w3(1) y]
    have w4: "find_job ?b (db w4) = Some j" "ledger (db w4) = ledger (db w2)"
      using items w3(2) find_job_cong [OF items(2), of ?b] by simp_all
    obtain x' w5 where x': "releaseBatchImageBalanceHold job h w4 = (x', w5)" by fastforce
    show ?thesis
    proof (cases y)
      case (Inl err)
      with run y x' idle [OF x' items(3) w4(2)] w4(2) show ?thesis
        by (auto simp: submit_held_def give_up_def releaseFailedSubmitHold_def)
    next
      case (Inr u)
      let ?opts = "event_opts ''upload_started'' [(''batch_id'', PString ?b)]"
      have "\<not> CanTransitionBatchImageJob (j_Status j) BatchImageJobStatusUploading"
        using j(2) by (simp add: CanTransitionBatchImageJob_def IsTerminalBatchImageJobStatus_def
            allowed_transitions_def status_defs)
      from transition_refused [OF items(3) w4(1) this, of now ?opts] have
        t: "TransitionBatchImageJobStatus now ?b BatchImageJobStatusUploading ?opts w4 = (Inl ErrBatchImageInvalidTransition, w4)" .
      from run y Inr t x' idle [OF x' items(3) w4(2)] w4(2) show ?thesis
        by (auto simp: submit_held_def releaseFailedSubmitHold_def)
    qed
  qed
  have "ledger (db (snd (releaseBatchImageBalanceHold job h' (w'\<lparr>faults := fs\<rparr>)))) = ledger (db w')" for h' fs
    using claimed_release_idle(1) [OF prod.collapse [symmetric] pre(1), where w = "w'\<lparr>faults := fs\<rparr>" and h = h'] cl out by simp
  moreover have "moves (j_UserID job) (- job_hold job) (job_hold job) (ledger (db w1)) (ledger (db w'))"
    using res(4) out by simp
  ultimately show ?thesis using out balances_cong [OF can(2)] by (simp add: moves_def)
qed

lemma overtaking_cancellation_leaks_hold_witness:
  "let w1 = snd (Cancel sample_submit_env 0 sample_owner ''imgbatch_1'' (submit_world sample_db []));
       w' = snd (submit_created sample_submit_env 0 sample_owner (sample_request ''t'') ''vertex'' ()
                   sample_created_job ''h'' w1)
   in free_of (ledger (db w')) 1 = 9 \<and> frozen_of (ledger (db w')) 1 = 1"
proof -
  let ?w = "submit_world sample_db []"
  obtain rc w1 where c: "Cancel sample_submit_env 0 sample_owner (j_BatchID sample_created_job) ?w = (rc, w1)"
    by fastforce
  obtain r w' where run: "submit_created sample_submit_env 0 sample_owner (sample_request ''t'') ''vertex'' ()
      sample_created_job ''h'' w1 = (r, w')" by fastforce
  have f: "find_job (j_BatchID sample_created_job) (db ?w) = Some sample_created_job"
    and le: "job_hold sample_created_job \<le> free_of (ledger (db ?w)) (j_UserID sample_created_job)"
    and sub: "submittable sample_created_job 7 (ledger (db ?w))"
    by (simp_all only: submit_world_sels sample_created_sels sample_free sample_submittable)
  note sels = sample_created_sels sample_owner_sels submit_world_sels(3) sample_free
  have "free_of (ledger (db w')) 1 = 10 - 1 \<and> frozen_of (ledger (db w')) 1 = 0 + 1"
    using overtaking_cancellation_leaks_hold [OF c run submit_world_sels(2) f _ _ sample_created_sels(4,2,3) sub le]
    unfolding sels by simp
  then show ?thesis
    using c run unfolding sample_created_sels by (simp add: Let_def)
qed

definition sample_held_ledger :: billing_db where
  "sample_held_ledger = sample_db\<lparr>users := [1 \<mapsto> \<lparr>balance = 9, frozen_balance = Some 1, u_deleted = False\<rparr>],
     dedup := [(BatchImageHoldRequestID ''imgbatch_1'', 7) \<mapsto> ''f'']\<rparr>"

lemma cancellation_returns_the_hold_witness:
  "frozen_of (ledger (db (snd (Cancel sample_submit_env 0 sample_owner ''imgbatch_1''
     (submit_world sample_held_ledger []))))) 1 = 0"
proof -
  let ?w = "submit_world sample_held_ledger []"
  obtain r w' where run: "Cancel sample_submit_env 0 sample_owner ''imgbatch_1'' ?w = (r, w')" by fastforce
  have "held sample_created_job 7 sample_held_ledger"
    using sample_created_sels release_is_no_hold [of "''imgbatch_1''" "''imgbatch_1''"]
    by (simp add: held_def sample_held_ledger_def sample_db_def ledger_ok_def live_user_def frozen_of_def
        claimed_def on_scale_def)
  moreover have "frozen_of sample_held_ledger 1 = 1" by (simp add: frozen_of_def sample_held_ledger_def)
  moreover have "unsubmitted sample_created_job"
    by (simp add: unsubmitted_def sample_created_sels BatchImageJobStatusCreated_def)
  ultimately have "frozen_of (ledger (db w')) 1 = 0"
    using cancellation_returns_the_hold [OF run submit_world_sels(2,1), of 7]
    unfolding submit_world_sels sample_created_sels sample_owner_sels by simp
  then show ?thesis by (simp only: run snd_conv)
qed

definition keyed_world :: "BatchImageJob \<Rightarrow> batch_db world" where
  "keyed_world job = \<lparr>db = sample_jobs\<lparr>job_rows := [job\<lparr>j_IdempotencyKey := Some ''k''\<rparr>], ledger := sample_db\<rparr>, faults = []\<rparr>"

lemma named_sample_valid:
  "validateSubmitRequest sample_image_config f now (sample_request ''t'') = Inr (sample_request ''t'')"
  by (rule sample_request_valid) (simp_all add: TrimSpace_visible visible_def)

lemma repeated_submission_is_idempotent_witness:
  "let job = sample_created_job\<lparr>j_RequestHash := Some (HashBatchImageSubmitRequest (Marshal sample_submit_env) (sample_request ''t''))\<rparr>;
       (r, w') = Submit sample_submit_env 0 sample_owner (sample_request ''t'') ''k'' (keyed_world job)
   in ledger (db w') = sample_db \<and> length (job_rows (db w')) = 1
      \<and> r = Inr (to_public sample_submit_env 0 (job\<lparr>j_IdempotencyKey := Some ''k''\<rparr>))"
proof -
  let ?job = "sample_created_job\<lparr>j_RequestHash := Some (HashBatchImageSubmitRequest (Marshal sample_submit_env) (sample_request ''t''))\<rparr>"
  let ?w = "keyed_world ?job" and ?j = "?job\<lparr>j_IdempotencyKey := Some ''k''\<rparr>"
  obtain r w' where run: "Submit sample_submit_env 0 sample_owner (sample_request ''t'') ''k'' ?w = (r, w')" by fastforce
  have t: "TrimSpace ''k'' = ''k''" by (simp add: TrimSpace_visible visible_def)
  have key: "keyed_job sample_owner (TrimSpace ''k'') (db ?w) = Some ?j"
    by (simp add: t keyed_job_def keyed_world_def sample_created_sels sample_owner_sels)
  have "IsValidBatchImageID (j_BatchID ?j)"
    by (simp add: sample_created_sels IsValidBatchImageID_def HasPrefix_def)
  moreover have "faults ?w = []" "TrimSpace ''k'' \<noteq> ''''" by (simp_all add: keyed_world_def t)
  moreover have "cfg_Enabled (Config sample_submit_env)" by (simp add: sample_submit_env_def sample_image_config_def)
  moreover have "ensureGroupAllowsBatchImage (Stores sample_submit_env) sample_owner = None"
    by (simp add: ensureGroupAllowsBatchImage_def group_of_def sample_owner_sels)
  moreover have "validateSubmitRequest (Config sample_submit_env) (format_time sample_submit_env) 0 (sample_request ''t'')
      = Inr (sample_request ''t'')"
    using named_sample_valid by (simp add: sample_submit_env_def)
  moreover have "batchImageDerefString (j_RequestHash ?j) = HashBatchImageSubmitRequest (Marshal sample_submit_env) (sample_request ''t'')"
    by (simp add: batchImageDerefString_def)
  moreover have "map j_BatchID (job_rows (db ?w)) = [j_BatchID ?j]" "ledger (db ?w) = sample_db"
    by (simp_all add: keyed_world_def)
  ultimately have "ledger (db w') = sample_db" "map j_BatchID (job_rows (db w')) = [j_BatchID ?j]"
      "r = Inr (to_public sample_submit_env 0 ?j)"
    using repeated_submission_is_idempotent [OF run _ key, of "sample_request ''t''"] by simp_all
  moreover from this(2) have "length (job_rows (db w')) = 1" by (metis length_map list.size(3,4) One_nat_def add_0)
  ultimately show ?thesis by (simp add: Let_def run)
qed

section \<open>Cursors\<close>

text \<open>
  Cursors are read back: an offset that fits 64 bits, printed in decimal, is the offset that
  the cursor parser finds, and whatever text a client sends as a cursor, what is found is an
  offset in that range.
\<close>

theorem cursor_round_trip:
  assumes "0 \<le> n" and "n < 2 ^ 63"
  shows "parseBatchImageCursor (itoa n) = n \<and> 0 \<le> parseBatchImageCursor s \<and> parseBatchImageCursor s < 2 ^ 63"
proof -
  have "parseBatchImageCursor s < 2 ^ 63" "0 \<le> parseBatchImageCursor s"
    using ParseInt_range by (auto simp: parseBatchImageCursor_def split: option.split)
  then show ?thesis
    using assms by (simp add: parseBatchImageCursor_def itoa_trimmed ParseInt_itoa)
qed

lemma cursor_round_trip_witness: "parseBatchImageCursor (itoa 40) = 40"
  using cursor_round_trip [of 40] by simp

end
