(* ===== verification/Idempotency.thy ===== *)
theory Idempotency
  imports App_Errors Sha256
begin

text \<open>
  Idempotent execution of write requests, after \<open>service/idempotency.go\<close> with its table
  (\<open>repository/idempotency_repo.go\<close>). The callback of a request is a state transformer; encoding
  and decoding of JSON and the redaction of stored answers are parameters, and a payload is what
  \<open>json.Marshal\<close> makes of it. Methods are HTTP tokens, so upper case is that of ASCII. Metrics and
  the audit log are left out.
\<close>

section \<open>Data\<close>

definition IdempotencyStatusProcessing :: string where "IdempotencyStatusProcessing = ''processing''"
definition IdempotencyStatusSucceeded :: string where "IdempotencyStatusSucceeded = ''succeeded''"
definition IdempotencyStatusFailedRetryable :: string where
  "IdempotencyStatusFailedRetryable = ''failed_retryable''"

lemmas idempotency_status_defs =
  IdempotencyStatusProcessing_def IdempotencyStatusSucceeded_def IdempotencyStatusFailedRetryable_def

definition ErrIdempotencyKeyRequired :: go_error where
  "ErrIdempotencyKeyRequired = BadRequest ''IDEMPOTENCY_KEY_REQUIRED'' ''idempotency key is required''"
definition ErrIdempotencyKeyInvalid :: go_error where
  "ErrIdempotencyKeyInvalid = BadRequest ''IDEMPOTENCY_KEY_INVALID'' ''idempotency key is invalid''"
definition ErrIdempotencyKeyConflict :: go_error where
  "ErrIdempotencyKeyConflict =
     Conflict ''IDEMPOTENCY_KEY_CONFLICT'' ''idempotency key reused with different payload''"
definition ErrIdempotencyInProgress :: go_error where
  "ErrIdempotencyInProgress =
     Conflict ''IDEMPOTENCY_IN_PROGRESS'' ''idempotent request is still processing''"
definition ErrIdempotencyRetryBackoff :: go_error where
  "ErrIdempotencyRetryBackoff =
     Conflict ''IDEMPOTENCY_RETRY_BACKOFF'' ''idempotent request is in retry backoff window''"
definition ErrIdempotencyStoreUnavail :: go_error where
  "ErrIdempotencyStoreUnavail =
     ServiceUnavailable ''IDEMPOTENCY_STORE_UNAVAILABLE'' ''idempotency store unavailable''"
definition ErrIdempotencyInvalidPayload :: go_error where
  "ErrIdempotencyInvalidPayload =
     BadRequest ''IDEMPOTENCY_PAYLOAD_INVALID'' ''failed to normalize request payload''"

record IdempotencyRecord =
  ir_ID :: int
  ir_Scope :: string
  ir_IdempotencyKeyHash :: string
  ir_RequestFingerprint :: string
  ir_Status :: string
  ir_ResponseStatus :: "int option"
  ir_ResponseBody :: "string option"
  ir_ErrorReason :: "string option"
  ir_LockedUntil :: "go_time option"
  ir_ExpiresAt :: go_time
  ir_CreatedAt :: go_time
  ir_UpdatedAt :: go_time

record idem_db =
  idem_rows :: "IdempotencyRecord list"
  idem_serial :: int

record IdempotencyConfig =
  DefaultTTL :: duration
  SystemOperationTTL :: duration
  ProcessingTimeout :: duration
  FailedRetryBackoff :: duration
  MaxStoredResponseLen :: int
  ObserveOnly :: bool

definition DefaultIdempotencyConfig :: IdempotencyConfig where
  "DefaultIdempotencyConfig = \<lparr>DefaultTTL = 24 * Hour, SystemOperationTTL = 1 * Hour,
     ProcessingTimeout = 30 * Second, FailedRetryBackoff = 5 * Second,
     MaxStoredResponseLen = 64 * 1024, ObserveOnly = True\<rparr>"

text \<open>The time to live of a write or of a system operation, given the coordinator in use, if any.\<close>

definition DefaultWriteIdempotencyTTL :: "IdempotencyConfig option \<Rightarrow> duration" where
  "DefaultWriteIdempotencyTTL coordinator =
     (case coordinator of
        Some cfg \<Rightarrow> if DefaultTTL cfg > 0 then DefaultTTL cfg else DefaultTTL DefaultIdempotencyConfig
      | None \<Rightarrow> DefaultTTL DefaultIdempotencyConfig)"

definition DefaultSystemOperationIdempotencyTTL :: "IdempotencyConfig option \<Rightarrow> duration" where
  "DefaultSystemOperationIdempotencyTTL coordinator =
     (case coordinator of
        Some cfg \<Rightarrow> if SystemOperationTTL cfg > 0 then SystemOperationTTL cfg
                    else SystemOperationTTL DefaultIdempotencyConfig
      | None \<Rightarrow> SystemOperationTTL DefaultIdempotencyConfig)"

section \<open>The table\<close>

text \<open>The unique index on scope and key hash makes a second insertion do nothing.\<close>

definition find_record :: "string \<Rightarrow> string \<Rightarrow> idem_db \<Rightarrow> IdempotencyRecord option" where
  "find_record scope keyHash d =
     find (\<lambda>r. ir_Scope r = scope \<and> ir_IdempotencyKeyHash r = keyHash) (idem_rows d)"

text \<open>The id of the new row; \<open>None\<close> when there is a row already.\<close>

definition CreateProcessing ::
    "go_time \<Rightarrow> IdempotencyRecord \<Rightarrow> (idem_db, go_error + int option) statement" where
  "CreateProcessing clock record0 d =
     (if find_record (ir_Scope record0) (ir_IdempotencyKeyHash record0) d \<noteq> None
      then (Inr None, d\<lparr>idem_serial := idem_serial d + 1\<rparr>)
      else
        (Inr (Some (idem_serial d)),
         d\<lparr>idem_rows := idem_rows d @
              [record0\<lparr>ir_ID := idem_serial d, ir_ResponseStatus := None, ir_ResponseBody := None,
                 ir_ErrorReason := None, ir_CreatedAt := clock, ir_UpdatedAt := clock\<rparr>],
           idem_serial := idem_serial d + 1\<rparr>))"

definition GetByScopeAndKeyHash ::
    "string \<Rightarrow> string \<Rightarrow> (idem_db, go_error + IdempotencyRecord option) statement" where
  "GetByScopeAndKeyHash scope keyHash d = (Inr (find_record scope keyHash d), d)"

definition update_records ::
    "(IdempotencyRecord \<Rightarrow> bool) \<Rightarrow> (IdempotencyRecord \<Rightarrow> IdempotencyRecord) \<Rightarrow> idem_db \<Rightarrow> int \<times> idem_db" where
  "update_records p f d =
     (int (length (filter p (idem_rows d))),
      d\<lparr>idem_rows := map (\<lambda>r. if p r then f r else r) (idem_rows d)\<rparr>)"

definition TryReclaim ::
    "go_time \<Rightarrow> int \<Rightarrow> string \<Rightarrow> go_time \<Rightarrow> go_time \<Rightarrow> go_time \<Rightarrow> (idem_db, go_error + bool) statement" where
  "TryReclaim clock rid fromStatus now newLockedUntil newExpiresAt d =
     (let (affected, d') = update_records
        (\<lambda>r. ir_ID r = rid \<and> ir_Status r = fromStatus
             \<and> (case ir_LockedUntil r of None \<Rightarrow> True | Some t \<Rightarrow> t \<le> now))
        (\<lambda>r. r\<lparr>ir_Status := IdempotencyStatusProcessing, ir_LockedUntil := Some newLockedUntil,
               ir_ErrorReason := None, ir_UpdatedAt := clock, ir_ExpiresAt := newExpiresAt\<rparr>) d
      in (Inr (affected > 0), d'))"

definition ExtendProcessingLock ::
    "go_time \<Rightarrow> int \<Rightarrow> string \<Rightarrow> go_time \<Rightarrow> go_time \<Rightarrow> (idem_db, go_error + bool) statement" where
  "ExtendProcessingLock clock rid requestFingerprint newLockedUntil newExpiresAt d =
     (let (affected, d') = update_records
        (\<lambda>r. ir_ID r = rid \<and> ir_Status r = IdempotencyStatusProcessing
             \<and> ir_RequestFingerprint r = requestFingerprint)
        (\<lambda>r. r\<lparr>ir_LockedUntil := Some newLockedUntil, ir_ExpiresAt := newExpiresAt,
               ir_UpdatedAt := clock\<rparr>) d
      in (Inr (affected > 0), d'))"

definition MarkSucceeded ::
    "go_time \<Rightarrow> int \<Rightarrow> int \<Rightarrow> string \<Rightarrow> go_time \<Rightarrow> (idem_db, go_error + unit) statement" where
  "MarkSucceeded clock rid responseStatus responseBody expiresAt d =
     (Inr (), snd (update_records (\<lambda>r. ir_ID r = rid)
        (\<lambda>r. r\<lparr>ir_Status := IdempotencyStatusSucceeded, ir_ResponseStatus := Some responseStatus,
               ir_ResponseBody := Some responseBody, ir_ErrorReason := None, ir_LockedUntil := None,
               ir_ExpiresAt := expiresAt, ir_UpdatedAt := clock\<rparr>) d))"

definition MarkFailedRetryable ::
    "go_time \<Rightarrow> int \<Rightarrow> string \<Rightarrow> go_time \<Rightarrow> go_time \<Rightarrow> (idem_db, go_error + unit) statement" where
  "MarkFailedRetryable clock rid errorReason lockedUntil expiresAt d =
     (Inr (), snd (update_records (\<lambda>r. ir_ID r = rid)
        (\<lambda>r. r\<lparr>ir_Status := IdempotencyStatusFailedRetryable, ir_ErrorReason := Some errorReason,
               ir_LockedUntil := Some lockedUntil, ir_ExpiresAt := expiresAt, ir_UpdatedAt := clock\<rparr>) d))"

definition DeleteExpired :: "go_time \<Rightarrow> int \<Rightarrow> (idem_db, go_error + int) statement" where
  "DeleteExpired now limit0 d =
     (let limit = (if limit0 \<le> 0 then 500 else limit0);
          victims = take (nat limit) (sort_key ir_ExpiresAt
                      (filter (\<lambda>r. ir_ExpiresAt r \<le> now) (idem_rows d)));
          ids = map ir_ID victims
      in (Inr (int (length (filter (\<lambda>r. ir_ID r \<in> set ids) (idem_rows d)))),
          d\<lparr>idem_rows := filter (\<lambda>r. ir_ID r \<notin> set ids) (idem_rows d)\<rparr>))"

section \<open>Keys, fingerprints and stored answers\<close>

text \<open>
  The loop over the runes of a key refuses every rune outside the printable ASCII range; a byte
  from 128 on belongs to a larger rune or decodes to the replacement rune.
\<close>

definition NormalizeIdempotencyKey :: "string \<Rightarrow> go_error + string" where
  "NormalizeIdempotencyKey raw =
     (let key = TrimSpace raw in
      if key = '''' then Inr ''''
      else if length key > 128 then Inl ErrIdempotencyKeyInvalid
      else if \<exists>c \<in> set key. (of_char c :: int) < 33 \<or> (of_char c :: int) > 126
      then Inl ErrIdempotencyKeyInvalid
      else Inr key)"

definition HashIdempotencyKey :: "string \<Rightarrow> string" where
  "HashIdempotencyKey key = sha256_hex key"

definition newline :: string where "newline = [char_of (10 :: nat)]"

definition BuildIdempotencyFingerprint ::
    "string \<Rightarrow> string \<Rightarrow> string \<Rightarrow> go_error + string \<Rightarrow> go_error + string" where
  "BuildIdempotencyFingerprint method0 route0 actorScope0 payload =
     (let method1 = (if method0 = '''' then ''POST'' else method0);
          route = (if route0 = '''' then ''/'' else route0);
          actorScope = (if actorScope0 = '''' then ''anonymous'' else actorScope0)
      in case payload of
           Inl e \<Rightarrow> Inl (WithCause ErrIdempotencyInvalidPayload e)
         | Inr raw \<Rightarrow>
             Inr (sha256_hex (map upper_byte method1 @ newline @ route @ newline @ actorScope
                              @ newline @ raw)))"

text \<open>\<open>utf8.ValidString\<close>, by the first byte of a rune and the ranges of its second byte.\<close>

definition continuation :: "char \<Rightarrow> bool" where
  "continuation c = (let n = of_char c :: int in 128 \<le> n \<and> n < 192)"

definition byte_in :: "int \<Rightarrow> int \<Rightarrow> char \<Rightarrow> bool" where
  "byte_in lo hi c = (let n = of_char c :: int in lo \<le> n \<and> n \<le> hi)"

fun ValidString :: "string \<Rightarrow> bool" where
  "ValidString [] = True"
| "ValidString (a # s) =
     (if byte_in 0 127 a then ValidString s
      else case s of
        [] \<Rightarrow> False
      | b # s1 \<Rightarrow>
          if byte_in 194 223 a then continuation b \<and> ValidString s1
          else case s1 of
            [] \<Rightarrow> False
          | c # s2 \<Rightarrow>
              if byte_in 224 239 a
              then byte_in (if of_char a = (224 :: int) then 160 else 128)
                           (if of_char a = (237 :: int) then 159 else 191) b
                   \<and> continuation c \<and> ValidString s2
              else case s2 of
                [] \<Rightarrow> False
              | d # s3 \<Rightarrow>
                  byte_in 240 244 a
                  \<and> byte_in (if of_char a = (240 :: int) then 144 else 128)
                            (if of_char a = (244 :: int) then 143 else 191) b
                  \<and> continuation c \<and> continuation d \<and> ValidString s3)"

text \<open>The loop that shortens the prefix until it is valid.\<close>

fun valid_prefix :: "string \<Rightarrow> nat \<Rightarrow> nat" where
  "valid_prefix s 0 = 0"
| "valid_prefix s (Suc n) = (if ValidString (take (Suc n) s) then Suc n else valid_prefix s n)"

definition truncateUTF8 :: "string \<Rightarrow> int \<Rightarrow> string" where
  "truncateUTF8 s maxBytes =
     (if maxBytes \<le> 0 \<or> int (length s) \<le> maxBytes then s
      else take (valid_prefix s (nat maxBytes)) s)"

record 'a idem_env =
  cfg :: IdempotencyConfig
  Marshal_data :: "'a \<Rightarrow> go_error + string"
  Unmarshal_data :: "string \<Rightarrow> go_error + 'a"
  RedactText :: "string \<Rightarrow> string"
  empty_object :: 'a

definition marshalStoredResponse :: "'a idem_env \<Rightarrow> 'a \<Rightarrow> go_error + string" where
  "marshalStoredResponse env data =
     (case Marshal_data env data of
        Inl e \<Rightarrow> Inl e
      | Inr raw \<Rightarrow>
          (let redacted = RedactText env raw; m = MaxStoredResponseLen (cfg env)
           in Inr (if m > 0 \<and> int (length redacted) > m
                   then truncateUTF8 redacted m @ ''...(truncated)'' else redacted)))"

text \<open>The cause that the decoder adds to a parse error matches what the parse error matches.\<close>

definition decodeStoredResponse :: "'a idem_env \<Rightarrow> string option \<Rightarrow> go_error + 'a" where
  "decodeStoredResponse env stored =
     (case stored of
        None \<Rightarrow> Inr (empty_object env)
      | Some s \<Rightarrow> if TrimSpace s = '''' then Inr (empty_object env) else Unmarshal_data env s)"

definition conflictWithRetryAfter :: "go_error \<Rightarrow> go_time option \<Rightarrow> go_time \<Rightarrow> go_error" where
  "conflictWithRetryAfter base lockedUntil now =
     (case lockedUntil of
        None \<Rightarrow> base
      | Some t \<Rightarrow>
          (let sec0 = go_quot (time_Sub t now) Second; sec = (if sec0 \<le> 0 then 1 else sec0)
           in WithMetadata base (Some [(''retry_after'', itoa sec)])))"

section \<open>Execution\<close>

record IdempotencyExecuteOptions =
  eo_Scope :: string
  eo_ActorScope :: string
  eo_Method :: string
  eo_Route :: string
  eo_IdempotencyKey :: string
  eo_Payload :: "go_error + string"
  eo_TTL :: duration
  eo_RequireKey :: bool

record 'a IdempotencyExecuteResult =
  er_Data :: 'a
  er_Replayed :: bool

text \<open>
  The clock: at the start, after a failed callback, and in the database. The values that
  \<open>Execute\<close> computes from them and from the options before it touches the table are a request.
\<close>

record idem_clock =
  started_at :: go_time
  failed_at :: go_time
  db_clock :: go_time

record idem_request =
  q_Scope :: string
  q_KeyHash :: string
  q_Fingerprint :: string
  q_Now :: go_time
  q_LockedUntil :: go_time
  q_ExpiresAt :: go_time
  q_FailedAt :: go_time
  q_Clock :: go_time

definition request_of ::
    "IdempotencyConfig \<Rightarrow> idem_clock \<Rightarrow> IdempotencyExecuteOptions \<Rightarrow> string \<Rightarrow> string \<Rightarrow> idem_request" where
  "request_of config clk opts key fingerprint =
     (let ttl = (if eo_TTL opts \<le> 0 then DefaultTTL config else eo_TTL opts) in
      \<lparr>q_Scope = eo_Scope opts, q_KeyHash = HashIdempotencyKey key, q_Fingerprint = fingerprint,
       q_Now = started_at clk, q_LockedUntil = started_at clk + ProcessingTimeout config,
       q_ExpiresAt = started_at clk + ttl, q_FailedAt = failed_at clk, q_Clock = db_clock clk\<rparr>)"

definition new_record :: "idem_request \<Rightarrow> IdempotencyRecord" where
  "new_record q = \<lparr>ir_ID = 0, ir_Scope = q_Scope q, ir_IdempotencyKeyHash = q_KeyHash q,
     ir_RequestFingerprint = q_Fingerprint q, ir_Status = IdempotencyStatusProcessing,
     ir_ResponseStatus = None, ir_ResponseBody = None, ir_ErrorReason = None,
     ir_LockedUntil = Some (q_LockedUntil q), ir_ExpiresAt = q_ExpiresAt q, ir_CreatedAt = 0, ir_UpdatedAt = 0\<rparr>"

definition store_error :: "go_error \<Rightarrow> go_error" where
  "store_error e = WithCause ErrIdempotencyStoreUnavail e"

text \<open>What follows the callback.\<close>

definition mark_outcome ::
    "'a idem_env \<Rightarrow> idem_request \<Rightarrow> int \<Rightarrow> go_error + 'a \<Rightarrow> idem_db world
       \<Rightarrow> (go_error + 'a IdempotencyExecuteResult) \<times> idem_db world" where
  "mark_outcome env q rid outcome w =
     (case outcome of
        Inl execErr \<Rightarrow>
          (let r = error_Reason (Some execErr); reason = (if r = '''' then ''EXECUTION_FAILED'' else r)
           in (Inl execErr, snd (db_exec (MarkFailedRetryable (q_Clock q) rid reason
                  (q_FailedAt q + FailedRetryBackoff (cfg env)) (q_ExpiresAt q)) w)))
      | Inr data \<Rightarrow>
          (case marshalStoredResponse env data of
             Inl e \<Rightarrow> (Inl (store_error e), w)
           | Inr storedBody \<Rightarrow>
               (case db_exec (MarkSucceeded (q_Clock q) rid 200 storedBody (q_ExpiresAt q)) w of
                  (Inl e, w1) \<Rightarrow> (Inl (store_error e), w1)
                | (Inr _, w1) \<Rightarrow> (Inr \<lparr>er_Data = data, er_Replayed = False\<rparr>, w1))))"

definition execute_run ::
    "'a idem_env \<Rightarrow> idem_request \<Rightarrow> int \<Rightarrow> ('s \<Rightarrow> (go_error + 'a) \<times> 's) \<Rightarrow> 's \<Rightarrow> idem_db world
       \<Rightarrow> (go_error + 'a IdempotencyExecuteResult) \<times> 's \<times> idem_db world" where
  "execute_run env q rid callback s w =
     (if rid = 0 then (Inl ErrIdempotencyStoreUnavail, s, w)
      else
        (let (outcome, s1) = callback s; (r, w1) = mark_outcome env q rid outcome w in (r, s1, w1)))"

text \<open>The answer for an existing record; \<open>None\<close> when it failed and may be tried again.\<close>

definition on_existing ::
    "'a idem_env \<Rightarrow> idem_request \<Rightarrow> IdempotencyRecord \<Rightarrow> (go_error + 'a IdempotencyExecuteResult) option" where
  "on_existing env q existing =
     (if ir_Status existing = IdempotencyStatusSucceeded
      then Some (case decodeStoredResponse env (ir_ResponseBody existing) of
                   Inl e \<Rightarrow> Inl (store_error e)
                 | Inr data \<Rightarrow> Inr \<lparr>er_Data = data, er_Replayed = True\<rparr>)
      else if ir_Status existing = IdempotencyStatusProcessing
      then Some (Inl (conflictWithRetryAfter ErrIdempotencyInProgress (ir_LockedUntil existing) (q_Now q)))
      else if ir_Status existing = IdempotencyStatusFailedRetryable
      then (if (case ir_LockedUntil existing of None \<Rightarrow> False | Some t \<Rightarrow> t > q_Now q)
            then Some (Inl (conflictWithRetryAfter ErrIdempotencyRetryBackoff (ir_LockedUntil existing) (q_Now q)))
            else None)
      else Some (Inl ErrIdempotencyKeyConflict))"

definition reclaim :: "idem_request \<Rightarrow> IdempotencyRecord \<Rightarrow> string \<Rightarrow> (idem_db, go_error + bool) statement" where
  "reclaim q existing fromStatus =
     TryReclaim (q_Clock q) (ir_ID existing) fromStatus (q_Now q) (q_LockedUntil q) (q_ExpiresAt q)"

definition execute_status ::
    "'a idem_env \<Rightarrow> idem_request \<Rightarrow> IdempotencyRecord \<Rightarrow> ('s \<Rightarrow> (go_error + 'a) \<times> 's) \<Rightarrow> 's \<Rightarrow> idem_db world
       \<Rightarrow> (go_error + 'a IdempotencyExecuteResult) \<times> 's \<times> idem_db world" where
  "execute_status env q existing callback s w =
     (case on_existing env q existing of
        Some r \<Rightarrow> (r, s, w)
      | None \<Rightarrow>
          (case db_exec (reclaim q existing IdempotencyStatusFailedRetryable) w of
             (Inl e, w1) \<Rightarrow> (Inl (store_error e), s, w1)
           | (Inr taken, w1) \<Rightarrow>
               if \<not> taken
               then (Inl (conflictWithRetryAfter ErrIdempotencyInProgress (ir_LockedUntil existing) (q_Now q)), s, w1)
               else execute_run env q (ir_ID existing) callback s w1))"

text \<open>Reading the record, with the check of its fingerprint.\<close>

definition read_record ::
    "idem_request \<Rightarrow> idem_db world \<Rightarrow> (go_error + IdempotencyRecord) \<times> idem_db world" where
  "read_record q w =
     (case db_exec (GetByScopeAndKeyHash (q_Scope q) (q_KeyHash q)) w of
        (Inl e, w1) \<Rightarrow> (Inl (store_error e), w1)
      | (Inr None, w1) \<Rightarrow> (Inl ErrIdempotencyStoreUnavail, w1)
      | (Inr (Some existing), w1) \<Rightarrow>
          (if ir_RequestFingerprint existing \<noteq> q_Fingerprint q then Inl ErrIdempotencyKeyConflict
           else Inr existing, w1))"

definition execute_existing ::
    "'a idem_env \<Rightarrow> idem_request \<Rightarrow> ('s \<Rightarrow> (go_error + 'a) \<times> 's) \<Rightarrow> 's \<Rightarrow> idem_db world
       \<Rightarrow> (go_error + 'a IdempotencyExecuteResult) \<times> 's \<times> idem_db world" where
  "execute_existing env q callback s w =
     (case read_record q w of
        (Inl e, w1) \<Rightarrow> (Inl e, s, w1)
      | (Inr existing, w1) \<Rightarrow>
          if \<not> ir_ExpiresAt existing > q_Now q
          then (case db_exec (reclaim q existing (ir_Status existing)) w1 of
                  (Inl e, w2) \<Rightarrow> (Inl (store_error e), s, w2)
                | (Inr True, w2) \<Rightarrow> execute_run env q (ir_ID existing) callback s w2
                | (Inr False, w2) \<Rightarrow>
                    (case read_record q w2 of
                       (Inl e, w3) \<Rightarrow> (Inl e, s, w3)
                     | (Inr latest, w3) \<Rightarrow> execute_status env q latest callback s w3))
          else execute_status env q existing callback s w1)"

definition execute_request ::
    "'a idem_env \<Rightarrow> idem_request \<Rightarrow> ('s \<Rightarrow> (go_error + 'a) \<times> 's) \<Rightarrow> 's \<Rightarrow> idem_db world
       \<Rightarrow> (go_error + 'a IdempotencyExecuteResult) \<times> 's \<times> idem_db world" where
  "execute_request env q callback s w =
     (case db_exec (CreateProcessing (q_Clock q) (new_record q)) w of
        (Inl e, w1) \<Rightarrow> (Inl (store_error e), s, w1)
      | (Inr (Some rid), w1) \<Rightarrow> execute_run env q rid callback s w1
      | (Inr None, w1) \<Rightarrow> execute_existing env q callback s w1)"

definition Execute ::
    "'a idem_env \<Rightarrow> idem_clock \<Rightarrow> IdempotencyExecuteOptions \<Rightarrow> ('s \<Rightarrow> (go_error + 'a) \<times> 's) \<Rightarrow> 's \<Rightarrow> idem_db world
       \<Rightarrow> (go_error + 'a IdempotencyExecuteResult) \<times> 's \<times> idem_db world" where
  "Execute env clk opts callback s w =
     (case NormalizeIdempotencyKey (eo_IdempotencyKey opts) of
        Inl e \<Rightarrow> (Inl e, s, w)
      | Inr key \<Rightarrow>
          if key = '''' then
            (if eo_RequireKey opts \<and> \<not> ObserveOnly (cfg env) then (Inl ErrIdempotencyKeyRequired, s, w)
             else case callback s of
                    (Inl execErr, s1) \<Rightarrow> (Inl execErr, s1, w)
                  | (Inr data, s1) \<Rightarrow> (Inr \<lparr>er_Data = data, er_Replayed = False\<rparr>, s1, w))
          else if eo_Scope opts = ''''
          then (Inl (BadRequest ''IDEMPOTENCY_SCOPE_REQUIRED'' ''idempotency scope is required''), s, w)
          else
            (case BuildIdempotencyFingerprint (eo_Method opts) (eo_Route opts) (eo_ActorScope opts) (eo_Payload opts) of
               Inl e \<Rightarrow> (Inl e, s, w)
             | Inr fingerprint \<Rightarrow>
                 execute_request env (request_of (cfg env) clk opts key fingerprint) callback s w))"

definition RetryAfterSecondsFromError :: "go_error \<Rightarrow> int" where
  "RetryAfterSecondsFromError err =
     (case errors_As err of
        None \<Rightarrow> 0
      | Some appErr \<Rightarrow>
          (case Metadata appErr of
             None \<Rightarrow> 0
           | Some md \<Rightarrow>
               (let v = TrimSpace (case map_of md ''retry_after'' of None \<Rightarrow> '''' | Some v \<Rightarrow> v)
                in if v = '''' then 0
                   else case ParseInt v of
                     None \<Rightarrow> 0
                   | Some seconds \<Rightarrow> if seconds \<le> 0 then 0 else seconds)))"

text \<open>One round of the cleanup.\<close>

definition cleanupOnce :: "go_time \<Rightarrow> int \<Rightarrow> idem_db world \<Rightarrow> idem_db world" where
  "cleanupOnce now batch w = snd (db_exec (DeleteExpired now batch) w)"

section \<open>Execution by steps\<close>

text \<open>
  The same execution cut at every call that others can come between: each step is one statement
  or the callback.
\<close>

datatype 'a idem_phase =
    Claiming
  | Inspecting
  | ReclaimingExpired IdempotencyRecord
  | InspectingAgain
  | ReclaimingFailed IdempotencyRecord
  | Running int
  | Marking int "go_error + 'a"
  | Finished "go_error + 'a IdempotencyExecuteResult"

definition decide :: "'a idem_env \<Rightarrow> idem_request \<Rightarrow> IdempotencyRecord \<Rightarrow> 'a idem_phase" where
  "decide env q existing =
     (case on_existing env q existing of Some r \<Rightarrow> Finished r | None \<Rightarrow> ReclaimingFailed existing)"

definition with_state :: "'s \<Rightarrow> 'p \<times> 'w \<Rightarrow> 'p \<times> 's \<times> 'w" where
  "with_state s x = (fst x, s, snd x)"

fun idem_step ::
    "'a idem_env \<Rightarrow> idem_request \<Rightarrow> ('s \<Rightarrow> (go_error + 'a) \<times> 's) \<Rightarrow> 'a idem_phase \<Rightarrow> 's \<Rightarrow> idem_db world
       \<Rightarrow> 'a idem_phase \<times> 's \<times> idem_db world" where
  "idem_step env q callback Claiming s w =
     with_state s (case db_exec (CreateProcessing (q_Clock q) (new_record q)) w of
        (Inl e, w1) \<Rightarrow> (Finished (Inl (store_error e)), w1)
      | (Inr (Some rid), w1) \<Rightarrow> (Running rid, w1)
      | (Inr None, w1) \<Rightarrow> (Inspecting, w1))"
| "idem_step env q callback Inspecting s w =
     with_state s (case read_record q w of
        (Inl e, w1) \<Rightarrow> (Finished (Inl e), w1)
      | (Inr existing, w1) \<Rightarrow>
          (if \<not> ir_ExpiresAt existing > q_Now q then ReclaimingExpired existing else decide env q existing, w1))"
| "idem_step env q callback (ReclaimingExpired existing) s w =
     with_state s (case db_exec (reclaim q existing (ir_Status existing)) w of
        (Inl e, w1) \<Rightarrow> (Finished (Inl (store_error e)), w1)
      | (Inr taken, w1) \<Rightarrow> (if taken then Running (ir_ID existing) else InspectingAgain, w1))"
| "idem_step env q callback InspectingAgain s w =
     with_state s (case read_record q w of
        (Inl e, w1) \<Rightarrow> (Finished (Inl e), w1)
      | (Inr latest, w1) \<Rightarrow> (decide env q latest, w1))"
| "idem_step env q callback (ReclaimingFailed existing) s w =
     with_state s (case db_exec (reclaim q existing IdempotencyStatusFailedRetryable) w of
        (Inl e, w1) \<Rightarrow> (Finished (Inl (store_error e)), w1)
      | (Inr taken, w1) \<Rightarrow>
          (if taken then Running (ir_ID existing)
           else Finished (Inl (conflictWithRetryAfter ErrIdempotencyInProgress (ir_LockedUntil existing) (q_Now q))), w1))"
| "idem_step env q callback (Running rid) s w =
     (if rid = 0 then (Finished (Inl ErrIdempotencyStoreUnavail), s, w)
      else (Marking rid (fst (callback s)), snd (callback s), w))"
| "idem_step env q callback (Marking rid outcome) s w =
     with_state s (case mark_outcome env q rid outcome w of (r, w1) \<Rightarrow> (Finished r, w1))"
| "idem_step env q callback (Finished r) s w = (Finished r, s, w)"

fun idem_steps ::
    "nat \<Rightarrow> 'a idem_env \<Rightarrow> idem_request \<Rightarrow> ('s \<Rightarrow> (go_error + 'a) \<times> 's) \<Rightarrow> 'a idem_phase \<times> 's \<times> idem_db world
       \<Rightarrow> 'a idem_phase \<times> 's \<times> idem_db world" where
  "idem_steps 0 env q callback x = x"
| "idem_steps (Suc n) env q callback (ph, s, w) = idem_steps n env q callback (idem_step env q callback ph s w)"

section \<open>Interleaved requests\<close>

text \<open>
  The requests of all instances of the gateway on one table. \<open>runs\<close> records for every callback that
  was run the key it was run for and whether it succeeded. A request may stop at any point for
  ever, and every statement may be lost before or after it takes effect.
\<close>

record ('a, 's) idem_system =
  threads :: "nat \<Rightarrow> (idem_request \<times> 'a idem_phase) option"
  effects :: 's
  table :: "idem_db world"
  runs :: "(string \<times> string \<times> bool) list"

definition run_entry :: "idem_request \<Rightarrow> 'a idem_phase \<Rightarrow> 'a idem_phase \<Rightarrow> (string \<times> string \<times> bool) list" where
  "run_entry q ph ph' =
     (case (ph, ph') of
        (Running _, Marking _ outcome) \<Rightarrow>
          [(q_Scope q, q_KeyHash q, case outcome of Inl _ \<Rightarrow> False | Inr _ \<Rightarrow> True)]
      | _ \<Rightarrow> [])"

inductive system_step ::
    "'a idem_env \<Rightarrow> (idem_request \<Rightarrow> bool) \<Rightarrow> (go_time \<Rightarrow> bool) \<Rightarrow> ('a, 's) idem_system \<Rightarrow> ('a, 's) idem_system \<Rightarrow> bool"
  for env admitted cleans where
  arrive: "threads x t = None \<Longrightarrow> admitted q
     \<Longrightarrow> system_step env admitted cleans x (x\<lparr>threads := (threads x)(t \<mapsto> (q, Claiming))\<rparr>)"
| advance: "threads x t = Some (q, ph) \<Longrightarrow> idem_step env q callback ph (effects x) (table x) = (ph', s', w')
     \<Longrightarrow> system_step env admitted cleans x
           (x\<lparr>threads := (threads x)(t \<mapsto> (q, ph')), effects := s', table := w',
              runs := runs x @ run_entry q ph ph'\<rparr>)"
| cleanup: "cleans now \<Longrightarrow> system_step env admitted cleans x (x\<lparr>table := cleanupOnce now batch (table x)\<rparr>)"
| trouble: "system_step env admitted cleans x (x\<lparr>table := (table x)\<lparr>faults := fs\<rparr>\<rparr>)"

inductive_cases system_stepE: "system_step env admitted cleans x y"

end
