(* ===== verification/Idempotency_Facts.thy ===== *)
theory Idempotency_Facts
  imports Idempotency
begin

text \<open>
  The guarantees of idempotent execution: the stepwise form is the program, an operation takes
  effect at most once within the time to live of its record however requests interleave and calls
  fail.
\<close>

section \<open>The steps are the program\<close>

definition finished ::
    "(go_error + 'a IdempotencyExecuteResult) \<times> 's \<times> idem_db world \<Rightarrow> 'a idem_phase \<times> 's \<times> idem_db world" where
  "finished x = (case x of (r, s, w) \<Rightarrow> (Finished r, s, w))"

lemma steps_finished [simp]: "idem_steps n env q cb (Finished r, s, w) = (Finished r, s, w)"
  by (induction n) simp_all

lemma finished_pair [simp]: "finished (r, s, w) = (Finished r, s, w)"
  by (simp add: finished_def)

lemma steps_running:
  "idem_steps (Suc (Suc n)) env q cb (Running rid, s, w) = finished (execute_run env q rid cb s w)"
  by (simp add: execute_run_def with_state_def split: prod.split)

lemma steps_decided:
  "idem_steps (Suc (Suc (Suc n))) env q cb (decide env q r, s, w) = finished (execute_status env q r cb s w)"
proof (cases "on_existing env q r")
  case None
  obtain x w1 where x: "db_exec (reclaim q r IdempotencyStatusFailedRetryable) w = (x, w1)" by fastforce
  with None steps_running [of n env q cb] show ?thesis
    by (cases x) (simp_all add: decide_def execute_status_def with_state_def del: idem_steps.simps(2)
        add: idem_steps.simps(2) [of "Suc (Suc n)"])
qed (simp add: decide_def execute_status_def del: idem_steps.simps(2))

text \<open>
  The stepwise execution, run without interruption, is the program: after seven steps it has
  finished with the result of \<open>Execute\<close>, the same effects of the callback and the same table,
  whatever calls are lost.
\<close>

theorem steps_are_the_program:
  "idem_steps 7 env q cb (Claiming, s, w) = finished (execute_request env q cb s w)"
proof -
  have seven: "(7::nat) = Suc (Suc (Suc (Suc (Suc (Suc (Suc 0))))))" by simp
  obtain x w1 where x: "db_exec (CreateProcessing (q_Clock q) (new_record q)) w = (x, w1)" by fastforce
  note step = idem_steps.simps(2)
  show ?thesis
  proof (cases x)
    case (Inl e)
    with x show ?thesis by (simp add: seven execute_request_def with_state_def)
  next
    case (Inr o1)
    show ?thesis
    proof (cases o1)
      case (Some rid)
      with Inr x show ?thesis unfolding seven step [of "Suc (Suc (Suc (Suc (Suc (Suc 0)))))"]
        by (simp add: execute_request_def with_state_def steps_running del: idem_steps.simps(2))
    next
      case None
      obtain y w2 where y: "read_record q w1 = (y, w2)" by fastforce
      have insp: "idem_steps (Suc (Suc (Suc (Suc (Suc (Suc 0)))))) env q cb (Inspecting, s, w1)
          = finished (execute_existing env q cb s w1)"
      proof (cases y)
        case (Inl e)
        with y show ?thesis by (simp add: execute_existing_def with_state_def)
      next
        case (Inr r)
        show ?thesis
        proof (cases "ir_ExpiresAt r > q_Now q")
          case True
          with y Inr show ?thesis unfolding step [of "Suc (Suc (Suc (Suc (Suc 0))))"]
            by (simp add: execute_existing_def with_state_def steps_decided del: idem_steps.simps(2))
        next
          case False
          obtain z w3 where z: "db_exec (reclaim q r (ir_Status r)) w2 = (z, w3)" by fastforce
          obtain v w4 where v: "read_record q w3 = (v, w4)" by fastforce
          from False y Inr z v show ?thesis
            unfolding step [of "Suc (Suc (Suc (Suc (Suc 0))))"]
            apply (simp add: execute_existing_def with_state_def del: idem_steps.simps(2))
            unfolding step [of "Suc (Suc (Suc (Suc 0)))"]
            apply (cases z)
             apply (simp add: with_state_def del: idem_steps.simps(2))
            apply (simp add: with_state_def steps_running del: idem_steps.simps(2) split: bool.split)
            unfolding step [of "Suc (Suc (Suc 0))"]
            by (cases v) (simp_all add: with_state_def steps_decided del: idem_steps.simps(2))
        qed
      qed
      from None Inr x show ?thesis unfolding seven step [of "Suc (Suc (Suc (Suc (Suc (Suc 0)))))"]
        by (simp add: execute_request_def with_state_def insp del: idem_steps.simps(2))
    qed
  qed
qed

section \<open>The table under interleaved steps\<close>

definition row_key :: "IdempotencyRecord \<Rightarrow> string \<times> string" where
  "row_key r = (ir_Scope r, ir_IdempotencyKeyHash r)"

definition req_key :: "idem_request \<Rightarrow> string \<times> string" where
  "req_key q = (q_Scope q, q_KeyHash q)"

definition row_at :: "string \<times> string \<Rightarrow> idem_db \<Rightarrow> IdempotencyRecord option" where
  "row_at k d = find_record (fst k) (snd k) d"

lemma row_at_find: "row_at k d = find (\<lambda>r. row_key r = k) (idem_rows d)"
  by (cases k) (simp add: row_at_def find_record_def row_key_def)

definition table_ok :: "idem_db \<Rightarrow> bool" where
  "table_ok d \<longleftrightarrow> distinct (map ir_ID (idem_rows d)) \<and> distinct (map row_key (idem_rows d))
     \<and> (\<forall>r \<in> set (idem_rows d). ir_ID r < idem_serial d)"

lemma row_atI: "table_ok d \<Longrightarrow> r \<in> set (idem_rows d) \<Longrightarrow> row_at (row_key r) d = Some r"
  unfolding row_at_find table_ok_def by (simp add: find_distinct)

lemma row_atD: "row_at k d = Some r \<Longrightarrow> r \<in> set (idem_rows d) \<and> row_key r = k"
  by (auto simp: row_at_find find_Some_iff)

lemma same_id: "table_ok d \<Longrightarrow> r \<in> set (idem_rows d) \<Longrightarrow> r' \<in> set (idem_rows d) \<Longrightarrow> ir_ID r = ir_ID r' \<Longrightarrow> r = r'"
  by (auto simp: table_ok_def distinct_map inj_on_def)

text \<open>Updates of rows that keep their ids and keys.\<close>

definition keeps_identity :: "(IdempotencyRecord \<Rightarrow> IdempotencyRecord) \<Rightarrow> bool" where
  "keeps_identity f \<longleftrightarrow> (\<forall>r. ir_ID (f r) = ir_ID r \<and> row_key (f r) = row_key r)"

lemma update_shape:
  assumes "keeps_identity f"
  shows "map ir_ID (idem_rows (snd (update_records p f d))) = map ir_ID (idem_rows d)"
    and "map row_key (idem_rows (snd (update_records p f d))) = map row_key (idem_rows d)"
    and "idem_serial (snd (update_records p f d)) = idem_serial d"
  using assms by (auto simp: update_records_def keeps_identity_def)

lemma row_at_update:
  assumes "keeps_identity f"
  shows "row_at k (snd (update_records p f d)) = map_option (\<lambda>r. if p r then f r else r) (row_at k d)"
  using assms by (simp add: row_at_find update_records_def keeps_identity_def find_map_same)

text \<open>The record a phase refers to, and the one it works on.\<close>

fun refers :: "'a idem_phase \<Rightarrow> int option" where
  "refers (ReclaimingExpired r) = Some (ir_ID r)"
| "refers (ReclaimingFailed r) = Some (ir_ID r)"
| "refers (Running rid) = Some rid"
| "refers (Marking rid _) = Some rid"
| "refers _ = None"

fun works_on :: "'a idem_phase \<Rightarrow> int option" where
  "works_on (Running rid) = Some rid"
| "works_on (Marking rid _) = Some rid"
| "works_on _ = None"

text \<open>The ways in which one step of a request changes the table.\<close>

definition touches :: "idem_request \<Rightarrow> 'a idem_phase \<Rightarrow> idem_db \<Rightarrow> idem_db \<Rightarrow> bool" where
  "touches q ph d d' \<longleftrightarrow> d' = d
     \<or> d' = d\<lparr>idem_serial := idem_serial d + 1\<rparr>
     \<or> (row_at (req_key q) d = None \<and> (\<exists>r. row_key r = req_key q \<and> ir_ID r = idem_serial d
          \<and> d' = d\<lparr>idem_rows := idem_rows d @ [r], idem_serial := idem_serial d + 1\<rparr>))
     \<or> (\<exists>rid p f. refers ph = Some rid \<and> (\<forall>r. p r \<longrightarrow> ir_ID r = rid) \<and> keeps_identity f
          \<and> d' = snd (update_records p f d))"

lemma create_touches: "touches q ph d (snd (CreateProcessing c (new_record q) d))"
proof (cases "row_at (req_key q) d")
  case None
  let ?r = "new_record q\<lparr>ir_ID := idem_serial d, ir_ResponseStatus := None, ir_ResponseBody := None,
    ir_ErrorReason := None, ir_CreatedAt := c, ir_UpdatedAt := c\<rparr>"
  have "snd (CreateProcessing c (new_record q) d)
      = d\<lparr>idem_rows := idem_rows d @ [?r], idem_serial := idem_serial d + 1\<rparr>"
    using None by (simp add: CreateProcessing_def row_at_def req_key_def new_record_def)
  moreover have "row_key ?r = req_key q" "ir_ID ?r = idem_serial d"
    by (simp_all add: row_key_def req_key_def new_record_def)
  ultimately show ?thesis using None unfolding touches_def by blast
next
  case (Some r)
  then show ?thesis by (auto simp: touches_def CreateProcessing_def row_at_def req_key_def new_record_def)
qed

lemma update_touches:
  assumes "refers ph = Some rid" and "\<And>r. p r \<Longrightarrow> ir_ID r = rid" and "keeps_identity f"
  shows "touches q ph d (snd (update_records p f d))"
  using assms unfolding touches_def by blast

lemma reclaim_touches: "refers ph = Some (ir_ID r) \<Longrightarrow> touches q ph d (snd (reclaim q r st d))"
  unfolding reclaim_def TryReclaim_def Let_def prod.case_eq_if snd_conv
  by (rule update_touches) (auto simp: keeps_identity_def row_key_def)

lemma mark_touches:
  assumes "refers ph = Some rid"
  shows "touches q ph d (snd (MarkSucceeded c rid st body e d))"
    and "touches q ph d (snd (MarkFailedRetryable c rid reason l e d))"
  unfolding MarkSucceeded_def MarkFailedRetryable_def snd_conv
  by (rule update_touches [OF assms], auto simp: keeps_identity_def row_key_def)+

lemma touches_refl [simp]: "touches q ph d d"
  by (simp add: touches_def)

lemma db_exec_touches:
  assumes "db_exec st w = (x, w')" and "touches q ph (db w) (snd (st (db w)))"
  shows "touches q ph (db w) (db w')"
  using db_exec_db [of st w] assms by auto

lemma read_record_db [simp]: "read_record q w = (x, w') \<Longrightarrow> db w' = db w"
  by (auto simp: read_record_def GetByScopeAndKeyHash_def split: prod.split_asm sum.split_asm option.split_asm
      dest!: db_exec_keeps [where f = "\<lambda>d. d"])

lemma step_touches:
  assumes "idem_step env q cb ph s w = (ph', s', w')"
  shows "touches q ph (db w) (db w')"
proof (cases ph)
  case Claiming
  obtain x w1 where x: "db_exec (CreateProcessing (q_Clock q) (new_record q)) w = (x, w1)" by fastforce
  have "w' = w1" using assms Claiming x by (auto simp: with_state_def split: sum.split_asm option.split_asm)
  then show ?thesis using db_exec_touches [OF x create_touches, where ph = ph] by simp
next
  case (Marking rid outcome)
  have "touches q (Marking rid outcome :: 'a idem_phase) (db w) (db (snd (mark_outcome env q rid outcome w)))"
  proof (cases outcome)
    case (Inl e)
    then show ?thesis
      by (auto simp: mark_outcome_def Let_def intro!: db_exec_touches [OF prod.collapse [symmetric]] mark_touches(2))
  next
    case (Inr data)
    obtain x w1 where x: "db_exec (MarkSucceeded (q_Clock q) rid 200 (projr (marshalStoredResponse env data)) (q_ExpiresAt q)) w
        = (x, w1)" by fastforce
    from Inr x show ?thesis
      using db_exec_touches [OF x mark_touches(1), where q = q and ph = "Marking rid outcome :: 'a idem_phase"]
      by (auto simp: mark_outcome_def split: sum.split)
  qed
  then show ?thesis using assms Marking by (auto simp: with_state_def split: prod.split_asm)
next
  case (ReclaimingExpired r)
  obtain x w1 where x: "db_exec (reclaim q r (ir_Status r)) w = (x, w1)" by fastforce
  have "w' = w1" using assms ReclaimingExpired x by (auto simp: with_state_def split: sum.split_asm)
  then show ?thesis using db_exec_touches [OF x reclaim_touches, where ph = ph] ReclaimingExpired by simp
next
  case (ReclaimingFailed r)
  obtain x w1 where x: "db_exec (reclaim q r IdempotencyStatusFailedRetryable) w = (x, w1)" by fastforce
  have "w' = w1" using assms ReclaimingFailed x by (auto simp: with_state_def split: sum.split_asm)
  then show ?thesis using db_exec_touches [OF x reclaim_touches, where ph = ph] ReclaimingFailed by simp
qed (use assms in \<open>auto simp: with_state_def split: prod.split_asm sum.split_asm if_split_asm dest: read_record_db\<close>)

section \<open>The invariant\<close>

text \<open>
  For a key and a horizon: records of the key outlive the horizon, at most one request works on
  the key's record, which is then being processed, and after a successful run no request of the key
  can run again.
\<close>

definition runs_of :: "string \<times> string \<Rightarrow> (string \<times> string \<times> bool) list \<Rightarrow> bool list" where
  "runs_of k rs = map (\<lambda>x. snd (snd x)) (filter (\<lambda>x. (fst x, fst (snd x)) = k) rs)"

definition references_ok :: "('a, 's) idem_system \<Rightarrow> bool" where
  "references_ok x \<longleftrightarrow> (\<forall>t q ph rid. threads x t = Some (q, ph) \<longrightarrow> refers ph = Some rid
     \<longrightarrow> rid < idem_serial (db (table x))
       \<and> (\<forall>r \<in> set (idem_rows (db (table x))). ir_ID r = rid \<longrightarrow> row_key r = req_key q))"

definition in_window :: "go_time \<Rightarrow> idem_request \<Rightarrow> bool" where
  "in_window horizon q \<longleftrightarrow> q_Now q \<le> horizon \<and> horizon < q_ExpiresAt q"

definition on_expired :: "'a idem_phase \<Rightarrow> bool" where
  "on_expired ph \<longleftrightarrow> (case ph of ReclaimingExpired _ \<Rightarrow> True | InspectingAgain \<Rightarrow> True | _ \<Rightarrow> False)"

definition requests_ok :: "string \<times> string \<Rightarrow> go_time \<Rightarrow> ('a, 's) idem_system \<Rightarrow> bool" where
  "requests_ok k horizon x \<longleftrightarrow> (\<forall>t q ph. threads x t = Some (q, ph) \<longrightarrow> req_key q = k
     \<longrightarrow> in_window horizon q \<and> \<not> on_expired ph
       \<and> (\<forall>rid. works_on ph = Some rid \<longrightarrow> (\<exists>r. row_at k (db (table x)) = Some r \<and> ir_ID r = rid
              \<and> ir_Status r = IdempotencyStatusProcessing)))"

definition single_worker :: "string \<times> string \<Rightarrow> ('a, 's) idem_system \<Rightarrow> bool" where
  "single_worker k x \<longleftrightarrow> (\<forall>t q ph t' q' ph'. threads x t = Some (q, ph) \<longrightarrow> threads x t' = Some (q', ph')
     \<longrightarrow> req_key q = k \<longrightarrow> req_key q' = k \<longrightarrow> works_on ph \<noteq> None \<longrightarrow> works_on ph' \<noteq> None \<longrightarrow> t = t')"

definition settled_key :: "string \<times> string \<Rightarrow> ('a, 's) idem_system \<Rightarrow> bool" where
  "settled_key k x \<longleftrightarrow>
     (\<exists>r. row_at k (db (table x)) = Some r \<and> ir_Status r \<noteq> IdempotencyStatusFailedRetryable)
     \<and> (\<forall>t q ph. threads x t = Some (q, ph) \<longrightarrow> req_key q = k \<longrightarrow> works_on ph \<noteq> None
          \<longrightarrow> (\<exists>rid data. ph = Marking rid (Inr data)))"

definition runs_ok :: "string \<times> string \<Rightarrow> ('a, 's) idem_system \<Rightarrow> bool" where
  "runs_ok k x \<longleftrightarrow> (let bs = runs_of k (runs x)
     in True \<notin> set (butlast bs) \<and> (True \<in> set bs \<longrightarrow> settled_key k x))"

definition idem_inv :: "string \<times> string \<Rightarrow> go_time \<Rightarrow> ('a, 's) idem_system \<Rightarrow> bool" where
  "idem_inv k horizon x \<longleftrightarrow> table_ok (db (table x)) \<and> references_ok x \<and> requests_ok k horizon x
     \<and> single_worker k x \<and> runs_ok k x
     \<and> (\<forall>r. row_at k (db (table x)) = Some r \<longrightarrow> horizon < ir_ExpiresAt r)"

lemma touches_table_ok:
  assumes "touches q ph d d'" and "table_ok d"
  shows "table_ok d'"
  using assms(1) unfolding touches_def
proof (elim disjE exE conjE)
  fix r
  assume new: "row_at (req_key q) d = None" "row_key r = req_key q" "ir_ID r = idem_serial d"
    "d' = d\<lparr>idem_rows := idem_rows d @ [r], idem_serial := idem_serial d + 1\<rparr>"
  then have "row_key r \<notin> row_key ` set (idem_rows d)" by (auto simp: row_at_find find_None_iff)
  with new assms(2) show ?thesis by (auto simp: table_ok_def intro: less_trans)
next
  fix rid p f
  assume u: "keeps_identity f" "d' = snd (update_records p f d)"
  have "\<forall>r \<in> set (idem_rows d'). ir_ID r < idem_serial d'"
    using assms(2) u by (auto simp: table_ok_def update_records_def keeps_identity_def)
  with assms(2) show ?thesis unfolding table_ok_def u(2) update_shape [OF u(1)] by (simp add: u(2))
qed (use assms(2) in \<open>auto simp: table_ok_def\<close>)

text \<open>Rows of a touched table: those of before with the same ids and keys, and perhaps a new one.\<close>

lemma touches_rows:
  assumes "touches q ph d d'" and "r' \<in> set (idem_rows d')"
  shows "(\<exists>r \<in> set (idem_rows d). ir_ID r = ir_ID r' \<and> row_key r = row_key r')
    \<or> (ir_ID r' = idem_serial d \<and> row_key r' = req_key q)"
  using assms(1) unfolding touches_def
proof (elim disjE exE conjE)
  fix rid p f
  assume u: "keeps_identity f" "d' = snd (update_records p f d)"
  then obtain r where "r \<in> set (idem_rows d)" "r' = (if p r then f r else r)"
    using assms(2) by (auto simp: update_records_def)
  then show ?thesis using u(1) by (auto simp: keeps_identity_def)
qed (use assms(2) in auto)

lemma touches_serial: "touches q ph d d' \<Longrightarrow> idem_serial d \<le> idem_serial d'"
  by (auto simp: touches_def update_shape(3))

text \<open>A request of another key leaves the key's record alone.\<close>

lemma touches_other:
  assumes "touches q ph d d'" and "req_key q \<noteq> k"
    and "\<And>rid r. refers ph = Some rid \<Longrightarrow> r \<in> set (idem_rows d) \<Longrightarrow> ir_ID r = rid \<Longrightarrow> row_key r = req_key q"
  shows "row_at k d' = row_at k d"
  using assms(1) unfolding touches_def
proof (elim disjE exE conjE)
  fix r
  assume "row_key r = req_key q" "d' = d\<lparr>idem_rows := idem_rows d @ [r], idem_serial := idem_serial d + 1\<rparr>"
  with assms(2) show ?thesis by (auto simp: row_at_find find_snoc split: option.split)
next
  fix rid p f
  assume u: "refers ph = Some rid" "\<forall>r. p r \<longrightarrow> ir_ID r = rid" "keeps_identity f" "d' = snd (update_records p f d)"
  have "\<not> p r" if "row_at k d = Some r" for r
    using row_atD [OF that] assms(2) assms(3) [OF u(1), of r] u(2) by auto
  then show ?thesis unfolding u(4) row_at_update [OF u(3)] by (cases "row_at k d") auto
qed (simp_all add: row_at_find)

text \<open>What one step of a request of the key does to the key's record.\<close>

lemma create_row:
  assumes "row_at (req_key q) d = None"
  obtains r where "fst (CreateProcessing c (new_record q) d) = Inr (Some (ir_ID r))"
    and "row_at (req_key q) (snd (CreateProcessing c (new_record q) d)) = Some r"
    and "ir_Status r = IdempotencyStatusProcessing" and "ir_ExpiresAt r = q_ExpiresAt q" and "ir_ID r = idem_serial d"
    and "ir_RequestFingerprint r = q_Fingerprint q"
proof
  let ?r = "new_record q\<lparr>ir_ID := idem_serial d, ir_ResponseStatus := None, ir_ResponseBody := None,
    ir_ErrorReason := None, ir_CreatedAt := c, ir_UpdatedAt := c\<rparr>"
  have e: "CreateProcessing c (new_record q) d
      = (Inr (Some (idem_serial d)), d\<lparr>idem_rows := idem_rows d @ [?r], idem_serial := idem_serial d + 1\<rparr>)"
    using assms by (simp add: CreateProcessing_def row_at_def req_key_def new_record_def)
  have key: "row_key ?r = req_key q" by (simp add: row_key_def req_key_def new_record_def)
  show "fst (CreateProcessing c (new_record q) d) = Inr (Some (ir_ID ?r))" by (simp add: e)
  show "row_at (req_key q) (snd (CreateProcessing c (new_record q) d)) = Some ?r"
    using assms key by (simp add: e row_at_find find_snoc)
qed (simp_all add: new_record_def)

lemma create_present:
  assumes "row_at (req_key q) d = Some r"
  shows "fst (CreateProcessing c (new_record q) d) = Inr None"
    and "row_at (req_key q) (snd (CreateProcessing c (new_record q) d)) = Some r"
proof -
  have "CreateProcessing c (new_record q) d = (Inr None, d\<lparr>idem_serial := idem_serial d + 1\<rparr>)"
    using assms by (simp add: CreateProcessing_def row_at_def req_key_def new_record_def)
  then show "fst (CreateProcessing c (new_record q) d) = Inr None"
    "row_at (req_key q) (snd (CreateProcessing c (new_record q) d)) = Some r"
    using assms by (simp_all add: row_at_find)
qed

lemma reclaim_row:
  assumes "table_ok d" and "\<And>r. r \<in> set (idem_rows d) \<Longrightarrow> ir_ID r = ir_ID e \<Longrightarrow> row_key r = k"
  shows "(fst (reclaim q e st d) = Inr False \<and> snd (reclaim q e st d) = d)
    \<or> (fst (reclaim q e st d) = Inr True \<and> (\<exists>r r'. row_at k d = Some r \<and> ir_Status r = st
        \<and> row_at k (snd (reclaim q e st d)) = Some r' \<and> ir_ID r' = ir_ID e
        \<and> ir_Status r' = IdempotencyStatusProcessing \<and> ir_ExpiresAt r' = q_ExpiresAt q
        \<and> ir_RequestFingerprint r' = ir_RequestFingerprint r))"
proof -
  define p where "p = (\<lambda>r :: IdempotencyRecord. ir_ID r = ir_ID e \<and> ir_Status r = st
      \<and> (case ir_LockedUntil r of None \<Rightarrow> True | Some t \<Rightarrow> t \<le> q_Now q))"
  define f where "f = (\<lambda>r :: IdempotencyRecord. r\<lparr>ir_Status := IdempotencyStatusProcessing, ir_LockedUntil := Some (q_LockedUntil q),
      ir_ErrorReason := None, ir_UpdatedAt := q_Clock q, ir_ExpiresAt := q_ExpiresAt q\<rparr>)"
  have rc: "reclaim q e st d = (Inr (fst (update_records p f d) > 0), snd (update_records p f d))"
    unfolding reclaim_def TryReclaim_def p_def f_def by (simp add: prod.case_eq_if)
  have kf: "keeps_identity f" by (simp add: keeps_identity_def f_def row_key_def)
  show ?thesis
  proof (cases "filter p (idem_rows d) = []")
    case True
    then have "map (\<lambda>r. if p r then f r else r) (idem_rows d) = idem_rows d"
      by (auto simp: filter_empty_conv intro: map_idI)
    with True show ?thesis by (simp add: rc update_records_def)
  next
    case False
    then obtain r where r: "r \<in> set (idem_rows d)" "p r" by (auto simp: filter_empty_conv)
    from r(2) have id: "ir_ID r = ir_ID e" "ir_Status r = st" by (simp_all add: p_def)
    have "row_at k d = Some r" using row_atI [OF assms(1) r(1)] assms(2) [OF r(1) id(1)] by simp
    then have "row_at k (snd (update_records p f d)) = Some (f r)" using r(2) by (simp add: row_at_update [OF kf])
    moreover have "ir_ID (f r) = ir_ID e" "ir_Status (f r) = IdempotencyStatusProcessing"
      "ir_ExpiresAt (f r) = q_ExpiresAt q" "ir_RequestFingerprint (f r) = ir_RequestFingerprint r"
      using id by (simp_all add: f_def)
    moreover have "fst (update_records p f d) > 0" using False by (simp add: update_records_def)
    ultimately show ?thesis using id(2) \<open>row_at k d = Some r\<close> by (simp add: rc)
  qed
qed

lemma read_row:
  assumes "read_record q w = (Inr r, w')"
  shows "row_at (req_key q) (db w) = Some r" and "ir_RequestFingerprint r = q_Fingerprint q"
proof -
  obtain x w1 where x: "db_exec (GetByScopeAndKeyHash (q_Scope q) (q_KeyHash q)) w = (x, w1)" by fastforce
  with assms obtain r0 where "x = Inr (Some r0)" "r0 = r"
    by (auto simp: read_record_def split: sum.split_asm option.split_asm if_split_asm)
  with x db_exec_Inr [of _ w "Some r" w1] show "row_at (req_key q) (db w) = Some r"
    by (fastforce simp: GetByScopeAndKeyHash_def row_at_def req_key_def)
  from x assms show "ir_RequestFingerprint r = q_Fingerprint q"
    by (auto simp: read_record_def split: sum.split_asm option.split_asm if_split_asm)
qed

datatype step_kind = Idle | Taking | Executing | Closing

definition step_like :: "step_kind \<Rightarrow> idem_request \<Rightarrow> 'a idem_phase \<Rightarrow> idem_db \<Rightarrow> 'a idem_phase \<Rightarrow> idem_db \<Rightarrow> bool" where
  "step_like kd q ph d ph' d' =
     (let k = req_key q in
      case kd of
        Idle \<Rightarrow> works_on ph = None \<and> works_on ph' = None
          \<and> (\<forall>r. row_at k d = Some r \<and> ir_Status r \<noteq> IdempotencyStatusFailedRetryable \<longrightarrow> row_at k d' = Some r)
      | Taking \<Rightarrow> works_on ph = None \<and> (\<exists>r. ph' = Running (ir_ID r) \<and> row_at k d' = Some r
            \<and> ir_Status r = IdempotencyStatusProcessing)
          \<and> (\<forall>r. row_at k d = Some r \<longrightarrow> ir_Status r = IdempotencyStatusFailedRetryable)
      | Executing \<Rightarrow> (\<exists>rid outcome. ph = Running rid \<and> ph' = Marking rid outcome) \<and> d' = d
      | Closing \<Rightarrow> works_on ph \<noteq> None \<and> works_on ph' = None
          \<and> (\<forall>r. row_at k d = Some r \<longrightarrow> (\<exists>r'. row_at k d' = Some r'
               \<and> (r' = r \<or> (\<exists>rid e. ph = Marking rid (Inl e)) \<or> ir_Status r' = IdempotencyStatusSucceeded))))"

lemma mark_row:
  assumes "mark_outcome env q rid outcome w = (res, w')" and "row_at k (db w) = Some r"
  obtains r' where "row_at k (db w') = Some r'" and "ir_ID r' = ir_ID r"
    and "r' = r \<or> (\<exists>e. outcome = Inl e) \<or> ir_Status r' = IdempotencyStatusSucceeded"
    and "r' = r \<or> ir_ExpiresAt r' = q_ExpiresAt q"
proof -
  have kf: "keeps_identity (\<lambda>r. r\<lparr>ir_Status := st, ir_ErrorReason := er, ir_LockedUntil := lu, ir_ExpiresAt := ex, ir_UpdatedAt := up\<rparr>)"
    "keeps_identity (\<lambda>r. r\<lparr>ir_Status := st, ir_ResponseStatus := rs, ir_ResponseBody := rb, ir_ErrorReason := er,
      ir_LockedUntil := lu, ir_ExpiresAt := ex, ir_UpdatedAt := up\<rparr>)" for st er lu ex up rs rb
    by (simp_all add: keeps_identity_def row_key_def)
  show thesis
  proof (cases outcome)
    case (Inl e)
    let ?st = "MarkFailedRetryable (q_Clock q) rid (if error_Reason (Some e) = '''' then ''EXECUTION_FAILED''
      else error_Reason (Some e)) (q_FailedAt q + FailedRetryBackoff (cfg env)) (q_ExpiresAt q)"
    have w': "w' = snd (db_exec ?st w)" using assms(1) Inl by (simp add: mark_outcome_def Let_def split: if_split_asm)
    have "row_at k (snd (?st (db w))) = Some (if ir_ID r = rid then r\<lparr>ir_Status := IdempotencyStatusFailedRetryable,
        ir_ErrorReason := Some (if error_Reason (Some e) = '''' then ''EXECUTION_FAILED'' else error_Reason (Some e)),
        ir_LockedUntil := Some (q_FailedAt q + FailedRetryBackoff (cfg env)), ir_ExpiresAt := q_ExpiresAt q,
        ir_UpdatedAt := q_Clock q\<rparr> else r)"
      using assms(2) by (simp add: MarkFailedRetryable_def row_at_update [OF kf(1)])
    moreover have "db w' = db w \<or> db w' = snd (?st (db w))" unfolding w' by (rule db_exec_db)
    ultimately show thesis using that assms(2) Inl by (auto split: if_split_asm)
  next
    case (Inr data)
    show thesis
    proof (cases "marshalStoredResponse env data")
      case (Inl e)
      with Inr assms that show thesis by (auto simp: mark_outcome_def)
    next
      case body: (Inr body)
      let ?st = "MarkSucceeded (q_Clock q) rid 200 body (q_ExpiresAt q)"
      obtain x w1 where x: "db_exec ?st w = (x, w1)" by fastforce
      have w': "w' = w1" using assms(1) Inr body x by (auto simp: mark_outcome_def split: sum.split_asm)
      have "row_at k (snd (?st (db w))) = Some (if ir_ID r = rid then r\<lparr>ir_Status := IdempotencyStatusSucceeded,
          ir_ResponseStatus := Some 200, ir_ResponseBody := Some body, ir_ErrorReason := None, ir_LockedUntil := None,
          ir_ExpiresAt := q_ExpiresAt q, ir_UpdatedAt := q_Clock q\<rparr> else r)"
        using assms(2) by (simp add: MarkSucceeded_def row_at_update [OF kf(2)])
      moreover have "db w' = db w \<or> db w' = snd (?st (db w))" using db_exec_db [of ?st w] x w' by simp
      ultimately show thesis using that assms(2) by (auto split: if_split_asm)
    qed
  qed
qed

lemma decide_idle:
  assumes "decide env q r = ph"
  shows "works_on ph = None" and "\<not> on_expired ph" and "refers ph = Some rid \<Longrightarrow> rid = ir_ID r"
  using assms by (auto simp: decide_def on_expired_def split: option.splits)


definition step_effects :: "go_time \<Rightarrow> idem_request \<Rightarrow> 'a idem_phase \<Rightarrow> idem_db \<Rightarrow> 'a idem_phase \<Rightarrow> idem_db \<Rightarrow> bool" where
  "step_effects horizon q ph d ph' d' \<longleftrightarrow>
     (\<exists>kd. step_like kd q ph d ph' d') \<and> \<not> on_expired ph'
     \<and> (\<forall>r. row_at (req_key q) d' = Some r \<longrightarrow> horizon < ir_ExpiresAt r)
     \<and> (\<forall>rid. refers ph' = Some rid \<longrightarrow> (\<exists>r. row_at (req_key q) d' = Some r \<and> ir_ID r = rid))"

lemma idle_effects:
  assumes "works_on ph = None" "works_on ph' = None" "\<not> on_expired ph'" and "d' = d"
    and "\<And>r. row_at (req_key q) d = Some r \<Longrightarrow> horizon < ir_ExpiresAt r"
    and "\<And>rid. refers ph' = Some rid \<Longrightarrow> \<exists>r. row_at (req_key q) d = Some r \<and> ir_ID r = rid"
  shows "step_effects horizon q ph d ph' d'"
  unfolding step_effects_def
  using assms by (auto simp: step_like_def intro!: exI [of _ Idle])

lemma reclaim_effects:
  assumes "db_exec (reclaim q e IdempotencyStatusFailedRetryable) w = (x, w')" and "table_ok (db w)"
    and "\<And>r. r \<in> set (idem_rows (db w)) \<Longrightarrow> ir_ID r = ir_ID e \<Longrightarrow> row_key r = req_key q"
    and "in_window horizon q" and "\<And>r. row_at (req_key q) (db w) = Some r \<Longrightarrow> horizon < ir_ExpiresAt r"
    and "works_on ph = None"
    and "case x of Inl _ \<Rightarrow> \<exists>y. ph' = Finished y
      | Inr taken \<Rightarrow> if taken then ph' = Running (ir_ID e) else \<exists>y. ph' = Finished y"
  shows "step_effects horizon q ph (db w) ph' (db w')"
proof -
  let ?k = "req_key q" and ?st = "reclaim q e IdempotencyStatusFailedRetryable"
  from reclaim_row [OF assms(2,3)] consider
    (no) "fst (?st (db w)) = Inr False" "snd (?st (db w)) = db w"
  | (yes) r r' where "fst (?st (db w)) = Inr True" "row_at ?k (db w) = Some r"
      "ir_Status r = IdempotencyStatusFailedRetryable" "row_at ?k (snd (?st (db w))) = Some r'" "ir_ID r' = ir_ID e"
      "ir_Status r' = IdempotencyStatusProcessing" "ir_ExpiresAt r' = q_ExpiresAt q" by blast
  then show ?thesis
  proof cases
    case no
    then have "db w' = db w" "x = Inr False \<or> (\<exists>er. x = Inl er)" using db_exec_outcomes [OF assms(1)] by auto
    then show ?thesis using assms(5-7) by (intro idle_effects) (auto simp: on_expired_def split: sum.split_asm)
  next
    case yes
    from db_exec_outcomes [OF assms(1)] consider
      (same) er where "x = Inl er" "db w' = db w" | (lost) er where "x = Inl er" "db w' = snd (?st (db w))"
      | (took) "x = Inr True" "db w' = snd (?st (db w))" using yes(1) by auto
    then show ?thesis
    proof cases
      case same
      then show ?thesis using assms(5-7) by (intro idle_effects) (auto simp: on_expired_def)
    next
      case lost
      with yes assms(4,6,7) show ?thesis
        by (auto simp: step_effects_def step_like_def on_expired_def in_window_def intro!: exI [of _ Idle])
    next
      case took
      with yes assms(4,6,7) show ?thesis
        by (auto simp: step_effects_def step_like_def on_expired_def in_window_def intro!: exI [of _ Taking])
    qed
  qed
qed

lemma key_step_effects:
  assumes "idem_step env q cb ph s w = (ph', s', w')" and "table_ok (db w)" and "in_window horizon q"
    and "\<not> on_expired ph" and "\<And>r. row_at (req_key q) (db w) = Some r \<Longrightarrow> horizon < ir_ExpiresAt r"
    and "\<And>rid r. refers ph = Some rid \<Longrightarrow> r \<in> set (idem_rows (db w)) \<Longrightarrow> ir_ID r = rid \<Longrightarrow> row_key r = req_key q"
    and "\<And>rid. works_on ph = Some rid \<Longrightarrow> \<exists>r. row_at (req_key q) (db w) = Some r \<and> ir_ID r = rid"
  shows "step_effects horizon q ph (db w) ph' (db w')"
proof (cases ph)
  case Claiming
  let ?st = "CreateProcessing (q_Clock q) (new_record q)"
  obtain x w1 where x: "db_exec ?st w = (x, w1)" by fastforce
  have w1: "w' = w1" and ph': "ph' = (case x of Inl e \<Rightarrow> Finished (Inl (store_error e)) | Inr (Some rid) \<Rightarrow> Running rid
      | Inr None \<Rightarrow> Inspecting)"
    using assms(1) Claiming x by (auto simp: with_state_def split: sum.split_asm option.split_asm)
  show ?thesis
  proof (cases "row_at (req_key q) (db w)")
    case None
    from create_row [OF None, of "q_Clock q"] obtain r where r: "fst (?st (db w)) = Inr (Some (ir_ID r))"
      "row_at (req_key q) (snd (?st (db w))) = Some r" "ir_Status r = IdempotencyStatusProcessing"
      "ir_ExpiresAt r = q_ExpiresAt q" by metis
    from db_exec_outcomes [OF x] consider
      (same) er where "x = Inl er" "db w' = db w" | (lost) er where "x = Inl er" "db w' = snd (?st (db w))"
      | (took) "x = Inr (Some (ir_ID r))" "db w' = snd (?st (db w))" using r(1) w1 by auto
    then show ?thesis
    proof cases
      case same
      then show ?thesis using None ph' Claiming by (intro idle_effects) (auto simp: on_expired_def)
    next
      case lost
      with None r ph' Claiming assms(3) show ?thesis
        by (auto simp: step_effects_def step_like_def on_expired_def in_window_def intro!: exI [of _ Idle])
    next
      case took
      with None r ph' Claiming assms(3) show ?thesis
        by (auto simp: step_effects_def step_like_def on_expired_def in_window_def intro!: exI [of _ Taking])
    qed
  next
    case (Some r)
    note c = create_present [OF Some, of "q_Clock q"]
    have "row_at (req_key q) (db w') = Some r" using db_exec_outcomes [OF x] c Some w1 by auto
    moreover have "(\<exists>e. x = Inl e) \<or> x = Inr None" using db_exec_outcomes [OF x] c by auto
    ultimately show ?thesis using Some ph' Claiming assms(5)
      by (auto simp: step_effects_def step_like_def on_expired_def intro!: exI [of _ Idle])
  qed
next
  case Inspecting
  obtain x w1 where x: "read_record q w = (x, w1)" by fastforce
  have w1: "w' = w1" and ph': "ph' = (case x of Inl e \<Rightarrow> Finished (Inl e)
      | Inr r \<Rightarrow> if \<not> ir_ExpiresAt r > q_Now q then ReclaimingExpired r else decide env q r)"
    using assms(1) Inspecting x by (auto simp: with_state_def split: sum.split_asm)
  show ?thesis
  proof (cases x)
    case (Inl e)
    with ph' w1 x Inspecting assms(5) show ?thesis by (intro idle_effects) (auto simp: on_expired_def)
  next
    case (Inr r)
    note row = read_row [OF x [unfolded Inr]]
    have "ph' = decide env q r" using ph' Inr assms(3,5) row(1) by (auto simp: in_window_def)
    note dec = decide_idle [OF this [symmetric]]
    show ?thesis using w1 x Inspecting assms(5) dec row by (intro idle_effects) auto
  qed
next
  case (ReclaimingFailed e)
  obtain x w1 where x: "db_exec (reclaim q e IdempotencyStatusFailedRetryable) w = (x, w1)" by fastforce
  have w1: "w' = w1" and ph': "case x of Inl _ \<Rightarrow> \<exists>y. ph' = Finished y
      | Inr taken \<Rightarrow> if taken then ph' = Running (ir_ID e) else \<exists>y. ph' = Finished y"
    using assms(1) ReclaimingFailed x by (auto simp: with_state_def split: sum.split_asm)
  show ?thesis unfolding w1
    by (rule reclaim_effects [OF x assms(2) _ assms(3,5) _ ph']) (use ReclaimingFailed assms(6) in auto)
next
  case (Running rid)
  show ?thesis
  proof (cases "rid = 0")
    case True
    with assms(1,5,7) Running show ?thesis
      by (auto simp: step_effects_def step_like_def on_expired_def intro!: exI [of _ Closing])
  next
    case False
    with assms(1,5,7) Running show ?thesis
      by (auto simp: step_effects_def step_like_def on_expired_def intro!: exI [of _ Executing])
  qed
next
  case (Marking rid outcome)
  obtain res where m: "mark_outcome env q rid outcome w = (res, w')" and ph': "ph' = Finished res"
    using assms(1) Marking by (auto simp: with_state_def split: prod.split_asm)
  from assms(7) Marking obtain r where r: "row_at (req_key q) (db w) = Some r" "ir_ID r = rid" by auto
  from mark_row [OF m r(1)] obtain r' where r': "row_at (req_key q) (db w') = Some r'"
    "r' = r \<or> (\<exists>e. outcome = Inl e) \<or> ir_Status r' = IdempotencyStatusSucceeded"
    "r' = r \<or> ir_ExpiresAt r' = q_ExpiresAt q" by metis
  show ?thesis using r r' assms(3,5) Marking ph'
    by (auto simp: step_effects_def step_like_def on_expired_def in_window_def intro!: exI [of _ Closing])
next
  case (Finished y)
  with assms(1,5) show ?thesis by (intro idle_effects) (auto simp: on_expired_def)
qed (use assms(4) in \<open>simp_all add: on_expired_def\<close>)

section \<open>The invariant is kept\<close>

lemma idem_invD:
  assumes "idem_inv k horizon x"
  shows "table_ok (db (table x))" and "references_ok x" and "requests_ok k horizon x" and "single_worker k x"
    and "runs_ok k x" and "row_at k (db (table x)) = Some r \<Longrightarrow> horizon < ir_ExpiresAt r"
  using assms by (simp_all add: idem_inv_def)

lemma delete_rows:
  assumes "table_ok d" and "\<And>r. row_at k d = Some r \<Longrightarrow> now < ir_ExpiresAt r"
  shows "row_at k (snd (DeleteExpired now batch d)) = row_at k d" and "table_ok (snd (DeleteExpired now batch d))"
    and "set (idem_rows (snd (DeleteExpired now batch d))) \<subseteq> set (idem_rows d)"
    and "idem_serial (snd (DeleteExpired now batch d)) = idem_serial d"
proof -
  define ids where "ids = set (map ir_ID (take (nat (if batch \<le> 0 then 500 else batch)) (sort_key ir_ExpiresAt
      (filter (\<lambda>r. ir_ExpiresAt r \<le> now) (idem_rows d)))))"
  have d': "snd (DeleteExpired now batch d) = d\<lparr>idem_rows := filter (\<lambda>r. ir_ID r \<notin> ids) (idem_rows d)\<rparr>"
    by (simp add: DeleteExpired_def Let_def ids_def)
  have ids: "\<forall>i \<in> ids. \<exists>r \<in> set (idem_rows d). ir_ID r = i \<and> ir_ExpiresAt r \<le> now"
    by (auto simp: ids_def dest!: in_set_takeD)
  show ok: "table_ok (snd (DeleteExpired now batch d))"
    using assms(1) by (auto simp: d' table_ok_def distinct_map_filter)
  show "set (idem_rows (snd (DeleteExpired now batch d))) \<subseteq> set (idem_rows d)"
    "idem_serial (snd (DeleteExpired now batch d)) = idem_serial d" by (auto simp: d')
  show "row_at k (snd (DeleteExpired now batch d)) = row_at k d"
  proof (cases "row_at k d")
    case None
    then have "row_at k (snd (DeleteExpired now batch d)) = None" by (auto simp: d' row_at_find find_None_iff)
    with None show ?thesis by simp
  next
    case (Some r)
    note r = row_atD [OF Some]
    have "ir_ID r \<notin> ids"
      using ids same_id [OF assms(1)] r assms(2) [OF Some] by (metis not_le)
    then have "r \<in> set (idem_rows (snd (DeleteExpired now batch d)))" using r by (simp add: d')
    from row_atI [OF ok this] r Some show ?thesis by simp
  qed
qed

lemma runs_of_append: "runs_of k (rs @ rs') = runs_of k rs @ runs_of k rs'"
  by (simp add: runs_of_def)

text \<open>A change of the table and of one request that leaves the key's record and its workers alone.\<close>

lemma requests_ok_frame:
  assumes "requests_ok k h x" and "\<And>t q ph. threads y t = Some (q, ph) \<Longrightarrow> req_key q = k \<Longrightarrow> threads x t = Some (q, ph)"
    and "row_at k (db (table y)) = row_at k (db (table x))"
  shows "requests_ok k h y"
  using assms unfolding requests_ok_def by metis

lemma key_frame:
  assumes "\<And>t q ph. threads y t = Some (q, ph) \<Longrightarrow> req_key q = k \<Longrightarrow> threads x t = Some (q, ph)"
    and "row_at k (db (table y)) = row_at k (db (table x))" and "runs_of k (runs y) = runs_of k (runs x)"
    and "idem_inv k h x" and "table_ok (db (table y))" and "references_ok y"
  shows "idem_inv k h y"
proof -
  note I = idem_invD [OF assms(4)]
  have "requests_ok k h y" by (rule requests_ok_frame [OF I(3) assms(1,2)])
  moreover have "single_worker k y" using I(4) assms(1) unfolding single_worker_def by blast
  moreover have "settled_key k x \<Longrightarrow> settled_key k y" using assms(1,2) unfolding settled_key_def by metis
  then have "runs_ok k y" using I(5) assms(3) by (auto simp: runs_ok_def Let_def)
  ultimately show ?thesis using assms(2,5,6) I(6) by (simp add: idem_inv_def)
qed

lemma references_after:
  assumes "references_ok x" and "touches q ph (db (table x)) (db w')" and "table_ok (db w')"
    and "\<And>rid. refers ph' = Some rid \<Longrightarrow> rid < idem_serial (db w') \<and> (\<forall>r \<in> set (idem_rows (db w')). ir_ID r = rid \<longrightarrow> row_key r = req_key q)"
  shows "references_ok (x\<lparr>threads := (threads x)(t \<mapsto> (q, ph')), effects := s', table := w', runs := rs\<rparr>)"
  unfolding references_ok_def
proof (intro allI impI)
  fix t' q' ph'' rid
  assume a: "threads (x\<lparr>threads := (threads x)(t \<mapsto> (q, ph')), effects := s', table := w', runs := rs\<rparr>) t' = Some (q', ph'')"
    "refers ph'' = Some rid"
  let ?g = "rid < idem_serial (db w') \<and> (\<forall>r \<in> set (idem_rows (db w')). ir_ID r = rid \<longrightarrow> row_key r = req_key q')"
  show "rid < idem_serial (db (table (x\<lparr>threads := (threads x)(t \<mapsto> (q, ph')), effects := s', table := w', runs := rs\<rparr>)))
    \<and> (\<forall>r \<in> set (idem_rows (db (table (x\<lparr>threads := (threads x)(t \<mapsto> (q, ph')), effects := s', table := w', runs := rs\<rparr>)))).
        ir_ID r = rid \<longrightarrow> row_key r = req_key q')"
  proof (cases "t' = t")
    case True
    with a assms(4) show ?thesis by simp
  next
    case False
    with a have "threads x t' = Some (q', ph'')" by simp
    with assms(1) a(2) have old: "rid < idem_serial (db (table x))"
      "\<forall>r \<in> set (idem_rows (db (table x))). ir_ID r = rid \<longrightarrow> row_key r = req_key q'"
      unfolding references_ok_def by blast+
    have "row_key r = req_key q'" if "r \<in> set (idem_rows (db w'))" "ir_ID r = rid" for r
      using touches_rows [OF assms(2) that(1)] that(2) old by (metis less_irrefl)
    with old(1) touches_serial [OF assms(2)] show ?thesis by simp
  qed
qed

text \<open>What a phase refers to was referred to before, or is a row of the request's key.\<close>

lemma step_refers:
  assumes "idem_step env q cb ph s w = (ph', s', w')" and "refers ph' = Some rid"
  shows "refers ph = Some rid \<or> (\<exists>r. row_at (req_key q) (db w') = Some r \<and> ir_ID r = rid)"
proof (cases ph)
  case Claiming
  let ?st = "CreateProcessing (q_Clock q) (new_record q)"
  obtain x w1 where x: "db_exec ?st w = (x, w1)" by fastforce
  have xw: "x = Inr (Some rid)" "w' = w1"
    using assms Claiming x by (auto simp: with_state_def split: sum.split_asm option.split_asm)
  with db_exec_outcomes [OF x] have "fst (?st (db w)) = Inr (Some rid)" "db w' = snd (?st (db w))" by auto
  then show ?thesis
    using create_row [of q "db w" "q_Clock q"] create_present(1) [of q "db w" _ "q_Clock q"]
    by (cases "row_at (req_key q) (db w)") fastforce+
next
  case Inspecting
  obtain x w1 where x: "read_record q w = (x, w1)" by fastforce
  show ?thesis
  proof (cases x)
    case (Inl e)
    with assms Inspecting x show ?thesis by (auto simp: with_state_def)
  next
    case (Inr r)
    note row = read_row [OF x [unfolded Inr]]
    have "ir_ID r = rid" "w' = w1"
      using assms Inspecting x Inr decide_idle(3) [OF refl, of env q r rid] by (auto simp: with_state_def split: if_split_asm)
    with row x show ?thesis by simp
  qed
next
  case InspectingAgain
  obtain x w1 where x: "read_record q w = (x, w1)" by fastforce
  show ?thesis
  proof (cases x)
    case (Inl e)
    with assms InspectingAgain x show ?thesis by (auto simp: with_state_def)
  next
    case (Inr r)
    note row = read_row [OF x [unfolded Inr]]
    have "ir_ID r = rid" "w' = w1"
      using assms InspectingAgain x Inr decide_idle(3) [OF refl, of env q r rid] by (auto simp: with_state_def)
    with row x show ?thesis by simp
  qed
qed (use assms in \<open>auto simp: with_state_def split: prod.split_asm sum.split_asm if_split_asm\<close>)

lemma step_keeps_references:
  assumes "idem_step env q cb ph (effects x) (table x) = (ph', s', w')" and "threads x t = Some (q, ph)"
    and "references_ok x" and "table_ok (db (table x))"
  shows "references_ok (x\<lparr>threads := (threads x)(t \<mapsto> (q, ph')), effects := s', table := w', runs := rs\<rparr>)"
proof -
  note T = step_touches [OF assms(1)]
  note ok = touches_table_ok [OF T assms(4)]
  show ?thesis
  proof (rule references_after [OF assms(3) T ok])
    fix rid
    assume ref: "refers ph' = Some rid"
    from step_refers [OF assms(1) ref]
    show "rid < idem_serial (db w') \<and> (\<forall>r \<in> set (idem_rows (db w')). ir_ID r = rid \<longrightarrow> row_key r = req_key q)"
    proof
      assume "refers ph = Some rid"
      with assms(2,3) have old: "rid < idem_serial (db (table x))"
        "\<forall>r \<in> set (idem_rows (db (table x))). ir_ID r = rid \<longrightarrow> row_key r = req_key q"
        unfolding references_ok_def by blast+
      then have "row_key r = req_key q" if "r \<in> set (idem_rows (db w'))" "ir_ID r = rid" for r
        using touches_rows [OF T that(1)] that(2) by (metis less_irrefl)
      with old(1) touches_serial [OF T] show ?thesis by simp
    next
      assume "\<exists>r. row_at (req_key q) (db w') = Some r \<and> ir_ID r = rid"
      then obtain r where r: "row_at (req_key q) (db w') = Some r" "ir_ID r = rid" by blast
      note r' = row_atD [OF r(1)]
      have "row_key s = req_key q" if "s \<in> set (idem_rows (db w'))" "ir_ID s = rid" for s
        using same_id [OF ok that(1), of r] r' r(2) that(2) by simp
      with r' r(2) ok show ?thesis by (auto simp: table_ok_def)
    qed
  qed
qed

text \<open>One step of a request of the key, by the kind of the step.\<close>

lemma worker_row:
  assumes "requests_ok k h x" and "threads x t = Some (q, ph)" and "req_key q = k" and "works_on ph \<noteq> None"
  shows "\<exists>r. row_at k (db (table x)) = Some r \<and> ir_Status r = IdempotencyStatusProcessing"
proof -
  obtain rid where "works_on ph = Some rid" using assms(4) by auto
  with assms(1-3) show ?thesis unfolding requests_ok_def by blast
qed

lemma key_requests_ok:
  assumes "idem_inv k h x" and "threads x t = Some (q, ph)" and "req_key q = k"
    and "step_like kd q ph (db (table x)) ph' (db w')" and "\<not> on_expired ph'"
    and y: "threads y = (threads x)(t \<mapsto> (q, ph'))" "table y = w'"
  shows "requests_ok k h y"
  unfolding requests_ok_def
proof (intro allI impI)
  fix t2 q2 ph2
  assume a: "threads y t2 = Some (q2, ph2)" "req_key q2 = k"
  note I = idem_invD [OF assms(1)]
  have me: "in_window h q" "works_on ph = Some rid \<Longrightarrow>
      \<exists>r. row_at k (db (table x)) = Some r \<and> ir_ID r = rid \<and> ir_Status r = IdempotencyStatusProcessing" for rid
    using I(3) assms(2,3) unfolding requests_ok_def by blast+
  show "in_window h q2 \<and> \<not> on_expired ph2 \<and> (\<forall>rid. works_on ph2 = Some rid \<longrightarrow>
      (\<exists>r. row_at k (db (table y)) = Some r \<and> ir_ID r = rid \<and> ir_Status r = IdempotencyStatusProcessing))"
  proof (cases "t2 = t")
    case True
    then have "q2 = q" "ph2 = ph'" using a y by auto
    with assms(3-5) me y show ?thesis by (cases kd) (auto simp: step_like_def)
  next
    case False
    with a y have old: "threads x t2 = Some (q2, ph2)" by simp
    then have o: "in_window h q2" "\<not> on_expired ph2" "works_on ph2 = Some rid \<Longrightarrow>
      \<exists>r. row_at k (db (table x)) = Some r \<and> ir_ID r = rid \<and> ir_Status r = IdempotencyStatusProcessing" for rid
      using I(3) a(2) unfolding requests_ok_def by blast+
    have "works_on ph = None" if "works_on ph2 = Some rid" for rid
      using I(4) assms(2,3) old a(2) False that unfolding single_worker_def by (metis option.distinct(1))
    moreover have "row_at k (db w') = row_at k (db (table x))" if "row_at k (db (table x)) = Some r"
      "ir_Status r = IdempotencyStatusProcessing" "works_on ph = None" for r
      using assms(3,4) that by (cases kd) (auto simp: step_like_def idempotency_status_defs)
    ultimately show ?thesis using o y(2) by metis
  qed
qed

lemma key_single_worker:
  assumes "idem_inv k h x" and "threads x t = Some (q, ph)" and "req_key q = k"
    and "step_like kd q ph (db (table x)) ph' (db w')" and y: "threads y = (threads x)(t \<mapsto> (q, ph'))"
  shows "single_worker k y"
proof -
  note I = idem_invD [OF assms(1)]
  have alone: "t2 = t" if "threads x t2 = Some (q2, ph2)" "req_key q2 = k" "works_on ph2 \<noteq> None" "works_on ph' \<noteq> None" for t2 q2 ph2
  proof (cases kd)
    case Taking
    with assms(3,4) have "\<forall>r. row_at k (db (table x)) = Some r \<longrightarrow> ir_Status r = IdempotencyStatusFailedRetryable"
      by (auto simp: step_like_def)
    moreover have "\<exists>r. row_at k (db (table x)) = Some r \<and> ir_Status r = IdempotencyStatusProcessing"
      using worker_row [OF I(3) that(1-3)] .
    ultimately show ?thesis by (auto simp: idempotency_status_defs)
  next
    case Executing
    with assms(4) have "works_on ph \<noteq> None" by (auto simp: step_like_def)
    with I(4) assms(2,3) that show ?thesis unfolding single_worker_def by blast
  qed (use assms(4) that in \<open>auto simp: step_like_def\<close>)
  show ?thesis unfolding single_worker_def
  proof (intro allI impI)
    fix t1 q1 ph1 t2 q2 ph2
    assume "threads y t1 = Some (q1, ph1)" "threads y t2 = Some (q2, ph2)" "req_key q1 = k" "req_key q2 = k"
      "works_on ph1 \<noteq> None" "works_on ph2 \<noteq> None"
    then show "t1 = t2" using alone [of t1 q1 ph1] alone [of t2 q2 ph2] I(4) y
      by (auto simp: single_worker_def split: if_split_asm)
  qed
qed

lemma run_entry_cases:
  assumes "step_like kd q ph d ph' d'"
  shows "run_entry q ph ph' = [] \<and> kd \<noteq> Executing
    \<or> kd = Executing \<and> (\<exists>rid outcome. ph = Running rid \<and> ph' = Marking rid outcome
        \<and> run_entry q ph ph' = [(fst (req_key q), snd (req_key q), \<exists>data. outcome = Inr data)])"
  using assms by (cases kd) (auto simp: step_like_def run_entry_def req_key_def split: idem_phase.split sum.split)

lemma key_settled:
  assumes "idem_inv k h x" and "threads x t = Some (q, ph)" and "req_key q = k" and "kd \<noteq> Executing"
    and "step_like kd q ph (db (table x)) ph' (db w')" and "settled_key k x"
    and y: "threads y = (threads x)(t \<mapsto> (q, ph'))" "table y = w'"
  shows "settled_key k y"
proof -
  from assms(6) obtain r where r: "row_at k (db (table x)) = Some r" "ir_Status r \<noteq> IdempotencyStatusFailedRetryable"
    and ws: "\<And>t q ph. threads x t = Some (q, ph) \<Longrightarrow> req_key q = k \<Longrightarrow> works_on ph \<noteq> None \<Longrightarrow> \<exists>rid data. ph = Marking rid (Inr data)"
    unfolding settled_key_def by blast
  have idle: "works_on ph' = None" using assms(3-5) r by (cases kd) (auto simp: step_like_def)
  have "\<exists>r'. row_at k (db w') = Some r' \<and> ir_Status r' \<noteq> IdempotencyStatusFailedRetryable"
  proof (cases kd)
    case Closing
    with assms(5) obtain r' where r': "row_at k (db w') = Some r'"
      "r' = r \<or> (\<exists>rid e. ph = Marking rid (Inl e)) \<or> ir_Status r' = IdempotencyStatusSucceeded"
      and "works_on ph \<noteq> None" using assms(3) r(1) by (auto simp: step_like_def)
    with ws [OF assms(2,3)] r(2) show ?thesis by (auto simp: idempotency_status_defs)
  qed (use assms(3-5) r in \<open>auto simp: step_like_def\<close>)
  with ws idle y show ?thesis by (auto simp: settled_key_def)
qed

lemma key_runs_ok:
  assumes "idem_inv k h x" and "threads x t = Some (q, ph)" and "req_key q = k"
    and "step_like kd q ph (db (table x)) ph' (db w')" and "single_worker k y"
    and y: "threads y = (threads x)(t \<mapsto> (q, ph'))" "table y = w'" "runs y = runs x @ run_entry q ph ph'"
  shows "runs_ok k y"
proof -
  note I = idem_invD [OF assms(1)]
  from run_entry_cases [OF assms(4)] consider (none) "run_entry q ph ph' = []" "kd \<noteq> Executing"
    | (run) rid outcome where "kd = Executing" "ph = Running rid" "ph' = Marking rid outcome"
      "run_entry q ph ph' = [(fst k, snd k, \<exists>data. outcome = Inr data)]" using assms(3) by blast
  then show ?thesis
  proof cases
    case none
    with I(5) key_settled [OF assms(1-3) none(2) assms(4) _ y(1,2)] y(3) show ?thesis by (simp add: runs_ok_def Let_def)
  next
    case run
    have "db w' = db (table x)" using assms(4) run(1) by (auto simp: step_like_def)
    then have row: "\<exists>r. row_at k (db w') = Some r \<and> ir_Status r = IdempotencyStatusProcessing"
      using worker_row [OF I(3) assms(2,3)] run(2) by simp
    have "\<not> settled_key k x" using assms(2,3) run(2) unfolding settled_key_def by fastforce
    then have no: "True \<notin> set (runs_of k (runs x))" using I(5) by (auto simp: runs_ok_def Let_def)
    have bs: "runs_of k (runs y) = runs_of k (runs x) @ [\<exists>data. outcome = Inr data]"
      using y(3) run(4) by (simp add: runs_of_def)
    have "settled_key k y" if out: "outcome = Inr data" for data
    proof -
      have "\<exists>rid data. ph2 = Marking rid (Inr data)" if "threads y t2 = Some (q2, ph2)" "req_key q2 = k" "works_on ph2 \<noteq> None" for t2 q2 ph2
      proof -
        have "threads y t = Some (q, ph')" "works_on ph' \<noteq> None" using y(1) run(3) by simp_all
        with assms(3,5) that have "t2 = t" unfolding single_worker_def by blast
        with that y(1) run(3) out show ?thesis by auto
      qed
      with row y(2) show ?thesis by (fastforce simp: settled_key_def idempotency_status_defs)
    qed
    with no bs show ?thesis by (auto simp: runs_ok_def Let_def)
  qed
qed

lemma inv_key_advance:
  assumes "idem_inv k h x" and "threads x t = Some (q, ph)" and "req_key q = k"
    and "idem_step env q cb ph (effects x) (table x) = (ph', s', w')"
    and y: "y = x\<lparr>threads := (threads x)(t \<mapsto> (q, ph')), effects := s', table := w', runs := runs x @ run_entry q ph ph'\<rparr>"
  shows "idem_inv k h y"
proof -
  note I = idem_invD [OF assms(1)]
  have me: "in_window h q" "\<not> on_expired ph"
    "works_on ph = Some rid \<Longrightarrow> \<exists>r. row_at (req_key q) (db (table x)) = Some r \<and> ir_ID r = rid" for rid
    using I(3) assms(2,3) unfolding requests_ok_def by blast+
  have ref: "row_key r = req_key q" if "refers ph = Some rid" "r \<in> set (idem_rows (db (table x)))" "ir_ID r = rid" for rid r
    using I(2) assms(2) that unfolding references_ok_def by blast
  have "step_effects h q ph (db (table x)) ph' (db w')"
    by (rule key_step_effects [OF assms(4) I(1) me(1,2)]) (use I(6) ref me(3) assms(3) in auto)
  then obtain kd where kd: "step_like kd q ph (db (table x)) ph' (db w')" and "\<not> on_expired ph'"
    and exp: "\<And>r. row_at k (db w') = Some r \<Longrightarrow> h < ir_ExpiresAt r" using assms(3) unfolding step_effects_def by blast
  have fields: "threads y = (threads x)(t \<mapsto> (q, ph'))" "table y = w'" "runs y = runs x @ run_entry q ph ph'"
    by (simp_all add: y)
  note sw = key_single_worker [OF assms(1-3) kd fields(1)]
  have "table_ok (db (table y))" using touches_table_ok [OF step_touches [OF assms(4)] I(1)] fields by simp
  moreover have "references_ok y" unfolding y by (rule step_keeps_references [OF assms(4,2) I(2,1)])
  ultimately show ?thesis
    using key_requests_ok [OF assms(1-3) kd \<open>\<not> on_expired ph'\<close> fields(1,2)] sw
      key_runs_ok [OF assms(1-3) kd sw fields] exp fields(2) by (simp add: idem_inv_def)
qed

lemma inv_other_advance:
  assumes "idem_inv k h x" and "threads x t = Some (q, ph)" and "req_key q \<noteq> k"
    and "idem_step env q cb ph (effects x) (table x) = (ph', s', w')"
    and y: "y = x\<lparr>threads := (threads x)(t \<mapsto> (q, ph')), effects := s', table := w', runs := runs x @ run_entry q ph ph'\<rparr>"
  shows "idem_inv k h y"
proof (rule key_frame [OF _ _ _ assms(1)])
  note I = idem_invD [OF assms(1)] and T = step_touches [OF assms(4)]
  show "threads x t' = Some (q', ph2)" if "threads y t' = Some (q', ph2)" "req_key q' = k" for t' q' ph2
    using that assms(3) by (auto simp: y split: if_split_asm)
  have ref: "row_key r = req_key q" if "refers ph = Some rid" "r \<in> set (idem_rows (db (table x)))" "ir_ID r = rid" for rid r
    using I(2) assms(2) that unfolding references_ok_def by blast
  show "row_at k (db (table y)) = row_at k (db (table x))" using touches_other [OF T assms(3) ref] by (simp add: y)
  have "runs_of k (run_entry q ph ph') = []"
    using assms(3) by (auto simp: run_entry_def runs_of_def req_key_def split: idem_phase.split)
  then show "runs_of k (runs y) = runs_of k (runs x)" by (simp add: y runs_of_append)
  show "table_ok (db (table y))" using touches_table_ok [OF T I(1)] by (simp add: y)
  show "references_ok y" unfolding y by (rule step_keeps_references [OF assms(4,2) I(2,1)])
qed

lemma inv_arrive:
  assumes "idem_inv k h x" and "threads x t = None" and "req_key q = k \<Longrightarrow> in_window h q"
  shows "idem_inv k h (x\<lparr>threads := (threads x)(t \<mapsto> (q, Claiming))\<rparr>)"
proof -
  let ?y = "x\<lparr>threads := (threads x)(t \<mapsto> (q, Claiming))\<rparr>"
  note I = idem_invD [OF assms(1)]
  have "references_ok ?y" using I(2) by (auto simp: references_ok_def)
  moreover have "requests_ok k h ?y" using I(3) assms(3) by (auto simp: requests_ok_def on_expired_def)
  moreover have "single_worker k ?y" using I(4) unfolding single_worker_def by auto
  moreover have "settled_key k x \<Longrightarrow> settled_key k ?y" by (auto simp: settled_key_def)
  ultimately show ?thesis using I(1,5,6) by (auto simp: idem_inv_def runs_ok_def Let_def)
qed

lemma inv_cleanup:
  assumes "idem_inv k h x" and "now \<le> h"
  shows "idem_inv k h (x\<lparr>table := cleanupOnce now batch (table x)\<rparr>)"
proof -
  let ?d = "db (table x)" and ?y = "x\<lparr>table := cleanupOnce now batch (table x)\<rparr>"
  note I = idem_invD [OF assms(1)]
  have alive: "row_at k ?d = Some r \<Longrightarrow> now < ir_ExpiresAt r" for r using I(6) assms(2) by fastforce
  have d: "db (table ?y) = ?d \<or> db (table ?y) = snd (DeleteExpired now batch ?d)"
    using db_exec_db by (simp add: cleanupOnce_def)
  note D = delete_rows [where k = k and now = now, OF I(1) alive]
  show ?thesis
  proof (rule key_frame [OF _ _ _ assms(1)])
    show "row_at k (db (table ?y)) = row_at k ?d" "table_ok (db (table ?y))" using d D I(1) by auto
    have "set (idem_rows (db (table ?y))) \<subseteq> set (idem_rows ?d)" "idem_serial (db (table ?y)) = idem_serial ?d"
      using d D(3,4) [of batch] by (elim disjE, simp_all)+
    with I(2) show "references_ok ?y" unfolding references_ok_def by fastforce
  qed simp_all
qed

lemma inv_step:
  assumes "system_step env admitted cleans x y" and "idem_inv k h x"
    and "\<And>q. admitted q \<Longrightarrow> req_key q = k \<Longrightarrow> in_window h q" and "\<And>n. cleans n \<Longrightarrow> n \<le> h"
  shows "idem_inv k h y"
  using assms(1)
proof cases
  case (advance t q ph cb ph' s' w')
  show ?thesis
  proof (cases "req_key q = k")
    case True
    show ?thesis by (rule inv_key_advance [OF assms(2) advance(2) True advance(3,1)])
  next
    case False
    show ?thesis by (rule inv_other_advance [OF assms(2) advance(2) False advance(3,1)])
  qed
next
  case (trouble fs)
  show ?thesis
    by (rule key_frame [OF _ _ _ assms(2)])
      (use idem_invD(1,2) [OF assms(2)] in \<open>simp_all add: trouble references_ok_def\<close>)
next
  case (arrive t q)
  show ?thesis unfolding arrive(1) by (rule inv_arrive [OF assms(2) arrive(2)]) (use arrive(3) assms(3) in simp)
next
  case (cleanup now batch)
  show ?thesis unfolding cleanup(1) by (rule inv_cleanup [OF assms(2)]) (use cleanup(2) assms(4) in simp)
qed

lemma inv_reachable:
  assumes "(system_step env admitted cleans)\<^sup>*\<^sup>* x y" and "idem_inv k h x"
    and "\<And>q. admitted q \<Longrightarrow> req_key q = k \<Longrightarrow> in_window h q" and "\<And>n. cleans n \<Longrightarrow> n \<le> h"
  shows "idem_inv k h y"
  using assms(1) by (induction rule: rtranclp_induct) (use assms(2-4) inv_step in blast)+

definition fresh_system :: "string \<times> string \<Rightarrow> ('a, 's) idem_system \<Rightarrow> bool" where
  "fresh_system k x \<longleftrightarrow> threads x = (\<lambda>_. None) \<and> runs x = [] \<and> table_ok (db (table x)) \<and> row_at k (db (table x)) = None"

lemma fresh_inv: "fresh_system k x \<Longrightarrow> idem_inv k h x"
  by (simp add: fresh_system_def idem_inv_def references_ok_def requests_ok_def single_worker_def runs_ok_def runs_of_def Let_def)

text \<open>
  C28. Until the record of a key expires the operation takes effect at most once: however the
  requests of all instances interleave, wherever they stop and whatever calls to the table are
  lost, no run of the key's callback follows a successful one, as long as all requests of the key
  arrive before a horizon that their time to live outlasts and no cleanup runs after it.
\<close>

theorem no_run_after_success:
  assumes "(system_step env admitted cleans)\<^sup>*\<^sup>* x y" and "fresh_system k x"
    and "\<And>q. admitted q \<Longrightarrow> req_key q = k \<Longrightarrow> q_Now q \<le> horizon \<and> horizon < q_ExpiresAt q"
    and "\<And>now. cleans now \<Longrightarrow> now \<le> horizon"
  shows "True \<notin> set (butlast (runs_of k (runs y)))"
proof -
  have "idem_inv k horizon y"
    by (rule inv_reachable [OF assms(1) fresh_inv [OF assms(2)]]) (use assms(3,4) in \<open>auto simp: in_window_def\<close>)
  then show ?thesis by (simp add: idem_inv_def runs_ok_def Let_def)
qed

text \<open>A concrete environment, request and callback for the witnesses: payloads are texts, stored as they are.\<close>

definition text_env :: "string idem_env" where
  "text_env = \<lparr>cfg = DefaultIdempotencyConfig, Marshal_data = Inr, Unmarshal_data = Inr, RedactText = id, empty_object = ''{}''\<rparr>"

definition text_request :: "go_time \<Rightarrow> idem_request" where
  "text_request now = \<lparr>q_Scope = ''pay'', q_KeyHash = ''k'', q_Fingerprint = ''f'', q_Now = now, q_LockedUntil = now + 30,
     q_ExpiresAt = now + 100, q_FailedAt = now, q_Clock = now\<rparr>"

definition count_call :: "int \<Rightarrow> (go_error + string) \<times> int" where
  "count_call n = (Inr ''done'', n + 1)"

definition idle_system :: "(string, int) idem_system" where
  "idle_system = \<lparr>threads = (\<lambda>_. None), effects = 0, table = \<lparr>db = \<lparr>idem_rows = [], idem_serial = 1\<rparr>, faults = []\<rparr>, runs = []\<rparr>"

lemmas idem_demo_defs = text_env_def text_request_def count_call_def idle_system_def

lemma advance_to:
  assumes "(system_step env ad cl)\<^sup>*\<^sup>* x y" and "threads y t = Some (q, ph)"
    and "idem_step env q cb ph (effects y) (table y) = (ph', s', w')"
  obtains z where "(system_step env ad cl)\<^sup>*\<^sup>* x z" and "threads z t = Some (q, ph')" and "effects z = s'"
    and "table z = w'" and "runs z = runs y @ run_entry q ph ph'"
  by (rule that [OF rtranclp.rtrancl_into_rtrancl [OF assms(1) system_step.advance [OF assms(2,3)]]]) simp_all

lemma demo_run:
  "\<exists>y. (system_step text_env (\<lambda>q. q = text_request 0) (\<lambda>n. n \<le> 50))\<^sup>*\<^sup>* idle_system y
     \<and> runs_of (''pay'', ''k'') (runs y) = [True]"
proof -
  let ?S = "system_step text_env (\<lambda>q. q = text_request 0) (\<lambda>n. n \<le> 50)" and ?q = "text_request 0"
  define x1 where "x1 = idle_system\<lparr>threads := (threads idle_system)(0 \<mapsto> (?q, Claiming))\<rparr>"
  have s1: "?S\<^sup>*\<^sup>* idle_system x1" unfolding x1_def
    by (rule r_into_rtranclp, rule system_step.arrive) (simp_all add: idle_system_def)
  have x1: "threads x1 0 = Some (?q, Claiming)" "runs x1 = []" by (simp_all add: x1_def idle_system_def)
  obtain w2 where "idem_step text_env ?q count_call Claiming (effects x1) (table x1) = (Running 1, 0, w2)"
    by (simp add: x1_def idem_demo_defs CreateProcessing_def find_record_def new_record_def with_state_def db_exec_reliable)
  from advance_to [OF s1 x1(1) this] obtain x2 where x2: "?S\<^sup>*\<^sup>* idle_system x2" "threads x2 0 = Some (?q, Running 1)"
    "effects x2 = 0" "runs x2 = []" using x1(2) by (auto simp: run_entry_def)
  have "idem_step text_env ?q count_call (Running 1) (effects x2) (table x2) = (Marking 1 (Inr ''done''), 1, table x2)"
    using x2(3) by (simp add: count_call_def)
  from advance_to [OF x2(1,2) this] obtain x3 where x3: "?S\<^sup>*\<^sup>* idle_system x3"
    "runs x3 = [] @ run_entry ?q (Running 1 :: string idem_phase) (Marking 1 (Inr ''done''))" using x2(4) by metis
  have "runs_of (''pay'', ''k'') (runs x3) = [True]"
    unfolding x3(2) by (simp add: runs_of_def run_entry_def text_request_def)
  with x3(1) show ?thesis by blast
qed

theorem no_run_after_success_witness:
  "\<exists>y. (system_step text_env (\<lambda>q. q = text_request 0) (\<lambda>n. n \<le> 50))\<^sup>*\<^sup>* idle_system y
     \<and> runs_of (''pay'', ''k'') (runs y) = [True] \<and> True \<notin> set (butlast (runs_of (''pay'', ''k'') (runs y)))"
proof -
  from demo_run obtain y where y: "(system_step text_env (\<lambda>q. q = text_request 0) (\<lambda>n. n \<le> 50))\<^sup>*\<^sup>* idle_system y"
    "runs_of (''pay'', ''k'') (runs y) = [True]" by blast
  have "True \<notin> set (butlast (runs_of (''pay'', ''k'') (runs y)))"
    by (rule no_run_after_success [OF y(1), where horizon = 50])
      (auto simp: fresh_system_def table_ok_def row_at_find idle_system_def text_request_def)
  with y show ?thesis by blast
qed

end
