(* ===== verification/Idempotency_Replay_Facts.thy ===== *)
theory Idempotency_Replay_Facts
  imports Idempotency_Facts
begin

text \<open>
  What a second request of a key gets, after the first has finished: the replayed answer, the
  refusal of a truncated one, and the repetition of the operation by a reader of an expired record.
\<close>

section \<open>A second request\<close>

definition answered :: "idem_request \<Rightarrow> string \<Rightarrow> idem_db \<Rightarrow> bool" where
  "answered q body d \<longleftrightarrow> (\<exists>r. row_at (req_key q) d = Some r \<and> ir_Status r = IdempotencyStatusSucceeded
     \<and> ir_ResponseBody r = Some body \<and> ir_ExpiresAt r = q_ExpiresAt q \<and> ir_RequestFingerprint r = q_Fingerprint q)"

lemma run_answers:
  assumes "execute_run env q rid cb s w = (Inr \<lparr>er_Data = data, er_Replayed = False\<rparr>, s', w')"
    and "row_at (req_key q) (db w) = Some r" and "ir_ID r = rid" and "ir_RequestFingerprint r = q_Fingerprint q"
    and "marshalStoredResponse env data = Inr body"
  shows "answered q body (db w')"
proof -
  obtain out s1 where cb: "cb s = (out, s1)" by fastforce
  with assms(1) have m: "mark_outcome env q rid out w = (Inr \<lparr>er_Data = data, er_Replayed = False\<rparr>, w')"
    by (auto simp: execute_run_def split: if_split_asm prod.split_asm)
  then have out: "out = Inr data"
    by (auto simp: mark_outcome_def Let_def split: sum.split_asm prod.split_asm)
  obtain x where x: "db_exec (MarkSucceeded (q_Clock q) rid 200 body (q_ExpiresAt q)) w = (Inr x, w')"
    using m assms(5) by (auto simp: mark_outcome_def out split: sum.split_asm prod.split_asm)
  have kf: "keeps_identity (\<lambda>r. r\<lparr>ir_Status := st, ir_ResponseStatus := rs, ir_ResponseBody := rb, ir_ErrorReason := er,
      ir_LockedUntil := lu, ir_ExpiresAt := ex, ir_UpdatedAt := up\<rparr>)" for st er lu ex up rs rb
    by (simp add: keeps_identity_def row_key_def)
  have "db w' = snd (MarkSucceeded (q_Clock q) rid 200 body (q_ExpiresAt q) (db w))"
    using db_exec_Inr [OF x] by simp
  then have "row_at (req_key q) (db w') = Some (r\<lparr>ir_Status := IdempotencyStatusSucceeded, ir_ResponseStatus := Some 200,
      ir_ResponseBody := Some body, ir_ErrorReason := None, ir_LockedUntil := None, ir_ExpiresAt := q_ExpiresAt q,
      ir_UpdatedAt := q_Clock q\<rparr>)"
    using assms(2,3) by (simp add: MarkSucceeded_def row_at_update [OF kf])
  with assms(4) show ?thesis by (simp add: answered_def)
qed

lemma reclaim_answers:
  assumes "db_exec (reclaim q e st) w = (Inr True, w1)" and "row_at (req_key q) (db w) = Some e"
    and "ir_RequestFingerprint e = q_Fingerprint q" and "table_ok (db w)"
  obtains r where "row_at (req_key q) (db w1) = Some r" and "ir_ID r = ir_ID e" and "ir_RequestFingerprint r = q_Fingerprint q"
proof -
  have same: "row_key r = req_key q" if "r \<in> set (idem_rows (db w))" "ir_ID r = ir_ID e" for r
    using same_id [OF assms(4) that(1), of e] that(2) row_atD [OF assms(2)] by simp
  have "fst (reclaim q e st (db w)) = Inr True" "db w1 = snd (reclaim q e st (db w))"
    using db_exec_Inr [OF assms(1)] by simp_all
  with reclaim_row [where q = q and e = e and st = st, OF assms(4) same] assms(2,3) that show thesis by auto
qed

lemma status_answers:
  assumes "execute_status env q e cb s w = (Inr \<lparr>er_Data = data, er_Replayed = False\<rparr>, s', w')"
    and "row_at (req_key q) (db w) = Some e" and "ir_RequestFingerprint e = q_Fingerprint q" and "table_ok (db w)"
    and "marshalStoredResponse env data = Inr body"
  shows "answered q body (db w')"
proof -
  have none: "on_existing env q e = None"
    using assms(1) by (auto simp: execute_status_def on_existing_def split: if_split_asm sum.split_asm option.split_asm)
  obtain x w1 where x: "db_exec (reclaim q e IdempotencyStatusFailedRetryable) w = (x, w1)" by fastforce
  with none assms(1) have "x = Inr True" and
    run: "execute_run env q (ir_ID e) cb s w1 = (Inr \<lparr>er_Data = data, er_Replayed = False\<rparr>, s', w')"
    by (auto simp: execute_status_def split: sum.split_asm if_split_asm)
  with x obtain r where "row_at (req_key q) (db w1) = Some r" "ir_ID r = ir_ID e" "ir_RequestFingerprint r = q_Fingerprint q"
    using reclaim_answers [OF _ assms(2-4)] by metis
  with run assms(5) show ?thesis by (blast intro: run_answers)
qed

lemma existing_answers:
  assumes "execute_existing env q cb s w = (Inr \<lparr>er_Data = data, er_Replayed = False\<rparr>, s', w')" and "table_ok (db w)"
    and "marshalStoredResponse env data = Inr body"
  shows "answered q body (db w')"
proof -
  obtain x w1 where x: "read_record q w = (x, w1)" by fastforce
  with assms(1) obtain e where e: "x = Inr e" by (cases x) (auto simp: execute_existing_def)
  note d1 = read_record_db [OF x] and row = read_row [OF x [unfolded e]]
  show ?thesis
  proof (cases "ir_ExpiresAt e > q_Now q")
    case True
    then have "execute_status env q e cb s w1 = (Inr \<lparr>er_Data = data, er_Replayed = False\<rparr>, s', w')"
      using assms(1) x e by (simp add: execute_existing_def)
    from status_answers [OF this _ row(2) _ assms(3)] row(1) d1 assms(2) show ?thesis by simp
  next
    case False
    obtain y w2 where y: "db_exec (reclaim q e (ir_Status e)) w1 = (y, w2)" by fastforce
    consider (failed) er where "y = Inl er" | (took) "y = Inr True" | (left) "y = Inr False"
      by (cases y) (auto simp: bool.case_eq_if)
    then show ?thesis
    proof cases
      case failed
      with assms(1) x e y False show ?thesis by (simp add: execute_existing_def)
    next
      case took
      with y d1 row assms(2) obtain r where r: "row_at (req_key q) (db w2) = Some r" "ir_ID r = ir_ID e"
        "ir_RequestFingerprint r = q_Fingerprint q" using reclaim_answers [of q e "ir_Status e" w1 w2] by metis
      from assms(1) x e y took False
      have "execute_run env q (ir_ID e) cb s w2 = (Inr \<lparr>er_Data = data, er_Replayed = False\<rparr>, s', w')"
        by (simp add: execute_existing_def)
      from run_answers [OF this r(1-3) assms(3)] show ?thesis .
    next
      case left
      obtain z w3 where z: "read_record q w2 = (z, w3)" by fastforce
      from assms(1) x e y left z False obtain e' where e': "z = Inr e'"
        "execute_status env q e' cb s w3 = (Inr \<lparr>er_Data = data, er_Replayed = False\<rparr>, s', w')"
        by (cases z) (auto simp: execute_existing_def)
      have "touches q (ReclaimingExpired e :: 'a idem_phase) (db w1) (db w2)"
        by (rule db_exec_touches [OF y reclaim_touches]) simp
      with assms(2) d1 have "table_ok (db w2)" using touches_table_ok by metis
      with status_answers [OF e'(2) _ _ _ assms(3)] read_row [OF z [unfolded e'(1)]] read_record_db [OF z]
      show ?thesis by simp
    qed
  qed
qed

lemma request_answers:
  assumes "execute_request env q cb s w = (Inr \<lparr>er_Data = data, er_Replayed = False\<rparr>, s', w')" and "table_ok (db w)"
    and "marshalStoredResponse env data = Inr body"
  shows "answered q body (db w')"
proof -
  let ?st = "CreateProcessing (q_Clock q) (new_record q)"
  obtain x w1 where x: "db_exec ?st w = (x, w1)" by fastforce
  then obtain o1 where o1: "x = Inr o1" using assms(1) by (cases x) (auto simp: execute_request_def)
  from db_exec_Inr [OF x [unfolded o1]] have st: "fst (?st (db w)) = Inr o1" "db w1 = snd (?st (db w))" by simp_all
  show ?thesis
  proof (cases o1)
    case None
    have "table_ok (db w1)"
      unfolding st(2) by (rule touches_table_ok [OF create_touches [where ph = "Claiming :: 'a idem_phase"] assms(2)])
    with assms(1,3) x o1 None show ?thesis
      by (auto simp: execute_request_def intro: existing_answers)
  next
    case (Some rid)
    with st(1) create_present(1) [of q "db w" _ "q_Clock q"] have none: "row_at (req_key q) (db w) = None"
      by (cases "row_at (req_key q) (db w)") auto
    from create_row [OF none, of "q_Clock q"] st Some obtain r where "row_at (req_key q) (db w1) = Some r" "ir_ID r = rid"
      "ir_RequestFingerprint r = q_Fingerprint q" by (metis option.inject sum.inject(2))
    with assms(1,3) x o1 Some show ?thesis by (auto simp: execute_request_def intro: run_answers)
  qed
qed

text \<open>A request that finds an answer decodes it and runs nothing.\<close>

lemma request_repeats:
  assumes "answered q body (db w)" and "req_key q2 = req_key q" and "q_Fingerprint q2 = q_Fingerprint q"
    and "q_Now q2 < q_ExpiresAt q" and "faults w = []"
  shows "\<exists>w'. execute_request env q2 cb s w = (case decodeStoredResponse env (Some body) of
      Inl e \<Rightarrow> Inl (store_error e) | Inr data \<Rightarrow> Inr \<lparr>er_Data = data, er_Replayed = True\<rparr>, s, w')
      \<and> idem_rows (db w') = idem_rows (db w)"
proof -
  from assms(1) obtain r where r: "row_at (req_key q2) (db w) = Some r" "ir_Status r = IdempotencyStatusSucceeded"
    "ir_ResponseBody r = Some body" "ir_ExpiresAt r = q_ExpiresAt q" "ir_RequestFingerprint r = q_Fingerprint q2"
    using assms(2,3) unfolding answered_def by auto
  have found: "find_record (q_Scope q2) (q_KeyHash q2) (db w) = Some r"
    using r(1) by (simp add: row_at_def req_key_def)
  let ?w1 = "w\<lparr>db := (db w)\<lparr>idem_serial := idem_serial (db w) + 1\<rparr>\<rparr>"
  have c: "db_exec (CreateProcessing (q_Clock q2) (new_record q2)) w = (Inr None, ?w1)"
    using found assms(5) by (simp add: db_exec_reliable CreateProcessing_def new_record_def)
  have rd: "read_record q2 ?w1 = (Inr r, ?w1)"
    using found assms(5) r(5) by (simp add: read_record_def db_exec_reliable GetByScopeAndKeyHash_def find_record_def)
  have "execute_request env q2 cb s w = execute_status env q2 r cb s ?w1"
    using c rd r(4) assms(4) by (simp add: execute_request_def execute_existing_def)
  also have "\<dots> = (case decodeStoredResponse env (Some body) of
      Inl e \<Rightarrow> Inl (store_error e) | Inr data \<Rightarrow> Inr \<lparr>er_Data = data, er_Replayed = True\<rparr>, s, ?w1)"
    using r(2,3) by (simp add: execute_status_def on_existing_def split: sum.split)
  finally show ?thesis by auto
qed

lemma execute_repeats:
  assumes "Execute env clk opts cb s w = (Inr \<lparr>er_Data = data, er_Replayed = False\<rparr>, s1, w1)"
    and "NormalizeIdempotencyKey (eo_IdempotencyKey opts) = Inr key" and "key \<noteq> ''''" and "table_ok (db w)"
    and "faults w1 = []" and "marshalStoredResponse env data = Inr body"
    and "started_at clk2 < started_at clk + (if eo_TTL opts \<le> 0 then DefaultTTL (cfg env) else eo_TTL opts)"
  shows "\<exists>w2. Execute env clk2 opts cb2 s2 w1 = (case decodeStoredResponse env (Some body) of
      Inl e \<Rightarrow> Inl (store_error e) | Inr data \<Rightarrow> Inr \<lparr>er_Data = data, er_Replayed = True\<rparr>, s2, w2)
      \<and> idem_rows (db w2) = idem_rows (db w1)"
proof -
  from assms(1-3) obtain fp where sc: "eo_Scope opts \<noteq> ''''" and
    fp: "BuildIdempotencyFingerprint (eo_Method opts) (eo_Route opts) (eo_ActorScope opts) (eo_Payload opts) = Inr fp" and
    ex: "execute_request env (request_of (cfg env) clk opts key fp) cb s w = (Inr \<lparr>er_Data = data, er_Replayed = False\<rparr>, s1, w1)"
    by (auto simp: Execute_def split: sum.split_asm if_split_asm)
  have "Execute env clk2 opts cb2 s2 w1 = execute_request env (request_of (cfg env) clk2 opts key fp) cb2 s2 w1"
    using assms(2,3) sc fp by (simp add: Execute_def)
  then show ?thesis
    using request_repeats [OF request_answers [OF ex assms(4,6)], of "request_of (cfg env) clk2 opts key fp" env cb2 s2] assms(5,7)
    by (simp add: request_of_def req_key_def Let_def)
qed

lemma trim_with_keeps:
  assumes "\<And>e c. e \<in> set encs \<Longrightarrow> c \<in> set e \<Longrightarrow> \<not> visible c" and "visible c" and "c \<in> set s"
  shows "c \<in> set (trim_with encs s)"
  using assms
proof (induction encs s rule: trim_with.induct)
  case (1 encs s)
  show ?case
  proof (cases "find (\<lambda>e. e \<noteq> [] \<and> prefix e s) encs")
    case None
    with 1 show ?thesis by (subst trim_with.simps) simp
  next
    case (Some e)
    then have e: "e \<in> set encs" "prefix e s" by (auto simp: find_Some_iff)
    then have "c \<notin> set e" "s = e @ drop (length e) s" using 1 by (auto simp: prefix_def)
    then have "c \<in> set (drop (length e) s)" using 1(4) by (metis Un_iff set_append)
    with 1 Some show ?thesis by (subst trim_with.simps) simp
  qed
qed

lemma TrimSpace_keeps_visible:
  assumes "visible c" and "c \<in> set s"
  shows "TrimSpace s \<noteq> ''''"
proof -
  have "c \<in> set (trim_with space_encodings s)"
    using assms space_encodings_all_invisible by (blast intro: trim_with_keeps)
  then have "c \<in> set (trim_with (map rev space_encodings) (rev (trim_with space_encodings s)))"
    using assms(1) space_encodings_all_invisible by (intro trim_with_keeps) auto
  then show ?thesis by (auto simp: TrimSpace_def)
qed

text \<open>
  C29. Within its time to live a completed request is answered again with the first answer: the callback
  does not run and the table keeps its rows. The answer is one that JSON carries (its text is read back as
  it), with nothing to redact in its text, and within the bound on stored answers; the calls of the
  repetition work.
\<close>

theorem repetition_replays_the_answer:
  assumes "Execute env clk opts cb s w = (Inr \<lparr>er_Data = data, er_Replayed = False\<rparr>, s1, w1)"
    and "NormalizeIdempotencyKey (eo_IdempotencyKey opts) = Inr key" and "key \<noteq> ''''" and "table_ok (db w)"
    and "faults w1 = []" and "Marshal_data env data = Inr raw" and "Unmarshal_data env raw = Inr data"
    and "\<exists>c \<in> set raw. visible c" and "RedactText env raw = raw"
    and "MaxStoredResponseLen (cfg env) \<le> 0 \<or> int (length raw) \<le> MaxStoredResponseLen (cfg env)"
    and "started_at clk2 < started_at clk + (if eo_TTL opts \<le> 0 then DefaultTTL (cfg env) else eo_TTL opts)"
  shows "\<exists>w2. Execute env clk2 opts cb2 s2 w1 = (Inr \<lparr>er_Data = data, er_Replayed = True\<rparr>, s2, w2)
    \<and> idem_rows (db w2) = idem_rows (db w1)"
proof -
  have stored: "marshalStoredResponse env data = Inr raw"
    using assms(6,9,10) by (auto simp: marshalStoredResponse_def Let_def)
  have "decodeStoredResponse env (Some raw) = Inr data"
    using assms(7,8) TrimSpace_keeps_visible by (auto simp: decodeStoredResponse_def)
  then show ?thesis using execute_repeats [OF assms(1-5) stored assms(11), of cb2 s2] by simp
qed

text \<open>
  C27. A successful answer longer than the bound on stored answers cannot be replayed: it is stored
  truncated with a suffix that no JSON text ends with, so every repetition within its time to live
  is refused as if the store were unavailable, although the operation has been done.
\<close>

theorem truncated_answer_is_never_replayed:
  assumes "Execute env clk opts cb s w = (Inr \<lparr>er_Data = data, er_Replayed = False\<rparr>, s1, w1)"
    and "NormalizeIdempotencyKey (eo_IdempotencyKey opts) = Inr key" and "key \<noteq> ''''" and "table_ok (db w)"
    and "faults w1 = []" and "Marshal_data env data = Inr raw" and "0 < MaxStoredResponseLen (cfg env)"
    and "MaxStoredResponseLen (cfg env) < int (length (RedactText env raw))"
    and "\<And>t. \<exists>e. Unmarshal_data env (t @ ''...(truncated)'') = Inl e"
    and "started_at clk2 < started_at clk + (if eo_TTL opts \<le> 0 then DefaultTTL (cfg env) else eo_TTL opts)"
  shows "\<exists>e w2. Execute env clk2 opts cb2 s2 w1 = (Inl (store_error e), s2, w2)"
proof -
  let ?t = "truncateUTF8 (RedactText env raw) (MaxStoredResponseLen (cfg env))"
  have stored: "marshalStoredResponse env data = Inr (?t @ ''...(truncated)'')"
    using assms(6-8) by (simp add: marshalStoredResponse_def Let_def)
  have "TrimSpace (?t @ ''...(truncated)'') \<noteq> ''''"
    by (rule TrimSpace_keeps_visible [of "CHR ''.''"]) (simp_all add: visible_def)
  with assms(9) [of ?t] obtain e where "decodeStoredResponse env (Some (?t @ ''...(truncated)'')) = Inl e"
    by (auto simp: decodeStoredResponse_def)
  with execute_repeats [OF assms(1-5) stored assms(10), of cb2 s2] show ?thesis by auto
qed

section \<open>A stale reader\<close>

lemma reclaim_free:
  assumes "table_ok d" and "row_at k d = Some r" and "ir_ID e = ir_ID r" and "ir_LockedUntil r = None"
  obtains r' where "fst (reclaim q e (ir_Status r) d) = Inr True"
    and "row_at k (snd (reclaim q e (ir_Status r) d)) = Some r'" and "ir_ID r' = ir_ID r" and "table_ok (snd (reclaim q e (ir_Status r) d))"
proof -
  let ?st = "reclaim q e (ir_Status r)"
  note r = row_atD [OF assms(2)]
  have same: "row_key r' = k" if "r' \<in> set (idem_rows d)" "ir_ID r' = ir_ID e" for r'
    using same_id [OF assms(1) that(1), of r] r that(2) assms(3) by simp
  have "filter (\<lambda>r' :: IdempotencyRecord. ir_ID r' = ir_ID e \<and> ir_Status r' = ir_Status r
      \<and> (case ir_LockedUntil r' of None \<Rightarrow> True | Some t \<Rightarrow> t \<le> q_Now q)) (idem_rows d) \<noteq> []"
    using r assms(3,4) by (auto simp: filter_empty_conv intro!: bexI [of _ r])
  then have taken: "fst (?st d) = Inr True"
    by (simp add: reclaim_def TryReclaim_def update_records_def)
  have "table_ok (snd (?st d))"
    by (rule touches_table_ok [OF _ assms(1)], rule reclaim_touches [where ph = "ReclaimingExpired e :: int idem_phase"]) simp
  with taken reclaim_row [where q = q and e = e and st = "ir_Status r", OF assms(1) same] assms(3) that show thesis
    by (metis Inr_inject)
qed

lemma run_succeeds:
  assumes "faults w = []" and "table_ok (db w)" and "row_at k (db w) = Some r" and "ir_ID r = rid" and "rid \<noteq> 0"
    and "fst (cb s) = Inr a" and "marshalStoredResponse env a = Inr body"
  obtains w' r' where "execute_run env q rid cb s w = (Inr \<lparr>er_Data = a, er_Replayed = False\<rparr>, snd (cb s), w')"
    and "faults w' = []" and "table_ok (db w')" and "row_at k (db w') = Some r'" and "ir_ID r' = rid"
    and "ir_Status r' = IdempotencyStatusSucceeded" and "ir_LockedUntil r' = None"
proof -
  let ?st = "MarkSucceeded (q_Clock q) rid 200 body (q_ExpiresAt q)"
  let ?w = "w\<lparr>db := snd (?st (db w))\<rparr>"
  let ?r = "r\<lparr>ir_Status := IdempotencyStatusSucceeded, ir_ResponseStatus := Some 200, ir_ResponseBody := Some body,
    ir_ErrorReason := None, ir_LockedUntil := None, ir_ExpiresAt := q_ExpiresAt q, ir_UpdatedAt := q_Clock q\<rparr>"
  have kf: "keeps_identity (\<lambda>r. r\<lparr>ir_Status := st, ir_ResponseStatus := rs, ir_ResponseBody := rb, ir_ErrorReason := er,
      ir_LockedUntil := lu, ir_ExpiresAt := ex, ir_UpdatedAt := up\<rparr>)" for st er lu ex up rs rb
    by (simp add: keeps_identity_def row_key_def)
  have row: "row_at k (snd (?st (db w))) = Some ?r"
    using assms(3,4) by (simp add: MarkSucceeded_def row_at_update [OF kf])
  have "db_exec ?st w = (Inr (), ?w)" using assms(1) by (simp add: db_exec_reliable MarkSucceeded_def)
  then have "execute_run env q rid cb s w = (Inr \<lparr>er_Data = a, er_Replayed = False\<rparr>, snd (cb s), ?w)"
    using assms(5-7) by (cases "cb s") (simp add: execute_run_def mark_outcome_def)
  moreover have "table_ok (db ?w)"
    using touches_table_ok [OF mark_touches(1) [where ph = "Running rid :: int idem_phase"] assms(2)] by simp
  ultimately show thesis using that [of ?w ?r] assms(1,4) row by simp
qed

text \<open>
  C30. The takeover of an expired record does not check that the record is still the one that was
  read: a request that read an expired success and is then overtaken by another request, which
  takes the record over and succeeds, takes it over again and repeats the operation.
\<close>

theorem stale_reader_repeats_the_operation:
  assumes "faults w = []" and "table_ok (db w)" and "row_at (req_key q1) (db w) = Some r" and "ir_ID r \<noteq> 0"
    and "ir_Status r = IdempotencyStatusSucceeded" and "ir_LockedUntil r = None"
    and "ir_ExpiresAt r \<le> q_Now q1" and "ir_ExpiresAt r \<le> q_Now q2" and "req_key q2 = req_key q1"
    and "ir_RequestFingerprint r = q_Fingerprint q1" and "q_Fingerprint q2 = q_Fingerprint q1"
    and "\<And>s. \<exists>a. fst (cb s) = Inr a" and "\<And>a. \<exists>body. marshalStoredResponse env a = Inr body"
  shows "\<exists>ph w1 x2 w2 x1 w3. idem_steps 2 env q1 cb (Claiming, s, w) = (ph, s, w1)
    \<and> execute_request env q2 cb s w1 = (Inr \<lparr>er_Data = x2, er_Replayed = False\<rparr>, snd (cb s), w2)
    \<and> idem_steps 3 env q1 cb (ph, snd (cb s), w2)
        = (Finished (Inr \<lparr>er_Data = x1, er_Replayed = False\<rparr>), snd (cb (snd (cb s))), w3)"
proof -
  let ?k = "req_key q1" and ?bump = "\<lambda>w. w\<lparr>db := (db w)\<lparr>idem_serial := idem_serial (db w) + 1\<rparr>\<rparr>"
  have create: "db_exec (CreateProcessing (q_Clock q) (new_record q)) v = (Inr None, ?bump v)"
    if "row_at (req_key q) (db v) = Some r" "faults v = []" for q v
    using that by (simp add: db_exec_reliable CreateProcessing_def new_record_def row_at_def req_key_def)
  have read: "read_record q v = (Inr r, v)"
    if "row_at (req_key q) (db v) = Some r" "faults v = []" "q_Fingerprint q = q_Fingerprint q1" for q v
    using that assms(10) by (simp add: read_record_def db_exec_reliable GetByScopeAndKeyHash_def row_at_def req_key_def)
  have bump: "row_at ?k (db (?bump v)) = row_at ?k (db v)" "table_ok (db v) \<Longrightarrow> table_ok (db (?bump v))"
    "faults (?bump v) = faults v" for v :: "idem_db world"
    by (auto simp: row_at_find table_ok_def)
  let ?w1 = "?bump w" let ?v = "?bump ?w1"
  have first: "idem_steps 2 env q1 cb (Claiming, s, w) = (ReclaimingExpired r, s, ?w1)"
    using assms(1,3,7) create [of q1 w] read [of q1 ?w1] bump(1) [of w]
    by (simp add: numeral_2_eq_2 with_state_def)
  have v: "row_at ?k (db ?v) = Some r" "table_ok (db ?v)" "faults ?v = []"
    using assms(1-3) bump(1) [of w] bump(1) [of ?w1] bump(2) [of w] bump(2) [of ?w1] by simp_all
  from reclaim_free [OF v(2,1) refl assms(6), of q2] obtain r1 where
    t1: "db_exec (reclaim q2 r IdempotencyStatusSucceeded) ?v = (Inr True, ?v\<lparr>db := snd (reclaim q2 r IdempotencyStatusSucceeded (db ?v))\<rparr>)"
    "row_at ?k (snd (reclaim q2 r IdempotencyStatusSucceeded (db ?v))) = Some r1" "ir_ID r1 = ir_ID r"
    "table_ok (snd (reclaim q2 r IdempotencyStatusSucceeded (db ?v)))"
    using v(3) assms(5) by (metis db_exec_reliable)
  let ?u = "?v\<lparr>db := snd (reclaim q2 r IdempotencyStatusSucceeded (db ?v))\<rparr>"
  obtain x2 b2 x1 b1 where out: "fst (cb s) = Inr x2" "marshalStoredResponse env x2 = Inr b2"
    "fst (cb (snd (cb s))) = Inr x1" "marshalStoredResponse env x1 = Inr b1" using assms(12,13) by metis
  have u: "faults ?u = []" "table_ok (db ?u)" "row_at ?k (db ?u) = Some r1" using v(3) t1 by simp_all
  from run_succeeds [where cb = cb and s = s and q = q2, OF u t1(3) assms(4) out(1,2)] obtain w2 r2 where
    w2: "execute_run env q2 (ir_ID r) cb s ?u = (Inr \<lparr>er_Data = x2, er_Replayed = False\<rparr>, snd (cb s), w2)"
    "faults w2 = []" "table_ok (db w2)" "row_at ?k (db w2) = Some r2" "ir_ID r2 = ir_ID r"
    "ir_Status r2 = IdempotencyStatusSucceeded" "ir_LockedUntil r2 = None" by blast
  have "execute_request env q2 cb s ?w1 = (Inr \<lparr>er_Data = x2, er_Replayed = False\<rparr>, snd (cb s), w2)"
    using create [of q2 ?w1] read [of q2 ?v] v assms(1,3,5,8,9,11) t1(1) w2(1) bump(1) [of w]
    by (simp add: execute_request_def execute_existing_def)
  moreover from reclaim_free [OF w2(3,4) _ w2(7), of r q1] w2(5,6) obtain r3 where
    t3: "fst (reclaim q1 r IdempotencyStatusSucceeded (db w2)) = Inr True"
    "row_at ?k (snd (reclaim q1 r IdempotencyStatusSucceeded (db w2))) = Some r3" "ir_ID r3 = ir_ID r"
    "table_ok (snd (reclaim q1 r IdempotencyStatusSucceeded (db w2)))" by metis
  let ?z = "w2\<lparr>db := snd (reclaim q1 r IdempotencyStatusSucceeded (db w2))\<rparr>"
  have z: "faults ?z = []" "table_ok (db ?z)" "row_at ?k (db ?z) = Some r3" using w2(2) t3 by simp_all
  from run_succeeds [where cb = cb and s = "snd (cb s)" and q = q1, OF z t3(3) assms(4) out(3,4)] obtain w3 where
    w3: "execute_run env q1 (ir_ID r) cb (snd (cb s)) ?z
      = (Inr \<lparr>er_Data = x1, er_Replayed = False\<rparr>, snd (cb (snd (cb s))), w3)" by blast
  have "db_exec (reclaim q1 r (ir_Status r)) w2 = (Inr True, ?z)"
    using w2(2) t3(1) assms(5) by (simp add: db_exec_reliable)
  then have "idem_steps 3 env q1 cb (ReclaimingExpired r, snd (cb s), w2)
      = (Finished (Inr \<lparr>er_Data = x1, er_Replayed = False\<rparr>), snd (cb (snd (cb s))), w3)"
    using steps_running [of 0 env q1 cb "ir_ID r" "snd (cb s)" ?z] w3
    by (simp add: numeral_3_eq_3 with_state_def del: idem_steps.simps(2) add: idem_steps.simps(2) [of "Suc (Suc 0)"])
  ultimately show ?thesis using first by blast
qed

definition demo_opts :: IdempotencyExecuteOptions where
  "demo_opts = \<lparr>eo_Scope = ''pay'', eo_ActorScope = ''user:1'', eo_Method = ''POST'', eo_Route = ''/pay'', eo_IdempotencyKey = ''k'',
     eo_Payload = Inr ''{}'', eo_TTL = 100, eo_RequireKey = True\<rparr>"

definition demo_clock :: "go_time \<Rightarrow> idem_clock" where
  "demo_clock t = \<lparr>started_at = t, failed_at = t, db_clock = t\<rparr>"

lemma demo_key: "NormalizeIdempotencyKey ''k'' = Inr ''k''"
  by (simp add: NormalizeIdempotencyKey_def TrimSpace_visible visible_def)

lemma demo_execute:
  assumes "marshalStoredResponse env ''done'' = Inr body"
  shows "\<exists>w1. Execute env (demo_clock 0) demo_opts count_call 0 (table idle_system)
      = (Inr \<lparr>er_Data = ''done'', er_Replayed = False\<rparr>, 1, w1) \<and> faults w1 = []"
  using assms
  by (simp add: Execute_def demo_opts_def demo_key demo_clock_def BuildIdempotencyFingerprint_def request_of_def
      execute_request_def idle_system_def CreateProcessing_def find_record_def new_record_def db_exec_reliable
      execute_run_def count_call_def mark_outcome_def MarkSucceeded_def)

theorem repetition_replays_the_answer_witness:
  "\<exists>w1 w2. Execute text_env (demo_clock 0) demo_opts count_call 0 (table idle_system)
       = (Inr \<lparr>er_Data = ''done'', er_Replayed = False\<rparr>, 1, w1)
     \<and> Execute text_env (demo_clock 99) demo_opts count_call 1 w1 = (Inr \<lparr>er_Data = ''done'', er_Replayed = True\<rparr>, 1, w2)"
proof -
  have m: "marshalStoredResponse text_env ''done'' = Inr ''done''"
    by (simp add: marshalStoredResponse_def text_env_def DefaultIdempotencyConfig_def)
  from demo_execute [OF m] obtain w1 where
    w1: "Execute text_env (demo_clock 0) demo_opts count_call 0 (table idle_system)
      = (Inr \<lparr>er_Data = ''done'', er_Replayed = False\<rparr>, 1, w1)" "faults w1 = []" by blast
  have "\<exists>w2. Execute text_env (demo_clock 99) demo_opts count_call 1 w1 = (Inr \<lparr>er_Data = ''done'', er_Replayed = True\<rparr>, 1, w2)
      \<and> idem_rows (db w2) = idem_rows (db w1)"
    by (rule repetition_replays_the_answer [OF w1(1) _ _ _ w1(2), where key = "''k''" and raw = "''done''"])
      (simp_all add: demo_opts_def demo_key table_ok_def idle_system_def text_env_def visible_def demo_clock_def
        DefaultIdempotencyConfig_def)
  with w1(1) show ?thesis by blast
qed

definition small_env :: "string idem_env" where
  "small_env = \<lparr>cfg = DefaultIdempotencyConfig\<lparr>MaxStoredResponseLen := 2\<rparr>, Marshal_data = Inr,
     Unmarshal_data = (\<lambda>t. if t \<noteq> '''' \<and> last t = CHR '')'' then Inl ErrIdempotencyInvalidPayload else Inr t),
     RedactText = id, empty_object = ''{}''\<rparr>"

theorem truncated_answer_is_never_replayed_witness:
  "\<exists>w1 e w2. Execute small_env (demo_clock 0) demo_opts count_call 0 (table idle_system)
       = (Inr \<lparr>er_Data = ''done'', er_Replayed = False\<rparr>, 1, w1)
     \<and> Execute small_env (demo_clock 99) demo_opts count_call 1 w1 = (Inl (store_error e), 1, w2)"
proof -
  have "marshalStoredResponse small_env ''done'' = Inr (truncateUTF8 ''done'' 2 @ ''...(truncated)'')"
    by (simp add: marshalStoredResponse_def small_env_def)
  from demo_execute [OF this] obtain w1 where
    w1: "Execute small_env (demo_clock 0) demo_opts count_call 0 (table idle_system)
      = (Inr \<lparr>er_Data = ''done'', er_Replayed = False\<rparr>, 1, w1)" "faults w1 = []" by blast
  have "\<exists>e w2. Execute small_env (demo_clock 99) demo_opts count_call 1 w1 = (Inl (store_error e), 1, w2)"
    by (rule truncated_answer_is_never_replayed [OF w1(1) _ _ _ w1(2), where key = "''k''" and raw = "''done''"])
      (simp_all add: demo_opts_def demo_key table_ok_def idle_system_def small_env_def demo_clock_def)
  with w1(1) show ?thesis by blast
qed

definition old_record :: IdempotencyRecord where
  "old_record = \<lparr>ir_ID = 7, ir_Scope = ''pay'', ir_IdempotencyKeyHash = ''k'', ir_RequestFingerprint = ''f'',
     ir_Status = IdempotencyStatusSucceeded, ir_ResponseStatus = Some 200, ir_ResponseBody = Some ''old'', ir_ErrorReason = None,
     ir_LockedUntil = None, ir_ExpiresAt = 10, ir_CreatedAt = 0, ir_UpdatedAt = 0\<rparr>"

theorem stale_reader_repeats_the_operation_witness:
  "\<exists>ph w1 x2 w2 x1 w3. idem_steps 2 text_env (text_request 20) count_call
        (Claiming, 0, \<lparr>db = \<lparr>idem_rows = [old_record], idem_serial = 8\<rparr>, faults = []\<rparr>) = (ph, 0, w1)
    \<and> execute_request text_env (text_request 21) count_call 0 w1 = (Inr \<lparr>er_Data = x2, er_Replayed = False\<rparr>, 1, w2)
    \<and> idem_steps 3 text_env (text_request 20) count_call (ph, 1, w2)
        = (Finished (Inr \<lparr>er_Data = x1, er_Replayed = False\<rparr>), 2, w3)"
  using stale_reader_repeats_the_operation [of "\<lparr>db = \<lparr>idem_rows = [old_record], idem_serial = 8\<rparr>, faults = []\<rparr>"
      "text_request 20" old_record "text_request 21" count_call text_env 0]
  by (simp add: table_ok_def row_at_find row_key_def req_key_def old_record_def text_request_def count_call_def
      text_env_def marshalStoredResponse_def Let_def)

end
