(* ===== verification/Subscriptions.thy ===== *)
theory Subscriptions
  imports Usage_Billing
begin

text \<open>
  Subscriptions of users to groups: the terms and usage windows of \<open>service/user_subscription.go\<close>,
  the operations of \<open>service/subscription_service.go\<close> and the table of
  \<open>repository/user_subscription_repo.go\<close>. Calendar arithmetic depends on the configured time zone
  and is collected in a calendar; an instant keeps its nanoseconds in the table. Ent's updates do not
  look at \<open>deleted_at\<close>, its queries do. An error that only wraps another is that other one. An
  operation reads the clock once. The caches, their invalidation, and the listings with related rows are left out.
\<close>

section \<open>Subscriptions and groups\<close>

definition SubscriptionStatusActive :: string where "SubscriptionStatusActive = ''active''"
definition SubscriptionStatusExpired :: string where "SubscriptionStatusExpired = ''expired''"
definition SubscriptionStatusSuspended :: string where "SubscriptionStatusSuspended = ''suspended''"
definition SubscriptionStatusRevoked :: string where "SubscriptionStatusRevoked = ''revoked''"

definition SubscriptionTypeSubscription :: string where "SubscriptionTypeSubscription = ''subscription''"

lemmas subscription_status_defs =
  SubscriptionStatusActive_def SubscriptionStatusExpired_def SubscriptionStatusSuspended_def SubscriptionStatusRevoked_def

record UserSubscription =
  us_ID :: int
  us_UserID :: int
  us_GroupID :: int
  us_StartsAt :: go_time
  us_ExpiresAt :: go_time
  us_Status :: string
  us_DailyWindowStart :: "go_time option"
  us_WeeklyWindowStart :: "go_time option"
  us_MonthlyWindowStart :: "go_time option"
  us_DailyUsageUSD :: usd
  us_WeeklyUsageUSD :: usd
  us_MonthlyUsageUSD :: usd
  us_AssignedBy :: "int option"
  us_AssignedAt :: go_time
  us_Notes :: string
  us_CreatedAt :: go_time
  us_UpdatedAt :: go_time
  us_DeletedAt :: "go_time option"

record subscription_group =
  sg_ID :: int
  sg_Name :: string
  sg_Status :: string
  sg_SubscriptionType :: string
  sg_DailyLimitUSD :: "usd option"
  sg_WeeklyLimitUSD :: "usd option"
  sg_MonthlyLimitUSD :: "usd option"

definition IsSubscriptionType :: "subscription_group \<Rightarrow> bool" where
  "IsSubscriptionType g \<longleftrightarrow> sg_SubscriptionType g = SubscriptionTypeSubscription"

definition HasDailyLimit :: "subscription_group \<Rightarrow> bool" where
  "HasDailyLimit g = (case sg_DailyLimitUSD g of None \<Rightarrow> False | Some l \<Rightarrow> l > 0)"

definition HasWeeklyLimit :: "subscription_group \<Rightarrow> bool" where
  "HasWeeklyLimit g = (case sg_WeeklyLimitUSD g of None \<Rightarrow> False | Some l \<Rightarrow> l > 0)"

definition HasMonthlyLimit :: "subscription_group \<Rightarrow> bool" where
  "HasMonthlyLimit g = (case sg_MonthlyLimitUSD g of None \<Rightarrow> False | Some l \<Rightarrow> l > 0)"

text \<open>
  \<open>Time.AddDate(0, 0, n)\<close>, the start of an instant's day in the configured zone
  (\<open>timezone.StartOfDay\<close>), and in the zone of the instant itself (\<open>startOfDay\<close>).
\<close>

record calendar =
  AddDays :: "go_time \<Rightarrow> int \<Rightarrow> go_time"
  StartOfDay :: "go_time \<Rightarrow> go_time"
  own_startOfDay :: "go_time \<Rightarrow> go_time"

definition MaxExpiresAt :: go_time where
  "MaxExpiresAt = unix_epoch + 4102444799 * Second"

definition MaxValidityDays :: int where "MaxValidityDays = 36500"

definition ErrSubscriptionExpired :: go_error where
  "ErrSubscriptionExpired = Forbidden ''SUBSCRIPTION_EXPIRED'' ''subscription has expired''"
definition ErrSubscriptionSuspended :: go_error where
  "ErrSubscriptionSuspended = Forbidden ''SUBSCRIPTION_SUSPENDED'' ''subscription is suspended''"
definition ErrSubscriptionAlreadyExists :: go_error where
  "ErrSubscriptionAlreadyExists =
     Conflict ''SUBSCRIPTION_ALREADY_EXISTS'' ''subscription already exists for this user and group''"
definition ErrSubscriptionAssignConflict :: go_error where
  "ErrSubscriptionAssignConflict = Conflict ''SUBSCRIPTION_ASSIGN_CONFLICT''
     ''subscription exists but request conflicts with existing assignment semantics''"
definition ErrSubscriptionNotRevoked :: go_error where
  "ErrSubscriptionNotRevoked = Conflict ''SUBSCRIPTION_NOT_REVOKED'' ''subscription is not revoked''"
definition ErrSubscriptionRestoreConflict :: go_error where
  "ErrSubscriptionRestoreConflict =
     Conflict ''SUBSCRIPTION_RESTORE_CONFLICT'' ''subscription already exists for this user and group''"
definition ErrGroupNotSubscriptionType :: go_error where
  "ErrGroupNotSubscriptionType = BadRequest ''GROUP_NOT_SUBSCRIPTION_TYPE'' ''group is not a subscription type''"
definition ErrInvalidInput :: go_error where
  "ErrInvalidInput =
     BadRequest ''INVALID_INPUT'' ''at least one of resetDaily, resetWeekly, or resetMonthly must be true''"
definition ErrDailyLimitExceeded :: go_error where
  "ErrDailyLimitExceeded = TooManyRequests ''DAILY_LIMIT_EXCEEDED'' ''daily usage limit exceeded''"
definition ErrWeeklyLimitExceeded :: go_error where
  "ErrWeeklyLimitExceeded = TooManyRequests ''WEEKLY_LIMIT_EXCEEDED'' ''weekly usage limit exceeded''"
definition ErrMonthlyLimitExceeded :: go_error where
  "ErrMonthlyLimitExceeded = TooManyRequests ''MONTHLY_LIMIT_EXCEEDED'' ''monthly usage limit exceeded''"
definition ErrAdjustWouldExpire :: go_error where
  "ErrAdjustWouldExpire = BadRequest ''ADJUST_WOULD_EXPIRE''
     ''adjustment would result in expired subscription (remaining days must be > 0)''"

section \<open>Terms and windows\<close>

definition us_IsActive :: "go_time \<Rightarrow> UserSubscription \<Rightarrow> bool" where
  "us_IsActive now s \<longleftrightarrow> us_Status s = SubscriptionStatusActive \<and> now < us_ExpiresAt s"

definition us_IsExpired :: "go_time \<Rightarrow> UserSubscription \<Rightarrow> bool" where
  "us_IsExpired now s \<longleftrightarrow> us_ExpiresAt s < now"

definition subscriptionDayDuration :: duration where "subscriptionDayDuration = 24 * Hour"

definition daysRemainingAt :: "go_time \<Rightarrow> UserSubscription \<Rightarrow> int" where
  "daysRemainingAt now s =
     (let remaining = time_Sub (us_ExpiresAt s) now in
      if remaining \<le> 0 then 0
      else (let days = go_quot remaining subscriptionDayDuration
            in if go_rem remaining subscriptionDayDuration \<noteq> 0 then days + 1 else days))"

definition IsWindowActivated :: "UserSubscription \<Rightarrow> bool" where
  "IsWindowActivated s \<longleftrightarrow>
     us_DailyWindowStart s \<noteq> None \<or> us_WeeklyWindowStart s \<noteq> None \<or> us_MonthlyWindowStart s \<noteq> None"

definition HasOneTimeDailyQuota :: "calendar \<Rightarrow> UserSubscription \<Rightarrow> bool" where
  "HasOneTimeDailyQuota cal s \<longleftrightarrow>
     \<not> IsZero (us_StartsAt s) \<and> \<not> IsZero (us_ExpiresAt s) \<and> us_ExpiresAt s \<le> AddDays cal (us_StartsAt s) 1"

definition automaticDailyWindowStartAt :: "calendar \<Rightarrow> go_time \<Rightarrow> UserSubscription \<Rightarrow> go_time option" where
  "automaticDailyWindowStartAt cal now s =
     (case us_DailyWindowStart s of
        None \<Rightarrow> None
      | Some start \<Rightarrow>
          if HasOneTimeDailyQuota cal s then None
          else (let today = StartOfDay cal now in
                if \<not> today > StartOfDay cal start then None else Some today))"

text \<open>
  The window that contains \<open>now\<close>, counted from the old one in whole periods and not beyond the
  last one that starts before the subscription ends.
\<close>

definition window_anchor :: "calendar \<Rightarrow> UserSubscription \<Rightarrow> go_time \<Rightarrow> go_time" where
  "window_anchor cal s previous =
     (let legacyAnchor = own_startOfDay cal (us_StartsAt s)
      in if legacyAnchor < us_StartsAt s \<and> previous = legacyAnchor then us_StartsAt s else previous)"

definition automaticWindowStartAt ::
    "calendar \<Rightarrow> UserSubscription \<Rightarrow> go_time option \<Rightarrow> duration \<Rightarrow> go_time \<Rightarrow> go_time option" where
  "automaticWindowStartAt cal s previous period now =
     (case previous of
        None \<Rightarrow> None
      | Some start \<Rightarrow>
          (let anchor = window_anchor cal s start; nxt = anchor + period in
           if now < nxt \<or> \<not> nxt < us_ExpiresAt s then None
           else
             (let periods0 = go_quot (time_Sub now anchor) period;
                  lastPeriodBeforeExpiry = go_quot (time_Sub (us_ExpiresAt s) anchor - 1) period;
                  periods = (if periods0 > lastPeriodBeforeExpiry then lastPeriodBeforeExpiry else periods0)
              in Some (anchor + periods * period))))"

abbreviation (input) week :: duration where "week \<equiv> 7 * (24 * Hour)"
abbreviation (input) month :: duration where "month \<equiv> 30 * (24 * Hour)"

definition NeedsDailyResetAt :: "calendar \<Rightarrow> go_time \<Rightarrow> UserSubscription \<Rightarrow> bool" where
  "NeedsDailyResetAt cal now s \<longleftrightarrow> automaticDailyWindowStartAt cal now s \<noteq> None"

definition NeedsWeeklyResetAt :: "go_time \<Rightarrow> UserSubscription \<Rightarrow> bool" where
  "NeedsWeeklyResetAt now s = (case us_WeeklyWindowStart s of None \<Rightarrow> False | Some t \<Rightarrow> \<not> now < t + week)"

definition NeedsMonthlyResetAt :: "go_time \<Rightarrow> UserSubscription \<Rightarrow> bool" where
  "NeedsMonthlyResetAt now s = (case us_MonthlyWindowStart s of None \<Rightarrow> False | Some t \<Rightarrow> \<not> now < t + month)"

definition canAutomaticallyResetDailyAt :: "calendar \<Rightarrow> go_time \<Rightarrow> UserSubscription \<Rightarrow> bool" where
  "canAutomaticallyResetDailyAt cal now s \<longleftrightarrow> automaticDailyWindowStartAt cal now s \<noteq> None"

definition canAutomaticallyResetWeeklyAt :: "calendar \<Rightarrow> go_time \<Rightarrow> UserSubscription \<Rightarrow> bool" where
  "canAutomaticallyResetWeeklyAt cal now s \<longleftrightarrow> automaticWindowStartAt cal s (us_WeeklyWindowStart s) week now \<noteq> None"

definition canAutomaticallyResetMonthlyAt :: "calendar \<Rightarrow> go_time \<Rightarrow> UserSubscription \<Rightarrow> bool" where
  "canAutomaticallyResetMonthlyAt cal now s \<longleftrightarrow> automaticWindowStartAt cal s (us_MonthlyWindowStart s) month now \<noteq> None"

definition DailyResetTime :: "calendar \<Rightarrow> UserSubscription \<Rightarrow> go_time option" where
  "DailyResetTime cal s =
     (case us_DailyWindowStart s of
        None \<Rightarrow> None
      | Some start \<Rightarrow> if HasOneTimeDailyQuota cal s then Some (us_ExpiresAt s)
                      else Some (AddDays cal (StartOfDay cal start) 1))"

definition WeeklyResetTime :: "UserSubscription \<Rightarrow> go_time option" where
  "WeeklyResetTime s = map_option (\<lambda>t. t + week) (us_WeeklyWindowStart s)"

definition MonthlyResetTime :: "UserSubscription \<Rightarrow> go_time option" where
  "MonthlyResetTime s = map_option (\<lambda>t. t + month) (us_MonthlyWindowStart s)"

text \<open>A limit that is not set, or not positive, is no limit.\<close>

definition limit_of :: "usd option \<Rightarrow> usd" where
  "limit_of l = (case l of None \<Rightarrow> 0 | Some x \<Rightarrow> x)"

definition CheckDailyLimit :: "UserSubscription \<Rightarrow> subscription_group \<Rightarrow> usd \<Rightarrow> bool" where
  "CheckDailyLimit s g additionalCost \<longleftrightarrow>
     \<not> HasDailyLimit g \<or> us_DailyUsageUSD s + additionalCost \<le> limit_of (sg_DailyLimitUSD g)"

definition CheckWeeklyLimit :: "UserSubscription \<Rightarrow> subscription_group \<Rightarrow> usd \<Rightarrow> bool" where
  "CheckWeeklyLimit s g additionalCost \<longleftrightarrow>
     \<not> HasWeeklyLimit g \<or> us_WeeklyUsageUSD s + additionalCost \<le> limit_of (sg_WeeklyLimitUSD g)"

definition CheckMonthlyLimit :: "UserSubscription \<Rightarrow> subscription_group \<Rightarrow> usd \<Rightarrow> bool" where
  "CheckMonthlyLimit s g additionalCost \<longleftrightarrow>
     \<not> HasMonthlyLimit g \<or> us_MonthlyUsageUSD s + additionalCost \<le> limit_of (sg_MonthlyLimitUSD g)"

definition CheckAllLimits :: "UserSubscription \<Rightarrow> subscription_group \<Rightarrow> usd \<Rightarrow> bool \<times> bool \<times> bool" where
  "CheckAllLimits s g additionalCost =
     (CheckDailyLimit s g additionalCost, CheckWeeklyLimit s g additionalCost, CheckMonthlyLimit s g additionalCost)"

definition CheckUsageLimits :: "UserSubscription \<Rightarrow> subscription_group \<Rightarrow> usd \<Rightarrow> go_error option" where
  "CheckUsageLimits s g additionalCost =
     (if \<not> CheckDailyLimit s g additionalCost then Some ErrDailyLimitExceeded
      else if \<not> CheckWeeklyLimit s g additionalCost then Some ErrWeeklyLimitExceeded
      else if \<not> CheckMonthlyLimit s g additionalCost then Some ErrMonthlyLimitExceeded
      else None)"

text \<open>
  The check of a request: whether the windows need maintenance, the verdict, and the subscription
  with the usage of windows that are over set to zero.
\<close>

definition ValidateAndCheckLimits ::
    "calendar \<Rightarrow> go_time \<Rightarrow> UserSubscription \<Rightarrow> subscription_group \<Rightarrow> bool \<times> go_error option \<times> UserSubscription" where
  "ValidateAndCheckLimits cal now s g =
     (if us_Status s = SubscriptionStatusExpired then (False, Some ErrSubscriptionExpired, s)
      else if us_Status s = SubscriptionStatusSuspended then (False, Some ErrSubscriptionSuspended, s)
      else if \<not> us_ExpiresAt s > now then (False, Some ErrSubscriptionExpired, s)
      else
        (let daily = canAutomaticallyResetDailyAt cal now s;
             weekly = canAutomaticallyResetWeeklyAt cal now s;
             monthly = canAutomaticallyResetMonthlyAt cal now s;
             s1 = (if daily then s\<lparr>us_DailyUsageUSD := 0\<rparr> else s);
             s2 = (if weekly then s1\<lparr>us_WeeklyUsageUSD := 0\<rparr> else s1);
             s3 = (if monthly then s2\<lparr>us_MonthlyUsageUSD := 0\<rparr> else s2)
         in (daily \<or> weekly \<or> monthly \<or> \<not> IsWindowActivated s, CheckUsageLimits s3 g 0, s3)))"

definition normalizeExpiredWindowsAt :: "calendar \<Rightarrow> go_time \<Rightarrow> UserSubscription list \<Rightarrow> UserSubscription list" where
  "normalizeExpiredWindowsAt cal now subs =
     map (\<lambda>s.
       let s1 = (if canAutomaticallyResetDailyAt cal now s
                 then s\<lparr>us_DailyWindowStart := None, us_DailyUsageUSD := 0\<rparr> else s);
           s2 = (if canAutomaticallyResetWeeklyAt cal now s1
                 then s1\<lparr>us_WeeklyWindowStart := None, us_WeeklyUsageUSD := 0\<rparr> else s1)
       in if canAutomaticallyResetMonthlyAt cal now s2
          then s2\<lparr>us_MonthlyWindowStart := None, us_MonthlyUsageUSD := 0\<rparr> else s2) subs"

definition normalizeSubscriptionStatus :: "go_time \<Rightarrow> UserSubscription list \<Rightarrow> UserSubscription list" where
  "normalizeSubscriptionStatus now subs =
     map (\<lambda>s. if us_Status s = SubscriptionStatusActive \<and> \<not> us_ExpiresAt s > now
               then s\<lparr>us_Status := SubscriptionStatusExpired\<rparr> else s) subs"

section \<open>The table\<close>

record sub_db =
  sub_rows :: "UserSubscription list"
  sub_serial :: int

definition us_live :: "UserSubscription \<Rightarrow> bool" where
  "us_live s \<longleftrightarrow> us_DeletedAt s = None"

definition ErrNotSingular :: go_error where
  "ErrNotSingular = PlainError ''ent: user_subscription not singular''"

text \<open>\<open>Only\<close>: the one live row that satisfies the condition.\<close>

definition only_sub :: "(UserSubscription \<Rightarrow> bool) \<Rightarrow> (sub_db, go_error + UserSubscription) statement" where
  "only_sub p d =
     (case filter (\<lambda>s. us_live s \<and> p s) (sub_rows d) of
        [] \<Rightarrow> Inl (translatePersistenceError ErrNoRows (Some ErrSubscriptionNotFound) None)
      | [s] \<Rightarrow> Inr s
      | _ \<Rightarrow> Inl ErrNotSingular, d)"

definition sub_GetByID :: "int \<Rightarrow> (sub_db, go_error + UserSubscription) statement" where
  "sub_GetByID sid = only_sub (\<lambda>s. us_ID s = sid)"

definition sub_GetByIDForUpdate :: "int \<Rightarrow> (sub_db, go_error + UserSubscription) statement" where
  "sub_GetByIDForUpdate sid = only_sub (\<lambda>s. us_ID s = sid)"

definition GetByUserIDAndGroupID :: "int \<Rightarrow> int \<Rightarrow> (sub_db, go_error + UserSubscription) statement" where
  "GetByUserIDAndGroupID userID groupID = only_sub (\<lambda>s. us_UserID s = userID \<and> us_GroupID s = groupID)"

definition GetActiveByUserIDAndGroupID :: "go_time \<Rightarrow> int \<Rightarrow> int \<Rightarrow> (sub_db, go_error + UserSubscription) statement" where
  "GetActiveByUserIDAndGroupID clock userID groupID =
     only_sub (\<lambda>s. us_UserID s = userID \<and> us_GroupID s = groupID
       \<and> us_Status s = SubscriptionStatusActive \<and> us_ExpiresAt s > clock)"

definition GetByIDIncludeDeleted :: "int \<Rightarrow> (sub_db, go_error + UserSubscription) statement" where
  "GetByIDIncludeDeleted sid d =
     (case find (\<lambda>s. us_ID s = sid) (sub_rows d) of
        None \<Rightarrow> Inl (translatePersistenceError ErrNoRows (Some ErrSubscriptionNotFound) None)
      | Some s \<Rightarrow> Inr s, d)"

definition ListActiveByUserID :: "go_time \<Rightarrow> int \<Rightarrow> (sub_db, go_error + UserSubscription list) statement" where
  "ListActiveByUserID clock userID d =
     (Inr (rev (sort_key us_CreatedAt (filter (\<lambda>s. us_live s \<and> us_UserID s = userID
        \<and> us_Status s = SubscriptionStatusActive \<and> us_ExpiresAt s > clock) (sub_rows d)))), d)"

definition ExistsByUserIDAndGroupID :: "int \<Rightarrow> int \<Rightarrow> (sub_db, go_error + bool) statement" where
  "ExistsByUserIDAndGroupID userID groupID d =
     (Inr (\<exists>s \<in> set (sub_rows d). us_live s \<and> us_UserID s = userID \<and> us_GroupID s = groupID), d)"

definition ExistsActiveByUserIDAndGroupID :: "int \<Rightarrow> int \<Rightarrow> (sub_db, go_error + bool) statement" where
  "ExistsActiveByUserIDAndGroupID = ExistsByUserIDAndGroupID"

definition round_usage :: "UserSubscription \<Rightarrow> UserSubscription" where
  "round_usage s = s\<lparr>us_DailyUsageUSD := round_scale 10 (us_DailyUsageUSD s),
     us_WeeklyUsageUSD := round_scale 10 (us_WeeklyUsageUSD s),
     us_MonthlyUsageUSD := round_scale 10 (us_MonthlyUsageUSD s)\<rparr>"

definition sub_Create :: "go_time \<Rightarrow> UserSubscription \<Rightarrow> (sub_db, go_error + int) statement" where
  "sub_Create clock sub d =
     (if \<exists>s \<in> set (sub_rows d). us_live s \<and> us_UserID s = us_UserID sub \<and> us_GroupID s = us_GroupID sub
      then (Inl (translatePersistenceError ErrUniqueViolation None (Some ErrSubscriptionAlreadyExists)), d)
      else
        (let row = round_usage (sub\<lparr>us_ID := sub_serial d,
               us_StartsAt := (if IsZero (us_StartsAt sub) then clock else us_StartsAt sub),
               us_Status := (if us_Status sub = '''' then SubscriptionStatusActive else us_Status sub),
               us_AssignedAt := (if IsZero (us_AssignedAt sub) then clock else us_AssignedAt sub),
               us_CreatedAt := clock, us_UpdatedAt := clock, us_DeletedAt := None\<rparr>)
         in (Inr (sub_serial d), d\<lparr>sub_rows := sub_rows d @ [row], sub_serial := sub_serial d + 1\<rparr>)))"

text \<open>\<open>UpdateOneID\<close>, on a deleted row as well; \<open>Update().Where\<close> with the number of rows it met.\<close>

definition change_subs ::
    "(UserSubscription \<Rightarrow> bool) \<Rightarrow> (UserSubscription \<Rightarrow> UserSubscription) \<Rightarrow> (sub_db, go_error + int) statement" where
  "change_subs p f d =
     (Inr (int (length (filter p (sub_rows d)))), d\<lparr>sub_rows := map (\<lambda>s. if p s then f s else s) (sub_rows d)\<rparr>)"

definition update_sub ::
    "go_time \<Rightarrow> int \<Rightarrow> (UserSubscription \<Rightarrow> UserSubscription) \<Rightarrow> (sub_db, go_error + unit) statement" where
  "update_sub clock sid f d =
     (if \<exists>s \<in> set (sub_rows d). us_ID s = sid
      then (Inr (), snd (change_subs (\<lambda>s. us_ID s = sid) (\<lambda>s. (f s)\<lparr>us_UpdatedAt := clock\<rparr>) d))
      else (Inl (translatePersistenceError ErrNoRows (Some ErrSubscriptionNotFound) None), d))"

text \<open>A window of the argument that is not set leaves the column as it is.\<close>

definition or_old :: "'a option \<Rightarrow> 'a option \<Rightarrow> 'a option" where
  "or_old new old = (case new of None \<Rightarrow> old | Some _ \<Rightarrow> new)"

definition sub_Update :: "go_time \<Rightarrow> UserSubscription \<Rightarrow> (sub_db, go_error + unit) statement" where
  "sub_Update clock sub d =
     (if (\<exists>s \<in> set (sub_rows d). us_ID s = us_ID sub \<and> us_live s)
         \<and> (\<exists>s \<in> set (sub_rows d). us_ID s \<noteq> us_ID sub \<and> us_live s \<and> us_UserID s = us_UserID sub
              \<and> us_GroupID s = us_GroupID sub)
      then (Inl (translatePersistenceError ErrUniqueViolation (Some ErrSubscriptionNotFound)
                   (Some ErrSubscriptionAlreadyExists)), d)
      else update_sub clock (us_ID sub) (\<lambda>s.
        round_usage (s\<lparr>us_UserID := us_UserID sub, us_GroupID := us_GroupID sub, us_StartsAt := us_StartsAt sub,
          us_ExpiresAt := us_ExpiresAt sub, us_Status := us_Status sub,
          us_DailyWindowStart := or_old (us_DailyWindowStart sub) (us_DailyWindowStart s),
          us_WeeklyWindowStart := or_old (us_WeeklyWindowStart sub) (us_WeeklyWindowStart s),
          us_MonthlyWindowStart := or_old (us_MonthlyWindowStart sub) (us_MonthlyWindowStart s),
          us_DailyUsageUSD := us_DailyUsageUSD sub, us_WeeklyUsageUSD := us_WeeklyUsageUSD sub,
          us_MonthlyUsageUSD := us_MonthlyUsageUSD sub,
          us_AssignedBy := or_old (us_AssignedBy sub) (us_AssignedBy s), us_AssignedAt := us_AssignedAt sub,
          us_Notes := us_Notes sub\<rparr>)) d)"

definition sub_Delete :: "go_time \<Rightarrow> int \<Rightarrow> (sub_db, go_error + unit) statement" where
  "sub_Delete clock sid d =
     (Inr (), snd (change_subs (\<lambda>s. us_live s \<and> us_ID s = sid) (\<lambda>s. s\<lparr>us_DeletedAt := Some clock\<rparr>) d))"

definition sub_Restore :: "go_time \<Rightarrow> int \<Rightarrow> string \<Rightarrow> (sub_db, go_error + unit) statement" where
  "sub_Restore clock sid restoredStatus d =
     (case find (\<lambda>s. us_ID s = sid) (sub_rows d) of
        None \<Rightarrow> (Inl (translatePersistenceError ErrNoRows (Some ErrSubscriptionNotFound) None), d)
      | Some s \<Rightarrow>
          if \<exists>s' \<in> set (sub_rows d). us_ID s' \<noteq> sid \<and> us_live s' \<and> us_UserID s' = us_UserID s
               \<and> us_GroupID s' = us_GroupID s
          then (Inl (translatePersistenceError ErrUniqueViolation (Some ErrSubscriptionNotFound)
                       (Some ErrSubscriptionRestoreConflict)), d)
          else update_sub clock sid (\<lambda>s. s\<lparr>us_Status := restoredStatus, us_DeletedAt := None\<rparr>) d)"

definition ExtendExpiry :: "go_time \<Rightarrow> int \<Rightarrow> go_time \<Rightarrow> (sub_db, go_error + unit) statement" where
  "ExtendExpiry clock sid newExpiresAt = update_sub clock sid (\<lambda>s. s\<lparr>us_ExpiresAt := newExpiresAt\<rparr>)"

definition sub_UpdateStatus :: "go_time \<Rightarrow> int \<Rightarrow> string \<Rightarrow> (sub_db, go_error + unit) statement" where
  "sub_UpdateStatus clock sid status = update_sub clock sid (\<lambda>s. s\<lparr>us_Status := status\<rparr>)"

definition UpdateNotes :: "go_time \<Rightarrow> int \<Rightarrow> string \<Rightarrow> (sub_db, go_error + unit) statement" where
  "UpdateNotes clock sid notes = update_sub clock sid (\<lambda>s. s\<lparr>us_Notes := notes\<rparr>)"

definition translateConditionalWindowReset :: "int \<Rightarrow> int \<Rightarrow> (sub_db, go_error + unit) statement" where
  "translateConditionalWindowReset sid affected d =
     (if affected > 0 then Inr ()
      else if \<exists>s \<in> set (sub_rows d). us_live s \<and> us_ID s = sid then Inr ()
      else Inl ErrSubscriptionNotFound, d)"

text \<open>A conditional update is one call, the check after an update that met nothing another one.\<close>

definition conditional_window ::
    "go_time \<Rightarrow> int \<Rightarrow> (UserSubscription \<Rightarrow> bool) \<Rightarrow> (UserSubscription \<Rightarrow> UserSubscription)
       \<Rightarrow> sub_db world \<Rightarrow> (go_error + unit) \<times> sub_db world" where
  "conditional_window clock sid p f =
     and_then (db_exec (change_subs (\<lambda>s. us_ID s = sid \<and> p s) (\<lambda>s. (f s)\<lparr>us_UpdatedAt := clock\<rparr>)))
       (\<lambda>n. if n > 0 then give () else db_exec (translateConditionalWindowReset sid n))"

definition ActivateWindows ::
    "go_time \<Rightarrow> int \<Rightarrow> go_time \<Rightarrow> go_time \<Rightarrow> sub_db world \<Rightarrow> (go_error + unit) \<times> sub_db world" where
  "ActivateWindows clock sid dailyStart periodicStart =
     conditional_window clock sid (\<lambda>s. \<not> IsWindowActivated s)
       (\<lambda>s. s\<lparr>us_DailyWindowStart := Some dailyStart, us_WeeklyWindowStart := Some periodicStart,
               us_MonthlyWindowStart := Some periodicStart\<rparr>)"

definition ResetUsageWindows ::
    "go_time \<Rightarrow> int \<Rightarrow> bool \<Rightarrow> bool \<Rightarrow> bool \<Rightarrow> go_time \<Rightarrow> go_time \<Rightarrow> (sub_db, go_error + unit) statement" where
  "ResetUsageWindows clock sid resetDaily resetWeekly resetMonthly dailyStart periodicStart =
     update_sub clock sid (\<lambda>s.
       let s1 = (if resetDaily then s\<lparr>us_DailyUsageUSD := 0, us_DailyWindowStart := Some dailyStart\<rparr> else s);
           s2 = (if resetWeekly then s1\<lparr>us_WeeklyUsageUSD := 0, us_WeeklyWindowStart := Some periodicStart\<rparr> else s1)
       in if resetMonthly then s2\<lparr>us_MonthlyUsageUSD := 0, us_MonthlyWindowStart := Some periodicStart\<rparr> else s2)"

definition ResetDailyUsage ::
    "go_time \<Rightarrow> int \<Rightarrow> go_time option \<Rightarrow> go_time \<Rightarrow> sub_db world \<Rightarrow> (go_error + unit) \<times> sub_db world" where
  "ResetDailyUsage clock sid expectedWindowStart newWindowStart =
     conditional_window clock sid (\<lambda>s. us_DailyWindowStart s = expectedWindowStart)
       (\<lambda>s. s\<lparr>us_DailyUsageUSD := 0, us_DailyWindowStart := Some newWindowStart\<rparr>)"

definition ResetWeeklyUsage ::
    "go_time \<Rightarrow> int \<Rightarrow> go_time option \<Rightarrow> go_time \<Rightarrow> sub_db world \<Rightarrow> (go_error + unit) \<times> sub_db world" where
  "ResetWeeklyUsage clock sid expectedWindowStart newWindowStart =
     conditional_window clock sid (\<lambda>s. us_WeeklyWindowStart s = expectedWindowStart)
       (\<lambda>s. s\<lparr>us_WeeklyUsageUSD := 0, us_WeeklyWindowStart := Some newWindowStart\<rparr>)"

definition ResetMonthlyUsage ::
    "go_time \<Rightarrow> int \<Rightarrow> go_time option \<Rightarrow> go_time \<Rightarrow> sub_db world \<Rightarrow> (go_error + unit) \<times> sub_db world" where
  "ResetMonthlyUsage clock sid expectedWindowStart newWindowStart =
     conditional_window clock sid (\<lambda>s. us_MonthlyWindowStart s = expectedWindowStart)
       (\<lambda>s. s\<lparr>us_MonthlyUsageUSD := 0, us_MonthlyWindowStart := Some newWindowStart\<rparr>)"

text \<open>The update of usage joins the group, which must not be deleted.\<close>

definition sub_IncrementUsage ::
    "(int \<Rightarrow> bool) \<Rightarrow> go_time \<Rightarrow> int \<Rightarrow> usd \<Rightarrow> (sub_db, go_error + unit) statement" where
  "sub_IncrementUsage group_live clock sid costUSD =
     and_then (change_subs (\<lambda>s. us_ID s = sid \<and> us_live s \<and> group_live (us_GroupID s))
                (\<lambda>s. (round_usage (s\<lparr>us_DailyUsageUSD := us_DailyUsageUSD s + costUSD,
                   us_WeeklyUsageUSD := us_WeeklyUsageUSD s + costUSD,
                   us_MonthlyUsageUSD := us_MonthlyUsageUSD s + costUSD\<rparr>))\<lparr>us_UpdatedAt := clock\<rparr>))
       (\<lambda>affected. if affected > 0 then give () else refuse ErrSubscriptionNotFound)"

definition BatchUpdateExpiredStatus :: "go_time \<Rightarrow> (sub_db, go_error + int) statement" where
  "BatchUpdateExpiredStatus clock =
     change_subs (\<lambda>s. us_Status s = SubscriptionStatusActive \<and> us_ExpiresAt s \<le> clock)
       (\<lambda>s. s\<lparr>us_Status := SubscriptionStatusExpired, us_UpdatedAt := clock\<rparr>)"

definition ListExpired :: "go_time \<Rightarrow> (sub_db, go_error + UserSubscription list) statement" where
  "ListExpired clock d =
     (Inr (filter (\<lambda>s. us_live s \<and> us_Status s = SubscriptionStatusActive \<and> us_ExpiresAt s \<le> clock) (sub_rows d)), d)"

definition CountByGroupID :: "int \<Rightarrow> (sub_db, go_error + int) statement" where
  "CountByGroupID groupID d = (Inr (int (length (filter (\<lambda>s. us_live s \<and> us_GroupID s = groupID) (sub_rows d)))), d)"

definition CountActiveByGroupID :: "go_time \<Rightarrow> int \<Rightarrow> (sub_db, go_error + int) statement" where
  "CountActiveByGroupID clock groupID d =
     (Inr (int (length (filter (\<lambda>s. us_live s \<and> us_GroupID s = groupID
        \<and> us_Status s = SubscriptionStatusActive \<and> us_ExpiresAt s > clock) (sub_rows d)))), d)"

definition sub_DeleteByGroupID :: "go_time \<Rightarrow> int \<Rightarrow> (sub_db, go_error + int) statement" where
  "sub_DeleteByGroupID clock groupID =
     change_subs (\<lambda>s. us_live s \<and> us_GroupID s = groupID) (\<lambda>s. s\<lparr>us_DeletedAt := Some clock\<rparr>)"


section \<open>Operations of the service\<close>

text \<open>The groups, the calendar, and what the invalidation of the caches answers.\<close>

record sub_env =
  GetGroup :: "int \<Rightarrow> go_error + subscription_group"
  cal :: calendar
  invalidate_caches :: "int \<Rightarrow> int \<Rightarrow> go_error option"

record AssignSubscriptionInput =
  ai_UserID :: int
  ai_GroupID :: int
  ai_ValidityDays :: int
  ai_AssignedBy :: int
  ai_Notes :: string

definition normalizeAssignValidityDays :: "int \<Rightarrow> int" where
  "normalizeAssignValidityDays days0 =
     (let days = (if days0 \<le> 0 then 30 else days0) in if days > MaxValidityDays then MaxValidityDays else days)"

definition cap_expiry :: "go_time \<Rightarrow> go_time" where
  "cap_expiry t = (if t > MaxExpiresAt then MaxExpiresAt else t)"

definition appendSubscriptionNotes :: "string \<Rightarrow> string \<Rightarrow> string" where
  "appendSubscriptionNotes existingNotes newNotes =
     (if newNotes = '''' then existingNotes
      else if existingNotes = '''' then newNotes
      else existingNotes @ [char_of (10 :: nat)] @ newNotes)"

definition renewedSubscriptionTerm ::
    "calendar \<Rightarrow> UserSubscription \<Rightarrow> string \<Rightarrow> go_time \<Rightarrow> go_time \<Rightarrow> UserSubscription" where
  "renewedSubscriptionTerm c existingSub notes startsAt expiresAt =
     existingSub\<lparr>us_StartsAt := startsAt, us_ExpiresAt := expiresAt, us_Status := SubscriptionStatusActive,
       us_DailyWindowStart := Some (StartOfDay c startsAt), us_WeeklyWindowStart := Some startsAt,
       us_MonthlyWindowStart := Some startsAt, us_DailyUsageUSD := 0, us_WeeklyUsageUSD := 0,
       us_MonthlyUsageUSD := 0, us_Notes := appendSubscriptionNotes (us_Notes existingSub) notes\<rparr>"

text \<open>The body of the transaction that renews or extends a term.\<close>

definition updateExistingSubscriptionTerm ::
    "sub_env \<Rightarrow> go_time \<Rightarrow> int \<Rightarrow> int \<Rightarrow> string \<Rightarrow> bool \<Rightarrow> (sub_db, go_error + unit) statement" where
  "updateExistingSubscriptionTerm env now sid validityDays notes0 assignmentSemantics =
     and_then (sub_GetByIDForUpdate sid)
       (\<lambda>existingSub.
          if assignmentSemantics \<and> us_Status existingSub = SubscriptionStatusSuspended then give ()
          else
            (let isExpired = (if assignmentSemantics
                   then us_Status existingSub = SubscriptionStatusExpired
                        \<or> (us_Status existingSub \<noteq> SubscriptionStatusSuspended \<and> \<not> us_ExpiresAt existingSub > now)
                   else \<not> us_ExpiresAt existingSub > now);
                 newExpiresAt = cap_expiry (if isExpired then AddDays (cal env) now validityDays
                                            else AddDays (cal env) (us_ExpiresAt existingSub) validityDays);
                 notes = (if assignmentSemantics \<and> TrimSpace (us_Notes existingSub) = TrimSpace notes0 then '''' else notes0)
             in if isExpired
                then sub_Update now (renewedSubscriptionTerm (cal env) existingSub notes now newExpiresAt)
                else
                  and_then (ExtendExpiry now (us_ID existingSub) newExpiresAt)
                    (\<lambda>_. and_then
                       (if us_Status existingSub \<noteq> SubscriptionStatusActive
                        then sub_UpdateStatus now (us_ID existingSub) SubscriptionStatusActive else give ())
                       (\<lambda>_. if notes \<noteq> ''''
                             then UpdateNotes now (us_ID existingSub) (appendSubscriptionNotes (us_Notes existingSub) notes)
                             else give ()))))"

definition new_subscription :: "sub_env \<Rightarrow> go_time \<Rightarrow> AssignSubscriptionInput \<Rightarrow> UserSubscription" where
  "new_subscription env now input =
     \<lparr>us_ID = 0, us_UserID = ai_UserID input, us_GroupID = ai_GroupID input, us_StartsAt = now,
      us_ExpiresAt = cap_expiry (AddDays (cal env) now (normalizeAssignValidityDays (ai_ValidityDays input))),
      us_Status = SubscriptionStatusActive, us_DailyWindowStart = None, us_WeeklyWindowStart = None,
      us_MonthlyWindowStart = None, us_DailyUsageUSD = 0, us_WeeklyUsageUSD = 0, us_MonthlyUsageUSD = 0,
      us_AssignedBy = (if ai_AssignedBy input > 0 then Some (ai_AssignedBy input) else None), us_AssignedAt = now,
      us_Notes = ai_Notes input, us_CreatedAt = now, us_UpdatedAt = now, us_DeletedAt = None\<rparr>"

text \<open>
  Assignment or extension within the transaction of its caller; the flag tells an extension. An
  error of the lookup counts as no subscription.
\<close>

definition assignOrExtendSubscription ::
    "sub_env \<Rightarrow> go_time \<Rightarrow> AssignSubscriptionInput \<Rightarrow> (sub_db, go_error + UserSubscription \<times> bool) statement" where
  "assignOrExtendSubscription env now input d =
     (case GetGroup env (ai_GroupID input) of
        Inl e \<Rightarrow> (Inl e, d)
      | Inr g \<Rightarrow>
          if \<not> IsSubscriptionType g then (Inl ErrGroupNotSubscriptionType, d)
          else
            (case fst (GetByUserIDAndGroupID (ai_UserID input) (ai_GroupID input) d) of
               Inr existingSub \<Rightarrow>
                 and_then (updateExistingSubscriptionTerm env now (us_ID existingSub)
                             (normalizeAssignValidityDays (ai_ValidityDays input)) (ai_Notes input) False)
                   (\<lambda>_. and_then (sub_GetByID (us_ID existingSub)) (\<lambda>s. give (s, True))) d
             | Inl _ \<Rightarrow>
                 and_then (sub_Create now (new_subscription env now input))
                   (\<lambda>sid. and_then (sub_GetByID sid) (\<lambda>s. give (s, False))) d))"

definition detectAssignSemanticConflict ::
    "sub_env \<Rightarrow> UserSubscription \<Rightarrow> AssignSubscriptionInput \<Rightarrow> string option" where
  "detectAssignSemanticConflict env existing input =
     (if \<not> IsZero (us_StartsAt existing)
         \<and> us_ExpiresAt existing \<noteq> cap_expiry (AddDays (cal env) (us_StartsAt existing)
                                        (normalizeAssignValidityDays (ai_ValidityDays input)))
      then Some ''validity_days_mismatch''
      else if TrimSpace (us_Notes existing) \<noteq> TrimSpace (ai_Notes input) then Some ''notes_mismatch''
      else None)"

text \<open>The assignment by an administrator, every call on its own; the flag tells a reuse.\<close>

definition assignSubscriptionWithReuse ::
    "sub_env \<Rightarrow> go_time \<Rightarrow> AssignSubscriptionInput \<Rightarrow> sub_db world
       \<Rightarrow> (go_error + UserSubscription \<times> bool) \<times> sub_db world" where
  "assignSubscriptionWithReuse env now input w =
     (case GetGroup env (ai_GroupID input) of
        Inl e \<Rightarrow> (Inl e, w)
      | Inr g \<Rightarrow>
          if \<not> IsSubscriptionType g then (Inl ErrGroupNotSubscriptionType, w)
          else
            and_then (db_exec (ExistsByUserIDAndGroupID (ai_UserID input) (ai_GroupID input)))
              (\<lambda>already.
                 if already then
                   and_then (db_exec (GetByUserIDAndGroupID (ai_UserID input) (ai_GroupID input)))
                     (\<lambda>sub.
                        if us_Status sub = SubscriptionStatusExpired
                           \<or> (us_Status sub \<noteq> SubscriptionStatusSuspended \<and> \<not> us_ExpiresAt sub > now)
                        then and_then (db_exec (atomically (updateExistingSubscriptionTerm env now (us_ID sub)
                                 (normalizeAssignValidityDays (ai_ValidityDays input)) (ai_Notes input) True)))
                               (\<lambda>_. and_then (db_exec (sub_GetByID (us_ID sub))) (\<lambda>s. give (s, True)))
                        else (case detectAssignSemanticConflict env sub input of
                                Some r \<Rightarrow> refuse (WithMetadata ErrSubscriptionAssignConflict (Some [(''conflict_reason'', r)]))
                              | None \<Rightarrow> give (sub, True)))
                 else
                   and_then (db_exec (sub_Create now (new_subscription env now input)))
                     (\<lambda>sid. and_then (db_exec (sub_GetByID sid)) (\<lambda>s. give (s, False)))) w)"

definition AssignSubscription ::
    "sub_env \<Rightarrow> go_time \<Rightarrow> AssignSubscriptionInput \<Rightarrow> sub_db world \<Rightarrow> (go_error + UserSubscription) \<times> sub_db world" where
  "AssignSubscription env now input = and_then (assignSubscriptionWithReuse env now input) (\<lambda>(s, _). give s)"

record BulkAssignResult =
  br_SuccessCount :: int
  br_CreatedCount :: int
  br_ReusedCount :: int
  br_FailedCount :: int
  br_Subscriptions :: "UserSubscription list"
  br_Errors :: "(int \<times> go_error) list"
  br_Statuses :: "int \<rightharpoonup> string"

definition bulk_one ::
    "sub_env \<Rightarrow> go_time \<Rightarrow> AssignSubscriptionInput \<Rightarrow> int \<Rightarrow> BulkAssignResult \<times> sub_db world \<Rightarrow> BulkAssignResult \<times> sub_db world" where
  "bulk_one env now input userID x =
     (case x of (r, w) \<Rightarrow>
        (case assignSubscriptionWithReuse env now (input\<lparr>ai_UserID := userID\<rparr>) w of
           (Inl e, w1) \<Rightarrow>
             (r\<lparr>br_FailedCount := br_FailedCount r + 1, br_Errors := br_Errors r @ [(userID, e)],
                br_Statuses := (br_Statuses r)(userID \<mapsto> ''failed'')\<rparr>, w1)
         | (Inr (s, reused), w1) \<Rightarrow>
             (let r1 = r\<lparr>br_SuccessCount := br_SuccessCount r + 1, br_Subscriptions := br_Subscriptions r @ [s]\<rparr>
              in if reused
                 then (r1\<lparr>br_ReusedCount := br_ReusedCount r + 1,
                          br_Statuses := (br_Statuses r)(userID \<mapsto> ''reused'')\<rparr>, w1)
                 else (r1\<lparr>br_CreatedCount := br_CreatedCount r + 1,
                          br_Statuses := (br_Statuses r)(userID \<mapsto> ''created'')\<rparr>, w1))))"

definition BulkAssignSubscription ::
    "sub_env \<Rightarrow> go_time \<Rightarrow> AssignSubscriptionInput \<Rightarrow> int list \<Rightarrow> sub_db world \<Rightarrow> BulkAssignResult \<times> sub_db world" where
  "BulkAssignSubscription env now input userIDs w =
     fold (bulk_one env now input) userIDs
       (\<lparr>br_SuccessCount = 0, br_CreatedCount = 0, br_ReusedCount = 0, br_FailedCount = 0,
         br_Subscriptions = [], br_Errors = [], br_Statuses = Map.empty\<rparr>, w)"

definition caches_then :: "sub_env \<Rightarrow> int \<Rightarrow> int \<Rightarrow> 'a \<Rightarrow> ('d, go_error + 'a) statement" where
  "caches_then env userID groupID a = (case invalidate_caches env userID groupID of Some e \<Rightarrow> refuse e | None \<Rightarrow> give a)"

definition RevokeSubscription ::
    "sub_env \<Rightarrow> go_time \<Rightarrow> int \<Rightarrow> sub_db world \<Rightarrow> (go_error + unit) \<times> sub_db world" where
  "RevokeSubscription env now sid =
     and_then (db_exec (sub_GetByID sid))
       (\<lambda>sub. and_then (db_exec (sub_Delete now sid)) (\<lambda>_. caches_then env (us_UserID sub) (us_GroupID sub) ()))"

definition RestoreSubscription ::
    "sub_env \<Rightarrow> go_time \<Rightarrow> int \<Rightarrow> sub_db world \<Rightarrow> (go_error + UserSubscription) \<times> sub_db world" where
  "RestoreSubscription env now sid =
     and_then (db_exec (GetByIDIncludeDeleted sid))
       (\<lambda>sub.
          if us_DeletedAt sub = None then refuse ErrSubscriptionNotRevoked
          else and_then (db_exec (ExistsActiveByUserIDAndGroupID (us_UserID sub) (us_GroupID sub)))
            (\<lambda>already.
               if already then refuse ErrSubscriptionRestoreConflict
               else
                 (let restoredStatus = (if us_Status sub = SubscriptionStatusActive \<and> \<not> us_ExpiresAt sub > now
                                        then SubscriptionStatusExpired else us_Status sub)
                  in and_then (db_exec (sub_Restore now sid restoredStatus))
                       (\<lambda>_. and_then (db_exec (sub_GetByID sid))
                          (\<lambda>restored. caches_then env (us_UserID restored) (us_GroupID restored) restored)))))"

text \<open>The new end of a term that is extended or, with negative days, shortened.\<close>

definition extended_expiry :: "sub_env \<Rightarrow> go_time \<Rightarrow> UserSubscription \<Rightarrow> int \<Rightarrow> go_error + go_time" where
  "extended_expiry env now sub days0 =
     (let days1 = (if days0 > MaxValidityDays then MaxValidityDays else days0);
          days = (if days1 < - MaxValidityDays then - MaxValidityDays else days1);
          isExpired = (\<not> us_ExpiresAt sub > now)
      in if isExpired \<and> days < 0
         then Inl (BadRequest ''CANNOT_SHORTEN_EXPIRED'' ''cannot shorten an expired subscription'')
         else
           (let newExpiresAt = cap_expiry (if isExpired then AddDays (cal env) now days
                                           else AddDays (cal env) (us_ExpiresAt sub) days)
            in if \<not> newExpiresAt > now then Inl ErrAdjustWouldExpire else Inr newExpiresAt))"

text \<open>The change of a term, given how its statements are run: on their own or in a transaction.\<close>

definition extend_term ::
    "((sub_db, go_error + UserSubscription) statement \<Rightarrow> ('w, go_error + UserSubscription) statement)
       \<Rightarrow> ((sub_db, go_error + unit) statement \<Rightarrow> ('w, go_error + unit) statement)
       \<Rightarrow> sub_env \<Rightarrow> go_time \<Rightarrow> int \<Rightarrow> int \<Rightarrow> ('w, go_error + UserSubscription) statement" where
  "extend_term query update env now sid days w =
     (case query (sub_GetByID sid) w of
        (Inl _, w1) \<Rightarrow> (Inl ErrSubscriptionNotFound, w1)
      | (Inr sub, w1) \<Rightarrow>
          (case extended_expiry env now sub days of
             Inl e \<Rightarrow> (Inl e, w1)
           | Inr newExpiresAt \<Rightarrow>
               and_then (update (ExtendExpiry now sid newExpiresAt))
                 (\<lambda>_. and_then
                    (if us_Status sub = SubscriptionStatusExpired
                     then update (sub_UpdateStatus now sid SubscriptionStatusActive) else give ())
                    (\<lambda>_. query (sub_GetByID sid))) w1))"

definition ExtendSubscription ::
    "sub_env \<Rightarrow> go_time \<Rightarrow> int \<Rightarrow> int \<Rightarrow> sub_db world \<Rightarrow> (go_error + UserSubscription) \<times> sub_db world" where
  "ExtendSubscription = extend_term db_exec db_exec"

text \<open>The subscription a request is charged to: what the cache holds, or the active row.\<close>

definition GetActiveSubscription ::
    "UserSubscription option \<Rightarrow> go_time \<Rightarrow> int \<Rightarrow> int \<Rightarrow> sub_db world \<Rightarrow> (go_error + UserSubscription) \<times> sub_db world" where
  "GetActiveSubscription hit clock userID groupID w =
     (case hit of
        Some s \<Rightarrow> (Inr s, w)
      | None \<Rightarrow> db_exec (GetActiveByUserIDAndGroupID clock userID groupID) w)"

definition CheckAndActivateWindow ::
    "sub_env \<Rightarrow> go_time \<Rightarrow> UserSubscription \<Rightarrow> sub_db world \<Rightarrow> (go_error + unit) \<times> sub_db world" where
  "CheckAndActivateWindow env now sub =
     (if IsWindowActivated sub then give ()
      else ActivateWindows now (us_ID sub) (StartOfDay (cal env) now) now)"

definition AdminResetQuota ::
    "sub_env \<Rightarrow> go_time \<Rightarrow> int \<Rightarrow> bool \<Rightarrow> bool \<Rightarrow> bool \<Rightarrow> sub_db world \<Rightarrow> (go_error + UserSubscription) \<times> sub_db world" where
  "AdminResetQuota env now sid resetDaily resetWeekly resetMonthly =
     (if \<not> resetDaily \<and> \<not> resetWeekly \<and> \<not> resetMonthly then refuse ErrInvalidInput
      else and_then (db_exec (sub_GetByID sid))
        (\<lambda>sub. and_then (db_exec (ResetUsageWindows now (us_ID sub) resetDaily resetWeekly resetMonthly
                            (StartOfDay (cal env) now) now))
           (\<lambda>_. db_exec (sub_GetByID sid))))"

text \<open>The windows are reset one after the other, from the snapshot that the caller holds.\<close>

definition CheckAndResetWindows ::
    "sub_env \<Rightarrow> go_time \<Rightarrow> UserSubscription \<Rightarrow> sub_db world \<Rightarrow> (go_error + unit) \<times> sub_db world" where
  "CheckAndResetWindows env now sub =
     and_then
       (case automaticDailyWindowStartAt (cal env) now sub of
          None \<Rightarrow> give () | Some t \<Rightarrow> ResetDailyUsage now (us_ID sub) (us_DailyWindowStart sub) t)
       (\<lambda>_. and_then
          (case automaticWindowStartAt (cal env) sub (us_WeeklyWindowStart sub) week now of
             None \<Rightarrow> give () | Some t \<Rightarrow> ResetWeeklyUsage now (us_ID sub) (us_WeeklyWindowStart sub) t)
          (\<lambda>_. case automaticWindowStartAt (cal env) sub (us_MonthlyWindowStart sub) month now of
             None \<Rightarrow> give () | Some t \<Rightarrow> ResetMonthlyUsage now (us_ID sub) (us_MonthlyWindowStart sub) t))"

definition EnsureWindowMaintenance ::
    "sub_env \<Rightarrow> go_time \<Rightarrow> UserSubscription \<Rightarrow> sub_db world \<Rightarrow> (go_error + UserSubscription) \<times> sub_db world" where
  "EnsureWindowMaintenance env now sub =
     and_then (CheckAndActivateWindow env now sub)
       (\<lambda>_. and_then (CheckAndResetWindows env now sub) (\<lambda>_. db_exec (sub_GetByID (us_ID sub))))"

definition RecordUsage :: "(int \<Rightarrow> bool) \<Rightarrow> go_time \<Rightarrow> int \<Rightarrow> usd \<Rightarrow> sub_db world \<Rightarrow> (go_error + unit) \<times> sub_db world" where
  "RecordUsage group_live clock sid costUSD = db_exec (sub_IncrementUsage group_live clock sid costUSD)"

definition ValidateSubscription ::
    "go_time \<Rightarrow> UserSubscription \<Rightarrow> sub_db world \<Rightarrow> go_error option \<times> sub_db world" where
  "ValidateSubscription now sub w =
     (if us_Status sub = SubscriptionStatusExpired then (Some ErrSubscriptionExpired, w)
      else if us_Status sub = SubscriptionStatusSuspended then (Some ErrSubscriptionSuspended, w)
      else if us_IsExpired now sub
      then (Some ErrSubscriptionExpired, snd (db_exec (sub_UpdateStatus now (us_ID sub) SubscriptionStatusExpired) w))
      else (None, w))"

text \<open>The maintenance in the background logs its errors and goes on.\<close>

definition doWindowMaintenance :: "sub_env \<Rightarrow> go_time \<Rightarrow> UserSubscription \<Rightarrow> sub_db world \<Rightarrow> sub_db world" where
  "doWindowMaintenance env now sub w =
     snd (CheckAndResetWindows env now sub (snd (CheckAndActivateWindow env now sub w)))"

record UsageWindowProgress =
  uwp_LimitUSD :: usd
  uwp_UsedUSD :: usd
  uwp_RemainingUSD :: usd
  uwp_Percentage :: rat
  uwp_WindowStart :: go_time
  uwp_ResetsAt :: go_time
  uwp_ResetsInSeconds :: int

record SubscriptionProgress =
  sp_ID :: int
  sp_GroupName :: string
  sp_ExpiresAt :: go_time
  sp_ExpiresInDays :: int
  sp_Daily :: "UsageWindowProgress option"
  sp_Weekly :: "UsageWindowProgress option"
  sp_Monthly :: "UsageWindowProgress option"

definition window_progress :: "go_time \<Rightarrow> usd \<Rightarrow> usd \<Rightarrow> go_time \<Rightarrow> go_time \<Rightarrow> UsageWindowProgress" where
  "window_progress now limit used start resetsAt =
     (let remaining = limit - used;
          percentage = (used / limit) * 100;
          seconds = go_quot (time_Sub resetsAt now) Second
      in \<lparr>uwp_LimitUSD = limit, uwp_UsedUSD = used,
          uwp_RemainingUSD = (if remaining < 0 then 0 else remaining),
          uwp_Percentage = (if percentage > 100 then 100 else percentage),
          uwp_WindowStart = start, uwp_ResetsAt = resetsAt,
          uwp_ResetsInSeconds = (if seconds < 0 then 0 else seconds)\<rparr>)"

definition calculateProgress :: "calendar \<Rightarrow> go_time \<Rightarrow> UserSubscription \<Rightarrow> subscription_group \<Rightarrow> SubscriptionProgress" where
  "calculateProgress c now sub g =
     \<lparr>sp_ID = us_ID sub, sp_GroupName = sg_Name g, sp_ExpiresAt = us_ExpiresAt sub,
      sp_ExpiresInDays = daysRemainingAt now sub,
      sp_Daily = (case us_DailyWindowStart sub of
          Some start \<Rightarrow> if HasDailyLimit g
            then Some (window_progress now (limit_of (sg_DailyLimitUSD g)) (us_DailyUsageUSD sub) start
                        (case DailyResetTime c sub of Some t \<Rightarrow> t | None \<Rightarrow> start + 24 * Hour))
            else None
        | None \<Rightarrow> None),
      sp_Weekly = (case us_WeeklyWindowStart sub of
          Some start \<Rightarrow> if HasWeeklyLimit g
            then Some (window_progress now (limit_of (sg_WeeklyLimitUSD g)) (us_WeeklyUsageUSD sub) start (start + week))
            else None
        | None \<Rightarrow> None),
      sp_Monthly = (case us_MonthlyWindowStart sub of
          Some start \<Rightarrow> if HasMonthlyLimit g
            then Some (window_progress now (limit_of (sg_MonthlyLimitUSD g)) (us_MonthlyUsageUSD sub) start (start + month))
            else None
        | None \<Rightarrow> None)\<rparr>"

definition GetSubscriptionProgress ::
    "sub_env \<Rightarrow> go_time \<Rightarrow> int \<Rightarrow> sub_db world \<Rightarrow> (go_error + SubscriptionProgress) \<times> sub_db world" where
  "GetSubscriptionProgress env now sid w =
     (case db_exec (sub_GetByID sid) w of
        (Inl _, w1) \<Rightarrow> (Inl ErrSubscriptionNotFound, w1)
      | (Inr sub, w1) \<Rightarrow>
          (case GetGroup env (us_GroupID sub) of
             Inl e \<Rightarrow> (Inl e, w1)
           | Inr g \<Rightarrow> (Inr (calculateProgress (cal env) now sub g), w1)))"

end
