(* ===== verification/Subscriptions_Facts.thy ===== *)
theory Subscriptions_Facts
  imports Subscriptions
begin

text \<open>
  What keeps the subscriptions right: the window that an automatic reset chooses, the table's ids and
  its one live row per user and group under every statement, resets that happen once however many
  requests hold the same snapshot, and the agreement of the check of a request with the maintenance
  that follows it.
\<close>

section \<open>The window of the moment\<close>

lemma last_multiple:
  fixes a x p :: int
  assumes "0 < p"
  shows "a + (x - a) div p * p \<le> x \<and> x < a + (x - a) div p * p + p"
  using pos_mod_bound [OF assms, of "x - a"] pos_mod_sign [OF assms, of "x - a"]
    div_mult_mod_eq [of "x - a" p] by linarith

lemma last_multiple_unique:
  fixes a x p n :: int
  assumes "0 < p" and "a + n * p \<le> x" and "x < a + n * p + p"
  shows "n = (x - a) div p"
proof -
  have "x - a = n * p + (x - a - n * p)" by simp
  then have "(x - a) div p = n + (x - a - n * p) div p"
    using assms(1) by (metis div_mult_self3 less_irrefl)
  moreover have "(x - a - n * p) div p = 0" using assms by (intro div_pos_pos_trivial) auto
  ultimately show ?thesis by simp
qed

text \<open>
  Instants may lie further apart than a duration can say; only the end of the term has to be within
  reach of the anchor.
\<close>

lemma window_by_division:
  fixes now :: go_time
  assumes "0 < period" and "us_ExpiresAt s - window_anchor c s start \<le> max_duration"
  defines "a \<equiv> window_anchor c s start"
  defines "m \<equiv> min now (us_ExpiresAt s - 1)"
  shows "automaticWindowStartAt c s (Some start) period now =
    (if m < a + period then None else Some (a + (m - a) div period * period))"
proof (cases "m < a + period")
  case True
  then show ?thesis using assms by (auto simp: automaticWindowStartAt_def Let_def a_def m_def)
next
  case False
  then have le: "a + period \<le> now" "a + period < us_ExpiresAt s" by (auto simp: m_def)
  have p: "0 \<le> period" using assms(1) by simp
  have e: "time_Sub (us_ExpiresAt s) a = us_ExpiresAt s - a"
    using assms(2) le p by (intro time_Sub_in_range) (auto simp: a_def min_duration_def)
  have t: "time_Sub now a = min max_duration (now - a)"
    using le p by (auto simp: time_Sub_def min_duration_def max_duration_def)
  have "min (time_Sub now a div period) ((us_ExpiresAt s - a - 1) div period) = (m - a) div period"
  proof (cases "now < us_ExpiresAt s")
    case True
    then have "time_Sub now a = now - a" using t assms(2) by (simp add: a_def min_def)
    moreover have "(now - a) div period \<le> (us_ExpiresAt s - a - 1) div period"
      using True by (intro zdiv_mono1 assms(1)) simp
    ultimately show ?thesis using True by (simp add: m_def min_def)
  next
    case False
    then have "us_ExpiresAt s - a - 1 \<le> time_Sub now a" using t assms(2) by (simp add: a_def)
    then have "(us_ExpiresAt s - a - 1) div period \<le> time_Sub now a div period"
      by (intro zdiv_mono1 assms(1))
    then show ?thesis using False by (simp add: m_def min_def algebra_simps)
  qed
  moreover have "0 \<le> time_Sub now a" "0 \<le> us_ExpiresAt s - a - 1"
    using le p by (simp_all add: time_Sub_nonneg_iff)
  ultimately show ?thesis
    using le p False e
    by (simp add: automaticWindowStartAt_def Let_def a_def [symmetric] go_quot_nonneg min_def split: if_splits)
qed

text \<open>
  C31. The window an automatic weekly or monthly reset chooses is the one of the moment: it starts a
  whole positive number of periods after the anchor of the old window, has begun, begins before the
  subscription ends, and either contains the moment or is the last one before the end; a reset
  happens exactly when there is such a window.
\<close>

theorem reset_chooses_the_current_window:
  assumes "0 < period" and "us_ExpiresAt s - window_anchor c s start \<le> max_duration"
  shows "automaticWindowStartAt c s (Some start) period now = Some w \<longleftrightarrow>
    (\<exists>n. 1 \<le> n \<and> w = window_anchor c s start + n * period \<and> w \<le> now \<and> w < us_ExpiresAt s
       \<and> (now < w + period \<or> us_ExpiresAt s \<le> w + period))"
proof -
  define a where "a = window_anchor c s start"
  define m where "m = min now (us_ExpiresAt s - 1)"
  define n where "n = (m - a) div period"
  note eq = window_by_division [OF assms, of now, folded a_def m_def, folded n_def]
  have here: "v \<le> now \<and> v < us_ExpiresAt s \<and> (now < v + period \<or> us_ExpiresAt s \<le> v + period)
      \<longleftrightarrow> v \<le> m \<and> m < v + period" for v
    by (auto simp: m_def)
  have bounds: "a + n * period \<le> m \<and> m < a + n * period + period"
    unfolding n_def by (rule last_multiple [OF assms(1)])
  show ?thesis
  proof (cases "m < a + period")
    case True
    have "\<not> a + k * period \<le> m" if "1 \<le> k" for k
      using True mult_right_mono [OF that, of period] assms(1) by linarith
    then show ?thesis using True eq here by (auto simp: a_def [symmetric])
  next
    case False
    then have "1 \<le> n" unfolding n_def
      using zdiv_mono1 [of period "m - a" period] assms(1) by simp
    moreover have "k = n" if "a + k * period \<le> m" "m < a + k * period + period" for k
      unfolding n_def using last_multiple_unique [OF assms(1) that] .
    ultimately show ?thesis using False eq here bounds by (auto simp: a_def [symmetric])
  qed
qed

text \<open>A calendar without changes of the clock, for concrete inputs.\<close>

definition plain_calendar :: calendar where
  "plain_calendar = \<lparr>AddDays = (\<lambda>t n. t + n * (24 * Hour)), StartOfDay = (\<lambda>t. t - t mod (24 * Hour)),
     own_startOfDay = (\<lambda>t. t - t mod (24 * Hour))\<rparr>"

definition sample_subscription :: UserSubscription where
  "sample_subscription =
     \<lparr>us_ID = 1, us_UserID = 7, us_GroupID = 3, us_StartsAt = 100 * (24 * Hour), us_ExpiresAt = 130 * (24 * Hour),
      us_Status = SubscriptionStatusActive, us_DailyWindowStart = Some (100 * (24 * Hour)),
      us_WeeklyWindowStart = Some (100 * (24 * Hour)), us_MonthlyWindowStart = Some (100 * (24 * Hour)),
      us_DailyUsageUSD = 1, us_WeeklyUsageUSD = 2, us_MonthlyUsageUSD = 3, us_AssignedBy = None, us_AssignedAt = 0,
      us_Notes = '''', us_CreatedAt = 0, us_UpdatedAt = 0, us_DeletedAt = None\<rparr>"

theorem reset_chooses_the_current_window_witness:
  "automaticWindowStartAt plain_calendar sample_subscription (Some (100 * (24 * Hour))) week (122 * (24 * Hour))
     = Some (121 * (24 * Hour))"
proof -
  have a: "window_anchor plain_calendar sample_subscription (100 * (24 * Hour)) = 100 * (24 * Hour)"
    by (simp add: window_anchor_def Let_def plain_calendar_def sample_subscription_def)
  have "\<exists>n::int. 1 \<le> n \<and> 121 * (24 * Hour) = 100 * (24 * Hour) + n * week \<and> 121 * (24 * Hour) \<le> 122 * (24 * Hour :: int)
      \<and> 121 * (24 * Hour) < us_ExpiresAt sample_subscription
      \<and> (122 * (24 * Hour) < 121 * (24 * Hour) + week \<or> us_ExpiresAt sample_subscription \<le> 121 * (24 * Hour) + week)"
    by (rule exI [of _ 3]) (simp add: sample_subscription_def)
  then show ?thesis
    using reset_chooses_the_current_window [of week sample_subscription plain_calendar "100 * (24 * Hour)"
        "122 * (24 * Hour)" "121 * (24 * Hour)"]
    unfolding a by (simp add: sample_subscription_def max_duration_def)
qed

section \<open>The table\<close>

text \<open>
  Ids are unique and below the serial; a user has at most one live subscription to a group, which
  the partial unique index of the table enforces.
\<close>

definition sole :: "UserSubscription list \<Rightarrow> bool" where
  "sole xs \<longleftrightarrow> (\<forall>s \<in> set xs. \<forall>s' \<in> set xs. us_live s \<longrightarrow> us_live s' \<longrightarrow>
     us_UserID s = us_UserID s' \<longrightarrow> us_GroupID s = us_GroupID s' \<longrightarrow> us_ID s = us_ID s')"

definition subs_ok :: "sub_db \<Rightarrow> bool" where
  "subs_ok d \<longleftrightarrow> distinct (map us_ID (sub_rows d)) \<and> (\<forall>s \<in> set (sub_rows d). us_ID s < sub_serial d)
     \<and> sole (sub_rows d)"

lemma soleD:
  assumes "sole xs" "s \<in> set xs" "s' \<in> set xs" "us_live s" "us_live s'"
    "us_UserID s = us_UserID s'" "us_GroupID s = us_GroupID s'"
  shows "us_ID s = us_ID s'"
  using assms unfolding sole_def by blast

lemma soleI:
  assumes "\<And>s s'. s \<in> set xs \<Longrightarrow> s' \<in> set xs \<Longrightarrow> us_live s \<Longrightarrow> us_live s' \<Longrightarrow>
     us_UserID s = us_UserID s' \<Longrightarrow> us_GroupID s = us_GroupID s' \<Longrightarrow> us_ID s = us_ID s'"
  shows "sole xs"
  using assms unfolding sole_def by blast

lemma subs_ok_map:
  assumes "subs_ok d" and "\<And>s. us_ID (g s) = us_ID s" and "sole (map g (sub_rows d))"
  shows "subs_ok (d\<lparr>sub_rows := map g (sub_rows d)\<rparr>)"
proof -
  have "map us_ID (map g (sub_rows d)) = map us_ID (sub_rows d)" using assms(2) by simp
  then show ?thesis using assms unfolding subs_ok_def by (simp del: map_map)
qed

text \<open>An update that keeps the owner and does not bring a deleted row back.\<close>

definition tame :: "(UserSubscription \<Rightarrow> UserSubscription) \<Rightarrow> bool" where
  "tame f \<longleftrightarrow> (\<forall>s. us_ID (f s) = us_ID s \<and> us_UserID (f s) = us_UserID s \<and> us_GroupID (f s) = us_GroupID s
     \<and> (us_live (f s) \<longrightarrow> us_live s))"

lemma tameI [intro]:
  assumes "\<And>s. us_ID (f s) = us_ID s" "\<And>s. us_UserID (f s) = us_UserID s"
    "\<And>s. us_GroupID (f s) = us_GroupID s" "\<And>s. us_DeletedAt (f s) = None \<Longrightarrow> us_DeletedAt s = None"
  shows "tame f"
  using assms by (simp add: tame_def us_live_def)

lemma tame_if: "tame f \<Longrightarrow> tame (\<lambda>s. if p s then f s else s)"
  by (simp add: tame_def)

lemma sole_map_tame:
  assumes "sole xs" and "tame g"
  shows "sole (map g xs)"
proof (rule soleI)
  fix t t' assume t: "t \<in> set (map g xs)" "t' \<in> set (map g xs)" "us_live t" "us_live t'"
    "us_UserID t = us_UserID t'" "us_GroupID t = us_GroupID t'"
  then obtain s s' where s: "s \<in> set xs" "s' \<in> set xs" "t = g s" "t' = g s'" by auto
  have k: "us_ID (g s) = us_ID s \<and> us_UserID (g s) = us_UserID s \<and> us_GroupID (g s) = us_GroupID s
     \<and> (us_live (g s) \<longrightarrow> us_live s)" for s
    using assms(2) by (simp add: tame_def)
  show "us_ID t = us_ID t'"
    using soleD [OF assms(1) s(1,2)] t(3-6) k [of s] k [of s'] unfolding s(3,4) by simp
qed

lemma change_subs_ok:
  assumes "subs_ok d" and "tame f"
  shows "subs_ok (snd (change_subs p f d))"
  unfolding change_subs_def snd_conv
proof (rule subs_ok_map [OF assms(1)])
  show "us_ID (if p s then f s else s) = us_ID s" for s using assms(2) by (simp add: tame_def)
  show "sole (map (\<lambda>s. if p s then f s else s) (sub_rows d))"
    using assms by (intro sole_map_tame tame_if) (simp_all add: subs_ok_def)
qed

lemma update_sub_ok:
  assumes "subs_ok d" and "tame f"
  shows "subs_ok (snd (update_sub clock sid f d))"
proof -
  have "tame (\<lambda>s. (f s)\<lparr>us_UpdatedAt := clock\<rparr>)" using assms(2) by (simp add: tame_def us_live_def)
  then show ?thesis using assms(1) change_subs_ok by (simp add: update_sub_def)
qed

lemma round_usage_keeps [simp]:
  "us_ID (round_usage s) = us_ID s" "us_UserID (round_usage s) = us_UserID s"
  "us_GroupID (round_usage s) = us_GroupID s" "us_DeletedAt (round_usage s) = us_DeletedAt s"
  "us_Status (round_usage s) = us_Status s" "us_ExpiresAt (round_usage s) = us_ExpiresAt s"
  by (simp_all add: round_usage_def)

lemma sub_Create_ok:
  assumes "subs_ok d"
  shows "subs_ok (snd (sub_Create clock sub d))"
proof (cases "\<exists>s \<in> set (sub_rows d). us_live s \<and> us_UserID s = us_UserID sub \<and> us_GroupID s = us_GroupID sub")
  case True
  then show ?thesis using assms by (simp add: sub_Create_def)
next
  case False
  obtain row where row: "snd (sub_Create clock sub d) = d\<lparr>sub_rows := sub_rows d @ [row], sub_serial := sub_serial d + 1\<rparr>"
      "us_ID row = sub_serial d" "us_UserID row = us_UserID sub" "us_GroupID row = us_GroupID sub"
    using False by (simp add: sub_Create_def Let_def)
  have ids: "us_ID s < sub_serial d" if "s \<in> set (sub_rows d)" for s
    using that assms by (simp add: subs_ok_def)
  have "sole (sub_rows d @ [row])"
  proof (rule soleI)
    fix s s' assume s: "s \<in> set (sub_rows d @ [row])" "s' \<in> set (sub_rows d @ [row])" "us_live s" "us_live s'"
      "us_UserID s = us_UserID s'" "us_GroupID s = us_GroupID s'"
    then consider "s \<in> set (sub_rows d)" "s' \<in> set (sub_rows d)" | "s = row" "s' = row"
      using False row by auto
    then show "us_ID s = us_ID s'"
      using soleD [of "sub_rows d" s s'] s(3-6) assms by cases (auto simp: subs_ok_def)
  qed
  moreover have "us_ID s < sub_serial d + 1" if "s \<in> set (sub_rows d)" for s using ids [OF that] by simp
  moreover have "sub_serial d \<notin> us_ID ` set (sub_rows d)" using ids by (metis image_iff less_irrefl)
  ultimately show ?thesis using assms row(2) unfolding row(1) by (simp add: subs_ok_def)
qed

text \<open>A row moves to another owner, or comes back, only where no other live row is in its place.\<close>

lemma place_sub_ok:
  assumes ok: "subs_ok d" and id: "\<And>s. us_ID (f s) = us_ID s"
    and free: "\<And>s s'. s \<in> set (sub_rows d) \<Longrightarrow> us_ID s = sid \<Longrightarrow> us_live (f s) \<Longrightarrow>
      s' \<in> set (sub_rows d) \<Longrightarrow> us_ID s' \<noteq> sid \<Longrightarrow> us_live s' \<Longrightarrow>
      \<not> (us_UserID s' = us_UserID (f s) \<and> us_GroupID s' = us_GroupID (f s))"
  shows "subs_ok (snd (update_sub clock sid f d))"
proof (cases "\<exists>s \<in> set (sub_rows d). us_ID s = sid")
  case True
  define g where "g s = (if us_ID s = sid then (f s)\<lparr>us_UpdatedAt := clock\<rparr> else s)" for s
  have "sole (map g (sub_rows d))"
  proof (rule soleI)
    fix t t' assume t: "t \<in> set (map g (sub_rows d))" "t' \<in> set (map g (sub_rows d))" "us_live t" "us_live t'"
      "us_UserID t = us_UserID t'" "us_GroupID t = us_GroupID t'"
    then obtain s s' where s: "s \<in> set (sub_rows d)" "s' \<in> set (sub_rows d)" "t = g s" "t' = g s'" by auto
    then show "us_ID t = us_ID t'"
      using free [of s s'] free [of s' s] soleD [of "sub_rows d" s s'] t(3-6) ok
      by (auto simp: g_def id us_live_def subs_ok_def split: if_splits)
  qed
  moreover have "snd (update_sub clock sid f d) = d\<lparr>sub_rows := map g (sub_rows d)\<rparr>"
    using True by (simp add: update_sub_def change_subs_def g_def [abs_def])
  ultimately show ?thesis using subs_ok_map [OF ok, of g] by (simp add: g_def id)
qed (use ok in \<open>simp add: update_sub_def\<close>)

lemma sub_Update_ok: "subs_ok d \<Longrightarrow> subs_ok (snd (sub_Update clock sub d))"
  unfolding sub_Update_def by (auto simp: us_live_def intro!: place_sub_ok)

lemma sub_Restore_ok:
  assumes "subs_ok d"
  shows "subs_ok (snd (sub_Restore clock sid st d))"
proof (cases "find (\<lambda>s. us_ID s = sid) (sub_rows d)")
  case None
  then show ?thesis using assms by (simp add: sub_Restore_def)
next
  case (Some s)
  have one: "s' = s" if "s' \<in> set (sub_rows d)" "us_ID s' = sid" for s'
    using that Some assms by (auto simp: find_Some_iff subs_ok_def distinct_map inj_on_def)
  show ?thesis
    unfolding sub_Restore_def Some using assms one
    by (auto simp: us_live_def intro!: place_sub_ok)
qed

text \<open>Every statement that writes keeps the table in order.\<close>

lemma ResetUsageWindows_ok:
  assumes "subs_ok d"
  shows "subs_ok (snd (ResetUsageWindows clock sid x y z ds ps d))"
  unfolding ResetUsageWindows_def
  by (rule update_sub_ok [OF assms]) (simp add: tame_def us_live_def Let_def)

lemma sub_statements_ok:
  assumes "subs_ok d"
  shows "subs_ok (snd (sub_Delete clock sid d))"
    and "subs_ok (snd (ExtendExpiry clock sid e d))"
    and "subs_ok (snd (sub_UpdateStatus clock sid st d))"
    and "subs_ok (snd (UpdateNotes clock sid ns d))"
    and "subs_ok (snd (sub_IncrementUsage gl clock sid c d))"
    and "subs_ok (snd (BatchUpdateExpiredStatus clock d))"
    and "subs_ok (snd (sub_DeleteByGroupID clock gid d))"
  using assms
  by (auto simp: sub_Delete_def ExtendExpiry_def sub_UpdateStatus_def UpdateNotes_def
      sub_IncrementUsage_def BatchUpdateExpiredStatus_def sub_DeleteByGroupID_def Let_def
      intro!: change_subs_ok update_sub_ok and_then_invariant [where P = subs_ok])

lemma sub_queries_keep [simp]:
  "snd (only_sub p d) = d" "snd (sub_GetByID sid d) = d" "snd (sub_GetByIDForUpdate sid d) = d"
  "snd (GetByUserIDAndGroupID u g d) = d" "snd (GetActiveByUserIDAndGroupID clock u g d) = d"
  "snd (GetByIDIncludeDeleted sid d) = d" "snd (ExistsByUserIDAndGroupID u g d) = d"
  "snd (ExistsActiveByUserIDAndGroupID u g d) = d" "snd (translateConditionalWindowReset sid n d) = d"
  by (simp_all add: only_sub_def sub_GetByID_def sub_GetByIDForUpdate_def GetByUserIDAndGroupID_def
      GetActiveByUserIDAndGroupID_def GetByIDIncludeDeleted_def ExistsByUserIDAndGroupID_def
      ExistsActiveByUserIDAndGroupID_def translateConditionalWindowReset_def)

lemma updateExistingSubscriptionTerm_ok:
  assumes "subs_ok d"
  shows "subs_ok (snd (updateExistingSubscriptionTerm env now sid n ns a d))"
  unfolding updateExistingSubscriptionTerm_def
  by (rule and_then_invariant [where P = subs_ok, OF assms])
    (auto simp: Let_def intro!: and_then_invariant [where P = subs_ok] sub_Update_ok sub_statements_ok)

lemma assignOrExtendSubscription_ok:
  assumes "subs_ok d"
  shows "subs_ok (snd (assignOrExtendSubscription env now input d))"
  using assms unfolding assignOrExtendSubscription_def
  by (auto split: sum.splits simp: updateExistingSubscriptionTerm_ok sub_Create_ok
      intro!: and_then_invariant [where P = subs_ok])

text \<open>The operations, with any of their calls lost.\<close>

lemma sub_calls_ok:
  assumes "subs_ok (db w)"
  shows "subs_ok (db (snd (AssignSubscription env now input w)))"
    and "subs_ok (db (snd (RevokeSubscription env now sid w)))"
    and "subs_ok (db (snd (RestoreSubscription env now sid w)))"
    and "subs_ok (db (snd (AdminResetQuota env now sid x y z w)))"
    and "subs_ok (db (snd (EnsureWindowMaintenance env now sub w)))"
    and "subs_ok (db (snd (RecordUsage gl now sid c w)))"
  using assms
  by (auto simp: AssignSubscription_def assignSubscriptionWithReuse_def RevokeSubscription_def RestoreSubscription_def
      caches_then_def Let_def AdminResetQuota_def EnsureWindowMaintenance_def CheckAndActivateWindow_def
      CheckAndResetWindows_def ActivateWindows_def ResetDailyUsage_def ResetWeeklyUsage_def ResetMonthlyUsage_def
      conditional_window_def RecordUsage_def
      split: sum.splits option.splits
      intro!: and_then_invariant [where P = "\<lambda>w. subs_ok (db w)"] db_exec_invariant [where P = subs_ok]
        change_subs_ok sub_statements_ok ResetUsageWindows_ok sub_Create_ok sub_Restore_ok atomically_invariant [where P = subs_ok] updateExistingSubscriptionTerm_ok)

section \<open>Maintenance and the check of a request\<close>

definition sub_at :: "int \<Rightarrow> sub_db \<Rightarrow> UserSubscription option" where
  "sub_at sid d = find (\<lambda>s. us_ID s = sid) (sub_rows d)"

lemma sub_atD: "sub_at sid d = Some s \<Longrightarrow> s \<in> set (sub_rows d) \<and> us_ID s = sid"
  by (auto simp: sub_at_def find_Some_iff)

lemma sub_GetByID_live:
  assumes "subs_ok d" and "sub_at sid d = Some s" and "us_live s"
  shows "sub_GetByID sid d = (Inr s, d)"
proof -
  have "filter (\<lambda>t. us_live t \<and> us_ID t = us_ID s) xs = [s]" if "s \<in> set xs" "distinct (map us_ID xs)" for xs
    using that assms(3) by (induction xs) (auto simp: filter_empty_conv rev_image_eqI)
  then have "filter (\<lambda>t. us_live t \<and> us_ID t = sid) (sub_rows d) = [s]"
    using assms(1) sub_atD [OF assms(2)] by (auto simp: subs_ok_def)
  then show ?thesis by (simp add: sub_GetByID_def only_sub_def)
qed

text \<open>A conditional update whose condition the row meets changes it; otherwise it leaves it.\<close>

lemma conditional_window_reliable:
  assumes "faults w = []" and "sub_at sid (db w) = Some s" and "us_live s" and "tame f" and "subs_ok (db w)"
  shows "\<exists>w'. conditional_window clock sid p f w = (Inr (), w') \<and> faults w' = [] \<and> subs_ok (db w')
     \<and> sub_at sid (db w') = Some (if p s then (f s)\<lparr>us_UpdatedAt := clock\<rparr> else s)"
proof -
  define g where "g t = (f t)\<lparr>us_UpdatedAt := clock\<rparr>" for t
  define q where "q t \<longleftrightarrow> us_ID t = sid \<and> p t" for t
  have g: "tame g" using assms(4) by (simp add: g_def tame_def us_live_def)
  define w' where "w' = w\<lparr>db := snd (change_subs q g (db w))\<rparr>"
  note s = sub_atD [OF assms(2)]
  have ok: "subs_ok (db w')" unfolding w'_def using change_subs_ok [OF assms(5) g] by simp
  have "find (\<lambda>t. us_ID t = sid) (map (\<lambda>t. if q t then g t else t) (sub_rows (db w)))
      = map_option (\<lambda>t. if q t then g t else t) (sub_at sid (db w))"
    unfolding sub_at_def using g by (intro find_map_same) (simp add: tame_def)
  then have row: "sub_at sid (db w') = Some (if p s then g s else s)"
    using assms(2) s by (simp add: w'_def change_subs_def sub_at_def q_def)
  have live: "\<exists>t \<in> set (sub_rows (db w')). us_live t \<and> us_ID t = sid" if "\<not> p s"
    using sub_atD [OF row] that assms(3) by auto
  have n: "0 < length (filter q (sub_rows (db w)))" if "p s"
    using that s by (auto simp: q_def filter_empty_conv)
  have run: "db_exec (change_subs q g) w = (Inr (int (length (filter q (sub_rows (db w))))), w')"
    using assms(1) by (simp add: db_simps w'_def) (simp add: change_subs_def)
  have zero: "\<not> p s" if "length (filter q (sub_rows (db w))) = 0" using that n by fastforce
  have "conditional_window clock sid p f w = (Inr (), w')"
    using live zero assms(1)
    unfolding conditional_window_def q_def [symmetric, abs_def] g_def [symmetric, abs_def]
    by (auto simp: and_then_def run db_simps w'_def translateConditionalWindowReset_def)
  then show ?thesis using ok row assms(1) by (auto simp: w'_def g_def)
qed

text \<open>
  The maintenance of the windows, run on the snapshot that the table still holds, leaves the usage
  that the check of the request went by.
\<close>

definition same_usage :: "UserSubscription \<Rightarrow> UserSubscription \<Rightarrow> bool" where
  "same_usage s t \<longleftrightarrow> us_DailyUsageUSD s = us_DailyUsageUSD t \<and> us_WeeklyUsageUSD s = us_WeeklyUsageUSD t
     \<and> us_MonthlyUsageUSD s = us_MonthlyUsageUSD t"

definition touched :: "go_time \<Rightarrow> UserSubscription \<Rightarrow> UserSubscription" where
  "touched clock s = s\<lparr>us_UpdatedAt := clock\<rparr>"

text \<open>One optional reset of the row: it happens when the automatic window says so.\<close>

lemma reset_step:
  assumes "faults w = []" and "sub_at sid (db w) = Some s" and "us_live s" and "subs_ok (db w)"
    and "\<And>t. tame (f t)" and "\<And>t. ov = Some t \<Longrightarrow> p s"
  shows "\<exists>w' u. (case ov of None \<Rightarrow> give () | Some t \<Rightarrow> conditional_window clock sid p (f t)) w = (Inr (), w')
     \<and> faults w' = [] \<and> subs_ok (db w') \<and> sub_at sid (db w') = Some u
     \<and> u = (case ov of None \<Rightarrow> s | Some t \<Rightarrow> touched clock (f t s))"
proof (cases ov)
  case (Some t)
  then show ?thesis
    using conditional_window_reliable [OF assms(1-3) assms(5) assms(4), of clock p t] assms(6) [OF Some] by (auto simp: touched_def)
qed (use assms in simp)

text \<open>What the resets of a snapshot leave in its row.\<close>

lemma resets_of_the_snapshot:
  assumes "faults w = []" and "subs_ok (db w)" and "sub_at (us_ID s) (db w) = Some s" and "us_live s"
  shows "\<exists>w' t. CheckAndResetWindows env now s w = (Inr (), w') \<and> faults w' = [] \<and> subs_ok (db w')
     \<and> sub_at (us_ID s) (db w') = Some t \<and> us_live t
     \<and> us_DailyUsageUSD t = (if canAutomaticallyResetDailyAt (cal env) now s then 0 else us_DailyUsageUSD s)
     \<and> us_WeeklyUsageUSD t = (if canAutomaticallyResetWeeklyAt (cal env) now s then 0 else us_WeeklyUsageUSD s)
     \<and> us_MonthlyUsageUSD t = (if canAutomaticallyResetMonthlyAt (cal env) now s then 0 else us_MonthlyUsageUSD s)"
proof -
  define sid where "sid = us_ID s"
  have s: "sub_at sid (db w) = Some s" using assms(3) by (simp add: sid_def)
  define od where "od = automaticDailyWindowStartAt (cal env) now s"
  define ow where "ow = automaticWindowStartAt (cal env) s (us_WeeklyWindowStart s) week now"
  define om where "om = automaticWindowStartAt (cal env) s (us_MonthlyWindowStart s) month now"
  define fd :: "go_time \<Rightarrow> UserSubscription \<Rightarrow> UserSubscription"
    where "fd v t = t\<lparr>us_DailyUsageUSD := 0, us_DailyWindowStart := Some v\<rparr>" for v t
  define fw :: "go_time \<Rightarrow> UserSubscription \<Rightarrow> UserSubscription"
    where "fw v t = t\<lparr>us_WeeklyUsageUSD := 0, us_WeeklyWindowStart := Some v\<rparr>" for v t
  define fm :: "go_time \<Rightarrow> UserSubscription \<Rightarrow> UserSubscription"
    where "fm v t = t\<lparr>us_MonthlyUsageUSD := 0, us_MonthlyWindowStart := Some v\<rparr>" for v t
  note f_defs = fd_def fw_def fm_def touched_def
  have tame: "tame (fd v)" "tame (fw v)" "tame (fm v)" for v
    by (simp_all add: tame_def us_live_def f_defs)
  have due: "canAutomaticallyResetDailyAt (cal env) now s \<longleftrightarrow> od \<noteq> None"
      "canAutomaticallyResetWeeklyAt (cal env) now s \<longleftrightarrow> ow \<noteq> None"
      "canAutomaticallyResetMonthlyAt (cal env) now s \<longleftrightarrow> om \<noteq> None"
    unfolding canAutomaticallyResetDailyAt_def canAutomaticallyResetWeeklyAt_def canAutomaticallyResetMonthlyAt_def
      od_def ow_def om_def by (rule refl)+
  have resets: "ResetDailyUsage now (us_ID s) e v = conditional_window now sid (\<lambda>r. us_DailyWindowStart r = e) (fd v)"
      "ResetWeeklyUsage now (us_ID s) e v = conditional_window now sid (\<lambda>r. us_WeeklyWindowStart r = e) (fw v)"
      "ResetMonthlyUsage now (us_ID s) e v = conditional_window now sid (\<lambda>r. us_MonthlyWindowStart r = e) (fm v)" for e v
    by (simp_all add: ResetDailyUsage_def ResetWeeklyUsage_def ResetMonthlyUsage_def sid_def fd_def [abs_def]
        fw_def [abs_def] fm_def [abs_def])
  obtain w1 s1 where 1: "(case od of None \<Rightarrow> give () | Some t \<Rightarrow> conditional_window now sid
        (\<lambda>r. us_DailyWindowStart r = us_DailyWindowStart s) (fd t)) w = (Inr (), w1)"
      "faults w1 = []" "subs_ok (db w1)" "sub_at sid (db w1) = Some s1"
      "s1 = (case od of None \<Rightarrow> s | Some t \<Rightarrow> touched now (fd t s))"
    using reset_step [where p = "\<lambda>r. us_DailyWindowStart r = us_DailyWindowStart s" and f = fd and ov = od,
        OF assms(1) s assms(4,2) tame(1), of now] by auto
  have l1: "us_live s1" "us_WeeklyWindowStart s1 = us_WeeklyWindowStart s" "us_MonthlyWindowStart s1 = us_MonthlyWindowStart s"
    using assms(4) by (simp_all add: 1(5) f_defs us_live_def split: option.split)
  obtain w2 s2 where 2: "(case ow of None \<Rightarrow> give () | Some t \<Rightarrow> conditional_window now sid
        (\<lambda>r. us_WeeklyWindowStart r = us_WeeklyWindowStart s) (fw t)) w1 = (Inr (), w2)"
      "faults w2 = []" "subs_ok (db w2)" "sub_at sid (db w2) = Some s2"
      "s2 = (case ow of None \<Rightarrow> s1 | Some t \<Rightarrow> touched now (fw t s1))"
    using reset_step [where p = "\<lambda>r. us_WeeklyWindowStart r = us_WeeklyWindowStart s" and f = fw and ov = ow,
        OF 1(2,4) l1(1) 1(3) tame(2), of now] l1 by auto
  have l2: "us_live s2" "us_MonthlyWindowStart s2 = us_MonthlyWindowStart s"
    using l1 by (simp_all add: 2(5) f_defs us_live_def split: option.split)
  obtain w3 s3 where 3: "(case om of None \<Rightarrow> give () | Some t \<Rightarrow> conditional_window now sid
        (\<lambda>r. us_MonthlyWindowStart r = us_MonthlyWindowStart s) (fm t)) w2 = (Inr (), w3)"
      "faults w3 = []" "subs_ok (db w3)" "sub_at sid (db w3) = Some s3"
      "s3 = (case om of None \<Rightarrow> s2 | Some t \<Rightarrow> touched now (fm t s2))"
    using reset_step [where p = "\<lambda>r. us_MonthlyWindowStart r = us_MonthlyWindowStart s" and f = fm and ov = om,
        OF 2(2,4) l2(1) 2(3) tame(3), of now] l2 by auto
  have "CheckAndResetWindows env now s w = (Inr (), w3)"
    using 1(1) 2(1) 3(1)
    unfolding CheckAndResetWindows_def od_def [symmetric] ow_def [symmetric] om_def [symmetric]
    by (cases od; cases ow; cases om) (simp_all add: and_then_def resets)
  moreover have "us_live s3" using l2 by (simp add: 3(5) f_defs us_live_def split: option.split)
  moreover have "us_DailyUsageUSD s3 = (if od = None then us_DailyUsageUSD s else 0)"
      "us_WeeklyUsageUSD s3 = (if ow = None then us_WeeklyUsageUSD s else 0)"
      "us_MonthlyUsageUSD s3 = (if om = None then us_MonthlyUsageUSD s else 0)"
    unfolding 3(5) 2(5) 1(5) by (cases od; cases ow; cases om; simp add: f_defs)+
  ultimately show ?thesis using 3(2-4) unfolding due sid_def by auto
qed

theorem check_agrees_with_maintenance:
  assumes "faults w = []" and "subs_ok (db w)" and "sub_at (us_ID s) (db w) = Some s" and "us_live s"
    and "us_Status s = SubscriptionStatusActive" and "now < us_ExpiresAt s"
  shows "\<exists>t w'. EnsureWindowMaintenance env now s w = (Inr t, w')
     \<and> same_usage t (snd (snd (ValidateAndCheckLimits (cal env) now s g)))"
proof (cases "IsWindowActivated s")
  case True
  obtain w1 t where 1: "CheckAndResetWindows env now s w = (Inr (), w1)" "faults w1 = []" "subs_ok (db w1)"
      "sub_at (us_ID s) (db w1) = Some t" "us_live t"
    and usage: "us_DailyUsageUSD t = (if canAutomaticallyResetDailyAt (cal env) now s then 0 else us_DailyUsageUSD s)"
      "us_WeeklyUsageUSD t = (if canAutomaticallyResetWeeklyAt (cal env) now s then 0 else us_WeeklyUsageUSD s)"
      "us_MonthlyUsageUSD t = (if canAutomaticallyResetMonthlyAt (cal env) now s then 0 else us_MonthlyUsageUSD s)"
    using resets_of_the_snapshot [OF assms(1-4), of env now] by auto
  have "EnsureWindowMaintenance env now s w = (Inr t, w1)"
    using True 1 sub_GetByID_live [OF 1(3-5)]
    by (simp add: EnsureWindowMaintenance_def CheckAndActivateWindow_def and_then_def db_simps)
  moreover have "same_usage t (snd (snd (ValidateAndCheckLimits (cal env) now s g)))"
    using assms(5,6) by (simp add: same_usage_def usage ValidateAndCheckLimits_def subscription_status_defs Let_def)
  ultimately show ?thesis by blast
next
  case False
  then have none: "us_DailyWindowStart s = None" "us_WeeklyWindowStart s = None" "us_MonthlyWindowStart s = None"
    by (simp_all add: IsWindowActivated_def)
  define fa where "fa t = t\<lparr>us_DailyWindowStart := Some (StartOfDay (cal env) now),
    us_WeeklyWindowStart := Some now, us_MonthlyWindowStart := Some now\<rparr>" for t :: UserSubscription
  have "tame fa" by (simp add: tame_def us_live_def fa_def)
  then obtain w1 where 1: "conditional_window now (us_ID s) (\<lambda>s. \<not> IsWindowActivated s) fa w = (Inr (), w1)"
      "faults w1 = []" "subs_ok (db w1)" "sub_at (us_ID s) (db w1) = Some (touched now (fa s))"
    using conditional_window_reliable [OF assms(1,3,4) _ assms(2), of fa now "\<lambda>s. \<not> IsWindowActivated s"] False
    by (auto simp: touched_def)
  have l1: "us_live (touched now (fa s))" using assms(4) by (simp add: us_live_def touched_def fa_def)
  have "CheckAndResetWindows env now s w1 = (Inr (), w1)"
    by (simp add: CheckAndResetWindows_def automaticDailyWindowStartAt_def automaticWindowStartAt_def none and_then_def)
  then have "EnsureWindowMaintenance env now s w = (Inr (touched now (fa s)), w1)"
    using False 1 sub_GetByID_live [OF 1(3,4) l1]
    by (simp add: EnsureWindowMaintenance_def CheckAndActivateWindow_def ActivateWindows_def and_then_def db_simps
        fa_def [abs_def])
  moreover have "same_usage (touched now (fa s)) (snd (snd (ValidateAndCheckLimits (cal env) now s g)))"
    using assms(5,6)
    by (simp add: same_usage_def ValidateAndCheckLimits_def subscription_status_defs Let_def
        canAutomaticallyResetDailyAt_def canAutomaticallyResetWeeklyAt_def canAutomaticallyResetMonthlyAt_def
        automaticDailyWindowStartAt_def automaticWindowStartAt_def none fa_def touched_def)
  ultimately show ?thesis by blast
qed

text \<open>A reset from a snapshot that another one has overtaken leaves the row, and what was used since.\<close>

lemma overtaken_reset_changes_nothing:
  assumes "faults w = []" and "subs_ok (db w)" and "sub_at sid (db w) = Some s" and "us_live s"
    and "us_WeeklyWindowStart s \<noteq> expected"
  shows "\<exists>w'. ResetWeeklyUsage clock sid expected start w = (Inr (), w') \<and> sub_at sid (db w') = Some s"
proof -
  have "tame (\<lambda>s. s\<lparr>us_WeeklyUsageUSD := 0, us_WeeklyWindowStart := Some start\<rparr>)"
    by (simp add: tame_def us_live_def)
  from conditional_window_reliable [OF assms(1,3,4) this assms(2), of clock "\<lambda>s. us_WeeklyWindowStart s = expected"]
  show ?thesis using assms(5) by (auto simp: ResetWeeklyUsage_def)
qed

end
