(* ===== verification/User_Accounts.thy ===== *)
theory User_Accounts
  imports Usage_Billing
begin

text \<open>
  The statements of \<open>repository/user_repo.go\<close> that move a user's balance and concurrency, and the
  balance changes of an administrator (\<open>service/admin_user.go\<close>). Ent's updates reach deleted rows,
  the raw SQL does not. Both monetary columns are \<open>NUMERIC(20,8)\<close>.
\<close>

section \<open>Statements\<close>

record member = user_row +
  total_recharged :: usd
  member_concurrency :: int

type_synonym member_db = "int \<rightharpoonup> member"

definition ErrBalanceNegative :: go_error where
  "ErrBalanceNegative = BadRequest ''BALANCE_NEGATIVE'' ''balance cannot be negative''"

definition live_member :: "int \<Rightarrow> member_db \<Rightarrow> member option" where
  "live_member uid d = (case d uid of Some u \<Rightarrow> if u_deleted u then None else Some u | None \<Rightarrow> None)"

definition to_scale :: "usd \<Rightarrow> usd" where "to_scale x = round_scale 8 x"

text \<open>One row, of any user and of a live one.\<close>

definition change_member :: "int \<Rightarrow> (member \<Rightarrow> member) \<Rightarrow> (member_db, go_error + unit) statement" where
  "change_member uid f d =
     (case d uid of None \<Rightarrow> (Inl ErrUserNotFound, d) | Some u \<Rightarrow> (Inr (), d(uid \<mapsto> f u)))"

definition change_live_member :: "int \<Rightarrow> (member \<Rightarrow> member) \<Rightarrow> (member_db, go_error + unit) statement" where
  "change_live_member uid f d =
     (case live_member uid d of None \<Rightarrow> (Inl ErrUserNotFound, d) | Some u \<Rightarrow> (Inr (), d(uid \<mapsto> f u)))"

definition user_GetByID :: "int \<Rightarrow> (member_db, go_error + member) statement" where
  "user_GetByID uid d =
     (case live_member uid d of None \<Rightarrow> Inl ErrUserNotFound | Some u \<Rightarrow> Inr u, d)"

definition UpdateBalance :: "int \<Rightarrow> usd \<Rightarrow> (member_db, go_error + unit) statement" where
  "UpdateBalance uid amount =
     change_member uid (\<lambda>u. u\<lparr>balance := to_scale (balance u + amount),
       total_recharged := (if amount > 0 then to_scale (total_recharged u + amount) else total_recharged u)\<rparr>)"

definition ApplyRedeemBalanceAdjustment :: "int \<Rightarrow> usd \<Rightarrow> (member_db, go_error + unit) statement" where
  "ApplyRedeemBalanceAdjustment uid delta =
     change_live_member uid (\<lambda>u. u\<lparr>balance := to_scale (max (balance u + delta) 0)\<rparr>)"

definition UpdateConcurrency :: "int \<Rightarrow> int \<Rightarrow> (member_db, go_error + unit) statement" where
  "UpdateConcurrency uid amount =
     change_member uid (\<lambda>u. u\<lparr>member_concurrency := member_concurrency u + amount\<rparr>)"

definition ApplyRedeemConcurrencyAdjustment :: "int \<Rightarrow> int \<Rightarrow> (member_db, go_error + unit) statement" where
  "ApplyRedeemConcurrencyAdjustment uid delta =
     change_live_member uid (\<lambda>u. u\<lparr>member_concurrency := max (member_concurrency u + delta) 0\<rparr>)"

text \<open>The deduction of a refund: never more than is there, and what it took.\<close>

definition DeductAvailableBalance :: "int \<Rightarrow> usd \<Rightarrow> (member_db, go_error + usd) statement" where
  "DeductAvailableBalance uid amount d =
     (if amount < 0 then (Inl (PlainError ''deduction amount must be nonnegative''), d)
      else (case live_member uid d of
              None \<Rightarrow> (Inl ErrUserNotFound, d)
            | Some u \<Rightarrow>
                (let new = to_scale (balance u - min amount (max (balance u) 0))
                 in (Inr (balance u - new), d(uid \<mapsto> u\<lparr>balance := new\<rparr>)))))"

text \<open>Deducting lets the balance turn negative when it is too small.\<close>

definition deduct_if :: "bool \<Rightarrow> int \<Rightarrow> usd \<Rightarrow> (member_db, go_error + int) statement" where
  "deduct_if only_covered uid amount d =
     (case d uid of
        None \<Rightarrow> (Inr 0, d)
      | Some u \<Rightarrow> if only_covered \<and> balance u < amount then (Inr 0, d)
                  else (Inr 1, d(uid \<mapsto> u\<lparr>balance := to_scale (balance u - amount)\<rparr>)))"

definition DeductBalance :: "int \<Rightarrow> usd \<Rightarrow> member_db world \<Rightarrow> (go_error + unit) \<times> member_db world" where
  "DeductBalance uid amount =
     and_then (db_exec (deduct_if True uid amount))
       (\<lambda>n. if n > 0 then give ()
            else and_then (db_exec (deduct_if False uid amount))
                   (\<lambda>n. if n = 0 then refuse ErrUserNotFound else give ()))"

section \<open>Balance changes of an administrator\<close>

record BalanceChange =
  Old :: usd
  New_balance :: usd

definition currentBalance :: "int \<Rightarrow> (member_db, go_error + usd) statement" where
  "currentBalance uid d =
     (case live_member uid d of None \<Rightarrow> Inl ErrUserNotFound | Some u \<Rightarrow> Inr (balance u), d)"

definition adjust_row :: "int \<Rightarrow> usd \<Rightarrow> (member_db, go_error + BalanceChange option) statement" where
  "adjust_row uid delta d =
     (case live_member uid d of
        None \<Rightarrow> (Inr None, d)
      | Some u \<Rightarrow>
          if balance u + delta < 0 then (Inr None, d)
          else (let new = to_scale (balance u + delta)
                in (Inr (Some \<lparr>Old = new - delta, New_balance = new\<rparr>), d(uid \<mapsto> u\<lparr>balance := new\<rparr>))))"

definition set_row :: "int \<Rightarrow> usd \<Rightarrow> (member_db, go_error + BalanceChange option) statement" where
  "set_row uid v d =
     (case live_member uid d of
        None \<Rightarrow> (Inr None, d)
      | Some u \<Rightarrow> (Inr (Some \<lparr>Old = balance u, New_balance = to_scale v\<rparr>), d(uid \<mapsto> u\<lparr>balance := to_scale v\<rparr>)))"

text \<open>A refused change comes with the balance it would have led to.\<close>

definition AdjustBalance ::
    "int \<Rightarrow> usd \<Rightarrow> member_db world \<Rightarrow> (go_error + BalanceChange + BalanceChange) \<times> member_db world" where
  "AdjustBalance uid delta =
     and_then (db_exec (adjust_row uid delta))
       (\<lambda>r. case r of
          Some c \<Rightarrow> give (Inr c)
        | None \<Rightarrow> and_then (db_exec (currentBalance uid))
                    (\<lambda>current. give (Inl \<lparr>Old = current, New_balance = current + delta\<rparr>)))"

definition SetBalance ::
    "int \<Rightarrow> usd \<Rightarrow> member_db world \<Rightarrow> (go_error + BalanceChange + BalanceChange) \<times> member_db world" where
  "SetBalance uid v =
     (if v < 0
      then and_then (db_exec (currentBalance uid)) (\<lambda>current. give (Inl \<lparr>Old = current, New_balance = v\<rparr>))
      else and_then (db_exec (set_row uid v))
             (\<lambda>r. case r of Some c \<Rightarrow> give (Inr c) | None \<Rightarrow> refuse ErrUserNotFound))"

text \<open>
  The change of an administrator, up to the re-read of the user; the record of the change among the
  redeem codes and the rebate of the inviter follow, and do not fail it.
\<close>

definition UpdateUserBalance ::
    "int \<Rightarrow> usd \<Rightarrow> string \<Rightarrow> member_db world \<Rightarrow> (go_error + member \<times> BalanceChange) \<times> member_db world" where
  "UpdateUserBalance uid amount operation =
     and_then
       (if operation = ''set'' then SetBalance uid amount
        else if operation = ''add'' then AdjustBalance uid amount
        else if operation = ''subtract'' then AdjustBalance uid (- amount)
        else refuse (PlainError ''unsupported balance operation''))
       (\<lambda>r. case r of
          Inl _ \<Rightarrow> refuse (PlainError ''balance cannot be negative'')
        | Inr change \<Rightarrow> and_then (db_exec (user_GetByID uid)) (\<lambda>u. give (u, change)))"

end
