(* ===== verification/Redeem.thy ===== *)
theory Redeem
  imports Subscriptions User_Accounts
begin

text \<open>
  Redeem codes: \<open>service/redeem_code.go\<close>, \<open>service/redeem_service.go\<close>, their table
  (\<open>repository/redeem_code_repo.go\<close>), the counters and locks in Redis (\<open>repository/redeem_cache.go\<close>)
  and the operations of an administrator (\<open>service/admin_user.go\<close>). A redemption marks the code and
  grants its value in one transaction. The caches and the rebate of the inviter after the commit do
  not change the outcome and are left out, as are the listings; whole days are counted exactly where
  the code divides floating-point hours.
\<close>

section \<open>Codes\<close>

definition StatusUnused :: string where "StatusUnused = ''unused''"
definition StatusUsed :: string where "StatusUsed = ''used''"
definition StatusExpired :: string where "StatusExpired = ''expired''"
definition StatusDisabled :: string where "StatusDisabled = ''disabled''"
definition RedeemTypeBalance :: string where "RedeemTypeBalance = ''balance''"
definition RedeemTypeConcurrency :: string where "RedeemTypeConcurrency = ''concurrency''"
definition RedeemTypeSubscription :: string where "RedeemTypeSubscription = ''subscription''"
definition RedeemTypeInvitation :: string where "RedeemTypeInvitation = ''invitation''"

lemmas redeem_const_defs =
  StatusUnused_def StatusUsed_def StatusExpired_def StatusDisabled_def RedeemTypeBalance_def
  RedeemTypeConcurrency_def RedeemTypeSubscription_def RedeemTypeInvitation_def

record RedeemCode =
  rc_ID :: int
  rc_Code :: string
  rc_Type :: string
  rc_Value :: usd
  rc_Status :: string
  rc_UsedBy :: "int option"
  rc_UsedAt :: "go_time option"
  rc_Notes :: string
  rc_CreatedAt :: go_time
  rc_ExpiresAt :: "go_time option"
  rc_GroupID :: "int option"
  rc_ValidityDays :: int

definition ErrRedeemCodeNotFound :: go_error where
  "ErrRedeemCodeNotFound = NotFound ''REDEEM_CODE_NOT_FOUND'' ''redeem code not found''"
definition ErrRedeemCodeUsed :: go_error where
  "ErrRedeemCodeUsed = Conflict ''REDEEM_CODE_USED'' ''redeem code already used''"
definition ErrRedeemCodeExpired :: go_error where
  "ErrRedeemCodeExpired = Conflict ''REDEEM_CODE_EXPIRED'' ''redeem code expired''"
definition ErrRedeemRateLimited :: go_error where
  "ErrRedeemRateLimited = TooManyRequests ''REDEEM_RATE_LIMITED'' ''too many failed attempts, please try again later''"
definition ErrRedeemCodeLocked :: go_error where
  "ErrRedeemCodeLocked = Conflict ''REDEEM_CODE_LOCKED'' ''redeem code is being processed, please try again''"

definition redeemMaxErrorsPerHour :: int where "redeemMaxErrorsPerHour = 20"
definition redeemLockDuration :: duration where "redeemLockDuration = 10 * Second"
definition redeemRateLimitDuration :: duration where "redeemRateLimitDuration = 24 * Hour"

definition rc_IsUsed :: "RedeemCode \<Rightarrow> bool" where
  "rc_IsUsed r \<longleftrightarrow> rc_Status r = StatusUsed"

definition IsExpiredAt :: "go_time \<Rightarrow> RedeemCode \<Rightarrow> bool" where
  "IsExpiredAt now r \<longleftrightarrow>
     rc_Status r = StatusExpired
     \<or> (rc_Status r = StatusUnused \<and> (case rc_ExpiresAt r of None \<Rightarrow> False | Some t \<Rightarrow> \<not> t > now))"

definition rc_CanUse :: "go_time \<Rightarrow> RedeemCode \<Rightarrow> bool" where
  "rc_CanUse now r \<longleftrightarrow> rc_Status r = StatusUnused \<and> \<not> IsExpiredAt now r"

section \<open>The tables\<close>

record redeem_db =
  codes :: "RedeemCode list"
  code_serial :: int
  members :: member_db
  subs :: sub_db

definition on_members :: "(member_db, 'a) statement \<Rightarrow> (redeem_db, 'a) statement" where
  "on_members = on_part members (\<lambda>m d. d\<lparr>members := m\<rparr>)"

definition on_subs :: "(sub_db, 'a) statement \<Rightarrow> (redeem_db, 'a) statement" where
  "on_subs = on_part subs (\<lambda>s d. d\<lparr>subs := s\<rparr>)"

text \<open>The checks of the generated setters: a code has one to 32 bytes, type and status at most 20.\<close>

definition ErrCodeInvalid :: go_error where
  "ErrCodeInvalid = PlainError ''ent: validator failed for field RedeemCode''"

definition code_valid :: "RedeemCode \<Rightarrow> bool" where
  "code_valid c \<longleftrightarrow> rc_Code c \<noteq> '''' \<and> length (rc_Code c) \<le> 32 \<and> length (rc_Type c) \<le> 20 \<and> length (rc_Status c) \<le> 20"

definition code_Create :: "go_time \<Rightarrow> RedeemCode \<Rightarrow> (redeem_db, go_error + RedeemCode) statement" where
  "code_Create clock c d =
     (if \<not> code_valid c then (Inl ErrCodeInvalid, d)
      else if \<exists>r \<in> set (codes d). rc_Code r = rc_Code c then (Inl ErrUniqueViolation, d)
      else (let row = c\<lparr>rc_ID := code_serial d, rc_Value := to_scale (rc_Value c), rc_CreatedAt := clock\<rparr>
            in (Inr (c\<lparr>rc_ID := code_serial d, rc_CreatedAt := clock\<rparr>),
                d\<lparr>codes := codes d @ [row], code_serial := code_serial d + 1\<rparr>)))"

fun create_codes :: "go_time \<Rightarrow> RedeemCode list \<Rightarrow> (redeem_db, go_error + unit) statement" where
  "create_codes clock [] = give ()"
| "create_codes clock (c # cs) = and_then (code_Create clock c) (\<lambda>_. create_codes clock cs)"

definition CreateBatch :: "go_time \<Rightarrow> RedeemCode list \<Rightarrow> (redeem_db, go_error + unit) statement" where
  "CreateBatch clock cs = (if cs = [] then give () else atomically (create_codes clock cs))"

definition one_code :: "(RedeemCode \<Rightarrow> bool) \<Rightarrow> (redeem_db, go_error + RedeemCode) statement" where
  "one_code p d = (case find p (codes d) of None \<Rightarrow> Inl ErrRedeemCodeNotFound | Some r \<Rightarrow> Inr r, d)"

definition code_GetByID :: "int \<Rightarrow> (redeem_db, go_error + RedeemCode) statement" where
  "code_GetByID cid = one_code (\<lambda>r. rc_ID r = cid)"

definition code_GetByCode :: "string \<Rightarrow> (redeem_db, go_error + RedeemCode) statement" where
  "code_GetByCode c = one_code (\<lambda>r. rc_Code r = c)"

definition code_Delete :: "int \<Rightarrow> (redeem_db, go_error + unit) statement" where
  "code_Delete cid d = (Inr (), d\<lparr>codes := filter (\<lambda>r. rc_ID r \<noteq> cid) (codes d)\<rparr>)"

definition change_codes :: "(RedeemCode \<Rightarrow> bool) \<Rightarrow> (RedeemCode \<Rightarrow> RedeemCode) \<Rightarrow> (redeem_db, go_error + int) statement" where
  "change_codes p f d =
     (Inr (int (length (filter p (codes d)))), d\<lparr>codes := map (\<lambda>r. if p r then f r else r) (codes d)\<rparr>)"

text \<open>\<open>Update\<close> writes the whole row.\<close>

definition code_Update :: "RedeemCode \<Rightarrow> (redeem_db, go_error + unit) statement" where
  "code_Update c d =
     (if \<not> code_valid c then (Inl ErrCodeInvalid, d)
      else if \<forall>r \<in> set (codes d). rc_ID r \<noteq> rc_ID c then (Inl ErrRedeemCodeNotFound, d)
      else if \<exists>r \<in> set (codes d). rc_ID r \<noteq> rc_ID c \<and> rc_Code r = rc_Code c then (Inl ErrUniqueViolation, d)
      else (Inr (), snd (change_codes (\<lambda>r. rc_ID r = rc_ID c)
             (\<lambda>r. c\<lparr>rc_Value := to_scale (rc_Value c), rc_CreatedAt := rc_CreatedAt r\<rparr>) d)))"

definition Use :: "go_time \<Rightarrow> int \<Rightarrow> int \<Rightarrow> (redeem_db, go_error + unit) statement" where
  "Use clock cid userID =
     and_then (change_codes (\<lambda>r. rc_ID r = cid \<and> rc_Status r = StatusUnused)
                (\<lambda>r. r\<lparr>rc_Status := StatusUsed, rc_UsedBy := Some userID, rc_UsedAt := Some clock\<rparr>))
       (\<lambda>affected. if affected = 0 then refuse ErrRedeemCodeUsed else give ())"

definition SumPositiveBalanceByUser :: "int \<Rightarrow> (redeem_db, go_error + usd) statement" where
  "SumPositiveBalanceByUser uid d =
     (Inr (sum_list (map rc_Value (filter (\<lambda>r. rc_UsedBy r = Some uid \<and> rc_Value r > 0
        \<and> (rc_Type r = ''balance'' \<or> rc_Type r = ''admin_balance'')) (codes d)))), d)"

section \<open>Changing many codes\<close>

text \<open>A change of a nullable column: not at all, to null, or to a value.\<close>

type_synonym 'a nullable_update = "'a option option"

record RedeemCodeBatchUpdateFields =
  bf_Status :: "string option"
  bf_ExpiresAt :: "go_time nullable_update"
  bf_Notes :: "string option"
  bf_GroupID :: "int nullable_update"
  bf_Type :: "string option"
  bf_Value :: "usd option"

definition HasChanges :: "RedeemCodeBatchUpdateFields \<Rightarrow> bool" where
  "HasChanges f \<longleftrightarrow> bf_Status f \<noteq> None \<or> bf_ExpiresAt f \<noteq> None \<or> bf_Notes f \<noteq> None \<or> bf_GroupID f \<noteq> None
     \<or> bf_Type f \<noteq> None \<or> bf_Value f \<noteq> None"

definition HasCoreFieldChanges :: "RedeemCodeBatchUpdateFields \<Rightarrow> bool" where
  "HasCoreFieldChanges f \<longleftrightarrow> bf_Type f \<noteq> None \<or> bf_Value f \<noteq> None"

definition TouchesUsedSensitiveFields :: "RedeemCodeBatchUpdateFields \<Rightarrow> bool" where
  "TouchesUsedSensitiveFields f \<longleftrightarrow> bf_Status f \<noteq> None \<or> bf_ExpiresAt f \<noteq> None \<or> bf_GroupID f \<noteq> None"

text \<open>
  The transaction has two statements, the check and the update, and holds no lock between them: what other
  transactions commit in the meantime is the argument \<open>between\<close>. A failed update leaves their work alone.
\<close>

definition batch_check :: "int list \<Rightarrow> RedeemCodeBatchUpdateFields \<Rightarrow> (redeem_db, go_error + unit) statement" where
  "batch_check ids f d =
     (let existing = filter (\<lambda>r. rc_ID r \<in> set ids) (codes d) in
      if length existing \<noteq> length ids then Inl ErrRedeemCodeNotFound
      else if TouchesUsedSensitiveFields f \<and> (\<exists>r \<in> set existing. rc_Status r = StatusUsed) then Inl ErrRedeemCodeUsed
      else Inr (), d)"

definition batch_write :: "int list \<Rightarrow> RedeemCodeBatchUpdateFields \<Rightarrow> (redeem_db, go_error + int) statement" where
  "batch_write ids f =
     and_then (change_codes (\<lambda>r. rc_ID r \<in> set ids)
       (\<lambda>r. r\<lparr>rc_Status := (case bf_Status f of None \<Rightarrow> rc_Status r | Some s \<Rightarrow> s),
              rc_Notes := (case bf_Notes f of None \<Rightarrow> rc_Notes r | Some n \<Rightarrow> n),
              rc_ExpiresAt := (case bf_ExpiresAt f of None \<Rightarrow> rc_ExpiresAt r | Some t \<Rightarrow> t),
              rc_GroupID := (case bf_GroupID f of None \<Rightarrow> rc_GroupID r | Some g \<Rightarrow> g)\<rparr>))
       (\<lambda>affected. if affected \<noteq> int (length ids) then refuse ErrRedeemCodeNotFound else give affected)"

definition batchUpdate ::
    "int list \<Rightarrow> RedeemCodeBatchUpdateFields \<Rightarrow> (redeem_db \<Rightarrow> redeem_db) \<Rightarrow> (redeem_db, go_error + int) statement" where
  "batchUpdate ids f between d =
     (let uniqueIDs = rev (remdups (rev ids)) in
      if uniqueIDs = [] then (Inr 0, d)
      else (case batch_check uniqueIDs f d of
              (Inl e, _) \<Rightarrow> (Inl e, d)
            | (Inr _, _) \<Rightarrow> atomically (batch_write uniqueIDs f) (between d)))"

definition BatchUpdate ::
    "go_time \<Rightarrow> int list \<Rightarrow> RedeemCodeBatchUpdateFields \<Rightarrow> (redeem_db \<Rightarrow> redeem_db)
       \<Rightarrow> redeem_db world \<Rightarrow> (go_error + int) \<times> redeem_db world" where
  "BatchUpdate now ids f between =
     (if ids = [] then refuse (BadRequest ''REDEEM_CODE_BATCH_UPDATE_IDS_REQUIRED'' ''ids are required'')
      else if \<not> HasChanges f
      then refuse (BadRequest ''REDEEM_CODE_BATCH_UPDATE_EMPTY'' ''at least one field must be selected'')
      else if HasCoreFieldChanges f
      then refuse (BadRequest ''REDEEM_CODE_CORE_FIELDS_IMMUTABLE'' ''type and value cannot be batch updated'')
      else if \<exists>i \<in> set ids. i \<le> 0
      then refuse (BadRequest ''REDEEM_CODE_BATCH_UPDATE_INVALID_ID'' ''ids must be positive'')
      else if (case bf_Status f of None \<Rightarrow> False | Some s \<Rightarrow> s \<noteq> StatusUnused \<and> s \<noteq> StatusDisabled)
      then refuse (BadRequest ''REDEEM_CODE_STATUS_INVALID'' ''status must be unused or disabled'')
      else if (case bf_ExpiresAt f of Some (Some t) \<Rightarrow> \<not> t > now | _ \<Rightarrow> False)
      then refuse (BadRequest ''REDEEM_CODE_EXPIRES_AT_INVALID'' ''expires_at must be in the future'')
      else if (case bf_GroupID f of Some (Some g) \<Rightarrow> g \<le> 0 | _ \<Rightarrow> False)
      then refuse (BadRequest ''REDEEM_CODE_GROUP_ID_INVALID'' ''group_id must be positive'')
      else db_exec (batchUpdate (rev (remdups (rev ids))) f between))"

section \<open>Making codes\<close>

definition string_ToUpper :: "string \<Rightarrow> string" where
  "string_ToUpper = map upper_byte"

text \<open>Codes of \<open>GenerateCodes\<close> are built from sixteen random bytes each.\<close>

definition GenerateRandomCode :: "int list \<Rightarrow> string" where
  "GenerateRandomCode bytes =
     (let c = hex_EncodeToString bytes; part = (\<lambda>i j. string_ToUpper (take (j - i) (drop i c))) in
      part 0 8 @ ''-'' @ part 8 16 @ ''-'' @ part 16 24 @ ''-'' @ part 24 32)"

definition blank_code :: RedeemCode where
  "blank_code = \<lparr>rc_ID = 0, rc_Code = '''', rc_Type = '''', rc_Value = 0, rc_Status = '''', rc_UsedBy = None,
     rc_UsedAt = None, rc_Notes = '''', rc_CreatedAt = 0, rc_ExpiresAt = None, rc_GroupID = None, rc_ValidityDays = 0\<rparr>"

definition GenerateCodes ::
    "go_time \<Rightarrow> int \<Rightarrow> usd \<Rightarrow> string \<Rightarrow> (nat \<Rightarrow> int list) \<Rightarrow> redeem_db world \<Rightarrow> (go_error + RedeemCode list) \<times> redeem_db world" where
  "GenerateCodes clock count v typ random =
     (if count \<le> 0 then refuse (PlainError ''count must be greater than 0'')
      else if typ \<noteq> RedeemTypeInvitation \<and> v = 0 then refuse (PlainError ''value must not be zero'')
      else if count > 1000 then refuse (PlainError ''cannot generate more than 1000 codes at once'')
      else
        (let codeType = (if typ = '''' then RedeemTypeBalance else typ);
             amount = (if codeType = RedeemTypeInvitation then 0 else v);
             cs = map (\<lambda>i. blank_code\<lparr>rc_Code := GenerateRandomCode (random i), rc_Type := codeType,
                             rc_Value := amount, rc_Status := StatusUnused\<rparr>) [0 ..< nat count]
         in and_then (db_exec (CreateBatch clock cs)) (\<lambda>_. give cs)))"

definition CreateCode :: "go_time \<Rightarrow> RedeemCode \<Rightarrow> redeem_db world \<Rightarrow> (go_error + RedeemCode) \<times> redeem_db world" where
  "CreateCode now c0 =
     (let c1 = c0\<lparr>rc_Code := TrimSpace (rc_Code c0)\<rparr>;
          c2 = (if rc_Type c1 = '''' then c1\<lparr>rc_Type := RedeemTypeBalance\<rparr> else c1);
          c3 = (if rc_Status c2 = '''' then c2\<lparr>rc_Status := StatusUnused\<rparr> else c2)
      in if rc_Code c1 = '''' then refuse (PlainError ''code is required'')
         else if rc_Type c2 \<noteq> RedeemTypeInvitation \<and> rc_Value c2 = 0 then refuse (PlainError ''value must not be zero'')
         else if IsExpiredAt now c3 then refuse ErrRedeemCodeExpired
         else db_exec (code_Create now c3))"

text \<open>The codes of an administrator, stored one by one; what a failure leaves behind stays.\<close>

record GenerateRedeemCodesInput =
  gi_Count :: int
  gi_Type :: string
  gi_Value :: usd
  gi_GroupID :: "int option"
  gi_ValidityDays :: int
  gi_ExpiresAt :: "go_time option"

definition GenerateRedeemCode :: "int list \<Rightarrow> string" where
  "GenerateRedeemCode bytes = hex_EncodeToString bytes"

fun store_codes :: "go_time \<Rightarrow> RedeemCode list \<Rightarrow> redeem_db world \<Rightarrow> (go_error + RedeemCode list) \<times> redeem_db world" where
  "store_codes now [] w = (Inr [], w)"
| "store_codes now (c # cs) w =
     and_then (db_exec (code_Create now c)) (\<lambda>c'. and_then (store_codes now cs) (\<lambda>cs'. give (c' # cs'))) w"

definition GenerateRedeemCodes ::
    "sub_env \<Rightarrow> go_time \<Rightarrow> GenerateRedeemCodesInput \<Rightarrow> (nat \<Rightarrow> int list) \<Rightarrow> redeem_db world
       \<Rightarrow> (go_error + RedeemCode list) \<times> redeem_db world" where
  "GenerateRedeemCodes env now input random w =
     (if (case gi_ExpiresAt input of Some t \<Rightarrow> \<not> t > now | None \<Rightarrow> False) then (Inl ErrRedeemCodeExpired, w)
      else
        (case (if gi_Type input \<noteq> RedeemTypeSubscription then None
               else (case gi_GroupID input of
                       None \<Rightarrow> Some (PlainError ''group_id is required for subscription type'')
                     | Some g \<Rightarrow> (case GetGroup env g of
                           Inl e \<Rightarrow> Some e
                         | Inr grp \<Rightarrow> if IsSubscriptionType grp then None
                                      else Some (PlainError ''group must be subscription type'')))) of
           Some e \<Rightarrow> (Inl e, w)
         | None \<Rightarrow>
             store_codes now
               (map (\<lambda>i.
                  let c = blank_code\<lparr>rc_Code := GenerateRedeemCode (random i), rc_Type := gi_Type input,
                            rc_Value := gi_Value input, rc_Status := StatusUnused, rc_ExpiresAt := gi_ExpiresAt input\<rparr>
                  in if gi_Type input = RedeemTypeSubscription
                     then c\<lparr>rc_GroupID := gi_GroupID input,
                            rc_ValidityDays := (if gi_ValidityDays input \<le> 0 then 30 else gi_ValidityDays input)\<rparr>
                     else c) [0 ..< nat (gi_Count input)]) w))"

definition DeleteRedeemCode :: "int \<Rightarrow> redeem_db world \<Rightarrow> (go_error + unit) \<times> redeem_db world" where
  "DeleteRedeemCode cid = db_exec (code_Delete cid)"

fun BatchDeleteRedeemCodes :: "int list \<Rightarrow> redeem_db world \<Rightarrow> int \<times> redeem_db world" where
  "BatchDeleteRedeemCodes [] w = (0, w)"
| "BatchDeleteRedeemCodes (cid # cids) w =
     (case db_exec (code_Delete cid) w of
        (r, w1) \<Rightarrow> (case BatchDeleteRedeemCodes cids w1 of
           (n, w2) \<Rightarrow> (case r of Inl _ \<Rightarrow> n | Inr _ \<Rightarrow> n + 1, w2)))"

text \<open>Read, change the status, write the whole row back: three statements on their own.\<close>

definition ExpireRedeemCode :: "int \<Rightarrow> redeem_db world \<Rightarrow> (go_error + RedeemCode) \<times> redeem_db world" where
  "ExpireRedeemCode cid =
     and_then (db_exec (code_GetByID cid))
       (\<lambda>c. let c1 = c\<lparr>rc_Status := StatusExpired\<rparr> in
            and_then (db_exec (code_Update c1)) (\<lambda>_. give c1))"

definition Redeem_Delete :: "int \<Rightarrow> redeem_db world \<Rightarrow> (go_error + unit) \<times> redeem_db world" where
  "Redeem_Delete cid =
     and_then (db_exec (code_GetByID cid))
       (\<lambda>c. if rc_IsUsed c then refuse (Conflict ''REDEEM_CODE_DELETE_USED'' ''cannot delete used redeem code'')
            else db_exec (code_Delete cid))"

section \<open>Counters and locks\<close>

text \<open>Each key of Redis with the instant it expires.\<close>

record redeem_cache =
  attempt_counts :: "int \<rightharpoonup> int \<times> go_time"
  code_locks :: "string \<rightharpoonup> go_time"

definition GetRedeemAttemptCount :: "go_time \<Rightarrow> int \<Rightarrow> (redeem_cache, go_error + int) statement" where
  "GetRedeemAttemptCount now userID c =
     (Inr (case attempt_counts c userID of Some (n, t) \<Rightarrow> if now < t then n else 0 | None \<Rightarrow> 0), c)"

definition IncrementRedeemAttemptCount :: "go_time \<Rightarrow> int \<Rightarrow> (redeem_cache, go_error + unit) statement" where
  "IncrementRedeemAttemptCount now userID c =
     (case fst (GetRedeemAttemptCount now userID c) of
        Inl e \<Rightarrow> (Inl e, c)
      | Inr n \<Rightarrow> (Inr (), c\<lparr>attempt_counts := (attempt_counts c)(userID \<mapsto> (n + 1, now + redeemRateLimitDuration))\<rparr>))"

definition AcquireRedeemLock :: "go_time \<Rightarrow> string \<Rightarrow> duration \<Rightarrow> (redeem_cache, go_error + bool) statement" where
  "AcquireRedeemLock now c ttl k =
     (if case code_locks k c of Some t \<Rightarrow> now < t | None \<Rightarrow> False then (Inr False, k)
      else (Inr True, k\<lparr>code_locks := (code_locks k)(c \<mapsto> now + ttl)\<rparr>))"

definition ReleaseRedeemLock :: "string \<Rightarrow> (redeem_cache, go_error + unit) statement" where
  "ReleaseRedeemLock c k = (Inr (), k\<lparr>code_locks := (code_locks k)(c := None)\<rparr>)"

section \<open>Redemption\<close>

record redeem_system =
  pg :: "redeem_db world"
  redis :: "redeem_cache world"

text \<open>The service may run without Redis.\<close>

record redeem_env =
  has_cache :: bool
  sub_part :: sub_env

definition on_redis :: "(redeem_cache, go_error + 'a) statement \<Rightarrow> redeem_system \<Rightarrow> (go_error + 'a) \<times> redeem_system" where
  "on_redis st s = (case db_exec st (redis s) of (r, k) \<Rightarrow> (r, s\<lparr>redis := k\<rparr>))"

definition on_pg :: "(redeem_db, go_error + 'a) statement \<Rightarrow> redeem_system \<Rightarrow> (go_error + 'a) \<times> redeem_system" where
  "on_pg st s = (case db_exec st (pg s) of (r, w) \<Rightarrow> (r, s\<lparr>pg := w\<rparr>))"

text \<open>A Redis that does not answer does not stop a redemption.\<close>

definition checkRedeemRateLimit ::
    "redeem_env \<Rightarrow> go_time \<Rightarrow> int \<Rightarrow> redeem_system \<Rightarrow> (go_error + unit) \<times> redeem_system" where
  "checkRedeemRateLimit env now userID s =
     (if \<not> has_cache env then (Inr (), s)
      else (case on_redis (GetRedeemAttemptCount now userID) s of
              (Inl _, s1) \<Rightarrow> (Inr (), s1)
            | (Inr n, s1) \<Rightarrow> (if n \<ge> redeemMaxErrorsPerHour then Inl ErrRedeemRateLimited else Inr (), s1)))"

definition incrementRedeemErrorCount :: "redeem_env \<Rightarrow> go_time \<Rightarrow> int \<Rightarrow> redeem_system \<Rightarrow> redeem_system" where
  "incrementRedeemErrorCount env now userID s =
     (if \<not> has_cache env then s else snd (on_redis (IncrementRedeemAttemptCount now userID) s))"

definition acquireRedeemLock :: "redeem_env \<Rightarrow> go_time \<Rightarrow> string \<Rightarrow> redeem_system \<Rightarrow> bool \<times> redeem_system" where
  "acquireRedeemLock env now c s =
     (if \<not> has_cache env then (True, s)
      else (case on_redis (AcquireRedeemLock now c redeemLockDuration) s of
              (Inl _, s1) \<Rightarrow> (True, s1) | (Inr ok, s1) \<Rightarrow> (ok, s1)))"

definition releaseRedeemLock :: "redeem_env \<Rightarrow> string \<Rightarrow> redeem_system \<Rightarrow> redeem_system" where
  "releaseRedeemLock env c s = (if \<not> has_cache env then s else snd (on_redis (ReleaseRedeemLock c) s))"

text \<open>Notes in Chinese, as the bytes of their UTF-8.\<close>

definition bytes_of :: "int list \<Rightarrow> string" where "bytes_of = map char_of"

definition redeem_note :: "string \<Rightarrow> string" where
  "redeem_note c = bytes_of [233,128,154,232,191,135,229,133,145,230,141,162,231,160,129,32] @ c
     @ bytes_of [32,229,133,145,230,141,162]"

definition reduce_note :: "string \<Rightarrow> int \<Rightarrow> string" where
  "reduce_note c n = bytes_of [233,128,154,232,191,135,229,133,145,230,141,162,231,160,129,32] @ c
     @ bytes_of [32,233,128,128,230,172,190,230,137,163,229,135,143,32] @ itoa n @ bytes_of [32,229,164,169]"

definition reduceOrCancelSubscription ::
    "sub_env \<Rightarrow> go_time \<Rightarrow> int \<Rightarrow> int \<Rightarrow> int \<Rightarrow> string \<Rightarrow> (sub_db, go_error + unit) statement" where
  "reduceOrCancelSubscription env now userID groupID reduceDays c d =
     (case fst (GetByUserIDAndGroupID userID groupID d) of
        Inl _ \<Rightarrow> (Inl ErrSubscriptionNotFound, d)
      | Inr sub \<Rightarrow>
          (let days = go_quot (time_Sub (us_ExpiresAt sub) now) (24 * Hour);
               remaining = (if days < 0 then 0 else days);
               newNotes = (if us_Notes sub = '''' then reduce_note c reduceDays
                           else us_Notes sub @ [char_of (10 :: nat)] @ reduce_note c reduceDays)
           in and_then
                (if remaining \<le> reduceDays
                 then and_then (sub_UpdateStatus now (us_ID sub) SubscriptionStatusExpired)
                        (\<lambda>_. ExtendExpiry now (us_ID sub) now)
                 else ExtendExpiry now (us_ID sub) (AddDays (cal env) (us_ExpiresAt sub) (- reduceDays)))
                (\<lambda>_. UpdateNotes now (us_ID sub) newNotes) d))"

text \<open>\<open>int(float64)\<close>: towards zero.\<close>

definition to_int :: "rat \<Rightarrow> int" where
  "to_int x = (if x < 0 then - \<lfloor>- x\<rfloor> else \<lfloor>x\<rfloor>)"

definition unsupportedRedeemTypeError :: "string \<Rightarrow> go_error" where
  "unsupportedRedeemTypeError codeType = BadRequest ''REDEEM_CODE_UNSUPPORTED_TYPE''
     (if codeType = RedeemTypeInvitation then ''invitation codes can only be used during registration''
      else ''unsupported redeem type: '' @ codeType)"

definition ErrMissingGroup :: go_error where
  "ErrMissingGroup = BadRequest ''REDEEM_CODE_INVALID'' ''invalid subscription redeem code: missing group_id''"

definition grant_code :: "redeem_env \<Rightarrow> go_time \<Rightarrow> int \<Rightarrow> RedeemCode \<Rightarrow> (redeem_db, go_error + unit) statement" where
  "grant_code env now userID r =
     (if rc_Type r = RedeemTypeBalance
      then on_members (if rc_Value r < 0 then ApplyRedeemBalanceAdjustment userID (rc_Value r)
                       else UpdateBalance userID (rc_Value r))
      else if rc_Type r = RedeemTypeConcurrency
      then on_members (if to_int (rc_Value r) < 0 then ApplyRedeemConcurrencyAdjustment userID (to_int (rc_Value r))
                       else UpdateConcurrency userID (to_int (rc_Value r)))
      else if rc_Type r = RedeemTypeSubscription
      then (case rc_GroupID r of
              None \<Rightarrow> refuse ErrMissingGroup
            | Some g \<Rightarrow>
                on_subs
                  (if rc_ValidityDays r < 0
                   then reduceOrCancelSubscription (sub_part env) now userID g (- rc_ValidityDays r) (rc_Code r)
                   else and_then (assignOrExtendSubscription (sub_part env) now
                          \<lparr>ai_UserID = userID, ai_GroupID = g,
                           ai_ValidityDays = (if rc_ValidityDays r = 0 then 30 else rc_ValidityDays r),
                           ai_AssignedBy = 0, ai_Notes = redeem_note (rc_Code r)\<rparr>) (\<lambda>_. give ())))
      else refuse (unsupportedRedeemTypeError (rc_Type r)))"

text \<open>The transaction: the code is marked first.\<close>

definition redeem_tx :: "redeem_env \<Rightarrow> go_time \<Rightarrow> int \<Rightarrow> RedeemCode \<Rightarrow> (redeem_db, go_error + unit) statement" where
  "redeem_tx env now userID r =
     atomically (and_then (Use now (rc_ID r) userID) (\<lambda>_. grant_code env now userID r))"

definition redeem_type_ok :: "RedeemCode \<Rightarrow> go_error option" where
  "redeem_type_ok r =
     (if rc_Type r = RedeemTypeBalance \<or> rc_Type r = RedeemTypeConcurrency then None
      else if rc_Type r = RedeemTypeSubscription then (if rc_GroupID r = None then Some ErrMissingGroup else None)
      else Some (unsupportedRedeemTypeError (rc_Type r)))"

definition redeem_locked ::
    "redeem_env \<Rightarrow> go_time \<Rightarrow> int \<Rightarrow> string \<Rightarrow> redeem_system \<Rightarrow> (go_error + RedeemCode) \<times> redeem_system" where
  "redeem_locked env now userID c s =
     (case on_pg (code_GetByCode c) s of
        (Inl e, s1) \<Rightarrow>
          if errors_Is e ErrRedeemCodeNotFound
          then (Inl ErrRedeemCodeNotFound, incrementRedeemErrorCount env now userID s1) else (Inl e, s1)
      | (Inr r, s1) \<Rightarrow>
          if IsExpiredAt now r then (Inl ErrRedeemCodeExpired, incrementRedeemErrorCount env now userID s1)
          else if \<not> rc_CanUse now r then (Inl ErrRedeemCodeUsed, incrementRedeemErrorCount env now userID s1)
          else (case redeem_type_ok r of
                  Some e \<Rightarrow> (Inl e, s1)
                | None \<Rightarrow>
                    and_then (on_pg (on_members (user_GetByID userID)))
                      (\<lambda>_. and_then (on_pg (redeem_tx env now userID r))
                         (\<lambda>_. on_pg (code_GetByID (rc_ID r)))) s1))"

definition Redeem ::
    "redeem_env \<Rightarrow> go_time \<Rightarrow> int \<Rightarrow> string \<Rightarrow> redeem_system \<Rightarrow> (go_error + RedeemCode) \<times> redeem_system" where
  "Redeem env now userID c =
     and_then (checkRedeemRateLimit env now userID)
       (\<lambda>_ s. case acquireRedeemLock env now c s of
          (False, s1) \<Rightarrow> (Inl ErrRedeemCodeLocked, s1)
        | (True, s1) \<Rightarrow> (case redeem_locked env now userID c s1 of (r, s2) \<Rightarrow> (r, releaseRedeemLock env c s2)))"

end
