(* ===== verification/Redeem_Facts.thy ===== *)
theory Redeem_Facts
  imports Redeem Subscriptions_Facts Usage_Billing_Facts
begin

text \<open>
  What keeps the redeem codes right: no history of redemptions, creations, deletions and batch changes
  grants a code twice as long as no redemption of a code commits between the check and the update of a batch
  change of its status, a redemption touches the database in one transaction or not at all, and the
  balances that the statements keep above zero. A redemption between the two statements is undone and grants
  its code again, and so does making an expired used code unused.
\<close>

section \<open>Balances\<close>

definition never_negative :: "member_db \<Rightarrow> bool" where
  "never_negative d \<longleftrightarrow> (\<forall>uid u. d uid = Some u \<longrightarrow> 0 \<le> balance u)"

lemma never_negative_update: "never_negative d \<Longrightarrow> 0 \<le> balance u \<Longrightarrow> never_negative (d(uid \<mapsto> u))"
  by (auto simp: never_negative_def)

lemma to_scale_nonneg: "0 \<le> x \<Longrightarrow> 0 \<le> to_scale x"
  by (simp add: to_scale_def round_scale_nonneg)

lemma live_memberD: "live_member uid d = Some u \<Longrightarrow> d uid = Some u \<and> \<not> u_deleted u"
  by (auto simp: live_member_def split: option.splits if_splits)

lemma never_negative_live: "never_negative d \<Longrightarrow> live_member uid d = Some u \<Longrightarrow> 0 \<le> balance u"
  using live_memberD [of uid d u] by (auto simp: never_negative_def)

lemma DeductAvailableBalance_nonneg:
  assumes "never_negative d"
  shows "never_negative (snd (DeductAvailableBalance uid a d))"
  using assms never_negative_live [OF assms, of uid]
  by (auto simp: DeductAvailableBalance_def Let_def split: option.split
      intro!: never_negative_update to_scale_nonneg)

lemma admin_statements_nonneg:
  assumes "never_negative d"
  shows "never_negative (snd (adjust_row uid x d))"
    and "0 \<le> v \<Longrightarrow> never_negative (snd (set_row uid v d))"
    and "never_negative (snd (ApplyRedeemBalanceAdjustment uid x d))"
    and "never_negative (snd (currentBalance uid d))"
    and "never_negative (snd (user_GetByID uid d))"
  using assms
  by (auto simp: adjust_row_def set_row_def ApplyRedeemBalanceAdjustment_def currentBalance_def user_GetByID_def
      change_live_member_def Let_def split: option.splits
      intro!: never_negative_update to_scale_nonneg)

text \<open>Nothing an administrator does to a balance, with any call lost, takes one below zero.\<close>

lemma admin_calls_nonneg:
  assumes "never_negative (db w)"
  shows "never_negative (db (snd (AdjustBalance uid v w)))"
    and "never_negative (db (snd (SetBalance uid v w)))"
  using assms unfolding AdjustBalance_def SetBalance_def
  by (auto split: option.split intro!: and_then_invariant [where P = "\<lambda>w. never_negative (db w)"]
      db_exec_invariant [where P = never_negative] admin_statements_nonneg)

lemma UpdateUserBalance_nonneg:
  assumes "never_negative (db w)"
  shows "never_negative (db (snd (UpdateUserBalance uid x oper w)))"
  unfolding UpdateUserBalance_def
  by (rule and_then_invariant [where P = "\<lambda>w. never_negative (db w)", OF assms])
    (auto simp: admin_calls_nonneg split: sum.split intro!: and_then_invariant [where P = "\<lambda>w. never_negative (db w)"]
      db_exec_invariant [where P = never_negative] admin_statements_nonneg)

section \<open>Codes that no longer can be redeemed\<close>

definition codes_ok :: "redeem_db \<Rightarrow> bool" where
  "codes_ok d \<longleftrightarrow> distinct (map rc_ID (codes d)) \<and> (\<forall>r \<in> set (codes d). rc_ID r < code_serial d)"

text \<open>A code that is used, or gone for good.\<close>

definition spent :: "int \<Rightarrow> redeem_db \<Rightarrow> bool" where
  "spent i d \<longleftrightarrow> i < code_serial d \<and> (\<forall>r \<in> set (codes d). rc_ID r = i \<longrightarrow> rc_Status r = StatusUsed)"

lemma on_part_codes [simp]:
  "codes (snd (on_members st d)) = codes d" "code_serial (snd (on_members st d)) = code_serial d"
  "codes (snd (on_subs st' d)) = codes d" "code_serial (snd (on_subs st' d)) = code_serial d"
  by (simp_all add: on_members_def on_subs_def on_part_def split: prod.split)

lemma grant_keeps_codes [simp]:
  "codes (snd (grant_code env now uid r d)) = codes d"
  "code_serial (snd (grant_code env now uid r d)) = code_serial d"
  by (simp_all add: grant_code_def split: option.split)

lemma Use_Inr:
  assumes "Use clock i uid d = (Inr (), d')"
  shows "(\<exists>r \<in> set (codes d). rc_ID r = i \<and> rc_Status r = StatusUnused)
    \<and> d' = d\<lparr>codes := map (\<lambda>r. if rc_ID r = i \<and> rc_Status r = StatusUnused
        then r\<lparr>rc_Status := StatusUsed, rc_UsedBy := Some uid, rc_UsedAt := Some clock\<rparr> else r) (codes d)\<rparr>"
  using assms by (auto simp: Use_def and_then_def change_codes_def filter_empty_conv split: if_splits)

text \<open>A redemption that succeeds found the code unused and leaves it used.\<close>

lemma redeem_tx_Inr:
  assumes "redeem_tx env now uid r d = (Inr (), d')" and "codes_ok d"
  shows "(\<exists>c \<in> set (codes d). rc_ID c = rc_ID r \<and> rc_Status c = StatusUnused) \<and> spent (rc_ID r) d' \<and> codes_ok d'"
proof -
  obtain d1 where d1: "Use now (rc_ID r) uid d = (Inr (), d1)" "grant_code env now uid r d1 = (Inr (), d')"
    using assms(1) by (auto simp: redeem_tx_def atomically_Inr and_then_Inr)
  note u = Use_Inr [OF d1(1)]
  have c: "codes d' = codes d1" "code_serial d' = code_serial d1"
    using grant_keeps_codes [of env now uid r d1] d1(2) by simp_all
  obtain c0 where c0: "c0 \<in> set (codes d)" "rc_ID c0 = rc_ID r" "rc_Status c0 = StatusUnused" using u by auto
  have same: "c = c0" if "c \<in> set (codes d)" "rc_ID c = rc_ID r" for c
    using that c0 assms(2) by (auto simp: codes_ok_def distinct_map inj_on_def)
  define g where "g c = (if rc_ID c = rc_ID r \<and> rc_Status c = StatusUnused
    then c\<lparr>rc_Status := StatusUsed, rc_UsedBy := Some uid, rc_UsedAt := Some now\<rparr> else c)" for c :: RedeemCode
  have rows: "codes d' = map g (codes d)" "code_serial d' = code_serial d"
    using u c by (simp_all add: g_def [abs_def])
  have g: "rc_ID (g c) = rc_ID c" for c by (simp add: g_def)
  have "rc_Status (g c) = StatusUsed" if "c \<in> set (codes d)" "rc_ID c = rc_ID r" for c
    using same [OF that] c0 by (simp add: g_def)
  then have "spent (rc_ID r) d'"
    using c0 assms(2) by (auto simp: spent_def codes_ok_def rows g)
  moreover have "map rc_ID (codes d') = map rc_ID (codes d)" by (simp add: rows g)
  then have "codes_ok d'"
    using assms(2) by (simp add: codes_ok_def rows(2) del: map_map) (simp add: rows(1) g)
  ultimately show ?thesis using c0 by blast
qed

lemma redeem_tx_Inl: "redeem_tx env now uid r d = (Inl e, d') \<Longrightarrow> d' = d"
  unfolding redeem_tx_def using atomically_Inl by (metis fst_conv snd_conv)

section \<open>Histories\<close>

text \<open>
  What is done to the codes, in the order it is committed. A redemption comes with whatever code its
  request has read, however long ago; a batch change with what others commit between its statements.
\<close>

datatype redeem_event =
    Redeems go_time int RedeemCode
  | Creates go_time RedeemCode
  | Deletes int
  | Batches "int list" RedeemCodeBatchUpdateFields "redeem_event list"

text \<open>The codes that were granted, one entry for each grant, and the database after it.\<close>

definition batch_starts :: "int list \<Rightarrow> RedeemCodeBatchUpdateFields \<Rightarrow> redeem_db \<Rightarrow> bool" where
  "batch_starts ids f d \<longleftrightarrow> ids \<noteq> [] \<and> fst (batch_check (rev (remdups (rev ids))) f d) = Inr ()"

fun redeem_exec :: "redeem_env \<Rightarrow> redeem_event \<Rightarrow> redeem_db \<Rightarrow> int list \<times> redeem_db"
  and redeem_run :: "redeem_env \<Rightarrow> redeem_event list \<Rightarrow> redeem_db \<Rightarrow> int list \<times> redeem_db" where
  "redeem_exec env (Redeems now uid r) d =
     (case redeem_tx env now uid r d of (Inl _, d') \<Rightarrow> ([], d') | (Inr _, d') \<Rightarrow> ([rc_ID r], d'))"
| "redeem_exec env (Creates now c) d = ([], snd (code_Create now c d))"
| "redeem_exec env (Deletes i) d = ([], snd (code_Delete i d))"
| "redeem_exec env (Batches ids f others) d =
     ((if batch_starts ids f d then fst (redeem_run env others d) else []),
      snd (batchUpdate ids f (\<lambda>d. snd (redeem_run env others d)) d))"
| "redeem_run env [] d = ([], d)"
| "redeem_run env (e # es) d =
     (case redeem_exec env e d of (g, d1) \<Rightarrow> (case redeem_run env es d1 of (gs, d') \<Rightarrow> (g @ gs, d')))"

abbreviation granted :: "redeem_env \<Rightarrow> redeem_event list \<Rightarrow> redeem_db \<Rightarrow> int list" where
  "granted env es d \<equiv> fst (redeem_run env es d)"

text \<open>
  The codes an event may redeem, and the events in which no redemption of a code falls between the check and
  the update of a change of its status.
\<close>

fun attempts :: "redeem_event \<Rightarrow> int set" where
  "attempts (Redeems now uid r) = {rc_ID r}"
| "attempts (Batches ids f others) = (\<Union>e \<in> set others. attempts e)"
| "attempts e = {}"

fun undisturbed :: "redeem_event \<Rightarrow> bool" where
  "undisturbed (Batches ids f others) \<longleftrightarrow>
     (\<forall>e \<in> set others. undisturbed e \<and> (bf_Status f \<noteq> None \<longrightarrow> attempts e \<inter> set ids = {}))"
| "undisturbed e \<longleftrightarrow> True"

lemma codes_ok_map:
  assumes "codes_ok d" and "\<And>r. rc_ID (g r) = rc_ID r" and "codes d' = map g (codes d)" and "code_serial d' = code_serial d"
  shows "codes_ok d'"
proof -
  have "map rc_ID (codes d') = map rc_ID (codes d)" by (simp add: assms(2,3))
  then show ?thesis
    using assms(1,2) by (simp add: codes_ok_def assms(4) del: map_map) (simp add: assms(3))
qed

lemma create_effect:
  assumes "codes_ok d" and "code_Create now c d = (x, d')"
  shows "codes_ok d' \<and> (spent i d \<longrightarrow> spent i d')"
proof (cases x)
  case (Inl e)
  then show ?thesis using assms by (auto simp: code_Create_def Let_def split: if_splits)
next
  case (Inr r)
  then obtain row where row: "d' = d\<lparr>codes := codes d @ [row], code_serial := code_serial d + 1\<rparr>" "rc_ID row = code_serial d"
    using assms(2) by (auto simp: code_Create_def Let_def split: if_splits)
  have below: "rc_ID r < code_serial d" if "r \<in> set (codes d)" for r
    using assms(1) that by (simp add: codes_ok_def)
  then have "code_serial d \<notin> rc_ID ` set (codes d)" by (metis image_iff less_irrefl)
  moreover have "rc_ID r < code_serial d + 1" if "r \<in> set (codes d)" for r using below [OF that] by simp
  ultimately show ?thesis
    using assms(1) row(2) unfolding row(1) by (auto simp: codes_ok_def spent_def)
qed

lemma delete_effect: "codes_ok d \<Longrightarrow> codes_ok (snd (code_Delete i d)) \<and> (spent j d \<longrightarrow> spent j (snd (code_Delete i d)))"
  by (auto simp: codes_ok_def spent_def code_Delete_def distinct_map inj_on_def)

text \<open>A batch change that touches the status refuses used codes.\<close>

lemma starts_fresh:
  assumes "batch_starts ids f d" and "bf_Status f \<noteq> None" and "i \<in> set ids"
    and "codes_ok d"
  shows "\<not> spent i d"
proof -
  let ?us = "rev (remdups (rev ids))"
  let ?ex = "filter (\<lambda>r. rc_ID r \<in> set ?us) (codes d)"
  have check: "length ?ex = length ?us" "\<forall>r \<in> set ?ex. rc_Status r \<noteq> StatusUsed"
    using assms(1,2) by (auto simp: batch_starts_def batch_check_def TouchesUsedSensitiveFields_def Let_def split: if_splits)
  show ?thesis
  proof (cases "\<exists>r \<in> set (codes d). rc_ID r = i")
    case True
    then show ?thesis using check(2) assms(3) by (auto simp: spent_def)
  next
    case False
    have "distinct (map rc_ID ?ex)" using assms(4) by (simp add: codes_ok_def distinct_map inj_on_def)
    then have "length ?ex = card (rc_ID ` set ?ex)" by (metis distinct_card length_map set_map)
    also have "\<dots> \<le> card (set ids - {i})" using False by (intro card_mono) auto
    also have "\<dots> < card (set ids)" using assms(3) by (intro psubset_card_mono) auto
    also have "\<dots> = length ?us" by (metis distinct_card distinct_remdups distinct_rev set_remdups set_rev)
    finally show ?thesis using check(1) by simp
  qed
qed

lemma write_effect:
  assumes "codes_ok d" and "atomically (batch_write us f) d = (x, d')"
  shows "codes_ok d'" and "i \<notin> set us \<or> bf_Status f = None \<Longrightarrow> spent i d \<Longrightarrow> spent i d'"
proof -
  define g where "g r = (if rc_ID r \<in> set us then
      r\<lparr>rc_Status := (case bf_Status f of None \<Rightarrow> rc_Status r | Some s \<Rightarrow> s),
        rc_Notes := (case bf_Notes f of None \<Rightarrow> rc_Notes r | Some n \<Rightarrow> n),
        rc_ExpiresAt := (case bf_ExpiresAt f of None \<Rightarrow> rc_ExpiresAt r | Some t \<Rightarrow> t),
        rc_GroupID := (case bf_GroupID f of None \<Rightarrow> rc_GroupID r | Some h \<Rightarrow> h)\<rparr> else r)" for r :: RedeemCode
  have g: "rc_ID (g r) = rc_ID r" for r by (simp add: g_def)
  consider "d' = d" | "codes d' = map g (codes d)" "code_serial d' = code_serial d"
    using assms(2)
    by (auto simp: atomically_def batch_write_def and_then_def change_codes_def g_def [abs_def] split: if_splits)
  then have "codes_ok d' \<and> (i \<notin> set us \<or> bf_Status f = None \<longrightarrow> spent i d \<longrightarrow> spent i d')"
  proof cases
    case 2
    have "rc_Status (g r) = rc_Status r" if "i \<notin> set us \<or> bf_Status f = None" "rc_ID r = i" for r
      using that by (auto simp: g_def)
    then show ?thesis using codes_ok_map [OF assms(1) g 2] by (auto simp: spent_def 2 g)
  qed (use assms in simp)
  then show "codes_ok d'" and "i \<notin> set us \<or> bf_Status f = None \<Longrightarrow> spent i d \<Longrightarrow> spent i d'" by blast+
qed

lemma batchUpdate_steps:
  "snd (batchUpdate ids f between d) =
     (if batch_starts ids f d then snd (atomically (batch_write (rev (remdups (rev ids))) f) (between d)) else d)"
  by (auto simp: batchUpdate_def batch_starts_def Let_def split: prod.split sum.split)

lemma granted_attempts:
  "set (fst (redeem_exec env e d)) \<subseteq> attempts e"
  "set (granted env es d) \<subseteq> (\<Union>e \<in> set es. attempts e)"
  by (induction env e d and env es d rule: redeem_exec_redeem_run.induct)
    (auto split: prod.splits sum.splits, fastforce+)

definition grants_once :: "redeem_db \<Rightarrow> int list \<Rightarrow> redeem_db \<Rightarrow> bool" where
  "grants_once d g d' \<longleftrightarrow> codes_ok d' \<and> distinct g
     \<and> (\<forall>i. (spent i d \<longrightarrow> spent i d' \<and> i \<notin> set g) \<and> (i \<in> set g \<longrightarrow> spent i d'))"

lemma redeems_once:
  assumes "codes_ok d" and "redeem_exec env (Redeems now uid r) d = (g, d')"
  shows "grants_once d g d'"
proof (cases "fst (redeem_tx env now uid r d)")
  case (Inl er)
  then have "g = [] \<and> d' = d"
    using assms(2) redeem_tx_Inl by (auto split: prod.splits)
  then show ?thesis using assms(1) by (simp add: grants_once_def)
next
  case (Inr u)
  then have tx: "redeem_tx env now uid r d = (Inr (), d')" and g: "g = [rc_ID r]"
    using assms(2) by (auto split: prod.splits)
  note after = redeem_tx_Inr [OF tx assms(1)]
  have "rc_ID r \<noteq> i" if "spent i d" for i
    using that after by (auto simp: spent_def redeem_const_defs)
  moreover have "spent i d'" if "spent i d" for i
  proof -
    obtain d1 where d1: "Use now (rc_ID r) uid d = (Inr (), d1)" "grant_code env now uid r d1 = (Inr (), d')"
      using tx by (auto simp: redeem_tx_def atomically_Inr and_then_Inr)
    then show ?thesis
      using that Use_Inr [OF d1(1)] grant_keeps_codes [of env now uid r d1] by (auto simp: spent_def)
  qed
  ultimately show ?thesis using after g by (auto simp: grants_once_def)
qed

lemma histories_grant_once:
  "codes_ok d \<Longrightarrow> undisturbed e \<Longrightarrow> grants_once d (fst (redeem_exec env e d)) (snd (redeem_exec env e d))"
  "codes_ok d \<Longrightarrow> \<forall>e \<in> set es. undisturbed e \<Longrightarrow> grants_once d (granted env es d) (snd (redeem_run env es d))"
proof (induction env e d and env es d rule: redeem_exec_redeem_run.induct)
  case (1 env now uid r d)
  then show ?case using redeems_once [OF _ prod.collapse [symmetric]] by blast
next
  case (2 env now c d)
  then show ?case using create_effect [OF _ prod.collapse [symmetric]] by (auto simp: grants_once_def)
next
  case (3 env i d)
  then show ?case using delete_effect by (auto simp: grants_once_def)
next
  case (4 env ids f others d)
  show ?case
  proof (cases "batch_starts ids f d")
    case True
    let ?us = "rev (remdups (rev ids))" and ?g = "granted env others d" and ?d1 = "snd (redeem_run env others d)"
    obtain x d' where w: "atomically (batch_write ?us f) ?d1 = (x, d')" by fastforce
    have IH: "grants_once d ?g ?d1" using 4 by simp
    then have ok: "codes_ok ?d1" by (simp add: grants_once_def)
    have "i \<notin> set ids \<or> bf_Status f = None" if "spent i d \<or> i \<in> set ?g" for i
      using that starts_fresh [OF True _ _ "4.prems"(1), of i] granted_attempts(2) [of env others d] "4.prems"(2) by fastforce
    then have "spent i d'" if "spent i ?d1" "spent i d \<or> i \<in> set ?g" for i
      using write_effect(2) [OF ok w] that by simp
    with IH write_effect(1) [OF ok w] True w show ?thesis
      by (auto simp: grants_once_def batchUpdate_steps)
  next
    case False
    then show ?thesis using 4 by (simp add: grants_once_def batchUpdate_steps)
  qed
next
  case (5 env d)
  then show ?case by (simp add: grants_once_def)
next
  case (6 env e es d)
  obtain g d1 where e: "redeem_exec env e d = (g, d1)" by fastforce
  obtain gs d' where es: "redeem_run env es d1 = (gs, d')" by fastforce
  have 1: "grants_once d g d1" using 6 e by simp
  then have "grants_once d1 gs d'" using 6 e es by (simp add: grants_once_def)
  with 1 e es show ?case by (auto simp: grants_once_def)
qed

text \<open>
  C32. However redemptions by any users, creations, deletions and batch changes follow each other, and
  whatever stale copy of a code a redemption goes by, no code is granted more than once, provided that no
  redemption of a code is committed between the check and the update of a batch change of its status.
\<close>

theorem no_code_is_granted_twice:
  assumes "codes_ok d" and "\<forall>e \<in> set es. undisturbed e"
  shows "distinct (granted env es d)"
  using histories_grant_once(2) [OF assms] by (simp add: grants_once_def)

text \<open>The whole redemption touches the database in one such step, or not at all.\<close>

lemma on_redis_pg [simp]: "pg (snd (on_redis st s)) = pg s"
  by (simp add: on_redis_def split: prod.split)

lemma guards_keep_pg [simp]:
  "pg (incrementRedeemErrorCount env now uid s) = pg s"
  "pg (releaseRedeemLock env c s) = pg s"
  "pg (snd (checkRedeemRateLimit env now uid s)) = pg s"
  "pg (snd (acquireRedeemLock env now c s)) = pg s"
  by (simp_all add: incrementRedeemErrorCount_def releaseRedeemLock_def checkRedeemRateLimit_def acquireRedeemLock_def
      on_redis_def split: prod.split sum.split)

lemma on_pg_query:
  assumes "on_pg st s = (x, s')" and "\<And>d. snd (st d) = d"
  shows "db (pg s') = db (pg s)"
proof -
  obtain w' where w: "db_exec st (pg s) = (x, w')" "s' = s\<lparr>pg := w'\<rparr>"
    using assms(1) by (auto simp: on_pg_def split: prod.splits)
  from db_exec_keeps [OF w(1), of "\<lambda>d. d"] assms(2) show ?thesis by (simp add: w(2))
qed

lemma redeem_queries_keep [simp]:
  "snd (code_GetByCode c d) = d" "snd (code_GetByID i d) = d" "snd (on_members (user_GetByID uid) d) = d"
  by (simp_all add: code_GetByCode_def code_GetByID_def one_code_def on_members_def on_part_def user_GetByID_def)

text \<open>What a redemption may do to the database: nothing, when it fails, or one event.\<close>

definition redeemed_once :: "redeem_env \<Rightarrow> go_time \<Rightarrow> int \<Rightarrow> redeem_db \<Rightarrow> redeem_db \<Rightarrow> bool" where
  "redeemed_once env now uid d d' \<longleftrightarrow>
     (\<exists>r. redeem_exec env (Redeems now uid r) d = ([rc_ID r], d'))"

lemma redeem_tx_call:
  assumes "on_pg (redeem_tx env now uid r) s = (x, s')"
  shows "(db (pg s') = db (pg s) \<and> x \<noteq> Inr ()) \<or> redeemed_once env now uid (db (pg s)) (db (pg s'))"
proof -
  obtain w' where w: "db_exec (redeem_tx env now uid r) (pg s) = (x, w')" "s' = s\<lparr>pg := w'\<rparr>"
    using assms(1) by (auto simp: on_pg_def split: prod.splits)
  obtain y d' where y: "redeem_tx env now uid r (db (pg s)) = (y, d')"
    by (cases "redeem_tx env now uid r (db (pg s))")
  show ?thesis
  proof (cases y)
    case (Inl e)
    with y redeem_tx_Inl have "d' = db (pg s)" by metis
    then show ?thesis using db_exec_outcomes [OF w(1)] y w(2) Inl by auto
  next
    case (Inr u)
    then have "redeemed_once env now uid (db (pg s)) d'"
      unfolding redeemed_once_def using y by (intro exI [of _ r]) simp
    then show ?thesis using db_exec_outcomes [OF w(1)] y w(2) by auto
  qed
qed

lemma redeem_locked_once:
  assumes "redeem_locked env now uid c s = (x, s')"
  shows "(db (pg s') = db (pg s) \<and> (\<exists>e. x = Inl e)) \<or> redeemed_once env now uid (db (pg s)) (db (pg s'))"
proof -
  obtain a s1 where 1: "on_pg (code_GetByCode c) s = (a, s1)" by (cases "on_pg (code_GetByCode c) s")
  have k1: "db (pg s1) = db (pg s)" using on_pg_query [OF 1] by simp
  show ?thesis
  proof (cases "\<exists>r. a = Inr r \<and> \<not> IsExpiredAt now r \<and> rc_CanUse now r \<and> redeem_type_ok r = None")
    case False
    then show ?thesis using assms 1 k1
      by (auto simp: redeem_locked_def split: sum.splits if_splits option.splits)
  next
    case True
    then obtain r where r: "a = Inr r" "\<not> IsExpiredAt now r" "rc_CanUse now r" "redeem_type_ok r = None" by blast
    obtain u s2 where 2: "on_pg (on_members (user_GetByID uid)) s1 = (u, s2)"
      by (cases "on_pg (on_members (user_GetByID uid)) s1")
    have k2: "db (pg s2) = db (pg s)" using on_pg_query [OF 2] k1 by simp
    obtain y s3 where 3: "on_pg (redeem_tx env now uid r) s2 = (y, s3)" by (cases "on_pg (redeem_tx env now uid r) s2")
    obtain z s4 where 4: "on_pg (code_GetByID (rc_ID r)) s3 = (z, s4)" by (cases "on_pg (code_GetByID (rc_ID r)) s3")
    have k4: "db (pg s4) = db (pg s3)" using on_pg_query [OF 4] by simp
    have res: "(x, s') = (case u of Inl e \<Rightarrow> (Inl e, s2) | Inr _ \<Rightarrow> (case y of Inl e \<Rightarrow> (Inl e, s3) | Inr _ \<Rightarrow> (z, s4)))"
      using assms 1 2 3 4 r by (simp add: redeem_locked_def and_then_def split: sum.splits)
    show ?thesis
      using redeem_tx_call [OF 3] res k2 k4 by (auto split: sum.splits)
  qed
qed

lemma redemption_is_one_step:
  assumes "Redeem env now uid c s = (x, s')"
  shows "(db (pg s') = db (pg s) \<and> (\<exists>e. x = Inl e)) \<or> redeemed_once env now uid (db (pg s)) (db (pg s'))"
proof -
  obtain a s1 where 1: "checkRedeemRateLimit env now uid s = (a, s1)" by (cases "checkRedeemRateLimit env now uid s")
  obtain b s2 where 2: "acquireRedeemLock env now c s1 = (b, s2)" by (cases "acquireRedeemLock env now c s1")
  obtain y s3 where 3: "redeem_locked env now uid c s2 = (y, s3)" by (cases "redeem_locked env now uid c s2")
  have k: "pg s1 = pg s" "pg s2 = pg s"
    using guards_keep_pg(3) [of env now uid s] guards_keep_pg(4) [of env now c s1] 1 2 by simp_all
  have res: "(x, s') = (case a of Inl e \<Rightarrow> (Inl e, s1)
      | Inr _ \<Rightarrow> if b then (y, releaseRedeemLock env c s3) else (Inl ErrRedeemCodeLocked, s2))"
    using assms 1 2 3 by (simp add: Redeem_def and_then_def split: sum.splits bool.splits)
  show ?thesis using redeem_locked_once [OF 3] res k by (auto split: sum.splits if_splits)
qed

section \<open>A concrete code\<close>

definition gift :: RedeemCode where
  "gift = \<lparr>rc_ID = 1, rc_Code = ''GIFT'', rc_Type = RedeemTypeBalance, rc_Value = 5, rc_Status = StatusUnused,
     rc_UsedBy = None, rc_UsedAt = None, rc_Notes = '''', rc_CreatedAt = 0, rc_ExpiresAt = None, rc_GroupID = None,
     rc_ValidityDays = 0\<rparr>"

definition holder :: member where
  "holder = \<lparr>balance = 0, frozen_balance = None, u_deleted = False, total_recharged = 0, member_concurrency = 5\<rparr>"

definition gift_db :: redeem_db where
  "gift_db = \<lparr>codes = [gift], code_serial = 2, members = [7 \<mapsto> holder],
     subs = \<lparr>sub_rows = [], sub_serial = 1\<rparr>\<rparr>"

definition make_unused :: RedeemCodeBatchUpdateFields where
  "make_unused = \<lparr>bf_Status = Some StatusUnused, bf_ExpiresAt = None, bf_Notes = None, bf_GroupID = None,
     bf_Type = None, bf_Value = None\<rparr>"

text \<open>The database after the user has redeemed the code a number of times.\<close>

definition after_gifts :: "usd \<Rightarrow> RedeemCode \<Rightarrow> redeem_db" where
  "after_gifts amount row = gift_db\<lparr>codes := [row],
     members := [7 \<mapsto> holder\<lparr>balance := amount, total_recharged := amount\<rparr>]\<rparr>"

definition used_gift :: "go_time \<Rightarrow> RedeemCode" where
  "used_gift t = gift\<lparr>rc_Status := StatusUsed, rc_UsedBy := Some 7, rc_UsedAt := Some t\<rparr>"

lemma to_scale_int [simp]: "to_scale (of_int k) = of_int k"
proof -
  have "on_scale 8 (of_int k)" by (simp add: on_scale_def)
  then show ?thesis by (simp add: to_scale_def round_on_scale)
qed

lemma gift_amounts: "to_scale 5 = 5" "to_scale 10 = 10"
  using to_scale_int [of 5] to_scale_int [of 10] by simp_all

lemma gift_redeemed:
  assumes "rc_ID row = 1" and "rc_Status row = StatusUnused" and "to_scale (a + 5) = a + 5"
  shows "redeem_tx env t 7 gift (after_gifts a row) = (Inr (), after_gifts (a + 5)
    (row\<lparr>rc_Status := StatusUsed, rc_UsedBy := Some 7, rc_UsedAt := Some t\<rparr>))"
  using assms
  by (simp add: redeem_tx_def atomically_def and_then_def Use_def change_codes_def after_gifts_def grant_code_def gift_def
      redeem_const_defs on_members_def on_part_def UpdateBalance_def change_member_def holder_def gift_db_def)

lemma gift_db_start: "gift_db = after_gifts 0 gift"
  by (simp add: after_gifts_def gift_db_def holder_def)

lemma used_gift_refused:
  assumes "rc_ID row = 1" and "rc_Status row = StatusUsed"
  shows "redeem_tx env t 7 gift (after_gifts a row) = (Inl ErrRedeemCodeUsed, after_gifts a row)"
  using assms
  by (simp add: redeem_tx_def atomically_def and_then_def Use_def change_codes_def after_gifts_def gift_def redeem_const_defs)

lemma gift_redeemed_first:
  "redeem_tx env t 7 gift gift_db = (Inr (), after_gifts 5 (used_gift t))"
  using gift_redeemed [of gift 0 env t] by (simp add: gift_db_start used_gift_def gift_def gift_amounts)

definition gift_env :: redeem_env where
  "gift_env = \<lparr>has_cache = True, sub_part = \<lparr>GetGroup = (\<lambda>_. Inl (NotFound ''GROUP_NOT_FOUND'' ''group not found'')), cal = plain_calendar,
     invalidate_caches = (\<lambda>_ _. None)\<rparr>\<rparr>"

theorem no_code_is_granted_twice_witness:
  "granted gift_env [Redeems 10 7 gift, Redeems 20 7 gift, Batches [1] make_unused [], Redeems 30 7 gift] gift_db = [1]
   \<and> distinct (granted gift_env [Redeems 10 7 gift, Redeems 20 7 gift, Batches [1] make_unused [], Redeems 30 7 gift] gift_db)"
proof
  have b: "batchUpdate [1] make_unused between (after_gifts 5 (used_gift 10)) = (Inl ErrRedeemCodeUsed, after_gifts 5 (used_gift 10))" for between
    by (simp add: batchUpdate_def atomically_def and_then_def batch_check_def Let_def after_gifts_def used_gift_def gift_def
        make_unused_def TouchesUsedSensitiveFields_def)
  have c: "fst (batch_check [1] make_unused (after_gifts 5 (used_gift 10))) = Inl ErrRedeemCodeUsed"
    by (simp add: batch_check_def Let_def after_gifts_def used_gift_def gift_def make_unused_def TouchesUsedSensitiveFields_def)
  have r: "redeem_tx gift_env t 7 gift (after_gifts 5 (used_gift 10)) = (Inl ErrRedeemCodeUsed, after_gifts 5 (used_gift 10))" for t
    by (rule used_gift_refused) (simp_all add: used_gift_def gift_def)
  show "granted gift_env [Redeems 10 7 gift, Redeems 20 7 gift, Batches [1] make_unused [], Redeems 30 7 gift] gift_db = [1]"
    by (simp add: gift_redeemed_first r b batch_starts_def c) (simp add: gift_def)
  have "codes_ok gift_db" by (simp add: codes_ok_def gift_db_def gift_def)
  then show "distinct (granted gift_env [Redeems 10 7 gift, Redeems 20 7 gift, Batches [1] make_unused [], Redeems 30 7 gift] gift_db)"
    by (rule no_code_is_granted_twice) simp
qed

text \<open>
  What is left out of the histories: a used code that an administrator expires is no longer used, and
  a batch change makes it redeemable again.
\<close>

lemma expired_used_code_is_granted_again:
  assumes "used_gift 10 = u"
  shows "fst (ExpireRedeemCode 1 \<lparr>db = after_gifts 5 u, faults = []\<rparr>) = Inr (u\<lparr>rc_Status := StatusExpired\<rparr>)"
    and "db (snd (ExpireRedeemCode 1 \<lparr>db = after_gifts 5 u, faults = []\<rparr>)) = after_gifts 5 (u\<lparr>rc_Status := StatusExpired\<rparr>)"
    and "batchUpdate [1] make_unused (\<lambda>d. d) (after_gifts 5 (u\<lparr>rc_Status := StatusExpired\<rparr>))
      = (Inr 1, after_gifts 5 (u\<lparr>rc_Status := StatusUnused\<rparr>))"
    and "fst (redeem_tx env t 7 gift (after_gifts 5 (u\<lparr>rc_Status := StatusUnused\<rparr>))) = Inr ()"
  using assms gift_redeemed [of "u\<lparr>rc_Status := StatusUnused\<rparr>" 5 env t]
  by (auto simp: ExpireRedeemCode_def and_then_def db_simps code_GetByID_def one_code_def after_gifts_def gift_db_def
      used_gift_def gift_def code_Update_def code_valid_def redeem_const_defs change_codes_def gift_amounts Let_def
      batchUpdate_def atomically_def batch_check_def batch_write_def make_unused_def TouchesUsedSensitiveFields_def)

text \<open>A redemption of a balance code that is unused in the table succeeds.\<close>

lemma balance_code_redeemed:
  assumes "\<exists>c \<in> set (codes d). rc_ID c = rc_ID r \<and> rc_Status c = StatusUnused"
    and "rc_Type r = RedeemTypeBalance" and "0 \<le> rc_Value r" and "members d uid \<noteq> None"
  shows "\<exists>d'. redeem_tx env t uid r d = (Inr (), d') \<and> members d' uid \<noteq> None
    \<and> codes d' = map (\<lambda>c. if rc_ID c = rc_ID r \<and> rc_Status c = StatusUnused
        then c\<lparr>rc_Status := StatusUsed, rc_UsedBy := Some uid, rc_UsedAt := Some t\<rparr> else c) (codes d)"
proof -
  let ?p = "\<lambda>c. rc_ID c = rc_ID r \<and> rc_Status c = StatusUnused"
  have "filter ?p (codes d) \<noteq> []" using assms(1) by (simp add: filter_empty_conv)
  moreover obtain u where "members d uid = Some u" using assms(4) by blast
  ultimately show ?thesis
    using assms(2,3)
    by (simp add: redeem_tx_def atomically_def and_then_def Use_def change_codes_def grant_code_def on_members_def on_part_def
        UpdateBalance_def change_member_def)
qed

lemma one_row: "distinct (map k xs) \<Longrightarrow> x \<in> set xs \<Longrightarrow> filter (\<lambda>y. k y = k x) xs = [x]"
  by (induction xs) (auto simp: filter_empty_conv rev_image_eqI)

lemma filter_kept_key:
  assumes "\<And>c. k (g c) = k c"
  shows "filter (\<lambda>c. k c = a) (map g xs) = map g (filter (\<lambda>c. k c = a) xs)"
  using assms by (simp add: filter_map o_def)

text \<open>
  C24. A redemption of a code that commits between the check and the update of a batch change that makes the
  code unused is undone for the code but not for the balance: the next redemption grants the code again. This
  holds of every unused balance code and any user.
\<close>

theorem interrupted_batch_change_grants_twice:
  assumes "codes_ok d" and "r \<in> set (codes d)" and "rc_Status r = StatusUnused" and "rc_Type r = RedeemTypeBalance"
    and "0 \<le> rc_Value r" and "members d uid \<noteq> None"
  shows "granted env [Batches [rc_ID r] make_unused [Redeems t1 uid r], Redeems t2 uid r] d = [rc_ID r, rc_ID r]"
proof -
  let ?use = "\<lambda>c. if rc_ID c = rc_ID r \<and> rc_Status c = StatusUnused
        then c\<lparr>rc_Status := StatusUsed, rc_UsedBy := Some uid, rc_UsedAt := Some t1\<rparr> else c"
  have row: "filter (\<lambda>c. rc_ID c = rc_ID r) (codes d) = [r]" using one_row assms(1,2) by (auto simp: codes_ok_def)
  then have check: "batch_starts [rc_ID r] make_unused d"
    using assms(3) by (simp add: batch_starts_def batch_check_def Let_def redeem_const_defs)
  obtain d1 where d1: "redeem_tx env t1 uid r d = (Inr (), d1)" "members d1 uid \<noteq> None" "codes d1 = map ?use (codes d)"
    using balance_code_redeemed [of d r uid env t1] assms by blast
  have row1: "filter (\<lambda>c. rc_ID c = rc_ID r) (codes d1) = [?use r]"
    using filter_kept_key [of rc_ID ?use "rc_ID r" "codes d"] by (simp add: d1(3) row)
  define d2 where "d2 = snd (atomically (batch_write [rc_ID r] make_unused) d1)"
  have d2: "members d2 = members d1"
      "codes d2 = map (\<lambda>c. if rc_ID c = rc_ID r then c\<lparr>rc_Status := StatusUnused\<rparr> else c) (codes d1)"
    using row1 by (simp_all add: d2_def atomically_def batch_write_def and_then_def change_codes_def make_unused_def)
  have "?use r \<in> set (codes d1)" using assms(2) unfolding d1(3) set_map by (rule imageI)
  then have "(?use r)\<lparr>rc_Status := StatusUnused\<rparr> \<in> set (codes d2)"
    unfolding d2(2) set_map by (rule rev_image_eqI) simp
  then have "\<exists>c \<in> set (codes d2). rc_ID c = rc_ID r \<and> rc_Status c = StatusUnused"
    by (rule rev_bexI) simp
  then obtain d3 where "redeem_tx env t2 uid r d2 = (Inr (), d3)"
    using balance_code_redeemed [of d2 r uid env t2] assms(4,5) d1(2) d2(1) by auto
  then show ?thesis using check d1(1) by (simp add: batchUpdate_steps d2_def)
qed

theorem interrupted_batch_change_grants_twice_witness:
  "granted gift_env [Batches [1] make_unused [Redeems 10 7 gift], Redeems 20 7 gift] gift_db = [1, 1]"
  using interrupted_batch_change_grants_twice [of gift_db gift 7 gift_env 10 20]
  by (simp add: codes_ok_def gift_db_def gift_def)

section \<open>Codes that are never made\<close>

text \<open>A code of \<open>GenerateRandomCode\<close> has 35 bytes, the column holds 32.\<close>

lemma random_code_length:
  assumes "length bytes = 16"
  shows "length (GenerateRandomCode bytes) = 35"
  using assms by (simp add: GenerateRandomCode_def Let_def string_ToUpper_def length_hex)

lemma create_codes_fails:
  assumes "cs \<noteq> []" and "\<And>c. c \<in> set cs \<Longrightarrow> \<not> code_valid c"
  shows "create_codes now cs d = (Inl ErrCodeInvalid, d)"
  using assms by (cases cs) (simp_all add: and_then_def code_Create_def)

lemma GenerateCodes_always_fails:
  assumes "\<And>i. length (random i) = 16"
  shows "\<exists>e. fst (GenerateCodes now n v typ random w) = Inl e"
proof -
  have bad: "\<not> code_valid (blank_code\<lparr>rc_Code := GenerateRandomCode (random i), rc_Type := t, rc_Value := a,
      rc_Status := StatusUnused\<rparr>)" for i t a
    using random_code_length [OF assms] by (simp add: code_valid_def)
  define cs where "cs = (\<lambda>t a. map (\<lambda>i. blank_code\<lparr>rc_Code := GenerateRandomCode (random i), rc_Type := t,
      rc_Value := a, rc_Status := StatusUnused\<rparr>) [0 ..< nat n])"
  have none: "\<nexists>d'. CreateBatch now (cs t a) d = (Inr (), d')" if "0 < n" for t a d
  proof -
    have "cs t a \<noteq> []" using that by (simp add: cs_def)
    moreover have "\<not> code_valid c" if "c \<in> set (cs t a)" for c using that bad by (auto simp: cs_def)
    ultimately show ?thesis using create_codes_fails [of "cs t a" now d]
      by (simp add: CreateBatch_def atomically_def)
  qed
  have "\<exists>e. fst (and_then (db_exec (CreateBatch now (cs t a))) (\<lambda>_. give (cs t a)) w) = Inl e" if "0 < n" for t a
    using none [OF that] db_exec_Inr [of "CreateBatch now (cs t a)" w]
    by (auto simp: and_then_def split: prod.split sum.split)
  then show ?thesis unfolding GenerateCodes_def Let_def cs_def by auto
qed

end
