(* ===== verification/Affiliates.thy ===== *)
theory Affiliates
  imports Subscriptions User_Accounts
begin

text \<open>
  The rebates of inviters: \<open>service/affiliate_service.go\<close> and the tables of
  \<open>repository/affiliate_repo.go\<close>, the profiles and the ledger of what was accrued and transferred. All
  amounts are \<open>NUMERIC(20,8)\<close>. Within a transaction of PostgreSQL nothing can be done after a statement
  that failed, so a taken code is not tried again there. The settings are given; the listings, the
  masking of addresses and the caches are left out.
\<close>

section \<open>Profiles and ledger\<close>

record AffiliateSummary =
  af_UserID :: int
  af_Code :: string
  af_CodeCustom :: bool
  af_RatePercent :: "rat option"
  af_InviterID :: "int option"
  af_Count :: int
  af_Quota :: usd
  af_FrozenQuota :: usd
  af_HistoryQuota :: usd
  af_CreatedAt :: go_time

record transfer_snapshot =
  ts_BalanceAfter :: usd
  ts_AvailableQuotaAfter :: usd
  ts_FrozenQuotaAfter :: usd
  ts_HistoryQuotaAfter :: usd

record ledger_entry =
  al_UserID :: int
  al_Action :: string
  al_Amount :: usd
  al_SourceUserID :: "int option"
  al_SourceOrderID :: "int option"
  al_FrozenUntil :: "go_time option"
  al_Snapshot :: "transfer_snapshot option"
  al_CreatedAt :: go_time

record affiliate_db =
  affiliates :: "AffiliateSummary list"
  affiliate_ledger :: "ledger_entry list"
  affiliate_users :: member_db

definition ErrAffiliateProfileNotFound :: go_error where
  "ErrAffiliateProfileNotFound = NotFound ''AFFILIATE_PROFILE_NOT_FOUND'' ''affiliate profile not found''"
definition ErrAffiliateCodeInvalid :: go_error where
  "ErrAffiliateCodeInvalid = BadRequest ''AFFILIATE_CODE_INVALID'' ''invalid affiliate code''"
definition ErrAffiliateCodeTaken :: go_error where
  "ErrAffiliateCodeTaken = Conflict ''AFFILIATE_CODE_TAKEN'' ''affiliate code already in use''"
definition ErrAffiliateAlreadyBound :: go_error where
  "ErrAffiliateAlreadyBound = Conflict ''AFFILIATE_ALREADY_BOUND'' ''affiliate inviter already bound''"
definition ErrAffiliateQuotaEmpty :: go_error where
  "ErrAffiliateQuotaEmpty = BadRequest ''AFFILIATE_QUOTA_EMPTY'' ''no affiliate quota available to transfer''"

text \<open>Errors of PostgreSQL: a missing user behind a foreign key, and a transaction after a failure.\<close>

definition ErrForeignKey :: go_error where
  "ErrForeignKey = PlainError ''pq: insert or update violates foreign key constraint''"
definition ErrTxAborted :: go_error where
  "ErrTxAborted = PlainError ''pq: current transaction is aborted''"

definition affiliateCodeMaxAttempts :: nat where "affiliateCodeMaxAttempts = 12"

definition affiliateCodeValidChar :: "char \<Rightarrow> bool" where
  "affiliateCodeValidChar c \<longleftrightarrow> c \<in> set ''ABCDEFGHIJKLMNOPQRSTUVWXYZ0123456789_-''"

definition isValidAffiliateCodeFormat :: "string \<Rightarrow> bool" where
  "isValidAffiliateCodeFormat c \<longleftrightarrow> 4 \<le> length c \<and> length c \<le> 32 \<and> (\<forall>x \<in> set c. affiliateCodeValidChar x)"

definition affiliateCodeCharset :: string where
  "affiliateCodeCharset = ''ABCDEFGHJKLMNPQRSTUVWXYZ23456789''"

definition generateAffiliateCode :: "nat list \<Rightarrow> string" where
  "generateAffiliateCode buf = map (\<lambda>b. affiliateCodeCharset ! (b mod length affiliateCodeCharset)) (take 12 buf)"

definition query_affiliate :: "(AffiliateSummary \<Rightarrow> bool) \<Rightarrow> (affiliate_db, go_error + AffiliateSummary) statement" where
  "query_affiliate p d =
     (case find p (affiliates d) of None \<Rightarrow> Inl ErrAffiliateProfileNotFound | Some a \<Rightarrow> Inr a, d)"

definition queryAffiliateByUserID :: "int \<Rightarrow> (affiliate_db, go_error + AffiliateSummary) statement" where
  "queryAffiliateByUserID uid = query_affiliate (\<lambda>a. af_UserID a = uid)"

definition GetAffiliateByCode :: "string \<Rightarrow> (affiliate_db, go_error + AffiliateSummary) statement" where
  "GetAffiliateByCode c = query_affiliate (\<lambda>a. af_Code a = ascii_ToUpper (TrimSpace c))"

definition new_affiliate :: "go_time \<Rightarrow> int \<Rightarrow> string \<Rightarrow> AffiliateSummary" where
  "new_affiliate now uid c =
     \<lparr>af_UserID = uid, af_Code = c, af_CodeCustom = False, af_RatePercent = None, af_InviterID = None, af_Count = 0,
      af_Quota = 0, af_FrozenQuota = 0, af_HistoryQuota = 0, af_CreatedAt = now\<rparr>"

definition insert_affiliate :: "go_time \<Rightarrow> int \<Rightarrow> string \<Rightarrow> (affiliate_db, go_error + unit) statement" where
  "insert_affiliate now uid c d =
     (if \<exists>a \<in> set (affiliates d). af_UserID a = uid then (Inr (), d)
      else if \<exists>a \<in> set (affiliates d). af_Code a = c then (Inl ErrUniqueViolation, d)
      else if affiliate_users d uid = None then (Inl ErrForeignKey, d)
      else (Inr (), d\<lparr>affiliates := affiliates d @ [new_affiliate now uid c]\<rparr>))"

text \<open>The profile of a user, made when missing: in a transaction, and with calls on their own.\<close>

definition ensureUserAffiliate_tx ::
    "go_time \<Rightarrow> string list \<Rightarrow> int \<Rightarrow> (affiliate_db, go_error + AffiliateSummary) statement" where
  "ensureUserAffiliate_tx now cands uid d =
     (case queryAffiliateByUserID uid d of
        (Inr a, d1) \<Rightarrow> (Inr a, d1)
      | (Inl e, d1) \<Rightarrow>
          if \<not> errors_Is e ErrAffiliateProfileNotFound then (Inl e, d1)
          else (case cands of
                  [] \<Rightarrow> queryAffiliateByUserID uid d1
                | c # _ \<Rightarrow> (case insert_affiliate now uid c d1 of
                      (Inr _, d2) \<Rightarrow> queryAffiliateByUserID uid d2
                    | (Inl e, d2) \<Rightarrow> (Inl (if e = ErrUniqueViolation then ErrTxAborted else e), d2))))"

fun try_codes :: "go_time \<Rightarrow> int \<Rightarrow> string list \<Rightarrow> affiliate_db world \<Rightarrow> (go_error + unit) \<times> affiliate_db world" where
  "try_codes now uid [] w = (Inr (), w)"
| "try_codes now uid (c # cs) w =
     (case db_exec (insert_affiliate now uid c) w of
        (Inr _, w1) \<Rightarrow> (Inr (), w1)
      | (Inl e, w1) \<Rightarrow> if e = ErrUniqueViolation then try_codes now uid cs w1 else (Inl e, w1))"

definition ensureUserAffiliateWithClient ::
    "go_time \<Rightarrow> string list \<Rightarrow> int \<Rightarrow> affiliate_db world \<Rightarrow> (go_error + AffiliateSummary) \<times> affiliate_db world" where
  "ensureUserAffiliateWithClient now cands uid w =
     (case db_exec (queryAffiliateByUserID uid) w of
        (Inr a, w1) \<Rightarrow> (Inr a, w1)
      | (Inl e, w1) \<Rightarrow>
          if \<not> errors_Is e ErrAffiliateProfileNotFound then (Inl e, w1)
          else and_then (try_codes now uid (take affiliateCodeMaxAttempts cands))
                 (\<lambda>_. db_exec (queryAffiliateByUserID uid)) w1)"

definition EnsureUserAffiliate ::
    "go_time \<Rightarrow> string list \<Rightarrow> int \<Rightarrow> affiliate_db world \<Rightarrow> (go_error + AffiliateSummary) \<times> affiliate_db world" where
  "EnsureUserAffiliate now cands uid =
     (if uid \<le> 0 then refuse ErrUserNotFound else ensureUserAffiliateWithClient now cands uid)"

definition update_affiliates ::
    "(AffiliateSummary \<Rightarrow> bool) \<Rightarrow> (AffiliateSummary \<Rightarrow> AffiliateSummary) \<Rightarrow> (affiliate_db, go_error + int) statement" where
  "update_affiliates p f d =
     (Inr (int (length (filter p (affiliates d)))),
      d\<lparr>affiliates := map (\<lambda>a. if p a then f a else a) (affiliates d)\<rparr>)"

definition BindInviter :: "go_time \<Rightarrow> string list \<Rightarrow> int \<Rightarrow> int \<Rightarrow> (affiliate_db, go_error + bool) statement" where
  "BindInviter now cands uid inviterID =
     atomically
       (and_then (ensureUserAffiliate_tx now cands uid)
         (\<lambda>_. and_then (ensureUserAffiliate_tx now (drop affiliateCodeMaxAttempts cands) inviterID)
           (\<lambda>_. and_then (update_affiliates (\<lambda>a. af_UserID a = uid \<and> af_InviterID a = None)
                           (\<lambda>a. a\<lparr>af_InviterID := Some inviterID\<rparr>))
             (\<lambda>n. if n = 0 then give False
                  else and_then (update_affiliates (\<lambda>a. af_UserID a = inviterID) (\<lambda>a. a\<lparr>af_Count := af_Count a + 1\<rparr>))
                         (\<lambda>_. give True)))))"

definition insert_ledger :: "ledger_entry \<Rightarrow> (affiliate_db, go_error + unit) statement" where
  "insert_ledger e d =
     (if affiliate_users d (al_UserID e) = None
         \<or> (case al_SourceUserID e of None \<Rightarrow> False | Some s \<Rightarrow> affiliate_users d s = None)
      then (Inl ErrForeignKey, d)
      else (Inr (), d\<lparr>affiliate_ledger := affiliate_ledger d @ [e\<lparr>al_Amount := to_scale (al_Amount e)\<rparr>]\<rparr>))"

definition accrual :: "go_time \<Rightarrow> int \<Rightarrow> int \<Rightarrow> usd \<Rightarrow> int \<Rightarrow> int option \<Rightarrow> ledger_entry" where
  "accrual now inviterID inviteeUserID amount freezeHours sourceOrderID =
     \<lparr>al_UserID = inviterID, al_Action = ''accrue'', al_Amount = amount, al_SourceUserID = Some inviteeUserID,
      al_SourceOrderID = sourceOrderID,
      al_FrozenUntil = (if freezeHours > 0 then Some (now + freezeHours * Hour) else None),
      al_Snapshot = None, al_CreatedAt = now\<rparr>"

definition accrued_profile :: "usd \<Rightarrow> int \<Rightarrow> AffiliateSummary \<Rightarrow> AffiliateSummary" where
  "accrued_profile amount freezeHours a =
     (if freezeHours > 0 then a\<lparr>af_FrozenQuota := to_scale (af_FrozenQuota a + amount)\<rparr>
      else a\<lparr>af_Quota := to_scale (af_Quota a + amount)\<rparr>)\<lparr>af_HistoryQuota := to_scale (af_HistoryQuota a + amount)\<rparr>"

definition accrue_tx ::
    "go_time \<Rightarrow> int \<Rightarrow> int \<Rightarrow> usd \<Rightarrow> int \<Rightarrow> int option \<Rightarrow> (affiliate_db, go_error + bool) statement" where
  "accrue_tx now inviterID inviteeUserID amount freezeHours sourceOrderID =
     and_then (update_affiliates (\<lambda>a. af_UserID a = inviterID) (accrued_profile amount freezeHours))
       (\<lambda>n. if n = 0 then give False
            else and_then (insert_ledger (accrual now inviterID inviteeUserID amount freezeHours sourceOrderID))
                   (\<lambda>_. give True))"

definition AccrueQuota ::
    "go_time \<Rightarrow> int \<Rightarrow> int \<Rightarrow> usd \<Rightarrow> int \<Rightarrow> int option \<Rightarrow> (affiliate_db, go_error + bool) statement" where
  "AccrueQuota now inviterID inviteeUserID amount freezeHours sourceOrderID =
     (if amount \<le> 0 then give False
      else atomically (accrue_tx now inviterID inviteeUserID amount freezeHours sourceOrderID))"

definition GetAccruedRebateFromInvitee :: "int \<Rightarrow> int \<Rightarrow> (affiliate_db, go_error + usd) statement" where
  "GetAccruedRebateFromInvitee inviterID inviteeUserID d =
     (Inr (sum_list (map al_Amount (filter (\<lambda>e. al_UserID e = inviterID \<and> al_SourceUserID e = Some inviteeUserID
        \<and> al_Action e = ''accrue'') (affiliate_ledger d)))), d)"

definition matured :: "go_time \<Rightarrow> int \<Rightarrow> ledger_entry \<Rightarrow> bool" where
  "matured now uid e \<longleftrightarrow> al_UserID e = uid \<and> (case al_FrozenUntil e of None \<Rightarrow> False | Some t \<Rightarrow> t \<le> now)"

definition thaw :: "go_time \<Rightarrow> int \<Rightarrow> ledger_entry \<Rightarrow> ledger_entry" where
  "thaw now uid e = (if matured now uid e then e\<lparr>al_FrozenUntil := None\<rparr> else e)"

definition thawed_profile :: "usd \<Rightarrow> AffiliateSummary \<Rightarrow> AffiliateSummary" where
  "thawed_profile thawed a =
     a\<lparr>af_Quota := to_scale (af_Quota a + thawed), af_FrozenQuota := to_scale (max (af_FrozenQuota a - thawed) 0)\<rparr>"

definition thawFrozenQuotaTx :: "go_time \<Rightarrow> int \<Rightarrow> (affiliate_db, go_error + usd) statement" where
  "thawFrozenQuotaTx now uid d =
     (let thawed = sum_list (map al_Amount (filter (matured now uid) (affiliate_ledger d)));
          d1 = d\<lparr>affiliate_ledger := map (thaw now uid) (affiliate_ledger d)\<rparr>
      in if thawed \<le> 0 then (Inr 0, d1)
         else and_then (update_affiliates (\<lambda>a. af_UserID a = uid) (thawed_profile thawed)) (\<lambda>_. give thawed) d1)"

definition ThawFrozenQuota :: "go_time \<Rightarrow> int \<Rightarrow> (affiliate_db, go_error + usd) statement" where
  "ThawFrozenQuota now uid = atomically (thawFrozenQuotaTx now uid)"

text \<open>The transfer: what is available becomes balance, and the ledger says so.\<close>

definition claim_quota :: "int \<Rightarrow> (affiliate_db, go_error + usd) statement" where
  "claim_quota uid d =
     (case find (\<lambda>a. af_UserID a = uid \<and> af_Quota a > 0) (affiliates d) of
        None \<Rightarrow> (Inl ErrAffiliateQuotaEmpty, d)
      | Some a \<Rightarrow> and_then (update_affiliates (\<lambda>a. af_UserID a = uid) (\<lambda>a. a\<lparr>af_Quota := 0\<rparr>))
                   (\<lambda>_. give (af_Quota a)) d)"

definition credit_user :: "int \<Rightarrow> usd \<Rightarrow> (affiliate_db, go_error + usd) statement" where
  "credit_user uid amount d =
     (case affiliate_users d uid of
        None \<Rightarrow> (Inl ErrUserNotFound, d)
      | Some u \<Rightarrow>
          (let b = to_scale (balance u + amount) in
           (Inr b, d\<lparr>affiliate_users := (affiliate_users d)(uid \<mapsto>
              u\<lparr>balance := b, total_recharged := to_scale (total_recharged u + amount)\<rparr>)\<rparr>)))"

definition queryAffiliateTransferSnapshot :: "int \<Rightarrow> (affiliate_db, go_error + transfer_snapshot) statement" where
  "queryAffiliateTransferSnapshot uid d =
     (case (affiliate_users d uid, find (\<lambda>a. af_UserID a = uid) (affiliates d)) of
        (Some u, Some a) \<Rightarrow> Inr \<lparr>ts_BalanceAfter = balance u, ts_AvailableQuotaAfter = af_Quota a,
           ts_FrozenQuotaAfter = af_FrozenQuota a, ts_HistoryQuotaAfter = af_HistoryQuota a\<rparr>
      | _ \<Rightarrow> Inl ErrUserNotFound, d)"

definition TransferQuotaToBalance ::
    "go_time \<Rightarrow> string list \<Rightarrow> int \<Rightarrow> (affiliate_db, go_error + usd \<times> usd) statement" where
  "TransferQuotaToBalance now cands uid =
     atomically
       (and_then (ensureUserAffiliate_tx now cands uid)
         (\<lambda>_. and_then (thawFrozenQuotaTx now uid)
           (\<lambda>_. and_then (claim_quota uid)
             (\<lambda>transferred. and_then (credit_user uid transferred)
               (\<lambda>newBalance. and_then (queryAffiliateTransferSnapshot uid)
                 (\<lambda>snapshot. and_then
                    (insert_ledger \<lparr>al_UserID = uid, al_Action = ''transfer'', al_Amount = transferred,
                       al_SourceUserID = None, al_SourceOrderID = None, al_FrozenUntil = None,
                       al_Snapshot = Some snapshot, al_CreatedAt = now\<rparr>)
                    (\<lambda>_. give (transferred, newBalance))))))))"

section \<open>Codes and rates of single users\<close>

definition set_code ::
    "bool \<Rightarrow> int \<Rightarrow> string \<Rightarrow> (affiliate_db, go_error + int) statement" where
  "set_code custom uid c d =
     (if (\<exists>a \<in> set (affiliates d). af_UserID a = uid)
         \<and> (\<exists>a \<in> set (affiliates d). af_UserID a \<noteq> uid \<and> af_Code a = c)
      then (Inl ErrUniqueViolation, d)
      else update_affiliates (\<lambda>a. af_UserID a = uid) (\<lambda>a. a\<lparr>af_Code := c, af_CodeCustom := custom\<rparr>) d)"

definition affected_user :: "int \<Rightarrow> (affiliate_db, go_error + unit) statement" where
  "affected_user n = (if n = 0 then refuse ErrUserNotFound else give ())"

definition UpdateUserAffCode ::
    "go_time \<Rightarrow> string list \<Rightarrow> int \<Rightarrow> string \<Rightarrow> (affiliate_db, go_error + unit) statement" where
  "UpdateUserAffCode now cands uid newCode =
     (let c = ascii_ToUpper (TrimSpace newCode) in
      if uid \<le> 0 then refuse ErrUserNotFound
      else if c = [] then refuse ErrAffiliateCodeInvalid
      else atomically
        (and_then (ensureUserAffiliate_tx now cands uid)
          (\<lambda>_ d. case set_code True uid c d of
             (Inl e, d1) \<Rightarrow> (Inl (if e = ErrUniqueViolation then ErrAffiliateCodeTaken else e), d1)
           | (Inr n, d1) \<Rightarrow> affected_user n d1)))"

text \<open>The next candidate is tried in the same transaction, which PostgreSQL has given up by then.\<close>

definition reset_code :: "int \<Rightarrow> string list \<Rightarrow> (affiliate_db, go_error + string) statement" where
  "reset_code uid cands d =
     (case cands of
        [] \<Rightarrow> (Inl (PlainError ''reset aff_code: exhausted attempts''), d)
      | c # cs \<Rightarrow> (case set_code False uid c d of
            (Inr n, d1) \<Rightarrow> and_then (affected_user n) (\<lambda>_. give c) d1
          | (Inl e, d1) \<Rightarrow>
              if e \<noteq> ErrUniqueViolation then (Inl e, d1)
              else if cs = [] then (Inl (PlainError ''reset aff_code: exhausted attempts''), d1)
              else (Inl ErrTxAborted, d1)))"

definition ResetUserAffCode ::
    "go_time \<Rightarrow> string list \<Rightarrow> int \<Rightarrow> (affiliate_db, go_error + string) statement" where
  "ResetUserAffCode now cands uid =
     (if uid \<le> 0 then refuse ErrUserNotFound
      else atomically
        (and_then (ensureUserAffiliate_tx now cands uid)
          (\<lambda>_. reset_code uid (take affiliateCodeMaxAttempts (drop affiliateCodeMaxAttempts cands)))))"

text \<open>The rate has the type \<open>NUMERIC(5,2)\<close>.\<close>

definition SetUserRebateRate ::
    "go_time \<Rightarrow> string list \<Rightarrow> int \<Rightarrow> rat option \<Rightarrow> (affiliate_db, go_error + unit) statement" where
  "SetUserRebateRate now cands uid rate =
     (if uid \<le> 0 then refuse ErrUserNotFound
      else atomically
        (and_then (ensureUserAffiliate_tx now cands uid)
          (\<lambda>_. and_then (update_affiliates (\<lambda>a. af_UserID a = uid) (\<lambda>a. a\<lparr>af_RatePercent := map_option (round_scale 2) rate\<rparr>))
            affected_user)))"

fun ensure_all :: "go_time \<Rightarrow> string list \<Rightarrow> int list \<Rightarrow> (affiliate_db, go_error + unit) statement" where
  "ensure_all now cands [] = give ()"
| "ensure_all now cands (uid # uids) =
     (if uid \<le> 0 then ensure_all now cands uids
      else and_then (ensureUserAffiliate_tx now cands uid)
             (\<lambda>_. ensure_all now (drop affiliateCodeMaxAttempts cands) uids))"

definition BatchSetUserRebateRate ::
    "go_time \<Rightarrow> string list \<Rightarrow> int list \<Rightarrow> rat option \<Rightarrow> (affiliate_db, go_error + unit) statement" where
  "BatchSetUserRebateRate now cands uids rate =
     (if uids = [] then give ()
      else atomically
        (and_then (ensure_all now cands uids)
          (\<lambda>_. and_then (update_affiliates (\<lambda>a. af_UserID a \<in> set uids)
                          (\<lambda>a. a\<lparr>af_RatePercent := map_option (round_scale 2) rate\<rparr>))
            (\<lambda>_. give ()))))"

section \<open>Settings\<close>

text \<open>The numbers of the settings, None where they are missing or cannot be read.\<close>

record affiliate_settings =
  affiliate_enabled :: "bool option"
  affiliate_rebate_rate :: "rat option"
  affiliate_freeze_hours :: "int option"
  affiliate_duration_days :: "int option"
  affiliate_invitee_cap :: "rat option"

definition AffiliateRebateRateDefault :: rat where "AffiliateRebateRateDefault = 20"
definition AffiliateRebateRateMax :: rat where "AffiliateRebateRateMax = 100"
definition AffiliateRebateFreezeHoursMax :: int where "AffiliateRebateFreezeHoursMax = 720"
definition AffiliateRebateDurationDaysMax :: int where "AffiliateRebateDurationDaysMax = 3650"

definition IsAffiliateEnabled :: "affiliate_settings \<Rightarrow> bool" where
  "IsAffiliateEnabled st = (case affiliate_enabled st of None \<Rightarrow> False | Some b \<Rightarrow> b)"

definition clampAffiliateRebateRate :: "rat \<Rightarrow> rat" where
  "clampAffiliateRebateRate v = (if v < 0 then 0 else if v > AffiliateRebateRateMax then AffiliateRebateRateMax else v)"

definition GetAffiliateRebateRatePercent :: "affiliate_settings \<Rightarrow> rat" where
  "GetAffiliateRebateRatePercent st =
     (case affiliate_rebate_rate st of None \<Rightarrow> AffiliateRebateRateDefault | Some v \<Rightarrow> clampAffiliateRebateRate v)"

definition bounded_setting :: "int \<Rightarrow> int option \<Rightarrow> int" where
  "bounded_setting limit v = (case v of None \<Rightarrow> 0 | Some n \<Rightarrow> if n < 0 then 0 else if n > limit then limit else n)"

definition GetAffiliateRebateFreezeHours :: "affiliate_settings \<Rightarrow> int" where
  "GetAffiliateRebateFreezeHours st = bounded_setting AffiliateRebateFreezeHoursMax (affiliate_freeze_hours st)"

definition GetAffiliateRebateDurationDays :: "affiliate_settings \<Rightarrow> int" where
  "GetAffiliateRebateDurationDays st = bounded_setting AffiliateRebateDurationDaysMax (affiliate_duration_days st)"

definition GetAffiliateRebatePerInviteeCap :: "affiliate_settings \<Rightarrow> rat" where
  "GetAffiliateRebatePerInviteeCap st =
     (case affiliate_invitee_cap st of None \<Rightarrow> 0 | Some c \<Rightarrow> if c < 0 then 0 else c)"

definition resolveRebateRatePercent :: "affiliate_settings \<Rightarrow> AffiliateSummary \<Rightarrow> rat" where
  "resolveRebateRatePercent st inviter =
     (case af_RatePercent inviter of
        Some v \<Rightarrow> clampAffiliateRebateRate v
      | None \<Rightarrow> GetAffiliateRebateRatePercent st)"

section \<open>The service\<close>

definition BindInviterByCode ::
    "affiliate_settings \<Rightarrow> go_time \<Rightarrow> string list \<Rightarrow> int \<Rightarrow> string \<Rightarrow> affiliate_db world \<Rightarrow> (go_error + unit) \<times> affiliate_db world" where
  "BindInviterByCode st now cands uid raw =
     (let c = ascii_ToUpper (TrimSpace raw) in
      if c = [] \<or> \<not> IsAffiliateEnabled st then give ()
      else if \<not> isValidAffiliateCodeFormat c then refuse ErrAffiliateCodeInvalid
      else and_then (EnsureUserAffiliate now cands uid)
        (\<lambda>own. if af_InviterID own \<noteq> None then give ()
          else (\<lambda>w. case db_exec (GetAffiliateByCode c) w of
              (Inl e, w1) \<Rightarrow>
                (Inl (if errors_Is e ErrAffiliateProfileNotFound then ErrAffiliateCodeInvalid else e), w1)
            | (Inr inviter, w1) \<Rightarrow>
                if af_UserID inviter \<le> 0 \<or> af_UserID inviter = uid then (Inl ErrAffiliateCodeInvalid, w1)
                else and_then (db_exec (BindInviter now (drop affiliateCodeMaxAttempts cands) uid (af_UserID inviter)))
                       (\<lambda>bound. if bound then give () else refuse ErrAffiliateAlreadyBound) w1)))"

text \<open>
  A rebate for a recharge, over the calls it makes: outside of a transaction each stands for itself,
  inside of one they are its statements.
\<close>

record 'w affiliate_calls =
  call_ensure :: "string list \<Rightarrow> int \<Rightarrow> ('w, go_error + AffiliateSummary) statement"
  call_accrued :: "int \<Rightarrow> int \<Rightarrow> ('w, go_error + usd) statement"
  call_accrue :: "int \<Rightarrow> int \<Rightarrow> usd \<Rightarrow> int \<Rightarrow> int option \<Rightarrow> ('w, go_error + bool) statement"

definition rebate_within_cap ::
    "affiliate_settings \<Rightarrow> 'w affiliate_calls \<Rightarrow> int \<Rightarrow> int \<Rightarrow> usd \<Rightarrow> ('w, go_error + usd option) statement" where
  "rebate_within_cap st calls inviterID inviteeUserID rebate =
     (let cap = GetAffiliateRebatePerInviteeCap st in
      if cap > 0 then
        and_then (call_accrued calls inviterID inviteeUserID)
          (\<lambda>existing. if existing \<ge> cap then give None
             else give (Some (if rebate > cap - existing then round_scale 8 (cap - existing) else rebate)))
      else give (Some rebate))"

definition rebate_expired :: "affiliate_settings \<Rightarrow> calendar \<Rightarrow> go_time \<Rightarrow> AffiliateSummary \<Rightarrow> bool" where
  "rebate_expired st c now invitee \<longleftrightarrow>
     (let days = GetAffiliateRebateDurationDays st in days > 0 \<and> now > AddDays c (af_CreatedAt invitee) days)"

definition AccrueInviteRebateForOrder ::
    "affiliate_settings \<Rightarrow> calendar \<Rightarrow> 'w affiliate_calls \<Rightarrow> go_time \<Rightarrow> string list \<Rightarrow> int \<Rightarrow> usd \<Rightarrow> int option
      \<Rightarrow> ('w, go_error + usd) statement" where
  "AccrueInviteRebateForOrder st c calls now cands inviteeUserID base sourceOrderID =
     (if inviteeUserID \<le> 0 \<or> base \<le> 0 \<or> \<not> IsAffiliateEnabled st then give 0
      else and_then (call_ensure calls cands inviteeUserID)
        (\<lambda>invitee. case af_InviterID invitee of
             None \<Rightarrow> give 0
           | Some inviterID \<Rightarrow>
               if inviterID \<le> 0 then give 0
               else and_then (call_ensure calls (drop affiliateCodeMaxAttempts cands) inviterID)
                 (\<lambda>inviter.
                    (let rebate = round_scale 8 (base * (resolveRebateRatePercent st inviter / 100)) in
                     if rebate_expired st c now invitee \<or> rebate \<le> 0 then give 0
                     else and_then (rebate_within_cap st calls inviterID inviteeUserID rebate)
                       (\<lambda>r. case r of
                            None \<Rightarrow> give 0
                          | Some amount \<Rightarrow>
                              and_then (call_accrue calls inviterID inviteeUserID amount
                                 (GetAffiliateRebateFreezeHours st) sourceOrderID)
                                (\<lambda>applied. give (if applied then amount else 0)))))))"

definition separate_calls :: "go_time \<Rightarrow> affiliate_db world affiliate_calls" where
  "separate_calls now =
     \<lparr>call_ensure = EnsureUserAffiliate now, call_accrued = (\<lambda>i u. db_exec (GetAccruedRebateFromInvitee i u)),
      call_accrue = (\<lambda>i u x h src. if x \<le> 0 then give False else db_exec (AccrueQuota now i u x h src))\<rparr>"

definition calls_in_tx :: "go_time \<Rightarrow> affiliate_db affiliate_calls" where
  "calls_in_tx now =
     \<lparr>call_ensure = (\<lambda>cands uid. if uid \<le> 0 then refuse ErrUserNotFound else ensureUserAffiliate_tx now cands uid),
      call_accrued = GetAccruedRebateFromInvitee,
      call_accrue = (\<lambda>i u x h src. if x \<le> 0 then give False else accrue_tx now i u x h src)\<rparr>"

definition validateExclusiveRate :: "rat option \<Rightarrow> go_error option" where
  "validateExclusiveRate rate =
     (case rate of
        None \<Rightarrow> None
      | Some v \<Rightarrow> if v < 0 \<or> v > AffiliateRebateRateMax
                  then Some (BadRequest ''INVALID_RATE'' ''rebate rate out of range'') else None)"

definition AdminUpdateUserAffCode ::
    "go_time \<Rightarrow> string list \<Rightarrow> int \<Rightarrow> string \<Rightarrow> (affiliate_db, go_error + unit) statement" where
  "AdminUpdateUserAffCode now cands uid raw =
     (let c = ascii_ToUpper (TrimSpace raw) in
      if \<not> isValidAffiliateCodeFormat c then refuse ErrAffiliateCodeInvalid else UpdateUserAffCode now cands uid c)"

definition AdminSetUserRebateRate ::
    "go_time \<Rightarrow> string list \<Rightarrow> int \<Rightarrow> rat option \<Rightarrow> (affiliate_db, go_error + unit) statement" where
  "AdminSetUserRebateRate now cands uid rate =
     (case validateExclusiveRate rate of Some e \<Rightarrow> refuse e | None \<Rightarrow> SetUserRebateRate now cands uid rate)"

definition AdminBatchSetUserRebateRate ::
    "go_time \<Rightarrow> string list \<Rightarrow> int list \<Rightarrow> rat option \<Rightarrow> (affiliate_db, go_error + unit) statement" where
  "AdminBatchSetUserRebateRate now cands uids rate =
     (case validateExclusiveRate rate of
        Some e \<Rightarrow> refuse e
      | None \<Rightarrow> BatchSetUserRebateRate now cands (filter (\<lambda>uid. uid > 0) uids) rate)"

definition GetAffiliateDetail ::
    "affiliate_settings \<Rightarrow> go_time \<Rightarrow> string list \<Rightarrow> int \<Rightarrow> affiliate_db world
      \<Rightarrow> (go_error + AffiliateSummary \<times> rat) \<times> affiliate_db world" where
  "GetAffiliateDetail st now cands uid w =
     (let w1 = snd (db_exec (ThawFrozenQuota now uid) w) in
      if uid \<le> 0 then (Inl (BadRequest ''INVALID_USER'' ''invalid user''), w1)
      else and_then (EnsureUserAffiliate now cands uid)
             (\<lambda>a. give (a, resolveRebateRatePercent st a)) w1)"

end
