(* ===== verification/Promo.thy ===== *)
theory Promo
  imports Redeem Affiliates
begin

text \<open>
  Promo codes of new users: \<open>service/promo_code.go\<close>, \<open>service/promo_service.go\<close> and their tables
  (\<open>repository/promo_code_repo.go\<close>, \<open>migrations/033_add_promo_codes.sql\<close>). A code is applied in one
  transaction that holds the lock of its row, so that applications and changes of a code do not
  interleave. The comparison of codes regardless of case is the database's and the case table of
  Unicode is not written out: both are arguments. The caches dropped after the commit do not change
  the outcome and are left out, as are the listings.
\<close>

section \<open>Codes and their uses\<close>

definition PromoCodeStatusActive :: string where "PromoCodeStatusActive = ''active''"
definition PromoCodeStatusDisabled :: string where "PromoCodeStatusDisabled = ''disabled''"

record PromoCode =
  pr_ID :: int
  pr_Code :: string
  pr_BonusAmount :: usd
  pr_MaxUses :: int
  pr_UsedCount :: int
  pr_Status :: string
  pr_ExpiresAt :: "go_time option"
  pr_Notes :: string
  pr_CreatedAt :: go_time
  pr_UpdatedAt :: go_time

record PromoCodeUsage =
  ps_ID :: int
  ps_PromoCodeID :: int
  ps_UserID :: int
  ps_BonusAmount :: usd
  ps_UsedAt :: go_time

definition ErrPromoCodeNotFound :: go_error where
  "ErrPromoCodeNotFound = NotFound ''PROMO_CODE_NOT_FOUND'' ''promo code not found''"
definition ErrPromoCodeExpired :: go_error where
  "ErrPromoCodeExpired = BadRequest ''PROMO_CODE_EXPIRED'' ''promo code has expired''"
definition ErrPromoCodeDisabled :: go_error where
  "ErrPromoCodeDisabled = BadRequest ''PROMO_CODE_DISABLED'' ''promo code is disabled''"
definition ErrPromoCodeMaxUsed :: go_error where
  "ErrPromoCodeMaxUsed = BadRequest ''PROMO_CODE_MAX_USED'' ''promo code has reached maximum uses''"
definition ErrPromoCodeAlreadyUsed :: go_error where
  "ErrPromoCodeAlreadyUsed = Conflict ''PROMO_CODE_ALREADY_USED'' ''you have already used this promo code''"
definition ErrPromoCodeInvalid :: go_error where
  "ErrPromoCodeInvalid = BadRequest ''PROMO_CODE_INVALID'' ''invalid promo code''"

definition promo_IsExpired :: "go_time \<Rightarrow> PromoCode \<Rightarrow> bool" where
  "promo_IsExpired now p \<longleftrightarrow> (case pr_ExpiresAt p of None \<Rightarrow> False | Some t \<Rightarrow> now > t)"

definition promo_CanUse :: "go_time \<Rightarrow> PromoCode \<Rightarrow> bool" where
  "promo_CanUse now p \<longleftrightarrow>
     (if pr_Status p \<noteq> PromoCodeStatusActive then False
      else if (case pr_ExpiresAt p of None \<Rightarrow> False | Some t \<Rightarrow> now > t) then False
      else if pr_MaxUses p > 0 \<and> pr_UsedCount p \<ge> pr_MaxUses p then False
      else True)"

text \<open>The clock is read for each question: its readings are numbered.\<close>

type_synonym clock = "nat \<Rightarrow> go_time"

definition validatePromoCodeStatus :: "clock \<Rightarrow> PromoCode \<Rightarrow> go_error option" where
  "validatePromoCodeStatus clock p =
     (if \<not> promo_CanUse (clock 0) p
      then (if promo_IsExpired (clock 1) p then Some ErrPromoCodeExpired
            else if pr_Status p = PromoCodeStatusDisabled then Some ErrPromoCodeDisabled
            else if pr_MaxUses p > 0 \<and> pr_UsedCount p \<ge> pr_MaxUses p then Some ErrPromoCodeMaxUsed
            else Some ErrPromoCodeInvalid)
      else None)"

section \<open>The tables\<close>

record promo_db =
  promo_codes :: "PromoCode list"
  promo_serial :: int
  promo_usages :: "PromoCodeUsage list"
  usage_serial :: int
  promo_members :: member_db

record promo_env =
  EqualFold :: "string \<Rightarrow> string \<Rightarrow> bool"
  strings_ToUpper :: "string \<Rightarrow> string"

definition on_promo_members :: "(member_db, 'a) statement \<Rightarrow> (promo_db, 'a) statement" where
  "on_promo_members = on_part promo_members (\<lambda>m d. d\<lparr>promo_members := m\<rparr>)"

definition ErrPromoInvalid :: go_error where
  "ErrPromoInvalid = PlainError ''ent: validator failed for field PromoCode''"

definition promo_valid :: "PromoCode \<Rightarrow> bool" where
  "promo_valid p \<longleftrightarrow> pr_Code p \<noteq> '''' \<and> length (pr_Code p) \<le> 32 \<and> length (pr_Status p) \<le> 20"

definition promo_Create :: "go_time \<Rightarrow> PromoCode \<Rightarrow> (promo_db, go_error + PromoCode) statement" where
  "promo_Create now p d =
     (if \<not> promo_valid p then (Inl ErrPromoInvalid, d)
      else if \<exists>q \<in> set (promo_codes d). pr_Code q = pr_Code p then (Inl ErrUniqueViolation, d)
      else (let p' = p\<lparr>pr_ID := promo_serial d, pr_CreatedAt := now, pr_UpdatedAt := now\<rparr>
            in (Inr p', d\<lparr>promo_codes := promo_codes d @ [p'\<lparr>pr_BonusAmount := to_scale (pr_BonusAmount p)\<rparr>],
                          promo_serial := promo_serial d + 1\<rparr>)))"

text \<open>\<open>Only\<close> wants exactly one row.\<close>

definition ErrPromoNotSingular :: go_error where
  "ErrPromoNotSingular = PlainError ''ent: promo_code not singular''"

definition only_promo :: "(PromoCode \<Rightarrow> bool) \<Rightarrow> (promo_db, go_error + PromoCode) statement" where
  "only_promo q d =
     (case filter q (promo_codes d) of
        [] \<Rightarrow> Inl ErrPromoCodeNotFound | [p] \<Rightarrow> Inr p | _ \<Rightarrow> Inl ErrPromoNotSingular, d)"

definition promo_GetByID :: "int \<Rightarrow> (promo_db, go_error + PromoCode) statement" where
  "promo_GetByID i = only_promo (\<lambda>p. pr_ID p = i)"

definition promo_GetByCode :: "promo_env \<Rightarrow> string \<Rightarrow> (promo_db, go_error + PromoCode) statement" where
  "promo_GetByCode env c = only_promo (\<lambda>p. EqualFold env (pr_Code p) c)"

text \<open>The lock lasts until the transaction ends; here the transaction is one step.\<close>

definition GetByCodeForUpdate :: "promo_env \<Rightarrow> string \<Rightarrow> (promo_db, go_error + PromoCode) statement" where
  "GetByCodeForUpdate env c = only_promo (\<lambda>p. EqualFold env (pr_Code p) c)"

definition change_promo :: "int \<Rightarrow> (PromoCode \<Rightarrow> PromoCode) \<Rightarrow> promo_db \<Rightarrow> promo_db" where
  "change_promo i f d = d\<lparr>promo_codes := map (\<lambda>p. if pr_ID p = i then f p else p) (promo_codes d)\<rparr>"

text \<open>What an administrator may edit is written; the count of the uses is not.\<close>

definition promo_Update :: "go_time \<Rightarrow> PromoCode \<Rightarrow> (promo_db, go_error + PromoCode) statement" where
  "promo_Update now p d =
     (if \<not> promo_valid p then (Inl ErrPromoInvalid, d)
      else if \<forall>q \<in> set (promo_codes d). pr_ID q \<noteq> pr_ID p then (Inl ErrPromoCodeNotFound, d)
      else if \<exists>q \<in> set (promo_codes d). pr_ID q \<noteq> pr_ID p \<and> pr_Code q = pr_Code p then (Inl ErrUniqueViolation, d)
      else (Inr (p\<lparr>pr_UpdatedAt := now\<rparr>), change_promo (pr_ID p)
              (\<lambda>q. q\<lparr>pr_Code := pr_Code p, pr_BonusAmount := to_scale (pr_BonusAmount p), pr_MaxUses := pr_MaxUses p,
                      pr_Status := pr_Status p, pr_ExpiresAt := pr_ExpiresAt p, pr_Notes := pr_Notes p,
                      pr_UpdatedAt := now\<rparr>) d))"

text \<open>The records of the uses go with their code.\<close>

definition promo_Delete :: "int \<Rightarrow> (promo_db, go_error + unit) statement" where
  "promo_Delete i d =
     (Inr (), d\<lparr>promo_codes := filter (\<lambda>p. pr_ID p \<noteq> i) (promo_codes d),
                promo_usages := filter (\<lambda>u. ps_PromoCodeID u \<noteq> i) (promo_usages d)\<rparr>)"

definition CreateUsage :: "PromoCodeUsage \<Rightarrow> (promo_db, go_error + PromoCodeUsage) statement" where
  "CreateUsage u d =
     (if \<exists>v \<in> set (promo_usages d). ps_PromoCodeID v = ps_PromoCodeID u \<and> ps_UserID v = ps_UserID u
      then (Inl ErrUniqueViolation, d)
      else if (\<forall>p \<in> set (promo_codes d). pr_ID p \<noteq> ps_PromoCodeID u) \<or> promo_members d (ps_UserID u) = None
      then (Inl ErrForeignKey, d)
      else (let u' = u\<lparr>ps_ID := usage_serial d\<rparr>
            in (Inr u', d\<lparr>promo_usages := promo_usages d @ [u'\<lparr>ps_BonusAmount := to_scale (ps_BonusAmount u)\<rparr>],
                          usage_serial := usage_serial d + 1\<rparr>)))"

definition GetUsageByPromoCodeAndUser :: "int \<Rightarrow> int \<Rightarrow> (promo_db, go_error + PromoCodeUsage option) statement" where
  "GetUsageByPromoCodeAndUser i uid d =
     (case filter (\<lambda>u. ps_PromoCodeID u = i \<and> ps_UserID u = uid) (promo_usages d) of
        [] \<Rightarrow> Inr None | [u] \<Rightarrow> Inr (Some u) | _ \<Rightarrow> Inl (PlainError ''ent: promo_code_usage not singular''), d)"

definition IncrementUsedCount :: "go_time \<Rightarrow> int \<Rightarrow> (promo_db, go_error + unit) statement" where
  "IncrementUsedCount now i d =
     (if \<forall>p \<in> set (promo_codes d). pr_ID p \<noteq> i then (Inl (PlainError ''ent: promo_code not found''), d)
      else (Inr (), change_promo i (\<lambda>p. p\<lparr>pr_UsedCount := pr_UsedCount p + 1, pr_UpdatedAt := now\<rparr>) d))"

section \<open>The service\<close>

definition ValidatePromoCode ::
    "promo_env \<Rightarrow> clock \<Rightarrow> string \<Rightarrow> promo_db world \<Rightarrow> (go_error + PromoCode option) \<times> promo_db world" where
  "ValidatePromoCode env clock code =
     (let c = TrimSpace code in
      if c = '''' then give None
      else and_then (db_exec (promo_GetByCode env c))
             (\<lambda>p. case validatePromoCodeStatus clock p of Some e \<Rightarrow> refuse e | None \<Rightarrow> give (Some p)))"

definition apply_usable :: "clock \<Rightarrow> int \<Rightarrow> PromoCode \<Rightarrow> (promo_db, go_error + unit) statement" where
  "apply_usable clock userID p =
     and_then (GetUsageByPromoCodeAndUser (pr_ID p) userID)
       (\<lambda>existing. if existing \<noteq> None then refuse ErrPromoCodeAlreadyUsed
        else and_then (on_promo_members (UpdateBalance userID (pr_BonusAmount p)))
          (\<lambda>_. and_then (CreateUsage \<lparr>ps_ID = 0, ps_PromoCodeID = pr_ID p, ps_UserID = userID,
                                      ps_BonusAmount = pr_BonusAmount p, ps_UsedAt = clock 2\<rparr>)
             (\<lambda>_. IncrementUsedCount (clock 3) (pr_ID p))))"

definition apply_tx :: "promo_env \<Rightarrow> clock \<Rightarrow> int \<Rightarrow> string \<Rightarrow> (promo_db, go_error + unit) statement" where
  "apply_tx env clock userID c =
     atomically (and_then (GetByCodeForUpdate env c)
       (\<lambda>p. case validatePromoCodeStatus clock p of
          Some e \<Rightarrow> refuse e
        | None \<Rightarrow> apply_usable clock userID p))"

definition ApplyPromoCode ::
    "promo_env \<Rightarrow> clock \<Rightarrow> int \<Rightarrow> string \<Rightarrow> promo_db world \<Rightarrow> (go_error + unit) \<times> promo_db world" where
  "ApplyPromoCode env clock userID code =
     (let c = TrimSpace code in if c = '''' then give () else db_exec (apply_tx env clock userID c))"

definition GenerateRandomPromoCode :: "int list \<Rightarrow> string" where
  "GenerateRandomPromoCode bytes = string_ToUpper (hex_EncodeToString bytes)"

record CreatePromoCodeInput =
  cp_Code :: string
  cp_BonusAmount :: usd
  cp_MaxUses :: int
  cp_ExpiresAt :: "go_time option"
  cp_Notes :: string

text \<open>\<open>random\<close>: eight bytes, or the error of the source of randomness.\<close>

definition CreatePromoCode ::
    "promo_env \<Rightarrow> go_time \<Rightarrow> go_error + int list \<Rightarrow> CreatePromoCodeInput \<Rightarrow> promo_db world
       \<Rightarrow> (go_error + PromoCode) \<times> promo_db world" where
  "CreatePromoCode env now random input =
     (case (let c = TrimSpace (cp_Code input) in
            if c \<noteq> '''' then Inr c
            else (case random of Inl e \<Rightarrow> Inl e | Inr bytes \<Rightarrow> Inr (GenerateRandomPromoCode bytes))) of
        Inl e \<Rightarrow> refuse e
      | Inr c \<Rightarrow>
          db_exec (promo_Create now
            \<lparr>pr_ID = 0, pr_Code = strings_ToUpper env c, pr_BonusAmount = cp_BonusAmount input,
             pr_MaxUses = cp_MaxUses input, pr_UsedCount = 0, pr_Status = PromoCodeStatusActive,
             pr_ExpiresAt = cp_ExpiresAt input, pr_Notes = cp_Notes input, pr_CreatedAt = 0, pr_UpdatedAt = 0\<rparr>))"

record UpdatePromoCodeInput =
  up_Code :: "string option"
  up_BonusAmount :: "usd option"
  up_MaxUses :: "int option"
  up_Status :: "string option"
  up_ExpiresAt :: "go_time option"
  up_Notes :: "string option"

definition edit_promo :: "promo_env \<Rightarrow> UpdatePromoCodeInput \<Rightarrow> PromoCode \<Rightarrow> PromoCode" where
  "edit_promo env input p =
     p\<lparr>pr_Code := (case up_Code input of None \<Rightarrow> pr_Code p | Some c \<Rightarrow> strings_ToUpper env (TrimSpace c)),
       pr_BonusAmount := (case up_BonusAmount input of None \<Rightarrow> pr_BonusAmount p | Some b \<Rightarrow> b),
       pr_MaxUses := (case up_MaxUses input of None \<Rightarrow> pr_MaxUses p | Some m \<Rightarrow> m),
       pr_Status := (case up_Status input of None \<Rightarrow> pr_Status p | Some s \<Rightarrow> s),
       pr_ExpiresAt := (case up_ExpiresAt input of None \<Rightarrow> pr_ExpiresAt p | Some t \<Rightarrow> if t = 0 then None else Some t),
       pr_Notes := (case up_Notes input of None \<Rightarrow> pr_Notes p | Some n \<Rightarrow> n)\<rparr>"

definition UpdatePromoCode ::
    "promo_env \<Rightarrow> go_time \<Rightarrow> int \<Rightarrow> UpdatePromoCodeInput \<Rightarrow> promo_db world
       \<Rightarrow> (go_error + PromoCode) \<times> promo_db world" where
  "UpdatePromoCode env now i input =
     and_then (db_exec (promo_GetByID i)) (\<lambda>p. db_exec (promo_Update now (edit_promo env input p)))"

definition DeletePromoCode :: "int \<Rightarrow> promo_db world \<Rightarrow> (go_error + unit) \<times> promo_db world" where
  "DeletePromoCode i = db_exec (promo_Delete i)"

end
