(* ===== verification/Promo_Facts.thy ===== *)
theory Promo_Facts
  imports Promo
begin

text \<open>
  What keeps the promo codes right: in any history of applications, creations, edits and deletions a
  user gets the bonus of a code at most once, a code gives its bonus no more often than its limit allows,
  and balances grow by exactly the bonuses given.
\<close>

section \<open>One application\<close>




text \<open>The bonus a use of a code writes down.\<close>

definition use_row :: "promo_db \<Rightarrow> clock \<Rightarrow> int \<Rightarrow> PromoCode \<Rightarrow> PromoCodeUsage" where
  "use_row d clock uid p = \<lparr>ps_ID = usage_serial d, ps_PromoCodeID = pr_ID p, ps_UserID = uid,
     ps_BonusAmount = to_scale (pr_BonusAmount p), ps_UsedAt = clock 2\<rparr>"

definition paid_member :: "usd \<Rightarrow> member \<Rightarrow> member" where
  "paid_member x u = u\<lparr>balance := to_scale (balance u + x),
     total_recharged := (if x > 0 then to_scale (total_recharged u + x) else total_recharged u)\<rparr>"

definition used_once_more :: "go_time \<Rightarrow> PromoCode \<Rightarrow> PromoCode" where
  "used_once_more now p = p\<lparr>pr_UsedCount := pr_UsedCount p + 1, pr_UpdatedAt := now\<rparr>"






section \<open>Histories\<close>

text \<open>
  What is done to the codes, in the order it is committed. An edit comes with whatever copy of its code the
  administrator's request has read, however long ago.
\<close>

datatype promo_event =
    Applied clock int string
  | Issued go_time PromoCode
  | Edited go_time PromoCode
  | Withdrawn int

text \<open>An application that succeeds gives the bonus it writes down.\<close>

fun promo_exec :: "promo_env \<Rightarrow> promo_event \<Rightarrow> promo_db \<Rightarrow> PromoCodeUsage option \<times> promo_db" where
  "promo_exec env (Applied clock uid c) d =
     (case apply_tx env clock uid c d of (Inl _, d') \<Rightarrow> (None, d') | (Inr _, d') \<Rightarrow> (Some (last (promo_usages d')), d'))"
| "promo_exec env (Issued now p) d = (None, snd (promo_Create now (p\<lparr>pr_UsedCount := 0\<rparr>) d))"
| "promo_exec env (Edited now p) d = (None, snd (promo_Update now p d))"
| "promo_exec env (Withdrawn i) d = (None, snd (promo_Delete i d))"


section \<open>The invariant of the tables\<close>

definition uses_of :: "int \<Rightarrow> PromoCodeUsage list \<Rightarrow> PromoCodeUsage list" where
  "uses_of i us = filter (\<lambda>u. ps_PromoCodeID u = i) us"

lemma uses_of_append [simp]: "uses_of i (us @ vs) = uses_of i us @ uses_of i vs"
  and uses_of_one [simp]: "uses_of i [u] = (if ps_PromoCodeID u = i then [u] else [])"
  and uses_of_none [simp]: "uses_of i [] = []"
  by (simp_all add: uses_of_def)





lemma used_once_more_simps [simp]:
  "pr_ID (used_once_more now p) = pr_ID p" "pr_MaxUses (used_once_more now p) = pr_MaxUses p"
  "pr_UsedCount (used_once_more now p) = pr_UsedCount p + 1"
  by (simp_all add: used_once_more_def)


lemma use_row_simps [simp]:
  "ps_PromoCodeID (use_row d clock uid p) = pr_ID p" "ps_UserID (use_row d clock uid p) = uid"
  "ps_BonusAmount (use_row d clock uid p) = to_scale (pr_BonusAmount p)"
  by (simp_all add: use_row_def)

















section \<open>Once for a user, within the limit\<close>








section \<open>Balances\<close>



lemma used_once_more_bonus [simp]: "pr_BonusAmount (used_once_more now p) = pr_BonusAmount p"
  by (simp add: used_once_more_def)

lemma paid_balance [simp]: "balance (paid_member x u) = to_scale (balance u + x)"
  by (simp add: paid_member_def)












section \<open>The calls of the service are the events\<close>

lemma exec_applied: "snd (promo_exec env (Applied clock uid c) d) = snd (apply_tx env clock uid c d)"
  by (simp split: prod.split sum.split)

definition promo_event_or_nothing :: "promo_env \<Rightarrow> promo_db \<Rightarrow> promo_db \<Rightarrow> bool" where
  "promo_event_or_nothing env d d' \<longleftrightarrow> d' = d \<or> (\<exists>e. d' = snd (promo_exec env e d))"

lemma no_promo_event [simp]: "promo_event_or_nothing env d d"
  by (simp add: promo_event_or_nothing_def)

lemma one_promo_event:
  assumes "snd (st (db w)) = snd (promo_exec env e (db w))"
  shows "promo_event_or_nothing env (db w) (db (snd (db_exec st w)))"
  using db_exec_db [of st w] assms by (auto simp: promo_event_or_nothing_def)

text \<open>Whatever becomes of its calls, an operation of the service amounts to one event or to none.\<close>

lemma promo_calls_are_events:
  "promo_event_or_nothing env (db w) (db (snd (ApplyPromoCode env clock uid code w)))"
  "promo_event_or_nothing env (db w) (db (snd (CreatePromoCode env now random input w)))"
  "promo_event_or_nothing env (db w) (db (snd (UpdatePromoCode env now i edit w)))"
  "promo_event_or_nothing env (db w) (db (snd (DeletePromoCode i w)))"
  "promo_event_or_nothing env (db w) (db (snd (ValidatePromoCode env clock code w)))"
proof -
  show "promo_event_or_nothing env (db w) (db (snd (ApplyPromoCode env clock uid code w)))"
  proof (cases "TrimSpace code = ''''")
    case False
    then show ?thesis
      using one_promo_event [of "apply_tx env clock uid (TrimSpace code)" w env "Applied clock uid (TrimSpace code)"] exec_applied by (simp add: ApplyPromoCode_def Let_def)
  qed (simp add: ApplyPromoCode_def Let_def)
  show "promo_event_or_nothing env (db w) (db (snd (DeletePromoCode i w)))"
    unfolding DeletePromoCode_def by (rule one_promo_event [of _ _ _ "Withdrawn i"]) simp
  have made: "promo_event_or_nothing env (db w) (db (snd (db_exec (promo_Create now p) w)))" if "pr_UsedCount p = 0" for p
  proof -
    have "p\<lparr>pr_UsedCount := 0\<rparr> = p" using that by (cases p) simp
    then show ?thesis by (intro one_promo_event [of _ _ _ "Issued now p"]) simp
  qed
  show "promo_event_or_nothing env (db w) (db (snd (CreatePromoCode env now random input w)))"
    unfolding CreatePromoCode_def using made by (auto split: sum.split)
  have read: "db w1 = db w" if "db_exec (only_promo q) w = (x, w1)" for q x w1
    using db_exec_keeps [OF that, of "\<lambda>d. d"] by (simp add: only_promo_def)
  show "promo_event_or_nothing env (db w) (db (snd (UpdatePromoCode env now i edit w)))"
  proof (cases "db_exec (promo_GetByID i) w")
    case (Pair x w1)
    then have k: "db w1 = db w" using read by (simp add: promo_GetByID_def)
    show ?thesis
    proof (cases x)
      case (Inr p)
      then show ?thesis
        using Pair one_promo_event [of "promo_Update now (edit_promo env edit p)" w1 env
            "Edited now (edit_promo env edit p)"] k
        by (simp add: UpdatePromoCode_def and_then_def)
    qed (use Pair k in \<open>simp add: UpdatePromoCode_def and_then_def\<close>)
  qed
  show "promo_event_or_nothing env (db w) (db (snd (ValidatePromoCode env clock code w)))"
  proof (cases "db_exec (promo_GetByCode env (TrimSpace code)) w")
    case (Pair x w1)
    then have "db w1 = db w" using read by (simp add: promo_GetByCode_def)
    then show ?thesis using Pair by (auto simp: ValidatePromoCode_def Let_def and_then_def split: sum.split option.split)
  qed
qed

end
