(* ===== verification/Affiliates_Facts.thy ===== *)
theory Affiliates_Facts
  imports Affiliates
begin

text \<open>
  The books of the rebates: what a profile shows is what its ledger adds up to, whatever is bound,
  accrued, thawed, transferred or set.
\<close>

section \<open>The books\<close>

definition total :: "(ledger_entry \<Rightarrow> bool) \<Rightarrow> ledger_entry list \<Rightarrow> usd" where
  "total p es = sum_list (map al_Amount (filter p es))"

definition accrued_by :: "int \<Rightarrow> ledger_entry \<Rightarrow> bool" where
  "accrued_by uid e \<longleftrightarrow> al_UserID e = uid \<and> al_Action e = ''accrue''"

definition transferred_by :: "int \<Rightarrow> ledger_entry \<Rightarrow> bool" where
  "transferred_by uid e \<longleftrightarrow> al_UserID e = uid \<and> al_Action e = ''transfer''"

definition frozen_for :: "int \<Rightarrow> ledger_entry \<Rightarrow> bool" where
  "frozen_for uid e \<longleftrightarrow> al_UserID e = uid \<and> al_FrozenUntil e \<noteq> None"

definition balanced :: "ledger_entry list \<Rightarrow> AffiliateSummary \<Rightarrow> bool" where
  "balanced es a \<longleftrightarrow>
     af_HistoryQuota a = total (accrued_by (af_UserID a)) es
     \<and> af_FrozenQuota a = total (frozen_for (af_UserID a)) es
     \<and> af_Quota a + af_FrozenQuota a + total (transferred_by (af_UserID a)) es = af_HistoryQuota a
     \<and> 0 \<le> af_Quota a"

definition entry_ok :: "ledger_entry \<Rightarrow> bool" where
  "entry_ok e \<longleftrightarrow> 0 \<le> al_Amount e \<and> on_scale 8 (al_Amount e)
     \<and> (al_Action e = ''accrue'' \<or> al_Action e = ''transfer'' \<and> al_FrozenUntil e = None)"

definition books :: "AffiliateSummary list \<Rightarrow> ledger_entry list \<Rightarrow> bool" where
  "books as es \<longleftrightarrow> distinct (map af_UserID as)
     \<and> (\<forall>a \<in> set as. balanced es a)
     \<and> (\<forall>e \<in> set es. entry_ok e \<and> al_UserID e \<in> af_UserID ` set as)"

abbreviation books_ok :: "affiliate_db \<Rightarrow> bool" where
  "books_ok d \<equiv> books (affiliates d) (affiliate_ledger d)"

lemma total_simps [simp]:
  "total p [] = 0"
  "total p (es @ [e]) = total p es + (if p e then al_Amount e else 0)"
  by (simp_all add: total_def)

lemma total_none: "(\<And>e. e \<in> set es \<Longrightarrow> \<not> p e) \<Longrightarrow> total p es = 0"
  by (induction es) (auto simp: total_def)

lemma total_nonneg: "(\<And>e. e \<in> set es \<Longrightarrow> entry_ok e) \<Longrightarrow> 0 \<le> total p es"
  unfolding total_def by (intro sum_list_nonneg) (auto simp: entry_ok_def)

lemma total_on_scale: "(\<And>e. e \<in> set es \<Longrightarrow> entry_ok e) \<Longrightarrow> on_scale 8 (total p es)"
  by (induction es) (auto simp: total_def entry_ok_def on_scale_plus)

text \<open>What is owed to a user is on the scale of its column.\<close>

lemma books_on_scale:
  assumes "books_ok d" and "a \<in> set (affiliates d)"
  shows "on_scale 8 (af_Quota a)" "on_scale 8 (af_FrozenQuota a)" "on_scale 8 (af_HistoryQuota a)"
    "0 \<le> af_Quota a" "0 \<le> af_FrozenQuota a" "0 \<le> af_HistoryQuota a"
proof -
  let ?t = "\<lambda>p. total (p (af_UserID a)) (affiliate_ledger d)"
  from assms have b: "af_HistoryQuota a = ?t accrued_by" "af_FrozenQuota a = ?t frozen_for"
      "af_Quota a = ?t accrued_by - ?t frozen_for - ?t transferred_by" "0 \<le> af_Quota a"
    by (auto simp: books_def balanced_def)
  have e: "\<And>e. e \<in> set (affiliate_ledger d) \<Longrightarrow> entry_ok e" using assms(1) by (simp add: books_def)
  have s: "on_scale 8 (?t p)" for p by (rule total_on_scale [OF e])
  have n: "0 \<le> ?t p" for p by (rule total_nonneg [OF e])
  show "on_scale 8 (af_Quota a)" unfolding b(3) by (intro on_scale_minus s)
  show "on_scale 8 (af_FrozenQuota a)" "on_scale 8 (af_HistoryQuota a)" using b s by simp_all
  show "0 \<le> af_Quota a" by (rule b(4))
  show "0 \<le> af_FrozenQuota a" "0 \<le> af_HistoryQuota a" using b n by simp_all
qed

text \<open>One user's profile and entries change; everyone else's add up as before.\<close>

definition same_totals :: "int \<Rightarrow> ledger_entry list \<Rightarrow> ledger_entry list \<Rightarrow> bool" where
  "same_totals v es es' \<longleftrightarrow>
     total (accrued_by v) es' = total (accrued_by v) es \<and> total (frozen_for v) es' = total (frozen_for v) es
     \<and> total (transferred_by v) es' = total (transferred_by v) es"

lemma balanced_same: "same_totals (af_UserID a) es es' \<Longrightarrow> balanced es' a = balanced es a"
  by (simp add: balanced_def same_totals_def)

lemma books_change:
  assumes "books as es" and keeps: "\<And>a. af_UserID (f a) = af_UserID a"
    and own: "\<And>a. a \<in> set as \<Longrightarrow> af_UserID a = uid \<Longrightarrow> balanced es' (f a)"
    and others: "\<And>v. v \<noteq> uid \<Longrightarrow> same_totals v es es'"
    and entries: "\<And>e. e \<in> set es' \<Longrightarrow> entry_ok e \<and> al_UserID e \<in> af_UserID ` set as"
  shows "books (map (\<lambda>a. if af_UserID a = uid then f a else a) as) es'"
proof -
  let ?as = "map (\<lambda>a. if af_UserID a = uid then f a else a) as"
  have ids: "map af_UserID ?as = map af_UserID as" by (simp add: keeps)
  have "balanced es' a" if "a \<in> set ?as" for a
    using that own others [THEN balanced_same] assms(1) by (auto simp: books_def split: if_splits)
  moreover have "af_UserID ` set ?as = af_UserID ` set as" using ids by (metis set_map)
  ultimately show ?thesis using assms(1) entries by (simp add: books_def ids del: map_map)
qed

lemma books_relabel:
  assumes "books as es" and "\<And>a. af_UserID (f a) = af_UserID a" and "\<And>a. balanced es (f a) = balanced es a"
  shows "books (map (\<lambda>a. if p a then f a else a) as) es"
proof -
  let ?as = "map (\<lambda>a. if p a then f a else a) as"
  have ids: "map af_UserID ?as = map af_UserID as" by (simp add: assms(2))
  then have "af_UserID ` set ?as = af_UserID ` set as" by (metis set_map)
  moreover have "balanced es a" if "a \<in> set ?as" for a
    using that assms by (auto simp: books_def split: if_splits)
  ultimately show ?thesis using assms(1) by (simp add: books_def ids del: map_map)
qed

lemma same_totals_snoc: "al_UserID e \<noteq> v \<Longrightarrow> same_totals v es (es @ [e])"
  by (simp add: same_totals_def accrued_by_def frozen_for_def transferred_by_def)

section \<open>Each statement keeps the books\<close>

lemma books_and_then:
  assumes "books_ok d" and "\<And>d. books_ok d \<Longrightarrow> books_ok (snd (s d))" and "\<And>a d. books_ok d \<Longrightarrow> books_ok (snd (f a d))"
  shows "books_ok (snd (and_then s f d))"
  using assms by (rule and_then_invariant [where P = "\<lambda>d. books_ok d"])

lemma books_atomically:
  assumes "books_ok d" and "\<And>d. books_ok d \<Longrightarrow> books_ok (snd (st d))"
  shows "books_ok (snd (atomically st d))"
  using assms by (rule atomically_invariant [where P = "\<lambda>d. books_ok d"])

lemma query_affiliate_db [simp]: "snd (query_affiliate p d) = d"
  by (simp add: query_affiliate_def)

lemma new_affiliate_books:
  assumes "books as es" and "uid \<notin> af_UserID ` set as"
  shows "books (as @ [new_affiliate now uid c]) es"
proof -
  have none: "al_UserID e \<noteq> uid" if "e \<in> set es" for e using assms that by (auto simp: books_def)
  then have "total (accrued_by uid) es = 0" "total (frozen_for uid) es = 0" "total (transferred_by uid) es = 0"
    by (auto intro!: total_none simp: accrued_by_def frozen_for_def transferred_by_def)
  then have "balanced es (new_affiliate now uid c)" by (simp add: balanced_def new_affiliate_def)
  moreover have "af_UserID (new_affiliate now uid c) = uid" by (simp add: new_affiliate_def)
  ultimately show ?thesis using assms by (auto simp: books_def)
qed

lemma insert_affiliate_books: "books_ok d \<Longrightarrow> books_ok (snd (insert_affiliate now uid c d))"
  by (auto simp: insert_affiliate_def intro!: new_affiliate_books)

lemma ensure_tx_books:
  assumes "books_ok d"
  shows "books_ok (snd (ensureUserAffiliate_tx now cands uid d))"
proof -
  have q: "snd (queryAffiliateByUserID u d') = d'" for u d' by (simp add: queryAffiliateByUserID_def)
  show ?thesis
    using assms insert_affiliate_books [OF assms, of now uid]
    by (auto simp: ensureUserAffiliate_tx_def q split: prod.split sum.split list.split)
      (metis q snd_conv)+
qed

lemma update_affiliates_books:
  assumes "books_ok d" and "\<And>a. af_UserID (f a) = af_UserID a" and "\<And>es a. balanced es (f a) = balanced es a"
  shows "books_ok (snd (update_affiliates p f d))"
  using books_relabel [OF assms(1) assms(2) assms(3)] by (simp add: update_affiliates_def)

lemma set_code_books:
  assumes "books_ok d"
  shows "books_ok (snd (set_code custom uid c d))"
proof -
  have "books_ok (snd (update_affiliates (\<lambda>a. af_UserID a = uid) (\<lambda>a. a\<lparr>af_Code := c, af_CodeCustom := custom\<rparr>) d))"
    by (rule update_affiliates_books [OF assms]) (simp_all add: balanced_def)
  with assms show ?thesis by (simp add: set_code_def)
qed

lemma affected_user_books: "books_ok d \<Longrightarrow> books_ok (snd (affected_user n d))"
  by (simp add: affected_user_def)

section \<open>Accruing\<close>

lemma insert_ledger_Inr:
  assumes "insert_ledger e d = (Inr (), d')"
  shows "d' = d\<lparr>affiliate_ledger := affiliate_ledger d @ [e\<lparr>al_Amount := to_scale (al_Amount e)\<rparr>]\<rparr>"
  using assms by (simp add: insert_ledger_def split: if_splits)

lemma accrued_profile_ID [simp]: "af_UserID (accrued_profile amount h a) = af_UserID a"
  by (simp add: accrued_profile_def)

lemma accrue_tx_Inr:
  assumes "accrue_tx now i u amount h src d = (Inr b, d')"
  shows "d' = d \<and> \<not> b \<or>
    d' = d\<lparr>affiliates := map (\<lambda>a. if af_UserID a = i then accrued_profile amount h a else a) (affiliates d),
           affiliate_ledger := affiliate_ledger d @ [accrual now i u (to_scale amount) h src]\<rparr>
    \<and> i \<in> af_UserID ` set (affiliates d) \<and> b"
proof -
  let ?d = "d\<lparr>affiliates := map (\<lambda>a. if af_UserID a = i then accrued_profile amount h a else a) (affiliates d)\<rparr>"
  show ?thesis
  proof (cases "filter (\<lambda>a. af_UserID a = i) (affiliates d) = []")
    case True
    then have same: "map (\<lambda>a. if af_UserID a = i then accrued_profile amount h a else a) (affiliates d) = affiliates d"
      by (intro map_idI) (auto simp: filter_empty_conv)
    then have "?d = d" by (simp only: same) simp
    then show ?thesis
      using assms True
      by (simp add: accrue_tx_def and_then_def update_affiliates_def)
  next
    case False
    then have "i \<in> af_UserID ` set (affiliates d)" by (auto simp: filter_empty_conv)
    moreover from False assms obtain d2 where "insert_ledger (accrual now i u amount h src) ?d = (Inr (), d2)" "d' = d2" b
      by (auto simp: accrue_tx_def and_then_def update_affiliates_def split: prod.splits sum.splits)
    ultimately show ?thesis using insert_ledger_Inr [of "accrual now i u amount h src" ?d d2]
      by (simp add: accrual_def)
  qed
qed

lemma accrue_tx_books:
  assumes "books_ok d" and "0 < amount" and "accrue_tx now i u amount h src d = (Inr b, d')"
  shows "books_ok d'"
proof -
  let ?e = "accrual now i u (to_scale amount) h src" and ?es = "affiliate_ledger d"
  have nonneg: "0 \<le> to_scale amount" "on_scale 8 (to_scale amount)"
    using assms(2) by (simp_all add: to_scale_def round_scale_nonneg on_scale_round)
  have e: "al_UserID ?e = i" "al_Amount ?e = to_scale amount" "al_Action ?e = ''accrue''" "entry_ok ?e"
    using nonneg by (simp_all add: accrual_def entry_ok_def)
  have own: "balanced (?es @ [?e]) (accrued_profile amount h a)" if "a \<in> set (affiliates d)" "af_UserID a = i" for a
  proof -
    note s = books_on_scale [OF assms(1) that(1)]
    have add: "to_scale (q + amount) = q + to_scale amount" if "on_scale 8 q" "0 \<le> q" for q
      using round_scale_add [OF that] assms(2) by (simp add: to_scale_def)
    have "balanced ?es a" using assms(1) that(1) by (simp add: books_def)
    then show ?thesis
      using s nonneg that(2)
      by (auto simp: balanced_def accrued_profile_def add accrued_by_def frozen_for_def transferred_by_def accrual_def)
  qed
  have books': "books (map (\<lambda>a. if af_UserID a = i then accrued_profile amount h a else a) (affiliates d)) (?es @ [?e])"
    if "i \<in> af_UserID ` set (affiliates d)"
    by (rule books_change [OF assms(1) accrued_profile_ID own same_totals_snoc])
      (use that e assms(1) in \<open>auto simp: books_def\<close>)
  from accrue_tx_Inr [OF assms(3)] show ?thesis using assms(1) books' by auto
qed

section \<open>Thawing\<close>

lemma total_map_same:
  assumes "\<And>e. e \<in> set es \<Longrightarrow> p (g e) = p e" and "\<And>e. al_Amount (g e) = al_Amount e"
  shows "total p (map g es) = total p es"
  using assms(1) by (induction es) (auto simp: total_def assms(2))

lemma thaw_sels [simp]:
  "al_UserID (thaw now uid e) = al_UserID e" "al_Action (thaw now uid e) = al_Action e"
  "al_Amount (thaw now uid e) = al_Amount e"
  by (simp_all add: thaw_def)

lemma matured_frozen: "matured now uid e \<Longrightarrow> frozen_for uid e"
  by (auto simp: matured_def frozen_for_def split: option.splits)

lemma frozen_after_thaw:
  "total (frozen_for uid) (map (thaw now uid) es) = total (frozen_for uid) es - total (matured now uid) es"
proof (induction es)
  case (Cons e es)
  have "matured now uid e \<Longrightarrow> \<not> frozen_for uid (thaw now uid e)" by (simp add: thaw_def frozen_for_def)
  moreover have "\<not> matured now uid e \<Longrightarrow> thaw now uid e = e" by (simp add: thaw_def)
  ultimately show ?case using Cons matured_frozen [of now uid e] by (auto simp: total_def)
qed simp

lemma thaw_same_totals: "v \<noteq> uid \<Longrightarrow> same_totals v es (map (thaw now uid) es)"
  unfolding same_totals_def
  by (intro conjI total_map_same)
    (auto simp: accrued_by_def transferred_by_def frozen_for_def thaw_def matured_def)

lemma thaw_books:
  assumes "books_ok d"
  shows "books_ok (snd (thawFrozenQuotaTx now uid d))"
proof -
  let ?es = "affiliate_ledger d" and ?es' = "map (thaw now uid) (affiliate_ledger d)"
  let ?t = "total (matured now uid) (affiliate_ledger d)"
  let ?f = "thawed_profile ?t"
  have ent: "\<And>e. e \<in> set ?es \<Longrightarrow> entry_ok e" using assms by (simp add: books_def)
  have ent': "entry_ok e" if "e \<in> set ?es'" for e
    using that ent by (fastforce simp: thaw_def entry_ok_def)
  have t: "0 \<le> ?t" "on_scale 8 ?t" using ent by (auto intro: total_nonneg total_on_scale)
  have left: "0 \<le> total (frozen_for uid) ?es'" by (rule total_nonneg [OF ent'])
  have own: "balanced ?es' (a\<lparr>af_Quota := af_Quota a + ?t, af_FrozenQuota := af_FrozenQuota a - ?t\<rparr>)"
      "?f a = a\<lparr>af_Quota := af_Quota a + ?t, af_FrozenQuota := af_FrozenQuota a - ?t\<rparr>"
    if "a \<in> set (affiliates d)" "af_UserID a = uid" for a
  proof -
    note s = books_on_scale [OF assms that(1)]
    have b: "balanced ?es a" using assms that(1) by (simp add: books_def)
    have same: "total (accrued_by uid) ?es' = total (accrued_by uid) ?es"
        "total (transferred_by uid) ?es' = total (transferred_by uid) ?es"
      by (rule total_map_same; simp add: accrued_by_def transferred_by_def)+
    from b same that(2) t show "balanced ?es' (a\<lparr>af_Quota := af_Quota a + ?t, af_FrozenQuota := af_FrozenQuota a - ?t\<rparr>)"
      by (simp add: balanced_def frozen_after_thaw)
    have "0 \<le> af_FrozenQuota a - ?t" using left b that(2) by (simp add: balanced_def frozen_after_thaw)
    then show "?f a = a\<lparr>af_Quota := af_Quota a + ?t, af_FrozenQuota := af_FrozenQuota a - ?t\<rparr>"
      using s t by (simp add: thawed_profile_def to_scale_def round_on_scale on_scale_plus on_scale_minus max_def)
  qed
  have users: "entry_ok e \<and> al_UserID e \<in> af_UserID ` set (affiliates d)" if "e \<in> set ?es'" for e
    using that ent' assms by (auto simp: books_def)
  have b1: "books (map (\<lambda>a. if af_UserID a = uid then ?f a else a) (affiliates d)) ?es'"
    using assms by (rule books_change) (use own users in \<open>auto simp: thawed_profile_def intro: thaw_same_totals\<close>)
  have b2: "books (affiliates d) ?es'" if "?t = 0"
  proof -
    have "(if af_UserID a = uid then ?f a else a) = a" if "a \<in> set (affiliates d)" for a
      using own(2) [OF that] \<open>?t = 0\<close> by simp
    then have "map (\<lambda>a. if af_UserID a = uid then ?f a else a) (affiliates d) = affiliates d" by (rule map_idI)
    with b1 show ?thesis by simp
  qed
  show ?thesis
    using b1 b2 t(1)
    by (simp add: thawFrozenQuotaTx_def Let_def and_then_def update_affiliates_def total_def [symmetric])
qed

section \<open>Transferring\<close>

lemma claim_quota_Inr:
  assumes "claim_quota uid d = (Inr x, d')" and "distinct (map af_UserID (affiliates d))"
  obtains a where "a \<in> set (affiliates d)" "af_UserID a = uid" "af_Quota a = x" "0 < x"
    "d' = d\<lparr>affiliates := map (\<lambda>a. if af_UserID a = uid then a\<lparr>af_Quota := 0\<rparr> else a) (affiliates d)\<rparr>"
  using assms by (auto simp: claim_quota_def and_then_def update_affiliates_def find_Some_iff in_set_conv_nth split: option.splits)

lemma credit_user_Inr:
  "credit_user uid x d = (Inr b, d') \<Longrightarrow> affiliates d' = affiliates d \<and> affiliate_ledger d' = affiliate_ledger d"
  by (auto simp: credit_user_def Let_def split: option.splits)

lemma snapshot_db [simp]: "snd (queryAffiliateTransferSnapshot uid d) = d"
  by (simp add: queryAffiliateTransferSnapshot_def)

text \<open>The transfer after thawing: what was available is in the ledger, and nothing else moved.\<close>

lemma transfer_books:
  assumes ok: "books_ok d" and claim: "claim_quota uid d = (Inr x, d1)"
    and rest: "affiliates d2 = affiliates d1" "affiliate_ledger d2 = affiliate_ledger d1"
    and ins: "insert_ledger e d2 = (Inr (), d3)"
    and e: "al_UserID e = uid" "al_Action e = ''transfer''" "al_Amount e = x" "al_FrozenUntil e = None"
  shows "books_ok d3"
proof -
  obtain a where a: "a \<in> set (affiliates d)" "af_UserID a = uid" "af_Quota a = x" "0 < x"
      "d1 = d\<lparr>affiliates := map (\<lambda>a. if af_UserID a = uid then a\<lparr>af_Quota := 0\<rparr> else a) (affiliates d)\<rparr>"
    using ok by (auto simp: books_def intro: claim_quota_Inr [OF claim])
  have x: "to_scale x = x" using books_on_scale(1) [OF ok a(1)] a(3) by (simp add: to_scale_def round_on_scale)
  then have d3: "affiliates d3 = map (\<lambda>a. if af_UserID a = uid then a\<lparr>af_Quota := 0\<rparr> else a) (affiliates d)"
      "affiliate_ledger d3 = affiliate_ledger d @ [e]"
    using insert_ledger_Inr [OF ins] rest a(5) e(3) by simp_all
  have sole: "a' = a" if "a' \<in> set (affiliates d)" "af_UserID a' = uid" for a'
    using ok that a(1,2) by (auto simp: books_def distinct_map inj_on_def)
  have bal: "balanced (affiliate_ledger d) a" using ok a(1) by (simp add: books_def)
  have new: "entry_ok e" using e a(3,4) books_on_scale(1) [OF ok a(1)] by (simp add: entry_ok_def)
  have mem: "uid \<in> af_UserID ` set (affiliates d)" using a(1,2) by blast
  show ?thesis
    unfolding d3
  proof (rule books_change [OF ok])
    fix a' assume "a' \<in> set (affiliates d)" "af_UserID a' = uid"
    then have "a' = a" by (rule sole)
    then show "balanced (affiliate_ledger d @ [e]) (a'\<lparr>af_Quota := 0\<rparr>)"
      using bal e a(2,3) by (auto simp: balanced_def accrued_by_def frozen_for_def transferred_by_def)
  qed (use ok e(1) mem new in \<open>auto simp: books_def intro: same_totals_snoc\<close>)
qed

lemma TransferQuotaToBalance_books:
  assumes ok: "books_ok d"
  shows "books_ok (snd (TransferQuotaToBalance now cands uid d))"
proof (cases "TransferQuotaToBalance now cands uid d")
  case (Pair r d')
  show ?thesis
  proof (cases r)
    case (Inl e)
    then have "d' = d" using Pair unfolding TransferQuotaToBalance_def by (auto simp: atomically_def split: prod.splits sum.splits)
    with ok Pair show ?thesis by simp
  next
    case (Inr v)
    obtain d1 d2 x d3 b d4 s y d5 z d6 where
        1: "ensureUserAffiliate_tx now cands uid d = (Inr y, d1)" and
        2: "thawFrozenQuotaTx now uid d1 = (Inr z, d2)" and
        3: "claim_quota uid d2 = (Inr x, d3)" and
        4: "credit_user uid x d3 = (Inr b, d4)" and
        5: "queryAffiliateTransferSnapshot uid d4 = (Inr s, d5)" and
        6: "insert_ledger \<lparr>al_UserID = uid, al_Action = ''transfer'', al_Amount = x, al_SourceUserID = None,
             al_SourceOrderID = None, al_FrozenUntil = None, al_Snapshot = Some s, al_CreatedAt = now\<rparr> d5 = (Inr (), d6)"
        and 7: "d' = d6"
      using Pair Inr by (auto simp: TransferQuotaToBalance_def atomically_Inr and_then_Inr)
    have "books_ok d1" using ensure_tx_books [OF ok, of now cands uid] 1 by simp
    then have "books_ok d2" using thaw_books [of d1 now uid] 2 by simp
    moreover have "d5 = d4" using snapshot_db [of uid d4] 5 by simp
    ultimately have "books_ok d6" using transfer_books [OF _ 3 _ _ 6] credit_user_Inr [OF 4] by simp
    with Pair 7 show ?thesis by simp
  qed
qed

text \<open>
  A taken candidate ends the reset of a code: what comes after it, free or not, runs in a transaction
  that PostgreSQL has aborted.
\<close>

lemma reset_does_not_try_again:
  assumes "0 < uid" and "\<exists>a \<in> set (affiliates d). af_UserID a = uid"
    and "\<exists>a \<in> set (affiliates d). af_UserID a \<noteq> uid \<and> af_Code a = c" and "length cands = affiliateCodeMaxAttempts"
  shows "ResetUserAffCode now (cands @ c # free # cs) uid d = (Inl ErrTxAborted, d)"
proof -
  obtain a where "find (\<lambda>a. af_UserID a = uid) (affiliates d) = Some a"
    using assms(2) by (cases "find (\<lambda>a. af_UserID a = uid) (affiliates d)") (auto simp: find_None_iff)
  then have "ensureUserAffiliate_tx now (cands @ c # free # cs) uid d = (Inr a, d)"
    by (simp add: ensureUserAffiliate_tx_def queryAffiliateByUserID_def query_affiliate_def)
  then show ?thesis
    using assms by (simp add: ResetUserAffCode_def atomically_def and_then_def reset_code_def set_code_def
        affiliateCodeMaxAttempts_def numeral_eq_Suc)
qed

section \<open>Every history\<close>

datatype affiliate_event =
    Registers go_time int string
  | Binds go_time "string list" int int
  | Accrues go_time int int usd int "int option"
  | Thaws go_time int
  | Transfers go_time "string list" int
  | Recodes go_time "string list" int string
  | Resets go_time "string list" int
  | Rates go_time "string list" int "rat option"
  | Batch_rates go_time "string list" "int list" "rat option"
  | Users_change member_db

fun affiliate_exec :: "affiliate_event \<Rightarrow> affiliate_db \<Rightarrow> affiliate_db" where
  "affiliate_exec (Registers now uid c) d = snd (insert_affiliate now uid c d)"
| "affiliate_exec (Binds now cs uid i) d = snd (BindInviter now cs uid i d)"
| "affiliate_exec (Accrues now i u x h src) d = snd (AccrueQuota now i u x h src d)"
| "affiliate_exec (Thaws now uid) d = snd (ThawFrozenQuota now uid d)"
| "affiliate_exec (Transfers now cs uid) d = snd (TransferQuotaToBalance now cs uid d)"
| "affiliate_exec (Recodes now cs uid c) d = snd (UpdateUserAffCode now cs uid c d)"
| "affiliate_exec (Resets now cs uid) d = snd (ResetUserAffCode now cs uid d)"
| "affiliate_exec (Rates now cs uid r) d = snd (SetUserRebateRate now cs uid r d)"
| "affiliate_exec (Batch_rates now cs uids r) d = snd (BatchSetUserRebateRate now cs uids r d)"
| "affiliate_exec (Users_change us) d = d\<lparr>affiliate_users := us\<rparr>"

lemma BindInviter_books:
  assumes "books_ok d"
  shows "books_ok (snd (BindInviter now cs uid i d))"
  unfolding BindInviter_def
  by (intro books_atomically books_and_then ensure_tx_books update_affiliates_books assms)
    (auto simp: balanced_def give_def and_then_def update_affiliates_def intro!: books_relabel)

lemma AccrueQuota_books:
  assumes "books_ok d"
  shows "books_ok (snd (AccrueQuota now i u x h src d))"
proof (cases "x \<le> 0")
  case False
  show ?thesis
  proof (cases "accrue_tx now i u x h src d")
    case (Pair r d')
    with assms False accrue_tx_books [of d x now i u h src _ d'] show ?thesis
      by (cases r) (simp_all add: AccrueQuota_def atomically_def)
  qed
qed (simp add: AccrueQuota_def assms)

lemma reset_code_books: "books_ok d \<Longrightarrow> books_ok (snd (reset_code uid cs d))"
  using set_code_books [of d False uid]
  by (auto simp: reset_code_def and_then_def affected_user_def split: list.split prod.split sum.split)
    (metis snd_conv)+

lemma UpdateUserAffCode_books:
  assumes "books_ok d"
  shows "books_ok (snd (UpdateUserAffCode now cs uid c d))"
proof -
  have "books_ok (snd (case set_code True uid k d of
             (Inl e, d1) \<Rightarrow> (Inl (if e = ErrUniqueViolation then ErrAffiliateCodeTaken else e), d1)
           | (Inr n, d1) \<Rightarrow> affected_user n d1))" if "books_ok d" for k d
    using set_code_books [OF that, of True uid k] by (auto simp: affected_user_books split: prod.split sum.split)
  then show ?thesis
    unfolding UpdateUserAffCode_def Let_def
    using assms by (auto intro!: books_atomically books_and_then ensure_tx_books)
qed

lemma ensure_all_books: "books_ok d \<Longrightarrow> books_ok (snd (ensure_all now cs uids d))"
  by (induction now cs uids arbitrary: d rule: ensure_all.induct)
    (auto intro!: books_and_then ensure_tx_books)

lemma rates_books:
  assumes "books_ok d"
  shows "books_ok (snd (SetUserRebateRate now cs uid r d))"
    and "books_ok (snd (BatchSetUserRebateRate now cs uids r d))"
  unfolding SetUserRebateRate_def BatchSetUserRebateRate_def
  using assms
  by (auto intro!: books_atomically books_and_then ensure_tx_books ensure_all_books affected_user_books
      update_affiliates_books simp: balanced_def)

lemma affiliate_exec_books: "books_ok d \<Longrightarrow> books_ok (affiliate_exec e d)"
  by (cases e)
    (auto intro: insert_affiliate_books BindInviter_books AccrueQuota_books TransferQuotaToBalance_books
        UpdateUserAffCode_books rates_books
      simp: ThawFrozenQuota_def ResetUserAffCode_def
      intro!: books_atomically books_and_then thaw_books ensure_tx_books reset_code_books)

lemma affiliate_history_books: "books_ok d \<Longrightarrow> books_ok (fold affiliate_exec es d)"
  by (induction es arbitrary: d) (simp_all add: affiliate_exec_books)

text \<open>
  C33. Rebates are conserved: after any history of the affiliate tables (registrations, bindings, accruals
  with and without a freeze, thawing, transfers to the balance, changes of codes and rates, and changes
  of the users behind them), what a profile shows as available and as frozen, and what its owner has
  transferred, add up to what the ledger accrued to it; the frozen part is what its frozen entries add
  up to, and nothing available is negative.
\<close>

theorem rebates_are_conserved:
  assumes "affiliates d = []" and "affiliate_ledger d = []"
    and "d' = fold affiliate_exec es d" and "a \<in> set (affiliates d')"
  shows "af_Quota a + af_FrozenQuota a + total (transferred_by (af_UserID a)) (affiliate_ledger d')
      = total (accrued_by (af_UserID a)) (affiliate_ledger d')
    \<and> af_FrozenQuota a = total (frozen_for (af_UserID a)) (affiliate_ledger d')
    \<and> 0 \<le> af_Quota a"
proof -
  have "books_ok d" using assms(1,2) by (simp add: books_def)
  then have "books_ok d'" unfolding assms(3) by (rule affiliate_history_books)
  with assms(4) show ?thesis by (auto simp: books_def balanced_def)
qed

definition two_members :: affiliate_db where
  "two_members = \<lparr>affiliates = [], affiliate_ledger = [],
     affiliate_users = (\<lambda>_. Some \<lparr>balance = 0, frozen_balance = None, u_deleted = False, total_recharged = 0,
        member_concurrency = 1\<rparr>)\<rparr>"

definition two_rebates :: "affiliate_event list" where
  "two_rebates = [Registers 0 1 ''VIP1'', Accrues 5 1 2 3 0 None, Accrues 7 1 2 4 24 None, Transfers 9 [] 1]"

definition paid_out :: AffiliateSummary where
  "paid_out = (new_affiliate 0 1 ''VIP1'')\<lparr>af_FrozenQuota := 4, af_HistoryQuota := 7\<rparr>"

lemma to_scale_numeral [simp]: "to_scale 0 = 0" "to_scale 3 = 3" "to_scale 4 = 4" "to_scale 7 = 7"
  by (simp_all add: to_scale_def round_on_scale on_scale_def)

lemma two_rebates_profile: "affiliates (fold affiliate_exec two_rebates two_members) = [paid_out]"
  by (simp add: two_rebates_def two_members_def paid_out_def insert_affiliate_def AccrueQuota_def accrue_tx_def
      and_then_def update_affiliates_def accrued_profile_def new_affiliate_def insert_ledger_def accrual_def
      atomically_def TransferQuotaToBalance_def ensureUserAffiliate_tx_def queryAffiliateByUserID_def query_affiliate_def
      thawFrozenQuotaTx_def matured_def thaw_def Let_def claim_quota_def credit_user_def queryAffiliateTransferSnapshot_def)

theorem rebates_are_conserved_witness:
  "0 + 4 + total (transferred_by 1) (affiliate_ledger (fold affiliate_exec two_rebates two_members))
     = total (accrued_by 1) (affiliate_ledger (fold affiliate_exec two_rebates two_members))"
  using rebates_are_conserved [of two_members "fold affiliate_exec two_rebates two_members" two_rebates paid_out]
  by (simp add: two_rebates_profile) (simp add: two_members_def paid_out_def new_affiliate_def)

end
