(* ===== verification/Payment_Amounts.thy ===== *)
theory Payment_Amounts
  imports App_Errors
begin

text \<open>
  Amounts of payments: \<open>payment/currency.go\<close>, \<open>payment/amount.go\<close>, \<open>payment/fee.go\<close> and
  \<open>service/payment_amounts.go\<close>. Decimals are rationals; the decimal library rounds half away from zero
  and divides to 16 digits. Where the code formats or parses a decimal, the model has its value.
\<close>

section \<open>Currencies\<close>

definition DefaultPaymentCurrency :: string where "DefaultPaymentCurrency = ''CNY''"

record paymentCurrencyAmountUnit =
  apiMinorUnit :: nat
  maxFractionDigits :: nat

definition zeroDecimalAmountUnit :: paymentCurrencyAmountUnit where
  "zeroDecimalAmountUnit = \<lparr>apiMinorUnit = 0, maxFractionDigits = 0\<rparr>"
definition twoDecimalAmountUnit :: paymentCurrencyAmountUnit where
  "twoDecimalAmountUnit = \<lparr>apiMinorUnit = 2, maxFractionDigits = 2\<rparr>"
definition threeDecimalAmountUnit :: paymentCurrencyAmountUnit where
  "threeDecimalAmountUnit = \<lparr>apiMinorUnit = 3, maxFractionDigits = 3\<rparr>"
definition stripeLegacyZeroAmount :: paymentCurrencyAmountUnit where
  "stripeLegacyZeroAmount = \<lparr>apiMinorUnit = 2, maxFractionDigits = 0\<rparr>"

definition paymentCurrencyAmountUnits :: "string \<Rightarrow> paymentCurrencyAmountUnit option" where
  "paymentCurrencyAmountUnits c =
     (if c \<in> {''BIF'', ''CLP'', ''DJF'', ''GNF'', ''JPY'', ''KMF'', ''KRW'', ''MGA'', ''PYG'', ''RWF'', ''VND'',
              ''VUV'', ''XAF'', ''XOF'', ''XPF''} then Some zeroDecimalAmountUnit
      else if c \<in> {''ISK'', ''UGX''} then Some stripeLegacyZeroAmount
      else if c \<in> {''BHD'', ''IQD'', ''JOD'', ''KWD'', ''LYD'', ''OMR'', ''TND''} then Some threeDecimalAmountUnit
      else None)"

definition upper_letter :: "char \<Rightarrow> bool" where
  "upper_letter c \<longleftrightarrow> (let n = of_char c :: nat in 65 \<le> n \<and> n \<le> 90)"

definition ErrPaymentCurrency :: go_error where
  "ErrPaymentCurrency = PlainError ''payment currency must be a 3-letter ISO currency code''"

definition NormalizePaymentCurrency :: "string \<Rightarrow> go_error + string" where
  "NormalizePaymentCurrency raw =
     (let c = ascii_ToUpper (TrimSpace raw) in
      if c = [] then Inr DefaultPaymentCurrency
      else if length c \<noteq> 3 \<or> \<not> (\<forall>x \<in> set c. upper_letter x) then Inl ErrPaymentCurrency
      else Inr c)"

definition paymentCurrencyAmountUnitFor :: "string \<Rightarrow> paymentCurrencyAmountUnit" where
  "paymentCurrencyAmountUnitFor c =
     (case NormalizePaymentCurrency c of
        Inl _ \<Rightarrow> twoDecimalAmountUnit
      | Inr n \<Rightarrow> (case paymentCurrencyAmountUnits n of Some u \<Rightarrow> u | None \<Rightarrow> twoDecimalAmountUnit))"

definition CurrencyMinorUnit :: "string \<Rightarrow> nat" where
  "CurrencyMinorUnit c = apiMinorUnit (paymentCurrencyAmountUnitFor c)"

definition CurrencyMaxFractionDigits :: "string \<Rightarrow> nat" where
  "CurrencyMaxFractionDigits c = maxFractionDigits (paymentCurrencyAmountUnitFor c)"

definition FormatAmountForCurrency :: "rat \<Rightarrow> string \<Rightarrow> rat" where
  "FormatAmountForCurrency x c = round_scale (CurrencyMaxFractionDigits c) x"

text \<open>The units of a gateway, which a 64-bit integer holds.\<close>

definition towards_zero :: "rat \<Rightarrow> int" where
  "towards_zero x = (if 0 \<le> x then \<lfloor>x\<rfloor> else \<lceil>x\<rceil>)"

definition AmountToMinorUnit :: "rat option \<Rightarrow> string \<Rightarrow> go_error + int" where
  "AmountToMinorUnit parsed currency =
     (case parsed of
        None \<Rightarrow> Inl (PlainError ''invalid amount'')
      | Some d \<Rightarrow>
          (case NormalizePaymentCurrency currency of
             Inl e \<Rightarrow> Inl e
           | Inr c \<Rightarrow>
               (let u = paymentCurrencyAmountUnitFor c in
                if \<not> on_scale (maxFractionDigits u) d then
                  Inl (PlainError (if maxFractionDigits u = 0 then ''payment amount must be a whole number''
                                   else ''payment amount has too many decimal places''))
                else Inr (signed_take_bit 63 (towards_zero (d * 10 ^ apiMinorUnit u))))))"

definition MinorUnitToAmount :: "int \<Rightarrow> string \<Rightarrow> rat" where
  "MinorUnitToAmount v c = round_scale 16 (of_int v / 10 ^ CurrencyMinorUnit c)"

definition YuanToFen :: "rat option \<Rightarrow> go_error + int" where
  "YuanToFen parsed = AmountToMinorUnit parsed DefaultPaymentCurrency"

definition FenToYuan :: "int \<Rightarrow> rat" where
  "FenToYuan fen = MinorUnitToAmount fen DefaultPaymentCurrency"

section \<open>What is paid, credited and refunded\<close>

text \<open>\<open>RoundUp\<close> rounds away from zero.\<close>

definition round_up :: "nat \<Rightarrow> rat \<Rightarrow> rat" where
  "round_up s x = sgn x * of_int \<lceil>\<bar>x\<bar> * 10 ^ s\<rceil> / 10 ^ s"

definition decimal_Div :: "rat \<Rightarrow> rat \<Rightarrow> rat" where
  "decimal_Div x y = round_scale 16 (x / y)"

definition CalculatePayAmountForCurrency :: "rat \<Rightarrow> rat \<Rightarrow> string \<Rightarrow> rat" where
  "CalculatePayAmountForCurrency amount feeRate currency =
     (let digits = CurrencyMaxFractionDigits currency in
      if feeRate \<le> 0 then round_scale digits amount
      else round_scale digits (amount + round_up digits (decimal_Div (amount * feeRate) 100)))"

definition CalculatePayAmount :: "rat \<Rightarrow> rat \<Rightarrow> rat" where
  "CalculatePayAmount amount feeRate = CalculatePayAmountForCurrency amount feeRate DefaultPaymentCurrency"

definition amountToleranceCNY :: rat where "amountToleranceCNY = 1 / 100"

definition paymentAmountToleranceForCurrency :: "string \<Rightarrow> rat" where
  "paymentAmountToleranceForCurrency currency =
     (let minor = CurrencyMinorUnit currency in if minor \<le> 2 then amountToleranceCNY else 1 / 10 ^ minor / 2)"

definition normalizeBalanceRechargeMultiplier :: "rat \<Rightarrow> rat" where
  "normalizeBalanceRechargeMultiplier m = (if m \<le> 0 then 1 else m)"

definition normalizeSubscriptionUSDToCNYRate :: "rat \<Rightarrow> rat" where
  "normalizeSubscriptionUSDToCNYRate r = (if r < 0 then 0 else r)"

definition calculateCreditedBalance :: "rat \<Rightarrow> rat \<Rightarrow> usd" where
  "calculateCreditedBalance amount m = round_scale 2 (amount * normalizeBalanceRechargeMultiplier m)"

definition calculateGatewayRefundAmount :: "usd \<Rightarrow> rat \<Rightarrow> usd \<Rightarrow> string \<Rightarrow> rat" where
  "calculateGatewayRefundAmount orderAmount payAmount refundAmount currency =
     (let digits = CurrencyMaxFractionDigits currency in
      if orderAmount \<le> 0 \<or> payAmount \<le> 0 \<or> refundAmount \<le> 0 then 0
      else if \<bar>refundAmount - orderAmount\<bar> \<le> paymentAmountToleranceForCurrency currency then round_scale digits payAmount
      else round_scale digits (decimal_Div (payAmount * refundAmount) orderAmount))"

end
