(* ===== verification/Payment_Data.thy ===== *)
theory Payment_Data
  imports Payment_Amounts Redeem Affiliates
begin

text \<open>
  The orders of payments, their audit log and the provider instances: \<open>ent/schema/payment_order.go\<close>,
  \<open>service/payment_order_provider_snapshot.go\<close> and the lookups of \<open>service/payment_refund.go\<close> and
  \<open>service/payment_order_lifecycle.go\<close> that find the instance an order was paid with. Payment gateways are
  the argument \<open>pay_env\<close>: each is a record of what its methods do to the state of the outside world. A
  handler reads the clock once.
\<close>

section \<open>Orders\<close>

definition OrderStatusPending :: string where "OrderStatusPending = ''PENDING''"
definition OrderStatusPaid :: string where "OrderStatusPaid = ''PAID''"
definition OrderStatusRecharging :: string where "OrderStatusRecharging = ''RECHARGING''"
definition OrderStatusCompleted :: string where "OrderStatusCompleted = ''COMPLETED''"
definition OrderStatusExpired :: string where "OrderStatusExpired = ''EXPIRED''"
definition OrderStatusCancelled :: string where "OrderStatusCancelled = ''CANCELLED''"
definition OrderStatusFailed :: string where "OrderStatusFailed = ''FAILED''"
definition OrderStatusRefundRequested :: string where "OrderStatusRefundRequested = ''REFUND_REQUESTED''"
definition OrderStatusRefunding :: string where "OrderStatusRefunding = ''REFUNDING''"
definition OrderStatusRefundPending :: string where "OrderStatusRefundPending = ''REFUND_PENDING''"
definition OrderStatusPartiallyRefunded :: string where "OrderStatusPartiallyRefunded = ''PARTIALLY_REFUNDED''"
definition OrderStatusRefunded :: string where "OrderStatusRefunded = ''REFUNDED''"
definition OrderStatusRefundFailed :: string where "OrderStatusRefundFailed = ''REFUND_FAILED''"

lemmas order_status_defs =
  OrderStatusPending_def OrderStatusPaid_def OrderStatusRecharging_def OrderStatusCompleted_def OrderStatusExpired_def
  OrderStatusCancelled_def OrderStatusFailed_def OrderStatusRefundRequested_def OrderStatusRefunding_def
  OrderStatusRefundPending_def OrderStatusPartiallyRefunded_def OrderStatusRefunded_def OrderStatusRefundFailed_def

definition OrderTypeBalance :: string where "OrderTypeBalance = ''balance''"
definition OrderTypeSubscription :: string where "OrderTypeSubscription = ''subscription''"
definition EntityStatusActive :: string where "EntityStatusActive = ''active''"

definition TypeAlipay :: string where "TypeAlipay = ''alipay''"
definition TypeWxpay :: string where "TypeWxpay = ''wxpay''"
definition TypeAlipayDirect :: string where "TypeAlipayDirect = ''alipay_direct''"
definition TypeWxpayDirect :: string where "TypeWxpayDirect = ''wxpay_direct''"
definition TypeStripe :: string where "TypeStripe = ''stripe''"
definition TypeCard :: string where "TypeCard = ''card''"
definition TypeLink :: string where "TypeLink = ''link''"
definition TypeEasyPay :: string where "TypeEasyPay = ''easypay''"
definition TypeAirwallex :: string where "TypeAirwallex = ''airwallex''"

definition GetBasePaymentType :: "string \<Rightarrow> string" where
  "GetBasePaymentType t =
     (if t = TypeEasyPay then TypeEasyPay
      else if t = TypeAirwallex then TypeAirwallex
      else if t = TypeStripe \<or> t = TypeCard \<or> t = TypeLink then TypeStripe
      else if prefix TypeAlipay t then TypeAlipay
      else if prefix TypeWxpay t then TypeWxpay
      else t)"

text \<open>The values of the stored JSON object, as far as they are read.\<close>

datatype snapshot_value = SnapString string | SnapNumber rat | SnapOther

record PaymentOrder =
  po_ID :: int
  po_UserID :: int
  po_Amount :: usd
  po_PayAmount :: rat
  po_FeeRate :: rat
  po_RechargeCode :: string
  po_OutTradeNo :: string
  po_PaymentType :: string
  po_PaymentTradeNo :: string
  po_OrderType :: string
  po_PlanID :: "int option"
  po_SubscriptionGroupID :: "int option"
  po_SubscriptionDays :: "int option"
  po_ProviderInstanceID :: "string option"
  po_ProviderKey :: "string option"
  po_ProviderSnapshot :: "(string \<times> snapshot_value) list"
  po_Status :: string
  po_RefundAmount :: usd
  po_RefundReason :: "string option"
  po_RefundAt :: "go_time option"
  po_ForceRefund :: bool
  po_RefundRequestedAt :: "go_time option"
  po_RefundRequestReason :: "string option"
  po_RefundRequestedBy :: "string option"
  po_ExpiresAt :: go_time
  po_PaidAt :: "go_time option"
  po_CompletedAt :: "go_time option"
  po_FailedAt :: "go_time option"
  po_FailedReason :: "string option"
  po_CreatedAt :: go_time
  po_UpdatedAt :: go_time

record PaymentProviderInstance =
  pi_ID :: int
  pi_ProviderKey :: string
  pi_SupportedTypes :: string
  pi_Enabled :: bool
  pi_PaymentMode :: string
  pi_SortOrder :: int
  pi_RefundEnabled :: bool
  pi_AllowUserRefund :: bool

text \<open>Of the details of an entry only those of a pending refund are read again.\<close>

datatype audit_detail = Detail | RefundPendingDetail string bool

record PaymentAuditLog =
  pa_OrderID :: int
  pa_Action :: string
  pa_Operator :: string
  pa_Detail :: audit_detail
  pa_CreatedAt :: go_time

record payment_db =
  orders :: "PaymentOrder list"
  order_serial :: int
  audits :: "PaymentAuditLog list"
  provider_instances :: "PaymentProviderInstance list"
  profiles :: "AffiliateSummary list"
  rebate_ledger :: "ledger_entry list"
  shop :: redeem_db

definition on_shop :: "(redeem_db, 'a) statement \<Rightarrow> (payment_db, 'a) statement" where
  "on_shop = on_part shop (\<lambda>s d. d\<lparr>shop := s\<rparr>)"

text \<open>The rebates refer to the same users.\<close>

definition on_affiliates :: "(affiliate_db, 'a) statement \<Rightarrow> (payment_db, 'a) statement" where
  "on_affiliates =
     on_part (\<lambda>d. \<lparr>affiliates = profiles d, affiliate_ledger = rebate_ledger d, affiliate_users = members (shop d)\<rparr>)
       (\<lambda>a d. d\<lparr>profiles := affiliates a, rebate_ledger := affiliate_ledger a,
                shop := (shop d)\<lparr>members := affiliate_users a\<rparr>\<rparr>)"

section \<open>Statements on orders and the log\<close>

definition order_only :: "(PaymentOrder \<Rightarrow> bool) \<Rightarrow> (payment_db, go_error + PaymentOrder) statement" where
  "order_only p d =
     (case filter p (orders d) of
        [] \<Rightarrow> Inl ErrNoRows | [r] \<Rightarrow> Inr r | _ \<Rightarrow> Inl ErrNotSingular, d)"

definition order_Get :: "int \<Rightarrow> (payment_db, go_error + PaymentOrder) statement" where
  "order_Get oid = order_only (\<lambda>r. po_ID r = oid)"

definition by_out_trade_no :: "string \<Rightarrow> (payment_db, go_error + PaymentOrder) statement" where
  "by_out_trade_no n = order_only (\<lambda>r. po_OutTradeNo r = n)"

text \<open>Ent sets the instant of the update unless the update does.\<close>

definition update_orders ::
    "go_time \<Rightarrow> (PaymentOrder \<Rightarrow> bool) \<Rightarrow> (PaymentOrder \<Rightarrow> PaymentOrder) \<Rightarrow> (payment_db, go_error + int) statement" where
  "update_orders now p f d =
     (Inr (int (length (filter p (orders d)))),
      d\<lparr>orders := map (\<lambda>r. if p r then f (r\<lparr>po_UpdatedAt := now\<rparr>) else r) (orders d)\<rparr>)"

definition update_order ::
    "go_time \<Rightarrow> int \<Rightarrow> (PaymentOrder \<Rightarrow> PaymentOrder) \<Rightarrow> (payment_db, go_error + unit) statement" where
  "update_order now oid f =
     and_then (update_orders now (\<lambda>r. po_ID r = oid) f) (\<lambda>n. if n = 0 then refuse ErrNoRows else give ())"

text \<open>An order has at most one entry of an action (the unique index on both columns).\<close>

definition audit_Create :: "PaymentAuditLog \<Rightarrow> (payment_db, go_error + unit) statement" where
  "audit_Create e d =
     (if \<exists>x \<in> set (audits d). pa_OrderID x = pa_OrderID e \<and> pa_Action x = pa_Action e then (Inl ErrUniqueViolation, d)
      else (Inr (), d\<lparr>audits := audits d @ [e]\<rparr>))"

definition count_audits :: "(PaymentAuditLog \<Rightarrow> bool) \<Rightarrow> (payment_db, go_error + int) statement" where
  "count_audits p d = (Inr (int (length (filter p (audits d)))), d)"

definition instances_where ::
    "(PaymentProviderInstance \<Rightarrow> bool) \<Rightarrow> (payment_db, go_error + PaymentProviderInstance list) statement" where
  "instances_where p d = (Inr (filter p (provider_instances d)), d)"

definition instance_Get :: "int \<Rightarrow> (payment_db, go_error + PaymentProviderInstance) statement" where
  "instance_Get i d =
     (case find (\<lambda>x. pi_ID x = i) (provider_instances d) of None \<Rightarrow> Inl ErrNoRows | Some x \<Rightarrow> Inr x, d)"

section \<open>Gateways and the system\<close>

record QueryOrderResponse =
  qr_TradeNo :: string
  qr_Status :: string
  qr_Amount :: rat
  qr_Metadata :: "(string \<times> string) list"

record RefundRequest =
  rq_TradeNo :: string
  rq_OrderID :: string
  rq_Amount :: rat
  rq_Reason :: string

record RefundQueryRequest =
  rqq_TradeNo :: string
  rqq_OrderID :: string
  rqq_RefundID :: string
  rqq_Amount :: rat

record RefundResponse =
  rr_RefundID :: string
  rr_Status :: string

record CreatePaymentRequest =
  cp_OrderID :: string
  cp_Amount :: rat
  cp_PaymentType :: string

record 'g provider =
  ProviderKey :: string
  CreatePayment :: "CreatePaymentRequest \<Rightarrow> 'g \<Rightarrow> (go_error + string) \<times> 'g"
  QueryOrder :: "string \<Rightarrow> 'g \<Rightarrow> (go_error + QueryOrderResponse) \<times> 'g"
  CancelPayment :: "(string \<Rightarrow> 'g \<Rightarrow> 'g) option"
  Refund :: "RefundRequest \<Rightarrow> 'g \<Rightarrow> (RefundResponse option \<times> go_error option) \<times> 'g"
  QueryRefund :: "(RefundQueryRequest \<Rightarrow> 'g \<Rightarrow> (go_error + RefundResponse option) \<times> 'g) option"
  MerchantIdentityMetadata :: "(string \<times> string) list option"

text \<open>
  The provider of an instance (its configuration and constructor), the registry by payment type, the
  services the payments call, and the text of an error.
\<close>

record 'g pay_env =
  provider_of :: "PaymentProviderInstance \<Rightarrow> go_error + 'g provider"
  payment_registry :: "string \<Rightarrow> 'g provider option"
  redeem_part :: redeem_env
  affiliate_part :: "affiliate_settings option"
  affiliate_candidates :: "string list"
  cached_subscription :: "int \<Rightarrow> int \<Rightarrow> UserSubscription option"
  psErrMsg :: "go_error \<Rightarrow> string"

record 'g payment_system =
  pay_pg :: "payment_db world"
  pay_redis :: "redeem_cache world"
  gateway :: 'g

definition on_pay ::
    "(payment_db, go_error + 'a) statement \<Rightarrow> ('g payment_system, go_error + 'a) statement" where
  "on_pay st s = (case db_exec st (pay_pg s) of (r, w) \<Rightarrow> (r, s\<lparr>pay_pg := w\<rparr>))"

definition on_gateway :: "('g \<Rightarrow> 'a \<times> 'g) \<Rightarrow> ('g payment_system, 'a) statement" where
  "on_gateway f s = (case f (gateway s) of (r, g) \<Rightarrow> (r, s\<lparr>gateway := g\<rparr>))"

text \<open>Calls of the other services, on their part of the database.\<close>

definition on_shop_calls :: "(redeem_db world, 'a) statement \<Rightarrow> ('g payment_system, 'a) statement" where
  "on_shop_calls f s =
     (case f \<lparr>db = shop (db (pay_pg s)), faults = faults (pay_pg s)\<rparr> of
        (r, w) \<Rightarrow> (r, s\<lparr>pay_pg := \<lparr>db = (db (pay_pg s))\<lparr>shop := db w\<rparr>, faults = faults w\<rparr>\<rparr>))"

definition on_sub_calls :: "(sub_db world, 'a) statement \<Rightarrow> ('g payment_system, 'a) statement" where
  "on_sub_calls f =
     on_shop_calls (\<lambda>w. case f \<lparr>db = subs (db w), faults = faults w\<rparr> of
        (r, v) \<Rightarrow> (r, \<lparr>db = (db w)\<lparr>subs := db v\<rparr>, faults = faults v\<rparr>))"

definition on_redeem :: "(redeem_system, 'a) statement \<Rightarrow> ('g payment_system, 'a) statement" where
  "on_redeem f s =
     (case f \<lparr>pg = \<lparr>db = shop (db (pay_pg s)), faults = faults (pay_pg s)\<rparr>, redis = pay_redis s\<rparr> of
        (r, t) \<Rightarrow> (r, s\<lparr>pay_pg := \<lparr>db = (db (pay_pg s))\<lparr>shop := db (pg t)\<rparr>, faults = faults (pg t)\<rparr>,
                       pay_redis := redis t\<rparr>))"

text \<open>An entry that cannot be stored is only logged.\<close>

definition writeAuditLog ::
    "go_time \<Rightarrow> int \<Rightarrow> string \<Rightarrow> string \<Rightarrow> audit_detail \<Rightarrow> 'g payment_system \<Rightarrow> 'g payment_system" where
  "writeAuditLog now oid act op detail s =
     snd (on_pay (audit_Create \<lparr>pa_OrderID = oid, pa_Action = act, pa_Operator = op, pa_Detail = detail,
                                pa_CreatedAt = now\<rparr>) s)"

definition hasAuditLog :: "int \<Rightarrow> string \<Rightarrow> 'g payment_system \<Rightarrow> bool \<times> 'g payment_system" where
  "hasAuditLog oid act s =
     (case on_pay (count_audits (\<lambda>e. pa_OrderID e = oid \<and> pa_Action e = act)) s of
        (Inl _, s1) \<Rightarrow> (False, s1) | (Inr n, s1) \<Rightarrow> (n > 0, s1))"

definition writes :: "go_time \<Rightarrow> int \<Rightarrow> string \<Rightarrow> string \<Rightarrow> 'a \<Rightarrow> ('g payment_system, 'a) statement" where
  "writes now oid act op r s = (r, writeAuditLog now oid act op Detail s)"

section \<open>The provider an order was paid with\<close>

record paymentOrderProviderSnapshot =
  ps_SchemaVersion :: int
  ps_ProviderInstanceID :: string
  ps_ProviderKey :: string
  ps_PaymentMode :: string
  ps_MerchantAppID :: string
  ps_MerchantID :: string
  ps_Currency :: string

definition psSnapshotStringValue :: "snapshot_value option \<Rightarrow> string" where
  "psSnapshotStringValue v = (case v of Some (SnapString s) \<Rightarrow> TrimSpace s | _ \<Rightarrow> '''')"

definition psSnapshotIntValue :: "snapshot_value option \<Rightarrow> int" where
  "psSnapshotIntValue v =
     (case v of
        Some (SnapNumber x) \<Rightarrow> float_to_int64 x
      | Some (SnapString s) \<Rightarrow> (case ParseInt (TrimSpace s) of Some n \<Rightarrow> n | None \<Rightarrow> 0)
      | _ \<Rightarrow> 0)"

definition psOrderProviderSnapshot :: "PaymentOrder \<Rightarrow> paymentOrderProviderSnapshot option" where
  "psOrderProviderSnapshot r =
     (let get = (\<lambda>k. psSnapshotStringValue (map_of (po_ProviderSnapshot r) k));
          s = \<lparr>ps_SchemaVersion = psSnapshotIntValue (map_of (po_ProviderSnapshot r) ''schema_version''),
               ps_ProviderInstanceID = get ''provider_instance_id'', ps_ProviderKey = get ''provider_key'',
               ps_PaymentMode = get ''payment_mode'', ps_MerchantAppID = get ''merchant_app_id'',
               ps_MerchantID = get ''merchant_id'', ps_Currency = get ''currency''\<rparr>
      in if po_ProviderSnapshot r = [] then None
         else if ps_SchemaVersion s = 0 \<and> ps_ProviderInstanceID s = '''' \<and> ps_ProviderKey s = '''' \<and> ps_PaymentMode s = ''''
                 \<and> ps_MerchantAppID s = '''' \<and> ps_MerchantID s = '''' \<and> ps_Currency s = '''' then None
         else Some s)"

definition PaymentOrderCurrency :: "PaymentOrder \<Rightarrow> string" where
  "PaymentOrderCurrency r =
     (case psOrderProviderSnapshot r of
        None \<Rightarrow> DefaultPaymentCurrency
      | Some s \<Rightarrow> (case NormalizePaymentCurrency (ps_Currency s) of Inr c \<Rightarrow> c | Inl _ \<Rightarrow> DefaultPaymentCurrency))"

definition psStringValue :: "string option \<Rightarrow> string" where
  "psStringValue v = (case v of None \<Rightarrow> '''' | Some s \<Rightarrow> s)"

text \<open>\<open>strings.EqualFold\<close>; letters outside ASCII are compared as their bytes.\<close>

definition same_fold :: "string \<Rightarrow> string \<Rightarrow> bool" where
  "same_fold s t \<longleftrightarrow> fold_ascii s = fold_ascii t"

definition resolveSnapshotOrderProviderInstance ::
    "PaymentOrder \<Rightarrow> paymentOrderProviderSnapshot
      \<Rightarrow> ('g payment_system, go_error + PaymentProviderInstance option) statement" where
  "resolveSnapshotOrderProviderInstance r snap s =
     (let columnID = TrimSpace (psStringValue (po_ProviderInstanceID r));
          ownID = TrimSpace (ps_ProviderInstanceID snap);
          instanceID = (if ownID = '''' then columnID else ownID)
      in if instanceID = '''' then (Inl (PlainError ''provider snapshot is missing provider_instance_id''), s)
         else if columnID \<noteq> '''' \<and> ps_ProviderInstanceID snap \<noteq> '''' \<and> \<not> same_fold columnID (ps_ProviderInstanceID snap)
         then (Inl (PlainError ''provider snapshot instance mismatch''), s)
         else (case ParseInt instanceID of
                 None \<Rightarrow> (Inl (PlainError ''provider snapshot instance id is invalid''), s)
               | Some i \<Rightarrow>
                   (case on_pay (instance_Get i) s of
                      (Inl e, s1) \<Rightarrow>
                        (Inl (if e = ErrNoRows then PlainError ''provider snapshot instance is missing'' else e), s1)
                    | (Inr inst, s1) \<Rightarrow>
                        if ps_ProviderKey snap \<noteq> '''' \<and> \<not> same_fold (TrimSpace (pi_ProviderKey inst)) (ps_ProviderKey snap)
                        then (Inl (PlainError ''provider snapshot key mismatch''), s1)
                        else (Inr (Some inst), s1))))"

definition normalizeVisibleMethodSupportType :: "string \<Rightarrow> string" where
  "normalizeVisibleMethodSupportType t =
     (let k = TrimSpace t in
      if k = TypeAlipay \<or> k = TypeAlipayDirect then TypeAlipay
      else if k = TypeWxpay \<or> k = TypeWxpayDirect then TypeWxpay
      else k)"

fun split_on :: "char \<Rightarrow> string \<Rightarrow> string list" where
  "split_on c [] = [[]]"
| "split_on c (x # xs) =
     (if x = c then [] # split_on c xs
      else (case split_on c xs of p # ps \<Rightarrow> (x # p) # ps | [] \<Rightarrow> [[x]]))"

definition InstanceSupportsType :: "string \<Rightarrow> string \<Rightarrow> bool" where
  "InstanceSupportsType supportedTypes target \<longleftrightarrow>
     supportedTypes = ''''
     \<or> (\<exists>t \<in> set (split_on (CHR '','') supportedTypes).
          TrimSpace t = target
          \<or> normalizeVisibleMethodSupportType (TrimSpace t) = normalizeVisibleMethodSupportType target)"

definition psLegacyOrderMatchesInstance :: "string \<Rightarrow> PaymentProviderInstance \<Rightarrow> bool" where
  "psLegacyOrderMatchesInstance orderPaymentType inst \<longleftrightarrow>
     (let base = GetBasePaymentType (TrimSpace orderPaymentType); k = TrimSpace (pi_ProviderKey inst) in
      if base = '''' then False
      else if base = TypeStripe then k = TypeStripe
      else if k = TypeStripe then False
      else k = base \<or> InstanceSupportsType (pi_SupportedTypes inst) base)"

definition psFilterLegacyOrderProviderInstances ::
    "string \<Rightarrow> PaymentProviderInstance list \<Rightarrow> PaymentProviderInstance list" where
  "psFilterLegacyOrderProviderInstances orderPaymentType insts =
     (if TrimSpace orderPaymentType = '''' then insts else filter (psLegacyOrderMatchesInstance orderPaymentType) insts)"

definition the_one :: "'a list \<Rightarrow> 'a option" where
  "the_one xs = (case xs of [x] \<Rightarrow> Some x | _ \<Rightarrow> None)"

definition resolveUniqueLegacyOrderProviderInstance ::
    "PaymentOrder \<Rightarrow> ('g payment_system, go_error + PaymentProviderInstance option) statement" where
  "resolveUniqueLegacyOrderProviderInstance r =
     (let paymentType = GetBasePaymentType (TrimSpace (po_PaymentType r));
          providerKey = TrimSpace (psStringValue (po_ProviderKey r));
          pick = (\<lambda>insts. give (the_one (psFilterLegacyOrderProviderInstances paymentType insts)))
      in if providerKey \<noteq> '''' then and_then (on_pay (instances_where (\<lambda>i. pi_ProviderKey i = providerKey))) pick
         else if paymentType = '''' then give None
         else and_then (on_pay (instances_where (\<lambda>_. True))) pick)"

definition getOrderProviderInstance ::
    "PaymentOrder \<Rightarrow> ('g payment_system, go_error + PaymentProviderInstance option) statement" where
  "getOrderProviderInstance r =
     (case psOrderProviderSnapshot r of
        Some snap \<Rightarrow> resolveSnapshotOrderProviderInstance r snap
      | None \<Rightarrow>
          (let i = TrimSpace (psStringValue (po_ProviderInstanceID r)) in
           if i = '''' then resolveUniqueLegacyOrderProviderInstance r
           else (case ParseInt i of
                   None \<Rightarrow> give None
                 | Some n \<Rightarrow> and_then (on_pay (instance_Get n)) (\<lambda>inst. give (Some inst)))))"

text \<open>A refund does not guess the instance.\<close>

definition getRefundOrderProviderInstance ::
    "PaymentOrder \<Rightarrow> ('g payment_system, go_error + PaymentProviderInstance option) statement" where
  "getRefundOrderProviderInstance r s =
     (case psOrderProviderSnapshot r of
        Some snap \<Rightarrow> resolveSnapshotOrderProviderInstance r snap s
      | None \<Rightarrow>
          (let i = TrimSpace (psStringValue (po_ProviderInstanceID r)) in
           if i = '''' then (Inr None, s)
           else (case ParseInt i of
                   None \<Rightarrow> (Inl (PlainError ''refund provider instance id is invalid''), s)
                 | Some n \<Rightarrow>
                     (case on_pay (instance_Get n) s of
                        (Inl e, s1) \<Rightarrow>
                          (Inl (if e = ErrNoRows then PlainError ''refund provider instance is missing'' else e), s1)
                      | (Inr inst, s1) \<Rightarrow> (Inr (Some inst), s1)))))"

definition webhookRegistryFallbackAllowed :: "string \<Rightarrow> 'g payment_system \<Rightarrow> bool \<times> 'g payment_system" where
  "webhookRegistryFallbackAllowed key0 s =
     (let key = TrimSpace key0 in
      if key = '''' then (False, s)
      else (case on_pay (instances_where (\<lambda>i. pi_ProviderKey i = key \<and> pi_Enabled i)) s of
              (Inl _, s1) \<Rightarrow> (False, s1) | (Inr insts, s1) \<Rightarrow> (length insts \<le> 1, s1)))"

definition GetProviderKey :: "'g pay_env \<Rightarrow> string \<Rightarrow> string" where
  "GetProviderKey env t = (case payment_registry env t of None \<Rightarrow> '''' | Some p \<Rightarrow> ProviderKey p)"

definition ErrProviderNotFound :: go_error where
  "ErrProviderNotFound = NotFound ''PROVIDER_NOT_FOUND'' ''payment provider not registered''"

definition paymentOrderAllowsRegistryFallback :: "PaymentOrder \<Rightarrow> bool" where
  "paymentOrderAllowsRegistryFallback r \<longleftrightarrow>
     psOrderProviderSnapshot r = None \<and> TrimSpace (psStringValue (po_ProviderInstanceID r)) = ''''
     \<and> TrimSpace (psStringValue (po_ProviderKey r)) = ''''"

definition paymentOrderFallbackProviderKey :: "'g pay_env \<Rightarrow> PaymentOrder \<Rightarrow> string" where
  "paymentOrderFallbackProviderKey env r =
     (let k = TrimSpace (GetProviderKey env (po_PaymentType r)) in
      if k \<noteq> '''' then k else TrimSpace (GetBasePaymentType (TrimSpace (po_PaymentType r))))"

definition provider_result ::
    "'g pay_env \<Rightarrow> PaymentProviderInstance \<Rightarrow> ('g payment_system, go_error + 'g provider) statement" where
  "provider_result env inst s = (provider_of env inst, s)"

definition getOrderProvider :: "'g pay_env \<Rightarrow> PaymentOrder \<Rightarrow> ('g payment_system, go_error + 'g provider) statement" where
  "getOrderProvider env r =
     and_then (getOrderProviderInstance r)
       (\<lambda>inst. case inst of
          Some i \<Rightarrow> provider_result env i
        | None \<Rightarrow>
            if \<not> paymentOrderAllowsRegistryFallback r then refuse (PlainError ''provider instance is unresolved'')
            else (let key = paymentOrderFallbackProviderKey env r in
                  if key = '''' then refuse (PlainError ''provider fallback key is missing'')
                  else (\<lambda>s. case webhookRegistryFallbackAllowed key s of
                     (False, s1) \<Rightarrow> (Inl (PlainError ''provider fallback is ambiguous''), s1)
                   | (True, s1) \<Rightarrow>
                       (case payment_registry env (po_PaymentType r) of
                          None \<Rightarrow> Inl ErrProviderNotFound | Some p \<Rightarrow> Inr p, s1))))"

definition getRefundProvider :: "'g pay_env \<Rightarrow> PaymentOrder \<Rightarrow> ('g payment_system, go_error + 'g provider) statement" where
  "getRefundProvider env r =
     and_then (getRefundOrderProviderInstance r)
       (\<lambda>inst. case inst of
          None \<Rightarrow> refuse (PlainError ''refund provider instance is unavailable'')
        | Some i \<Rightarrow> provider_result env i)"

definition expectedNotificationProviderKey :: "'g pay_env \<Rightarrow> string \<Rightarrow> string \<Rightarrow> string \<Rightarrow> string" where
  "expectedNotificationProviderKey env orderPaymentType orderProviderKey instanceProviderKey =
     (if TrimSpace instanceProviderKey \<noteq> '''' then TrimSpace instanceProviderKey
      else if TrimSpace orderProviderKey \<noteq> '''' then TrimSpace orderProviderKey
      else if TrimSpace (GetProviderKey env orderPaymentType) \<noteq> '''' then TrimSpace (GetProviderKey env orderPaymentType)
      else TrimSpace orderPaymentType)"

definition expectedNotificationProviderKeyForOrder :: "'g pay_env \<Rightarrow> PaymentOrder \<Rightarrow> string \<Rightarrow> string" where
  "expectedNotificationProviderKeyForOrder env r instanceProviderKey =
     (let own = psStringValue (po_ProviderKey r);
          key = (case psOrderProviderSnapshot r of
                   Some s \<Rightarrow> if ps_ProviderKey s \<noteq> '''' then ps_ProviderKey s else own
                 | None \<Rightarrow> own)
      in expectedNotificationProviderKey env (po_PaymentType r) key instanceProviderKey)"

text \<open>What a notification says of the merchant must be what the order was created with.\<close>

definition meta :: "(string \<times> string) list \<Rightarrow> string \<Rightarrow> string" where
  "meta m k = TrimSpace (psStringValue (map_of m k))"

definition must_match :: "string \<Rightarrow> string \<Rightarrow> string \<Rightarrow> go_error option" where
  "must_match name expected actual =
     (if TrimSpace expected = '''' then None
      else if actual = '''' then Some (PlainError (name @ '' missing''))
      else if same_fold (TrimSpace expected) actual then None
      else Some (PlainError (name @ '' mismatch'')))"

definition state_must_be :: "string \<Rightarrow> string \<Rightarrow> string \<Rightarrow> go_error option" where
  "state_must_be name wanted actual =
     (if actual = '''' \<or> same_fold actual wanted then None else Some (PlainError (name @ '' mismatch'')))"

fun first_error :: "go_error option list \<Rightarrow> go_error option" where
  "first_error [] = None"
| "first_error (e # es) = (case e of Some x \<Rightarrow> Some x | None \<Rightarrow> first_error es)"

definition validateProviderSnapshotMetadata ::
    "PaymentOrder \<Rightarrow> string \<Rightarrow> (string \<times> string) list \<Rightarrow> go_error option" where
  "validateProviderSnapshotMetadata r providerKey m =
     (case psOrderProviderSnapshot r of
        None \<Rightarrow> None
      | Some s \<Rightarrow>
          (let key = TrimSpace providerKey; currency = ascii_ToUpper (meta m ''currency'') in
           if m = [] then None
           else if key = TypeWxpay then
             first_error [must_match ''wxpay appid'' (ps_MerchantAppID s) (meta m ''appid''),
                          must_match ''wxpay mchid'' (ps_MerchantID s) (meta m ''mchid''),
                          must_match ''wxpay currency'' (ps_Currency s) currency,
                          state_must_be ''wxpay trade_state'' ''SUCCESS'' (meta m ''trade_state'')]
           else if key = TypeAlipay then must_match ''alipay app_id'' (ps_MerchantAppID s) (meta m ''app_id'')
           else if key = TypeEasyPay then must_match ''easypay pid'' (ps_MerchantID s) (meta m ''pid'')
           else if key = TypeStripe then must_match ''stripe currency'' (ps_Currency s) currency
           else if key = TypeAirwallex then
             first_error [must_match ''airwallex account_id'' (ps_MerchantID s) (meta m ''account_id''),
                          must_match ''airwallex currency'' (ps_Currency s) currency,
                          state_must_be ''airwallex status'' ''SUCCEEDED'' (meta m ''status'')]
           else None))"

end
