(* ===== verification/Payment_Fulfillment.thy ===== *)
theory Payment_Fulfillment
  imports Payment_Data
begin

text \<open>
  From a notification of a payment to what was bought: \<open>service/payment_fulfillment.go\<close>, and the
  cancelling, expiring and reconciling of orders of \<open>service/payment_order_lifecycle.go\<close>. The
  notifications by mail and the timing of calls are left out.
\<close>

section \<open>Holding an order\<close>

definition ErrPaymentOrderNotFound :: go_error where
  "ErrPaymentOrderNotFound = PlainError ''payment order not found''"

definition order_missing :: go_error where "order_missing = NotFound ''NOT_FOUND'' ''order not found''"
definition invalid_status :: "string \<Rightarrow> go_error" where "invalid_status m = BadRequest ''INVALID_STATUS'' m"
definition payment_conflict :: "string \<Rightarrow> go_error" where "payment_conflict m = Conflict ''CONFLICT'' m"

definition paymentFulfillmentLeaseDuration :: duration where "paymentFulfillmentLeaseDuration = 5 * Minute"
definition paymentGraceMinutes :: int where "paymentGraceMinutes = 5"

definition psIsRefundStatus :: "string \<Rightarrow> bool" where
  "psIsRefundStatus s \<longleftrightarrow> s \<in> {OrderStatusRefundRequested, OrderStatusRefunding, OrderStatusRefundPending,
     OrderStatusPartiallyRefunded, OrderStatusRefunded, OrderStatusRefundFailed}"

text \<open>The instant of the lease is a whole number of microseconds; it marks the holder of the order.\<close>

definition lease_free :: "go_time \<Rightarrow> PaymentOrder \<Rightarrow> bool" where
  "lease_free t r \<longleftrightarrow> po_Status r = OrderStatusPaid \<or> po_Status r = OrderStatusFailed
     \<or> (po_Status r = OrderStatusRecharging \<and> po_UpdatedAt r \<le> t - paymentFulfillmentLeaseDuration)"

definition take_lease :: "go_time \<Rightarrow> PaymentOrder \<Rightarrow> PaymentOrder" where
  "take_lease t r = r\<lparr>po_Status := OrderStatusRecharging, po_UpdatedAt := t, po_FailedAt := None, po_FailedReason := None\<rparr>"

definition acquirePaymentFulfillmentLease ::
    "go_time \<Rightarrow> PaymentOrder \<Rightarrow> ('g payment_system, go_error + go_time option) statement" where
  "acquirePaymentFulfillmentLease now r =
     (let t = now - now mod Microsecond in
      and_then (on_pay (update_orders now (\<lambda>x. po_ID x = po_ID r \<and> lease_free t x) (take_lease t)))
        (\<lambda>n. and_then (on_pay (order_Get (po_ID r)))
           (\<lambda>cur.
              if n = 0 then
                (if po_Status cur = OrderStatusCompleted then give None
                 else if po_Status cur = OrderStatusRecharging then refuse (payment_conflict ''order is being processed'')
                 else refuse (payment_conflict ''order status changed while acquiring fulfillment lease''))
              else if po_Status cur \<noteq> OrderStatusRecharging then refuse (payment_conflict ''fulfillment lease was lost'')
              else give (Some (po_UpdatedAt cur)))))"

definition holds_lease :: "int \<Rightarrow> go_time \<Rightarrow> PaymentOrder \<Rightarrow> bool" where
  "holds_lease oid lease r \<longleftrightarrow> po_ID r = oid \<and> po_Status r = OrderStatusRecharging \<and> po_UpdatedAt r = lease"

definition markCompleted ::
    "go_time \<Rightarrow> PaymentOrder \<Rightarrow> go_time \<Rightarrow> string \<Rightarrow> ('g payment_system, go_error + unit) statement" where
  "markCompleted now r lease auditAction =
     and_then (on_pay (update_orders now (holds_lease (po_ID r) lease)
                 (\<lambda>x. x\<lparr>po_Status := OrderStatusCompleted, po_CompletedAt := Some now\<rparr>)))
       (\<lambda>n s.
          if n = 0 then
            (case on_pay (order_Get (po_ID r)) s of
               (Inr cur, s1) \<Rightarrow>
                 (if po_Status cur = OrderStatusCompleted then Inr ()
                  else Inl (payment_conflict ''fulfillment lease was lost before completion''), s1)
             | (Inl _, s1) \<Rightarrow> (Inl (payment_conflict ''fulfillment lease was lost before completion''), s1))
          else (case hasAuditLog (po_ID r) auditAction s of
                  (True, s1) \<Rightarrow> (Inr (), s1)
                | (False, s1) \<Rightarrow> writes now (po_ID r) auditAction ''system'' (Inr ()) s1))"

definition markFailed ::
    "'g pay_env \<Rightarrow> go_time \<Rightarrow> int \<Rightarrow> go_time \<Rightarrow> go_error \<Rightarrow> 'g payment_system \<Rightarrow> 'g payment_system" where
  "markFailed env now oid lease why s =
     (case on_pay (update_orders now (holds_lease oid lease)
              (\<lambda>x. x\<lparr>po_Status := OrderStatusFailed, po_FailedAt := Some now,
                     po_FailedReason := Some (psErrMsg env why)\<rparr>)) s of
        (Inr n, s1) \<Rightarrow> if n > 0 then writeAuditLog now oid ''FULFILLMENT_FAILED'' ''system'' Detail s1 else s1
      | (Inl _, s1) \<Rightarrow> s1)"

section \<open>The rebate of the inviter\<close>

definition affiliateRebateBaseAmount :: "PaymentOrder \<Rightarrow> usd" where
  "affiliateRebateBaseAmount r =
     (if po_OrderType r = OrderTypeBalance \<or> po_OrderType r = OrderTypeSubscription then po_Amount r else 0)"

definition ErrRebateClaim :: go_error where "ErrRebateClaim = PlainError ''affiliate rebate claim log not found''"

definition claimed_for :: "int \<Rightarrow> PaymentAuditLog \<Rightarrow> bool" where
  "claimed_for oid e \<longleftrightarrow> pa_OrderID e = oid
     \<and> (pa_Action e = ''AFFILIATE_REBATE_APPLIED'' \<or> pa_Action e = ''AFFILIATE_REBATE_SKIPPED'')"

definition tryClaimAffiliateRebateAudit :: "go_time \<Rightarrow> int \<Rightarrow> (payment_db, go_error + bool) statement" where
  "tryClaimAffiliateRebateAudit now oid d =
     (if \<exists>e \<in> set (audits d). claimed_for oid e then (Inr False, d)
      else (Inr True, d\<lparr>audits := audits d @ [\<lparr>pa_OrderID = oid, pa_Action = ''AFFILIATE_REBATE_APPLIED'',
              pa_Operator = ''system'', pa_Detail = Detail, pa_CreatedAt = now\<rparr>]\<rparr>))"

definition updateClaimedAffiliateRebateAudit :: "int \<Rightarrow> string \<Rightarrow> (payment_db, go_error + unit) statement" where
  "updateClaimedAffiliateRebateAudit oid act d =
     (let p = (\<lambda>e. pa_OrderID e = oid \<and> pa_Action e = ''AFFILIATE_REBATE_APPLIED'') in
      if \<not> (\<exists>e \<in> set (audits d). p e) then (Inl ErrRebateClaim, d)
      else (Inr (), d\<lparr>audits := map (\<lambda>e. if p e then e\<lparr>pa_Action := act, pa_Operator := ''system''\<rparr> else e) (audits d)\<rparr>))"

text \<open>One transaction claims the rebate of the order, accrues it and says how it ended.\<close>

definition rebate_tx ::
    "'g pay_env \<Rightarrow> affiliate_settings \<Rightarrow> go_time \<Rightarrow> PaymentOrder \<Rightarrow> (payment_db, go_error + unit) statement" where
  "rebate_tx env st now r =
     atomically
       (and_then (tryClaimAffiliateRebateAudit now (po_ID r))
         (\<lambda>claimed.
            if \<not> claimed then give ()
            else and_then
              (on_affiliates (AccrueInviteRebateForOrder st (cal (sub_part (redeem_part env))) (calls_in_tx now) now
                 (affiliate_candidates env) (po_UserID r) (affiliateRebateBaseAmount r) (Some (po_ID r))))
              (\<lambda>rebate. updateClaimedAffiliateRebateAudit (po_ID r)
                 (if rebate \<le> 0 then ''AFFILIATE_REBATE_SKIPPED'' else ''AFFILIATE_REBATE_APPLIED''))))"

definition applyAffiliateRebateForOrder ::
    "'g pay_env \<Rightarrow> go_time \<Rightarrow> PaymentOrder \<Rightarrow> ('g payment_system, go_error + unit) statement" where
  "applyAffiliateRebateForOrder env now r s =
     (case affiliate_part env of
        None \<Rightarrow> (Inr (), s)
      | Some st \<Rightarrow>
          if affiliateRebateBaseAmount r \<le> 0 then (Inr (), s)
          else (case on_pay (rebate_tx env st now r) s of
                  (Inr _, s1) \<Rightarrow> (Inr (), s1)
                | (Inl e, s1) \<Rightarrow> writes now (po_ID r) ''AFFILIATE_REBATE_FAILED'' ''system'' (Inl e) s1))"

section \<open>Recharging a balance\<close>

datatype redeemAction = redeemActionCreate | redeemActionRedeem | redeemActionSkipCompleted

definition resolveRedeemAction :: "go_error + RedeemCode \<Rightarrow> redeemAction" where
  "resolveRedeemAction existing =
     (case existing of
        Inl _ \<Rightarrow> redeemActionCreate
      | Inr c \<Rightarrow> if rc_IsUsed c then redeemActionSkipCompleted else redeemActionRedeem)"

definition recharge_code :: "PaymentOrder \<Rightarrow> RedeemCode" where
  "recharge_code r = blank_code\<lparr>rc_Code := po_RechargeCode r, rc_Type := RedeemTypeBalance, rc_Value := po_Amount r,
     rc_Status := StatusUnused\<rparr>"

definition redeem_recharge :: "'g pay_env \<Rightarrow> go_time \<Rightarrow> PaymentOrder \<Rightarrow> ('g payment_system, go_error + unit) statement" where
  "redeem_recharge env now r =
     and_then (on_redeem (Redeem (redeem_part env) now (po_UserID r) (po_RechargeCode r))) (\<lambda>_. give ())"

definition doBalance :: "'g pay_env \<Rightarrow> go_time \<Rightarrow> PaymentOrder \<Rightarrow> go_time \<Rightarrow> ('g payment_system, go_error + unit) statement" where
  "doBalance env now r lease s =
     (case on_pay (on_shop (code_GetByCode (po_RechargeCode r))) s of
        (existing, s1) \<Rightarrow>
          and_then
            (case resolveRedeemAction existing of
               redeemActionSkipCompleted \<Rightarrow> give ()
             | redeemActionRedeem \<Rightarrow> redeem_recharge env now r
             | redeemActionCreate \<Rightarrow>
                 and_then (on_shop_calls (CreateCode now (recharge_code r))) (\<lambda>_. redeem_recharge env now r))
            (\<lambda>_. and_then (applyAffiliateRebateForOrder env now r)
               (\<lambda>_. markCompleted now r lease ''RECHARGE_SUCCESS'')) s1)"

section \<open>Assigning a subscription\<close>

definition paymentSubscriptionOrderNote :: "int \<Rightarrow> string" where
  "paymentSubscriptionOrderNote oid = ''payment order '' @ itoa oid"

fun crlf_to_lf :: "string \<Rightarrow> string" where
  "crlf_to_lf (a # b # cs) =
     (if a = char_of (13 :: nat) \<and> b = char_of (10 :: nat) then b # crlf_to_lf cs else a # crlf_to_lf (b # cs))"
| "crlf_to_lf cs = cs"

definition hasPaymentSubscriptionOrderNote :: "string \<Rightarrow> string \<Rightarrow> bool" where
  "hasPaymentSubscriptionOrderNote notes orderNote \<longleftrightarrow>
     (\<exists>l \<in> set (split_on (char_of (10 :: nat)) (crlf_to_lf notes)). TrimSpace l = orderNote)"

definition assignment_logged :: "int \<Rightarrow> PaymentAuditLog \<Rightarrow> bool" where
  "assignment_logged oid e \<longleftrightarrow> pa_OrderID e = oid \<and> pa_Action e \<in> {''SUBSCRIPTION_ASSIGNED'', ''SUBSCRIPTION_SUCCESS''}"

definition ErrAssignmentLogged :: go_error where
  "ErrAssignmentLogged = PlainError ''record subscription assignment audit''"

definition log_assignment :: "go_time \<Rightarrow> int \<Rightarrow> (payment_db, go_error + unit) statement" where
  "log_assignment now oid d =
     (case audit_Create \<lparr>pa_OrderID = oid, pa_Action = ''SUBSCRIPTION_ASSIGNED'', pa_Operator = ''system'',
              pa_Detail = Detail, pa_CreatedAt = now\<rparr> d of
        (Inl e, d1) \<Rightarrow> (Inl (if e = ErrUniqueViolation then ErrAssignmentLogged else e), d1)
      | (Inr _, d1) \<Rightarrow> (Inr (), d1))"

definition assign_tx ::
    "'g pay_env \<Rightarrow> go_time \<Rightarrow> PaymentOrder \<Rightarrow> int \<Rightarrow> int \<Rightarrow> (payment_db, go_error + unit) statement" where
  "assign_tx env now r groupID days =
     (let note = paymentSubscriptionOrderNote (po_ID r);
          assign = on_shop (on_subs (assignOrExtendSubscription (sub_part (redeem_part env)) now
             \<lparr>ai_UserID = po_UserID r, ai_GroupID = groupID, ai_ValidityDays = days, ai_AssignedBy = 0, ai_Notes = note\<rparr>))
      in atomically
        (and_then (count_audits (assignment_logged (po_ID r)))
          (\<lambda>n. if n > 0 then give ()
               else (\<lambda>d. case fst (on_shop (on_subs (GetByUserIDAndGroupID (po_UserID r) groupID)) d) of
                  Inr existing \<Rightarrow>
                    if hasPaymentSubscriptionOrderNote (us_Notes existing) note then log_assignment now (po_ID r) d
                    else and_then assign (\<lambda>_. log_assignment now (po_ID r)) d
                | Inl e \<Rightarrow>
                    if \<not> errors_Is e ErrSubscriptionNotFound then (Inl e, d)
                    else and_then assign (\<lambda>_. log_assignment now (po_ID r)) d))))"

definition payment_caches ::
    "'g pay_env \<Rightarrow> int \<Rightarrow> int \<Rightarrow> ('g payment_system, go_error + unit) statement" where
  "payment_caches env userID groupID = caches_then (sub_part (redeem_part env)) userID groupID ()"

definition ensurePaymentSubscriptionAssigned ::
    "'g pay_env \<Rightarrow> go_time \<Rightarrow> PaymentOrder \<Rightarrow> int \<Rightarrow> int \<Rightarrow> ('g payment_system, go_error + unit) statement" where
  "ensurePaymentSubscriptionAssigned env now r groupID days s =
     (case on_pay (assign_tx env now r groupID days) s of
        (Inr _, s1) \<Rightarrow> payment_caches env (po_UserID r) groupID s1
      | (Inl e, s1) \<Rightarrow>
          if e = ErrAssignmentLogged then
            (case on_pay (count_audits (assignment_logged (po_ID r))) s1 of
               (Inr n, s2) \<Rightarrow> if n > 0 then payment_caches env (po_UserID r) groupID s2 else (Inl e, s2)
             | (Inl _, s2) \<Rightarrow> (Inl e, s2))
          else (Inl e, s1))"

definition doSub ::
    "'g pay_env \<Rightarrow> go_time \<Rightarrow> PaymentOrder \<Rightarrow> int \<Rightarrow> int \<Rightarrow> go_time \<Rightarrow> ('g payment_system, go_error + unit) statement" where
  "doSub env now r gid days lease =
     (case GetGroup (sub_part (redeem_part env)) gid of
        Inl _ \<Rightarrow> refuse (PlainError ''group no longer exists or inactive'')
      | Inr g \<Rightarrow>
          if sg_Status g \<noteq> EntityStatusActive then refuse (PlainError ''group no longer exists or inactive'')
          else and_then (ensurePaymentSubscriptionAssigned env now r gid days)
            (\<lambda>_. and_then (applyAffiliateRebateForOrder env now r)
               (\<lambda>_. markCompleted now r lease ''SUBSCRIPTION_SUCCESS'')))"

section \<open>Fulfilling an order\<close>

definition fulfillable :: "PaymentOrder \<Rightarrow> go_error option" where
  "fulfillable r =
     (if psIsRefundStatus (po_Status r) then Some (invalid_status ''refund-related order cannot fulfill'')
      else if po_Status r \<noteq> OrderStatusPaid \<and> po_Status r \<noteq> OrderStatusFailed \<and> po_Status r \<noteq> OrderStatusRecharging
      then Some (invalid_status (''order cannot fulfill in status '' @ po_Status r))
      else None)"

text \<open>What is done under the lease; a failure marks the order.\<close>

definition under_lease ::
    "'g pay_env \<Rightarrow> go_time \<Rightarrow> PaymentOrder \<Rightarrow> (go_time \<Rightarrow> ('g payment_system, go_error + unit) statement)
      \<Rightarrow> ('g payment_system, go_error + unit) statement" where
  "under_lease env now r body =
     and_then (acquirePaymentFulfillmentLease now r)
       (\<lambda>l. case l of
          None \<Rightarrow> give ()
        | Some lease \<Rightarrow> (\<lambda>s. case body lease s of
             (Inr _, s1) \<Rightarrow> (Inr (), s1)
           | (Inl e, s1) \<Rightarrow> (Inl e, markFailed env now (po_ID r) lease e s1)))"

definition get_order :: "int \<Rightarrow> ('g payment_system, go_error + PaymentOrder) statement" where
  "get_order oid s =
     (case on_pay (order_Get oid) s of (Inl _, s1) \<Rightarrow> (Inl order_missing, s1) | (Inr r, s1) \<Rightarrow> (Inr r, s1))"

definition ExecuteBalanceFulfillment :: "'g pay_env \<Rightarrow> go_time \<Rightarrow> int \<Rightarrow> ('g payment_system, go_error + unit) statement" where
  "ExecuteBalanceFulfillment env now oid =
     and_then (get_order oid)
       (\<lambda>r. if po_Status r = OrderStatusCompleted then give ()
            else (case fulfillable r of
                    Some e \<Rightarrow> refuse e
                  | None \<Rightarrow> under_lease env now r (doBalance env now r)))"

definition ExecuteSubscriptionFulfillment ::
    "'g pay_env \<Rightarrow> go_time \<Rightarrow> int \<Rightarrow> ('g payment_system, go_error + unit) statement" where
  "ExecuteSubscriptionFulfillment env now oid =
     and_then (get_order oid)
       (\<lambda>r. if po_Status r = OrderStatusCompleted then give ()
            else (case fulfillable r of
                    Some e \<Rightarrow> refuse e
                  | None \<Rightarrow>
                      (case (po_SubscriptionGroupID r, po_SubscriptionDays r) of
                         (Some gid, Some days) \<Rightarrow> under_lease env now r (doSub env now r gid days)
                       | _ \<Rightarrow> refuse (invalid_status ''missing subscription info''))))"

definition executeFulfillment :: "'g pay_env \<Rightarrow> go_time \<Rightarrow> int \<Rightarrow> ('g payment_system, go_error + unit) statement" where
  "executeFulfillment env now oid =
     and_then (on_pay (order_Get oid))
       (\<lambda>r. if po_OrderType r = OrderTypeSubscription then ExecuteSubscriptionFulfillment env now oid
            else ExecuteBalanceFulfillment env now oid)"

definition RetryFulfillment :: "'g pay_env \<Rightarrow> go_time \<Rightarrow> int \<Rightarrow> ('g payment_system, go_error + unit) statement" where
  "RetryFulfillment env now oid =
     and_then (get_order oid)
       (\<lambda>r. if po_PaidAt r = None then refuse (invalid_status ''order is not paid'')
            else if psIsRefundStatus (po_Status r) then refuse (invalid_status ''refund-related order cannot retry'')
            else if po_Status r = OrderStatusCompleted then refuse (invalid_status ''order already completed'')
            else if po_Status r \<noteq> OrderStatusFailed \<and> po_Status r \<noteq> OrderStatusPaid \<and> po_Status r \<noteq> OrderStatusRecharging
            then refuse (invalid_status ''only paid, failed, and recoverable recharging orders can retry'')
            else (\<lambda>s. executeFulfillment env now oid (writeAuditLog now oid ''RECHARGE_RETRY'' ''admin'' Detail s)))"

section \<open>A notification\<close>

definition alreadyProcessed :: "'g pay_env \<Rightarrow> go_time \<Rightarrow> PaymentOrder \<Rightarrow> ('g payment_system, go_error + unit) statement" where
  "alreadyProcessed env now r s =
     (case on_pay (order_Get (po_ID r)) s of
        (Inl _, s1) \<Rightarrow> (Inr (), s1)
      | (Inr cur, s1) \<Rightarrow>
          if po_Status cur = OrderStatusFailed \<or> po_Status cur = OrderStatusPaid \<or> po_Status cur = OrderStatusRecharging
          then executeFulfillment env now (po_ID r) s1
          else if po_Status cur = OrderStatusExpired
          then writes now (po_ID r) ''PAYMENT_AFTER_EXPIRY'' ''system'' (Inr ()) s1
          else (Inr (), s1))"

definition payable :: "go_time \<Rightarrow> PaymentOrder \<Rightarrow> bool" where
  "payable now r \<longleftrightarrow> po_Status r = OrderStatusPending \<or> po_Status r = OrderStatusCancelled
     \<or> (po_Status r = OrderStatusExpired \<and> po_UpdatedAt r \<ge> now - paymentGraceMinutes * Minute)"

definition paid_order :: "go_time \<Rightarrow> string \<Rightarrow> rat \<Rightarrow> PaymentOrder \<Rightarrow> PaymentOrder" where
  "paid_order now tradeNo paid r =
     r\<lparr>po_Status := OrderStatusPaid, po_PayAmount := round_scale 2 paid, po_PaymentTradeNo := tradeNo,
       po_PaidAt := Some now, po_FailedAt := None, po_FailedReason := None\<rparr>"

definition toPaid ::
    "'g pay_env \<Rightarrow> go_time \<Rightarrow> PaymentOrder \<Rightarrow> string \<Rightarrow> rat \<Rightarrow> string \<Rightarrow> ('g payment_system, go_error + unit) statement" where
  "toPaid env now r tradeNo paid pk =
     and_then (on_pay (update_orders now (\<lambda>x. po_ID x = po_ID r \<and> payable now x) (paid_order now tradeNo paid)))
       (\<lambda>n s.
          if n = 0 then alreadyProcessed env now r s
          else
            (let s1 = (if po_Status r = OrderStatusCancelled \<or> po_Status r = OrderStatusExpired
                       then writeAuditLog now (po_ID r) ''ORDER_RECOVERED'' pk Detail s else s)
             in executeFulfillment env now (po_ID r) (writeAuditLog now (po_ID r) ''ORDER_PAID'' pk Detail s1)))"

definition instance_key_of :: "PaymentOrder \<Rightarrow> 'g payment_system \<Rightarrow> string \<times> 'g payment_system" where
  "instance_key_of r s =
     (case getOrderProviderInstance r s of
        (Inr (Some i), s1) \<Rightarrow> (pi_ProviderKey i, s1) | (_, s1) \<Rightarrow> ('''', s1))"

definition confirmPayment ::
    "'g pay_env \<Rightarrow> go_time \<Rightarrow> int \<Rightarrow> string \<Rightarrow> rat \<Rightarrow> string \<Rightarrow> (string \<times> string) list
      \<Rightarrow> ('g payment_system, go_error + unit) statement" where
  "confirmPayment env now oid tradeNo paid pk metadata s =
     (case on_pay (order_Get oid) s of
        (Inl _, s1) \<Rightarrow> (Inr (), s1)
      | (Inr r, s1) \<Rightarrow>
          (case instance_key_of r s1 of (key, s2) \<Rightarrow>
             (let expected = expectedNotificationProviderKeyForOrder env r key in
              if expected \<noteq> '''' \<and> TrimSpace pk \<noteq> '''' \<and> \<not> same_fold expected (TrimSpace pk)
              then writes now oid ''PAYMENT_PROVIDER_MISMATCH'' pk (Inl (PlainError ''provider mismatch'')) s2
              else (case validateProviderSnapshotMetadata r pk metadata of
                      Some e \<Rightarrow> writes now oid ''PAYMENT_PROVIDER_METADATA_MISMATCH'' pk (Inl e) s2
                    | None \<Rightarrow>
                        if paid \<le> 0
                        then writes now oid ''PAYMENT_INVALID_AMOUNT'' pk (Inl (PlainError ''invalid paid amount from provider'')) s2
                        else if \<bar>paid - po_PayAmount r\<bar> > paymentAmountToleranceForCurrency (PaymentOrderCurrency r)
                        then writes now oid ''PAYMENT_AMOUNT_MISMATCH'' pk (Inl (PlainError ''amount mismatch'')) s2
                        else toPaid env now r tradeNo paid pk s2))))"

record PaymentNotification =
  pn_TradeNo :: string
  pn_OrderID :: string
  pn_Amount :: rat
  pn_Status :: string
  pn_Metadata :: "(string \<times> string) list"

definition orderIDPrefix :: string where "orderIDPrefix = ''sub2_''"

definition parseLegacyPaymentOrderID :: "string \<Rightarrow> go_error \<Rightarrow> int option" where
  "parseLegacyPaymentOrderID orderID lookupErr =
     (let t = TrimSpace orderID in
      if lookupErr \<noteq> ErrNoRows \<or> \<not> prefix orderIDPrefix t then None
      else (case ParseInt (drop (length orderIDPrefix) t) of
              Some oid \<Rightarrow> if oid \<le> 0 then None else Some oid
            | None \<Rightarrow> None))"

definition HandlePaymentNotification ::
    "'g pay_env \<Rightarrow> go_time \<Rightarrow> PaymentNotification \<Rightarrow> string \<Rightarrow> ('g payment_system, go_error + unit) statement" where
  "HandlePaymentNotification env now n pk s =
     (if pn_Status n \<noteq> ''success'' then (Inr (), s)
      else (case on_pay (by_out_trade_no (pn_OrderID n)) s of
              (Inr r, s1) \<Rightarrow> confirmPayment env now (po_ID r) (pn_TradeNo n) (pn_Amount n) pk (pn_Metadata n) s1
            | (Inl e, s1) \<Rightarrow>
                (case parseLegacyPaymentOrderID (pn_OrderID n) e of
                   Some oid \<Rightarrow> confirmPayment env now oid (pn_TradeNo n) (pn_Amount n) pk (pn_Metadata n) s1
                 | None \<Rightarrow> (Inl (if e = ErrNoRows then ErrPaymentOrderNotFound else e), s1))))"

section \<open>Asking the gateway\<close>

definition paymentOrderQueryReference :: "PaymentOrder \<Rightarrow> 'g provider \<Rightarrow> string" where
  "paymentOrderQueryReference r prov =
     (let k1 = TrimSpace (ProviderKey prov);
          k2 = (if k1 \<noteq> '''' then k1 else case psOrderProviderSnapshot r of Some s \<Rightarrow> TrimSpace (ps_ProviderKey s) | None \<Rightarrow> '''');
          k3 = (if k2 \<noteq> '''' then k2 else TrimSpace (psStringValue (po_ProviderKey r)));
          key = (if k3 \<noteq> '''' then k3 else TrimSpace (po_PaymentType r))
      in if GetBasePaymentType key \<in> {TypeAlipay, TypeEasyPay, TypeWxpay} then TrimSpace (po_OutTradeNo r)
         else if TrimSpace (po_PaymentTradeNo r) \<noteq> '''' then TrimSpace (po_PaymentTradeNo r)
         else TrimSpace (po_OutTradeNo r))"

definition paymentOrderShouldPersistUpstreamTradeNo :: "string \<Rightarrow> string \<Rightarrow> string \<Rightarrow> bool" where
  "paymentOrderShouldPersistUpstreamTradeNo queryRef upstream current \<longleftrightarrow>
     TrimSpace upstream \<noteq> '''' \<and> \<not> same_fold (TrimSpace upstream) (TrimSpace current)
     \<and> \<not> same_fold (TrimSpace upstream) (TrimSpace queryRef)"

definition requeryPaidOrderOnce ::
    "'g provider \<Rightarrow> string \<Rightarrow> 'g payment_system \<Rightarrow> QueryOrderResponse option \<times> 'g payment_system" where
  "requeryPaidOrderOnce prov queryRef s =
     (if TrimSpace queryRef = '''' then (None, s)
      else (case on_gateway (QueryOrder prov queryRef) s of
              (Inl _, s1) \<Rightarrow> (None, s1)
            | (Inr a, s1) \<Rightarrow> (if qr_Status a = ''paid'' \<and> qr_Amount a > 0 then Some a else None, s1)))"

text \<open>The order was paid: its trade number is stored, whatever its status, and it is handled like a notification.\<close>

definition settle_paid ::
    "'g pay_env \<Rightarrow> go_time \<Rightarrow> PaymentOrder \<Rightarrow> 'g provider \<Rightarrow> string \<Rightarrow> QueryOrderResponse \<Rightarrow> 'g payment_system
      \<Rightarrow> 'g payment_system" where
  "settle_paid env now r prov queryRef a s =
     (let upstream = TrimSpace (qr_TradeNo a);
          persist = paymentOrderShouldPersistUpstreamTradeNo queryRef upstream (po_PaymentTradeNo r);
          s1 = (if persist
                then snd (on_pay (update_orders now (\<lambda>x. po_ID x = po_ID r) (\<lambda>x. x\<lparr>po_PaymentTradeNo := upstream\<rparr>)) s)
                else s)
      in snd (HandlePaymentNotification env now
                \<lparr>pn_TradeNo = (if persist then upstream else po_PaymentTradeNo r), pn_OrderID = po_OutTradeNo r,
                 pn_Amount = qr_Amount a, pn_Status = ''success'', pn_Metadata = qr_Metadata a\<rparr> (ProviderKey prov) s1))"

definition checkPaidResultAlreadyPaid :: string where "checkPaidResultAlreadyPaid = ''already_paid''"
definition checkPaidResultCancelled :: string where "checkPaidResultCancelled = ''cancelled''"

definition checkPaidWithOptions ::
    "'g pay_env \<Rightarrow> go_time \<Rightarrow> bool \<Rightarrow> PaymentOrder \<Rightarrow> 'g payment_system \<Rightarrow> string \<times> 'g payment_system" where
  "checkPaidWithOptions env now cancelIfUnpaid r s =
     (case getOrderProvider env r s of
        (Inl _, s1) \<Rightarrow> ('''', s1)
      | (Inr prov, s1) \<Rightarrow>
          (let queryRef = paymentOrderQueryReference r prov in
           if queryRef = '''' then ('''', s1)
           else (case on_gateway (QueryOrder prov queryRef) s1 of
                   (Inl _, s2) \<Rightarrow> ('''', s2)
                 | (Inr a, s2) \<Rightarrow>
                     if qr_Status a = ''paid'' then
                       (if qr_Amount a > 0
                        then (checkPaidResultAlreadyPaid, settle_paid env now r prov queryRef a s2)
                        else (case requeryPaidOrderOnce prov queryRef
                                     (writeAuditLog now (po_ID r) ''PAYMENT_INVALID_AMOUNT'' (ProviderKey prov) Detail s2) of
                                (None, s3) \<Rightarrow> ('''', s3)
                              | (Some a2, s3) \<Rightarrow> (checkPaidResultAlreadyPaid, settle_paid env now r prov queryRef a2 s3)))
                     else if \<not> cancelIfUnpaid then ('''', s2)
                     else (case CancelPayment prov of
                             None \<Rightarrow> ('''', s2)
                           | Some f \<Rightarrow> ('''', snd (on_gateway (\<lambda>g. ((), f queryRef g)) s2)))))) "

definition checkPaid :: "'g pay_env \<Rightarrow> go_time \<Rightarrow> PaymentOrder \<Rightarrow> 'g payment_system \<Rightarrow> string \<times> 'g payment_system" where
  "checkPaid env now = checkPaidWithOptions env now True"

definition reconcilePaid :: "'g pay_env \<Rightarrow> go_time \<Rightarrow> PaymentOrder \<Rightarrow> 'g payment_system \<Rightarrow> string \<times> 'g payment_system" where
  "reconcilePaid env now = checkPaidWithOptions env now False"

end
