(* ===== verification/Payment_Lifecycle.thy ===== *)
theory Payment_Lifecycle
  imports Payment_Fulfillment
begin

text \<open>
  Orders that end without a payment and payments found by asking: \<open>service/payment_order_lifecycle.go\<close>.
\<close>

section \<open>Cancelling\<close>

record cancel_limits =
  CancelRateLimitEnabled :: bool
  CancelRateLimitMax :: int
  CancelRateLimitWindow :: int
  CancelRateLimitUnit :: string
  CancelRateLimitMode :: string

definition cancelRateLimitWindowStart :: "calendar \<Rightarrow> go_time \<Rightarrow> cancel_limits \<Rightarrow> go_time" where
  "cancelRateLimitWindowStart c now cfg =
     (let w = (if CancelRateLimitWindow cfg \<le> 0 then 1 else CancelRateLimitWindow cfg);
          u = (if CancelRateLimitUnit cfg = '''' then ''day'' else CancelRateLimitUnit cfg)
      in if CancelRateLimitMode cfg = ''fixed'' then
           (if u = ''minute'' then now - now mod Minute - (w - 1) * Minute
            else if u = ''day'' then AddDays c (own_startOfDay c now) (- (w - 1))
            else now - now mod Hour - (w - 1) * Hour)
         else if u = ''minute'' then now - w * Minute
         else if u = ''day'' then AddDays c now (- w)
         else now - w * Hour)"

definition user_operator :: "int \<Rightarrow> string" where "user_operator uid = ''user:'' @ itoa uid"

definition ErrCancelRateLimited :: "cancel_limits \<Rightarrow> go_error" where
  "ErrCancelRateLimited cfg = WithMetadata (TooManyRequests ''CANCEL_RATE_LIMITED'' ''cancel rate limited'')
     (Some [(''max'', itoa (CancelRateLimitMax cfg)), (''window'', itoa (CancelRateLimitWindow cfg)),
            (''unit'', CancelRateLimitUnit cfg)])"

text \<open>A count that cannot be read allows the order.\<close>

definition checkCancelRateLimit ::
    "calendar \<Rightarrow> go_time \<Rightarrow> int \<Rightarrow> cancel_limits \<Rightarrow> ('g payment_system, go_error + unit) statement" where
  "checkCancelRateLimit c now uid cfg s =
     (if \<not> CancelRateLimitEnabled cfg \<or> CancelRateLimitMax cfg \<le> 0 then (Inr (), s)
      else (case on_pay (count_audits (\<lambda>e. pa_Action e = ''ORDER_CANCELLED'' \<and> pa_Operator e = user_operator uid
                   \<and> pa_CreatedAt e \<ge> cancelRateLimitWindowStart c now cfg)) s of
              (Inl _, s1) \<Rightarrow> (Inr (), s1)
            | (Inr n, s1) \<Rightarrow> (if n \<ge> CancelRateLimitMax cfg then Inl (ErrCancelRateLimited cfg) else Inr (), s1)))"

definition cancelCore ::
    "'g pay_env \<Rightarrow> go_time \<Rightarrow> PaymentOrder \<Rightarrow> string \<Rightarrow> string \<Rightarrow> ('g payment_system, go_error + string) statement" where
  "cancelCore env now r fs op s =
     (case (if po_PaymentTradeNo r \<noteq> '''' \<or> po_PaymentType r \<noteq> '''' then checkPaid env now r s else ('''', s)) of
        (outcome, s1) \<Rightarrow>
          if outcome = checkPaidResultAlreadyPaid then (Inr checkPaidResultAlreadyPaid, s1)
          else and_then
            (on_pay (update_orders now (\<lambda>x. po_ID x = po_ID r \<and> po_Status x = OrderStatusPending)
               (\<lambda>x. x\<lparr>po_Status := fs\<rparr>)))
            (\<lambda>n s2. if n > 0
               then writes now (po_ID r) (if fs = OrderStatusExpired then ''ORDER_EXPIRED'' else ''ORDER_CANCELLED'') op
                      (Inr checkPaidResultCancelled) s2
               else (Inr checkPaidResultCancelled, s2)) s1)"

definition CancelOrder ::
    "'g pay_env \<Rightarrow> go_time \<Rightarrow> int \<Rightarrow> int \<Rightarrow> ('g payment_system, go_error + string) statement" where
  "CancelOrder env now oid uid =
     and_then (get_order oid)
       (\<lambda>r. if po_UserID r \<noteq> uid then refuse (Forbidden ''FORBIDDEN'' ''no permission for this order'')
            else if po_Status r \<noteq> OrderStatusPending
            then refuse (invalid_status ''order cannot be cancelled in current status'')
            else cancelCore env now r OrderStatusCancelled (user_operator uid))"

definition AdminCancelOrder :: "'g pay_env \<Rightarrow> go_time \<Rightarrow> int \<Rightarrow> ('g payment_system, go_error + string) statement" where
  "AdminCancelOrder env now oid =
     and_then (get_order oid)
       (\<lambda>r. if po_Status r \<noteq> OrderStatusPending
            then refuse (invalid_status ''order cannot be cancelled in current status'')
            else cancelCore env now r OrderStatusCancelled ''admin'')"

section \<open>Expiring and reconciling\<close>

definition orders_where :: "(PaymentOrder \<Rightarrow> bool) \<Rightarrow> (payment_db, go_error + PaymentOrder list) statement" where
  "orders_where p d = (Inr (filter p (orders d)), d)"

fun expire_each :: "'g pay_env \<Rightarrow> go_time \<Rightarrow> PaymentOrder list \<Rightarrow> int \<Rightarrow> ('g payment_system, go_error + int) statement" where
  "expire_each env now [] n = give n"
| "expire_each env now (r # rs) n =
     (\<lambda>s. case cancelCore env now r OrderStatusExpired ''system'' s of
        (outcome, s1) \<Rightarrow>
          expire_each env now rs
            (case outcome of
               Inr c \<Rightarrow> if c = checkPaidResultAlreadyPaid \<or> c = '''' then n else n + 1
             | Inl _ \<Rightarrow> n) s1)"

definition ExpireTimedOutOrders :: "'g pay_env \<Rightarrow> go_time \<Rightarrow> ('g payment_system, go_error + int) statement" where
  "ExpireTimedOutOrders env now =
     and_then (on_pay (orders_where (\<lambda>r. po_Status r = OrderStatusPending \<and> po_ExpiresAt r \<le> now)))
       (\<lambda>rs. expire_each env now rs 0)"

definition pendingWxpayReconcileLimit :: nat where "pendingWxpayReconcileLimit = 20"

definition wxpay_order :: "PaymentOrder \<Rightarrow> bool" where
  "wxpay_order r \<longleftrightarrow> po_PaymentType r = TypeWxpay \<or> prefix (TypeWxpay @ ''_'') (po_PaymentType r)
     \<or> (case po_ProviderKey r of None \<Rightarrow> False | Some k \<Rightarrow> k = TypeWxpay \<or> prefix (TypeWxpay @ ''_'') k)"

fun reconcile_each :: "'g pay_env \<Rightarrow> go_time \<Rightarrow> PaymentOrder list \<Rightarrow> int \<Rightarrow> ('g payment_system, go_error + int) statement" where
  "reconcile_each env now [] n = give n"
| "reconcile_each env now (r # rs) n =
     (\<lambda>s. case reconcilePaid env now r s of
        (outcome, s1) \<Rightarrow>
          reconcile_each env now rs (if outcome = checkPaidResultAlreadyPaid then n + 1 else n) s1)"

definition ReconcilePendingWxpayOrders :: "'g pay_env \<Rightarrow> go_time \<Rightarrow> ('g payment_system, go_error + int) statement" where
  "ReconcilePendingWxpayOrders env now =
     and_then (on_pay (orders_where (\<lambda>r. po_Status r = OrderStatusPending \<and> po_ExpiresAt r > now \<and> wxpay_order r)))
       (\<lambda>rs. reconcile_each env now (take pendingWxpayReconcileLimit (sort_key po_CreatedAt rs)) 0)"

definition out_trade_no_char :: "char \<Rightarrow> bool" where
  "out_trade_no_char c \<longleftrightarrow> (let n = of_char c :: nat in
     (97 \<le> n \<and> n \<le> 122) \<or> (65 \<le> n \<and> n \<le> 90) \<or> (48 \<le> n \<and> n \<le> 57) \<or> n = 95 \<or> n = 45)"

definition normalizeOrderLookupOutTradeNo :: "string \<Rightarrow> go_error + string" where
  "normalizeOrderLookupOutTradeNo raw =
     (let n = TrimSpace raw in
      if n = '''' then Inl (BadRequest ''INVALID_OUT_TRADE_NO'' ''out_trade_no is required'')
      else if length n > 64 \<or> \<not> (\<forall>c \<in> set n. out_trade_no_char c)
      then Inl (BadRequest ''INVALID_OUT_TRADE_NO'' ''out_trade_no is invalid'')
      else Inr n)"

definition find_order :: "string \<Rightarrow> ('g payment_system, go_error + PaymentOrder) statement" where
  "find_order n s =
     (case on_pay (by_out_trade_no n) s of (Inl _, s1) \<Rightarrow> (Inl order_missing, s1) | (Inr r, s1) \<Rightarrow> (Inr r, s1))"

definition VerifyOrderByOutTradeNo ::
    "'g pay_env \<Rightarrow> go_time \<Rightarrow> string \<Rightarrow> int \<Rightarrow> ('g payment_system, go_error + PaymentOrder) statement" where
  "VerifyOrderByOutTradeNo env now raw uid =
     (case normalizeOrderLookupOutTradeNo raw of
        Inl e \<Rightarrow> refuse e
      | Inr n \<Rightarrow>
          and_then (find_order n)
            (\<lambda>r. if po_UserID r \<noteq> uid then refuse (Forbidden ''FORBIDDEN'' ''no permission for this order'')
                 else if po_Status r = OrderStatusPending \<or> po_Status r = OrderStatusExpired then
                   (\<lambda>s. case reconcilePaid env now r s of
                      (outcome, s1) \<Rightarrow>
                        if outcome = checkPaidResultAlreadyPaid then on_pay (order_Get (po_ID r)) s1 else (Inr r, s1))
                 else give r))"

definition VerifyOrderPublic :: "string \<Rightarrow> ('g payment_system, go_error + PaymentOrder) statement" where
  "VerifyOrderPublic raw =
     (case normalizeOrderLookupOutTradeNo raw of Inl e \<Rightarrow> refuse e | Inr n \<Rightarrow> find_order n)"

section \<open>The provider that verifies a webhook\<close>

definition psHasPinnedProviderInstance :: "PaymentOrder \<Rightarrow> bool" where
  "psHasPinnedProviderInstance r \<longleftrightarrow>
     psOrderProviderSnapshot r \<noteq> None \<or> TrimSpace (psStringValue (po_ProviderInstanceID r)) \<noteq> ''''"

definition providers_of ::
    "'g pay_env \<Rightarrow> PaymentProviderInstance list \<Rightarrow> 'g provider list" where
  "providers_of env insts = concat (map (\<lambda>i. case provider_of env i of Inl _ \<Rightarrow> [] | Inr p \<Rightarrow> [p]) insts)"

definition getEnabledWebhookProvidersByKey ::
    "'g pay_env \<Rightarrow> string \<Rightarrow> ('g payment_system, go_error + 'g provider list) statement" where
  "getEnabledWebhookProvidersByKey env key =
     and_then (on_pay (instances_where (\<lambda>i. pi_ProviderKey i = TrimSpace key \<and> pi_Enabled i)))
       (\<lambda>insts. case providers_of env (sort_key pi_SortOrder insts) of
          [] \<Rightarrow> refuse ErrProviderNotFound | p # ps \<Rightarrow> give (p # ps))"

text \<open>The registry is a Go map: which provider of a key it names first is the argument \<open>by_key\<close>.\<close>

definition registry_provider ::
    "(string \<Rightarrow> 'g provider option) \<Rightarrow> string \<Rightarrow> ('g payment_system, go_error + 'g provider list) statement" where
  "registry_provider by_key key s =
     (case webhookRegistryFallbackAllowed key s of
        (False, s1) \<Rightarrow> (Inl (PlainError ''webhook provider fallback is ambiguous''), s1)
      | (True, s1) \<Rightarrow> (case by_key key of None \<Rightarrow> Inl ErrProviderNotFound | Some p \<Rightarrow> Inr [p], s1))"

definition webhook_fallback ::
    "'g pay_env \<Rightarrow> (string \<Rightarrow> 'g provider option) \<Rightarrow> string \<Rightarrow> ('g payment_system, go_error + 'g provider list) statement" where
  "webhook_fallback env by_key key =
     (if TrimSpace key = TypeWxpay then getEnabledWebhookProvidersByKey env key else registry_provider by_key key)"

definition GetWebhookProviders ::
    "'g pay_env \<Rightarrow> (string \<Rightarrow> 'g provider option) \<Rightarrow> string \<Rightarrow> string
      \<Rightarrow> ('g payment_system, go_error + 'g provider list) statement" where
  "GetWebhookProviders env by_key key outTradeNo s =
     (if outTradeNo = '''' then webhook_fallback env by_key key s
      else (case on_pay (by_out_trade_no outTradeNo) s of
              (Inl _, s1) \<Rightarrow> webhook_fallback env by_key key s1
            | (Inr r, s1) \<Rightarrow>
                and_then (getOrderProviderInstance r)
                  (\<lambda>inst. case inst of
                     Some i \<Rightarrow> and_then (provider_result env i) (\<lambda>p. give [p])
                   | None \<Rightarrow> if psHasPinnedProviderInstance r then refuse (PlainError ''order provider instance is missing'')
                             else webhook_fallback env by_key key) s1))"

definition GetWebhookProvider ::
    "'g pay_env \<Rightarrow> (string \<Rightarrow> 'g provider option) \<Rightarrow> string \<Rightarrow> string
      \<Rightarrow> ('g payment_system, go_error + 'g provider) statement" where
  "GetWebhookProvider env by_key key outTradeNo =
     and_then (GetWebhookProviders env by_key key outTradeNo)
       (\<lambda>ps. case ps of [] \<Rightarrow> refuse ErrProviderNotFound | p # _ \<Rightarrow> give p)"

end
