(* ===== verification/Payment_Checkout.thy ===== *)
theory Payment_Checkout
  imports Payment_Lifecycle
begin

text \<open>
  Making an order: \<open>service/payment_order.go\<close> and the choice of an instance in
  \<open>payment/load_balancer.go\<close>. The configuration, the plans, the compatibility with WeChat and the return
  URLs are arguments; the answer for the browser is the stored order and its trade number.
\<close>

section \<open>Requests and their checks\<close>

record CreateOrderRequest =
  co_UserID :: int
  co_Amount :: rat
  co_PaymentType :: string
  co_OpenID :: string
  co_OrderType :: string
  co_PlanID :: int

record PaymentConfig =
  pc_Enabled :: bool
  pc_MinAmount :: rat
  pc_MaxAmount :: rat
  pc_DailyLimit :: rat
  pc_OrderTimeoutMin :: int
  pc_MaxPendingOrders :: int
  pc_BalanceDisabled :: bool
  pc_BalanceRechargeMultiplier :: rat
  pc_SubscriptionUSDToCNYRate :: rat
  pc_RechargeFeeRate :: rat
  pc_CancelLimits :: cancel_limits

record SubscriptionPlan =
  pl_ID :: int
  pl_GroupID :: int
  pl_Price :: rat
  pl_ValidityDays :: int
  pl_ValidityUnit :: string
  pl_ForSale :: bool

record InstanceSelection =
  se_InstanceID :: string
  se_ProviderKey :: string
  se_Config :: "(string \<times> string) list"
  se_SupportedTypes :: string
  se_PaymentMode :: string

record 'g checkout_env =
  pay_part :: "'g pay_env"
  payment_config :: "go_error + PaymentConfig"
  plan_of :: "int \<Rightarrow> SubscriptionPlan option"
  user_status :: "int \<Rightarrow> string"
  method_currency :: "string \<Rightarrow> go_error + string"
  select_instance :: "CreateOrderRequest \<Rightarrow> rat \<Rightarrow> go_error + InstanceSelection"
  instance_fits :: "CreateOrderRequest \<Rightarrow> InstanceSelection \<Rightarrow> go_error option"
  oauth_required :: "CreateOrderRequest \<Rightarrow> InstanceSelection \<Rightarrow> go_error + bool"
  return_url :: "CreateOrderRequest \<Rightarrow> PaymentOrder \<Rightarrow> go_error option"
  selected_provider :: "InstanceSelection \<Rightarrow> go_error + 'g provider"
  gateway_error :: "go_error \<Rightarrow> go_error"

definition invalid_amount :: "string \<Rightarrow> go_error" where "invalid_amount m = BadRequest ''INVALID_AMOUNT'' m"

definition validateSubOrder :: "'g checkout_env \<Rightarrow> CreateOrderRequest \<Rightarrow> go_error + SubscriptionPlan" where
  "validateSubOrder env req =
     (if co_PlanID req = 0 then Inl (BadRequest ''INVALID_INPUT'' ''subscription order requires a plan'')
      else (case plan_of env (co_PlanID req) of
              None \<Rightarrow> Inl (NotFound ''PLAN_NOT_AVAILABLE'' ''plan not found or not for sale'')
            | Some p \<Rightarrow>
                if \<not> pl_ForSale p then Inl (NotFound ''PLAN_NOT_AVAILABLE'' ''plan not found or not for sale'')
                else (case GetGroup (sub_part (redeem_part (pay_part env))) (pl_GroupID p) of
                        Inl _ \<Rightarrow> Inl (NotFound ''GROUP_NOT_FOUND'' ''subscription group is no longer available'')
                      | Inr g \<Rightarrow>
                          if sg_Status g \<noteq> EntityStatusActive
                          then Inl (NotFound ''GROUP_NOT_FOUND'' ''subscription group is no longer available'')
                          else if \<not> IsSubscriptionType g
                          then Inl (BadRequest ''GROUP_TYPE_MISMATCH'' ''group is not a subscription type'')
                          else Inr p)))"

definition validateOrderInput ::
    "'g checkout_env \<Rightarrow> CreateOrderRequest \<Rightarrow> PaymentConfig \<Rightarrow> go_error + SubscriptionPlan option" where
  "validateOrderInput env req cfg =
     (if co_OrderType req = OrderTypeBalance \<and> pc_BalanceDisabled cfg
      then Inl (Forbidden ''BALANCE_PAYMENT_DISABLED'' ''balance recharge has been disabled'')
      else if co_OrderType req = OrderTypeSubscription
      then (case validateSubOrder env req of Inl e \<Rightarrow> Inl e | Inr p \<Rightarrow> Inr (Some p))
      else if co_Amount req \<le> 0 then Inl (invalid_amount ''amount must be a positive number'')
      else if pc_MinAmount cfg > 0 \<and> co_Amount req < pc_MinAmount cfg
              \<or> pc_MaxAmount cfg > 0 \<and> co_Amount req > pc_MaxAmount cfg
      then Inl (invalid_amount ''amount out of range'')
      else Inr None)"

definition paymentProviderConfigCurrency :: "string \<Rightarrow> (string \<times> string) list \<Rightarrow> string" where
  "paymentProviderConfigCurrency providerKey cfg =
     (if TrimSpace providerKey = TypeStripe \<or> TrimSpace providerKey = TypeAirwallex
      then (case NormalizePaymentCurrency (psStringValue (map_of cfg ''currency'')) of
              Inr c \<Rightarrow> c | Inl _ \<Rightarrow> DefaultPaymentCurrency)
      else DefaultPaymentCurrency)"

definition calculateSubscriptionGatewayBaseAmount :: "rat \<Rightarrow> rat \<Rightarrow> string \<Rightarrow> rat" where
  "calculateSubscriptionGatewayBaseAmount amount usdToCnyRate currency =
     (let rate = normalizeSubscriptionUSDToCNYRate usdToCnyRate in
      if rate \<le> 0 \<or> currency \<noteq> DefaultPaymentCurrency then amount
      else round_scale (CurrencyMaxFractionDigits currency) (amount * rate))"

definition amount_fits :: "rat \<Rightarrow> string \<Rightarrow> go_error option" where
  "amount_fits amount currency =
     (case AmountToMinorUnit (Some amount) currency of
        Inl e \<Rightarrow> Some (WithMetadata (invalid_amount (case e of PlainError t \<Rightarrow> t | _ \<Rightarrow> '''')) (Some [(''currency'', currency)]))
      | Inr _ \<Rightarrow> None)"

definition calculateCreateOrderPayAmount :: "rat \<Rightarrow> rat \<Rightarrow> string \<Rightarrow> go_error + rat" where
  "calculateCreateOrderPayAmount limitAmount feeRate currency =
     (case amount_fits limitAmount currency of
        Some e \<Rightarrow> Inl e
      | None \<Rightarrow>
          (let pay = CalculatePayAmountForCurrency limitAmount feeRate currency in
           case amount_fits pay currency of Some e \<Rightarrow> Inl e | None \<Rightarrow> Inr pay))"

definition calculateCreateOrderPayAmountForOrderType ::
    "rat \<Rightarrow> rat \<Rightarrow> string \<Rightarrow> string \<Rightarrow> rat \<Rightarrow> go_error + rat" where
  "calculateCreateOrderPayAmountForOrderType limitAmount feeRate currency orderType usdToCnyRate =
     calculateCreateOrderPayAmount
       (if orderType = OrderTypeSubscription
        then calculateSubscriptionGatewayBaseAmount limitAmount usdToCnyRate currency else limitAmount)
       feeRate currency"

section \<open>Storing an order\<close>

definition defaultMaxPendingOrders :: int where "defaultMaxPendingOrders = 3"
definition defaultOrderTimeoutMin :: int where "defaultOrderTimeoutMin = 30"

definition checkPendingLimit :: "int \<Rightarrow> int \<Rightarrow> (payment_db, go_error + unit) statement" where
  "checkPendingLimit uid most d =
     (let limit = (if most \<le> 0 then defaultMaxPendingOrders else most);
          n = length (filter (\<lambda>r. po_UserID r = uid \<and> po_Status r = OrderStatusPending) (orders d))
      in (if int n \<ge> limit
          then Inl (WithMetadata (TooManyRequests ''TOO_MANY_PENDING'' ''too_many_pending'') (Some [(''max'', itoa limit)]))
          else Inr (), d))"

definition psStartOfDayUTC :: "go_time \<Rightarrow> go_time" where
  "psStartOfDayUTC t = t - t mod (24 * Hour)"

definition daily_paid :: "go_time \<Rightarrow> int \<Rightarrow> PaymentOrder \<Rightarrow> bool" where
  "daily_paid now uid r \<longleftrightarrow> po_UserID r = uid
     \<and> po_Status r \<in> {OrderStatusPaid, OrderStatusRecharging, OrderStatusCompleted}
     \<and> (case po_PaidAt r of None \<Rightarrow> False | Some t \<Rightarrow> t \<ge> psStartOfDayUTC now)"

definition checkDailyLimit :: "go_time \<Rightarrow> int \<Rightarrow> rat \<Rightarrow> rat \<Rightarrow> (payment_db, go_error + unit) statement" where
  "checkDailyLimit now uid amount limit d =
     (let used = sum_list (map (\<lambda>r. if po_OrderType r = OrderTypeBalance then po_PayAmount r else po_Amount r)
                   (filter (daily_paid now uid) (orders d)))
      in (if limit > 0 \<and> used + amount > limit
          then Inl (TooManyRequests ''DAILY_LIMIT_EXCEEDED'' ''daily_limit_exceeded'') else Inr (), d))"

text \<open>The date is the argument \<open>date\<close>, the eight characters are drawn for each attempt.\<close>

fun allocateOutTradeNo :: "string \<Rightarrow> string list \<Rightarrow> (payment_db, go_error + string) statement" where
  "allocateOutTradeNo date [] d = (Inl (PlainError ''generate unique out_trade_no: exhausted attempts''), d)"
| "allocateOutTradeNo date (rnd # rnds) d =
     (let candidate = orderIDPrefix @ date @ rnd in
      if \<exists>r \<in> set (orders d). po_OutTradeNo r = candidate then allocateOutTradeNo date rnds d
      else (Inr candidate, d))"

definition set_entry :: "string \<Rightarrow> string \<Rightarrow> (string \<times> snapshot_value) list" where
  "set_entry k v = (if v = '''' then [] else [(k, SnapString v)])"

definition config_value :: "InstanceSelection \<Rightarrow> string \<Rightarrow> string" where
  "config_value sel k = TrimSpace (psStringValue (map_of (se_Config sel) k))"

definition ResolveWxpayJSAPIAppID :: "InstanceSelection \<Rightarrow> string" where
  "ResolveWxpayJSAPIAppID sel =
     (if config_value sel ''mpAppId'' \<noteq> '''' then config_value sel ''mpAppId'' else config_value sel ''appId'')"

definition paymentOrderSnapshotWxpayAppID :: "InstanceSelection \<Rightarrow> CreateOrderRequest \<Rightarrow> string" where
  "paymentOrderSnapshotWxpayAppID sel req =
     (if TrimSpace (se_ProviderKey sel) \<noteq> TypeWxpay then ''''
      else if TrimSpace (co_OpenID req) \<noteq> '''' then TrimSpace (ResolveWxpayJSAPIAppID sel)
      else config_value sel ''appId'')"

definition buildPaymentOrderProviderSnapshot ::
    "InstanceSelection \<Rightarrow> CreateOrderRequest \<Rightarrow> (string \<times> snapshot_value) list" where
  "buildPaymentOrderProviderSnapshot sel req =
     (let key = TrimSpace (se_ProviderKey sel);
          currency = set_entry ''currency'' (paymentProviderConfigCurrency key (se_Config sel));
          merchant =
            (if key = TypeWxpay then
               set_entry ''merchant_app_id'' (paymentOrderSnapshotWxpayAppID sel req)
               @ set_entry ''merchant_id'' (config_value sel ''mchId'')
               @ set_entry ''currency'' DefaultPaymentCurrency
             else if key = TypeAlipay then set_entry ''merchant_app_id'' (config_value sel ''appId'')
             else if key = TypeEasyPay then set_entry ''merchant_id'' (config_value sel ''pid'')
             else if key = TypeStripe then currency
             else if key = TypeAirwallex then set_entry ''merchant_id'' (config_value sel ''accountId'') @ currency
             else []);
          entries = set_entry ''provider_instance_id'' (TrimSpace (se_InstanceID sel)) @ set_entry ''provider_key'' key
            @ set_entry ''payment_mode'' (TrimSpace (se_PaymentMode sel)) @ merchant
      in if entries = [] then [] else (''schema_version'', SnapNumber 2) # entries)"

definition psComputeValidityDays :: "int \<Rightarrow> string \<Rightarrow> int" where
  "psComputeValidityDays days u =
     (if u \<in> {''week'', ''weeks''} then days * 7 else if u \<in> {''month'', ''months''} then days * 30 else days)"

definition psNilIfEmpty :: "string \<Rightarrow> string option" where
  "psNilIfEmpty s = (if s = '''' then None else Some s)"

definition new_order ::
    "go_time \<Rightarrow> CreateOrderRequest \<Rightarrow> SubscriptionPlan option \<Rightarrow> PaymentConfig \<Rightarrow> usd \<Rightarrow> rat \<Rightarrow> InstanceSelection \<Rightarrow> string \<Rightarrow> int
      \<Rightarrow> PaymentOrder" where
  "new_order now req plan cfg orderAmount payAmount sel outTradeNo oid =
     \<lparr>po_ID = oid, po_UserID = co_UserID req, po_Amount = round_scale 2 orderAmount, po_PayAmount = round_scale 2 payAmount,
      po_FeeRate = round_scale 4 (pc_RechargeFeeRate cfg),
      po_RechargeCode = ''PAY-'' @ itoa oid @ ''-'' @ itoa ((now - unix_epoch) mod 100000),
      po_OutTradeNo = outTradeNo, po_PaymentType = co_PaymentType req, po_PaymentTradeNo = '''',
      po_OrderType = co_OrderType req, po_PlanID = map_option pl_ID plan,
      po_SubscriptionGroupID = map_option pl_GroupID plan,
      po_SubscriptionDays = map_option (\<lambda>p. psComputeValidityDays (pl_ValidityDays p) (pl_ValidityUnit p)) plan,
      po_ProviderInstanceID = psNilIfEmpty (TrimSpace (se_InstanceID sel)),
      po_ProviderKey = psNilIfEmpty (TrimSpace (se_ProviderKey sel)),
      po_ProviderSnapshot = buildPaymentOrderProviderSnapshot sel req, po_Status = OrderStatusPending,
      po_RefundAmount = 0, po_RefundReason = None, po_RefundAt = None, po_ForceRefund = False,
      po_RefundRequestedAt = None, po_RefundRequestReason = None, po_RefundRequestedBy = None,
      po_ExpiresAt = now + (if pc_OrderTimeoutMin cfg \<le> 0 then defaultOrderTimeoutMin else pc_OrderTimeoutMin cfg) * Minute,
      po_PaidAt = None, po_CompletedAt = None, po_FailedAt = None, po_FailedReason = None,
      po_CreatedAt = now, po_UpdatedAt = now\<rparr>"

definition insert_order :: "(int \<Rightarrow> PaymentOrder) \<Rightarrow> (payment_db, go_error + PaymentOrder) statement" where
  "insert_order f d =
     (let r = f (order_serial d) in
      if \<exists>x \<in> set (orders d). po_OutTradeNo x = po_OutTradeNo r \<and> po_OutTradeNo r \<noteq> '''' then (Inl ErrUniqueViolation, d)
      else (Inr r, d\<lparr>orders := orders d @ [r], order_serial := order_serial d + 1\<rparr>))"

definition createOrderInTx ::
    "go_time \<Rightarrow> string \<Rightarrow> string list \<Rightarrow> CreateOrderRequest \<Rightarrow> SubscriptionPlan option \<Rightarrow> PaymentConfig \<Rightarrow> usd \<Rightarrow> rat \<Rightarrow> rat
      \<Rightarrow> InstanceSelection \<Rightarrow> (payment_db, go_error + PaymentOrder) statement" where
  "createOrderInTx now date rnds req plan cfg orderAmount limitAmount payAmount sel =
     atomically
       (and_then (checkPendingLimit (co_UserID req) (pc_MaxPendingOrders cfg))
         (\<lambda>_. and_then (checkDailyLimit now (co_UserID req) limitAmount (pc_DailyLimit cfg))
           (\<lambda>_. and_then (allocateOutTradeNo date (take 5 rnds))
             (\<lambda>n. insert_order (new_order now req plan cfg orderAmount payAmount sel n)))))"

section \<open>The whole of it\<close>

definition misconfigured :: "InstanceSelection \<Rightarrow> go_error \<Rightarrow> go_error" where
  "misconfigured sel e =
     (let md = [(''provider'', se_ProviderKey sel), (''instance_id'', se_InstanceID sel)] in
      case errors_As e of
        Some a \<Rightarrow>
          (let own = (case Metadata a of None \<Rightarrow> [] | Some m \<Rightarrow> m)
           in WithMetadata a (Some (own @ filter (\<lambda>(k, _). k \<notin> fst ` set own) md)))
      | None \<Rightarrow> WithMetadata (ServiceUnavailable ''PAYMENT_PROVIDER_MISCONFIGURED'' ''provider_misconfigured'') (Some md))"

definition invokeProvider ::
    "'g checkout_env \<Rightarrow> go_time \<Rightarrow> PaymentOrder \<Rightarrow> CreateOrderRequest \<Rightarrow> rat \<Rightarrow> InstanceSelection
      \<Rightarrow> ('g payment_system, go_error + PaymentOrder \<times> string) statement" where
  "invokeProvider env now r req payAmount sel =
     (case selected_provider env sel of
        Inl e \<Rightarrow> refuse (misconfigured sel e)
      | Inr prov \<Rightarrow>
          (case return_url env req r of
             Some e \<Rightarrow> refuse e
           | None \<Rightarrow> (\<lambda>s.
               case on_gateway (CreatePayment prov \<lparr>cp_OrderID = po_OutTradeNo r, cp_Amount = payAmount,
                      cp_PaymentType = co_PaymentType req\<rparr>) s of
                 (Inl e, s1) \<Rightarrow> (Inl (case errors_As e of Some a \<Rightarrow> a | None \<Rightarrow> gateway_error env e), s1)
               | (Inr tradeNo, s1) \<Rightarrow>
                   and_then
                     (on_pay (update_order now (po_ID r)
                        (\<lambda>x. x\<lparr>po_PaymentTradeNo := (if tradeNo = '''' then po_PaymentTradeNo x else tradeNo),
                               po_ProviderInstanceID := (if se_InstanceID sel = '''' then po_ProviderInstanceID x
                                                         else Some (se_InstanceID sel)),
                               po_ProviderKey := (if se_ProviderKey sel = '''' then po_ProviderKey x
                                                  else Some (se_ProviderKey sel))\<rparr>)))
                     (\<lambda>_. writes now (po_ID r) ''ORDER_CREATED'' (user_operator (co_UserID req)) (Inr (r, tradeNo))) s1)))"

definition normalized_request :: "CreateOrderRequest \<Rightarrow> CreateOrderRequest" where
  "normalized_request req =
     (let method = GetBasePaymentType (TrimSpace (co_PaymentType req)) in
      req\<lparr>co_OrderType := (if co_OrderType req = '''' then OrderTypeBalance else co_OrderType req),
          co_PaymentType := (if method \<noteq> '''' then method else co_PaymentType req)\<rparr>)"

text \<open>What is paid, in the currency of the method and again in that of the chosen instance.\<close>

definition choose_instance ::
    "'g checkout_env \<Rightarrow> CreateOrderRequest \<Rightarrow> PaymentConfig \<Rightarrow> rat \<Rightarrow> go_error + rat \<times> InstanceSelection" where
  "choose_instance env req cfg limitAmount =
     (let price = (\<lambda>c. calculateCreateOrderPayAmountForOrderType limitAmount (pc_RechargeFeeRate cfg) c (co_OrderType req)
                        (pc_SubscriptionUSDToCNYRate cfg)) in
      case method_currency env (co_PaymentType req) of
        Inl e \<Rightarrow> Inl e
      | Inr methodCurrency \<Rightarrow>
          (case price methodCurrency of
             Inl e \<Rightarrow> Inl e
           | Inr pay0 \<Rightarrow>
               (case select_instance env req pay0 of
                  Inl e \<Rightarrow> Inl e
                | Inr sel \<Rightarrow>
                    (case instance_fits env req sel of
                       Some e \<Rightarrow> Inl e
                     | None \<Rightarrow>
                         (let c = paymentProviderConfigCurrency (se_ProviderKey sel) (se_Config sel) in
                          case (if c \<noteq> methodCurrency then price c else Inr pay0) of
                            Inl e \<Rightarrow> Inl e
                          | Inr pay \<Rightarrow> (case amount_fits pay c of Some e \<Rightarrow> Inl e | None \<Rightarrow> Inr (pay, sel)))))))"

definition order_amounts :: "CreateOrderRequest \<Rightarrow> SubscriptionPlan option \<Rightarrow> PaymentConfig \<Rightarrow> usd \<times> rat" where
  "order_amounts req plan cfg =
     (case plan of
        Some p \<Rightarrow> (pl_Price p, pl_Price p)
      | None \<Rightarrow>
          (if co_OrderType req = OrderTypeBalance
           then calculateCreditedBalance (co_Amount req) (pc_BalanceRechargeMultiplier cfg) else co_Amount req,
           co_Amount req))"

text \<open>\<open>Inr None\<close> is the answer that asks for OAuth; a failure of the gateway marks the stored order.\<close>

definition store_and_invoke ::
    "'g checkout_env \<Rightarrow> go_time \<Rightarrow> string \<Rightarrow> string list \<Rightarrow> CreateOrderRequest \<Rightarrow> SubscriptionPlan option \<Rightarrow> PaymentConfig
      \<Rightarrow> rat \<Rightarrow> InstanceSelection \<Rightarrow> ('g payment_system, go_error + (PaymentOrder \<times> string) option) statement" where
  "store_and_invoke env now date rnds req plan cfg pay sel =
     (case order_amounts req plan cfg of (orderAmount, limitAmount) \<Rightarrow>
        and_then (on_pay (createOrderInTx now date rnds req plan cfg orderAmount limitAmount pay sel))
          (\<lambda>r s. case invokeProvider env now r req pay sel s of
             (Inr a, s1) \<Rightarrow> (Inr (Some a), s1)
           | (Inl e, s1) \<Rightarrow>
               (Inl e, snd (on_pay (update_order now (po_ID r) (\<lambda>x. x\<lparr>po_Status := OrderStatusFailed\<rparr>)) s1))))"

definition CreateOrder ::
    "'g checkout_env \<Rightarrow> go_time \<Rightarrow> string \<Rightarrow> string list \<Rightarrow> CreateOrderRequest
      \<Rightarrow> ('g payment_system, go_error + (PaymentOrder \<times> string) option) statement" where
  "CreateOrder env now date rnds req0 =
     (let req = normalized_request req0 in
      case payment_config env of
        Inl e \<Rightarrow> refuse e
      | Inr cfg \<Rightarrow>
          if \<not> pc_Enabled cfg then refuse (Forbidden ''PAYMENT_DISABLED'' ''payment system is disabled'')
          else (case validateOrderInput env req cfg of
                  Inl e \<Rightarrow> refuse e
                | Inr plan \<Rightarrow>
                    and_then (checkCancelRateLimit (cal (sub_part (redeem_part (pay_part env)))) now (co_UserID req)
                               (pc_CancelLimits cfg))
                      (\<lambda>_. and_then (on_pay (on_shop (on_members (user_GetByID (co_UserID req)))))
                        (\<lambda>_. if user_status env (co_UserID req) \<noteq> EntityStatusActive
                              then refuse (Forbidden ''USER_INACTIVE'' ''user account is disabled'')
                              else (case choose_instance env req cfg (snd (order_amounts req plan cfg)) of
                                      Inl e \<Rightarrow> refuse e
                                    | Inr (pay, sel) \<Rightarrow>
                                        (case oauth_required env req sel of
                                           Inl e \<Rightarrow> refuse e
                                         | Inr True \<Rightarrow> give None
                                         | Inr False \<Rightarrow> store_and_invoke env now date rnds req plan cfg pay sel))))))"

definition GetOrder :: "int \<Rightarrow> int \<Rightarrow> ('g payment_system, go_error + PaymentOrder) statement" where
  "GetOrder oid uid =
     and_then (get_order oid)
       (\<lambda>r. if po_UserID r \<noteq> uid then refuse (Forbidden ''FORBIDDEN'' ''no permission for this order'') else give r)"

definition GetOrderByID :: "int \<Rightarrow> ('g payment_system, go_error + PaymentOrder) statement" where
  "GetOrderByID oid = get_order oid"

end
