(* ===== verification/Payment_Balancer.thy ===== *)
theory Payment_Balancer
  imports Payment_Checkout
begin

text \<open>
  The choice of a provider instance: \<open>payment/load_balancer.go\<close>. The decoded limits and configuration of an
  instance are arguments.
\<close>

record ChannelLimits =
  cl_DailyLimit :: rat
  cl_SingleMin :: rat
  cl_SingleMax :: rat

record balancer_env =
  limits_of :: "PaymentProviderInstance \<Rightarrow> (string \<times> ChannelLimits) list"
  config_of :: "PaymentProviderInstance \<Rightarrow> (string \<times> string) list"
  day_start :: "go_time \<Rightarrow> go_time"

definition resolveWxpayJSAPIAppID :: "(string \<times> string) list \<Rightarrow> string" where
  "resolveWxpayJSAPIAppID cfg =
     (let mp = TrimSpace (psStringValue (map_of cfg ''mpAppId'')) in
      if mp \<noteq> '''' then mp else TrimSpace (psStringValue (map_of cfg ''appId'')))"

definition instance_matches :: "balancer_env \<Rightarrow> string \<Rightarrow> string \<Rightarrow> PaymentProviderInstance \<Rightarrow> bool" where
  "instance_matches env appID paymentType i \<longleftrightarrow>
     (if paymentType = TypeStripe then pi_ProviderKey i = TypeStripe
      else InstanceSupportsType (pi_SupportedTypes i) paymentType
        \<and> (appID \<noteq> '''' \<and> normalizeVisibleMethodSupportType paymentType = TypeWxpay \<and> pi_ProviderKey i = TypeWxpay
           \<longrightarrow> resolveWxpayJSAPIAppID (config_of env i) = appID))"

definition queryEnabledInstances ::
    "balancer_env \<Rightarrow> string \<Rightarrow> string \<Rightarrow> string \<Rightarrow> (payment_db, go_error + PaymentProviderInstance list) statement" where
  "queryEnabledInstances env appID providerKey paymentType d =
     (let insts = sort_key pi_SortOrder (filter (\<lambda>i. pi_Enabled i \<and> (providerKey \<noteq> '''' \<longrightarrow> pi_ProviderKey i = providerKey))
                    (provider_instances d));
          matched = filter (instance_matches env appID paymentType) insts
      in (case matched of [] \<Rightarrow> Inl (PlainError ''no enabled instance for payment type'') | _ # _ \<Rightarrow> Inr matched, d))"

text \<open>The usage of the day, orders that are still pending included; a failed query counts as none.\<close>

definition used_today :: "balancer_env \<Rightarrow> go_time \<Rightarrow> payment_db \<Rightarrow> PaymentProviderInstance \<Rightarrow> rat" where
  "used_today env now d i =
     sum_list (map po_PayAmount (filter (\<lambda>r. po_ProviderInstanceID r = Some (itoa (pi_ID i))
        \<and> po_Status r \<in> {OrderStatusPending, OrderStatusPaid, OrderStatusCompleted, OrderStatusRecharging}
        \<and> po_CreatedAt r \<ge> day_start env now) (orders d)))"

definition attachDailyUsage ::
    "balancer_env \<Rightarrow> go_time \<Rightarrow> PaymentProviderInstance list \<Rightarrow> payment_db world
      \<Rightarrow> (PaymentProviderInstance \<times> rat) list \<times> payment_db world" where
  "attachDailyUsage env now insts w =
     (case db_exec (\<lambda>d. (Inr (map (\<lambda>i. (i, used_today env now d i)) insts), d)) w of
        (Inl _, w1) \<Rightarrow> (map (\<lambda>i. (i, 0)) insts, w1) | (Inr cs, w1) \<Rightarrow> (cs, w1))"

definition legacyVisibleMethodAlias :: "string \<Rightarrow> string" where
  "legacyVisibleMethodAlias t =
     (let k = normalizeVisibleMethodSupportType t in
      if k = TypeAlipay then TypeAlipayDirect else if k = TypeWxpay then TypeWxpayDirect else '''')"

definition no_limits :: ChannelLimits where "no_limits = \<lparr>cl_DailyLimit = 0, cl_SingleMin = 0, cl_SingleMax = 0\<rparr>"

definition getInstanceChannelLimits :: "balancer_env \<Rightarrow> PaymentProviderInstance \<Rightarrow> string \<Rightarrow> ChannelLimits" where
  "getInstanceChannelLimits env i paymentType =
     (let key = (if pi_ProviderKey i = TypeStripe then TypeStripe else paymentType) in
      case map_of (limits_of env i) key of
        Some l \<Rightarrow> l
      | None \<Rightarrow>
          (let a = legacyVisibleMethodAlias key in
           if a = '''' then no_limits
           else (case map_of (limits_of env i) a of Some l \<Rightarrow> l | None \<Rightarrow> no_limits)))"

definition within_limits :: "balancer_env \<Rightarrow> string \<Rightarrow> rat \<Rightarrow> PaymentProviderInstance \<times> rat \<Rightarrow> bool" where
  "within_limits env paymentType amount c \<longleftrightarrow>
     (let l = getInstanceChannelLimits env (fst c) paymentType in
      \<not> (cl_SingleMin l > 0 \<and> amount < cl_SingleMin l)
      \<and> \<not> (cl_SingleMax l > 0 \<and> amount > cl_SingleMax l)
      \<and> \<not> (cl_DailyLimit l > 0 \<and> snd c + amount > cl_DailyLimit l))"

definition filterByLimits ::
    "balancer_env \<Rightarrow> string \<Rightarrow> rat \<Rightarrow> (PaymentProviderInstance \<times> rat) list \<Rightarrow> (PaymentProviderInstance \<times> rat) list" where
  "filterByLimits env paymentType amount cs = filter (within_limits env paymentType amount) cs"

fun pickLeastAmount :: "PaymentProviderInstance \<times> rat \<Rightarrow> (PaymentProviderInstance \<times> rat) list \<Rightarrow> PaymentProviderInstance \<times> rat" where
  "pickLeastAmount best [] = best"
| "pickLeastAmount best (c # cs) = pickLeastAmount (if snd c < snd best then c else best) cs"

text \<open>The counter of the round robin is a 64-bit word.\<close>

definition pickByStrategy ::
    "string \<Rightarrow> (PaymentProviderInstance \<times> rat) list \<Rightarrow> 64 word \<Rightarrow> (PaymentProviderInstance \<times> rat) \<times> 64 word" where
  "pickByStrategy strategy cs counter =
     (if strategy = ''least-amount'' \<and> length cs > 1 then (pickLeastAmount (hd cs) (tl cs), counter)
      else (cs ! (unat (counter + 1) mod length cs), counter + 1))"

definition buildSelection :: "balancer_env \<Rightarrow> PaymentProviderInstance \<Rightarrow> InstanceSelection" where
  "buildSelection env i =
     \<lparr>se_InstanceID = itoa (pi_ID i), se_ProviderKey = pi_ProviderKey i,
      se_Config = (if pi_PaymentMode i = '''' then config_of env i else (''paymentMode'', pi_PaymentMode i) # config_of env i),
      se_SupportedTypes = pi_SupportedTypes i, se_PaymentMode = pi_PaymentMode i\<rparr>"

definition SelectInstance ::
    "balancer_env \<Rightarrow> go_time \<Rightarrow> string \<Rightarrow> string \<Rightarrow> string \<Rightarrow> string \<Rightarrow> rat \<Rightarrow> payment_db world \<times> 64 word
      \<Rightarrow> (go_error + InstanceSelection) \<times> payment_db world \<times> 64 word" where
  "SelectInstance env now appID providerKey paymentType strategy amount x =
     (case x of (w, counter) \<Rightarrow>
        (case db_exec (queryEnabledInstances env appID providerKey paymentType) w of
           (Inl e, w1) \<Rightarrow> (Inl e, w1, counter)
         | (Inr insts, w1) \<Rightarrow>
             (case attachDailyUsage env now insts w1 of (candidates, w2) \<Rightarrow>
                (let fit = filterByLimits env paymentType amount candidates;
                     available = (if fit = [] then candidates else fit)
                 in case pickByStrategy strategy available counter of
                      (c, counter1) \<Rightarrow> (Inr (buildSelection env (fst c)), w2, counter1)))))"

end
