(* ===== verification/Statement_Effects.thy ===== *)
theory Statement_Effects
  imports App_Errors
begin

text \<open>
  What a statement may do to a state, as a relation between the state before and the state after it, and
  the rules by which the effect of a handler follows from the effects of its statements.
\<close>

text \<open>
  What statements may do to a state is a reflexive and transitive relation; what is built of statements
  within it stays within it.
\<close>

locale effects =
  fixes le :: "'d \<Rightarrow> 'd \<Rightarrow> bool"
  assumes le_refl: "le d d"
    and le_trans: "le d d1 \<Longrightarrow> le d1 d2 \<Longrightarrow> le d d2"
begin

definition keeps :: "('d, 'a) statement \<Rightarrow> bool" where
  "keeps st \<longleftrightarrow> (\<forall>d. le d (snd (st d)))"

lemma keepsI: "(\<And>d. le d (snd (st d))) \<Longrightarrow> keeps st"
  by (simp add: keeps_def)

lemma keeps_at: "keeps st \<Longrightarrow> le d (snd (st d))"
  by (simp add: keeps_def)

lemma keepsD: "keeps st \<Longrightarrow> st d = (x, d') \<Longrightarrow> le d d'"
  by (metis keeps_def snd_conv)

lemma keeps_give: "keeps (give a)"
  by (simp add: keeps_def le_refl)

lemma keeps_refuse: "keeps (refuse e)"
  by (simp add: keeps_def le_refl)

lemma keeps_and_then:
  assumes "keeps st" and "\<And>a. keeps (f a)"
  shows "keeps (and_then st f)"
proof (rule keepsI)
  fix d
  obtain x d1 where 1: "st d = (x, d1)" by (cases "st d")
  have "le d d1" using keepsD [OF assms(1) 1] .
  moreover have "le d1 (snd (f a d1))" for a using assms(2) by (simp add: keeps_def)
  ultimately show "le d (snd (and_then st f d))"
    using le_trans by (auto simp: and_then_def 1 split: sum.split)
qed

lemma keeps_atomically: "keeps st \<Longrightarrow> keeps (atomically st)"
  by (auto simp: keeps_def atomically_def le_refl split: prod.split sum.split) (metis snd_conv)

lemma keeps_then:
  assumes "st d = (x, d1)" and "keeps st" and "le d1 d2"
  shows "le d d2"
  using le_trans [OF keepsD [OF assms(2,1)] assms(3)] .

lemma keeps_option: "keeps st \<Longrightarrow> (\<And>y. keeps (f y)) \<Longrightarrow> keeps (case x of None \<Rightarrow> st | Some y \<Rightarrow> f y)"
  by (cases x) simp_all

lemma keeps_bind:
  assumes "keeps st" and "\<And>x d1. le d1 (snd (f x d1))"
  shows "le d (snd (case st d of (x, d1) \<Rightarrow> f x d1))"
  using keeps_at [OF assms(1), of d] assms(2) le_trans by (auto split: prod.split)

lemma keeps_db_exec: "keeps st \<Longrightarrow> le (db w) (db (snd (db_exec st w)))"
  using db_exec_db [of st w] by (auto simp: keeps_def le_refl)

lemmas keeps_intros = keeps_give keeps_refuse keeps_and_then keeps_atomically

end

end
