(* ===== verification/Payment_Order_Facts.thy ===== *)
theory Payment_Order_Facts
  imports Payment_Lifecycle Redeem_Facts Statement_Effects
begin

text \<open>
  What the handlers of payments keep, whatever is lost between them and the database: an order of a
  recharge is settled only after its recharge code has been redeemed. This theory has the invariant and
  goes through the fulfilment, the notifications, the cancelling and the reconciling of orders.
\<close>

section \<open>Codes and orders that only go forward\<close>

definition code_used :: "string \<Rightarrow> redeem_db \<Rightarrow> bool" where
  "code_used c d \<longleftrightarrow> (\<exists>k \<in> set (codes d). rc_Code k = c \<and> rc_Status k = StatusUsed)"

definition codes_grow :: "redeem_db \<Rightarrow> redeem_db \<Rightarrow> bool" where
  "codes_grow d d' \<longleftrightarrow> (codes_ok d \<longrightarrow> codes_ok d' \<and> (\<forall>c. code_used c d \<longrightarrow> code_used c d'))"

definition is_settled :: "PaymentOrder \<Rightarrow> bool" where
  "is_settled r \<longleftrightarrow> po_Status r = OrderStatusCompleted \<or> psIsRefundStatus (po_Status r)"

definition same_order :: "PaymentOrder \<Rightarrow> PaymentOrder \<Rightarrow> bool" where
  "same_order r r' \<longleftrightarrow> po_ID r' = po_ID r \<and> po_RechargeCode r' = po_RechargeCode r \<and> po_OrderType r' = po_OrderType r
     \<and> (is_settled r' \<longleftrightarrow> is_settled r)"

definition modest :: "payment_db \<Rightarrow> payment_db \<Rightarrow> bool" where
  "modest d d' \<longleftrightarrow> order_serial d' = order_serial d \<and> list_all2 same_order (orders d) (orders d')
     \<and> codes_grow (shop d) (shop d')"

lemma codes_grow_refl [simp]: "codes_grow d d"
  by (simp add: codes_grow_def)

lemma codes_grow_trans: "codes_grow d d1 \<Longrightarrow> codes_grow d1 d2 \<Longrightarrow> codes_grow d d2"
  by (simp add: codes_grow_def)

lemma codes_grow_same: "codes d' = codes d \<Longrightarrow> code_serial d' = code_serial d \<Longrightarrow> codes_grow d d'"
  by (simp add: codes_grow_def codes_ok_def code_used_def)

lemma same_order_refl [simp]: "same_order r r"
  by (simp add: same_order_def)

lemma modest_refl: "modest d d"
  by (simp add: modest_def list.rel_refl)

lemma modest_trans:
  assumes "modest d d1" and "modest d1 d2"
  shows "modest d d2"
proof -
  have t: "same_order r r2" if "same_order r r1" "same_order r1 r2" for r r1 r2
    using that by (auto simp: same_order_def)
  have "list_all2 same_order (orders d) (orders d2)"
    by (rule list_all2_trans [of same_order same_order same_order "orders d" "orders d1"])
      (use assms t in \<open>auto simp: modest_def\<close>)
  then show ?thesis
    using assms codes_grow_trans by (auto simp: modest_def)
qed

interpretation row: effects modest
  by unfold_locales (rule modest_refl, rule modest_trans)

definition modest_system :: "'g payment_system \<Rightarrow> 'g payment_system \<Rightarrow> bool" where
  "modest_system s s' \<longleftrightarrow> modest (db (pay_pg s)) (db (pay_pg s'))"

interpretation sys: effects modest_system
  by unfold_locales (auto simp: modest_system_def modest_refl intro: modest_trans)

section \<open>What the statements keep\<close>

lemma modest_same:
  "orders d' = orders d \<Longrightarrow> order_serial d' = order_serial d \<Longrightarrow> codes (shop d') = codes (shop d)
    \<Longrightarrow> code_serial (shop d') = code_serial (shop d) \<Longrightarrow> modest d d'"
  by (simp add: modest_def list.rel_refl codes_grow_same)

lemma modest_shop: "codes_grow (shop d) x \<Longrightarrow> modest d (d\<lparr>shop := x\<rparr>)"
  by (simp add: modest_def list.rel_refl)

lemma modest_update:
  assumes "\<And>r. r \<in> set (orders d) \<Longrightarrow> p r \<Longrightarrow> same_order r (f (r\<lparr>po_UpdatedAt := now\<rparr>))"
  shows "modest d (snd (update_orders now p f d))"
  using assms by (auto simp: update_orders_def modest_def list_all2_map2 intro!: list.rel_refl_strong)

lemma update_order_db: "snd (update_order now oid f d) = snd (update_orders now (\<lambda>r. po_ID r = oid) f d)"
  by (simp add: update_order_def and_then_def update_orders_def)

lemma row_keeps_queries:
  "row.keeps (order_Get oid)" "row.keeps (by_out_trade_no n)" "row.keeps (count_audits p)" "row.keeps (instances_where q)"
  "row.keeps (instance_Get i)" "row.keeps (audit_Create e)" "row.keeps (orders_where u)"
  "row.keeps (tryClaimAffiliateRebateAudit now oid)" "row.keeps (updateClaimedAffiliateRebateAudit oid act)"
  by (auto simp: row.keeps_def order_Get_def order_only_def by_out_trade_no_def count_audits_def instances_where_def
      instance_Get_def audit_Create_def orders_where_def tryClaimAffiliateRebateAudit_def
      updateClaimedAffiliateRebateAudit_def Let_def intro!: modest_same)

lemma row_keeps_shop: "(\<And>x. codes_grow x (snd (st x))) \<Longrightarrow> row.keeps (on_shop st)"
  by (auto simp: row.keeps_def on_shop_def on_part_def split: prod.split intro!: modest_shop) (metis snd_conv)

lemma row_keeps_parts:
  "row.keeps (on_shop (on_members m))" "row.keeps (on_shop (on_subs t))" "row.keeps (on_shop (code_GetByCode c))"
  "row.keeps (on_affiliates a)"
  by (auto intro!: row_keeps_shop codes_grow_same)
    (auto simp: row.keeps_def on_affiliates_def on_part_def split: prod.split intro!: modest_same)

lemma sys_keeps_on_pay: "row.keeps st \<Longrightarrow> sys.keeps (on_pay st)"
  using row.keeps_db_exec [of st] by (auto simp: sys.keeps_def modest_system_def on_pay_def split: prod.split)
    (metis snd_conv)

lemma sys_keeps_gateway: "sys.keeps (on_gateway f)"
  by (auto simp: sys.keeps_def modest_system_def on_gateway_def modest_refl split: prod.split)

lemma sys_keeps_writeAuditLog: "modest_system s (writeAuditLog now oid act op detail s)"
  unfolding writeAuditLog_def by (rule sys.keeps_at [OF sys_keeps_on_pay [OF row_keeps_queries(6)]])

lemma sys_keeps_writes: "sys.keeps (writes now oid act op r)"
  by (simp add: sys.keeps_def writes_def sys_keeps_writeAuditLog)

lemma sys_keeps_hasAuditLog: "sys.keeps (hasAuditLog oid act)"
proof (rule sys.keepsI)
  fix s :: "'a payment_system"
  have "modest_system s (snd (on_pay (count_audits (\<lambda>e. pa_OrderID e = oid \<and> pa_Action e = act)) s))"
    by (rule sys.keeps_at [OF sys_keeps_on_pay [OF row_keeps_queries(3)]])
  then show "modest_system s (snd (hasAuditLog oid act s))"
    by (auto simp: hasAuditLog_def split: prod.split sum.split)
qed

lemma sys_keeps_shop_calls:
  assumes "\<And>w. codes_grow (db w) (db (snd (f w)))"
  shows "sys.keeps (on_shop_calls f)"
proof (rule sys.keepsI)
  fix s :: "'b payment_system"
  let ?w = "\<lparr>db = shop (db (pay_pg s)), faults = faults (pay_pg s)\<rparr>"
  show "modest_system s (snd (on_shop_calls f s))"
    using assms [of ?w] by (auto simp: on_shop_calls_def modest_system_def split: prod.split intro!: modest_shop)
qed

lemma sys_keeps_sub_calls: "sys.keeps (on_sub_calls f)"
  unfolding on_sub_calls_def
  by (rule sys_keeps_shop_calls) (auto split: prod.split intro: codes_grow_same)

lemma codes_grow_create: "codes_grow d (snd (code_Create now c d))"
  using create_effect [of d now c _ "snd (code_Create now c d)"]
  by (auto simp: codes_grow_def code_used_def code_Create_def Let_def split: if_splits prod.splits)

lemma codes_grow_db_exec: "(\<And>d. codes_grow d (snd (st d))) \<Longrightarrow> codes_grow (db w) (db (snd (db_exec st w)))"
  using db_exec_db [of st w] by auto

lemma codes_grow_CreateCode: "codes_grow (db w) (db (snd (CreateCode now c w)))"
  by (simp add: CreateCode_def Let_def codes_grow_db_exec codes_grow_create)

section \<open>Redemptions\<close>

lemma redeem_tx_codes:
  assumes "redeem_tx env now uid r d = (Inr (), d')"
  shows "codes d' = map (\<lambda>k. if rc_ID k = rc_ID r \<and> rc_Status k = StatusUnused
    then k\<lparr>rc_Status := StatusUsed, rc_UsedBy := Some uid, rc_UsedAt := Some now\<rparr> else k) (codes d)"
proof -
  obtain d1 where d1: "Use now (rc_ID r) uid d = (Inr (), d1)" "grant_code env now uid r d1 = (Inr (), d')"
    using assms by (auto simp: redeem_tx_def atomically_Inr and_then_Inr)
  then show ?thesis
    using Use_Inr [OF d1(1)] grant_keeps_codes [of env now uid r d1] by simp
qed

lemma code_used_map:
  assumes "codes d' = map g (codes d)" and "k \<in> set (codes d)" and "rc_Code (g k) = c" and "rc_Status (g k) = StatusUsed"
  shows "code_used c d'"
  unfolding code_used_def assms(1) set_map using imageI [OF assms(2), of g] assms(3,4) by blast

lemma codes_grow_redeemed:
  assumes "redeemed_once env now uid d d'"
  shows "codes_grow d d'"
proof -
  obtain r where r: "redeem_exec env (Redeems now uid r) d = ([rc_ID r], d')"
    using assms by (auto simp: redeemed_once_def)
  then have tx: "redeem_tx env now uid r d = (Inr (), d')"
    by (auto split: prod.splits sum.splits)
  have "code_used c d'" if "code_used c d" for c
  proof -
    obtain k where "k \<in> set (codes d)" "rc_Code k = c" "rc_Status k = StatusUsed"
      using \<open>code_used c d\<close> by (auto simp: code_used_def)
    then show ?thesis
      by (intro code_used_map [OF redeem_tx_codes [OF tx], of k]) (auto simp: StatusUsed_def StatusUnused_def)
  qed
  then show ?thesis
    using redeems_once [OF _ r] by (simp add: codes_grow_def grants_once_def)
qed

lemma codes_grow_Redeem: "codes_grow (db (pg s)) (db (pg (snd (Redeem env now uid c s))))"
  using redemption_is_one_step [OF prod.collapse [symmetric], of env now uid c s] codes_grow_redeemed by auto

lemma redeem_tx_uses:
  assumes "redeem_tx env now uid r d = (Inr (), d')" and "codes_ok d" and "r \<in> set (codes d)"
  shows "code_used (rc_Code r) d'"
proof -
  obtain k where k: "k \<in> set (codes d)" "rc_ID k = rc_ID r" "rc_Status k = StatusUnused"
    using redeem_tx_Inr [OF assms(1,2)] by blast
  then have "k = r" using assms(2,3) by (auto simp: codes_ok_def distinct_map inj_on_def)
  then show ?thesis
    using k by (intro code_used_map [OF redeem_tx_codes [OF assms(1)] k(1)]) simp_all
qed

lemma redeem_locked_uses:
  assumes "redeem_locked env now uid c s = (Inr k, s')" and "codes_ok (db (pg s))"
  shows "code_used c (db (pg s'))"
proof -
  obtain r s1 where 1: "on_pg (code_GetByCode c) s = (Inr r, s1)"
    using assms(1) by (auto simp: redeem_locked_def split: prod.splits sum.splits if_splits)
  have k1: "db (pg s1) = db (pg s)" using on_pg_query [OF 1] by simp
  have r: "r \<in> set (codes (db (pg s)))" "rc_Code r = c"
    using 1 by (auto simp: on_pg_def code_GetByCode_def one_code_def find_Some_iff dest!: db_exec_Inr
        split: prod.splits option.splits)
  obtain u s2 where 2: "on_pg (on_members (user_GetByID uid)) s1 = (Inr u, s2)"
    and rest: "and_then (on_pg (redeem_tx env now uid r)) (\<lambda>_. on_pg (code_GetByID (rc_ID r))) s2 = (Inr k, s')"
    using assms(1) 1 by (auto simp: redeem_locked_def and_then_Inr split: if_splits option.splits)
  have k2: "db (pg s2) = db (pg s)" using on_pg_query [OF 2] k1 by simp
  obtain s3 where 3: "on_pg (redeem_tx env now uid r) s2 = (Inr (), s3)" "on_pg (code_GetByID (rc_ID r)) s3 = (Inr k, s')"
    using rest by (auto simp: and_then_Inr)
  have "redeem_tx env now uid r (db (pg s)) = (Inr (), db (pg s3))"
    using 3(1) by (auto simp: on_pg_def k2 [symmetric] dest!: db_exec_Inr split: prod.splits)
  moreover have "db (pg s') = db (pg s3)" using on_pg_query [OF 3(2)] by simp
  ultimately show ?thesis using redeem_tx_uses [OF _ assms(2) r(1)] r(2) by simp
qed

lemma Redeem_uses:
  assumes "Redeem env now uid c s = (Inr k, s')" and "codes_ok (db (pg s))"
  shows "code_used c (db (pg s'))"
proof -
  obtain s1 where 1: "checkRedeemRateLimit env now uid s = (Inr (), s1)"
    using assms(1) by (auto simp: Redeem_def and_then_Inr)
  obtain b s2 where 2: "acquireRedeemLock env now c s1 = (b, s2)" by (cases "acquireRedeemLock env now c s1")
  have same: "pg s1 = pg s" "pg s2 = pg s"
    using guards_keep_pg(3) [of env now uid s] guards_keep_pg(4) [of env now c s1] 1 2 by simp_all
  obtain s3 where 3: "redeem_locked env now uid c s2 = (Inr k, s3)" "s' = releaseRedeemLock env c s3"
    using assms(1) 1 2 by (auto simp: Redeem_def and_then_def split: bool.splits prod.splits)
  then show ?thesis using redeem_locked_uses assms(2) same by simp
qed

section \<open>Orders that are settled are backed by a code\<close>

definition orders_ok :: "payment_db \<Rightarrow> bool" where
  "orders_ok d \<longleftrightarrow> distinct (map po_ID (orders d)) \<and> (\<forall>r \<in> set (orders d). po_ID r < order_serial d)"

definition backed :: "PaymentOrder \<Rightarrow> payment_db \<Rightarrow> bool" where
  "backed r d \<longleftrightarrow> (po_OrderType r \<noteq> OrderTypeSubscription \<longrightarrow> code_used (po_RechargeCode r) (shop d))"

definition fair :: "payment_db \<Rightarrow> bool" where
  "fair d \<longleftrightarrow> orders_ok d \<and> codes_ok (shop d) \<and> (\<forall>r \<in> set (orders d). is_settled r \<longrightarrow> backed r d)"

text \<open>The order of a handler: all rows of its number are backed, settled, or carry the code that was read.\<close>

definition backed_order :: "int \<Rightarrow> payment_db \<Rightarrow> bool" where
  "backed_order oid d \<longleftrightarrow> fair d \<and> (\<forall>r \<in> set (orders d). po_ID r = oid \<longrightarrow> backed r d)"

definition settled_order :: "int \<Rightarrow> payment_db \<Rightarrow> bool" where
  "settled_order oid d \<longleftrightarrow> fair d \<and> (\<forall>r \<in> set (orders d). po_ID r = oid \<longrightarrow> is_settled r)"

definition known_order :: "PaymentOrder \<Rightarrow> payment_db \<Rightarrow> bool" where
  "known_order r0 d \<longleftrightarrow> fair d \<and> (\<forall>r \<in> set (orders d). po_ID r = po_ID r0
     \<longrightarrow> po_RechargeCode r = po_RechargeCode r0 \<and> po_OrderType r = po_OrderType r0)"

lemma modest_row:
  assumes "modest d d'" and "r' \<in> set (orders d')"
  shows "\<exists>r \<in> set (orders d). same_order r r'"
  using assms by (auto simp: modest_def list_all2_conv_all_nth in_set_conv_nth [of r'] intro!: bexI [OF _ nth_mem])

lemma modest_ids: "modest d d' \<Longrightarrow> map po_ID (orders d') = map po_ID (orders d)"
  by (auto simp: modest_def same_order_def list_all2_conv_all_nth intro: nth_equalityI)

lemma modest_backed:
  assumes "modest d d'" and "codes_ok (shop d)" and "same_order r r'" and "backed r d"
  shows "backed r' d'"
  using assms by (simp add: modest_def codes_grow_def backed_def same_order_def)

lemma modest_fair:
  assumes "modest d d'" and "fair d"
  shows "fair d'"
proof -
  have "is_settled r' \<longrightarrow> backed r' d'" if row: "r' \<in> set (orders d')" for r'
  proof -
    obtain r where r: "r \<in> set (orders d)" "same_order r r'" using modest_row [OF assms(1) row] by blast
    then have "is_settled r' = is_settled r" by (simp add: same_order_def)
    then show ?thesis
      using modest_backed [OF assms(1) _ r(2)] assms(2) r(1) by (simp add: fair_def)
  qed
  moreover have "po_ID r' < order_serial d'" if "r' \<in> set (orders d')" for r'
    using modest_row [OF assms(1) that] assms by (metis same_order_def modest_def fair_def orders_ok_def)
  ultimately show ?thesis
    using assms modest_ids [OF assms(1)] by (simp add: fair_def orders_ok_def modest_def codes_grow_def)
qed

text \<open>Such properties are stable under all that is modest.\<close>

definition stable :: "(payment_db \<Rightarrow> bool) \<Rightarrow> bool" where
  "stable P \<longleftrightarrow> (\<forall>d d'. modest d d' \<longrightarrow> P d \<longrightarrow> P d')"

lemma stable_fair: "stable fair"
  using modest_fair by (auto simp: stable_def)

lemma modest_order:
  assumes "modest d d'"
  shows "backed_order oid d \<Longrightarrow> backed_order oid d'" and "settled_order oid d \<Longrightarrow> settled_order oid d'"
    and "known_order r0 d \<Longrightarrow> known_order r0 d'"
proof -
  show "backed_order oid d'" if "backed_order oid d"
    unfolding backed_order_def
  proof (intro conjI ballI impI)
    show "fair d'" using modest_fair [OF assms] that by (simp add: backed_order_def)
    fix r' assume r': "r' \<in> set (orders d')" "po_ID r' = oid"
    obtain r where "r \<in> set (orders d)" "same_order r r'" using modest_row [OF assms r'(1)] by blast
    then show "backed r' d'"
      using modest_backed [OF assms _ \<open>same_order r r'\<close>] that r'(2) by (simp add: backed_order_def fair_def same_order_def)
  qed
  show "settled_order oid d'" if "settled_order oid d"
    using that modest_fair [OF assms] modest_row [OF assms] by (auto simp: settled_order_def) (metis same_order_def)
  show "known_order r0 d'" if "known_order r0 d"
    using that modest_fair [OF assms] modest_row [OF assms] by (auto simp: known_order_def) (metis same_order_def)+
qed

text \<open>Preserving a property of the state.\<close>

interpretation inv: effects "\<lambda>d d'. P d \<longrightarrow> P d'" for P
  by unfold_locales auto

definition in_pay :: "(payment_db \<Rightarrow> bool) \<Rightarrow> 'g payment_system \<Rightarrow> bool" where
  "in_pay P s \<longleftrightarrow> P (db (pay_pg s))"

lemma stable_orders: "stable (backed_order oid)" "stable (settled_order oid)" "stable (known_order r)"
  using modest_order by (auto simp: stable_def)

lemmas stable_intros = stable_fair stable_orders

lemma stable_step: "stable P \<Longrightarrow> modest_system s s' \<Longrightarrow> in_pay P s \<Longrightarrow> in_pay P s'"
  unfolding stable_def in_pay_def modest_system_def by blast

lemma stable_keeps: "stable P \<Longrightarrow> sys.keeps st \<Longrightarrow> inv.keeps (in_pay P) st"
  by (rule inv.keepsI) (use stable_step sys.keeps_at in blast)

section \<open>Fulfilment\<close>

text \<open>The statuses on the way to a payment and those after a credit.\<close>

lemma unsettled_statuses:
  "\<not> is_settled (r\<lparr>po_Status := OrderStatusRecharging, po_UpdatedAt := t, po_FailedAt := a, po_FailedReason := b\<rparr>)"
  "po_Status r = OrderStatusRecharging \<Longrightarrow> \<not> is_settled r"
  "po_Status r = OrderStatusPaid \<Longrightarrow> \<not> is_settled r" "po_Status r = OrderStatusFailed \<Longrightarrow> \<not> is_settled r"
  "po_Status r = OrderStatusPending \<Longrightarrow> \<not> is_settled r" "po_Status r = OrderStatusCancelled \<Longrightarrow> \<not> is_settled r"
  "po_Status r = OrderStatusExpired \<Longrightarrow> \<not> is_settled r"
  by (simp_all add: is_settled_def psIsRefundStatus_def order_status_defs)

lemma is_settled_cong: "po_Status r' = po_Status r \<Longrightarrow> is_settled r' = is_settled r"
  by (simp add: is_settled_def)

lemma row_keeps_update:
  assumes "\<And>r. p r \<Longrightarrow> same_order r (f (r\<lparr>po_UpdatedAt := now\<rparr>))"
  shows "row.keeps (update_orders now p f)"
  using assms by (auto intro!: row.keepsI modest_update)

lemma lease_keeps: "sys.keeps (acquirePaymentFulfillmentLease now r)"
  unfolding acquirePaymentFulfillmentLease_def Let_def
  by (intro sys.keeps_and_then sys_keeps_on_pay row_keeps_queries row_keeps_update)
    (auto simp: same_order_def take_lease_def lease_free_def unsettled_statuses intro: sys.keeps_intros)

lemma markFailed_keeps: "modest_system s (markFailed env now oid lease why s)"
proof -
  let ?st = "on_pay (update_orders now (holds_lease oid lease)
    (\<lambda>x. x\<lparr>po_Status := OrderStatusFailed, po_FailedAt := Some now, po_FailedReason := Some (psErrMsg env why)\<rparr>))"
  obtain x s1 where 1: "?st s = (x, s1)" by (cases "?st s")
  have "sys.keeps ?st"
    by (intro sys_keeps_on_pay row_keeps_update) (auto simp: same_order_def holds_lease_def unsettled_statuses)
  then have "modest_system s s1" using 1 by (rule sys.keepsD)
  moreover have "modest_system s1 (writeAuditLog now oid ''FULFILLMENT_FAILED'' ''system'' Detail s1)"
    by (rule sys_keeps_writeAuditLog)
  ultimately show ?thesis
    using sys.le_trans by (auto simp: markFailed_def 1 split: sum.split)
qed

lemma rebate_keeps: "sys.keeps (applyAffiliateRebateForOrder env now r)"
proof (rule sys.keepsI)
  fix s :: "'a payment_system"
  have tx: "sys.keeps (on_pay (rebate_tx env st now r))" for st
    unfolding rebate_tx_def
    by (intro sys_keeps_on_pay row.keeps_intros row_keeps_queries) (auto intro: row.keeps_intros row_keeps_parts row_keeps_queries)
  show "modest_system s (snd (applyAffiliateRebateForOrder env now r s))"
  proof (cases "affiliate_part env")
    case (Some st)
    obtain x s1 where 1: "on_pay (rebate_tx env st now r) s = (x, s1)" by (cases "on_pay (rebate_tx env st now r) s")
    have "modest_system s s1" using tx 1 by (rule sys.keepsD)
    moreover have "modest_system s1 (snd (writes now (po_ID r) ''AFFILIATE_REBATE_FAILED'' ''system'' (Inl e) s1))" for e :: go_error
      by (rule sys.keeps_at [OF sys_keeps_writes])
    ultimately show ?thesis
      using sys.le_trans sys.le_refl by (auto simp: applyAffiliateRebateForOrder_def Some 1 split: sum.split)
  qed (simp add: applyAffiliateRebateForOrder_def sys.le_refl)
qed

lemma redeem_call_modest: "modest_system s (snd (on_redeem (Redeem env now uid c) s))"
  using codes_grow_Redeem [of "\<lparr>pg = \<lparr>db = shop (db (pay_pg s)), faults = faults (pay_pg s)\<rparr>, redis = pay_redis s\<rparr>" env now uid c]
  by (auto simp: on_redeem_def modest_system_def split: prod.split intro!: modest_shop)

lemma redeem_keeps: "sys.keeps (redeem_recharge env now r)"
  unfolding redeem_recharge_def by (intro sys.keeps_intros sys.keepsI redeem_call_modest)

lemma redeem_uses:
  assumes "redeem_recharge env now r s = (Inr (), s')" and "codes_ok (shop (db (pay_pg s)))"
  shows "code_used (po_RechargeCode r) (shop (db (pay_pg s')))"
proof -
  let ?s = "\<lparr>pg = \<lparr>db = shop (db (pay_pg s)), faults = faults (pay_pg s)\<rparr>, redis = pay_redis s\<rparr>"
  obtain k t where t: "Redeem (redeem_part env) now (po_UserID r) (po_RechargeCode r) ?s = (Inr k, t)"
    and "shop (db (pay_pg s')) = db (pg t)"
    using assms(1) by (auto simp: redeem_recharge_def and_then_Inr on_redeem_def split: prod.splits)
  then show ?thesis using Redeem_uses [OF t] assms(2) by simp
qed

lemma create_keeps: "sys.keeps (on_shop_calls (CreateCode now c))"
  by (rule sys_keeps_shop_calls) (rule codes_grow_CreateCode)

text \<open>An order is completed when it is backed.\<close>

lemma kept_step: "inv.keeps (in_pay P) st \<Longrightarrow> st s = (x, s1) \<Longrightarrow> in_pay P s \<Longrightarrow> in_pay P s1"
  using inv.keeps_at [of "in_pay P" st s] by simp

lemma inv_at: "inv.keeps (in_pay P) st \<Longrightarrow> in_pay P s \<Longrightarrow> in_pay P (snd (st s))"
  using inv.keeps_at [of "in_pay P" st s] by simp

lemma inv_on_pay: "(\<And>d. P d \<Longrightarrow> P (snd (st d))) \<Longrightarrow> inv.keeps (in_pay P) (on_pay st)"
  using db_exec_invariant [of P _ st] by (auto intro!: inv.keepsI simp: in_pay_def on_pay_def split: prod.split)
    (metis snd_conv)

lemma order_weaken:
  "in_pay (backed_order oid) s \<Longrightarrow> in_pay fair s" "in_pay (settled_order oid) s \<Longrightarrow> in_pay fair s"
  "in_pay (known_order r) s \<Longrightarrow> in_pay fair s"
  by (simp_all add: in_pay_def backed_order_def settled_order_def known_order_def)

lemma backed_same: "shop d' = shop d \<Longrightarrow> po_OrderType r' = po_OrderType r \<Longrightarrow> po_RechargeCode r' = po_RechargeCode r
    \<Longrightarrow> backed r' d' = backed r d"
  by (simp add: backed_def)

lemma update_keeps_shop [simp]:
  "shop (snd (update_orders now p f d)) = shop d" "order_serial (snd (update_orders now p f d)) = order_serial d"
  by (simp_all add: update_orders_def)

lemma backed_update:
  assumes "backed_order oid d"
    and "\<And>r. p r \<Longrightarrow> po_ID r = oid"
    and f: "\<And>r. po_ID (f r) = po_ID r \<and> po_OrderType (f r) = po_OrderType r \<and> po_RechargeCode (f r) = po_RechargeCode r"
  shows "backed_order oid (snd (update_orders now p f d))"
proof -
  define d' where "d' = snd (update_orders now p f d)"
  define g where "g r = (if p r then f (r\<lparr>po_UpdatedAt := now\<rparr>) else r)" for r
  have rows: "orders d' = map g (orders d)" "shop d' = shop d" "order_serial d' = order_serial d"
    by (simp_all add: d'_def g_def [abs_def] update_orders_def)
  have g: "po_ID (g r) = po_ID r" "backed (g r) d' = backed r d" "is_settled (g r) \<Longrightarrow> is_settled r \<or> po_ID r = oid" for r
    using f assms(2) by (auto simp: g_def backed_def rows split: if_splits)
  have "map po_ID (orders d') = map po_ID (orders d)" unfolding rows by (simp add: g(1))
  moreover have "po_ID r' < order_serial d'" if "r' \<in> set (orders d')" for r'
    using that assms(1) g(1) unfolding rows by (auto simp: orders_ok_def backed_order_def fair_def)
  ultimately have "orders_ok d'"
    using assms(1) by (simp add: orders_ok_def backed_order_def fair_def)
  moreover have "is_settled r' \<or> po_ID r' = oid \<longrightarrow> backed r' d'" if "r' \<in> set (orders d')" for r'
    using that assms(1) g unfolding rows by (auto simp: backed_order_def fair_def)
  ultimately show ?thesis
    using assms(1) rows unfolding d'_def [symmetric] by (simp add: backed_order_def fair_def)
qed

lemma markCompleted_keeps: "inv.keeps (in_pay (backed_order (po_ID r))) (markCompleted now r lease act)"
proof (rule inv.keepsI, rule impI)
  fix s :: "'a payment_system"
  assume s: "in_pay (backed_order (po_ID r)) s"
  let ?st = "on_pay (update_orders now (holds_lease (po_ID r) lease)
    (\<lambda>x. x\<lparr>po_Status := OrderStatusCompleted, po_CompletedAt := Some now\<rparr>))"
  obtain x s1 where 1: "?st s = (x, s1)" by (cases "?st s")
  have k: "inv.keeps (in_pay (backed_order (po_ID r))) ?st"
    by (intro inv_on_pay backed_update) (auto simp: holds_lease_def)
  have s1: "in_pay (backed_order (po_ID r)) s1" by (rule kept_step [OF k 1 s])
  have q: "in_pay (backed_order (po_ID r)) s2" if "on_pay (order_Get (po_ID r)) s1 = (y, s2)" for y s2
    by (rule stable_step [OF stable_orders(1) sys.keepsD [OF sys_keeps_on_pay [OF row_keeps_queries(1)] that] s1])
  obtain b s3 where 3: "hasAuditLog (po_ID r) act s1 = (b, s3)" by (cases "hasAuditLog (po_ID r) act s1")
  have h: "in_pay (backed_order (po_ID r)) s3"
    by (rule stable_step [OF stable_orders(1) sys.keepsD [OF sys_keeps_hasAuditLog 3] s1])
  have w: "in_pay (backed_order (po_ID r)) (snd (writes now (po_ID r) act ''system'' z s2))"
    if "in_pay (backed_order (po_ID r)) s2" for z :: "go_error + unit" and s2
    by (rule stable_step [OF stable_orders(1) sys.keeps_at [OF sys_keeps_writes] that])
  show "in_pay (backed_order (po_ID r)) (snd (markCompleted now r lease act s))"
    using s1 q h w by (auto simp: markCompleted_def and_then_def 1 3 split: sum.split prod.split bool.split)
qed

lemma finish_keeps:
  "inv.keeps (in_pay (backed_order (po_ID r))) (and_then (applyAffiliateRebateForOrder env now r) (\<lambda>_. markCompleted now r lease act))"
  by (intro inv.keeps_and_then markCompleted_keeps stable_keeps [OF stable_orders(1) rebate_keeps])

lemma known_backed:
  assumes "in_pay (known_order r) s" and "code_used (po_RechargeCode r) (shop (db (pay_pg s)))"
  shows "in_pay (backed_order (po_ID r)) s"
  using assms by (auto simp: in_pay_def known_order_def backed_order_def backed_def)

text \<open>How the code is redeemed, and that it then is used.\<close>

definition credit :: "'g pay_env \<Rightarrow> go_time \<Rightarrow> PaymentOrder \<Rightarrow> go_error + RedeemCode \<Rightarrow> ('g payment_system, go_error + unit) statement" where
  "credit env now r existing =
     (case resolveRedeemAction existing of
        redeemActionSkipCompleted \<Rightarrow> give ()
      | redeemActionRedeem \<Rightarrow> redeem_recharge env now r
      | redeemActionCreate \<Rightarrow>
          and_then (on_shop_calls (CreateCode now (recharge_code r))) (\<lambda>_. redeem_recharge env now r))"

lemma credit_keeps: "sys.keeps (credit env now r existing)"
  unfolding credit_def
  by (auto split: redeemAction.split intro: sys.keeps_intros redeem_keeps create_keeps)

lemma credit_uses:
  assumes "on_pay (on_shop (code_GetByCode (po_RechargeCode r))) s = (existing, s1)"
    and "credit env now r existing s1 = (Inr (), s2)" and "in_pay fair s1"
  shows "code_used (po_RechargeCode r) (shop (db (pay_pg s2)))"
proof (cases "resolveRedeemAction existing")
  case redeemActionCreate
  then obtain c s' where c: "on_shop_calls (CreateCode now (recharge_code r)) s1 = (Inr c, s')"
    and r: "redeem_recharge env now r s' = (Inr (), s2)"
    using assms(2) by (auto simp: credit_def and_then_Inr)
  have "in_pay fair s'" by (rule stable_step [OF stable_fair sys.keepsD [OF create_keeps c] assms(3)])
  then show ?thesis using redeem_uses [OF r] by (simp add: in_pay_def fair_def)
next
  case redeemActionRedeem
  then show ?thesis using assms(2,3) redeem_uses [of env now r s1 s2] by (simp add: credit_def in_pay_def fair_def)
next
  case redeemActionSkipCompleted
  then obtain k where k: "existing = Inr k" "rc_IsUsed k"
    by (auto simp: resolveRedeemAction_def split: sum.splits if_splits)
  then obtain w where w: "db_exec (on_shop (code_GetByCode (po_RechargeCode r))) (pay_pg s) = (Inr k, w)" "s1 = s\<lparr>pay_pg := w\<rparr>"
    using assms(1) by (auto simp: on_pay_def split: prod.splits)
  have "on_shop (code_GetByCode (po_RechargeCode r)) (db (pay_pg s)) = (Inr k, db w)" by (rule db_exec_Inr [OF w(1)])
  then have "k \<in> set (codes (shop (db w)))" "rc_Code k = po_RechargeCode r"
    by (auto simp: on_shop_def on_part_def code_GetByCode_def one_code_def find_Some_iff split: option.splits prod.splits)
  then show ?thesis
    using assms(2) redeemActionSkipCompleted k(2) w(2) by (auto simp: credit_def code_used_def rc_IsUsed_def)
qed

lemma doBalance_fair:
  assumes "in_pay (known_order r) s"
  shows "in_pay fair (snd (doBalance env now r lease s))"
proof -
  let ?get = "on_pay (on_shop (code_GetByCode (po_RechargeCode r)))"
  obtain existing s1 where 1: "?get s = (existing, s1)" by (cases "?get s")
  have k1: "in_pay (known_order r) s1"
    by (rule stable_step [OF stable_orders(3) sys.keepsD [OF sys_keeps_on_pay [OF row_keeps_parts(3)] 1] assms])
  obtain x s2 where 2: "credit env now r existing s1 = (x, s2)" by (cases "credit env now r existing s1")
  have k2: "in_pay (known_order r) s2" by (rule stable_step [OF stable_orders(3) sys.keepsD [OF credit_keeps 2] k1])
  show ?thesis
  proof (cases x)
    case (Inl e)
    then show ?thesis
      using 1 2 order_weaken(3) [OF k2] by (simp add: doBalance_def credit_def [symmetric] and_then_def)
  next
    case (Inr u)
    then have "in_pay (backed_order (po_ID r)) s2"
      using known_backed [OF k2] credit_uses [OF 1] 2 order_weaken(3) [OF k1] by simp
    then have "in_pay (backed_order (po_ID r)) (snd (and_then (applyAffiliateRebateForOrder env now r)
        (\<lambda>_. markCompleted now r lease ''RECHARGE_SUCCESS'') s2))" by (rule inv_at [OF finish_keeps])
    then show ?thesis
      using 1 2 Inr order_weaken(1) by (auto simp: doBalance_def credit_def [symmetric] and_then_def)
  qed
qed

lemma caches_keep: "sys.keeps (payment_caches env uid gid)"
  by (auto simp: sys.keeps_def payment_caches_def caches_then_def sys.le_refl split: option.split)

lemma assign_keeps: "sys.keeps (on_pay (assign_tx env now r gid days))"
proof -
  have log: "row.keeps (log_assignment now oid)" for oid
    using row_keeps_queries(6) by (auto simp: row.keeps_def log_assignment_def split: prod.split sum.split)
      (metis snd_conv)+
  have assign: "row.keeps (and_then (on_shop (on_subs t)) (\<lambda>_. log_assignment now oid))"
    for t :: "(sub_db, go_error + 'x) statement" and oid
    by (intro row.keeps_and_then row_keeps_parts log)
  show ?thesis
    unfolding assign_tx_def Let_def
    by (intro sys_keeps_on_pay row.keeps_atomically row.keeps_and_then row_keeps_queries row.keepsI)
      (auto intro: row.keeps_at [OF log] row.keeps_at [OF assign] row.le_refl split: sum.split)
qed

lemma ensure_keeps: "sys.keeps (ensurePaymentSubscriptionAssigned env now r gid days)"
proof (rule sys.keepsI)
  fix s :: "'a payment_system"
  obtain x s1 where 1: "on_pay (assign_tx env now r gid days) s = (x, s1)" by (cases "on_pay (assign_tx env now r gid days) s")
  obtain y s2 where 2: "on_pay (count_audits (assignment_logged (po_ID r))) s1 = (y, s2)"
    by (cases "on_pay (count_audits (assignment_logged (po_ID r))) s1")
  have m: "modest_system s s1" "modest_system s1 s2"
    using sys.keepsD [OF assign_keeps 1] sys.keepsD [OF sys_keeps_on_pay [OF row_keeps_queries(3)] 2] by simp_all
  have c: "modest_system s' (snd (payment_caches env (po_UserID r) gid s'))" for s'
    by (rule sys.keeps_at [OF caches_keep])
  show "modest_system s (snd (ensurePaymentSubscriptionAssigned env now r gid days s))"
    using m c [of s1] c [of s2] sys.le_trans [OF m] sys.le_trans
    by (auto simp: ensurePaymentSubscriptionAssigned_def 1 2 split: sum.split)
qed

lemma doSub_keeps: "inv.keeps (in_pay (backed_order (po_ID r))) (doSub env now r gid days lease)"
  unfolding doSub_def
  by (auto split: sum.split intro!: inv.keeps_refuse inv.keeps_and_then finish_keeps
      stable_keeps [OF stable_orders(1) ensure_keeps])

lemma under_lease_fair:
  assumes "stable K" and K: "\<And>d. K d \<Longrightarrow> fair d"
    and "\<And>lease s. in_pay K s \<Longrightarrow> in_pay fair (snd (body lease s))" and "in_pay K s"
  shows "in_pay fair (snd (under_lease env now r body s))"
proof -
  obtain l s1 where 1: "acquirePaymentFulfillmentLease now r s = (l, s1)" by (cases "acquirePaymentFulfillmentLease now r s")
  have k: "in_pay K s1" by (rule stable_step [OF assms(1) sys.keepsD [OF lease_keeps 1] assms(4)])
  have m: "in_pay fair (markFailed env now (po_ID r) lease e s2)" if "in_pay fair s2" for lease e s2
    by (rule stable_step [OF stable_fair markFailed_keeps that])
  have "in_pay fair s2" if "body lease s1 = (y, s2)" for lease y s2
    using assms(3) [OF k, of lease] that by simp
  then show ?thesis
    using K k m by (auto simp: in_pay_def under_lease_def and_then_def 1 split: sum.split option.split prod.split)
qed

lemma get_order_keeps: "sys.keeps (get_order oid)"
proof (rule sys.keepsI)
  fix s :: "'a payment_system"
  have "modest_system s (snd (on_pay (order_Get oid) s))"
    by (rule sys.keeps_at [OF sys_keeps_on_pay [OF row_keeps_queries(1)]])
  then show "modest_system s (snd (get_order oid s))"
    by (auto simp: get_order_def split: prod.split sum.split)
qed

lemma order_Get_known:
  assumes "on_pay (order_Get oid) s = (Inr r, s1)" and "in_pay fair s"
  shows "in_pay (known_order r) s1 \<and> po_ID r = oid \<and> r \<in> set (orders (db (pay_pg s1)))"
proof -
  obtain w where w: "db_exec (order_Get oid) (pay_pg s) = (Inr r, w)" "s1 = s\<lparr>pay_pg := w\<rparr>"
    using assms(1) by (auto simp: on_pay_def split: prod.splits)
  have "order_Get oid (db (pay_pg s)) = (Inr r, db w)" by (rule db_exec_Inr [OF w(1)])
  then have one: "filter (\<lambda>x. po_ID x = oid) (orders (db w)) = [r]" and same: "db w = db (pay_pg s)"
    by (auto simp: order_Get_def order_only_def split: list.splits)
  have "{x \<in> set (orders (db w)). po_ID x = oid} = {r}"
    using arg_cong [OF one, of set] by simp
  then have r: "po_ID r = oid" "r \<in> set (orders (db w))"
    and only: "\<And>x. x \<in> set (orders (db w)) \<Longrightarrow> po_ID x = oid \<Longrightarrow> x = r" by blast+
  have "po_RechargeCode x = po_RechargeCode r \<and> po_OrderType x = po_OrderType r"
    if "x \<in> set (orders (db w))" "po_ID x = po_ID r" for x
    using only [of x] that r(1) by simp
  then have "known_order r (db w)"
    using assms(2) same by (simp add: known_order_def in_pay_def)
  then show ?thesis using r by (simp add: in_pay_def w(2))
qed

lemma get_order_known:
  "get_order oid s = (Inr r, s1) \<Longrightarrow> in_pay fair s \<Longrightarrow> in_pay (known_order r) s1 \<and> po_ID r = oid"
  using order_Get_known by (auto simp: get_order_def split: prod.splits sum.splits)

text \<open>Whatever is fulfilled, and whatever is lost on the way, settled orders stay backed.\<close>

lemma fair_step: "sys.keeps st \<Longrightarrow> st s = (x, s1) \<Longrightarrow> in_pay fair s \<Longrightarrow> in_pay fair s1"
  by (rule stable_step [OF stable_fair sys.keepsD])

lemma ExecuteBalanceFulfillment_keeps: "inv.keeps (in_pay fair) (ExecuteBalanceFulfillment env now oid)"
proof (rule inv.keepsI, rule impI)
  fix s :: "'a payment_system"
  assume s: "in_pay fair s"
  obtain x s1 where 1: "get_order oid s = (x, s1)" by (cases "get_order oid s")
  have s1: "in_pay fair s1" by (rule fair_step [OF get_order_keeps 1 s])
  have body: "in_pay fair (snd (under_lease env now r (doBalance env now r) s1))" if "x = Inr r" for r
    using get_order_known 1 s that
    by (intro under_lease_fair [where K = "known_order r"] stable_orders doBalance_fair) (auto simp: known_order_def)
  show "in_pay fair (snd (ExecuteBalanceFulfillment env now oid s))"
    using s1 body by (auto simp: ExecuteBalanceFulfillment_def and_then_def 1 split: sum.split option.split)
qed

lemma ExecuteSubscriptionFulfillment_keeps:
  assumes "in_pay (backed_order oid) s"
  shows "in_pay fair (snd (ExecuteSubscriptionFulfillment env now oid s))"
proof -
  obtain x s1 where 1: "get_order oid s = (x, s1)" by (cases "get_order oid s")
  have s1: "in_pay (backed_order oid) s1"
    by (rule stable_step [OF stable_orders(1) sys.keepsD [OF get_order_keeps 1] assms])
  have "in_pay fair (snd (under_lease env now r (doSub env now r gid days) s1))" if "x = Inr r" for r gid days
  proof -
    have r: "po_ID r = oid" using get_order_known 1 that order_weaken(1) [OF assms] by blast
    show ?thesis
      by (rule under_lease_fair [where K = "backed_order oid"])
        (use stable_orders s1 in \<open>auto simp: backed_order_def
          intro!: order_weaken(1) inv_at [OF doSub_keeps [of r, unfolded r]]\<close>)
  qed
  then show ?thesis
    using order_weaken(1) [OF s1]
    by (auto simp: ExecuteSubscriptionFulfillment_def and_then_def 1 split: sum.split option.split)
qed

lemma executeFulfillment_keeps: "inv.keeps (in_pay fair) (executeFulfillment env now oid)"
proof (rule inv.keepsI, rule impI)
  fix s :: "'a payment_system"
  assume s: "in_pay fair s"
  obtain x s1 where 1: "on_pay (order_Get oid) s = (x, s1)" by (cases "on_pay (order_Get oid) s")
  have s1: "in_pay fair s1" by (rule fair_step [OF sys_keeps_on_pay [OF row_keeps_queries(1)] 1 s])
  have "in_pay (backed_order oid) s1" if "x = Inr r" "po_OrderType r = OrderTypeSubscription" for r
  proof -
    have k: "in_pay (known_order r) s1" "po_ID r = oid" using order_Get_known [OF _ s] 1 that(1) by blast+
    show ?thesis using k(1) that(2) unfolding k(2) [symmetric] in_pay_def backed_order_def known_order_def backed_def by metis
  qed
  then show "in_pay fair (snd (executeFulfillment env now oid s))"
    using s1 inv_at [OF ExecuteBalanceFulfillment_keeps s1] ExecuteSubscriptionFulfillment_keeps
    by (auto simp: executeFulfillment_def and_then_def 1 split: sum.split)
qed

lemma RetryFulfillment_keeps: "inv.keeps (in_pay fair) (RetryFulfillment env now oid)"
proof -
  have "inv.keeps (in_pay fair) (\<lambda>s. executeFulfillment env now oid (writeAuditLog now oid act who Detail s))" for act who
    by (intro inv.keepsI impI inv_at [OF executeFulfillment_keeps] stable_step [OF stable_fair sys_keeps_writeAuditLog])
  then show ?thesis
    unfolding RetryFulfillment_def
    by (auto intro!: inv.keeps_and_then inv.keeps_refuse stable_keeps [OF stable_fair get_order_keeps])
qed

section \<open>Notifications\<close>

lemma alreadyProcessed_keeps: "inv.keeps (in_pay fair) (alreadyProcessed env now r)"
proof (rule inv.keepsI, rule impI)
  fix s :: "'a payment_system"
  assume s: "in_pay fair s"
  obtain x s1 where 1: "on_pay (order_Get (po_ID r)) s = (x, s1)" by (cases "on_pay (order_Get (po_ID r)) s")
  have s1: "in_pay fair s1" by (rule fair_step [OF sys_keeps_on_pay [OF row_keeps_queries(1)] 1 s])
  have "in_pay fair (snd (writes now (po_ID r) act who (z :: go_error + unit) s1))" for act who z
    by (rule stable_step [OF stable_fair sys.keeps_at [OF sys_keeps_writes] s1])
  then show "in_pay fair (snd (alreadyProcessed env now r s))"
    using s1 inv_at [OF executeFulfillment_keeps s1]
    by (auto simp: alreadyProcessed_def 1 split: sum.split)
qed

lemma toPaid_keeps: "inv.keeps (in_pay fair) (toPaid env now r tradeNo paid pk)"
proof -
  have paid: "sys.keeps (on_pay (update_orders now (\<lambda>x. po_ID x = po_ID r \<and> payable now x) (paid_order now tradeNo paid)))"
    by (intro sys_keeps_on_pay row_keeps_update)
      (auto simp: same_order_def payable_def paid_order_def unsettled_statuses)
  have rest: "in_pay fair (snd (executeFulfillment env now oid (writeAuditLog now oid act who Detail s)))"
    if "in_pay fair s" for s :: "'a payment_system" and oid act who
    by (intro inv_at [OF executeFulfillment_keeps] stable_step [OF stable_fair sys_keeps_writeAuditLog] that)
  have log: "in_pay fair (writeAuditLog now oid act who Detail s)" if "in_pay fair s" for s :: "'a payment_system" and oid act who
    by (rule stable_step [OF stable_fair sys_keeps_writeAuditLog that])
  show ?thesis
    unfolding toPaid_def
  proof (intro inv.keeps_and_then stable_keeps [OF stable_fair paid] inv.keepsI impI)
    fix n :: int and s :: "'a payment_system"
    assume s: "in_pay fair s"
    show "in_pay fair (snd (if n = 0 then alreadyProcessed env now r s
        else let s1 = if po_Status r = OrderStatusCancelled \<or> po_Status r = OrderStatusExpired
               then writeAuditLog now (po_ID r) ''ORDER_RECOVERED'' pk Detail s else s
             in executeFulfillment env now (po_ID r) (writeAuditLog now (po_ID r) ''ORDER_PAID'' pk Detail s1)))"
      using inv_at [OF alreadyProcessed_keeps s] rest s log [OF s] by (auto simp: Let_def)
  qed
qed

text \<open>The lookups of a provider change nothing.\<close>

lemma sys_keeps_query:
  "sys.keeps (on_pay (order_Get oid))" "sys.keeps (on_pay (by_out_trade_no n))" "sys.keeps (on_pay (count_audits p))"
  "sys.keeps (on_pay (instances_where q))" "sys.keeps (on_pay (instance_Get i))" "sys.keeps (on_pay (orders_where u))"
  by (intro sys_keeps_on_pay row_keeps_queries)+

lemma sys_bind:
  "sys.keeps st \<Longrightarrow> (\<And>x s1. modest_system s1 (snd (f x s1))) \<Longrightarrow> modest_system s (snd (case st s of (x, s1) \<Rightarrow> f x s1))"
  by (rule sys.keeps_bind)

lemma snapshot_instance_keeps: "sys.keeps (resolveSnapshotOrderProviderInstance r snap)"
  by (rule sys.keepsI)
    (auto simp: resolveSnapshotOrderProviderInstance_def Let_def sys.le_refl
      split: option.split sum.split intro!: sys_bind sys_keeps_query)

lemma legacy_instance_keeps: "sys.keeps (resolveUniqueLegacyOrderProviderInstance r)"
  by (auto simp: resolveUniqueLegacyOrderProviderInstance_def Let_def intro!: sys.keeps_intros sys_keeps_query)

lemma instance_keeps:
  "sys.keeps (getOrderProviderInstance r)" "sys.keeps (getRefundOrderProviderInstance r)"
proof -
  show "sys.keeps (getOrderProviderInstance r)"
    by (auto simp: getOrderProviderInstance_def Let_def split: option.split
        intro!: sys.keeps_intros sys_keeps_query snapshot_instance_keeps legacy_instance_keeps)
  show "sys.keeps (getRefundOrderProviderInstance r)"
    by (rule sys.keepsI)
      (auto simp: getRefundOrderProviderInstance_def Let_def sys.le_refl split: option.split sum.split
        intro!: sys_bind sys_keeps_query sys.keeps_at [OF snapshot_instance_keeps])
qed

lemma fallback_keeps: "sys.keeps (webhookRegistryFallbackAllowed key)"
  by (rule sys.keepsI)
    (auto simp: webhookRegistryFallbackAllowed_def Let_def sys.le_refl split: sum.split intro!: sys_bind sys_keeps_query)

lemma provider_result_keeps: "sys.keeps (provider_result env i)"
  by (simp add: sys.keeps_def provider_result_def sys.le_refl)

lemma provider_keeps: "sys.keeps (getOrderProvider env r)" "sys.keeps (getRefundProvider env r)"
proof -
  have fallback: "sys.keeps (\<lambda>s. case webhookRegistryFallbackAllowed key s of
      (False, s1) \<Rightarrow> (Inl e, s1) | (True, s1) \<Rightarrow> (f s1, s1))" for key e f
    by (rule sys.keepsI) (auto intro!: sys_bind fallback_keeps simp: sys.le_refl split: bool.split)
  show "sys.keeps (getOrderProvider env r)"
    unfolding getOrderProvider_def
    by (intro sys.keeps_and_then instance_keeps)
      (auto simp: Let_def split: option.split intro!: sys.keeps_refuse provider_result_keeps fallback)
  show "sys.keeps (getRefundProvider env r)"
    unfolding getRefundProvider_def
    by (intro sys.keeps_and_then instance_keeps)
      (auto split: option.split intro!: sys.keeps_refuse provider_result_keeps)
qed

lemma instance_key_keeps: "sys.keeps (instance_key_of r)"
  by (rule sys.keepsI)
    (auto simp: instance_key_of_def sys.le_refl intro!: sys_bind instance_keeps split: sum.split option.split)

lemma fair_bind:
  assumes "inv.keeps (in_pay fair) st" and "in_pay fair s" and "\<And>x s1. in_pay fair s1 \<Longrightarrow> in_pay fair (snd (f x s1))"
  shows "in_pay fair (snd (case st s of (x, s1) \<Rightarrow> f x s1))"
  using inv_at [OF assms(1,2)] assms(3) by (auto split: prod.split)

lemma fair_keeps: "sys.keeps st \<Longrightarrow> inv.keeps (in_pay fair) st"
  by (rule stable_keeps [OF stable_fair])

lemma fair_at: "sys.keeps st \<Longrightarrow> in_pay fair s \<Longrightarrow> in_pay fair (snd (st s))"
  by (rule inv_at [OF fair_keeps])

lemma fair_log: "in_pay fair s \<Longrightarrow> in_pay fair (writeAuditLog now oid act who d s)"
  by (rule stable_step [OF stable_fair sys_keeps_writeAuditLog])

lemma confirmPayment_keeps: "inv.keeps (in_pay fair) (confirmPayment env now oid tradeNo paid pk metadata)"
  by (rule inv.keepsI)
    (auto simp: confirmPayment_def Let_def split: sum.split option.split
      intro!: fair_bind fair_keeps sys_keeps_query instance_key_keeps inv_at [OF toPaid_keeps] fair_at [OF sys_keeps_writes])

lemma HandlePaymentNotification_keeps: "inv.keeps (in_pay fair) (HandlePaymentNotification env now n pk)"
  by (rule inv.keepsI)
    (auto simp: HandlePaymentNotification_def Let_def split: sum.split option.split
      intro!: fair_bind fair_keeps sys_keeps_query inv_at [OF confirmPayment_keeps])

section \<open>Asking the gateway\<close>

lemma gateway_fair: "in_pay fair s \<Longrightarrow> in_pay fair (snd (on_gateway f s))"
  by (rule fair_at [OF sys_keeps_gateway])

lemma settle_paid_fair:
  assumes "in_pay fair s"
  shows "in_pay fair (settle_paid env now r prov queryRef a s)"
proof -
  have "sys.keeps (on_pay (update_orders now (\<lambda>x. po_ID x = oid) (\<lambda>x. x\<lparr>po_PaymentTradeNo := t\<rparr>)))" for oid t
    by (intro sys_keeps_on_pay row_keeps_update) (auto simp: same_order_def is_settled_def)
  then show ?thesis
    using assms unfolding settle_paid_def Let_def
    by (auto intro!: inv_at [OF HandlePaymentNotification_keeps] fair_at)
qed

lemma requery_keeps: "sys.keeps (requeryPaidOrderOnce prov queryRef)"
  by (rule sys.keepsI)
    (auto simp: requeryPaidOrderOnce_def sys.le_refl split: sum.split intro!: sys_bind sys_keeps_gateway)

lemma checkPaid_fair: "in_pay fair s \<Longrightarrow> in_pay fair (snd (checkPaidWithOptions env now c r s))"
  unfolding checkPaidWithOptions_def Let_def
  by (auto split: sum.split option.split intro!: fair_bind fair_keeps provider_keeps sys_keeps_gateway requery_keeps
      gateway_fair settle_paid_fair fair_log)

lemma cancelCore_fair:
  assumes "fs = OrderStatusCancelled \<or> fs = OrderStatusExpired" and "in_pay fair s"
  shows "in_pay fair (snd (cancelCore env now r fs who s))"
proof -
  have upd: "sys.keeps (on_pay (update_orders now (\<lambda>x. po_ID x = oid \<and> po_Status x = OrderStatusPending) (\<lambda>x. x\<lparr>po_Status := fs\<rparr>)))" for oid
    using assms(1) by (intro sys_keeps_on_pay row_keeps_update) (auto simp: same_order_def unsettled_statuses)
  have "inv.keeps (in_pay fair) (\<lambda>s2. if n > 0
       then writes now (po_ID r) (if fs = OrderStatusExpired then ''ORDER_EXPIRED'' else ''ORDER_CANCELLED'') who
              (Inr checkPaidResultCancelled) s2
       else (Inr checkPaidResultCancelled, s2))" for n :: int
    by (rule inv.keepsI) (auto intro: fair_at [OF sys_keeps_writes])
  then have rest: "in_pay fair s1 \<Longrightarrow> in_pay fair (snd (and_then
      (on_pay (update_orders now (\<lambda>x. po_ID x = po_ID r \<and> po_Status x = OrderStatusPending) (\<lambda>x. x\<lparr>po_Status := fs\<rparr>)))
      (\<lambda>n s2. if n > 0
       then writes now (po_ID r) (if fs = OrderStatusExpired then ''ORDER_EXPIRED'' else ''ORDER_CANCELLED'') who
              (Inr checkPaidResultCancelled) s2
       else (Inr checkPaidResultCancelled, s2)) s1))" for s1 :: "'a payment_system"
    by (intro inv_at [OF inv.keeps_and_then [OF fair_keeps [OF upd]]])
  have rest': "in_pay fair s1 \<Longrightarrow> in_pay fair (snd (if outcome = checkPaidResultAlreadyPaid then (Inr checkPaidResultAlreadyPaid, s1)
      else and_then
      (on_pay (update_orders now (\<lambda>x. po_ID x = po_ID r \<and> po_Status x = OrderStatusPending) (\<lambda>x. x\<lparr>po_Status := fs\<rparr>)))
      (\<lambda>n s2. if n > 0
       then writes now (po_ID r) (if fs = OrderStatusExpired then ''ORDER_EXPIRED'' else ''ORDER_CANCELLED'') who
              (Inr checkPaidResultCancelled) s2
       else (Inr checkPaidResultCancelled, s2)) s1))" for s1 :: "'a payment_system" and outcome
    by (cases "outcome = checkPaidResultAlreadyPaid") (simp, simp only: if_False rest)
  have first: "inv.keeps (in_pay fair) (\<lambda>s. if po_PaymentTradeNo r \<noteq> '''' \<or> po_PaymentType r \<noteq> '''' then checkPaid env now r s else ('''', s))"
    by (rule inv.keepsI) (simp add: checkPaid_def checkPaid_fair)
  show ?thesis
    unfolding cancelCore_def
    by (rule fair_bind [OF first assms(2)]) (rule rest')
qed

lemma cancelCore_keeps:
  "inv.keeps (in_pay fair) (cancelCore env now r OrderStatusCancelled who)"
  "inv.keeps (in_pay fair) (cancelCore env now r OrderStatusExpired who)"
  by (rule inv.keepsI, simp add: cancelCore_fair)+

lemma cancel_keeps:
  "inv.keeps (in_pay fair) (CancelOrder env now oid uid)" "inv.keeps (in_pay fair) (AdminCancelOrder env now oid)"
  unfolding CancelOrder_def AdminCancelOrder_def
  by (auto intro!: inv.keeps_and_then fair_keeps [OF get_order_keeps] inv.keeps_refuse cancelCore_keeps)

lemma reconcile_keeps: "inv.keeps (in_pay fair) (reconcilePaid env now r)"
  by (rule inv.keepsI) (simp add: reconcilePaid_def checkPaid_fair)

lemma each_keeps:
  "inv.keeps (in_pay fair) (expire_each env now rs n)" "inv.keeps (in_pay fair) (reconcile_each env now rs n)"
proof -
  have "in_pay fair s \<Longrightarrow> in_pay fair (snd (expire_each env now rs n s))" for s n
    by (induction rs arbitrary: s n) (auto intro!: fair_bind cancelCore_keeps)
  then show "inv.keeps (in_pay fair) (expire_each env now rs n)" by (intro inv.keepsI) simp
  have "in_pay fair s \<Longrightarrow> in_pay fair (snd (reconcile_each env now rs n s))" for s n
    by (induction rs arbitrary: s n) (auto intro!: fair_bind reconcile_keeps)
  then show "inv.keeps (in_pay fair) (reconcile_each env now rs n)" by (intro inv.keepsI) simp
qed

lemma sweep_keeps:
  "inv.keeps (in_pay fair) (ExpireTimedOutOrders env now)" "inv.keeps (in_pay fair) (ReconcilePendingWxpayOrders env now)"
  unfolding ExpireTimedOutOrders_def ReconcilePendingWxpayOrders_def
  by (auto intro!: inv.keeps_and_then fair_keeps [OF sys_keeps_query(6)] each_keeps)

lemma find_order_keeps: "sys.keeps (find_order n)"
  by (rule sys.keepsI) (auto simp: find_order_def sys.le_refl split: sum.split intro!: sys_bind sys_keeps_query)

lemma verify_keeps: "inv.keeps (in_pay fair) (VerifyOrderByOutTradeNo env now raw uid)"
proof -
  have reconcile: "inv.keeps (in_pay fair) (\<lambda>s. case reconcilePaid env now r s of
      (outcome, s1) \<Rightarrow> if outcome = checkPaidResultAlreadyPaid then on_pay (order_Get (po_ID r)) s1 else (Inr r, s1))" for r
    by (rule inv.keepsI) (auto intro!: fair_bind reconcile_keeps fair_at [OF sys_keeps_query(1)])
  show ?thesis
    unfolding VerifyOrderByOutTradeNo_def
    by (auto split: sum.split intro!: inv.keeps_refuse inv.keeps_give inv.keeps_and_then fair_keeps [OF find_order_keeps] reconcile)
qed

end
