(* ===== verification/Payment_Refund.thy ===== *)
theory Payment_Refund
  imports Payment_Fulfillment
begin

text \<open>
  Refunds: \<open>service/payment_refund.go\<close>. What was credited is deducted first, then the gateway is asked;
  an answer that it is pending gives the deduction back, and a later query settles it.
\<close>

section \<open>Requests of users\<close>

definition DeductionTypeBalance :: string where "DeductionTypeBalance = ''balance''"
definition DeductionTypeSubscription :: string where "DeductionTypeSubscription = ''subscription''"
definition DeductionTypeNone :: string where "DeductionTypeNone = ''none''"

record RefundPlan =
  rp_OrderID :: int
  rp_Order :: PaymentOrder
  rp_RefundAmount :: usd
  rp_GatewayAmount :: rat
  rp_Reason :: string
  rp_Force :: bool
  rp_DeductBalance :: bool
  rp_DeductionType :: string
  rp_BalanceToDeduct :: usd
  rp_SubDaysToDeduct :: int
  rp_SubscriptionID :: int

record RefundResult =
  rs_Success :: bool
  rs_Warning :: string
  rs_RequireForce :: bool
  rs_BalanceDeducted :: usd
  rs_SubDaysDeducted :: int

definition warning :: "string \<Rightarrow> RefundResult" where
  "warning w = \<lparr>rs_Success = False, rs_Warning = w, rs_RequireForce = False, rs_BalanceDeducted = 0, rs_SubDaysDeducted = 0\<rparr>"

definition need_force :: "string \<Rightarrow> RefundResult" where
  "need_force w = (warning w)\<lparr>rs_RequireForce := True\<rparr>"

definition refunded :: "RefundPlan \<Rightarrow> RefundResult" where
  "refunded p = \<lparr>rs_Success = True, rs_Warning = '''', rs_RequireForce = False,
     rs_BalanceDeducted = rp_BalanceToDeduct p, rs_SubDaysDeducted = rp_SubDaysToDeduct p\<rparr>"

definition on_user :: "(member_db, go_error + 'a) statement \<Rightarrow> ('g payment_system, go_error + 'a) statement" where
  "on_user st = on_pay (on_shop (on_members st))"

definition user_refund_disabled :: "string \<Rightarrow> go_error" where
  "user_refund_disabled m = Forbidden ''USER_REFUND_DISABLED'' m"

definition validateRefundRequest :: "int \<Rightarrow> int \<Rightarrow> ('g payment_system, go_error + PaymentOrder) statement" where
  "validateRefundRequest oid uid =
     and_then (get_order oid)
       (\<lambda>r. if po_UserID r \<noteq> uid then refuse (Forbidden ''FORBIDDEN'' ''no permission'')
            else if po_OrderType r \<noteq> OrderTypeBalance
            then refuse (BadRequest ''INVALID_ORDER_TYPE'' ''only balance orders can request refund'')
            else if po_Status r \<noteq> OrderStatusCompleted
            then refuse (invalid_status ''only completed orders can request refund'')
            else (\<lambda>s. case getRefundOrderProviderInstance r s of
               (Inr (Some i), s1) \<Rightarrow>
                 (if pi_AllowUserRefund i then Inr r
                  else Inl (user_refund_disabled ''user refund is not enabled for this provider''), s1)
             | (_, s1) \<Rightarrow> (Inl (user_refund_disabled ''refund is not available for this order''), s1)))"

definition requested_refund :: "go_time \<Rightarrow> int \<Rightarrow> string \<Rightarrow> usd \<Rightarrow> PaymentOrder \<Rightarrow> PaymentOrder" where
  "requested_refund now uid reason amount r =
     r\<lparr>po_Status := OrderStatusRefundRequested, po_RefundRequestedAt := Some now, po_RefundRequestReason := Some reason,
       po_RefundRequestedBy := Some (itoa uid), po_RefundAmount := round_scale 2 amount\<rparr>"

definition RequestRefund ::
    "go_time \<Rightarrow> int \<Rightarrow> int \<Rightarrow> string \<Rightarrow> ('g payment_system, go_error + unit) statement" where
  "RequestRefund now oid uid reason =
     and_then (validateRefundRequest oid uid)
       (\<lambda>r. and_then (on_user (user_GetByID (po_UserID r)))
          (\<lambda>u. if balance u < po_Amount r
               then refuse (BadRequest ''BALANCE_NOT_ENOUGH'' ''refund amount exceeds balance'')
               else and_then
                 (on_pay (update_orders now
                    (\<lambda>x. po_ID x = oid \<and> po_UserID x = uid \<and> po_Status x = OrderStatusCompleted
                         \<and> po_OrderType x = OrderTypeBalance)
                    (requested_refund now uid (TrimSpace reason) (po_Amount r))))
                 (\<lambda>n. if n = 0 then refuse (payment_conflict ''order status changed'')
                      else writes now oid ''REFUND_REQUESTED'' (''user:'' @ itoa uid) (Inr ()))))"

section \<open>The plan of a refund\<close>

definition refundable_status :: "string \<Rightarrow> bool" where
  "refundable_status s \<longleftrightarrow>
     s \<in> {OrderStatusCompleted, OrderStatusRefundRequested, OrderStatusRefundPending, OrderStatusRefundFailed}"

definition active_subscription ::
    "'g pay_env \<Rightarrow> go_time \<Rightarrow> int \<Rightarrow> int \<Rightarrow> ('g payment_system, go_error + UserSubscription) statement" where
  "active_subscription env now uid gid = on_sub_calls (GetActiveSubscription (cached_subscription env uid gid) now uid gid)"

text \<open>What is to be taken back; Inl is an answer that ends the preparation.\<close>

definition prepDeduct ::
    "'g pay_env \<Rightarrow> go_time \<Rightarrow> PaymentOrder \<Rightarrow> RefundPlan \<Rightarrow> bool \<Rightarrow> 'g payment_system
      \<Rightarrow> (RefundResult + RefundPlan) \<times> 'g payment_system" where
  "prepDeduct env now r p force s =
     (if po_OrderType r = OrderTypeSubscription then
        (let p1 = p\<lparr>rp_DeductionType := DeductionTypeSubscription\<rparr> in
         case (po_SubscriptionGroupID r, po_SubscriptionDays r) of
           (Some gid, Some days) \<Rightarrow>
             (let p2 = p1\<lparr>rp_SubDaysToDeduct := days\<rparr> in
              case active_subscription env now (po_UserID r) gid s of
                (Inr sub, s1) \<Rightarrow> (Inr (p2\<lparr>rp_SubscriptionID := us_ID sub\<rparr>), s1)
              | (Inl _, s1) \<Rightarrow>
                  (if \<not> force then Inl (need_force ''cannot find active subscription for deduction, use force'')
                   else Inr p2, s1))
         | _ \<Rightarrow> (Inr p1, s))
      else
        (case on_user (user_GetByID (po_UserID r)) s of
           (Inl _, s1) \<Rightarrow> (if \<not> force then Inl (need_force ''cannot fetch user balance, use force'') else Inr p, s1)
         | (Inr u, s1) \<Rightarrow>
             (if balance u < rp_RefundAmount p \<and> \<not> force
              then Inl (need_force ''user balance is insufficient for deduction, use force'')
              else Inr (p\<lparr>rp_DeductionType := DeductionTypeBalance,
                          rp_BalanceToDeduct := max 0 (min (rp_RefundAmount p) (balance u))\<rparr>), s1)))"

definition refund_reason :: "PaymentOrder \<Rightarrow> string \<Rightarrow> string" where
  "refund_reason r reason =
     (let given = TrimSpace reason;
          own = (if given = '''' then psStringValue (po_RefundRequestReason r) else given)
      in if own = '''' then ''refund order:'' @ itoa (po_ID r) else own)"

definition refund_plan :: "PaymentOrder \<Rightarrow> usd \<Rightarrow> string \<Rightarrow> bool \<Rightarrow> bool \<Rightarrow> RefundPlan" where
  "refund_plan r amt reason force deduct =
     \<lparr>rp_OrderID = po_ID r, rp_Order = r, rp_RefundAmount = amt,
      rp_GatewayAmount = calculateGatewayRefundAmount (po_Amount r) (po_PayAmount r) amt (PaymentOrderCurrency r),
      rp_Reason = refund_reason r reason, rp_Force = force, rp_DeductBalance = deduct,
      rp_DeductionType = DeductionTypeNone, rp_BalanceToDeduct = 0, rp_SubDaysToDeduct = 0, rp_SubscriptionID = 0\<rparr>"

definition PrepareRefund ::
    "'g pay_env \<Rightarrow> go_time \<Rightarrow> int \<Rightarrow> usd \<Rightarrow> string \<Rightarrow> bool \<Rightarrow> bool
      \<Rightarrow> ('g payment_system, go_error + RefundResult + RefundPlan) statement" where
  "PrepareRefund env now oid amt0 reason force deduct =
     and_then (get_order oid)
       (\<lambda>r. if \<not> refundable_status (po_Status r) then refuse (invalid_status ''order status does not allow refund'')
            else (\<lambda>s. case getRefundOrderProviderInstance r s of
               (Inl _, s1) \<Rightarrow>
                 (Inl (InternalServer ''PROVIDER_LOOKUP_FAILED'' ''failed to look up payment provider for this order''), s1)
             | (Inr None, s1) \<Rightarrow> (Inl (Forbidden ''REFUND_DISABLED'' ''refund is not available for this order''), s1)
             | (Inr (Some i), s1) \<Rightarrow>
                 if \<not> pi_RefundEnabled i
                 then (Inl (Forbidden ''REFUND_DISABLED'' ''refund is not enabled for this provider''), s1)
                 else
                   (let amt = (if amt0 \<le> 0 then po_Amount r else amt0) in
                    if amt - po_Amount r > paymentAmountToleranceForCurrency (PaymentOrderCurrency r)
                    then (Inl (BadRequest ''REFUND_AMOUNT_EXCEEDED'' ''refund amount exceeds recharge''), s1)
                    else
                      (let p = refund_plan r amt reason force deduct in
                       if \<not> deduct then (Inr (Inr p), s1)
                       else (case prepDeduct env now r p force s1 of (x, s2) \<Rightarrow> (Inr x, s2))))))"

section \<open>Taking back\<close>

definition restoreStatus :: "go_time \<Rightarrow> RefundPlan \<Rightarrow> 'g payment_system \<Rightarrow> 'g payment_system" where
  "restoreStatus now p s =
     snd (on_pay (update_order now (rp_OrderID p)
       (\<lambda>x. x\<lparr>po_Status := (if po_Status (rp_Order p) = OrderStatusRefundRequested then OrderStatusRefundRequested
                             else OrderStatusCompleted)\<rparr>)) s)"

definition deduct_balance ::
    "go_time \<Rightarrow> RefundPlan \<Rightarrow> ('g payment_system, go_error + RefundPlan) statement" where
  "deduct_balance now p s =
     (if rp_DeductionType p = DeductionTypeBalance \<and> rp_BalanceToDeduct p > 0 then
        (case hasAuditLog (rp_OrderID p) ''REFUND_ROLLBACK_FAILED'' s of
           (True, s1) \<Rightarrow> (Inr (p\<lparr>rp_BalanceToDeduct := 0\<rparr>), s1)
         | (False, s1) \<Rightarrow>
             (case on_user (DeductAvailableBalance (po_UserID (rp_Order p)) (rp_BalanceToDeduct p)) s1 of
                (Inl e, s2) \<Rightarrow> (Inl e, restoreStatus now p s2)
              | (Inr x, s2) \<Rightarrow> (Inr (p\<lparr>rp_BalanceToDeduct := x\<rparr>), s2)))
      else (Inr p, s))"

text \<open>A subscription that would end by the deduction is revoked.\<close>

definition shorten_subscription ::
    "'g pay_env \<Rightarrow> go_time \<Rightarrow> int \<Rightarrow> int \<Rightarrow> ('g payment_system, go_error + unit) statement" where
  "shorten_subscription env now sid days s =
     (case on_sub_calls (ExtendSubscription (sub_part (redeem_part env)) now sid (- days)) s of
        (Inr _, s1) \<Rightarrow> (Inr (), s1)
      | (Inl e, s1) \<Rightarrow>
          if errors_Is e ErrAdjustWouldExpire
          then on_sub_calls (RevokeSubscription (sub_part (redeem_part env)) now sid) s1
          else (Inl e, s1))"

definition deduct_days ::
    "'g pay_env \<Rightarrow> go_time \<Rightarrow> RefundPlan \<Rightarrow> ('g payment_system, go_error + RefundPlan) statement" where
  "deduct_days env now p s =
     (if rp_DeductionType p = DeductionTypeSubscription \<and> rp_SubDaysToDeduct p > 0 \<and> rp_SubscriptionID p > 0 then
        (case hasAuditLog (rp_OrderID p) ''REFUND_ROLLBACK_FAILED'' s of
           (True, s1) \<Rightarrow> (Inr (p\<lparr>rp_SubDaysToDeduct := 0\<rparr>), s1)
         | (False, s1) \<Rightarrow>
             (case shorten_subscription env now (rp_SubscriptionID p) (rp_SubDaysToDeduct p) s1 of
                (Inl e, s2) \<Rightarrow> (Inl e, restoreStatus now p s2)
              | (Inr _, s2) \<Rightarrow> (Inr p, s2)))
      else (Inr p, s))"

section \<open>The gateway\<close>

definition validateRefundProviderResponse :: "RefundResponse option \<Rightarrow> go_error option" where
  "validateRefundProviderResponse resp =
     (case resp of
        None \<Rightarrow> Some (PlainError ''payment refund response missing'')
      | Some a \<Rightarrow>
          (let st = TrimSpace (rr_Status a) in
           if st \<in> {''success'', ''refunded'', ''pending''} then None
           else if st = ''failed'' then Some (PlainError ''payment refund failed: status failed'')
           else Some (PlainError (''payment refund returned unknown status: '' @ st))))"

definition refund_request :: "RefundPlan \<Rightarrow> RefundRequest" where
  "refund_request p =
     \<lparr>rq_TradeNo = po_PaymentTradeNo (rp_Order p), rq_OrderID = po_OutTradeNo (rp_Order p),
      rq_Amount = FormatAmountForCurrency (rp_GatewayAmount p) (PaymentOrderCurrency (rp_Order p)), rq_Reason = rp_Reason p\<rparr>"

definition no_identity :: "'g provider \<Rightarrow> (string \<times> string) list" where
  "no_identity prov = (case MerchantIdentityMetadata prov of None \<Rightarrow> [] | Some m \<Rightarrow> m)"

text \<open>An order without a trade number is taken as refunded by the gateway.\<close>

definition gwRefund :: "'g pay_env \<Rightarrow> go_time \<Rightarrow> RefundPlan \<Rightarrow> ('g payment_system, go_error + RefundResponse) statement" where
  "gwRefund env now p s =
     (let r = rp_Order p in
      if po_PaymentTradeNo r = ''''
      then writes now (po_ID r) ''REFUND_NO_TRADE_NO'' ''admin'' (Inr \<lparr>rr_RefundID = '''', rr_Status = ''success''\<rparr>) s
      else and_then (getRefundProvider env r)
        (\<lambda>prov s1.
           case validateProviderSnapshotMetadata r (ProviderKey prov) (no_identity prov) of
             Some e \<Rightarrow> writes now (po_ID r) ''REFUND_PROVIDER_METADATA_MISMATCH'' ''admin'' (Inl e) s1
           | None \<Rightarrow>
               (case on_gateway (Refund prov (refund_request p)) s1 of
                  ((resp, Some e), s2) \<Rightarrow>
                    (case resp of
                       Some a \<Rightarrow> if TrimSpace (rr_Status a) = ''pending'' then (Inr a, s2) else (Inl e, s2)
                     | None \<Rightarrow> (Inl e, s2))
                | ((resp, None), s2) \<Rightarrow>
                    (case (validateRefundProviderResponse resp, resp) of
                       (None, Some a) \<Rightarrow> (Inr a, s2)
                     | (Some e, _) \<Rightarrow> (Inl e, s2)
                     | (None, None) \<Rightarrow> (Inl (PlainError ''payment refund response missing''), s2)))) s)"

section \<open>How a refund ends\<close>

definition RollbackRefund :: "'g pay_env \<Rightarrow> go_time \<Rightarrow> RefundPlan \<Rightarrow> 'g payment_system \<Rightarrow> bool \<times> 'g payment_system" where
  "RollbackRefund env now p s =
     (let back = (if rp_DeductionType p = DeductionTypeBalance \<and> rp_BalanceToDeduct p > 0
                  then on_user (UpdateBalance (po_UserID (rp_Order p)) (rp_BalanceToDeduct p)) s else (Inr (), s))
      in case back of
           (Inl _, s1) \<Rightarrow> writes now (rp_OrderID p) ''REFUND_ROLLBACK_FAILED'' ''admin'' False s1
         | (Inr _, s1) \<Rightarrow>
             if rp_DeductionType p = DeductionTypeSubscription \<and> rp_SubDaysToDeduct p > 0 \<and> rp_SubscriptionID p > 0 then
               (case on_sub_calls (ExtendSubscription (sub_part (redeem_part env)) now (rp_SubscriptionID p)
                        (rp_SubDaysToDeduct p)) s1 of
                  (Inl _, s2) \<Rightarrow> writes now (rp_OrderID p) ''REFUND_ROLLBACK_FAILED'' ''admin'' False s2
                | (Inr _, s2) \<Rightarrow> (True, s2))
             else (True, s1))"

definition failed_refund :: "'g pay_env \<Rightarrow> go_time \<Rightarrow> int \<Rightarrow> go_error \<Rightarrow> 'g payment_system \<Rightarrow> 'g payment_system" where
  "failed_refund env now oid e s =
     writeAuditLog now oid ''REFUND_FAILED'' ''admin'' Detail
       (snd (on_pay (update_order now oid
          (\<lambda>x. x\<lparr>po_Status := OrderStatusRefundFailed, po_FailedAt := Some now, po_FailedReason := Some (psErrMsg env e)\<rparr>)) s))"

definition handleGwFail ::
    "'g pay_env \<Rightarrow> go_time \<Rightarrow> RefundPlan \<Rightarrow> go_error \<Rightarrow> ('g payment_system, go_error + RefundResult) statement" where
  "handleGwFail env now p e s =
     (case RollbackRefund env now p s of
        (True, s1) \<Rightarrow>
          writes now (rp_OrderID p) ''REFUND_GATEWAY_FAILED'' ''admin''
            (Inr (warning (''gateway failed: '' @ psErrMsg env e @ '', rolled back''))) (restoreStatus now p s1)
      | (False, s1) \<Rightarrow>
          (Inl (InternalServer ''REFUND_FAILED'' (psErrMsg env e)), failed_refund env now (rp_OrderID p) e s1))"

definition refund_done :: "go_time \<Rightarrow> RefundPlan \<Rightarrow> PaymentOrder \<Rightarrow> PaymentOrder" where
  "refund_done now p x =
     x\<lparr>po_Status := (if rp_RefundAmount p < po_Amount (rp_Order p) then OrderStatusPartiallyRefunded else OrderStatusRefunded),
       po_RefundAmount := round_scale 2 (rp_RefundAmount p), po_RefundReason := Some (rp_Reason p),
       po_RefundAt := Some now, po_ForceRefund := rp_Force p\<rparr>"

definition markRefundOk :: "go_time \<Rightarrow> RefundPlan \<Rightarrow> ('g payment_system, go_error + RefundResult) statement" where
  "markRefundOk now p =
     and_then (on_pay (update_order now (rp_OrderID p) (refund_done now p)))
       (\<lambda>_. writes now (rp_OrderID p) ''REFUND_SUCCESS'' ''admin'' (Inr (refunded p)))"

definition refund_pending :: "RefundPlan \<Rightarrow> PaymentOrder \<Rightarrow> PaymentOrder" where
  "refund_pending p x =
     x\<lparr>po_Status := OrderStatusRefundPending, po_RefundAmount := round_scale 2 (rp_RefundAmount p),
       po_RefundReason := Some (rp_Reason p), po_RefundAt := None, po_ForceRefund := rp_Force p,
       po_FailedAt := None, po_FailedReason := None\<rparr>"

definition markRefundPending ::
    "'g pay_env \<Rightarrow> go_time \<Rightarrow> RefundPlan \<Rightarrow> RefundResponse \<Rightarrow> ('g payment_system, go_error + RefundResult) statement" where
  "markRefundPending env now p a s =
     (case RollbackRefund env now p s of
        (ok, s1) \<Rightarrow>
          and_then (on_pay (update_order now (rp_OrderID p) (refund_pending p)))
            (\<lambda>_ s2.
               (Inr (warning (if ok then ''gateway refund is pending confirmation''
                              else ''gateway refund is pending confirmation; refund deduction rollback failed'')),
                writeAuditLog now (rp_OrderID p) ''REFUND_PENDING'' ''admin''
                  (RefundPendingDetail (TrimSpace (rr_RefundID a)) ok) s2)) s1)"

definition finishRefund ::
    "'g pay_env \<Rightarrow> go_time \<Rightarrow> RefundPlan \<Rightarrow> RefundResponse \<Rightarrow> ('g payment_system, go_error + RefundResult) statement" where
  "finishRefund env now p a =
     (case validateRefundProviderResponse (Some a) of
        Some e \<Rightarrow> handleGwFail env now p e
      | None \<Rightarrow>
          if TrimSpace (rr_Status a) = ''pending'' then markRefundPending env now p a else markRefundOk now p)"

definition ExecuteRefund :: "'g pay_env \<Rightarrow> go_time \<Rightarrow> RefundPlan \<Rightarrow> ('g payment_system, go_error + RefundResult) statement" where
  "ExecuteRefund env now p0 =
     and_then (on_pay (update_orders now (\<lambda>x. po_ID x = rp_OrderID p0 \<and> refundable_status (po_Status x))
                 (\<lambda>x. x\<lparr>po_Status := OrderStatusRefunding\<rparr>)))
       (\<lambda>n. if n = 0 then refuse (payment_conflict ''order status changed'')
            else and_then (deduct_balance now p0)
              (\<lambda>p1. and_then (deduct_days env now p1)
                 (\<lambda>p s. case gwRefund env now p s of
                    (Inl e, s1) \<Rightarrow> handleGwFail env now p e s1
                  | (Inr a, s1) \<Rightarrow> finishRefund env now p a s1)))"

section \<open>A pending refund\<close>

definition latestRefundPendingDetail :: "int \<Rightarrow> 'g payment_system \<Rightarrow> (string \<times> bool) \<times> 'g payment_system" where
  "latestRefundPendingDetail oid s =
     (case on_pay (\<lambda>d. (Inr (find (\<lambda>e. pa_OrderID e = oid \<and> pa_Action e = ''REFUND_PENDING'') (audits d)), d)) s of
        (Inr (Some e), s1) \<Rightarrow>
          (case pa_Detail e of RefundPendingDetail i ok \<Rightarrow> (TrimSpace i, ok) | Detail \<Rightarrow> ('''', True), s1)
      | (_, s1) \<Rightarrow> (('''', True), s1))"

definition refundFinalizePlan :: "PaymentOrder \<Rightarrow> RefundPlan" where
  "refundFinalizePlan r =
     (let reason = TrimSpace (psStringValue (po_RefundReason r)) in
      \<lparr>rp_OrderID = po_ID r, rp_Order = r, rp_RefundAmount = po_RefundAmount r,
       rp_GatewayAmount = calculateGatewayRefundAmount (po_Amount r) (po_PayAmount r) (po_RefundAmount r) (PaymentOrderCurrency r),
       rp_Reason = (if reason = '''' then ''refund order:'' @ itoa (po_ID r) else reason), rp_Force = po_ForceRefund r,
       rp_DeductBalance = True, rp_DeductionType = DeductionTypeBalance,
       rp_BalanceToDeduct = (if po_OrderType r = OrderTypeBalance then po_RefundAmount r else 0),
       rp_SubDaysToDeduct = 0, rp_SubscriptionID = 0\<rparr>)"

text \<open>In one transaction with the change of the order.\<close>

definition shorten_in_tx :: "'g pay_env \<Rightarrow> go_time \<Rightarrow> int \<Rightarrow> int \<Rightarrow> (sub_db, go_error + unit) statement" where
  "shorten_in_tx env now sid days d =
     (let e0 = sub_part (redeem_part env) in
      case extend_term (\<lambda>st. st) (\<lambda>st. st) e0 now sid (- days) d of
        (Inr _, d1) \<Rightarrow> (Inr (), d1)
      | (Inl e, d1) \<Rightarrow>
          if errors_Is e ErrAdjustWouldExpire
          then and_then (sub_GetByID sid)
                 (\<lambda>sub. and_then (sub_Delete now sid) (\<lambda>_. caches_then e0 (us_UserID sub) (us_GroupID sub) ())) d1
          else (Inl e, d1))"

definition applyRefundFinalDeduction ::
    "'g pay_env \<Rightarrow> go_time \<Rightarrow> RefundPlan \<Rightarrow> (payment_db, go_error + RefundPlan) statement" where
  "applyRefundFinalDeduction env now p =
     and_then
       (if rp_DeductionType p = DeductionTypeBalance \<and> rp_BalanceToDeduct p > 0
        then and_then (on_shop (on_members (DeductAvailableBalance (po_UserID (rp_Order p)) (rp_BalanceToDeduct p))))
               (\<lambda>x. give (p\<lparr>rp_BalanceToDeduct := x\<rparr>))
        else give p)
       (\<lambda>q. if rp_DeductionType q = DeductionTypeSubscription \<and> rp_SubDaysToDeduct q > 0 \<and> rp_SubscriptionID q > 0
            then and_then (on_shop (on_subs (shorten_in_tx env now (rp_SubscriptionID q) (rp_SubDaysToDeduct q)))) (\<lambda>_. give q)
            else give q)"

definition markRefundOkTx :: "go_time \<Rightarrow> RefundPlan \<Rightarrow> (payment_db, go_error + RefundResult) statement" where
  "markRefundOkTx now p =
     and_then (update_order now (rp_OrderID p) (refund_done now p))
       (\<lambda>_. and_then (audit_Create \<lparr>pa_OrderID = rp_OrderID p, pa_Action = ''REFUND_SUCCESS'', pa_Operator = ''admin'',
                         pa_Detail = Detail, pa_CreatedAt = now\<rparr>)
          (\<lambda>_. give (refunded p)))"

definition finalizePendingRefundSuccess ::
    "'g pay_env \<Rightarrow> go_time \<Rightarrow> RefundPlan \<Rightarrow> ('g payment_system, go_error + RefundResult) statement" where
  "finalizePendingRefundSuccess env now p =
     on_pay (atomically
       (and_then (update_orders now (\<lambda>x. po_ID x = rp_OrderID p \<and> po_Status x = OrderStatusRefundPending)
                   (\<lambda>x. x\<lparr>po_Status := OrderStatusRefunding\<rparr>))
         (\<lambda>n. if n = 0 then refuse (payment_conflict ''order status changed'')
              else and_then (applyRefundFinalDeduction env now p) (markRefundOkTx now))))"

definition finalizeRefundFailed ::
    "'g pay_env \<Rightarrow> go_time \<Rightarrow> PaymentOrder \<Rightarrow> go_error \<Rightarrow> ('g payment_system, go_error + RefundResult) statement" where
  "finalizeRefundFailed env now r e s =
     (Inr (warning (''gateway refund failed: '' @ psErrMsg env e)), failed_refund env now (po_ID r) e s)"

definition settle_query ::
    "'g pay_env \<Rightarrow> go_time \<Rightarrow> PaymentOrder \<Rightarrow> bool \<Rightarrow> RefundResponse \<Rightarrow> ('g payment_system, go_error + RefundResult) statement" where
  "settle_query env now r rolledBack a s =
     (let plan = refundFinalizePlan r;
          prepared = (if \<not> rolledBack then (Inr (plan\<lparr>rp_BalanceToDeduct := 0, rp_SubDaysToDeduct := 0\<rparr>), s)
                      else if po_OrderType r = OrderTypeSubscription then prepDeduct env now r plan True s
                      else (Inr plan, s))
      in case prepared of
           (Inl early, s1) \<Rightarrow> (Inr early, s1)
         | (Inr p, s1) \<Rightarrow>
             if TrimSpace (rr_Status a) = ''pending''
             then writes now (po_ID r) ''REFUND_QUERY_PENDING'' ''admin''
                    (Inr (warning ''gateway refund is still pending confirmation'')) s1
             else finalizePendingRefundSuccess env now p s1)"

definition QueryAndFinalizeRefund ::
    "'g pay_env \<Rightarrow> go_time \<Rightarrow> int \<Rightarrow> ('g payment_system, go_error + RefundResult) statement" where
  "QueryAndFinalizeRefund env now oid =
     and_then (get_order oid)
       (\<lambda>r. if po_Status r \<noteq> OrderStatusRefundPending
            then refuse (invalid_status ''only refund pending orders can be finalized'')
            else and_then (getRefundProvider env r)
              (\<lambda>prov. case QueryRefund prov of
                 None \<Rightarrow> refuse (BadRequest ''REFUND_QUERY_UNSUPPORTED''
                   ''this payment provider does not support refund status query; please verify manually'')
               | Some query \<Rightarrow> (\<lambda>s.
                   case latestRefundPendingDetail oid s of
                     ((refundID, rolledBack), s1) \<Rightarrow>
                       (case on_gateway (query \<lparr>rqq_TradeNo = po_PaymentTradeNo r, rqq_OrderID = po_OutTradeNo r,
                               rqq_RefundID = refundID,
                               rqq_Amount = FormatAmountForCurrency (po_RefundAmount r) (PaymentOrderCurrency r)\<rparr>) s1 of
                          (Inl e, s2) \<Rightarrow> (Inl e, s2)
                        | (Inr resp, s2) \<Rightarrow>
                            (case (validateRefundProviderResponse resp, resp) of
                               (None, Some a) \<Rightarrow> settle_query env now r rolledBack a s2
                             | (Some e, _) \<Rightarrow> finalizeRefundFailed env now r e s2
                             | (None, None) \<Rightarrow> (Inl (PlainError ''payment refund response missing''), s2))))))"

end
