(* ===== verification/Payment_Refund_Facts.thy ===== *)
theory Payment_Refund_Facts
  imports Payment_Order_Facts Payment_Refund
begin

text \<open>
  Refunds keep settled orders backed: they begin with an order that is settled, and every way they end
  leaves it settled.
\<close>

section \<open>Refunds\<close>

text \<open>A refund begins with an order that is settled, and the order stays settled while it goes on.\<close>

lemma settled_update:
  assumes "settled_order oid d" and "\<And>r. p r \<Longrightarrow> po_ID r = oid"
    and f: "\<And>r. po_ID (f r) = po_ID r \<and> po_OrderType (f r) = po_OrderType r \<and> po_RechargeCode (f r) = po_RechargeCode r"
    and "\<And>r. is_settled (f r)"
  shows "settled_order oid (snd (update_orders now p f d))"
proof -
  have "modest d (snd (update_orders now p f d))"
    by (rule modest_update) (use assms in \<open>auto simp: same_order_def settled_order_def is_settled_def\<close>)
  then show ?thesis using assms(1) modest_order(2) by blast
qed

lemma settled_on_update:
  assumes "\<And>r. po_ID (f r) = po_ID r \<and> po_OrderType (f r) = po_OrderType r \<and> po_RechargeCode (f r) = po_RechargeCode r"
    and "\<And>r. is_settled (f r)"
  shows "inv.keeps (in_pay (settled_order oid)) (on_pay (update_order now oid f))"
  by (rule inv_on_pay) (simp add: update_order_db settled_update assms)

lemma settled_statuses:
  "is_settled (r\<lparr>po_Status := OrderStatusRefundRequested\<rparr>)" "is_settled (r\<lparr>po_Status := OrderStatusCompleted\<rparr>)"
  "is_settled (r\<lparr>po_Status := OrderStatusRefunding\<rparr>)" "is_settled (r\<lparr>po_Status := OrderStatusRefundFailed\<rparr>)"
  by (simp_all add: is_settled_def psIsRefundStatus_def)

lemma unique_order: "orders_ok d \<Longrightarrow> r \<in> set (orders d) \<Longrightarrow> x \<in> set (orders d) \<Longrightarrow> po_ID x = po_ID r \<Longrightarrow> x = r"
  by (auto simp: orders_ok_def distinct_map inj_on_def)

lemma get_order_settled:
  assumes "get_order oid s = (Inr r, s1)" and "in_pay fair s" and "is_settled r"
  shows "in_pay (settled_order oid) s1 \<and> po_ID r = oid"
proof -
  have "on_pay (order_Get oid) s = (Inr r, s1)"
    using assms(1) by (auto simp: get_order_def split: prod.splits sum.splits)
  note k = order_Get_known [OF this assms(2)]
  then have "orders_ok (db (pay_pg s1))" by (simp add: in_pay_def known_order_def fair_def)
  then have "is_settled x" if "x \<in> set (orders (db (pay_pg s1)))" "po_ID x = oid" for x
    using unique_order [of "db (pay_pg s1)" r x] k that assms(3) by simp
  then show ?thesis using k by (simp add: in_pay_def known_order_def settled_order_def)
qed

lemma on_user_keeps: "sys.keeps (on_user m)"
  unfolding on_user_def by (intro sys_keeps_on_pay row_keeps_parts)

lemma validateRefundRequest_keeps: "sys.keeps (validateRefundRequest oid uid)"
proof -
  have "sys.keeps (\<lambda>s. case getRefundOrderProviderInstance r s of
      (Inr (Some i), s1) \<Rightarrow> (if pi_AllowUserRefund i then Inr r
          else Inl (user_refund_disabled ''user refund is not enabled for this provider''), s1)
    | (_, s1) \<Rightarrow> (Inl (user_refund_disabled ''refund is not available for this order''), s1))" for r
    by (rule sys.keepsI) (auto intro!: sys_bind instance_keeps simp: sys.le_refl split: sum.split option.split)
  then show ?thesis
    unfolding validateRefundRequest_def
    by (auto intro!: sys.keeps_and_then sys.keeps_refuse get_order_keeps)
qed

lemma RequestRefund_keeps: "sys.keeps (RequestRefund now oid uid reason)"
  unfolding RequestRefund_def
  by (auto intro!: sys.keeps_and_then sys.keeps_refuse validateRefundRequest_keeps on_user_keeps sys_keeps_writes
      sys_keeps_on_pay row_keeps_update simp: same_order_def requested_refund_def is_settled_def psIsRefundStatus_def)

lemma prepDeduct_keeps: "sys.keeps (prepDeduct env now r p force)"
  by (rule sys.keepsI)
    (auto simp: prepDeduct_def active_subscription_def Let_def sys.le_refl split: option.split sum.split
      intro!: sys_bind on_user_keeps sys_keeps_sub_calls)

lemma prepDeduct_order: "prepDeduct env now r p force s = (Inr q, s1) \<Longrightarrow> rp_OrderID q = rp_OrderID p \<and> rp_Order q = rp_Order p"
  by (auto simp: prepDeduct_def Let_def split: option.splits sum.splits prod.splits if_splits)

lemma PrepareRefund_keeps: "sys.keeps (PrepareRefund env now oid amt reason force deduct)"
proof -
  have "sys.keeps (\<lambda>s. case getRefundOrderProviderInstance r s of
      (Inl _, s1) \<Rightarrow>
        (Inl (InternalServer ''PROVIDER_LOOKUP_FAILED'' ''failed to look up payment provider for this order''), s1)
    | (Inr None, s1) \<Rightarrow> (Inl (Forbidden ''REFUND_DISABLED'' ''refund is not available for this order''), s1)
    | (Inr (Some i), s1) \<Rightarrow>
        if \<not> pi_RefundEnabled i
        then (Inl (Forbidden ''REFUND_DISABLED'' ''refund is not enabled for this provider''), s1)
        else
          (let amt = (if amt \<le> 0 then po_Amount r else amt) in
           if amt - po_Amount r > paymentAmountToleranceForCurrency (PaymentOrderCurrency r)
           then (Inl (BadRequest ''REFUND_AMOUNT_EXCEEDED'' ''refund amount exceeds recharge''), s1)
           else
             (let p = refund_plan r amt reason force deduct in
              if \<not> deduct then (Inr (Inr p), s1)
              else (case prepDeduct env now r p force s1 of (x, s2) \<Rightarrow> (Inr x, s2)))))" for r
    by (rule sys.keepsI)
      (auto intro!: sys_bind instance_keeps prepDeduct_keeps simp: sys.le_refl Let_def split: sum.split option.split)
  then show ?thesis
    unfolding PrepareRefund_def by (auto intro!: sys.keeps_and_then sys.keeps_refuse get_order_keeps)
qed

text \<open>What follows keeps the order settled.\<close>

lemma kept_bind:
  assumes "inv.keeps (in_pay (settled_order oid)) st" and "in_pay (settled_order oid) s"
    and "\<And>x s1. st s = (x, s1) \<Longrightarrow> in_pay (settled_order oid) s1 \<Longrightarrow> in_pay (settled_order oid) (snd (f x s1))"
  shows "in_pay (settled_order oid) (snd (case st s of (x, s1) \<Rightarrow> f x s1))"
  using inv_at [OF assms(1,2)] assms(3) by (cases "st s") auto

lemma kept_keeps: "sys.keeps st \<Longrightarrow> inv.keeps (in_pay (settled_order oid)) st"
  by (rule stable_keeps [OF stable_orders(2)])

lemma kept_at: "sys.keeps st \<Longrightarrow> in_pay (settled_order oid) s \<Longrightarrow> in_pay (settled_order oid) (snd (st s))"
  by (rule inv_at [OF kept_keeps])

lemma kept_log: "in_pay (settled_order oid) s \<Longrightarrow> in_pay (settled_order oid) (writeAuditLog now i act who d s)"
  by (rule stable_step [OF stable_orders(2) sys_keeps_writeAuditLog])

lemma restoreStatus_kept: "in_pay (settled_order (rp_OrderID p)) s \<Longrightarrow> in_pay (settled_order (rp_OrderID p)) (restoreStatus now p s)"
  unfolding restoreStatus_def
  by (rule inv_at [OF settled_on_update]) (auto simp: is_settled_def psIsRefundStatus_def)

lemma failed_refund_kept: "in_pay (settled_order oid) s \<Longrightarrow> in_pay (settled_order oid) (failed_refund env now oid e s)"
  unfolding failed_refund_def
  by (intro kept_log inv_at [OF settled_on_update]) (auto simp: is_settled_def psIsRefundStatus_def)

lemma shorten_keeps: "sys.keeps (shorten_subscription env now sid days)"
  by (rule sys.keepsI)
    (auto simp: shorten_subscription_def sys.le_refl split: sum.split
      intro!: sys_bind sys_keeps_sub_calls sys.keeps_at [OF sys_keeps_sub_calls])

lemma deduct_kept:
  "inv.keeps (in_pay (settled_order (rp_OrderID p))) (deduct_balance now p)"
  "inv.keeps (in_pay (settled_order (rp_OrderID p))) (deduct_days env now p)"
  by (rule inv.keepsI,
      auto simp: deduct_balance_def deduct_days_def split: sum.split bool.split
        intro!: kept_bind kept_keeps [OF sys_keeps_hasAuditLog] kept_keeps [OF on_user_keeps] kept_keeps [OF shorten_keeps]
          restoreStatus_kept)+

lemma deduct_order:
  "deduct_balance now p s = (Inr q, s1) \<Longrightarrow> rp_OrderID q = rp_OrderID p"
  "deduct_days env now p s = (Inr q, s1) \<Longrightarrow> rp_OrderID q = rp_OrderID p"
  by (auto simp: deduct_balance_def deduct_days_def split: if_splits prod.splits bool.splits sum.splits)

lemma gwRefund_keeps: "sys.keeps (gwRefund env now p)"
proof (rule sys.keepsI)
  fix s :: "'a payment_system"
  have "sys.keeps (\<lambda>s1. case validateProviderSnapshotMetadata r (ProviderKey prov) (no_identity prov) of
             Some e \<Rightarrow> writes now (po_ID r) ''REFUND_PROVIDER_METADATA_MISMATCH'' ''admin'' (Inl e) s1
           | None \<Rightarrow>
               (case on_gateway (Refund prov (refund_request p)) s1 of
                  ((resp, Some e), s2) \<Rightarrow>
                    (case resp of
                       Some a \<Rightarrow> if TrimSpace (rr_Status a) = ''pending'' then (Inr a, s2) else (Inl e, s2)
                     | None \<Rightarrow> (Inl e, s2))
                | ((resp, None), s2) \<Rightarrow>
                    (case (validateRefundProviderResponse resp, resp) of
                       (None, Some a) \<Rightarrow> (Inr a, s2)
                     | (Some e, _) \<Rightarrow> (Inl e, s2)
                     | (None, None) \<Rightarrow> (Inl (PlainError ''payment refund response missing''), s2))))"
    for r and prov :: "'a provider"
    by (rule sys.keepsI)
      (auto split: option.split intro!: sys_bind sys_keeps_gateway sys.keeps_at [OF sys_keeps_writes] simp: sys.le_refl)
  then show "modest_system s (snd (gwRefund env now p s))"
    unfolding gwRefund_def Let_def
    by (auto intro!: sys.keeps_at [OF sys_keeps_writes] sys.keeps_at [OF sys.keeps_and_then] provider_keeps)
qed

lemma RollbackRefund_keeps: "sys.keeps (RollbackRefund env now p)"
proof (rule sys.keepsI)
  fix s :: "'a payment_system"
  have undo: "sys.keeps (\<lambda>s. if rp_DeductionType p = DeductionTypeBalance \<and> rp_BalanceToDeduct p > 0
      then on_user (UpdateBalance (po_UserID (rp_Order p)) (rp_BalanceToDeduct p)) s else (Inr (), s))"
    by (rule sys.keepsI) (auto simp: sys.le_refl intro: sys.keeps_at [OF on_user_keeps])
  show "modest_system s (snd (RollbackRefund env now p s))"
    unfolding RollbackRefund_def Let_def
    by (rule sys_bind [OF undo])
      (auto split: sum.split simp: sys.le_refl intro!: sys_bind sys_keeps_sub_calls sys.keeps_at [OF sys_keeps_writes])
qed

lemma handleGwFail_kept: "inv.keeps (in_pay (settled_order (rp_OrderID p))) (handleGwFail env now p e)"
  by (rule inv.keepsI)
    (auto simp: handleGwFail_def split: bool.split
      intro!: kept_bind kept_keeps [OF RollbackRefund_keeps] failed_refund_kept kept_at [OF sys_keeps_writes] restoreStatus_kept)

lemma refund_mark_kept:
  "inv.keeps (in_pay (settled_order (rp_OrderID p))) (on_pay (update_order now (rp_OrderID p) (refund_done now p)))"
  "inv.keeps (in_pay (settled_order (rp_OrderID p))) (on_pay (update_order now (rp_OrderID p) (refund_pending p)))"
  by (auto intro!: settled_on_update simp: refund_done_def refund_pending_def is_settled_def psIsRefundStatus_def)

lemma markRefundOk_kept: "inv.keeps (in_pay (settled_order (rp_OrderID p))) (markRefundOk now p)"
  unfolding markRefundOk_def
  by (intro inv.keeps_and_then refund_mark_kept kept_keeps [OF sys_keeps_writes])

lemma markRefundPending_kept: "inv.keeps (in_pay (settled_order (rp_OrderID p))) (markRefundPending env now p a)"
proof (rule inv.keepsI, rule impI)
  fix s :: "'a payment_system"
  assume s: "in_pay (settled_order (rp_OrderID p)) s"
  have log: "inv.keeps (in_pay (settled_order (rp_OrderID p)))
      (\<lambda>s2. (Inr x, writeAuditLog now i act who d s2))" for x i act who d
    by (rule inv.keepsI) (simp add: kept_log)
  show "in_pay (settled_order (rp_OrderID p)) (snd (markRefundPending env now p a s))"
    unfolding markRefundPending_def
    by (rule kept_bind [OF kept_keeps [OF RollbackRefund_keeps] s])
      (rule inv_at [OF inv.keeps_and_then [OF refund_mark_kept(2) log]])
qed

lemma finishRefund_kept: "inv.keeps (in_pay (settled_order (rp_OrderID p))) (finishRefund env now p a)"
  by (auto simp: finishRefund_def split: option.split
      intro!: handleGwFail_kept markRefundPending_kept markRefundOk_kept)

text \<open>The first statement of a refund finds a refundable order, or the refund ends.\<close>

lemma refund_begins:
  assumes "on_pay (update_orders now (\<lambda>x. po_ID x = oid \<and> refundable_status (po_Status x))
      (\<lambda>x. x\<lparr>po_Status := OrderStatusRefunding\<rparr>)) s = (x, s1)" and "in_pay fair s"
  shows "in_pay fair s1" and "x = Inr n \<Longrightarrow> n \<noteq> 0 \<Longrightarrow> in_pay (settled_order oid) s1"
proof -
  let ?p = "\<lambda>x. po_ID x = oid \<and> refundable_status (po_Status x)" and ?f = "\<lambda>x. x\<lparr>po_Status := OrderStatusRefunding\<rparr>"
  have settled: "is_settled r" if "refundable_status (po_Status r)" for r
    using that by (auto simp: refundable_status_def is_settled_def psIsRefundStatus_def)
  have m: "row.keeps (update_orders now ?p ?f)"
    by (rule row_keeps_update) (auto simp: same_order_def refundable_status_def is_settled_def psIsRefundStatus_def)
  show "in_pay fair s1" by (rule fair_step [OF sys_keeps_on_pay [OF m] assms])
  show "in_pay (settled_order oid) s1" if n: "x = Inr n" "n \<noteq> 0"
  proof -
    let ?d = "db (pay_pg s)"
    obtain w where w: "db_exec (update_orders now ?p ?f) (pay_pg s) = (Inr n, w)" "s1 = s\<lparr>pay_pg := w\<rparr>"
      using assms(1) n(1) by (auto simp: on_pay_def split: prod.splits)
    have u: "update_orders now ?p ?f ?d = (Inr n, db w)" by (rule db_exec_Inr [OF w(1)])
    then have "filter ?p (orders ?d) \<noteq> []" using n(2) by (auto simp: update_orders_def)
    then obtain r where r: "r \<in> set (orders ?d)" "po_ID r = oid" "refundable_status (po_Status r)"
      by (auto simp: filter_empty_conv)
    have "is_settled y" if "y \<in> set (orders ?d)" "po_ID y = oid" for y
    proof -
      have "y = r" by (rule unique_order [of ?d]) (use assms(2) r that in \<open>simp_all add: in_pay_def fair_def\<close>)
      then show ?thesis using settled r(3) by simp
    qed
    then have "settled_order oid ?d" using assms(2) by (simp add: settled_order_def in_pay_def)
    then have "settled_order oid (db w)"
      using modest_order(2) [OF row.keepsD [OF m u]] by blast
    then show ?thesis by (simp add: in_pay_def w(2))
  qed
qed

lemma ExecuteRefund_keeps: "inv.keeps (in_pay fair) (ExecuteRefund env now p)"
proof (rule inv.keepsI, rule impI)
  fix s :: "'a payment_system"
  assume s: "in_pay fair s"
  let ?first = "on_pay (update_orders now (\<lambda>x. po_ID x = rp_OrderID p \<and> refundable_status (po_Status x))
      (\<lambda>x. x\<lparr>po_Status := OrderStatusRefunding\<rparr>))"
  obtain x s1 where 1: "?first s = (x, s1)" by (cases "?first s")
  note b = refund_begins [OF 1 s]
  have finish: "in_pay (settled_order (rp_OrderID q)) (snd (case gwRefund env now q s of
      (Inl e, s1) \<Rightarrow> handleGwFail env now q e s1 | (Inr a, s1) \<Rightarrow> finishRefund env now q a s1))"
    if "in_pay (settled_order (rp_OrderID q)) s" for q and s :: "'a payment_system"
    using that by (auto split: sum.split
        intro!: kept_bind kept_keeps [OF gwRefund_keeps] inv_at [OF handleGwFail_kept] inv_at [OF finishRefund_kept])
  have "in_pay (settled_order (rp_OrderID p)) (snd (and_then (deduct_balance now p)
      (\<lambda>p1. and_then (deduct_days env now p1)
         (\<lambda>p s. case gwRefund env now p s of
            (Inl e, s1) \<Rightarrow> handleGwFail env now p e s1 | (Inr a, s1) \<Rightarrow> finishRefund env now p a s1)) s1))"
    if "in_pay (settled_order (rp_OrderID p)) s1"
  proof -
    obtain y s2 where 2: "deduct_balance now p s1 = (y, s2)" by (cases "deduct_balance now p s1")
    have k2: "in_pay (settled_order (rp_OrderID p)) s2" by (rule kept_step [OF deduct_kept(1) 2 that])
    show ?thesis
    proof (cases y)
      case (Inr q)
      then have q: "rp_OrderID q = rp_OrderID p" using deduct_order(1) 2 by blast
      obtain z s3 where 3: "deduct_days env now q s2 = (z, s3)" by (cases "deduct_days env now q s2")
      have k3: "in_pay (settled_order (rp_OrderID q)) s3"
        using kept_step [OF deduct_kept(2) 3] k2 by (simp add: q)
      show ?thesis
      proof (cases z)
        case (Inr u)
        then have u: "rp_OrderID u = rp_OrderID q" using deduct_order(2) 3 by blast
        then show ?thesis using finish [of u s3] k3 2 3 \<open>y = Inr q\<close> Inr q by (simp add: and_then_def)
      qed (use k3 2 3 Inr q in \<open>simp add: and_then_def\<close>)
    qed (use k2 2 in \<open>simp add: and_then_def\<close>)
  qed
  then show "in_pay fair (snd (ExecuteRefund env now p s))"
    using b order_weaken(2) by (auto simp: ExecuteRefund_def and_then_def [of ?first] 1 split: sum.split)
qed

text \<open>A pending refund that is settled later, in one transaction.\<close>

lemma tx_kept:
  "row.keeps st \<Longrightarrow> inv.keeps (settled_order oid) st"
  by (rule inv.keepsI) (use modest_order(2) row.keeps_at in blast)

lemma final_deduction_keeps: "row.keeps (applyRefundFinalDeduction env now p)"
  unfolding applyRefundFinalDeduction_def
  by (auto intro!: row.keeps_intros row_keeps_parts)

lemma final_deduction_order: "applyRefundFinalDeduction env now p d = (Inr q, d1) \<Longrightarrow> rp_OrderID q = rp_OrderID p"
  by (auto simp: applyRefundFinalDeduction_def and_then_Inr split: if_splits)

lemma markRefundOkTx_kept: "inv.keeps (settled_order (rp_OrderID p)) (markRefundOkTx now p)"
proof -
  have u: "inv.keeps (settled_order (rp_OrderID p)) (update_order now (rp_OrderID p) (refund_done now p))"
    by (rule inv.keepsI)
      (auto simp: update_order_db refund_done_def is_settled_def psIsRefundStatus_def intro!: settled_update)
  show ?thesis
    unfolding markRefundOkTx_def
    by (intro inv.keeps_and_then u tx_kept [OF row_keeps_queries(6)] inv.keeps_give)
qed

lemma finalizePendingRefundSuccess_kept: "inv.keeps (in_pay (settled_order (rp_OrderID p))) (finalizePendingRefundSuccess env now p)"
proof -
  let ?K = "settled_order (rp_OrderID p)"
  let ?first = "update_orders now (\<lambda>x. po_ID x = rp_OrderID p \<and> po_Status x = OrderStatusRefundPending)
    (\<lambda>x. x\<lparr>po_Status := OrderStatusRefunding\<rparr>)"
  have first: "inv.keeps ?K ?first"
    by (intro tx_kept row_keeps_update) (auto simp: same_order_def is_settled_def psIsRefundStatus_def)
  have rest: "inv.keeps ?K (and_then (applyRefundFinalDeduction env now p) (markRefundOkTx now))"
  proof (rule inv.keepsI, rule impI)
    fix d
    assume d: "?K d"
    obtain x d1 where 1: "applyRefundFinalDeduction env now p d = (x, d1)" by (cases "applyRefundFinalDeduction env now p d")
    have k: "?K d1" using modest_order(2) [OF row.keepsD [OF final_deduction_keeps 1]] d by blast
    have "?K (snd (markRefundOkTx now q d1))" if "x = Inr q" for q
    proof -
      have q: "rp_OrderID q = rp_OrderID p" using final_deduction_order 1 that by blast
      show ?thesis using inv.keeps_at [OF markRefundOkTx_kept [of q now], of d1] k by (simp add: q)
    qed
    then show "?K (snd (and_then (applyRefundFinalDeduction env now p) (markRefundOkTx now) d))"
      using k by (auto simp: and_then_def 1 split: sum.split)
  qed
  have tx: "inv.keeps ?K (atomically (and_then ?first (\<lambda>n. if n = 0 then refuse (payment_conflict ''order status changed'')
      else and_then (applyRefundFinalDeduction env now p) (markRefundOkTx now))))"
    by (intro inv.keeps_atomically inv.keeps_and_then first) (use rest inv.keeps_refuse in auto)
  show ?thesis
    unfolding finalizePendingRefundSuccess_def by (rule inv_on_pay) (use inv.keeps_at [OF tx] in blast)
qed

lemma settle_query_kept:
  assumes "in_pay (settled_order (po_ID r)) s"
  shows "in_pay (settled_order (po_ID r)) (snd (settle_query env now r rolledBack a s))"
proof -
  let ?plan = "refundFinalizePlan r"
  let ?prepared = "if \<not> rolledBack then (Inr (?plan\<lparr>rp_BalanceToDeduct := 0, rp_SubDaysToDeduct := 0\<rparr>), s)
    else if po_OrderType r = OrderTypeSubscription then prepDeduct env now r ?plan True s else (Inr ?plan, s)"
  obtain x s1 where 1: "?prepared = (x, s1)" by (cases ?prepared)
  have "modest_system s s1"
    using 1 sys.le_refl sys.keepsD [OF prepDeduct_keeps] by (auto split: if_splits)
  then have s1: "in_pay (settled_order (po_ID r)) s1" by (rule stable_step [OF stable_orders(2) _ assms])
  have "rp_OrderID p = po_ID r" if "x = Inr p" for p
    using 1 that prepDeduct_order by (fastforce simp: refundFinalizePlan_def Let_def split: if_splits)
  then have "in_pay (settled_order (po_ID r)) (snd (finalizePendingRefundSuccess env now p s1))" if "x = Inr p" for p
    using that inv_at [OF finalizePendingRefundSuccess_kept [of p] , of s1] s1 by simp
  then show ?thesis
    using s1 by (auto simp: settle_query_def Let_def 1 split: sum.split intro!: kept_at [OF sys_keeps_writes])
qed

lemma latest_keeps: "sys.keeps (latestRefundPendingDetail oid)"
proof (rule sys.keepsI)
  fix s :: "'a payment_system"
  have q: "sys.keeps (on_pay (\<lambda>d. (Inr (find p (audits d)), d)))" for p
    by (intro sys_keeps_on_pay) (simp add: row.keeps_def row.le_refl)
  show "modest_system s (snd (latestRefundPendingDetail oid s))"
    unfolding latestRefundPendingDetail_def
    by (rule sys_bind [OF q]) (auto split: sum.split option.split audit_detail.split simp: sys.le_refl)
qed

lemma query_kept:
  "inv.keeps (in_pay (settled_order (po_ID r))) (\<lambda>s.
       case latestRefundPendingDetail oid s of
         ((refundID, rolledBack), s1) \<Rightarrow>
           (case on_gateway (query (request refundID)) s1 of
              (Inl e, s2) \<Rightarrow> (Inl e, s2)
            | (Inr resp, s2) \<Rightarrow>
                (case (validateRefundProviderResponse resp, resp) of
                   (None, Some a) \<Rightarrow> settle_query env now r rolledBack a s2
                 | (Some e, _) \<Rightarrow> finalizeRefundFailed env now r e s2
                 | (None, None) \<Rightarrow> (Inl (PlainError ''payment refund response missing''), s2))))"
  by (rule inv.keepsI)
    (auto simp: finalizeRefundFailed_def split: sum.split option.split
      intro!: kept_bind kept_keeps [OF latest_keeps] kept_keeps [OF sys_keeps_gateway] settle_query_kept failed_refund_kept)

lemma QueryAndFinalizeRefund_keeps: "inv.keeps (in_pay fair) (QueryAndFinalizeRefund env now oid)"
proof (rule inv.keepsI, rule impI)
  fix s :: "'a payment_system"
  assume s: "in_pay fair s"
  obtain x s1 where 1: "get_order oid s = (x, s1)" by (cases "get_order oid s")
  have s1: "in_pay fair s1" by (rule fair_step [OF get_order_keeps 1 s])
  have "in_pay fair (snd (and_then (getRefundProvider env r)
      (\<lambda>prov. case QueryRefund prov of
         None \<Rightarrow> refuse e
       | Some query \<Rightarrow> (\<lambda>s.
           case latestRefundPendingDetail oid s of
             ((refundID, rolledBack), s1) \<Rightarrow>
               (case on_gateway (query (request refundID)) s1 of
                  (Inl e, s2) \<Rightarrow> (Inl e, s2)
                | (Inr resp, s2) \<Rightarrow>
                    (case (validateRefundProviderResponse resp, resp) of
                       (None, Some a) \<Rightarrow> settle_query env now r rolledBack a s2
                     | (Some e, _) \<Rightarrow> finalizeRefundFailed env now r e s2
                     | (None, None) \<Rightarrow> (Inl (PlainError ''payment refund response missing''), s2))))) s1))"
    if r: "x = Inr r" "po_Status r = OrderStatusRefundPending" for r e request
  proof -
    have "is_settled r" using r(2) by (simp add: is_settled_def psIsRefundStatus_def)
    then have k1: "in_pay (settled_order (po_ID r)) s1" and id: "po_ID r = oid"
      using get_order_settled [of oid s r s1] 1 r(1) s by simp_all
    show ?thesis
      by (rule order_weaken(2) [OF inv_at [OF inv.keeps_and_then [OF kept_keeps [OF provider_keeps(2)]] k1]])
        (rule inv.keeps_option [OF inv.keeps_refuse query_kept])
  qed
  then show "in_pay fair (snd (QueryAndFinalizeRefund env now oid s))"
    using s1 by (auto simp: QueryAndFinalizeRefund_def and_then_def [of "get_order oid"] 1 split: sum.split)
qed

end
