(* ===== verification/Payment_History_Facts.thy ===== *)
theory Payment_History_Facts
  imports Payment_Refund_Facts Payment_Checkout
begin

text \<open>
  Orders as they are made, histories of all that happens to them, and the order of a recharge from its
  payment to its credit.
\<close>

section \<open>Making orders\<close>

lemma insert_fair:
  assumes "fair d" and "\<And>i. po_ID (f i) = i" and "\<And>i. \<not> is_settled (f i)"
  shows "fair (snd (insert_order f d))"
proof (cases "\<exists>x \<in> set (orders d). po_OutTradeNo x = po_OutTradeNo (f (order_serial d)) \<and> po_OutTradeNo (f (order_serial d)) \<noteq> ''''")
  case False
  have rest: "codes_ok (shop d)" "distinct (map po_ID (orders d))"
    and below: "po_ID x < order_serial d" if "x \<in> set (orders d)" for x
    using assms(1) that by (simp_all add: fair_def orders_ok_def)
  have codes: "codes_ok (shop d)" "distinct (map po_ID (orders d))" using assms(1) by (simp_all add: fair_def orders_ok_def)
  have "order_serial d \<notin> po_ID ` set (orders d)" using below by (metis image_iff less_irrefl)
  moreover have "po_ID x < order_serial d + 1" if "x \<in> set (orders d)" for x using below [OF that] by simp
  moreover have "backed x (d\<lparr>orders := os, order_serial := n\<rparr>) = backed x d" for x os n by (simp add: backed_def)
  ultimately show ?thesis
    using False codes assms unfolding insert_order_def Let_def by (auto simp: fair_def orders_ok_def)
qed (use assms(1) in \<open>simp add: insert_order_def Let_def\<close>)

lemma checks_keep:
  "row.keeps (checkPendingLimit uid n)" "row.keeps (checkDailyLimit now uid a l)" "row.keeps (allocateOutTradeNo date rnds)"
proof -
  show "row.keeps (checkPendingLimit uid n)" "row.keeps (checkDailyLimit now uid a l)"
    by (simp_all add: row.keeps_def checkPendingLimit_def checkDailyLimit_def Let_def row.le_refl)
  have "snd (allocateOutTradeNo date rnds d) = d" for d
    by (induction date rnds d rule: allocateOutTradeNo.induct) (auto simp: Let_def)
  then show "row.keeps (allocateOutTradeNo date rnds)" by (simp add: row.keeps_def row.le_refl)
qed

lemma row_fair: "row.keeps st \<Longrightarrow> inv.keeps fair st"
  by (rule inv.keepsI) (use modest_fair row.keeps_at in blast)

lemma createOrderInTx_keeps: "inv.keeps fair (createOrderInTx now date rnds req plan cfg orderAmount limitAmount payAmount sel)"
proof -
  have "inv.keeps fair (insert_order (new_order now req plan cfg orderAmount payAmount sel n))" for n
    by (rule inv.keepsI) (intro impI insert_fair, auto simp: new_order_def unsettled_statuses)
  then show ?thesis
    unfolding createOrderInTx_def
    by (intro inv.keeps_atomically inv.keeps_and_then row_fair [OF checks_keep(1)] row_fair [OF checks_keep(2)]
        row_fair [OF checks_keep(3)])
qed

lemma user_orders_keep: "sys.keeps (checkCancelRateLimit c now uid cfg)"
  by (rule sys.keepsI)
    (auto simp: checkCancelRateLimit_def sys.le_refl split: sum.split intro!: sys_bind sys_keeps_query)

lemma invokeProvider_keeps: "sys.keeps (invokeProvider env now r req payAmount sel)"
proof -
  have upd: "row.keeps (update_order now oid
      (\<lambda>x. x\<lparr>po_PaymentTradeNo := t x, po_ProviderInstanceID := i x, po_ProviderKey := k x\<rparr>))" for oid t i k
    by (auto simp: row.keeps_def update_order_db same_order_def is_settled_def intro!: modest_update)
  have call: "modest_system s (snd (case on_gateway (CreatePayment prov q) s of
      (Inl e, s1) \<Rightarrow> (Inl (err e), s1)
    | (Inr tradeNo, s1) \<Rightarrow> and_then (on_pay (update_order now oid
          (\<lambda>x. x\<lparr>po_PaymentTradeNo := t tradeNo x, po_ProviderInstanceID := i x, po_ProviderKey := k x\<rparr>)))
        (\<lambda>_. writes now oid act who (Inr (r, tradeNo))) s1))"
    for prov and s :: "'b payment_system" and q err oid t i k act who
    by (rule sys_bind [OF sys_keeps_gateway])
      (auto split: sum.split simp: sys.le_refl
        intro!: sys.keeps_at [OF sys.keeps_and_then [OF sys_keeps_on_pay [OF upd] sys_keeps_writes]])
  show ?thesis
    unfolding invokeProvider_def
    by (auto split: sum.split option.split intro!: sys.keeps_refuse sys.keepsI call)
qed

lemma order_failed_fair:
  assumes "fair d"
  shows "fair (snd (update_order now oid (\<lambda>x. x\<lparr>po_Status := OrderStatusFailed\<rparr>) d))"
proof -
  define d' where "d' = snd (update_order now oid (\<lambda>x. x\<lparr>po_Status := OrderStatusFailed\<rparr>) d)"
  define g where "g r = (if po_ID r = oid then r\<lparr>po_UpdatedAt := now, po_Status := OrderStatusFailed\<rparr> else r)" for r :: PaymentOrder
  have rows: "orders d' = map g (orders d)" "shop d' = shop d" "order_serial d' = order_serial d"
    by (simp_all add: d'_def g_def [abs_def] update_order_db update_orders_def)
  have g: "po_ID (g r) = po_ID r" "backed (g r) d' = backed r d" "is_settled (g r) \<Longrightarrow> is_settled r" for r
    by (auto simp: g_def backed_def rows unsettled_statuses split: if_splits)
  have "map po_ID (orders d') = map po_ID (orders d)" unfolding rows by (simp add: g(1))
  then show ?thesis
    using assms g unfolding d'_def [symmetric] by (auto simp: fair_def orders_ok_def rows simp del: map_map)
qed

lemma store_and_invoke_keeps: "inv.keeps (in_pay fair) (store_and_invoke env now date rnds req plan cfg pay sel)"
proof (rule inv.keepsI, rule impI)
  fix s :: "'a payment_system"
  assume s: "in_pay fair s"
  obtain orderAmount limitAmount where a: "order_amounts req plan cfg = (orderAmount, limitAmount)"
    by (cases "order_amounts req plan cfg")
  let ?create = "on_pay (createOrderInTx now date rnds req plan cfg orderAmount limitAmount pay sel)"
  obtain x s1 where 1: "?create s = (x, s1)" by (cases "?create s")
  have c: "inv.keeps (in_pay fair) ?create"
    by (rule inv_on_pay) (use inv.keeps_at [OF createOrderInTx_keeps] in blast)
  have s1: "in_pay fair s1" by (rule kept_step [OF c 1 s])
  have failed: "inv.keeps (in_pay fair) (on_pay (update_order now oid (\<lambda>x. x\<lparr>po_Status := OrderStatusFailed\<rparr>)))" for oid
    by (rule inv_on_pay) (rule order_failed_fair)
  show "in_pay fair (snd (store_and_invoke env now date rnds req plan cfg pay sel s))"
    using s1 by (auto simp: store_and_invoke_def a and_then_def [of ?create] 1 split: sum.split
        intro!: fair_bind fair_keeps [OF invokeProvider_keeps] inv_at [OF failed])
qed

lemma order_guards_keep:
  assumes "inv.keeps (in_pay fair) f"
  shows "inv.keeps (in_pay fair)
    (and_then (checkCancelRateLimit c now uid l) (\<lambda>_. and_then (on_pay (on_shop (on_members (user_GetByID u)))) (\<lambda>_. f)))"
  by (intro inv.keeps_and_then assms fair_keeps [OF user_orders_keep] fair_keeps [OF sys_keeps_on_pay [OF row_keeps_parts(1)]])

lemma CreateOrder_keeps: "inv.keeps (in_pay fair) (CreateOrder env now date rnds req)"
  unfolding CreateOrder_def Let_def
  by (cases "payment_config env")
    (auto split: sum.split bool.split intro!: inv.keeps_refuse inv.keeps_give order_guards_keep store_and_invoke_keeps)

section \<open>Histories\<close>

text \<open>
  What is done to the payments: every handler, redemptions by users, and whatever happens at the gateway.
  Each comes with the time and the configuration it meets.
\<close>

datatype 'g payment_event =
    Creates_order string "string list" CreateOrderRequest
  | Notified PaymentNotification string
  | Retried int
  | Cancelled int int
  | Cancelled_by_admin int
  | Timed_out
  | Reconciled
  | Verified string int
  | Refund_requested int int string
  | Refund_prepared int usd string bool bool
  | Refund_executed RefundPlan
  | Refund_queried int
  | User_redeems int string
  | Gateway_moves "'g \<Rightarrow> 'g"

fun handle :: "'g checkout_env \<Rightarrow> go_time \<Rightarrow> 'g payment_event \<Rightarrow> 'g payment_system \<Rightarrow> 'g payment_system" where
  "handle env now (Creates_order date rnds req) s = snd (CreateOrder env now date rnds req s)"
| "handle env now (Notified n pk) s = snd (HandlePaymentNotification (pay_part env) now n pk s)"
| "handle env now (Retried oid) s = snd (RetryFulfillment (pay_part env) now oid s)"
| "handle env now (Cancelled oid uid) s = snd (CancelOrder (pay_part env) now oid uid s)"
| "handle env now (Cancelled_by_admin oid) s = snd (AdminCancelOrder (pay_part env) now oid s)"
| "handle env now Timed_out s = snd (ExpireTimedOutOrders (pay_part env) now s)"
| "handle env now Reconciled s = snd (ReconcilePendingWxpayOrders (pay_part env) now s)"
| "handle env now (Verified raw uid) s = snd (VerifyOrderByOutTradeNo (pay_part env) now raw uid s)"
| "handle env now (Refund_requested oid uid reason) s = snd (RequestRefund now oid uid reason s)"
| "handle env now (Refund_prepared oid amt reason force deduct) s =
     snd (PrepareRefund (pay_part env) now oid amt reason force deduct s)"
| "handle env now (Refund_executed p) s = snd (ExecuteRefund (pay_part env) now p s)"
| "handle env now (Refund_queried oid) s = snd (QueryAndFinalizeRefund (pay_part env) now oid s)"
| "handle env now (User_redeems uid c) s = snd (on_redeem (Redeem (redeem_part (pay_part env)) now uid c) s)"
| "handle env now (Gateway_moves f) s = snd (on_gateway (\<lambda>g. ((), f g)) s)"

fun happens :: "('g checkout_env \<times> go_time \<times> 'g payment_event) list \<Rightarrow> 'g payment_system \<Rightarrow> 'g payment_system" where
  "happens [] s = s"
| "happens ((env, now, e) # es) s = happens es (handle env now e s)"

lemma handle_fair: "in_pay fair s \<Longrightarrow> in_pay fair (handle env now e s)"
  by (cases e)
    (simp_all add: inv_at [OF CreateOrder_keeps] inv_at [OF HandlePaymentNotification_keeps] inv_at [OF RetryFulfillment_keeps]
      inv_at [OF cancel_keeps(1)] inv_at [OF cancel_keeps(2)] inv_at [OF sweep_keeps(1)] inv_at [OF sweep_keeps(2)]
      inv_at [OF verify_keeps] fair_at [OF RequestRefund_keeps] fair_at [OF PrepareRefund_keeps] inv_at [OF ExecuteRefund_keeps]
      inv_at [OF QueryAndFinalizeRefund_keeps] stable_step [OF stable_fair redeem_call_modest] gateway_fair)

lemma happens_fair: "in_pay fair s \<Longrightarrow> in_pay fair (happens es s)"
  by (induction es s rule: happens.induct) (simp_all add: handle_fair)

end
