(* ===== verification/Payment_Credit_Facts.thy ===== *)
theory Payment_Credit_Facts
  imports Payment_History_Facts
begin

text \<open>
  An order of a recharge from its payment to its credit, when no call is lost: the user is credited the
  amount of the order once, and the order is completed.
\<close>

section \<open>Redeeming a fresh code\<close>

text \<open>A user who is not being limited, and a code nobody holds.\<close>

definition unhindered :: "int \<Rightarrow> string \<Rightarrow> redeem_cache world \<Rightarrow> bool" where
  "unhindered uid c k \<longleftrightarrow> faults k = [] \<and> attempt_counts (db k) uid = None \<and> code_locks (db k) c = None"

definition credited_user :: "usd \<Rightarrow> member \<Rightarrow> member" where
  "credited_user a u = u\<lparr>balance := to_scale (balance u + a), total_recharged := to_scale (total_recharged u + a)\<rparr>"

definition spent_code :: "go_time \<Rightarrow> int \<Rightarrow> RedeemCode \<Rightarrow> RedeemCode" where
  "spent_code now uid k = k\<lparr>rc_Status := StatusUsed, rc_UsedBy := Some uid, rc_UsedAt := Some now\<rparr>"

lemma fresh_code_redeemed:
  assumes "codes d = ks @ [k]" and "\<And>x. x \<in> set ks \<Longrightarrow> rc_ID x \<noteq> rc_ID k \<and> rc_Code x \<noteq> rc_Code k"
    and "rc_Status k = StatusUnused" and "rc_Type k = RedeemTypeBalance" and "0 < rc_Value k"
    and "live_member uid (members d) = Some u"
  shows "redeem_tx env now uid k d
    = (Inr (), d\<lparr>codes := ks @ [spent_code now uid k], members := (members d)(uid \<mapsto> credited_user (rc_Value k) u)\<rparr>)"
proof -
  have "filter (\<lambda>r. rc_ID r = rc_ID k \<and> rc_Status r = StatusUnused) ks = []"
    using assms(2) by (auto simp: filter_empty_conv)
  moreover have "map (\<lambda>r. if rc_ID r = rc_ID k \<and> rc_Status r = StatusUnused then f r else r) ks = ks" for f
    using assms(2) by (auto intro: map_idI)
  ultimately show ?thesis
    using assms live_memberD [OF assms(6)]
    by (simp add: redeem_tx_def atomically_def and_then_def Use_def change_codes_def grant_code_def on_members_def
        on_part_def UpdateBalance_def change_member_def spent_code_def credited_user_def)
qed

lemma find_last: "(\<And>x. x \<in> set xs \<Longrightarrow> \<not> p x) \<Longrightarrow> p y \<Longrightarrow> find p (xs @ [y]) = Some y"
  by (induction xs) auto

lemma fresh_code_Redeem:
  assumes "codes d = ks @ [k]" and "\<And>x. x \<in> set ks \<Longrightarrow> rc_ID x \<noteq> rc_ID k \<and> rc_Code x \<noteq> rc_Code k"
    and "rc_Status k = StatusUnused" and "rc_Type k = RedeemTypeBalance" and "0 < rc_Value k" and "rc_ExpiresAt k = None"
    and "live_member uid (members d) = Some u" and "unhindered uid (rc_Code k) cache"
  shows "\<exists>cache'. Redeem env now uid (rc_Code k) \<lparr>pg = \<lparr>db = d, faults = []\<rparr>, redis = cache\<rparr>
    = (Inr (spent_code now uid k),
       \<lparr>pg = \<lparr>db = d\<lparr>codes := ks @ [spent_code now uid k], members := (members d)(uid \<mapsto> credited_user (rc_Value k) u)\<rparr>,
              faults = []\<rparr>, redis = cache'\<rparr>)"
proof -
  have tx: "redeem_tx env now uid k d
    = (Inr (), d\<lparr>codes := ks @ [spent_code now uid k], members := (members d)(uid \<mapsto> credited_user (rc_Value k) u)\<rparr>)"
    using assms by (intro fresh_code_redeemed) simp_all
  have by_code: "code_GetByCode (rc_Code k) d = (Inr k, d)"
    using assms(1,2) by (simp add: code_GetByCode_def one_code_def find_last)
  have by_id: "code_GetByID (rc_ID k) (d\<lparr>codes := ks @ [spent_code now uid k], members := m\<rparr>)
      = (Inr (spent_code now uid k), d\<lparr>codes := ks @ [spent_code now uid k], members := m\<rparr>)" for m
    using assms(2) by (simp add: code_GetByID_def one_code_def find_last spent_code_def)
  have user: "on_members (user_GetByID uid) d = (Inr u, d)"
    using assms(7) by (simp add: on_members_def on_part_def user_GetByID_def)
  have usable: "\<not> IsExpiredAt now k" "rc_CanUse now k" "redeem_type_ok k = None"
    using assms(3,4,6) by (simp_all add: IsExpiredAt_def rc_CanUse_def redeem_type_ok_def redeem_const_defs)
  show ?thesis
    using assms(8)
    by (simp add: Redeem_def and_then_def checkRedeemRateLimit_def acquireRedeemLock_def releaseRedeemLock_def
        redeem_locked_def on_redis_def on_pg_def db_simps unhindered_def GetRedeemAttemptCount_def AcquireRedeemLock_def
        redeemMaxErrorsPerHour_def by_code user tx by_id usable split: prod.split)
qed

section \<open>An order that has been paid\<close>

text \<open>The state when no call to the database is lost.\<close>

definition calm :: "payment_db \<Rightarrow> redeem_cache world \<Rightarrow> 'g \<Rightarrow> 'g payment_system" where
  "calm d k g = \<lparr>pay_pg = \<lparr>db = d, faults = []\<rparr>, pay_redis = k, gateway = g\<rparr>"

lemma calm_pay: "on_pay st (calm d k g) = (fst (st d), calm (snd (st d)) k g)"
  by (simp add: on_pay_def calm_def db_simps)

lemma calm_audit: "\<exists>a. hasAuditLog oid act (calm d k g) = (a, calm d k g)"
  by (simp add: hasAuditLog_def calm_pay count_audits_def)

definition logged :: "go_time \<Rightarrow> int \<Rightarrow> string \<Rightarrow> string \<Rightarrow> payment_db \<Rightarrow> payment_db" where
  "logged now oid act who d = snd (audit_Create \<lparr>pa_OrderID = oid, pa_Action = act, pa_Operator = who, pa_Detail = Detail,
     pa_CreatedAt = now\<rparr> d)"

lemma calm_writes: "writes now oid act who x (calm d k g) = (x, calm (logged now oid act who d) k g)"
  by (simp add: writes_def writeAuditLog_def calm_pay logged_def)

lemma logged_simps [simp]: "orders (logged now oid act who d) = orders d" "shop (logged now oid act who d) = shop d"
  by (simp_all add: logged_def audit_Create_def)

text \<open>The code of a recharge, made and redeemed.\<close>

definition recharge_row :: "go_time \<Rightarrow> PaymentOrder \<Rightarrow> int \<Rightarrow> RedeemCode" where
  "recharge_row now r n = (recharge_code r)\<lparr>rc_ID := n, rc_CreatedAt := now\<rparr>"

definition recharged :: "go_time \<Rightarrow> PaymentOrder \<Rightarrow> member \<Rightarrow> redeem_db \<Rightarrow> redeem_db" where
  "recharged now r u d =
     d\<lparr>codes := codes d @ [spent_code now (po_UserID r) (recharge_row now r (code_serial d))],
       code_serial := code_serial d + 1, members := (members d)(po_UserID r \<mapsto> credited_user (po_Amount r) u)\<rparr>"

text \<open>What the checkout makes sure of: a code of its own that fits the column, and a positive amount in cents.\<close>

definition rechargeable :: "PaymentOrder \<Rightarrow> redeem_db \<Rightarrow> bool" where
  "rechargeable r d \<longleftrightarrow> codes_ok d \<and> (\<forall>k \<in> set (codes d). rc_Code k \<noteq> po_RechargeCode r)
     \<and> po_RechargeCode r \<noteq> '''' \<and> length (po_RechargeCode r) \<le> 32 \<and> TrimSpace (po_RechargeCode r) = po_RechargeCode r
     \<and> 0 < po_Amount r \<and> to_scale (po_Amount r) = po_Amount r"

lemma recharge_created:
  assumes "rechargeable r d"
  shows "CreateCode now (recharge_code r) \<lparr>db = d, faults = []\<rparr> = (Inr (recharge_row now r (code_serial d)),
    \<lparr>db = d\<lparr>codes := codes d @ [recharge_row now r (code_serial d)], code_serial := code_serial d + 1\<rparr>, faults = []\<rparr>)"
  using assms
  by (intro prod_eqI) (auto simp: CreateCode_def recharge_code_def recharge_row_def blank_code_def rechargeable_def redeem_const_defs
      IsExpiredAt_def db_simps code_Create_def code_valid_def)

lemma recharge_credited:
  assumes "rechargeable r (shop d)" and "live_member (po_UserID r) (members (shop d)) = Some u"
    and "unhindered (po_UserID r) (po_RechargeCode r) k"
  shows "\<exists>k'. credit env now r (Inl e) (calm d k g) = (Inr (), calm (d\<lparr>shop := recharged now r u (shop d)\<rparr>) k' g)"
proof -
  let ?row = "recharge_row now r (code_serial (shop d))"
  define d1 where "d1 = (shop d)\<lparr>codes := codes (shop d) @ [?row], code_serial := code_serial (shop d) + 1\<rparr>"
  have row: "rc_Code ?row = po_RechargeCode r" "rc_Status ?row = StatusUnused" "rc_Type ?row = RedeemTypeBalance"
    "rc_Value ?row = po_Amount r" "rc_ExpiresAt ?row = None"
    by (simp_all add: recharge_row_def recharge_code_def blank_code_def)
  have created: "on_shop_calls (CreateCode now (recharge_code r)) (calm d k g) = (Inr ?row, calm (d\<lparr>shop := d1\<rparr>) k g)"
    using recharge_created [OF assms(1), of now]
    by (simp add: on_shop_calls_def calm_def d1_def)
  have "x \<in> set (codes (shop d)) \<Longrightarrow> rc_ID x \<noteq> rc_ID ?row \<and> rc_Code x \<noteq> rc_Code ?row" for x
    using assms(1) row by (auto simp: rechargeable_def codes_ok_def recharge_row_def)
  then obtain k' where r: "Redeem (redeem_part env) now (po_UserID r) (rc_Code ?row) \<lparr>pg = \<lparr>db = d1, faults = []\<rparr>, redis = k\<rparr>
      = (Inr (spent_code now (po_UserID r) ?row),
         \<lparr>pg = \<lparr>db = d1\<lparr>codes := codes (shop d) @ [spent_code now (po_UserID r) ?row],
           members := (members d1)(po_UserID r \<mapsto> credited_user (rc_Value ?row) u)\<rparr>, faults = []\<rparr>, redis = k'\<rparr>)"
    using fresh_code_Redeem [of d1 "codes (shop d)" ?row "po_UserID r" u k "redeem_part env" now] assms row
    by (auto simp: d1_def rechargeable_def)
  have "redeem_recharge env now r (calm (d\<lparr>shop := d1\<rparr>) k g) = (Inr (), calm (d\<lparr>shop := recharged now r u (shop d)\<rparr>) k' g)"
    using r unfolding row
    by (simp add: redeem_recharge_def and_then_def on_redeem_def calm_def recharged_def d1_def)
  then show ?thesis
    using created by (auto simp: credit_def resolveRedeemAction_def and_then_def)
qed

section \<open>From paid to completed\<close>

definition only_order :: "int \<Rightarrow> PaymentOrder \<Rightarrow> payment_db \<Rightarrow> bool" where
  "only_order oid r d \<longleftrightarrow> filter (\<lambda>x. po_ID x = oid) (orders d) = [r]"

definition with_order :: "int \<Rightarrow> PaymentOrder \<Rightarrow> payment_db \<Rightarrow> payment_db" where
  "with_order oid r d = d\<lparr>orders := map (\<lambda>x. if po_ID x = oid then r else x) (orders d)\<rparr>"

lemma only_orderD: "only_order oid r d \<Longrightarrow> po_ID r = oid \<and> (\<forall>x \<in> set (orders d). po_ID x = oid \<longrightarrow> x = r)"
proof -
  assume o: "only_order oid r d"
  have "{x \<in> set (orders d). po_ID x = oid} = {r}"
    using arg_cong [OF o [unfolded only_order_def], of set] by simp
  then show ?thesis by blast
qed

lemma only_order_Get: "only_order oid r d \<Longrightarrow> order_Get oid d = (Inr r, d)"
  by (simp add: order_Get_def order_only_def only_order_def)

lemma filter_map_one: "p r \<Longrightarrow> filter p (map (\<lambda>x. if p x then r else x) xs) = map (\<lambda>_. r) (filter p xs)"
  by (induction xs) auto

lemma only_order_with: "only_order oid r d \<Longrightarrow> po_ID r' = oid \<Longrightarrow> only_order oid r' (with_order oid r' d)"
  by (simp add: only_order_def with_order_def filter_map_one [of "\<lambda>x. po_ID x = oid"])

lemma update_only:
  assumes "only_order oid r d" and "\<And>x. p x \<Longrightarrow> po_ID x = oid" and "p r"
  shows "update_orders now p f d = (Inr 1, with_order oid (f (r\<lparr>po_UpdatedAt := now\<rparr>)) d)"
proof -
  have p: "p x \<longleftrightarrow> po_ID x = oid" if "x \<in> set (orders d)" for x
    using that assms only_orderD [OF assms(1)] by auto
  then have "filter p (orders d) = [r]"
    using assms(1) by (simp add: only_order_def cong: filter_cong)
  moreover have "map (\<lambda>x. if p x then f (x\<lparr>po_UpdatedAt := now\<rparr>) else x) (orders d)
      = map (\<lambda>x. if po_ID x = oid then f (r\<lparr>po_UpdatedAt := now\<rparr>) else x) (orders d)"
    using p only_orderD [OF assms(1)] by (auto intro!: map_cong)
  ultimately show ?thesis by (simp add: update_orders_def with_order_def)
qed

definition leased :: "go_time \<Rightarrow> PaymentOrder \<Rightarrow> PaymentOrder" where
  "leased now r = take_lease (now - now mod Microsecond) (r\<lparr>po_UpdatedAt := now\<rparr>)"

definition finished :: "go_time \<Rightarrow> PaymentOrder \<Rightarrow> PaymentOrder" where
  "finished now r = r\<lparr>po_UpdatedAt := now, po_Status := OrderStatusCompleted, po_CompletedAt := Some now\<rparr>"

lemma lease_taken:
  assumes "only_order oid r d" and "lease_free (now - now mod Microsecond) r"
  shows "acquirePaymentFulfillmentLease now r (calm d k g)
    = (Inr (Some (now - now mod Microsecond)), calm (with_order oid (leased now r) d) k g)"
proof -
  let ?t = "now - now mod Microsecond"
  have id: "po_ID r = oid" using only_orderD [OF assms(1)] by blast
  have u: "update_orders now (\<lambda>x. po_ID x = oid \<and> lease_free ?t x) (take_lease ?t) d
      = (Inr 1, with_order oid (leased now r) d)"
    using update_only [OF assms(1), of "\<lambda>x. po_ID x = oid \<and> lease_free ?t x" now "take_lease ?t"] assms(2) id
    by (simp add: leased_def)
  have g: "order_Get oid (with_order oid (leased now r) d) = (Inr (leased now r), with_order oid (leased now r) d)"
    by (intro only_order_Get only_order_with [OF assms(1)]) (simp add: leased_def take_lease_def id)
  show ?thesis
    by (simp add: acquirePaymentFulfillmentLease_def Let_def and_then_def id calm_pay u g)
      (simp add: leased_def take_lease_def)
qed

lemma with_order_twice: "po_ID r = oid \<Longrightarrow> with_order oid r' (with_order oid r d) = with_order oid r' d"
  by (simp add: with_order_def comp_def if_distrib cong: map_cong)

lemma with_order_shop [simp]: "shop (with_order i x d) = shop d"
  by (simp add: with_order_def)

lemma order_completed:
  assumes "only_order oid r d" and "po_Status r = OrderStatusRecharging" and "po_ID r0 = oid"
  shows "\<exists>d'. markCompleted now r0 (po_UpdatedAt r) act (calm d k g) = (Inr (), calm d' k g)
    \<and> orders d' = orders (with_order oid (finished now r) d) \<and> shop d' = shop d"
proof -
  have id: "po_ID r = oid" using only_orderD [OF assms(1)] by blast
  have u: "update_orders now (holds_lease oid (po_UpdatedAt r)) (\<lambda>x. x\<lparr>po_Status := OrderStatusCompleted, po_CompletedAt := Some now\<rparr>) d
      = (Inr 1, with_order oid (finished now r) d)"
    by (subst update_only [OF assms(1)]) (simp_all add: holds_lease_def id assms(2) finished_def)
  obtain a where a: "hasAuditLog oid act (calm (with_order oid (finished now r) d) k g)
      = (a, calm (with_order oid (finished now r) d) k g)"
    using calm_audit [of oid act "with_order oid (finished now r) d" k g] by blast
  show ?thesis
    by (cases a) (auto simp: markCompleted_def and_then_def calm_pay assms(3) u a calm_writes)
qed

text \<open>
  An order that is paid for, or whose fulfilment failed, is fulfilled: its user is credited the amount
  of the order, by one code, and no other order or user changes.
\<close>

lemma fulfilled:
  assumes "only_order oid r d" and "po_Status r = OrderStatusPaid \<or> po_Status r = OrderStatusFailed"
    and "rechargeable r (shop d)" and "live_member (po_UserID r) (members (shop d)) = Some u"
    and "unhindered (po_UserID r) (po_RechargeCode r) k" and "affiliate_part env = None"
  shows "\<exists>d' k'. ExecuteBalanceFulfillment env now oid (calm d k g) = (Inr (), calm d' k' g)
    \<and> orders d' = orders (with_order oid (finished now (leased now r)) d) \<and> shop d' = recharged now r u (shop d)"
proof -
  let ?t = "now - now mod Microsecond"
  have id: "po_ID r = oid" using only_orderD [OF assms(1)] by blast
  have got: "get_order oid (calm d k g) = (Inr r, calm d k g)"
    by (simp add: get_order_def calm_pay only_order_Get [OF assms(1)])
  have fulfillable: "po_Status r \<noteq> OrderStatusCompleted" "fulfillable r = None"
    using assms(2) by (auto simp: fulfillable_def psIsRefundStatus_def order_status_defs)
  have lease: "acquirePaymentFulfillmentLease now r (calm d k g) = (Inr (Some ?t), calm (with_order oid (leased now r) d) k g)"
    using assms(2) by (intro lease_taken [OF assms(1)]) (auto simp: lease_free_def)
  define d1 where "d1 = with_order oid (leased now r) d"
  have lr: "po_ID (leased now r) = oid" "po_Status (leased now r) = OrderStatusRecharging" "po_UpdatedAt (leased now r) = ?t"
    by (simp_all add: leased_def take_lease_def id)
  have d1: "only_order oid (leased now r) d1" "shop d1 = shop d"
    using only_order_with [OF assms(1) lr(1)] by (simp_all add: d1_def)
  have none: "on_shop (code_GetByCode (po_RechargeCode r)) d1 = (Inl ErrRedeemCodeNotFound, d1)"
    using assms(3) d1(2) by (auto simp: on_shop_def on_part_def code_GetByCode_def one_code_def rechargeable_def
        find_None_iff split: option.split)
  obtain k' where credited: "credit env now r (Inl ErrRedeemCodeNotFound) (calm d1 k g)
      = (Inr (), calm (d1\<lparr>shop := recharged now r u (shop d)\<rparr>) k' g)"
    using recharge_credited [of r d1 u k env now ErrRedeemCodeNotFound g] assms(3-5) unfolding d1(2) by blast
  define d2 where "d2 = d1\<lparr>shop := recharged now r u (shop d)\<rparr>"
  have only: "only_order oid (leased now r) d2" using d1(1) by (simp add: d2_def only_order_def)
  obtain d' where last: "markCompleted now r ?t ''RECHARGE_SUCCESS'' (calm d2 k' g) = (Inr (), calm d' k' g)"
    and rows: "orders d' = orders (with_order oid (finished now (leased now r)) d2)" "shop d' = shop d2"
    using order_completed [OF only lr(2) id, where now = now and act = "''RECHARGE_SUCCESS''" and k = k' and g = g]
    unfolding lr(3) by blast
  have rebate: "applyAffiliateRebateForOrder env now r (calm d2 k' g) = (Inr (), calm d2 k' g)"
    by (simp add: applyAffiliateRebateForOrder_def assms(6))
  have "doBalance env now r ?t (calm d1 k g) = (Inr (), calm d' k' g)"
    using credited last rebate by (simp add: doBalance_def credit_def [symmetric] calm_pay none and_then_def d2_def)
  then have "ExecuteBalanceFulfillment env now oid (calm d k g) = (Inr (), calm d' k' g)"
    using fulfillable by (simp add: ExecuteBalanceFulfillment_def and_then_def got under_lease_def lease d1_def)
  moreover have "orders d' = orders (with_order oid (finished now (leased now r)) d)"
    using rows(1) with_order_twice [OF lr(1)] by (simp add: d2_def d1_def with_order_def comp_def lr(1) if_distrib cong: map_cong)
  ultimately show ?thesis using rows(2) by (auto simp: d2_def)
qed

text \<open>
  C35. When nothing is lost, an order of a recharge that has been paid, or whose fulfilment has failed, is
  fulfilled: it becomes completed, its user is credited its amount by one code that is then used, every
  other order, code and user stays as it was, and fulfilling it again changes nothing. No affiliate
  programme is configured (a rebate is Affiliates' matter), and neither the count of failed
  redemptions of the user nor a lock of the code stands in the way of the redemption.
\<close>

theorem paid_recharge_is_credited_once:
  assumes "only_order oid r d" and "po_Status r = OrderStatusPaid \<or> po_Status r = OrderStatusFailed"
    and "rechargeable r (shop d)" and "live_member (po_UserID r) (members (shop d)) = Some u"
    and "unhindered (po_UserID r) (po_RechargeCode r) k" and "affiliate_part env = None"
  shows "\<exists>d' k'. ExecuteBalanceFulfillment env now oid (calm d k g) = (Inr (), calm d' k' g)
    \<and> orders d' = orders (with_order oid (finished now (leased now r)) d) \<and> shop d' = recharged now r u (shop d)
    \<and> ExecuteBalanceFulfillment env later oid (calm d' k' g) = (Inr (), calm d' k' g)"
proof -
  obtain d' k' where run: "ExecuteBalanceFulfillment env now oid (calm d k g) = (Inr (), calm d' k' g)"
    "orders d' = orders (with_order oid (finished now (leased now r)) d)" "shop d' = recharged now r u (shop d)"
    using fulfilled [OF assms] by blast
  have "po_ID (finished now (leased now r)) = oid"
    using only_orderD [OF assms(1)] by (simp add: finished_def leased_def take_lease_def)
  then have "only_order oid (finished now (leased now r)) d'"
    using only_order_with [OF assms(1)] run(2) by (simp add: only_order_def)
  then have "get_order oid (calm d' k' g) = (Inr (finished now (leased now r)), calm d' k' g)"
    by (simp add: get_order_def calm_pay only_order_Get)
  then have "ExecuteBalanceFulfillment env later oid (calm d' k' g) = (Inr (), calm d' k' g)"
    by (simp add: ExecuteBalanceFulfillment_def and_then_def finished_def)
  then show ?thesis using run by blast
qed

section \<open>A concrete order\<close>

definition five_yuan :: PaymentOrder where
  "five_yuan = \<lparr>po_ID = 1, po_UserID = 7, po_Amount = 5, po_PayAmount = 5, po_FeeRate = 0, po_RechargeCode = ''PAY-1-42'',
     po_OutTradeNo = ''sub2_a'', po_PaymentType = TypeAlipay, po_PaymentTradeNo = ''T1'', po_OrderType = OrderTypeBalance,
     po_PlanID = None, po_SubscriptionGroupID = None, po_SubscriptionDays = None, po_ProviderInstanceID = None,
     po_ProviderKey = None, po_ProviderSnapshot = [], po_Status = OrderStatusPaid, po_RefundAmount = 0,
     po_RefundReason = None, po_RefundAt = None, po_ForceRefund = False, po_RefundRequestedAt = None,
     po_RefundRequestReason = None, po_RefundRequestedBy = None, po_ExpiresAt = 1800, po_PaidAt = Some 5,
     po_CompletedAt = None, po_FailedAt = None, po_FailedReason = None, po_CreatedAt = 0, po_UpdatedAt = 5\<rparr>"

definition small_shop :: redeem_db where
  "small_shop = \<lparr>codes = [], code_serial = 1, members = [7 \<mapsto> holder], subs = \<lparr>sub_rows = [], sub_serial = 1\<rparr>\<rparr>"

definition paid_db :: payment_db where
  "paid_db = \<lparr>orders = [five_yuan], order_serial = 2, audits = [], provider_instances = [], profiles = [],
     rebate_ledger = [], shop = small_shop\<rparr>"

definition empty_cache :: "redeem_cache world" where
  "empty_cache = \<lparr>db = \<lparr>attempt_counts = Map.empty, code_locks = Map.empty\<rparr>, faults = []\<rparr>"

definition plain_pay :: "unit pay_env" where
  "plain_pay = \<lparr>provider_of = (\<lambda>_. Inl (PlainError ''none'')), payment_registry = (\<lambda>_. None), redeem_part = gift_env,
     affiliate_part = None, affiliate_candidates = [], cached_subscription = (\<lambda>_ _. None), psErrMsg = (\<lambda>_. '''')\<rparr>"

lemma five_yuan_code: "TrimSpace ''PAY-1-42'' = ''PAY-1-42''"
  by code_simp

lemma paid_db_ready:
  "only_order 1 five_yuan paid_db" "rechargeable five_yuan (shop paid_db)"
  "live_member (po_UserID five_yuan) (members (shop paid_db)) = Some holder"
  "unhindered (po_UserID five_yuan) (po_RechargeCode five_yuan) empty_cache" "affiliate_part plain_pay = None"
  by (simp_all add: only_order_def paid_db_def small_shop_def five_yuan_def rechargeable_def codes_ok_def unhindered_def
      empty_cache_def plain_pay_def live_member_def holder_def gift_amounts five_yuan_code)

theorem paid_recharge_is_credited_once_witness:
  "\<exists>d' k'. ExecuteBalanceFulfillment plain_pay 10 1 (calm paid_db empty_cache ()) = (Inr (), calm d' k' ())
    \<and> balance (the (members (shop d') 7)) = 5 \<and> map po_Status (orders d') = [OrderStatusCompleted]
    \<and> ExecuteBalanceFulfillment plain_pay 20 1 (calm d' k' ()) = (Inr (), calm d' k' ())"
proof -
  obtain d' k' where run: "ExecuteBalanceFulfillment plain_pay 10 1 (calm paid_db empty_cache ()) = (Inr (), calm d' k' ())"
    "orders d' = orders (with_order 1 (finished 10 (leased 10 five_yuan)) paid_db)"
    "shop d' = recharged 10 five_yuan holder (shop paid_db)"
    "ExecuteBalanceFulfillment plain_pay 20 1 (calm d' k' ()) = (Inr (), calm d' k' ())"
    using paid_recharge_is_credited_once [OF paid_db_ready(1) _ paid_db_ready(2-5), of 10 "()" 20]
    by (auto simp: five_yuan_def)
  have "po_UserID five_yuan = 7" "po_Amount five_yuan = 5" by (simp_all add: five_yuan_def)
  then have "balance (the (members (shop d') 7)) = 5"
    by (simp add: run(3) recharged_def credited_user_def holder_def gift_amounts)
  moreover have "map po_Status (orders d') = [OrderStatusCompleted]"
    by (simp add: run(2) with_order_def paid_db_def finished_def five_yuan_def)
  ultimately show ?thesis using run(1,4) by (intro exI [of _ d'] exI [of _ k']) simp
qed

text \<open>Its history: the fulfilment is tried again by an administrator.\<close>

definition plain_checkout :: "unit checkout_env" where
  "plain_checkout = \<lparr>pay_part = plain_pay, payment_config = Inl (PlainError ''none''), plan_of = (\<lambda>_. None),
     user_status = (\<lambda>_. EntityStatusActive), method_currency = (\<lambda>_. Inr DefaultPaymentCurrency),
     select_instance = (\<lambda>_ _. Inl (PlainError ''none'')), instance_fits = (\<lambda>_ _. None), oauth_required = (\<lambda>_ _. Inr False),
     return_url = (\<lambda>_ _. None), selected_provider = (\<lambda>_. Inl (PlainError ''none'')), gateway_error = (\<lambda>e. e)\<rparr>"

lemma paid_db_fair: "fair paid_db"
  by (simp add: fair_def orders_ok_def paid_db_def five_yuan_def small_shop_def codes_ok_def unsettled_statuses)

definition after_retry :: "unit payment_system" where
  "after_retry = happens [(plain_checkout, 10, Retried 1)] (calm paid_db empty_cache ())"

lemma retried_order:
  "\<exists>d k. after_retry = calm d k () \<and> orders d = [finished 10 (leased 10 five_yuan)] \<and> shop d = recharged 10 five_yuan holder small_shop"
proof -
  define d where "d = logged 10 1 ''RECHARGE_RETRY'' ''admin'' paid_db"
  have same: "orders d = orders paid_db" "shop d = shop paid_db" by (simp_all add: d_def)
  have ready: "only_order 1 five_yuan d" "rechargeable five_yuan (shop d)"
    "live_member (po_UserID five_yuan) (members (shop d)) = Some holder"
    using paid_db_ready(1-3) by (simp_all add: same only_order_def)
  have paid: "po_Status five_yuan = OrderStatusPaid" "po_OrderType five_yuan = OrderTypeBalance" "po_PaidAt five_yuan = Some 5"
    by (simp_all add: five_yuan_def)
  obtain d' k' where run: "ExecuteBalanceFulfillment plain_pay 10 1 (calm d empty_cache ()) = (Inr (), calm d' k' ())"
    "orders d' = orders (with_order 1 (finished 10 (leased 10 five_yuan)) d)" "shop d' = recharged 10 five_yuan holder (shop d)"
    using fulfilled [OF ready(1) _ ready(2,3) paid_db_ready(4,5), of 10 "()"] paid(1) by blast
  have "get_order 1 (calm paid_db empty_cache ()) = (Inr five_yuan, calm paid_db empty_cache ())"
    by (simp add: get_order_def calm_pay only_order_Get [OF paid_db_ready(1)])
  then have "after_retry = calm d' k' ()"
    by (simp add: after_retry_def plain_checkout_def RetryFulfillment_def and_then_def paid psIsRefundStatus_def order_status_defs
        writeAuditLog_def calm_pay logged_def [symmetric] d_def [symmetric] executeFulfillment_def
        only_order_Get [OF ready(1)] OrderTypeBalance_def OrderTypeSubscription_def run(1))
  moreover have "orders d' = [finished 10 (leased 10 five_yuan)]"
    by (simp add: run(2) with_order_def same) (simp add: paid_db_def five_yuan_def)
  moreover have "shop d' = recharged 10 five_yuan holder small_shop" by (simp add: run(3) same) (simp add: paid_db_def)
  ultimately show ?thesis by blast
qed

text \<open>
  C34. Orders are made, paid, notified twice, retried, cancelled, expired, reconciled and refunded, in any
  order and with any call to the database lost before or after its effect: an order of a recharge is
  completed, or in any state of a refund, only when its recharge code has been redeemed.
\<close>

theorem completed_orders_are_credited:
  assumes "fair (db (pay_pg s))"
    and "r \<in> set (orders (db (pay_pg (happens es s))))"
    and "po_Status r = OrderStatusCompleted \<or> psIsRefundStatus (po_Status r)"
    and "po_OrderType r \<noteq> OrderTypeSubscription"
  shows "\<exists>c \<in> set (codes (shop (db (pay_pg (happens es s))))). rc_Code c = po_RechargeCode r \<and> rc_Status c = StatusUsed"
proof -
  have "in_pay fair (happens es s)" by (rule happens_fair) (simp add: in_pay_def assms(1))
  then show ?thesis
    using assms(2-4) by (auto simp: in_pay_def fair_def is_settled_def backed_def code_used_def)
qed

theorem completed_orders_are_credited_witness:
  "map po_Status (orders (db (pay_pg after_retry))) = [OrderStatusCompleted]
   \<and> (\<exists>c \<in> set (codes (shop (db (pay_pg after_retry)))). rc_Code c = ''PAY-1-42'' \<and> rc_Status c = StatusUsed)"
proof
  obtain d k where s: "after_retry = calm d k ()" "orders d = [finished 10 (leased 10 five_yuan)]"
    using retried_order by blast
  have r: "finished 10 (leased 10 five_yuan) \<in> set (orders (db (pay_pg after_retry)))" by (simp add: s calm_def)
  show "map po_Status (orders (db (pay_pg after_retry))) = [OrderStatusCompleted]"
    by (simp add: s calm_def finished_def)
  have "fair (db (pay_pg (calm paid_db empty_cache ())))" by (simp add: calm_def paid_db_fair)
  then have "\<exists>c \<in> set (codes (shop (db (pay_pg after_retry)))).
      rc_Code c = po_RechargeCode (finished 10 (leased 10 five_yuan)) \<and> rc_Status c = StatusUsed"
    unfolding after_retry_def
    by (rule completed_orders_are_credited)
      (use r in \<open>simp_all add: after_retry_def finished_def leased_def take_lease_def five_yuan_def OrderTypeBalance_def
        OrderTypeSubscription_def\<close>)
  then show "\<exists>c \<in> set (codes (shop (db (pay_pg after_retry)))). rc_Code c = ''PAY-1-42'' \<and> rc_Status c = StatusUsed"
    by (simp add: finished_def leased_def take_lease_def five_yuan_def)
qed

end
