(* ===== verification/Payment_Amount_Facts.thy ===== *)
theory Payment_Amount_Facts
  imports Payment_Credit_Facts
begin

text \<open>
  The money of payments: what a gateway is asked to refund is bounded by what was paid, an amount comes
  back from the minor units a gateway is sent, and a payment in a currency of three decimals can be
  refused although it is exactly what was asked for.
\<close>

section \<open>Rounding\<close>

lemma round_scale_mono: "0 \<le> x \<Longrightarrow> x \<le> y \<Longrightarrow> round_scale s x \<le> round_scale s y"
  by (auto simp: round_scale_def sgn_if intro!: divide_right_mono floor_mono mult_right_mono)

lemma round_scale_at_most:
  assumes "0 \<le> x" and "x \<le> y" and "on_scale s y"
  shows "round_scale s x \<le> y"
  using round_scale_mono [OF assms(1,2), of s] round_on_scale [OF assms(3)] by simp

lemma on_scale_finer: "on_scale s x \<Longrightarrow> s \<le> t \<Longrightarrow> on_scale t x"
proof -
  assume s: "on_scale s x" "s \<le> t"
  then obtain k :: int where "x = of_int k / 10 ^ s" by (auto simp: on_scale_iff)
  also have "\<dots> = of_int (k * 10 ^ (t - s)) / (10 ^ s * 10 ^ (t - s))" by (simp add: of_int_mult)
  also have "(10 :: rat) ^ s * 10 ^ (t - s) = 10 ^ t" using s(2) by (simp flip: power_add)
  finally show ?thesis unfolding on_scale_iff by blast
qed

lemma on_scale_whole: "on_scale s (of_int k)"
  by (auto simp: on_scale_iff intro!: exI [of _ "k * 10 ^ s"])

lemma currency_digits: "CurrencyMaxFractionDigits c \<le> 3" "CurrencyMinorUnit c \<le> 3"
  by (auto simp: CurrencyMaxFractionDigits_def CurrencyMinorUnit_def paymentCurrencyAmountUnitFor_def
      paymentCurrencyAmountUnits_def zeroDecimalAmountUnit_def twoDecimalAmountUnit_def threeDecimalAmountUnit_def
      stripeLegacyZeroAmount_def split: sum.split)

section \<open>Refunds are within what was paid\<close>

text \<open>
  C36. Whatever part of an order is refunded, the amount the gateway is asked for is not negative and not
  more than was paid, and it is all that was paid when the whole order is refunded.
\<close>

theorem gateway_refund_is_bounded:
  assumes "0 \<le> payAmount" and "on_scale (CurrencyMaxFractionDigits currency) payAmount" and "refundAmount \<le> orderAmount"
  shows "0 \<le> calculateGatewayRefundAmount orderAmount payAmount refundAmount currency
    \<and> calculateGatewayRefundAmount orderAmount payAmount refundAmount currency \<le> payAmount
    \<and> (0 < orderAmount \<and> refundAmount = orderAmount
         \<longrightarrow> calculateGatewayRefundAmount orderAmount payAmount refundAmount currency = payAmount)"
proof -
  let ?d = "CurrencyMaxFractionDigits currency"
  have tolerance: "0 \<le> paymentAmountToleranceForCurrency currency"
    by (simp add: paymentAmountToleranceForCurrency_def amountToleranceCNY_def Let_def)
  have fine: "on_scale 16 payAmount" by (rule on_scale_finer [OF assms(2)]) (use currency_digits(1) [of currency] in simp)
  have part: "0 \<le> round_scale ?d (decimal_Div (payAmount * refundAmount) orderAmount)
      \<and> round_scale ?d (decimal_Div (payAmount * refundAmount) orderAmount) \<le> payAmount"
    if "0 < orderAmount" "0 < refundAmount"
  proof -
    have q: "0 \<le> payAmount * refundAmount / orderAmount" "payAmount * refundAmount / orderAmount \<le> payAmount"
      using that assms(1,3) by (simp_all add: divide_le_eq mult_left_mono)
    have "0 \<le> decimal_Div (payAmount * refundAmount) orderAmount" "decimal_Div (payAmount * refundAmount) orderAmount \<le> payAmount"
      unfolding decimal_Div_def by (rule round_scale_nonneg [OF q(1)], rule round_scale_at_most [OF q fine])
    then show ?thesis by (simp add: round_scale_nonneg round_scale_at_most [OF _ _ assms(2)])
  qed
  show ?thesis
    using part tolerance assms(1) round_on_scale [OF assms(2)]
    by (auto simp: calculateGatewayRefundAmount_def Let_def)
qed

theorem gateway_refund_is_bounded_witness:
  "0 \<le> calculateGatewayRefundAmount 100 100 33 ''CNY'' \<and> calculateGatewayRefundAmount 100 100 33 ''CNY'' \<le> 100"
proof -
  have "on_scale (CurrencyMaxFractionDigits ''CNY'') 100" using on_scale_whole [of _ 100] by simp
  then show ?thesis using gateway_refund_is_bounded [of 100 "''CNY''" 33 100] by simp
qed

section \<open>Minor units\<close>

lemma upper_letters_upper: "\<forall>x \<in> set c. upper_letter x \<Longrightarrow> ascii_ToUpper c = c"
proof (induction c rule: ascii_ToUpper.induct)
  case (3 a b cs)
  then have "(of_char a :: nat) \<le> 90" by (simp add: upper_letter_def Let_def)
  then have "a \<noteq> char_of (196 :: nat)" "a \<noteq> char_of (197 :: nat)" by auto
  then show ?case using 3 by (simp add: upper_byte_def upper_letter_def Let_def)
qed (simp_all add: upper_byte_def upper_letter_def Let_def)

lemma normalized_currency:
  assumes "NormalizePaymentCurrency raw = Inr c"
  shows "NormalizePaymentCurrency c = Inr c"
proof -
  have c: "length c = 3" "\<forall>x \<in> set c. upper_letter x"
    using assms
    by (auto simp: NormalizePaymentCurrency_def Let_def DefaultPaymentCurrency_def upper_letter_def split: if_splits)
  then have "c \<noteq> []" by auto
  then have "hd c \<in> set c" "last c \<in> set c" by simp_all
  then have "TrimSpace c = c"
    using c(2) by (intro TrimSpace_visible) (auto simp: visible_def upper_letter_def Let_def)
  then show ?thesis
    using c \<open>c \<noteq> []\<close> upper_letters_upper [OF c(2)] by (simp add: NormalizePaymentCurrency_def)
qed

lemma currency_unit: "NormalizePaymentCurrency raw = Inr c \<Longrightarrow> paymentCurrencyAmountUnitFor c = paymentCurrencyAmountUnitFor raw"
  using normalized_currency by (simp add: paymentCurrencyAmountUnitFor_def)

lemma fraction_digits_fit: "maxFractionDigits (paymentCurrencyAmountUnitFor c) \<le> apiMinorUnit (paymentCurrencyAmountUnitFor c)"
  by (auto simp: paymentCurrencyAmountUnitFor_def paymentCurrencyAmountUnits_def zeroDecimalAmountUnit_def
      twoDecimalAmountUnit_def threeDecimalAmountUnit_def stripeLegacyZeroAmount_def split: sum.split)

text \<open>
  An amount that is accepted for a currency, and whose minor units fit an integer of 64 bits, is what
  the minor units sent to the gateway are read back as.
\<close>

theorem minor_units_round_trip:
  assumes "AmountToMinorUnit (Some a) currency = Inr v" and "\<bar>a\<bar> < 9000000000000000"
  shows "MinorUnitToAmount v currency = a"
proof -
  let ?m = "CurrencyMinorUnit currency"
  obtain c where c: "NormalizePaymentCurrency currency = Inr c"
    using assms(1) by (auto simp: AmountToMinorUnit_def split: sum.splits)
  have scale: "on_scale (maxFractionDigits (paymentCurrencyAmountUnitFor c)) a"
    and v: "v = signed_take_bit 63 (towards_zero (a * 10 ^ ?m))"
    using assms(1) by (auto simp: AmountToMinorUnit_def c Let_def CurrencyMinorUnit_def currency_unit [OF c] split: if_splits)
  have m: "on_scale ?m a"
    by (rule on_scale_finer [OF scale]) (simp add: currency_unit [OF c] CurrencyMinorUnit_def fraction_digits_fit)
  then obtain k :: int where k: "a = of_int k / 10 ^ ?m" by (auto simp: on_scale_iff)
  then have whole: "a * 10 ^ ?m = of_int k" by simp
  have "(10 :: rat) ^ ?m \<le> 10 ^ 3" using currency_digits(2) [of currency] by (intro power_increasing) simp_all
  then have "\<bar>a\<bar> * 10 ^ ?m < 9000000000000000 * 10 ^ 3"
    by (intro mult_less_le_imp_less) (use assms(2) in simp_all)
  then have "\<bar>of_int k :: rat\<bar> < of_int 9000000000000000000" using whole by (simp add: abs_mult flip: whole)
  then have "\<bar>k\<bar> < 9000000000000000000" by (simp only: of_int_abs [symmetric] of_int_less_iff)
  then have "signed_take_bit 63 k = k" by (intro signed_take_bit_int_eq_self) simp_all
  then have "v = k" unfolding v whole by (simp add: towards_zero_def)
  then have "MinorUnitToAmount v currency = round_scale 16 a" by (simp add: MinorUnitToAmount_def k)
  also have "\<dots> = a" by (rule round_on_scale [OF on_scale_finer [OF m]]) (use currency_digits(2) [of currency] in simp)
  finally show ?thesis .
qed

lemma dinar: "NormalizePaymentCurrency ''KWD'' = Inr ''KWD''"
  by code_simp

lemma dinar_unit: "paymentCurrencyAmountUnitFor ''KWD'' = threeDecimalAmountUnit"
  by (simp add: paymentCurrencyAmountUnitFor_def dinar paymentCurrencyAmountUnits_def)

theorem minor_units_round_trip_witness:
  "AmountToMinorUnit (Some (12345 / 1000)) ''KWD'' = Inr 12345 \<and> MinorUnitToAmount 12345 ''KWD'' = 12345 / 1000"
proof -
  have "AmountToMinorUnit (Some (12345 / 1000)) ''KWD'' = Inr 12345"
    by (simp add: AmountToMinorUnit_def dinar dinar_unit Let_def threeDecimalAmountUnit_def on_scale_def towards_zero_def
        signed_take_bit_int_eq_self)
  then show ?thesis using minor_units_round_trip [of "12345 / 1000" "''KWD''" 12345] by simp
qed

section \<open>Thousandths\<close>

lemma thousandths_off:
  assumes "on_scale 3 p" and "\<not> on_scale 2 p"
  shows "1 / 1000 \<le> \<bar>p - round_scale 2 p\<bar>"
proof -
  obtain k :: int where k: "p = of_int k / 1000" using assms(1) by (auto simp: on_scale_iff)
  obtain m :: int where m: "round_scale 2 p = of_int m / 100" using on_scale_round [of 2 p] by (auto simp: on_scale_iff)
  have "k \<noteq> 10 * m"
  proof
    assume "k = 10 * m"
    then have "p = of_int m / 10 ^ 2" using k by simp
    then show False using assms(2) by (auto simp: on_scale_iff)
  qed
  then have "1 \<le> \<bar>k - 10 * m\<bar>" by linarith
  then have "(1 :: rat) \<le> of_int \<bar>k - 10 * m\<bar>" using of_int_le_iff [of 1 "\<bar>k - 10 * m\<bar>", where ?'a = rat] by simp
  moreover have "p - round_scale 2 p = of_int (k - 10 * m) / 1000" unfolding m by (simp add: k field_simps)
  ultimately show ?thesis by (simp only: abs_divide of_int_abs [symmetric]) (simp add: divide_right_mono)
qed

text \<open>
  C37. What is to be paid is stored with two decimals. In a currency of three, a payment of exactly the
  amount that was asked for, when that amount is no whole number of hundredths, is refused as a mismatch:
  the order is not paid and nothing is credited.
\<close>

theorem exact_thousandths_are_refused:
  assumes "0 < p" and "on_scale 3 p" and "\<not> on_scale 2 p"
    and "only_order oid r d" and "po_PayAmount r = round_scale 2 p" and "CurrencyMinorUnit (PaymentOrderCurrency r) = 3"
    and "instance_key_of r (calm d k g) = (key, calm d k g)"
    and "expectedNotificationProviderKeyForOrder env r key = TrimSpace pk"
    and "validateProviderSnapshotMetadata r pk metadata = None"
  shows "\<exists>d'. confirmPayment env now oid tradeNo p pk metadata (calm d k g)
      = (Inl (PlainError ''amount mismatch''), calm d' k g) \<and> orders d' = orders d \<and> shop d' = shop d"
proof -
  have got: "on_pay (order_Get oid) (calm d k g) = (Inr r, calm d k g)"
    by (simp add: calm_pay only_order_Get [OF assms(4)])
  have off: "paymentAmountToleranceForCurrency (PaymentOrderCurrency r) < \<bar>p - po_PayAmount r\<bar>"
    using thousandths_off [OF assms(2,3)] by (simp add: paymentAmountToleranceForCurrency_def assms(5,6))
  show ?thesis
    using assms(1) off
    by (auto simp: confirmPayment_def got assms(7-9) same_fold_def calm_writes)
qed

definition dinar_order :: PaymentOrder where
  "dinar_order = five_yuan\<lparr>po_PayAmount := 123 / 100, po_PaymentType := TypeStripe, po_Status := OrderStatusPending,
     po_ProviderSnapshot := [(''currency'', SnapString ''KWD'')]\<rparr>"

definition dinar_db :: payment_db where
  "dinar_db = paid_db\<lparr>orders := [dinar_order]\<rparr>"

lemma dinar_snapshot:
  "psOrderProviderSnapshot dinar_order = Some \<lparr>ps_SchemaVersion = 0, ps_ProviderInstanceID = '''', ps_ProviderKey = '''',
     ps_PaymentMode = '''', ps_MerchantAppID = '''', ps_MerchantID = '''', ps_Currency = ''KWD''\<rparr>"
proof -
  have "TrimSpace ''KWD'' = ''KWD''" by code_simp
  then show ?thesis
    by (simp add: psOrderProviderSnapshot_def dinar_order_def psSnapshotStringValue_def psSnapshotIntValue_def)
qed

lemma dinar_checks:
  "CurrencyMinorUnit (PaymentOrderCurrency dinar_order) = 3"
  "instance_key_of dinar_order (calm dinar_db empty_cache ()) = ('''', calm dinar_db empty_cache ())"
  "expectedNotificationProviderKeyForOrder plain_pay dinar_order '''' = TrimSpace TypeStripe"
  "validateProviderSnapshotMetadata dinar_order TypeStripe [] = None"
proof -
  have empty: "TrimSpace '''' = ''''" and stripe: "TrimSpace TypeStripe = TypeStripe" by code_simp+
  show "CurrencyMinorUnit (PaymentOrderCurrency dinar_order) = 3"
    by (simp add: PaymentOrderCurrency_def dinar_snapshot dinar CurrencyMinorUnit_def dinar_unit threeDecimalAmountUnit_def)
  show "instance_key_of dinar_order (calm dinar_db empty_cache ()) = ('''', calm dinar_db empty_cache ())"
    by (simp add: instance_key_of_def getOrderProviderInstance_def dinar_snapshot resolveSnapshotOrderProviderInstance_def empty)
      (simp add: dinar_order_def five_yuan_def psStringValue_def empty)
  show "expectedNotificationProviderKeyForOrder plain_pay dinar_order '''' = TrimSpace TypeStripe"
    by (simp add: expectedNotificationProviderKeyForOrder_def expectedNotificationProviderKey_def dinar_snapshot empty
        GetProviderKey_def plain_pay_def stripe)
      (simp add: dinar_order_def five_yuan_def psStringValue_def empty stripe)
  show "validateProviderSnapshotMetadata dinar_order TypeStripe [] = None"
    by (simp add: validateProviderSnapshotMetadata_def dinar_snapshot)
qed

theorem exact_thousandths_are_refused_witness:
  "\<exists>d'. confirmPayment plain_pay 10 1 ''T'' (1234 / 1000) TypeStripe [] (calm dinar_db empty_cache ())
     = (Inl (PlainError ''amount mismatch''), calm d' empty_cache ())
   \<and> orders d' = orders dinar_db \<and> shop d' = shop dinar_db"
proof -
  have only: "only_order 1 dinar_order dinar_db"
    by (simp add: only_order_def dinar_db_def dinar_order_def five_yuan_def)
  have amount: "po_PayAmount dinar_order = round_scale 2 (1234 / 1000)"
    by (simp add: dinar_order_def round_scale_def floor_eq_iff)
  have scale: "on_scale 3 (1234 / 1000)" "\<not> on_scale 2 (1234 / 1000)"
    using floor_unique [of 123 "617 / 5 :: rat"] by (simp_all add: on_scale_def)
  show ?thesis
    by (rule exact_thousandths_are_refused [OF _ scale only amount dinar_checks]) simp
qed

end
