(* ===== verification/Concurrency.thy ===== *)
theory Concurrency
  imports Redis_Commands
begin

text \<open>
  The limits on concurrent requests: the Redis side, \<open>repository/concurrency_cache.go\<close>. A request holds
  a slot of its account and of its user; a slot is a member of a sorted set, scored with the second of its
  admission, and counts until it is released or older than the slot's time to live. Live sessions hold
  leases in sets of their own, refreshed while they run. Waiting requests are counted by numbers that
  expire. An index of accounts and users with a load saves the background tasks from scanning the keys.

  Each Lua script is one statement; so is each pipeline, whose commands all work on the keys of one
  batch. The instants come from the clock of the store. A call of Redis may be lost before or after its
  effect, and the code's reaction is followed.
\<close>

section \<open>Keys\<close>

definition accountSlotKeyPrefix :: string where "accountSlotKeyPrefix = ''concurrency:account:''"
definition userSlotKeyPrefix :: string where "userSlotKeyPrefix = ''concurrency:user:''"
definition apiKeySlotKeyPrefix :: string where "apiKeySlotKeyPrefix = ''concurrency:api_key:''"
definition liveAccountSlotKeyPrefix :: string where "liveAccountSlotKeyPrefix = ''concurrency:live:account:''"
definition liveUserSlotKeyPrefix :: string where "liveUserSlotKeyPrefix = ''concurrency:live:user:''"
definition liveAPIKeySlotKeyPrefix :: string where "liveAPIKeySlotKeyPrefix = ''concurrency:live:api_key:''"
definition openAIWSIngressLeaseKeyPrefix :: string where
  "openAIWSIngressLeaseKeyPrefix = ''concurrency:openai_ws_ingress:api_key:''"
definition waitQueueKeyPrefix :: string where "waitQueueKeyPrefix = ''concurrency:wait:''"
definition accountWaitKeyPrefix :: string where "accountWaitKeyPrefix = ''wait:account:''"

definition accountActiveIndexKey :: string where "accountActiveIndexKey = ''concurrency:account:active_index''"
definition userActiveIndexKey :: string where "userActiveIndexKey = ''concurrency:user:active_index''"
definition legacyWaitSweepMarkerKey :: string where
  "legacyWaitSweepMarkerKey = ''concurrency:startup:legacy_wait_sweep:v1''"

definition openAIWSIngressLeaseTTLSeconds :: int where "openAIWSIngressLeaseTTLSeconds = 60"
definition liveLeaseTTLSeconds :: int where "liveLeaseTTLSeconds = 60"
definition defaultSlotTTLMinutes :: int where "defaultSlotTTLMinutes = 15"
definition activeIndexCleanupBatchSize :: int where "activeIndexCleanupBatchSize = 1000"
definition activeIndexPipelineChunkSize :: nat where "activeIndexPipelineChunkSize = 500"

definition accountSlotKey :: "int \<Rightarrow> string" where "accountSlotKey i = accountSlotKeyPrefix @ itoa i"
definition userSlotKey :: "int \<Rightarrow> string" where "userSlotKey i = userSlotKeyPrefix @ itoa i"
definition apiKeySlotKey :: "int \<Rightarrow> string" where "apiKeySlotKey i = apiKeySlotKeyPrefix @ itoa i"
definition liveAccountSlotKey :: "int \<Rightarrow> string" where "liveAccountSlotKey i = liveAccountSlotKeyPrefix @ itoa i"
definition liveUserSlotKey :: "int \<Rightarrow> string" where "liveUserSlotKey i = liveUserSlotKeyPrefix @ itoa i"
definition liveAPIKeySlotKey :: "int \<Rightarrow> string" where "liveAPIKeySlotKey i = liveAPIKeySlotKeyPrefix @ itoa i"
definition openAIWSIngressLeaseKey :: "int \<Rightarrow> string" where
  "openAIWSIngressLeaseKey i = openAIWSIngressLeaseKeyPrefix @ itoa i"
definition waitQueueKey :: "int \<Rightarrow> string" where "waitQueueKey i = waitQueueKeyPrefix @ itoa i"
definition accountWaitKey :: "int \<Rightarrow> string" where "accountWaitKey i = accountWaitKeyPrefix @ itoa i"

section \<open>Scripts\<close>

text \<open>The scripts that answer with a pair give whether they succeeded and the second they ran in.\<close>

definition acquireScript :: "string \<Rightarrow> string \<Rightarrow> int \<Rightarrow> int \<Rightarrow> string \<Rightarrow> (redis_store, int \<times> int) statement" where
  "acquireScript key liveKey maxConcurrency ttl requestID r =
     (let now = redis_TIME r;
          r1 = zremrange liveKey (now - 60) (zremrange key (now - ttl) r);
          admit = expire_zset key ttl (zadd key now requestID r1)
      in if ZSCORE requestID (zset r1 key) \<noteq> None then ((1, now), admit)
         else if ZCARD (zset r1 key) + ZCARD (zset r1 liveKey) < maxConcurrency then ((1, now), admit)
         else ((0, now), r1))"

definition getCountScript :: "string \<Rightarrow> string \<Rightarrow> int \<Rightarrow> (redis_store, int) statement" where
  "getCountScript key liveKey ttl r =
     (let now = redis_TIME r;
          r1 = zremrange liveKey (now - 60) (zremrange key (now - ttl) r)
      in (ZCARD (zset r1 key) + ZCARD (zset r1 liveKey), r1))"

record live_keys =
  accountRegular :: string
  accountLive :: string
  userRegular :: string
  userLive :: string
  apiLive :: string

definition acquireLiveLeaseScript ::
    "live_keys \<Rightarrow> int \<Rightarrow> int \<Rightarrow> int \<Rightarrow> string \<Rightarrow> int \<Rightarrow> (redis_store, int) statement" where
  "acquireLiveLeaseScript ks accountMax userMax ttl leaseID replacing r =
     (let now = redis_TIME r;
          r1 = zremrange (apiLive ks) (now - ttl) (zremrange (userLive ks) (now - ttl) (zremrange (accountLive ks) (now - ttl) r));
          accountCount = ZCARD (zset r1 (accountRegular ks)) + ZCARD (zset r1 (accountLive ks));
          userCount = ZCARD (zset r1 (userRegular ks)) + ZCARD (zset r1 (userLive ks));
          allowance = (if replacing = 1 then 1 else 0);
          r2 = zadd (apiLive ks) now leaseID (zadd (userLive ks) now leaseID (zadd (accountLive ks) now leaseID r1));
          r3 = expire_zset (apiLive ks) ttl (expire_zset (userLive ks) ttl (expire_zset (accountLive ks) ttl r2))
      in if ZSCORE leaseID (zset r1 (accountLive ks)) \<noteq> None then (1, r1)
         else if 0 < accountMax \<and> accountMax + allowance \<le> accountCount then (0, r1)
         else if 0 < userMax \<and> userMax + allowance \<le> userCount then (0, r1)
         else (1, r3))"

text \<open>The two loops of the refreshing script: the first stops at a set without the lease.\<close>

fun owns_all :: "int \<Rightarrow> string \<Rightarrow> string list \<Rightarrow> (redis_store, bool) statement" where
  "owns_all expireBefore leaseID [] r = (True, r)"
| "owns_all expireBefore leaseID (key # ks) r =
     (let r1 = zremrange key expireBefore r
      in if ZSCORE leaseID (zset r1 key) = None then (False, r1) else owns_all expireBefore leaseID ks r1)"

fun renew_all :: "int \<Rightarrow> int \<Rightarrow> string \<Rightarrow> string list \<Rightarrow> redis_store \<Rightarrow> redis_store" where
  "renew_all now ttl leaseID [] r = r"
| "renew_all now ttl leaseID (key # ks) r = renew_all now ttl leaseID ks (expire_zset key ttl (zadd key now leaseID r))"

definition refreshLiveLeaseScript :: "string list \<Rightarrow> int \<Rightarrow> string \<Rightarrow> (redis_store, int) statement" where
  "refreshLiveLeaseScript ks ttl leaseID r =
     (let now = redis_TIME r in
      case owns_all (now - ttl) leaseID ks r of
        (False, r1) \<Rightarrow> (0, r1)
      | (True, r1) \<Rightarrow> (1, renew_all now ttl leaseID ks r1))"

definition trackSlotScript :: "string \<Rightarrow> int \<Rightarrow> string \<Rightarrow> (redis_store, int) statement" where
  "trackSlotScript key ttl requestID r =
     (let now = redis_TIME r
      in (1, expire_zset key ttl (zadd key now requestID (zremrange key (now - ttl) r))))"

definition acquireOpenAIWSIngressLeaseScript :: "string \<Rightarrow> int \<Rightarrow> int \<Rightarrow> string \<Rightarrow> (redis_store, int) statement" where
  "acquireOpenAIWSIngressLeaseScript key maxConnections ttl leaseID r =
     (let now = redis_TIME r;
          r1 = zremrange key (now - ttl) r;
          admit = expire_zset key ttl (zadd key now leaseID r1)
      in if ZSCORE leaseID (zset r1 key) \<noteq> None then (1, admit)
         else if ZCARD (zset r1 key) < maxConnections then (1, admit)
         else (0, r1))"

definition refreshOpenAIWSIngressLeaseScript :: "string \<Rightarrow> int \<Rightarrow> string \<Rightarrow> (redis_store, int) statement" where
  "refreshOpenAIWSIngressLeaseScript key ttl leaseID r =
     (let now = redis_TIME r;
          r1 = zremrange key (now - ttl) r
      in if ZSCORE leaseID (zset r1 key) = None then (0, r1)
         else (1, expire_zset key ttl (zadd key now leaseID r1)))"

definition incrementWaitScript :: "string \<Rightarrow> int \<Rightarrow> int \<Rightarrow> (redis_store, int \<times> int) statement" where
  "incrementWaitScript key maxWait ttl r =
     (let current = (case redis_GET r key of None \<Rightarrow> 0 | Some v \<Rightarrow> v);
          now = redis_TIME r
      in if maxWait \<le> current then ((0, now), r)
         else ((1, now), expire_number key ttl (redis_INCRBY key 1 r)))"

definition incrementAccountWaitScript :: "string \<Rightarrow> int \<Rightarrow> int \<Rightarrow> (redis_store, int \<times> int) statement" where
  "incrementAccountWaitScript key maxWait ttl r =
     (let current = (case redis_GET r key of None \<Rightarrow> 0 | Some v \<Rightarrow> v);
          now = redis_TIME r
      in if maxWait \<le> current then ((0, now), r)
         else ((1, now), expire_number key ttl (redis_INCRBY key 1 r)))"

definition decrementWaitScript :: "string \<Rightarrow> (redis_store, int) statement" where
  "decrementWaitScript key r =
     (1, case redis_GET r key of
           None \<Rightarrow> r
         | Some v \<Rightarrow> if 0 < v then redis_INCRBY key (- 1) r else r)"

definition cleanupExpiredSlotsScript :: "string \<Rightarrow> int \<Rightarrow> (redis_store, int) statement" where
  "cleanupExpiredSlotsScript key ttl r =
     (let r1 = zremrange key (redis_TIME r - ttl) r
      in (1, if ZCARD (zset r1 key) = 0 then redis_DEL key r1 else expire_zset key ttl r1))"

fun remove_foreign :: "string \<Rightarrow> string \<Rightarrow> string list \<Rightarrow> int \<times> redis_store \<Rightarrow> int \<times> redis_store" where
  "remove_foreign key activePrefix [] s = s"
| "remove_foreign key activePrefix (m # ms) (removed, r) =
     remove_foreign key activePrefix ms
       (if \<not> HasPrefix m activePrefix
        then (removed + (if ZSCORE m (zset r key) = None then 0 else 1), zrem key m r)
        else (removed, r))"

definition startupCleanupSlotScript :: "string \<Rightarrow> string \<Rightarrow> int \<Rightarrow> (redis_store, int \<times> int) statement" where
  "startupCleanupSlotScript key activePrefix slotTTL r =
     (let (removed, r1) = remove_foreign key activePrefix (ZRANGE_all (zset r key)) (0, r);
          remaining = ZCARD (zset r1 key)
      in ((removed, remaining), if remaining = 0 then redis_DEL key r1 else expire_zset key slotTTL r1))"

section \<open>The active index\<close>

record concurrency_cache =
  slotTTLSeconds :: int
  waitQueueTTLSeconds :: int

definition NewConcurrencyCache :: "int \<Rightarrow> int \<Rightarrow> concurrency_cache" where
  "NewConcurrencyCache slotTTLMinutes waitTTL =
     (let m = (if slotTTLMinutes \<le> 0 then defaultSlotTTLMinutes else slotTTLMinutes)
      in \<lparr>slotTTLSeconds = m * 60, waitQueueTTLSeconds = (if waitTTL \<le> 0 then m * 60 else waitTTL)\<rparr>)"

type_synonym 'a cache_op = "redis_store world \<Rightarrow> (go_error + 'a) \<times> redis_store world"

definition redis_call :: "(redis_store, 'a) statement \<Rightarrow> 'a cache_op" where
  "redis_call st = db_exec (\<lambda>r. case st r of (x, r') \<Rightarrow> (Inr x, r'))"

definition redisUnixSeconds :: "int cache_op" where
  "redisUnixSeconds = redis_call (\<lambda>r. (redis_TIME r, r))"

record slot_index =
  indexKey :: string
  slotKey :: "int \<Rightarrow> string"
  waitKey :: "int \<Rightarrow> string"

definition accountSlotIndex :: slot_index where
  "accountSlotIndex = \<lparr>indexKey = accountActiveIndexKey, slotKey = accountSlotKey, waitKey = accountWaitKey\<rparr>"

definition userSlotIndex :: slot_index where
  "userSlotIndex = \<lparr>indexKey = userActiveIndexKey, slotKey = userSlotKey, waitKey = waitQueueKey\<rparr>"

definition touchActiveIndexAt :: "string \<Rightarrow> int \<Rightarrow> int \<Rightarrow> redis_store world \<Rightarrow> redis_store world" where
  "touchActiveIndexAt ik i expireAt w =
     (if i \<le> 0 \<or> expireAt \<le> 0 then w
      else snd (redis_call (\<lambda>r. ((), zadd ik expireAt (itoa i) r)) w))"

record active_load =
  al_id :: int
  al_member :: string
  slotCount :: int
  waitCount :: int

definition activeIndexTTL :: "concurrency_cache \<Rightarrow> int \<Rightarrow> int \<Rightarrow> int" where
  "activeIndexTTL c slots waits =
     (let t = (if 0 < slots then slotTTLSeconds c else 0)
      in if 0 < waits \<and> t < waitQueueTTLSeconds c then waitQueueTTLSeconds c else t)"

definition positive_number :: "int option \<Rightarrow> int" where
  "positive_number v = (case v of None \<Rightarrow> 0 | Some n \<Rightarrow> if 0 < n then n else 0)"

definition read_load :: "int \<Rightarrow> int \<Rightarrow> string \<Rightarrow> string \<Rightarrow> (redis_store, active_load) statement" where
  "read_load cutoffTime i sk wk r =
     (let r1 = zremrange sk cutoffTime r
      in (\<lparr>al_id = i, al_member = itoa i, slotCount = ZCARD (zset r1 sk), waitCount = positive_number (redis_GET r1 wk)\<rparr>, r1))"

definition readActiveLoadForKey ::
    "concurrency_cache \<Rightarrow> int \<Rightarrow> string \<Rightarrow> string \<Rightarrow> int \<Rightarrow> active_load cache_op" where
  "readActiveLoadForKey c i sk wk now = redis_call (read_load (now - slotTTLSeconds c) i sk wk)"

definition refreshActiveIndex ::
    "concurrency_cache \<Rightarrow> string \<Rightarrow> int \<Rightarrow> string \<Rightarrow> string \<Rightarrow> redis_store world \<Rightarrow> redis_store world" where
  "refreshActiveIndex c ik i sk wk w =
     (if i \<le> 0 then w
      else
        (case redisUnixSeconds w of
           (Inl _, w1) \<Rightarrow> w1
         | (Inr now, w1) \<Rightarrow>
             (case readActiveLoadForKey c i sk wk now w1 of
                (Inl _, w2) \<Rightarrow> w2
              | (Inr l, w2) \<Rightarrow>
                  if slotCount l = 0 \<and> waitCount l \<le> 0
                  then snd (redis_call (\<lambda>r. ((), zrem ik (itoa i) r)) w2)
                  else
                    (let ttl = activeIndexTTL c (slotCount l) (waitCount l)
                     in if ttl \<le> 0 then w2 else touchActiveIndexAt ik i (now + ttl) w2))))"

definition refreshAccountActiveIndex :: "concurrency_cache \<Rightarrow> int \<Rightarrow> redis_store world \<Rightarrow> redis_store world" where
  "refreshAccountActiveIndex c i = refreshActiveIndex c accountActiveIndexKey i (accountSlotKey i) (accountWaitKey i)"

definition refreshUserActiveIndex :: "concurrency_cache \<Rightarrow> int \<Rightarrow> redis_store world \<Rightarrow> redis_store world" where
  "refreshUserActiveIndex c i = refreshActiveIndex c userActiveIndexKey i (userSlotKey i) (waitQueueKey i)"

text \<open>Members that are no positive id are stale; the others are read in pipelines of a bounded size.\<close>

fun index_candidates :: "string list \<Rightarrow> (int \<times> string) list \<times> string list" where
  "index_candidates [] = ([], [])"
| "index_candidates (m # ms) =
     (case index_candidates ms of (cs, stale) \<Rightarrow>
        case ParseInt m of
          None \<Rightarrow> (cs, m # stale)
        | Some i \<Rightarrow> if i \<le> 0 then (cs, m # stale) else ((i, m) # cs, stale))"

fun read_chunk :: "int \<Rightarrow> slot_index \<Rightarrow> (int \<times> string) list \<Rightarrow> (redis_store, active_load list) statement" where
  "read_chunk cutoffTime spec [] r = ([], r)"
| "read_chunk cutoffTime spec ((i, m) # cs) r =
     (case read_load cutoffTime i (slotKey spec i) (waitKey spec i) r of (l, r1) \<Rightarrow>
        case read_chunk cutoffTime spec cs r1 of (ls, r2) \<Rightarrow> (l\<lparr>al_member := m\<rparr> # ls, r2))"

function read_chunks :: "int \<Rightarrow> slot_index \<Rightarrow> (int \<times> string) list \<Rightarrow> active_load list cache_op" where
  "read_chunks cutoffTime spec cs w =
     (if cs = [] then (Inr [], w)
      else
        (case redis_call (read_chunk cutoffTime spec (take activeIndexPipelineChunkSize cs)) w of
           (Inl e, w1) \<Rightarrow> (Inl e, w1)
         | (Inr ls, w1) \<Rightarrow>
             (case read_chunks cutoffTime spec (drop activeIndexPipelineChunkSize cs) w1 of
                (Inl e, w2) \<Rightarrow> (Inl e, w2)
              | (Inr ls', w2) \<Rightarrow> (Inr (ls @ ls'), w2))))"
  by pat_completeness auto
termination
  by (relation "measure (\<lambda>(_, _, cs, _). length cs)") (auto simp: activeIndexPipelineChunkSize_def)

declare read_chunks.simps [simp del]

definition readIndexLoads ::
    "concurrency_cache \<Rightarrow> slot_index \<Rightarrow> string list \<Rightarrow> int \<Rightarrow> (active_load list \<times> string list) cache_op" where
  "readIndexLoads c spec ms now w =
     (case index_candidates ms of (cs, stale) \<Rightarrow>
        case read_chunks (now - slotTTLSeconds c) spec cs w of
          (Inl e, w1) \<Rightarrow> (Inl e, w1)
        | (Inr ls, w1) \<Rightarrow> (Inr (ls, stale), w1))"

definition removeActiveIndexMembers :: "string \<Rightarrow> string list \<Rightarrow> redis_store world \<Rightarrow> redis_store world" where
  "removeActiveIndexMembers ik ms w =
     (if ms = [] then w else snd (redis_call (\<lambda>r. ((), fold (zrem ik) ms r)) w))"

definition refresh_index_members :: "string \<Rightarrow> (string \<times> int) list \<Rightarrow> redis_store world \<Rightarrow> redis_store world" where
  "refresh_index_members ik zs w =
     (if zs = [] then w else snd (redis_call (\<lambda>r. ((), fold (\<lambda>(m, s). zadd ik s m) zs r)) w))"

section \<open>Slots\<close>

definition AcquireAccountSlot :: "concurrency_cache \<Rightarrow> int \<Rightarrow> int \<Rightarrow> string \<Rightarrow> bool cache_op" where
  "AcquireAccountSlot c accountID maxConcurrency requestID w =
     (case redis_call (acquireScript (accountSlotKey accountID) (liveAccountSlotKey accountID) maxConcurrency
                         (slotTTLSeconds c) requestID) w of
        (Inl e, w1) \<Rightarrow> (Inl e, w1)
      | (Inr (result, now), w1) \<Rightarrow>
          (Inr (result = 1),
           if result = 1 then touchActiveIndexAt accountActiveIndexKey accountID (now + slotTTLSeconds c) w1 else w1))"

definition ReleaseAccountSlot :: "concurrency_cache \<Rightarrow> int \<Rightarrow> string \<Rightarrow> unit cache_op" where
  "ReleaseAccountSlot c accountID requestID w =
     (case redis_call (\<lambda>r. ((), zrem (accountSlotKey accountID) requestID r)) w of
        (Inl e, w1) \<Rightarrow> (Inl e, w1)
      | (Inr _, w1) \<Rightarrow> (Inr (), refreshAccountActiveIndex c accountID w1))"

definition GetAccountConcurrency :: "concurrency_cache \<Rightarrow> int \<Rightarrow> int cache_op" where
  "GetAccountConcurrency c accountID =
     redis_call (getCountScript (accountSlotKey accountID) (liveAccountSlotKey accountID) (slotTTLSeconds c))"

definition AcquireUserSlot :: "concurrency_cache \<Rightarrow> int \<Rightarrow> int \<Rightarrow> string \<Rightarrow> bool cache_op" where
  "AcquireUserSlot c userID maxConcurrency requestID w =
     (case redis_call (acquireScript (userSlotKey userID) (liveUserSlotKey userID) maxConcurrency
                         (slotTTLSeconds c) requestID) w of
        (Inl e, w1) \<Rightarrow> (Inl e, w1)
      | (Inr (result, now), w1) \<Rightarrow>
          (Inr (result = 1),
           if result = 1 then touchActiveIndexAt userActiveIndexKey userID (now + slotTTLSeconds c) w1 else w1))"

definition ReleaseUserSlot :: "concurrency_cache \<Rightarrow> int \<Rightarrow> string \<Rightarrow> unit cache_op" where
  "ReleaseUserSlot c userID requestID w =
     (case redis_call (\<lambda>r. ((), zrem (userSlotKey userID) requestID r)) w of
        (Inl e, w1) \<Rightarrow> (Inl e, w1)
      | (Inr _, w1) \<Rightarrow> (Inr (), refreshUserActiveIndex c userID w1))"

definition GetUserConcurrency :: "concurrency_cache \<Rightarrow> int \<Rightarrow> int cache_op" where
  "GetUserConcurrency c userID =
     redis_call (getCountScript (userSlotKey userID) (liveUserSlotKey userID) (slotTTLSeconds c))"

text \<open>
  A pipeline that counts the slots of several owners. The results are maps keyed by the ids.
\<close>

fun count_slots ::
    "(int \<Rightarrow> string) \<Rightarrow> (int \<Rightarrow> string) \<Rightarrow> int \<Rightarrow> int \<Rightarrow> int list \<Rightarrow> (redis_store, int \<rightharpoonup> int) statement" where
  "count_slots sk lk cutoffTime liveCutoff [] r = (Map.empty, r)"
| "count_slots sk lk cutoffTime liveCutoff (i # is) r =
     (let r1 = zremrange (lk i) liveCutoff (zremrange (sk i) cutoffTime r);
          n = ZCARD (zset r1 (sk i)) + ZCARD (zset r1 (lk i))
      in case count_slots sk lk cutoffTime liveCutoff is r1 of
           (m, r2) \<Rightarrow> (if i \<in> dom m then m else m(i \<mapsto> n), r2))"

definition count_batch ::
    "concurrency_cache \<Rightarrow> (int \<Rightarrow> string) \<Rightarrow> (int \<Rightarrow> string) \<Rightarrow> int list \<Rightarrow> (int \<rightharpoonup> int) cache_op" where
  "count_batch c sk lk is w =
     (if is = [] then (Inr Map.empty, w)
      else
        (case redisUnixSeconds w of
           (Inl e, w1) \<Rightarrow> (Inl e, w1)
         | (Inr now, w1) \<Rightarrow>
             redis_call (count_slots sk lk (now - slotTTLSeconds c) (now - liveLeaseTTLSeconds) is) w1))"

definition GetAccountConcurrencyBatch :: "concurrency_cache \<Rightarrow> int list \<Rightarrow> (int \<rightharpoonup> int) cache_op" where
  "GetAccountConcurrencyBatch c = count_batch c accountSlotKey liveAccountSlotKey"

definition GetAPIKeyConcurrencyBatch :: "concurrency_cache \<Rightarrow> int list \<Rightarrow> (int \<rightharpoonup> int) cache_op" where
  "GetAPIKeyConcurrencyBatch c = count_batch c apiKeySlotKey liveAPIKeySlotKey"

definition TrackAPIKeySlot :: "concurrency_cache \<Rightarrow> int \<Rightarrow> string \<Rightarrow> unit cache_op" where
  "TrackAPIKeySlot c apiKeyID requestID =
     redis_call (\<lambda>r. ((), snd (trackSlotScript (apiKeySlotKey apiKeyID) (slotTTLSeconds c) requestID r)))"

definition ReleaseAPIKeySlot :: "int \<Rightarrow> string \<Rightarrow> unit cache_op" where
  "ReleaseAPIKeySlot apiKeyID requestID = redis_call (\<lambda>r. ((), zrem (apiKeySlotKey apiKeyID) requestID r))"

section \<open>Leases\<close>

definition AcquireOpenAIWSIngressLease :: "int \<Rightarrow> int \<Rightarrow> string \<Rightarrow> bool cache_op" where
  "AcquireOpenAIWSIngressLease apiKeyID maxConnections leaseID w =
     (if apiKeyID \<le> 0 \<or> maxConnections \<le> 0 \<or> leaseID = '''' then (Inr False, w)
      else
        (case redis_call (acquireOpenAIWSIngressLeaseScript (openAIWSIngressLeaseKey apiKeyID) maxConnections
                            openAIWSIngressLeaseTTLSeconds leaseID) w of
           (Inl e, w1) \<Rightarrow> (Inl e, w1)
         | (Inr result, w1) \<Rightarrow> (Inr (result = 1), w1)))"

definition RefreshOpenAIWSIngressLease :: "int \<Rightarrow> string \<Rightarrow> bool cache_op" where
  "RefreshOpenAIWSIngressLease apiKeyID leaseID w =
     (if apiKeyID \<le> 0 \<or> leaseID = '''' then (Inr False, w)
      else
        (case redis_call (refreshOpenAIWSIngressLeaseScript (openAIWSIngressLeaseKey apiKeyID)
                            openAIWSIngressLeaseTTLSeconds leaseID) w of
           (Inl e, w1) \<Rightarrow> (Inl e, w1)
         | (Inr result, w1) \<Rightarrow> (Inr (result = 1), w1)))"

definition ReleaseOpenAIWSIngressLease :: "int \<Rightarrow> string \<Rightarrow> unit cache_op" where
  "ReleaseOpenAIWSIngressLease apiKeyID leaseID w =
     (if apiKeyID \<le> 0 \<or> leaseID = '''' then (Inr (), w)
      else redis_call (\<lambda>r. ((), zrem (openAIWSIngressLeaseKey apiKeyID) leaseID r)) w)"

definition lease_keys :: "int \<Rightarrow> int \<Rightarrow> int \<Rightarrow> live_keys" where
  "lease_keys accountID userID apiKeyID =
     \<lparr>accountRegular = accountSlotKey accountID, accountLive = liveAccountSlotKey accountID,
      userRegular = userSlotKey userID, userLive = liveUserSlotKey userID, apiLive = liveAPIKeySlotKey apiKeyID\<rparr>"

definition AcquireLiveLease ::
    "int \<Rightarrow> int \<Rightarrow> int \<Rightarrow> int \<Rightarrow> int \<Rightarrow> string \<Rightarrow> bool \<Rightarrow> bool cache_op" where
  "AcquireLiveLease accountID accountMax userID userMax apiKeyID leaseID replacingRegularSlots w =
     (if accountID \<le> 0 \<or> userID \<le> 0 \<or> apiKeyID \<le> 0 \<or> leaseID = '''' then (Inr False, w)
      else
        (case redis_call (acquireLiveLeaseScript (lease_keys accountID userID apiKeyID) accountMax userMax
                            liveLeaseTTLSeconds leaseID (if replacingRegularSlots then 1 else 0)) w of
           (Inl e, w1) \<Rightarrow> (Inl e, w1)
         | (Inr result, w1) \<Rightarrow> (Inr (result = 1), w1)))"

definition RefreshLiveLease :: "int \<Rightarrow> int \<Rightarrow> int \<Rightarrow> string \<Rightarrow> bool cache_op" where
  "RefreshLiveLease accountID userID apiKeyID leaseID w =
     (if leaseID = '''' then (Inr False, w)
      else
        (case redis_call (refreshLiveLeaseScript
                [liveAccountSlotKey accountID, liveUserSlotKey userID, liveAPIKeySlotKey apiKeyID]
                liveLeaseTTLSeconds leaseID) w of
           (Inl e, w1) \<Rightarrow> (Inl e, w1)
         | (Inr result, w1) \<Rightarrow> (Inr (result = 1), w1)))"

definition ReleaseLiveLease :: "int \<Rightarrow> int \<Rightarrow> int \<Rightarrow> string \<Rightarrow> unit cache_op" where
  "ReleaseLiveLease accountID userID apiKeyID leaseID w =
     (if leaseID = '''' then (Inr (), w)
      else redis_call (\<lambda>r. ((), zrem (liveAPIKeySlotKey apiKeyID) leaseID
                                  (zrem (liveUserSlotKey userID) leaseID
                                    (zrem (liveAccountSlotKey accountID) leaseID r)))) w)"

section \<open>Waiting requests\<close>

definition IncrementWaitCount :: "concurrency_cache \<Rightarrow> int \<Rightarrow> int \<Rightarrow> bool cache_op" where
  "IncrementWaitCount c userID maxWait w =
     (case redis_call (incrementWaitScript (waitQueueKey userID) maxWait (waitQueueTTLSeconds c)) w of
        (Inl e, w1) \<Rightarrow> (Inl e, w1)
      | (Inr (result, now), w1) \<Rightarrow>
          (Inr (result = 1),
           if result = 1 then touchActiveIndexAt userActiveIndexKey userID (now + waitQueueTTLSeconds c) w1 else w1))"

definition DecrementWaitCount :: "concurrency_cache \<Rightarrow> int \<Rightarrow> unit cache_op" where
  "DecrementWaitCount c userID w =
     (case redis_call (decrementWaitScript (waitQueueKey userID)) w of
        (Inl e, w1) \<Rightarrow> (Inl e, w1)
      | (Inr _, w1) \<Rightarrow> (Inr (), refreshUserActiveIndex c userID w1))"

definition IncrementAccountWaitCount :: "concurrency_cache \<Rightarrow> int \<Rightarrow> int \<Rightarrow> bool cache_op" where
  "IncrementAccountWaitCount c accountID maxWait w =
     (case redis_call (incrementAccountWaitScript (accountWaitKey accountID) maxWait (waitQueueTTLSeconds c)) w of
        (Inl e, w1) \<Rightarrow> (Inl e, w1)
      | (Inr (result, now), w1) \<Rightarrow>
          (Inr (result = 1),
           if result = 1 then touchActiveIndexAt accountActiveIndexKey accountID (now + waitQueueTTLSeconds c) w1 else w1))"

definition DecrementAccountWaitCount :: "concurrency_cache \<Rightarrow> int \<Rightarrow> unit cache_op" where
  "DecrementAccountWaitCount c accountID w =
     (case redis_call (decrementWaitScript (accountWaitKey accountID)) w of
        (Inl e, w1) \<Rightarrow> (Inl e, w1)
      | (Inr _, w1) \<Rightarrow> (Inr (), refreshAccountActiveIndex c accountID w1))"

definition GetAccountWaitingCount :: "int \<Rightarrow> int cache_op" where
  "GetAccountWaitingCount accountID =
     redis_call (\<lambda>r. (case redis_GET r (accountWaitKey accountID) of None \<Rightarrow> 0 | Some v \<Rightarrow> v, r))"

section \<open>Loads\<close>

record load_info =
  li_ID :: int
  CurrentConcurrency :: int
  WaitingCount :: int
  LoadRate :: int

definition load_rate :: "int \<Rightarrow> int \<Rightarrow> int \<Rightarrow> int" where
  "load_rate current waiting maxConcurrency =
     (if 0 < maxConcurrency then go_quot ((current + waiting) * 100) maxConcurrency else 0)"

fun read_loads ::
    "(int \<Rightarrow> string) \<Rightarrow> (int \<Rightarrow> string) \<Rightarrow> (int \<Rightarrow> string) \<Rightarrow> int \<Rightarrow> int \<Rightarrow> (int \<times> int) list
      \<Rightarrow> (redis_store, (int \<times> load_info) list) statement" where
  "read_loads sk lk wk cutoffTime liveCutoff [] r = ([], r)"
| "read_loads sk lk wk cutoffTime liveCutoff ((i, maxConcurrency) # os) r =
     (let r1 = zremrange (lk i) liveCutoff (zremrange (sk i) cutoffTime r);
          current = ZCARD (zset r1 (sk i)) + ZCARD (zset r1 (lk i));
          waiting = (case redis_GET r1 (wk i) of None \<Rightarrow> 0 | Some v \<Rightarrow> v);
          l = \<lparr>li_ID = i, CurrentConcurrency = current, WaitingCount = waiting,
               LoadRate = load_rate current waiting maxConcurrency\<rparr>
      in case read_loads sk lk wk cutoffTime liveCutoff os r1 of (ls, r2) \<Rightarrow> ((i, l) # ls, r2))"

text \<open>The map is filled in the order of the owners, so a later entry of an id replaces an earlier one.\<close>

definition load_batch ::
    "concurrency_cache \<Rightarrow> (int \<Rightarrow> string) \<Rightarrow> (int \<Rightarrow> string) \<Rightarrow> (int \<Rightarrow> string) \<Rightarrow> (int \<times> int) list
      \<Rightarrow> (int \<rightharpoonup> load_info) cache_op" where
  "load_batch c sk lk wk os w =
     (if os = [] then (Inr Map.empty, w)
      else
        (case redisUnixSeconds w of
           (Inl e, w1) \<Rightarrow> (Inl e, w1)
         | (Inr now, w1) \<Rightarrow>
             (case redis_call (read_loads sk lk wk (now - slotTTLSeconds c) (now - liveLeaseTTLSeconds) os) w1 of
                (Inl e, w2) \<Rightarrow> (Inl e, w2)
              | (Inr ls, w2) \<Rightarrow> (Inr (map_of (rev ls)), w2))))"

definition GetAccountsLoadBatch :: "concurrency_cache \<Rightarrow> (int \<times> int) list \<Rightarrow> (int \<rightharpoonup> load_info) cache_op" where
  "GetAccountsLoadBatch c = load_batch c accountSlotKey liveAccountSlotKey accountWaitKey"

definition GetUsersLoadBatch :: "concurrency_cache \<Rightarrow> (int \<times> int) list \<Rightarrow> (int \<rightharpoonup> load_info) cache_op" where
  "GetUsersLoadBatch c = load_batch c userSlotKey liveUserSlotKey waitQueueKey"

section \<open>Cleaning up\<close>

definition CleanupExpiredAccountSlots :: "concurrency_cache \<Rightarrow> int \<Rightarrow> unit cache_op" where
  "CleanupExpiredAccountSlots c accountID w =
     (case redis_call (cleanupExpiredSlotsScript (accountSlotKey accountID) (slotTTLSeconds c)) w of
        (Inl e, w1) \<Rightarrow> (Inl e, w1)
      | (Inr _, w1) \<Rightarrow> (Inr (), refreshAccountActiveIndex c accountID w1))"

definition reconcileExpiredIndexCandidates :: "concurrency_cache \<Rightarrow> slot_index \<Rightarrow> unit cache_op" where
  "reconcileExpiredIndexCandidates c spec w =
     (case redisUnixSeconds w of
        (Inl e, w1) \<Rightarrow> (Inl e, w1)
      | (Inr now, w1) \<Rightarrow>
          (case redis_call (\<lambda>r. (ZRANGE_upto now activeIndexCleanupBatchSize (zset r (indexKey spec)), r)) w1 of
             (Inl e, w2) \<Rightarrow> (Inl e, w2)
           | (Inr ms, w2) \<Rightarrow>
               (case readIndexLoads c spec ms now w2 of
                  (Inl e, w3) \<Rightarrow> (Inl e, w3)
                | (Inr (loads, stale), w3) \<Rightarrow>
                    (let idle = filter (\<lambda>l. slotCount l = 0 \<and> waitCount l \<le> 0) loads;
                         busy = filter (\<lambda>l. \<not> (slotCount l = 0 \<and> waitCount l \<le> 0)) loads;
                         refreshed = map (\<lambda>l. (al_member l, now + activeIndexTTL c (slotCount l) (waitCount l))) busy;
                         w4 = refresh_index_members (indexKey spec) refreshed w3
                     in (Inr (), removeActiveIndexMembers (indexKey spec) (stale @ map al_member idle) w4)))))"

definition CleanupExpiredAccountSlotKeys :: "concurrency_cache \<Rightarrow> unit cache_op" where
  "CleanupExpiredAccountSlotKeys c w =
     (case reconcileExpiredIndexCandidates c accountSlotIndex w of
        (Inl e, w1) \<Rightarrow> (Inl e, w1)
      | (Inr _, w1) \<Rightarrow> reconcileExpiredIndexCandidates c userSlotIndex w1)"

text \<open>The scan of a pattern with the deletions of its pages is one statement.\<close>

definition sweepLegacyWaitKeysOnce :: "unit cache_op" where
  "sweepLegacyWaitKeysOnce w =
     (case redis_call (\<lambda>r. (redis_GET r legacyWaitSweepMarkerKey \<noteq> None, r)) w of
        (Inl e, w1) \<Rightarrow> (Inl e, w1)
      | (Inr True, w1) \<Rightarrow> (Inr (), w1)
      | (Inr False, w1) \<Rightarrow>
          (case redis_call (\<lambda>r. ((), delete_prefix accountWaitKeyPrefix r)) w1 of
             (Inl e, w2) \<Rightarrow> (Inl e, w2)
           | (Inr _, w2) \<Rightarrow>
               (case redis_call (\<lambda>r. ((), delete_prefix waitQueueKeyPrefix r)) w2 of
                  (Inl e, w3) \<Rightarrow> (Inl e, w3)
                | (Inr _, w3) \<Rightarrow> redis_call (\<lambda>r. ((), redis_SET legacyWaitSweepMarkerKey 1 r)) w3)))"

definition allIndexMembers :: "string \<Rightarrow> string list cache_op" where
  "allIndexMembers ik = redis_call (\<lambda>r. (ZRANGE_all (zset r ik), r))"

text \<open>The loop over the members of an index collects the stale ones and those to refresh.\<close>

fun cleanup_members ::
    "concurrency_cache \<Rightarrow> slot_index \<Rightarrow> string \<Rightarrow> int \<Rightarrow> string list \<Rightarrow> (string list \<times> (string \<times> int) list) cache_op" where
  "cleanup_members c spec activeRequestPrefix now [] w = (Inr ([], []), w)"
| "cleanup_members c spec activeRequestPrefix now (m # ms) w =
     (case (case ParseInt m of None \<Rightarrow> 0 | Some i \<Rightarrow> i) of i \<Rightarrow>
        if i \<le> 0
        then (case cleanup_members c spec activeRequestPrefix now ms w of
                (Inl e, w1) \<Rightarrow> (Inl e, w1)
              | (Inr (stale, refreshed), w1) \<Rightarrow> (Inr (m # stale, refreshed), w1))
        else
          (case redis_call (startupCleanupSlotScript (slotKey spec i) activeRequestPrefix (slotTTLSeconds c)) w of
             (Inl e, w1) \<Rightarrow> (Inl e, w1)
           | (Inr (_, remaining), w1) \<Rightarrow>
               (case redis_call (\<lambda>r. ((), redis_DEL (waitKey spec i) r)) w1 of
                  (Inl e, w2) \<Rightarrow> (Inl e, w2)
                | (Inr _, w2) \<Rightarrow>
                    (case cleanup_members c spec activeRequestPrefix now ms w2 of
                       (Inl e, w3) \<Rightarrow> (Inl e, w3)
                     | (Inr (stale, refreshed), w3) \<Rightarrow>
                         (Inr (if 0 < remaining then (stale, (m, now + slotTTLSeconds c) # refreshed)
                               else (m # stale, refreshed)), w3)))))"

definition cleanupStaleProcessSlotsForIndex ::
    "concurrency_cache \<Rightarrow> slot_index \<Rightarrow> string list \<Rightarrow> string \<Rightarrow> int \<Rightarrow> unit cache_op" where
  "cleanupStaleProcessSlotsForIndex c spec ms activeRequestPrefix now w =
     (case cleanup_members c spec activeRequestPrefix now ms w of
        (Inl e, w1) \<Rightarrow> (Inl e, w1)
      | (Inr (stale, refreshed), w1) \<Rightarrow>
          (Inr (), removeActiveIndexMembers (indexKey spec) stale (refresh_index_members (indexKey spec) refreshed w1)))"

definition cache_CleanupStaleProcessSlots :: "concurrency_cache \<Rightarrow> string \<Rightarrow> unit cache_op" where
  "cache_CleanupStaleProcessSlots c activeRequestPrefix w =
     (if activeRequestPrefix = '''' then (Inr (), w)
      else
        (case sweepLegacyWaitKeysOnce w of
           (Inl e, w1) \<Rightarrow> (Inl e, w1)
         | (Inr _, w1) \<Rightarrow>
             (case redisUnixSeconds w1 of
                (Inl e, w2) \<Rightarrow> (Inl e, w2)
              | (Inr now, w2) \<Rightarrow>
                  (case allIndexMembers accountActiveIndexKey w2 of
                     (Inl e, w3) \<Rightarrow> (Inl e, w3)
                   | (Inr accountMembers, w3) \<Rightarrow>
                       (case cleanupStaleProcessSlotsForIndex c accountSlotIndex accountMembers activeRequestPrefix now w3 of
                          (Inl e, w4) \<Rightarrow> (Inl e, w4)
                        | (Inr _, w4) \<Rightarrow>
                            (case allIndexMembers userActiveIndexKey w4 of
                               (Inl e, w5) \<Rightarrow> (Inl e, w5)
                             | (Inr userMembers, w5) \<Rightarrow>
                                 cleanupStaleProcessSlotsForIndex c userSlotIndex userMembers activeRequestPrefix now w5))))))"

end
