(* ===== verification/Concurrency_Service.thy ===== *)
theory Concurrency_Service
  imports Concurrency
begin

text \<open>
  The limits as the handlers use them: \<open>service/concurrency_service.go\<close>. Names of requests, slots with the
  function that gives them back, waiting counts that let a request through when Redis fails, the short
  cache of account loads of a process and the upkeep of an ingress lease. The cache of the service is
  present; the goroutines and tickers around the functions are left out, and so are the timeouts of the
  calls, whose expiry is a lost call.
\<close>

section \<open>Names of requests\<close>

definition digit36 :: "int \<Rightarrow> char" where
  "digit36 d = (if d < 10 then char_of (48 + d) else char_of (87 + d))"

function FormatUint36 :: "int \<Rightarrow> string" where
  "FormatUint36 n = (if n < 36 then [digit36 n] else FormatUint36 (n div 36) @ [digit36 (n mod 36)])"
  by pat_completeness auto
termination
  by (relation "measure nat") auto

declare FormatUint36.simps [simp del]

definition initRequestIDPrefix :: "int \<Rightarrow> string" where
  "initRequestIDPrefix random = CHR ''r'' # FormatUint36 random"

text \<open>The counter is an atomic \<open>uint64\<close>.\<close>

definition generateRequestID :: "string \<Rightarrow> int \<Rightarrow> string \<times> int" where
  "generateRequestID requestIDPrefix counter =
     (let seq = (counter + 1) mod 2 ^ 64 in (requestIDPrefix @ ''-'' @ FormatUint36 seq, seq))"

section \<open>Slots\<close>

text \<open>
  The result of an acquisition: a grant without a slot because there is no limit, a slot with the name
  to give it back under, or none.
\<close>

datatype acquire_result = Unlimited | Granted string | Refused

record process =
  request_prefix :: string
  request_counter :: int

text \<open>The state of a process and of the Redis it calls.\<close>

type_synonym 'a service_op = "process \<times> redis_store world \<Rightarrow> (go_error + 'a) \<times> process \<times> redis_store world"

definition fresh_request :: "process \<Rightarrow> string \<times> process" where
  "fresh_request p =
     (case generateRequestID (request_prefix p) (request_counter p) of (rid, n) \<Rightarrow> (rid, p\<lparr>request_counter := n\<rparr>))"

definition acquire_slot :: "(string \<Rightarrow> bool cache_op) \<Rightarrow> int \<Rightarrow> acquire_result service_op" where
  "acquire_slot acquire maxConcurrency s =
     (case s of (p, w) \<Rightarrow>
        if maxConcurrency \<le> 0 then (Inr Unlimited, p, w)
        else
          (case fresh_request p of (requestID, p1) \<Rightarrow>
             case acquire requestID w of
               (Inl e, w1) \<Rightarrow> (Inl e, p1, w1)
             | (Inr acquired, w1) \<Rightarrow> (Inr (if acquired then Granted requestID else Refused), p1, w1)))"

definition service_AcquireAccountSlot :: "concurrency_cache \<Rightarrow> int \<Rightarrow> int \<Rightarrow> acquire_result service_op" where
  "service_AcquireAccountSlot c accountID maxConcurrency =
     acquire_slot (AcquireAccountSlot c accountID maxConcurrency) maxConcurrency"

definition service_AcquireUserSlot :: "concurrency_cache \<Rightarrow> int \<Rightarrow> int \<Rightarrow> acquire_result service_op" where
  "service_AcquireUserSlot c userID maxConcurrency =
     acquire_slot (AcquireUserSlot c userID maxConcurrency) maxConcurrency"

text \<open>The function that gives a slot back; a failure is only logged.\<close>

definition ReleaseFunc :: "(string \<Rightarrow> unit cache_op) \<Rightarrow> acquire_result \<Rightarrow> redis_store world \<Rightarrow> redis_store world" where
  "ReleaseFunc release a w = (case a of Granted requestID \<Rightarrow> snd (release requestID w) | _ \<Rightarrow> w)"

text \<open>The slots of API keys are counted only: a failure grants the request without a slot.\<close>

definition service_TrackAPIKeySlot ::
    "concurrency_cache \<Rightarrow> int \<Rightarrow> process \<times> redis_store world \<Rightarrow> acquire_result \<times> process \<times> redis_store world" where
  "service_TrackAPIKeySlot c apiKeyID s =
     (case s of (p, w) \<Rightarrow>
        if apiKeyID \<le> 0 then (Unlimited, p, w)
        else
          (case fresh_request p of (requestID, p1) \<Rightarrow>
             case TrackAPIKeySlot c apiKeyID requestID w of
               (Inl _, w1) \<Rightarrow> (Unlimited, p1, w1)
             | (Inr _, w1) \<Rightarrow> (Granted requestID, p1, w1)))"

definition zeroAPIKeyConcurrencyMap :: "int list \<Rightarrow> (int \<rightharpoonup> int)" where
  "zeroAPIKeyConcurrencyMap apiKeyIDs = (\<lambda>i. if i \<in> set apiKeyIDs then Some 0 else None)"

definition service_GetAPIKeyConcurrencyBatch ::
    "concurrency_cache \<Rightarrow> int list \<Rightarrow> redis_store world \<Rightarrow> (int \<rightharpoonup> int) \<times> redis_store world" where
  "service_GetAPIKeyConcurrencyBatch c apiKeyIDs w =
     (if apiKeyIDs = [] then (zeroAPIKeyConcurrencyMap apiKeyIDs, w)
      else
        (case GetAPIKeyConcurrencyBatch c apiKeyIDs w of
           (Inl _, w1) \<Rightarrow> (zeroAPIKeyConcurrencyMap apiKeyIDs, w1)
         | (Inr counts, w1) \<Rightarrow>
             (\<lambda>i. if i \<in> set apiKeyIDs then Some (case counts i of None \<Rightarrow> 0 | Some n \<Rightarrow> n) else None, w1)))"

definition service_CleanupStaleProcessSlots :: "concurrency_cache \<Rightarrow> unit service_op" where
  "service_CleanupStaleProcessSlots c s =
     (case s of (p, w) \<Rightarrow> case cache_CleanupStaleProcessSlots c (request_prefix p) w of (r, w1) \<Rightarrow> (r, p, w1))"

section \<open>Waiting\<close>

definition defaultExtraWaitSlots :: int where "defaultExtraWaitSlots = 20"

definition CalculateMaxWait :: "int \<Rightarrow> int" where
  "CalculateMaxWait userConcurrency = (if userConcurrency \<le> 0 then 1 else userConcurrency) + defaultExtraWaitSlots"

text \<open>A count that cannot be raised lets the request wait.\<close>

definition let_through :: "bool cache_op \<Rightarrow> redis_store world \<Rightarrow> bool \<times> redis_store world" where
  "let_through st w = (case st w of (Inl _, w1) \<Rightarrow> (True, w1) | (Inr b, w1) \<Rightarrow> (b, w1))"

definition service_IncrementWaitCount ::
    "concurrency_cache \<Rightarrow> int \<Rightarrow> int \<Rightarrow> redis_store world \<Rightarrow> bool \<times> redis_store world" where
  "service_IncrementWaitCount c userID maxWait = let_through (IncrementWaitCount c userID maxWait)"

definition service_IncrementAccountWaitCount ::
    "concurrency_cache \<Rightarrow> int \<Rightarrow> int \<Rightarrow> redis_store world \<Rightarrow> bool \<times> redis_store world" where
  "service_IncrementAccountWaitCount c accountID maxWait = let_through (IncrementAccountWaitCount c accountID maxWait)"

definition service_DecrementWaitCount :: "concurrency_cache \<Rightarrow> int \<Rightarrow> redis_store world \<Rightarrow> redis_store world" where
  "service_DecrementWaitCount c userID w = snd (DecrementWaitCount c userID w)"

definition service_DecrementAccountWaitCount :: "concurrency_cache \<Rightarrow> int \<Rightarrow> redis_store world \<Rightarrow> redis_store world" where
  "service_DecrementAccountWaitCount c accountID w = snd (DecrementAccountWaitCount c accountID w)"

section \<open>The cache of account loads\<close>

definition defaultAccountLoadBatchCacheTTL :: duration where
  "defaultAccountLoadBatchCacheTTL = 200 * Millisecond"

definition maxAccountLoadBatchCacheEntries :: nat where "maxAccountLoadBatchCacheEntries = 256"

record load_cache =
  loadCacheTTL :: duration
  loadCache :: "(string \<times> (int \<rightharpoonup> load_info) \<times> go_time) list"

definition little_endian8 :: "int \<Rightarrow> string" where
  "little_endian8 n = map (\<lambda>k. char_of (n mod 2 ^ 64 div 256 ^ k mod 256)) [0..<8]"

definition accountLoadBatchCacheKey :: "(int \<times> int) list \<Rightarrow> string" where
  "accountLoadBatchCacheKey accounts =
     itoa (int (length accounts)) @ '':'' @
     sha256_hex (concat (map (\<lambda>(i, m). little_endian8 i @ little_endian8 m) accounts))"

definition getCachedAccountLoadBatch :: "string \<Rightarrow> go_time \<Rightarrow> load_cache \<Rightarrow> (int \<rightharpoonup> load_info) option \<times> load_cache" where
  "getCachedAccountLoadBatch k now l =
     (case map_of (loadCache l) k of
        None \<Rightarrow> (None, l)
      | Some (m, expiresAt) \<Rightarrow>
          if \<not> Before now expiresAt then (None, l\<lparr>loadCache := filter (\<lambda>e. fst e \<noteq> k) (loadCache l)\<rparr>)
          else (Some m, l))"

text \<open>
  A full cache loses its expired entries and then entries in the order of the map's iteration, which is the
  order of the list here: which entries go is up to the runtime.
\<close>

definition storeCachedAccountLoadBatch ::
    "string \<Rightarrow> (int \<rightharpoonup> load_info) \<Rightarrow> go_time \<Rightarrow> go_time \<Rightarrow> load_cache \<Rightarrow> load_cache" where
  "storeCachedAccountLoadBatch k m expiresAt now l =
     (let es = loadCache l;
          es1 = (if maxAccountLoadBatchCacheEntries \<le> length es
                 then (let live = filter (\<lambda>(_, _, x). Before now x) es
                       in drop (Suc (length live) - maxAccountLoadBatchCacheEntries) live)
                 else es)
      in l\<lparr>loadCache := (k, m, expiresAt) # filter (\<lambda>e. fst e \<noteq> k) es1\<rparr>)"

definition SetAccountLoadBatchCacheTTL :: "duration \<Rightarrow> load_cache \<Rightarrow> load_cache" where
  "SetAccountLoadBatchCacheTTL ttl l =
     (let l1 = l\<lparr>loadCacheTTL := ttl\<rparr> in if ttl \<le> 0 then l1\<lparr>loadCache := []\<rparr> else l1)"

definition NewConcurrencyService :: load_cache where
  "NewConcurrencyService = SetAccountLoadBatchCacheTTL defaultAccountLoadBatchCacheTTL \<lparr>loadCacheTTL = 0, loadCache = []\<rparr>"

text \<open>
  The reads of the wall clock before and inside the flight are \<open>now1\<close> and \<open>now2\<close>, the one when a full
  cache is emptied is \<open>now3\<close>. Calls of the same accounts share one flight; the one that runs it is modelled.
\<close>

definition getAccountsLoadBatch ::
    "concurrency_cache \<Rightarrow> (int \<times> int) list \<Rightarrow> bool \<Rightarrow> go_time \<Rightarrow> go_time \<Rightarrow> go_time \<Rightarrow> load_cache \<Rightarrow> redis_store world
      \<Rightarrow> (go_error + (int \<rightharpoonup> load_info)) \<times> load_cache \<times> redis_store world" where
  "getAccountsLoadBatch c accounts allowCache now1 now2 now3 l w =
     (if accounts = [] then (Inr Map.empty, l, w)
      else if \<not> allowCache \<or> loadCacheTTL l \<le> 0
      then (case GetAccountsLoadBatch c accounts w of (r, w1) \<Rightarrow> (r, l, w1))
      else
        (let k = accountLoadBatchCacheKey accounts in
         case getCachedAccountLoadBatch k now1 l of
           (Some m, l1) \<Rightarrow> (Inr m, l1, w)
         | (None, l1) \<Rightarrow>
             (case getCachedAccountLoadBatch k now2 l1 of
                (Some m, l2) \<Rightarrow> (Inr m, l2, w)
              | (None, l2) \<Rightarrow>
                  (case GetAccountsLoadBatch c accounts w of
                     (Inl e, w1) \<Rightarrow> (Inl e, l2, w1)
                   | (Inr m, w1) \<Rightarrow> (Inr m, storeCachedAccountLoadBatch k m (now2 + loadCacheTTL l2) now3 l2, w1)))))"

section \<open>Ingress leases\<close>

definition openAIWSIngressLeaseTTL :: duration where "openAIWSIngressLeaseTTL = 60 * Second"

datatype ingress_result = NoLease | Lease string | NoCapacity

text \<open>
  A connection without a limit needs no lease. \<open>supported\<close> says that the cache is there and has leases.
\<close>

definition service_AcquireOpenAIWSIngressLease :: "go_error \<Rightarrow> bool \<Rightarrow> int \<Rightarrow> int \<Rightarrow> ingress_result service_op" where
  "service_AcquireOpenAIWSIngressLease unavailable supported apiKeyID maxConnections s =
     (case s of (p, w) \<Rightarrow>
        if maxConnections \<le> 0 then (Inr NoLease, p, w)
        else if apiKeyID \<le> 0 \<or> \<not> supported then (Inl unavailable, p, w)
        else
          (case fresh_request p of (leaseID, p1) \<Rightarrow>
             case AcquireOpenAIWSIngressLease apiKeyID maxConnections leaseID w of
               (Inl e, w1) \<Rightarrow> (Inl e, p1, w1)
             | (Inr acquired, w1) \<Rightarrow> (Inr (if acquired then Lease leaseID else NoCapacity), p1, w1)))"

text \<open>
  One refresh: the last confirmation after it and whether the lease is lost. A missing member is lost at
  once, an error only when there was no confirmation for the life of the lease.
\<close>

definition lease_refresh ::
    "int \<Rightarrow> string \<Rightarrow> go_time \<Rightarrow> go_time \<Rightarrow> redis_store world \<Rightarrow> (go_time \<times> bool) \<times> redis_store world" where
  "lease_refresh apiKeyID leaseID lastConfirmedAt now w =
     (case RefreshOpenAIWSIngressLease apiKeyID leaseID w of
        (Inr True, w1) \<Rightarrow> ((now, False), w1)
      | (Inr False, w1) \<Rightarrow> ((lastConfirmedAt, True), w1)
      | (Inl _, w1) \<Rightarrow> ((lastConfirmedAt, openAIWSIngressLeaseTTL \<le> time_Sub now lastConfirmedAt), w1))"

text \<open>The loop over the ticks until the lease is lost: when it was, and the state then.\<close>

fun lease_loop ::
    "int \<Rightarrow> string \<Rightarrow> go_time \<Rightarrow> go_time list \<Rightarrow> redis_store world \<Rightarrow> go_time option \<times> redis_store world" where
  "lease_loop apiKeyID leaseID lastConfirmedAt [] w = (None, w)"
| "lease_loop apiKeyID leaseID lastConfirmedAt (now # ticks) w =
     (case lease_refresh apiKeyID leaseID lastConfirmedAt now w of
        ((_, True), w1) \<Rightarrow> (Some now, w1)
      | ((confirmed, False), w1) \<Rightarrow> lease_loop apiKeyID leaseID confirmed ticks w1)"

end
