(* ===== verification/Concurrency_Facts.thy ===== *)
theory Concurrency_Facts
  imports Concurrency Statement_Effects
begin

text \<open>
  The limit on concurrent requests holds: whatever instances call whatever operations of the cache, and
  whatever calls are lost, no more requests than the limit hold a slot of an account or a user at a time.
  The exception is the start of an instance, which takes the slots of the others away.
\<close>

section \<open>Keys are apart\<close>

lemma digits_value_digits: "digits_value s a = Some v \<Longrightarrow> \<forall>c \<in> set s. digit_value c \<noteq> None"
  by (induction s arbitrary: a) (auto split: option.splits)

lemma digits10_digits: "0 \<le> i \<Longrightarrow> c \<in> set (digits10 i) \<Longrightarrow> digit_value c \<noteq> None"
  using digits_value_digits digits_read_back(1) by blast

lemma itoa_chars: "c \<in> set (itoa i) \<Longrightarrow> c = CHR ''-'' \<or> digit_value c \<noteq> None"
  using digits10_digits [of i c] digits10_digits [of "- i" c] by (cases "i < 0") (simp_all add: itoa_def, blast)

lemma digits10_inj: "0 \<le> i \<Longrightarrow> 0 \<le> j \<Longrightarrow> digits10 i = digits10 j \<Longrightarrow> i = j"
  by (metis digits_read_back(1) add_left_cancel option.inject)

lemma digits10_no_sign: "0 \<le> i \<Longrightarrow> digits10 i \<noteq> CHR ''-'' # s"
  using digits_read_back(2) [of i] by (metis list.set_intros(1))

lemma itoa_inj [simp]: "itoa i = itoa j \<longleftrightarrow> i = j"
proof
  assume e: "itoa i = itoa j"
  consider "i < 0" "j < 0" | "i < 0" "0 \<le> j" | "0 \<le> i" "j < 0" | "0 \<le> i" "0 \<le> j" by linarith
  then show "i = j"
  proof cases
    case 1
    with e digits10_inj [of "- i" "- j"] show ?thesis by (simp add: itoa_def)
  next
    case 2
    with e digits10_no_sign [of j "digits10 (- i)"] show ?thesis by (simp add: itoa_def)
  next
    case 3
    with e digits10_no_sign [of i "digits10 (- j)"] show ?thesis by (simp add: itoa_def)
  next
    case 4
    with e digits10_inj [of i j] show ?thesis by (simp add: itoa_def)
  qed
qed simp

lemma itoa_no_index [simp]: "itoa i \<noteq> CHR ''a'' # s" "CHR ''a'' # s \<noteq> itoa i"
proof -
  have "CHR ''a'' \<notin> set (itoa i)" using itoa_chars [of "CHR ''a''" i] by (auto simp: digit_value_def)
  then show "itoa i \<noteq> CHR ''a'' # s" "CHR ''a'' # s \<noteq> itoa i"
    by (metis list.set_intros(1))+
qed

lemmas key_defs = accountSlotKey_def userSlotKey_def apiKeySlotKey_def liveAccountSlotKey_def liveUserSlotKey_def
  liveAPIKeySlotKey_def openAIWSIngressLeaseKey_def waitQueueKey_def accountWaitKey_def
  accountSlotKeyPrefix_def userSlotKeyPrefix_def apiKeySlotKeyPrefix_def liveAccountSlotKeyPrefix_def
  liveUserSlotKeyPrefix_def liveAPIKeySlotKeyPrefix_def openAIWSIngressLeaseKeyPrefix_def waitQueueKeyPrefix_def
  accountWaitKeyPrefix_def accountActiveIndexKey_def userActiveIndexKey_def

text \<open>The keys of the slots and leases, and how long their members count.\<close>

datatype slot_owner = Account int | User int

fun regular_of :: "slot_owner \<Rightarrow> string" where
  "regular_of (Account i) = accountSlotKey i"
| "regular_of (User i) = userSlotKey i"

fun live_of :: "slot_owner \<Rightarrow> string" where
  "live_of (Account i) = liveAccountSlotKey i"
| "live_of (User i) = liveUserSlotKey i"

lemma owner_keys_apart [simp]:
  "regular_of s = regular_of t \<longleftrightarrow> s = t" "live_of s = live_of t \<longleftrightarrow> s = t" "regular_of s \<noteq> live_of t" "live_of s \<noteq> regular_of t"
  by (cases s; cases t; simp add: key_defs)+

definition unslotted :: "string \<Rightarrow> bool" where
  "unslotted k \<longleftrightarrow> (\<forall>s. k \<noteq> regular_of s \<and> k \<noteq> live_of s)"

lemma unslotted_keys [simp]:
  "unslotted accountActiveIndexKey" "unslotted userActiveIndexKey" "unslotted (apiKeySlotKey i)"
  "unslotted (liveAPIKeySlotKey i)" "unslotted (openAIWSIngressLeaseKey i)" "unslotted (waitQueueKey i)"
  "unslotted (accountWaitKey i)"
  unfolding unslotted_def by (intro allI; case_tac s; simp add: key_defs)+

lemma prefixes_unslotted [simp]:
  "\<not> HasPrefix (regular_of s) accountWaitKeyPrefix" "\<not> HasPrefix (regular_of s) waitQueueKeyPrefix"
  "\<not> HasPrefix (live_of s) accountWaitKeyPrefix" "\<not> HasPrefix (live_of s) waitQueueKeyPrefix"
  by (cases s; simp add: key_defs HasPrefix_def)+

section \<open>Upkeep\<close>

text \<open>
  What the operations other than admissions and releases may do to the slots: remove members that no
  longer count, and keep the keys alive.
\<close>

definition counted :: "concurrency_cache \<Rightarrow> string \<Rightarrow> int \<Rightarrow> bool" where
  "counted c k ttl \<longleftrightarrow>
     (\<exists>s. k = regular_of s \<and> ttl = slotTTLSeconds c \<or> k = live_of s \<and> ttl = liveLeaseTTLSeconds)"

definition tended :: "concurrency_cache \<Rightarrow> redis_store \<Rightarrow> redis_store \<Rightarrow> bool" where
  "tended c r r' \<longleftrightarrow> redis_ms r' = redis_ms r \<and>
     (\<forall>k ttl. counted c k ttl \<longrightarrow>
        set (zset r' k) \<subseteq> set (zset r k) \<and>
        (\<forall>e \<in> set (zset r k). redis_TIME r - ttl < snd e \<longrightarrow> e \<in> set (zset r' k)) \<and>
        (zset r' k = [] \<or> zset_expiry r' k = zset_expiry r k \<or> zset_expiry r' k = Some (redis_ms r + ttl * 1000)))"

lemma counted_of [simp]:
  "counted c (regular_of s) ttl \<longleftrightarrow> ttl = slotTTLSeconds c"
  "counted c (live_of s) ttl \<longleftrightarrow> ttl = liveLeaseTTLSeconds"
  by (auto simp: counted_def)

lemma counted_same: "counted c k t \<Longrightarrow> counted c k u \<Longrightarrow> t = u"
  by (auto simp: counted_def)

lemma counted_slotted: "counted c k ttl \<Longrightarrow> \<not> unslotted k"
  by (auto simp: counted_def unslotted_def)

lemma redis_TIME_commands [simp]:
  "redis_TIME (zadd k s m r) = redis_TIME r" "redis_TIME (zrem k m r) = redis_TIME r"
  "redis_TIME (zremrange k s r) = redis_TIME r" "redis_TIME (expire_zset k n r) = redis_TIME r"
  "redis_TIME (redis_SET k n r) = redis_TIME r" "redis_TIME (redis_INCRBY k n r) = redis_TIME r"
  "redis_TIME (expire_number k n r) = redis_TIME r" "redis_TIME (redis_DEL k r) = redis_TIME r"
  by (simp_all add: redis_TIME_def)

lemma redis_TIME_cong: "redis_ms r' = redis_ms r \<Longrightarrow> redis_TIME r' = redis_TIME r"
  by (simp add: redis_TIME_def)

lemma tended_refl: "tended c r r"
  by (simp add: tended_def)

lemma tended_trans:
  assumes "tended c r r1" and "tended c r1 r2"
  shows "tended c r r2"
proof -
  have ms: "redis_ms r1 = redis_ms r" "redis_ms r2 = redis_ms r" and t: "redis_TIME r1 = redis_TIME r"
    using assms by (auto simp: tended_def redis_TIME_def)
  show ?thesis
    unfolding tended_def ms
  proof (intro conjI allI impI refl)
    fix k ttl assume k: "counted c k ttl"
    note 1 = assms(1) [unfolded tended_def, THEN conjunct2, rule_format, OF k]
    note 2 = assms(2) [unfolded tended_def, THEN conjunct2, rule_format, OF k, unfolded t ms]
    show "set (zset r2 k) \<subseteq> set (zset r k)" using 1 2 by blast
    show "\<forall>e \<in> set (zset r k). redis_TIME r - ttl < snd e \<longrightarrow> e \<in> set (zset r2 k)" using 1 2 by blast
    show "zset r2 k = [] \<or> zset_expiry r2 k = zset_expiry r k \<or> zset_expiry r2 k = Some (redis_ms r + ttl * 1000)"
      using 1 2 by (metis empty_set subset_empty set_empty)
  qed
qed

interpretation tending: effects "tended c" for c
  by unfold_locales (auto intro: tended_refl tended_trans)

lemma tended_other_keys:
  assumes "redis_ms r' = redis_ms r" and "\<And>k. \<not> unslotted k \<Longrightarrow> zset r' k = zset r k \<and> zset_expiry r' k = zset_expiry r k"
  shows "tended c r r'"
  using assms counted_slotted [of c] unfolding tended_def by fastforce

lemma tended_unslotted [simp]:
  assumes "unslotted k"
  shows "tended c r (zadd k s m r)" "tended c r (zrem k m r)" "tended c r (zremrange k s r)" "tended c r (redis_DEL k r)"
    "0 < n \<Longrightarrow> tended c r (expire_zset k n r)"
  using assms by (auto intro!: tended_other_keys zset_expiry_expire(2))

lemma tended_numbers [simp]:
  "tended c r (redis_SET k n r)" "tended c r (redis_INCRBY k n r)" "tended c r (expire_number k n r)"
  by (auto intro!: tended_other_keys)

lemma not_unslotted: "\<not> unslotted k \<longleftrightarrow> (\<exists>s. k = regular_of s \<or> k = live_of s)"
  by (auto simp: unslotted_def)

lemma tended_sweep [simp]:
  "tended c r (delete_prefix accountWaitKeyPrefix r)" "tended c r (delete_prefix waitQueueKeyPrefix r)"
  by (rule tended_other_keys; auto simp: not_unslotted)+

definition old_enough :: "concurrency_cache \<Rightarrow> string \<Rightarrow> int \<Rightarrow> int \<Rightarrow> bool" where
  "old_enough c k bound now \<longleftrightarrow> (\<forall>ttl. counted c k ttl \<longrightarrow> bound \<le> now - ttl)"

lemma tended_purge [simp]: "old_enough c k bound (redis_TIME r) \<Longrightarrow> tended c r (zremrange k bound r)"
  by (auto simp: tended_def old_enough_def)

lemma tended_expire:
  assumes "counted c k ttl" and "0 < ttl"
  shows "tended c r (expire_zset k ttl r)"
proof -
  have e: "zset_expiry (expire_zset k ttl r) j =
      (if j = k \<and> zset r k \<noteq> [] then Some (redis_ms r + ttl * 1000) else zset_expiry (expire_zset k ttl r) j)" for j
    using zset_expiry_expire(1) [OF assms(2)] by simp
  have "zset r j = [] \<or> zset_expiry (expire_zset k ttl r) j = zset_expiry r j
      \<or> zset_expiry (expire_zset k ttl r) j = Some (redis_ms r + u * 1000)" if "counted c j u" for j u
  proof (cases "j = k")
    case True
    with that counted_same [OF assms(1)] have "u = ttl" by blast
    with True e [of j] show ?thesis by (cases "zset r k = []") auto
  next
    case False
    then show ?thesis using zset_expiry_expire(2) [OF assms(2)] by blast
  qed
  then show ?thesis using zset_expire [OF assms(2)] by (simp add: tended_def)
qed

lemma tended_DEL_empty: "zset r k = [] \<Longrightarrow> tended c r (redis_DEL k r)"
  by (auto simp: tended_def)

lemma tended_TIME: "tended c r r' \<Longrightarrow> redis_TIME r' = redis_TIME r"
  by (simp add: tended_def redis_TIME_def)

lemma old_enough_slot [simp]: "old_enough c (regular_of s) (now - slotTTLSeconds c) now"
  by (simp add: old_enough_def)

lemma old_enough_live [simp]: "old_enough c (live_of s) (now - liveLeaseTTLSeconds) now"
  by (simp add: old_enough_def)

lemma old_enough_unslotted [simp]: "unslotted k \<Longrightarrow> old_enough c k bound now"
  using counted_slotted by (auto simp: old_enough_def)

text \<open>A call, its effect and its answer.\<close>

lemma redis_call_cases:
  assumes "redis_call st w = (res, w')"
  obtains (answered) x where "res = Inr x" "st (db w) = (x, db w')"
  | (lost) e where "res = Inl e" "db w' = db w \<or> db w' = snd (st (db w))"
  using assms db_call_db [of st w]
  by (auto simp: redis_call_def db_exec_def db_call_def Let_def split: prod.splits list.splits fault.splits)

lemma call_tended:
  assumes "redis_call st w = (res, w')" and "tended c (db w) (snd (st (db w)))"
  shows "tended c (db w) (db w')"
  using assms by (auto elim!: redis_call_cases simp: tended_refl)

lemma call_tended_snd: "tended c (db w) (snd (st (db w))) \<Longrightarrow> tended c (db w) (db (snd (redis_call st w)))"
  by (rule call_tended [of st w "fst (redis_call st w)"]) simp_all

lemma redisUnixSeconds_reads:
  assumes "redisUnixSeconds w = (res, w')"
  shows "db w' = db w" and "res = Inr now \<Longrightarrow> now = redis_TIME (db w)"
  using assms unfolding redisUnixSeconds_def by (auto elim!: redis_call_cases)

lemma touch_tended: "unslotted ik \<Longrightarrow> tended c (db w) (db (touchActiveIndexAt ik i e w))"
  by (simp add: touchActiveIndexAt_def tended_refl call_tended_snd)

lemma read_load_tended: "old_enough c sk bound (redis_TIME r) \<Longrightarrow> tended c r (snd (read_load bound i sk wk r))"
  by (simp add: read_load_def Let_def)

lemma refreshActiveIndex_tended:
  assumes "unslotted ik" and "\<And>now. old_enough c sk (now - slotTTLSeconds c) now"
  shows "tended c (db w) (db (refreshActiveIndex c ik i sk wk w))"
proof -
  obtain x w1 where 1: "redisUnixSeconds w = (x, w1)" by (cases "redisUnixSeconds w")
  note r = redisUnixSeconds_reads [OF 1]
  show ?thesis
  proof (cases x)
    case (Inl e)
    then show ?thesis by (simp add: refreshActiveIndex_def 1 r tended_refl)
  next
    case (Inr now)
    obtain y w2 where 2: "readActiveLoadForKey c i sk wk now w1 = (y, w2)" by (cases "readActiveLoadForKey c i sk wk now w1")
    have t: "tended c (db w) (db w2)"
      using call_tended [OF 2 [unfolded readActiveLoadForKey_def]] assms(2) r(2) [OF Inr] by (simp add: read_load_tended r(1))
    have "tended c (db w2) (db (snd (redis_call (\<lambda>r. ((), zrem ik (itoa i) r)) w2)))"
      using assms(1) by (simp add: call_tended_snd)
    with t show ?thesis
      using touch_tended [OF assms(1)] tended_trans [of c] r(1)
      by (auto simp: refreshActiveIndex_def 1 Inr 2 Let_def tended_refl split: sum.split)
  qed
qed

lemma refresh_indexes_tended [simp]:
  "tended c (db w) (db (refreshAccountActiveIndex c i w))" "tended c (db w) (db (refreshUserActiveIndex c i w))"
  using old_enough_slot [of c "Account i"] old_enough_slot [of c "User i"]
  by (simp_all add: refreshAccountActiveIndex_def refreshUserActiveIndex_def refreshActiveIndex_tended)

text \<open>The operations that only read, count, wait, track and clean.\<close>

lemma purge_both:
  assumes "old_enough c k b (redis_TIME r)" and "old_enough c k' b' (redis_TIME r)"
  shows "tended c r (zremrange k' b' (zremrange k b r))"
  by (rule tended_trans [OF tended_purge [OF assms(1)] tended_purge]) (simp add: assms(2))

lemma count_slots_tended:
  assumes "\<And>i. old_enough c (sk i) bound (redis_TIME r)" and "\<And>i. old_enough c (lk i) bound' (redis_TIME r)"
  shows "tended c r (snd (count_slots sk lk bound bound' is r))"
  using assms
proof (induction "is" arbitrary: r)
  case (Cons i "is")
  let ?r1 = "zremrange (lk i) bound' (zremrange (sk i) bound r)"
  have "tended c ?r1 (snd (count_slots sk lk bound bound' is ?r1))"
    by (rule Cons.IH) (simp_all add: Cons.prems)
  from tended_trans [OF purge_both [OF Cons.prems] this] show ?case
    by (simp add: Let_def case_prod_unfold del: zset_commands)
qed (simp add: tended_refl)

lemma read_loads_tended:
  assumes "\<And>i. old_enough c (sk i) bound (redis_TIME r)" and "\<And>i. old_enough c (lk i) bound' (redis_TIME r)"
  shows "tended c r (snd (read_loads sk lk wk bound bound' os r))"
  using assms
proof (induction os arbitrary: r)
  case (Cons o' os)
  obtain i m where o: "o' = (i, m)" by (cases o')
  let ?r1 = "zremrange (lk i) bound' (zremrange (sk i) bound r)"
  have "tended c ?r1 (snd (read_loads sk lk wk bound bound' os ?r1))"
    by (rule Cons.IH) (simp_all add: Cons.prems)
  from tended_trans [OF purge_both [OF Cons.prems] this] show ?case
    by (simp add: o Let_def case_prod_unfold del: zset_commands)
qed (simp add: tended_refl)

lemma count_batch_tended:
  assumes "\<And>i now. old_enough c (sk i) (now - slotTTLSeconds c) now"
    and "\<And>i now. old_enough c (lk i) (now - liveLeaseTTLSeconds) now"
  shows "tended c (db w) (db (snd (count_batch c sk lk is w)))"
proof -
  obtain x w1 where 1: "redisUnixSeconds w = (x, w1)" by (cases "redisUnixSeconds w")
  note r = redisUnixSeconds_reads [OF 1]
  have "tended c (db w1) (db (snd (redis_call (count_slots sk lk (now - slotTTLSeconds c) (now - liveLeaseTTLSeconds) is) w1)))"
    if "x = Inr now" for now
    by (rule call_tended_snd, rule count_slots_tended) (simp_all add: r(2) [OF that] r(1) assms)
  then show ?thesis by (auto simp: count_batch_def 1 r(1) tended_refl split: sum.split)
qed

lemma load_batch_tended:
  assumes "\<And>i now. old_enough c (sk i) (now - slotTTLSeconds c) now"
    and "\<And>i now. old_enough c (lk i) (now - liveLeaseTTLSeconds) now"
  shows "tended c (db w) (db (snd (load_batch c sk lk wk os w)))"
proof -
  obtain x w1 where 1: "redisUnixSeconds w = (x, w1)" by (cases "redisUnixSeconds w")
  note r = redisUnixSeconds_reads [OF 1]
  have "tended c (db w1) (db (snd (redis_call (read_loads sk lk wk (now - slotTTLSeconds c) (now - liveLeaseTTLSeconds) os) w1)))"
    if "x = Inr now" for now
    by (rule call_tended_snd, rule read_loads_tended) (simp_all add: r(2) [OF that] r(1) assms)
  then show ?thesis by (auto simp: load_batch_def 1 r(1) tended_refl case_prod_unfold split: sum.split)
qed

lemma owner_functions: "accountSlotKey i = regular_of (Account i)" "userSlotKey i = regular_of (User i)"
  "liveAccountSlotKey i = live_of (Account i)" "liveUserSlotKey i = live_of (User i)"
  by simp_all

lemma counts_tended [simp]:
  "tended c (db w) (db (snd (GetAccountConcurrencyBatch c is w)))"
  "tended c (db w) (db (snd (GetAPIKeyConcurrencyBatch c is w)))"
  "tended c (db w) (db (snd (GetAccountsLoadBatch c os w)))"
  "tended c (db w) (db (snd (GetUsersLoadBatch c os w)))"
  unfolding GetAccountConcurrencyBatch_def GetAPIKeyConcurrencyBatch_def GetAccountsLoadBatch_def GetUsersLoadBatch_def
    owner_functions
  by (rule count_batch_tended load_batch_tended; simp add: owner_functions del: regular_of.simps live_of.simps)+

lemma getCount_tended:
  "counted c k ttl \<Longrightarrow> counted c k' 60 \<Longrightarrow> tended c r (snd (getCountScript k k' ttl r))"
  unfolding getCountScript_def Let_def snd_conv
  by (rule purge_both) (auto simp: old_enough_def dest: counted_same)

lemma get_tended [simp]:
  "tended c (db w) (db (snd (GetAccountConcurrency c i w)))" "tended c (db w) (db (snd (GetUserConcurrency c i w)))"
  unfolding GetAccountConcurrency_def GetUserConcurrency_def owner_functions
  by (rule call_tended_snd, rule getCount_tended; simp add: liveLeaseTTLSeconds_def del: regular_of.simps live_of.simps)+

lemma wait_scripts_tended [simp]:
  "tended c r (snd (incrementWaitScript k m ttl r))" "tended c r (snd (incrementAccountWaitScript k m ttl r))"
  "tended c r (snd (decrementWaitScript k r))"
  by (auto simp: incrementWaitScript_def incrementAccountWaitScript_def decrementWaitScript_def Let_def tended_refl
      intro: tended_trans [OF tended_numbers(2) tended_numbers(3)] split: option.split)

text \<open>An operation that is one tended call and tends the rest.\<close>

lemma after_call:
  assumes "\<And>r. tended c r (snd (st r))" and "\<And>x v. tended c (db v) (db (snd (f x v)))"
  shows "tended c (db w) (db (snd (case redis_call st w of (Inl e, w1) \<Rightarrow> (Inl e, w1) | (Inr x, w1) \<Rightarrow> f x w1)))"
proof -
  obtain x w1 where 1: "redis_call st w = (x, w1)" by (cases "redis_call st w")
  have "tended c (db w) (db w1)" using call_tended [OF 1] assms(1) by blast
  then show ?thesis using assms(2) tended_trans [of c] by (auto simp: 1 split: sum.split)
qed

lemma wait_tended [simp]:
  "tended c (db w) (db (snd (IncrementWaitCount c i m w)))" "tended c (db w) (db (snd (DecrementWaitCount c i w)))"
  "tended c (db w) (db (snd (IncrementAccountWaitCount c i m w)))" "tended c (db w) (db (snd (DecrementAccountWaitCount c i w)))"
  "tended c (db w) (db (snd (GetAccountWaitingCount i w)))"
  unfolding IncrementWaitCount_def IncrementAccountWaitCount_def DecrementWaitCount_def DecrementAccountWaitCount_def
    GetAccountWaitingCount_def
  by (rule after_call call_tended_snd; auto simp: touch_tended tended_refl split: prod.split)+

lemma renew_unslotted:
  assumes "unslotted k" and "0 < ttl"
  shows "tended c r (expire_zset k ttl (zadd k s m (zremrange k b r)))"
  using assms
  by (intro tended_trans [OF tended_trans [OF tended_unslotted(3) tended_unslotted(1)] tended_unslotted(5)]) simp_all

lemma track_tended [simp]:
  "0 < slotTTLSeconds c \<Longrightarrow> tended c (db w) (db (snd (TrackAPIKeySlot c i rid w)))"
  "tended c (db w) (db (snd (ReleaseAPIKeySlot i rid w)))"
  unfolding TrackAPIKeySlot_def ReleaseAPIKeySlot_def trackSlotScript_def Let_def
  by (rule call_tended_snd; simp add: renew_unslotted)+

lemma ingress_scripts_tended:
  "unslotted k \<Longrightarrow> 0 < ttl \<Longrightarrow> tended c r (snd (acquireOpenAIWSIngressLeaseScript k m ttl l r))"
  "unslotted k \<Longrightarrow> 0 < ttl \<Longrightarrow> tended c r (snd (refreshOpenAIWSIngressLeaseScript k ttl l r))"
  by (simp_all add: acquireOpenAIWSIngressLeaseScript_def refreshOpenAIWSIngressLeaseScript_def Let_def renew_unslotted)

lemma ingress_tended [simp]:
  "tended c (db w) (db (snd (AcquireOpenAIWSIngressLease i m l w)))"
  "tended c (db w) (db (snd (RefreshOpenAIWSIngressLease i l w)))"
  "tended c (db w) (db (snd (ReleaseOpenAIWSIngressLease i l w)))"
  unfolding AcquireOpenAIWSIngressLease_def RefreshOpenAIWSIngressLease_def ReleaseOpenAIWSIngressLease_def
  by (auto intro!: after_call call_tended_snd ingress_scripts_tended simp: openAIWSIngressLeaseTTLSeconds_def tended_refl)

lemma cleanup_script_tended:
  assumes "counted c k ttl" and "0 < ttl"
  shows "tended c r (snd (cleanupExpiredSlotsScript k ttl r))"
proof -
  let ?r1 = "zremrange k (redis_TIME r - ttl) r"
  have 1: "tended c r ?r1" using counted_same [OF assms(1)] by (intro tended_purge) (auto simp: old_enough_def)
  have "tended c ?r1 (redis_DEL k ?r1)" if "ZCARD (zset ?r1 k) = 0" using that by (intro tended_DEL_empty) (simp add: ZCARD_def)
  with 1 show ?thesis
    using tended_trans [OF 1 tended_expire [OF assms]] tended_trans [OF 1]
    by (simp add: cleanupExpiredSlotsScript_def Let_def del: zset_commands)
qed

lemma cleanup_tended [simp]:
  "0 < slotTTLSeconds c \<Longrightarrow> tended c (db w) (db (snd (CleanupExpiredAccountSlots c i w)))"
  unfolding CleanupExpiredAccountSlots_def owner_functions
  by (rule after_call; simp add: cleanup_script_tended tended_refl del: regular_of.simps live_of.simps)

lemma read_chunk_tended:
  assumes "\<And>i. old_enough c (slotKey spec i) bound (redis_TIME r)"
  shows "tended c r (snd (read_chunk bound spec cs r))"
  using assms
proof (induction cs arbitrary: r)
  case (Cons e cs)
  obtain i m where e: "e = (i, m)" by (cases e)
  obtain l r1 where 1: "read_load bound i (slotKey spec i) (waitKey spec i) r = (l, r1)"
    by (cases "read_load bound i (slotKey spec i) (waitKey spec i) r")
  have t: "tended c r r1" using read_load_tended [of c "slotKey spec i", OF Cons.prems] 1 by (metis snd_conv)
  have "tended c r1 (snd (read_chunk bound spec cs r1))"
    by (rule Cons.IH) (simp add: Cons.prems tended_TIME [OF t])
  from tended_trans [OF t this] show ?case by (simp add: e 1 case_prod_unfold)
qed (simp add: tended_refl)

lemma read_chunks_tended:
  assumes "read_chunks bound spec cs w = (x, w')" and "\<And>i. old_enough c (slotKey spec i) bound (redis_TIME (db w))"
  shows "tended c (db w) (db w')"
  using assms
proof (induction bound spec cs w arbitrary: x w' rule: read_chunks.induct)
  case (1 bound spec cs w)
  show ?case
  proof (cases "cs = []")
    case True
    with "1.prems"(1) show ?thesis by (simp add: read_chunks.simps [of bound spec "[]"] tended_refl)
  next
    case False
    let ?st = "read_chunk bound spec (take activeIndexPipelineChunkSize cs)"
    obtain y w1 where c1: "redis_call ?st w = (y, w1)" by (cases "redis_call ?st w")
    have t: "tended c (db w) (db w1)" using call_tended [OF c1] read_chunk_tended "1.prems"(2) by blast
    show ?thesis
    proof (cases y)
      case (Inl e)
      with "1.prems"(1) c1 False t show ?thesis by (simp add: read_chunks.simps [of bound spec cs])
    next
      case (Inr ls)
      obtain z w2 where c2: "read_chunks bound spec (drop activeIndexPipelineChunkSize cs) w1 = (z, w2)"
        by (cases "read_chunks bound spec (drop activeIndexPipelineChunkSize cs) w1")
      have "tended c (db w1) (db w2)"
        using "1.IH" [OF False c1 [symmetric] Inr c2] "1.prems"(2) tended_TIME [OF t] by simp
      moreover have "w' = w2"
        using "1.prems"(1) c1 c2 False Inr by (auto simp: read_chunks.simps [of bound spec cs] split: sum.splits)
      ultimately show ?thesis using t tended_trans by blast
    qed
  qed
qed

lemma fold_tended: "(\<And>x r. tended c r (f x r)) \<Longrightarrow> tended c r (fold f xs r)"
proof (induction xs arbitrary: r)
  case (Cons x xs)
  then show ?case using tended_trans [of c r "f x r"] by simp
qed (simp add: tended_refl)

lemma index_updates_tended [simp]:
  "unslotted ik \<Longrightarrow> tended c (db w) (db (refresh_index_members ik zs w))"
  "unslotted ik \<Longrightarrow> tended c (db w) (db (removeActiveIndexMembers ik ms w))"
  by (auto simp: refresh_index_members_def removeActiveIndexMembers_def tended_refl
      intro!: call_tended_snd fold_tended split: prod.split)

lemma reconcile_tended:
  assumes "unslotted (indexKey spec)" and "\<And>i now. old_enough c (slotKey spec i) (now - slotTTLSeconds c) now"
  shows "tended c (db w) (db (snd (reconcileExpiredIndexCandidates c spec w)))"
proof -
  obtain x w1 where 1: "redisUnixSeconds w = (x, w1)" by (cases "redisUnixSeconds w")
  note r = redisUnixSeconds_reads [OF 1]
  show ?thesis
  proof (cases x)
    case (Inl e)
    then show ?thesis by (simp add: reconcileExpiredIndexCandidates_def 1 r(1) tended_refl)
  next
    case (Inr now)
    let ?range = "\<lambda>r. (ZRANGE_upto now activeIndexCleanupBatchSize (zset r (indexKey spec)), r)"
    obtain y w2 where 2: "redis_call ?range w1 = (y, w2)" by (cases "redis_call ?range w1")
    have d2: "db w2 = db w" using 2 r(1) by (auto elim: redis_call_cases)
    show ?thesis
    proof (cases y)
      case (Inl e)
      then show ?thesis by (simp add: reconcileExpiredIndexCandidates_def 1 2 \<open>x = Inr now\<close> d2 tended_refl)
    next
      case (Inr ms)
      obtain z w3 where 3: "readIndexLoads c spec ms now w2 = (z, w3)" by (cases "readIndexLoads c spec ms now w2")
      obtain cs st where cs: "index_candidates ms = (cs, st)" by (cases "index_candidates ms")
      obtain z' where z': "read_chunks (now - slotTTLSeconds c) spec cs w2 = (z', w3)"
        using 3 by (auto simp: readIndexLoads_def cs split: prod.splits sum.splits)
      have t: "tended c (db w) (db w3)"
        using read_chunks_tended [OF z'] assms(2) r(2) [OF \<open>x = Inr now\<close>] by (simp add: d2)
      have "tended c (db w3) (db (removeActiveIndexMembers (indexKey spec) ms' (refresh_index_members (indexKey spec) zs w3)))" for ms' zs
        by (rule tended_trans [OF index_updates_tended(1) index_updates_tended(2)]) (simp_all add: assms(1))
      with tended_trans [OF t] t show ?thesis
        by (auto simp: reconcileExpiredIndexCandidates_def 1 2 3 \<open>x = Inr now\<close> Inr Let_def split: sum.split)
    qed
  qed
qed

lemma cleanup_keys_tended [simp]: "tended c (db w) (db (snd (CleanupExpiredAccountSlotKeys c w)))"
proof -
  have a: "tended c (db v) (db (snd (reconcileExpiredIndexCandidates c accountSlotIndex v)))"
    and u: "tended c (db v) (db (snd (reconcileExpiredIndexCandidates c userSlotIndex v)))" for v
    by (rule reconcile_tended; simp add: accountSlotIndex_def userSlotIndex_def owner_functions
        del: regular_of.simps live_of.simps)+
  obtain x w1 where 1: "reconcileExpiredIndexCandidates c accountSlotIndex w = (x, w1)"
    by (cases "reconcileExpiredIndexCandidates c accountSlotIndex w")
  show ?thesis using a [of w] u [of w1] tended_trans [of c "db w" "db w1"]
    by (auto simp: CleanupExpiredAccountSlotKeys_def 1 split: sum.split)
qed

section \<open>Histories of one owner\<close>

text \<open>
  The operations that neither admit nor release: any instance may call them at any time. The only
  operation that is not among them is the cleaning at the start of an instance.
\<close>

inductive upkeep :: "concurrency_cache \<Rightarrow> redis_store world \<Rightarrow> redis_store world \<Rightarrow> bool" for c where
  "upkeep c w (snd (GetAccountConcurrency c i w))"
| "upkeep c w (snd (GetUserConcurrency c i w))"
| "upkeep c w (snd (GetAccountConcurrencyBatch c is w))"
| "upkeep c w (snd (GetAPIKeyConcurrencyBatch c is w))"
| "upkeep c w (snd (TrackAPIKeySlot c i rid w))"
| "upkeep c w (snd (ReleaseAPIKeySlot i rid w))"
| "upkeep c w (snd (AcquireOpenAIWSIngressLease i n l w))"
| "upkeep c w (snd (RefreshOpenAIWSIngressLease i l w))"
| "upkeep c w (snd (ReleaseOpenAIWSIngressLease i l w))"
| "upkeep c w (snd (IncrementWaitCount c i n w))"
| "upkeep c w (snd (DecrementWaitCount c i w))"
| "upkeep c w (snd (IncrementAccountWaitCount c i n w))"
| "upkeep c w (snd (DecrementAccountWaitCount c i w))"
| "upkeep c w (snd (GetAccountWaitingCount i w))"
| "upkeep c w (snd (GetAccountsLoadBatch c os w))"
| "upkeep c w (snd (GetUsersLoadBatch c os w))"
| "upkeep c w (snd (CleanupExpiredAccountSlots c i w))"
| "upkeep c w (snd (CleanupExpiredAccountSlotKeys c w))"

lemma upkeep_tended: "upkeep c w w' \<Longrightarrow> 0 < slotTTLSeconds c \<Longrightarrow> tended c (db w) (db w')"
  by (induction rule: upkeep.induct) simp_all

definition AcquireSlot :: "concurrency_cache \<Rightarrow> slot_owner \<Rightarrow> int \<Rightarrow> string \<Rightarrow> bool cache_op" where
  "AcquireSlot c s k rid = (case s of Account i \<Rightarrow> AcquireAccountSlot c i k rid | User i \<Rightarrow> AcquireUserSlot c i k rid)"

definition ReleaseSlot :: "concurrency_cache \<Rightarrow> slot_owner \<Rightarrow> string \<Rightarrow> unit cache_op" where
  "ReleaseSlot c s rid = (case s of Account i \<Rightarrow> ReleaseAccountSlot c i rid | User i \<Rightarrow> ReleaseUserSlot c i rid)"

text \<open>
  The history of an owner: the store, what the requests know, that is which were told that they have a slot
  or a lease and since when, and the requests that the leases stand for. A lease is taken with a fresh
  name by a request that has a slot, as the live sessions do.
\<close>

record slot_watch =
  sw_store :: redis_store
  admitted :: "string \<rightharpoonup> int"
  leased :: "string \<rightharpoonup> int \<times> string"
  stands_for :: "string \<Rightarrow> string"

definition has_slot :: "concurrency_cache \<Rightarrow> slot_watch \<Rightarrow> string \<Rightarrow> bool" where
  "has_slot c h rid \<longleftrightarrow> (\<exists>s. admitted h rid = Some s \<and> redis_TIME (sw_store h) - s < slotTTLSeconds c)"

definition holders :: "concurrency_cache \<Rightarrow> slot_watch \<Rightarrow> string set" where
  "holders c h = {rid. has_slot c h rid}
     \<union> {rid. \<exists>l s. leased h l = Some (s, rid) \<and> redis_TIME (sw_store h) - s < liveLeaseTTLSeconds}"

inductive watch_step :: "concurrency_cache \<Rightarrow> slot_owner \<Rightarrow> int \<Rightarrow> slot_watch \<Rightarrow> slot_watch \<Rightarrow> bool"
  for c own m where
  passing: "redis_ms (sw_store h) \<le> ms \<Longrightarrow> watch_step c own m h (h\<lparr>sw_store := (sw_store h)\<lparr>redis_ms := ms\<rparr>\<rparr>)"
| acquiring: "AcquireSlot c own k rid \<lparr>db = sw_store h, faults = fs\<rparr> = (res, w') \<Longrightarrow> k \<le> m \<Longrightarrow>
    watch_step c own m h (h\<lparr>sw_store := db w',
      admitted := (if res = Inr True then (admitted h)(rid \<mapsto> redis_TIME (sw_store h)) else admitted h)\<rparr>)"
| releasing: "ReleaseSlot c own rid \<lparr>db = sw_store h, faults = fs\<rparr> = (res, w') \<Longrightarrow>
    watch_step c own m h (h\<lparr>sw_store := db w', admitted := (admitted h)(rid := None)\<rparr>)"
| leasing: "AcquireLiveLease a amax u umax key l True \<lparr>db = sw_store h, faults = fs\<rparr> = (res, w') \<Longrightarrow>
    own = Account a \<or> own = User u \<Longrightarrow> l \<notin> members (zset (sw_store h) (live_of (Account a))) \<Longrightarrow>
    l \<notin> members (zset (sw_store h) (live_of (User u))) \<Longrightarrow> has_slot c h rid \<Longrightarrow>
    watch_step c own m h (h\<lparr>sw_store := db w', stands_for := (stands_for h)(l := rid),
      leased := (leased h)(l := (if res = Inr True then Some (redis_TIME (sw_store h), rid) else None))\<rparr>)"
| renewing: "RefreshLiveLease a u key l \<lparr>db = sw_store h, faults = fs\<rparr> = (res, w') \<Longrightarrow>
    own = Account a \<or> own = User u \<Longrightarrow> leased h l = Some (s, rid) \<Longrightarrow>
    watch_step c own m h (h\<lparr>sw_store := db w',
      leased := (if res = Inr True then (leased h)(l \<mapsto> (redis_TIME (sw_store h), rid)) else leased h)\<rparr>)"
| returning: "ReleaseLiveLease a u key l \<lparr>db = sw_store h, faults = fs\<rparr> = (res, w') \<Longrightarrow>
    own = Account a \<or> own = User u \<Longrightarrow>
    watch_step c own m h (h\<lparr>sw_store := db w', leased := (leased h)(l := None)\<rparr>)"
| tending: "upkeep c \<lparr>db = sw_store h, faults = fs\<rparr> w' \<Longrightarrow> watch_step c own m h (h\<lparr>sw_store := db w'\<rparr>)"
| others_acquire: "other \<noteq> own \<Longrightarrow>
    watch_step c own m h (h\<lparr>sw_store := db (snd (AcquireSlot c other k rid \<lparr>db = sw_store h, faults = fs\<rparr>))\<rparr>)"
| others_release: "other \<noteq> own \<Longrightarrow>
    watch_step c own m h (h\<lparr>sw_store := db (snd (ReleaseSlot c other rid \<lparr>db = sw_store h, faults = fs\<rparr>))\<rparr>)"
| others_lease: "own \<noteq> Account a \<Longrightarrow> own \<noteq> User u \<Longrightarrow>
    watch_step c own m h (h\<lparr>sw_store := db (snd (AcquireLiveLease a amax u umax key l b \<lparr>db = sw_store h, faults = fs\<rparr>))\<rparr>)"
| others_renew: "own \<noteq> Account a \<Longrightarrow> own \<noteq> User u \<Longrightarrow>
    watch_step c own m h (h\<lparr>sw_store := db (snd (RefreshLiveLease a u key l \<lparr>db = sw_store h, faults = fs\<rparr>))\<rparr>)"
| others_return: "own \<noteq> Account a \<Longrightarrow> own \<noteq> User u \<Longrightarrow>
    watch_step c own m h (h\<lparr>sw_store := db (snd (ReleaseLiveLease a u key l \<lparr>db = sw_store h, faults = fs\<rparr>))\<rparr>)"

section \<open>What keeps the holders few\<close>

text \<open>The invariant: what requests know is in the store, and the store has no more than the limit.\<close>

definition sessions :: "concurrency_cache \<Rightarrow> slot_owner \<Rightarrow> (string \<Rightarrow> string) \<Rightarrow> redis_store \<Rightarrow> string set" where
  "sessions c own st r =
     fst ` {e \<in> set (zset r (regular_of own)). redis_TIME r - slotTTLSeconds c < snd e}
     \<union> (st \<circ> fst) ` {e \<in> set (zset r (live_of own)). redis_TIME r - liveLeaseTTLSeconds < snd e}"

definition kept_alive :: "redis_store \<Rightarrow> string \<Rightarrow> int \<Rightarrow> bool" where
  "kept_alive r k ttl \<longleftrightarrow> (\<forall>e \<in> set (zset r k). snd e \<le> redis_TIME r \<and>
     (\<exists>x. zset_expiry r k = Some x \<and> (snd e + ttl) * 1000 \<le> x))"

definition slots_kept :: "concurrency_cache \<Rightarrow> slot_owner \<Rightarrow> redis_store \<Rightarrow> bool" where
  "slots_kept c own r \<longleftrightarrow> kept_alive r (regular_of own) (slotTTLSeconds c) \<and> kept_alive r (live_of own) liveLeaseTTLSeconds"

definition watch_ok :: "concurrency_cache \<Rightarrow> slot_owner \<Rightarrow> int \<Rightarrow> slot_watch \<Rightarrow> bool" where
  "watch_ok c own m h \<longleftrightarrow> slots_kept c own (sw_store h) \<and>
     int (card (sessions c own (stands_for h) (sw_store h))) \<le> m \<and>
     (\<forall>rid s. admitted h rid = Some s \<and> redis_TIME (sw_store h) - s < slotTTLSeconds c \<longrightarrow>
        (\<exists>s' \<ge> s. (rid, s') \<in> set (zset (sw_store h) (regular_of own)))) \<and>
     (\<forall>l s rid. leased h l = Some (s, rid) \<longrightarrow> stands_for h l = rid \<and>
        (redis_TIME (sw_store h) - s < liveLeaseTTLSeconds \<longrightarrow>
         (\<exists>s' \<ge> s. (l, s') \<in> set (zset (sw_store h) (live_of own)))))"

lemma finite_sessions [simp]: "finite (sessions c own st r)"
  by (simp add: sessions_def)

lemma holders_are_sessions:
  assumes "watch_ok c own m h"
  shows "holders c h \<subseteq> sessions c own (stands_for h) (sw_store h)"
proof -
  have "rid \<in> sessions c own (stands_for h) (sw_store h)" if rid: "has_slot c h rid" for rid
  proof -
    obtain s where s: "admitted h rid = Some s" "redis_TIME (sw_store h) - s < slotTTLSeconds c"
      using rid by (auto simp: has_slot_def)
    then obtain s' where "s \<le> s'" "(rid, s') \<in> set (zset (sw_store h) (regular_of own))"
      using assms unfolding watch_ok_def by blast
    with s show ?thesis by (force simp: sessions_def)
  qed
  moreover have "rid \<in> sessions c own (stands_for h) (sw_store h)"
    if l: "leased h l = Some (s, rid)" "redis_TIME (sw_store h) - s < liveLeaseTTLSeconds" for l s rid
  proof -
    obtain s' where "s \<le> s'" "(l, s') \<in> set (zset (sw_store h) (live_of own))" "stands_for h l = rid"
      using assms l unfolding watch_ok_def by blast
    with l show ?thesis by (force simp: sessions_def)
  qed
  ultimately show ?thesis by (auto simp: holders_def)
qed

definition tended_key :: "string \<Rightarrow> int \<Rightarrow> redis_store \<Rightarrow> redis_store \<Rightarrow> bool" where
  "tended_key k ttl r r' \<longleftrightarrow> set (zset r' k) \<subseteq> set (zset r k) \<and>
     (\<forall>e \<in> set (zset r k). redis_TIME r - ttl < snd e \<longrightarrow> e \<in> set (zset r' k)) \<and>
     (zset r' k = [] \<or> zset_expiry r' k = zset_expiry r k \<or> zset_expiry r' k = Some (redis_ms r + ttl * 1000))"

definition tended_owner :: "concurrency_cache \<Rightarrow> slot_owner \<Rightarrow> redis_store \<Rightarrow> redis_store \<Rightarrow> bool" where
  "tended_owner c own r r' \<longleftrightarrow> redis_ms r' = redis_ms r \<and>
     tended_key (regular_of own) (slotTTLSeconds c) r r' \<and> tended_key (live_of own) liveLeaseTTLSeconds r r'"

lemma tended_owner: "tended c r r' \<Longrightarrow> tended_owner c own r r'"
  by (simp add: tended_def tended_owner_def tended_key_def)

lemma same_is_tended: "zset r' k = zset r k \<Longrightarrow> zset_expiry r' k = zset_expiry r k \<Longrightarrow> tended_key k ttl r r'"
  by (simp add: tended_key_def)

lemma seconds_le: "s \<le> redis_TIME r \<Longrightarrow> (s + ttl) * 1000 \<le> redis_ms r + ttl * 1000"
  unfolding redis_TIME_def by presburger

lemma ms_before:
  fixes s ttl ms x :: int
  assumes "ms div 1000 - ttl < s" and "(s + ttl) * 1000 \<le> x"
  shows "ms < x"
proof -
  have "ms < (ms div 1000 + 1) * 1000" by presburger
  also have "\<dots> \<le> (s + ttl) * 1000" using assms(1) by simp
  finally show ?thesis using assms(2) by simp
qed

lemma kept_alive_tended:
  assumes "kept_alive r k ttl" and "tended_key k ttl r r'" and "redis_ms r' = redis_ms r"
  shows "kept_alive r' k ttl"
  unfolding kept_alive_def
proof
  fix e assume "e \<in> set (zset r' k)"
  then have e: "e \<in> set (zset r k)" and ne: "zset r' k \<noteq> []" using assms(2) by (auto simp: tended_key_def)
  have t: "redis_TIME r' = redis_TIME r" using assms(3) by (rule redis_TIME_cong)
  obtain x where x: "snd e \<le> redis_TIME r" "zset_expiry r k = Some x" "(snd e + ttl) * 1000 \<le> x"
    using assms(1) e by (auto simp: kept_alive_def)
  moreover have "(snd e + ttl) * 1000 \<le> redis_ms r + ttl * 1000"
    using x(1) by (rule seconds_le)
  ultimately show "snd e \<le> redis_TIME r' \<and> (\<exists>x. zset_expiry r' k = Some x \<and> (snd e + ttl) * 1000 \<le> x)"
    using assms(2) ne by (auto simp: tended_key_def t)
qed

lemma kept_alive_ZADD:
  assumes "kept_alive r k ttl" and "zset r' k = ZADD x (redis_TIME r) (zset r k)"
    and "zset_expiry r' k = Some (redis_ms r + ttl * 1000)" and "redis_ms r' = redis_ms r"
  shows "kept_alive r' k ttl"
proof -
  have "(s + ttl) * 1000 \<le> redis_ms r + ttl * 1000" if "s \<le> redis_TIME r" for s
    using that by (rule seconds_le)
  then show ?thesis using assms(1) redis_TIME_cong [OF assms(4)] by (auto simp: kept_alive_def assms(2,3))
qed

lemma kept_alive_ZREM:
  assumes "kept_alive r k ttl" and "zset r' k = ZREM x (zset r k)"
    and "zset_expiry r' k = (if ZREM x (zset r k) = [] then None else zset_expiry r k)" and "redis_ms r' = redis_ms r"
  shows "kept_alive r' k ttl"
proof -
  show ?thesis
    using assms(1) redis_TIME_cong [OF assms(4)]
    by (cases "ZREM x (zset r k) = []") (auto simp: kept_alive_def assms(2,3))
qed

lemma kept_alive_later:
  assumes "kept_alive r k ttl" and "redis_ms r \<le> ms" and "0 < ttl"
  shows "kept_alive (r\<lparr>redis_ms := ms\<rparr>) k ttl"
    and "set (zset (r\<lparr>redis_ms := ms\<rparr>) k) \<subseteq> set (zset r k)"
    and "e \<in> set (zset r k) \<Longrightarrow> ms div 1000 - ttl < snd e \<Longrightarrow> e \<in> set (zset (r\<lparr>redis_ms := ms\<rparr>) k)"
proof -
  have t: "redis_TIME r \<le> ms div 1000" using assms(2) by (simp add: redis_TIME_def zdiv_mono1)
  have c: "zset r k = [] \<and> zset (r\<lparr>redis_ms := ms\<rparr>) k = [] \<or>
      zset (r\<lparr>redis_ms := ms\<rparr>) k = (if unexpired ms (zset_expiry r k) then zset r k else []) \<and>
      zset_expiry (r\<lparr>redis_ms := ms\<rparr>) k = (if unexpired ms (zset_expiry r k) then zset_expiry r k else None)"
  proof (cases "zsets r k")
    case (Some v)
    obtain z e where v: "v = (z, e)" by (cases v)
    have "\<not> unexpired (redis_ms r) e \<Longrightarrow> \<not> unexpired ms e"
      using assms(2) by (auto simp: unexpired_def split: option.splits)
    then show ?thesis by (auto simp: zset_unfold Some v)
  qed (simp add: zset_unfold)
  then show "set (zset (r\<lparr>redis_ms := ms\<rparr>) k) \<subseteq> set (zset r k)" by auto
  show "kept_alive (r\<lparr>redis_ms := ms\<rparr>) k ttl"
    unfolding kept_alive_def
  proof
    fix e assume e: "e \<in> set (zset (r\<lparr>redis_ms := ms\<rparr>) k)"
    with c have s: "zset (r\<lparr>redis_ms := ms\<rparr>) k = zset r k" "zset_expiry (r\<lparr>redis_ms := ms\<rparr>) k = zset_expiry r k"
      by (auto split: if_splits)
    with assms(1) e have "snd e \<le> redis_TIME r" "\<exists>x. zset_expiry r k = Some x \<and> (snd e + ttl) * 1000 \<le> x"
      by (simp_all add: kept_alive_def)
    with t s(2) show "snd e \<le> redis_TIME (r\<lparr>redis_ms := ms\<rparr>) \<and>
        (\<exists>x. zset_expiry (r\<lparr>redis_ms := ms\<rparr>) k = Some x \<and> (snd e + ttl) * 1000 \<le> x)"
      by (simp add: redis_TIME_def)
  qed
  show "e \<in> set (zset (r\<lparr>redis_ms := ms\<rparr>) k)" if e: "e \<in> set (zset r k)" "ms div 1000 - ttl < snd e"
  proof -
    obtain x where x: "zset_expiry r k = Some x" "(snd e + ttl) * 1000 \<le> x" using assms(1) e(1) by (auto simp: kept_alive_def)
    have "ms < x" using e(2) x(2) by (rule ms_before)
    then have "unexpired ms (zset_expiry r k)" by (simp add: unexpired_def x(1))
    moreover have "zset r k \<noteq> []" using e(1) by auto
    ultimately show ?thesis using c e(1) by simp
  qed
qed

lemma watch_okD:
  assumes "watch_ok c own m h"
  shows "kept_alive (sw_store h) (regular_of own) (slotTTLSeconds c)"
    and "kept_alive (sw_store h) (live_of own) liveLeaseTTLSeconds"
    and "int (card (sessions c own (stands_for h) (sw_store h))) \<le> m"
    and "admitted h rid = Some s \<Longrightarrow> redis_TIME (sw_store h) - s < slotTTLSeconds c \<Longrightarrow>
      \<exists>s' \<ge> s. (rid, s') \<in> set (zset (sw_store h) (regular_of own))"
    and "leased h l = Some (s, rid) \<Longrightarrow> stands_for h l = rid"
    and "leased h l = Some (s, rid) \<Longrightarrow> redis_TIME (sw_store h) - s < liveLeaseTTLSeconds \<Longrightarrow>
      \<exists>s' \<ge> s. (l, s') \<in> set (zset (sw_store h) (live_of own))"
  using assms by (simp_all add: watch_ok_def slots_kept_def)

lemma card_shrinks: "A \<subseteq> B \<Longrightarrow> finite B \<Longrightarrow> int (card B) \<le> m \<Longrightarrow> int (card A) \<le> m"
  using card_mono by (metis of_nat_mono order_trans)

lemma known_before: "A \<subseteq>\<^sub>m B \<Longrightarrow> A x = Some y \<Longrightarrow> B x = Some y"
  by (metis map_le_def domI)

text \<open>Upkeep, and forgetting what was admitted, keep the invariant.\<close>

lemma watch_tended:
  assumes ok: "watch_ok c own m h" and t: "tended_owner c own (sw_store h) r'"
    and A: "A \<subseteq>\<^sub>m admitted h" and L: "L \<subseteq>\<^sub>m leased h"
  shows "watch_ok c own m (h\<lparr>sw_store := r', admitted := A, leased := L\<rparr>)"
proof -
  have ms: "redis_ms r' = redis_ms (sw_store h)"
    and kr: "tended_key (regular_of own) (slotTTLSeconds c) (sw_store h) r'"
    and kl: "tended_key (live_of own) liveLeaseTTLSeconds (sw_store h) r'"
    using t by (auto simp: tended_owner_def)
  have time: "redis_TIME r' = redis_TIME (sw_store h)" using ms by (rule redis_TIME_cong)
  have sub: "sessions c own st r' \<subseteq> sessions c own st (sw_store h)" for st
    using kr kl unfolding sessions_def time tended_key_def by (auto 0 4)
  have reg: "e \<in> set (zset r' (regular_of own))"
    if "e \<in> set (zset (sw_store h) (regular_of own))" "redis_TIME (sw_store h) - slotTTLSeconds c < snd e" for e
    using kr that by (auto simp: tended_key_def)
  have live: "e \<in> set (zset r' (live_of own))"
    if "e \<in> set (zset (sw_store h) (live_of own))" "redis_TIME (sw_store h) - liveLeaseTTLSeconds < snd e" for e
    using kl that by (auto simp: tended_key_def)
  show ?thesis
    unfolding watch_ok_def
  proof (intro conjI allI impI)
    show "slots_kept c own (sw_store (h\<lparr>sw_store := r', admitted := A, leased := L\<rparr>))"
      using kept_alive_tended [OF watch_okD(1) [OF ok] kr ms] kept_alive_tended [OF watch_okD(2) [OF ok] kl ms]
      by (simp add: slots_kept_def)
    show "int (card (sessions c own (stands_for (h\<lparr>sw_store := r', admitted := A, leased := L\<rparr>))
        (sw_store (h\<lparr>sw_store := r', admitted := A, leased := L\<rparr>)))) \<le> m"
      using card_shrinks [OF sub finite_sessions watch_okD(3) [OF ok]] by simp
  next
    fix rid s
    assume "admitted (h\<lparr>sw_store := r', admitted := A, leased := L\<rparr>) rid = Some s \<and>
        redis_TIME (sw_store (h\<lparr>sw_store := r', admitted := A, leased := L\<rparr>)) - s < slotTTLSeconds c"
    then have a: "admitted h rid = Some s" "redis_TIME (sw_store h) - s < slotTTLSeconds c"
      using known_before [OF A] by (auto simp: time)
    from watch_okD(4) [OF ok this] obtain s' where "s \<le> s'" "(rid, s') \<in> set (zset (sw_store h) (regular_of own))" by blast
    with reg [of "(rid, s')"] a(2)
    show "\<exists>s' \<ge> s. (rid, s') \<in> set (zset (sw_store (h\<lparr>sw_store := r', admitted := A, leased := L\<rparr>)) (regular_of own))"
      by auto
  next
    fix l s rid
    assume "leased (h\<lparr>sw_store := r', admitted := A, leased := L\<rparr>) l = Some (s, rid)"
    then have a: "leased h l = Some (s, rid)" using known_before [OF L] by simp
    from watch_okD(5) [OF ok this] show "stands_for (h\<lparr>sw_store := r', admitted := A, leased := L\<rparr>) l = rid" by simp
    assume "redis_TIME (sw_store (h\<lparr>sw_store := r', admitted := A, leased := L\<rparr>)) - s < liveLeaseTTLSeconds"
    then have t: "redis_TIME (sw_store h) - s < liveLeaseTTLSeconds" by (simp add: time)
    from watch_okD(6) [OF ok a t] obtain s' where "s \<le> s'" "(l, s') \<in> set (zset (sw_store h) (live_of own))" by blast
    with live [of "(l, s')"] t
    show "\<exists>s' \<ge> s. (l, s') \<in> set (zset (sw_store (h\<lparr>sw_store := r', admitted := A, leased := L\<rparr>)) (live_of own))"
      by auto
  qed
qed

lemma watch_tended_only:
  assumes "watch_ok c own m h" and "tended_owner c own (sw_store h) r'"
  shows "watch_ok c own m (h\<lparr>sw_store := r'\<rparr>)"
  using watch_tended [OF assms, of "admitted h" "leased h"] by simp

text \<open>Time passes.\<close>

lemma watch_later:
  assumes ok: "watch_ok c own m h" and ms: "redis_ms (sw_store h) \<le> ms" and pos: "0 < slotTTLSeconds c"
  shows "watch_ok c own m (h\<lparr>sw_store := (sw_store h)\<lparr>redis_ms := ms\<rparr>\<rparr>)"
proof -
  let ?r' = "(sw_store h)\<lparr>redis_ms := ms\<rparr>"
  have pos': "0 < liveLeaseTTLSeconds" by (simp add: liveLeaseTTLSeconds_def)
  note kr = kept_alive_later [OF watch_okD(1) [OF ok] ms pos] and kl = kept_alive_later [OF watch_okD(2) [OF ok] ms pos']
  have time: "redis_TIME (sw_store h) \<le> redis_TIME ?r'" and now: "redis_TIME ?r' = ms div 1000"
    using ms by (simp_all add: redis_TIME_def zdiv_mono1)
  have sub: "sessions c own (stands_for h) ?r' \<subseteq> sessions c own (stands_for h) (sw_store h)"
    using kr(2) kl(2) time unfolding sessions_def by (auto 0 4)
  show ?thesis
    unfolding watch_ok_def
  proof (intro conjI allI impI)
    show "slots_kept c own (sw_store (h\<lparr>sw_store := ?r'\<rparr>))" using kr(1) kl(1) by (simp add: slots_kept_def)
    show "int (card (sessions c own (stands_for (h\<lparr>sw_store := ?r'\<rparr>)) (sw_store (h\<lparr>sw_store := ?r'\<rparr>)))) \<le> m"
      using card_shrinks [OF sub finite_sessions watch_okD(3) [OF ok]] by simp
  next
    fix rid s
    assume a: "admitted (h\<lparr>sw_store := ?r'\<rparr>) rid = Some s \<and> redis_TIME (sw_store (h\<lparr>sw_store := ?r'\<rparr>)) - s < slotTTLSeconds c"
    with time watch_okD(4) [OF ok, of rid s] obtain s' where "s \<le> s'" "(rid, s') \<in> set (zset (sw_store h) (regular_of own))"
      by fastforce
    with kr(3) [of "(rid, s')"] a now
    show "\<exists>s' \<ge> s. (rid, s') \<in> set (zset (sw_store (h\<lparr>sw_store := ?r'\<rparr>)) (regular_of own))" by auto
  next
    fix l s rid
    assume a: "leased (h\<lparr>sw_store := ?r'\<rparr>) l = Some (s, rid)"
    with watch_okD(5) [OF ok, of l s rid] show "stands_for (h\<lparr>sw_store := ?r'\<rparr>) l = rid" by simp
    assume t: "redis_TIME (sw_store (h\<lparr>sw_store := ?r'\<rparr>)) - s < liveLeaseTTLSeconds"
    with a time watch_okD(6) [OF ok, of l s rid]
    obtain s' where "s \<le> s'" "(l, s') \<in> set (zset (sw_store h) (live_of own))" by fastforce
    with kl(3) [of "(l, s')"] t now
    show "\<exists>s' \<ge> s. (l, s') \<in> set (zset (sw_store (h\<lparr>sw_store := ?r'\<rparr>)) (live_of own))" by auto
  qed
qed

text \<open>Admissions, releases and leases keep it too.\<close>

lemma watch_next:
  assumes "redis_ms r' = redis_ms r"
    and "kept_alive r' (regular_of own) (slotTTLSeconds c)" and "kept_alive r' (live_of own) liveLeaseTTLSeconds"
    and "int (card (sessions c own st r')) \<le> m"
    and "\<And>rid s. A rid = Some s \<Longrightarrow> redis_TIME r - s < slotTTLSeconds c \<Longrightarrow>
      \<exists>s' \<ge> s. (rid, s') \<in> set (zset r' (regular_of own))"
    and "\<And>l s rid. L l = Some (s, rid) \<Longrightarrow> st l = rid"
    and "\<And>l s rid. L l = Some (s, rid) \<Longrightarrow> redis_TIME r - s < liveLeaseTTLSeconds \<Longrightarrow>
      \<exists>s' \<ge> s. (l, s') \<in> set (zset r' (live_of own))"
  shows "watch_ok c own m \<lparr>sw_store = r', admitted = A, leased = L, stands_for = st\<rparr>"
  using assms redis_TIME_cong [OF assms(1)] by (simp add: watch_ok_def slots_kept_def)

lemma card_sessions: "int (card (sessions c own st r)) \<le> ZCARD (zset r (regular_of own)) + ZCARD (zset r (live_of own))"
proof -
  have c: "card (f ` {e \<in> set xs. P e}) \<le> length xs" for f :: "string \<times> int \<Rightarrow> string" and xs P
    by (rule order_trans [OF card_image_le order_trans [OF card_mono [of "set xs"] card_length]]) auto
  have "card (sessions c own st r) \<le> length (zset r (regular_of own)) + length (zset r (live_of own))"
    unfolding sessions_def by (rule order_trans [OF card_Un_le add_mono]) (rule c)+
  then show ?thesis by (simp add: ZCARD_def)
qed

lemma kept_alive_same:
  "kept_alive r k ttl \<Longrightarrow> zset r' k = zset r k \<Longrightarrow> zset_expiry r' k = zset_expiry r k \<Longrightarrow> redis_ms r' = redis_ms r \<Longrightarrow>
    kept_alive r' k ttl"
  by (simp add: kept_alive_def redis_TIME_def)

lemma watch_admit:
  assumes ok: "watch_ok c own m \<lparr>sw_store = r, admitted = A, leased = L, stands_for = st\<rparr>"
    and ms: "redis_ms r' = redis_ms r"
    and reg: "zset r' (regular_of own) = ZADD rid (redis_TIME r) (zset r (regular_of own))"
      "zset_expiry r' (regular_of own) = Some (redis_ms r + slotTTLSeconds c * 1000)"
    and live: "zset r' (live_of own) = zset r (live_of own)" "zset_expiry r' (live_of own) = zset_expiry r (live_of own)"
    and room: "rid \<in> sessions c own st r \<or> ZCARD (zset r (regular_of own)) + ZCARD (zset r (live_of own)) < m"
    and A': "A' = A \<or> A' = A(rid \<mapsto> redis_TIME r)"
  shows "watch_ok c own m \<lparr>sw_store = r', admitted = A', leased = L, stands_for = st\<rparr>"
proof (rule watch_next [OF ms])
  note d = watch_okD [OF ok, simplified]
  show "kept_alive r' (regular_of own) (slotTTLSeconds c)" by (rule kept_alive_ZADD [OF d(1) reg ms])
  show "kept_alive r' (live_of own) liveLeaseTTLSeconds" by (rule kept_alive_same [OF d(2) live ms])
  have "sessions c own st r' \<subseteq> insert rid (sessions c own st r)"
    unfolding sessions_def reg(1) live(1) redis_TIME_cong [OF ms] by auto
  then have "int (card (sessions c own st r')) \<le> int (card (insert rid (sessions c own st r)))"
    by (simp add: card_mono)
  also have "\<dots> \<le> m"
    using room d(3) card_sessions [of c own st r] by (auto simp: insert_absorb card_insert_if)
  finally show "int (card (sessions c own st r')) \<le> m" .
  show "\<exists>s' \<ge> s. (x, s') \<in> set (zset r' (regular_of own))" if "A' x = Some s" "redis_TIME r - s < slotTTLSeconds c" for x s
  proof (cases "x = rid")
    case True
    have "s \<le> redis_TIME r"
    proof (cases "A rid = Some s")
      case True
      with that(2) d(4) [of rid s] obtain s' where "s \<le> s'" "(rid, s') \<in> set (zset r (regular_of own))" by blast
      with d(1) show ?thesis by (fastforce simp: kept_alive_def)
    next
      case False
      with A' that(1) \<open>x = rid\<close> show ?thesis by auto
    qed
    then show ?thesis using True by (auto simp: reg(1))
  next
    case False
    then show ?thesis using A' that d(4) [of x s] by (auto simp: reg(1))
  qed
  show "st l = x" if "L l = Some (s, x)" for l s x by (rule d(5) [OF that])
  show "\<exists>s' \<ge> s. (l, s') \<in> set (zset r' (live_of own))"
    if "L l = Some (s, x)" "redis_TIME r - s < liveLeaseTTLSeconds" for l s x
    using d(6) [OF that] by (simp add: live(1))
qed

lemma watch_release:
  assumes ok: "watch_ok c own m \<lparr>sw_store = r, admitted = A, leased = L, stands_for = st\<rparr>"
  shows "watch_ok c own m \<lparr>sw_store = zrem (regular_of own) rid r, admitted = A(rid := None), leased = L, stands_for = st\<rparr>"
proof (rule watch_next)
  note d = watch_okD [OF ok, simplified]
  let ?r' = "zrem (regular_of own) rid r"
  show "redis_ms ?r' = redis_ms r" by simp
  show "kept_alive ?r' (regular_of own) (slotTTLSeconds c)" by (rule kept_alive_ZREM [OF d(1), of _ rid]) simp_all
  show "kept_alive ?r' (live_of own) liveLeaseTTLSeconds" by (rule kept_alive_same [OF d(2)]) simp_all
  have "sessions c own st ?r' \<subseteq> sessions c own st r" unfolding sessions_def by auto
  from card_shrinks [OF this finite_sessions d(3)] show "int (card (sessions c own st ?r')) \<le> m" .
  show "\<exists>s' \<ge> s. (x, s') \<in> set (zset ?r' (regular_of own))"
    if "(A(rid := None)) x = Some s" "redis_TIME r - s < slotTTLSeconds c" for x s
    using d(4) [of x s] that by (auto split: if_splits)
  show "st l = x" if "L l = Some (s, x)" for l s x by (rule d(5) [OF that])
  show "\<exists>s' \<ge> s. (l, s') \<in> set (zset ?r' (live_of own))"
    if "L l = Some (s, x)" "redis_TIME r - s < liveLeaseTTLSeconds" for l s x
    using d(6) [OF that] by simp
qed

lemma watch_lease:
  assumes ok: "watch_ok c own m \<lparr>sw_store = r, admitted = A, leased = L, stands_for = st\<rparr>"
    and ms: "redis_ms r' = redis_ms r"
    and reg: "zset r' (regular_of own) = zset r (regular_of own)" "zset_expiry r' (regular_of own) = zset_expiry r (regular_of own)"
    and live: "zset r' (live_of own) = zset r (live_of own) \<and> zset_expiry r' (live_of own) = zset_expiry r (live_of own) \<or>
      zset r' (live_of own) = ZADD l (redis_TIME r) (zset r (live_of own)) \<and>
      zset_expiry r' (live_of own) = Some (redis_ms r + liveLeaseTTLSeconds * 1000)"
    and fresh: "l \<notin> members (zset r (live_of own))"
    and rid: "rid \<in> sessions c own st r"
    and L': "L' = L(l := None) \<or> L' = L(l \<mapsto> (redis_TIME r, rid)) \<and> l \<in> members (zset r' (live_of own))"
  shows "watch_ok c own m \<lparr>sw_store = r', admitted = A, leased = L', stands_for = st(l := rid)\<rparr>"
proof (rule watch_next [OF ms])
  note d = watch_okD [OF ok, simplified]
  show "kept_alive r' (regular_of own) (slotTTLSeconds c)" by (rule kept_alive_same [OF d(1) reg ms])
  show "kept_alive r' (live_of own) liveLeaseTTLSeconds"
    using live kept_alive_ZADD [OF d(2) _ _ ms] kept_alive_same [OF d(2) _ _ ms] by blast
  have f: "(l, s) \<notin> set (zset r (live_of own))" for s using fresh by (force simp: members_def)
  have "sessions c own (st(l := rid)) r' \<subseteq> sessions c own st r"
    using rid f live unfolding sessions_def reg(1) redis_TIME_cong [OF ms] by (auto split: if_splits)
  from card_shrinks [OF this finite_sessions d(3)] show "int (card (sessions c own (st(l := rid)) r')) \<le> m" .
  show "\<exists>s' \<ge> s. (x, s') \<in> set (zset r' (regular_of own))" if "A x = Some s" "redis_TIME r - s < slotTTLSeconds c" for x s
    using d(4) [OF that] by (simp add: reg(1))
  show "(st(l := rid)) k = x" if "L' k = Some (s, x)" for k s x
    using L' that d(5) [of k s x] by (auto split: if_splits)
  show "\<exists>s' \<ge> s. (k, s') \<in> set (zset r' (live_of own))"
    if "L' k = Some (s, x)" "redis_TIME r - s < liveLeaseTTLSeconds" for k s x
  proof (cases "k = l")
    case True
    then show ?thesis using L' that live f by (auto simp: members_def)
  next
    case False
    then show ?thesis using L' that live d(6) [of k s x] by auto
  qed
qed

lemma watch_renew:
  assumes ok: "watch_ok c own m \<lparr>sw_store = r, admitted = A, leased = L, stands_for = st\<rparr>"
    and ms: "redis_ms r' = redis_ms r"
    and reg: "zset r' (regular_of own) = zset r (regular_of own)" "zset_expiry r' (regular_of own) = zset_expiry r (regular_of own)"
    and live: "zset r' (live_of own) = ZADD l (redis_TIME r) (zset r (live_of own))"
      "zset_expiry r' (live_of own) = Some (redis_ms r + liveLeaseTTLSeconds * 1000)"
    and there: "(l, s0) \<in> set (zset r (live_of own))" "redis_TIME r - liveLeaseTTLSeconds < s0"
    and L: "L l = Some (s1, rid)"
    and L': "L' = L \<or> L' = L(l \<mapsto> (redis_TIME r, rid))"
  shows "watch_ok c own m \<lparr>sw_store = r', admitted = A, leased = L', stands_for = st\<rparr>"
proof (rule watch_next [OF ms])
  note d = watch_okD [OF ok, simplified]
  show "kept_alive r' (regular_of own) (slotTTLSeconds c)" by (rule kept_alive_same [OF d(1) reg ms])
  show "kept_alive r' (live_of own) liveLeaseTTLSeconds" by (rule kept_alive_ZADD [OF d(2) live ms])
  have "sessions c own st r' \<subseteq> sessions c own st r"
    using there unfolding sessions_def reg(1) live(1) redis_TIME_cong [OF ms] by force
  from card_shrinks [OF this finite_sessions d(3)] show "int (card (sessions c own st r')) \<le> m" .
  show "\<exists>s' \<ge> s. (x, s') \<in> set (zset r' (regular_of own))" if "A x = Some s" "redis_TIME r - s < slotTTLSeconds c" for x s
    using d(4) [OF that] by (simp add: reg(1))
  show "st k = x" if "L' k = Some (s, x)" for k s x
    using L' that d(5) L by (auto split: if_splits)
  show "\<exists>s' \<ge> s. (k, s') \<in> set (zset r' (live_of own))"
    if k: "L' k = Some (s, x)" "redis_TIME r - s < liveLeaseTTLSeconds" for k s x
  proof (cases "k = l")
    case True
    have "s \<le> redis_TIME r"
    proof (cases "L l = Some (s, x)")
      case True
      with k(2) d(6) [of l s x] obtain s' where "s \<le> s'" "(l, s') \<in> set (zset r (live_of own))" by blast
      with d(2) show ?thesis by (fastforce simp: kept_alive_def)
    next
      case False
      with L' k(1) \<open>k = l\<close> show ?thesis by auto
    qed
    then show ?thesis using True by (auto simp: live(1))
  next
    case False
    then show ?thesis using L' k d(6) [of k s x] by (auto simp: live(1))
  qed
qed

lemma watch_unlease:
  assumes ok: "watch_ok c own m \<lparr>sw_store = r, admitted = A, leased = L, stands_for = st\<rparr>"
    and ms: "redis_ms r' = redis_ms r"
    and reg: "zset r' (regular_of own) = zset r (regular_of own)" "zset_expiry r' (regular_of own) = zset_expiry r (regular_of own)"
    and live: "zset r' (live_of own) = ZREM l (zset r (live_of own))"
      "zset_expiry r' (live_of own) = (if ZREM l (zset r (live_of own)) = [] then None else zset_expiry r (live_of own))"
  shows "watch_ok c own m \<lparr>sw_store = r', admitted = A, leased = L(l := None), stands_for = st\<rparr>"
proof (rule watch_next [OF ms])
  note d = watch_okD [OF ok, simplified]
  show "kept_alive r' (regular_of own) (slotTTLSeconds c)" by (rule kept_alive_same [OF d(1) reg ms])
  show "kept_alive r' (live_of own) liveLeaseTTLSeconds" by (rule kept_alive_ZREM [OF d(2) live ms])
  have "sessions c own st r' \<subseteq> sessions c own st r"
    unfolding sessions_def reg(1) live(1) redis_TIME_cong [OF ms] by auto
  from card_shrinks [OF this finite_sessions d(3)] show "int (card (sessions c own st r')) \<le> m" .
  show "\<exists>s' \<ge> s. (x, s') \<in> set (zset r' (regular_of own))" if "A x = Some s" "redis_TIME r - s < slotTTLSeconds c" for x s
    using d(4) [OF that] by (simp add: reg(1))
  show "st k = x" if "(L(l := None)) k = Some (s, x)" for k s x
    using that d(5) [of k s x] by (auto split: if_splits)
  show "\<exists>s' \<ge> s. (k, s') \<in> set (zset r' (live_of own))"
    if "(L(l := None)) k = Some (s, x)" "redis_TIME r - s < liveLeaseTTLSeconds" for k s x
    using d(6) [of k s x] that by (auto simp: live(1) split: if_splits)
qed

section \<open>The steps of a history\<close>

fun index_of :: "slot_owner \<Rightarrow> string" where
  "index_of (Account i) = accountActiveIndexKey"
| "index_of (User i) = userActiveIndexKey"

fun id_of :: "slot_owner \<Rightarrow> int" where
  "id_of (Account i) = i"
| "id_of (User i) = i"

lemma unslotted_index [simp]: "unslotted (index_of s)"
  by (cases s) simp_all

lemma AcquireSlot_unfold:
  "AcquireSlot c s k rid w =
     (case redis_call (acquireScript (regular_of s) (live_of s) k (slotTTLSeconds c) rid) w of
        (Inl e, w1) \<Rightarrow> (Inl e, w1)
      | (Inr (result, now), w1) \<Rightarrow>
          (Inr (result = 1), if result = 1 then touchActiveIndexAt (index_of s) (id_of s) (now + slotTTLSeconds c) w1 else w1))"
  unfolding AcquireSlot_def AcquireAccountSlot_def AcquireUserSlot_def
  by (cases s; hypsubst; unfold slot_owner.case regular_of.simps live_of.simps index_of.simps id_of.simps; rule refl)

lemma acquireScript_cases:
  fixes c own r
  defines "r1 \<equiv> zremrange (live_of own) (redis_TIME r - 60) (zremrange (regular_of own) (redis_TIME r - slotTTLSeconds c) r)"
  assumes "acquireScript (regular_of own) (live_of own) k (slotTTLSeconds c) rid r = (x, r')"
  shows "tended c r r1"
    and "x = (0, redis_TIME r) \<and> r' = r1 \<or>
      x = (1, redis_TIME r) \<and> r' = expire_zset (regular_of own) (slotTTLSeconds c) (zadd (regular_of own) (redis_TIME r) rid r1) \<and>
      (rid \<in> sessions c own st r1 \<or> ZCARD (zset r1 (regular_of own)) + ZCARD (zset r1 (live_of own)) < k)"
proof -
  show "tended c r r1"
    unfolding r1_def using old_enough_slot old_enough_live by (intro purge_both) (simp_all add: liveLeaseTTLSeconds_def old_enough_def)
  have "rid \<in> sessions c own st r1" if "ZSCORE rid (zset r1 (regular_of own)) = Some s" for s
  proof -
    have "(rid, s) \<in> set (zset r1 (regular_of own))" using that by (auto simp: ZSCORE_def dest: map_of_SomeD)
    moreover have "redis_TIME r1 - slotTTLSeconds c < s" using calculation by (auto simp: r1_def)
    ultimately show ?thesis by (force simp: sessions_def)
  qed
  then show "x = (0, redis_TIME r) \<and> r' = r1 \<or>
      x = (1, redis_TIME r) \<and> r' = expire_zset (regular_of own) (slotTTLSeconds c) (zadd (regular_of own) (redis_TIME r) rid r1) \<and>
      (rid \<in> sessions c own st r1 \<or> ZCARD (zset r1 (regular_of own)) + ZCARD (zset r1 (live_of own)) < k)"
    using assms(2) unfolding acquireScript_def Let_def r1_def [symmetric]
    by (auto split: if_splits)
qed

lemma acquiring_ok:
  assumes ok: "watch_ok c own m h" and pos: "0 < slotTTLSeconds c"
    and s: "AcquireSlot c own k rid \<lparr>db = sw_store h, faults = fs\<rparr> = (res, w')" and k: "k \<le> m"
  shows "watch_ok c own m (h\<lparr>sw_store := db w',
    admitted := (if res = Inr True then (admitted h)(rid \<mapsto> redis_TIME (sw_store h)) else admitted h)\<rparr>)"
proof -
  obtain r A L st where h: "h = \<lparr>sw_store = r, admitted = A, leased = L, stands_for = st\<rparr>" by (cases h)
  let ?st = "acquireScript (regular_of own) (live_of own) k (slotTTLSeconds c) rid"
  let ?w = "\<lparr>db = r, faults = fs\<rparr>"
  let ?r1 = "zremrange (live_of own) (redis_TIME r - 60) (zremrange (regular_of own) (redis_TIME r - slotTTLSeconds c) r)"
  obtain y w1 where c1: "redis_call ?st ?w = (y, w1)" by (cases "redis_call ?st ?w")
  obtain x r2 where x: "?st r = (x, r2)" by (cases "?st r")
  note cs = acquireScript_cases [OF x]
  have t: "tended_owner c own (db w1) (db w')"
    using s c1 by (auto simp: AcquireSlot_unfold h tended_owner tended_refl touch_tended split: sum.splits prod.splits if_splits)
  let ?A = "if res = Inr True then A(rid \<mapsto> redis_TIME r) else A"
  have "watch_ok c own m \<lparr>sw_store = db w1, admitted = ?A, leased = L, stands_for = st\<rparr>"
  proof (cases "db w1 = r2")
    case True
    have purged: "watch_ok c own m \<lparr>sw_store = ?r1, admitted = A, leased = L, stands_for = st\<rparr>"
      using watch_tended_only [OF ok tended_owner [of c _ ?r1]] cs(1) by (simp add: h)
    from cs(2) [of st] show ?thesis
    proof
      assume "x = (0, redis_TIME r) \<and> r2 = ?r1"
      then have 0: "x = (0, redis_TIME r)" "r2 = ?r1" by simp_all
      have "res \<noteq> Inr True" using s c1 x 0(1) by (auto simp: AcquireSlot_unfold h elim!: redis_call_cases)
      with purged True 0(2) show ?thesis by simp
    next
      assume "x = (1, redis_TIME r) \<and> r2 = expire_zset (regular_of own) (slotTTLSeconds c)
          (zadd (regular_of own) (redis_TIME r) rid ?r1) \<and>
        (rid \<in> sessions c own st ?r1 \<or> ZCARD (zset ?r1 (regular_of own)) + ZCARD (zset ?r1 (live_of own)) < k)"
      then have 1: "r2 = expire_zset (regular_of own) (slotTTLSeconds c) (zadd (regular_of own) (redis_TIME r) rid ?r1)"
        and room: "rid \<in> sessions c own st ?r1 \<or> ZCARD (zset ?r1 (regular_of own)) + ZCARD (zset ?r1 (live_of own)) < k"
        by blast+
      show ?thesis
        by (rule watch_admit [OF purged, where rid = rid])
          (use room k pos in \<open>auto simp: True 1 zset_expiry_expire ZADD_def\<close>)
    qed
  next
    case False
    with c1 x have "db w1 = r" "\<exists>e. y = Inl e" by (auto elim!: redis_call_cases)
    with s c1 have "res \<noteq> Inr True" by (auto simp: AcquireSlot_unfold h)
    with ok \<open>db w1 = r\<close> show ?thesis by (simp add: h)
  qed
  from watch_tended_only [OF this, of "db w'"] t show ?thesis by (cases "res = Inr True") (simp_all add: h)
qed

lemma ReleaseSlot_unfold:
  "ReleaseSlot c s rid w =
     (case redis_call (\<lambda>r. ((), zrem (regular_of s) rid r)) w of
        (Inl e, w1) \<Rightarrow> (Inl e, w1)
      | (Inr _, w1) \<Rightarrow> (Inr (), case s of Account i \<Rightarrow> refreshAccountActiveIndex c i w1 | User i \<Rightarrow> refreshUserActiveIndex c i w1))"
  unfolding ReleaseSlot_def ReleaseAccountSlot_def ReleaseUserSlot_def
  by (cases s; hypsubst; unfold slot_owner.case regular_of.simps; rule refl)

lemma ReleaseSlot_tended:
  assumes "ReleaseSlot c s rid w = (res, w')"
  obtains r1 where "r1 = db w \<or> r1 = zrem (regular_of s) rid (db w)" and "tended c r1 (db w')"
proof -
  let ?st = "\<lambda>r. ((), zrem (regular_of s) rid r)"
  obtain y w1 where 1: "redis_call ?st w = (y, w1)" by (cases "redis_call ?st w")
  have "tended c (db w1) (db w')"
    using assms by (auto simp: ReleaseSlot_unfold 1 tended_refl split: sum.splits slot_owner.splits)
  moreover have "db w1 = db w \<or> db w1 = zrem (regular_of s) rid (db w)"
    using 1 by (auto elim!: redis_call_cases)
  ultimately show ?thesis using that by blast
qed

lemma releasing_ok:
  assumes ok: "watch_ok c own m h" and s: "ReleaseSlot c own rid \<lparr>db = sw_store h, faults = fs\<rparr> = (res, w')"
  shows "watch_ok c own m (h\<lparr>sw_store := db w', admitted := (admitted h)(rid := None)\<rparr>)"
proof -
  obtain r A L st where h: "h = \<lparr>sw_store = r, admitted = A, leased = L, stands_for = st\<rparr>" by (cases h)
  have fewer: "A(rid := None) \<subseteq>\<^sub>m A" by (auto simp: map_le_def)
  obtain r1 where r1: "r1 = r \<or> r1 = zrem (regular_of own) rid r" and t: "tended c r1 (db w')"
    using ReleaseSlot_tended [OF s] by (auto simp: h)
  have "watch_ok c own m \<lparr>sw_store = r1, admitted = A(rid := None), leased = L, stands_for = st\<rparr>"
    using r1
  proof
    assume "r1 = r"
    with watch_tended [OF ok tended_owner [OF tended_refl] _ map_le_refl, of "A(rid := None)"] fewer
    show ?thesis by (simp add: h)
  next
    assume "r1 = zrem (regular_of own) rid r"
    with watch_release [OF ok [unfolded h]] show ?thesis by simp
  qed
  from watch_tended_only [OF this, of "db w'"] tended_owner [OF t] show ?thesis by (simp add: h)
qed

lemma expiry_expire [simp]:
  "0 < n \<Longrightarrow> zset r j \<noteq> [] \<Longrightarrow>
    zset_expiry (expire_zset j n r) k = (if k = j then Some (redis_ms r + n * 1000) else zset_expiry r k)"
  using zset_expiry_expire [of n] by auto

lemma ZADD_nonempty [simp]: "ZADD m s z \<noteq> []"
  by (simp add: ZADD_def)

lemma live_ttl [simp]: "0 < liveLeaseTTLSeconds" "liveLeaseTTLSeconds = 60"
  by (simp_all add: liveLeaseTTLSeconds_def)

lemma old_enough_60 [simp]: "old_enough c (live_of s) (now - 60) now"
  by (simp add: old_enough_def)

lemma slotted_keys [simp]:
  "regular_of s \<noteq> liveAPIKeySlotKey i" "live_of s \<noteq> liveAPIKeySlotKey i"
  "liveAPIKeySlotKey i \<noteq> regular_of s" "liveAPIKeySlotKey i \<noteq> live_of s"
  using unslotted_keys(4) [of i] by (metis unslotted_def)+

definition purged_lease :: "int \<Rightarrow> int \<Rightarrow> int \<Rightarrow> redis_store \<Rightarrow> redis_store" where
  "purged_lease a u key r = zremrange (liveAPIKeySlotKey key) (redis_TIME r - 60)
     (zremrange (live_of (User u)) (redis_TIME r - 60) (zremrange (live_of (Account a)) (redis_TIME r - 60) r))"

lemma purged_lease_tended: "tended c r (purged_lease a u key r)"
proof -
  have old: "old_enough c (live_of s) (redis_TIME r - 60) (redis_TIME r)" for s by (simp add: old_enough_def)
  show ?thesis
    unfolding purged_lease_def
    by (rule tended_trans [OF purge_both [OF old old] tended_unslotted(3)]) simp
qed

lemma purged_lease_simps [simp]: "redis_ms (purged_lease a u key r) = redis_ms r" "redis_TIME (purged_lease a u key r) = redis_TIME r"
  by (simp_all add: purged_lease_def)

lemma acquireLiveLeaseScript_cases:
  assumes r1_def: "r1 = purged_lease a u key r" and run: "acquireLiveLeaseScript (lease_keys a u key) amax umax liveLeaseTTLSeconds l b r = (x, r')"
  obtains (had) "l \<in> members (zset r1 (live_of (Account a)))" "x = 1" "r' = r1"
  | (full) "x = 0" "r' = r1"
  | (given) "x = 1" "redis_ms r' = redis_ms r1"
      "\<And>s. zset r' (regular_of s) = zset r1 (regular_of s)" "\<And>s. zset_expiry r' (regular_of s) = zset_expiry r1 (regular_of s)"
      "\<And>s. zset r' (live_of s) = (if s = Account a \<or> s = User u then ZADD l (redis_TIME r1) (zset r1 (live_of s)) else zset r1 (live_of s))"
      "\<And>s. zset_expiry r' (live_of s) =
         (if s = Account a \<or> s = User u then Some (redis_ms r1 + 60 * 1000) else zset_expiry r1 (live_of s))"
proof -
  define r3 where "r3 = expire_zset (liveAPIKeySlotKey key) 60 (expire_zset (live_of (User u)) 60 (expire_zset (live_of (Account a)) 60
    (zadd (liveAPIKeySlotKey key) (redis_TIME r) l (zadd (live_of (User u)) (redis_TIME r) l (zadd (live_of (Account a)) (redis_TIME r) l r1)))))"
  have ks: "lease_keys a u key = \<lparr>accountRegular = regular_of (Account a), accountLive = live_of (Account a),
      userRegular = regular_of (User u), userLive = live_of (User u), apiLive = liveAPIKeySlotKey key\<rparr>"
    by (simp add: lease_keys_def)
  have mem: "ZSCORE l z \<noteq> None \<Longrightarrow> l \<in> members z" for z
    by (auto simp: ZSCORE_def members_def map_of_eq_None_iff)
  have "x = 1 \<and> r' = r1 \<and> l \<in> members (zset r1 (live_of (Account a))) \<or> x = 0 \<and> r' = r1 \<or> x = 1 \<and> r' = r3"
    using run mem unfolding acquireLiveLeaseScript_def Let_def ks live_keys.simps live_ttl(2) purged_lease_def [symmetric]
      r1_def [symmetric] r3_def [symmetric]
    by (auto split: if_splits)
  moreover have "redis_ms r3 = redis_ms r1"
    "\<And>s. zset r3 (regular_of s) = zset r1 (regular_of s)" "\<And>s. zset_expiry r3 (regular_of s) = zset_expiry r1 (regular_of s)"
    "\<And>s. zset r3 (live_of s) = (if s = Account a \<or> s = User u then ZADD l (redis_TIME r1) (zset r1 (live_of s)) else zset r1 (live_of s))"
    "\<And>s. zset_expiry r3 (live_of s) =
       (if s = Account a \<or> s = User u then Some (redis_ms r1 + 60 * 1000) else zset_expiry r1 (live_of s))"
    unfolding r3_def by (simp_all del: regular_of.simps live_of.simps add: r1_def)
  ultimately show ?thesis using that by blast
qed

lemma leasing_ok:
  assumes ok: "watch_ok c own m h"
    and s: "AcquireLiveLease a amax u umax key l b \<lparr>db = sw_store h, faults = fs\<rparr> = (res, w')"
    and own: "own = Account a \<or> own = User u"
    and fresh: "l \<notin> members (zset (sw_store h) (live_of (Account a)))" "l \<notin> members (zset (sw_store h) (live_of (User u)))"
    and rid: "has_slot c h rid"
  shows "watch_ok c own m (h\<lparr>sw_store := db w', stands_for := (stands_for h)(l := rid),
    leased := (leased h)(l := (if res = Inr True then Some (redis_TIME (sw_store h), rid) else None))\<rparr>)"
proof -
  obtain r A L st where h: "h = \<lparr>sw_store = r, admitted = A, leased = L, stands_for = st\<rparr>" by (cases h)
  let ?st = "acquireLiveLeaseScript (lease_keys a u key) amax umax liveLeaseTTLSeconds l (if b then 1 else 0)"
  obtain x r2 where x: "?st r = (x, r2)" by (cases "?st r")
  have e: "(res = Inr True \<longrightarrow> db w' = r2 \<and> x = 1) \<and> (db w' = r \<or> db w' = r2)"
    using s x by (auto simp: AcquireLiveLease_def h split: if_splits sum.splits prod.splits elim!: redis_call_cases)
  let ?r1 = "purged_lease a u key r"
  let ?L = "L(l := (if res = Inr True then Some (redis_TIME r, rid) else None))"
  have r1: "zset ?r1 (live_of own) = ZREMRANGE_upto (redis_TIME r - 60) (zset r (live_of own))"
    using own by (auto simp: purged_lease_def simp del: regular_of.simps live_of.simps)
  have purged: "watch_ok c own m \<lparr>sw_store = ?r1, admitted = A, leased = L, stands_for = st\<rparr>"
    using watch_tended_only [OF ok tended_owner [OF purged_lease_tended]] by (simp add: h)
  have fresh0: "l \<notin> members (zset r (live_of own))" using fresh own by (auto simp: h)
  then have fresh1: "l \<notin> members (zset ?r1 (live_of own))" unfolding r1 by (auto simp: members_def)
  have rid0: "rid \<in> sessions c own st r" using holders_are_sessions [OF ok] rid by (auto simp: holders_def h)
  have rid1: "rid \<in> sessions c own st ?r1"
    using holders_are_sessions [OF purged] rid by (auto simp: holders_def has_slot_def h)
  have same: "watch_ok c own m \<lparr>sw_store = r, admitted = A, leased = L(l := None), stands_for = st(l := rid)\<rparr>"
    by (rule watch_lease [OF ok [unfolded h]]) (use fresh0 rid0 in auto)
  have same1: "watch_ok c own m \<lparr>sw_store = ?r1, admitted = A, leased = L(l := None), stands_for = st(l := rid)\<rparr>"
    by (rule watch_lease [OF purged]) (use fresh1 rid1 in auto)
  have "watch_ok c own m \<lparr>sw_store = db w', admitted = A, leased = ?L, stands_for = st(l := rid)\<rparr>"
    using refl x
  proof (cases rule: acquireLiveLeaseScript_cases)
    case had
    have "l \<in> members (zset r (live_of (Account a)))"
      using had(1) by (auto simp: purged_lease_def members_def simp del: regular_of.simps live_of.simps)
    with fresh(1) show ?thesis by (simp add: h)
  next
    case full
    with e same same1 show ?thesis by auto
  next
    case given
    have "watch_ok c own m \<lparr>sw_store = r2, admitted = A, leased = ?L, stands_for = st(l := rid)\<rparr>"
      by (rule watch_lease [OF purged]) (use given(2-) own fresh1 rid1 in auto)
    then show ?thesis using e same by (cases "db w' = r2") auto
  qed
  then show ?thesis by (cases "res = Inr True") (simp_all add: h)
qed

lemma leasing_others:
  assumes "own \<noteq> Account a" and "own \<noteq> User u"
  shows "tended_owner c own (db w) (db (snd (AcquireLiveLease a amax u umax key l b w)))"
proof -
  let ?st = "acquireLiveLeaseScript (lease_keys a u key) amax umax liveLeaseTTLSeconds l (if b then 1 else 0)"
  obtain x r2 where x: "?st (db w) = (x, r2)" by (cases "?st (db w)")
  let ?r1 = "purged_lease a u key (db w)"
  have 1: "tended_owner c own (db w) ?r1" by (rule tended_owner [OF purged_lease_tended])
  have "tended_owner c own (db w) r2"
    using refl x
  proof (cases rule: acquireLiveLeaseScript_cases)
    case given
    have "tended_key k ttl (db w) r2" if "tended_key k ttl (db w) ?r1" "zset r2 k = zset ?r1 k" "zset_expiry r2 k = zset_expiry ?r1 k"
      for k ttl
      using that by (simp add: tended_key_def)
    then show ?thesis using 1 given(2-) assms by (simp add: tended_owner_def)
  qed (use 1 in simp_all)
  moreover have "db (snd (AcquireLiveLease a amax u umax key l b w)) = db w \<or> db (snd (AcquireLiveLease a amax u umax key l b w)) = r2"
  proof -
    obtain y w1 where "redis_call ?st w = (y, w1)" by (cases "redis_call ?st w")
    then show ?thesis using x by (auto simp: AcquireLiveLease_def elim!: redis_call_cases)
  qed
  ultimately show ?thesis using tended_owner [OF tended_refl] by metis
qed

lemma owns_all_Cons:
  "owns_all bound l (k0 # ks) r = (ok, r1) \<Longrightarrow>
     \<not> ok \<and> r1 = zremrange k0 bound r \<or>
     ZSCORE l (zset (zremrange k0 bound r) k0) \<noteq> None \<and> owns_all bound l ks (zremrange k0 bound r) = (ok, r1)"
  by (auto simp: Let_def split: if_splits)

lemma owns_all_keeps:
  assumes "owns_all bound l ks r = (ok, r1)"
  shows "redis_ms r1 = redis_ms r" and "e \<in> set (zset r k) \<Longrightarrow> bound < snd e \<Longrightarrow> e \<in> set (zset r1 k)"
  using assms
proof (induction ks arbitrary: r)
  case (Cons k0 ks)
  { case 1
    then show ?case using owns_all_Cons Cons.IH(1) redis_ms_commands(4) by metis
  next
    case 2
    then have "e \<in> set (zset (zremrange k0 bound r) k)" by (cases "k = k0") simp_all
    with 2 owns_all_Cons [OF 2(3)] Cons.IH(2) [of "zremrange k0 bound r"] show ?case by blast
  }
qed simp_all

lemma owns_all_owned:
  assumes "owns_all bound l ks r = (True, r1)" and "k \<in> set ks"
  shows "\<exists>s. (l, s) \<in> set (zset r1 k) \<and> bound < s"
  using assms
proof (induction ks arbitrary: r)
  case (Cons k0 ks)
  let ?r = "zremrange k0 bound r"
  have n: "ZSCORE l (zset ?r k0) \<noteq> None" "owns_all bound l ks ?r = (True, r1)"
    using owns_all_Cons [OF Cons.prems(1)] by simp_all
  show ?case
  proof (cases "k = k0")
    case True
    obtain s where s: "(l, s) \<in> set (zset ?r k0)" using n(1) by (auto simp: ZSCORE_def dest: map_of_SomeD)
    then have "bound < s" by auto
    with owns_all_keeps(2) [OF n(2), of "(l, s)" k0] s True show ?thesis by auto
  next
    case False
    with Cons.prems(2) have "k \<in> set ks" by simp
    with Cons.IH [OF n(2)] show ?thesis by blast
  qed
qed simp

lemma owns_all_tended:
  assumes "owns_all bound l ks r = (ok, r1)" and "\<And>k. k \<in> set ks \<Longrightarrow> old_enough c k bound (redis_TIME r)"
  shows "tended c r r1"
  using assms
proof (induction ks arbitrary: r)
  case (Cons k ks)
  have "tended c r (zremrange k bound r)" using Cons.prems(2) by simp
  moreover have "tended c (zremrange k bound r) r1"
    using Cons.IH [of "zremrange k bound r"] Cons.prems by (auto simp: Let_def tended_refl split: if_splits)
  ultimately show ?case by (rule tended_trans)
qed (simp add: tended_refl)

lemma refreshLiveLeaseScript_cases:
  fixes a u key
  defines "ks \<equiv> [live_of (Account a), live_of (User u), liveAPIKeySlotKey key]"
  assumes "refreshLiveLeaseScript ks liveLeaseTTLSeconds l r = (x, r')"
  obtains r1 where "tended c r r1" and "x = 0" and "r' = r1"
  | r1 where "tended c r r1" and "x = 1" and "redis_ms r' = redis_ms r1"
      "\<And>s. zset r' (regular_of s) = zset r1 (regular_of s)" "\<And>s. zset_expiry r' (regular_of s) = zset_expiry r1 (regular_of s)"
      "\<And>s. zset r' (live_of s) = (if s = Account a \<or> s = User u then ZADD l (redis_TIME r1) (zset r1 (live_of s)) else zset r1 (live_of s))"
      "\<And>s. zset_expiry r' (live_of s) =
         (if s = Account a \<or> s = User u then Some (redis_ms r1 + 60 * 1000) else zset_expiry r1 (live_of s))"
      "\<And>s. s = Account a \<or> s = User u \<Longrightarrow> \<exists>v. (l, v) \<in> set (zset r1 (live_of s)) \<and> redis_TIME r1 - liveLeaseTTLSeconds < v"
proof -
  obtain ok r1 where 1: "owns_all (redis_TIME r - liveLeaseTTLSeconds) l ks r = (ok, r1)"
    by (cases "owns_all (redis_TIME r - liveLeaseTTLSeconds) l ks r")
  have t: "tended c r r1" by (rule owns_all_tended [OF 1]) (auto simp: ks_def simp del: regular_of.simps live_of.simps)
  have time: "redis_TIME r1 = redis_TIME r" by (rule tended_TIME [OF t])
  show ?thesis
  proof (cases ok)
    case False
    with assms(2) 1 t that(1) show ?thesis by (simp add: refreshLiveLeaseScript_def Let_def)
  next
    case True
    have r': "x = 1" "r' = renew_all (redis_TIME r1) 60 l ks r1"
      using assms(2) 1 True by (simp_all add: refreshLiveLeaseScript_def Let_def time)
    have there: "\<exists>v. (l, v) \<in> set (zset r1 (live_of s)) \<and> redis_TIME r1 - liveLeaseTTLSeconds < v"
      if "s = Account a \<or> s = User u" for s
      using owns_all_owned [of _ l ks r r1 "live_of s"] 1 True that by (auto simp: ks_def time simp del: regular_of.simps live_of.simps)
    show ?thesis
      by (rule that(2) [OF t r'(1)]) (use there in \<open>auto simp: r'(2) ks_def simp del: regular_of.simps live_of.simps\<close>)
  qed
qed

lemma live_keys_of: "[liveAccountSlotKey a, liveUserSlotKey u, k] = [live_of (Account a), live_of (User u), k]"
  by simp

lemma RefreshLiveLease_result:
  assumes "RefreshLiveLease a u key l w = (res, w')"
    and "refreshLiveLeaseScript [live_of (Account a), live_of (User u), liveAPIKeySlotKey key] liveLeaseTTLSeconds l (db w) = (x, r2)"
  shows "(res = Inr True \<longrightarrow> db w' = r2 \<and> x = 1) \<and> (db w' = db w \<or> db w' = r2)"
  using assms unfolding RefreshLiveLease_def live_keys_of
  by (auto split: if_splits sum.splits prod.splits elim!: redis_call_cases simp del: regular_of.simps live_of.simps)

lemma renewing_ok:
  assumes ok: "watch_ok c own m h" and s: "RefreshLiveLease a u key l \<lparr>db = sw_store h, faults = fs\<rparr> = (res, w')"
    and own: "own = Account a \<or> own = User u" and l: "leased h l = Some (s0, rid)"
  shows "watch_ok c own m (h\<lparr>sw_store := db w',
    leased := (if res = Inr True then (leased h)(l \<mapsto> (redis_TIME (sw_store h), rid)) else leased h)\<rparr>)"
proof -
  obtain r A L st where h: "h = \<lparr>sw_store = r, admitted = A, leased = L, stands_for = st\<rparr>" by (cases h)
  let ?st = "refreshLiveLeaseScript [live_of (Account a), live_of (User u), liveAPIKeySlotKey key] liveLeaseTTLSeconds l"
  obtain x r2 where x: "?st r = (x, r2)" by (cases "?st r")
  have e: "(res = Inr True \<longrightarrow> db w' = r2 \<and> x = 1) \<and> (db w' = r \<or> db w' = r2)"
    using RefreshLiveLease_result [OF s, of x r2] x by (simp add: h)
  let ?L = "if res = Inr True then L(l \<mapsto> (redis_TIME r, rid)) else L"
  have "watch_ok c own m \<lparr>sw_store = db w', admitted = A, leased = ?L, stands_for = st\<rparr>"
    using x
  proof (cases rule: refreshLiveLeaseScript_cases [where c = c])
    case (1 r1)
    with e ok watch_tended_only [OF ok tended_owner, of r1] show ?thesis by (auto simp: h)
  next
    case (2 r1)
    have p: "watch_ok c own m \<lparr>sw_store = r1, admitted = A, leased = L, stands_for = st\<rparr>"
      using watch_tended_only [OF ok tended_owner [of c _ r1]] 2(1) by (simp add: h)
    obtain v where v: "(l, v) \<in> set (zset r1 (live_of own))" "redis_TIME r1 - liveLeaseTTLSeconds < v" using 2(8) own by blast
    have "watch_ok c own m \<lparr>sw_store = r2, admitted = A, leased = ?L, stands_for = st\<rparr>"
      by (rule watch_renew [OF p _ _ _ _ _ v]) (use 2 own l tended_TIME [OF 2(1)] in \<open>auto simp: h\<close>)
    then show ?thesis using e ok by (cases "db w' = r2") (auto simp: h)
  qed
  then show ?thesis by (cases "res = Inr True") (simp_all add: h)
qed

lemma renewing_others:
  assumes "own \<noteq> Account a" and "own \<noteq> User u"
  shows "tended_owner c own (db w) (db (snd (RefreshLiveLease a u key l w)))"
proof -
  let ?st = "refreshLiveLeaseScript [live_of (Account a), live_of (User u), liveAPIKeySlotKey key] liveLeaseTTLSeconds l"
  obtain x r2 where x: "?st (db w) = (x, r2)" by (cases "?st (db w)")
  have "tended_owner c own (db w) r2"
    using x
  proof (cases rule: refreshLiveLeaseScript_cases [where c = c])
    case (1 r1)
    then show ?thesis using tended_owner by blast
  next
    case (2 r1)
    have "tended_key k ttl (db w) r2" if "tended_key k ttl (db w) r1" "zset r2 k = zset r1 k" "zset_expiry r2 k = zset_expiry r1 k"
      for k ttl
      using that by (simp add: tended_key_def)
    then show ?thesis using tended_owner [OF 2(1), of own] 2(3-7) assms by (simp add: tended_owner_def)
  qed
  moreover have "db (snd (RefreshLiveLease a u key l w)) = db w \<or> db (snd (RefreshLiveLease a u key l w)) = r2"
    using RefreshLiveLease_result [OF _ x, of "fst (RefreshLiveLease a u key l w)" "snd (RefreshLiveLease a u key l w)"] by auto
  ultimately show ?thesis using tended_owner [OF tended_refl] by metis
qed

lemma ReleaseLiveLease_result:
  assumes "ReleaseLiveLease a u key l w = (res, w')"
  shows "db w' = db w \<or>
    db w' = zrem (liveAPIKeySlotKey key) l (zrem (live_of (User u)) l (zrem (live_of (Account a)) l (db w)))"
  using assms by (auto simp: ReleaseLiveLease_def split: if_splits elim!: redis_call_cases)

lemma returning_ok:
  assumes ok: "watch_ok c own m h" and s: "ReleaseLiveLease a u key l \<lparr>db = sw_store h, faults = fs\<rparr> = (res, w')"
    and own: "own = Account a \<or> own = User u"
  shows "watch_ok c own m (h\<lparr>sw_store := db w', leased := (leased h)(l := None)\<rparr>)"
proof -
  obtain r A L st where h: "h = \<lparr>sw_store = r, admitted = A, leased = L, stands_for = st\<rparr>" by (cases h)
  let ?r' = "zrem (liveAPIKeySlotKey key) l (zrem (live_of (User u)) l (zrem (live_of (Account a)) l r))"
  have fewer: "L(l := None) \<subseteq>\<^sub>m L" by (auto simp: map_le_def)
  have "watch_ok c own m \<lparr>sw_store = ?r', admitted = A, leased = L(l := None), stands_for = st\<rparr>"
    by (rule watch_unlease [OF ok [unfolded h]]) (use own in \<open>auto simp del: regular_of.simps live_of.simps\<close>)
  moreover have "watch_ok c own m \<lparr>sw_store = r, admitted = A, leased = L(l := None), stands_for = st\<rparr>"
    using watch_tended [OF ok tended_owner [OF tended_refl] map_le_refl, of "L(l := None)"] fewer by (simp add: h)
  moreover have "db w' = r \<or> db w' = ?r'" using ReleaseLiveLease_result [OF s] by (simp add: h del: regular_of.simps live_of.simps)
  ultimately show ?thesis by (auto simp: h)
qed

lemma tended_owner_refl: "tended_owner c own r r"
  by (rule tended_owner [OF tended_refl])

lemma tended_owner_same:
  assumes "tended_owner c own r r1" and "redis_ms r' = redis_ms r1"
    and "zset r' (regular_of own) = zset r1 (regular_of own)" and "zset_expiry r' (regular_of own) = zset_expiry r1 (regular_of own)"
    and "zset r' (live_of own) = zset r1 (live_of own)" and "zset_expiry r' (live_of own) = zset_expiry r1 (live_of own)"
  shows "tended_owner c own r r'"
  using assms by (simp add: tended_owner_def tended_key_def)

lemma tended_owner_trans:
  assumes "tended_owner c own r r1" and "tended c r1 r'"
  shows "tended_owner c own r r'"
proof -
  have ms: "redis_ms r1 = redis_ms r" "redis_ms r' = redis_ms r" and t: "redis_TIME r1 = redis_TIME r"
    using assms by (auto simp: tended_owner_def tended_def redis_TIME_def)
  have "tended_key k ttl r r'" if "tended_key k ttl r r1" "tended_key k ttl r1 r'" for k ttl
  proof -
    have "set (zset r' k) \<subseteq> set (zset r k)" using that by (auto simp: tended_key_def)
    moreover have "\<forall>e \<in> set (zset r k). redis_TIME r - ttl < snd e \<longrightarrow> e \<in> set (zset r' k)"
      using that by (simp add: tended_key_def t)
    moreover have "zset r1 k = [] \<Longrightarrow> zset r' k = []" using that(2) by (simp add: tended_key_def)
    ultimately show ?thesis using that unfolding tended_key_def ms(1) by metis
  qed
  then show ?thesis using assms(1) tended_owner [OF assms(2), of own] ms by (simp add: tended_owner_def)
qed

lemma returning_others:
  assumes "own \<noteq> Account a" and "own \<noteq> User u"
  shows "tended_owner c own (db w) (db (snd (ReleaseLiveLease a u key l w)))"
proof -
  have d: "db (snd (ReleaseLiveLease a u key l w)) = db w \<or> db (snd (ReleaseLiveLease a u key l w)) =
      zrem (liveAPIKeySlotKey key) l (zrem (live_of (User u)) l (zrem (live_of (Account a)) l (db w)))"
    by (rule ReleaseLiveLease_result [of _ _ _ _ _ "fst (ReleaseLiveLease a u key l w)"]) simp
  have "tended_owner c own (db w) (zrem (liveAPIKeySlotKey key) l (zrem (live_of (User u)) l (zrem (live_of (Account a)) l (db w))))"
    by (rule tended_owner_same [OF tended_owner_refl]) (use assms in \<open>auto simp del: regular_of.simps live_of.simps\<close>)
  with d show ?thesis using tended_owner_refl [of c own "db w"] by auto
qed

lemma acquiring_others:
  assumes "other \<noteq> own" and "0 < slotTTLSeconds c"
  shows "tended_owner c own (db w) (db (snd (AcquireSlot c other k rid w)))"
proof -
  let ?st = "acquireScript (regular_of other) (live_of other) k (slotTTLSeconds c) rid"
  let ?r1 = "zremrange (live_of other) (redis_TIME (db w) - 60)
      (zremrange (regular_of other) (redis_TIME (db w) - slotTTLSeconds c) (db w))"
  obtain x r2 where x: "?st (db w) = (x, r2)" by (cases "?st (db w)")
  note cs = acquireScript_cases [OF x]
  have 1: "tended_owner c own (db w) ?r1" using tended_owner cs(1) by blast
  have "r2 = ?r1 \<or> r2 = expire_zset (regular_of other) (slotTTLSeconds c) (zadd (regular_of other) (redis_TIME (db w)) rid ?r1)"
    using cs(2) by blast
  then have 2: "tended_owner c own (db w) r2"
    using 1 assms tended_owner_same [OF 1, of r2] by auto
  obtain y w1 where c1: "redis_call ?st w = (y, w1)" by (cases "redis_call ?st w")
  have "db w1 = db w \<or> db w1 = r2" using c1 x by (auto elim!: redis_call_cases)
  moreover have "tended c (db w1) (db (snd (AcquireSlot c other k rid w)))"
    by (auto simp: AcquireSlot_unfold c1 tended_refl touch_tended split: sum.split prod.split)
  ultimately show ?thesis using 2 tended_owner_trans tended_owner_refl by metis
qed

lemma releasing_others:
  assumes "other \<noteq> own"
  shows "tended_owner c own (db w) (db (snd (ReleaseSlot c other rid w)))"
proof -
  obtain r1 where r1: "r1 = db w \<or> r1 = zrem (regular_of other) rid (db w)"
    and t: "tended c r1 (db (snd (ReleaseSlot c other rid w)))"
    by (rule ReleaseSlot_tended [of c other rid w "fst (ReleaseSlot c other rid w)" "snd (ReleaseSlot c other rid w)"]) auto
  have "tended_owner c own (db w) (zrem (regular_of other) rid (db w))"
    by (rule tended_owner_same [OF tended_owner_refl]) (use assms in auto)
  with r1 t show ?thesis using tended_owner_trans tended_owner_refl by metis
qed

lemma watch_step_ok:
  assumes "watch_step c own m h h'" and "watch_ok c own m h" and "0 < slotTTLSeconds c"
  shows "watch_ok c own m h'"
  using assms(1,2)
proof cases
  case (passing ms)
  then show ?thesis using watch_later [OF assms(2) _ assms(3)] by simp
next
  case (acquiring k rid fs res w')
  then show ?thesis using acquiring_ok [OF assms(2,3)] by simp
next
  case (releasing rid fs res w')
  then show ?thesis using releasing_ok [OF assms(2)] by simp
next
  case (leasing a amax u umax key l fs res w' rid)
  then show ?thesis using leasing_ok [OF assms(2) leasing(2)] by simp
next
  case (renewing a u key l fs res w' s rid)
  then show ?thesis using renewing_ok [OF assms(2) renewing(2)] by simp
next
  case (returning a u key l fs res w')
  then show ?thesis using returning_ok [OF assms(2) returning(2)] by simp
next
  case (tending fs w')
  then show ?thesis using watch_tended_only [OF assms(2) tended_owner] upkeep_tended [OF tending(2) assms(3)] by simp
next
  case (others_acquire other k rid fs)
  then show ?thesis using watch_tended_only [OF assms(2)] acquiring_others [OF _ assms(3), of other own "\<lparr>db = sw_store h, faults = fs\<rparr>"] by simp
next
  case (others_release other rid fs)
  then show ?thesis using watch_tended_only [OF assms(2)] releasing_others [of other own c "\<lparr>db = sw_store h, faults = fs\<rparr>"] by simp
next
  case (others_lease a u amax umax key l b fs)
  then show ?thesis using watch_tended_only [OF assms(2)] leasing_others [of own a u c "\<lparr>db = sw_store h, faults = fs\<rparr>"] by simp
next
  case (others_renew a u key l fs)
  then show ?thesis using watch_tended_only [OF assms(2)] renewing_others [of own a u c "\<lparr>db = sw_store h, faults = fs\<rparr>"] by simp
next
  case (others_return a u key l fs)
  then show ?thesis using watch_tended_only [OF assms(2)] returning_others [of own a u c "\<lparr>db = sw_store h, faults = fs\<rparr>"] by simp
qed

section \<open>The limit\<close>

definition empty_store :: "int \<Rightarrow> redis_store" where
  "empty_store ms = \<lparr>redis_ms = ms, zsets = Map.empty, numbers = Map.empty\<rparr>"

definition new_watch :: "int \<Rightarrow> slot_watch" where
  "new_watch ms = \<lparr>sw_store = empty_store ms, admitted = Map.empty, leased = Map.empty, stands_for = (\<lambda>l. l)\<rparr>"

lemma zset_empty_store [simp]: "zset (empty_store ms) k = []"
  by (simp add: zset_def empty_store_def)

lemma new_watch_ok: "0 \<le> m \<Longrightarrow> watch_ok c own m (new_watch ms)"
  by (simp add: watch_ok_def slots_kept_def kept_alive_def new_watch_def sessions_def)

lemma slot_ttl_positive: "0 < slotTTLSeconds (NewConcurrencyCache t t')"
  by (simp add: NewConcurrencyCache_def defaultSlotTTLMinutes_def)

text \<open>
  C38. However the instances of the gateway call the cache, whatever calls are lost, no more requests than
  the limit are admitted at a time to an account or a user: requests that were told to have a slot that they
  have not given back and that has not expired, and live sessions that took a lease in exchange for a slot
  and keep it. Only the cleaning at the start of an instance is not among the calls.
\<close>

theorem slots_never_exceed_the_limit:
  assumes "(watch_step (NewConcurrencyCache t t') own m)\<^sup>*\<^sup>* (new_watch ms) h" and "0 \<le> m"
  shows "finite (holders (NewConcurrencyCache t t') h) \<and> int (card (holders (NewConcurrencyCache t t') h)) \<le> m"
proof -
  have ok: "watch_ok (NewConcurrencyCache t t') own m h"
    using assms(1) by (induction rule: rtranclp_induct) (auto intro: new_watch_ok assms(2) watch_step_ok slot_ttl_positive)
  note sub = holders_are_sessions [OF ok]
  show ?thesis
    using card_shrinks [OF sub finite_sessions watch_okD(3) [OF ok]] finite_subset [OF sub finite_sessions] by blast
qed

text \<open>An acquisition that nothing disturbs, as a step of the history.\<close>

definition acquired :: "concurrency_cache \<Rightarrow> slot_owner \<Rightarrow> int \<Rightarrow> string \<Rightarrow> slot_watch \<Rightarrow> slot_watch" where
  "acquired c own k rid h =
     (case AcquireSlot c own k rid \<lparr>db = sw_store h, faults = []\<rparr> of (res, w') \<Rightarrow>
        h\<lparr>sw_store := db w',
          admitted := (if res = Inr True then (admitted h)(rid \<mapsto> redis_TIME (sw_store h)) else admitted h)\<rparr>)"

lemma acquired_step: "k \<le> m \<Longrightarrow> watch_step c own m h (acquired c own k rid h)"
proof -
  assume k: "k \<le> m"
  obtain res w' where e: "AcquireSlot c own k rid \<lparr>db = sw_store h, faults = []\<rparr> = (res, w')"
    by (cases "AcquireSlot c own k rid \<lparr>db = sw_store h, faults = []\<rparr>")
  show ?thesis unfolding acquired_def e prod.case by (rule acquiring [OF e k])
qed

lemma redis_call_reliable [simp]:
  "faults w = [] \<Longrightarrow> redis_call st w = (Inr (fst (st (db w))), w\<lparr>db := snd (st (db w))\<rparr>)"
  by (simp add: redis_call_def db_exec_reliable case_prod_unfold)

lemma touch_reliable [simp]:
  "faults w = [] \<Longrightarrow> 0 < i \<Longrightarrow> 0 < e \<Longrightarrow> touchActiveIndexAt ik i e w = w\<lparr>db := zadd ik e (itoa i) (db w)\<rparr>"
  by (simp add: touchActiveIndexAt_def)

lemma acquire_reliable:
  fixes r c s
  defines "r1 \<equiv> zremrange (live_of s) (redis_TIME r - 60) (zremrange (regular_of s) (redis_TIME r - slotTTLSeconds c) r)"
  assumes "0 < id_of s" and "0 < redis_TIME r + slotTTLSeconds c" and "rid \<notin> members (zset r1 (regular_of s))"
  shows "AcquireSlot c s k rid \<lparr>db = r, faults = []\<rparr> =
    (if ZCARD (zset r1 (regular_of s)) + ZCARD (zset r1 (live_of s)) < k
     then (Inr True, \<lparr>db = zadd (index_of s) (redis_TIME r + slotTTLSeconds c) (itoa (id_of s))
             (expire_zset (regular_of s) (slotTTLSeconds c) (zadd (regular_of s) (redis_TIME r) rid r1)), faults = []\<rparr>)
     else (Inr False, \<lparr>db = r1, faults = []\<rparr>))"
proof -
  have n: "ZSCORE rid (zset r1 (regular_of s)) = None"
    using assms(4) by (simp add: ZSCORE_def members_def map_of_eq_None_iff)
  have "acquireScript (regular_of s) (live_of s) k (slotTTLSeconds c) rid r =
      (if ZCARD (zset r1 (regular_of s)) + ZCARD (zset r1 (live_of s)) < k
       then ((1, redis_TIME r), expire_zset (regular_of s) (slotTTLSeconds c) (zadd (regular_of s) (redis_TIME r) rid r1))
       else ((0, redis_TIME r), r1))"
    unfolding acquireScript_def Let_def r1_def [symmetric] using n by simp
  then show ?thesis using assms(2,3) by (simp add: AcquireSlot_unfold)
qed

lemma index_unslotted [simp]:
  "regular_of s \<noteq> accountActiveIndexKey" "live_of s \<noteq> accountActiveIndexKey" "regular_of s \<noteq> userActiveIndexKey"
  "live_of s \<noteq> userActiveIndexKey" "accountActiveIndexKey \<noteq> regular_of s" "userActiveIndexKey \<noteq> regular_of s"
  "accountActiveIndexKey \<noteq> live_of s" "userActiveIndexKey \<noteq> live_of s"
  using unslotted_keys(1,2) by (metis unslotted_def)+

theorem slots_never_exceed_the_limit_witness:
  "let c = NewConcurrencyCache 15 0; s = Account 7;
       h = acquired c s 1 ''r1-2'' (acquired c s 1 ''r1-1'' (new_watch 5000))
   in (watch_step c s 1)\<^sup>*\<^sup>* (new_watch 5000) h \<and> holders c h = {''r1-1''} \<and> int (card (holders c h)) \<le> 1"
proof -
  let ?c = "NewConcurrencyCache 15 0"
  let ?h1 = "acquired ?c (Account 7) 1 ''r1-1'' (new_watch 5000)"
  let ?h = "acquired ?c (Account 7) 1 ''r1-2'' ?h1"
  have r: "(watch_step ?c (Account 7) 1)\<^sup>*\<^sup>* (new_watch 5000) ?h"
    using acquired_step [of 1 1 ?c "Account 7"] by (meson order_refl rtranclp.rtrancl_into_rtrancl rtranclp.rtrancl_refl)
  have ttl: "slotTTLSeconds ?c = 900" by (simp add: NewConcurrencyCache_def)
  have t: "redis_TIME (empty_store 5000) = 5" by (simp add: redis_TIME_def empty_store_def)
  note simps = acquired_def acquire_reliable new_watch_def t ttl members_def ZCARD_def ZADD_def ZREM_def ZREMRANGE_upto_def
  have h1: "admitted ?h1 = [''r1-1'' \<mapsto> 5]" "leased ?h1 = Map.empty" "redis_TIME (sw_store ?h1) = 5"
      "zset (sw_store ?h1) (regular_of (Account 7)) = [(''r1-1'', 5)]" "zset (sw_store ?h1) (live_of (Account 7)) = []"
    by (simp_all add: simps del: regular_of.simps live_of.simps)
  have "admitted ?h = [''r1-1'' \<mapsto> 5]" "leased ?h = Map.empty" "redis_TIME (sw_store ?h) = 5"
    unfolding acquired_def [of ?c "Account 7" 1 "''r1-2''"]
    by (simp_all add: acquire_reliable h1 ttl members_def ZCARD_def ZREMRANGE_upto_def del: regular_of.simps live_of.simps)
  then have "holders ?c ?h = {''r1-1''}" by (auto simp: holders_def has_slot_def ttl)
  with r slots_never_exceed_the_limit [OF r] show ?thesis by (simp add: Let_def)
qed


section \<open>The start of an instance\<close>

text \<open>
  C39. An instance that starts takes the slots of the running instances away: with a limit of one, a request
  of the new instance is admitted while the request of another instance still holds its slot.
\<close>

theorem starting_instance_frees_foreign_slots:
  fixes i ms :: int
  defines "c \<equiv> NewConcurrencyCache 15 0"
  assumes i: "0 < i" "i < 2 ^ 63" and ms: "0 \<le> ms"
    and foreign: "active \<noteq> ''''" "\<not> HasPrefix rid active" and rid: "rid' \<noteq> rid"
  shows "\<exists>w1 w2 w3.
    AcquireAccountSlot c i 1 rid \<lparr>db = empty_store ms, faults = []\<rparr> = (Inr True, w1) \<and>
    fst (AcquireAccountSlot c i 1 rid' w1) = Inr False \<and>
    cache_CleanupStaleProcessSlots c active w1 = (Inr (), w2) \<and>
    AcquireAccountSlot c i 1 rid' w2 = (Inr True, w3)"
proof -
  let ?t = "ms div 1000"
  have ttl: "slotTTLSeconds c = 900" by (simp add: c_def NewConcurrencyCache_def)
  have time: "redis_TIME (empty_store ms) = ?t" by (simp add: redis_TIME_def empty_store_def)
  have num: "numbers (empty_store ms) = Map.empty" by (simp add: empty_store_def)
  have idx: "userActiveIndexKey \<noteq> accountActiveIndexKey" by (simp add: key_defs)
  have t0: "0 \<le> ?t" using ms by simp
  define r1 where "r1 = zadd accountActiveIndexKey (?t + 900) (itoa i) (expire_zset (regular_of (Account i)) 900
    (zadd (regular_of (Account i)) ?t rid (zremrange (live_of (Account i)) (?t - 60)
      (zremrange (regular_of (Account i)) (?t - 900) (empty_store ms)))))"
  have a: "AcquireAccountSlot c i 1 rid \<lparr>db = empty_store ms, faults = []\<rparr> = (Inr True, \<lparr>db = r1, faults = []\<rparr>)"
    using acquire_reliable [of "Account i" "empty_store ms" c rid 1] i t0
    by (simp add: AcquireSlot_def time ttl r1_def ZREMRANGE_upto_def members_def ZCARD_def
        del: regular_of.simps live_of.simps)
  have z1: "zset r1 (regular_of (Account i)) = [(rid, ?t)]" "zset r1 (live_of (Account i)) = []"
      "zset r1 accountActiveIndexKey = [(itoa i, ?t + 900)]" "zset r1 userActiveIndexKey = []"
      "redis_TIME r1 = ?t" "numbers r1 = Map.empty"
    using idx by (simp_all add: r1_def ZADD_def ZREM_def ZREMRANGE_upto_def time num del: regular_of.simps live_of.simps)
  have full: "fst (AcquireAccountSlot c i 1 rid' \<lparr>db = r1, faults = []\<rparr>) = Inr False"
    using acquire_reliable [of "Account i" r1 c rid' 1] i t0 rid
    by (simp add: AcquireSlot_def z1 ttl ZREMRANGE_upto_def members_def ZCARD_def del: regular_of.simps live_of.simps)
  define r2 where "r2 = redis_SET legacyWaitSweepMarkerKey 1 (delete_prefix waitQueueKeyPrefix (delete_prefix accountWaitKeyPrefix r1))"
  have sweep: "sweepLegacyWaitKeysOnce \<lparr>db = r1, faults = []\<rparr> = (Inr (), \<lparr>db = r2, faults = []\<rparr>)"
    by (simp add: sweepLegacyWaitKeysOnce_def redis_GET_def live_value_def z1 r2_def)
  have np: "\<not> HasPrefix accountActiveIndexKey accountWaitKeyPrefix" "\<not> HasPrefix accountActiveIndexKey waitQueueKeyPrefix"
    "\<not> HasPrefix userActiveIndexKey accountWaitKeyPrefix" "\<not> HasPrefix userActiveIndexKey waitQueueKeyPrefix"
    by (simp_all add: key_defs HasPrefix_def)
  have z2: "zset r2 (regular_of (Account i)) = [(rid, ?t)]" "zset r2 (live_of (Account i)) = []"
      "zset r2 accountActiveIndexKey = [(itoa i, ?t + 900)]" "zset r2 userActiveIndexKey = []" "redis_TIME r2 = ?t"
    using z1 np by (simp_all add: r2_def redis_TIME_def del: regular_of.simps live_of.simps)
  define r3 where "r3 = redis_DEL (accountWaitKey i) (redis_DEL (regular_of (Account i)) (zrem (regular_of (Account i)) rid r2))"
  have script: "startupCleanupSlotScript (regular_of (Account i)) active 900 r2 =
      ((1, 0), redis_DEL (regular_of (Account i)) (zrem (regular_of (Account i)) rid r2))"
    using foreign by (simp add: startupCleanupSlotScript_def z2 ZRANGE_all_def ZSCORE_def ZCARD_def ZREM_def
        del: regular_of.simps live_of.simps)
  have k: "slotKey accountSlotIndex = (\<lambda>j. regular_of (Account j))" "waitKey accountSlotIndex = accountWaitKey"
    "indexKey accountSlotIndex = accountActiveIndexKey" "indexKey userSlotIndex = userActiveIndexKey"
    by (auto simp: accountSlotIndex_def userSlotIndex_def)
  have members: "cleanup_members c accountSlotIndex active ?t [itoa i] \<lparr>db = r2, faults = []\<rparr> =
      (Inr ([itoa i], []), \<lparr>db = r3, faults = []\<rparr>)"
    using i by (simp add: ParseInt_itoa k ttl script r3_def del: regular_of.simps live_of.simps)
  define r4 where "r4 = zrem accountActiveIndexKey (itoa i) r3"
  have z4: "zset r4 (regular_of (Account i)) = []" "zset r4 (live_of (Account i)) = []" "zset r4 userActiveIndexKey = []"
      "redis_TIME r4 = ?t"
    using z2 unslotted_keys(7) [of i]
    by (auto simp: r4_def r3_def unslotted_def simp del: regular_of.simps live_of.simps)
  have acct: "cleanupStaleProcessSlotsForIndex c accountSlotIndex [itoa i] active ?t \<lparr>db = r2, faults = []\<rparr> =
      (Inr (), \<lparr>db = r4, faults = []\<rparr>)"
    unfolding cleanupStaleProcessSlotsForIndex_def members
    by (simp add: k refresh_index_members_def removeActiveIndexMembers_def r4_def)
  have usr: "cleanupStaleProcessSlotsForIndex c userSlotIndex [] active ?t \<lparr>db = r4, faults = []\<rparr> =
      (Inr (), \<lparr>db = r4, faults = []\<rparr>)"
    by (simp add: cleanupStaleProcessSlotsForIndex_def refresh_index_members_def removeActiveIndexMembers_def)
  have idxs: "allIndexMembers accountActiveIndexKey \<lparr>db = r2, faults = []\<rparr> = (Inr [itoa i], \<lparr>db = r2, faults = []\<rparr>)"
    "allIndexMembers userActiveIndexKey \<lparr>db = r4, faults = []\<rparr> = (Inr [], \<lparr>db = r4, faults = []\<rparr>)"
    by (simp_all add: allIndexMembers_def ZRANGE_all_def z2(3) z4(3))
  have now: "redisUnixSeconds \<lparr>db = r2, faults = []\<rparr> = (Inr ?t, \<lparr>db = r2, faults = []\<rparr>)"
    by (simp add: redisUnixSeconds_def z2(5))
  have clean: "cache_CleanupStaleProcessSlots c active \<lparr>db = r1, faults = []\<rparr> = (Inr (), \<lparr>db = r4, faults = []\<rparr>)"
    using foreign(1) by (simp add: cache_CleanupStaleProcessSlots_def sweep now idxs acct usr)
  have again: "\<exists>w3. AcquireAccountSlot c i 1 rid' \<lparr>db = r4, faults = []\<rparr> = (Inr True, w3)"
    using acquire_reliable [of "Account i" r4 c rid' 1] i t0
    by (simp add: AcquireSlot_def z4 ttl ZREMRANGE_upto_def members_def ZCARD_def del: regular_of.simps live_of.simps)
  show ?thesis using a full clean again by blast
qed

theorem starting_instance_frees_foreign_slots_witness:
  "\<exists>w1 w2 w3.
    AcquireAccountSlot (NewConcurrencyCache 15 0) 7 1 ''r1-1'' \<lparr>db = empty_store 5000, faults = []\<rparr> = (Inr True, w1) \<and>
    fst (AcquireAccountSlot (NewConcurrencyCache 15 0) 7 1 ''r2-1'' w1) = Inr False \<and>
    cache_CleanupStaleProcessSlots (NewConcurrencyCache 15 0) ''r2'' w1 = (Inr (), w2) \<and>
    AcquireAccountSlot (NewConcurrencyCache 15 0) 7 1 ''r2-1'' w2 = (Inr True, w3)"
  by (rule starting_instance_frees_foreign_slots) (simp_all add: HasPrefix_def)

end
