(* ===== verification/Failover.thy ===== *)
theory Failover
  imports App_Errors Sha256
begin

text \<open>
  What a request does when an upstream account fails it: \<open>handler/failover_loop.go\<close>, and the loop of
  \<open>handler/gateway_handler.go\<close> around it. A round selects an account that the request has not excluded,
  admits it, forwards the request and, when the upstream fails it in a way that another attempt may mend,
  tries again: on the same account, on another one, or after a pause on the same accounts as before.

  What the scheduler, the profit gate, the upstream and the client do in a round is the round's data; the
  loop is a function of the list of the rounds. Times are instants of the wall clock.
\<close>

section \<open>Failures\<close>

datatype next_account_action = NextAccountLegacyRetry | NextAccountRetry | NextAccountStop

record failover_error =
  StatusCode :: int
  fe_ForceCacheBilling :: bool
  RetryableOnSameAccount :: bool
  SameAccountRetryDelay :: duration
  SameAccountRetryDeadline :: go_time
  SameAccountRetryMax :: int
  RequestScopedTransient :: bool
  NextAccountAction :: next_account_action

definition ShouldRetryNextAccount :: "failover_error \<Rightarrow> bool" where
  "ShouldRetryNextAccount e \<longleftrightarrow> NextAccountAction e \<noteq> NextAccountStop"

datatype failover_action = FailoverContinue | FailoverExhausted | FailoverCanceled

definition sameAccountRetryDelay :: duration where "sameAccountRetryDelay = 500 * Millisecond"
definition maxRequestScopedRetryDelay :: duration where "maxRequestScopedRetryDelay = 8 * Second"
definition singleAccountBackoffDelay :: duration where "singleAccountBackoffDelay = 2 * Second"
definition maxProfitVetoAttempts :: int where "maxProfitVetoAttempts = 10"
definition PlatformAntigravity :: string where "PlatformAntigravity = ''antigravity''"

section \<open>Retries on the same account\<close>

text \<open>The limit of an account in pool mode, from its decoded credential.\<close>

datatype credential_value = IntValue int | FloatValue rat | NumberValue string | TextValue string | OtherValue

definition defaultPoolModeRetryCount :: int where "defaultPoolModeRetryCount = 3"
definition maxPoolModeRetryCount :: int where "maxPoolModeRetryCount = 10"

definition parsePoolModeRetryCount :: "credential_value \<Rightarrow> int" where
  "parsePoolModeRetryCount value =
     (case value of
        IntValue n \<Rightarrow> n
      | FloatValue x \<Rightarrow> float_to_int64 x
      | NumberValue s \<Rightarrow> (case ParseInt s of Some n \<Rightarrow> n | None \<Rightarrow> defaultPoolModeRetryCount)
      | TextValue s \<Rightarrow> (case ParseInt (TrimSpace s) of Some n \<Rightarrow> n | None \<Rightarrow> defaultPoolModeRetryCount)
      | OtherValue \<Rightarrow> defaultPoolModeRetryCount)"

definition GetPoolModeRetryCount :: "bool \<Rightarrow> credential_value option \<Rightarrow> int" where
  "GetPoolModeRetryCount poolMode raw =
     (if \<not> poolMode then defaultPoolModeRetryCount
      else case raw of
        None \<Rightarrow> defaultPoolModeRetryCount
      | Some value \<Rightarrow>
          (let count = parsePoolModeRetryCount value
           in if count < 0 then 0 else if maxPoolModeRetryCount < count then maxPoolModeRetryCount else count))"

text \<open>The loop that doubles the delay.\<close>

fun double_delay :: "nat \<Rightarrow> duration \<Rightarrow> duration" where
  "double_delay 0 delay = delay"
| "double_delay (Suc n) delay =
     (if go_quot maxRequestScopedRetryDelay 2 \<le> delay then maxRequestScopedRetryDelay else double_delay n (delay * 2))"

definition sameAccountRetryDelayFor :: "failover_error \<Rightarrow> int \<Rightarrow> duration" where
  "sameAccountRetryDelayFor e retryCount =
     (if 0 < SameAccountRetryDelay e then SameAccountRetryDelay e
      else if \<not> RequestScopedTransient e \<or> retryCount \<le> 1 then sameAccountRetryDelay
      else double_delay (nat (retryCount - 1)) sameAccountRetryDelay)"

definition sameAccountRetryDeadlineAllows :: "go_time \<Rightarrow> failover_error \<Rightarrow> bool" where
  "sameAccountRetryDeadlineAllows now e \<longleftrightarrow>
     IsZero (SameAccountRetryDeadline e) \<or> Before now (SameAccountRetryDeadline e)"

definition sameAccountRetryAllowed :: "go_time \<Rightarrow> failover_error \<Rightarrow> int \<Rightarrow> int \<Rightarrow> bool" where
  "sameAccountRetryAllowed now e retryCount retryLimit \<longleftrightarrow>
     RetryableOnSameAccount e \<and> sameAccountRetryDeadlineAllows now e \<and>
     (if 0 < SameAccountRetryMax e
      then 0 < retryLimit \<and>
        retryCount < (if SameAccountRetryMax e < retryLimit then SameAccountRetryMax e else retryLimit)
      else if \<not> IsZero (SameAccountRetryDeadline e) then True
      else 0 < retryLimit \<and> retryCount < retryLimit)"

definition effectiveSameAccountRetryLimit :: "failover_error option \<Rightarrow> int option \<Rightarrow> int" where
  "effectiveSameAccountRetryLimit err account =
     (case account of
        None \<Rightarrow> 0
      | Some limit \<Rightarrow>
          (case err of
             Some e \<Rightarrow> if 0 < limit \<and> 0 < SameAccountRetryMax e \<and> SameAccountRetryMax e < limit
                       then SameAccountRetryMax e else limit
           | None \<Rightarrow> limit))"

definition needForceCacheBilling :: "bool \<Rightarrow> failover_error \<Rightarrow> bool \<Rightarrow> bool" where
  "needForceCacheBilling boundSession e sameAccountRetry \<longleftrightarrow>
     boundSession \<and> \<not> sameAccountRetry \<or> fe_ForceCacheBilling e"

section \<open>The state of a request\<close>

record failover_state =
  SwitchCount :: int
  MaxSwitches :: int
  FailedAccountIDs :: "int set"
  SameAccountRetryCount :: "int \<Rightarrow> int"
  LastFailoverErr :: "failover_error option"
  ForceCacheBilling :: bool
  hasBoundSession :: bool
  profitVetoedAccountIDs :: "int set"
  profitVetoCount :: int

definition NewFailoverState :: "int \<Rightarrow> bool \<Rightarrow> failover_state" where
  "NewFailoverState maxSwitches boundSession =
     \<lparr>SwitchCount = 0, MaxSwitches = maxSwitches, FailedAccountIDs = {}, SameAccountRetryCount = (\<lambda>_. 0),
      LastFailoverErr = None, ForceCacheBilling = False, hasBoundSession = boundSession,
      profitVetoedAccountIDs = {}, profitVetoCount = 0\<rparr>"

definition RecordProfitVeto :: "int \<Rightarrow> failover_state \<Rightarrow> failover_action \<times> failover_state" where
  "RecordProfitVeto accountID s =
     (let s1 = s\<lparr>FailedAccountIDs := insert accountID (FailedAccountIDs s),
                 profitVetoedAccountIDs := insert accountID (profitVetoedAccountIDs s),
                 profitVetoCount := profitVetoCount s + 1\<rparr>
      in (if maxProfitVetoAttempts \<le> profitVetoCount s1 then FailoverExhausted else FailoverContinue, s1))"

definition allExclusionsAreProfitVetoed :: "failover_state \<Rightarrow> bool" where
  "allExclusionsAreProfitVetoed s \<longleftrightarrow>
     profitVetoedAccountIDs s \<noteq> {} \<and> FailedAccountIDs s \<noteq> {} \<and> FailedAccountIDs s \<subseteq> profitVetoedAccountIDs s"

text \<open>Whether a pause was slept to its end, given whether the client leaves in it.\<close>

definition sleepWithContext :: "bool \<Rightarrow> duration \<Rightarrow> bool" where
  "sleepWithContext leaves d \<longleftrightarrow> d \<le> 0 \<or> \<not> leaves"

text \<open>
  The answer to a failure, with the accounts it takes out of scheduling for a while. \<open>gone\<close> says that the
  client has left before, \<open>leaves\<close> that it leaves in the pause.
\<close>

definition HandleFailoverError ::
    "bool \<Rightarrow> bool \<Rightarrow> go_time \<Rightarrow> int \<Rightarrow> string \<Rightarrow> int \<Rightarrow> failover_error option \<Rightarrow> failover_state
      \<Rightarrow> failover_action \<times> int list \<times> failover_state" where
  "HandleFailoverError gone leaves now accountID platform retryLimit err s =
     (if gone then (FailoverCanceled, [], s)
      else
        (let s1 = s\<lparr>LastFailoverErr := err\<rparr> in
         case err of
           None \<Rightarrow> (FailoverExhausted, [], s1)
         | Some e \<Rightarrow>
             if \<not> ShouldRetryNextAccount e then (FailoverExhausted, [], s1)
             else
               (let retryCount = SameAccountRetryCount s1 accountID;
                    sameAccountRetry = sameAccountRetryAllowed now e retryCount retryLimit;
                    s2 = (if needForceCacheBilling (hasBoundSession s1) e sameAccountRetry
                          then s1\<lparr>ForceCacheBilling := True\<rparr> else s1)
                in if sameAccountRetry
                   then
                     (let s3 = s2\<lparr>SameAccountRetryCount := (SameAccountRetryCount s2)(accountID := retryCount + 1)\<rparr>
                      in (if sleepWithContext leaves (sameAccountRetryDelayFor e (retryCount + 1))
                          then FailoverContinue else FailoverCanceled, [], s3))
                   else
                     (let off = (if RetryableOnSameAccount e then [accountID] else []);
                          s3 = s2\<lparr>FailedAccountIDs := insert accountID (FailedAccountIDs s2)\<rparr>
                      in if MaxSwitches s3 \<le> SwitchCount s3 then (FailoverExhausted, off, s3)
                         else
                           (let s4 = s3\<lparr>SwitchCount := SwitchCount s3 + 1\<rparr>
                            in (if platform = PlatformAntigravity \<and>
                                   \<not> sleepWithContext leaves ((SwitchCount s4 - 1) * Second)
                                then FailoverCanceled else FailoverContinue, off, s4))))))"

definition HandleSelectionExhausted :: "bool \<Rightarrow> bool \<Rightarrow> failover_state \<Rightarrow> failover_action \<times> failover_state" where
  "HandleSelectionExhausted gone leaves s =
     (if gone then (FailoverCanceled, s)
      else case LastFailoverErr s of
        None \<Rightarrow> (FailoverExhausted, s)
      | Some e \<Rightarrow>
          if StatusCode e = 503 \<and> SwitchCount s \<le> MaxSwitches s
          then
            (if allExclusionsAreProfitVetoed s then (FailoverExhausted, s)
             else if \<not> sleepWithContext leaves singleAccountBackoffDelay then (FailoverCanceled, s)
             else (FailoverContinue, s\<lparr>FailedAccountIDs := profitVetoedAccountIDs s\<rparr>))
          else (FailoverExhausted, s))"

section \<open>The loop of a request\<close>

text \<open>
  What happens in a round: the selection (none, or an account with its platform and retry limit), what
  becomes of it before it is forwarded, and what the upstream does. \<open>Answered\<close> stands for every end of
  a forwarded request that is no failure to fail over from, \<open>Ended\<close> for every end before forwarding
  (an intercepted warm-up, no slot, a full queue, a failed wait).
\<close>

record selected_account =
  sa_ID :: int
  sa_Platform :: string
  sa_RetryLimit :: int

datatype admission = Admitted | Vetoed | Ended

datatype upstream = Answered | FailedOver failover_error bool

record round =
  gone :: bool
  leaves :: bool
  now :: go_time
  selection :: "selected_account option"
  admission :: admission
  upstream :: upstream

datatype loop_end =
    NoAccount
  | Exhausted "failover_error option"
  | VetoesExhausted
  | ClientGone
  | EndedBefore
  | Served
  | Truncated failover_error

text \<open>
  One round: how the loop ends, or the state it goes on with. A selection that fails before any account was
  excluded finds no account; a failure after the answer has begun cuts it off.
\<close>

definition select_failed :: "round \<Rightarrow> failover_state \<Rightarrow> loop_end option \<times> failover_state" where
  "select_failed r s =
     (if FailedAccountIDs s = {} then (Some NoAccount, s)
      else case HandleSelectionExhausted (gone r) (leaves r) s of
        (FailoverContinue, s1) \<Rightarrow> (None, s1)
      | (FailoverCanceled, s1) \<Rightarrow> (Some ClientGone, s1)
      | (FailoverExhausted, s1) \<Rightarrow> (Some (Exhausted (LastFailoverErr s1)), s1))"

definition forward_round :: "round \<Rightarrow> selected_account \<Rightarrow> failover_state \<Rightarrow> loop_end option \<times> failover_state" where
  "forward_round r a s =
     (case upstream r of
        Answered \<Rightarrow> (Some Served, s)
      | FailedOver e written \<Rightarrow>
          if written then (Some (Truncated e), s)
          else case HandleFailoverError (gone r) (leaves r) (now r) (sa_ID a) (sa_Platform a) (sa_RetryLimit a) (Some e) s of
            (FailoverContinue, _, s1) \<Rightarrow> (None, s1)
          | (FailoverExhausted, _, s1) \<Rightarrow> (Some (Exhausted (LastFailoverErr s1)), s1)
          | (FailoverCanceled, _, s1) \<Rightarrow> (Some ClientGone, s1))"

definition failover_round :: "round \<Rightarrow> failover_state \<Rightarrow> loop_end option \<times> failover_state" where
  "failover_round r s =
     (case selection r of
        None \<Rightarrow> select_failed r s
      | Some a \<Rightarrow>
          (case admission r of
             Ended \<Rightarrow> (Some EndedBefore, s)
           | Vetoed \<Rightarrow>
               (case RecordProfitVeto (sa_ID a) s of
                  (FailoverExhausted, s1) \<Rightarrow> (Some VetoesExhausted, s1)
                | (_, s1) \<Rightarrow> (None, s1))
           | Admitted \<Rightarrow> forward_round r a s))"

text \<open>The rounds up to the end: the end, if there is one among them, and the final state.\<close>

fun failover_loop :: "round list \<Rightarrow> failover_state \<Rightarrow> loop_end option \<times> failover_state" where
  "failover_loop [] s = (None, s)"
| "failover_loop (r # rs) s =
     (case failover_round r s of
        (Some end, s1) \<Rightarrow> (Some end, s1)
      | (None, s1) \<Rightarrow> failover_loop rs s1)"

end
