(* ===== verification/Failover_Facts.thy ===== *)
theory Failover_Facts
  imports Failover
begin

text \<open>
  The loop over the accounts of a request ends: each round that does not end it uses up a switch, a retry,
  a veto or a pause, and a pause needs a switch before it.
\<close>

section \<open>Delays\<close>

lemma double_delay_bounds: "0 < d \<Longrightarrow> d \<le> maxRequestScopedRetryDelay \<Longrightarrow> d \<le> double_delay n d \<and> double_delay n d \<le> maxRequestScopedRetryDelay"
proof (induction n arbitrary: d)
  case (Suc n)
  show ?case
  proof (cases "go_quot maxRequestScopedRetryDelay 2 \<le> d")
    case False
    then have "d * 2 \<le> maxRequestScopedRetryDelay" by (simp add: maxRequestScopedRetryDelay_def go_quot_def)
    with Suc.IH [of "d * 2"] Suc.prems False show ?thesis by simp
  qed (use Suc.prems in simp)
qed simp

text \<open>A pause that no failure asks for is between half a second and eight seconds.\<close>

lemma retry_delay_bounds:
  "SameAccountRetryDelay e \<le> 0 \<Longrightarrow> sameAccountRetryDelay \<le> sameAccountRetryDelayFor e n \<and>
    sameAccountRetryDelayFor e n \<le> maxRequestScopedRetryDelay"
  using double_delay_bounds [of sameAccountRetryDelay "nat (n - 1)"]
  by (simp add: sameAccountRetryDelayFor_def sameAccountRetryDelay_def maxRequestScopedRetryDelay_def)

lemma retry_limit_bounds: "0 \<le> GetPoolModeRetryCount m v \<and> GetPoolModeRetryCount m v \<le> maxPoolModeRetryCount"
  by (auto simp: GetPoolModeRetryCount_def Let_def defaultPoolModeRetryCount_def maxPoolModeRetryCount_def split: option.split)

section \<open>Every round costs\<close>

text \<open>
  A failure that asks for retries on the same account until a deadline and sets no maximum of its own is
  retried without being counted, as long as the deadline has not passed.
\<close>

definition uncounted_retry :: "go_time \<Rightarrow> failover_error \<Rightarrow> bool" where
  "uncounted_retry t e \<longleftrightarrow> RetryableOnSameAccount e \<and> \<not> IsZero (SameAccountRetryDeadline e)
     \<and> SameAccountRetryMax e \<le> 0 \<and> t < SameAccountRetryDeadline e"

definition awaits_deadline :: "round \<Rightarrow> bool" where
  "awaits_deadline r \<longleftrightarrow> (case upstream r of FailedOver e w \<Rightarrow> uncounted_retry (now r) e | _ \<Rightarrow> False)"

definition round_within :: "int set \<Rightarrow> int \<Rightarrow> round \<Rightarrow> bool" where
  "round_within A L r \<longleftrightarrow> (\<forall>a. selection r = Some a \<longrightarrow> sa_ID a \<in> A \<and> sa_RetryLimit a \<le> L)"

definition state_within :: "failover_state \<Rightarrow> bool" where
  "state_within s \<longleftrightarrow> SwitchCount s \<le> MaxSwitches s \<and> profitVetoCount s < maxProfitVetoAttempts \<and>
     profitVetoedAccountIDs s \<subseteq> FailedAccountIDs s"

definition budget :: "int set \<Rightarrow> int \<Rightarrow> failover_state \<Rightarrow> int" where
  "budget A L s = 2 * (MaxSwitches s - SwitchCount s)
     + (if FailedAccountIDs s \<subseteq> profitVetoedAccountIDs s then 0 else 1)
     + (maxProfitVetoAttempts - 1 - profitVetoCount s) + (\<Sum>a\<in>A. max 0 (L - SameAccountRetryCount s a))"

lemma budget_nonneg: "state_within s \<Longrightarrow> 0 \<le> budget A L s"
  unfolding state_within_def budget_def by (intro add_nonneg_nonneg sum_nonneg) auto

lemma sum_retries_step:
  fixes f :: "int \<Rightarrow> int"
  assumes "finite A" and "a \<in> A"
  shows "(\<Sum>x\<in>A. max 0 (L - (f(a := f a + 1)) x)) \<le> (\<Sum>x\<in>A. max 0 (L - f x)) - (if f a < L then 1 else 0)"
proof -
  have "(\<Sum>x\<in>A. max 0 (L - (f(a := f a + 1)) x)) = max 0 (L - (f a + 1)) + (\<Sum>x\<in>A - {a}. max 0 (L - f x))"
    using assms by (subst sum.remove [of A a]) (auto intro: sum.cong)
  moreover have "(\<Sum>x\<in>A. max 0 (L - f x)) = max 0 (L - f a) + (\<Sum>x\<in>A - {a}. max 0 (L - f x))"
    using assms by (rule sum.remove)
  ultimately show ?thesis by auto
qed

lemma counted_retry_below:
  "sameAccountRetryAllowed t e n limit \<Longrightarrow> \<not> uncounted_retry t e \<Longrightarrow> n < limit"
  by (auto simp: sameAccountRetryAllowed_def sameAccountRetryDeadlineAllows_def uncounted_retry_def Before_def split: if_splits)

lemma failover_error_costs:
  assumes h: "HandleFailoverError gn lv t i p limit (Some e) s = (FailoverContinue, off, s1)"
    and s: "state_within s" and A: "finite A" "i \<in> A" and limit: "limit \<le> L"
  shows "state_within s1 \<and> budget A L s1 < budget A L s + (if uncounted_retry t e then 1 else 0)"
proof -
  let ?retry = "sameAccountRetryAllowed t e (SameAccountRetryCount s i) limit"
  have go: "\<not> gn" "ShouldRetryNextAccount e" using h by (auto simp: HandleFailoverError_def Let_def split: if_splits)
  show ?thesis
  proof (cases ?retry)
    case True
    have n: "SameAccountRetryCount s i < L" if "\<not> uncounted_retry t e"
      using counted_retry_below [OF True that] limit by simp
    have s1: "SwitchCount s1 = SwitchCount s" "MaxSwitches s1 = MaxSwitches s" "FailedAccountIDs s1 = FailedAccountIDs s"
      "profitVetoedAccountIDs s1 = profitVetoedAccountIDs s" "profitVetoCount s1 = profitVetoCount s"
      "SameAccountRetryCount s1 = (SameAccountRetryCount s)(i := SameAccountRetryCount s i + 1)"
      using h go True by (auto simp: HandleFailoverError_def Let_def split: if_splits)
    show ?thesis
      using s n sum_retries_step [OF A, of L "SameAccountRetryCount s"]
      by (auto simp: state_within_def budget_def s1 split: if_splits)
  next
    case False
    then have s1: "SwitchCount s1 = SwitchCount s + 1" "MaxSwitches s1 = MaxSwitches s" "SwitchCount s < MaxSwitches s"
      "FailedAccountIDs s1 = insert i (FailedAccountIDs s)" "profitVetoedAccountIDs s1 = profitVetoedAccountIDs s"
      "profitVetoCount s1 = profitVetoCount s" "SameAccountRetryCount s1 = SameAccountRetryCount s"
      using h go by (auto simp: HandleFailoverError_def Let_def split: if_splits)
    show ?thesis using s s1(3) by (auto simp: state_within_def budget_def s1(1,2,4-))
  qed
qed

lemma backoff_costs:
  assumes h: "HandleSelectionExhausted gn lv s = (FailoverContinue, s1)" and f: "FailedAccountIDs s \<noteq> {}"
    and s: "state_within s"
  shows "state_within s1 \<and> budget A L s1 < budget A L s"
proof -
  have s1: "s1 = s\<lparr>FailedAccountIDs := profitVetoedAccountIDs s\<rparr>" and n: "\<not> allExclusionsAreProfitVetoed s"
    using h by (auto simp: HandleSelectionExhausted_def split: if_splits option.splits)
  have "\<not> FailedAccountIDs s \<subseteq> profitVetoedAccountIDs s"
    using n f s by (auto simp: allExclusionsAreProfitVetoed_def state_within_def)
  then show ?thesis using s by (auto simp: state_within_def budget_def s1)
qed

lemma veto_costs:
  assumes h: "RecordProfitVeto i s = (FailoverContinue, s1)" and s: "state_within s"
  shows "state_within s1 \<and> budget A L s1 < budget A L s"
proof -
  have s1: "s1 = s\<lparr>FailedAccountIDs := insert i (FailedAccountIDs s),
      profitVetoedAccountIDs := insert i (profitVetoedAccountIDs s), profitVetoCount := profitVetoCount s + 1\<rparr>"
    "profitVetoCount s + 1 < maxProfitVetoAttempts"
    using h by (auto simp: RecordProfitVeto_def Let_def split: if_splits)
  then show ?thesis using s by (auto simp: state_within_def budget_def)
qed

lemma round_costs:
  assumes h: "failover_round r s = (None, s1)" and r: "round_within A L r" and A: "finite A" and s: "state_within s"
  shows "state_within s1 \<and> budget A L s1 < budget A L s + (if awaits_deadline r then 1 else 0)"
proof (cases "selection r")
  case None
  with h have "HandleSelectionExhausted (gone r) (leaves r) s = (FailoverContinue, s1)" "FailedAccountIDs s \<noteq> {}"
    by (auto simp: failover_round_def select_failed_def split: if_splits prod.splits failover_action.splits)
  then show ?thesis using backoff_costs [OF _ _ s, of "gone r" "leaves r" s1 A L] by auto
next
  case (Some a)
  have a: "sa_ID a \<in> A" "sa_RetryLimit a \<le> L" using r Some by (auto simp: round_within_def)
  show ?thesis
  proof (cases "admission r")
    case Admitted
    with h Some obtain e off where e: "upstream r = FailedOver e False"
      "HandleFailoverError (gone r) (leaves r) (now r) (sa_ID a) (sa_Platform a) (sa_RetryLimit a) (Some e) s = (FailoverContinue, off, s1)"
      by (auto simp: failover_round_def forward_round_def split: upstream.splits if_splits prod.splits failover_action.splits)
    from failover_error_costs [OF this(2) s A a] show ?thesis by (simp add: awaits_deadline_def e(1))
  next
    case Vetoed
    with h Some have "RecordProfitVeto (sa_ID a) s = (FailoverContinue, s1)"
      by (cases "RecordProfitVeto (sa_ID a) s")
        (auto simp: failover_round_def RecordProfitVeto_def Let_def split: failover_action.splits if_splits)
    then show ?thesis using veto_costs [OF _ s, of "sa_ID a" s1 A L] by auto
  next
    case Ended
    with h Some show ?thesis by (simp add: failover_round_def)
  qed
qed

lemma loop_costs:
  assumes "failover_loop rs s = (None, s')" and "\<forall>r \<in> set rs. round_within A L r" and "finite A" and "state_within s"
  shows "int (length rs) \<le> budget A L s + int (length (filter awaits_deadline rs))"
  using assms
proof (induction rs arbitrary: s)
  case Nil
  then show ?case by (simp add: budget_nonneg)
next
  case (Cons r rs)
  obtain s1 where 1: "failover_round r s = (None, s1)" "failover_loop rs s1 = (None, s')"
    using Cons.prems(1) by (auto split: prod.splits option.splits)
  from round_costs [OF 1(1) _ Cons.prems(3,4)] Cons.prems(2) have "state_within s1"
      "budget A L s1 < budget A L s + (if awaits_deadline r then 1 else 0)" by auto
  with Cons.IH [OF 1(2)] Cons.prems(2,3) show ?case by fastforce
qed

text \<open>
  C40. The loop of a request ends whatever the scheduler, the profit gate, the upstream and the client do:
  with \<open>n\<close> accounts that are retried at most \<open>L\<close> times each it runs at most
  \<open>2 * maxSwitches + n * L + 10\<close> rounds, and one more for every failure that comes before a deadline until
  which it asks for retries on the same account with no maximum of its own.
\<close>

theorem failover_loop_ends:
  assumes "finite A" and "0 \<le> L" and "0 \<le> maxSwitches"
    and "\<forall>r \<in> set rs. round_within A L r"
    and "2 * maxSwitches + int (card A) * L + maxProfitVetoAttempts + int (length (filter awaits_deadline rs))
      \<le> int (length rs)"
  shows "fst (failover_loop rs (NewFailoverState maxSwitches boundSession)) \<noteq> None"
proof
  assume n: "fst (failover_loop rs (NewFailoverState maxSwitches boundSession)) = None"
  then obtain s' where "failover_loop rs (NewFailoverState maxSwitches boundSession) = (None, s')"
    by (metis prod.collapse)
  moreover have "state_within (NewFailoverState maxSwitches boundSession)"
    using assms(2,3) by (simp add: state_within_def NewFailoverState_def maxProfitVetoAttempts_def)
  ultimately have "int (length rs) \<le> budget A L (NewFailoverState maxSwitches boundSession)
      + int (length (filter awaits_deadline rs))"
    using loop_costs assms(1,4) by blast
  then show False using assms(2,5) by (simp add: max_def budget_def NewFailoverState_def)
qed

definition vetoed_round :: round where
  "vetoed_round = \<lparr>gone = False, leaves = False, now = 0,
     selection = Some \<lparr>sa_ID = 1, sa_Platform = ''anthropic'', sa_RetryLimit = 3\<rparr>, admission = Vetoed, upstream = Answered\<rparr>"

theorem failover_loop_ends_witness:
  "fst (failover_loop (replicate 13 vetoed_round) (NewFailoverState 0 False)) \<noteq> None"
  by (rule failover_loop_ends [of "{1}" 3]) (simp_all add: round_within_def awaits_deadline_def vetoed_round_def maxProfitVetoAttempts_def)

text \<open>
  An account that the profit gate has rejected is never tried again: the exclusions a round selects by always
  contain it.
\<close>

lemma vetoed_stay_excluded:
  assumes "failover_round r s = (x, s1)" and "profitVetoedAccountIDs s \<subseteq> FailedAccountIDs s"
  shows "profitVetoedAccountIDs s \<subseteq> profitVetoedAccountIDs s1 \<and> profitVetoedAccountIDs s1 \<subseteq> FailedAccountIDs s1"
proof -
  have e: "profitVetoedAccountIDs s1 = profitVetoedAccountIDs s \<and> FailedAccountIDs s \<subseteq> FailedAccountIDs s1"
    if "HandleFailoverError gn lv t i p limit err s = (act, off, s1)" for gn lv t i p limit err act off
    using that by (auto simp: HandleFailoverError_def Let_def split: if_splits option.splits)
  have b: "profitVetoedAccountIDs s1 = profitVetoedAccountIDs s \<and>
      (FailedAccountIDs s1 = FailedAccountIDs s \<or> FailedAccountIDs s1 = profitVetoedAccountIDs s)"
    if "HandleSelectionExhausted gn lv s = (act, s1)" for gn lv act
    using that by (auto simp: HandleSelectionExhausted_def split: if_splits option.splits)
  show ?thesis
    using assms e b
    by (auto simp: failover_round_def select_failed_def forward_round_def RecordProfitVeto_def Let_def
        split: option.splits admission.splits upstream.splits if_splits prod.splits failover_action.splits) blast+
qed

end
