(* ===== verification/Spec2Isabelle.thy ===== *)
theory Spec2Isabelle
  imports Usage_Billing_Facts Batch_Image_Queue_Facts Batch_Image_Job_Facts Batch_Image_Billing_Facts
    Batch_Image_Round_Facts Batch_Image_Index_Facts Batch_Image_Access_Facts
    Idempotency_Replay_Facts Subscriptions_Facts Redeem_Facts Promo_Facts Affiliates_Facts
    Payment_Balancer Payment_Amount_Facts Concurrency_Service Concurrency_Facts Failover_Facts
begin

text \<open>
  A verification library for the core of the relay-station gateway: the money, the jobs and the limits.
  The gateway (\<open>src/backend\<close>, in Go) relays requests of its users to accounts at model providers,
  bills them, and sells balance and subscriptions. The library covers the parts of it in which a mistake
  costs somebody money or breaks a promise of the service for good; paths below are relative to
  \<open>src/backend/internal\<close>.

  \<^bold>\<open>The parts and how they meet.\<close>

  \<^item> \<^bold>\<open>Billing ledger\<close> (\<open>service/usage_billing.go\<close>, \<open>repository/usage_billing_repo.go\<close>): transactions that charge
    a request once, and that reserve, capture and release holds on a user's balance. Theories
    \<open>Usage_Billing\<close>, \<open>Usage_Billing_Facts\<close>; the contract its client relies on is the locale of
    \<open>Balance_Holds\<close>, interpreted on the ledger.
  \<^item> \<^bold>\<open>Batch images\<close>: jobs of many images that run for hours at a provider. A submission
    (\<open>Batch_Image_Request\<close>, \<open>Batch_Image_Public\<close>: \<open>service/batch_image_public.go\<close>) validates the request,
    opens a hold in the ledger, stores the job and queues it; workers (\<open>Batch_Image_Worker\<close>) take jobs from
    the Redis queue (\<open>Batch_Image_Queue\<close>), drive them at the provider (\<open>Batch_Image_Processor\<close>), index the
    results and settle the hold (\<open>Batch_Image_Billing\<close>); users read, cancel and hide jobs
    (\<open>Batch_Image_Access\<close>). The table of the jobs and its state machine are \<open>Batch_Image_Job\<close>
    (\<open>service/batch_image.go\<close>, \<open>repository/batch_image_repo.go\<close>).
  \<^item> \<^bold>\<open>Idempotent execution\<close> (\<open>service/idempotency.go\<close> and its table): \<open>Idempotency\<close>, with the guarantees in
    \<open>Idempotency_Facts\<close> and \<open>Idempotency_Replay_Facts\<close>.
  \<^item> \<^bold>\<open>Users, subscriptions, codes, rebates\<close>: the balances of users (\<open>User_Accounts\<close>), subscriptions with
    their usage windows (\<open>Subscriptions\<close>), redeem codes (\<open>Redeem\<close>), the rebates of inviters (\<open>Affiliates\<close>)
    and promo codes (\<open>Promo\<close>).
  \<^item> \<^bold>\<open>Payments\<close> (\<open>service/payment_*.go\<close>, \<open>internal/payment\<close>): an order is priced and stored
    (\<open>Payment_Checkout\<close>) for an instance of a provider chosen by the balancer (\<open>Payment_Balancer\<close>), paid at the
    provider, confirmed and fulfilled (\<open>Payment_Fulfillment\<close>) by redeeming a code, a subscription and a rebate of
    the parts above, cancelled, expired or reconciled (\<open>Payment_Lifecycle\<close>), and refunded (\<open>Payment_Refund\<close>).
    \<open>Payment_Data\<close> has the order, its table and the audit log, \<open>Payment_Amounts\<close> the arithmetic of currencies.
  \<^item> \<^bold>\<open>Limits of a request\<close>: the slots, leases and waiting counts in Redis that bound the concurrent requests of
    accounts and users (\<open>Concurrency\<close>: \<open>repository/concurrency_cache.go\<close>; \<open>Concurrency_Service\<close>:
    \<open>service/concurrency_service.go\<close>), and the loop of a request over the accounts that may serve it
    (\<open>Failover\<close>: \<open>handler/failover_loop.go\<close> and the loop of \<open>handler/gateway_handler.go\<close> around it).

  Below them are \<open>Gateway_Prelude\<close> (time, money, Go's integers, calls that may be lost), \<open>App_Errors\<close>
  (\<open>pkg/errors\<close>), \<open>Sha256\<close> (hashes, decimals, case folding), \<open>Redis_Commands\<close>, and two contracts:
  \<open>Store_Invariants\<close>, a table that changes only by its own steps, and \<open>Statement_Effects\<close>, what a composition
  of statements may do to a state.

  \<^bold>\<open>How the model reads.\<close> A table is a list of records with the columns the code uses; a statement of SQL or
  a script of Redis is a function from the database to a result and the database after it; a transaction is
  such a function that \<open>atomically\<close> undoes when it fails. The operations of the services call statements in
  the order of the code, and every call may be lost before or after its effect: the fates of the calls are part
  of the state (\<open>fault\<close>, \<open>world\<close>, \<open>db_exec\<close>), so a theorem about an operation speaks of all its failures. Errors
  are values (\<open>go_error\<close>), pointers are options, reads of the wall clock are arguments, instants are
  nanoseconds since Go's zero time, strings are lists of bytes. Money is exact: the columns are decimals, and
  a value is rounded where it is stored, which is what \<open>round_scale\<close> says. Sequences of calls by any number of
  instances are inductive relations, and what always holds is an invariant of them.

  \<^bold>\<open>What the lemmas show.\<close> For each part there is a theory \<open>*_Facts\<close>:
  \<^item> the ledger charges a request at most once, its frozen balances are its open holds, and nothing but
    captures and charges makes a user poorer, up to the rounding of the columns (\<open>Usage_Billing_Facts\<close>);
  \<^item> jobs move along their state machine unless the record of a failed submission forces them to failed, their
    status changes a bounded number of times, a finished job's bill is final (\<open>Batch_Image_Job_Facts\<close>); no
    job in flight is lost by the queue or the workers (\<open>Batch_Image_Queue_Facts\<close>, \<open>Batch_Image_Worker_Facts\<close>,
    \<open>Batch_Image_Round_Facts\<close>); a settlement charges what was delivered (\<open>Batch_Image_Billing_Facts\<close>), the
    rows of a job are those it was submitted with (\<open>Batch_Image_Index_Facts\<close>), and a submission either leaves
    the books as they were or has moved its hold (\<open>Batch_Image_Public_Facts\<close>);
  \<^item> an operation with a key is not run again after it has succeeded, and its answer is replayed unless it is
    too long to be stored
    (\<open>Idempotency_Facts\<close>, \<open>Idempotency_Replay_Facts\<close>);
  \<^item> no redeem code is granted twice unless a redemption falls between the two statements of a batch change (\<open>Redeem_Facts\<close>), no promo code is used more often than it may be
    (\<open>Promo_Facts\<close>), rebates add up (\<open>Affiliates_Facts\<close>), windows of subscriptions are reset to the period
    that contains the moment (\<open>Subscriptions_Facts\<close>);
  \<^item> a recharge is completed only when its code has been redeemed, and exactly once when nothing fails
    (\<open>Payment_Order_Facts\<close>, \<open>Payment_Refund_Facts\<close>, \<open>Payment_History_Facts\<close>, \<open>Payment_Credit_Facts\<close>), and
    what a gateway is asked to refund is bounded by what was paid (\<open>Payment_Amount_Facts\<close>);
  \<^item> no more requests than the limit hold a slot (\<open>Concurrency_Facts\<close>), and the loop over the accounts ends
    (\<open>Failover_Facts\<close>).

  Where the code does not keep such a promise the library has the theorem that says so: a history in which the
  promise is broken. Three assumptions recur and are part of the statements that need them: amounts have at most
  the eight decimals of the balance columns (holds are computed with ten), calls are not lost, and requests
  are not claimed already. What holds without them is stated without them.

  \<^bold>\<open>Bounds and fuel.\<close> The loops of the code end by the data they consume and are recursions on it. The polls and
  retries are bounded in the code and the bounds are its constants: five attempts of a settlement, one
  hundred pages of a listing, the batches of the cleanings. Nothing is cut off by fuel of the model.
  Integers are unbounded where the code's cannot overflow on stored values, and are cut where it converts
  (\<open>float_to_int64\<close>, \<open>ParseInt\<close>, the counter of request names, SHA-256 on words of 32 bits).

  \<^bold>\<open>Not modelled.\<close> What the gateway says to the providers (the conversion of protocols, the streaming of
  answers, tokens and signatures of OAuth), how it chooses among accounts and finds out that they are
  exhausted, its prices of tokens, the administration, the monitoring, the settings and everything of HTTP
  and the user interface are left out: most of it moves text between formats of others, and what it decides
  reaches the parts above as arguments. The code under \<open>ent\<close> is generated. JSON, the drivers, the clients of
  the providers and the mails are parameters where the modelled code uses them. The endless loops, tickers
  and goroutines around the operations are left out: what they call is modelled, and the theorems hold for any
  order of the calls. PostgreSQL's isolation is taken as it is documented: a statement is atomic, rows locked by
  \<open>FOR UPDATE\<close> stay locked to the end of the transaction.
\<close>

end
